(* ===== verification/Prelude.thy ===== *)
theory Prelude
  imports Complex_Main "HOL-Library.Word" "HOL-Library.Multiset"
begin

text \<open>
  Shared vocabulary of the development: the machine integers, clock values and floating
  point numbers the C++ sources use, the parts of the C++ standard library they call on
  containers (\<open>std::max_element\<close>, \<open>erase\<close> at an iterator, \<open>std::find\<close>, ordered
  association of keys to values), the outcome of calling an injected callback, and the
  generic lemmas on lists and maps that the component proofs rest on.
\<close>

named_theorems cxx_simps
  \<open>equations for the C++ library operations modelled in the prelude\<close>
named_theorems op_defs
  \<open>definitions of component operations, unfolded in preservation proofs\<close>

section \<open>Machine integers and clocks\<close>

text \<open>
  \<open>std::uint64_t\<close> identifiers and counters wrap at \<open>2 ^ 64\<close>. Durations and steady-clock
  time points are signed 64-bit counts of nanoseconds; a \<open>std::chrono::milliseconds\<close> value is
  converted to nanoseconds before it is compared with one. The conversion multiplies a signed
  64-bit count by \<open>10 ^ 6\<close>; \<open>i64_wrap\<close> gives the two's-complement value of that product.
  Clock values and durations are integers here: products and conversions wrap, sums and differences of
  clock values do not, as a clock does not come near the end of its range.
\<close>

type_synonym u64 = "64 word"
type_synonym time_ns = int
type_synonym time_ms = int

definition i64_wrap :: "int \<Rightarrow> int" where
  "i64_wrap x = (x + 2 ^ 63) mod 2 ^ 64 - 2 ^ 63"

definition ms_to_ns :: "time_ms \<Rightarrow> time_ns" where
  "ms_to_ns t = i64_wrap (t * 1000000)"

lemma i64_wrap_id: "- (2 ^ 63) \<le> x \<Longrightarrow> x < 2 ^ 63 \<Longrightarrow> i64_wrap x = x"
  by (simp add: i64_wrap_def)

lemma ms_to_ns_exact:
  "0 \<le> t \<Longrightarrow> t \<le> 9223372036854 \<Longrightarrow> ms_to_ns t = t * 1000000"
  unfolding ms_to_ns_def by (rule i64_wrap_id) simp_all

section \<open>Floating point values\<close>

text \<open>
  The sources only store, classify and compare \<open>float\<close> and \<open>double\<close> values, so a value is
  its exact rational or one of the IEEE special values. Every comparison with \<open>NaN\<close> is false.
\<close>

datatype fl = Fin rat | PosInf | NegInf | NaN

fun fl_isfinite :: "fl \<Rightarrow> bool" where
  "fl_isfinite (Fin _) = True"
| "fl_isfinite _ = False"

fun fl_lt :: "fl \<Rightarrow> fl \<Rightarrow> bool" where
  "fl_lt NaN _ = False"
| "fl_lt _ NaN = False"
| "fl_lt (Fin a) (Fin b) = (a < b)"
| "fl_lt NegInf y = (y \<noteq> NegInf)"
| "fl_lt _ NegInf = False"
| "fl_lt PosInf _ = False"
| "fl_lt _ PosInf = True"

definition fl_eq :: "fl \<Rightarrow> fl \<Rightarrow> bool" where
  "fl_eq x y = (x \<noteq> NaN \<and> x = y)"

definition fl_le :: "fl \<Rightarrow> fl \<Rightarrow> bool" where
  "fl_le x y = (fl_lt x y \<or> fl_eq x y)"

lemma fl_le_Fin [simp]: "fl_le (Fin a) (Fin b) = (a \<le> b)"
  by (auto simp: fl_le_def fl_eq_def)

lemma fl_le_NaN [simp]: "\<not> fl_le NaN x" "\<not> fl_le x NaN"
  by (cases x; simp add: fl_le_def fl_eq_def)+

section \<open>Callbacks\<close>

text \<open>
  A call of an injected \<open>std::function\<close> either returns, throws an exception derived from
  \<open>std::exception\<close> (with its \<open>what()\<close> text), or throws something else.
\<close>

datatype 'a outcome = Returned 'a | ThrewException string | ThrewUnknown

section \<open>Decimal text\<close>

text \<open>\<open>std::to_string\<close> of an unsigned integer.\<close>

definition digit_char :: "nat \<Rightarrow> char" where
  "digit_char d = char_of (48 + d)"

fun to_string :: "nat \<Rightarrow> string" where
  "to_string n = (if n < 10 then [digit_char n] else to_string (n div 10) @ [digit_char (n mod 10)])"

declare to_string.simps [simp del]

section \<open>Containers\<close>

text \<open>\<open>erase\<close> at an iterator, given as an index.\<close>

definition erase_at :: "nat \<Rightarrow> 'a list \<Rightarrow> 'a list" where
  "erase_at i xs = take i xs @ drop (Suc i) xs"

text \<open>
  \<open>std::max_element\<close> with a comparison of keys: a scan that replaces the candidate only by a
  strictly larger element, so the first of several largest elements is returned (as its index).
\<close>

fun max_scan :: "('a \<Rightarrow> 'k::linorder) \<Rightarrow> 'a list \<Rightarrow> nat \<Rightarrow> nat \<Rightarrow> 'a \<Rightarrow> nat" where
  "max_scan key [] i best b = best"
| "max_scan key (x # xs) i best b =
     (if key b < key x then max_scan key xs (Suc i) i x
      else max_scan key xs (Suc i) best b)"

definition max_element :: "('a \<Rightarrow> 'k::linorder) \<Rightarrow> 'a list \<Rightarrow> nat" where
  "max_element key xs = (case xs of [] \<Rightarrow> 0 | x # ys \<Rightarrow> max_scan key ys 1 0 x)"

text \<open>The scan's candidate is a first maximum of the part already read.\<close>

definition first_max :: "('a \<Rightarrow> 'k::linorder) \<Rightarrow> 'a list \<Rightarrow> nat \<Rightarrow> bool" where
  "first_max key xs i \<longleftrightarrow> i < length xs
     \<and> (\<forall>j < length xs. key (xs ! j) \<le> key (xs ! i))
     \<and> (\<forall>j < i. key (xs ! j) < key (xs ! i))"

lemma max_scan_first_max:
  "first_max key pre best \<Longrightarrow> pre ! best = b \<Longrightarrow>
   first_max key (pre @ xs) (max_scan key xs (length pre) best b)"
proof (induction xs arbitrary: pre best b)
  case Nil
  then show ?case by simp
next
  case (Cons x xs)
  show ?case
  proof (cases "key b < key x")
    case True
    with Cons.prems have "first_max key (pre @ [x]) (length pre)"
      by (fastforce simp: first_max_def nth_append less_Suc_eq)
    then have "first_max key ((pre @ [x]) @ xs) (max_scan key xs (length (pre @ [x])) (length pre) x)"
      by (rule Cons.IH) simp
    with True show ?thesis by simp
  next
    case False
    with Cons.prems have "first_max key (pre @ [x]) best"
      by (auto simp: first_max_def nth_append less_Suc_eq)
    moreover from Cons.prems have "(pre @ [x]) ! best = b"
      by (simp add: first_max_def nth_append)
    ultimately have "first_max key ((pre @ [x]) @ xs) (max_scan key xs (length (pre @ [x])) best b)"
      by (rule Cons.IH)
    with False show ?thesis by simp
  qed
qed

lemma max_element_first_max: "xs \<noteq> [] \<Longrightarrow> first_max key xs (max_element key xs)"
proof (cases xs)
  case (Cons x ys)
  have "first_max key [x] 0" by (simp add: first_max_def)
  then have "first_max key ([x] @ ys) (max_scan key ys (length [x]) 0 x)"
    by (rule max_scan_first_max) simp
  with Cons show ?thesis by (simp add: max_element_def)
qed simp

lemma max_element_less: "xs \<noteq> [] \<Longrightarrow> max_element key xs < length xs"
  using max_element_first_max [of xs key] by (simp add: first_max_def)

lemma set_erase_at:
  "i < length xs \<Longrightarrow> set (erase_at i xs) \<union> {xs ! i} = set xs"
  using id_take_nth_drop [of i xs] by (auto simp: erase_at_def dest: arg_cong [where f = set])

lemma length_erase_at [simp]: "i < length xs \<Longrightarrow> length (erase_at i xs) = length xs - 1"
  by (simp add: erase_at_def)

lemma distinct_erase_at:
  assumes "distinct xs" and "i < length xs"
  shows "distinct (erase_at i xs)" and "set (erase_at i xs) = set xs - {xs ! i}"
proof -
  have xs: "xs = take i xs @ xs ! i # drop (Suc i) xs"
    using assms(2) by (rule id_take_nth_drop)
  with assms(1) have "distinct (take i xs @ xs ! i # drop (Suc i) xs)" by simp
  then show "distinct (erase_at i xs)" by (auto simp: erase_at_def)
  from xs have "set xs = insert (xs ! i) (set (erase_at i xs))"
    by (metis erase_at_def list.set(2) set_append Un_insert_right)
  moreover from \<open>distinct (take i xs @ xs ! i # drop (Suc i) xs)\<close>
  have "xs ! i \<notin> set (erase_at i xs)" by (auto simp: erase_at_def)
  ultimately show "set (erase_at i xs) = set xs - {xs ! i}" by simp
qed

lemma mset_erase_at: "k < length xs \<Longrightarrow> add_mset (xs ! k) (mset (erase_at k xs)) = mset xs"
  unfolding erase_at_def
  by (subst (3) id_take_nth_drop [of k xs]) simp_all

text \<open>\<open>std::find\<close> followed by \<open>erase\<close> of the element found, if any.\<close>

lemma remove1_distinct [cxx_simps]:
  "distinct xs \<Longrightarrow> set (remove1 x xs) = set xs - {x}"
  by (rule set_remove1_eq)

text \<open>
  A \<open>std::map\<close> whose size is read is an association list with distinct keys.
\<close>

definition keys_ok :: "('k \<times> 'v) list \<Rightarrow> bool" where
  "keys_ok kvs = distinct (map fst kvs)"

text \<open>Changing the program counter of one thread in a list of threads.\<close>

lemma concat_update_mset:
  "w < length ws \<Longrightarrow> mset (concat (map f (ws[w := x]))) + mset (f (ws ! w)) =
   mset (concat (map f ws)) + mset (f x)"
proof (induction ws arbitrary: w)
  case (Cons y ws)
  then show ?case by (cases w) (auto simp: ac_simps)
qed simp

lemma map_update_same: "f x = f (ws ! w) \<Longrightarrow> map f (ws[w := x]) = map f ws"
proof (rule nth_equalityI)
  fix i
  assume "f x = f (ws ! w)" and "i < length (map f (ws[w := x]))"
  then show "map f (ws[w := x]) ! i = map f ws ! i" by (cases "w = i") auto
qed simp

end
