(* ===== verification/Command_Model.thy ===== *)
theory Command_Model
  imports Prelude
begin

text \<open>
  The generic command model of \<open>include/humanoid/core/Command*.h\<close>: command types, priorities
  and statuses (enums over \<open>std::uint8_t\<close>), payload values, the command itself and the result
  of processing it. An enum object may hold any value of its underlying type, and the sources
  test for that; \<open>Other\<close> constructors stand for the values without an enumerator.
\<close>

section \<open>Enumerations\<close>

datatype command_type =
    Type_Stand | Type_Sit | Type_Walk | Type_Stop | Type_Move | Type_Rotate | Type_Velocity
  | Type_EmergencyStop | Type_HandOpen | Type_HandClose | Type_Gesture | Type_PlayAudio
  | Type_StopAudio | Type_SetVolume | Type_MuteAudio | Type_Custom
  | Type_Other nat \<comment> \<open>the raw value \<open>16 + n\<close>\<close>

datatype command_priority =
    Priority_Low | Priority_Normal | Priority_High | Priority_Critical
  | Priority_Other nat \<comment> \<open>the raw value \<open>4 + n\<close>\<close>

datatype command_status =
    Status_Pending | Status_Queued | Status_Running | Status_Completed | Status_Cancelled
  | Status_Failed | Status_Timeout | Status_Rejected
  | Status_Other nat \<comment> \<open>the raw value \<open>8 + n\<close>\<close>

fun command_type_toString :: "command_type \<Rightarrow> string" where
  "command_type_toString Type_Stand = ''Stand''"
| "command_type_toString Type_Sit = ''Sit''"
| "command_type_toString Type_Walk = ''Walk''"
| "command_type_toString Type_Stop = ''Stop''"
| "command_type_toString Type_Move = ''Move''"
| "command_type_toString Type_Rotate = ''Rotate''"
| "command_type_toString Type_Velocity = ''Velocity''"
| "command_type_toString Type_EmergencyStop = ''EmergencyStop''"
| "command_type_toString Type_HandOpen = ''HandOpen''"
| "command_type_toString Type_HandClose = ''HandClose''"
| "command_type_toString Type_Gesture = ''Gesture''"
| "command_type_toString Type_PlayAudio = ''PlayAudio''"
| "command_type_toString Type_StopAudio = ''StopAudio''"
| "command_type_toString Type_SetVolume = ''SetVolume''"
| "command_type_toString Type_MuteAudio = ''MuteAudio''"
| "command_type_toString Type_Custom = ''Custom''"
| "command_type_toString (Type_Other _) = ''Unknown''"

fun command_priority_toString :: "command_priority \<Rightarrow> string" where
  "command_priority_toString Priority_Low = ''Low''"
| "command_priority_toString Priority_Normal = ''Normal''"
| "command_priority_toString Priority_High = ''High''"
| "command_priority_toString Priority_Critical = ''Critical''"
| "command_priority_toString (Priority_Other _) = ''Unknown''"

fun command_status_toString :: "command_status \<Rightarrow> string" where
  "command_status_toString Status_Pending = ''Pending''"
| "command_status_toString Status_Queued = ''Queued''"
| "command_status_toString Status_Running = ''Running''"
| "command_status_toString Status_Completed = ''Completed''"
| "command_status_toString Status_Cancelled = ''Cancelled''"
| "command_status_toString Status_Failed = ''Failed''"
| "command_status_toString Status_Timeout = ''Timeout''"
| "command_status_toString Status_Rejected = ''Rejected''"
| "command_status_toString (Status_Other _) = ''Unknown''"

text \<open>\<open>static_cast<std::uint8_t>\<close> of a priority, by which the queues order commands.\<close>

fun priority_code :: "command_priority \<Rightarrow> nat" where
  "priority_code Priority_Low = 0"
| "priority_code Priority_Normal = 1"
| "priority_code Priority_High = 2"
| "priority_code Priority_Critical = 3"
| "priority_code (Priority_Other n) = 4 + n"

fun isTerminal :: "command_status \<Rightarrow> bool" where
  "isTerminal Status_Completed = True"
| "isTerminal Status_Cancelled = True"
| "isTerminal Status_Failed = True"
| "isTerminal Status_Timeout = True"
| "isTerminal Status_Rejected = True"
| "isTerminal Status_Pending = False"
| "isTerminal Status_Queued = False"
| "isTerminal Status_Running = False"
| "isTerminal (Status_Other _) = False"

fun IsKnownPriority :: "command_priority \<Rightarrow> bool" where
  "IsKnownPriority Priority_Low = True"
| "IsKnownPriority Priority_Normal = True"
| "IsKnownPriority Priority_High = True"
| "IsKnownPriority Priority_Critical = True"
| "IsKnownPriority (Priority_Other _) = False"

fun IsKnownCommandType :: "command_type \<Rightarrow> bool" where
  "IsKnownCommandType (Type_Other _) = False"
| "IsKnownCommandType _ = True"

section \<open>Commands and results\<close>

datatype payload_value = PV_Bool bool | PV_Int int | PV_Double fl | PV_String string

type_synonym command_payload = "(string \<times> payload_value) list"
type_synonym command_metadata = "(string \<times> string) list"

record command =
  cmd_id :: u64
  cmd_timestamp :: time_ns
  cmd_type :: command_type
  cmd_priority :: command_priority
  cmd_timeout :: time_ms
  cmd_payload :: command_payload
  cmd_metadata :: command_metadata

definition default_command :: command where
  "default_command = \<lparr>cmd_id = 0, cmd_timestamp = 0, cmd_type = Type_Custom,
     cmd_priority = Priority_Normal, cmd_timeout = 0, cmd_payload = [], cmd_metadata = []\<rparr>"

definition command_isValid :: "command \<Rightarrow> bool" where
  "command_isValid c = (cmd_id c \<noteq> 0 \<and> cmd_timeout c \<ge> 0)"

definition hasTimeout :: "command \<Rightarrow> bool" where
  "hasTimeout c = (cmd_timeout c > 0)"

record command_result =
  res_status :: command_status
  res_message :: string

definition Result :: "command_status \<Rightarrow> string \<Rightarrow> command_result" where
  "Result st msg = \<lparr>res_status = st, res_message = msg\<rparr>"

definition default_result :: command_result where
  "default_result = \<lparr>res_status = Status_Pending, res_message = []\<rparr>"

definition isSuccess :: "command_result \<Rightarrow> bool" where
  "isSuccess r = (res_status r = Status_Completed)"

definition result_isTerminal :: "command_result \<Rightarrow> bool" where
  "result_isTerminal r = isTerminal (res_status r)"

lemma Result_sel [simp]:
  "res_status (Result st msg) = st" "res_message (Result st msg) = msg"
  by (simp_all add: Result_def)

lemma isSuccess_Result [simp]: "isSuccess (Result st msg) = (st = Status_Completed)"
  by (simp add: isSuccess_def)

lemma result_isTerminal_Result [simp]: "result_isTerminal (Result st msg) = isTerminal st"
  by (simp add: result_isTerminal_def)

lemma isSuccess_terminal: "isSuccess r \<Longrightarrow> result_isTerminal r"
  by (simp add: isSuccess_def result_isTerminal_def)

text \<open>
  Deadline checks. Each source file that needs one has the same private \<open>HasExpired\<close>; \<open>now\<close>
  is the steady-clock reading the call makes. A zero time stamp is the default-constructed
  time point.
\<close>

definition past_deadline :: "time_ns \<Rightarrow> command \<Rightarrow> bool" where
  "past_deadline now c = (now - cmd_timestamp c \<ge> ms_to_ns (cmd_timeout c))"

definition HasExpired :: "time_ns \<Rightarrow> command \<Rightarrow> bool" where
  "HasExpired now c =
     (if \<not> hasTimeout c \<or> cmd_timestamp c = 0 then False
      else now \<ge> cmd_timestamp c \<and> past_deadline now c)"

text \<open>Timeouts that survive the conversion to nanoseconds (about 292 years).\<close>

definition timeout_representable :: "command \<Rightarrow> bool" where
  "timeout_representable c = (cmd_timeout c \<le> 9223372036854)"

lemma HasExpired_mono:
  "HasExpired t c \<Longrightarrow> t \<le> t' \<Longrightarrow> HasExpired t' c"
  by (auto simp: HasExpired_def past_deadline_def split: if_splits)

lemma HasExpired_exact:
  "hasTimeout c \<Longrightarrow> cmd_timestamp c \<noteq> 0 \<Longrightarrow> timeout_representable c \<Longrightarrow>
   HasExpired now c = (now \<ge> cmd_timestamp c + cmd_timeout c * 1000000)"
  by (auto simp: HasExpired_def past_deadline_def hasTimeout_def timeout_representable_def
      ms_to_ns_exact)

text \<open>Shared shape of the submission checks on a timed command's clock.\<close>

definition timed_check :: "string \<Rightarrow> time_ns \<Rightarrow> command \<Rightarrow> command_result option" where
  "timed_check expired_msg now c =
     (if cmd_timestamp c = 0 then
        Some (Result Status_Rejected ''Timed commands require a monotonic creation timestamp'')
      else if cmd_timestamp c > now then
        Some (Result Status_Rejected ''Command timestamp must not be in the future'')
      else if past_deadline now c then Some (Result Status_Timeout expired_msg)
      else None)"

lemma timed_check_terminal: "timed_check m now c = Some r \<Longrightarrow> result_isTerminal r"
  by (auto simp: timed_check_def split: if_splits)

lemma timed_check_None:
  "timed_check m now c = None \<longleftrightarrow>
     cmd_timestamp c \<noteq> 0 \<and> cmd_timestamp c \<le> now \<and> \<not> past_deadline now c"
  by (auto simp: timed_check_def)

end
