(* ===== verification/Robot_State.thy ===== *)
theory Robot_State
  imports Command_Model
begin

text \<open>
  The vendor-independent robot state snapshot of \<open>core/include/humanoid/core/RobotState.hpp\<close>
  and the manager that caches the latest one (\<open>src/core/RobotStateManager.cpp\<close>). Every public
  operation of the manager holds its shared mutex for its whole body, so each is one step.
\<close>

definition kMaxRobotJointStates :: nat where "kMaxRobotJointStates = 35"
definition kMaxRobotContactStates :: nat where "kMaxRobotContactStates = 4"

record robot_connection_state =
  connected :: bool

record robot_power_state =
  batteryLevel :: fl
  charging :: bool

record robot_motion_state =
  standing :: bool
  walking :: bool
  sitting :: bool
  robotMode :: int
  motionMode :: int

record robot_imu_state =
  imu_valid :: bool
  quaternionX :: fl
  quaternionY :: fl
  quaternionZ :: fl
  quaternionW :: fl
  angularVelocityX :: fl
  angularVelocityY :: fl
  angularVelocityZ :: fl
  linearAccelerationX :: fl
  linearAccelerationY :: fl
  linearAccelerationZ :: fl
  imu_temperatureCelsius :: fl

record robot_joint_state =
  joint_valid :: bool
  joint_position :: fl
  joint_velocity :: fl
  joint_acceleration :: fl
  joint_torque :: fl
  joint_voltage :: fl
  joint_temperatureCelsius :: fl
  joint_mode :: "32 word"
  joint_faultCode :: "32 word"

record robot_contact_state =
  contact_valid :: bool
  contact_contact :: bool
  contact_force :: fl
  contact_temperatureCelsius :: fl

record robot_diagnostics_state =
  stateFeedbackAvailable :: bool
  diag_sequence :: u64
  heartbeatCount :: u64
  reconnectAttemptCount :: u64
  latencyMs :: fl
  maxMotorTemperatureCelsius :: fl
  jointCount :: "32 word"
  contactCount :: "32 word"

record robot_velocity =
  linearX :: fl
  linearY :: fl
  angularZ :: fl

record robot_pose =
  positionX :: fl
  positionY :: fl
  positionZ :: fl

record robot_orientation =
  roll :: fl
  pitch :: fl
  yaw :: fl

record robot_health_state =
  emergencyStop :: bool
  faultCode :: int

record robot_state =
  connection :: robot_connection_state
  power :: robot_power_state
  motion :: robot_motion_state
  velocity :: robot_velocity
  pose :: robot_pose
  orientation :: robot_orientation
  imu :: robot_imu_state
  joints :: "robot_joint_state list"
  contacts :: "robot_contact_state list"
  diagnostics :: robot_diagnostics_state
  health :: robot_health_state
  state_timestamp :: time_ns

text \<open>The default-constructed snapshot, \<open>RobotState{}\<close>.\<close>

definition default_joint :: robot_joint_state where
  "default_joint = \<lparr>joint_valid = False, joint_position = Fin 0, joint_velocity = Fin 0,
     joint_acceleration = Fin 0, joint_torque = Fin 0, joint_voltage = Fin 0,
     joint_temperatureCelsius = Fin 0, joint_mode = 0, joint_faultCode = 0\<rparr>"

definition default_contact :: robot_contact_state where
  "default_contact = \<lparr>contact_valid = False, contact_contact = False, contact_force = Fin 0,
     contact_temperatureCelsius = Fin 0\<rparr>"

definition default_imu :: robot_imu_state where
  "default_imu = \<lparr>imu_valid = False, quaternionX = Fin 0, quaternionY = Fin 0,
     quaternionZ = Fin 0, quaternionW = Fin 1, angularVelocityX = Fin 0,
     angularVelocityY = Fin 0, angularVelocityZ = Fin 0, linearAccelerationX = Fin 0,
     linearAccelerationY = Fin 0, linearAccelerationZ = Fin 0, imu_temperatureCelsius = Fin 0\<rparr>"

definition default_diagnostics :: robot_diagnostics_state where
  "default_diagnostics = \<lparr>stateFeedbackAvailable = False, diag_sequence = 0, heartbeatCount = 0,
     reconnectAttemptCount = 0, latencyMs = Fin 0, maxMotorTemperatureCelsius = Fin 0,
     jointCount = 0, contactCount = 0\<rparr>"

definition default_robot_state :: robot_state where
  "default_robot_state = \<lparr>
     connection = \<lparr>connected = False\<rparr>,
     power = \<lparr>batteryLevel = Fin 0, charging = False\<rparr>,
     motion = \<lparr>standing = False, walking = False, sitting = False, robotMode = 0, motionMode = 0\<rparr>,
     velocity = \<lparr>linearX = Fin 0, linearY = Fin 0, angularZ = Fin 0\<rparr>,
     pose = \<lparr>positionX = Fin 0, positionY = Fin 0, positionZ = Fin 0\<rparr>,
     orientation = \<lparr>roll = Fin 0, pitch = Fin 0, yaw = Fin 0\<rparr>,
     imu = default_imu,
     joints = replicate kMaxRobotJointStates default_joint,
     contacts = replicate kMaxRobotContactStates default_contact,
     diagnostics = default_diagnostics,
     health = \<lparr>emergencyStop = False, faultCode = 0\<rparr>,
     state_timestamp = 0\<rparr>"

section \<open>RobotStateManager\<close>

record robot_state_manager =
  rsm_state :: robot_state

definition rsm_init :: robot_state_manager where
  "rsm_init = \<lparr>rsm_state = default_robot_state\<rparr>"

definition UpdateState :: "robot_state \<Rightarrow> robot_state_manager \<Rightarrow> robot_state_manager" where
  "UpdateState s m = m\<lparr>rsm_state := s\<rparr>"

definition GetState :: "robot_state_manager \<Rightarrow> robot_state" where
  "GetState m = rsm_state m"

definition Reset :: "robot_state_manager \<Rightarrow> robot_state_manager" where
  "Reset m = m\<lparr>rsm_state := default_robot_state\<rparr>"

definition rsm_IsConnected :: "robot_state_manager \<Rightarrow> bool" where
  "rsm_IsConnected m = connected (connection (rsm_state m))"

definition rsm_BatteryLevel :: "robot_state_manager \<Rightarrow> fl" where
  "rsm_BatteryLevel m = batteryLevel (power (rsm_state m))"

definition rsm_EmergencyStop :: "robot_state_manager \<Rightarrow> bool" where
  "rsm_EmergencyStop m = emergencyStop (health (rsm_state m))"

definition rsm_FaultCode :: "robot_state_manager \<Rightarrow> int" where
  "rsm_FaultCode m = faultCode (health (rsm_state m))"

text \<open>
  The contract clients of the manager use: it is a register holding the last snapshot written.
\<close>

locale state_register =
  fixes put :: "'s \<Rightarrow> 'm \<Rightarrow> 'm"
    and get :: "'m \<Rightarrow> 's"
    and clear :: "'m \<Rightarrow> 'm"
    and initial :: "'s"
  assumes get_put: "get (put s m) = s"
    and get_clear: "get (clear m) = initial"
    and put_put: "put s (put s' m) = put s m"
begin

fun run_puts :: "'s list \<Rightarrow> 'm \<Rightarrow> 'm" where
  "run_puts [] m = m"
| "run_puts (s # ss) m = run_puts ss (put s m)"

lemma get_last_put: "ss \<noteq> [] \<Longrightarrow> get (run_puts ss m) = last ss"
  by (induction ss arbitrary: m) (auto simp: get_put)

end

interpretation rsm: state_register UpdateState GetState Reset default_robot_state
  by unfold_locales (simp_all add: UpdateState_def GetState_def Reset_def)

end
