(* ===== verification/Safety_Validator.thy ===== *)
theory Safety_Validator
  imports Robot_State
begin

text \<open>
  The command-path safety policy: \<open>include/humanoid/core/SafetyValidator.h\<close> (capabilities,
  context, options, command classes) and \<open>src/core/SafetyValidator.cpp\<close> (\<open>Validate\<close>). The
  theorems characterise exactly which commands pass, for every choice of options.
\<close>

section \<open>Capabilities, context and options\<close>

record command_capability_set =
  cap_stand :: bool
  cap_sit :: bool
  cap_walk :: bool
  cap_stop :: bool
  cap_move :: bool
  cap_rotate :: bool
  cap_velocity :: bool
  cap_emergencyStop :: bool
  cap_handOpen :: bool
  cap_handClose :: bool
  cap_gesture :: bool
  cap_playAudio :: bool
  cap_stopAudio :: bool
  cap_setVolume :: bool
  cap_muteAudio :: bool
  cap_custom :: bool

definition no_capabilities :: command_capability_set where
  "no_capabilities = \<lparr>cap_stand = False, cap_sit = False, cap_walk = False, cap_stop = False,
     cap_move = False, cap_rotate = False, cap_velocity = False, cap_emergencyStop = False,
     cap_handOpen = False, cap_handClose = False, cap_gesture = False, cap_playAudio = False,
     cap_stopAudio = False, cap_setVolume = False, cap_muteAudio = False, cap_custom = False\<rparr>"

definition LegacyAdapterDefaults :: command_capability_set where
  "LegacyAdapterDefaults = no_capabilities\<lparr>cap_stand := True, cap_walk := True,
     cap_stop := True, cap_move := True, cap_rotate := True, cap_velocity := True,
     cap_emergencyStop := True\<rparr>"

fun Supports :: "command_capability_set \<Rightarrow> command_type \<Rightarrow> bool" where
  "Supports cs Type_Stand = cap_stand cs"
| "Supports cs Type_Sit = cap_sit cs"
| "Supports cs Type_Walk = cap_walk cs"
| "Supports cs Type_Stop = cap_stop cs"
| "Supports cs Type_Move = cap_move cs"
| "Supports cs Type_Rotate = cap_rotate cs"
| "Supports cs Type_Velocity = cap_velocity cs"
| "Supports cs Type_EmergencyStop = cap_emergencyStop cs"
| "Supports cs Type_HandOpen = cap_handOpen cs"
| "Supports cs Type_HandClose = cap_handClose cs"
| "Supports cs Type_Gesture = cap_gesture cs"
| "Supports cs Type_PlayAudio = cap_playAudio cs"
| "Supports cs Type_StopAudio = cap_stopAudio cs"
| "Supports cs Type_SetVolume = cap_setVolume cs"
| "Supports cs Type_MuteAudio = cap_muteAudio cs"
| "Supports cs Type_Custom = cap_custom cs"
| "Supports cs (Type_Other _) = False"

record safety_validation_context =
  ctx_robotState :: robot_state
  ctx_capabilities :: command_capability_set
  ctx_robotStateAvailable :: bool
  ctx_batteryStateAvailable :: bool
  ctx_capabilitiesAvailable :: bool

record safety_validator_options =
  minimumBatteryLevelPercent :: fl
  requireConnection :: bool
  requireBatteryStateForActuatorCommands :: bool
  enforceBatteryRange :: bool
  rejectEmergencyStop :: bool
  allowStopDuringEmergencyStop :: bool
  rejectRobotFaults :: bool
  enforceMotionStateConsistency :: bool
  requireStandingForBaseMotion :: bool

definition default_safety_options :: safety_validator_options where
  "default_safety_options = \<lparr>minimumBatteryLevelPercent = Fin 15, requireConnection = True,
     requireBatteryStateForActuatorCommands = True, enforceBatteryRange = True,
     rejectEmergencyStop = True, allowStopDuringEmergencyStop = True, rejectRobotFaults = True,
     enforceMotionStateConsistency = True, requireStandingForBaseMotion = True\<rparr>"

fun IsActuatorCommand :: "command_type \<Rightarrow> bool" where
  "IsActuatorCommand Type_Stand = True"
| "IsActuatorCommand Type_Sit = True"
| "IsActuatorCommand Type_Walk = True"
| "IsActuatorCommand Type_Move = True"
| "IsActuatorCommand Type_Rotate = True"
| "IsActuatorCommand Type_Velocity = True"
| "IsActuatorCommand Type_HandOpen = True"
| "IsActuatorCommand Type_HandClose = True"
| "IsActuatorCommand Type_Gesture = True"
| "IsActuatorCommand _ = False"

fun IsBaseMotionCommand :: "command_type \<Rightarrow> bool" where
  "IsBaseMotionCommand Type_Walk = True"
| "IsBaseMotionCommand Type_Move = True"
| "IsBaseMotionCommand Type_Rotate = True"
| "IsBaseMotionCommand Type_Velocity = True"
| "IsBaseMotionCommand _ = False"

section \<open>Validation\<close>

definition IsStopCommand :: "command_type \<Rightarrow> bool" where
  "IsStopCommand t = (t = Type_Stop \<or> t = Type_EmergencyStop)"

definition IsBatteryPercent :: "fl \<Rightarrow> bool" where
  "IsBatteryPercent v = (fl_isfinite v \<and> fl_le (Fin 0) v \<and> fl_le v (Fin 100))"

definition ActivePostureCount :: "robot_motion_state \<Rightarrow> nat" where
  "ActivePostureCount m = (if standing m then 1 else 0) + (if sitting m then 1 else 0)"

definition HasContradictoryMotionState :: "robot_motion_state \<Rightarrow> bool" where
  "HasContradictoryMotionState m = (ActivePostureCount m > 1 \<or> (walking m \<and> sitting m))"

definition ShouldCheckBattery :: "command_type \<Rightarrow> bool" where
  "ShouldCheckBattery t = IsActuatorCommand t"

text \<open>
  The three consecutive parts of \<open>SafetyValidator::Validate\<close>: the command's own fields (two clock
  readings, the explicit one and the one in \<open>HasExpired\<close>), the availability of the context, and the
  robot state. Each returns the result of its first failing check.
\<close>

definition validate_command_fields ::
  "time_ns \<Rightarrow> time_ns \<Rightarrow> command \<Rightarrow> command_result option" where
  "validate_command_fields now now' c =
     (if cmd_id c = 0 then Some (Result Status_Rejected ''Command identifier must be nonzero'')
      else if cmd_timeout c < 0 then
        Some (Result Status_Rejected ''Command timeout must not be negative'')
      else if \<not> IsKnownCommandType (cmd_type c) then
        Some (Result Status_Rejected ''Command type is invalid'')
      else if \<not> IsKnownPriority (cmd_priority c) then
        Some (Result Status_Rejected ''Command priority is invalid'')
      else if hasTimeout c then
        (if cmd_timestamp c = 0 then
           Some (Result Status_Rejected ''Timed commands require a monotonic creation timestamp'')
         else if cmd_timestamp c > now then
           Some (Result Status_Rejected ''Command timestamp must not be in the future'')
         else if HasExpired now' c then
           Some (Result Status_Timeout ''Command expired before safety validation'')
         else None)
      else None)"

definition validate_context :: "command \<Rightarrow> safety_validation_context \<Rightarrow> command_result option" where
  "validate_context c ctx =
     (if \<not> ctx_robotStateAvailable ctx then
        Some (Result Status_Rejected ''Robot state is unavailable'')
      else if \<not> ctx_capabilitiesAvailable ctx then
        Some (Result Status_Rejected ''Robot capabilities are unavailable'')
      else if \<not> Supports (ctx_capabilities ctx) (cmd_type c) then
        Some (Result Status_Rejected ''Command capability is not supported'')
      else None)"

definition validate_battery ::
  "safety_validator_options \<Rightarrow> command \<Rightarrow> safety_validation_context \<Rightarrow> command_result option" where
  "validate_battery opts c ctx =
     (let level = batteryLevel (power (ctx_robotState ctx)) in
      if requireBatteryStateForActuatorCommands opts \<and> ShouldCheckBattery (cmd_type c) then
        (if \<not> ctx_batteryStateAvailable ctx then
           Some (Result Status_Rejected ''Robot battery state is unavailable'')
         else if enforceBatteryRange opts \<and> \<not> IsBatteryPercent level then
           Some (Result Status_Rejected ''Robot battery level is invalid'')
         else if fl_lt level (minimumBatteryLevelPercent opts) then
           Some (Result Status_Rejected ''Robot battery level is below safety threshold'')
         else None)
      else None)"

definition validate_health ::
  "safety_validator_options \<Rightarrow> command \<Rightarrow> robot_state \<Rightarrow> command_result option" where
  "validate_health opts c st =
     (let stop_command = IsStopCommand (cmd_type c) in
      if requireConnection opts \<and> \<not> connected (connection st) then
        Some (Result Status_Rejected ''Robot is not connected'')
      else if rejectEmergencyStop opts \<and> emergencyStop (health st) \<and>
              \<not> (allowStopDuringEmergencyStop opts \<and> stop_command) then
        Some (Result Status_Rejected ''Emergency stop is active'')
      else if rejectRobotFaults opts \<and> faultCode (health st) \<noteq> 0 \<and> \<not> stop_command then
        Some (Result Status_Rejected ''Robot fault is active'')
      else if enforceMotionStateConsistency opts \<and> \<not> stop_command \<and>
              HasContradictoryMotionState (motion st) then
        Some (Result Status_Rejected ''Robot motion state is inconsistent'')
      else None)"

definition validate_posture ::
  "safety_validator_options \<Rightarrow> command \<Rightarrow> robot_state \<Rightarrow> command_result option" where
  "validate_posture opts c st =
     (if requireStandingForBaseMotion opts \<and> IsBaseMotionCommand (cmd_type c) \<and>
         sitting (motion st) then
        Some (Result Status_Rejected ''Base motion is rejected while robot is sitting'')
      else if requireStandingForBaseMotion opts \<and> IsBaseMotionCommand (cmd_type c) \<and>
              \<not> standing (motion st) then
        Some (Result Status_Rejected ''Base motion requires a standing robot state'')
      else if walking (motion st) \<and> (cmd_type c = Type_Stand \<or> cmd_type c = Type_Sit) then
        Some (Result Status_Rejected ''Posture command requires stopped base motion'')
      else None)"

definition Validate ::
  "safety_validator_options \<Rightarrow> time_ns \<Rightarrow> time_ns \<Rightarrow> command \<Rightarrow> safety_validation_context
     \<Rightarrow> command_result" where
  "Validate opts now now' c ctx =
     (case validate_command_fields now now' c of Some r \<Rightarrow> r | None \<Rightarrow>
      case validate_context c ctx of Some r \<Rightarrow> r | None \<Rightarrow>
      case validate_health opts c (ctx_robotState ctx) of Some r \<Rightarrow> r | None \<Rightarrow>
      case validate_battery opts c ctx of Some r \<Rightarrow> r | None \<Rightarrow>
      case validate_posture opts c (ctx_robotState ctx) of Some r \<Rightarrow> r | None \<Rightarrow>
        Result Status_Completed ''Command passed safety validation'')"

lemmas validate_defs = validate_command_fields_def validate_context_def validate_health_def
  validate_battery_def validate_posture_def Let_def

section \<open>What passing means\<close>

text \<open>Specification, one predicate per concern.\<close>

definition well_formed_command :: "time_ns \<Rightarrow> time_ns \<Rightarrow> command \<Rightarrow> bool" where
  "well_formed_command now now' c \<longleftrightarrow>
     cmd_id c \<noteq> 0 \<and> 0 \<le> cmd_timeout c \<and> IsKnownCommandType (cmd_type c) \<and>
     IsKnownPriority (cmd_priority c) \<and>
     (cmd_timeout c = 0 \<or> 0 \<noteq> cmd_timestamp c \<and> cmd_timestamp c \<le> now \<and> \<not> HasExpired now' c)"

definition robot_ready :: "safety_validator_options \<Rightarrow> command_type \<Rightarrow> robot_state \<Rightarrow> bool" where
  "robot_ready opts t st \<longleftrightarrow>
     (requireConnection opts \<longrightarrow> connected (connection st)) \<and>
     (rejectEmergencyStop opts \<and> emergencyStop (health st) \<longrightarrow>
        allowStopDuringEmergencyStop opts \<and> IsStopCommand t) \<and>
     (rejectRobotFaults opts \<and> faultCode (health st) \<noteq> 0 \<longrightarrow> IsStopCommand t) \<and>
     (enforceMotionStateConsistency opts \<and> sitting (motion st) \<and>
        (standing (motion st) \<or> walking (motion st)) \<longrightarrow> IsStopCommand t)"

definition battery_ok :: "safety_validator_options \<Rightarrow> command_type \<Rightarrow> bool \<Rightarrow> fl \<Rightarrow> bool" where
  "battery_ok opts t available level \<longleftrightarrow>
     (requireBatteryStateForActuatorCommands opts \<and> IsActuatorCommand t \<longrightarrow>
        available \<and>
        (enforceBatteryRange opts \<longrightarrow> (\<exists>q. level = Fin q \<and> 0 \<le> q \<and> q \<le> 100)) \<and>
        \<not> fl_lt level (minimumBatteryLevelPercent opts))"

definition posture_ok :: "safety_validator_options \<Rightarrow> command_type \<Rightarrow> robot_motion_state \<Rightarrow> bool" where
  "posture_ok opts t m \<longleftrightarrow>
     (requireStandingForBaseMotion opts \<and> IsBaseMotionCommand t \<longrightarrow> standing m \<and> \<not> sitting m) \<and>
     (walking m \<longrightarrow> t \<noteq> Type_Stand \<and> t \<noteq> Type_Sit)"

lemma validate_command_fields_None:
  "validate_command_fields now now' c = None \<longleftrightarrow> well_formed_command now now' c"
  by (auto simp: validate_command_fields_def well_formed_command_def hasTimeout_def)

lemma IsBatteryPercent_iff: "IsBatteryPercent v \<longleftrightarrow> (\<exists>q. v = Fin q \<and> 0 \<le> q \<and> q \<le> 100)"
  by (cases v) (auto simp: IsBatteryPercent_def)

lemma HasContradictoryMotionState_iff:
  "HasContradictoryMotionState m \<longleftrightarrow> sitting m \<and> (standing m \<or> walking m)"
  by (auto simp: HasContradictoryMotionState_def ActivePostureCount_def)

lemma validate_health_None:
  "validate_health opts c st = None \<longleftrightarrow> robot_ready opts (cmd_type c) st"
  by (auto simp: validate_health_def robot_ready_def HasContradictoryMotionState_iff Let_def)

lemma validate_battery_None:
  "validate_battery opts c ctx = None \<longleftrightarrow>
     battery_ok opts (cmd_type c) (ctx_batteryStateAvailable ctx)
       (batteryLevel (power (ctx_robotState ctx)))"
  unfolding validate_battery_def battery_ok_def ShouldCheckBattery_def IsBatteryPercent_iff Let_def
  by auto

lemma validate_posture_None:
  "validate_posture opts c st = None \<longleftrightarrow> posture_ok opts (cmd_type c) (motion st)"
  by (auto simp: validate_posture_def posture_ok_def)

lemma validate_parts_not_success:
  "validate_command_fields now now' c = Some r \<Longrightarrow> \<not> isSuccess r \<and> result_isTerminal r"
  "validate_context c ctx = Some r \<Longrightarrow> \<not> isSuccess r \<and> result_isTerminal r"
  "validate_health opts c st = Some r \<Longrightarrow> \<not> isSuccess r \<and> result_isTerminal r"
  "validate_battery opts c ctx = Some r \<Longrightarrow> \<not> isSuccess r \<and> result_isTerminal r"
  "validate_posture opts c st = Some r \<Longrightarrow> \<not> isSuccess r \<and> result_isTerminal r"
  by (auto simp: validate_defs split: if_splits)

lemma Validate_terminal: "result_isTerminal (Validate opts now now' c ctx)"
  unfolding Validate_def
  by (auto split: option.split dest: validate_parts_not_success)

definition safety_spec ::
  "safety_validator_options \<Rightarrow> time_ns \<Rightarrow> time_ns \<Rightarrow> command \<Rightarrow> safety_validation_context \<Rightarrow> bool"
where
  "safety_spec opts now now' c ctx \<longleftrightarrow>
     well_formed_command now now' c \<and>
     ctx_robotStateAvailable ctx \<and> ctx_capabilitiesAvailable ctx \<and>
     Supports (ctx_capabilities ctx) (cmd_type c) \<and>
     robot_ready opts (cmd_type c) (ctx_robotState ctx) \<and>
     battery_ok opts (cmd_type c) (ctx_batteryStateAvailable ctx)
       (batteryLevel (power (ctx_robotState ctx))) \<and>
     posture_ok opts (cmd_type c) (motion (ctx_robotState ctx))"

lemma Validate_success_iff:
  "isSuccess (Validate opts now now' c ctx) \<longleftrightarrow> safety_spec opts now now' c ctx"
proof -
  have ctx: "validate_context c ctx = None \<longleftrightarrow> ctx_robotStateAvailable ctx \<and>
      ctx_capabilitiesAvailable ctx \<and> Supports (ctx_capabilities ctx) (cmd_type c)"
    by (auto simp: validate_context_def)
  have "isSuccess (Validate opts now now' c ctx) \<longleftrightarrow>
      validate_command_fields now now' c = None \<and> validate_context c ctx = None \<and>
      validate_health opts c (ctx_robotState ctx) = None \<and> validate_battery opts c ctx = None \<and>
      validate_posture opts c (ctx_robotState ctx) = None"
    unfolding Validate_def by (auto split: option.split dest: validate_parts_not_success)
  then show ?thesis
    by (simp add: ctx validate_command_fields_None validate_health_None validate_battery_None
        validate_posture_None safety_spec_def)
qed

text \<open>A command whose fields are acceptable but for its deadline.\<close>

definition well_formed_but_expired :: "time_ns \<Rightarrow> time_ns \<Rightarrow> command \<Rightarrow> bool" where
  "well_formed_but_expired now now' c \<longleftrightarrow>
     cmd_id c \<noteq> 0 \<and> 0 < cmd_timeout c \<and> IsKnownCommandType (cmd_type c) \<and>
     IsKnownPriority (cmd_priority c) \<and> 0 \<noteq> cmd_timestamp c \<and> cmd_timestamp c \<le> now \<and>
     HasExpired now' c"

lemma validate_command_fields_status:
  "validate_command_fields now now' c = Some r \<Longrightarrow>
   res_status r = (if well_formed_but_expired now now' c then Status_Timeout else Status_Rejected)"
  by (auto simp: validate_command_fields_def well_formed_but_expired_def hasTimeout_def split: if_splits)

lemma validate_state_parts_status:
  "validate_context c ctx = Some r \<Longrightarrow> res_status r = Status_Rejected"
  "validate_health opts c st = Some r \<Longrightarrow> res_status r = Status_Rejected"
  "validate_battery opts c ctx = Some r \<Longrightarrow> res_status r = Status_Rejected"
  "validate_posture opts c st = Some r \<Longrightarrow> res_status r = Status_Rejected"
  by (auto simp: validate_defs split: if_splits)

text \<open>
  C3. \<open>SafetyValidator::Validate\<close> completes exactly when the command is well formed and not
  expired, the context is available and supports its type, and the robot is connected, healthy,
  sufficiently charged and in a suitable posture, each as far as the options demand it. Otherwise
  the verdict is a timeout exactly for a well-formed command past its deadline, and a rejection
  in every other case.
\<close>

theorem Validate_verdict:
  "res_status (Validate opts now now' c ctx) =
     (if safety_spec opts now now' c ctx then Status_Completed
      else if well_formed_but_expired now now' c then Status_Timeout
      else Status_Rejected)"
proof (cases "safety_spec opts now now' c ctx")
  case True
  then show ?thesis using Validate_success_iff [of opts now now' c ctx] by (simp add: isSuccess_def)
next
  case False
  then have bad: "\<not> isSuccess (Validate opts now now' c ctx)" by (simp add: Validate_success_iff)
  show ?thesis
  proof (cases "validate_command_fields now now' c")
    case (Some r)
    then show ?thesis using False validate_command_fields_status [OF Some] by (simp add: Validate_def)
  next
    case None
    then have "\<not> well_formed_but_expired now now' c"
      by (auto simp: validate_command_fields_None well_formed_command_def well_formed_but_expired_def)
    then show ?thesis
      using False bad None unfolding Validate_def
      by (auto split: option.splits dest: validate_state_parts_status)
  qed
qed

end
