(* ===== verification/Command_Queue.thy ===== *)
theory Command_Queue
  imports Command_Model "HOL-Library.Multiset"
begin

text \<open>
  The bounded asynchronous command queue of \<open>src/core/CommandQueue.cpp\<close>. Tasks are shared
  objects (\<open>std::shared_ptr<Task>\<close>) reached both from the deque and from the identifier index,
  so they live in an explicit store, addressed by allocation number. Each critical section of
  the class is one operation; what a thread still has to do after leaving a critical section
  (setting a promise) is recorded in the state, so every interleaving of the callers, the
  workers and the shutting-down thread is a sequence of these operations.
\<close>

section \<open>State\<close>

record command_queue_options =
  opt_maximumQueueSize :: nat
  opt_workerCount :: nat

record command_queue_statistics =
  stat_queued :: nat
  stat_active :: nat
  stat_maximumQueueSize :: nat
  stat_workerCount :: nat
  stat_highWatermark :: nat
  stat_accepted :: u64
  stat_completed :: u64
  stat_cancelled :: u64
  stat_failed :: u64
  stat_timedOut :: u64
  stat_rejected :: u64

definition zero_statistics :: command_queue_statistics where
  "zero_statistics = \<lparr>stat_queued = 0, stat_active = 0, stat_maximumQueueSize = 0,
     stat_workerCount = 0, stat_highWatermark = 0, stat_accepted = 0, stat_completed = 0,
     stat_cancelled = 0, stat_failed = 0, stat_timedOut = 0, stat_rejected = 0\<rparr>"

datatype task_state = Task_Queued | Task_Running

type_synonym addr = nat

text \<open>The promise of a task holds its value once set.\<close>

record task =
  task_command :: command
  task_promise :: "command_result option"
  task_state :: task_state

abbreviation task_id :: "task \<Rightarrow> u64" where
  "task_id t \<equiv> cmd_id (task_command t)"

text \<open>
  Program counter of a worker thread inside \<open>Run\<close>: before it registered its thread id, waiting
  on the condition variable, running the executor on a task, about to set that task's promise,
  returned.
\<close>

datatype worker =
    W_Starting | W_Waiting | W_Executing addr | W_Publishing addr command_result | W_Exited

text \<open>Program counter of the thread that performs the shutdown.\<close>

datatype shutdown_phase =
    Shut_None | Shut_Delivering "addr list" | Shut_Joining | Shut_Finished

record command_queue =
  cq_options :: command_queue_options
  cq_store :: "addr \<Rightarrow> task option"
  cq_next :: addr
  cq_queue :: "addr list"
  cq_tasks :: "u64 \<Rightarrow> addr option"
  cq_statistics :: command_queue_statistics
  cq_active_count :: nat
  cq_accepting :: bool
  cq_shutdown_in_progress :: bool
  cq_shutdown_complete :: bool
  cq_stop_requested :: bool
  cq_workers :: "worker list"
  cq_pending :: "(addr \<times> command_result) list"
  cq_shutdown :: shutdown_phase

text \<open>
  The constructor. Failure to start a thread (\<open>std::system_error\<close>) is not represented.
\<close>

definition cq_create :: "bool \<Rightarrow> command_queue_options \<Rightarrow> string + command_queue" where
  "cq_create has_executor opts =
     (if \<not> has_executor then Inl ''CommandQueue requires an executor''
      else if opt_maximumQueueSize opts = 0 then
        Inl ''CommandQueue maximum size must be greater than zero''
      else if opt_workerCount opts = 0 then
        Inl ''CommandQueue worker count must be greater than zero''
      else Inr \<lparr>cq_options = opts, cq_store = (\<lambda>_. None), cq_next = 0, cq_queue = [],
        cq_tasks = (\<lambda>_. None), cq_statistics = zero_statistics, cq_active_count = 0,
        cq_accepting = True, cq_shutdown_in_progress = False, cq_shutdown_complete = False,
        cq_stop_requested = False, cq_workers = replicate (opt_workerCount opts) W_Starting,
        cq_pending = [], cq_shutdown = Shut_None\<rparr>)"

section \<open>Operations\<close>

definition ValidateForQueue :: "time_ns \<Rightarrow> command \<Rightarrow> command_result option" where
  "ValidateForQueue now c =
     (if cmd_id c = 0 then Some (Result Status_Rejected ''Command identifier must be nonzero'')
      else if cmd_timeout c < 0 then
        Some (Result Status_Rejected ''Command timeout must not be negative'')
      else if \<not> IsKnownPriority (cmd_priority c) then
        Some (Result Status_Rejected ''Command priority is invalid'')
      else if \<not> hasTimeout c then None
      else timed_check ''Command expired before queue acceptance'' now c)"

fun RecordResultLocked :: "command_status \<Rightarrow> command_queue_statistics \<Rightarrow> command_queue_statistics"
where
  "RecordResultLocked Status_Completed st = st\<lparr>stat_completed := stat_completed st + 1\<rparr>"
| "RecordResultLocked Status_Cancelled st = st\<lparr>stat_cancelled := stat_cancelled st + 1\<rparr>"
| "RecordResultLocked Status_Failed st = st\<lparr>stat_failed := stat_failed st + 1\<rparr>"
| "RecordResultLocked Status_Timeout st = st\<lparr>stat_timedOut := stat_timedOut st + 1\<rparr>"
| "RecordResultLocked Status_Rejected st = st\<lparr>stat_rejected := stat_rejected st + 1\<rparr>"
| "RecordResultLocked Status_Pending st = st\<lparr>stat_failed := stat_failed st + 1\<rparr>"
| "RecordResultLocked Status_Queued st = st\<lparr>stat_failed := stat_failed st + 1\<rparr>"
| "RecordResultLocked Status_Running st = st\<lparr>stat_failed := stat_failed st + 1\<rparr>"
| "RecordResultLocked (Status_Other _) st = st"

text \<open>\<open>std::promise::set_value\<close> throws when the promise is already satisfied: \<open>None\<close>.\<close>

definition set_promise :: "addr \<Rightarrow> command_result \<Rightarrow> command_queue \<Rightarrow> command_queue option" where
  "set_promise a r s =
     (case cq_store s a of
        None \<Rightarrow> None
      | Some t \<Rightarrow>
          (case task_promise t of
             Some _ \<Rightarrow> None
           | None \<Rightarrow> Some (s\<lparr>cq_store := (cq_store s)(a \<mapsto> t\<lparr>task_promise := Some r\<rparr>)\<rparr>)))"

text \<open>
  The future handed to the caller of \<open>Enqueue\<close>: already satisfied by \<open>ReadyFuture\<close>, or the
  future of the promise of a stored task.
\<close>

datatype future = Future_Ready command_result | Future_Of addr

definition new_task :: "command \<Rightarrow> command_result option \<Rightarrow> task" where
  "new_task c p = \<lparr>task_command = c, task_promise = p, task_state = Task_Queued\<rparr>"

definition enqueue_refusal :: "command \<Rightarrow> command_queue \<Rightarrow> command_result option" where
  "enqueue_refusal c s =
     (if \<not> cq_accepting s then Some (Result Status_Rejected ''Command queue is shut down'')
      else if cq_tasks s (cmd_id c) \<noteq> None then
        Some (Result Status_Rejected ''Command identifier is already outstanding'')
      else if length (cq_queue s) \<ge> opt_maximumQueueSize (cq_options s) then
        Some (Result Status_Rejected ''Command queue is full'')
      else None)"

definition Enqueue :: "time_ns \<Rightarrow> command \<Rightarrow> command_queue \<Rightarrow> command_queue \<times> future" where
  "Enqueue now c s =
     (case ValidateForQueue now c of
        Some r \<Rightarrow>
          (s\<lparr>cq_statistics := RecordResultLocked (res_status r) (cq_statistics s)\<rparr>, Future_Ready r)
      | None \<Rightarrow>
          let a = cq_next s; st = cq_statistics s in
          (case enqueue_refusal c s of
             Some r \<Rightarrow>
               (s\<lparr>cq_store := (cq_store s)(a \<mapsto> new_task c (Some r)), cq_next := Suc a,
                  cq_statistics := st\<lparr>stat_rejected := stat_rejected st + 1\<rparr>\<rparr>, Future_Of a)
           | None \<Rightarrow>
               (s\<lparr>cq_store := (cq_store s)(a \<mapsto> new_task c None), cq_next := Suc a,
                  cq_tasks := (cq_tasks s)(cmd_id c \<mapsto> a),
                  cq_queue := cq_queue s @ [a],
                  cq_statistics := st\<lparr>stat_accepted := stat_accepted st + 1,
                    stat_highWatermark :=
                      max (stat_highWatermark st) (length (cq_queue s @ [a]))\<rparr>\<rparr>, Future_Of a)))"

definition Cancel :: "u64 \<Rightarrow> command_queue \<Rightarrow> command_queue \<times> command_result" where
  "Cancel i s =
     (if i = 0 then (s, Result Status_Rejected ''Command identifier must be nonzero'')
      else case cq_tasks s i of
        None \<Rightarrow> (s, Result Status_Rejected ''Command is not outstanding'')
      | Some a \<Rightarrow>
          (if map_option task_state (cq_store s a) = Some Task_Running then
             (s, Result Status_Rejected ''A running command cannot be cancelled'')
           else
             (let st = cq_statistics s;
                  r = Result Status_Cancelled ''Command cancelled before execution'' in
              (s\<lparr>cq_tasks := (cq_tasks s)(i := None),
                 cq_queue := remove1 a (cq_queue s),
                 cq_statistics := st\<lparr>stat_cancelled := stat_cancelled st + 1\<rparr>,
                 cq_pending := cq_pending s @ [(a, r)]\<rparr>, r))))"

text \<open>A caller of \<open>Cancel\<close> sets the promise after it left the critical section.\<close>

definition deliver_pending :: "nat \<Rightarrow> command_queue \<Rightarrow> command_queue option" where
  "deliver_pending k s =
     (if k < length (cq_pending s) then
        (case cq_pending s ! k of (a, r) \<Rightarrow>
           set_promise a r (s\<lparr>cq_pending := erase_at k (cq_pending s)\<rparr>))
      else None)"

subsection \<open>Worker threads\<close>

definition worker_register :: "nat \<Rightarrow> command_queue \<Rightarrow> command_queue" where
  "worker_register w s = s\<lparr>cq_workers := (cq_workers s)[w := W_Waiting]\<rparr>"

text \<open>The predicate of the condition variable a worker waits on.\<close>

definition worker_wake :: "command_queue \<Rightarrow> bool" where
  "worker_wake s = (cq_stop_requested s \<or> cq_queue s \<noteq> [] \<or> \<not> cq_accepting s)"

definition task_priority :: "command_queue \<Rightarrow> addr \<Rightarrow> nat" where
  "task_priority s a =
     (case cq_store s a of Some t \<Rightarrow> priority_code (cmd_priority (task_command t)) | None \<Rightarrow> 0)"

definition worker_poll :: "nat \<Rightarrow> command_queue \<Rightarrow> command_queue" where
  "worker_poll w s =
     (if cq_queue s = [] then
        (if cq_stop_requested s \<or> \<not> cq_accepting s then
           s\<lparr>cq_workers := (cq_workers s)[w := W_Exited]\<rparr>
         else s)
      else
        (let k = max_element (task_priority s) (cq_queue s); a = cq_queue s ! k in
         s\<lparr>cq_queue := erase_at k (cq_queue s),
           cq_store := (cq_store s)(a := map_option (task_state_update (\<lambda>_. Task_Running)) (cq_store s a)),
           cq_active_count := cq_active_count s + 1,
           cq_workers := (cq_workers s)[w := W_Executing a]\<rparr>))"

text \<open>
  The result a worker computes for a task: the executor runs unless the command already
  expired; \<open>now\<close> and \<open>now'\<close> are the clock readings before and after it.
\<close>

definition run_executor :: "time_ns \<Rightarrow> command_result outcome \<Rightarrow> time_ns \<Rightarrow> command \<Rightarrow> command_result"
where
  "run_executor now oc now' c =
     (if HasExpired now c then Result Status_Timeout ''Command expired while waiting in queue''
      else
        (let r = (case oc of
              Returned r \<Rightarrow> r
            | ThrewException what \<Rightarrow> Result Status_Failed (''Command executor failed: '' @ what)
            | ThrewUnknown \<Rightarrow>
                Result Status_Failed ''Command executor failed with an unknown error'') in
         if res_status r = Status_Completed \<and> HasExpired now' c then
           Result Status_Timeout ''Command completed after its timeout''
         else if \<not> isTerminal (res_status r) then
           Result Status_Failed ''Command executor returned a nonterminal status''
         else r))"

definition worker_finish ::
  "nat \<Rightarrow> time_ns \<Rightarrow> command_result outcome \<Rightarrow> time_ns \<Rightarrow> addr \<Rightarrow> command_queue \<Rightarrow> command_queue"
where
  "worker_finish w now oc now' a s =
     (case cq_store s a of
        None \<Rightarrow> s
      | Some t \<Rightarrow>
          (let r = run_executor now oc now' (task_command t) in
           s\<lparr>cq_tasks := (cq_tasks s)(task_id t := None),
             cq_active_count := cq_active_count s - 1,
             cq_statistics := RecordResultLocked (res_status r) (cq_statistics s),
             cq_workers := (cq_workers s)[w := W_Publishing a r]\<rparr>))"

text \<open>The worker ignores an exception of \<open>set_value\<close>.\<close>

definition worker_publish :: "nat \<Rightarrow> addr \<Rightarrow> command_result \<Rightarrow> command_queue \<Rightarrow> command_queue" where
  "worker_publish w a r s =
     (let s' = s\<lparr>cq_workers := (cq_workers s)[w := W_Waiting]\<rparr> in
      case set_promise a r s' of Some s'' \<Rightarrow> s'' | None \<Rightarrow> s')"

subsection \<open>Shutdown\<close>

text \<open>
  The first critical section of \<open>Shutdown\<close>. The caller is a worker thread, by index, or some
  other thread. \<open>Inl\<close> is an early return, \<open>Inr\<close> that this thread now performs the shutdown;
  \<open>None\<close> that it waits on the condition variable for the shutdown in progress.
\<close>

definition IsWorkerThread :: "nat option \<Rightarrow> command_queue \<Rightarrow> bool" where
  "IsWorkerThread caller s =
     (case caller of None \<Rightarrow> False
      | Some w \<Rightarrow> w < length (cq_workers s) \<and> cq_workers s ! w \<notin> {W_Starting, W_Exited})"

definition forget_tasks :: "addr list \<Rightarrow> command_queue \<Rightarrow> u64 \<Rightarrow> addr option" where
  "forget_tasks as s =
     fold (\<lambda>a m. case cq_store s a of Some t \<Rightarrow> m(task_id t := None) | None \<Rightarrow> m) as (cq_tasks s)"

definition Shutdown_begin ::
  "nat option \<Rightarrow> command_queue \<Rightarrow> (command_result + command_queue) option" where
  "Shutdown_begin caller s =
     (if cq_shutdown_complete s then
        Some (Inl (Result Status_Completed ''Command queue is shut down''))
      else if IsWorkerThread caller s then
        Some (Inl (Result Status_Rejected ''Command queue cannot be shut down from its executor''))
      else if cq_shutdown_in_progress s then None
      else
        (let st = cq_statistics s in
         Some (Inr (s\<lparr>cq_shutdown_in_progress := True, cq_accepting := False, cq_queue := [],
           cq_tasks := forget_tasks (cq_queue s) s,
           cq_statistics := st\<lparr>stat_cancelled := stat_cancelled st + of_nat (length (cq_queue s))\<rparr>,
           cq_shutdown := Shut_Delivering (cq_queue s)\<rparr>))))"

definition shutdown_result :: command_result where
  "shutdown_result = Result Status_Cancelled ''Command cancelled during queue shutdown''"

text \<open>
  The rest of \<open>Shutdown\<close>: the promises of the cancelled tasks (exceptions ignored), the stop
  request, the join of all workers, the completion flags.
\<close>

definition shutdown_deliver :: "command_queue \<Rightarrow> command_queue" where
  "shutdown_deliver s =
     (case cq_shutdown s of
        Shut_Delivering (a # as) \<Rightarrow>
          (let s' = s\<lparr>cq_shutdown := Shut_Delivering as\<rparr> in
           case set_promise a shutdown_result s' of Some s'' \<Rightarrow> s'' | None \<Rightarrow> s')
      | Shut_Delivering [] \<Rightarrow> s\<lparr>cq_shutdown := Shut_Joining, cq_stop_requested := True\<rparr>
      | _ \<Rightarrow> s)"

definition shutdown_finish :: "command_queue \<Rightarrow> command_queue" where
  "shutdown_finish s =
     s\<lparr>cq_shutdown_complete := True, cq_shutdown_in_progress := False, cq_shutdown := Shut_Finished\<rparr>"

subsection \<open>Queries\<close>

definition GetStatistics :: "command_queue \<Rightarrow> command_queue_statistics" where
  "GetStatistics s = (cq_statistics s)\<lparr>stat_queued := length (cq_queue s),
     stat_active := cq_active_count s,
     stat_maximumQueueSize := opt_maximumQueueSize (cq_options s),
     stat_workerCount := opt_workerCount (cq_options s)\<rparr>"

definition Size :: "command_queue \<Rightarrow> nat" where
  "Size s = length (cq_queue s)"

definition Contains :: "u64 \<Rightarrow> command_queue \<Rightarrow> bool" where
  "Contains i s = (cq_tasks s i \<noteq> None)"

section \<open>Interleavings\<close>

datatype cq_event =
    Ev_Enqueue time_ns command
  | Ev_Cancel u64
  | Ev_Deliver nat
  | Ev_Register nat
  | Ev_Poll nat
  | Ev_Finish nat time_ns "command_result outcome" time_ns
  | Ev_Publish nat
  | Ev_ShutdownBegin "nat option"
  | Ev_ShutdownDeliver
  | Ev_ShutdownFinish

inductive cq_step :: "command_queue \<Rightarrow> cq_event \<Rightarrow> command_queue \<Rightarrow> bool" where
  step_enqueue: "cq_step s (Ev_Enqueue now c) (fst (Enqueue now c s))"
| step_cancel: "cq_step s (Ev_Cancel i) (fst (Cancel i s))"
| step_deliver: "deliver_pending k s = Some s' \<Longrightarrow> cq_step s (Ev_Deliver k) s'"
| step_register: "w < length (cq_workers s) \<Longrightarrow> cq_workers s ! w = W_Starting \<Longrightarrow>
    cq_step s (Ev_Register w) (worker_register w s)"
| step_poll: "w < length (cq_workers s) \<Longrightarrow> cq_workers s ! w = W_Waiting \<Longrightarrow> worker_wake s \<Longrightarrow>
    cq_step s (Ev_Poll w) (worker_poll w s)"
| step_finish: "w < length (cq_workers s) \<Longrightarrow> cq_workers s ! w = W_Executing a \<Longrightarrow>
    cq_step s (Ev_Finish w now oc now') (worker_finish w now oc now' a s)"
| step_publish: "w < length (cq_workers s) \<Longrightarrow> cq_workers s ! w = W_Publishing a r \<Longrightarrow>
    cq_step s (Ev_Publish w) (worker_publish w a r s)"
| step_shutdown_begin: "Shutdown_begin caller s = Some (Inr s') \<Longrightarrow>
    cq_step s (Ev_ShutdownBegin caller) s'"
| step_shutdown_deliver: "cq_shutdown s = Shut_Delivering as \<Longrightarrow>
    cq_step s Ev_ShutdownDeliver (shutdown_deliver s)"
| step_shutdown_finish: "cq_shutdown s = Shut_Joining \<Longrightarrow> set (cq_workers s) \<subseteq> {W_Exited} \<Longrightarrow>
    cq_step s Ev_ShutdownFinish (shutdown_finish s)"

inductive cq_run :: "command_queue \<Rightarrow> cq_event list \<Rightarrow> command_queue \<Rightarrow> bool" where
  run_nil: "cq_run s [] s"
| run_snoc: "cq_run s es s' \<Longrightarrow> cq_step s' e s'' \<Longrightarrow> cq_run s (es @ [e]) s''"

end
