(* ===== verification/Command_Queue_Inv.thy ===== *)
theory Command_Queue_Inv
  imports Command_Queue
begin

text \<open>
  The invariant of the command queue and its preservation by every step. Its core is an
  ownership discipline: each task whose promise is not yet set is owned by exactly one party
  (the deque, a worker, a cancelling caller or the shutting-down thread).
\<close>

section \<open>Ownership\<close>

fun exec_of :: "worker \<Rightarrow> addr list" where
  "exec_of (W_Executing a) = [a]"
| "exec_of _ = []"

fun publ_of :: "worker \<Rightarrow> addr list" where
  "publ_of (W_Publishing a r) = [a]"
| "publ_of _ = []"

definition executing :: "worker list \<Rightarrow> addr list" where
  "executing ws = concat (map exec_of ws)"

definition publishing :: "worker list \<Rightarrow> addr list" where
  "publishing ws = concat (map publ_of ws)"

fun delivering :: "shutdown_phase \<Rightarrow> addr list" where
  "delivering (Shut_Delivering as) = as"
| "delivering _ = []"

definition owned :: "command_queue \<Rightarrow> addr multiset" where
  "owned s = mset (cq_queue s) + mset (executing (cq_workers s)) + mset (publishing (cq_workers s))
     + mset (map fst (cq_pending s)) + mset (delivering (cq_shutdown s))"

definition unresolved :: "command_queue \<Rightarrow> addr set" where
  "unresolved s = {a. \<exists>t. cq_store s a = Some t \<and> task_promise t = None}"

definition own_inv :: "command_queue \<Rightarrow> bool" where
  "own_inv s \<longleftrightarrow> (\<forall>a. count (owned s) a = of_bool (a \<in> unresolved s))"

definition id_of :: "command_queue \<Rightarrow> addr \<Rightarrow> u64 option" where
  "id_of s a = map_option task_id (cq_store s a)"

definition state_of :: "command_queue \<Rightarrow> addr \<Rightarrow> task_state option" where
  "state_of s a = map_option task_state (cq_store s a)"

definition index_inv :: "command_queue \<Rightarrow> bool" where
  "index_inv s \<longleftrightarrow> (\<forall>i a. cq_tasks s i = Some a \<longleftrightarrow>
     id_of s a = Some i \<and> a \<in> set (cq_queue s) \<union> set (executing (cq_workers s)))"

definition state_inv :: "command_queue \<Rightarrow> bool" where
  "state_inv s \<longleftrightarrow>
     (\<forall>a \<in> set (cq_queue s). state_of s a = Some Task_Queued) \<and>
     (\<forall>a \<in> set (executing (cq_workers s)). state_of s a = Some Task_Running)"

definition count_inv :: "command_queue \<Rightarrow> bool" where
  "count_inv s \<longleftrightarrow> (\<forall>a \<ge> cq_next s. cq_store s a = None) \<and>
     cq_active_count s = length (executing (cq_workers s)) \<and>
     length (cq_queue s) \<le> opt_maximumQueueSize (cq_options s) \<and>
     length (cq_workers s) = opt_workerCount (cq_options s) \<and>
     0 < opt_workerCount (cq_options s) \<and>
     length (cq_queue s) \<le> stat_highWatermark (cq_statistics s) \<and>
     stat_highWatermark (cq_statistics s) \<le> opt_maximumQueueSize (cq_options s)"

definition phase_inv :: "command_queue \<Rightarrow> bool" where
  "phase_inv s \<longleftrightarrow>
     (cq_accepting s \<longleftrightarrow> cq_shutdown s = Shut_None) \<and>
     (cq_shutdown_complete s \<longleftrightarrow> cq_shutdown s = Shut_Finished) \<and>
     (cq_shutdown_in_progress s \<longleftrightarrow>
        cq_shutdown s \<noteq> Shut_None \<and> cq_shutdown s \<noteq> Shut_Finished) \<and>
     (\<not> cq_accepting s \<longrightarrow> cq_queue s = []) \<and>
     (cq_stop_requested s \<longrightarrow> \<not> cq_accepting s) \<and>
     (cq_shutdown s = Shut_Finished \<longrightarrow> set (cq_workers s) \<subseteq> {W_Exited})"

definition cq_inv :: "command_queue \<Rightarrow> bool" where
  "cq_inv s \<longleftrightarrow> own_inv s \<and> index_inv s \<and> state_inv s \<and> count_inv s \<and> phase_inv s"

lemmas inv_defs = own_inv_def index_inv_def state_inv_def count_inv_def phase_inv_def

subsection \<open>Facts about the ownership lists\<close>

lemma executing_update:
  "w < length ws \<Longrightarrow> mset (executing (ws[w := x])) + mset (exec_of (ws ! w)) =
   mset (executing ws) + mset (exec_of x)"
  unfolding executing_def by (rule concat_update_mset)

lemma publishing_update:
  "w < length ws \<Longrightarrow> mset (publishing (ws[w := x])) + mset (publ_of (ws ! w)) =
   mset (publishing ws) + mset (publ_of x)"
  unfolding publishing_def by (rule concat_update_mset)

lemma in_executing: "a \<in> set (executing ws) \<longleftrightarrow> W_Executing a \<in> set ws"
proof -
  have "a \<in> set (exec_of w) \<longleftrightarrow> w = W_Executing a" for w
    by (cases w) auto
  then show ?thesis by (auto simp: executing_def)
qed

lemma in_publishing: "a \<in> set (publishing ws) \<longleftrightarrow> (\<exists>r. W_Publishing a r \<in> set ws)"
proof -
  have "a \<in> set (publ_of w) \<longleftrightarrow> (\<exists>r. w = W_Publishing a r)" for w
    by (cases w) auto
  then show ?thesis by (auto simp: publishing_def)
qed

lemma executing_trivial:
  "exec_of x = exec_of (ws ! w) \<Longrightarrow> executing (ws[w := x]) = executing ws"
  by (simp add: executing_def map_update_same)

lemma publishing_trivial:
  "publ_of x = publ_of (ws ! w) \<Longrightarrow> publishing (ws[w := x]) = publishing ws"
  by (simp add: publishing_def map_update_same)

lemma owned_unresolved:
  assumes "own_inv s" and "a \<in># owned s"
  shows "\<exists>t. cq_store s a = Some t \<and> task_promise t = None"
  using assms by (auto simp: own_inv_def unresolved_def count_greater_zero_iff [symmetric] simp del: count_greater_zero_iff split: if_splits)

lemma queue_distinct: "own_inv s \<Longrightarrow> distinct (cq_queue s)"
proof -
  assume "own_inv s"
  then have "count (owned s) a \<le> 1" for a by (simp add: own_inv_def)
  then have "count (mset (cq_queue s)) a \<le> 1" for a
    unfolding owned_def by (metis (no_types, lifting) add_leD1 count_union)
  then show ?thesis
    by (metis distinct_count_atmost_1 count_mset_0_iff le_SucE le_zero_eq One_nat_def)
qed

section \<open>Setting a promise\<close>

lemma set_promise_frame:
  assumes "set_promise a r s = Some s'"
  shows "owned s' = owned s" "unresolved s' = unresolved s - {a}"
    "index_inv s' = index_inv s" "state_inv s' = state_inv s" "count_inv s' = count_inv s"
    "phase_inv s' = phase_inv s" "cq_tasks s' = cq_tasks s" "cq_queue s' = cq_queue s"
    "cq_workers s' = cq_workers s" "cq_statistics s' = cq_statistics s"
    "cq_active_count s' = cq_active_count s" "cq_shutdown s' = cq_shutdown s"
proof -
  obtain t where t: "cq_store s a = Some t" "task_promise t = None"
    and s': "s' = s\<lparr>cq_store := (cq_store s)(a \<mapsto> t\<lparr>task_promise := Some r\<rparr>)\<rparr>"
    using assms by (auto simp: set_promise_def split: option.splits)
  show "owned s' = owned s" by (simp add: s' owned_def)
  show "unresolved s' = unresolved s - {a}" using t by (auto simp: s' unresolved_def)
  have "id_of s' = id_of s" "state_of s' = state_of s"
    using t by (auto simp: s' id_of_def state_of_def)
  then show "index_inv s' = index_inv s" "state_inv s' = state_inv s"
    by (simp_all add: s' index_inv_def state_inv_def)
  show "count_inv s' = count_inv s" using t by (auto simp: s' count_inv_def)
  show "phase_inv s' = phase_inv s" by (simp add: s' phase_inv_def)
  show "cq_tasks s' = cq_tasks s" "cq_queue s' = cq_queue s" "cq_workers s' = cq_workers s"
    "cq_statistics s' = cq_statistics s" "cq_active_count s' = cq_active_count s"
    "cq_shutdown s' = cq_shutdown s"
    by (simp_all add: s')
qed

lemma set_promise_exists: "a \<in> unresolved s \<Longrightarrow> \<exists>s'. set_promise a r s = Some s'"
  by (auto simp: unresolved_def set_promise_def)

text \<open>A thread that owns a task outside the lists may set its promise.\<close>

definition own_except :: "addr \<Rightarrow> command_queue \<Rightarrow> bool" where
  "own_except a s \<longleftrightarrow> (\<forall>b. count (owned s) b + of_bool (b = a) = of_bool (b \<in> unresolved s))"

lemma own_exceptI:
  assumes "own_inv s" "owned s = add_mset a (owned s')" "unresolved s' = unresolved s"
  shows "own_except a s'"
  unfolding own_except_def
proof
  fix b
  have "count (owned s) b = of_bool (b \<in> unresolved s)" using assms(1) by (simp add: own_inv_def)
  then show "count (owned s') b + of_bool (b = a) = of_bool (b \<in> unresolved s')"
    by (cases "b = a") (simp_all add: assms(2,3))
qed

lemma own_except_resolve:
  assumes "own_except a s"
  shows "\<exists>s'. set_promise a r s = Some s'"
    and "set_promise a r s = Some s' \<Longrightarrow> own_inv s'"
proof -
  have eq: "count (owned s) b + of_bool (b = a) = of_bool (b \<in> unresolved s)" for b
    using assms by (simp add: own_except_def)
  from eq [of a] have "a \<in> unresolved s" by (cases "a \<in> unresolved s") simp_all
  then show "\<exists>s'. set_promise a r s = Some s'" by (rule set_promise_exists)
  assume s': "set_promise a r s = Some s'"
  show "own_inv s'"
    unfolding own_inv_def set_promise_frame(1,2) [OF s']
  proof
    fix b
    show "count (owned s) b = of_bool (b \<in> unresolved s - {a})"
      using eq [of b] by (cases "b = a"; cases "b \<in> unresolved s") auto
  qed
qed

section \<open>Preservation\<close>

lemma cq_create_inv: "cq_create has_executor opts = Inr s \<Longrightarrow> cq_inv s"
proof -
  assume "cq_create has_executor opts = Inr s"
  moreover have "executing (replicate n W_Starting) = []" "publishing (replicate n W_Starting) = []"
    for n by (induction n) (simp_all add: executing_def publishing_def)
  ultimately show ?thesis
    by (auto simp: cq_create_def cq_inv_def inv_defs owned_def unresolved_def zero_statistics_def
        split: if_splits)
qed

lemma fresh_not_owned:
  assumes "own_inv s" "count_inv s"
  shows "cq_next s \<notin> unresolved s" "count (owned s) (cq_next s) = 0" "cq_store s (cq_next s) = None"
proof -
  show "cq_store s (cq_next s) = None" using assms(2) by (simp add: count_inv_def)
  then show "cq_next s \<notin> unresolved s" by (simp add: unresolved_def)
  then show "count (owned s) (cq_next s) = 0" using assms(1) by (simp add: own_inv_def)
qed

lemma fresh_not_listed:
  assumes "own_inv s" "count_inv s"
  shows "cq_next s \<notin> set (cq_queue s)" "cq_next s \<notin> set (executing (cq_workers s))"
  using fresh_not_owned(2) [OF assms] by (auto simp: owned_def)

lemma stats_frame [simp]:
  "owned (s\<lparr>cq_statistics := st\<rparr>) = owned s" "unresolved (s\<lparr>cq_statistics := st\<rparr>) = unresolved s"
  "own_inv (s\<lparr>cq_statistics := st\<rparr>) = own_inv s"
  "index_inv (s\<lparr>cq_statistics := st\<rparr>) = index_inv s"
  "state_inv (s\<lparr>cq_statistics := st\<rparr>) = state_inv s"
  "phase_inv (s\<lparr>cq_statistics := st\<rparr>) = phase_inv s"
  by (simp_all add: inv_defs owned_def unresolved_def id_of_def state_of_def)

lemma count_inv_stats:
  "stat_highWatermark st = stat_highWatermark (cq_statistics s) \<Longrightarrow>
   count_inv (s\<lparr>cq_statistics := st\<rparr>) = count_inv s"
  by (simp add: count_inv_def)

lemma highWatermark_RecordResult [simp]:
  "stat_highWatermark (RecordResultLocked x st) = stat_highWatermark st"
  by (cases x) simp_all

lemma new_task_meta:
  "task_id (new_task c p) = cmd_id c" "task_state (new_task c p) = Task_Queued"
  "task_promise (new_task c p) = p"
  by (simp_all add: new_task_def)

lemma no_owner:
  "index_inv s \<Longrightarrow> cq_tasks s i = None \<Longrightarrow> id_of s a = Some i \<Longrightarrow>
   a \<notin> set (cq_queue s) \<and> a \<notin> set (executing (cq_workers s))"
  unfolding index_inv_def by (metis UnCI option.distinct(1))

lemma Enqueue_refused:
  assumes own: "own_inv s" and idx: "index_inv s" and st: "state_inv s" and cnt: "count_inv s"
    and ph: "phase_inv s"
  shows "cq_inv (s\<lparr>cq_store := (cq_store s)(cq_next s \<mapsto> new_task c (Some r)),
      cq_next := Suc (cq_next s), cq_statistics := (cq_statistics s)\<lparr>stat_rejected := n\<rparr>\<rparr>)"
    (is "cq_inv ?s")
proof -
  note fresh = fresh_not_owned [OF own cnt] fresh_not_listed [OF own cnt]
  have "unresolved ?s = unresolved s"
    using fresh by (auto simp: unresolved_def new_task_def)
  moreover have "owned ?s = owned s" by (simp add: owned_def)
  ultimately have "own_inv ?s" using own by (simp add: own_inv_def)
  moreover have "index_inv ?s"
    using idx fresh by (auto simp: index_inv_def id_of_def)
  moreover have "state_inv ?s"
    using st fresh by (auto simp: state_inv_def state_of_def)
  moreover have "count_inv ?s" using cnt by (simp add: count_inv_def)
  moreover have "phase_inv ?s" using ph by (auto simp: phase_inv_def)
  ultimately show ?thesis by (simp add: cq_inv_def)
qed

lemma Enqueue_accepted:
  assumes own: "own_inv s" and idx: "index_inv s" and st: "state_inv s" and cnt: "count_inv s"
    and ph: "phase_inv s" and acc: "cq_accepting s" "cq_tasks s (cmd_id c) = None"
      "length (cq_queue s) < opt_maximumQueueSize (cq_options s)"
  shows "cq_inv (s\<lparr>cq_store := (cq_store s)(cq_next s \<mapsto> new_task c None),
      cq_next := Suc (cq_next s), cq_tasks := (cq_tasks s)(cmd_id c \<mapsto> cq_next s),
      cq_queue := cq_queue s @ [cq_next s],
      cq_statistics := (cq_statistics s)\<lparr>stat_accepted := n, stat_highWatermark :=
        max (stat_highWatermark (cq_statistics s)) (length (cq_queue s @ [cq_next s]))\<rparr>\<rparr>)"
    (is "cq_inv ?s")
proof -
  note fresh = fresh_not_owned [OF own cnt] fresh_not_listed [OF own cnt]
  have "unresolved ?s = insert (cq_next s) (unresolved s)"
    using fresh by (auto simp: unresolved_def new_task_def)
  moreover have "owned ?s = add_mset (cq_next s) (owned s)" by (simp add: owned_def)
  ultimately have "own_inv ?s" using own fresh by (simp add: own_inv_def)
  moreover have "index_inv ?s"
  proof -
    have "id_of ?s = (id_of s)(cq_next s \<mapsto> cmd_id c)"
      by (auto simp: id_of_def new_task_meta)
    then show ?thesis
      using idx fresh no_owner [OF idx acc(2)] by (auto simp: index_inv_def)
  qed
  moreover have "state_inv ?s"
    using st fresh by (auto simp: state_inv_def state_of_def new_task_meta)
  moreover have "count_inv ?s" using cnt acc by (auto simp: count_inv_def)
  moreover have "phase_inv ?s" using ph acc by (auto simp: phase_inv_def)
  ultimately show ?thesis by (simp add: cq_inv_def)
qed

lemma Enqueue_inv: "cq_inv s \<Longrightarrow> cq_inv (fst (Enqueue now c s))"
proof (cases "ValidateForQueue now c")
  case (Some r)
  assume "cq_inv s"
  then show ?thesis by (simp add: Enqueue_def Some cq_inv_def count_inv_stats)
next
  case valid: None
  assume "cq_inv s"
  then have inv: "own_inv s" "index_inv s" "state_inv s" "count_inv s" "phase_inv s"
    by (simp_all add: cq_inv_def)
  show ?thesis
  proof (cases "enqueue_refusal c s")
    case (Some r)
    with valid show ?thesis
      using Enqueue_refused [OF inv] by (simp add: Enqueue_def Let_def)
  next
    case None
    then have "cq_accepting s" "cq_tasks s (cmd_id c) = None"
      "length (cq_queue s) < opt_maximumQueueSize (cq_options s)"
      by (auto simp: enqueue_refusal_def split: if_splits)
    from Enqueue_accepted [OF inv this] valid None show ?thesis
      by (simp add: Enqueue_def Let_def)
  qed
qed

lemma lists_disjoint:
  "state_inv s \<Longrightarrow> a \<in> set (cq_queue s) \<Longrightarrow> a \<notin> set (executing (cq_workers s))"
  unfolding state_inv_def by (metis option.sel task_state.distinct(1))

lemma index_remove:
  assumes idx: "index_inv s" and a: "cq_tasks s i = Some a"
    and s': "cq_tasks s' = (cq_tasks s)(i := None)" "id_of s' = id_of s"
      "set (cq_queue s') \<union> set (executing (cq_workers s')) =
       set (cq_queue s) \<union> set (executing (cq_workers s)) - {a}"
  shows "index_inv s'"
  unfolding index_inv_def s'
proof (intro allI)
  fix j b
  let ?L = "set (cq_queue s) \<union> set (executing (cq_workers s))"
  have idx': "cq_tasks s j' = Some b' \<longleftrightarrow> id_of s b' = Some j' \<and> b' \<in> ?L" for j' b'
    using idx by (simp add: index_inv_def)
  have ia: "id_of s a = Some i" using idx' a by blast
  show "((cq_tasks s)(i := None)) j = Some b \<longleftrightarrow> id_of s b = Some j \<and> b \<in> ?L - {a}"
  proof (cases "j = i")
    case True
    then show ?thesis using idx' [of i b] a by auto
  next
    case False
    with ia have "id_of s b = Some j \<Longrightarrow> b \<noteq> a" by auto
    with False show ?thesis using idx' [of j b] by auto
  qed
qed

lemma index_frame:
  "cq_tasks s' = cq_tasks s \<Longrightarrow> id_of s' = id_of s \<Longrightarrow>
   set (cq_queue s') \<union> set (executing (cq_workers s')) =
     set (cq_queue s) \<union> set (executing (cq_workers s)) \<Longrightarrow>
   index_inv s' = index_inv s"
  by (simp add: index_inv_def)

lemma index_unique:
  "index_inv s \<Longrightarrow> id_of s a = Some i \<Longrightarrow> a \<in> set (cq_queue s) \<union> set (executing (cq_workers s)) \<Longrightarrow>
   id_of s b = Some i \<Longrightarrow> b \<in> set (cq_queue s) \<union> set (executing (cq_workers s)) \<Longrightarrow> a = b"
  unfolding index_inv_def by (metis option.sel)

lemma listed_meta:
  assumes "cq_inv s" "cq_tasks s i = Some a"
  obtains t where "cq_store s a = Some t" "task_id t = i"
    "a \<in> set (cq_queue s) \<and> task_state t = Task_Queued \<and> a \<notin> set (executing (cq_workers s)) \<or>
     a \<in> set (executing (cq_workers s)) \<and> task_state t = Task_Running \<and> a \<notin> set (cq_queue s)"
proof -
  from assms have "id_of s a = Some i"
    and a: "a \<in> set (cq_queue s) \<union> set (executing (cq_workers s))"
    by (auto simp: cq_inv_def index_inv_def)
  then obtain t where "cq_store s a = Some t" "task_id t = i" by (auto simp: id_of_def)
  moreover from a have "a \<in> set (cq_queue s) \<or> a \<in> set (executing (cq_workers s))" by simp
  ultimately show ?thesis
    using assms(1) lists_disjoint [of s a] that
    by (fastforce simp: cq_inv_def state_inv_def state_of_def)
qed

lemma Cancel_removes_inv:
  assumes inv: "cq_inv s" and a: "cq_tasks s i = Some a" "a \<in> set (cq_queue s)"
  shows "cq_inv (s\<lparr>cq_tasks := (cq_tasks s)(i := None), cq_queue := remove1 a (cq_queue s),
      cq_statistics := (cq_statistics s)\<lparr>stat_cancelled := n\<rparr>,
      cq_pending := cq_pending s @ [(a, r)]\<rparr>)" (is "cq_inv ?s")
proof -
  from inv have own: "own_inv s" and idx: "index_inv s" and st: "state_inv s"
    and cnt: "count_inv s" and ph: "phase_inv s" by (simp_all add: cq_inv_def)
  have d: "distinct (cq_queue s)" using own by (rule queue_distinct)
  have notexec: "a \<notin> set (executing (cq_workers s))"
    using st a(2) by (rule lists_disjoint)
  have "owned ?s = owned s" using a(2) by (simp add: owned_def)
  moreover have "unresolved ?s = unresolved s" by (simp add: unresolved_def)
  ultimately have "own_inv ?s" using own by (simp add: own_inv_def)
  moreover have "index_inv ?s"
    by (rule index_remove [OF idx a(1)])
      (use d notexec in \<open>auto simp: id_of_def\<close>)
  moreover have "state_inv ?s"
    using st d by (auto simp: state_inv_def state_of_def)
  moreover have "count_inv ?s" using cnt by (auto simp: count_inv_def length_remove1)
  moreover have "phase_inv ?s" using ph by (auto simp: phase_inv_def)
  ultimately show ?thesis by (simp add: cq_inv_def)
qed

lemma Cancel_inv: "cq_inv s \<Longrightarrow> cq_inv (fst (Cancel i s))"
proof (cases "cq_tasks s i")
  case (Some a)
  assume inv: "cq_inv s"
  from listed_meta [OF inv Some] obtain t where "cq_store s a = Some t"
    and "a \<in> set (cq_queue s) \<or> task_state t = Task_Running"
    by (metis (no_types, lifting))
  then show ?thesis
    using inv Cancel_removes_inv [OF inv Some] Some by (auto simp: Cancel_def Let_def)
qed (simp add: Cancel_def)

lemma own_except_inv:
  assumes "own_except a s" "index_inv s" "state_inv s" "count_inv s" "phase_inv s"
    and "set_promise a r s = Some s'"
  shows "cq_inv s'"
  using assms own_except_resolve(2) [OF assms(1,6)] set_promise_frame [OF assms(6)]
  by (simp add: cq_inv_def)

lemma deliver_pending_inv:
  assumes inv: "cq_inv s" and step: "deliver_pending k s = Some s'"
  shows "cq_inv s'"
proof -
  obtain a r where k: "k < length (cq_pending s)" "cq_pending s ! k = (a, r)"
    and s': "set_promise a r (s\<lparr>cq_pending := erase_at k (cq_pending s)\<rparr>) = Some s'"
    using step by (auto simp: deliver_pending_def split: if_splits prod.splits)
  let ?s = "s\<lparr>cq_pending := erase_at k (cq_pending s)\<rparr>"
  have "mset (map fst (cq_pending s)) = add_mset a (mset (map fst (erase_at k (cq_pending s))))"
    using k mset_erase_at [OF k(1)] by (metis fst_conv image_mset_add_mset mset_map)
  then have "own_except a ?s"
    using inv by (intro own_exceptI [of s]) (simp_all add: cq_inv_def owned_def unresolved_def)
  moreover have "index_inv ?s" "state_inv ?s" "count_inv ?s" "phase_inv ?s"
    using inv by (auto simp: cq_inv_def inv_defs id_of_def state_of_def)
  ultimately show ?thesis using s' by (rule own_except_inv)
qed

subsection \<open>Worker steps\<close>

lemma executing_gain:
  "w < length ws \<Longrightarrow> exec_of (ws ! w) = [] \<Longrightarrow> exec_of x = [a] \<Longrightarrow>
   mset (executing (ws[w := x])) = add_mset a (mset (executing ws))"
  using executing_update [of w ws x] by simp

lemma executing_loss:
  "w < length ws \<Longrightarrow> exec_of (ws ! w) = [a] \<Longrightarrow> exec_of x = [] \<Longrightarrow>
   add_mset a (mset (executing (ws[w := x]))) = mset (executing ws)"
  using executing_update [of w ws x] by simp

lemma publishing_gain:
  "w < length ws \<Longrightarrow> publ_of (ws ! w) = [] \<Longrightarrow> publ_of x = [a] \<Longrightarrow>
   mset (publishing (ws[w := x])) = add_mset a (mset (publishing ws))"
  using publishing_update [of w ws x] by simp

lemma publishing_loss:
  "w < length ws \<Longrightarrow> publ_of (ws ! w) = [a] \<Longrightarrow> publ_of x = [] \<Longrightarrow>
   add_mset a (mset (publishing (ws[w := x]))) = mset (publishing ws)"
  using publishing_update [of w ws x] by simp

text \<open>A worker that starts or leaves without touching a task.\<close>

lemma worker_move_inv:
  assumes inv: "cq_inv s" and w: "w < length (cq_workers s)"
    and x: "exec_of x = exec_of (cq_workers s ! w)" "publ_of x = publ_of (cq_workers s ! w)"
    and fin: "x = W_Exited \<or> cq_workers s ! w \<noteq> W_Exited"
  shows "cq_inv (s\<lparr>cq_workers := (cq_workers s)[w := x]\<rparr>)"
proof -
  have "cq_workers s ! w \<in> set (cq_workers s)" using w by simp
  moreover have "set ((cq_workers s)[w := x]) \<subseteq> insert x (set (cq_workers s))"
    by (rule set_update_subset_insert)
  ultimately have "set (cq_workers s) \<subseteq> {W_Exited} \<Longrightarrow> set ((cq_workers s)[w := x]) \<subseteq> {W_Exited}"
    using fin by blast
  then show ?thesis
    using inv executing_trivial [OF x(1)] publishing_trivial [OF x(2)]
    by (auto simp: cq_inv_def inv_defs owned_def unresolved_def id_of_def state_of_def)
qed

lemma worker_take_inv:
  assumes inv: "cq_inv s" and w: "w < length (cq_workers s)" "cq_workers s ! w = W_Waiting"
    and k: "k < length (cq_queue s)" "a = cq_queue s ! k"
  shows "cq_inv (s\<lparr>cq_queue := erase_at k (cq_queue s),
      cq_store := (cq_store s)(a := map_option (task_state_update (\<lambda>_. Task_Running)) (cq_store s a)),
      cq_active_count := cq_active_count s + 1,
      cq_workers := (cq_workers s)[w := W_Executing a]\<rparr>)" (is "cq_inv ?s")
proof -
  from inv have own: "own_inv s" and idx: "index_inv s" and st: "state_inv s"
    and cnt: "count_inv s" and ph: "phase_inv s" by (simp_all add: cq_inv_def)
  have d: "distinct (cq_queue s)" using own by (rule queue_distinct)
  note erase = distinct_erase_at [OF d k(1)]
  have ex: "mset (executing (cq_workers ?s)) = add_mset a (mset (executing (cq_workers s)))"
    using w by (simp add: executing_gain)
  then have exs: "set (executing (cq_workers ?s)) = insert a (set (executing (cq_workers s)))"
    by (metis set_mset_add_mset_insert set_mset_mset)
  have pu: "publishing (cq_workers ?s) = publishing (cq_workers s)"
    using w by (simp add: publishing_trivial)
  have "owned ?s = owned s"
    using mset_erase_at [OF k(1)] ex pu k(2) by (simp add: owned_def)
  moreover have "unresolved ?s = unresolved s"
    by (auto simp: unresolved_def split: if_splits)
  ultimately have "own_inv ?s" using own by (simp add: own_inv_def)
  moreover have "index_inv ?s"
  proof -
    have "id_of ?s = id_of s" by (auto simp: id_of_def option.map_comp comp_def)
    moreover have "set (cq_queue ?s) \<union> set (executing (cq_workers ?s)) =
        set (cq_queue s) \<union> set (executing (cq_workers s))"
      using erase(2) exs k by auto
    ultimately show ?thesis using idx by (subst index_frame [of _ s]) simp_all
  qed
  moreover have "state_inv ?s"
  proof -
    have "cq_store s a \<noteq> None"
      using st k by (auto simp: state_inv_def state_of_def)
    then have "state_of ?s = (state_of s)(a \<mapsto> Task_Running)"
      by (auto simp: state_of_def)
    then show ?thesis
      using st erase(2) exs k(2) by (auto simp: state_inv_def)
  qed
  moreover have "count_inv ?s"
    using cnt k(1) arg_cong [OF ex, of size] by (auto simp: count_inv_def)
  moreover have "phase_inv ?s"
    using ph k(1) w nth_mem [OF w(1)] by (auto simp: phase_inv_def)
  ultimately show ?thesis by (simp add: cq_inv_def)
qed

lemma worker_poll_inv:
  assumes "cq_inv s" "w < length (cq_workers s)" "cq_workers s ! w = W_Waiting"
  shows "cq_inv (worker_poll w s)"
proof (cases "cq_queue s = []")
  case True
  then show ?thesis
    using assms worker_move_inv [OF assms(1,2), of W_Exited] by (simp add: worker_poll_def)
next
  case False
  then show ?thesis
    using worker_take_inv [OF assms max_element_less [OF False] refl]
    by (simp add: worker_poll_def Let_def)
qed

lemma worker_finish_inv:
  assumes inv: "cq_inv s" and w: "w < length (cq_workers s)" "cq_workers s ! w = W_Executing a"
  shows "cq_inv (worker_finish w now oc now' a s)"
proof -
  from inv have own: "own_inv s" and idx: "index_inv s" and st: "state_inv s"
    and cnt: "count_inv s" and ph: "phase_inv s" by (simp_all add: cq_inv_def)
  have ina: "a \<in> set (executing (cq_workers s))"
    using w by (metis in_executing nth_mem)
  then have "a \<in># owned s" by (simp add: owned_def)
  then obtain t where t: "cq_store s a = Some t" using owned_unresolved [OF own] by blast
  then have ti: "cq_tasks s (task_id t) = Some a"
    using idx ina by (auto simp: index_inv_def id_of_def)
  define r where "r = run_executor now oc now' (task_command t)"
  define ws where "ws = (cq_workers s)[w := W_Publishing a r]"
  let ?s = "s\<lparr>cq_tasks := (cq_tasks s)(task_id t := None),
      cq_active_count := cq_active_count s - 1,
      cq_statistics := RecordResultLocked (res_status r) (cq_statistics s), cq_workers := ws\<rparr>"
  have ex: "mset (executing (cq_workers s)) = add_mset a (mset (executing ws))"
    using w executing_loss [of w "cq_workers s" a "W_Publishing a r"] by (simp add: ws_def)
  have pu: "mset (publishing ws) = add_mset a (mset (publishing (cq_workers s)))"
    using w by (simp add: publishing_gain ws_def)
  have "owned ?s = owned s" by (simp add: owned_def ex pu)
  then have "own_inv ?s" using own by (simp add: own_inv_def unresolved_def)
  moreover have exs: "set (executing ws) = set (executing (cq_workers s)) - {a}"
  proof -
    have "count (owned s) a \<le> 1" using own by (simp add: own_inv_def)
    then have "count (mset (executing ws)) a = 0" by (simp add: owned_def ex)
    then have "a \<notin> set (executing ws)" by simp
    moreover have "set (executing (cq_workers s)) = insert a (set (executing ws))"
      using ex by (metis set_mset_add_mset_insert set_mset_mset)
    ultimately show ?thesis by auto
  qed
  moreover have "index_inv ?s"
    by (rule index_remove [OF idx ti])
      (use exs lists_disjoint [OF st] ina in \<open>auto simp: id_of_def\<close>)
  moreover have "state_inv ?s"
    using st exs by (auto simp: state_inv_def state_of_def)
  moreover have "count_inv ?s"
    using cnt arg_cong [OF ex, of size] by (auto simp: count_inv_def ws_def)
  moreover have "phase_inv ?s"
    using ph w nth_mem [OF w(1)] by (auto simp: phase_inv_def)
  ultimately show ?thesis
    using t by (simp add: worker_finish_def Let_def r_def cq_inv_def ws_def)
qed

lemma worker_publish_inv:
  assumes inv: "cq_inv s" and w: "w < length (cq_workers s)" "cq_workers s ! w = W_Publishing a r"
  shows "cq_inv (worker_publish w a r s)"
proof -
  define ws where "ws = (cq_workers s)[w := W_Waiting]"
  let ?s = "s\<lparr>cq_workers := ws\<rparr>"
  have ex: "executing ws = executing (cq_workers s)"
    using w by (simp add: executing_trivial ws_def)
  have pu: "mset (publishing (cq_workers s)) = add_mset a (mset (publishing ws))"
    using w publishing_loss [of w "cq_workers s" a W_Waiting] by (simp add: ws_def)
  have ow: "own_except a ?s"
    using inv pu by (intro own_exceptI [of s]) (simp_all add: cq_inv_def owned_def unresolved_def ex)
  have rest: "index_inv ?s" "state_inv ?s" "count_inv ?s" "phase_inv ?s"
    using inv ex w nth_mem [OF w(1)]
    by (auto simp: cq_inv_def inv_defs id_of_def state_of_def ws_def)
  obtain s' where s': "set_promise a r ?s = Some s'" using own_except_resolve(1) [OF ow] by blast
  with own_except_inv [OF ow rest s'] show ?thesis
    by (simp add: worker_publish_def Let_def ws_def)
qed

subsection \<open>Shutdown\<close>

lemma forget_tasks_apply:
  "forget_tasks as s i = (if \<exists>a \<in> set as. id_of s a = Some i then None else cq_tasks s i)"
proof -
  have key: "fold (\<lambda>a m. case cq_store s a of Some t \<Rightarrow> m(task_id t := None) | None \<Rightarrow> m) as m i =
      (if \<exists>a \<in> set as. id_of s a = Some i then None else m i)" for m
    by (induction as arbitrary: m) (auto simp: id_of_def split: option.split)
  show ?thesis unfolding forget_tasks_def by (rule key)
qed

lemma Shutdown_begin_inv:
  assumes inv: "cq_inv s" and step: "Shutdown_begin caller s = Some (Inr s')"
  shows "cq_inv s'"
proof -
  from inv have own: "own_inv s" and idx: "index_inv s" and st: "state_inv s"
    and cnt: "count_inv s" and ph: "phase_inv s" by (simp_all add: cq_inv_def)
  have prog: "\<not> cq_shutdown_complete s" "\<not> cq_shutdown_in_progress s"
    using step by (auto simp: Shutdown_begin_def split: if_splits)
  with ph have none: "cq_shutdown s = Shut_None" by (auto simp: phase_inv_def)
  have s': "s' = s\<lparr>cq_shutdown_in_progress := True, cq_accepting := False, cq_queue := [],
      cq_tasks := forget_tasks (cq_queue s) s,
      cq_statistics := (cq_statistics s)\<lparr>stat_cancelled :=
        stat_cancelled (cq_statistics s) + of_nat (length (cq_queue s))\<rparr>,
      cq_shutdown := Shut_Delivering (cq_queue s)\<rparr>"
    using step by (auto simp: Shutdown_begin_def Let_def split: if_splits)
  have "owned s' = owned s" by (simp add: s' owned_def none)
  then have "own_inv s'" using own by (simp add: own_inv_def unresolved_def s')
  moreover have "index_inv s'"
    unfolding index_inv_def
  proof (intro allI)
    fix i a
    have id: "id_of s' = id_of s" by (auto simp: s' id_of_def)
    show "cq_tasks s' i = Some a \<longleftrightarrow>
        id_of s' a = Some i \<and> a \<in> set (cq_queue s') \<union> set (executing (cq_workers s'))"
      using idx lists_disjoint [OF st] index_unique [OF idx] unfolding id
      by (auto simp: s' forget_tasks_apply index_inv_def) blast
  qed
  moreover have "state_inv s'" using st by (simp add: s' state_inv_def state_of_def)
  moreover have "count_inv s'" using cnt by (simp add: s' count_inv_def)
  moreover have "phase_inv s'" using ph prog by (simp add: s' phase_inv_def)
  ultimately show ?thesis by (simp add: cq_inv_def)
qed

lemma shutdown_deliver_inv:
  assumes inv: "cq_inv s" and ph: "cq_shutdown s = Shut_Delivering as"
  shows "cq_inv (shutdown_deliver s)"
proof (cases as)
  case Nil
  let ?s = "s\<lparr>cq_shutdown := Shut_Joining, cq_stop_requested := True\<rparr>"
  have "owned ?s = owned s" "unresolved ?s = unresolved s"
    using ph Nil by (simp_all add: owned_def unresolved_def)
  moreover have "index_inv ?s" "state_inv ?s" "count_inv ?s" "phase_inv ?s"
    using inv ph by (auto simp: cq_inv_def index_inv_def state_inv_def count_inv_def phase_inv_def
        id_of_def state_of_def)
  ultimately show ?thesis using inv ph Nil
    by (simp add: shutdown_deliver_def cq_inv_def own_inv_def)
next
  case (Cons a as')
  let ?s = "s\<lparr>cq_shutdown := Shut_Delivering as'\<rparr>"
  have ow: "own_except a ?s"
    using inv ph Cons
    by (intro own_exceptI [of s]) (simp_all add: cq_inv_def owned_def unresolved_def)
  have rest: "index_inv ?s" "state_inv ?s" "count_inv ?s" "phase_inv ?s"
    using inv ph by (auto simp: cq_inv_def inv_defs id_of_def state_of_def)
  obtain s' where s': "set_promise a shutdown_result ?s = Some s'"
    using own_except_resolve(1) [OF ow] by blast
  with own_except_inv [OF ow rest s'] ph Cons show ?thesis by (simp add: shutdown_deliver_def)
qed

lemma shutdown_finish_inv:
  assumes "cq_inv s" "cq_shutdown s = Shut_Joining" "set (cq_workers s) \<subseteq> {W_Exited}"
  shows "cq_inv (shutdown_finish s)"
proof -
  let ?s = "shutdown_finish s"
  have "owned ?s = owned s" "unresolved ?s = unresolved s"
    using assms(2) by (simp_all add: shutdown_finish_def owned_def unresolved_def)
  moreover have "index_inv ?s" "state_inv ?s" "count_inv ?s" "phase_inv ?s"
    using assms by (auto simp: shutdown_finish_def cq_inv_def index_inv_def state_inv_def
        count_inv_def phase_inv_def id_of_def state_of_def)
  ultimately show ?thesis using assms(1) by (simp add: cq_inv_def own_inv_def)
qed

section \<open>Every reachable state\<close>

lemma cq_step_inv: "cq_step s e s' \<Longrightarrow> cq_inv s \<Longrightarrow> cq_inv s'"
proof (induction rule: cq_step.induct)
  case (step_register w s)
  then show ?case unfolding worker_register_def by (intro worker_move_inv) simp_all
qed (blast intro: Enqueue_inv Cancel_inv deliver_pending_inv worker_poll_inv worker_finish_inv
    worker_publish_inv Shutdown_begin_inv shutdown_deliver_inv shutdown_finish_inv)+

lemma cq_run_inv: "cq_run s es s' \<Longrightarrow> cq_inv s \<Longrightarrow> cq_inv s'"
  by (induction rule: cq_run.induct) (auto intro: cq_step_inv)

lemma cq_reachable_inv:
  "cq_create has_executor opts = Inr s0 \<Longrightarrow> cq_run s0 es s \<Longrightarrow> cq_inv s"
  by (blast intro: cq_create_inv cq_run_inv)

end
