(* ===== verification/Command_Queue_Props.thy ===== *)
theory Command_Queue_Props
  imports Command_Queue_Inv
begin

text \<open>
  What the command queue promises its clients, proved from the invariant: bounds, the
  priority/FIFO discipline, exactly-once resolution of futures, the accounting of every
  submission in the statistics, cancellation, and that a shutdown always completes.
\<close>

section \<open>Bounds and identity\<close>

lemma executing_le: "length (executing ws) \<le> length ws"
proof (induction ws)
  case (Cons w ws)
  then show ?case by (cases w) (simp_all add: executing_def)
qed (simp add: executing_def)

lemma listed_distinct:
  assumes "own_inv s"
  shows "distinct (cq_queue s @ executing (cq_workers s))" (is "distinct ?L")
proof -
  have "count (mset ?L) a \<le> 1" for a
  proof -
    have "count (owned s) a \<le> 1" using assms by (simp add: own_inv_def)
    then show ?thesis by (simp add: owned_def)
  qed
  then show ?thesis
    by (metis One_nat_def count_mset_0_iff distinct_count_atmost_1 le_SucE le_zero_eq)
qed

lemma outstanding_bij:
  assumes "cq_inv s"
  shows "bij_betw (\<lambda>a. the (id_of s a)) (set (cq_queue s @ executing (cq_workers s)))
    (dom (cq_tasks s))" (is "bij_betw ?f (set ?L) _")
proof -
  from assms have idx: "index_inv s" by (simp add: cq_inv_def)
  have tasks: "cq_tasks s i = Some a \<longleftrightarrow> id_of s a = Some i \<and> a \<in> set ?L" for i a
    using idx by (simp add: index_inv_def)
  have some_id: "\<exists>i. id_of s a = Some i" if "a \<in> set ?L" for a
  proof -
    have "state_of s a \<noteq> None" using assms that by (auto simp: cq_inv_def state_inv_def)
    then show ?thesis by (auto simp: state_of_def id_of_def)
  qed
  show ?thesis
    unfolding bij_betw_def
  proof
    show "inj_on ?f (set ?L)"
      using some_id tasks by (intro inj_onI) (metis option.sel)
    show "?f ` set ?L = dom (cq_tasks s)"
    proof (intro equalityI subsetI)
      fix i assume "i \<in> ?f ` set ?L"
      then show "i \<in> dom (cq_tasks s)" using some_id tasks by (fastforce simp del: set_append)
    next
      fix i assume "i \<in> dom (cq_tasks s)"
      then obtain a where "id_of s a = Some i" "a \<in> set ?L" using tasks by (auto simp del: set_append)
      then show "i \<in> ?f ` set ?L" by (metis image_eqI option.sel)
    qed
  qed
qed

lemma outstanding_card:
  assumes "cq_inv s"
  shows "card (dom (cq_tasks s)) = length (cq_queue s) + cq_active_count s"
proof -
  have "card (dom (cq_tasks s)) = card (set (cq_queue s @ executing (cq_workers s)))"
    using bij_betw_same_card [OF outstanding_bij [OF assms]] by simp
  also have "\<dots> = length (cq_queue s @ executing (cq_workers s))"
    using assms by (intro distinct_card listed_distinct) (simp add: cq_inv_def)
  finally show ?thesis using assms by (simp add: cq_inv_def count_inv_def)
qed

text \<open>
  C7. In every state the queue can reach, at most \<open>maximumQueueSize\<close> commands wait, at most
  \<open>workerCount\<close> execute, the recorded high watermark covers the waiting commands and never
  exceeds the capacity, and the identifier index holds exactly one entry per outstanding command.
\<close>

theorem cq_bounds:
  assumes "cq_create has_executor opts = Inr s0" and "cq_run s0 es s"
  shows "Size s \<le> stat_highWatermark (cq_statistics s) \<and>
    stat_highWatermark (cq_statistics s) \<le> opt_maximumQueueSize (cq_options s) \<and>
    cq_active_count s \<le> opt_workerCount (cq_options s) \<and>
    card (dom (cq_tasks s)) = Size s + cq_active_count s"
proof -
  have inv: "cq_inv s" using assms by (rule cq_reachable_inv)
  then show ?thesis
    using outstanding_card [OF inv] executing_le [of "cq_workers s"]
    by (simp add: cq_inv_def count_inv_def Size_def)
qed

section \<open>Dequeue order\<close>

text \<open>
  C5. A worker that finds work takes a waiting command of the highest priority, and among those
  the one that has waited longest; the others keep their order. The task is marked running.
\<close>

theorem worker_poll_priority_fifo:
  assumes "cq_queue s \<noteq> []" and "w < length (cq_workers s)"
  shows "\<exists>k < length (cq_queue s).
    cq_workers (worker_poll w s) ! w = W_Executing (cq_queue s ! k) \<and>
    cq_queue (worker_poll w s) = take k (cq_queue s) @ drop (Suc k) (cq_queue s) \<and>
    (\<forall>j < length (cq_queue s).
       task_priority s (cq_queue s ! j) \<le> task_priority s (cq_queue s ! k)) \<and>
    (\<forall>j < k. task_priority s (cq_queue s ! j) < task_priority s (cq_queue s ! k))"
proof -
  let ?k = "max_element (task_priority s) (cq_queue s)"
  have "first_max (task_priority s) (cq_queue s) ?k"
    using assms(1) by (rule max_element_first_max)
  then show ?thesis
    using assms
    by (intro exI [of _ ?k]) (simp add: worker_poll_def Let_def erase_at_def first_max_def)
qed

section \<open>Futures\<close>

text \<open>A promise, once set, keeps its value, and a stored task keeps its command.\<close>

definition resolved_as :: "addr \<Rightarrow> command_result \<Rightarrow> command_queue \<Rightarrow> bool" where
  "resolved_as a r s \<longleftrightarrow> (\<exists>t. cq_store s a = Some t \<and> task_promise t = Some r)"

lemma set_promise_resolved:
  "set_promise b q s = Some s' \<Longrightarrow> resolved_as a r s \<Longrightarrow> resolved_as a r s'"
  by (auto simp: set_promise_def resolved_as_def split: option.splits)

lemma resolved_as_frame [simp]:
  "resolved_as a r (s\<lparr>cq_pending := p\<rparr>) = resolved_as a r s"
  "resolved_as a r (s\<lparr>cq_workers := ws\<rparr>) = resolved_as a r s"
  "resolved_as a r (s\<lparr>cq_shutdown := ph\<rparr>) = resolved_as a r s"
  "resolved_as a r (s\<lparr>cq_shutdown := ph, cq_stop_requested := b\<rparr>) = resolved_as a r s"
  by (simp_all add: resolved_as_def)

lemma Enqueue_resolved:
  "count_inv s \<Longrightarrow> resolved_as a r s \<Longrightarrow> resolved_as a r (fst (Enqueue now c s))"
  by (auto simp: Enqueue_def Let_def resolved_as_def count_inv_def split: option.split)

lemma cq_step_resolved:
  "cq_step s e s' \<Longrightarrow> cq_inv s \<Longrightarrow> resolved_as a r s \<Longrightarrow> resolved_as a r s'"
proof (induction rule: cq_step.induct)
  case (step_enqueue s now c)
  then show ?case by (simp add: cq_inv_def Enqueue_resolved)
next
  case (step_cancel s i)
  then show ?case by (auto simp: Cancel_def Let_def resolved_as_def split: option.split)
next
  case (step_deliver k s s')
  then obtain b q where "set_promise b q (s\<lparr>cq_pending := erase_at k (cq_pending s)\<rparr>) = Some s'"
    by (auto simp: deliver_pending_def split: if_splits prod.splits)
  from set_promise_resolved [OF this] step_deliver show ?case by simp
next
  case (step_register w s)
  then show ?case by (simp add: worker_register_def resolved_as_def)
next
  case (step_poll w s)
  then show ?case by (auto simp: worker_poll_def Let_def resolved_as_def)
next
  case (step_finish w s b now oc now')
  then show ?case by (auto simp: worker_finish_def Let_def resolved_as_def split: option.split)
next
  case (step_publish w s b q)
  then show ?case
    using set_promise_resolved [of b q "s\<lparr>cq_workers := (cq_workers s)[w := W_Waiting]\<rparr>"]
    by (auto simp: worker_publish_def Let_def split: option.split)
next
  case (step_shutdown_begin caller s s')
  then show ?case by (auto simp: Shutdown_begin_def Let_def resolved_as_def split: if_splits)
next
  case (step_shutdown_deliver s as)
  then show ?case
    using set_promise_resolved [of "hd as" shutdown_result "s\<lparr>cq_shutdown := Shut_Delivering (tl as)\<rparr>"]
    by (cases as) (auto simp: shutdown_deliver_def Let_def split: option.split)
next
  case (step_shutdown_finish s)
  then show ?case by (simp add: shutdown_finish_def resolved_as_def)
qed

lemma cq_run_resolved:
  "cq_run s es s' \<Longrightarrow> cq_inv s \<Longrightarrow> resolved_as a r s \<Longrightarrow> resolved_as a r s'"
  by (induction rule: cq_run.induct) (auto intro: cq_step_resolved cq_run_inv)

lemma all_exited_empty:
  "set ws \<subseteq> {W_Exited} \<Longrightarrow> executing ws = [] \<and> publishing ws = []"
  by (induction ws) (auto simp: executing_def publishing_def)

lemma pending_deliverable:
  assumes "cq_inv s" and k: "k < length (cq_pending s)"
  shows "\<exists>s'. deliver_pending k s = Some s'"
proof -
  obtain b q where bq: "cq_pending s ! k = (b, q)" by fastforce
  with k have "(b, q) \<in> set (cq_pending s)" by (metis nth_mem)
  then have "b \<in> fst ` set (cq_pending s)" by force
  then have "b \<in># owned s" by (simp add: owned_def)
  then obtain t where "cq_store s b = Some t" "task_promise t = None"
    using assms(1) owned_unresolved by (auto simp: cq_inv_def)
  then show ?thesis using k bq by (simp add: deliver_pending_def set_promise_def)
qed

lemma shutdown_all_resolved:
  assumes inv: "cq_inv s" and "cq_shutdown_complete s" "cq_pending s = []"
  shows "unresolved s = {}"
proof -
  have ph: "phase_inv s" using inv by (simp add: cq_inv_def)
  then have fin: "cq_shutdown s = Shut_Finished" using assms(2) by (simp add: phase_inv_def)
  with ph have "cq_queue s = []" "set (cq_workers s) \<subseteq> {W_Exited}"
    by (simp_all add: phase_inv_def)
  with assms(3) have none: "owned s = {#}"
    using all_exited_empty [of "cq_workers s"] fin by (simp add: owned_def)
  have "count (owned s) a = of_bool (a \<in> unresolved s)" for a
    using inv by (simp add: cq_inv_def own_inv_def)
  then show ?thesis by (simp add: none set_eq_iff)
qed

text \<open>
  C4. No future is lost and none is satisfied twice: every promise still to be set can be set
  (\<open>set_value\<close> never throws), a satisfied future keeps its result in every later state, and
  once a shutdown has completed and the callers of \<open>Cancel\<close> have returned, every future the
  queue ever handed out is satisfied.
\<close>

theorem cq_futures_resolved_once:
  assumes "cq_create has_executor opts = Inr s0" and "cq_run s0 es s"
  shows "(\<forall>k < length (cq_pending s). \<exists>s'. deliver_pending k s = Some s') \<and>
    (\<forall>es' s' a r. cq_run s es' s' \<and> resolved_as a r s \<longrightarrow> resolved_as a r s') \<and>
    (cq_shutdown_complete s \<and> cq_pending s = [] \<longrightarrow>
      (\<forall>a t. cq_store s a = Some t \<longrightarrow> (\<exists>r. resolved_as a r s)))"
proof -
  have inv: "cq_inv s" using assms by (rule cq_reachable_inv)
  have "\<exists>r. resolved_as a r s"
    if "cq_shutdown_complete s" "cq_pending s = []" "cq_store s a = Some t" for a t
    using shutdown_all_resolved [OF inv that(1,2)] that(3)
    by (auto simp: unresolved_def resolved_as_def)
  then show ?thesis
    using pending_deliverable [OF inv] cq_run_resolved [OF _ inv] by blast
qed

section \<open>Accounting\<close>

definition terminal_total :: "command_queue_statistics \<Rightarrow> u64" where
  "terminal_total st = stat_completed st + stat_cancelled st + stat_failed st + stat_timedOut st
     + stat_rejected st"

definition tally :: "command_queue \<Rightarrow> u64" where
  "tally s = terminal_total (cq_statistics s) + of_nat (length (cq_queue s))
     + of_nat (cq_active_count s)"

fun is_enqueue :: "cq_event \<Rightarrow> bool" where
  "is_enqueue (Ev_Enqueue _ _) = True"
| "is_enqueue _ = False"

lemma terminal_total_record:
  "isTerminal x \<Longrightarrow> terminal_total (RecordResultLocked x st) = terminal_total st + 1"
  by (cases x) (simp_all add: terminal_total_def)

lemma run_executor_terminal: "isTerminal (res_status (run_executor now oc now' c))"
  by (auto simp: run_executor_def Let_def split: outcome.split)

lemma ValidateForQueue_terminal: "ValidateForQueue now c = Some r \<Longrightarrow> isTerminal (res_status r)"
  using timed_check_terminal
  by (fastforce simp: ValidateForQueue_def result_isTerminal_def split: if_splits)

lemma tally_set_promise: "set_promise a r s = Some s' \<Longrightarrow> tally s' = tally s"
  by (simp add: tally_def set_promise_frame)

lemma tally_frame [simp]:
  "tally (s\<lparr>cq_pending := p\<rparr>) = tally s" "tally (s\<lparr>cq_workers := ws\<rparr>) = tally s"
  "tally (s\<lparr>cq_shutdown := ph\<rparr>) = tally s"
  "tally (s\<lparr>cq_shutdown := ph, cq_stop_requested := b\<rparr>) = tally s"
  by (simp_all add: tally_def)

lemma tally_Enqueue: "tally (fst (Enqueue now c s)) = tally s + 1"
proof (cases "ValidateForQueue now c")
  case (Some r)
  then show ?thesis
    by (simp add: Enqueue_def tally_def terminal_total_record ValidateForQueue_terminal)
next
  case None
  then show ?thesis
    by (auto simp: Enqueue_def Let_def tally_def terminal_total_def split: option.split)
qed

lemma tally_Cancel:
  assumes "cq_inv s"
  shows "tally (fst (Cancel i s)) = tally s"
proof (cases "cq_tasks s i")
  case (Some a)
  from listed_meta [OF assms Some] obtain t where "cq_store s a = Some t"
    and "a \<in> set (cq_queue s) \<or> task_state t = Task_Running"
    by (metis (no_types, lifting))
  moreover have "length (cq_queue s) = Suc (length (remove1 a (cq_queue s)))"
    if "a \<in> set (cq_queue s)"
    using that by (metis One_nat_def Suc_pred length_pos_if_in_set length_remove1)
  ultimately show ?thesis
    using Some by (auto simp: Cancel_def Let_def tally_def terminal_total_def)
qed (simp add: Cancel_def)

lemma tally_step:
  "cq_step s e s' \<Longrightarrow> cq_inv s \<Longrightarrow> tally s' = tally s + of_bool (is_enqueue e)"
proof (induction rule: cq_step.induct)
  case (step_enqueue s now c)
  show ?case by (simp add: tally_Enqueue)
next
  case (step_cancel s i)
  then show ?case by (simp add: tally_Cancel)
next
  case (step_deliver k s s')
  then show ?case
    by (auto simp: deliver_pending_def split: if_splits prod.splits dest: tally_set_promise)
next
  case (step_register w s)
  then show ?case by (simp add: worker_register_def)
next
  case (step_poll w s)
  then show ?case
    using max_element_less [of "cq_queue s" "task_priority s"]
    by (cases "cq_queue s") (simp_all add: worker_poll_def Let_def tally_def)
next
  case (step_finish w s a now oc now')
  then have "a \<in> set (executing (cq_workers s))" by (metis in_executing nth_mem)
  moreover from this step_finish obtain t where "cq_store s a = Some t"
    by (force simp: cq_inv_def state_inv_def state_of_def)
  moreover from calculation step_finish have "0 < cq_active_count s"
    by (auto simp: cq_inv_def count_inv_def)
  ultimately show ?case
    using run_executor_terminal
    by (cases "cq_active_count s")
      (simp_all add: worker_finish_def Let_def tally_def terminal_total_record)
next
  case (step_publish w s a r)
  then show ?case
    by (auto simp: worker_publish_def Let_def split: option.split dest: tally_set_promise)
next
  case (step_shutdown_begin caller s s')
  then show ?case
    by (auto simp: Shutdown_begin_def Let_def tally_def terminal_total_def split: if_splits)
next
  case (step_shutdown_deliver s as)
  then show ?case
    by (cases as) (auto simp: shutdown_deliver_def Let_def split: option.split dest: tally_set_promise)
next
  case (step_shutdown_finish s)
  then show ?case by (simp add: shutdown_finish_def tally_def)
qed

text \<open>
  The statistics account for every submission exactly once: after any interleaving, the
  number of \<open>Enqueue\<close> calls made so far is the sum of the five terminal counters plus the
  commands still waiting or executing, as reported by \<open>GetStatistics\<close> (modulo \<open>2 ^ 64\<close>, the
  width of the counters).
\<close>

theorem cq_statistics_account:
  assumes "cq_create has_executor opts = Inr s0" and "cq_run s0 es s"
  shows "(of_nat (length (filter is_enqueue es)) :: u64) =
    terminal_total (GetStatistics s) + of_nat (stat_queued (GetStatistics s))
      + of_nat (stat_active (GetStatistics s))"
proof -
  have "tally s' = tally s0 + of_nat (length (filter is_enqueue es'))" if "cq_run s0 es' s'" for es' s'
    using that cq_create_inv [OF assms(1)]
  proof (induction s0 es' s' rule: cq_run.induct)
    case (run_snoc s es s' e s'')
    then show ?case using tally_step [OF run_snoc.hyps(2)] cq_run_inv [OF run_snoc.hyps(1)] by simp
  qed simp
  from this [OF assms(2)] show ?thesis
    using assms(1)
    by (auto simp: tally_def terminal_total_def GetStatistics_def cq_create_def zero_statistics_def
        split: if_splits)
qed

section \<open>Execution and cancellation\<close>

text \<open>
  The result a worker publishes is always terminal; the executor's own result is passed on
  exactly when the command had not expired before the call and the result is terminal and not a
  success that came too late.
\<close>

theorem run_executor_result:
  "isTerminal (res_status (run_executor now oc now' c)) \<and>
   (HasExpired now c \<longrightarrow> res_status (run_executor now oc now' c) = Status_Timeout) \<and>
   (\<forall>r. \<not> HasExpired now c \<and> oc = Returned r \<longrightarrow>
      run_executor now oc now' c =
        (if res_status r = Status_Completed \<and> HasExpired now' c then
           Result Status_Timeout ''Command completed after its timeout''
         else if isTerminal (res_status r) then r
         else Result Status_Failed ''Command executor returned a nonterminal status'')) \<and>
   (\<not> HasExpired now c \<and> (\<forall>r. oc \<noteq> Returned r) \<longrightarrow>
      res_status (run_executor now oc now' c) = Status_Failed)"
  by (cases oc) (auto simp: run_executor_def Let_def)

text \<open>
  In every reachable state \<open>Cancel\<close> answers \<open>Cancelled\<close> exactly for a nonzero identifier
  whose command still waits; it then removes that command from the queue and the index, and
  leaves everything else in place. Otherwise it changes nothing and answers \<open>Rejected\<close>.
\<close>

theorem Cancel_behaviour:
  assumes "cq_create has_executor opts = Inr s0" and "cq_run s0 es s"
  shows "(if \<exists>a \<in> set (cq_queue s). id_of s a = Some i \<and> i \<noteq> 0
     then res_status (snd (Cancel i s)) = Status_Cancelled \<and>
       \<not> Contains i (fst (Cancel i s)) \<and>
       Size (fst (Cancel i s)) + 1 = Size s \<and>
       (\<forall>j. j \<noteq> i \<longrightarrow> Contains j (fst (Cancel i s)) = Contains j s) \<and>
       (\<exists>a. cq_queue (fst (Cancel i s)) = filter (\<lambda>b. b \<noteq> a) (cq_queue s))
     else res_status (snd (Cancel i s)) = Status_Rejected \<and> fst (Cancel i s) = s)"
proof -
  have inv: "cq_inv s" using assms by (rule cq_reachable_inv)
  then have idx: "index_inv s" and own: "own_inv s" by (simp_all add: cq_inv_def)
  show ?thesis
  proof (cases "\<exists>a \<in> set (cq_queue s). id_of s a = Some i \<and> i \<noteq> 0")
    case True
    then obtain a where a: "a \<in> set (cq_queue s)" "id_of s a = Some i" "i \<noteq> 0" by blast
    then have ti: "cq_tasks s i = Some a" using idx by (auto simp: index_inv_def)
    have "map_option task_state (cq_store s a) \<noteq> Some Task_Running"
      using a(1) inv by (auto simp: cq_inv_def state_inv_def state_of_def)
    moreover have "remove1 a (cq_queue s) = filter (\<lambda>b. b \<noteq> a) (cq_queue s)"
      using queue_distinct [OF own] by (simp add: distinct_remove1_removeAll removeAll_filter_not_eq eq_commute)
    moreover have "Suc (length (remove1 a (cq_queue s))) = length (cq_queue s)"
      using a(1) by (metis One_nat_def Suc_pred length_pos_if_in_set length_remove1)
    ultimately show ?thesis
      using True a ti by (auto simp: Cancel_def Let_def Contains_def Size_def)
  next
    case False
    have "map_option task_state (cq_store s a) = Some Task_Running"
      if "i \<noteq> 0" "cq_tasks s i = Some a" for a
    proof -
      have "a \<notin> set (cq_queue s)" using that False idx by (auto simp: index_inv_def)
      then show ?thesis using listed_meta [OF inv that(2)] by fastforce
    qed
    then show ?thesis
      using False by (auto simp: Cancel_def split: option.split)
  qed
qed

section \<open>Shutdown completes\<close>

text \<open>
  Steps other than new calls from outside. During a shutdown each of them brings the queue
  closer to completion, measured by the work every thread has left.
\<close>

fun is_internal :: "cq_event \<Rightarrow> bool" where
  "is_internal (Ev_Enqueue _ _) = False"
| "is_internal (Ev_Cancel _) = False"
| "is_internal (Ev_ShutdownBegin _) = False"
| "is_internal _ = True"

fun worker_left :: "worker \<Rightarrow> nat" where
  "worker_left W_Exited = 0"
| "worker_left W_Waiting = 1"
| "worker_left W_Starting = 2"
| "worker_left (W_Publishing _ _) = 2"
| "worker_left (W_Executing _) = 3"

fun phase_left :: "shutdown_phase \<Rightarrow> nat" where
  "phase_left (Shut_Delivering as) = length as + 2"
| "phase_left Shut_Joining = 1"
| "phase_left _ = 0"

definition drain_measure :: "command_queue \<Rightarrow> nat" where
  "drain_measure s = sum_list (map worker_left (cq_workers s)) + length (cq_pending s)
     + phase_left (cq_shutdown s)"

lemma worker_left_update:
  assumes "w < length ws"
  shows "sum_list (map worker_left (ws[w := x])) + worker_left (ws ! w) =
    sum_list (map worker_left ws) + worker_left x"
  using assms
proof (induction ws arbitrary: w)
  case (Cons y ws)
  then show ?case by (cases w) auto
qed simp

lemma set_promise_measure:
  "set_promise a r s = Some s' \<Longrightarrow> drain_measure s' = drain_measure s"
  by (auto simp: set_promise_def drain_measure_def split: option.splits)

lemma worker_step_measure:
  assumes "w < length (cq_workers s)" "worker_left x < worker_left (cq_workers s ! w)"
  shows "drain_measure (s\<lparr>cq_workers := (cq_workers s)[w := x]\<rparr>) < drain_measure s"
  using worker_left_update [OF assms(1), of x] assms(2) by (simp add: drain_measure_def)

lemma internal_step_decreases:
  assumes "cq_step s e s'" "cq_inv s" "cq_shutdown_in_progress s" "is_internal e"
  shows "drain_measure s' < drain_measure s"
  using assms
proof (induction rule: cq_step.induct)
  case (step_deliver k s s')
  then obtain a r where "set_promise a r (s\<lparr>cq_pending := erase_at k (cq_pending s)\<rparr>) = Some s'"
    and "k < length (cq_pending s)"
    by (auto simp: deliver_pending_def split: if_splits prod.splits)
  then show ?case by (auto simp: drain_measure_def dest!: set_promise_measure)
next
  case (step_register w s)
  then show ?case unfolding worker_register_def by (intro worker_step_measure) simp_all
next
  case (step_poll w s)
  then have "cq_queue s = []" "\<not> cq_accepting s" by (auto simp: cq_inv_def phase_inv_def)
  then show ?case
    using step_poll worker_step_measure [of w s W_Exited] by (simp add: worker_poll_def)
next
  case (step_finish w s a now oc now')
  then have "a \<in> set (executing (cq_workers s))" by (metis in_executing nth_mem)
  with step_finish obtain t where "cq_store s a = Some t"
    by (force simp: cq_inv_def state_inv_def state_of_def)
  then show ?case
    using step_finish worker_left_update [of w "cq_workers s"]
    by (simp add: worker_finish_def Let_def drain_measure_def) (metis add_less_cancel_right add_less_cancel_left less_add_Suc1 lessI numeral_2_eq_2 numeral_3_eq_3 worker_left.simps(4))
next
  case (step_publish w s a r)
  then have "drain_measure (s\<lparr>cq_workers := (cq_workers s)[w := W_Waiting]\<rparr>) < drain_measure s"
    by (intro worker_step_measure) simp_all
  then show ?case
    by (auto simp: worker_publish_def Let_def set_promise_measure split: option.split)
next
  case (step_shutdown_deliver s as)
  then show ?case
    by (cases as) (auto simp: shutdown_deliver_def Let_def drain_measure_def
        dest!: set_promise_measure split: option.split)
next
  case (step_shutdown_finish s)
  then show ?case by (simp add: shutdown_finish_def drain_measure_def)
qed simp_all

lemma internal_step_exists:
  assumes inv: "cq_inv s" and prog: "cq_shutdown_in_progress s"
  shows "\<exists>e s'. is_internal e \<and> cq_step s e s'"
proof (cases "cq_shutdown s")
  case (Shut_Delivering as)
  then show ?thesis using step_shutdown_deliver is_internal.simps by metis
next
  case Shut_Joining
  show ?thesis
  proof (cases "set (cq_workers s) \<subseteq> {W_Exited}")
    case True
    with Shut_Joining show ?thesis using step_shutdown_finish is_internal.simps by metis
  next
    case False
    then obtain x where "x \<in> set (cq_workers s)" "x \<noteq> W_Exited" by blast
    then obtain w where w: "w < length (cq_workers s)" "cq_workers s ! w \<noteq> W_Exited"
      by (auto simp: in_set_conv_nth)
    have "worker_wake s" using inv prog by (auto simp: cq_inv_def phase_inv_def worker_wake_def)
    then show ?thesis
      using w by (cases "cq_workers s ! w")
        (metis step_register step_poll step_finish step_publish is_internal.simps)+
  qed
qed (use inv prog in \<open>auto simp: cq_inv_def phase_inv_def\<close>)

lemma cq_run_cons:
  assumes "cq_step s e s'" "cq_run s' es s''"
  shows "cq_run s (e # es) s''"
  using assms(2,1)
proof (induction s' es s'' rule: cq_run.induct)
  case (run_nil s')
  then show ?case using cq_run.run_snoc [OF cq_run.run_nil, of s e s'] by simp
next
  case (run_snoc s1 es s2 e' s3)
  then show ?case using cq_run.run_snoc [of s "e # es" s2 e' s3] by simp
qed

lemma internal_step_phase:
  assumes "cq_step s e s'" "cq_inv s" "cq_shutdown_in_progress s" "is_internal e"
  shows "cq_shutdown_in_progress s' \<or> cq_shutdown_complete s'"
  using assms
proof (induction rule: cq_step.induct)
  case (step_deliver k s s')
  then show ?case
    by (auto simp: deliver_pending_def set_promise_def split: if_splits prod.splits option.splits)
next
  case (step_publish w s a r)
  then show ?case by (auto simp: worker_publish_def set_promise_def Let_def split: option.split)
next
  case (step_shutdown_deliver s as)
  then show ?case
    by (cases as) (auto simp: shutdown_deliver_def set_promise_def Let_def split: option.split)
qed (auto simp: worker_register_def worker_poll_def worker_finish_def shutdown_finish_def Let_def
    split: option.split)

text \<open>
  C6. A shutdown in progress cannot get stuck: whatever the workers are doing, each step they or
  the shutting-down thread take reduces the work left, and there is a continuation of at most
  \<open>drain_measure\<close> such steps after which the shutdown is complete. (An executor call counts as one
  step: it is assumed to return or throw.)
\<close>

theorem shutdown_completes:
  assumes "cq_create has_executor opts = Inr s0" and "cq_run s0 es s"
    and "cq_shutdown_in_progress s"
  shows "(\<forall>e s'. cq_step s e s' \<and> is_internal e \<longrightarrow> drain_measure s' < drain_measure s) \<and>
    (\<exists>es' s'. cq_run s es' s' \<and> (\<forall>e \<in> set es'. is_internal e) \<and>
       length es' \<le> drain_measure s \<and> cq_shutdown_complete s')"
proof -
  have inv: "cq_inv s" using assms(1,2) by (rule cq_reachable_inv)
  have "\<exists>es' s'. cq_run s es' s' \<and> (\<forall>e \<in> set es'. is_internal e) \<and>
       length es' \<le> drain_measure s \<and> cq_shutdown_complete s'"
    using inv assms(3)
  proof (induction "drain_measure s" arbitrary: s rule: less_induct)
    case less
    obtain e s1 where e: "is_internal e" "cq_step s e s1"
      using internal_step_exists [OF less.prems] by blast
    have dec: "drain_measure s1 < drain_measure s"
      using internal_step_decreases [OF e(2) less.prems e(1)] .
    have inv1: "cq_inv s1" using e(2) less.prems(1) by (rule cq_step_inv)
    show ?case
    proof (cases "cq_shutdown_complete s1")
      case True
      then show ?thesis
        using cq_run_cons [OF e(2) run_nil] e(1) dec by (intro exI [of _ "[e]"] exI [of _ s1]) simp
    next
      case False
      then have "cq_shutdown_in_progress s1"
        using internal_step_phase [OF e(2) less.prems e(1)] by simp
      from less.hyps [OF dec inv1 this] obtain es' s' where "cq_run s1 es' s'"
        "\<forall>e \<in> set es'. is_internal e" "length es' \<le> drain_measure s1" "cq_shutdown_complete s'"
        by blast
      then show ?thesis
        using cq_run_cons [OF e(2)] e(1) dec
        by (intro exI [of _ "e # es'"] exI [of _ s']) simp
    qed
  qed
  then show ?thesis using internal_step_decreases [OF _ inv assms(3)] by blast
qed

section \<open>Concrete runs\<close>

text \<open>
  A one-worker queue of capacity two, a submission to it, the worker taking it, and a shutdown
  requested while another command waits.
\<close>

definition demo_options :: command_queue_options where
  "demo_options = \<lparr>opt_maximumQueueSize = 2, opt_workerCount = 1\<rparr>"

definition demo_queue :: command_queue where
  "demo_queue = projr (cq_create True demo_options)"

definition demo_command :: command where
  "demo_command = default_command\<lparr>cmd_id := 7, cmd_priority := Priority_High\<rparr>"

definition demo_submitted :: command_queue where
  "demo_submitted = fst (Enqueue 0 demo_command demo_queue)"

definition demo_stopping :: command_queue where
  "demo_stopping = projr (the (Shutdown_begin None demo_submitted))"

lemma demo_created: "cq_create True demo_options = Inr demo_queue"
  by (simp add: demo_queue_def cq_create_def demo_options_def)

lemma demo_submit_run: "cq_run demo_queue [Ev_Enqueue 0 demo_command] demo_submitted"
  using run_snoc [OF run_nil step_enqueue] by (simp add: demo_submitted_def)

lemmas demo_eval = demo_submitted_def demo_queue_def demo_command_def demo_options_def cq_create_def
  Enqueue_def ValidateForQueue_def enqueue_refusal_def new_task_def default_command_def
  hasTimeout_def zero_statistics_def

lemma demo_stopping_run:
  "cq_run demo_queue [Ev_Enqueue 0 demo_command, Ev_ShutdownBegin None] demo_stopping"
  "cq_shutdown_in_progress demo_stopping"
proof -
  have start: "Shutdown_begin None demo_submitted = Some (Inr demo_stopping)"
    and prog: "cq_shutdown_in_progress demo_stopping"
    by (simp_all add: demo_stopping_def Shutdown_begin_def IsWorkerThread_def Let_def demo_eval)
  show "cq_run demo_queue [Ev_Enqueue 0 demo_command, Ev_ShutdownBegin None] demo_stopping"
    using run_snoc [OF demo_submit_run step_shutdown_begin [OF start]] by simp
  show "cq_shutdown_in_progress demo_stopping" by (rule prog)
qed

lemma cq_bounds_witness:
  "Size demo_submitted = 1 \<and>
   card (dom (cq_tasks demo_submitted)) = Size demo_submitted + cq_active_count demo_submitted"
  using cq_bounds [OF demo_created demo_submit_run]
  by (simp add: Size_def demo_eval Let_def)

lemma worker_poll_priority_fifo_witness:
  "\<exists>k < length (cq_queue demo_submitted).
     cq_workers (worker_poll 0 demo_submitted) ! 0 = W_Executing (cq_queue demo_submitted ! k)"
proof -
  have "cq_queue demo_submitted \<noteq> []" "0 < length (cq_workers demo_submitted)"
    by (simp_all add: demo_eval Let_def)
  from worker_poll_priority_fifo [OF this] show ?thesis by blast
qed

lemma cq_futures_resolved_once_witness:
  "(\<exists>s'. deliver_pending 0 (fst (Cancel 7 demo_submitted)) = Some s') \<and>
   length (cq_pending (fst (Cancel 7 demo_submitted))) = 1"
proof -
  have "cq_run demo_queue [Ev_Enqueue 0 demo_command, Ev_Cancel 7] (fst (Cancel 7 demo_submitted))"
    using run_snoc [OF demo_submit_run step_cancel] by simp
  note cq_futures_resolved_once [OF demo_created this]
  moreover have "length (cq_pending (fst (Cancel 7 demo_submitted))) = 1"
    by (simp add: Cancel_def demo_eval Let_def)
  ultimately show ?thesis by simp
qed

lemma cq_statistics_account_witness:
  "(1 :: u64) = terminal_total (GetStatistics demo_submitted)
     + of_nat (stat_queued (GetStatistics demo_submitted))
     + of_nat (stat_active (GetStatistics demo_submitted))"
  using cq_statistics_account [OF demo_created demo_submit_run] by simp

lemma run_executor_result_witness:
  "run_executor 5 (Returned (Result Status_Completed ''ok'')) 6 demo_command =
     Result Status_Completed ''ok''"
  using run_executor_result [of 5 "Returned (Result Status_Completed ''ok'')" 6 demo_command]
  by (simp add: HasExpired_def hasTimeout_def demo_command_def default_command_def)

lemma Cancel_behaviour_witness:
  "res_status (snd (Cancel 7 demo_submitted)) = Status_Cancelled \<and>
   \<not> Contains 7 (fst (Cancel 7 demo_submitted))"
proof -
  have "\<exists>a \<in> set (cq_queue demo_submitted). id_of demo_submitted a = Some 7 \<and> (7 :: u64) \<noteq> 0"
    by (simp add: id_of_def demo_eval Let_def)
  with Cancel_behaviour [OF demo_created demo_submit_run, of 7] show ?thesis by simp
qed

lemma shutdown_completes_witness:
  "\<exists>es' s'. cq_run demo_stopping es' s' \<and> (\<forall>e \<in> set es'. is_internal e) \<and>
     length es' \<le> drain_measure demo_stopping \<and> cq_shutdown_complete s'"
  using shutdown_completes [OF demo_created demo_stopping_run] by blast

end
