(* ===== verification/Command_Dispatcher.thy ===== *)
theory Command_Dispatcher
  imports Safety_Validator Command_Queue_Props
begin

text \<open>
  The dispatcher of \<open>src/core/CommandDispatcher.cpp\<close>: validation of command fields and payloads,
  the safety gate in front of the robot adapter, synchronous execution, asynchronous execution
  through the command queue, cancellation and shutdown. The adapter
  (\<open>include/humanoid/core/RobotAdapter.h\<close>) is an interface; the model takes the answers of its
  methods at the time of the call as an argument.
\<close>

section \<open>Payload validation\<close>

definition payload_find :: "command_payload \<Rightarrow> string \<Rightarrow> payload_value option" where
  "payload_find p k = map_of p k"

text \<open>
  \<open>static_cast<double>\<close> of a 64-bit integer: round to nearest, ties to even, on 53 bits.
\<close>

definition round_half_even :: "int \<Rightarrow> int \<Rightarrow> int" where
  "round_half_even i m =
     (let q = i div m; r = i mod m in
      if 2 * r < m then q else if 2 * r > m then q + 1 else if even q then q else q + 1)"

definition int64_to_double :: "int \<Rightarrow> fl" where
  "int64_to_double i =
     (case find (\<lambda>k. \<bar>i\<bar> < 2 ^ (53 + k)) [0..<12] of
        Some k \<Rightarrow> Fin (of_int (round_half_even i (2 ^ k) * 2 ^ k))
      | None \<Rightarrow> Fin (of_int i))"

definition NumericPayloadValue :: "command_payload \<Rightarrow> string \<Rightarrow> fl option" where
  "NumericPayloadValue p k =
     (case payload_find p k of
        None \<Rightarrow> None
      | Some (PV_Double d) \<Rightarrow> Some d
      | Some (PV_Int i) \<Rightarrow> Some (int64_to_double i)
      | Some _ \<Rightarrow> None)"

text \<open>\<open>std::numeric_limits<float>::max()\<close>, exactly.\<close>

definition max_float :: rat where
  "max_float = (2 ^ 24 - 1) * 2 ^ 104"

definition IsFiniteFloat :: "fl \<Rightarrow> bool" where
  "IsFiniteFloat v = (fl_isfinite v \<and> fl_le (Fin (- max_float)) v \<and> fl_le v (Fin max_float))"

definition HasValidNumber :: "command_payload \<Rightarrow> string \<Rightarrow> bool" where
  "HasValidNumber p k =
     (case NumericPayloadValue p k of Some v \<Rightarrow> IsFiniteFloat v | None \<Rightarrow> False)"

definition has_string :: "command_payload \<Rightarrow> string \<Rightarrow> bool" where
  "has_string p k = (case payload_find p k of Some (PV_String _) \<Rightarrow> True | _ \<Rightarrow> False)"

definition reject :: "string \<Rightarrow> command_result option" where
  "reject msg = Some (Result Status_Rejected msg)"

definition validate_no_payload :: "command_payload \<Rightarrow> command_result option" where
  "validate_no_payload p =
     (if p \<noteq> [] then reject ''Command type does not accept payload parameters'' else None)"

definition validate_velocity :: "command_payload \<Rightarrow> command_result option" where
  "validate_velocity p =
     (if length p \<noteq> 3 \<or> \<not> HasValidNumber p ''linear_x'' \<or> \<not> HasValidNumber p ''linear_y'' \<or>
         \<not> HasValidNumber p ''angular_z'' then
        reject ''Velocity commands require finite linear_x, linear_y, and angular_z values''
      else None)"

fun ValidatePayload_for :: "command_type \<Rightarrow> command_payload \<Rightarrow> command_result option" where
  "ValidatePayload_for Type_Stand p = validate_no_payload p"
| "ValidatePayload_for Type_Sit p = validate_no_payload p"
| "ValidatePayload_for Type_Stop p = validate_no_payload p"
| "ValidatePayload_for Type_EmergencyStop p = validate_no_payload p"
| "ValidatePayload_for Type_HandOpen p = validate_no_payload p"
| "ValidatePayload_for Type_HandClose p = validate_no_payload p"
| "ValidatePayload_for Type_MuteAudio p = validate_no_payload p"
| "ValidatePayload_for Type_Walk p = validate_velocity p"
| "ValidatePayload_for Type_Move p = validate_velocity p"
| "ValidatePayload_for Type_Velocity p = validate_velocity p"
| "ValidatePayload_for Type_Rotate p =
     (if length p \<noteq> 1 \<or> \<not> HasValidNumber p ''angular_z'' then
        reject ''Rotate requires one finite angular_z payload value'' else None)"
| "ValidatePayload_for Type_Gesture p =
     (if length p \<noteq> 1 \<or> \<not> has_string p ''gesture'' then
        reject ''Gesture requires one string gesture payload value'' else None)"
| "ValidatePayload_for Type_PlayAudio p =
     (if \<not> has_string p ''app_name'' \<or> \<not> has_string p ''stream_id'' \<or> \<not> has_string p ''pcm_data'' then
        reject ''PlayAudio requires string app_name, stream_id, and pcm_data payload values''
      else None)"
| "ValidatePayload_for Type_StopAudio p =
     (if length p \<noteq> 1 \<or> \<not> has_string p ''app_name'' then
        reject ''StopAudio requires one string app_name payload value'' else None)"
| "ValidatePayload_for Type_SetVolume p =
     (case payload_find p ''volume'' of
        Some (PV_Int v) \<Rightarrow>
          (if length p \<noteq> 1 then reject ''SetVolume requires one integer volume payload value''
           else if v < 0 \<or> v > 100 then reject ''SetVolume volume must be in range [0, 100]''
           else None)
      | _ \<Rightarrow> reject ''SetVolume requires one integer volume payload value'')"
| "ValidatePayload_for Type_Custom p = None"
| "ValidatePayload_for (Type_Other _) p = reject ''Command type is invalid''"

definition ValidatePayload :: "command \<Rightarrow> command_result option" where
  "ValidatePayload c = ValidatePayload_for (cmd_type c) (cmd_payload c)"

definition ValidateCommand :: "time_ns \<Rightarrow> command \<Rightarrow> command_result option" where
  "ValidateCommand now c =
     (if cmd_id c = 0 then reject ''Command identifier must be nonzero''
      else if cmd_timeout c < 0 then reject ''Command timeout must not be negative''
      else if \<not> IsKnownCommandType (cmd_type c) then reject ''Command type is invalid''
      else if \<not> IsKnownPriority (cmd_priority c) then reject ''Command priority is invalid''
      else if hasTimeout c then
        (case timed_check ''Command expired before execution'' now c of
           Some r \<Rightarrow> Some r
         | None \<Rightarrow> ValidatePayload c)
      else ValidatePayload c)"

section \<open>State\<close>

text \<open>Answers of the adapter's methods; each virtual call may throw.\<close>

record robot_adapter =
  ad_GetRobotState :: "robot_state outcome"
  ad_supportsPowerState :: "bool outcome"
  ad_GetCommandCapabilities :: "command_capability_set outcome"
  ad_ExecuteCommand :: "command \<Rightarrow> command_result outcome"

record dispatcher =
  disp_state_manager :: "robot_state_manager option"
  disp_capabilities :: command_capability_set
  disp_safety_options :: safety_validator_options
  disp_capabilities_overridden :: bool
  disp_synchronous_ids :: "u64 set"
  disp_accepting :: bool
  disp_shutdown_in_progress :: bool
  disp_shutdown_complete :: bool
  disp_queue :: command_queue

definition LegacySafetyValidator :: safety_validator_options where
  "LegacySafetyValidator = default_safety_options\<lparr>
     requireBatteryStateForActuatorCommands := False, enforceBatteryRange := False,
     rejectRobotFaults := False, enforceMotionStateConsistency := False,
     requireStandingForBaseMotion := False\<rparr>"

definition kDispatcherMaximumQueueSize :: nat where
  "kDispatcherMaximumQueueSize = 1024"

definition disp_make ::
  "robot_state_manager option \<Rightarrow> command_capability_set \<Rightarrow> safety_validator_options \<Rightarrow> bool
     \<Rightarrow> string + dispatcher" where
  "disp_make sm caps opts overridden =
     (case cq_create True \<lparr>opt_maximumQueueSize = kDispatcherMaximumQueueSize, opt_workerCount = 1\<rparr> of
        Inl e \<Rightarrow> Inl e
      | Inr q \<Rightarrow> Inr \<lparr>disp_state_manager = sm, disp_capabilities = caps, disp_safety_options = opts,
          disp_capabilities_overridden = overridden, disp_synchronous_ids = {},
          disp_accepting = True, disp_shutdown_in_progress = False, disp_shutdown_complete = False,
          disp_queue = q\<rparr>)"

text \<open>The two public constructors.\<close>

definition disp_create_legacy :: "string + dispatcher" where
  "disp_create_legacy = disp_make None LegacyAdapterDefaults LegacySafetyValidator False"

definition disp_create ::
  "robot_state_manager option \<Rightarrow> command_capability_set \<Rightarrow> safety_validator_options
     \<Rightarrow> string + dispatcher" where
  "disp_create sm caps opts = disp_make sm caps opts True"

section \<open>Dispatch\<close>

definition BuildSafetyContextLocked ::
  "dispatcher \<Rightarrow> robot_adapter \<Rightarrow> safety_validation_context outcome" where
  "BuildSafetyContextLocked d ad =
     (case (if disp_capabilities_overridden d then Returned (disp_capabilities d)
            else ad_GetCommandCapabilities ad) of
        ThrewException e \<Rightarrow> ThrewException e
      | ThrewUnknown \<Rightarrow> ThrewUnknown
      | Returned caps \<Rightarrow>
          (let ctx = \<lparr>ctx_robotState = default_robot_state, ctx_capabilities = caps,
                 ctx_robotStateAvailable = False, ctx_batteryStateAvailable = False,
                 ctx_capabilitiesAvailable = True\<rparr> in
           Returned (case disp_state_manager d of
             Some sm \<Rightarrow> ctx\<lparr>ctx_robotState := GetState sm, ctx_robotStateAvailable := True,
                 ctx_batteryStateAvailable := True\<rparr>
           | None \<Rightarrow>
               (case ad_GetRobotState ad of
                  Returned st \<Rightarrow>
                    (case ad_supportsPowerState ad of
                       Returned b \<Rightarrow> ctx\<lparr>ctx_robotState := st, ctx_robotStateAvailable := True,
                           ctx_batteryStateAvailable := b \<or> fl_lt (Fin 0) (batteryLevel (power st))\<rparr>
                     | _ \<Rightarrow> ctx\<lparr>ctx_robotState := st\<rparr>)
                | _ \<Rightarrow> ctx))))"

text \<open>
  \<open>Dispatch\<close> makes up to five clock readings, \<open>clk 0\<close> to \<open>clk 4\<close>. The first component of the
  result is the list of commands handed to \<open>RobotAdapter::ExecuteCommand\<close>.
\<close>

definition Dispatch ::
  "(nat \<Rightarrow> time_ns) \<Rightarrow> dispatcher \<Rightarrow> robot_adapter option \<Rightarrow> command
     \<Rightarrow> command list \<times> command_result outcome" where
  "Dispatch clk d adapter c =
     (case adapter of
        None \<Rightarrow> ([], Returned (Result Status_Rejected ''Robot adapter dependency is unavailable''))
      | Some ad \<Rightarrow>
          (if HasExpired (clk 0) c \<or> HasExpired (clk 1) c then
             ([], Returned (Result Status_Timeout ''Command expired before adapter execution''))
           else
             (case BuildSafetyContextLocked d ad of
                ThrewException e \<Rightarrow> ([], ThrewException e)
              | ThrewUnknown \<Rightarrow> ([], ThrewUnknown)
              | Returned ctx \<Rightarrow>
                  (let safety_result = Validate (disp_safety_options d) (clk 2) (clk 3) c ctx in
                   if \<not> isSuccess safety_result then ([], Returned safety_result)
                   else
                     ([c], (case ad_ExecuteCommand ad c of
                        Returned r \<Rightarrow>
                          Returned (if HasExpired (clk 4) c
                            then Result Status_Timeout ''Command completed after its timeout'' else r)
                      | ThrewException e \<Rightarrow> ThrewException e
                      | ThrewUnknown \<Rightarrow> ThrewUnknown))))))"

section \<open>Public operations\<close>

text \<open>
  \<open>Execute\<close> registers the identifier in one critical section, dispatches without holding the
  state mutex, and releases the identifier when its registration object is destroyed.
\<close>

definition Execute_begin :: "time_ns \<Rightarrow> command \<Rightarrow> dispatcher \<Rightarrow> command_result + dispatcher" where
  "Execute_begin now c d =
     (case ValidateCommand now c of
        Some r \<Rightarrow> Inl r
      | None \<Rightarrow>
          (if \<not> disp_accepting d then
             Inl (Result Status_Rejected ''Command dispatcher is shut down'')
           else if cmd_id c \<in> disp_synchronous_ids d \<or> Contains (cmd_id c) (disp_queue d) then
             Inl (Result Status_Rejected ''Command identifier is already in flight'')
           else Inr (d\<lparr>disp_synchronous_ids := insert (cmd_id c) (disp_synchronous_ids d)\<rparr>)))"

definition ReleaseSynchronous :: "u64 \<Rightarrow> dispatcher \<Rightarrow> dispatcher" where
  "ReleaseSynchronous i d = d\<lparr>disp_synchronous_ids := disp_synchronous_ids d - {i}\<rparr>"

definition execute_result :: "command_result outcome \<Rightarrow> command_result" where
  "execute_result oc =
     (case oc of
        Returned r \<Rightarrow> r
      | ThrewException e \<Rightarrow> Result Status_Failed (''Command dispatch failed: '' @ e)
      | ThrewUnknown \<Rightarrow> Result Status_Failed ''Command dispatch failed with an unknown error'')"

text \<open>A call of \<open>Execute\<close> that no other call interleaves with; the clock reading of the
  validation is \<open>clk 5\<close>.\<close>

definition Execute ::
  "(nat \<Rightarrow> time_ns) \<Rightarrow> robot_adapter option \<Rightarrow> command \<Rightarrow> dispatcher
     \<Rightarrow> dispatcher \<times> command list \<times> command_result" where
  "Execute clk adapter c d =
     (case Execute_begin (clk 5) c d of
        Inl r \<Rightarrow> (d, [], r)
      | Inr d' \<Rightarrow>
          (case Dispatch clk d' adapter c of
             (issued, oc) \<Rightarrow> (ReleaseSynchronous (cmd_id c) d', issued, execute_result oc)))"

definition ExecuteAsync ::
  "time_ns \<Rightarrow> time_ns \<Rightarrow> command \<Rightarrow> dispatcher \<Rightarrow> dispatcher \<times> future" where
  "ExecuteAsync now now' c d =
     (case ValidateCommand now c of
        Some r \<Rightarrow> (d, Future_Ready r)
      | None \<Rightarrow>
          (if \<not> disp_accepting d then
             (d, Future_Ready (Result Status_Rejected ''Command dispatcher is shut down''))
           else if cmd_id c \<in> disp_synchronous_ids d then
             (d, Future_Ready (Result Status_Rejected ''Command identifier is already in flight''))
           else
             (case Enqueue now' c (disp_queue d) of
                (q, f) \<Rightarrow> (d\<lparr>disp_queue := q\<rparr>, f))))"

definition disp_Cancel :: "u64 \<Rightarrow> dispatcher \<Rightarrow> dispatcher \<times> command_result" where
  "disp_Cancel i d =
     (if i \<in> disp_synchronous_ids d then
        (d, Result Status_Rejected ''A synchronously executing command cannot be cancelled'')
      else (case Cancel i (disp_queue d) of (q, r) \<Rightarrow> (d\<lparr>disp_queue := q\<rparr>, r)))"

text \<open>
  The first critical section of \<open>Shutdown\<close> (\<open>None\<close>: wait for the shutdown in progress), the
  call of the queue's shutdown, and the final critical section, which waits until no synchronous
  command is in flight.
\<close>

definition disp_Shutdown_begin :: "dispatcher \<Rightarrow> (command_result + dispatcher) option" where
  "disp_Shutdown_begin d =
     (if disp_shutdown_complete d then
        Some (Inl (Result Status_Completed ''Command dispatcher is shut down''))
      else if disp_shutdown_in_progress d then None
      else Some (Inr (d\<lparr>disp_shutdown_in_progress := True, disp_accepting := False\<rparr>)))"

definition disp_Shutdown_finish ::
  "command_result \<Rightarrow> dispatcher \<Rightarrow> (dispatcher \<times> command_result) option" where
  "disp_Shutdown_finish queue_result d =
     (if disp_synchronous_ids d \<noteq> {} then None
      else Some (d\<lparr>disp_shutdown_complete := True, disp_shutdown_in_progress := False\<rparr>,
        if \<not> isSuccess queue_result then queue_result
        else Result Status_Completed ''Command dispatcher shut down''))"

text \<open>
  The whole call of \<open>Shutdown\<close> on the thread of the queue's worker \<open>w\<close>, made by the adapter's code while the worker
  executes a command; \<open>None\<close> when it waits.
\<close>

definition disp_Shutdown_on_worker :: "nat \<Rightarrow> dispatcher \<Rightarrow> (dispatcher \<times> command_result) option" where
  "disp_Shutdown_on_worker w d =
     (case disp_Shutdown_begin d of
        None \<Rightarrow> None
      | Some (Inl r) \<Rightarrow> Some (d, r)
      | Some (Inr d1) \<Rightarrow>
          (case Shutdown_begin (Some w) (disp_queue d1) of
             Some (Inl queue_result) \<Rightarrow> disp_Shutdown_finish queue_result d1
           | _ \<Rightarrow> None))"

section \<open>Interleavings\<close>

text \<open>The calls of \<open>Shutdown\<close> in the relation are those of other threads than the queue's worker.\<close>

datatype disp_event =
    D_SyncBegin time_ns command
  | D_SyncEnd u64
  | D_Async time_ns time_ns command
  | D_Cancel u64
  | D_Queue cq_event
  | D_ShutdownBegin
  | D_QueueShutdown "nat option"
  | D_ShutdownFinish

inductive disp_step :: "dispatcher \<Rightarrow> disp_event \<Rightarrow> dispatcher \<Rightarrow> bool" where
  d_sync_begin: "Execute_begin now c d = Inr d' \<Longrightarrow> disp_step d (D_SyncBegin now c) d'"
| d_sync_end: "i \<in> disp_synchronous_ids d \<Longrightarrow> disp_step d (D_SyncEnd i) (ReleaseSynchronous i d)"
| d_async: "disp_step d (D_Async now now' c) (fst (ExecuteAsync now now' c d))"
| d_cancel: "disp_step d (D_Cancel i) (fst (disp_Cancel i d))"
| d_queue: "is_internal e \<Longrightarrow> cq_step (disp_queue d) e q \<Longrightarrow> disp_step d (D_Queue e) (d\<lparr>disp_queue := q\<rparr>)"
| d_shutdown_begin: "disp_Shutdown_begin d = Some (Inr d') \<Longrightarrow> disp_step d D_ShutdownBegin d'"
| d_queue_shutdown: "disp_shutdown_in_progress d \<Longrightarrow>
    cq_step (disp_queue d) (Ev_ShutdownBegin caller) q \<Longrightarrow>
    disp_step d (D_QueueShutdown caller) (d\<lparr>disp_queue := q\<rparr>)"
| d_shutdown_finish: "disp_shutdown_in_progress d \<Longrightarrow> cq_shutdown_complete (disp_queue d) \<Longrightarrow>
    disp_Shutdown_finish (Result Status_Completed ''Command queue shut down'') d = Some (d', r) \<Longrightarrow>
    disp_step d D_ShutdownFinish d'"

inductive disp_run :: "dispatcher \<Rightarrow> disp_event list \<Rightarrow> dispatcher \<Rightarrow> bool" where
  d_run_nil: "disp_run d [] d"
| d_run_snoc: "disp_run d es d' \<Longrightarrow> disp_step d' e d'' \<Longrightarrow> disp_run d (es @ [e]) d''"

section \<open>Payloads\<close>

lemma round_half_even_bound:
  assumes "0 < m"
  shows "\<bar>round_half_even i m * m\<bar> \<le> \<bar>i\<bar> + m"
proof -
  have i: "i = i div m * m + i mod m" by simp
  have r: "0 \<le> i mod m" "i mod m < m" using assms by simp_all
  have "round_half_even i m = i div m \<or> round_half_even i m = i div m + 1"
    by (auto simp: round_half_even_def Let_def)
  then have "round_half_even i m * m = i - i mod m \<or> round_half_even i m * m = i - i mod m + m"
    using i by (metis add_diff_cancel_right' distrib_right mult_1)
  with r show ?thesis by linarith
qed

lemma int64_to_double_float:
  assumes "- (2 ^ 63) \<le> i" and "i < 2 ^ 63"
  shows "IsFiniteFloat (int64_to_double i)"
proof -
  have fin: "IsFiniteFloat (Fin (of_int j))" if "\<bar>j\<bar> \<le> 2 ^ 64" for j
  proof -
    have "of_int j \<le> (of_int (2 ^ 64) :: rat)" "of_int (- (2 ^ 64)) \<le> (of_int j :: rat)"
      using that by (simp_all only: of_int_le_iff)
    moreover have "(of_int (2 ^ 64) :: rat) \<le> max_float" by (simp add: max_float_def)
    ultimately show ?thesis by (simp add: IsFiniteFloat_def)
  qed
  show ?thesis
  proof (cases "find (\<lambda>k. \<bar>i\<bar> < 2 ^ (53 + k)) [0..<12]")
    case None
    then show ?thesis using assms fin [of i] by (simp add: int64_to_double_def)
  next
    case (Some k)
    then have "k < 12" by (auto simp: find_Some_iff)
    then have "(2 :: int) ^ k \<le> 2 ^ 11" by (intro power_increasing) simp_all
    then have "\<bar>round_half_even i (2 ^ k) * 2 ^ k\<bar> \<le> 2 ^ 64"
      using round_half_even_bound [of "2 ^ k" i] assms by simp
    from fin [OF this] Some show ?thesis by (simp add: int64_to_double_def)
  qed
qed

text \<open>A payload value that denotes a number the adapters can convert to \<open>float\<close>.\<close>

fun numeric_in_float_range :: "payload_value \<Rightarrow> bool" where
  "numeric_in_float_range (PV_Int i) = True"
| "numeric_in_float_range (PV_Double (Fin q)) = (\<bar>q\<bar> \<le> max_float)"
| "numeric_in_float_range _ = False"

definition int64_payload :: "command_payload \<Rightarrow> bool" where
  "int64_payload p \<longleftrightarrow> (\<forall>k i. (k, PV_Int i) \<in> set p \<longrightarrow> - (2 ^ 63) \<le> i \<and> i < 2 ^ 63)"

lemma HasValidNumber_iff:
  assumes "int64_payload p"
  shows "HasValidNumber p k \<longleftrightarrow> (\<exists>v. map_of p k = Some v \<and> numeric_in_float_range v)"
proof (cases "map_of p k")
  case (Some v)
  show ?thesis
  proof (cases v)
    case (PV_Int i)
    with Some have "(k, PV_Int i) \<in> set p" by (simp add: map_of_SomeD)
    with assms have "- (2 ^ 63) \<le> i \<and> i < 2 ^ 63" by (auto simp: int64_payload_def)
    then show ?thesis
      using Some PV_Int int64_to_double_float [of i]
      by (simp add: HasValidNumber_def NumericPayloadValue_def payload_find_def)
  next
    case (PV_Double d)
    then show ?thesis
      using Some by (cases d) (auto simp: HasValidNumber_def NumericPayloadValue_def
          payload_find_def IsFiniteFloat_def abs_le_iff)
  qed (simp_all add: Some HasValidNumber_def NumericPayloadValue_def payload_find_def)
qed (simp add: HasValidNumber_def NumericPayloadValue_def payload_find_def)

lemma three_keys:
  assumes "keys_ok p" "length p = 3" "{a, b, c} \<subseteq> dom (map_of p)" "distinct [a, b, c]"
  shows "dom (map_of p) = {a, b, c}"
proof -
  have "card (dom (map_of p)) = 3"
    using assms(1,2) distinct_card [of "map fst p"] by (simp add: keys_ok_def dom_map_of_conv_image_fst)
  then show ?thesis
    using assms(3,4) card_subset_eq [of "dom (map_of p)" "{a, b, c}"] finite_dom_map_of [of p] by auto
qed

lemma dom_ball_ran:
  "dom m = K \<Longrightarrow> (\<forall>k \<in> K. \<exists>v. m k = Some v \<and> P v) \<longleftrightarrow> (\<forall>v \<in> ran m. P v)"
  by (fastforce simp: ran_def dom_def)

text \<open>
  A velocity command (\<open>Walk\<close>, \<open>Move\<close>, \<open>Velocity\<close>) passes payload validation exactly when its
  parameters are \<open>linear_x\<close>, \<open>linear_y\<close> and \<open>angular_z\<close> and nothing else, each an integer or a
  finite double within the range of \<open>float\<close>; so the conversion the adapters make cannot
  overflow. \<open>NaN\<close> and infinities are refused.
\<close>

theorem velocity_payload_valid_iff:
  assumes "cmd_type c \<in> {Type_Walk, Type_Move, Type_Velocity}"
    and "keys_ok (cmd_payload c)" and "int64_payload (cmd_payload c)"
  shows "ValidatePayload c = None \<longleftrightarrow>
    dom (map_of (cmd_payload c)) = {''linear_x'', ''linear_y'', ''angular_z''} \<and>
    (\<forall>v \<in> ran (map_of (cmd_payload c)). numeric_in_float_range v)"
proof -
  let ?p = "cmd_payload c" and ?K = "{''linear_x'', ''linear_y'', ''angular_z''}"
  have len: "length ?p = card (dom (map_of ?p))"
    using assms(2) distinct_card [of "map fst ?p"] by (simp add: keys_ok_def dom_map_of_conv_image_fst)
  have "ValidatePayload c = None \<longleftrightarrow> length ?p = 3 \<and> (\<forall>k \<in> ?K. HasValidNumber ?p k)"
    using assms(1) by (auto simp: ValidatePayload_def validate_velocity_def reject_def split: if_splits)
  also have "\<dots> \<longleftrightarrow> dom (map_of ?p) = ?K \<and> (\<forall>k \<in> ?K. HasValidNumber ?p k)"
  proof
    assume a: "length ?p = 3 \<and> (\<forall>k \<in> ?K. HasValidNumber ?p k)"
    then have "?K \<subseteq> dom (map_of ?p)" using HasValidNumber_iff [OF assms(3)] by auto
    then have "dom (map_of ?p) = ?K" using a by (intro three_keys [OF assms(2)]) simp_all
    with a show "dom (map_of ?p) = ?K \<and> (\<forall>k \<in> ?K. HasValidNumber ?p k)" by blast
  next
    assume "dom (map_of ?p) = ?K \<and> (\<forall>k \<in> ?K. HasValidNumber ?p k)"
    then show "length ?p = 3 \<and> (\<forall>k \<in> ?K. HasValidNumber ?p k)" by (simp add: len)
  qed
  also have "\<dots> \<longleftrightarrow> dom (map_of ?p) = ?K \<and> (\<forall>v \<in> ran (map_of ?p). numeric_in_float_range v)"
    unfolding HasValidNumber_iff [OF assms(3)] using dom_ball_ran [of "map_of ?p" ?K numeric_in_float_range]
    by blast
  finally show ?thesis .
qed

lemma velocity_payload_valid_iff_witness:
  "ValidatePayload (default_command\<lparr>cmd_type := Type_Walk, cmd_payload :=
     [(''angular_z'', PV_Int 0), (''linear_x'', PV_Double (Fin 1)), (''linear_y'', PV_Int 2)]\<rparr>) = None"
  by (subst velocity_payload_valid_iff)
    (auto simp: default_command_def keys_ok_def int64_payload_def ran_def max_float_def split: if_splits)

section \<open>Nothing unsafe reaches the adapter\<close>

text \<open>What the code demands before it calls \<open>RobotAdapter::ExecuteCommand\<close>.\<close>

definition issue_allowed ::
  "(nat \<Rightarrow> time_ns) \<Rightarrow> dispatcher \<Rightarrow> robot_adapter \<Rightarrow> command \<Rightarrow> bool" where
  "issue_allowed clk d ad c \<longleftrightarrow>
     \<not> HasExpired (clk 0) c \<and> \<not> HasExpired (clk 1) c \<and>
     (\<exists>ctx. BuildSafetyContextLocked d ad = Returned ctx \<and>
            safety_spec (disp_safety_options d) (clk 2) (clk 3) c ctx)"

lemma Dispatch_issues:
  "fst (Dispatch clk d adapter c) =
     (if \<exists>ad. adapter = Some ad \<and> issue_allowed clk d ad c then [c] else [])"
  by (auto simp: Dispatch_def issue_allowed_def Let_def Validate_success_iff
      split: option.split outcome.split)

lemma BuildSafetyContext_ids [simp]:
  "BuildSafetyContextLocked (d\<lparr>disp_synchronous_ids := I\<rparr>) ad = BuildSafetyContextLocked d ad"
  by (simp add: BuildSafetyContextLocked_def cong: option.case_cong outcome.case_cong)

lemma issue_allowed_ids [simp]:
  "issue_allowed clk (d\<lparr>disp_synchronous_ids := I\<rparr>) ad c = issue_allowed clk d ad c"
  by (simp add: issue_allowed_def)

lemma Execute_begin_Inr:
  "Execute_begin now c d = Inr d' \<longleftrightarrow>
     ValidateCommand now c = None \<and> disp_accepting d \<and> cmd_id c \<notin> disp_synchronous_ids d \<and>
     cq_tasks (disp_queue d) (cmd_id c) = None \<and>
     d' = d\<lparr>disp_synchronous_ids := insert (cmd_id c) (disp_synchronous_ids d)\<rparr>"
  by (auto simp: Execute_begin_def Contains_def split: option.split)

lemma Execute_cases:
  "Execute clk adapter c d =
     (case Execute_begin (clk 5) c d of
        Inl r \<Rightarrow> (d, [], r)
      | Inr d' \<Rightarrow> (d, fst (Dispatch clk d' adapter c), execute_result (snd (Dispatch clk d' adapter c))))"
proof (cases "Execute_begin (clk 5) c d")
  case (Inr d')
  moreover from this have "ReleaseSynchronous (cmd_id c) d' = d"
    unfolding Execute_begin_Inr by (auto simp: ReleaseSynchronous_def)
  ultimately show ?thesis by (simp add: Execute_def split: prod.split)
qed (simp add: Execute_def)

lemma Execute_issues:
  "fst (snd (Execute clk adapter c d)) =
     (if ValidateCommand (clk 5) c = None \<and> disp_accepting d \<and>
         cmd_id c \<notin> disp_synchronous_ids d \<and> cq_tasks (disp_queue d) (cmd_id c) = None \<and>
         (\<exists>ad. adapter = Some ad \<and> issue_allowed clk d ad c) then [c] else [])"
proof (cases "Execute_begin (clk 5) c d")
  case (Inl r)
  then show ?thesis
    using Execute_begin_Inr [of "clk 5" c d] by (auto simp: Execute_cases)
next
  case (Inr d')
  moreover note Inr [unfolded Execute_begin_Inr]
  ultimately show ?thesis by (simp add: Execute_cases Dispatch_issues)
qed

text \<open>
  C1. A synchronous \<open>Execute\<close> hands the command to the robot adapter, once and unchanged, exactly
  when the command passed field and payload validation, the dispatcher accepts work, no command
  with the same identifier is in flight, an adapter is present, the deadline has not passed, and
  the safety specification holds of the context built for it. In every case it leaves the state
  of the dispatcher as it found it.
\<close>

theorem Execute_safe:
  "fst (Execute clk adapter c d) = d \<and>
   fst (snd (Execute clk adapter c d)) =
     (if ValidateCommand (clk 5) c = None \<and> disp_accepting d \<and>
         cmd_id c \<notin> disp_synchronous_ids d \<and> cq_tasks (disp_queue d) (cmd_id c) = None \<and>
         (\<exists>ad. adapter = Some ad \<and> \<not> HasExpired (clk 0) c \<and> \<not> HasExpired (clk 1) c \<and>
            (\<exists>ctx. BuildSafetyContextLocked d ad = Returned ctx \<and>
               safety_spec (disp_safety_options d) (clk 2) (clk 3) c ctx)) then [c] else [])"
proof
  show "fst (Execute clk adapter c d) = d" by (auto simp: Execute_cases split: sum.split)
qed (simp add: Execute_issues issue_allowed_def)

text \<open>
  C2. While the state manager reports an emergency stop, a dispatcher with the default safety
  options hands nothing but \<open>Stop\<close> and \<open>EmergencyStop\<close> commands to the adapter; while it reports
  that the robot is disconnected, nothing at all. This holds for synchronous calls and for the
  commands the queue's worker dispatches.
\<close>

theorem emergency_stop_enforced:
  assumes "disp_state_manager d = Some sm" and "disp_safety_options d = default_safety_options"
  shows
    "(rsm_EmergencyStop sm \<longrightarrow>
       (\<forall>c' \<in> set (fst (snd (Execute clk adapter c d))) \<union> set (fst (Dispatch clk d adapter c)).
          cmd_type c' = Type_Stop \<or> cmd_type c' = Type_EmergencyStop)) \<and>
     (\<not> rsm_IsConnected sm \<longrightarrow>
       fst (snd (Execute clk adapter c d)) = [] \<and> fst (Dispatch clk d adapter c) = [])"
proof -
  have ready: "robot_ready default_safety_options (cmd_type c) (GetState sm)"
    if "issue_allowed clk d ad c" for ad
    using that assms
    by (auto simp: issue_allowed_def BuildSafetyContextLocked_def safety_spec_def split: outcome.splits)
  have stop: "cmd_type c = Type_Stop \<or> cmd_type c = Type_EmergencyStop"
    if "issue_allowed clk d ad c" "rsm_EmergencyStop sm" for ad
    using ready [OF that(1)] that(2)
    by (auto simp: robot_ready_def default_safety_options_def rsm_EmergencyStop_def IsStopCommand_def
        GetState_def)
  have conn: "rsm_IsConnected sm" if "issue_allowed clk d ad c" for ad
    using ready [OF that]
    by (auto simp: robot_ready_def default_safety_options_def rsm_IsConnected_def GetState_def)
  show ?thesis by (auto simp: Execute_issues Dispatch_issues dest: stop conn)
qed

section \<open>Concrete calls\<close>

definition demo_stopped_robot :: robot_state_manager where
  "demo_stopped_robot = UpdateState (default_robot_state\<lparr>connection := \<lparr>connected = True\<rparr>,
     health := \<lparr>emergencyStop = True, faultCode = 0\<rparr>\<rparr>) rsm_init"

definition demo_dispatcher :: dispatcher where
  "demo_dispatcher =
     projr (disp_create (Some demo_stopped_robot) LegacyAdapterDefaults default_safety_options)"

definition demo_adapter :: robot_adapter where
  "demo_adapter = \<lparr>ad_GetRobotState = ThrewUnknown, ad_supportsPowerState = Returned False,
     ad_GetCommandCapabilities = Returned LegacyAdapterDefaults,
     ad_ExecuteCommand = (\<lambda>_. Returned (Result Status_Completed ''done''))\<rparr>"

definition demo_stop :: command where
  "demo_stop = default_command\<lparr>cmd_id := 3, cmd_type := Type_Stop\<rparr>"

lemma demo_dispatcher_fields:
  "disp_state_manager demo_dispatcher = Some demo_stopped_robot"
  "disp_safety_options demo_dispatcher = default_safety_options"
  "disp_create (Some demo_stopped_robot) LegacyAdapterDefaults default_safety_options =
     Inr demo_dispatcher"
  by (simp_all add: demo_dispatcher_def disp_create_def disp_make_def cq_create_def
      kDispatcherMaximumQueueSize_def)

lemma demo_stop_issued:
  "fst (Dispatch (\<lambda>_. 1) demo_dispatcher (Some demo_adapter) demo_stop) = [demo_stop]"
  by (simp add: Dispatch_def BuildSafetyContextLocked_def demo_dispatcher_def disp_create_def
      disp_make_def cq_create_def kDispatcherMaximumQueueSize_def Validate_success_iff safety_spec_def
      well_formed_command_def robot_ready_def battery_ok_def posture_ok_def demo_stop_def
      default_command_def HasExpired_def hasTimeout_def LegacyAdapterDefaults_def no_capabilities_def
      default_safety_options_def demo_stopped_robot_def GetState_def UpdateState_def
      default_robot_state_def IsStopCommand_def demo_adapter_def)

lemma emergency_stop_enforced_witness:
  "rsm_EmergencyStop demo_stopped_robot \<and>
   fst (Dispatch (\<lambda>_. 1) demo_dispatcher (Some demo_adapter) demo_stop) = [demo_stop] \<and>
   (cmd_type demo_stop = Type_Stop \<or> cmd_type demo_stop = Type_EmergencyStop)"
proof -
  have "rsm_EmergencyStop demo_stopped_robot"
    by (simp add: rsm_EmergencyStop_def demo_stopped_robot_def UpdateState_def)
  with emergency_stop_enforced [OF demo_dispatcher_fields(1,2), of "\<lambda>_. 1" "Some demo_adapter" demo_stop]
  show ?thesis using demo_stop_issued by simp
qed

end
