(* ===== verification/Command_Dispatcher_Props.thy ===== *)
theory Command_Dispatcher_Props
  imports Command_Dispatcher
begin

text \<open>
  The dispatcher and its queue together: the contract of the queue the dispatcher relies on, the
  exclusivity of command identifiers over both, and what a completed shutdown guarantees.
\<close>

section \<open>The contract of a work queue\<close>

text \<open>
  What a client that keeps its own set of identifiers in flight relies on: an invariant every step
  keeps, submission adds at most the identifier submitted, and nothing else adds one.
\<close>

locale outstanding_work =
  fixes invar :: "'q \<Rightarrow> bool"
    and outstanding :: "'q \<Rightarrow> 'i set"
    and ident :: "'c \<Rightarrow> 'i"
    and submit :: "'t \<Rightarrow> 'c \<Rightarrow> 'q \<Rightarrow> 'q"
    and progress :: "'q \<Rightarrow> 'e \<Rightarrow> 'q \<Rightarrow> bool"
    and closed :: "'q \<Rightarrow> bool"
  assumes submit_invar: "invar q \<Longrightarrow> invar (submit t c q)"
    and submit_outstanding: "outstanding (submit t c q) \<subseteq> insert (ident c) (outstanding q)"
    and submit_closed: "closed (submit t c q) = closed q"
    and progress_invar: "progress q e q' \<Longrightarrow> invar q \<Longrightarrow> invar q'"
    and progress_outstanding: "progress q e q' \<Longrightarrow> invar q \<Longrightarrow> outstanding q' \<subseteq> outstanding q"
    and progress_closed: "progress q e q' \<Longrightarrow> closed q \<Longrightarrow> closed q'"
    and closed_empty: "invar q \<Longrightarrow> closed q \<Longrightarrow> outstanding q = {}"
begin

definition exclusive :: "'i set \<Rightarrow> 'q \<Rightarrow> bool" where
  "exclusive I q \<longleftrightarrow> invar q \<and> I \<inter> outstanding q = {}"

lemma exclusive_insert: "exclusive I q \<Longrightarrow> i \<notin> outstanding q \<Longrightarrow> exclusive (insert i I) q"
  by (auto simp: exclusive_def)

lemma exclusive_subset: "exclusive I q \<Longrightarrow> J \<subseteq> I \<Longrightarrow> exclusive J q"
  by (auto simp: exclusive_def)

lemma exclusive_submit: "exclusive I q \<Longrightarrow> ident c \<notin> I \<Longrightarrow> exclusive I (submit t c q)"
  using submit_outstanding [of t c q] submit_invar by (auto simp: exclusive_def)

lemma exclusive_progress: "exclusive I q \<Longrightarrow> progress q e q' \<Longrightarrow> exclusive I q'"
  using progress_outstanding progress_invar by (fastforce simp: exclusive_def)

end

definition queue_progress :: "command_queue \<Rightarrow> cq_event \<Rightarrow> command_queue \<Rightarrow> bool" where
  "queue_progress q e q' \<longleftrightarrow> \<not> is_enqueue e \<and> cq_step q e q'"

lemma set_promise_kept:
  "set_promise a r s = Some s' \<Longrightarrow>
   cq_tasks s' = cq_tasks s \<and> cq_shutdown_complete s' = cq_shutdown_complete s"
  by (auto simp: set_promise_def split: option.splits)

lemma queue_progress_shrinks:
  assumes "queue_progress q e q'"
  shows "dom (cq_tasks q') \<subseteq> dom (cq_tasks q) \<and> (cq_shutdown_complete q \<longrightarrow> cq_shutdown_complete q')"
proof -
  from assms have step: "cq_step q e q'" and "\<not> is_enqueue e" by (simp_all add: queue_progress_def)
  from step show ?thesis
  proof (cases q e q' rule: cq_step.cases)
  case (step_enqueue now c)
  with \<open>\<not> is_enqueue e\<close> show ?thesis by simp
next
  case (step_shutdown_begin caller)
  then show ?thesis
    by (auto simp: Shutdown_begin_def Let_def forget_tasks_apply split: if_splits)
qed (auto simp: Cancel_def deliver_pending_def worker_register_def worker_poll_def worker_finish_def
    worker_publish_def shutdown_deliver_def shutdown_finish_def Let_def
    dest!: set_promise_kept split: if_splits option.splits prod.splits shutdown_phase.splits list.splits)
qed

lemma closed_queue_empty:
  assumes "cq_inv q" and "cq_shutdown_complete q"
  shows "dom (cq_tasks q) = {}"
proof -
  have ph: "phase_inv q" using assms(1) by (simp add: cq_inv_def)
  then have fin: "cq_shutdown q = Shut_Finished" using assms(2) by (simp add: phase_inv_def)
  with ph have "cq_queue q = []" "set (cq_workers q) \<subseteq> {W_Exited}"
    by (simp_all add: phase_inv_def)
  then have "cq_queue q = []" "executing (cq_workers q) = []"
    using all_exited_empty by simp_all
  then show ?thesis using assms(1) by (auto simp: cq_inv_def index_inv_def)
qed

interpretation cqi: outstanding_work cq_inv "\<lambda>q. dom (cq_tasks q)" cmd_id
  "\<lambda>now c q. fst (Enqueue now c q)" queue_progress cq_shutdown_complete
proof (unfold_locales, goal_cases)
  case (1 q t c)
  then show ?case by (rule Enqueue_inv)
next
  case (2 t c q)
  show ?case by (auto simp: Enqueue_def Let_def split: option.split)
next
  case (3 t c q)
  show ?case by (simp add: Enqueue_def Let_def split: option.split)
next
  case (4 q e q')
  then show ?case using cq_step_inv by (auto simp: queue_progress_def)
next
  case (5 q e q')
  then show ?case using queue_progress_shrinks by blast
next
  case (6 q e q')
  then show ?case using queue_progress_shrinks by blast
next
  case (7 q)
  then show ?case by (rule closed_queue_empty)
qed

lemma is_internal_progress: "is_internal e \<Longrightarrow> cq_step q e q' \<Longrightarrow> queue_progress q e q'"
  by (cases e) (auto simp: queue_progress_def)

section \<open>The invariant of the dispatcher\<close>

definition disp_inv :: "dispatcher \<Rightarrow> bool" where
  "disp_inv d \<longleftrightarrow>
     cqi.exclusive (disp_synchronous_ids d) (disp_queue d) \<and>
     (disp_shutdown_in_progress d \<or> disp_shutdown_complete d \<longrightarrow> \<not> disp_accepting d) \<and>
     (disp_shutdown_complete d \<longrightarrow> disp_synchronous_ids d = {})"

lemma disp_make_inv:
  assumes "disp_make sm caps opts over = Inr d"
  shows "disp_inv d"
  using assms cq_create_inv
  by (auto simp: disp_make_def disp_inv_def cqi.exclusive_def split: sum.splits)

text \<open>What a step of the dispatcher does to its queue.\<close>

lemma disp_step_queue:
  assumes "disp_step d e d'"
  shows "disp_queue d' = disp_queue d \<or>
    (disp_synchronous_ids d' = disp_synchronous_ids d \<and>
      ((\<exists>e'. queue_progress (disp_queue d) e' (disp_queue d')) \<or>
       (\<exists>now c. cmd_id c \<notin> disp_synchronous_ids d \<and>
          disp_queue d' = fst (Enqueue now c (disp_queue d)))))"
  using assms
proof (cases d e d' rule: disp_step.cases)
  case (d_async now now' c)
  show ?thesis
  proof (cases "ValidateCommand now c = None \<and> disp_accepting d \<and> cmd_id c \<notin> disp_synchronous_ids d")
    case True
    then have "disp_queue d' = fst (Enqueue now' c (disp_queue d))"
      "disp_synchronous_ids d' = disp_synchronous_ids d"
      using d_async by (simp_all add: ExecuteAsync_def split: prod.split)
    with True show ?thesis by blast
  next
    case False
    then have "d' = d" using d_async by (auto simp: ExecuteAsync_def split: option.split)
    then show ?thesis by simp
  qed
next
  case (d_cancel i)
  have "queue_progress (disp_queue d) (Ev_Cancel i) (fst (Cancel i (disp_queue d)))"
    by (simp add: queue_progress_def step_cancel)
  with d_cancel show ?thesis
    by (cases "Cancel i (disp_queue d)") (auto simp: disp_Cancel_def split: if_splits)
next
  case (d_queue e' q)
  then show ?thesis using is_internal_progress by fastforce
next
  case (d_queue_shutdown caller q)
  then have "queue_progress (disp_queue d) (Ev_ShutdownBegin caller) q" by (simp add: queue_progress_def)
  with d_queue_shutdown show ?thesis by auto
qed (auto simp: Execute_begin_Inr ReleaseSynchronous_def disp_Shutdown_begin_def
    disp_Shutdown_finish_def split: if_splits)

lemma disp_step_exclusive:
  assumes "disp_step d e d'" and "disp_inv d"
  shows "cqi.exclusive (disp_synchronous_ids d') (disp_queue d')"
proof -
  have ex: "cqi.exclusive (disp_synchronous_ids d) (disp_queue d)"
    using assms(2) by (simp add: disp_inv_def)
  show ?thesis
  proof (cases "disp_queue d' = disp_queue d")
    case False
    with disp_step_queue [OF assms(1)] show ?thesis
      using cqi.exclusive_progress [OF ex] cqi.exclusive_submit [OF ex] by metis
  next
    case True
    from assms(1) have "disp_synchronous_ids d' \<subseteq> disp_synchronous_ids d \<or>
      (\<exists>i. cq_tasks (disp_queue d) i = None \<and> disp_synchronous_ids d' = insert i (disp_synchronous_ids d))"
      by (cases d e d' rule: disp_step.cases)
        (auto simp: Execute_begin_Inr ReleaseSynchronous_def ExecuteAsync_def disp_Cancel_def
          disp_Shutdown_begin_def disp_Shutdown_finish_def split: option.splits prod.splits if_splits)
    with ex show ?thesis
      by (auto simp: True domIff intro: cqi.exclusive_subset cqi.exclusive_insert)
  qed
qed

lemma disp_step_inv:
  assumes "disp_step d e d'" and "disp_inv d"
  shows "disp_inv d'"
proof -
  have "(disp_shutdown_in_progress d' \<or> disp_shutdown_complete d' \<longrightarrow> \<not> disp_accepting d') \<and>
     (disp_shutdown_complete d' \<longrightarrow> disp_synchronous_ids d' = {})"
    using assms
    by (cases d e d' rule: disp_step.cases)
      (auto simp: disp_inv_def Execute_begin_Inr ReleaseSynchronous_def ExecuteAsync_def disp_Cancel_def
        disp_Shutdown_begin_def disp_Shutdown_finish_def split: option.splits prod.splits if_splits)
  with disp_step_exclusive [OF assms] show ?thesis by (simp add: disp_inv_def)
qed

lemma disp_run_inv: "disp_run d es d' \<Longrightarrow> disp_inv d \<Longrightarrow> disp_inv d'"
  by (induction rule: disp_run.induct) (auto intro: disp_step_inv)

text \<open>
  An identifier is in flight at most once: in every state any interleaving of synchronous
  calls, asynchronous submissions, cancellations, worker steps and shutdown can reach, no
  identifier is both executed synchronously and outstanding in the queue. So the check of
  \<open>ExecuteAsync\<close>, which looks at the synchronous identifiers only, and that of \<open>Execute\<close> agree.
\<close>

theorem disp_ids_exclusive:
  assumes "disp_create sm caps opts = Inr d0" and "disp_run d0 es d"
  shows "disp_synchronous_ids d \<inter> dom (cq_tasks (disp_queue d)) = {}"
  using disp_run_inv [OF assms(2) disp_make_inv [OF assms(1) [unfolded disp_create_def]]]
  by (simp add: disp_inv_def cqi.exclusive_def)

section \<open>Shutdown\<close>

lemma disp_closed:
  assumes "disp_run d0 es d" and "\<not> disp_shutdown_complete d0"
    and "disp_shutdown_complete d"
  shows "cq_shutdown_complete (disp_queue d)"
  using assms
proof (induction rule: disp_run.induct)
  case (d_run_snoc d0 es d e d')
  show ?case
  proof (cases "disp_shutdown_complete d")
    case True
    with d_run_snoc have "cq_shutdown_complete (disp_queue d)" by simp
    with disp_step_queue [OF d_run_snoc.hyps(2)] show ?thesis
      using cqi.submit_closed cqi.progress_closed by metis
  next
    case False
    with d_run_snoc.hyps(2) d_run_snoc.prems show ?thesis
      by (cases d e d' rule: disp_step.cases)
        (auto simp: Execute_begin_Inr ReleaseSynchronous_def ExecuteAsync_def
          disp_Cancel_def disp_Shutdown_begin_def disp_Shutdown_finish_def
          split: option.splits prod.splits if_splits)
  qed
qed simp

text \<open>
  Once \<open>Shutdown\<close> of the dispatcher is complete, called from any thread but the queue's own worker,
  the queue is shut down, no command is in flight, synchronous or queued, every worker
  thread has ended, and no later call is accepted.
\<close>

theorem disp_shutdown_complete_quiet:
  assumes "disp_create sm caps opts = Inr d0" and "disp_run d0 es d"
    and "disp_shutdown_complete d"
  shows "cq_shutdown_complete (disp_queue d) \<and> disp_synchronous_ids d = {} \<and>
    cq_tasks (disp_queue d) = Map.empty \<and> set (cq_workers (disp_queue d)) \<subseteq> {W_Exited} \<and>
    \<not> disp_accepting d"
proof -
  have "disp_inv d0" and d0: "\<not> disp_shutdown_complete d0"
    using assms(1) disp_make_inv by (auto simp: disp_create_def disp_make_def split: sum.splits)
  then have inv: "disp_inv d" using disp_run_inv [OF assms(2)] by blast
  then have cq: "cq_inv (disp_queue d)" by (simp add: disp_inv_def cqi.exclusive_def)
  have closed: "cq_shutdown_complete (disp_queue d)"
    using disp_closed [OF assms(2) d0 assms(3)] .
  then have "set (cq_workers (disp_queue d)) \<subseteq> {W_Exited}"
    using cq by (auto simp: cq_inv_def phase_inv_def)
  moreover have "cq_tasks (disp_queue d) = Map.empty"
    using cqi.closed_empty [OF cq closed] by simp
  ultimately show ?thesis using closed inv assms(3) by (simp add: disp_inv_def)
qed

text \<open>While no shutdown of the dispatcher is in progress, nothing begins one of the queue.\<close>

lemma queue_progress_phase:
  assumes "queue_progress q e q'" and "\<And>caller. e \<noteq> Ev_ShutdownBegin caller" and "cq_shutdown q = Shut_None"
  shows "cq_shutdown q' = Shut_None"
proof -
  from assms(1) have step: "cq_step q e q'" and "\<not> is_enqueue e" by (simp_all add: queue_progress_def)
  from step show ?thesis
  proof (cases q e q' rule: cq_step.cases)
    case (step_enqueue now c)
    with \<open>\<not> is_enqueue e\<close> show ?thesis by simp
  qed (use assms(2,3) in \<open>auto simp: Cancel_def deliver_pending_def worker_register_def worker_poll_def
      worker_finish_def worker_publish_def set_promise_def Let_def split: if_splits option.splits prod.splits\<close>)
qed

definition queue_open :: "dispatcher \<Rightarrow> bool" where
  "queue_open d \<longleftrightarrow> \<not> disp_shutdown_in_progress d \<and> cq_shutdown (disp_queue d) = Shut_None"

lemma Enqueue_phase: "cq_shutdown (fst (Enqueue now c q)) = cq_shutdown q"
  by (simp add: Enqueue_def Let_def split: option.split)

lemma disp_step_open:
  assumes "disp_step d e d'" and "queue_open d" and "\<not> disp_shutdown_in_progress d'"
  shows "queue_open d'"
  using assms(1)
proof (cases d e d' rule: disp_step.cases)
  case (d_async now now' c)
  then show ?thesis using assms(2,3) Enqueue_phase [of now' c "disp_queue d"]
    by (auto simp: ExecuteAsync_def queue_open_def split: option.split prod.splits)
next
  case (d_cancel i)
  have "queue_progress (disp_queue d) (Ev_Cancel i) (fst (Cancel i (disp_queue d)))"
    by (simp add: queue_progress_def step_cancel)
  then have "cq_shutdown (fst (Cancel i (disp_queue d))) = Shut_None"
    by (rule queue_progress_phase) (use assms(2) in \<open>simp_all add: queue_open_def\<close>)
  with d_cancel assms(2,3) show ?thesis
    by (cases "Cancel i (disp_queue d)") (auto simp: disp_Cancel_def queue_open_def split: if_splits)
next
  case (d_queue e' q)
  then have "cq_shutdown q = Shut_None"
    using assms(2) by (auto simp: queue_open_def intro: queue_progress_phase [OF is_internal_progress])
  with d_queue assms(2) show ?thesis by (simp add: queue_open_def)
qed (use assms(2,3) in \<open>auto simp: queue_open_def Execute_begin_Inr ReleaseSynchronous_def disp_Shutdown_begin_def
    split: if_splits\<close>)

lemma disp_run_open:
  assumes "disp_run d0 es d" and "queue_open d0"
  shows "disp_accepting d \<Longrightarrow> disp_inv d0 \<Longrightarrow> queue_open d"
    and "disp_shutdown_complete d0 \<Longrightarrow> queue_open d \<and> disp_shutdown_complete d"
  using assms
proof (induction rule: disp_run.induct)
  case (d_run_snoc d0 es d e d')
  {
    case 1
    have inv: "disp_inv d" "disp_inv d'"
      using disp_run_inv [OF d_run_snoc.hyps(1)] disp_step_inv [OF d_run_snoc.hyps(2)] 1 by blast+
    have "disp_accepting d" using d_run_snoc.hyps(2) 1(1)
      by (cases d e d' rule: disp_step.cases)
        (auto simp: Execute_begin_Inr ReleaseSynchronous_def ExecuteAsync_def disp_Cancel_def
          disp_Shutdown_begin_def disp_Shutdown_finish_def split: option.splits prod.splits if_splits)
    with d_run_snoc 1 have "queue_open d" by blast
    moreover from inv 1(1) have "\<not> disp_shutdown_in_progress d'" by (auto simp: disp_inv_def)
    ultimately show ?case using disp_step_open [OF d_run_snoc.hyps(2)] by blast
  next
    case 2
    with d_run_snoc have IH: "queue_open d" "disp_shutdown_complete d" by blast+
    with d_run_snoc.hyps(2) have "disp_shutdown_complete d' \<and> \<not> disp_shutdown_in_progress d'"
      by (cases d e d' rule: disp_step.cases)
        (auto simp: queue_open_def Execute_begin_Inr ReleaseSynchronous_def ExecuteAsync_def disp_Cancel_def
          disp_Shutdown_begin_def disp_Shutdown_finish_def split: option.splits prod.splits if_splits)
    with disp_step_open [OF d_run_snoc.hyps(2) IH(1)] show ?case by blast
  }
qed simp_all

text \<open>
  C27. A \<open>Shutdown\<close> called on the queue's own worker, by the adapter's code while the worker executes an
  asynchronous command, is refused by the queue; the dispatcher answers with that refusal but records the shutdown
  as complete. In no later run does it shut the queue down: every further \<open>Shutdown\<close> answers at once that the
  dispatcher is shut down, while the queue accepts and its worker goes on.
\<close>

theorem disp_shutdown_on_worker_incomplete:
  assumes "disp_create sm caps opts = Inr d0" and "disp_run d0 es d"
    and "w < length (cq_workers (disp_queue d))" and "cq_workers (disp_queue d) ! w = W_Executing a"
    and "disp_accepting d" and "disp_synchronous_ids d = {}"
  shows "\<exists>d'. disp_Shutdown_on_worker w d =
       Some (d', Result Status_Rejected ''Command queue cannot be shut down from its executor'')
     \<and> disp_shutdown_complete d' \<and> disp_queue d' = disp_queue d
     \<and> (\<forall>es' d''. disp_run d' es' d'' \<longrightarrow>
          disp_Shutdown_begin d'' = Some (Inl (Result Status_Completed ''Command dispatcher is shut down''))
          \<and> cq_accepting (disp_queue d'') \<and> \<not> cq_shutdown_complete (disp_queue d''))"
proof -
  let ?d' = "d\<lparr>disp_accepting := False, disp_shutdown_complete := True, disp_shutdown_in_progress := False\<rparr>"
  have inv0: "disp_inv d0" using assms(1) disp_make_inv by (simp add: disp_create_def)
  have "queue_open d0" using assms(1)
    by (auto simp: disp_create_def disp_make_def cq_create_def queue_open_def split: if_splits)
  then have "queue_open d" using disp_run_open(1) [OF assms(2) _ assms(5) inv0] by blast
  then have open': "queue_open ?d'" by (simp add: queue_open_def)
  have inv: "disp_inv d" by (rule disp_run_inv [OF assms(2) inv0])
  then have idle: "\<not> disp_shutdown_complete d" "\<not> disp_shutdown_in_progress d" "\<not> cq_shutdown_complete (disp_queue d)"
    using assms(5) \<open>queue_open d\<close>
    by (auto simp: disp_inv_def cqi.exclusive_def cq_inv_def phase_inv_def queue_open_def)
  have call: "disp_Shutdown_on_worker w d =
      Some (?d', Result Status_Rejected ''Command queue cannot be shut down from its executor'')"
    using idle assms(3,4,6)
    by (simp add: disp_Shutdown_on_worker_def disp_Shutdown_begin_def disp_Shutdown_finish_def Shutdown_begin_def
        IsWorkerThread_def isSuccess_def)
  have "disp_inv ?d'" using inv assms(6) by (simp add: disp_inv_def)
  then have "disp_Shutdown_begin d'' = Some (Inl (Result Status_Completed ''Command dispatcher is shut down''))
      \<and> cq_accepting (disp_queue d'') \<and> \<not> cq_shutdown_complete (disp_queue d'')"
    if "disp_run ?d' es' d''" for es' d''
    using disp_run_open(2) [OF that open'] disp_run_inv [OF that]
    by (auto simp: disp_Shutdown_begin_def queue_open_def disp_inv_def cqi.exclusive_def cq_inv_def phase_inv_def)
  with call show ?thesis by (intro exI [of _ ?d']) simp
qed

section \<open>Concrete runs\<close>

definition demo_stand :: "u64 \<Rightarrow> command" where
  "demo_stand i = default_command\<lparr>cmd_id := i, cmd_type := Type_Stand\<rparr>"

lemmas demo_disp_eval = demo_dispatcher_def disp_create_def disp_make_def cq_create_def
  kDispatcherMaximumQueueSize_def Let_def ValidateForQueue_def enqueue_refusal_def new_task_def
  Enqueue_def ExecuteAsync_def ValidateCommand_def ValidatePayload_def validate_no_payload_def
  demo_stand_def default_command_def hasTimeout_def zero_statistics_def disp_Shutdown_begin_def
  Shutdown_begin_def IsWorkerThread_def worker_register_def worker_poll_def worker_wake_def
  max_element_def task_priority_def erase_at_def Execute_begin_def Contains_def
  disp_Shutdown_finish_def forget_tasks_def shutdown_deliver_def shutdown_finish_def

lemma disp_run_step: "disp_run d es d' \<Longrightarrow> disp_step d' e d'' \<Longrightarrow> es' = es @ [e] \<Longrightarrow> disp_run d es' d''"
  by (simp add: d_run_snoc)

definition demo_sync :: dispatcher where
  "demo_sync = projr (Execute_begin 1 (demo_stand 4) demo_dispatcher)"

lemma demo_sync_run: "disp_run demo_dispatcher [D_SyncBegin 1 (demo_stand 4)] demo_sync"
  by (rule disp_run_step [OF d_run_nil d_sync_begin]) (simp_all add: demo_sync_def demo_disp_eval)

lemma disp_ids_exclusive_witness:
  "4 \<in> disp_synchronous_ids demo_sync \<and>
   disp_synchronous_ids demo_sync \<inter> dom (cq_tasks (disp_queue demo_sync)) = {}"
  using disp_ids_exclusive [OF demo_dispatcher_fields(3) demo_sync_run]
  by (simp add: demo_sync_def demo_disp_eval)

definition demo_closing :: dispatcher where
  "demo_closing = projr (the (disp_Shutdown_begin demo_dispatcher))"

definition demo_closed :: dispatcher where
  "demo_closed =
     (let q1 = worker_register 0 (disp_queue demo_closing);
          q2 = projr (the (Shutdown_begin None q1));
          q3 = shutdown_finish (worker_poll 0 (shutdown_deliver q2))
      in fst (the (disp_Shutdown_finish (Result Status_Completed ''Command queue shut down'')
           (demo_closing\<lparr>disp_queue := q3\<rparr>))))"

text \<open>Runs of the queue, seen as runs of the dispatcher.\<close>

fun of_queue_event :: "cq_event \<Rightarrow> disp_event" where
  "of_queue_event (Ev_ShutdownBegin caller) = D_QueueShutdown caller"
| "of_queue_event e = D_Queue e"

lemma queue_run_lift:
  assumes "cq_run q es q'" and "q = disp_queue d" and "disp_shutdown_in_progress d"
    and "\<forall>e \<in> set es. is_internal e \<or> (\<exists>caller. e = Ev_ShutdownBegin caller)"
  shows "disp_run d (map of_queue_event es) (d\<lparr>disp_queue := q'\<rparr>)"
  using assms
proof (induction rule: cq_run.induct)
  case (run_nil q)
  then show ?case by (simp add: d_run_nil)
next
  case (run_snoc q es q' e q'')
  let ?d = "d\<lparr>disp_queue := q'\<rparr>"
  have "disp_step ?d (of_queue_event e) (?d\<lparr>disp_queue := q''\<rparr>)"
    using run_snoc.prems run_snoc.hyps(2) d_queue [of e ?d q''] d_queue_shutdown [of ?d _ q'']
    by (cases e) auto
  with run_snoc show ?case by (auto intro: d_run_snoc)
qed

lemma disp_run_trans: "disp_run d' es' d'' \<Longrightarrow> disp_run d es d' \<Longrightarrow> disp_run d (es @ es') d''"
  by (induction rule: disp_run.induct) (auto simp flip: append_assoc intro: d_run_snoc)

lemma demo_closed_run:
  "disp_run demo_dispatcher ([D_ShutdownBegin] @ map of_queue_event [Ev_Register 0,
     Ev_ShutdownBegin None, Ev_ShutdownDeliver, Ev_Poll 0, Ev_ShutdownFinish] @ [D_ShutdownFinish])
     demo_closed"
proof -
  let ?q0 = "disp_queue demo_closing"
  let ?q1 = "worker_register 0 ?q0"
  let ?q2 = "projr (the (Shutdown_begin None ?q1))"
  let ?q3 = "shutdown_deliver ?q2"
  let ?q4 = "worker_poll 0 ?q3"
  let ?q5 = "shutdown_finish ?q4"
  note ev = demo_closing_def demo_disp_eval
  have r1: "disp_run demo_dispatcher [D_ShutdownBegin] demo_closing"
    by (rule disp_run_step [OF d_run_nil d_shutdown_begin]) (simp_all add: ev)
  have s1: "cq_step ?q0 (Ev_Register 0) ?q1" by (rule step_register) (simp_all add: ev)
  have s2: "cq_step ?q1 (Ev_ShutdownBegin None) ?q2"
    by (rule step_shutdown_begin) (simp add: ev)
  have s3: "cq_step ?q2 Ev_ShutdownDeliver ?q3"
    by (rule step_shutdown_deliver [of _ "[]"]) (simp add: ev)
  have s4: "cq_step ?q3 (Ev_Poll 0) ?q4" by (rule step_poll) (simp_all add: ev)
  have s5: "cq_step ?q4 Ev_ShutdownFinish ?q5" by (rule step_shutdown_finish) (simp_all add: ev)
  have "cq_run ?q0 [Ev_Register 0, Ev_ShutdownBegin None, Ev_ShutdownDeliver, Ev_Poll 0,
      Ev_ShutdownFinish] ?q5"
    using run_snoc [OF run_snoc [OF run_snoc [OF run_snoc [OF run_snoc [OF run_nil s1] s2] s3] s4] s5]
    by simp
  then have "disp_run demo_closing (map of_queue_event [Ev_Register 0, Ev_ShutdownBegin None,
      Ev_ShutdownDeliver, Ev_Poll 0, Ev_ShutdownFinish]) (demo_closing\<lparr>disp_queue := ?q5\<rparr>)"
    by (intro queue_run_lift) (simp_all add: ev)
  moreover have "disp_step (demo_closing\<lparr>disp_queue := ?q5\<rparr>) D_ShutdownFinish demo_closed"
    unfolding demo_closed_def by (rule d_shutdown_finish) (simp_all add: ev)
  ultimately show ?thesis using disp_run_trans [OF d_run_snoc r1] by blast
qed

lemma disp_shutdown_complete_quiet_witness:
  "cq_shutdown_complete (disp_queue demo_closed) \<and> cq_tasks (disp_queue demo_closed) = Map.empty"
proof -
  have "disp_shutdown_complete demo_closed"
    by (simp add: demo_closed_def demo_closing_def demo_disp_eval)
  from disp_shutdown_complete_quiet [OF demo_dispatcher_fields(3) demo_closed_run this]
  show ?thesis by simp
qed

text \<open>
  Two stop commands are submitted; the adapter, called for the first of them on the queue's worker (the safety check
  lets a stop pass), calls \<open>Shutdown\<close>; the second waits in the queue.
\<close>

definition demo_shutting :: dispatcher where
  "demo_shutting =
     (let d = fst (ExecuteAsync 1 1 (demo_stop\<lparr>cmd_id := 4\<rparr>) (fst (ExecuteAsync 1 1 demo_stop demo_dispatcher)))
      in d\<lparr>disp_queue := worker_poll 0 (worker_register 0 (disp_queue d))\<rparr>)"

lemma demo_shutting_run: "\<exists>es. disp_run demo_dispatcher es demo_shutting"
proof -
  let ?d1 = "fst (ExecuteAsync 1 1 demo_stop demo_dispatcher)"
  let ?d2 = "fst (ExecuteAsync 1 1 (demo_stop\<lparr>cmd_id := 4\<rparr>) ?d1)"
  let ?d3 = "?d2\<lparr>disp_queue := worker_register 0 (disp_queue ?d2)\<rparr>"
  note ev = demo_disp_eval demo_stop_def
  note r2 = d_run_snoc [OF d_run_snoc [OF d_run_nil d_async] d_async]
  have "disp_step ?d2 (D_Queue (Ev_Register 0)) ?d3"
    by (rule d_queue [OF _ step_register]) (simp_all add: ev)
  note r3 = d_run_snoc [OF r2 this]
  have "disp_step ?d3 (D_Queue (Ev_Poll 0)) (?d3\<lparr>disp_queue := worker_poll 0 (disp_queue ?d3)\<rparr>)"
    by (rule d_queue [OF _ step_poll]) (simp_all add: ev)
  then show ?thesis using d_run_snoc [OF r3] by (auto simp: demo_shutting_def Let_def)
qed

lemma demo_shutting_facts:
  "cq_workers (disp_queue demo_shutting) = [W_Executing 0]" "disp_accepting demo_shutting"
  "disp_synchronous_ids demo_shutting = {}" "cq_queue (disp_queue demo_shutting) = [1]"
  "map_option task_command (cq_store (disp_queue demo_shutting) 0) = Some demo_stop"
  by (simp_all add: demo_shutting_def demo_stop_def demo_disp_eval)

theorem disp_shutdown_on_worker_incomplete_witness:
  "\<exists>d'. disp_Shutdown_on_worker 0 demo_shutting =
       Some (d', Result Status_Rejected ''Command queue cannot be shut down from its executor'')
     \<and> disp_shutdown_complete d' \<and> cq_queue (disp_queue d') = [1] \<and> cq_accepting (disp_queue d')"
proof -
  obtain es where run: "disp_run demo_dispatcher es demo_shutting" using demo_shutting_run by blast
  have w: "0 < length (cq_workers (disp_queue demo_shutting))"
    "cq_workers (disp_queue demo_shutting) ! 0 = W_Executing 0" by (simp_all add: demo_shutting_facts)
  from disp_shutdown_on_worker_incomplete [OF demo_dispatcher_fields(3) run w demo_shutting_facts(2,3)]
  show ?thesis using d_run_nil demo_shutting_facts(4) by metis
qed

end
