(* ===== verification/Command_Pipeline.thy ===== *)
theory Command_Pipeline
  imports Command_Queue "HOL-Library.AList" "HOL-Library.Product_Lexorder"
begin

text \<open>
  The execution pipeline of \<open>src/core/CommandExecutionPipeline.cpp\<close>: submission in three critical
  sections, priority scheduling, lifecycle records with a bounded history, metrics, callbacks and
  shutdown. Execution objects live in a store indexed by their execution identifier, since the
  queue, the index, the workers and the shutdown loop share them. What a thread does after it left
  a critical section (satisfying the promise, emitting an event) is kept in \<open>pl_promises\<close> and
  \<open>pl_emits\<close> until the thread gets to it. The wrap-around of the 64-bit identifier counters is not
  represented: identifiers are natural numbers.
\<close>

section \<open>State\<close>

record command_execution_pipeline_options =
  plo_maximumQueueSize :: nat
  plo_workerCount :: nat
  plo_maximumHistorySize :: nat

record command_execution_event =
  ev_executionId :: nat
  ev_commandId :: u64
  ev_commandType :: command_type
  ev_status :: command_status
  ev_timestamp :: time_ns
  ev_result :: command_result

record command_execution_record =
  rec_executionId :: nat
  rec_commandId :: u64
  rec_commandType :: command_type
  rec_priority :: command_priority
  rec_status :: command_status
  rec_submittedAt :: time_ns
  rec_queuedAt :: "time_ns option"
  rec_startedAt :: "time_ns option"
  rec_completedAt :: "time_ns option"
  rec_result :: command_result

record command_execution_metrics =
  met_currentQueued :: nat
  met_currentRunning :: nat
  met_maximumQueueSize :: nat
  met_workerCount :: nat
  met_maximumHistorySize :: nat
  met_historySize :: nat
  met_highWatermark :: nat
  met_maximumConcurrentRunning :: nat
  met_accepted :: u64
  met_started :: u64
  met_completed :: u64
  met_cancelled :: u64
  met_timedOut :: u64
  met_failed :: u64
  met_rejected :: u64
  met_callbackFailures :: u64

definition zero_metrics :: command_execution_metrics where
  "zero_metrics = \<lparr>met_currentQueued = 0, met_currentRunning = 0, met_maximumQueueSize = 0,
     met_workerCount = 0, met_maximumHistorySize = 0, met_historySize = 0, met_highWatermark = 0,
     met_maximumConcurrentRunning = 0, met_accepted = 0, met_started = 0, met_completed = 0,
     met_cancelled = 0, met_timedOut = 0, met_failed = 0, met_rejected = 0,
     met_callbackFailures = 0\<rparr>"

record execution =
  ex_command :: command
  ex_promise :: "command_result option"
  ex_record :: command_execution_record
  ex_sequence :: nat
  ex_running :: bool

definition new_execution :: "time_ns \<Rightarrow> nat \<Rightarrow> command \<Rightarrow> execution" where
  "new_execution now i c = \<lparr>ex_command = c, ex_promise = None,
     ex_record = \<lparr>rec_executionId = i, rec_commandId = cmd_id c, rec_commandType = cmd_type c,
       rec_priority = cmd_priority c, rec_status = Status_Pending, rec_submittedAt = now,
       rec_queuedAt = None, rec_startedAt = None, rec_completedAt = None,
       rec_result = Result Status_Pending ''Command execution submitted''\<rparr>,
     ex_sequence = 0, ex_running = False\<rparr>"

datatype pl_worker = PW_Starting | PW_Waiting | PW_Executing nat | PW_Exited

record pipeline =
  pl_options :: command_execution_pipeline_options
  pl_store :: "nat \<Rightarrow> execution option"
  pl_queue :: "nat list"
  pl_executions :: "nat set"
  pl_command_to_execution :: "u64 \<Rightarrow> nat option"
  pl_records :: "(nat \<times> command_execution_record) list"
  pl_history_order :: "nat list"
  pl_callbacks :: "nat set"
  pl_metrics :: command_execution_metrics
  pl_running_count :: nat
  pl_next_execution_id :: nat
  pl_next_callback_id :: nat
  pl_next_sequence :: nat
  pl_accepting :: bool
  pl_shutdown_in_progress :: bool
  pl_shutdown_complete :: bool
  pl_stop_requested :: bool
  pl_workers :: "pl_worker list"
  pl_submitting :: "(nat \<times> command_result option) list"
  pl_promises :: "(nat \<times> command_result) list"
  pl_emits :: "(command_execution_event \<times> nat set) list"
  pl_shutdown :: shutdown_phase

definition pl_create :: "bool \<Rightarrow> command_execution_pipeline_options \<Rightarrow> string + pipeline" where
  "pl_create has_executor opts =
     (if \<not> has_executor then Inl ''CommandExecutionPipeline requires an executor''
      else if plo_maximumQueueSize opts = 0 then
        Inl ''CommandExecutionPipeline queue size must be greater than zero''
      else if plo_workerCount opts = 0 then
        Inl ''CommandExecutionPipeline worker count must be greater than zero''
      else if plo_maximumHistorySize opts = 0 then
        Inl ''CommandExecutionPipeline history size must be greater than zero''
      else Inr \<lparr>pl_options = opts, pl_store = (\<lambda>_. None), pl_queue = [], pl_executions = {},
        pl_command_to_execution = (\<lambda>_. None), pl_records = [], pl_history_order = [],
        pl_callbacks = {}, pl_metrics = zero_metrics, pl_running_count = 0,
        pl_next_execution_id = 1, pl_next_callback_id = 1, pl_next_sequence = 0,
        pl_accepting = True, pl_shutdown_in_progress = False, pl_shutdown_complete = False,
        pl_stop_requested = False, pl_workers = replicate (plo_workerCount opts) PW_Starting,
        pl_submitting = [], pl_promises = [], pl_emits = [], pl_shutdown = Shut_None\<rparr>)"

section \<open>History and metrics\<close>

text \<open>
  The loop of \<open>PruneHistoryLocked\<close>; \<open>out\<close> tells the identifiers still in \<open>executions_\<close>. Erasing the
  candidate found by \<open>std::find_if\<close> removes the first occurrence of its identifier.
\<close>

function PruneHistory ::
  "nat \<Rightarrow> (nat \<Rightarrow> bool) \<Rightarrow> (nat \<times> 'r) list \<Rightarrow> nat list \<Rightarrow> (nat \<times> 'r) list \<times> nat list" where
  "PruneHistory mx out recs hist =
     (if length recs > mx \<and> hist \<noteq> [] then
        (case find (\<lambda>i. \<not> out i) hist of
           None \<Rightarrow> (recs, hist)
         | Some i \<Rightarrow> PruneHistory mx out (AList.delete i recs) (remove1 i hist))
      else (recs, hist))"
  by pat_completeness auto
termination
proof (relation "measure (\<lambda>(mx, out, recs, hist). length hist)", goal_cases)
  case (2 mx out recs hist i)
  then have "i \<in> set hist" by (auto simp: find_Some_iff)
  then show ?case using length_pos_if_in_set [of i hist] by (simp add: length_remove1)
qed simp

declare PruneHistory.simps [simp del]

definition PruneHistoryLocked :: "pipeline \<Rightarrow> pipeline" where
  "PruneHistoryLocked s =
     (case PruneHistory (plo_maximumHistorySize (pl_options s)) (\<lambda>i. i \<in> pl_executions s)
        (pl_records s) (pl_history_order s) of
        (recs, hist) \<Rightarrow> s\<lparr>pl_records := recs, pl_history_order := hist\<rparr>)"

fun RecordTerminalMetricsLocked ::
  "command_status \<Rightarrow> command_execution_metrics \<Rightarrow> command_execution_metrics" where
  "RecordTerminalMetricsLocked Status_Completed m = m\<lparr>met_completed := met_completed m + 1\<rparr>"
| "RecordTerminalMetricsLocked Status_Cancelled m = m\<lparr>met_cancelled := met_cancelled m + 1\<rparr>"
| "RecordTerminalMetricsLocked Status_Timeout m = m\<lparr>met_timedOut := met_timedOut m + 1\<rparr>"
| "RecordTerminalMetricsLocked Status_Failed m = m\<lparr>met_failed := met_failed m + 1\<rparr>"
| "RecordTerminalMetricsLocked Status_Rejected m = m\<lparr>met_rejected := met_rejected m + 1\<rparr>"
| "RecordTerminalMetricsLocked Status_Pending m = m\<lparr>met_failed := met_failed m + 1\<rparr>"
| "RecordTerminalMetricsLocked Status_Queued m = m\<lparr>met_failed := met_failed m + 1\<rparr>"
| "RecordTerminalMetricsLocked Status_Running m = m\<lparr>met_failed := met_failed m + 1\<rparr>"
| "RecordTerminalMetricsLocked (Status_Other _) m = m"

definition CompleteRecordLocked ::
  "time_ns \<Rightarrow> command_result \<Rightarrow> command_execution_record \<Rightarrow> command_execution_record" where
  "CompleteRecordLocked now r rec =
     rec\<lparr>rec_status := res_status r, rec_completedAt := Some now, rec_result := r\<rparr>"

definition EventFromRecord :: "time_ns \<Rightarrow> command_execution_record \<Rightarrow> command_execution_event" where
  "EventFromRecord now rec = \<lparr>ev_executionId = rec_executionId rec, ev_commandId = rec_commandId rec,
     ev_commandType = rec_commandType rec, ev_status = rec_status rec, ev_timestamp = now,
     ev_result = rec_result rec\<rparr>"

text \<open>The caller emits the event to the callbacks registered now, after it released the lock.\<close>

definition queue_emit :: "command_execution_event \<Rightarrow> pipeline \<Rightarrow> pipeline" where
  "queue_emit ev s = s\<lparr>pl_emits := pl_emits s @ [(ev, pl_callbacks s)]\<rparr>"

definition queue_promise :: "nat \<Rightarrow> command_result \<Rightarrow> pipeline \<Rightarrow> pipeline" where
  "queue_promise i r s = s\<lparr>pl_promises := pl_promises s @ [(i, r)]\<rparr>"

text \<open>\<open>CompleteExecutionLocked\<close>, then (outside the lock) \<open>CompletePromise\<close> and \<open>Emit\<close>.\<close>

definition CompleteExecutionLocked ::
  "time_ns \<Rightarrow> time_ns \<Rightarrow> nat \<Rightarrow> command_result \<Rightarrow> pipeline \<Rightarrow> pipeline" where
  "CompleteExecutionLocked now now' i r s =
     (case pl_store s i of
        None \<Rightarrow> s
      | Some e \<Rightarrow>
          (let rec = CompleteRecordLocked now r (ex_record e);
               s1 = s\<lparr>pl_store := (pl_store s)(i \<mapsto> e\<lparr>ex_record := rec, ex_running := False\<rparr>),
                  pl_records := AList.update i rec (pl_records s),
                  pl_executions := pl_executions s - {i},
                  pl_command_to_execution := (pl_command_to_execution s)(rec_commandId rec := None),
                  pl_running_count :=
                    (if ex_running e \<and> pl_running_count s > 0 then pl_running_count s - 1
                     else pl_running_count s),
                  pl_metrics := RecordTerminalMetricsLocked (res_status r) (pl_metrics s)\<rparr>
           in queue_emit (EventFromRecord now' rec) (queue_promise i r (PruneHistoryLocked s1))))"

section \<open>Submission\<close>

definition ValidateForSubmission :: "time_ns \<Rightarrow> command \<Rightarrow> command_result option" where
  "ValidateForSubmission now c =
     (if cmd_id c = 0 then Some (Result Status_Rejected ''Command identifier must be nonzero'')
      else if cmd_timeout c < 0 then
        Some (Result Status_Rejected ''Command timeout must not be negative'')
      else if \<not> IsKnownCommandType (cmd_type c) then
        Some (Result Status_Rejected ''Command type is invalid'')
      else if \<not> IsKnownPriority (cmd_priority c) then
        Some (Result Status_Rejected ''Command priority is invalid'')
      else if \<not> hasTimeout c then None
      else timed_check ''Command expired before execution submission'' now c)"

text \<open>
  \<open>Submit\<close>, first part: a fresh identifier, the execution object, the validation. Second part: the
  critical section that queues the execution or decides to reject it. Third part:
  \<open>CompleteRejectedExecution\<close>.
\<close>

definition Submit_new :: "time_ns \<Rightarrow> time_ns \<Rightarrow> command \<Rightarrow> pipeline \<Rightarrow> pipeline" where
  "Submit_new now now' c s =
     (let i = pl_next_execution_id s in
      s\<lparr>pl_next_execution_id := i + 1, pl_store := (pl_store s)(i \<mapsto> new_execution now i c),
        pl_submitting := pl_submitting s @ [(i, ValidateForSubmission now' c)]\<rparr>)"

definition submit_refusal :: "command \<Rightarrow> pipeline \<Rightarrow> command_result option" where
  "submit_refusal c s =
     (if \<not> pl_accepting s then
        Some (Result Status_Rejected ''Command execution pipeline is shut down'')
      else if pl_command_to_execution s (cmd_id c) \<noteq> None then
        Some (Result Status_Rejected ''Command identifier is already outstanding'')
      else if length (pl_queue s) \<ge> plo_maximumQueueSize (pl_options s) then
        Some (Result Status_Rejected ''Command execution queue is full'')
      else None)"

definition queued_record :: "time_ns \<Rightarrow> command_execution_record \<Rightarrow> command_execution_record" where
  "queued_record now rec = rec\<lparr>rec_status := Status_Queued, rec_queuedAt := Some now,
     rec_result := Result Status_Queued ''Command queued for execution''\<rparr>"

definition Submit_accept :: "time_ns \<Rightarrow> time_ns \<Rightarrow> nat \<Rightarrow> execution \<Rightarrow> pipeline \<Rightarrow> pipeline" where
  "Submit_accept now now' i e s =
     (let rec = queued_record now (ex_record e); m = pl_metrics s in
      queue_emit (EventFromRecord now' rec)
        (s\<lparr>pl_store := (pl_store s)(i \<mapsto> e\<lparr>ex_sequence := pl_next_sequence s, ex_record := rec\<rparr>),
           pl_next_sequence := pl_next_sequence s + 1,
           pl_records := (if map_of (pl_records s) i = None then pl_records s @ [(i, rec)]
                          else pl_records s),
           pl_history_order := pl_history_order s @ [i],
           pl_executions := insert i (pl_executions s),
           pl_command_to_execution :=
             (if pl_command_to_execution s (rec_commandId rec) = None
              then (pl_command_to_execution s)(rec_commandId rec \<mapsto> i)
              else pl_command_to_execution s),
           pl_queue := pl_queue s @ [i],
           pl_metrics := m\<lparr>met_accepted := met_accepted m + 1,
             met_highWatermark := max (met_highWatermark m) (length (pl_queue s @ [i]))\<rparr>\<rparr>))"

definition CompleteRejectedExecution ::
  "time_ns \<Rightarrow> time_ns \<Rightarrow> nat \<Rightarrow> execution \<Rightarrow> command_result \<Rightarrow> pipeline \<Rightarrow> pipeline" where
  "CompleteRejectedExecution now now' i e r s =
     (let rec = CompleteRecordLocked now r (ex_record e);
          s1 = s\<lparr>pl_store := (pl_store s)(i \<mapsto> e\<lparr>ex_record := rec\<rparr>),
             pl_records := AList.update i rec (pl_records s),
             pl_history_order := pl_history_order s @ [i],
             pl_metrics := RecordTerminalMetricsLocked (res_status r) (pl_metrics s)\<rparr>
      in queue_emit (EventFromRecord now' rec) (queue_promise i r (PruneHistoryLocked s1)))"

definition Submit_continue :: "time_ns \<Rightarrow> time_ns \<Rightarrow> nat \<Rightarrow> pipeline \<Rightarrow> pipeline" where
  "Submit_continue now now' k s =
     (case pl_submitting s ! k of
        (i, verdict) \<Rightarrow>
          (case pl_store s i of
             None \<Rightarrow> s
           | Some e \<Rightarrow>
               (case verdict of
                  Some r \<Rightarrow> CompleteRejectedExecution now now' i e r
                    (s\<lparr>pl_submitting := erase_at k (pl_submitting s)\<rparr>)
                | None \<Rightarrow>
                    (case submit_refusal (ex_command e) s of
                       Some r \<Rightarrow> s\<lparr>pl_submitting := (pl_submitting s)[k := (i, Some r)]\<rparr>
                     | None \<Rightarrow> Submit_accept now now' i e
                         (s\<lparr>pl_submitting := erase_at k (pl_submitting s)\<rparr>)))))"

section \<open>Cancellation, callbacks and queries\<close>

definition pl_Cancel :: "time_ns \<Rightarrow> time_ns \<Rightarrow> nat \<Rightarrow> pipeline \<Rightarrow> pipeline \<times> command_result" where
  "pl_Cancel now now' i s =
     (if i = 0 then (s, Result Status_Rejected ''Execution identifier must be nonzero'')
      else if i \<notin> pl_executions s then (s, Result Status_Rejected ''Execution is not outstanding'')
      else if map_option ex_running (pl_store s i) = Some True then
        (s, Result Status_Rejected ''A running execution cannot be cancelled'')
      else
        (let r = Result Status_Cancelled ''Command execution cancelled before start'' in
         (CompleteExecutionLocked now now' i r (s\<lparr>pl_queue := remove1 i (pl_queue s)\<rparr>), r)))"

definition Subscribe :: "bool \<Rightarrow> pipeline \<Rightarrow> pipeline \<times> nat" where
  "Subscribe has_callback s =
     (if \<not> has_callback then (s, 0)
      else (s\<lparr>pl_next_callback_id := pl_next_callback_id s + 1,
              pl_callbacks := insert (pl_next_callback_id s) (pl_callbacks s)\<rparr>,
            pl_next_callback_id s))"

definition Unsubscribe :: "nat \<Rightarrow> pipeline \<Rightarrow> pipeline \<times> bool" where
  "Unsubscribe cb s =
     (if cb = 0 then (s, False)
      else (s\<lparr>pl_callbacks := pl_callbacks s - {cb}\<rparr>, cb \<in> pl_callbacks s))"

text \<open>\<open>Emit\<close>: \<open>throws\<close> are the callbacks that throw; each failure is counted.\<close>

definition Emit :: "nat \<Rightarrow> nat set \<Rightarrow> pipeline \<Rightarrow> pipeline" where
  "Emit k throws s =
     (let m = pl_metrics s; cbs = snd (pl_emits s ! k) in
      s\<lparr>pl_emits := erase_at k (pl_emits s),
        pl_metrics := m\<lparr>met_callbackFailures := met_callbackFailures m + of_nat (card (cbs \<inter> throws))\<rparr>\<rparr>)"

definition CompletePromise :: "nat \<Rightarrow> pipeline \<Rightarrow> pipeline" where
  "CompletePromise k s =
     (case pl_promises s ! k of
        (i, r) \<Rightarrow>
          (let s1 = s\<lparr>pl_promises := erase_at k (pl_promises s)\<rparr> in
           case pl_store s i of
             None \<Rightarrow> s1
           | Some e \<Rightarrow>
               (if ex_promise e = None
                then s1\<lparr>pl_store := (pl_store s)(i \<mapsto> e\<lparr>ex_promise := Some r\<rparr>)\<rparr> else s1)))"

definition GetMetrics :: "pipeline \<Rightarrow> command_execution_metrics" where
  "GetMetrics s = (pl_metrics s)\<lparr>met_currentQueued := length (pl_queue s),
     met_currentRunning := pl_running_count s,
     met_maximumQueueSize := plo_maximumQueueSize (pl_options s),
     met_workerCount := plo_workerCount (pl_options s),
     met_maximumHistorySize := plo_maximumHistorySize (pl_options s),
     met_historySize := length (pl_records s)\<rparr>"

definition GetHistory :: "pipeline \<Rightarrow> command_execution_record list" where
  "GetHistory s = List.map_filter (map_of (pl_records s)) (pl_history_order s)"

definition GetRecord :: "nat \<Rightarrow> pipeline \<Rightarrow> command_execution_record option" where
  "GetRecord i s = map_of (pl_records s) i"

definition pl_Contains :: "nat \<Rightarrow> pipeline \<Rightarrow> bool" where
  "pl_Contains i s = (i \<in> pl_executions s)"

section \<open>Workers\<close>

text \<open>
  The comparison of \<open>TakeNextExecutionLocked\<close> orders by priority, then by descending sequence
  number, so its key is the pair of the priority and the negated sequence number.
\<close>

definition execution_key :: "pipeline \<Rightarrow> nat \<Rightarrow> nat \<times> int" where
  "execution_key s i =
     (case pl_store s i of
        Some e \<Rightarrow> (priority_code (cmd_priority (ex_command e)), - int (ex_sequence e))
      | None \<Rightarrow> (0, 0))"

definition running_record :: "time_ns \<Rightarrow> command_execution_record \<Rightarrow> command_execution_record" where
  "running_record now rec = rec\<lparr>rec_status := Status_Running, rec_startedAt := Some now,
     rec_result := Result Status_Running ''Command execution started''\<rparr>"

definition TakeNextExecutionLocked :: "time_ns \<Rightarrow> time_ns \<Rightarrow> nat \<Rightarrow> pipeline \<Rightarrow> pipeline" where
  "TakeNextExecutionLocked now now' w s =
     (let k = max_element (execution_key s) (pl_queue s); i = pl_queue s ! k in
      case pl_store s i of
        None \<Rightarrow> s
      | Some e \<Rightarrow>
          (let rec = running_record now (ex_record e); m = pl_metrics s in
           queue_emit (EventFromRecord now' rec)
             (s\<lparr>pl_queue := erase_at k (pl_queue s),
                pl_store := (pl_store s)(i \<mapsto> e\<lparr>ex_running := True, ex_record := rec\<rparr>),
                pl_records := AList.update i rec (pl_records s),
                pl_running_count := pl_running_count s + 1,
                pl_metrics := m\<lparr>met_started := met_started m + 1,
                  met_maximumConcurrentRunning :=
                    max (met_maximumConcurrentRunning m) (pl_running_count s + 1)\<rparr>,
                pl_workers := (pl_workers s)[w := PW_Executing i]\<rparr>)))"

definition pl_worker_wake :: "pipeline \<Rightarrow> bool" where
  "pl_worker_wake s = (pl_stop_requested s \<or> pl_queue s \<noteq> [] \<or> \<not> pl_accepting s)"

definition pl_worker_poll :: "time_ns \<Rightarrow> time_ns \<Rightarrow> nat \<Rightarrow> pipeline \<Rightarrow> pipeline" where
  "pl_worker_poll now now' w s =
     (if pl_queue s = [] then
        (if pl_stop_requested s \<or> \<not> pl_accepting s then
           s\<lparr>pl_workers := (pl_workers s)[w := PW_Exited]\<rparr> else s)
      else TakeNextExecutionLocked now now' w s)"

definition InvokeExecutor :: "command_result outcome \<Rightarrow> command_result" where
  "InvokeExecutor oc =
     (case oc of
        Returned r \<Rightarrow> r
      | ThrewException what \<Rightarrow> Result Status_Failed (''Command executor failed: '' @ what)
      | ThrewUnknown \<Rightarrow> Result Status_Failed ''Command executor failed with an unknown error'')"

definition execution_result ::
  "time_ns \<Rightarrow> command_result outcome \<Rightarrow> time_ns \<Rightarrow> command \<Rightarrow> command_result" where
  "execution_result now oc now' c =
     (if HasExpired now c then Result Status_Timeout ''Command expired before executor invocation''
      else
        (let r = InvokeExecutor oc in
         if res_status r = Status_Completed \<and> HasExpired now' c then
           Result Status_Timeout ''Command completed after its timeout''
         else if \<not> isTerminal (res_status r) then
           Result Status_Failed ''Command executor returned a nonterminal status''
         else r))"

definition pl_worker_finish ::
  "nat \<Rightarrow> (nat \<Rightarrow> time_ns) \<Rightarrow> command_result outcome \<Rightarrow> nat \<Rightarrow> pipeline \<Rightarrow> pipeline" where
  "pl_worker_finish w clk oc i s =
     (case pl_store s i of
        None \<Rightarrow> s
      | Some e \<Rightarrow> CompleteExecutionLocked (clk 2) (clk 3) i
          (execution_result (clk 0) oc (clk 1) (ex_command e))
          (s\<lparr>pl_workers := (pl_workers s)[w := PW_Waiting]\<rparr>))"

section \<open>Shutdown\<close>

definition pl_IsWorkerThread :: "nat option \<Rightarrow> pipeline \<Rightarrow> bool" where
  "pl_IsWorkerThread caller s =
     (case caller of None \<Rightarrow> False
      | Some w \<Rightarrow> w < length (pl_workers s) \<and> pl_workers s ! w \<notin> {PW_Starting, PW_Exited})"

definition pl_Shutdown_begin :: "nat option \<Rightarrow> pipeline \<Rightarrow> (command_result + pipeline) option" where
  "pl_Shutdown_begin caller s =
     (if pl_shutdown_complete s then
        Some (Inl (Result Status_Completed ''Command execution pipeline is shut down''))
      else if pl_IsWorkerThread caller s then
        Some (Inl (Result Status_Rejected
          ''Command execution pipeline cannot be shut down from its executor''))
      else if pl_shutdown_in_progress s then None
      else Some (Inr (s\<lparr>pl_shutdown_in_progress := True, pl_accepting := False, pl_queue := [],
             pl_shutdown := Shut_Delivering (pl_queue s)\<rparr>)))"

definition pl_shutdown_result :: command_result where
  "pl_shutdown_result =
     Result Status_Cancelled ''Command execution cancelled during pipeline shutdown''"

definition pl_shutdown_deliver :: "time_ns \<Rightarrow> time_ns \<Rightarrow> pipeline \<Rightarrow> pipeline" where
  "pl_shutdown_deliver now now' s =
     (case pl_shutdown s of
        Shut_Delivering (i # is) \<Rightarrow>
          CompleteExecutionLocked now now' i pl_shutdown_result
            (s\<lparr>pl_shutdown := Shut_Delivering is\<rparr>)
      | Shut_Delivering [] \<Rightarrow> s\<lparr>pl_shutdown := Shut_Joining, pl_stop_requested := True\<rparr>
      | _ \<Rightarrow> s)"

definition pl_shutdown_finish :: "pipeline \<Rightarrow> pipeline" where
  "pl_shutdown_finish s =
     (PruneHistoryLocked s)\<lparr>pl_shutdown_complete := True, pl_shutdown_in_progress := False,
        pl_shutdown := Shut_Finished\<rparr>"

section \<open>Interleavings\<close>

datatype pl_event =
    PE_SubmitNew time_ns time_ns command
  | PE_SubmitContinue time_ns time_ns nat
  | PE_Cancel time_ns time_ns nat
  | PE_Subscribe bool
  | PE_Unsubscribe nat
  | PE_Promise nat
  | PE_Emit nat "nat set"
  | PE_Register nat
  | PE_Poll time_ns time_ns nat
  | PE_Finish nat "nat \<Rightarrow> time_ns" "command_result outcome"
  | PE_ShutdownBegin "nat option"
  | PE_ShutdownDeliver time_ns time_ns
  | PE_ShutdownFinish

inductive pl_step :: "pipeline \<Rightarrow> pl_event \<Rightarrow> pipeline \<Rightarrow> bool" where
  p_submit_new: "pl_step s (PE_SubmitNew now now' c) (Submit_new now now' c s)"
| p_submit_continue: "k < length (pl_submitting s) \<Longrightarrow>
    pl_step s (PE_SubmitContinue now now' k) (Submit_continue now now' k s)"
| p_cancel: "pl_step s (PE_Cancel now now' i) (fst (pl_Cancel now now' i s))"
| p_subscribe: "pl_step s (PE_Subscribe b) (fst (Subscribe b s))"
| p_unsubscribe: "pl_step s (PE_Unsubscribe cb) (fst (Unsubscribe cb s))"
| p_promise: "k < length (pl_promises s) \<Longrightarrow> pl_step s (PE_Promise k) (CompletePromise k s)"
| p_emit: "k < length (pl_emits s) \<Longrightarrow> pl_step s (PE_Emit k throws) (Emit k throws s)"
| p_register: "w < length (pl_workers s) \<Longrightarrow> pl_workers s ! w = PW_Starting \<Longrightarrow>
    pl_step s (PE_Register w) (s\<lparr>pl_workers := (pl_workers s)[w := PW_Waiting]\<rparr>)"
| p_poll: "w < length (pl_workers s) \<Longrightarrow> pl_workers s ! w = PW_Waiting \<Longrightarrow> pl_worker_wake s \<Longrightarrow>
    pl_step s (PE_Poll now now' w) (pl_worker_poll now now' w s)"
| p_finish: "w < length (pl_workers s) \<Longrightarrow> pl_workers s ! w = PW_Executing i \<Longrightarrow>
    pl_step s (PE_Finish w clk oc) (pl_worker_finish w clk oc i s)"
| p_shutdown_begin: "pl_Shutdown_begin caller s = Some (Inr s') \<Longrightarrow>
    pl_step s (PE_ShutdownBegin caller) s'"
| p_shutdown_deliver: "pl_shutdown s = Shut_Delivering is \<Longrightarrow>
    pl_step s (PE_ShutdownDeliver now now') (pl_shutdown_deliver now now' s)"
| p_shutdown_finish: "pl_shutdown s = Shut_Joining \<Longrightarrow> set (pl_workers s) \<subseteq> {PW_Exited} \<Longrightarrow>
    pl_step s PE_ShutdownFinish (pl_shutdown_finish s)"

inductive pl_run :: "pipeline \<Rightarrow> pl_event list \<Rightarrow> pipeline \<Rightarrow> bool" where
  p_run_nil: "pl_run s [] s"
| p_run_snoc: "pl_run s es s' \<Longrightarrow> pl_step s' e s'' \<Longrightarrow> pl_run s (es @ [e]) s''"

end
