(* ===== verification/Command_Pipeline_Inv.thy ===== *)
theory Command_Pipeline_Inv
  imports Command_Pipeline Command_Queue_Inv
begin

text \<open>
  The exact effect of pruning the history, and the invariant of the pipeline over all
  interleavings in which no \<open>Cancel\<close> hits an execution that a shutdown has already taken off the
  queue.
\<close>

section \<open>Pruning\<close>

definition pruned_ids :: "nat \<Rightarrow> (nat \<Rightarrow> bool) \<Rightarrow> nat \<Rightarrow> nat list \<Rightarrow> nat list" where
  "pruned_ids mx out n hist = take (n - mx) (filter (\<lambda>i. \<not> out i) hist)"

lemma find_filter: "find P xs = (case filter P xs of [] \<Rightarrow> None | x # _ \<Rightarrow> Some x)"
  by (induction xs) auto

lemma filter_remove1_head:
  assumes "filter P xs = i # ys"
  shows "filter P (remove1 i xs) = ys"
proof -
  have "filter P (remove1 i xs) = remove1 i (filter P xs)" by (rule filter_remove1)
  then show ?thesis by (simp add: assms)
qed

lemma filter_drop_prefix: "distinct xs \<Longrightarrow> filter (\<lambda>x. x \<notin> set (take n xs)) xs = drop n xs"
proof -
  assume "distinct xs"
  then have d: "set (take n xs) \<inter> set (drop n xs) = {}" by (simp add: set_take_disj_set_drop_if_distinct)
  have "filter (\<lambda>x. x \<notin> set (take n xs)) (take n xs @ drop n xs) = drop n xs"
    unfolding filter_append using d by (auto simp: filter_empty_conv filter_id_conv)
  then show ?thesis by simp
qed

lemma keys_filter: "fst ` set (filter (\<lambda>(i, _). i \<notin> D) rs) = fst ` set rs - D"
  by force

lemma update_new: "k \<notin> fst ` set al \<Longrightarrow> AList.update k v al = al @ [(k, v)]"
  by (induction al) auto

lemma length_delete_mem:
  "distinct (map fst al) \<Longrightarrow> k \<in> fst ` set al \<Longrightarrow> length (AList.delete k al) = length al - 1"
proof -
  assume "distinct (map fst al)" "k \<in> fst ` set al"
  then have "length (removeAll k (map fst al)) = length (map fst al) - 1"
    by (simp add: distinct_remove1_removeAll [symmetric] length_remove1)
  then show ?thesis by (metis AList.delete_keys length_map)
qed

lemma PruneHistory_filter:
  assumes "distinct hist" "distinct (map fst recs)" "fst ` set recs = set hist"
  shows "PruneHistory mx out recs hist =
    (let D = set (pruned_ids mx out (length recs) hist) in
     (filter (\<lambda>(i, _). i \<notin> D) recs, filter (\<lambda>i. i \<notin> D) hist))"
  using assms
proof (induction mx out recs hist rule: PruneHistory.induct)
  case (1 mx out recs hist)
  show ?case
  proof (cases "length recs > mx \<and> hist \<noteq> [] \<and> filter (\<lambda>i. \<not> out i) hist \<noteq> []")
    case False
    then have "pruned_ids mx out (length recs) hist = []" by (auto simp: pruned_ids_def)
    moreover have "PruneHistory mx out recs hist = (recs, hist)"
      using False by (subst PruneHistory.simps) (auto simp: find_filter)
    ultimately show ?thesis by (simp add: case_prod_beta)
  next
    case True
    then obtain i rest where eq: "filter (\<lambda>i. \<not> out i) hist = i # rest"
      by (cases "filter (\<lambda>i. \<not> out i) hist") auto
    then have i: "i \<in> set hist" by (metis filter_is_subset list.set_intros(1) subsetD)
    have find: "find (\<lambda>i. \<not> out i) hist = Some i" by (simp add: find_filter eq)
    have len: "length (AList.delete i recs) = length recs - 1"
      using 1(3,4) i by (simp add: length_delete_mem)
    have keys: "fst ` set (AList.delete i recs) = set hist - {i}"
      using arg_cong [OF AList.delete_keys [of i recs], of set] 1(4) by simp
    have IH: "PruneHistory mx out (AList.delete i recs) (remove1 i hist) =
      (let D = set (pruned_ids mx out (length (AList.delete i recs)) (remove1 i hist)) in
       (filter (\<lambda>(i, _). i \<notin> D) (AList.delete i recs), filter (\<lambda>i. i \<notin> D) (remove1 i hist)))"
      using True find 1(2,3) keys
      by (intro "1.IH") (simp_all add: AList.distinct_delete)
    let ?D = "set (pruned_ids mx out (length recs - 1) (remove1 i hist))"
    have D: "set (pruned_ids mx out (length recs) hist) = insert i ?D"
    proof -
      have "length recs - mx = Suc (length recs - 1 - mx)" using conjunct1 [OF True] by linarith
      then show ?thesis by (simp add: pruned_ids_def eq filter_remove1_head [OF eq])
    qed
    have "PruneHistory mx out recs hist = PruneHistory mx out (AList.delete i recs) (remove1 i hist)"
      using True find by (subst PruneHistory.simps) simp
    also have "\<dots> = (filter (\<lambda>(j, _). j \<notin> insert i ?D) recs, filter (\<lambda>j. j \<notin> insert i ?D) hist)"
      unfolding IH len Let_def using 1(2)
      by (auto simp: AList.delete_eq distinct_remove1_removeAll removeAll_filter_not_eq
          intro!: filter_cong)
    finally show ?thesis by (simp add: D)
  qed
qed

section \<open>The invariant\<close>

fun pw_exec :: "pl_worker \<Rightarrow> nat list" where
  "pw_exec (PW_Executing i) = [i]"
| "pw_exec _ = []"

definition pl_active :: "pipeline \<Rightarrow> nat list" where
  "pl_active s = concat (map pw_exec (pl_workers s))"

text \<open>
  Executions in the hands of the thread that is about to process them, inside one atomic step:
  submitted ones (\<open>hs\<close>), waiting ones (\<open>hw\<close>) and running ones (\<open>hr\<close>).
\<close>

record hands =
  hs :: "nat list"
  hw :: "nat list"
  hr :: "nat list"

definition no_hands :: hands where
  "no_hands = \<lparr>hs = [], hw = [], hr = []\<rparr>"

definition pl_waiting :: "hands \<Rightarrow> pipeline \<Rightarrow> nat multiset" where
  "pl_waiting h s = mset (pl_queue s) + mset (delivering (pl_shutdown s)) + mset (hw h)"

definition pl_running :: "hands \<Rightarrow> pipeline \<Rightarrow> nat multiset" where
  "pl_running h s = mset (pl_active s) + mset (hr h)"

definition pl_submitted :: "hands \<Rightarrow> pipeline \<Rightarrow> nat multiset" where
  "pl_submitted h s = mset (map fst (pl_submitting s)) + mset (hs h)"

definition pl_unresolved :: "pipeline \<Rightarrow> nat set" where
  "pl_unresolved s = {i. \<exists>e. pl_store s i = Some e \<and> ex_promise e = None}"

text \<open>Every unsatisfied promise has exactly one owner.\<close>

definition pl_owned :: "hands \<Rightarrow> pipeline \<Rightarrow> nat multiset" where
  "pl_owned h s =
     pl_submitted h s + pl_waiting h s + pl_running h s + mset (map fst (pl_promises s))"

definition pl_own_inv :: "hands \<Rightarrow> pipeline \<Rightarrow> bool" where
  "pl_own_inv h s \<longleftrightarrow> (\<forall>i. count (pl_owned h s) i = of_bool (i \<in> pl_unresolved s))"

definition pl_out_inv :: "hands \<Rightarrow> pipeline \<Rightarrow> bool" where
  "pl_out_inv h s \<longleftrightarrow> pl_executions s = set_mset (pl_waiting h s + pl_running h s)"

definition execution_ok :: "nat multiset \<Rightarrow> nat \<Rightarrow> execution \<Rightarrow> bool" where
  "execution_ok running i e \<longleftrightarrow> rec_executionId (ex_record e) = i \<and>
     rec_commandId (ex_record e) = cmd_id (ex_command e) \<and> (ex_running e \<longleftrightarrow> i \<in># running)"

definition pl_store_inv :: "hands \<Rightarrow> pipeline \<Rightarrow> bool" where
  "pl_store_inv h s \<longleftrightarrow> 0 < pl_next_execution_id s \<and>
     (\<forall>i. pl_store s i \<noteq> None \<longleftrightarrow> 0 < i \<and> i < pl_next_execution_id s) \<and>
     (\<forall>i e. pl_store s i = Some e \<longrightarrow> execution_ok (pl_running h s) i e)"

definition pl_command_of :: "pipeline \<Rightarrow> nat \<Rightarrow> u64 option" where
  "pl_command_of s i = map_option (\<lambda>e. cmd_id (ex_command e)) (pl_store s i)"

definition pl_index_inv :: "pipeline \<Rightarrow> bool" where
  "pl_index_inv s \<longleftrightarrow>
     (\<forall>c i. pl_command_to_execution s c = Some i \<longleftrightarrow> i \<in> pl_executions s \<and> pl_command_of s i = Some c)"

text \<open>The history holds the current record of each execution it lists.\<close>

definition record_ok :: "pipeline \<Rightarrow> nat \<Rightarrow> command_execution_record \<Rightarrow> bool" where
  "record_ok s i r \<longleftrightarrow> map_option ex_record (pl_store s i) = Some r \<and>
     (isTerminal (rec_status r) \<longleftrightarrow> i \<notin> pl_executions s)"

definition pl_history_core :: "hands \<Rightarrow> pipeline \<Rightarrow> bool" where
  "pl_history_core h s \<longleftrightarrow>
     distinct (pl_history_order s) \<and> distinct (map fst (pl_records s)) \<and>
     fst ` set (pl_records s) = set (pl_history_order s) \<and>
     pl_executions s \<subseteq> set (pl_history_order s) \<and>
     set (pl_history_order s) \<inter> set_mset (pl_submitted h s) = {} \<and>
     (\<forall>(i, r) \<in> set (pl_records s). record_ok s i r)"

definition completed_ids :: "pipeline \<Rightarrow> nat list" where
  "completed_ids s = filter (\<lambda>i. i \<notin> pl_executions s) (pl_history_order s)"

definition pl_history_bound :: "pipeline \<Rightarrow> bool" where
  "pl_history_bound s \<longleftrightarrow> length (completed_ids s) \<le> plo_maximumHistorySize (pl_options s)"

definition pl_count_inv :: "hands \<Rightarrow> pipeline \<Rightarrow> bool" where
  "pl_count_inv h s \<longleftrightarrow>
     length (pl_queue s) \<le> plo_maximumQueueSize (pl_options s) \<and>
     pl_running_count s = size (pl_running h s) \<and>
     length (pl_workers s) = plo_workerCount (pl_options s) \<and>
     (\<forall>(i, v) \<in> set (pl_submitting s). \<forall>r. v = Some r \<longrightarrow> isTerminal (res_status r))"

definition metrics_total :: "command_execution_metrics \<Rightarrow> u64" where
  "metrics_total m = met_completed m + met_cancelled m + met_timedOut m + met_failed m + met_rejected m"

definition pl_account_inv :: "hands \<Rightarrow> pipeline \<Rightarrow> bool" where
  "pl_account_inv h s \<longleftrightarrow>
     of_nat (pl_next_execution_id s) = 1 + metrics_total (pl_metrics s)
       + of_nat (size (pl_submitted h s)) + of_nat (size (pl_waiting h s)) + of_nat (size (pl_running h s))"

definition pl_phase_inv :: "pipeline \<Rightarrow> bool" where
  "pl_phase_inv s \<longleftrightarrow>
     (pl_accepting s \<longleftrightarrow> pl_shutdown s = Shut_None) \<and>
     (pl_shutdown_in_progress s \<longleftrightarrow> pl_shutdown s \<notin> {Shut_None, Shut_Finished}) \<and>
     (pl_shutdown_complete s \<longleftrightarrow> pl_shutdown s = Shut_Finished) \<and>
     (pl_stop_requested s \<longrightarrow> \<not> pl_accepting s) \<and>
     (\<not> pl_accepting s \<longrightarrow> pl_queue s = []) \<and>
     (pl_shutdown_complete s \<longrightarrow> set (pl_workers s) \<subseteq> {PW_Exited})"

definition pl_core :: "hands \<Rightarrow> pipeline \<Rightarrow> bool" where
  "pl_core h s \<longleftrightarrow> pl_own_inv h s \<and> pl_out_inv h s \<and> pl_store_inv h s \<and> pl_index_inv s \<and>
     pl_count_inv h s \<and> pl_account_inv h s \<and> pl_phase_inv s"

definition pl_inv_with :: "hands \<Rightarrow> pipeline \<Rightarrow> bool" where
  "pl_inv_with h s \<longleftrightarrow> pl_core h s \<and> pl_history_core h s \<and> pl_history_bound s"

abbreviation pl_inv :: "pipeline \<Rightarrow> bool" where
  "pl_inv s \<equiv> pl_inv_with no_hands s"

lemmas pl_core_defs = pl_core_def pl_own_inv_def pl_out_inv_def pl_store_inv_def pl_index_inv_def
  pl_count_inv_def pl_account_inv_def pl_phase_inv_def
lemmas pl_lists = pl_owned_def pl_waiting_def pl_running_def pl_submitted_def pl_active_def no_hands_def

lemma pl_create_inv: "pl_create has_executor opts = Inr s \<Longrightarrow> pl_inv s"
proof -
  assume "pl_create has_executor opts = Inr s"
  then have s: "s = \<lparr>pl_options = opts, pl_store = (\<lambda>_. None), pl_queue = [], pl_executions = {},
        pl_command_to_execution = (\<lambda>_. None), pl_records = [], pl_history_order = [],
        pl_callbacks = {}, pl_metrics = zero_metrics, pl_running_count = 0,
        pl_next_execution_id = 1, pl_next_callback_id = 1, pl_next_sequence = 0,
        pl_accepting = True, pl_shutdown_in_progress = False, pl_shutdown_complete = False,
        pl_stop_requested = False, pl_workers = replicate (plo_workerCount opts) PW_Starting,
        pl_submitting = [], pl_promises = [], pl_emits = [], pl_shutdown = Shut_None\<rparr>"
    by (auto simp: pl_create_def split: if_splits)
  have "concat (map pw_exec (replicate n PW_Starting)) = []" for n by (induction n) simp_all
  then show ?thesis
    unfolding s by (auto simp: pl_inv_with_def pl_core_defs pl_history_core_def pl_history_bound_def
      completed_ids_def pl_lists pl_unresolved_def zero_metrics_def metrics_total_def)
qed

section \<open>Pruning keeps the invariant\<close>

lemma PruneHistoryLocked_eq:
  assumes "pl_history_core h s"
  shows "PruneHistoryLocked s =
    (let D = set (pruned_ids (plo_maximumHistorySize (pl_options s)) (\<lambda>i. i \<in> pl_executions s)
       (length (pl_records s)) (pl_history_order s)) in
     s\<lparr>pl_records := filter (\<lambda>(i, _). i \<notin> D) (pl_records s),
       pl_history_order := filter (\<lambda>i. i \<notin> D) (pl_history_order s)\<rparr>)"
  using assms PruneHistory_filter [of "pl_history_order s" "pl_records s"]
  by (simp add: PruneHistoryLocked_def pl_history_core_def Let_def)

lemma pl_core_history [simp]:
  "pl_core h (s\<lparr>pl_records := rs, pl_history_order := hist\<rparr>) = pl_core h s"
  by (simp add: pl_core_defs pl_lists pl_unresolved_def pl_command_of_def)

lemma pruned_ids_completed:
  "set (pruned_ids mx out n hist) \<subseteq> {i \<in> set hist. \<not> out i}"
  using set_take_subset by (fastforce simp: pruned_ids_def)

lemma PruneHistoryLocked_inv:
  assumes "pl_core h s" and hc: "pl_history_core h s"
  shows "pl_inv_with h (PruneHistoryLocked s)"
proof -
  let ?mx = "plo_maximumHistorySize (pl_options s)" and ?out = "\<lambda>i. i \<in> pl_executions s"
  let ?P = "pruned_ids ?mx ?out (length (pl_records s)) (pl_history_order s)"
  let ?r = "filter (\<lambda>(i, _). i \<notin> set ?P) (pl_records s)"
  let ?h = "filter (\<lambda>i. i \<notin> set ?P) (pl_history_order s)"
  let ?s = "s\<lparr>pl_records := ?r, pl_history_order := ?h\<rparr>"
  have P: "set ?P \<subseteq> {i \<in> set (pl_history_order s). i \<notin> pl_executions s}"
    by (rule pruned_ids_completed)
  have keys: "fst ` set ?r = set ?h"
    using hc unfolding keys_filter pl_history_core_def by auto
  have "pl_history_core h ?s"
    unfolding pl_history_core_def
  proof (intro conjI)
    show "distinct (pl_history_order ?s)" "distinct (map fst (pl_records ?s))"
      using hc by (simp_all add: pl_history_core_def distinct_map_filter)
    show "fst ` set (pl_records ?s) = set (pl_history_order ?s)" using keys by simp
    show "pl_executions ?s \<subseteq> set (pl_history_order ?s)"
      using hc P by (auto simp: pl_history_core_def)
    show "set (pl_history_order ?s) \<inter> set_mset (pl_submitted h ?s) = {}"
      using hc by (auto simp: pl_history_core_def pl_submitted_def)
    show "\<forall>(i, r) \<in> set (pl_records ?s). record_ok ?s i r"
      using hc by (auto simp: pl_history_core_def record_ok_def)
  qed
  moreover have "pl_history_bound ?s"
  proof -
    let ?C = "completed_ids s"
    have d: "distinct ?C" and le: "length ?C \<le> length (pl_records s)"
    proof -
      have "length (pl_records s) = length (pl_history_order s)"
        using hc by (metis distinct_card length_map pl_history_core_def set_map)
      then show "length ?C \<le> length (pl_records s)" by (simp add: completed_ids_def)
      show "distinct ?C" using hc by (simp add: completed_ids_def pl_history_core_def)
    qed
    have P': "?P = take (length (pl_records s) - ?mx) ?C"
      by (simp add: pruned_ids_def completed_ids_def)
    have "completed_ids ?s = filter (\<lambda>i. i \<notin> set ?P) ?C"
      by (simp add: completed_ids_def conj_commute)
    also have "\<dots> = drop (length (pl_records s) - ?mx) ?C"
      unfolding P' using filter_drop_prefix [OF d] .
    finally show ?thesis using le by (simp add: pl_history_bound_def)
  qed
  ultimately show ?thesis
    using assms(1) by (simp add: PruneHistoryLocked_eq [OF hc] Let_def pl_inv_with_def)
qed

section \<open>Completing an execution\<close>

definition hand :: "bool \<Rightarrow> nat \<Rightarrow> hands" where
  "hand running i = (if running then \<lparr>hs = [], hw = [], hr = [i]\<rparr> else \<lparr>hs = [], hw = [i], hr = []\<rparr>)"

lemma hand_lists:
  "pl_submitted (hand b i) s = pl_submitted no_hands s"
  "pl_waiting (hand b i) s = pl_waiting no_hands s + (if b then {#} else {#i#})"
  "pl_running (hand b i) s = pl_running no_hands s + (if b then {#i#} else {#})"
  by (simp_all add: hand_def pl_lists)

lemma hand_owned: "pl_owned (hand b i) s = add_mset i (pl_owned no_hands s)"
  by (simp add: pl_owned_def hand_lists)

lemma queue_emit_inv [simp]: "pl_inv_with h (queue_emit ev s) = pl_inv_with h s"
  by (simp add: queue_emit_def pl_inv_with_def pl_core_defs pl_lists pl_unresolved_def
      pl_command_of_def pl_history_core_def pl_history_bound_def completed_ids_def record_ok_def)

lemma queue_promise_prune:
  "queue_promise i r (PruneHistoryLocked s) = PruneHistoryLocked (queue_promise i r s)"
  by (simp add: queue_promise_def PruneHistoryLocked_def split: prod.split)

lemma metrics_total_record:
  "isTerminal st \<Longrightarrow> metrics_total (RecordTerminalMetricsLocked st m) = metrics_total m + 1"
  by (cases st) (simp_all add: metrics_total_def)

text \<open>What the invariant says of an execution in hand.\<close>

lemma hand_facts:
  assumes "pl_core (hand b i) s"
  obtains e where "pl_store s i = Some e" "ex_promise e = None" "ex_running e = b"
    "i \<in> pl_executions s" "pl_command_of s i = Some (cmd_id (ex_command e))"
    "rec_executionId (ex_record e) = i" "rec_commandId (ex_record e) = cmd_id (ex_command e)"
    "i \<notin># pl_submitted no_hands s" "i \<notin># pl_waiting no_hands s" "i \<notin># pl_running no_hands s"
proof -
  have cnt: "count (pl_owned (hand b i) s) i = of_bool (i \<in> pl_unresolved s)"
    using assms unfolding pl_core_def pl_own_inv_def by blast
  then have "Suc (count (pl_owned no_hands s) i) = of_bool (i \<in> pl_unresolved s)"
    by (simp add: hand_owned)
  then have i: "i \<in> pl_unresolved s" and "count (pl_owned no_hands s) i = 0"
    by (simp_all add: of_bool_def split: if_splits)
  then have out: "i \<notin># pl_owned no_hands s" by (simp add: count_eq_zero_iff)
  from i obtain e where e: "pl_store s i = Some e" "ex_promise e = None"
    by (auto simp: pl_unresolved_def)
  then have ok: "execution_ok (pl_running (hand b i) s) i e"
    using assms by (simp add: pl_core_def pl_store_inv_def)
  have "i \<in> pl_executions s"
    using assms by (simp add: pl_core_def pl_out_inv_def hand_lists)
  moreover have "ex_running e = b"
    using ok out by (auto simp: execution_ok_def hand_lists pl_owned_def)
  ultimately show thesis
    using e ok out by (intro that [of e]) (simp_all add: execution_ok_def pl_command_of_def pl_owned_def)
qed

lemma complete_core:
  fixes now :: time_ns
  assumes core: "pl_core (hand b i) s" and hc: "pl_history_core (hand b i) s"
    and tr: "isTerminal (res_status r)" and e: "pl_store s i = Some e"
  defines "rec \<equiv> CompleteRecordLocked now r (ex_record e)"
  defines "s1 \<equiv> queue_promise i r (s\<lparr>pl_store := (pl_store s)(i \<mapsto> e\<lparr>ex_record := rec, ex_running := False\<rparr>),
                  pl_records := AList.update i rec (pl_records s),
                  pl_executions := pl_executions s - {i},
                  pl_command_to_execution := (pl_command_to_execution s)(rec_commandId rec := None),
                  pl_running_count :=
                    (if ex_running e \<and> pl_running_count s > 0 then pl_running_count s - 1
                     else pl_running_count s),
                  pl_metrics := RecordTerminalMetricsLocked (res_status r) (pl_metrics s)\<rparr>)"
  shows "pl_core no_hands s1" and "pl_history_core no_hands s1"
proof -
  obtain e' where "pl_store s i = Some e'" "ex_promise e' = None" "ex_running e' = b"
    "i \<in> pl_executions s" "pl_command_of s i = Some (cmd_id (ex_command e'))"
    "rec_executionId (ex_record e') = i" "rec_commandId (ex_record e') = cmd_id (ex_command e')"
    "i \<notin># pl_submitted no_hands s" "i \<notin># pl_waiting no_hands s" "i \<notin># pl_running no_hands s"
    using hand_facts [OF core] .
  with e have f: "ex_promise e = None" "ex_running e = b"
    "i \<in> pl_executions s" "pl_command_of s i = Some (cmd_id (ex_command e))"
    "rec_executionId (ex_record e) = i" "rec_commandId (ex_record e) = cmd_id (ex_command e)"
    "i \<notin># pl_submitted no_hands s" "i \<notin># pl_waiting no_hands s" "i \<notin># pl_running no_hands s"
    by simp_all
  have rec: "rec_executionId rec = i" "rec_commandId rec = cmd_id (ex_command e)"
    "rec_status rec = res_status r"
    using f by (simp_all add: rec_def CompleteRecordLocked_def)
  have lists: "pl_submitted no_hands s1 = pl_submitted no_hands s"
    "pl_waiting no_hands s1 = pl_waiting no_hands s" "pl_running no_hands s1 = pl_running no_hands s"
    "mset (map fst (pl_promises s1)) = add_mset i (mset (map fst (pl_promises s)))"
    by (simp_all add: s1_def queue_promise_def pl_lists)
  have own: "pl_owned no_hands s1 = add_mset i (pl_owned no_hands s)"
    by (simp add: pl_owned_def lists del: mset_map)
  have unres: "pl_unresolved s1 = pl_unresolved s"
    using e f(1) by (auto simp: pl_unresolved_def s1_def queue_promise_def)
  have cmd: "pl_command_of s1 = pl_command_of s"
    using e by (auto simp: pl_command_of_def s1_def queue_promise_def fun_eq_iff)
  have "pl_own_inv no_hands s1"
    using core by (simp add: pl_core_def pl_own_inv_def unres hand_owned own)
  moreover have "pl_out_inv no_hands s1"
    using core f(8,9) unfolding pl_core_def pl_out_inv_def lists hand_lists
    by (auto simp: s1_def queue_promise_def)
  moreover have "pl_store_inv no_hands s1"
    using core f rec e unfolding pl_core_def pl_store_inv_def lists hand_lists
    by (auto simp: s1_def queue_promise_def execution_ok_def split: if_splits)
  moreover have "pl_index_inv s1"
  proof -
    have ix: "pl_command_to_execution s c = Some j \<longleftrightarrow> j \<in> pl_executions s \<and> pl_command_of s j = Some c"
      for c j using core unfolding pl_core_def pl_index_inv_def by blast
    have "j = i" if "j \<in> pl_executions s" "pl_command_of s j = Some (cmd_id (ex_command e))" for j
      using ix [of "cmd_id (ex_command e)" i] ix [of "cmd_id (ex_command e)" j] that f(3,4) by simp
    then show ?thesis
      unfolding pl_index_inv_def cmd using f(4) ix by (auto simp: s1_def queue_promise_def rec)
  qed
  moreover have "pl_count_inv no_hands s1"
    using core f(2) unfolding pl_core_def pl_count_inv_def lists hand_lists
    by (auto simp: s1_def queue_promise_def)
  moreover have "pl_account_inv no_hands s1"
    using core unfolding pl_core_def pl_account_inv_def lists hand_lists
    by (auto simp: s1_def queue_promise_def metrics_total_record [OF tr] algebra_simps split: if_splits)
  moreover have "pl_phase_inv s1"
    using core by (auto simp: pl_core_def pl_phase_inv_def s1_def queue_promise_def)
  ultimately show "pl_core no_hands s1" by (simp add: pl_core_def)
  show "pl_history_core no_hands s1"
    unfolding pl_history_core_def
  proof (intro conjI)
    show "distinct (pl_history_order s1)" "distinct (map fst (pl_records s1))"
      using hc by (simp_all add: pl_history_core_def s1_def queue_promise_def AList.distinct_update)
    show "fst ` set (pl_records s1) = set (pl_history_order s1)"
      using hc f(3) by (auto simp: pl_history_core_def s1_def queue_promise_def AList.dom_update)
    show "pl_executions s1 \<subseteq> set (pl_history_order s1)"
      using hc by (auto simp: pl_history_core_def s1_def queue_promise_def)
    show "set (pl_history_order s1) \<inter> set_mset (pl_submitted no_hands s1) = {}"
      using hc unfolding pl_history_core_def lists hand_lists by (simp add: s1_def queue_promise_def)
    have d: "distinct (map fst (pl_records s))" using hc by (simp add: pl_history_core_def)
    show "\<forall>(j, q) \<in> set (pl_records s1). record_ok s1 j q"
    proof clarify
      fix j q assume "(j, q) \<in> set (pl_records s1)"
      then have "map_of (pl_records s1) j = Some q"
        using d by (auto simp: s1_def queue_promise_def intro!: map_of_is_SomeI AList.distinct_update)
      then have q: "((map_of (pl_records s))(i \<mapsto> rec)) j = Some q"
        by (simp add: s1_def queue_promise_def AList.update_conv')
      show "record_ok s1 j q"
      proof (cases "j = i")
        case True
        with q rec(3) tr show ?thesis by (simp add: record_ok_def s1_def queue_promise_def)
      next
        case False
        with q have "record_ok s j q" using hc by (auto simp: pl_history_core_def dest!: map_of_SomeD)
        with False show ?thesis by (simp add: record_ok_def s1_def queue_promise_def)
      qed
    qed
  qed
qed

lemma CompleteExecutionLocked_inv:
  assumes "pl_inv_with (hand b i) s" and "isTerminal (res_status r)"
  shows "pl_inv (CompleteExecutionLocked now now' i r s)"
proof -
  have core: "pl_core (hand b i) s" and hc: "pl_history_core (hand b i) s"
    using assms(1) by (simp_all add: pl_inv_with_def)
  obtain e where e: "pl_store s i = Some e" using hand_facts [OF core] by blast
  note complete_core [OF core hc assms(2) e, where now = now]
  then show ?thesis
    by (simp add: CompleteExecutionLocked_def e Let_def queue_promise_prune PruneHistoryLocked_inv)
qed

section \<open>Cancellation and the shutdown loop\<close>

text \<open>Steps that move executions between lists and leave the tables alone.\<close>

lemma pl_inv_frame:
  assumes inv: "pl_inv s"
    and same: "pl_executions s' = pl_executions s"
      "pl_command_to_execution s' = pl_command_to_execution s" "pl_records s' = pl_records s"
      "pl_history_order s' = pl_history_order s" "pl_metrics s' = pl_metrics s"
      "pl_next_execution_id s' = pl_next_execution_id s" "pl_options s' = pl_options s"
    and derived: "pl_command_of s' = pl_command_of s" "record_ok s' = record_ok s"
    and lists: "pl_waiting h s' = pl_waiting no_hands s" "pl_running h s' = pl_running no_hands s"
      "pl_submitted h s' = pl_submitted no_hands s"
    and parts: "pl_own_inv h s'" "pl_store_inv h s'" "pl_count_inv h s'" "pl_phase_inv s'"
  shows "pl_inv_with h s'"
proof -
  have comp: "completed_ids s' = completed_ids s" using same by (simp add: completed_ids_def)
  have "pl_out_inv h s' = pl_out_inv no_hands s" "pl_index_inv s' = pl_index_inv s"
    "pl_account_inv h s' = pl_account_inv no_hands s"
    "pl_history_core h s' = pl_history_core no_hands s" "pl_history_bound s' = pl_history_bound s"
    by (simp_all only: pl_out_inv_def pl_index_inv_def pl_account_inv_def pl_history_core_def
        pl_history_bound_def same lists derived comp)
  then show ?thesis using inv parts by (simp add: pl_inv_with_def pl_core_def)
qed

lemma pl_inv_hand_frame:
  assumes inv: "pl_inv s"
    and same: "pl_store s' = pl_store s" "pl_executions s' = pl_executions s"
      "pl_command_to_execution s' = pl_command_to_execution s" "pl_records s' = pl_records s"
      "pl_history_order s' = pl_history_order s" "pl_metrics s' = pl_metrics s"
      "pl_running_count s' = pl_running_count s" "pl_next_execution_id s' = pl_next_execution_id s"
      "set (pl_submitting s') \<subseteq> set (pl_submitting s)" "pl_promises s' = pl_promises s"
      "pl_options s' = pl_options s"
      "length (pl_workers s') = length (pl_workers s)" "length (pl_queue s') \<le> length (pl_queue s)"
    and lists: "pl_waiting h s' = pl_waiting no_hands s" "pl_running h s' = pl_running no_hands s"
      "pl_submitted h s' = pl_submitted no_hands s" and phase: "pl_phase_inv s'"
  shows "pl_inv_with h s'"
proof -
  from inv have core: "pl_core no_hands s" by (simp add: pl_inv_with_def)
  have "pl_owned h s' = pl_owned no_hands s" "pl_unresolved s' = pl_unresolved s"
    using same lists by (simp_all add: pl_owned_def pl_unresolved_def)
  then have "pl_own_inv h s'" using core by (simp add: pl_core_def pl_own_inv_def)
  moreover have "pl_store_inv h s'"
    using core same lists by (simp add: pl_core_def pl_store_inv_def)
  moreover have "pl_count_inv h s'"
    using core same(12,13) subsetD [OF same(9)]
    by (auto simp: pl_core_def pl_count_inv_def same(7,11) lists)
  moreover have "pl_command_of s' = pl_command_of s" "record_ok s' = record_ok s"
    using same by (simp_all add: pl_command_of_def record_ok_def fun_eq_iff)
  ultimately show ?thesis using pl_inv_frame [OF inv] same lists phase by blast
qed

lemma pl_Cancel_inv:
  assumes inv: "pl_inv s" and calm: "i \<notin> set (delivering (pl_shutdown s))"
  shows "pl_inv (fst (pl_Cancel now now' i s))"
proof (cases "i = 0 \<or> i \<notin> pl_executions s \<or> map_option ex_running (pl_store s i) = Some True")
  case True
  then show ?thesis using inv by (auto simp: pl_Cancel_def)
next
  case False
  have st: "pl_store_inv no_hands s" and out: "pl_out_inv no_hands s" and ph: "pl_phase_inv s"
    using inv by (simp_all add: pl_inv_with_def pl_core_def)
  have "i \<notin># pl_running no_hands s"
  proof
    assume run: "i \<in># pl_running no_hands s"
    then have "i \<in># pl_owned no_hands s" by (simp add: pl_owned_def)
    moreover have "count (pl_owned no_hands s) i = of_bool (i \<in> pl_unresolved s)"
      using inv unfolding pl_inv_with_def pl_core_def pl_own_inv_def by blast
    ultimately obtain e where "pl_store s i = Some e"
      by (auto simp: pl_unresolved_def of_bool_def split: if_splits simp flip: count_greater_zero_iff)
    with st run False show False by (auto simp: pl_store_inv_def execution_ok_def)
  qed
  then have i: "i \<in> set (pl_queue s)"
    using False calm out by (auto simp: pl_out_inv_def pl_waiting_def no_hands_def)
  let ?s = "s\<lparr>pl_queue := remove1 i (pl_queue s)\<rparr>"
  have "pl_inv_with (hand False i) ?s"
    using inv
  proof (rule pl_inv_hand_frame)
    show "pl_waiting (hand False i) ?s = pl_waiting no_hands s"
      using i by (simp add: pl_waiting_def hand_def no_hands_def)
    show "pl_phase_inv ?s" using ph by (auto simp: pl_phase_inv_def)
  qed (simp_all add: hand_def pl_lists length_remove1)
  then have "pl_inv (CompleteExecutionLocked now now' i
      (Result Status_Cancelled ''Command execution cancelled before start'') ?s)"
    by (rule CompleteExecutionLocked_inv) simp
  with False show ?thesis by (auto simp: pl_Cancel_def Let_def)
qed

lemma pl_shutdown_deliver_inv:
  assumes inv: "pl_inv s"
  shows "pl_inv (pl_shutdown_deliver now now' s)"
proof (cases "pl_shutdown s")
  case (Shut_Delivering xs)
  have ph: "pl_phase_inv s" using inv by (simp add: pl_inv_with_def pl_core_def)
  show ?thesis
  proof (cases xs)
    case Nil
    let ?s = "s\<lparr>pl_shutdown := Shut_Joining, pl_stop_requested := True\<rparr>"
    from inv have "pl_inv ?s"
    proof (rule pl_inv_hand_frame)
      show "pl_phase_inv ?s" using ph Shut_Delivering by (auto simp: pl_phase_inv_def)
    qed (simp_all add: pl_lists Shut_Delivering Nil)
    then show ?thesis by (simp add: pl_shutdown_deliver_def Shut_Delivering Nil)
  next
    case (Cons i rest)
    let ?s = "s\<lparr>pl_shutdown := Shut_Delivering rest\<rparr>"
    from inv have "pl_inv_with (hand False i) ?s"
    proof (rule pl_inv_hand_frame)
      show "pl_phase_inv ?s" using ph Shut_Delivering by (auto simp: pl_phase_inv_def)
    qed (simp_all add: pl_lists Shut_Delivering Cons hand_def)
    then have "pl_inv (CompleteExecutionLocked now now' i pl_shutdown_result ?s)"
      by (rule CompleteExecutionLocked_inv) (simp add: pl_shutdown_result_def)
    then show ?thesis by (simp add: pl_shutdown_deliver_def Shut_Delivering Cons)
  qed
qed (simp_all add: pl_shutdown_deliver_def inv)

lemma pl_Shutdown_begin_inv:
  assumes inv: "pl_inv s" and "pl_Shutdown_begin caller s = Some (Inr s')"
  shows "pl_inv s'"
proof -
  have ph: "pl_phase_inv s" using inv by (simp add: pl_inv_with_def pl_core_def)
  have n: "\<not> pl_shutdown_complete s" "\<not> pl_shutdown_in_progress s"
    and s': "s' = s\<lparr>pl_shutdown_in_progress := True, pl_accepting := False, pl_queue := [],
             pl_shutdown := Shut_Delivering (pl_queue s)\<rparr>"
    using assms(2) by (auto simp: pl_Shutdown_begin_def split: if_splits)
  then have none: "pl_shutdown s = Shut_None" using ph by (auto simp: pl_phase_inv_def)
  from inv show ?thesis
  proof (rule pl_inv_hand_frame)
    show "pl_phase_inv s'" using ph n by (auto simp: s' pl_phase_inv_def)
  qed (simp_all add: s' pl_lists none)
qed

lemma pl_shutdown_finish_inv:
  assumes inv: "pl_inv s" and "pl_shutdown s = Shut_Joining" "set (pl_workers s) \<subseteq> {PW_Exited}"
  shows "pl_inv (pl_shutdown_finish s)"
proof -
  let ?s = "PruneHistoryLocked s"
  have inv': "pl_inv ?s"
    using inv by (intro PruneHistoryLocked_inv) (simp_all add: pl_inv_with_def)
  have same: "pl_workers ?s = pl_workers s" "pl_shutdown ?s = Shut_Joining"
    using assms(2) by (simp_all add: PruneHistoryLocked_def split: prod.split)
  show ?thesis
    unfolding pl_shutdown_finish_def
  proof (rule pl_inv_hand_frame [OF inv'])
    have "pl_phase_inv ?s" using inv' by (simp add: pl_inv_with_def pl_core_def)
    then show "pl_phase_inv (?s\<lparr>pl_shutdown_complete := True,
        pl_shutdown_in_progress := False, pl_shutdown := Shut_Finished\<rparr>)"
      using assms(3) same by (auto simp: pl_phase_inv_def)
  qed (simp_all add: pl_lists same)
qed

section \<open>Submission\<close>

definition sub_hand :: "nat \<Rightarrow> hands" where
  "sub_hand i = \<lparr>hs = [i], hw = [], hr = []\<rparr>"

lemma sub_hand_lists:
  "pl_submitted (sub_hand i) s = add_mset i (pl_submitted no_hands s)"
  "pl_waiting (sub_hand i) s = pl_waiting no_hands s"
  "pl_running (sub_hand i) s = pl_running no_hands s"
  "pl_owned (sub_hand i) s = add_mset i (pl_owned no_hands s)"
  by (simp_all add: sub_hand_def pl_lists)

lemma owned_store:
  assumes "pl_own_inv h s" "i \<in># pl_owned h s"
  shows "\<exists>e. pl_store s i = Some e \<and> ex_promise e = None"
proof -
  have "count (pl_owned h s) i \<noteq> 0" using assms(2) by simp
  moreover have "count (pl_owned h s) i = of_bool (i \<in> pl_unresolved s)"
    using assms(1) unfolding pl_own_inv_def by blast
  ultimately have "i \<in> pl_unresolved s" by (cases "i \<in> pl_unresolved s") simp_all
  then show ?thesis by (simp add: pl_unresolved_def)
qed

lemma hist_stored: "pl_history_core h s \<Longrightarrow> i \<in> set (pl_history_order s) \<Longrightarrow> pl_store s i \<noteq> None"
proof -
  assume hc: "pl_history_core h s" and "i \<in> set (pl_history_order s)"
  then obtain r where "(i, r) \<in> set (pl_records s)"
    unfolding pl_history_core_def by (metis imageE prod.collapse)
  with hc have "record_ok s i r" by (auto simp: pl_history_core_def)
  then show ?thesis by (auto simp: record_ok_def)
qed

lemma Submit_new_inv:
  assumes inv: "pl_inv s"
  shows "pl_inv (Submit_new now now' c s)"
proof -
  let ?i = "pl_next_execution_id s" and ?e = "new_execution now (pl_next_execution_id s) c"
  let ?s = "Submit_new now now' c s"
  have core: "pl_core no_hands s" and hc: "pl_history_core no_hands s"
    using inv by (simp_all add: pl_inv_with_def)
  have own: "pl_own_inv no_hands s" and st: "pl_store_inv no_hands s"
    using core by (simp_all add: pl_core_def)
  have fresh: "pl_store s ?i = None" using st by (auto simp: pl_store_inv_def)
  then have notin: "?i \<notin># pl_owned no_hands s" using owned_store [OF own] by fastforce
  have nh: "?i \<notin> set (pl_history_order s)" using hist_stored [OF hc] fresh by blast
  have lists: "pl_submitted no_hands ?s = add_mset ?i (pl_submitted no_hands s)"
    "pl_waiting no_hands ?s = pl_waiting no_hands s" "pl_running no_hands ?s = pl_running no_hands s"
    "pl_owned no_hands ?s = add_mset ?i (pl_owned no_hands s)"
    by (simp_all add: Submit_new_def Let_def pl_lists)
  have unres: "pl_unresolved ?s = insert ?i (pl_unresolved s)"
    by (auto simp: pl_unresolved_def Submit_new_def Let_def new_execution_def)
  have ex: "pl_executions ?s = pl_executions s" by (simp add: Submit_new_def Let_def)
  have nex: "?i \<notin> pl_executions s" using hc nh by (auto simp: pl_history_core_def)
  have "pl_own_inv no_hands ?s"
    using own notin by (auto simp: pl_own_inv_def unres lists not_in_iff)
  moreover have "pl_out_inv no_hands ?s"
    using core by (simp add: pl_core_def pl_out_inv_def lists ex)
  moreover have "pl_store_inv no_hands ?s"
    using st notin unfolding pl_store_inv_def lists
    by (auto simp: Submit_new_def Let_def execution_ok_def new_execution_def pl_owned_def)
  moreover have "pl_index_inv ?s"
  proof -
    have "j \<in> pl_executions s \<and> pl_command_of ?s j = Some d \<longleftrightarrow>
        j \<in> pl_executions s \<and> pl_command_of s j = Some d" for j d
      using nex by (auto simp: pl_command_of_def Submit_new_def Let_def)
    moreover have "pl_command_to_execution ?s = pl_command_to_execution s"
      by (simp add: Submit_new_def Let_def)
    ultimately show ?thesis using core by (simp add: pl_core_def pl_index_inv_def ex)
  qed
  moreover have "pl_count_inv no_hands ?s"
  proof -
    have "isTerminal (res_status r)" if "ValidateForSubmission now' c = Some r" for r
      using that timed_check_terminal [unfolded result_isTerminal_def]
      by (auto simp: ValidateForSubmission_def split: if_splits)
    then show ?thesis
      using core unfolding pl_core_def pl_count_inv_def lists by (auto simp: Submit_new_def Let_def)
  qed
  moreover have "pl_account_inv no_hands ?s"
    using core unfolding pl_core_def pl_account_inv_def lists
    by (simp add: Submit_new_def Let_def algebra_simps)
  moreover have "pl_phase_inv ?s"
    using core by (auto simp: pl_core_def pl_phase_inv_def Submit_new_def Let_def)
  moreover have "pl_history_core no_hands ?s"
  proof -
    have "record_ok ?s j r" if "(j, r) \<in> set (pl_records s)" for j r
    proof -
      have "record_ok s j r" "j \<noteq> ?i" using that hc nh by (force simp: pl_history_core_def)+
      then show ?thesis by (simp add: record_ok_def Submit_new_def Let_def)
    qed
    then show ?thesis
      using hc nh unfolding pl_history_core_def lists ex by (auto simp: Submit_new_def Let_def)
  qed
  moreover have "pl_history_bound ?s"
    using inv by (simp add: pl_inv_with_def pl_history_bound_def completed_ids_def Submit_new_def Let_def)
  ultimately show ?thesis by (simp add: pl_inv_with_def pl_core_def)
qed

lemma sub_hand_facts:
  assumes "pl_inv_with (sub_hand i) s"
  obtains e where "pl_store s i = Some e" "ex_promise e = None" "\<not> ex_running e"
    "rec_executionId (ex_record e) = i" "rec_commandId (ex_record e) = cmd_id (ex_command e)"
    "i \<notin># pl_owned no_hands s" "i \<notin> set (pl_history_order s)" "i \<notin> pl_executions s"
proof -
  have core: "pl_core (sub_hand i) s" and hc: "pl_history_core (sub_hand i) s"
    using assms by (simp_all add: pl_inv_with_def)
  have own: "pl_own_inv (sub_hand i) s" using core by (simp add: pl_core_def)
  obtain e where e: "pl_store s i = Some e" "ex_promise e = None"
    using owned_store [OF own, of i] by (auto simp: sub_hand_lists)
  have "count (pl_owned (sub_hand i) s) i = 1"
    using own e by (simp add: pl_own_inv_def pl_unresolved_def)
  then have out: "i \<notin># pl_owned no_hands s" by (simp add: sub_hand_lists not_in_iff)
  moreover have "execution_ok (pl_running no_hands s) i e"
    using core e by (simp add: pl_core_def pl_store_inv_def sub_hand_lists)
  moreover have nh: "i \<notin> set (pl_history_order s)"
    using hc by (simp add: pl_history_core_def sub_hand_lists)
  moreover have "i \<notin> pl_executions s" using hc nh by (auto simp: pl_history_core_def)
  ultimately show thesis using e by (intro that [of e]) (auto simp: execution_ok_def pl_owned_def)
qed

lemma Submit_accept_inv:
  assumes inv: "pl_inv_with (sub_hand i) s" and e: "pl_store s i = Some e"
    and free: "submit_refusal (ex_command e) s = None"
  shows "pl_inv (Submit_accept now now' i e s)"
proof -
  define rec where "rec = queued_record now (ex_record e)"
  define s1 where "s1 = s\<lparr>pl_store := (pl_store s)(i \<mapsto> e\<lparr>ex_sequence := pl_next_sequence s, ex_record := rec\<rparr>),
           pl_next_sequence := pl_next_sequence s + 1,
           pl_records := pl_records s @ [(i, rec)],
           pl_history_order := pl_history_order s @ [i],
           pl_executions := insert i (pl_executions s),
           pl_command_to_execution := (pl_command_to_execution s)(cmd_id (ex_command e) \<mapsto> i),
           pl_queue := pl_queue s @ [i],
           pl_metrics := (pl_metrics s)\<lparr>met_accepted := met_accepted (pl_metrics s) + 1,
             met_highWatermark := max (met_highWatermark (pl_metrics s)) (length (pl_queue s @ [i]))\<rparr>\<rparr>"
  have core: "pl_core (sub_hand i) s" and hc: "pl_history_core (sub_hand i) s"
    using inv by (simp_all add: pl_inv_with_def)
  obtain e' where "pl_store s i = Some e'" "ex_promise e' = None" "\<not> ex_running e'"
    "rec_executionId (ex_record e') = i" "rec_commandId (ex_record e') = cmd_id (ex_command e')"
    "i \<notin># pl_owned no_hands s" "i \<notin> set (pl_history_order s)" "i \<notin> pl_executions s"
    using sub_hand_facts [OF inv] .
  with e have f: "ex_promise e = None" "\<not> ex_running e" "rec_executionId (ex_record e) = i"
    "rec_commandId (ex_record e) = cmd_id (ex_command e)"
    "i \<notin># pl_owned no_hands s" "i \<notin> set (pl_history_order s)" "i \<notin> pl_executions s" by simp_all
  have keys: "fst ` set (pl_records s) = set (pl_history_order s)"
    using hc by (simp add: pl_history_core_def)
  then have nr: "map_of (pl_records s) i = None" using f(6) by (simp add: map_of_eq_None_iff)
  have acc: "pl_accepting s" "pl_command_to_execution s (cmd_id (ex_command e)) = None"
    "length (pl_queue s) < plo_maximumQueueSize (pl_options s)"
    using free by (auto simp: submit_refusal_def split: if_splits)
  have rec: "rec_executionId rec = i" "rec_commandId rec = cmd_id (ex_command e)"
    "rec_status rec = Status_Queued"
    using f by (simp_all add: rec_def queued_record_def)
  have eq: "Submit_accept now now' i e s = queue_emit (EventFromRecord now' rec) s1"
    using nr acc rec f(4) by (simp add: Submit_accept_def Let_def s1_def rec_def queued_record_def)
  have lists: "pl_submitted no_hands s1 = pl_submitted no_hands s"
    "pl_waiting no_hands s1 = add_mset i (pl_waiting no_hands s)"
    "pl_running no_hands s1 = pl_running no_hands s"
    "pl_owned no_hands s1 = add_mset i (pl_owned no_hands s)"
    by (simp_all add: s1_def pl_lists)
  have unres: "pl_unresolved s1 = pl_unresolved s"
    using e f(1) by (auto simp: pl_unresolved_def s1_def)
  have cmd: "pl_command_of s1 = pl_command_of s"
    using e by (auto simp: pl_command_of_def s1_def fun_eq_iff)
  have ni: "i \<notin># pl_running no_hands s" using f(5) by (simp add: pl_owned_def)
  have "pl_own_inv no_hands s1"
    using core by (simp add: pl_core_def pl_own_inv_def unres lists sub_hand_lists)
  moreover have "pl_out_inv no_hands s1"
    using core unfolding pl_core_def pl_out_inv_def lists sub_hand_lists by (auto simp: s1_def)
  moreover have "pl_store_inv no_hands s1"
    using core f rec e ni unfolding pl_core_def pl_store_inv_def lists sub_hand_lists
    by (auto simp: s1_def execution_ok_def)
  moreover have "pl_index_inv s1"
  proof -
    have ix: "pl_command_to_execution s d = Some j \<longleftrightarrow> j \<in> pl_executions s \<and> pl_command_of s j = Some d"
      for d j using core unfolding pl_core_def pl_index_inv_def by blast
    then have "\<not> (j \<in> pl_executions s \<and> pl_command_of s j = Some (cmd_id (ex_command e)))" for j
      using acc(2) by (metis option.distinct(1))
    moreover have "pl_command_of s i = Some (cmd_id (ex_command e))" by (simp add: pl_command_of_def e)
    ultimately show ?thesis
      using ix f(7) unfolding pl_index_inv_def cmd by (auto simp: s1_def)
  qed
  moreover have "pl_count_inv no_hands s1"
    using core acc(3) unfolding pl_core_def pl_count_inv_def lists sub_hand_lists by (auto simp: s1_def)
  moreover have "pl_account_inv no_hands s1"
    using core unfolding pl_core_def pl_account_inv_def lists sub_hand_lists
    by (auto simp: s1_def metrics_total_def algebra_simps)
  moreover have "pl_phase_inv s1"
    using core acc(1) by (auto simp: pl_core_def pl_phase_inv_def s1_def)
  moreover have "pl_history_core no_hands s1"
  proof -
    have old: "record_ok s1 j r" if "(j, r) \<in> set (pl_records s)" for j r
    proof -
      have "record_ok s j r" "j \<noteq> i" using that hc f(6) by (force simp: pl_history_core_def)+
      then show ?thesis by (simp add: record_ok_def s1_def)
    qed
    have new: "record_ok s1 i rec" using rec(3) by (simp add: record_ok_def s1_def)
    have "i \<notin># pl_submitted no_hands s" using f(5) by (simp add: pl_owned_def)
    with hc f(6) old new show ?thesis
      unfolding pl_history_core_def lists sub_hand_lists by (auto simp: s1_def)
  qed
  moreover have "pl_history_bound s1"
  proof -
    have "completed_ids s1 = completed_ids s"
      using f(6) by (auto simp: completed_ids_def s1_def intro!: filter_cong)
    then show ?thesis using inv by (simp add: pl_inv_with_def pl_history_bound_def s1_def)
  qed
  ultimately have "pl_inv s1" by (simp add: pl_inv_with_def pl_core_def)
  then show ?thesis by (simp only: eq queue_emit_inv)
qed

lemma CompleteRejectedExecution_inv:
  assumes inv: "pl_inv_with (sub_hand i) s" and e: "pl_store s i = Some e"
    and tr: "isTerminal (res_status r)"
  shows "pl_inv (CompleteRejectedExecution now now' i e r s)"
proof -
  define rec where "rec = CompleteRecordLocked now r (ex_record e)"
  define s1 where "s1 = queue_promise i r (s\<lparr>pl_store := (pl_store s)(i \<mapsto> e\<lparr>ex_record := rec\<rparr>),
             pl_records := AList.update i rec (pl_records s),
             pl_history_order := pl_history_order s @ [i],
             pl_metrics := RecordTerminalMetricsLocked (res_status r) (pl_metrics s)\<rparr>)"
  have core: "pl_core (sub_hand i) s" and hc: "pl_history_core (sub_hand i) s"
    using inv by (simp_all add: pl_inv_with_def)
  obtain e' where "pl_store s i = Some e'" "ex_promise e' = None" "\<not> ex_running e'"
    "rec_executionId (ex_record e') = i" "rec_commandId (ex_record e') = cmd_id (ex_command e')"
    "i \<notin># pl_owned no_hands s" "i \<notin> set (pl_history_order s)" "i \<notin> pl_executions s"
    using sub_hand_facts [OF inv] .
  with e have f: "ex_promise e = None" "\<not> ex_running e" "rec_executionId (ex_record e) = i"
    "rec_commandId (ex_record e) = cmd_id (ex_command e)"
    "i \<notin># pl_owned no_hands s" "i \<notin> set (pl_history_order s)" "i \<notin> pl_executions s" by simp_all
  have eq: "CompleteRejectedExecution now now' i e r s =
      queue_emit (EventFromRecord now' rec) (PruneHistoryLocked s1)"
    by (simp add: CompleteRejectedExecution_def Let_def s1_def rec_def queue_promise_prune)
  have rec: "rec_executionId rec = i" "rec_commandId rec = cmd_id (ex_command e)"
    "rec_status rec = res_status r"
    using f by (simp_all add: rec_def CompleteRecordLocked_def)
  have lists: "pl_submitted no_hands s1 = pl_submitted no_hands s"
    "pl_waiting no_hands s1 = pl_waiting no_hands s" "pl_running no_hands s1 = pl_running no_hands s"
    "pl_owned no_hands s1 = add_mset i (pl_owned no_hands s)"
    by (simp_all add: s1_def queue_promise_def pl_lists)
  have unres: "pl_unresolved s1 = pl_unresolved s"
    using e f(1) by (auto simp: pl_unresolved_def s1_def queue_promise_def)
  have cmd: "pl_command_of s1 = pl_command_of s"
    using e by (auto simp: pl_command_of_def s1_def queue_promise_def fun_eq_iff)
  have ni: "i \<notin># pl_running no_hands s" using f(5) by (simp add: pl_owned_def)
  have "pl_own_inv no_hands s1"
    using core by (simp add: pl_core_def pl_own_inv_def unres lists sub_hand_lists)
  moreover have "pl_out_inv no_hands s1"
    using core unfolding pl_core_def pl_out_inv_def lists sub_hand_lists by (simp add: s1_def queue_promise_def)
  moreover have "pl_store_inv no_hands s1"
    using core f rec e ni unfolding pl_core_def pl_store_inv_def lists sub_hand_lists
    by (auto simp: s1_def queue_promise_def execution_ok_def)
  moreover have "pl_index_inv s1"
    using core unfolding pl_core_def pl_index_inv_def cmd by (simp add: s1_def queue_promise_def)
  moreover have "pl_count_inv no_hands s1"
    using core unfolding pl_core_def pl_count_inv_def lists sub_hand_lists
    by (simp add: s1_def queue_promise_def)
  moreover have "pl_account_inv no_hands s1"
    using core unfolding pl_core_def pl_account_inv_def lists sub_hand_lists
    by (simp add: s1_def queue_promise_def metrics_total_record [OF tr] algebra_simps)
  moreover have "pl_phase_inv s1"
    using core by (auto simp: pl_core_def pl_phase_inv_def s1_def queue_promise_def)
  ultimately have c1: "pl_core no_hands s1" by (simp add: pl_core_def)
  have "pl_history_core no_hands s1"
  proof -
    have recs: "pl_records s1 = pl_records s @ [(i, rec)]"
      using hc f(6) by (simp add: s1_def queue_promise_def pl_history_core_def update_new)
    have old: "record_ok s1 j q" if "(j, q) \<in> set (pl_records s)" for j q
    proof -
      have "record_ok s j q" "j \<noteq> i" using that hc f(6) by (force simp: pl_history_core_def)+
      then show ?thesis by (simp add: record_ok_def s1_def queue_promise_def)
    qed
    have new: "record_ok s1 i rec"
      using rec(3) tr f(7) by (simp add: record_ok_def s1_def queue_promise_def)
    have "i \<notin># pl_submitted no_hands s" using f(5) by (simp add: pl_owned_def)
    with hc f(6) old new show ?thesis
      unfolding pl_history_core_def lists sub_hand_lists recs
      by (auto simp: s1_def queue_promise_def)
  qed
  with c1 show ?thesis by (simp add: eq PruneHistoryLocked_inv)
qed

lemma Submit_continue_inv:
  assumes inv: "pl_inv s" and k: "k < length (pl_submitting s)"
  shows "pl_inv (Submit_continue now now' k s)"
proof -
  obtain i v where iv: "pl_submitting s ! k = (i, v)" by fastforce
  let ?s = "s\<lparr>pl_submitting := erase_at k (pl_submitting s)\<rparr>"
  have mem: "(i, v) \<in> set (pl_submitting s)" using iv k by (metis nth_mem)
  have ms: "add_mset i (mset (map fst (erase_at k (pl_submitting s)))) = mset (map fst (pl_submitting s))"
    using mset_erase_at [OF k] iv by (metis fst_conv image_mset_add_mset mset_map)
  have sub: "set (erase_at k (pl_submitting s)) \<subseteq> set (pl_submitting s)"
    using set_take_subset set_drop_subset by (fastforce simp: erase_at_def)
  have core: "pl_core no_hands s" using inv by (simp add: pl_inv_with_def)
  then have trs: "(j, Some r) \<in> set (pl_submitting s) \<Longrightarrow> isTerminal (res_status r)" for j r
    by (auto simp: pl_core_def pl_count_inv_def)
  then have tr: "v = Some r \<Longrightarrow> isTerminal (res_status r)" for r using mem by blast
  have hand: "pl_inv_with (sub_hand i) ?s"
  proof -
    have lists: "pl_submitted (sub_hand i) ?s = pl_submitted no_hands s"
      "pl_waiting (sub_hand i) ?s = pl_waiting no_hands s"
      "pl_running (sub_hand i) ?s = pl_running no_hands s"
      using ms by (simp_all add: sub_hand_def pl_lists del: mset_map)
    moreover have "pl_phase_inv ?s" using core by (auto simp: pl_core_def pl_phase_inv_def)
    ultimately show ?thesis using inv sub by (intro pl_inv_hand_frame [OF inv]) simp_all
  qed
  then obtain e where e: "pl_store s i = Some e" using sub_hand_facts by fastforce
  show ?thesis
  proof (cases v)
    case (Some r)
    then show ?thesis
      using CompleteRejectedExecution_inv [OF hand, of e r now now'] e tr
      by (simp add: Submit_continue_def iv)
  next
    case None
    show ?thesis
    proof (cases "submit_refusal (ex_command e) s")
      case refused: None
      then have "submit_refusal (ex_command e) ?s = None" by (simp add: submit_refusal_def split: if_splits)
      then show ?thesis
        using Submit_accept_inv [OF hand, of e now now'] e None refused by (simp add: Submit_continue_def iv)
    next
      case (Some r)
      let ?s' = "s\<lparr>pl_submitting := (pl_submitting s)[k := (i, Some r)]\<rparr>"
      have "map fst ((pl_submitting s)[k := (i, Some r)]) = map fst (pl_submitting s)"
        using iv k by (metis fst_conv list_update_id map_update nth_map)
      then have lists: "pl_submitted no_hands ?s' = pl_submitted no_hands s"
        "pl_waiting no_hands ?s' = pl_waiting no_hands s" "pl_running no_hands ?s' = pl_running no_hands s"
        by (simp_all add: pl_lists del: mset_map)
      then have "pl_owned no_hands ?s' = pl_owned no_hands s" by (simp add: pl_owned_def)
      then have "pl_own_inv no_hands ?s'"
        using core by (simp add: pl_core_def pl_own_inv_def pl_unresolved_def)
      moreover have "isTerminal (res_status r)"
        using Some by (auto simp: submit_refusal_def split: if_splits)
      then have "pl_count_inv no_hands ?s'"
        using core set_update_subset_insert [of "pl_submitting s" k "(i, Some r)"]
        unfolding pl_core_def pl_count_inv_def lists by fastforce
      moreover have "pl_store_inv no_hands ?s'" "pl_phase_inv ?s'"
        using core lists by (auto simp: pl_core_def pl_store_inv_def pl_phase_inv_def)
      ultimately have "pl_inv ?s'"
        using lists by (intro pl_inv_frame [OF inv]) (simp_all add: pl_command_of_def record_ok_def fun_eq_iff)
      then show ?thesis using e None Some by (simp add: Submit_continue_def iv)
    qed
  qed
qed

section \<open>Workers\<close>

lemma active_update:
  "w < length (pl_workers s) \<Longrightarrow>
   mset (pl_active (s\<lparr>pl_workers := (pl_workers s)[w := x]\<rparr>)) + mset (pw_exec (pl_workers s ! w)) =
   mset (pl_active s) + mset (pw_exec x)"
  using concat_update_mset [of w "pl_workers s" pw_exec x] by (simp add: pl_active_def)

lemma worker_idle_inv:
  assumes inv: "pl_inv s" and w: "w < length (pl_workers s)" "pw_exec (pl_workers s ! w) = []"
    and x: "pw_exec x = []" and fin: "pl_shutdown s \<noteq> Shut_Finished \<or> x = PW_Exited"
  shows "pl_inv (s\<lparr>pl_workers := (pl_workers s)[w := x]\<rparr>)"
  using inv
proof (rule pl_inv_hand_frame)
  show "pl_phase_inv (s\<lparr>pl_workers := (pl_workers s)[w := x]\<rparr>)"
    using inv fin set_update_subset_insert [of "pl_workers s" w x]
    by (auto simp: pl_inv_with_def pl_core_def pl_phase_inv_def)
  show "pl_running no_hands (s\<lparr>pl_workers := (pl_workers s)[w := x]\<rparr>) = pl_running no_hands s"
    using active_update [OF w(1), of x] w(2) x by (simp add: pl_running_def)
qed (simp_all add: pl_waiting_def pl_submitted_def no_hands_def)

lemma pl_worker_finish_inv:
  assumes inv: "pl_inv s" and w: "w < length (pl_workers s)" "pl_workers s ! w = PW_Executing i"
  shows "pl_inv (pl_worker_finish w clk oc i s)"
proof (cases "pl_store s i")
  case None
  then show ?thesis using inv by (simp add: pl_worker_finish_def)
next
  case (Some e)
  let ?s = "s\<lparr>pl_workers := (pl_workers s)[w := PW_Waiting]\<rparr>"
  have ph: "pl_phase_inv s" using inv by (simp add: pl_inv_with_def pl_core_def)
  have "pl_workers s ! w \<in> set (pl_workers s)" using w(1) by simp
  then have fin: "\<not> pl_shutdown_complete s" using ph w(2) by (auto simp: pl_phase_inv_def)
  have "pl_inv_with (hand True i) ?s"
    using inv
  proof (rule pl_inv_hand_frame)
    show "pl_running (hand True i) ?s = pl_running no_hands s"
      using active_update [OF w(1), of PW_Waiting] w(2) by (simp add: pl_running_def hand_def no_hands_def)
    show "pl_phase_inv ?s" using ph fin by (auto simp: pl_phase_inv_def)
  qed (simp_all add: hand_def pl_waiting_def pl_submitted_def no_hands_def)
  moreover have "isTerminal (res_status (execution_result (clk 0) oc (clk 1) (ex_command e)))"
    by (auto simp: execution_result_def Let_def)
  ultimately show ?thesis
    using Some CompleteExecutionLocked_inv by (simp add: pl_worker_finish_def)
qed

lemma TakeNext_inv:
  fixes now :: time_ns
  assumes inv: "pl_inv s" and w: "w < length (pl_workers s)" "pl_workers s ! w = PW_Waiting"
    and k: "k < length (pl_queue s)" "pl_queue s ! k = i" and e: "pl_store s i = Some e"
  defines "rec \<equiv> running_record now (ex_record e)"
  shows "pl_inv (s\<lparr>pl_queue := erase_at k (pl_queue s),
                pl_store := (pl_store s)(i \<mapsto> e\<lparr>ex_running := True, ex_record := rec\<rparr>),
                pl_records := AList.update i rec (pl_records s),
                pl_running_count := pl_running_count s + 1,
                pl_metrics := (pl_metrics s)\<lparr>met_started := x, met_maximumConcurrentRunning := y\<rparr>,
                pl_workers := (pl_workers s)[w := PW_Executing i]\<rparr>)" (is "pl_inv ?s")
proof -
  have core: "pl_core no_hands s" and hc: "pl_history_core no_hands s"
    using inv by (simp_all add: pl_inv_with_def)
  have q: "mset (pl_queue s) = add_mset i (mset (erase_at k (pl_queue s)))"
    using mset_erase_at [OF k(1)] k(2) by simp
  have lists: "pl_submitted no_hands ?s = pl_submitted no_hands s"
    "pl_waiting no_hands s = add_mset i (pl_waiting no_hands ?s)"
    "pl_running no_hands ?s = add_mset i (pl_running no_hands s)"
    using active_update [OF w(1), of "PW_Executing i"] w(2) q
    by (simp_all add: pl_submitted_def pl_waiting_def pl_running_def no_hands_def pl_active_def)
  then have own: "pl_owned no_hands ?s = pl_owned no_hands s" by (simp add: pl_owned_def)
  have "i \<in># pl_owned no_hands s" using q by (simp add: pl_owned_def pl_waiting_def)
  then have f1: "ex_promise e = None" using owned_store core e by (fastforce simp: pl_core_def)
  have ex: "i \<in> pl_executions s" using core q by (simp add: pl_core_def pl_out_inv_def pl_waiting_def)
  have ok: "execution_ok (pl_running no_hands s) i e" using core e by (simp add: pl_core_def pl_store_inv_def)
  have rec: "rec_executionId rec = i" "rec_commandId rec = cmd_id (ex_command e)"
    "rec_status rec = Status_Running"
    using ok by (simp_all add: rec_def running_record_def execution_ok_def)
  have unres: "pl_unresolved ?s = pl_unresolved s" using e f1 by (auto simp: pl_unresolved_def)
  have cmd: "pl_command_of ?s = pl_command_of s" using e by (auto simp: pl_command_of_def fun_eq_iff)
  have "pl_own_inv no_hands ?s" using core unfolding pl_core_def pl_own_inv_def unres own by blast
  moreover have "pl_out_inv no_hands ?s"
    using core unfolding pl_core_def pl_out_inv_def lists by auto
  moreover have "pl_store_inv no_hands ?s"
    using core rec e unfolding pl_core_def pl_store_inv_def lists by (auto simp: execution_ok_def)
  moreover have "pl_index_inv ?s" using core unfolding pl_core_def pl_index_inv_def cmd by simp
  moreover have "pl_count_inv no_hands ?s"
    using core k(1) unfolding pl_core_def pl_count_inv_def lists by auto
  moreover have "pl_account_inv no_hands ?s"
    using core unfolding pl_core_def pl_account_inv_def lists by (simp add: metrics_total_def algebra_simps)
  moreover have "pl_phase_inv ?s"
    using core k(1) by (auto simp: pl_core_def pl_phase_inv_def)
  moreover have "pl_history_core no_hands ?s"
  proof -
    have ih: "i \<in> set (pl_history_order s)" using hc ex by (auto simp: pl_history_core_def)
    have d: "distinct (map fst (pl_records s))" using hc by (simp add: pl_history_core_def)
    have "record_ok ?s j r" if "(j, r) \<in> set (AList.update i rec (pl_records s))" for j r
    proof -
      have "((map_of (pl_records s))(i \<mapsto> rec)) j = Some r"
        using that d by (simp flip: AList.update_conv' add: map_of_is_SomeI AList.distinct_update)
      then show ?thesis
        using hc ex rec(3) by (cases "j = i") (auto simp: record_ok_def pl_history_core_def dest!: map_of_SomeD)
    qed
    then show ?thesis
      using hc ih d unfolding pl_history_core_def lists
      by (auto simp: AList.dom_update AList.distinct_update)
  qed
  moreover have "pl_history_bound ?s"
    using inv by (simp add: pl_inv_with_def pl_history_bound_def completed_ids_def)
  ultimately show ?thesis by (simp add: pl_inv_with_def pl_core_def)
qed

lemma pl_worker_poll_inv:
  assumes inv: "pl_inv s" and w: "w < length (pl_workers s)" "pl_workers s ! w = PW_Waiting"
  shows "pl_inv (pl_worker_poll now now' w s)"
proof (cases "pl_queue s = []")
  case True
  then show ?thesis
    using inv worker_idle_inv [OF inv w(1), of PW_Exited] w(2) by (simp add: pl_worker_poll_def)
next
  case False
  let ?k = "max_element (execution_key s) (pl_queue s)"
  have k: "?k < length (pl_queue s)" using False by (rule max_element_less)
  have "pl_queue s ! ?k \<in># pl_owned no_hands s" using k by (simp add: pl_owned_def pl_waiting_def)
  then obtain e where e: "pl_store s (pl_queue s ! ?k) = Some e"
    using owned_store inv unfolding pl_inv_with_def pl_core_def by blast
  show ?thesis
    using TakeNext_inv [OF inv w k refl e] False e
    by (simp add: pl_worker_poll_def TakeNextExecutionLocked_def Let_def)
qed

section \<open>Every step\<close>

lemma CompletePromise_inv:
  assumes inv: "pl_inv s" and k: "k < length (pl_promises s)"
  shows "pl_inv (CompletePromise k s)"
proof -
  obtain i r where ir: "pl_promises s ! k = (i, r)" by fastforce
  have ms: "mset (map fst (pl_promises s)) = add_mset i (mset (map fst (erase_at k (pl_promises s))))"
    using mset_erase_at [OF k] ir by (metis fst_conv image_mset_add_mset mset_map)
  have core: "pl_core no_hands s" using inv by (simp add: pl_inv_with_def)
  then have own: "pl_own_inv no_hands s" by (simp add: pl_core_def)
  have "i \<in># pl_owned no_hands s" using ms by (simp add: pl_owned_def del: mset_map)
  then obtain e where e: "pl_store s i = Some e" "ex_promise e = None" using owned_store [OF own] by blast
  let ?s = "s\<lparr>pl_promises := erase_at k (pl_promises s), pl_store := (pl_store s)(i \<mapsto> e\<lparr>ex_promise := Some r\<rparr>)\<rparr>"
  have lists: "pl_submitted no_hands ?s = pl_submitted no_hands s"
    "pl_waiting no_hands ?s = pl_waiting no_hands s" "pl_running no_hands ?s = pl_running no_hands s"
    by (simp_all add: pl_submitted_def pl_waiting_def pl_running_def pl_active_def)
  have o: "pl_owned no_hands s = add_mset i (pl_owned no_hands ?s)"
    by (simp add: pl_owned_def lists ms del: mset_map)
  have un: "pl_unresolved ?s = pl_unresolved s - {i}" by (auto simp: pl_unresolved_def)
  have cnt: "count (pl_owned no_hands s) j = of_bool (j \<in> pl_unresolved s)" for j
    using own unfolding pl_own_inv_def by blast
  have "pl_own_inv no_hands ?s"
    unfolding pl_own_inv_def un
  proof
    fix j
    show "count (pl_owned no_hands ?s) j = of_bool (j \<in> pl_unresolved s - {i})"
      using cnt [of j] e by (cases "j = i") (simp_all add: o pl_unresolved_def)
  qed
  moreover have "pl_command_of ?s = pl_command_of s" "record_ok ?s = record_ok s"
    using e by (auto simp: pl_command_of_def record_ok_def fun_eq_iff)
  moreover have "pl_store_inv no_hands ?s"
    using core e unfolding pl_core_def pl_store_inv_def lists by (auto simp: execution_ok_def)
  moreover have "pl_count_inv no_hands ?s" "pl_phase_inv ?s"
    using core lists by (auto simp: pl_core_def pl_count_inv_def pl_phase_inv_def)
  ultimately have "pl_inv ?s" using lists by (intro pl_inv_frame [OF inv]) simp_all
  then show ?thesis using e by (simp add: CompletePromise_def ir Let_def)
qed

lemma pl_callback_frame [simp]:
  "pl_inv_with h (s\<lparr>pl_next_callback_id := n\<rparr>) = pl_inv_with h s"
  "pl_inv_with h (s\<lparr>pl_callbacks := cs\<rparr>) = pl_inv_with h s"
  "pl_inv_with h (s\<lparr>pl_emits := es, pl_metrics := (pl_metrics s)\<lparr>met_callbackFailures := m\<rparr>\<rparr>) =
     pl_inv_with h s"
  by (simp_all add: pl_inv_with_def pl_core_defs pl_lists pl_unresolved_def metrics_total_def
      pl_command_of_def pl_history_core_def pl_history_bound_def completed_ids_def record_ok_def)

text \<open>
  A \<open>Cancel\<close> that reaches an execution the shutdown loop is about to cancel as well.
\<close>

fun races_shutdown :: "pipeline \<Rightarrow> pl_event \<Rightarrow> bool" where
  "races_shutdown s (PE_Cancel _ _ i) = (i \<in> set (delivering (pl_shutdown s)))"
| "races_shutdown s _ = False"

lemma pl_step_inv: "pl_step s e s' \<Longrightarrow> \<not> races_shutdown s e \<Longrightarrow> pl_inv s \<Longrightarrow> pl_inv s'"
proof (induction rule: pl_step.induct)
  case (p_register w s)
  then have "pl_shutdown s \<noteq> Shut_Finished"
    using nth_mem [of w "pl_workers s"] by (auto simp: pl_inv_with_def pl_core_def pl_phase_inv_def)
  with p_register show ?case by (auto intro: worker_idle_inv)
qed (auto simp: Subscribe_def Unsubscribe_def Emit_def Let_def
    intro: Submit_new_inv Submit_continue_inv pl_Cancel_inv CompletePromise_inv pl_worker_poll_inv
      pl_worker_finish_inv pl_Shutdown_begin_inv pl_shutdown_deliver_inv pl_shutdown_finish_inv)

text \<open>Runs without such a race.\<close>

inductive pl_calm_run :: "pipeline \<Rightarrow> pl_event list \<Rightarrow> pipeline \<Rightarrow> bool" where
  p_calm_nil: "pl_calm_run s [] s"
| p_calm_snoc: "pl_calm_run s es s' \<Longrightarrow> pl_step s' e s'' \<Longrightarrow> \<not> races_shutdown s' e \<Longrightarrow>
    pl_calm_run s (es @ [e]) s''"

lemma pl_calm_inv: "pl_calm_run s es s' \<Longrightarrow> pl_inv s \<Longrightarrow> pl_inv s'"
  by (induction rule: pl_calm_run.induct) (auto intro: pl_step_inv)

lemma pl_reachable_inv:
  "pl_create has_executor opts = Inr s0 \<Longrightarrow> pl_calm_run s0 es s \<Longrightarrow> pl_inv s"
  using pl_calm_inv pl_create_inv by blast

end
