(* ===== verification/Command_Pipeline_Props.thy ===== *)
theory Command_Pipeline_Props
  imports Command_Pipeline_Inv
begin

text \<open>
  Properties of the execution pipeline: scheduling order, bounded history, exactly-once futures,
  the accounting of the metrics, and what a \<open>Cancel\<close> during shutdown does to them.
\<close>

text \<open>
  \<open>PruneHistoryLocked\<close> drops exactly the oldest finished executions, as many as the history
  exceeds its limit by (or all of them, if there are fewer); the records of outstanding executions
  are never dropped, and afterwards the limit holds or only outstanding executions are left.
\<close>

theorem PruneHistory_exact:
  assumes "distinct hist" "distinct (map fst recs)" "fst ` set recs = set hist"
  shows "PruneHistory mx out recs hist =
      (let D = set (take (length recs - mx) (filter (\<lambda>i. \<not> out i) hist)) in
       (filter (\<lambda>(i, _). i \<notin> D) recs, filter (\<lambda>i. i \<notin> D) hist)) \<and>
    (\<forall>i \<in> set hist. out i \<longrightarrow> i \<in> set (snd (PruneHistory mx out recs hist))) \<and>
    (length (fst (PruneHistory mx out recs hist)) \<le> mx \<or>
     (\<forall>i \<in> set (snd (PruneHistory mx out recs hist)). out i))"
proof -
  let ?C = "filter (\<lambda>i. \<not> out i) hist"
  let ?D = "set (take (length recs - mx) ?C)"
  have eq: "PruneHistory mx out recs hist =
      (filter (\<lambda>(i, _). i \<notin> ?D) recs, filter (\<lambda>i. i \<notin> ?D) hist)"
    using PruneHistory_filter [OF assms] by (simp add: pruned_ids_def Let_def)
  have D: "?D \<subseteq> set ?C" by (rule set_take_subset)
  have "length (filter (\<lambda>(i, _). i \<notin> ?D) recs) \<le> mx \<or> (\<forall>i \<in> set hist - ?D. out i)"
  proof (cases "length recs - mx < length ?C")
    case True
    have "distinct ?C" using assms(1) by simp
    then have card: "card ?D = length recs - mx" using True by (simp add: distinct_card)
    have keys: "distinct (map fst (filter (\<lambda>(i, _). i \<notin> ?D) recs))"
      using assms(2) by (rule distinct_map_filter)
    have "length (filter (\<lambda>(i, _). i \<notin> ?D) recs) = card (fst ` set (filter (\<lambda>(i, _). i \<notin> ?D) recs))"
      using distinct_card [OF keys] by simp
    also have "\<dots> = card (set hist - ?D)" by (simp only: keys_filter assms(3))
    also have "\<dots> = card (set hist) - card ?D" using D by (intro card_Diff_subset) auto
    also have "card (set hist) = length recs"
      using assms distinct_card [OF assms(2)] by simp
    finally have "length (filter (\<lambda>(i, _). i \<notin> ?D) recs) \<le> mx" using card by linarith
    then show ?thesis by blast
  next
    case False
    then have "?D = set ?C" by simp
    then show ?thesis by auto
  qed
  moreover have "i \<in> set hist - ?D" if "i \<in> set hist" "out i" for i using that D by auto
  ultimately show ?thesis by (simp add: eq Let_def) blast
qed

lemma PruneHistory_exact_witness:
  "PruneHistory 2 (\<lambda>i. i = 1) [(1, ''a''), (2, ''b''), (3, ''c''), (4, ''d'')] [1, 2, 3, 4] =
     ([(1, ''a''), (4, ''d'')], [1, 4])"
  by (subst PruneHistory_exact [THEN conjunct1]) (auto simp: Let_def)

lemma queued_stored:
  assumes "pl_inv s" and "i \<in> set (pl_queue s)"
  shows "\<exists>e. pl_store s i = Some e \<and> ex_promise e = None"
  using assms owned_store [of no_hands s i]
  by (auto simp: pl_inv_with_def pl_core_def pl_owned_def pl_waiting_def)

lemma queue_distinct_pl:
  assumes "pl_inv s"
  shows "distinct (pl_queue s)"
proof -
  have "count (mset (pl_queue s)) j \<le> 1" for j
  proof -
    have "count (mset (pl_queue s)) j \<le> count (pl_owned no_hands s) j"
      by (simp add: pl_owned_def pl_waiting_def)
    also have "\<dots> \<le> 1" using assms by (simp add: pl_inv_with_def pl_core_def pl_own_inv_def)
    finally show ?thesis .
  qed
  then show ?thesis
    by (metis count_mset_0_iff distinct_count_atmost_1 le_less_Suc_eq less_Suc_eq_le less_one
        One_nat_def not_less_eq_eq)
qed

text \<open>The scheduling order: higher priority first, then earlier acceptance.\<close>

definition precedes :: "execution \<Rightarrow> execution \<Rightarrow> bool" where
  "precedes e e' \<longleftrightarrow>
     (let p = priority_code (cmd_priority (ex_command e));
          p' = priority_code (cmd_priority (ex_command e'))
      in p' < p \<or> p' = p \<and> ex_sequence e \<le> ex_sequence e')"

text \<open>
  A worker that polls a nonempty queue takes the execution that precedes every other one in the
  queue (by priority, then by order of acceptance), removes it from the queue and runs it.
\<close>

theorem pl_take_priority_fifo:
  assumes "pl_create has_executor opts = Inr s0" and "pl_calm_run s0 es s"
    and "w < length (pl_workers s)" and "pl_queue s \<noteq> []"
  shows "\<exists>i e. i \<in> set (pl_queue s) \<and> pl_store s i = Some e \<and>
    pl_workers (pl_worker_poll now now' w s) ! w = PW_Executing i \<and>
    set (pl_queue (pl_worker_poll now now' w s)) = set (pl_queue s) - {i} \<and>
    (\<forall>j \<in> set (pl_queue s). \<forall>e'. pl_store s j = Some e' \<longrightarrow> precedes e e')"
proof -
  have inv: "pl_inv s" using pl_reachable_inv assms(1,2) .
  let ?k = "max_element (execution_key s) (pl_queue s)" and ?i = "pl_queue s ! max_element (execution_key s) (pl_queue s)"
  have fm: "first_max (execution_key s) (pl_queue s) ?k" using assms(4) by (rule max_element_first_max)
  then have k: "?k < length (pl_queue s)" by (simp add: first_max_def)
  then have i: "?i \<in> set (pl_queue s)" by simp
  obtain e where e: "pl_store s ?i = Some e" using queued_stored [OF inv i] by blast
  have d: "distinct (pl_queue s)" using queue_distinct_pl [OF inv] .
  have "precedes e e'" if "j \<in> set (pl_queue s)" "pl_store s j = Some e'" for j e'
  proof -
    have "execution_key s j \<le> execution_key s ?i"
      using fm that(1) by (auto simp: first_max_def in_set_conv_nth)
    then show ?thesis using e that(2) by (auto simp: execution_key_def precedes_def Let_def)
  qed
  then show ?thesis
    using i e assms(3,4) distinct_erase_at(2) [OF d k]
    by (intro exI [of _ ?i] exI [of _ e])
      (simp add: pl_worker_poll_def TakeNextExecutionLocked_def Let_def queue_emit_def)
qed

lemma active_le: "length (concat (map pw_exec ws)) \<le> length ws"
proof (induction ws)
  case (Cons w ws)
  then show ?case by (cases w) simp_all
qed simp

text \<open>
  In every state reachable without a cancellation racing the shutdown loop: at most
  \<open>maximumQueueSize\<close> executions wait and at most \<open>workerCount\<close> run, which is what the metrics
  report; and the index maps exactly the outstanding commands to their executions, so no command
  identifier is outstanding twice.
\<close>

theorem pl_bounds:
  assumes "pl_create has_executor opts = Inr s0" and "pl_calm_run s0 es s"
  shows "met_currentQueued (GetMetrics s) \<le> plo_maximumQueueSize (pl_options s) \<and>
    met_currentRunning (GetMetrics s) \<le> plo_workerCount (pl_options s) \<and>
    met_currentRunning (GetMetrics s) = length (pl_active s) \<and>
    (\<forall>c i. pl_command_to_execution s c = Some i \<longleftrightarrow> pl_Contains i s \<and> pl_command_of s i = Some c)"
proof -
  have core: "pl_core no_hands s" using pl_reachable_inv [OF assms] by (simp add: pl_inv_with_def)
  have "pl_running_count s = length (pl_active s)" "length (pl_workers s) = plo_workerCount (pl_options s)"
    "length (pl_queue s) \<le> plo_maximumQueueSize (pl_options s)"
    using core by (simp_all add: pl_core_def pl_count_inv_def pl_running_def no_hands_def)
  moreover have "length (pl_active s) \<le> length (pl_workers s)"
    unfolding pl_active_def by (rule active_le)
  moreover have "pl_index_inv s" using core by (simp add: pl_core_def)
  ultimately show ?thesis by (simp add: GetMetrics_def pl_index_inv_def pl_Contains_def)
qed

text \<open>
  The history is bounded and faithful: at most \<open>maximumHistorySize\<close> finished executions are
  kept; every outstanding execution is listed; \<open>GetHistory\<close> returns one record per listed
  execution, in order of insertion, and as many as the metrics report; a listed execution has a
  terminal status exactly when it is no longer outstanding.
\<close>

theorem pl_history_faithful:
  assumes "pl_create has_executor opts = Inr s0" and "pl_calm_run s0 es s"
  shows "length (filter (\<lambda>i. \<not> pl_Contains i s) (pl_history_order s)) \<le> plo_maximumHistorySize (pl_options s) \<and>
    (\<forall>i. pl_Contains i s \<longrightarrow> GetRecord i s \<noteq> None) \<and>
    distinct (pl_history_order s) \<and>
    map rec_executionId (GetHistory s) = pl_history_order s \<and>
    met_historySize (GetMetrics s) = length (GetHistory s) \<and>
    (\<forall>i r. GetRecord i s = Some r \<longrightarrow> (isTerminal (rec_status r) \<longleftrightarrow> \<not> pl_Contains i s))"
proof -
  have inv: "pl_inv s" using pl_reachable_inv [OF assms] .
  then have hc: "pl_history_core no_hands s" and st: "pl_store_inv no_hands s"
    by (simp_all add: pl_inv_with_def pl_core_def)
  have keys: "fst ` set (pl_records s) = set (pl_history_order s)" "distinct (map fst (pl_records s))"
    and d: "distinct (pl_history_order s)" and sub: "pl_executions s \<subseteq> set (pl_history_order s)"
    using hc by (simp_all add: pl_history_core_def)
  have rec: "record_ok s i r" if "map_of (pl_records s) i = Some r" for i r
    using that hc by (auto simp: pl_history_core_def dest!: map_of_SomeD)
  have some: "\<exists>r. map_of (pl_records s) i = Some r \<and> rec_executionId r = i"
    if "i \<in> set (pl_history_order s)" for i
  proof -
    from that keys(1) obtain r where r: "map_of (pl_records s) i = Some r"
      by (metis map_of_eq_None_iff not_Some_eq)
    with rec st show ?thesis by (fastforce simp: record_ok_def pl_store_inv_def execution_ok_def)
  qed
  have hist: "map rec_executionId (List.map_filter (map_of (pl_records s)) xs) = xs"
    if "set xs \<subseteq> set (pl_history_order s)" for xs
    using that
  proof (induction xs)
    case (Cons x xs)
    then obtain r where "map_of (pl_records s) x = Some r" "rec_executionId r = x" using some by auto
    with Cons show ?case by (simp add: List.map_filter_def)
  qed (simp add: List.map_filter_def)
  have "length (pl_records s) = length (pl_history_order s)"
    using keys d distinct_card [OF keys(2)] distinct_card [OF d] by simp
  moreover have "length (GetHistory s) = length (pl_history_order s)"
    using arg_cong [OF hist [OF order_refl], of length] by (simp add: GetHistory_def)
  moreover have "length (filter (\<lambda>i. \<not> pl_Contains i s) (pl_history_order s)) \<le> plo_maximumHistorySize (pl_options s)"
    using inv by (simp add: pl_inv_with_def pl_history_bound_def completed_ids_def pl_Contains_def)
  moreover have "GetRecord i s \<noteq> None" if "pl_Contains i s" for i
    using some sub that by (force simp: GetRecord_def pl_Contains_def)
  moreover have "isTerminal (rec_status r) \<longleftrightarrow> \<not> pl_Contains i s" if "GetRecord i s = Some r" for i r
    using rec that by (simp add: GetRecord_def pl_Contains_def record_ok_def)
  ultimately show ?thesis
    using d hist [OF order_refl] by (simp add: GetHistory_def GetMetrics_def)
qed

text \<open>
  No future is lost: in every such state each execution ever created has its promise satisfied,
  or exactly one place of the pipeline is still responsible for it (a submission in progress, the
  queue, the shutdown loop, a worker, or a thread about to satisfy it). Once a shutdown has
  completed and the submitting and cancelling threads are through, every promise is satisfied.
\<close>

theorem pl_futures_owned:
  assumes "pl_create has_executor opts = Inr s0" and "pl_calm_run s0 es s"
  shows "(\<forall>i. 0 < i \<and> i < pl_next_execution_id s \<longrightarrow>
      (\<exists>e. pl_store s i = Some e \<and>
        count (mset (map fst (pl_submitting s)) + mset (pl_queue s) + mset (delivering (pl_shutdown s))
          + mset (pl_active s) + mset (map fst (pl_promises s))) i =
        (if ex_promise e = None then 1 else 0))) \<and>
    (pl_shutdown_complete s \<and> pl_submitting s = [] \<and> pl_promises s = [] \<longrightarrow>
      (\<forall>i e. pl_store s i = Some e \<longrightarrow> ex_promise e \<noteq> None))"
proof -
  let ?M = "mset (map fst (pl_submitting s)) + mset (pl_queue s) + mset (delivering (pl_shutdown s))
          + mset (pl_active s) + mset (map fst (pl_promises s))"
  have core: "pl_core no_hands s" using pl_reachable_inv [OF assms] by (simp add: pl_inv_with_def)
  have M: "?M = pl_owned no_hands s"
    by (simp add: pl_owned_def pl_submitted_def pl_waiting_def pl_running_def no_hands_def del: mset_map)
  have cnt: "count ?M i = (if ex_promise e = None then 1 else 0)" if "pl_store s i = Some e" for i e
    using core that unfolding M by (simp add: pl_core_def pl_own_inv_def pl_unresolved_def)
  have "pl_store s i \<noteq> None" if "0 < i" "i < pl_next_execution_id s" for i
    using core that by (simp add: pl_core_def pl_store_inv_def)
  then have first: "\<exists>e. pl_store s i = Some e \<and> count ?M i = (if ex_promise e = None then 1 else 0)"
    if "0 < i" "i < pl_next_execution_id s" for i using cnt that by blast
  have second: "ex_promise e \<noteq> None"
    if "pl_shutdown_complete s" "pl_submitting s = []" "pl_promises s = []" "pl_store s i = Some e" for i e
  proof -
    have ph: "pl_phase_inv s" using core by (simp add: pl_core_def)
    with that(1) have fin: "pl_shutdown s = Shut_Finished" "pl_queue s = []"
      "set (pl_workers s) \<subseteq> {PW_Exited}" by (auto simp: pl_phase_inv_def)
    have "concat (map pw_exec ws) = []" if "set ws \<subseteq> {PW_Exited}" for ws
      using that by (induction ws) auto
    with fin that have "?M = {#}" by (simp add: pl_active_def)
    then have "count ?M i = 0" by (simp only: count_empty)
    with cnt [OF that(4)] show ?thesis by (auto split: if_splits)
  qed
  show ?thesis using first second by blast
qed

text \<open>
  The metrics account for every submission: modulo 2 to the 64, the executions created so far
  are those that completed, were cancelled, timed out, failed or were rejected, plus those still
  being submitted, waiting or running.
\<close>

theorem pl_metrics_account:
  assumes "pl_create has_executor opts = Inr s0" and "pl_calm_run s0 es s"
  shows "of_nat (pl_next_execution_id s - 1) = metrics_total (GetMetrics s)
    + of_nat (length (pl_submitting s) + length (pl_queue s) + length (delivering (pl_shutdown s))
        + length (pl_active s))"
proof -
  have core: "pl_core no_hands s" using pl_reachable_inv [OF assms] by (simp add: pl_inv_with_def)
  then have "0 < pl_next_execution_id s" by (simp add: pl_core_def pl_store_inv_def)
  moreover have "of_nat (pl_next_execution_id s) = 1 + metrics_total (pl_metrics s)
       + of_nat (size (pl_submitted no_hands s)) + of_nat (size (pl_waiting no_hands s))
       + of_nat (size (pl_running no_hands s))"
    using core by (simp add: pl_core_def pl_account_inv_def)
  ultimately show ?thesis
    by (simp add: of_nat_diff GetMetrics_def metrics_total_def pl_submitted_def pl_waiting_def
        pl_running_def no_hands_def algebra_simps)
qed

section \<open>Concrete runs\<close>

definition demo_pl_options :: command_execution_pipeline_options where
  "demo_pl_options = \<lparr>plo_maximumQueueSize = 2, plo_workerCount = 1, plo_maximumHistorySize = 4\<rparr>"

definition demo_pipeline :: pipeline where
  "demo_pipeline = projr (pl_create True demo_pl_options)"

definition demo_pl_command :: command where
  "demo_pl_command = default_command\<lparr>cmd_id := 7, cmd_type := Type_Stand\<rparr>"

definition demo_pl_queued :: pipeline where
  "demo_pl_queued = Submit_continue 3 4 0 (Submit_new 1 2 demo_pl_command demo_pipeline)"

lemmas demo_pl_eval = demo_pl_queued_def demo_pl_command_def demo_pipeline_def demo_pl_options_def
  pl_create_def Submit_new_def Submit_continue_def Submit_accept_def submit_refusal_def
  ValidateForSubmission_def new_execution_def queued_record_def queue_emit_def EventFromRecord_def
  default_command_def hasTimeout_def erase_at_def zero_metrics_def Let_def

lemma demo_pl_created: "pl_create True demo_pl_options = Inr demo_pipeline"
  by (simp add: demo_pl_eval)

lemma demo_pl_queued_run:
  "pl_calm_run demo_pipeline [PE_SubmitNew 1 2 demo_pl_command, PE_SubmitContinue 3 4 0] demo_pl_queued"
proof -
  have "pl_calm_run demo_pipeline [PE_SubmitNew 1 2 demo_pl_command]
      (Submit_new 1 2 demo_pl_command demo_pipeline)"
    using p_calm_snoc [OF p_calm_nil p_submit_new] by simp
  moreover have "pl_step (Submit_new 1 2 demo_pl_command demo_pipeline) (PE_SubmitContinue 3 4 0) demo_pl_queued"
    unfolding demo_pl_queued_def by (rule p_submit_continue) (simp add: Submit_new_def Let_def)
  ultimately show ?thesis using p_calm_snoc by fastforce
qed

lemma pl_take_priority_fifo_witness:
  "\<exists>i. i \<in> set (pl_queue demo_pl_queued) \<and>
     pl_workers (pl_worker_poll 5 6 0 demo_pl_queued) ! 0 = PW_Executing i"
  using pl_take_priority_fifo [OF demo_pl_created demo_pl_queued_run, of 0 5 6]
  by (auto simp: demo_pl_eval)

lemma pl_bounds_witness:
  "met_currentQueued (GetMetrics demo_pl_queued) = 1 \<and>
   met_currentRunning (GetMetrics demo_pl_queued) = length (pl_active demo_pl_queued)"
  using pl_bounds [OF demo_pl_created demo_pl_queued_run] by (simp add: GetMetrics_def demo_pl_eval)

lemma pl_history_faithful_witness:
  "map rec_executionId (GetHistory demo_pl_queued) = pl_history_order demo_pl_queued \<and>
   pl_history_order demo_pl_queued = [1]"
  using pl_history_faithful [OF demo_pl_created demo_pl_queued_run] by (simp add: demo_pl_eval)

lemma pl_futures_owned_witness:
  "\<exists>e. pl_store demo_pl_queued 1 = Some e \<and> ex_promise e = None"
proof -
  have "pl_next_execution_id demo_pl_queued = 2" by (simp add: demo_pl_eval)
  then show ?thesis
    using pl_futures_owned [OF demo_pl_created demo_pl_queued_run, THEN conjunct1, rule_format, of 1]
    by (auto simp: demo_pl_eval)
qed

lemma pl_metrics_account_witness:
  "(1 :: u64) = metrics_total (GetMetrics demo_pl_queued) + of_nat (length (pl_queue demo_pl_queued))"
  using pl_metrics_account [OF demo_pl_created demo_pl_queued_run]
  by (simp add: demo_pl_eval pl_active_def)

text \<open>
  A \<open>Cancel\<close> that hits an execution between the two critical sections of \<open>Shutdown\<close> breaks the
  accounting: both threads complete the execution, so one accepted command is counted as cancelled
  twice and two terminal events are emitted for it.
\<close>

theorem pl_cancel_shutdown_race:
  "\<exists>s. pl_run demo_pipeline [PE_SubmitNew 1 2 demo_pl_command, PE_SubmitContinue 3 4 0,
       PE_ShutdownBegin None, PE_Cancel 5 6 1, PE_ShutdownDeliver 7 8] s \<and>
     met_accepted (GetMetrics s) = 1 \<and> met_cancelled (GetMetrics s) = 2 \<and>
     length (filter (\<lambda>(ev, _). ev_executionId ev = 1 \<and> isTerminal (ev_status ev)) (pl_emits s)) = 2"
proof -
  let ?s1 = "Submit_new 1 2 demo_pl_command demo_pipeline"
  let ?s3 = "projr (the (pl_Shutdown_begin None demo_pl_queued))"
  let ?s4 = "fst (pl_Cancel 5 6 1 ?s3)"
  let ?s5 = "pl_shutdown_deliver 7 8 ?s4"
  note ev = demo_pl_eval pl_Shutdown_begin_def pl_IsWorkerThread_def pl_Cancel_def
    CompleteExecutionLocked_def CompleteRecordLocked_def PruneHistoryLocked_def PruneHistory.simps
    queue_promise_def pl_shutdown_deliver_def pl_shutdown_result_def GetMetrics_def
  have r1: "pl_run demo_pipeline [PE_SubmitNew 1 2 demo_pl_command] ?s1"
    using p_run_snoc [OF p_run_nil p_submit_new] by simp
  have s2: "pl_step ?s1 (PE_SubmitContinue 3 4 0) demo_pl_queued"
    unfolding demo_pl_queued_def by (rule p_submit_continue) (simp add: Submit_new_def Let_def)
  have s3: "pl_step demo_pl_queued (PE_ShutdownBegin None) ?s3"
    by (rule p_shutdown_begin) (simp add: ev)
  have s4: "pl_step ?s3 (PE_Cancel 5 6 1) ?s4" by (rule p_cancel)
  have s5: "pl_step ?s4 (PE_ShutdownDeliver 7 8) ?s5"
    by (rule p_shutdown_deliver [of _ "[1]"]) (simp add: ev)
  have run: "pl_run demo_pipeline [PE_SubmitNew 1 2 demo_pl_command, PE_SubmitContinue 3 4 0,
       PE_ShutdownBegin None, PE_Cancel 5 6 1, PE_ShutdownDeliver 7 8] ?s5"
    using p_run_snoc [OF p_run_snoc [OF p_run_snoc [OF p_run_snoc [OF r1 s2] s3] s4] s5] by simp
  have "met_accepted (GetMetrics ?s5) = 1 \<and> met_cancelled (GetMetrics ?s5) = 2 \<and>
     length (filter (\<lambda>(ev, _). ev_executionId ev = 1 \<and> isTerminal (ev_status ev)) (pl_emits ?s5)) = 2"
    by (simp add: ev)
  with run show ?thesis by blast
qed

end
