(* ===== verification/Resource_Manager.thy ===== *)
theory Resource_Manager
  imports Prelude "HOL-Library.Multiset"
begin

text \<open>
  Shared and exclusive leases on named resources, \<open>src/runtime/ResourceManager.cpp\<close>. A thread that
  blocks in \<open>Acquire\<close> is an entry of \<open>rm_waiters\<close>; it wakes when the predicate of its wait holds, or,
  if it has a deadline, when that has passed. Lease identifiers are the values
  of a 64-bit counter that wraps around.
\<close>

section \<open>State\<close>

datatype resource_lock_mode = Shared | Exclusive

record resource_handle =
  h_resource_id :: string
  h_mode :: resource_lock_mode
  h_lease_id :: u64

definition handle_IsValid :: "resource_handle \<Rightarrow> bool" where
  "handle_IsValid h = (h_resource_id h \<noteq> [] \<and> h_lease_id h \<noteq> 0)"

record resource_state =
  shared_leases :: "u64 set"
  exclusive_lease :: "u64 option"
  waiting_shared :: nat
  waiting_exclusive :: nat

definition new_resource :: resource_state where
  "new_resource = \<lparr>shared_leases = {}, exclusive_lease = None, waiting_shared = 0, waiting_exclusive = 0\<rparr>"

text \<open>A blocked call: the resource, the mode, and the deadline of a timed call.\<close>

type_synonym waiter = "string \<times> resource_lock_mode \<times> time_ns option"

record resource_manager =
  rm_resources :: "string \<Rightarrow> resource_state option"
  rm_next_lease :: u64
  rm_waiters :: "waiter list"

definition rm_new :: resource_manager where
  "rm_new = \<lparr>rm_resources = (\<lambda>_. None), rm_next_lease = 1, rm_waiters = []\<rparr>"

section \<open>Operations\<close>

definition IsValidResourceId :: "string \<Rightarrow> bool" where
  "IsValidResourceId r = (r \<noteq> [])"

definition CanAcquireShared :: "resource_state \<Rightarrow> bool" where
  "CanAcquireShared q = (exclusive_lease q = None \<and> waiting_exclusive q = 0)"

definition CanAcquireExclusive :: "resource_state \<Rightarrow> bool" where
  "CanAcquireExclusive q = (exclusive_lease q = None \<and> shared_leases q = {})"

definition CanAcquire :: "resource_state \<Rightarrow> resource_lock_mode \<Rightarrow> bool" where
  "CanAcquire q mode = (if mode = Shared then CanAcquireShared q else CanAcquireExclusive q)"

text \<open>\<open>resources_[resource_id]\<close>, which inserts a fresh entry when there is none.\<close>

definition resource_at :: "string \<Rightarrow> resource_manager \<Rightarrow> resource_state" where
  "resource_at r m = (case rm_resources m r of Some q \<Rightarrow> q | None \<Rightarrow> new_resource)"

definition put_resource :: "string \<Rightarrow> resource_state \<Rightarrow> resource_manager \<Rightarrow> resource_manager" where
  "put_resource r q m = m\<lparr>rm_resources := (rm_resources m)(r \<mapsto> q)\<rparr>"

definition unused :: "resource_state \<Rightarrow> bool" where
  "unused q = (shared_leases q = {} \<and> exclusive_lease q = None \<and> waiting_shared q = 0 \<and>
     waiting_exclusive q = 0)"

definition RemoveUnusedResourceLocked :: "string \<Rightarrow> resource_manager \<Rightarrow> resource_manager" where
  "RemoveUnusedResourceLocked r m =
     (if unused (resource_at r m) then m\<lparr>rm_resources := (rm_resources m)(r := None)\<rparr> else m)"

definition CreateLockLocked ::
  "string \<Rightarrow> resource_lock_mode \<Rightarrow> resource_manager \<Rightarrow> resource_manager \<times> resource_handle" where
  "CreateLockLocked r mode m =
     (let l = rm_next_lease m; q = resource_at r m;
          q' = (if mode = Exclusive then q\<lparr>exclusive_lease := Some l\<rparr>
                else q\<lparr>shared_leases := insert l (shared_leases q)\<rparr>)
      in (put_resource r q' (m\<lparr>rm_next_lease := l + 1\<rparr>),
          \<lparr>h_resource_id = r, h_mode = mode, h_lease_id = l\<rparr>))"

fun count_waiting :: "int \<Rightarrow> resource_lock_mode \<Rightarrow> resource_state \<Rightarrow> resource_state" where
  "count_waiting d Exclusive q = q\<lparr>waiting_exclusive := nat (int (waiting_exclusive q) + d)\<rparr>"
| "count_waiting d Shared q = q\<lparr>waiting_shared := nat (int (waiting_shared q) + d)\<rparr>"

text \<open>
  \<open>Acquire\<close>, with or without a timeout, up to its wait (\<open>now\<close> is the clock reading from which the
  deadline is computed); \<open>Inr\<close> is the result of a call that does not block.
\<close>

definition TryAcquire ::
  "string \<Rightarrow> resource_lock_mode \<Rightarrow> resource_manager \<Rightarrow> resource_manager \<times> resource_handle option" where
  "TryAcquire r mode m =
     (if \<not> IsValidResourceId r then (m, None)
      else
        (let m' = put_resource r (resource_at r m) m in
         if \<not> CanAcquire (resource_at r m') mode then (RemoveUnusedResourceLocked r m', None)
         else (case CreateLockLocked r mode m' of (m'', h) \<Rightarrow> (m'', Some h))))"

definition start_waiting ::
  "string \<Rightarrow> resource_lock_mode \<Rightarrow> time_ns option \<Rightarrow> resource_manager \<Rightarrow> resource_manager" where
  "start_waiting r mode deadline m =
     (put_resource r (count_waiting 1 mode (resource_at r m)) m)
       \<lparr>rm_waiters := rm_waiters m @ [(r, mode, deadline)]\<rparr>"

definition Acquire :: "string \<Rightarrow> resource_lock_mode \<Rightarrow> resource_manager
    \<Rightarrow> resource_manager + resource_handle option" where
  "Acquire r mode m =
     (if \<not> IsValidResourceId r then Inr None else Inl (start_waiting r mode None m))"

definition Acquire_timed :: "time_ns \<Rightarrow> string \<Rightarrow> resource_lock_mode \<Rightarrow> time_ms \<Rightarrow> resource_manager
    \<Rightarrow> resource_manager + (resource_manager \<times> resource_handle option)" where
  "Acquire_timed now r mode timeout m =
     (if \<not> IsValidResourceId r then Inr (m, None)
      else if timeout \<le> 0 then Inr (TryAcquire r mode m)
      else Inl (start_waiting r mode (Some (now + ms_to_ns timeout)) m))"

text \<open>The end of a wait: with the predicate true, or past the deadline with it false.\<close>

definition stop_waiting :: "nat \<Rightarrow> resource_manager \<Rightarrow> resource_manager" where
  "stop_waiting k m =
     (case rm_waiters m ! k of
        (r, mode, _) \<Rightarrow>
          (put_resource r (count_waiting (- 1) mode (resource_at r m)) m)
            \<lparr>rm_waiters := erase_at k (rm_waiters m)\<rparr>)"

definition wake :: "nat \<Rightarrow> resource_manager \<Rightarrow> (resource_manager \<times> resource_handle) option" where
  "wake k m =
     (case rm_waiters m ! k of
        (r, mode, _) \<Rightarrow>
          (if CanAcquire (resource_at r m) mode then Some (CreateLockLocked r mode (stop_waiting k m))
           else None))"

definition time_out :: "time_ns \<Rightarrow> nat \<Rightarrow> resource_manager \<Rightarrow> resource_manager option" where
  "time_out now k m =
     (case rm_waiters m ! k of
        (r, mode, Some deadline) \<Rightarrow>
          (if deadline \<le> now \<and> \<not> CanAcquire (resource_at r m) mode
           then Some (RemoveUnusedResourceLocked r (stop_waiting k m)) else None)
      | (r, mode, None) \<Rightarrow> None)"

definition Release :: "resource_handle \<Rightarrow> resource_manager \<Rightarrow> resource_manager \<times> bool" where
  "Release h m =
     (if \<not> handle_IsValid h then (m, False)
      else case rm_resources m (h_resource_id h) of
        None \<Rightarrow> (m, False)
      | Some q \<Rightarrow>
          (let released = (if h_mode h = Exclusive then exclusive_lease q = Some (h_lease_id h)
                           else h_lease_id h \<in> shared_leases q);
               q' = (if h_mode h = Exclusive then q\<lparr>exclusive_lease := None\<rparr>
                     else q\<lparr>shared_leases := shared_leases q - {h_lease_id h}\<rparr>)
           in if \<not> released then (m, False)
              else if unused q' then
                (m\<lparr>rm_resources := (rm_resources m)(h_resource_id h := None)\<rparr>, True)
              else (put_resource (h_resource_id h) q' m, True)))"

definition ActiveLockCount :: "string \<Rightarrow> resource_manager \<Rightarrow> nat" where
  "ActiveLockCount r m =
     (if \<not> IsValidResourceId r then 0
      else case rm_resources m r of
        None \<Rightarrow> 0
      | Some q \<Rightarrow> card (shared_leases q) + (if exclusive_lease q \<noteq> None then 1 else 0))"

subsection \<open>The owning lock object\<close>

record resource_lock =
  lk_handle :: resource_handle
  lk_owns :: bool

definition empty_handle :: resource_handle where
  "empty_handle = \<lparr>h_resource_id = [], h_mode = Shared, h_lease_id = 0\<rparr>"

definition make_lock :: "resource_handle \<Rightarrow> resource_lock" where
  "make_lock h = \<lparr>lk_handle = h, lk_owns = handle_IsValid h\<rparr>"

text \<open>\<open>ResourceLock::Release\<close>, also run by the destructor and before a move assignment.\<close>

definition lock_Release ::
  "resource_lock \<Rightarrow> resource_manager \<Rightarrow> resource_lock \<times> resource_manager \<times> bool" where
  "lock_Release l m =
     (if \<not> lk_owns l then (l, m, False)
      else (case Release (lk_handle l) m of (m', b) \<Rightarrow> (l\<lparr>lk_owns := False\<rparr>, m', b)))"

text \<open>Move construction: the source no longer owns, and its handle's string is moved out.\<close>

definition lock_move :: "resource_lock \<Rightarrow> resource_lock \<times> resource_lock" where
  "lock_move other = (other, other\<lparr>lk_owns := False, lk_handle := (lk_handle other)\<lparr>h_resource_id := []\<rparr>\<rparr>)"

section \<open>Interleavings\<close>

datatype rm_event =
    RM_Try string resource_lock_mode
  | RM_Acquire string resource_lock_mode
  | RM_AcquireTimed time_ns string resource_lock_mode time_ms
  | RM_Wake nat
  | RM_TimeOut time_ns nat
  | RM_Release resource_handle

inductive rm_step :: "resource_manager \<Rightarrow> rm_event \<Rightarrow> resource_manager \<Rightarrow> bool" where
  rm_try: "rm_step m (RM_Try r mode) (fst (TryAcquire r mode m))"
| rm_acquire: "Acquire r mode m = Inl m' \<Longrightarrow> rm_step m (RM_Acquire r mode) m'"
| rm_acquire_timed: "Acquire_timed now r mode t m = Inl m' \<Longrightarrow>
    rm_step m (RM_AcquireTimed now r mode t) m'"
| rm_acquire_now: "Acquire_timed now r mode t m = Inr (m', h) \<Longrightarrow>
    rm_step m (RM_AcquireTimed now r mode t) m'"
| rm_wake: "k < length (rm_waiters m) \<Longrightarrow> wake k m = Some (m', h) \<Longrightarrow> rm_step m (RM_Wake k) m'"
| rm_time_out: "k < length (rm_waiters m) \<Longrightarrow> time_out now k m = Some m' \<Longrightarrow>
    rm_step m (RM_TimeOut now k) m'"
| rm_release: "rm_step m (RM_Release h) (fst (Release h m))"

inductive rm_run :: "resource_manager \<Rightarrow> rm_event list \<Rightarrow> resource_manager \<Rightarrow> bool" where
  rm_run_nil: "rm_run m [] m"
| rm_run_snoc: "rm_run m es m' \<Longrightarrow> rm_step m' e m'' \<Longrightarrow> rm_run m (es @ [e]) m''"

section \<open>The invariant\<close>

definition waiters_for :: "string \<Rightarrow> resource_lock_mode \<Rightarrow> waiter list \<Rightarrow> nat" where
  "waiters_for r mode ws = length (filter (\<lambda>(r', mode', _). r' = r \<and> mode' = mode) ws)"

definition resource_ok :: "resource_manager \<Rightarrow> string \<Rightarrow> resource_state \<Rightarrow> bool" where
  "resource_ok m r q \<longleftrightarrow>
     finite (shared_leases q) \<and>
     (exclusive_lease q \<noteq> None \<longrightarrow> shared_leases q = {}) \<and>
     waiting_shared q = waiters_for r Shared (rm_waiters m) \<and>
     waiting_exclusive q = waiters_for r Exclusive (rm_waiters m)"

definition rm_core :: "resource_manager \<Rightarrow> bool" where
  "rm_core m \<longleftrightarrow> (\<forall>r. resource_ok m r (resource_at r m))"

text \<open>No entry is kept without a lease or a waiter, but for the resources in \<open>X\<close>.\<close>

definition rm_clean :: "string set \<Rightarrow> resource_manager \<Rightarrow> bool" where
  "rm_clean X m \<longleftrightarrow> (\<forall>r q. r \<notin> X \<longrightarrow> rm_resources m r = Some q \<longrightarrow> \<not> unused q)"

definition rm_inv :: "resource_manager \<Rightarrow> bool" where
  "rm_inv m \<longleftrightarrow> rm_core m \<and> rm_clean {} m"

lemma rm_new_inv: "rm_inv rm_new"
  by (simp add: rm_inv_def rm_core_def rm_clean_def rm_new_def resource_ok_def resource_at_def
      new_resource_def waiters_for_def)

lemma resource_at_put [simp]:
  "resource_at r (put_resource r' q m) = (if r = r' then q else resource_at r m)"
  "rm_waiters (put_resource r' q m) = rm_waiters m"
  "rm_next_lease (put_resource r' q m) = rm_next_lease m"
  by (simp_all add: resource_at_def put_resource_def)

lemma resource_at_erase:
  "resource_at r (m\<lparr>rm_resources := (rm_resources m)(r' := None)\<rparr>) =
     (if r = r' then new_resource else resource_at r m)"
  by (simp add: resource_at_def)

lemma resource_at_fields [simp]:
  "resource_at r (m\<lparr>rm_next_lease := n\<rparr>) = resource_at r m"
  "resource_at r (m\<lparr>rm_waiters := ws\<rparr>) = resource_at r m"
  by (simp_all add: resource_at_def)

lemma unused_new: "unused q \<longleftrightarrow> q = new_resource"
  by (cases q) (simp add: unused_def new_resource_def)

text \<open>Removing an unused entry does not change what a lookup sees.\<close>

lemma resource_at_remove [simp]: "resource_at r (RemoveUnusedResourceLocked r' m) = resource_at r m"
  by (simp add: RemoveUnusedResourceLocked_def resource_at_erase unused_new)

lemma waiters_for_snoc [simp]:
  "waiters_for r mode (ws @ [(r', mode', t)]) =
     waiters_for r mode ws + (if r' = r \<and> mode' = mode then 1 else 0)"
  by (simp add: waiters_for_def)

lemma waiters_for_erase:
  assumes "k < length ws" and "ws ! k = (r', mode', t)"
  shows "waiters_for r mode ws =
    waiters_for r mode (erase_at k ws) + (if r' = r \<and> mode' = mode then 1 else 0)"
proof -
  have "ws = take k ws @ (r', mode', t) # drop (Suc k) ws"
    using id_take_nth_drop [OF assms(1)] assms(2) by simp
  then have "waiters_for r mode ws = waiters_for r mode (take k ws @ (r', mode', t) # drop (Suc k) ws)"
    by simp
  then show ?thesis by (simp add: waiters_for_def erase_at_def)
qed

lemma rm_resources_put [simp]: "rm_resources (put_resource r q m) = (rm_resources m)(r \<mapsto> q)"
  by (simp add: put_resource_def)

lemma count_waiting_fields [simp]:
  "shared_leases (count_waiting d mode q) = shared_leases q"
  "exclusive_lease (count_waiting d mode q) = exclusive_lease q"
  by (cases mode; simp)+

lemma start_waiting_inv:
  assumes "rm_inv m"
  shows "rm_inv (start_waiting r mode t m)"
proof -
  have ok: "resource_ok m r' (resource_at r' m)" for r'
    using assms by (simp add: rm_inv_def rm_core_def)
  have "resource_ok (start_waiting r mode t m) r' (resource_at r' (start_waiting r mode t m))" for r'
    using ok [of r'] by (cases mode) (auto simp: start_waiting_def resource_ok_def nat_add_distrib)
  moreover have "rm_clean {} (start_waiting r mode t m)"
    using assms by (cases mode) (auto simp: rm_inv_def rm_clean_def start_waiting_def unused_def)
  ultimately show ?thesis
    using assms by (simp add: rm_inv_def rm_core_def start_waiting_def)
qed

lemma stop_waiting_core:
  assumes "rm_inv m" and k: "k < length (rm_waiters m)" "rm_waiters m ! k = (r, mode, t)"
  shows "rm_core (stop_waiting k m) \<and> rm_clean {r} (stop_waiting k m)"
proof -
  have ok: "resource_ok m r' (resource_at r' m)" for r'
    using assms by (simp add: rm_inv_def rm_core_def)
  have "resource_ok (stop_waiting k m) r' (resource_at r' (stop_waiting k m))" for r'
    using ok [of r'] waiters_for_erase [OF k, of r'] k(2)
    by (cases mode) (auto simp: stop_waiting_def resource_ok_def)
  then show ?thesis
    using assms by (auto simp: rm_inv_def rm_core_def rm_clean_def stop_waiting_def)
qed

lemma RemoveUnused_inv:
  assumes "rm_core m" and "rm_clean {r} m"
  shows "rm_inv (RemoveUnusedResourceLocked r m)"
proof -
  have "rm_core (RemoveUnusedResourceLocked r m)"
    using assms(1) unfolding rm_core_def resource_at_remove
    by (simp add: RemoveUnusedResourceLocked_def resource_ok_def)
  moreover have "\<not> unused q" if "rm_resources (RemoveUnusedResourceLocked r m) r' = Some q" for r' q
  proof (cases "r' = r")
    case True
    with that show ?thesis
      by (auto simp: RemoveUnusedResourceLocked_def resource_at_def split: if_splits)
  next
    case False
    with that have "rm_resources m r' = Some q"
      by (simp add: RemoveUnusedResourceLocked_def split: if_splits)
    with False assms(2) show ?thesis by (auto simp: rm_clean_def)
  qed
  then have "rm_clean {} (RemoveUnusedResourceLocked r m)" by (simp add: rm_clean_def)
  ultimately show ?thesis by (simp add: rm_inv_def)
qed

lemma CreateLock_inv:
  assumes "rm_core m" and "rm_clean {r} m"
    and free: "exclusive_lease (resource_at r m) = None"
      "mode = Exclusive \<Longrightarrow> shared_leases (resource_at r m) = {}"
  shows "rm_inv (fst (CreateLockLocked r mode m))"
proof -
  have ok: "resource_ok m r' (resource_at r' m)" for r' using assms by (simp add: rm_core_def)
  have "resource_ok (fst (CreateLockLocked r mode m)) r'
      (resource_at r' (fst (CreateLockLocked r mode m)))" for r'
    using ok [of r'] ok [of r] free assms(1)
    by (auto simp: CreateLockLocked_def Let_def resource_ok_def rm_core_def)
  moreover have "rm_clean {} (fst (CreateLockLocked r mode m))"
    using assms(2) by (auto simp: rm_clean_def CreateLockLocked_def Let_def unused_def split: if_splits)
  ultimately show ?thesis
    using assms(1) by (simp add: rm_inv_def rm_core_def CreateLockLocked_def Let_def)
qed

lemma CanAcquire_free:
  "CanAcquire q mode \<Longrightarrow> exclusive_lease q = None"
  "CanAcquire q mode \<Longrightarrow> mode = Exclusive \<Longrightarrow> shared_leases q = {}"
  by (auto simp: CanAcquire_def CanAcquireShared_def CanAcquireExclusive_def split: if_splits)

lemma TryAcquire_inv:
  assumes "rm_inv m"
  shows "rm_inv (fst (TryAcquire r mode m))"
proof -
  let ?m = "put_resource r (resource_at r m) m"
  have at: "resource_at r' ?m = resource_at r' m" for r' by simp
  have "rm_core ?m" "rm_clean {r} ?m"
    using assms by (auto simp: rm_inv_def rm_core_def rm_clean_def resource_ok_def split: if_splits)
  then have "rm_inv (RemoveUnusedResourceLocked r ?m)"
    "CanAcquire (resource_at r m) mode \<Longrightarrow> rm_inv (fst (CreateLockLocked r mode ?m))"
    using RemoveUnused_inv CreateLock_inv [of ?m r mode] CanAcquire_free at by auto
  with assms show ?thesis by (auto simp: TryAcquire_def Let_def split: prod.split)
qed

lemma wake_inv:
  assumes inv: "rm_inv m" and k: "k < length (rm_waiters m)" and "wake k m = Some (m', h)"
  shows "rm_inv m'"
proof -
  obtain r mode t where w: "rm_waiters m ! k = (r, mode, t)" by (metis prod_cases3)
  with assms(3) have can: "CanAcquire (resource_at r m) mode"
    and m': "m' = fst (CreateLockLocked r mode (stop_waiting k m))"
    by (auto simp: wake_def split: if_splits)
  have "resource_at r (stop_waiting k m) = count_waiting (- 1) mode (resource_at r m)"
    by (simp add: stop_waiting_def w)
  then show ?thesis
    using stop_waiting_core [OF inv k w] CanAcquire_free [OF can] unfolding m'
    by (intro CreateLock_inv) auto
qed

lemma time_out_inv:
  assumes inv: "rm_inv m" and k: "k < length (rm_waiters m)" and "time_out now k m = Some m'"
  shows "rm_inv m'"
proof -
  obtain r mode t where w: "rm_waiters m ! k = (r, mode, t)" by (metis prod_cases3)
  with assms(3) have "m' = RemoveUnusedResourceLocked r (stop_waiting k m)"
    by (auto simp: time_out_def split: option.splits if_splits)
  then show ?thesis using RemoveUnused_inv stop_waiting_core [OF inv k w] by blast
qed

lemma Release_inv:
  assumes "rm_inv m"
  shows "rm_inv (fst (Release h m))"
proof (cases "rm_resources m (h_resource_id h)")
  case None
  then show ?thesis using assms by (simp add: Release_def)
next
  case (Some q)
  let ?r = "h_resource_id h"
  let ?q = "if h_mode h = Exclusive then q\<lparr>exclusive_lease := None\<rparr>
            else q\<lparr>shared_leases := shared_leases q - {h_lease_id h}\<rparr>"
  have q: "resource_at ?r m = q" using Some by (simp add: resource_at_def)
  have ok: "resource_ok m r' (resource_at r' m)" for r'
    using assms by (simp add: rm_inv_def rm_core_def)
  have okq: "resource_ok m ?r ?q" using ok [of ?r] by (auto simp: q resource_ok_def)
  have "rm_inv (put_resource ?r ?q m)" if "\<not> unused ?q"
    using that assms ok okq unfolding rm_inv_def rm_core_def rm_clean_def
    by (auto simp: resource_ok_def)
  moreover have "rm_inv (m\<lparr>rm_resources := (rm_resources m)(?r := None)\<rparr>)" if "unused ?q"
  proof -
    have "?q = new_resource" using that by (simp only: unused_new)
    then have "resource_ok m ?r new_resource" using okq by simp
    then show ?thesis
      using assms ok unfolding rm_inv_def rm_core_def rm_clean_def
      by (auto simp: resource_at_erase resource_ok_def)
  qed
  ultimately show ?thesis
    using assms Some by (cases "h_mode h") (auto simp: Release_def Let_def)
qed

lemma rm_step_inv: "rm_step m e m' \<Longrightarrow> rm_inv m \<Longrightarrow> rm_inv m'"
proof (induction rule: rm_step.induct)
  case (rm_acquire_now now r mode t m m' h)
  then show ?case
    using TryAcquire_inv [of m r mode] by (auto simp: Acquire_timed_def split: if_splits)
qed (auto simp: Acquire_def Acquire_timed_def split: if_splits
      intro: TryAcquire_inv start_waiting_inv wake_inv time_out_inv Release_inv)

lemma rm_run_inv: "rm_run m es m' \<Longrightarrow> rm_inv m \<Longrightarrow> rm_inv m'"
  by (induction rule: rm_run.induct) (auto intro: rm_step_inv)

lemma rm_reachable_inv: "rm_run rm_new es m \<Longrightarrow> rm_inv m"
  using rm_run_inv rm_new_inv by blast

section \<open>Properties\<close>

text \<open>
  C8. Mutual exclusion: in every reachable state, whatever threads acquire, wait, time out and
  release, a resource with an exclusive lease has no other lease, so its active lock count is one;
  and the manager keeps no entry for a resource nobody holds or waits for.
\<close>

theorem rm_mutual_exclusion:
  assumes "rm_run rm_new es m"
  shows "\<forall>r q. rm_resources m r = Some q \<longrightarrow>
    (\<forall>l. exclusive_lease q = Some l \<longrightarrow> shared_leases q = {} \<and> (r \<noteq> [] \<longrightarrow> ActiveLockCount r m = 1)) \<and>
    (shared_leases q \<noteq> {} \<or> exclusive_lease q \<noteq> None \<or> (\<exists>mode t. (r, mode, t) \<in> set (rm_waiters m)))"
proof (intro allI impI conjI)
  fix r q assume q: "rm_resources m r = Some q"
  have inv: "rm_inv m" using rm_reachable_inv [OF assms] .
  have ok: "resource_ok m r q"
    using inv q by (auto simp: rm_inv_def rm_core_def resource_at_def dest!: spec [of _ r])
  { fix l assume l: "exclusive_lease q = Some l"
    then show "shared_leases q = {}" using ok by (simp add: resource_ok_def)
    then show "ActiveLockCount r m = 1" if "r \<noteq> []"
      using that l q by (simp add: ActiveLockCount_def IsValidResourceId_def) }
  have "waiters_for r mode ws = 0" if "\<nexists>mode t. (r, mode, t) \<in> set ws" for mode ws
    using that by (auto simp: waiters_for_def filter_empty_conv)
  moreover have "\<not> unused q" using inv q by (simp add: rm_inv_def rm_clean_def)
  ultimately show "shared_leases q \<noteq> {} \<or> exclusive_lease q \<noteq> None \<or> (\<exists>mode t. (r, mode, t) \<in> set (rm_waiters m))"
    using ok by (auto simp: unused_def resource_ok_def)
qed

lemma waiter_counted:
  assumes "rm_inv m" and "(r, Exclusive, t) \<in> set (rm_waiters m)"
  shows "\<not> CanAcquireShared (resource_at r m)"
proof -
  have "0 < waiters_for r Exclusive (rm_waiters m)"
    using assms(2) by (auto simp: waiters_for_def filter_empty_conv)
  then show ?thesis
    using assms(1) by (auto simp: rm_inv_def rm_core_def resource_ok_def CanAcquireShared_def)
qed

lemma CreateLock_shared:
  "shared_leases (resource_at r (fst (CreateLockLocked r' mode m))) =
     (if r' = r \<and> mode = Shared then insert (rm_next_lease m) (shared_leases (resource_at r m))
      else shared_leases (resource_at r m))"
  by (cases mode) (auto simp: CreateLockLocked_def Let_def)

lemma stop_waiting_shared [simp]:
  "shared_leases (resource_at r (stop_waiting k m)) = shared_leases (resource_at r m)"
  by (simp add: stop_waiting_def split: prod.split)

lemma start_waiting_shared [simp]:
  "shared_leases (resource_at r (start_waiting r' mode t m)) = shared_leases (resource_at r m)"
  by (simp add: start_waiting_def)

lemma Release_shared:
  "shared_leases (resource_at r (fst (Release h m))) \<subseteq> shared_leases (resource_at r m)"
  by (cases "rm_resources m (h_resource_id h)"; cases "h_mode h")
    (auto simp: Release_def Let_def resource_at_def put_resource_def new_resource_def unused_def
      split: if_splits option.splits)

lemma TryAcquire_shared:
  "\<not> CanAcquireShared (resource_at r m) \<Longrightarrow>
   shared_leases (resource_at r (fst (TryAcquire r' mode m))) = shared_leases (resource_at r m)"
  by (auto simp: TryAcquire_def Let_def CanAcquire_def CreateLock_shared split: prod.split)
    (metis CreateLock_shared fst_conv resource_at_put(1) resource_lock_mode.distinct(1))+

lemma wake_shared:
  assumes "\<not> CanAcquireShared (resource_at r m)" and "wake k m = Some (m', h)"
  shows "shared_leases (resource_at r m') = shared_leases (resource_at r m)"
proof -
  obtain r' mode t where w: "rm_waiters m ! k = (r', mode, t)" by (metis prod_cases3)
  with assms have "m' = fst (CreateLockLocked r' mode (stop_waiting k m))" "\<not> (r' = r \<and> mode = Shared)"
    by (auto simp: wake_def CanAcquire_def split: if_splits)
  then show ?thesis by (auto simp: CreateLock_shared)
qed

lemma time_out_shared:
  "time_out now k m = Some m' \<Longrightarrow> shared_leases (resource_at r m') = shared_leases (resource_at r m)"
  by (auto simp: time_out_def split: prod.splits option.splits if_splits)

text \<open>
  Exclusive requests are not overtaken: while a thread waits for exclusive access to a resource,
  no step gives anyone a new shared lease on it.
\<close>

theorem rm_writer_preference:
  assumes "rm_run rm_new es m" and "(r, Exclusive, t) \<in> set (rm_waiters m)" and "rm_step m e m'"
  shows "shared_leases (resource_at r m') \<subseteq> shared_leases (resource_at r m)"
proof -
  have no: "\<not> CanAcquireShared (resource_at r m)"
    using waiter_counted rm_reachable_inv [OF assms(1)] assms(2) .
  show ?thesis
    using assms(3)
  proof (cases m e m' rule: rm_step.cases)
    case (rm_release h)
    then show ?thesis using Release_shared by simp
  next
    case (rm_acquire_now now r' mode t' h)
    then show ?thesis
      using TryAcquire_shared [OF no, of r' mode] by (auto simp: Acquire_timed_def split: if_splits)
  qed (auto simp: TryAcquire_shared [OF no] wake_shared [OF no] time_out_shared Acquire_def
      Acquire_timed_def split: if_splits)
qed

text \<open>
  A waiter is never stuck once a resource is free: if nobody holds a lease on a resource for
  which some thread waits, then one of the threads waiting for it can take its lease now.
\<close>

theorem rm_progress:
  assumes "rm_run rm_new es m" and "\<exists>mode t. (r, mode, t) \<in> set (rm_waiters m)"
    and "shared_leases (resource_at r m) = {}" and "exclusive_lease (resource_at r m) = None"
  shows "\<exists>k mode t m' h. k < length (rm_waiters m) \<and> rm_waiters m ! k = (r, mode, t) \<and>
    wake k m = Some (m', h) \<and> rm_step m (RM_Wake k) m'"
proof -
  have inv: "rm_inv m" using rm_reachable_inv [OF assms(1)] .
  obtain mode t where w: "(r, mode, t) \<in> set (rm_waiters m)" "CanAcquire (resource_at r m) mode"
  proof (cases "\<exists>t. (r, Exclusive, t) \<in> set (rm_waiters m)")
    case True
    then show thesis
      using that [of Exclusive] assms(3,4) by (auto simp: CanAcquire_def CanAcquireExclusive_def)
  next
    case False
    then have "waiters_for r Exclusive (rm_waiters m) = 0"
      by (auto simp: waiters_for_def filter_empty_conv)
    then have "CanAcquire (resource_at r m) Shared"
      using inv assms(4)
      by (auto simp: CanAcquire_def CanAcquireShared_def rm_inv_def rm_core_def resource_ok_def)
    moreover obtain t where "(r, Shared, t) \<in> set (rm_waiters m)"
      using assms(2) False by (metis resource_lock_mode.exhaust)
    ultimately show thesis using that by blast
  qed
  then obtain k where k: "k < length (rm_waiters m)" "rm_waiters m ! k = (r, mode, t)"
    by (metis in_set_conv_nth)
  with w have "\<exists>m' h. wake k m = Some (m', h)" by (auto simp: wake_def)
  then show ?thesis using k rm_wake by blast
qed

text \<open>
  A lease can be released exactly once: releasing the handle a successful acquisition returned
  succeeds and lowers the active lock count by one, and releasing it again fails and changes nothing, as long as
  the counter did not wrap around to 0 or to a lease that is still held.
\<close>

theorem rm_release_once:
  assumes "rm_run rm_new es m" and "TryAcquire r mode m = (m1, Some h)"
    and pos: "rm_next_lease m \<noteq> 0" and new: "rm_next_lease m \<notin> shared_leases (resource_at r m)"
  shows "ActiveLockCount r m1 = ActiveLockCount r m + 1 \<and>
    (\<exists>m2. Release h m1 = (m2, True) \<and> ActiveLockCount r m2 = ActiveLockCount r m \<and>
          Release h m2 = (m2, False))"
proof -
  have inv: "rm_inv m" using rm_reachable_inv [OF assms(1)] .
  let ?q = "resource_at r m" and ?l = "rm_next_lease m"
  have ok: "resource_ok m r ?q" using inv by (simp add: rm_inv_def rm_core_def)
  have r: "r \<noteq> []" and can: "CanAcquire ?q mode"
    and h: "h = \<lparr>h_resource_id = r, h_mode = mode, h_lease_id = ?l\<rparr>"
    and m1: "rm_resources m1 = (rm_resources m)(r \<mapsto> if mode = Exclusive then ?q\<lparr>exclusive_lease := Some ?l\<rparr>
        else ?q\<lparr>shared_leases := insert ?l (shared_leases ?q)\<rparr>)"
    using assms(2) by (auto simp: TryAcquire_def IsValidResourceId_def CreateLockLocked_def Let_def
        split: if_splits)
  have fresh: "?l \<notin> shared_leases ?q" "finite (shared_leases ?q)" using ok new by (auto simp: resource_ok_def)
  have count: "ActiveLockCount r m = card (shared_leases ?q) + (if exclusive_lease ?q \<noteq> None then 1 else 0)"
    using r by (auto simp: ActiveLockCount_def IsValidResourceId_def resource_at_def new_resource_def
        split: option.split)
  have ex: "exclusive_lease ?q = None" "mode = Exclusive \<Longrightarrow> shared_leases ?q = {}"
    using CanAcquire_free [OF can] by simp_all
  have "ActiveLockCount r m1 = ActiveLockCount r m + 1"
    unfolding count using r m1 ex fresh by (simp add: ActiveLockCount_def IsValidResourceId_def)
  moreover obtain m2 where m2: "m2 = fst (Release h m1)" by simp
  moreover have "Release h m1 = (m2, True)"
    using m1 r pos by (cases mode) (auto simp: m2 Release_def handle_IsValid_def h Let_def)
  moreover have "ActiveLockCount r m2 = ActiveLockCount r m"
    unfolding count m2 using m1 r pos ex fresh
    by (cases mode) (auto simp: Release_def handle_IsValid_def h Let_def ActiveLockCount_def
        IsValidResourceId_def unused_def)
  moreover have "Release h m2 = (m2, False)"
    using m1 r pos ex fresh
    by (cases mode) (auto simp: m2 Release_def handle_IsValid_def h Let_def unused_def)
  ultimately show ?thesis by blast
qed

section \<open>Concrete runs\<close>

definition demo_rm :: resource_manager where
  "demo_rm = fst (TryAcquire ''arm'' Shared rm_new)"

definition demo_rm_waiting :: resource_manager where
  "demo_rm_waiting = start_waiting ''arm'' Exclusive None demo_rm"

definition demo_rm_freed :: resource_manager where
  "demo_rm_freed =
     fst (Release \<lparr>h_resource_id = ''arm'', h_mode = Shared, h_lease_id = 1\<rparr> demo_rm_waiting)"

lemmas demo_rm_eval = demo_rm_def demo_rm_waiting_def demo_rm_freed_def rm_new_def TryAcquire_def
  IsValidResourceId_def CanAcquire_def CanAcquireShared_def resource_at_def put_resource_def
  new_resource_def CreateLockLocked_def start_waiting_def Release_def handle_IsValid_def unused_def
  Let_def

lemma demo_rm_run:
  "rm_run rm_new [RM_Try ''arm'' Shared] demo_rm"
  "rm_run rm_new [RM_Try ''arm'' Shared, RM_Acquire ''arm'' Exclusive] demo_rm_waiting"
  "rm_run rm_new [RM_Try ''arm'' Shared, RM_Acquire ''arm'' Exclusive,
     RM_Release \<lparr>h_resource_id = ''arm'', h_mode = Shared, h_lease_id = 1\<rparr>] demo_rm_freed"
proof -
  show r1: "rm_run rm_new [RM_Try ''arm'' Shared] demo_rm"
    using rm_run_snoc [OF rm_run_nil rm_try] by (simp add: demo_rm_def)
  have "rm_step demo_rm (RM_Acquire ''arm'' Exclusive) demo_rm_waiting"
    by (rule rm_acquire) (simp add: Acquire_def IsValidResourceId_def demo_rm_waiting_def)
  from rm_run_snoc [OF r1 this]
  show r2: "rm_run rm_new [RM_Try ''arm'' Shared, RM_Acquire ''arm'' Exclusive] demo_rm_waiting" by simp
  from rm_run_snoc [OF r2 rm_release]
  show "rm_run rm_new [RM_Try ''arm'' Shared, RM_Acquire ''arm'' Exclusive,
     RM_Release \<lparr>h_resource_id = ''arm'', h_mode = Shared, h_lease_id = 1\<rparr>] demo_rm_freed"
    by (simp add: demo_rm_freed_def)
qed

lemma rm_mutual_exclusion_witness:
  "rm_resources (fst (TryAcquire ''arm'' Exclusive rm_new)) ''arm'' =
     Some (new_resource\<lparr>exclusive_lease := Some 1\<rparr>) \<and>
   ActiveLockCount ''arm'' (fst (TryAcquire ''arm'' Exclusive rm_new)) = 1"
proof -
  have run: "rm_run rm_new [RM_Try ''arm'' Exclusive] (fst (TryAcquire ''arm'' Exclusive rm_new))"
    using rm_run_snoc [OF rm_run_nil rm_try] by simp
  have "rm_resources (fst (TryAcquire ''arm'' Exclusive rm_new)) ''arm'' =
      Some (new_resource\<lparr>exclusive_lease := Some 1\<rparr>)"
    by (simp add: demo_rm_eval CanAcquireExclusive_def)
  with rm_mutual_exclusion [OF run] show ?thesis by fastforce
qed

lemma rm_writer_preference_witness:
  "shared_leases (resource_at ''arm'' (fst (TryAcquire ''arm'' Shared demo_rm_waiting))) \<subseteq>
     shared_leases (resource_at ''arm'' demo_rm_waiting)"
  by (rule rm_writer_preference [OF demo_rm_run(2), of _ None, OF _ rm_try]) (simp add: demo_rm_eval)

lemma rm_progress_witness: "\<exists>m'. rm_step demo_rm_freed (RM_Wake 0) m'"
proof -
  have w: "rm_waiters demo_rm_freed = [(''arm'', Exclusive, None)]" by (simp add: demo_rm_eval)
  have "shared_leases (resource_at ''arm'' demo_rm_freed) = {}"
    "exclusive_lease (resource_at ''arm'' demo_rm_freed) = None" by (simp_all add: demo_rm_eval)
  from rm_progress [OF demo_rm_run(3) _ this] w show ?thesis by force
qed

lemma rm_release_once_witness:
  "ActiveLockCount ''arm'' demo_rm = ActiveLockCount ''arm'' rm_new + 1"
proof -
  have "TryAcquire ''arm'' Shared rm_new =
      (demo_rm, Some \<lparr>h_resource_id = ''arm'', h_mode = Shared, h_lease_id = 1\<rparr>)"
    by (simp add: demo_rm_eval)
  from rm_release_once [OF rm_run_nil this] show ?thesis by (simp add: rm_new_def resource_at_def new_resource_def)
qed

end
