(* ===== verification/Blackboard.thy ===== *)
theory Blackboard
  imports Prelude "HOL-Library.AList"
begin

text \<open>
  The typed, namespaced store of \<open>src/runtime/Blackboard.cpp\<close> and
  \<open>include/humanoid/runtime/Blackboard.h\<close>. A stored value carries the type index it was stored
  under. The nested ordered maps are association lists with distinct keys. The locale
  \<open>map_store\<close> states the contract of a partial map; the blackboard is an instance of it.
\<close>

section \<open>State and operations\<close>

record 'v stored_value =
  sv_type :: string
  sv_value :: 'v

type_synonym 'v namespace_values = "(string \<times> 'v stored_value) list"
type_synonym 'v blackboard = "(string \<times> 'v namespace_values) list"

definition bb_new :: "'v blackboard" where
  "bb_new = []"

definition IsValidAddress :: "string \<Rightarrow> string \<Rightarrow> bool" where
  "IsValidAddress ns key = (ns \<noteq> [] \<and> key \<noteq> [])"

definition namespace_at :: "string \<Rightarrow> 'v blackboard \<Rightarrow> 'v namespace_values" where
  "namespace_at ns bb = (case map_of bb ns of Some vs \<Rightarrow> vs | None \<Rightarrow> [])"

text \<open>\<open>StoreValue\<close>; a null value (\<open>None\<close>) is refused.\<close>

definition StoreValue ::
  "string \<Rightarrow> string \<Rightarrow> 'v stored_value option \<Rightarrow> 'v blackboard \<Rightarrow> 'v blackboard \<times> bool" where
  "StoreValue ns key value bb =
     (case value of
        None \<Rightarrow> (bb, False)
      | Some v \<Rightarrow>
          (if \<not> IsValidAddress ns key then (bb, False)
           else (AList.update ns (AList.update key v (namespace_at ns bb)) bb, True)))"

text \<open>\<open>Store<T>\<close> and \<open>StoreShared<T>\<close>; \<open>ty\<close> is the type index of \<open>T\<close>, a null shared pointer is refused.\<close>

definition Store :: "string \<Rightarrow> string \<Rightarrow> string \<Rightarrow> 'v option \<Rightarrow> 'v blackboard \<Rightarrow> 'v blackboard \<times> bool" where
  "Store ty ns key value bb =
     (case value of
        None \<Rightarrow> (bb, False)
      | Some v \<Rightarrow> StoreValue ns key (Some \<lparr>sv_type = ty, sv_value = v\<rparr>) bb)"

definition GetValue :: "string \<Rightarrow> string \<Rightarrow> 'v blackboard \<Rightarrow> 'v stored_value option" where
  "GetValue ns key bb =
     (if \<not> IsValidAddress ns key then None
      else case map_of bb ns of None \<Rightarrow> None | Some vs \<Rightarrow> map_of vs key)"

definition Get :: "string \<Rightarrow> string \<Rightarrow> string \<Rightarrow> 'v blackboard \<Rightarrow> 'v option" where
  "Get ty ns key bb =
     (case GetValue ns key bb of
        None \<Rightarrow> None
      | Some v \<Rightarrow> if sv_type v \<noteq> ty then None else Some (sv_value v))"

definition bb_Contains :: "string \<Rightarrow> string \<Rightarrow> 'v blackboard \<Rightarrow> bool" where
  "bb_Contains ns key bb = (GetValue ns key bb \<noteq> None)"

definition Remove :: "string \<Rightarrow> string \<Rightarrow> 'v blackboard \<Rightarrow> 'v blackboard \<times> bool" where
  "Remove ns key bb =
     (if \<not> IsValidAddress ns key then (bb, False)
      else case map_of bb ns of
        None \<Rightarrow> (bb, False)
      | Some vs \<Rightarrow>
          (case map_of vs key of
             None \<Rightarrow> (bb, False)
           | Some _ \<Rightarrow>
               (let vs' = AList.delete key vs in
                (if vs' = [] then AList.delete ns bb else AList.update ns vs' bb, True))))"

definition Clear_namespace :: "string \<Rightarrow> 'v blackboard \<Rightarrow> 'v blackboard \<times> nat" where
  "Clear_namespace ns bb =
     (if ns = [] then (bb, 0)
      else case map_of bb ns of
        None \<Rightarrow> (bb, 0)
      | Some vs \<Rightarrow> (AList.delete ns bb, length vs))"

definition Clear :: "'v blackboard \<Rightarrow> 'v blackboard \<times> nat" where
  "Clear bb = ([], sum_list (map (length \<circ> snd) bb))"

section \<open>Representation\<close>

definition namespace_ok :: "string \<times> 'v namespace_values \<Rightarrow> bool" where
  "namespace_ok entry \<longleftrightarrow> fst entry \<noteq> [] \<and> snd entry \<noteq> [] \<and> keys_ok (snd entry) \<and>
     map_of (snd entry) [] = None"

definition bb_inv :: "'v blackboard \<Rightarrow> bool" where
  "bb_inv bb \<longleftrightarrow> keys_ok bb \<and> (\<forall>entry \<in> set bb. namespace_ok entry)"

text \<open>The map a blackboard represents.\<close>

definition bb_map :: "'v blackboard \<Rightarrow> string \<times> string \<Rightarrow> 'v stored_value option" where
  "bb_map bb = (\<lambda>(ns, key). map_of (namespace_at ns bb) key)"

lemma keys_update: "keys_ok al \<Longrightarrow> keys_ok (AList.update k v al)"
  by (simp add: keys_ok_def AList.distinct_update)

lemma keys_delete: "keys_ok al \<Longrightarrow> keys_ok (AList.delete k al)"
  by (simp add: keys_ok_def AList.distinct_delete)

lemma set_update_subset: "set (AList.update k v al) \<subseteq> insert (k, v) (set al)"
  by (induction al) (auto split: if_splits)

lemma set_delete_subset: "set (AList.delete k al) \<subseteq> set al"
  by (auto simp: AList.delete_eq)

lemma bb_inv_lookup: "bb_inv bb \<Longrightarrow> map_of bb ns = Some vs \<Longrightarrow> namespace_ok (ns, vs)"
  by (auto simp: bb_inv_def dest!: map_of_SomeD)

lemma namespace_at_inv:
  "bb_inv bb \<Longrightarrow> keys_ok (namespace_at ns bb) \<and> map_of (namespace_at ns bb) [] = None"
  using bb_inv_lookup [of bb ns]
  by (auto simp: namespace_at_def keys_ok_def namespace_ok_def split: option.split)

lemma bb_new_inv: "bb_inv bb_new"
  by (simp add: bb_inv_def bb_new_def keys_ok_def)

lemma bb_update_inv: "bb_inv bb \<Longrightarrow> namespace_ok (ns, vs) \<Longrightarrow> bb_inv (AList.update ns vs bb)"
  using set_update_subset [of ns vs bb] by (auto simp: bb_inv_def keys_update)

lemma bb_delete_inv: "bb_inv bb \<Longrightarrow> bb_inv (AList.delete ns bb)"
  using set_delete_subset [of ns bb] by (auto simp: bb_inv_def keys_delete)

lemma StoreValue_inv: "bb_inv bb \<Longrightarrow> bb_inv (fst (StoreValue ns key v bb))"
  using namespace_at_inv [of bb ns]
  by (auto simp: StoreValue_def IsValidAddress_def namespace_ok_def keys_update AList.update_conv'
      split: option.split intro!: bb_update_inv)

lemma Remove_inv:
  assumes "bb_inv bb"
  shows "bb_inv (fst (Remove ns key bb))"
proof (cases "map_of bb ns")
  case (Some vs)
  then have "namespace_ok (ns, vs)" using assms by (rule bb_inv_lookup [rotated])
  then have "AList.delete key vs \<noteq> [] \<Longrightarrow> namespace_ok (ns, AList.delete key vs)"
    by (simp add: namespace_ok_def keys_delete AList.delete_conv')
  with assms Some show ?thesis
    by (simp add: Remove_def Let_def bb_delete_inv bb_update_inv split: option.split)
qed (use assms in \<open>simp add: Remove_def\<close>)

lemma Clear_namespace_inv: "bb_inv bb \<Longrightarrow> bb_inv (fst (Clear_namespace ns bb))"
  by (auto simp: Clear_namespace_def bb_delete_inv split: option.split)

lemma Clear_inv: "bb_inv (fst (Clear bb))"
  by (simp add: Clear_def bb_inv_def keys_ok_def)

section \<open>The contract of a partial map\<close>

locale map_store =
  fixes invar :: "'s \<Rightarrow> bool"
    and view :: "'s \<Rightarrow> 'k \<Rightarrow> 'v option"
    and valid :: "'k \<Rightarrow> bool"
    and put :: "'k \<Rightarrow> 'v \<Rightarrow> 's \<Rightarrow> 's"
    and drop_key :: "'k \<Rightarrow> 's \<Rightarrow> 's"
    and empty :: 's
  assumes empty_invar: "invar empty" and empty_view: "view empty = Map.empty"
    and put_invar: "invar s \<Longrightarrow> invar (put k v s)"
    and put_view: "invar s \<Longrightarrow> view (put k v s) = (if valid k then (view s)(k \<mapsto> v) else view s)"
    and drop_invar: "invar s \<Longrightarrow> invar (drop_key k s)"
    and drop_view: "invar s \<Longrightarrow> view (drop_key k s) = (view s)(k := None)"
begin

fun puts :: "('k \<times> 'v) list \<Rightarrow> 's \<Rightarrow> 's" where
  "puts [] s = s"
| "puts ((k, v) # kvs) s = puts kvs (put k v s)"

lemma puts_view:
  "invar s \<Longrightarrow> (\<forall>(k, v) \<in> set kvs. valid k) \<Longrightarrow>
   invar (puts kvs s) \<and> view (puts kvs s) = view s ++ map_of (rev kvs)"
proof (induction kvs arbitrary: s)
  case (Cons kv kvs)
  obtain k v where kv: "kv = (k, v)" by fastforce
  with Cons.prems have "view (put k v s) = (view s)(k \<mapsto> v)" by (simp add: put_view)
  moreover have "view (put k v s) ++ map_of (rev kvs) = view (puts kvs (put k v s))"
    using Cons.IH [of "put k v s"] Cons.prems put_invar by simp
  ultimately show ?case
    using Cons.IH [of "put k v s"] Cons.prems put_invar by (simp add: kv map_add_assoc [symmetric])
qed simp

lemma put_drop: "invar s \<Longrightarrow> view s k = None \<Longrightarrow> view (drop_key k (put k v s)) = view s"
  by (auto simp: drop_view put_invar put_view fun_eq_iff)

end

lemma bb_map_update:
  "bb_map (AList.update ns vs bb) = (\<lambda>(n, key). if n = ns then map_of vs key else bb_map bb (n, key))"
  by (auto simp: bb_map_def namespace_at_def AList.update_conv' fun_eq_iff)

lemma bb_map_delete:
  "bb_map (AList.delete ns bb) = (\<lambda>(n, key). if n = ns then None else bb_map bb (n, key))"
  by (auto simp: bb_map_def namespace_at_def AList.delete_conv' fun_eq_iff)

lemma bb_map_store:
  "bb_map (fst (StoreValue ns key (Some v) bb)) =
     (if IsValidAddress ns key then (bb_map bb)((ns, key) \<mapsto> v) else bb_map bb)"
  by (auto simp: StoreValue_def bb_map_update AList.update_conv' fun_eq_iff)
    (simp_all add: bb_map_def)

lemma bb_map_invalid: "bb_inv bb \<Longrightarrow> \<not> IsValidAddress ns key \<Longrightarrow> bb_map bb (ns, key) = None"
  using bb_inv_lookup [of bb ns]
  by (auto simp: bb_map_def namespace_at_def IsValidAddress_def namespace_ok_def split: option.split)

lemma bb_map_new: "bb_map bb_new = Map.empty"
  by (simp add: bb_map_def bb_new_def namespace_at_def fun_eq_iff)

lemma bb_map_remove:
  assumes "bb_inv bb"
  shows "bb_map (fst (Remove ns key bb)) = (bb_map bb)((ns, key) := None)"
proof (cases "IsValidAddress ns key")
  case False
  then show ?thesis using bb_map_invalid [OF assms] by (auto simp: Remove_def fun_eq_iff)
next
  case valid: True
  show ?thesis
  proof (cases "map_of bb ns")
    case None
    then show ?thesis using valid by (auto simp: Remove_def bb_map_def namespace_at_def fun_eq_iff)
  next
    case (Some vs)
    then have m: "bb_map bb (ns, k) = map_of vs k" for k by (simp add: bb_map_def namespace_at_def)
    show ?thesis
    proof (cases "map_of vs key")
      case None
      with valid Some m show ?thesis by (auto simp: Remove_def fun_eq_iff)
    next
      case (Some v)
      have del: "map_of (AList.delete key vs) = (map_of vs)(key := None)" by (rule AList.delete_conv')
      then have "AList.delete key vs = [] \<Longrightarrow> (map_of vs)(key := None) = Map.empty" by simp
      with valid Some m del \<open>map_of bb ns = Some vs\<close> show ?thesis
        by (auto simp: Remove_def Let_def bb_map_update bb_map_delete fun_eq_iff split: if_splits)
    qed
  qed
qed

interpretation bbs: map_store bb_inv bb_map "\<lambda>(ns, key). IsValidAddress ns key"
  "\<lambda>(ns, key) v bb. fst (StoreValue ns key (Some v) bb)" "\<lambda>(ns, key) bb. fst (Remove ns key bb)" bb_new
  by unfold_locales
    (auto simp: bb_new_inv bb_map_new bb_map_store bb_map_remove StoreValue_inv Remove_inv split: prod.split)

section \<open>Properties\<close>

lemma GetValue_map: "bb_inv bb \<Longrightarrow> GetValue ns key bb = bb_map bb (ns, key)"
  using bb_map_invalid [of bb ns key]
  by (auto simp: GetValue_def bb_map_def namespace_at_def split: option.split)

text \<open>
  C9. The blackboard implements a partial map from addresses to typed values: every operation keeps
  the representation well formed (no empty namespace, no empty name), and in terms of the map
  \<open>StoreValue\<close> is an update at a valid address, \<open>Remove\<close> a removal that reports whether something was
  there, clearing a namespace removes exactly its addresses, and clearing removes everything.
\<close>

theorem bb_refines_map:
  assumes "bb_inv bb"
  shows "bb_map (fst (StoreValue ns key (Some v) bb)) =
      (if IsValidAddress ns key then (bb_map bb)((ns, key) \<mapsto> v) else bb_map bb) \<and>
    bb_map (fst (Remove ns key bb)) = (bb_map bb)((ns, key) := None) \<and>
    snd (Remove ns key bb) = bb_Contains ns key bb \<and>
    bb_map (fst (Clear_namespace ns bb)) = (\<lambda>(n, k). if n = ns then None else bb_map bb (n, k)) \<and>
    bb_map (fst (Clear bb)) = Map.empty \<and>
    bb_inv (fst (StoreValue ns key (Some v) bb)) \<and> bb_inv (fst (Remove ns key bb)) \<and>
    bb_inv (fst (Clear_namespace ns bb)) \<and> bb_inv (fst (Clear bb))"
proof -
  have rem: "snd (Remove ns key bb) = bb_Contains ns key bb"
    by (auto simp: Remove_def bb_Contains_def GetValue_def Let_def split: option.split)
  have cl: "bb_map (fst (Clear_namespace ns bb)) = (\<lambda>(n, k). if n = ns then None else bb_map bb (n, k))"
  proof (cases "map_of bb ns")
    case None
    then show ?thesis by (auto simp: Clear_namespace_def bb_map_def namespace_at_def fun_eq_iff)
  next
    case (Some vs)
    then have "ns \<noteq> []" using bb_inv_lookup [OF assms] by (auto simp: namespace_ok_def)
    with Some show ?thesis by (simp add: Clear_namespace_def bb_map_delete)
  qed
  have clr: "bb_map (fst (Clear bb)) = Map.empty"
    using bb_map_new by (simp add: Clear_def bb_new_def)
  show ?thesis
    using rem cl clr bb_map_store [of ns key v bb] bb_map_remove [OF assms, of ns key]
      StoreValue_inv [OF assms] Remove_inv [OF assms] Clear_namespace_inv [OF assms] Clear_inv
    by blast
qed

lemma namespace_count:
  assumes "bb_inv bb"
  shows "card {(n, k). n = ns \<and> bb_map bb (n, k) \<noteq> None} = length (namespace_at ns bb)"
proof -
  have "{(n, k). n = ns \<and> bb_map bb (n, k) \<noteq> None} = Pair ns ` fst ` set (namespace_at ns bb)"
    by (force simp: bb_map_def map_of_eq_None_iff)
  then have "card {(n, k). n = ns \<and> bb_map bb (n, k) \<noteq> None} = card (fst ` set (namespace_at ns bb))"
    by (simp add: card_image inj_on_def)
  also have "\<dots> = length (namespace_at ns bb)"
    using namespace_at_inv [OF assms, of ns] distinct_card [of "map fst (namespace_at ns bb)"]
    by (simp add: keys_ok_def)
  finally show ?thesis .
qed

text \<open>
  A value read back is the value last stored at that address under that type: \<open>Get\<close> after
  \<open>Store\<close> returns it for the same type and nothing for another type, other addresses are not
  affected, and after \<open>Remove\<close> nothing is found. \<open>Clear\<close> of a namespace returns the number of values
  it removed.
\<close>

theorem bb_typed_roundtrip:
  assumes "bb_inv bb" and "IsValidAddress ns key"
  shows "snd (Store ty ns key (Some v) bb) \<and>
    Get ty' ns key (fst (Store ty ns key (Some v) bb)) = (if ty' = ty then Some v else None) \<and>
    ((ns', key') \<noteq> (ns, key) \<longrightarrow>
      Get ty' ns' key' (fst (Store ty ns key (Some v) bb)) = Get ty' ns' key' bb) \<and>
    Get ty' ns key (fst (Remove ns key bb)) = None \<and>
    snd (Clear_namespace ns bb) = card {(n, k). n = ns \<and> bb_map bb (n, k) \<noteq> None}"
proof -
  let ?s = "Store ty ns key (Some v) bb"
  have inv: "bb_inv (fst ?s)" "bb_inv (fst (Remove ns key bb))"
    using assms(1) by (simp_all add: Store_def StoreValue_inv Remove_inv)
  have m: "bb_map (fst ?s) = (bb_map bb)((ns, key) \<mapsto> \<lparr>sv_type = ty, sv_value = v\<rparr>)"
    using assms(2) by (simp add: Store_def bb_map_store)
  have g: "bb_inv b \<Longrightarrow> Get t n k b = (case bb_map b (n, k) of None \<Rightarrow> None
      | Some w \<Rightarrow> if sv_type w \<noteq> t then None else Some (sv_value w))" for t n k b
    by (simp add: Get_def GetValue_map)
  have "snd (Clear_namespace ns bb) = length (namespace_at ns bb)"
    using assms(2) by (simp add: Clear_namespace_def namespace_at_def IsValidAddress_def split: option.split)
  then have "snd (Clear_namespace ns bb) = card {(n, k). n = ns \<and> bb_map bb (n, k) \<noteq> None}"
    by (simp only: namespace_count [OF assms(1)])
  moreover have "snd ?s" using assms(2) by (simp add: Store_def StoreValue_def)
  ultimately show ?thesis using assms inv by (simp add: g m bb_map_remove)
qed

lemma bb_refines_map_witness:
  "bb_map (fst (StoreValue ''robot'' ''pose'' (Some \<lparr>sv_type = ''int'', sv_value = (5 :: nat)\<rparr>) bb_new)) =
     [(''robot'', ''pose'') \<mapsto> \<lparr>sv_type = ''int'', sv_value = 5\<rparr>]"
  using bb_refines_map [OF bb_new_inv, of "''robot''" "''pose''" "\<lparr>sv_type = ''int'', sv_value = (5 :: nat)\<rparr>"]
  by (simp add: IsValidAddress_def bb_map_new)

lemma bb_typed_roundtrip_witness:
  "Get ''int'' ''robot'' ''pose'' (fst (Store ''int'' ''robot'' ''pose'' (Some (5 :: nat)) bb_new)) = Some 5"
  using bb_typed_roundtrip [OF bb_new_inv, of "''robot''" "''pose''" "''int''" "5 :: nat" "''int''"]
  by (simp add: IsValidAddress_def)

end
