(* ===== verification/Cooperative_Cancellation.thy ===== *)
theory Cooperative_Cancellation
  imports Prelude "HOL-Library.Multiset"
begin

text \<open>
  Cancellation sources, tokens and registrations, \<open>src/runtime/Cancellation.cpp\<close>. The shared states
  are a list indexed by address. A callback is a client's function, by name, or the function a
  child source registers with its parent's token, which cancels the child. Invoked client
  callbacks are recorded in order.
\<close>

section \<open>State\<close>

datatype callback = CB_Client nat | CB_CancelChild nat

record cancellation_state =
  cs_cancelled :: bool
  cs_next_callback_id :: nat
  cs_callbacks :: "(nat \<times> callback) list"

definition new_cancellation_state :: cancellation_state where
  "new_cancellation_state = \<lparr>cs_cancelled = False, cs_next_callback_id = 1, cs_callbacks = []\<rparr>"

type_synonym cancel_heap = "cancellation_state list"

section \<open>Cancellation\<close>

text \<open>
  The critical section of \<open>CancellationState::Cancel\<close>: \<open>None\<close> if the state is already cancelled,
  else the callbacks to invoke, in the order of their identifiers.
\<close>

definition Cancel_locked :: "nat \<Rightarrow> cancel_heap \<Rightarrow> (callback list \<times> cancel_heap) option" where
  "Cancel_locked a h =
     (if a < length h \<and> \<not> cs_cancelled (h ! a) then
        Some (map snd (cs_callbacks (h ! a)), h[a := (h ! a)\<lparr>cs_cancelled := True, cs_callbacks := []\<rparr>])
      else None)"

definition live_states :: "cancel_heap \<Rightarrow> nat" where
  "live_states h = length (filter (\<lambda>s. \<not> cs_cancelled s) h)"

lemma Cancel_locked_live:
  assumes "Cancel_locked a h = Some (cbs, h')"
  shows "live_states h' < live_states h"
proof -
  from assms have a: "a < length h" "\<not> cs_cancelled (h ! a)"
    and h': "h' = h[a := (h ! a)\<lparr>cs_cancelled := True, cs_callbacks := []\<rparr>]"
    by (auto simp: Cancel_locked_def split: if_splits)
  have "live_states h = live_states (take a h @ h ! a # drop (Suc a) h)"
    by (simp only: id_take_nth_drop [OF a(1), symmetric])
  then have "live_states h = live_states (take a h) + 1 + live_states (drop (Suc a) h)"
    using a(2) by (simp add: live_states_def)
  moreover have "live_states h' = live_states (take a h) + live_states (drop (Suc a) h)"
    using a(1) by (simp add: h' upd_conv_take_nth_drop live_states_def)
  ultimately show ?thesis by simp
qed

text \<open>
  The callbacks are invoked one after another. Invoking the callback of a child source runs the
  child's \<open>Cancel\<close>, hence the child's callbacks, before the next callback. An exception of a
  callback is contained (\<open>InvokeSafely\<close>).
\<close>

function run_callbacks :: "callback list \<Rightarrow> cancel_heap \<Rightarrow> nat list \<Rightarrow> cancel_heap \<times> nat list" where
  "run_callbacks [] h tr = (h, tr)"
| "run_callbacks (CB_Client c # cbs) h tr = run_callbacks cbs h (tr @ [c])"
| "run_callbacks (CB_CancelChild a # cbs) h tr =
     (case Cancel_locked a h of
        None \<Rightarrow> run_callbacks cbs h tr
      | Some (child_cbs, h') \<Rightarrow> run_callbacks (child_cbs @ cbs) h' tr)"
  by pat_completeness auto
termination
  by (relation "measures [\<lambda>(cbs, h, tr). live_states h, \<lambda>(cbs, h, tr). length cbs]")
    (auto dest: Cancel_locked_live)

definition Cancel_source :: "nat \<Rightarrow> cancel_heap \<Rightarrow> (cancel_heap \<times> nat list) \<times> bool" where
  "Cancel_source a h =
     (case Cancel_locked a h of
        None \<Rightarrow> ((h, []), False)
      | Some (cbs, h') \<Rightarrow> (run_callbacks cbs h' [], True))"

definition IsCancelled :: "nat \<Rightarrow> cancel_heap \<Rightarrow> bool" where
  "IsCancelled a h = (a < length h \<and> cs_cancelled (h ! a))"

section \<open>Registration\<close>

text \<open>A registration is the state's address and a nonzero identifier, or empty (identifier zero).\<close>

type_synonym registration = "(nat \<times> nat) option"

definition register_locked :: "nat \<Rightarrow> callback \<Rightarrow> cancel_heap \<Rightarrow> cancel_heap \<times> registration" where
  "register_locked a cb h =
     (let s = h ! a; i = cs_next_callback_id s in
      (h[a := s\<lparr>cs_next_callback_id := i + 1, cs_callbacks := cs_callbacks s @ [(i, cb)]\<rparr>], Some (a, i)))"

text \<open>A callback registered after cancellation is invoked at once.\<close>

definition Register :: "nat \<Rightarrow> callback option \<Rightarrow> cancel_heap \<Rightarrow> (cancel_heap \<times> nat list) \<times> registration"
where
  "Register a cb h =
     (case cb of
        None \<Rightarrow> ((h, []), None)
      | Some f \<Rightarrow>
          (if a < length h \<and> \<not> cs_cancelled (h ! a)
           then (case register_locked a f h of (h', r) \<Rightarrow> ((h', []), r))
           else (run_callbacks [f] h [], None)))"

definition state_Unregister :: "nat \<Rightarrow> nat \<Rightarrow> cancel_heap \<Rightarrow> cancel_heap \<times> bool" where
  "state_Unregister a i h =
     (if i = 0 \<or> length h \<le> a then (h, False)
      else (h[a := (h ! a)\<lparr>cs_callbacks := filter (\<lambda>(j, _). j \<noteq> i) (cs_callbacks (h ! a))\<rparr>],
            i \<in> fst ` set (cs_callbacks (h ! a))))"

text \<open>\<open>CancellationRegistration::Unregister\<close>, also run by its destructor; the registration is empty afterwards.\<close>

definition registration_Unregister :: "registration \<Rightarrow> cancel_heap \<Rightarrow> registration \<times> cancel_heap \<times> bool"
where
  "registration_Unregister r h =
     (case r of
        None \<Rightarrow> (None, h, False)
      | Some (a, i) \<Rightarrow> (case state_Unregister a i h of (h', b) \<Rightarrow> (None, h', b)))"

definition IsRegistered :: "registration \<Rightarrow> cancel_heap \<Rightarrow> bool" where
  "IsRegistered r h =
     (case r of None \<Rightarrow> False
      | Some (a, i) \<Rightarrow> a < length h \<and> i \<noteq> 0 \<and> i \<in> fst ` set (cs_callbacks (h ! a)))"

text \<open>
  The constructors of \<open>CancellationSource\<close>: a fresh state, and for a child a registration with the
  parent's token (\<open>None\<close>: a token without state). If the parent is already cancelled the child is
  cancelled before the constructor returns.
\<close>

definition new_source :: "cancel_heap \<Rightarrow> cancel_heap \<times> nat" where
  "new_source h = (h @ [new_cancellation_state], length h)"

definition new_child_source ::
  "nat option \<Rightarrow> cancel_heap \<Rightarrow> (cancel_heap \<times> nat list) \<times> nat \<times> registration" where
  "new_child_source parent h =
     (case new_source h of
        (h1, a) \<Rightarrow>
          (case parent of
             None \<Rightarrow> ((h1, []), a, None)
           | Some p \<Rightarrow> (case Register p (Some (CB_CancelChild a)) h1 of (res, r) \<Rightarrow> (res, a, r))))"

section \<open>Exactly once\<close>

definition pending :: "cancel_heap \<Rightarrow> callback multiset" where
  "pending h = (\<Sum>s \<leftarrow> h. mset (map snd (cs_callbacks s)))"

definition state_ok :: "cancellation_state \<Rightarrow> bool" where
  "state_ok s \<longleftrightarrow> (cs_cancelled s \<longrightarrow> cs_callbacks s = []) \<and> distinct (map fst (cs_callbacks s)) \<and>
     (\<forall>(i, cb) \<in> set (cs_callbacks s). 0 < i \<and> i < cs_next_callback_id s) \<and> 0 < cs_next_callback_id s"

definition heap_inv :: "cancel_heap \<Rightarrow> bool" where
  "heap_inv h \<longleftrightarrow> (\<forall>s \<in> set h. state_ok s)"

definition clients :: "callback multiset \<Rightarrow> nat multiset" where
  "clients M = image_mset (\<lambda>cb. case cb of CB_Client c \<Rightarrow> c | CB_CancelChild a \<Rightarrow> a)
     (filter_mset (\<lambda>cb. case cb of CB_Client _ \<Rightarrow> True | _ \<Rightarrow> False) M)"

lemma clients_simps [simp]:
  "clients {#} = {#}" "clients (M + N) = clients M + clients N"
  "clients (add_mset (CB_Client c) M) = add_mset c (clients M)"
  "clients (add_mset (CB_CancelChild a) M) = clients M"
  by (simp_all add: clients_def)

lemma pending_update:
  assumes "a < length h"
  shows "pending (h[a := s]) + mset (map snd (cs_callbacks (h ! a))) =
    pending h + mset (map snd (cs_callbacks s))"
proof -
  have "pending h = pending (take a h @ h ! a # drop (Suc a) h)"
    by (simp only: id_take_nth_drop [OF assms, symmetric])
  then have "pending h = pending (take a h) + mset (map snd (cs_callbacks (h ! a))) + pending (drop (Suc a) h)"
    by (simp add: pending_def ac_simps)
  moreover have "pending (h[a := s]) = pending (take a h) + mset (map snd (cs_callbacks s)) + pending (drop (Suc a) h)"
    using assms by (simp add: upd_conv_take_nth_drop pending_def ac_simps)
  ultimately show ?thesis by (simp add: ac_simps)
qed

lemma Cancel_locked_pending:
  assumes "Cancel_locked a h = Some (cbs, h')"
  shows "pending h = mset cbs + pending h'"
proof -
  from assms have a: "a < length h" "cbs = map snd (cs_callbacks (h ! a))"
    and h': "h' = h[a := (h ! a)\<lparr>cs_cancelled := True, cs_callbacks := []\<rparr>]"
    by (auto simp: Cancel_locked_def split: if_splits)
  show ?thesis
    using pending_update [OF a(1), of "(h ! a)\<lparr>cs_cancelled := True, cs_callbacks := []\<rparr>"]
    by (simp add: a(2) h' ac_simps)
qed

text \<open>
  Conservation: what is invoked plus what stays registered is what was registered or due before.
\<close>

lemma run_callbacks_conserve:
  "run_callbacks cbs h tr = (h', tr') \<Longrightarrow>
   mset tr' + clients (pending h') = mset tr + clients (mset cbs) + clients (pending h)"
proof (induction cbs h tr rule: run_callbacks.induct)
  case (3 a cbs h tr)
  then show ?case
    by (auto simp: ac_simps dest!: Cancel_locked_pending split: option.splits)
qed auto

lemma heap_inv_update:
  "heap_inv h \<Longrightarrow> (a < length h \<Longrightarrow> state_ok s) \<Longrightarrow> heap_inv (h[a := s])"
  using set_update_subset_insert [of h a s]
  by (cases "a < length h") (auto simp: heap_inv_def list_update_beyond)

lemma Cancel_locked_inv: "Cancel_locked a h = Some (cbs, h') \<Longrightarrow> heap_inv h \<Longrightarrow> heap_inv h'"
  by (auto simp: Cancel_locked_def split: if_splits intro!: heap_inv_update)
    (auto simp: heap_inv_def state_ok_def)

lemma run_callbacks_inv: "run_callbacks cbs h tr = (h', tr') \<Longrightarrow> heap_inv h \<Longrightarrow> heap_inv h'"
proof (induction cbs h tr rule: run_callbacks.induct)
  case (3 a cbs h tr)
  show ?case
  proof (cases "Cancel_locked a h")
    case (Some p)
    obtain cbs' h1 where p: "p = (cbs', h1)" by fastforce
    with 3 Some Cancel_locked_inv [of a h cbs' h1] show ?thesis by simp
  qed (use 3 in simp)
qed auto

lemma register_locked_inv:
  assumes "heap_inv h" and "\<not> cs_cancelled (h ! a)"
  shows "heap_inv (fst (register_locked a cb h))"
proof -
  let ?s = "h ! a"
  have "state_ok (?s\<lparr>cs_next_callback_id := cs_next_callback_id ?s + 1,
      cs_callbacks := cs_callbacks ?s @ [(cs_next_callback_id ?s, cb)]\<rparr>)" if "a < length h"
  proof -
    have ok: "state_ok ?s" using assms(1) that by (simp add: heap_inv_def)
    then have "cs_next_callback_id ?s \<notin> fst ` set (cs_callbacks ?s)" by (fastforce simp: state_ok_def)
    with ok assms(2) show ?thesis by (fastforce simp: state_ok_def)
  qed
  then show ?thesis using assms(1) by (auto simp: register_locked_def Let_def intro!: heap_inv_update)
qed

lemma run_callbacks_invokes:
  "run_callbacks cbs h tr = (h', tr') \<Longrightarrow> mset tr + clients (mset cbs) \<subseteq># mset tr'"
proof (induction cbs h tr rule: run_callbacks.induct)
  case (3 a cbs h tr)
  show ?case
  proof (cases "Cancel_locked a h")
    case (Some p)
    obtain cbs' h1 where p: "p = (cbs', h1)" by fastforce
    with 3 Some have "mset tr + clients (mset (cbs' @ cbs)) \<subseteq># mset tr'" by simp
    moreover have "mset tr + clients (mset cbs) \<subseteq># mset tr + clients (mset (cbs' @ cbs))" by simp
    ultimately have "mset tr + clients (mset cbs) \<subseteq># mset tr'" by (rule subset_mset.order_trans [rotated])
    then show ?thesis by simp
  qed (use 3 in simp)
qed auto

section \<open>Propagation\<close>

definition children :: "cancellation_state \<Rightarrow> nat set" where
  "children s = {b. CB_CancelChild b \<in> snd ` set (cs_callbacks s)}"

lemma run_callbacks_propagates:
  assumes "run_callbacks cbs h tr = (h', tr')"
  shows "length h' = length h \<and>
    (\<forall>b. CB_CancelChild b \<in> set cbs \<longrightarrow> b < length h \<longrightarrow> cs_cancelled (h' ! b)) \<and>
    (\<forall>x < length h. cs_cancelled (h ! x) \<longrightarrow> cs_cancelled (h' ! x)) \<and>
    (\<forall>x < length h. cs_cancelled (h' ! x) \<longrightarrow> \<not> cs_cancelled (h ! x) \<longrightarrow>
       (\<forall>b \<in> children (h ! x). b < length h \<longrightarrow> cs_cancelled (h' ! b)))"
  using assms
proof (induction cbs h tr rule: run_callbacks.induct)
  case (3 a cbs h tr)
  show ?case
  proof (cases "Cancel_locked a h")
    case None
    then have "a < length h \<Longrightarrow> cs_cancelled (h ! a)" by (auto simp: Cancel_locked_def split: if_splits)
    with None 3 show ?thesis by auto
  next
    case (Some p)
    obtain cbs' h1 where p: "p = (cbs', h1)" by fastforce
    from Some p have a: "a < length h" "cbs' = map snd (cs_callbacks (h ! a))"
      and h1: "h1 = h[a := (h ! a)\<lparr>cs_cancelled := True, cs_callbacks := []\<rparr>]"
      by (auto simp: Cancel_locked_def split: if_splits)
    have IH: "length h' = length h1 \<and>
      (\<forall>b. CB_CancelChild b \<in> set (cbs' @ cbs) \<longrightarrow> b < length h1 \<longrightarrow> cs_cancelled (h' ! b)) \<and>
      (\<forall>x < length h1. cs_cancelled (h1 ! x) \<longrightarrow> cs_cancelled (h' ! x)) \<and>
      (\<forall>x < length h1. cs_cancelled (h' ! x) \<longrightarrow> \<not> cs_cancelled (h1 ! x) \<longrightarrow>
         (\<forall>b \<in> children (h1 ! x). b < length h1 \<longrightarrow> cs_cancelled (h' ! b)))"
      using "3.IH"(2) [OF Some p [symmetric]] "3.prems" Some p by simp
    have len: "length h1 = length h" and other: "x \<noteq> a \<Longrightarrow> h1 ! x = h ! x" for x by (simp_all add: h1)
    have c1: "CB_CancelChild b \<in> set (cbs' @ cbs) \<Longrightarrow> b < length h \<Longrightarrow> cs_cancelled (h' ! b)"
      and c2: "x < length h \<Longrightarrow> cs_cancelled (h1 ! x) \<Longrightarrow> cs_cancelled (h' ! x)"
      and c3: "x < length h \<Longrightarrow> cs_cancelled (h' ! x) \<Longrightarrow> \<not> cs_cancelled (h1 ! x) \<Longrightarrow>
        b \<in> children (h1 ! x) \<Longrightarrow> b < length h \<Longrightarrow> cs_cancelled (h' ! b)" for b x
      using IH unfolding len by blast+
    have ca: "cs_cancelled (h' ! a)" using c2 [OF a(1)] a(1) by (simp add: h1)
    have "cs_cancelled (h' ! b)" if "CB_CancelChild b \<in> set (CB_CancelChild a # cbs)" "b < length h" for b
      using that c1 [of b] ca by auto
    moreover have "cs_cancelled (h' ! x)" if "x < length h" "cs_cancelled (h ! x)" for x
      using that c2 [of x] ca other [of x] by (cases "x = a") simp_all
    moreover have "cs_cancelled (h' ! b)"
      if "x < length h" "cs_cancelled (h' ! x)" "\<not> cs_cancelled (h ! x)" "b \<in> children (h ! x)" "b < length h" for x b
    proof (cases "x = a")
      case True
      then have "CB_CancelChild b \<in> set cbs'" using that(4) a(2) by (simp add: children_def)
      then show ?thesis using c1 [of b] that(5) by simp
    next
      case False
      then show ?thesis using c3 [of x b] that other [of x] by simp
    qed
    moreover have "length h' = length h" using IH len by simp
    ultimately show ?thesis by blast
  qed
qed (auto simp: children_def)

lemma Cancel_source_propagates:
  assumes inv: "heap_inv h" and c: "Cancel_source a h = ((h', tr), True)"
    and path: "(a, b) \<in> {(x, y). x < length h \<and> y < length h \<and> y \<in> children (h ! x)}\<^sup>*"
  shows "cs_cancelled (h' ! b)"
proof -
  obtain cbs h1 where l: "Cancel_locked a h = Some (cbs, h1)" and r: "run_callbacks cbs h1 [] = (h', tr)"
    using c by (auto simp: Cancel_source_def split: option.splits)
  then have r': "run_callbacks [CB_CancelChild a] h [] = (h', tr)" by simp
  note p = run_callbacks_propagates [OF r']
  have a: "a < length h" using l by (auto simp: Cancel_locked_def split: if_splits)
  from path show ?thesis
  proof (induction rule: rtrancl_induct)
    case base
    then show ?case using p a by auto
  next
    case (step x y)
    then have xy: "x < length h" "y < length h" "y \<in> children (h ! x)" by auto
    then have "\<not> cs_cancelled (h ! x)"
      using inv by (auto simp: heap_inv_def state_ok_def children_def dest!: nth_mem)
    with p step.IH xy show ?case by blast
  qed
qed

section \<open>Runs\<close>

datatype cancel_event =
    CE_NewSource
  | CE_NewChild nat
  | CE_Cancel nat
  | CE_Register nat nat
  | CE_Unregister nat nat

text \<open>The heap and the client callbacks invoked so far.\<close>

inductive cancel_step ::
  "cancel_heap \<times> nat list \<Rightarrow> cancel_event \<Rightarrow> cancel_heap \<times> nat list \<Rightarrow> bool" where
  ce_new: "cancel_step (h, tr) CE_NewSource (fst (new_source h), tr)"
| ce_child: "p < length h \<Longrightarrow> fst (new_child_source (Some p) h) = (h', tr') \<Longrightarrow>
    cancel_step (h, tr) (CE_NewChild p) (h', tr @ tr')"
| ce_cancel: "fst (Cancel_source a h) = (h', tr') \<Longrightarrow>
    cancel_step (h, tr) (CE_Cancel a) (h', tr @ tr')"
| ce_register: "a < length h \<Longrightarrow> fst (Register a (Some (CB_Client c)) h) = (h', tr') \<Longrightarrow>
    cancel_step (h, tr) (CE_Register a c) (h', tr @ tr')"
| ce_unregister: "cancel_step (h, tr) (CE_Unregister a i) (fst (state_Unregister a i h), tr)"

inductive cancel_run :: "cancel_heap \<times> nat list \<Rightarrow> cancel_event list \<Rightarrow> cancel_heap \<times> nat list \<Rightarrow> bool"
where
  ce_run_nil: "cancel_run s [] s"
| ce_run_snoc: "cancel_run s es s' \<Longrightarrow> cancel_step s' e s'' \<Longrightarrow> cancel_run s (es @ [e]) s''"

lemma new_source_inv: "heap_inv h \<Longrightarrow> heap_inv (fst (new_source h))"
  by (simp add: heap_inv_def new_source_def state_ok_def new_cancellation_state_def)

lemma Register_inv:
  assumes "heap_inv h" and "fst (Register a cb h) = (h', tr)"
  shows "heap_inv h'"
proof (cases cb)
  case None
  then show ?thesis using assms by (simp add: Register_def)
next
  case (Some f)
  show ?thesis
  proof (cases "a < length h \<and> \<not> cs_cancelled (h ! a)")
    case True
    then show ?thesis
      using assms Some register_locked_inv [of h a f] by (auto simp: Register_def split: prod.splits)
  next
    case False
    then have "run_callbacks [f] h [] = (h', tr)" using assms(2) Some by (auto simp: Register_def)
    then show ?thesis using run_callbacks_inv assms(1) by blast
  qed
qed

lemma cancel_step_inv:
  assumes "cancel_step (h, tr) e (h', tr')" and "heap_inv h"
  shows "heap_inv h'"
  using assms
proof (cases rule: cancel_step.cases)
  case (ce_child p tr1)
  then show ?thesis
    using Register_inv [OF new_source_inv [OF assms(2)], of p "Some (CB_CancelChild (length h))" h' tr1]
    by (simp add: new_child_source_def new_source_def split: prod.splits)
next
  case (ce_cancel a tr1)
  then show ?thesis
    using assms(2) run_callbacks_inv Cancel_locked_inv
    by (auto simp: Cancel_source_def split: option.splits)
next
  case (ce_register a c tr1)
  then show ?thesis using Register_inv assms(2) by blast
next
  case (ce_unregister a i)
  have "state_ok ((h ! a)\<lparr>cs_callbacks := filter (\<lambda>(j, _). j \<noteq> i) (cs_callbacks (h ! a))\<rparr>)" if "a < length h"
    using assms(2) that nth_mem [OF that]
    by (fastforce simp: heap_inv_def state_ok_def distinct_map_filter)
  then show ?thesis
    using ce_unregister assms(2) by (auto simp: state_Unregister_def intro!: heap_inv_update)
qed (use assms(2) new_source_inv in auto)

lemma cancel_run_inv: "cancel_run s es s' \<Longrightarrow> heap_inv (fst s) \<Longrightarrow> heap_inv (fst s')"
proof (induction rule: cancel_run.induct)
  case (ce_run_snoc s es s' e s'')
  then show ?case using cancel_step_inv by (metis prod.collapse)
qed simp

lemma cancel_reachable_inv: "cancel_run ([], []) es (h, tr) \<Longrightarrow> heap_inv h"
  using cancel_run_inv [of "([], [])" es "(h, tr)"] by (simp add: heap_inv_def)

text \<open>
  In every reachable state, \<open>Cancel\<close> returns true exactly for a source that is not yet
  cancelled. It then invokes every client callback of the source, invokes no callback more often
  than it was registered, and leaves the others registered; a second \<open>Cancel\<close> does nothing.
\<close>

theorem cancel_exactly_once:
  assumes "cancel_run ([], []) es (h, tr0)" and "Cancel_source a h = ((h', tr), b)"
  shows "mset tr + clients (pending h') = clients (pending h) \<and>
    (b \<longleftrightarrow> a < length h \<and> \<not> IsCancelled a h) \<and>
    (b \<longrightarrow> clients (mset (map snd (cs_callbacks (h ! a)))) \<subseteq># mset tr) \<and>
    (a < length h \<longrightarrow> Cancel_source a h' = ((h', []), False))"
proof (cases "Cancel_locked a h")
  case None
  then show ?thesis
    using assms(2) by (auto simp: Cancel_source_def Cancel_locked_def IsCancelled_def split: if_splits)
next
  case (Some p)
  obtain cbs h1 where p: "p = (cbs, h1)" by fastforce
  from Some p have a: "a < length h" "\<not> cs_cancelled (h ! a)" "cbs = map snd (cs_callbacks (h ! a))"
    by (auto simp: Cancel_locked_def split: if_splits)
  have r: "run_callbacks cbs h1 [] = (h', tr)" and b using assms(2) Some p by (auto simp: Cancel_source_def)
  have "mset tr + clients (pending h') = clients (pending h)"
    using run_callbacks_conserve [OF r] Cancel_locked_pending [of a h cbs h1] Some p by simp
  moreover have "clients (mset cbs) \<subseteq># mset tr" using run_callbacks_invokes [OF r] by simp
  moreover have "cs_cancelled (h' ! a)"
    using Cancel_source_propagates [OF cancel_reachable_inv [OF assms(1)], of a h' tr a] assms(2) \<open>b\<close> by simp
  ultimately show ?thesis
    using a \<open>b\<close> by (auto simp: IsCancelled_def Cancel_source_def Cancel_locked_def)
qed

text \<open>
  Cancellation reaches every descendant: when a source is cancelled, every source linked to it
  through child registrations, directly or over several generations, is cancelled when \<open>Cancel\<close>
  returns.
\<close>

theorem cancel_propagates:
  assumes "cancel_run ([], []) es (h, tr0)" and "Cancel_source a h = ((h', tr), True)"
    and "(a, b) \<in> {(x, y). x < length h \<and> y < length h \<and> y \<in> children (h ! x)}\<^sup>*"
  shows "IsCancelled b h'"
proof -
  have "b < length h"
    using assms(3)
  proof (cases rule: rtrancl.cases)
    case rtrancl_refl
    then show ?thesis
      using assms(2) by (auto simp: Cancel_source_def Cancel_locked_def split: option.splits if_splits)
  qed auto
  moreover have "length h' = length h"
  proof -
    obtain cbs h1 where l: "Cancel_locked a h = Some (cbs, h1)" and r: "run_callbacks cbs h1 [] = (h', tr)"
      using assms(2) by (auto simp: Cancel_source_def split: option.splits)
    have "length h' = length h1" using run_callbacks_propagates [OF r] by (rule conjunct1)
    with l show ?thesis by (auto simp: Cancel_locked_def split: if_splits)
  qed
  moreover have "cs_cancelled (h' ! b)"
    using Cancel_source_propagates [OF cancel_reachable_inv [OF assms(1)] assms(2,3)] .
  ultimately show ?thesis by (simp add: IsCancelled_def)
qed

section \<open>Concrete runs\<close>

definition demo_family :: cancel_heap where
  "demo_family = fst (fst (new_child_source (Some 0) (fst (new_source []))))"

lemma demo_family_run: "cancel_run ([], []) [CE_NewSource, CE_NewChild 0] (demo_family, [])"
proof -
  have r1: "cancel_run ([], []) [CE_NewSource] (fst (new_source []), [])"
    using ce_run_snoc [OF ce_run_nil ce_new] by simp
  have "cancel_step (fst (new_source []), []) (CE_NewChild 0) (demo_family, [] @ [])"
    by (rule ce_child) (simp_all add: demo_family_def new_child_source_def new_source_def Register_def
        register_locked_def new_cancellation_state_def Let_def)
  from ce_run_snoc [OF r1 this] show ?thesis by simp
qed

lemma demo_family_eval:
  "demo_family = [\<lparr>cs_cancelled = False, cs_next_callback_id = 2, cs_callbacks = [(1, CB_CancelChild 1)]\<rparr>,
     new_cancellation_state]"
  by (simp add: demo_family_def new_child_source_def new_source_def Register_def register_locked_def
      new_cancellation_state_def Let_def)

lemma cancel_exactly_once_witness: "snd (Cancel_source 0 demo_family) \<longleftrightarrow> \<not> IsCancelled 0 demo_family"
proof -
  obtain h' tr b where c: "Cancel_source 0 demo_family = ((h', tr), b)" by (metis prod.collapse)
  have "0 < length demo_family" by (simp add: demo_family_eval)
  with cancel_exactly_once [OF demo_family_run c] show ?thesis unfolding c by simp
qed

lemma cancel_propagates_witness: "IsCancelled 1 (fst (fst (Cancel_source 0 demo_family)))"
proof -
  obtain h' tr where c: "Cancel_source 0 demo_family = ((h', tr), True)"
    by (cases "fst (Cancel_source 0 demo_family)")
      (auto simp: Cancel_source_def Cancel_locked_def demo_family_eval)
  have "(0, 1) \<in> {(x, y). x < length demo_family \<and> y < length demo_family \<and> y \<in> children (demo_family ! x)}\<^sup>*"
    by (rule r_into_rtrancl) (simp add: demo_family_eval children_def)
  from cancel_propagates [OF demo_family_run c this] show ?thesis by (simp add: c)
qed

end
