(* ===== verification/Execution_Context.thy ===== *)
theory Execution_Context
  imports Cooperative_Cancellation "HOL-Library.AList"
begin

text \<open>
  Execution contexts, \<open>src/runtime/ExecutionContext.cpp\<close>: the identity, lifecycle state, timestamps,
  metadata and cancellation of one execution. A context owns a \<open>std::stop_source\<close> (its flag) and a
  \<open>CancellationSource\<close>, by the address of its state in the heap of cancellation states. Every
  operation but the cancellation ones runs under the context's mutex.
\<close>

section \<open>Data\<close>

datatype execution_scope =
    Scope_Unknown | Scope_Mission | Scope_BehaviorTree | Scope_AIPlanner | Scope_ROS2 | Scope_Custom
  | Scope_Other nat \<comment> \<open>the raw value \<open>6 + n\<close>\<close>

datatype execution_state =
    State_Created | State_Starting | State_Running | State_Paused | State_Completed
  | State_Cancelled | State_Failed | State_Aborted
  | State_Other nat \<comment> \<open>the raw value \<open>8 + n\<close>\<close>

fun execution_scope_toString :: "execution_scope \<Rightarrow> string" where
  "execution_scope_toString Scope_Unknown = ''Unknown''"
| "execution_scope_toString Scope_Mission = ''Mission''"
| "execution_scope_toString Scope_BehaviorTree = ''BehaviorTree''"
| "execution_scope_toString Scope_AIPlanner = ''AIPlanner''"
| "execution_scope_toString Scope_ROS2 = ''ROS2''"
| "execution_scope_toString Scope_Custom = ''Custom''"
| "execution_scope_toString (Scope_Other _) = ''Unknown''"

fun execution_state_toString :: "execution_state \<Rightarrow> string" where
  "execution_state_toString State_Created = ''Created''"
| "execution_state_toString State_Starting = ''Starting''"
| "execution_state_toString State_Running = ''Running''"
| "execution_state_toString State_Paused = ''Paused''"
| "execution_state_toString State_Completed = ''Completed''"
| "execution_state_toString State_Cancelled = ''Cancelled''"
| "execution_state_toString State_Failed = ''Failed''"
| "execution_state_toString State_Aborted = ''Aborted''"
| "execution_state_toString (State_Other _) = ''Unknown''"

fun state_isTerminal :: "execution_state \<Rightarrow> bool" where
  "state_isTerminal State_Completed = True"
| "state_isTerminal State_Cancelled = True"
| "state_isTerminal State_Failed = True"
| "state_isTerminal State_Aborted = True"
| "state_isTerminal _ = False"

type_synonym execution_metadata = "(string \<times> string) list"

record execution_context =
  ec_execution_id :: u64
  ec_scope :: execution_scope
  ec_mission_id :: u64
  ec_state :: execution_state
  ec_start_timestamp :: "time_ns option"
  ec_current_step :: "u64 option"
  ec_stop_requested :: bool
  ec_runtime_cancellation_source :: nat
  ec_metadata :: execution_metadata

record execution_context_snapshot =
  snap_executionId :: u64
  snap_missionId :: u64
  snap_state :: execution_state
  snap_startTimestamp :: "time_ns option"
  snap_currentStep :: "u64 option"
  snap_scope :: execution_scope
  snap_cancellationRequested :: bool
  snap_metadata :: execution_metadata

section \<open>Operations\<close>

definition ec_create ::
  "u64 \<Rightarrow> execution_scope \<Rightarrow> u64 \<Rightarrow> execution_metadata \<Rightarrow> cancel_heap \<Rightarrow> cancel_heap \<times> execution_context"
where
  "ec_create i scope mission meta h =
     (case new_source h of
        (h', a) \<Rightarrow> (h', \<lparr>ec_execution_id = i, ec_scope = scope, ec_mission_id = mission,
          ec_state = State_Created, ec_start_timestamp = None, ec_current_step = None,
          ec_stop_requested = False, ec_runtime_cancellation_source = a, ec_metadata = meta\<rparr>))"

definition SetMissionId :: "u64 \<Rightarrow> execution_context \<Rightarrow> execution_context" where
  "SetMissionId m c = c\<lparr>ec_mission_id := m\<rparr>"

definition SetState :: "execution_state \<Rightarrow> execution_context \<Rightarrow> execution_context" where
  "SetState st c = c\<lparr>ec_state := st\<rparr>"

definition SetStartTimestamp :: "time_ns \<Rightarrow> execution_context \<Rightarrow> execution_context" where
  "SetStartTimestamp t c = c\<lparr>ec_start_timestamp := Some t\<rparr>"

definition ClearStartTimestamp :: "execution_context \<Rightarrow> execution_context" where
  "ClearStartTimestamp c = c\<lparr>ec_start_timestamp := None\<rparr>"

definition SetCurrentStep :: "u64 \<Rightarrow> execution_context \<Rightarrow> execution_context" where
  "SetCurrentStep i c = c\<lparr>ec_current_step := Some i\<rparr>"

definition ClearCurrentStep :: "execution_context \<Rightarrow> execution_context" where
  "ClearCurrentStep c = c\<lparr>ec_current_step := None\<rparr>"

text \<open>
  \<open>request_stop\<close> answers whether this call made the request; so does \<open>Cancel\<close>. The result has the
  new heap, the client callbacks run, the context and the answer.
\<close>

definition RequestCancellation ::
  "execution_context \<Rightarrow> cancel_heap \<Rightarrow> (cancel_heap \<times> nat list) \<times> execution_context \<times> bool" where
  "RequestCancellation c h =
     (case Cancel_source (ec_runtime_cancellation_source c) h of
        (res, runtime_cancelled) \<Rightarrow>
          (res, c\<lparr>ec_stop_requested := True\<rparr>, \<not> ec_stop_requested c \<or> runtime_cancelled))"

definition CancellationRequested :: "execution_context \<Rightarrow> cancel_heap \<Rightarrow> bool" where
  "CancellationRequested c h =
     (ec_stop_requested c \<or> IsCancelled (ec_runtime_cancellation_source c) h)"

definition SetMetadata :: "execution_metadata \<Rightarrow> execution_context \<Rightarrow> execution_context" where
  "SetMetadata m c = c\<lparr>ec_metadata := m\<rparr>"

definition SetMetadataValue :: "string \<Rightarrow> string \<Rightarrow> execution_context \<Rightarrow> execution_context" where
  "SetMetadataValue k v c = c\<lparr>ec_metadata := AList.update k v (ec_metadata c)\<rparr>"

definition MetadataValue :: "string \<Rightarrow> execution_context \<Rightarrow> string option" where
  "MetadataValue k c = map_of (ec_metadata c) k"

definition RemoveMetadata :: "string \<Rightarrow> execution_context \<Rightarrow> execution_context \<times> bool" where
  "RemoveMetadata k c =
     (case map_of (ec_metadata c) k of
        None \<Rightarrow> (c, False)
      | Some _ \<Rightarrow> (c\<lparr>ec_metadata := AList.delete k (ec_metadata c)\<rparr>, True))"

definition Snapshot :: "execution_context \<Rightarrow> cancel_heap \<Rightarrow> execution_context_snapshot" where
  "Snapshot c h = \<lparr>snap_executionId = ec_execution_id c, snap_missionId = ec_mission_id c,
     snap_state = ec_state c, snap_startTimestamp = ec_start_timestamp c,
     snap_currentStep = ec_current_step c, snap_scope = ec_scope c,
     snap_cancellationRequested = CancellationRequested c h, snap_metadata = ec_metadata c\<rparr>"

section \<open>Cancellation of a context\<close>

text \<open>A cancelled state stays cancelled under every operation on the heap of cancellation states.\<close>

definition cancel_le :: "cancel_heap \<Rightarrow> cancel_heap \<Rightarrow> bool" where
  "cancel_le h h' \<longleftrightarrow> length h \<le> length h' \<and> (\<forall>a. IsCancelled a h \<longrightarrow> IsCancelled a h')"

lemma cancel_le_refl [simp, intro]: "cancel_le h h"
  by (simp add: cancel_le_def)

lemma cancel_le_trans [trans]: "cancel_le h h' \<Longrightarrow> cancel_le h' h'' \<Longrightarrow> cancel_le h h''"
  by (auto simp: cancel_le_def)

lemma Cancel_locked_le: "Cancel_locked a h = Some (cbs, h') \<Longrightarrow> cancel_le h h' \<and> IsCancelled a h'"
  by (auto simp: Cancel_locked_def cancel_le_def IsCancelled_def nth_list_update split: if_splits)

lemma run_callbacks_le: "run_callbacks cbs h tr = (h', tr') \<Longrightarrow> cancel_le h h'"
  by (induction cbs h tr rule: run_callbacks.induct)
    (auto split: option.splits dest!: Cancel_locked_le intro: cancel_le_trans)

lemma Cancel_source_le:
  assumes "Cancel_source a h = ((h', tr), b)"
  shows "cancel_le h h'" and "a < length h \<Longrightarrow> IsCancelled a h'"
proof -
  from assms have "cancel_le h h' \<and> (a < length h \<longrightarrow> IsCancelled a h')"
    by (auto simp: Cancel_source_def IsCancelled_def Cancel_locked_def cancel_le_def nth_list_update
        split: option.splits if_splits dest!: run_callbacks_le)
  then show "cancel_le h h'" and "a < length h \<Longrightarrow> IsCancelled a h'" by auto
qed

lemma new_source_le: "new_source h = (h', a) \<Longrightarrow> cancel_le h h' \<and> a < length h' \<and> \<not> IsCancelled a h'"
  by (auto simp: new_source_def cancel_le_def IsCancelled_def nth_append new_cancellation_state_def)

lemma CancellationRequested_mono:
  "CancellationRequested c h \<Longrightarrow> cancel_le h h' \<Longrightarrow> CancellationRequested c h'"
  by (auto simp: CancellationRequested_def cancel_le_def)

lemma RequestCancellation_effect:
  assumes "RequestCancellation c h = ((h', tr), c', b)"
  shows "cancel_le h h'" and "c' = c\<lparr>ec_stop_requested := True\<rparr>" and "CancellationRequested c' h'"
  using assms by (auto simp: RequestCancellation_def CancellationRequested_def
      split: prod.splits dest: Cancel_source_le)

end
