(* ===== verification/Runtime_Scheduler.thy ===== *)
theory Runtime_Scheduler
  imports Execution_Context
begin

text \<open>
  The runtime scheduler, \<open>src/runtime/RuntimeScheduler.cpp\<close>. Jobs are objects in a store; their
  address is the sequence number the scheduler gave them. Each critical section of the scheduler's
  mutex is one operation. \<open>records_.at\<close> throws for an unknown identifier: the operations that call it
  return \<open>None\<close> in that case. Allocation failures (the \<open>catch\<close> of \<open>Submit\<close>) are not modelled.
\<close>

section \<open>Jobs\<close>

datatype runtime_job_priority =
    RPriority_Low | RPriority_Normal | RPriority_High | RPriority_Critical
  | RPriority_Other nat \<comment> \<open>the raw value \<open>4 + n\<close>\<close>

datatype runtime_execution_mode =
    Mode_Parallel | Mode_Sequential
  | Mode_Other nat \<comment> \<open>the raw value \<open>2 + n\<close>\<close>

record runtime_job_result =
  jr_state :: execution_state
  jr_message :: string

record runtime_job =
  job_id :: u64
  job_priority :: runtime_job_priority
  job_executionMode :: runtime_execution_mode
  job_scope :: execution_scope
  job_metadata :: execution_metadata
  job_has_callback :: bool

record runtime_scheduler_options =
  rso_maximumQueueSize :: nat
  rso_workerCount :: nat
  rso_maximumCompletedHistorySize :: nat

record runtime_scheduler_statistics =
  rst_queued :: nat
  rst_running :: nat
  rst_paused :: nat
  rst_maximumQueueSize :: nat
  rst_workerCount :: nat
  rst_highWatermark :: nat
  rst_maximumConcurrentRunning :: nat
  rst_accepted :: u64
  rst_started :: u64
  rst_completed :: u64
  rst_cancelled :: u64
  rst_stopped :: u64
  rst_failed :: u64
  rst_rejected :: u64

record runtime_job_snapshot =
  rec_jobId :: u64
  rec_sequence :: u64
  rec_priority :: runtime_job_priority
  rec_executionMode :: runtime_execution_mode
  rec_state :: execution_state
  rec_queuedAt :: time_ns
  rec_startedAt :: "time_ns option"
  rec_completedAt :: "time_ns option"
  rec_result :: runtime_job_result

fun rs_IsKnownPriority :: "runtime_job_priority \<Rightarrow> bool" where
  "rs_IsKnownPriority (RPriority_Other _) = False"
| "rs_IsKnownPriority _ = True"

fun PriorityRank :: "runtime_job_priority \<Rightarrow> int" where
  "PriorityRank RPriority_Low = 0"
| "PriorityRank RPriority_Normal = 1"
| "PriorityRank RPriority_High = 2"
| "PriorityRank RPriority_Critical = 3"
| "PriorityRank (RPriority_Other _) = -1"

fun IsKnownExecutionMode :: "runtime_execution_mode \<Rightarrow> bool" where
  "IsKnownExecutionMode (Mode_Other _) = False"
| "IsKnownExecutionMode _ = True"

definition IsSuccessfulTerminal :: "execution_state \<Rightarrow> bool" where
  "IsSuccessfulTerminal st = (st = State_Completed)"

definition job_result :: "execution_state \<Rightarrow> string \<Rightarrow> runtime_job_result" where
  "job_result st msg = \<lparr>jr_state = st, jr_message = msg\<rparr>"

section \<open>Job control\<close>

record runtime_job_control =
  ctl_job_id :: u64
  ctl_execution :: execution_context
  ctl_cancellation :: nat
  ctl_paused :: bool

definition ctl_create ::
  "u64 \<Rightarrow> execution_scope \<Rightarrow> execution_metadata \<Rightarrow> cancel_heap \<Rightarrow> cancel_heap \<times> runtime_job_control" where
  "ctl_create i scope meta h =
     (case ec_create i scope 0 meta h of
        (h1, ec) \<Rightarrow> (case new_source h1 of
          (h2, a) \<Rightarrow> (h2, \<lparr>ctl_job_id = i, ctl_execution = ec, ctl_cancellation = a, ctl_paused = False\<rparr>)))"

definition IsCancellationRequested :: "runtime_job_control \<Rightarrow> cancel_heap \<Rightarrow> bool" where
  "IsCancellationRequested c h =
     (IsCancelled (ctl_cancellation c) h \<or> CancellationRequested (ctl_execution c) h)"

text \<open>\<open>None\<close>: the calling job blocks.\<close>

definition WaitIfPaused :: "runtime_job_control \<Rightarrow> cancel_heap \<Rightarrow> bool option" where
  "WaitIfPaused c h =
     (if \<not> ctl_paused c \<or> IsCancellationRequested c h then Some (\<not> IsCancellationRequested c h)
      else None)"

definition RequestStop ::
  "runtime_job_control \<Rightarrow> cancel_heap \<Rightarrow> (cancel_heap \<times> nat list) \<times> runtime_job_control \<times> bool" where
  "RequestStop c h =
     (case Cancel_source (ctl_cancellation c) h of
        ((h1, tr1), cancelled) \<Rightarrow>
          (case RequestCancellation (ctl_execution c) h1 of
             ((h2, tr2), ec, context_cancelled) \<Rightarrow>
               ((h2, tr1 @ tr2), c\<lparr>ctl_execution := ec, ctl_paused := False\<rparr>,
                cancelled \<or> context_cancelled)))"

section \<open>Scheduler state\<close>

datatype scheduled_job_state = Job_Queued | Job_Running

record scheduled_job =
  sj_job :: runtime_job
  sj_sequence :: u64
  sj_control :: runtime_job_control
  sj_promise :: "runtime_job_result option"
  sj_state :: scheduled_job_state
  sj_stopRequested :: bool

text \<open>
  Where a worker is: \<open>Executing\<close> inside the callback, \<open>Finishing\<close> after the result was normalised and
  before the critical section that completes the job, \<open>Publishing\<close> before \<open>set_value\<close>.
\<close>

datatype rs_worker =
    RW_Starting | RW_Waiting | RW_Executing nat | RW_Finishing nat runtime_job_result
  | RW_Publishing nat runtime_job_result | RW_Exited

text \<open>
  Actions a thread performs after leaving a critical section: request the stop of a job and, for a
  job that had been queued, satisfy its promise.
\<close>

type_synonym stop_action = "nat \<times> runtime_job_result option"

datatype rs_shutdown_phase =
    RShut_None | RShut_Delivering "stop_action list" | RShut_Joining | RShut_Finished

record runtime_scheduler =
  rs_options :: runtime_scheduler_options
  rs_queue :: "nat list"
  rs_outstanding :: "(u64 \<times> nat) list"
  rs_records :: "(u64 \<times> runtime_job_snapshot) list"
  rs_completed_order :: "u64 list"
  rs_workers :: "rs_worker list"
  rs_statistics :: runtime_scheduler_statistics
  rs_next_sequence :: nat
  rs_running_count :: nat
  rs_sequential_running :: bool
  rs_accepting :: bool
  rs_shutdown_in_progress :: bool
  rs_shutdown_complete :: bool
  rs_stop_requested :: bool
  rs_store :: "nat \<rightharpoonup> scheduled_job"
  rs_heap :: cancel_heap
  rs_invoked :: "nat list"
  rs_pending :: "stop_action list"
  rs_shutdown :: rs_shutdown_phase

definition zero_scheduler_statistics :: runtime_scheduler_statistics where
  "zero_scheduler_statistics = \<lparr>rst_queued = 0, rst_running = 0, rst_paused = 0, rst_maximumQueueSize = 0,
     rst_workerCount = 0, rst_highWatermark = 0, rst_maximumConcurrentRunning = 0, rst_accepted = 0,
     rst_started = 0, rst_completed = 0, rst_cancelled = 0, rst_stopped = 0, rst_failed = 0,
     rst_rejected = 0\<rparr>"

definition rs_create :: "runtime_scheduler_options \<Rightarrow> string + runtime_scheduler" where
  "rs_create opts =
     (if rso_maximumQueueSize opts = 0 then
        Inl ''RuntimeScheduler maximum queue size must be greater than zero''
      else if rso_workerCount opts = 0 then
        Inl ''RuntimeScheduler worker count must be greater than zero''
      else Inr \<lparr>rs_options = opts, rs_queue = [], rs_outstanding = [], rs_records = [],
        rs_completed_order = [], rs_workers = replicate (rso_workerCount opts) RW_Starting,
        rs_statistics = zero_scheduler_statistics, rs_next_sequence = 1, rs_running_count = 0,
        rs_sequential_running = False, rs_accepting = True, rs_shutdown_in_progress = False,
        rs_shutdown_complete = False, rs_stop_requested = False, rs_store = Map.empty, rs_heap = [],
        rs_invoked = [], rs_pending = [], rs_shutdown = RShut_None\<rparr>)"

section \<open>Records and history\<close>

text \<open>\<open>emplace\<close> of an associative container: no effect when the key is present.\<close>

definition emplace :: "'k \<Rightarrow> 'v \<Rightarrow> ('k \<times> 'v) list \<Rightarrow> ('k \<times> 'v) list" where
  "emplace k v kvs = (if map_of kvs k = None then kvs @ [(k, v)] else kvs)"

definition update_record ::
  "u64 \<Rightarrow> (runtime_job_snapshot \<Rightarrow> runtime_job_snapshot) \<Rightarrow> runtime_scheduler \<Rightarrow> runtime_scheduler option"
where
  "update_record i f s =
     (case map_of (rs_records s) i of
        None \<Rightarrow> None
      | Some r \<Rightarrow> Some (s\<lparr>rs_records := AList.update i (f r) (rs_records s)\<rparr>))"

fun prune_completed ::
  "nat \<Rightarrow> (u64 \<Rightarrow> bool) \<Rightarrow> u64 list \<Rightarrow> (u64 \<times> 'r) list \<Rightarrow> u64 list \<times> (u64 \<times> 'r) list" where
  "prune_completed mx out [] recs = ([], recs)"
| "prune_completed mx out (i # is) recs =
     (if mx > 0 \<and> length (i # is) > mx
      then prune_completed mx out is (if out i then recs else AList.delete i recs)
      else (i # is, recs))"

definition PruneCompletedHistoryLocked :: "runtime_scheduler \<Rightarrow> runtime_scheduler" where
  "PruneCompletedHistoryLocked s =
     (case prune_completed (rso_maximumCompletedHistorySize (rs_options s))
        (\<lambda>i. map_of (rs_outstanding s) i \<noteq> None) (rs_completed_order s) (rs_records s) of
        (order, recs) \<Rightarrow> s\<lparr>rs_completed_order := order, rs_records := recs\<rparr>)"

definition rs_CompleteRecordLocked ::
  "time_ns \<Rightarrow> u64 \<Rightarrow> runtime_job_result \<Rightarrow> runtime_scheduler \<Rightarrow> runtime_scheduler option" where
  "rs_CompleteRecordLocked now i r s =
     (case update_record i (\<lambda>rec. rec\<lparr>rec_state := jr_state r, rec_result := r,
        rec_completedAt := Some now\<rparr>) s of
        None \<Rightarrow> None
      | Some s' \<Rightarrow> Some (PruneCompletedHistoryLocked
          (s'\<lparr>rs_completed_order := rs_completed_order s' @ [i]\<rparr>)))"

fun RecordTerminalStatisticsLocked ::
  "execution_state \<Rightarrow> runtime_scheduler_statistics \<Rightarrow> runtime_scheduler_statistics" where
  "RecordTerminalStatisticsLocked State_Completed st = st\<lparr>rst_completed := rst_completed st + 1\<rparr>"
| "RecordTerminalStatisticsLocked State_Cancelled st = st\<lparr>rst_cancelled := rst_cancelled st + 1\<rparr>"
| "RecordTerminalStatisticsLocked (State_Other _) st = st"
| "RecordTerminalStatisticsLocked _ st = st\<lparr>rst_failed := rst_failed st + 1\<rparr>"

definition IsTerminalLocked :: "u64 \<Rightarrow> runtime_scheduler \<Rightarrow> bool" where
  "IsTerminalLocked i s =
     (case map_of (rs_records s) i of None \<Rightarrow> False | Some r \<Rightarrow> state_isTerminal (rec_state r))"

text \<open>\<open>FindOutstandingLocked\<close>, with the job the pointer refers to.\<close>

definition FindOutstandingLocked :: "u64 \<Rightarrow> runtime_scheduler \<Rightarrow> (nat \<times> scheduled_job) option" where
  "FindOutstandingLocked i s =
     (case map_of (rs_outstanding s) i of
        None \<Rightarrow> None
      | Some a \<Rightarrow> map_option (\<lambda>j. (a, j)) (rs_store s a))"

section \<open>Submission\<close>

definition rs_Validate :: "runtime_job \<Rightarrow> runtime_job_result option" where
  "rs_Validate job =
     (if job_id job = 0 then Some (job_result State_Failed ''Runtime job identifier must be nonzero'')
      else if \<not> rs_IsKnownPriority (job_priority job) then
        Some (job_result State_Failed ''Runtime job priority is invalid'')
      else if \<not> IsKnownExecutionMode (job_executionMode job) then
        Some (job_result State_Failed ''Runtime job execution mode is invalid'')
      else if \<not> job_has_callback job then
        Some (job_result State_Failed ''Runtime job callback is required'')
      else None)"

definition MakeInitialSnapshot :: "time_ns \<Rightarrow> scheduled_job \<Rightarrow> runtime_job_snapshot" where
  "MakeInitialSnapshot now j = \<lparr>rec_jobId = job_id (sj_job j), rec_sequence = sj_sequence j,
     rec_priority = job_priority (sj_job j), rec_executionMode = job_executionMode (sj_job j),
     rec_state = State_Created, rec_queuedAt = now, rec_startedAt = None, rec_completedAt = None,
     rec_result = job_result State_Created ''Runtime job queued''\<rparr>"

definition new_scheduled_job ::
  "runtime_job \<Rightarrow> nat \<Rightarrow> cancel_heap \<Rightarrow> cancel_heap \<times> scheduled_job" where
  "new_scheduled_job job a h =
     (case ctl_create (job_id job) (job_scope job) (job_metadata job) h of
        (h', ctl) \<Rightarrow> (h', \<lparr>sj_job = job, sj_sequence = of_nat a, sj_control = ctl, sj_promise = None,
          sj_state = Job_Queued, sj_stopRequested = False\<rparr>))"

text \<open>The handle's future: ready, or that of a stored job's promise.\<close>

datatype job_future = JF_Ready runtime_job_result | JF_Of nat

definition rs_submit_refusal :: "runtime_job \<Rightarrow> runtime_scheduler \<Rightarrow> runtime_job_result option" where
  "rs_submit_refusal job s =
     (if \<not> rs_accepting s then Some (job_result State_Failed ''RuntimeScheduler is shut down'')
      else if map_of (rs_records s) (job_id job) \<noteq> None then
        Some (job_result State_Failed ''Runtime job identifier already exists'')
      else if length (rs_queue s) \<ge> rso_maximumQueueSize (rs_options s) then
        Some (job_result State_Failed ''RuntimeScheduler queue is full'')
      else None)"

definition rs_reject :: "runtime_scheduler \<Rightarrow> runtime_scheduler" where
  "rs_reject s = s\<lparr>rs_statistics := (rs_statistics s)\<lparr>rst_rejected := rst_rejected (rs_statistics s) + 1\<rparr>\<rparr>"

definition rs_accept :: "time_ns \<Rightarrow> runtime_job \<Rightarrow> runtime_scheduler \<Rightarrow> runtime_scheduler" where
  "rs_accept now job s =
     (let a = rs_next_sequence s; st = rs_statistics s in
      case new_scheduled_job job a (rs_heap s) of
        (h, j) \<Rightarrow>
          s\<lparr>rs_next_sequence := Suc a, rs_heap := h, rs_store := (rs_store s)(a \<mapsto> j),
            rs_records := emplace (job_id job) (MakeInitialSnapshot now j) (rs_records s),
            rs_outstanding := emplace (job_id job) a (rs_outstanding s),
            rs_queue := rs_queue s @ [a],
            rs_statistics := st\<lparr>rst_accepted := rst_accepted st + 1,
              rst_highWatermark := max (rst_highWatermark st) (length (rs_queue s @ [a]))\<rparr>\<rparr>)"

definition rs_Submit ::
  "time_ns \<Rightarrow> runtime_job \<Rightarrow> runtime_scheduler \<Rightarrow> runtime_scheduler \<times> u64 \<times> job_future" where
  "rs_Submit now job s =
     (case rs_Validate job of
        Some r \<Rightarrow> (rs_reject s, job_id job, JF_Ready r)
      | None \<Rightarrow>
          (case rs_submit_refusal job s of
             Some r \<Rightarrow> (rs_reject s, job_id job, JF_Ready r)
           | None \<Rightarrow> (rs_accept now job s, job_id job, JF_Of (rs_next_sequence s))))"

section \<open>Pause, resume and stop\<close>

definition set_job :: "nat \<Rightarrow> scheduled_job \<Rightarrow> runtime_scheduler \<Rightarrow> runtime_scheduler" where
  "set_job a j s = s\<lparr>rs_store := (rs_store s)(a \<mapsto> j)\<rparr>"

definition SetPaused :: "bool \<Rightarrow> scheduled_job \<Rightarrow> scheduled_job" where
  "SetPaused b j = j\<lparr>sj_control := (sj_control j)\<lparr>ctl_paused := b\<rparr>\<rparr>"

definition Pause :: "u64 \<Rightarrow> runtime_scheduler \<Rightarrow> (runtime_scheduler \<times> bool) option" where
  "Pause i s =
     (case FindOutstandingLocked i s of
        None \<Rightarrow> Some (s, False)
      | Some (a, j) \<Rightarrow>
          (if IsTerminalLocked i s then Some (s, False)
           else map_option (\<lambda>s'. (s', True))
             (update_record i (\<lambda>rec. rec\<lparr>rec_state := State_Paused,
                rec_result := job_result State_Paused ''Runtime job paused''\<rparr>)
                (set_job a (SetPaused True j) s))))"

definition Resume :: "u64 \<Rightarrow> runtime_scheduler \<Rightarrow> (runtime_scheduler \<times> bool) option" where
  "Resume i s =
     (case FindOutstandingLocked i s of
        None \<Rightarrow> Some (s, False)
      | Some (a, j) \<Rightarrow>
          (if \<not> ctl_paused (sj_control j) \<or> IsTerminalLocked i s then Some (s, False)
           else
             (let st = (if sj_state j = Job_Running then State_Running else State_Created) in
              map_option (\<lambda>s'. (s', True))
                (update_record i (\<lambda>rec. rec\<lparr>rec_state := st,
                   rec_result := job_result st ''Runtime job resumed''\<rparr>)
                   (set_job a (SetPaused False j) s)))))"

definition stopped_before_execution :: runtime_job_result where
  "stopped_before_execution = job_result State_Cancelled ''Runtime job stopped before execution''"

text \<open>The part of \<open>Stop\<close> and \<open>Shutdown\<close> that marks a running job.\<close>

definition mark_stopped :: "nat \<Rightarrow> string \<Rightarrow> runtime_scheduler \<Rightarrow> runtime_scheduler option" where
  "mark_stopped a msg s =
     (case rs_store s a of
        None \<Rightarrow> None
      | Some j \<Rightarrow>
          (let st = rs_statistics s;
               s' = (if sj_stopRequested j then s
                     else set_job a (j\<lparr>sj_stopRequested := True\<rparr>)
                       (s\<lparr>rs_statistics := st\<lparr>rst_stopped := rst_stopped st + 1\<rparr>\<rparr>)) in
           update_record (job_id (sj_job j)) (\<lambda>rec. rec\<lparr>rec_state := State_Cancelled,
             rec_result := job_result State_Cancelled msg\<rparr>) s'))"

definition Stop :: "time_ns \<Rightarrow> u64 \<Rightarrow> runtime_scheduler \<Rightarrow> (runtime_scheduler \<times> bool) option" where
  "Stop now i s =
     (case FindOutstandingLocked i s of
        None \<Rightarrow> Some (s, False)
      | Some (a, j) \<Rightarrow>
          (if IsTerminalLocked i s then Some (s, False)
           else if sj_state j = Job_Queued then
             (let st = rs_statistics s in
              map_option (\<lambda>s'. (s'\<lparr>rs_pending := rs_pending s' @ [(a, Some stopped_before_execution)]\<rparr>, True))
                (rs_CompleteRecordLocked now i stopped_before_execution
                  (s\<lparr>rs_queue := remove1 a (rs_queue s),
                     rs_outstanding := AList.delete i (rs_outstanding s),
                     rs_statistics := st\<lparr>rst_cancelled := rst_cancelled st + 1,
                       rst_stopped := rst_stopped st + 1\<rparr>\<rparr>)))
           else
             map_option (\<lambda>s'. (s'\<lparr>rs_pending := rs_pending s' @ [(a, None)]\<rparr>, True))
               (mark_stopped a ''Runtime job stop requested'' s)))"

definition SetPromiseSafely :: "nat \<Rightarrow> runtime_job_result \<Rightarrow> runtime_scheduler \<Rightarrow> runtime_scheduler" where
  "SetPromiseSafely a r s =
     (case rs_store s a of
        None \<Rightarrow> s
      | Some j \<Rightarrow> (if sj_promise j = None then set_job a (j\<lparr>sj_promise := Some r\<rparr>) s else s))"

definition request_stop_job :: "nat \<Rightarrow> runtime_scheduler \<Rightarrow> runtime_scheduler" where
  "request_stop_job a s =
     (case rs_store s a of
        None \<Rightarrow> s
      | Some j \<Rightarrow>
          (case RequestStop (sj_control j) (rs_heap s) of
             ((h, tr), ctl, _) \<Rightarrow>
               set_job a (j\<lparr>sj_control := ctl\<rparr>)
                 (s\<lparr>rs_heap := h, rs_invoked := rs_invoked s @ tr\<rparr>)))"

text \<open>What the caller of \<open>Stop\<close>, or the shutdown loop, does for one job after the critical section.\<close>

definition stop_and_promise :: "stop_action \<Rightarrow> runtime_scheduler \<Rightarrow> runtime_scheduler" where
  "stop_and_promise act s =
     (case act of
        (a, None) \<Rightarrow> request_stop_job a s
      | (a, Some r) \<Rightarrow> SetPromiseSafely a r (request_stop_job a s))"

definition rs_deliver :: "nat \<Rightarrow> runtime_scheduler \<Rightarrow> runtime_scheduler" where
  "rs_deliver k s = stop_and_promise (rs_pending s ! k) (s\<lparr>rs_pending := erase_at k (rs_pending s)\<rparr>)"

section \<open>Workers\<close>

definition CanStartLocked :: "runtime_scheduler \<Rightarrow> nat \<Rightarrow> bool" where
  "CanStartLocked s a =
     (case rs_store s a of
        None \<Rightarrow> False
      | Some j \<Rightarrow> \<not> ctl_paused (sj_control j) \<and> \<not> rs_sequential_running s \<and>
          \<not> (job_executionMode (sj_job j) = Mode_Sequential \<and> rs_running_count s > 0))"

text \<open>The job at \<open>a\<close> replaces the best candidate \<open>b\<close> found so far.\<close>

definition better_job :: "runtime_scheduler \<Rightarrow> nat \<Rightarrow> nat \<Rightarrow> bool" where
  "better_job s a b =
     (case (rs_store s a, rs_store s b) of
        (Some j, Some k) \<Rightarrow>
          PriorityRank (job_priority (sj_job j)) > PriorityRank (job_priority (sj_job k)) \<or>
          (PriorityRank (job_priority (sj_job j)) = PriorityRank (job_priority (sj_job k)) \<and>
           sj_sequence j < sj_sequence k)
      | _ \<Rightarrow> False)"

fun find_next_scan :: "runtime_scheduler \<Rightarrow> nat list \<Rightarrow> nat \<Rightarrow> nat option \<Rightarrow> nat option" where
  "find_next_scan s [] i best = best"
| "find_next_scan s (a # as) i best =
     find_next_scan s as (Suc i)
       (if \<not> CanStartLocked s a then best
        else case best of
          None \<Rightarrow> Some i
        | Some k \<Rightarrow> if better_job s a (rs_queue s ! k) then Some i else best)"

definition FindNextJobLocked :: "runtime_scheduler \<Rightarrow> nat option" where
  "FindNextJobLocked s = find_next_scan s (rs_queue s) 0 None"

definition rs_worker_register :: "nat \<Rightarrow> runtime_scheduler \<Rightarrow> runtime_scheduler" where
  "rs_worker_register w s = s\<lparr>rs_workers := (rs_workers s)[w := RW_Waiting]\<rparr>"

text \<open>The predicate of the condition variable.\<close>

definition rs_worker_wake :: "runtime_scheduler \<Rightarrow> bool" where
  "rs_worker_wake s = (rs_stop_requested s \<or> \<not> rs_accepting s \<or> FindNextJobLocked s \<noteq> None)"

definition rs_start_job :: "time_ns \<Rightarrow> nat \<Rightarrow> nat \<Rightarrow> runtime_scheduler \<Rightarrow> runtime_scheduler option" where
  "rs_start_job now w k s =
     (let a = rs_queue s ! k; st = rs_statistics s in
      case rs_store s a of
        None \<Rightarrow> None
      | Some j \<Rightarrow>
          (let ctl = sj_control j;
               ec = SetState State_Running (SetStartTimestamp now (ctl_execution ctl)) in
           update_record (job_id (sj_job j)) (\<lambda>rec. rec\<lparr>rec_state := State_Running,
               rec_startedAt := Some now, rec_result := job_result State_Running ''Runtime job running''\<rparr>)
             (set_job a (j\<lparr>sj_state := Job_Running, sj_control := ctl\<lparr>ctl_execution := ec\<rparr>\<rparr>)
               (s\<lparr>rs_queue := erase_at k (rs_queue s),
                  rs_running_count := rs_running_count s + 1,
                  rs_sequential_running := (job_executionMode (sj_job j) = Mode_Sequential),
                  rs_statistics := st\<lparr>rst_maximumConcurrentRunning :=
                      max (rst_maximumConcurrentRunning st) (rs_running_count s + 1),
                    rst_started := rst_started st + 1\<rparr>,
                  rs_workers := (rs_workers s)[w := RW_Executing a]\<rparr>))))"

definition rs_worker_poll :: "time_ns \<Rightarrow> nat \<Rightarrow> runtime_scheduler \<Rightarrow> runtime_scheduler option" where
  "rs_worker_poll now w s =
     (case FindNextJobLocked s of
        None \<Rightarrow>
          Some (if rs_stop_requested s \<or> \<not> rs_accepting s
                then s\<lparr>rs_workers := (rs_workers s)[w := RW_Exited]\<rparr> else s)
      | Some k \<Rightarrow> rs_start_job now w k s)"

definition NormalizeResult :: "bool \<Rightarrow> runtime_job_result \<Rightarrow> runtime_job_result" where
  "NormalizeResult cancellation_requested r =
     (if cancellation_requested then job_result State_Cancelled ''Runtime job cancelled''
      else if \<not> state_isTerminal (jr_state r) then
        job_result State_Completed (if jr_message r = [] then ''Runtime job completed'' else jr_message r)
      else if \<not> IsSuccessfulTerminal (jr_state r) \<and> jr_message r = [] then
        r\<lparr>jr_message := ''Runtime job did not complete successfully''\<rparr>
      else r)"

text \<open>The callback of the job returns or throws; the result is normalised outside the lock.\<close>

definition rs_worker_return ::
  "nat \<Rightarrow> runtime_job_result outcome \<Rightarrow> nat \<Rightarrow> runtime_scheduler \<Rightarrow> runtime_scheduler" where
  "rs_worker_return w oc a s =
     (case rs_store s a of
        None \<Rightarrow> s
      | Some j \<Rightarrow>
          s\<lparr>rs_workers := (rs_workers s)[w := RW_Finishing a
            (case oc of
               Returned r \<Rightarrow> NormalizeResult (IsCancellationRequested (sj_control j) (rs_heap s)) r
             | ThrewException what \<Rightarrow> job_result State_Failed what
             | ThrewUnknown \<Rightarrow>
                 job_result State_Failed ''Runtime job callback threw an unknown exception'')]\<rparr>)"

definition rs_worker_finish ::
  "time_ns \<Rightarrow> nat \<Rightarrow> nat \<Rightarrow> runtime_job_result \<Rightarrow> runtime_scheduler \<Rightarrow> runtime_scheduler option" where
  "rs_worker_finish now w a r s =
     (case rs_store s a of
        None \<Rightarrow> None
      | Some j \<Rightarrow>
          (let ctl = sj_control j;
               s1 = s\<lparr>rs_running_count := (if rs_running_count s > 0 then rs_running_count s - 1
                         else rs_running_count s),
                      rs_sequential_running := (if job_executionMode (sj_job j) = Mode_Sequential then False
                         else rs_sequential_running s),
                      rs_outstanding := AList.delete (job_id (sj_job j)) (rs_outstanding s),
                      rs_workers := (rs_workers s)[w := RW_Publishing a r]\<rparr>;
               s2 = set_job a (j\<lparr>sj_control := ctl\<lparr>ctl_execution :=
                      SetState (jr_state r) (ctl_execution ctl)\<rparr>\<rparr>) s1 in
           map_option (\<lambda>s3. s3\<lparr>rs_statistics :=
               RecordTerminalStatisticsLocked (jr_state r) (rs_statistics s3)\<rparr>)
             (rs_CompleteRecordLocked now (job_id (sj_job j)) r s2)))"

definition rs_worker_publish ::
  "nat \<Rightarrow> nat \<Rightarrow> runtime_job_result \<Rightarrow> runtime_scheduler \<Rightarrow> runtime_scheduler" where
  "rs_worker_publish w a r s =
     SetPromiseSafely a r (s\<lparr>rs_workers := (rs_workers s)[w := RW_Waiting]\<rparr>)"

text \<open>
  What a callback may do to its own job through \<open>RuntimeJobContext\<close> that the scheduler sees: request
  the cancellation of its execution context, or register a cancellation callback.
\<close>

datatype job_action = JA_RequestCancellation | JA_Register nat

definition rs_job_action :: "job_action \<Rightarrow> nat \<Rightarrow> runtime_scheduler \<Rightarrow> runtime_scheduler" where
  "rs_job_action act a s =
     (case rs_store s a of
        None \<Rightarrow> s
      | Some j \<Rightarrow>
          (case act of
             JA_RequestCancellation \<Rightarrow>
               (case RequestCancellation (ctl_execution (sj_control j)) (rs_heap s) of
                  ((h, tr), ec, _) \<Rightarrow>
                    set_job a (j\<lparr>sj_control := (sj_control j)\<lparr>ctl_execution := ec\<rparr>\<rparr>)
                      (s\<lparr>rs_heap := h, rs_invoked := rs_invoked s @ tr\<rparr>))
           | JA_Register cb \<Rightarrow>
               (case Register (ctl_cancellation (sj_control j)) (Some (CB_Client cb)) (rs_heap s) of
                  ((h, tr), _) \<Rightarrow> s\<lparr>rs_heap := h, rs_invoked := rs_invoked s @ tr\<rparr>)))"

section \<open>Shutdown\<close>

definition rs_IsWorkerThread :: "nat option \<Rightarrow> runtime_scheduler \<Rightarrow> bool" where
  "rs_IsWorkerThread caller s =
     (case caller of None \<Rightarrow> False
      | Some w \<Rightarrow> w < length (rs_workers s) \<and> rs_workers s ! w \<notin> {RW_Starting, RW_Exited})"

definition cancelled_during_shutdown :: runtime_job_result where
  "cancelled_during_shutdown =
     job_result State_Cancelled ''Runtime job cancelled during scheduler shutdown''"

fun shutdown_cancel_queued ::
  "(nat \<Rightarrow> time_ns) \<Rightarrow> nat list \<Rightarrow> runtime_scheduler \<Rightarrow> runtime_scheduler option" where
  "shutdown_cancel_queued clk [] s = Some s"
| "shutdown_cancel_queued clk (a # as) s =
     (case rs_store s a of
        None \<Rightarrow> None
      | Some j \<Rightarrow>
          (case rs_CompleteRecordLocked (clk 0) (job_id (sj_job j)) cancelled_during_shutdown
              (s\<lparr>rs_outstanding := AList.delete (job_id (sj_job j)) (rs_outstanding s),
                 rs_statistics := (rs_statistics s)\<lparr>rst_cancelled := rst_cancelled (rs_statistics s) + 1\<rparr>\<rparr>) of
             None \<Rightarrow> None
           | Some s' \<Rightarrow> shutdown_cancel_queued (clk \<circ> Suc) as s'))"

fun shutdown_mark_running :: "nat list \<Rightarrow> runtime_scheduler \<Rightarrow> runtime_scheduler option" where
  "shutdown_mark_running [] s = Some s"
| "shutdown_mark_running (a # as) s =
     (case mark_stopped a ''Runtime job cancellation requested during scheduler shutdown'' s of
        None \<Rightarrow> None
      | Some s' \<Rightarrow> shutdown_mark_running as s')"

text \<open>The critical section of the thread that performs the shutdown.\<close>

definition rs_shutdown_start :: "(nat \<Rightarrow> time_ns) \<Rightarrow> runtime_scheduler \<Rightarrow> runtime_scheduler option" where
  "rs_shutdown_start clk s =
     (case shutdown_cancel_queued clk (rs_queue s)
        (s\<lparr>rs_shutdown_in_progress := True, rs_accepting := False, rs_queue := []\<rparr>) of
        None \<Rightarrow> None
      | Some s1 \<Rightarrow>
          (let running_jobs = map snd (rs_outstanding s1) in
           map_option (\<lambda>s2. s2\<lparr>rs_shutdown := RShut_Delivering
               (map (\<lambda>a. (a, Some cancelled_during_shutdown)) (rs_queue s) @
                map (\<lambda>a. (a, None)) running_jobs)\<rparr>)
             (shutdown_mark_running running_jobs s1)))"

datatype shutdown_entry =
    Entry_Returns runtime_scheduler | Entry_Waits | Entry_Performs runtime_scheduler | Entry_Throws

definition rs_Shutdown ::
  "nat option \<Rightarrow> (nat \<Rightarrow> time_ns) \<Rightarrow> runtime_scheduler \<Rightarrow> shutdown_entry" where
  "rs_Shutdown caller clk s =
     (if rs_shutdown_complete s then Entry_Returns s
      else if rs_IsWorkerThread caller s then Entry_Returns (s\<lparr>rs_accepting := False\<rparr>)
      else if rs_shutdown_in_progress s then Entry_Waits
      else case rs_shutdown_start clk s of None \<Rightarrow> Entry_Throws | Some s' \<Rightarrow> Entry_Performs s')"

definition rs_shutdown_deliver :: "runtime_scheduler \<Rightarrow> runtime_scheduler" where
  "rs_shutdown_deliver s =
     (case rs_shutdown s of
        RShut_Delivering (act # acts) \<Rightarrow> stop_and_promise act (s\<lparr>rs_shutdown := RShut_Delivering acts\<rparr>)
      | RShut_Delivering [] \<Rightarrow> s\<lparr>rs_shutdown := RShut_Joining, rs_stop_requested := True\<rparr>
      | _ \<Rightarrow> s)"

definition rs_shutdown_finish :: "runtime_scheduler \<Rightarrow> runtime_scheduler" where
  "rs_shutdown_finish s =
     s\<lparr>rs_shutdown_complete := True, rs_shutdown_in_progress := False, rs_shutdown := RShut_Finished\<rparr>"

section \<open>Queries\<close>

definition GetSnapshot :: "u64 \<Rightarrow> runtime_scheduler \<Rightarrow> runtime_job_snapshot option" where
  "GetSnapshot i s = map_of (rs_records s) i"

text \<open>Iteration over a \<open>std::map\<close> is in the order of the keys.\<close>

definition GetSnapshots :: "runtime_scheduler \<Rightarrow> runtime_job_snapshot list" where
  "GetSnapshots s = map snd (sort_key fst (rs_records s))"

definition CountPausedLocked :: "runtime_scheduler \<Rightarrow> nat" where
  "CountPausedLocked s = length (filter (\<lambda>(i, a).
     case rs_store s a of None \<Rightarrow> False | Some j \<Rightarrow> ctl_paused (sj_control j)) (rs_outstanding s))"

definition rs_GetStatistics :: "runtime_scheduler \<Rightarrow> runtime_scheduler_statistics" where
  "rs_GetStatistics s = (rs_statistics s)\<lparr>rst_queued := length (rs_queue s),
     rst_running := rs_running_count s, rst_paused := CountPausedLocked s,
     rst_maximumQueueSize := rso_maximumQueueSize (rs_options s),
     rst_workerCount := rso_workerCount (rs_options s)\<rparr>"

definition rs_Size :: "runtime_scheduler \<Rightarrow> nat" where
  "rs_Size s = length (rs_queue s)"

section \<open>Interleavings\<close>

datatype rs_event =
    RE_Submit time_ns runtime_job
  | RE_Pause u64
  | RE_Resume u64
  | RE_Stop time_ns u64
  | RE_Deliver nat
  | RE_Register nat
  | RE_Poll time_ns nat
  | RE_JobAction nat job_action
  | RE_Return nat "runtime_job_result outcome"
  | RE_Finish time_ns nat
  | RE_Publish nat
  | RE_ShutdownOnWorker nat
  | RE_ShutdownStart "nat option" "nat \<Rightarrow> time_ns"
  | RE_ShutdownDeliver
  | RE_ShutdownFinish

inductive rs_step :: "runtime_scheduler \<Rightarrow> rs_event \<Rightarrow> runtime_scheduler \<Rightarrow> bool" where
  rs_submit: "rs_step s (RE_Submit now job) (fst (rs_Submit now job s))"
| rs_pause: "Pause i s = Some (s', b) \<Longrightarrow> rs_step s (RE_Pause i) s'"
| rs_resume: "Resume i s = Some (s', b) \<Longrightarrow> rs_step s (RE_Resume i) s'"
| rs_stop: "Stop now i s = Some (s', b) \<Longrightarrow> rs_step s (RE_Stop now i) s'"
| rs_delivery: "k < length (rs_pending s) \<Longrightarrow> rs_step s (RE_Deliver k) (rs_deliver k s)"
| rs_register: "w < length (rs_workers s) \<Longrightarrow> rs_workers s ! w = RW_Starting \<Longrightarrow>
    rs_step s (RE_Register w) (rs_worker_register w s)"
| rs_poll: "w < length (rs_workers s) \<Longrightarrow> rs_workers s ! w = RW_Waiting \<Longrightarrow> rs_worker_wake s \<Longrightarrow>
    rs_worker_poll now w s = Some s' \<Longrightarrow> rs_step s (RE_Poll now w) s'"
| rs_action: "w < length (rs_workers s) \<Longrightarrow> rs_workers s ! w = RW_Executing a \<Longrightarrow>
    rs_step s (RE_JobAction w act) (rs_job_action act a s)"
| rs_return: "w < length (rs_workers s) \<Longrightarrow> rs_workers s ! w = RW_Executing a \<Longrightarrow>
    rs_step s (RE_Return w oc) (rs_worker_return w oc a s)"
| rs_finish: "w < length (rs_workers s) \<Longrightarrow> rs_workers s ! w = RW_Finishing a r \<Longrightarrow>
    rs_worker_finish now w a r s = Some s' \<Longrightarrow> rs_step s (RE_Finish now w) s'"
| rs_publish: "w < length (rs_workers s) \<Longrightarrow> rs_workers s ! w = RW_Publishing a r \<Longrightarrow>
    rs_step s (RE_Publish w) (rs_worker_publish w a r s)"
| rs_shutdown_worker: "rs_Shutdown (Some w) clk s = Entry_Returns s' \<Longrightarrow>
    rs_step s (RE_ShutdownOnWorker w) s'"
| rs_shutdown_begin: "rs_Shutdown caller clk s = Entry_Performs s' \<Longrightarrow>
    rs_step s (RE_ShutdownStart caller clk) s'"
| rs_shutdown_loop: "rs_shutdown s = RShut_Delivering acts \<Longrightarrow>
    rs_step s RE_ShutdownDeliver (rs_shutdown_deliver s)"
| rs_shutdown_end: "rs_shutdown s = RShut_Joining \<Longrightarrow> set (rs_workers s) \<subseteq> {RW_Exited} \<Longrightarrow>
    rs_step s RE_ShutdownFinish (rs_shutdown_finish s)"

inductive rs_run :: "runtime_scheduler \<Rightarrow> rs_event list \<Rightarrow> runtime_scheduler \<Rightarrow> bool" where
  rs_run_nil: "rs_run s [] s"
| rs_run_snoc: "rs_run s es s' \<Longrightarrow> rs_step s' e s'' \<Longrightarrow> rs_run s (es @ [e]) s''"

end
