(* ===== verification/Runtime_Scheduler_Inv.thy ===== *)
theory Runtime_Scheduler_Inv
  imports Runtime_Scheduler
begin

text \<open>
  The invariant of the runtime scheduler and its preservation by every step. It is stated in parts
  over the containers they concern: the index of outstanding jobs, the records and the history of
  completed jobs, the running jobs, the ownership of promises, the statistics and the phases of a
  shutdown.
\<close>

section \<open>Index of outstanding jobs\<close>

definition index_ok :: "nat list \<Rightarrow> (nat \<Rightarrow> u64 option) \<Rightarrow> (u64 \<times> nat) list \<Rightarrow> bool" where
  "index_ok L jid out \<longleftrightarrow> distinct L \<and> keys_ok out \<and> (\<forall>a \<in> set L. jid a \<noteq> None) \<and>
     (\<forall>i a. map_of out i = Some a \<longleftrightarrow> a \<in> set L \<and> jid a = Some i)"

lemma keys_ok_emplace: "keys_ok kvs \<Longrightarrow> keys_ok (emplace k v kvs)"
  by (auto simp: keys_ok_def emplace_def map_of_eq_None_iff)

lemma map_of_emplace: "map_of kvs k = None \<Longrightarrow> map_of (emplace k v kvs) = (map_of kvs)(k \<mapsto> v)"
  by (auto simp: emplace_def map_add_def fun_eq_iff split: option.splits)

lemma length_emplace: "map_of kvs k = None \<Longrightarrow> length (emplace k v kvs) = Suc (length kvs)"
  by (simp add: emplace_def)

lemma keys_ok_delete: "keys_ok kvs \<Longrightarrow> keys_ok (AList.delete k kvs)"
  by (simp add: keys_ok_def distinct_delete)

lemma keys_ok_update: "keys_ok kvs \<Longrightarrow> keys_ok (AList.update k v kvs)"
  by (simp add: keys_ok_def distinct_update)

lemma map_of_delete: "map_of (AList.delete k kvs) = (map_of kvs)(k := None)"
  by (rule delete_conv')

lemma map_of_update: "map_of (AList.update k v kvs) = (map_of kvs)(k \<mapsto> v)"
  by (rule update_conv')

lemma length_keys: "keys_ok kvs \<Longrightarrow> card (dom (map_of kvs)) = length kvs"
  by (metis distinct_card dom_map_of_conv_image_fst keys_ok_def length_map list.set_map)

lemma length_delete_key:
  assumes "keys_ok kvs" and "map_of kvs k \<noteq> None"
  shows "Suc (length (AList.delete k kvs)) = length kvs"
proof -
  have "dom (map_of (AList.delete k kvs)) = dom (map_of kvs) - {k}"
    by (auto simp: map_of_delete)
  moreover have "k \<in> dom (map_of kvs)" using assms(2) by auto
  ultimately show ?thesis
    using length_keys [OF assms(1)] length_keys [OF keys_ok_delete [OF assms(1), of k]]
    by (metis Suc_diff_1 card_Diff_singleton card_gt_0_iff empty_iff finite_dom_map_of)
qed

lemma index_ok_lookup:
  "index_ok L jid out \<Longrightarrow> a \<in> set L \<Longrightarrow> \<exists>i. jid a = Some i \<and> map_of out i = Some a"
  by (fastforce simp: index_ok_def)

lemma index_ok_iff: "index_ok L jid out \<Longrightarrow> map_of out i = Some a \<longleftrightarrow> a \<in> set L \<and> jid a = Some i"
  by (simp add: index_ok_def)

lemma index_ok_None: "index_ok L jid out \<Longrightarrow> map_of out i = None \<longleftrightarrow> (\<forall>a \<in> set L. jid a \<noteq> Some i)"
  using index_ok_iff [of L jid out i] by (cases "map_of out i") auto

lemma index_ok_insert:
  assumes "index_ok L jid out" and "a \<notin> set L" and "map_of out i = None"
    and "set L' = insert a (set L)" and "distinct L'"
  shows "index_ok L' (jid(a \<mapsto> i)) (emplace i a out)"
proof -
  have "\<forall>b \<in> set L. jid b \<noteq> Some i" using assms(1,3) by (simp add: index_ok_None)
  with assms show ?thesis
    by (auto simp: index_ok_def keys_ok_emplace map_of_emplace)
qed

lemma index_ok_mset: "index_ok L jid out \<Longrightarrow> mset L' = mset L \<Longrightarrow> index_ok L' jid out"
  using mset_eq_setD [of L' L] mset_eq_imp_distinct_iff [of L' L] by (simp add: index_ok_def)

lemma index_ok_remove:
  assumes iv: "index_ok L jid out" and a: "jid a = Some i" and ms: "mset L = add_mset a (mset L')"
  shows "index_ok L' jid (AList.delete i out)"
proof -
  have "index_ok (a # L') jid out" using iv by (rule index_ok_mset) (simp add: ms)
  moreover from this a have "\<forall>b \<in> set L'. jid b \<noteq> Some i"
    unfolding index_ok_def by (metis distinct.simps(2) list.set_intros(1,2) option.inject)
  ultimately show ?thesis using a
    by (auto simp: index_ok_def keys_ok_delete map_of_delete)
qed

lemma index_ok_length: "index_ok L jid out \<Longrightarrow> length out = length L"
proof -
  assume iv: "index_ok L jid out"
  have "bij_betw (\<lambda>i. the (map_of out i)) (dom (map_of out)) (set L)"
  proof (rule bij_betw_byWitness [where f' = "\<lambda>a. the (jid a)"])
    show "(\<lambda>a. the (jid a)) ` set L \<subseteq> dom (map_of out)"
      using index_ok_lookup [OF iv] by fastforce
    show "\<forall>i \<in> dom (map_of out). the (jid (the (map_of out i))) = i"
    proof
      fix i
      assume "i \<in> dom (map_of out)"
      then obtain a where "map_of out i = Some a" by auto
      with index_ok_iff [OF iv, of i a] show "the (jid (the (map_of out i))) = i" by simp
    qed
    show "\<forall>a \<in> set L. the (map_of out (the (jid a))) = a"
      using index_ok_lookup [OF iv] by fastforce
    show "(\<lambda>i. the (map_of out i)) ` dom (map_of out) \<subseteq> set L"
    proof clarsimp
      fix i a
      assume "map_of out i = Some a"
      with index_ok_iff [OF iv, of i a] show "a \<in> set L" by simp
    qed
  qed
  then have "card (dom (map_of out)) = card (set L)" by (rule bij_betw_same_card)
  then show ?thesis using iv by (simp add: index_ok_def length_keys distinct_card)
qed

section \<open>Records and history\<close>

text \<open>
  The records are those of the outstanding jobs, of the completed jobs still listed, and of the
  identifiers in \<open>X\<close>, jobs being completed.
\<close>

definition history_ok ::
  "u64 set \<Rightarrow> (u64 \<times> nat) list \<Rightarrow> (u64 \<times> 'r) list \<Rightarrow> u64 list \<Rightarrow> bool" where
  "history_ok X out recs order \<longleftrightarrow> keys_ok recs \<and> distinct order \<and>
     (\<forall>i. map_of recs i \<noteq> None \<longleftrightarrow> map_of out i \<noteq> None \<or> i \<in> set order \<or> i \<in> X) \<and>
     (\<forall>i \<in> set order \<union> X. map_of out i = None) \<and> X \<inter> set order = {}"

lemma prune_completed_effect:
  assumes "prune_completed mx out order recs = (order', recs')"
    and "keys_ok recs" and "\<forall>i \<in> set order. \<not> out i"
  shows "\<exists>n. order' = drop n order \<and> keys_ok recs' \<and>
    map_of recs' = (\<lambda>i. if i \<in> set (take n order) then None else map_of recs i) \<and>
    (0 < mx \<longrightarrow> length order' \<le> mx)"
  using assms
proof (induction mx out order recs rule: prune_completed.induct)
  case (1 mx out recs)
  then show ?case by auto
next
  case (2 mx out i "is" recs)
  show ?case
  proof (cases "mx > 0 \<and> length (i # is) > mx")
    case True
    from 2(4) have out: "\<not> out i" "\<forall>j \<in> set is. \<not> out j" by auto
    from 2(2) True out(1) have "prune_completed mx out is (AList.delete i recs) = (order', recs')"
      by simp
    with True out have "\<exists>n. order' = drop n is \<and> keys_ok recs' \<and>
        map_of recs' = (\<lambda>j. if j \<in> set (take n is) then None else map_of (AList.delete i recs) j) \<and>
        (0 < mx \<longrightarrow> length order' \<le> mx)"
      using 2(1) [OF True, unfolded if_not_P [OF out(1)]] keys_ok_delete [OF 2(3), of i] by simp
    then obtain n where "order' = drop n is" "keys_ok recs'" "length order' \<le> mx"
      "map_of recs' = (\<lambda>j. if j \<in> set (take n is) then None else map_of (AList.delete i recs) j)"
      using True by auto
    then show ?thesis
      by (intro exI [of _ "Suc n"]) (auto simp: fun_eq_iff map_of_delete)
  next
    case False
    with 2 show ?thesis by (intro exI [of _ 0]) (auto simp: fun_eq_iff)
  qed
qed

lemma history_ok_prune:
  assumes "history_ok {} out recs order"
    and "prune_completed mx (\<lambda>i. map_of out i \<noteq> None) order recs = (order', recs')"
  shows "history_ok {} out recs' order'" and "0 < mx \<Longrightarrow> length order' \<le> mx"
    and "\<forall>i r. map_of recs' i = Some r \<longrightarrow> map_of recs i = Some r" and "set order' \<subseteq> set order"
proof -
  from assms obtain n where n: "order' = drop n order" "keys_ok recs'"
      "map_of recs' = (\<lambda>i. if i \<in> set (take n order) then None else map_of recs i)"
      "0 < mx \<longrightarrow> length order' \<le> mx"
    using prune_completed_effect [OF assms(2)] by (auto simp: history_ok_def)
  have o: "order = take n order @ order'" by (simp add: n(1))
  with assms(1) have "distinct (take n order @ order')" by (simp add: history_ok_def)
  then have dj: "set (take n order) \<inter> set order' = {}" "distinct order'" by auto
  have so: "set order = set (take n order) \<union> set order'" using o by (metis set_append)
  from assms(1) have ho: "\<And>i. map_of recs i \<noteq> None \<longleftrightarrow> map_of out i \<noteq> None \<or> i \<in> set order"
    "\<And>i. i \<in> set order \<Longrightarrow> map_of out i = None"
    by (auto simp: history_ok_def)
  have "map_of recs' i \<noteq> None \<longleftrightarrow> map_of out i \<noteq> None \<or> i \<in> set order'" for i
  proof (cases "i \<in> set (take n order)")
    case True
    with ho(2) [of i] dj(1) so show ?thesis by (auto simp: n(3))
  next
    case False
    with ho(1) [of i] so show ?thesis by (simp add: n(3))
  qed
  with ho(2) dj(2) n(2) so show "history_ok {} out recs' order'" by (simp add: history_ok_def)
  show "0 < mx \<Longrightarrow> length order' \<le> mx" using n(4) by simp
  show "\<forall>i r. map_of recs' i = Some r \<longrightarrow> map_of recs i = Some r" by (simp add: n(3))
  show "set order' \<subseteq> set order" using so by blast
qed


lemma history_ok_complete:
  assumes ho: "history_ok {} out recs order" and i: "map_of out i \<noteq> None"
    and pr: "prune_completed mx (\<lambda>k. map_of (AList.delete i out) k \<noteq> None) (order @ [i])
      (AList.update i r recs) = (order', recs')"
  shows "history_ok {} (AList.delete i out) recs' order'" and "0 < mx \<Longrightarrow> length order' \<le> mx"
    and "\<forall>k q. map_of recs' k = Some q \<longrightarrow> (if k = i then q = r else map_of recs k = Some q)"
    and "set order' \<subseteq> insert i (set order)"
proof -
  have "i \<notin> set order" using ho i by (auto simp: history_ok_def)
  then have "history_ok {} (AList.delete i out) (AList.update i r recs) (order @ [i])"
    using ho by (auto simp: history_ok_def keys_ok_update map_of_update map_of_delete)
  note h = history_ok_prune [OF this pr]
  show "history_ok {} (AList.delete i out) recs' order'" and "0 < mx \<Longrightarrow> length order' \<le> mx"
    by (fact h(1), fact h(2))
  show "\<forall>k q. map_of recs' k = Some q \<longrightarrow> (if k = i then q = r else map_of recs k = Some q)"
  proof (intro allI impI)
    fix k q
    assume "map_of recs' k = Some q"
    with h(3) have "map_of (AList.update i r recs) k = Some q" by blast
    then show "if k = i then q = r else map_of recs k = Some q"
      by (simp add: map_of_update split: if_splits)
  qed
  show "set order' \<subseteq> insert i (set order)" using h(4) by auto
qed

section \<open>The invariant\<close>

fun worker_job :: "rs_worker \<Rightarrow> nat list" where
  "worker_job (RW_Executing a) = [a]"
| "worker_job (RW_Finishing a r) = [a]"
| "worker_job _ = []"

fun worker_publishes :: "rs_worker \<Rightarrow> nat list" where
  "worker_publishes (RW_Publishing a r) = [a]"
| "worker_publishes _ = []"

fun worker_results :: "rs_worker \<Rightarrow> runtime_job_result list" where
  "worker_results (RW_Finishing a r) = [r]"
| "worker_results (RW_Publishing a r) = [r]"
| "worker_results _ = []"

definition rs_active :: "rs_worker list \<Rightarrow> nat list" where
  "rs_active ws = concat (map worker_job ws)"

definition rs_publishing :: "rs_worker list \<Rightarrow> nat list" where
  "rs_publishing ws = concat (map worker_publishes ws)"

text \<open>The promises a list of actions will satisfy, and with which results.\<close>

definition promise_acts :: "stop_action list \<Rightarrow> nat list" where
  "promise_acts acts = map fst (filter (\<lambda>(a, r). r \<noteq> None) acts)"

fun rs_delivering :: "rs_shutdown_phase \<Rightarrow> stop_action list" where
  "rs_delivering (RShut_Delivering acts) = acts"
| "rs_delivering _ = []"

definition rs_jid :: "(nat \<rightharpoonup> scheduled_job) \<Rightarrow> nat \<Rightarrow> u64 option" where
  "rs_jid store a = map_option (\<lambda>j. job_id (sj_job j)) (store a)"

definition rs_jmode :: "(nat \<rightharpoonup> scheduled_job) \<Rightarrow> nat \<Rightarrow> runtime_execution_mode option" where
  "rs_jmode store a = map_option (\<lambda>j. job_executionMode (sj_job j)) (store a)"

definition rs_index_inv :: "runtime_scheduler \<Rightarrow> bool" where
  "rs_index_inv s = index_ok (rs_queue s @ rs_active (rs_workers s)) (rs_jid (rs_store s)) (rs_outstanding s)"

definition rs_state_inv :: "runtime_scheduler \<Rightarrow> bool" where
  "rs_state_inv s \<longleftrightarrow>
     (\<forall>a \<in> set (rs_queue s). \<exists>j. rs_store s a = Some j \<and> sj_state j = Job_Queued \<and> \<not> sj_stopRequested j) \<and>
     (\<forall>a \<in> set (rs_active (rs_workers s)). \<exists>j. rs_store s a = Some j \<and> sj_state j = Job_Running) \<and>
     (\<forall>a. rs_store s a \<noteq> None \<longleftrightarrow> 0 < a \<and> a < rs_next_sequence s) \<and>
     (\<forall>a j. rs_store s a = Some j \<longrightarrow> sj_sequence j = of_nat a) \<and> 0 < rs_next_sequence s"

definition rs_history_inv :: "runtime_scheduler \<Rightarrow> bool" where
  "rs_history_inv s \<longleftrightarrow> history_ok {} (rs_outstanding s) (rs_records s) (rs_completed_order s) \<and>
     (0 < rso_maximumCompletedHistorySize (rs_options s) \<longrightarrow>
        length (rs_completed_order s) \<le> rso_maximumCompletedHistorySize (rs_options s))"

text \<open>
  A completed job has a terminal record with a completion time; the record of an outstanding job is
  terminal exactly when a stop was requested while it ran.
\<close>

definition record_ok ::
  "(u64 \<times> nat) list \<Rightarrow> u64 set \<Rightarrow> (nat \<rightharpoonup> scheduled_job) \<Rightarrow> (u64 \<rightharpoonup> runtime_job_snapshot) \<Rightarrow> bool" where
  "record_ok out order store recs \<longleftrightarrow> (\<forall>i r. recs i = Some r \<longrightarrow>
     (i \<in> order \<longrightarrow> state_isTerminal (rec_state r) \<and> rec_completedAt r \<noteq> None) \<and>
     (\<forall>a j. map_of out i = Some a \<and> store a = Some j \<longrightarrow>
        rec_completedAt r = None \<and> (state_isTerminal (rec_state r) \<longleftrightarrow> sj_stopRequested j)))"

definition rs_record_inv :: "runtime_scheduler \<Rightarrow> bool" where
  "rs_record_inv s = record_ok (rs_outstanding s) (set (rs_completed_order s)) (rs_store s) (map_of (rs_records s))"

definition rs_count_inv :: "runtime_scheduler \<Rightarrow> bool" where
  "rs_count_inv s \<longleftrightarrow> rs_running_count s = length (rs_active (rs_workers s)) \<and>
     (\<forall>a \<in> set (rs_active (rs_workers s)). rs_jmode (rs_store s) a = Some Mode_Sequential \<longrightarrow>
        rs_active (rs_workers s) = [a] \<and> rs_sequential_running s) \<and>
     length (rs_workers s) = rso_workerCount (rs_options s) \<and>
     length (rs_queue s) \<le> rst_highWatermark (rs_statistics s) \<and>
     rst_highWatermark (rs_statistics s) \<le> rso_maximumQueueSize (rs_options s) \<and>
     rs_running_count s \<le> rst_maximumConcurrentRunning (rs_statistics s) \<and>
     rst_maximumConcurrentRunning (rs_statistics s) \<le> rso_workerCount (rs_options s)"

definition rs_account_inv :: "runtime_scheduler \<Rightarrow> bool" where
  "rs_account_inv s \<longleftrightarrow> rst_accepted (rs_statistics s) =
     rst_completed (rs_statistics s) + rst_cancelled (rs_statistics s) + rst_failed (rs_statistics s)
       + of_nat (length (rs_outstanding s))"

definition rs_owned :: "runtime_scheduler \<Rightarrow> nat multiset" where
  "rs_owned s = mset (rs_queue s) + mset (rs_active (rs_workers s)) + mset (rs_publishing (rs_workers s))
     + mset (promise_acts (rs_pending s)) + mset (promise_acts (rs_delivering (rs_shutdown s)))"

definition rs_unresolved :: "(nat \<rightharpoonup> scheduled_job) \<Rightarrow> nat set" where
  "rs_unresolved store = {a. \<exists>j. store a = Some j \<and> sj_promise j = None}"

definition rs_owner_inv :: "runtime_scheduler \<Rightarrow> bool" where
  "rs_owner_inv s \<longleftrightarrow> (\<forall>a. count (rs_owned s) a = of_bool (a \<in> rs_unresolved (rs_store s)))"

definition rs_result_inv :: "runtime_scheduler \<Rightarrow> bool" where
  "rs_result_inv s \<longleftrightarrow>
     (\<forall>w \<in> set (rs_workers s). \<forall>r \<in> set (worker_results w). state_isTerminal (jr_state r)) \<and>
     (\<forall>(a, r) \<in> set (rs_pending s) \<union> set (rs_delivering (rs_shutdown s)).
        \<forall>q. r = Some q \<longrightarrow> state_isTerminal (jr_state q)) \<and>
     (\<forall>a j r. rs_store s a = Some j \<and> sj_promise j = Some r \<longrightarrow> state_isTerminal (jr_state r))"

definition rs_phase_inv :: "runtime_scheduler \<Rightarrow> bool" where
  "rs_phase_inv s \<longleftrightarrow>
     (rs_shutdown_complete s \<longleftrightarrow> rs_shutdown s = RShut_Finished) \<and>
     (rs_shutdown_in_progress s \<longleftrightarrow> rs_shutdown s \<noteq> RShut_None \<and> rs_shutdown s \<noteq> RShut_Finished) \<and>
     (rs_shutdown s \<noteq> RShut_None \<longrightarrow> \<not> rs_accepting s \<and> rs_queue s = []) \<and>
     (rs_shutdown s = RShut_Finished \<longrightarrow> set (rs_workers s) \<subseteq> {RW_Exited})"

definition rs_inv :: "runtime_scheduler \<Rightarrow> bool" where
  "rs_inv s \<longleftrightarrow> rs_index_inv s \<and> rs_state_inv s \<and> rs_history_inv s \<and> rs_record_inv s \<and>
     rs_count_inv s \<and> rs_account_inv s \<and> rs_owner_inv s \<and> rs_result_inv s \<and> rs_phase_inv s"

end
