(* ===== verification/Runtime_Scheduler_Steps.thy ===== *)
theory Runtime_Scheduler_Steps
  imports Runtime_Scheduler_Inv
begin

text \<open>Every step of the runtime scheduler preserves its invariant, and none throws.\<close>

lemmas rs_inv_defs = rs_index_inv_def rs_state_inv_def rs_history_inv_def rs_record_inv_def
  rs_count_inv_def rs_account_inv_def rs_owner_inv_def rs_result_inv_def rs_phase_inv_def

definition rs_core :: "runtime_scheduler \<Rightarrow> bool" where
  "rs_core s \<longleftrightarrow> rs_index_inv s \<and> rs_state_inv s \<and> rs_history_inv s \<and> rs_record_inv s \<and>
     rs_count_inv s \<and> rs_account_inv s"

lemma rs_inv_core: "rs_inv s \<longleftrightarrow> rs_core s \<and> rs_owner_inv s \<and> rs_result_inv s \<and> rs_phase_inv s"
  by (auto simp: rs_inv_def rs_core_def)

section \<open>Changes the invariant does not see\<close>

text \<open>Two states that differ only in the controls of their jobs, the cancellation heap and its trace.\<close>

definition same_jobs :: "runtime_scheduler \<Rightarrow> runtime_scheduler \<Rightarrow> bool" where
  "same_jobs s s' \<longleftrightarrow> (\<exists>store h tr. s' = s\<lparr>rs_store := store, rs_heap := h, rs_invoked := tr\<rparr> \<and>
     (\<forall>a. case rs_store s a of None \<Rightarrow> store a = None
        | Some j \<Rightarrow> \<exists>c. store a = Some (j\<lparr>sj_control := c\<rparr>)))"

lemma same_jobs_set_control:
  assumes "rs_store s a = Some j"
  shows "same_jobs s (set_job a (j\<lparr>sj_control := c\<rparr>) (s\<lparr>rs_heap := h, rs_invoked := tr\<rparr>))"
proof -
  have id: "\<exists>c. k = k\<lparr>sj_control := c\<rparr>" for k :: scheduled_job
    by (rule exI [of _ "sj_control k"]) simp
  show ?thesis
    unfolding same_jobs_def
    by (intro exI [of _ "(rs_store s)(a \<mapsto> j\<lparr>sj_control := c\<rparr>)"] exI [of _ h] exI [of _ tr])
      (use assms id in \<open>auto simp: set_job_def split: option.splits\<close>)
qed

lemma rs_inv_same_jobs:
  assumes "rs_inv s" and "same_jobs s s'"
  shows "rs_inv s'"
proof -
  from assms(2) obtain store h tr where s': "s' = s\<lparr>rs_store := store, rs_heap := h, rs_invoked := tr\<rparr>"
    and rel: "\<And>a. case rs_store s a of None \<Rightarrow> store a = None
        | Some j \<Rightarrow> \<exists>c. store a = Some (j\<lparr>sj_control := c\<rparr>)"
    by (auto simp: same_jobs_def)
  have st: "(store a = None) = (rs_store s a = None)"
      "rs_store s a = Some j \<Longrightarrow> \<exists>c. store a = Some (j\<lparr>sj_control := c\<rparr>)"
      "store a = Some k \<Longrightarrow> \<exists>j c. rs_store s a = Some j \<and> k = j\<lparr>sj_control := c\<rparr>" for a j k
    using rel [of a] by (auto split: option.splits)
  have jid: "rs_jid store = rs_jid (rs_store s)" and jmode: "rs_jmode store = rs_jmode (rs_store s)"
    using rel by (force simp: rs_jid_def rs_jmode_def fun_eq_iff map_option_case split: option.splits)+
  have un: "rs_unresolved store = rs_unresolved (rs_store s)"
    using st(2,3) by (fastforce simp: rs_unresolved_def)
  have ow: "rs_owned s' = rs_owned s" by (simp add: rs_owned_def s')
  have "rs_index_inv s'" using assms(1) by (simp add: rs_inv_def rs_index_inv_def jid s')
  moreover have "rs_state_inv s'"
    using assms(1) st by (fastforce simp: rs_inv_def rs_state_inv_def s')
  moreover have "rs_history_inv s'" using assms(1) by (simp add: rs_inv_def rs_history_inv_def s')
  moreover have "rs_record_inv s'"
    using assms(1) st(3) by (fastforce simp: rs_inv_def rs_record_inv_def record_ok_def s')
  moreover have "rs_count_inv s'" using assms(1) by (simp add: rs_inv_def rs_count_inv_def jmode s')
  moreover have "rs_account_inv s'" using assms(1) by (simp add: rs_inv_def rs_account_inv_def s')
  moreover have "rs_owner_inv s'" using assms(1) by (simp add: rs_inv_def rs_owner_inv_def ow) (simp add: un s')
  moreover have "rs_result_inv s'"
    using assms(1) st(3) by (fastforce simp: rs_inv_def rs_result_inv_def s')
  moreover have "rs_phase_inv s'" using assms(1) by (simp add: rs_inv_def rs_phase_inv_def s')
  ultimately show ?thesis by (simp add: rs_inv_def)
qed


section \<open>Completing a job\<close>

definition job_sim :: "scheduled_job \<Rightarrow> scheduled_job \<Rightarrow> bool" where
  "job_sim j k \<longleftrightarrow> sj_state k = sj_state j \<and> sj_stopRequested k = sj_stopRequested j \<and>
     sj_sequence k = sj_sequence j"

lemma state_inv_sub:
  assumes st: "rs_state_inv s" and "set (rs_queue s') \<subseteq> set (rs_queue s)"
    and "set (rs_active (rs_workers s')) \<subseteq> set (rs_active (rs_workers s))"
    and "rs_next_sequence s' = rs_next_sequence s"
    and dom: "\<And>b. (rs_store s' b = None) = (rs_store s b = None)"
    and sim: "\<And>b j k. rs_store s b = Some j \<Longrightarrow> rs_store s' b = Some k \<Longrightarrow> job_sim j k"
  shows "rs_state_inv s'"
proof -
  have ex: "\<exists>k. rs_store s' b = Some k \<and> job_sim j k" if "rs_store s b = Some j" for b j
    using dom [of b] sim [of b j] that by (cases "rs_store s' b") auto
  have ex': "\<exists>j. rs_store s b = Some j \<and> job_sim j k" if "rs_store s' b = Some k" for b k
    using dom [of b] sim [of b _ k] that by (cases "rs_store s b") auto
  show ?thesis
    unfolding rs_state_inv_def
  proof (intro conjI ballI allI impI)
    fix b assume "b \<in> set (rs_queue s')"
    then show "\<exists>j. rs_store s' b = Some j \<and> sj_state j = Job_Queued \<and> \<not> sj_stopRequested j"
      using st assms(2) ex unfolding rs_state_inv_def job_sim_def by (metis subsetD)
  next
    fix b assume "b \<in> set (rs_active (rs_workers s'))"
    then show "\<exists>j. rs_store s' b = Some j \<and> sj_state j = Job_Running"
      using st assms(3) ex unfolding rs_state_inv_def job_sim_def by (metis subsetD)
  next
    fix b j assume "rs_store s' b = Some j"
    then show "sj_sequence j = of_nat b"
      using st ex' unfolding rs_state_inv_def job_sim_def by metis
  qed (use st assms(4) dom in \<open>auto simp: rs_state_inv_def\<close>)
qed

lemma CompleteRecord_effect:
  assumes "history_ok {} out (rs_records s) (rs_completed_order s)"
    and out: "rs_outstanding s = AList.delete i out" and i: "map_of out i \<noteq> None"
  obtains order recs where
    "rs_CompleteRecordLocked now i r s = Some (s\<lparr>rs_records := recs, rs_completed_order := order\<rparr>)"
    "history_ok {} (rs_outstanding s) recs order"
    "0 < rso_maximumCompletedHistorySize (rs_options s) \<Longrightarrow>
       length order \<le> rso_maximumCompletedHistorySize (rs_options s)"
    "\<And>k q. map_of recs k = Some q \<Longrightarrow> (if k = i then rec_state q = jr_state r \<and> rec_completedAt q = Some now
       else map_of (rs_records s) k = Some q)"
    "set order \<subseteq> insert i (set (rs_completed_order s))"
proof -
  from assms obtain rec where rec: "map_of (rs_records s) i = Some rec"
    unfolding history_ok_def by blast
  let ?rec = "rec\<lparr>rec_state := jr_state r, rec_result := r, rec_completedAt := Some now\<rparr>"
  obtain order recs where pr: "prune_completed (rso_maximumCompletedHistorySize (rs_options s))
      (\<lambda>k. map_of (AList.delete i out) k \<noteq> None) (rs_completed_order s @ [i])
      (AList.update i ?rec (rs_records s)) = (order, recs)"
    by (rule prod.exhaust)
  note h = history_ok_complete [OF assms(1) i pr]
  show thesis
  proof (rule that)
    show "rs_CompleteRecordLocked now i r s = Some (s\<lparr>rs_records := recs, rs_completed_order := order\<rparr>)"
      using pr by (simp add: rs_CompleteRecordLocked_def update_record_def rec PruneCompletedHistoryLocked_def out)
    show "history_ok {} (rs_outstanding s) recs order" using h(1) by (simp add: out)
    show "if k = i then rec_state q = jr_state r \<and> rec_completedAt q = Some now
       else map_of (rs_records s) k = Some q" if "map_of recs k = Some q" for k q
      using h(3) [rule_format, OF that] by (auto split: if_splits)
  qed (fact h(2), fact h(4))
qed

lemma rs_complete:
  assumes core: "rs_core s" and a: "rs_store s a = Some j" "i = job_id (sj_job j)"
    and ms: "mset (rs_queue s @ rs_active (rs_workers s)) = add_mset a (mset (rs_queue s1 @ rs_active (rs_workers s1)))"
    and sub: "set (rs_queue s1) \<subseteq> set (rs_queue s)" "set (rs_active (rs_workers s1)) \<subseteq> set (rs_active (rs_workers s))"
    and s1: "rs_outstanding s1 = AList.delete i (rs_outstanding s)" "rs_records s1 = rs_records s"
      "rs_completed_order s1 = rs_completed_order s" "rs_options s1 = rs_options s"
      "rs_next_sequence s1 = rs_next_sequence s" "rs_store s1 = (rs_store s)(a \<mapsto> j\<lparr>sj_control := c\<rparr>)"
    and r: "state_isTerminal (jr_state r)"
  shows "\<exists>order recs. let s' = s1\<lparr>rs_records := recs, rs_completed_order := order\<rparr> in
    rs_CompleteRecordLocked now i r s1 = Some s' \<and>
    rs_index_inv s' \<and> rs_state_inv s' \<and> rs_history_inv s' \<and> rs_record_inv s'"
proof -
  from core have ix: "index_ok (rs_queue s @ rs_active (rs_workers s)) (rs_jid (rs_store s)) (rs_outstanding s)"
    and st: "rs_state_inv s" and ho: "history_ok {} (rs_outstanding s) (rs_records s) (rs_completed_order s)"
    and ro: "record_ok (rs_outstanding s) (set (rs_completed_order s)) (rs_store s) (map_of (rs_records s))"
    by (auto simp: rs_core_def rs_index_inv_def rs_history_inv_def rs_record_inv_def)
  have jid: "rs_jid (rs_store s1) = rs_jid (rs_store s)" by (auto simp: rs_jid_def s1 a fun_eq_iff)
  have "a \<in># mset (rs_queue s @ rs_active (rs_workers s))" unfolding ms by simp
  then have "a \<in> set (rs_queue s @ rs_active (rs_workers s))" by (simp only: set_mset_mset)
  with ix have oa: "map_of (rs_outstanding s) i = Some a"
    by (simp add: index_ok_iff rs_jid_def a)
  then have i: "map_of (rs_outstanding s) i \<noteq> None" by simp
  from ho have h1: "history_ok {} (rs_outstanding s) (rs_records s1) (rs_completed_order s1)"
    by (simp add: s1)
  obtain order recs where c: "rs_CompleteRecordLocked now i r s1 =
        Some (s1\<lparr>rs_records := recs, rs_completed_order := order\<rparr>)"
      "history_ok {} (rs_outstanding s1) recs order"
      "0 < rso_maximumCompletedHistorySize (rs_options s1) \<Longrightarrow>
         length order \<le> rso_maximumCompletedHistorySize (rs_options s1)"
      "\<And>k q. map_of recs k = Some q \<Longrightarrow> (if k = i then rec_state q = jr_state r \<and> rec_completedAt q = Some now
         else map_of (rs_records s1) k = Some q)"
      "set order \<subseteq> insert i (set (rs_completed_order s1))"
    by (fact CompleteRecord_effect [OF h1 s1(1) i])
  let ?s = "s1\<lparr>rs_records := recs, rs_completed_order := order\<rparr>"
  have "rs_index_inv ?s"
    using index_ok_remove [OF ix, of a i "rs_queue s1 @ rs_active (rs_workers s1)"] ms jid
    by (simp add: rs_index_inv_def s1 rs_jid_def a)
  moreover have "rs_state_inv ?s"
    using st by (rule state_inv_sub) (use sub a in \<open>auto simp: s1 job_sim_def split: if_splits\<close>)
  moreover have "rs_history_inv ?s" using c(2,3) by (simp add: rs_history_inv_def)
  moreover have "rs_record_inv ?s"
    unfolding rs_record_inv_def record_ok_def
  proof (intro allI impI conjI; (elim conjE)?)
    fix k q assume q: "map_of (rs_records ?s) k = Some q"
    {
      assume "k \<in> set (rs_completed_order ?s)"
      with q c(4) [of k q] c(5) ro r show "state_isTerminal (rec_state q)" "rec_completedAt q \<noteq> None"
        by (auto simp: record_ok_def s1 split: if_splits)
    next
      fix b jb assume b: "map_of (rs_outstanding ?s) k = Some b" "rs_store ?s b = Some jb"
      then have k: "k \<noteq> i" "map_of (rs_outstanding s) k = Some b"
        by (auto simp: s1 map_of_delete split: if_splits)
      with oa ix have "b \<noteq> a" by (auto simp: index_ok_iff)
      with q c(4) [of k q] ro k b show "rec_completedAt q = None" "state_isTerminal (rec_state q) = sj_stopRequested jb"
        by (auto simp: record_ok_def s1)
    }
  qed
  ultimately show ?thesis using c(1) by (intro exI [of _ order] exI [of _ recs]) (simp add: Let_def)
qed


section \<open>Records and workers\<close>

lemma rs_active_update:
  "w < length ws \<Longrightarrow> mset (rs_active (ws[w := x])) + mset (worker_job (ws ! w)) =
   mset (rs_active ws) + mset (worker_job x)"
  unfolding rs_active_def by (rule concat_update_mset)

lemma publishing_upd:
  "w < length ws \<Longrightarrow> mset (rs_publishing (ws[w := x])) + mset (worker_publishes (ws ! w)) =
   mset (rs_publishing ws) + mset (worker_publishes x)"
  unfolding rs_publishing_def by (rule concat_update_mset)

lemma worker_lists_same:
  "worker_job x = worker_job (ws ! w) \<Longrightarrow> rs_active (ws[w := x]) = rs_active ws"
  "worker_publishes x = worker_publishes (ws ! w) \<Longrightarrow> rs_publishing (ws[w := x]) = rs_publishing ws"
  by (simp_all add: rs_active_def rs_publishing_def map_update_same)

lemma rs_inv_worker:
  assumes iv: "rs_inv s" and w: "w < length (rs_workers s)" "rs_workers s ! w \<noteq> RW_Exited"
    and x: "worker_job x = worker_job (rs_workers s ! w)"
      "worker_publishes x = worker_publishes (rs_workers s ! w)"
      "\<forall>r \<in> set (worker_results x). state_isTerminal (jr_state r)"
  shows "rs_inv (s\<lparr>rs_workers := (rs_workers s)[w := x]\<rparr>)"
proof -
  note same = worker_lists_same [of x "rs_workers s" w]
  have "rs_shutdown s \<noteq> RShut_Finished"
    using iv w(2) nth_mem [OF w(1)] unfolding rs_inv_def rs_phase_inv_def by blast
  moreover have "\<forall>v \<in> set ((rs_workers s)[w := x]). \<forall>r \<in> set (worker_results v). state_isTerminal (jr_state r)"
    using iv x(3) set_update_subset_insert [of "rs_workers s" w x]
    unfolding rs_inv_def rs_result_inv_def by blast
  ultimately show ?thesis
    using iv same(1) [OF x(1)] same(2) [OF x(2)]
    by (simp add: rs_inv_def rs_index_inv_def rs_state_inv_def rs_history_inv_def rs_record_inv_def
        rs_count_inv_def rs_account_inv_def rs_owner_inv_def rs_owned_def rs_result_inv_def rs_phase_inv_def)
qed

text \<open>A change of a record that keeps its completion time and whether its state is terminal.\<close>

lemma rs_inv_update_record:
  assumes iv: "rs_inv s" and r: "map_of (rs_records s) i = Some r"
    and f: "rec_completedAt (f r) = rec_completedAt r"
      "state_isTerminal (rec_state (f r)) = state_isTerminal (rec_state r)"
  shows "\<exists>s'. update_record i f s = Some s' \<and> rs_inv s'"
proof -
  have "history_ok {} (rs_outstanding s) (AList.update i (f r) (rs_records s)) (rs_completed_order s)"
    using iv r by (auto simp: rs_inv_def rs_history_inv_def history_ok_def keys_ok_update map_of_update)
  moreover have "record_ok (rs_outstanding s) (set (rs_completed_order s)) (rs_store s)
      (map_of (AList.update i (f r) (rs_records s)))"
    using iv r f by (auto simp: rs_inv_def rs_record_inv_def record_ok_def map_of_update)
  ultimately show ?thesis
    using iv r by (simp add: update_record_def rs_inv_def rs_index_inv_def rs_state_inv_def rs_history_inv_def
        rs_record_inv_def rs_count_inv_def rs_account_inv_def rs_owner_inv_def rs_owned_def
        rs_result_inv_def rs_phase_inv_def)
qed

section \<open>Pause and resume\<close>

lemma outstanding_record:
  assumes "rs_inv s" and "map_of (rs_outstanding s) i = Some a"
  shows "\<exists>r. map_of (rs_records s) i = Some r"
  using assms unfolding rs_inv_def rs_history_inv_def history_ok_def by blast

lemma FindOutstanding_Some:
  assumes iv: "rs_inv s" and "FindOutstandingLocked i s = Some (a, j)"
  shows "map_of (rs_outstanding s) i = Some a" and "rs_store s a = Some j"
    and "job_id (sj_job j) = i" and "a \<in> set (rs_queue s) \<union> set (rs_active (rs_workers s))"
proof -
  from assms(2) show o: "map_of (rs_outstanding s) i = Some a" and a: "rs_store s a = Some j"
    by (auto simp: FindOutstandingLocked_def split: option.splits)
  from iv o have "a \<in> set (rs_queue s @ rs_active (rs_workers s)) \<and> rs_jid (rs_store s) a = Some i"
    using index_ok_iff [of "rs_queue s @ rs_active (rs_workers s)" "rs_jid (rs_store s)"]
    by (simp add: rs_inv_def rs_index_inv_def)
  with a show "job_id (sj_job j) = i" and "a \<in> set (rs_queue s) \<union> set (rs_active (rs_workers s))"
    by (auto simp: rs_jid_def)
qed

lemma SetPaused_same_jobs: "rs_store s a = Some j \<Longrightarrow> same_jobs s (set_job a (SetPaused b j) s)"
  using same_jobs_set_control [of s a j "(sj_control j)\<lparr>ctl_paused := b\<rparr>" "rs_invoked s" "rs_heap s"]
  by (simp add: SetPaused_def)

lemma control_record_inv:
  assumes iv: "rs_inv s" and "FindOutstandingLocked i s = Some (a, j)" and "\<not> IsTerminalLocked i s"
    and f: "\<And>r. rec_completedAt (f r) = rec_completedAt r" "\<And>r. \<not> state_isTerminal (rec_state (f r))"
  shows "\<exists>s'. update_record i f (set_job a (SetPaused b j) s) = Some s' \<and> rs_inv s'"
proof -
  note fo = FindOutstanding_Some [OF assms(1,2)]
  obtain r where r: "map_of (rs_records s) i = Some r" using outstanding_record [OF iv fo(1)] by blast
  with assms(3) have "\<not> state_isTerminal (rec_state r)" by (simp add: IsTerminalLocked_def)
  moreover have "rs_inv (set_job a (SetPaused b j) s)"
    using iv SetPaused_same_jobs [OF fo(2)] by (rule rs_inv_same_jobs)
  ultimately show ?thesis using f r by (intro rs_inv_update_record [of _ i r]) (auto simp: set_job_def)
qed

lemma Pause_inv: "rs_inv s \<Longrightarrow> Pause i s \<noteq> None \<and> (\<forall>s' b. Pause i s = Some (s', b) \<longrightarrow> rs_inv s')"
proof (cases "FindOutstandingLocked i s")
  case (Some p)
  assume "rs_inv s"
  with Some show ?thesis
    using control_record_inv [of s i "fst p" "snd p" "\<lambda>rec. rec\<lparr>rec_state := State_Paused,
      rec_result := job_result State_Paused ''Runtime job paused''\<rparr>" True]
    by (cases p) (auto simp: Pause_def)
qed (simp add: Pause_def)

lemma Resume_inv: "rs_inv s \<Longrightarrow> Resume i s \<noteq> None \<and> (\<forall>s' b. Resume i s = Some (s', b) \<longrightarrow> rs_inv s')"
proof (cases "FindOutstandingLocked i s")
  case (Some p)
  assume "rs_inv s"
  let ?st = "if sj_state (snd p) = Job_Running then State_Running else State_Created"
  from \<open>rs_inv s\<close> Some show ?thesis
    using control_record_inv [of s i "fst p" "snd p" "\<lambda>rec. rec\<lparr>rec_state := ?st,
      rec_result := job_result ?st ''Runtime job resumed''\<rparr>" False]
    by (cases p) (auto simp: Resume_def Let_def)
qed (simp add: Resume_def)


section \<open>Submission\<close>

lemma rs_reject_inv: "rs_inv s \<Longrightarrow> rs_inv (rs_reject s)"
  by (simp add: rs_reject_def rs_inv_def rs_index_inv_def rs_state_inv_def rs_history_inv_def
      rs_record_inv_def rs_count_inv_def rs_account_inv_def rs_owner_inv_def rs_owned_def
      rs_result_inv_def rs_phase_inv_def)

lemma store_fresh:
  assumes "rs_state_inv s"
  shows "rs_store s (rs_next_sequence s) = None"
    and "rs_next_sequence s \<notin> set (rs_queue s @ rs_active (rs_workers s))"
proof -
  from assms show f: "rs_store s (rs_next_sequence s) = None"
    unfolding rs_state_inv_def by (metis less_irrefl)
  show "rs_next_sequence s \<notin> set (rs_queue s @ rs_active (rs_workers s))"
  proof
    assume "rs_next_sequence s \<in> set (rs_queue s @ rs_active (rs_workers s))"
    with assms have "rs_store s (rs_next_sequence s) \<noteq> None" by (fastforce simp: rs_state_inv_def)
    with f show False by simp
  qed
qed

lemma new_scheduled_job_fields:
  assumes "new_scheduled_job job a h = (h', j)"
  shows "sj_job j = job" "sj_sequence j = of_nat a" "sj_promise j = None" "sj_state j = Job_Queued"
    "\<not> sj_stopRequested j"
  using assms by (auto simp: new_scheduled_job_def split: prod.splits)

lemma record_ok_insert:
  assumes "record_ok out order store recs" and "map_of out i = None" and "i \<notin> order"
    and "\<not> state_isTerminal (rec_state r)" "rec_completedAt r = None" "\<not> sj_stopRequested j"
    and "\<forall>k b. map_of out k = Some b \<longrightarrow> b \<noteq> a"
  shows "record_ok (emplace i a out) order (store(a \<mapsto> j)) (recs(i \<mapsto> r))"
  using assms by (auto simp: record_ok_def map_of_emplace split: if_splits)

lemma rs_accept_inv:
  assumes iv: "rs_inv s" and ok: "rs_submit_refusal job s = None"
  shows "rs_inv (rs_accept now job s)"
proof -
  let ?a = "rs_next_sequence s" and ?i = "job_id job"
  obtain h j where hj: "new_scheduled_job job ?a (rs_heap s) = (h, j)" by fastforce
  note j = new_scheduled_job_fields [OF hj]
  from ok have acc: "rs_accepting s" "map_of (rs_records s) ?i = None"
      "length (rs_queue s) < rso_maximumQueueSize (rs_options s)"
    by (auto simp: rs_submit_refusal_def not_le split: if_splits)
  from iv have st: "rs_state_inv s" by (simp add: rs_inv_def)
  note fresh = store_fresh [OF st]
  have ho: "history_ok {} (rs_outstanding s) (rs_records s) (rs_completed_order s)"
    using iv by (simp add: rs_inv_def rs_history_inv_def)
  then have out: "map_of (rs_outstanding s) ?i = None" "?i \<notin> set (rs_completed_order s)"
    using acc(2) unfolding history_ok_def by blast+
  have ix: "index_ok (rs_queue s @ rs_active (rs_workers s)) (rs_jid (rs_store s)) (rs_outstanding s)"
    using iv by (simp add: rs_inv_def rs_index_inv_def)
  have jid: "rs_jid ((rs_store s)(?a \<mapsto> j)) = (rs_jid (rs_store s))(?a \<mapsto> ?i)"
    by (simp add: rs_jid_def fun_eq_iff j)
  have s': "rs_accept now job s = s\<lparr>rs_next_sequence := Suc ?a, rs_heap := h,
      rs_store := (rs_store s)(?a \<mapsto> j),
      rs_records := emplace ?i (MakeInitialSnapshot now j) (rs_records s),
      rs_outstanding := emplace ?i ?a (rs_outstanding s), rs_queue := rs_queue s @ [?a],
      rs_statistics := (rs_statistics s)\<lparr>rst_accepted := rst_accepted (rs_statistics s) + 1,
        rst_highWatermark := max (rst_highWatermark (rs_statistics s)) (Suc (length (rs_queue s)))\<rparr>\<rparr>"
    by (simp add: rs_accept_def hj Let_def)
  have "rs_index_inv (rs_accept now job s)"
    unfolding rs_index_inv_def s'
    by (simp add: jid, rule index_ok_insert [OF ix fresh(2) out(1)])
      (use ix fresh(2) in \<open>auto simp: index_ok_def\<close>)
  moreover have "rs_state_inv (rs_accept now job s)"
    using st fresh j by (auto simp: s' rs_state_inv_def less_Suc_eq)
  moreover have "rs_history_inv (rs_accept now job s)"
    using iv ho acc(2) out
    by (auto simp: s' rs_inv_def rs_history_inv_def history_ok_def keys_ok_emplace map_of_emplace)
  moreover have "rs_record_inv (rs_accept now job s)"
    unfolding rs_record_inv_def s'
  proof (simp add: map_of_emplace acc(2), rule record_ok_insert)
    show "record_ok (rs_outstanding s) (set (rs_completed_order s)) (rs_store s) (map_of (rs_records s))"
      using iv by (simp add: rs_inv_def rs_record_inv_def)
    show "\<forall>k b. map_of (rs_outstanding s) k = Some b \<longrightarrow> b \<noteq> ?a"
      using ix fresh(2) by (auto simp: index_ok_iff)
  qed (use out j in \<open>simp_all add: MakeInitialSnapshot_def\<close>)
  moreover have "rs_count_inv (rs_accept now job s)"
    using iv acc(3) fresh(2) by (auto simp: s' rs_inv_def rs_count_inv_def rs_jmode_def)
  moreover have "rs_account_inv (rs_accept now job s)"
    using iv by (simp add: s' rs_inv_def rs_account_inv_def length_emplace [OF out(1)])
  moreover have "rs_owner_inv (rs_accept now job s)"
    using iv fresh(1) j(3) by (auto simp: s' rs_inv_def rs_owner_inv_def rs_owned_def rs_unresolved_def)
  moreover have "rs_result_inv (rs_accept now job s)"
    using iv j(3) by (auto simp: s' rs_inv_def rs_result_inv_def split: if_splits)
  moreover have "rs_phase_inv (rs_accept now job s)"
    using iv acc(1) by (auto simp: s' rs_inv_def rs_phase_inv_def)
  ultimately show ?thesis by (simp add: rs_inv_def)
qed

lemma rs_Submit_inv: "rs_inv s \<Longrightarrow> rs_inv (fst (rs_Submit now job s))"
  by (auto simp: rs_Submit_def rs_reject_inv rs_accept_inv split: option.splits)

section \<open>Promises and stop requests\<close>

lemma request_stop_same_jobs:
  "rs_store s a \<noteq> None \<Longrightarrow> same_jobs s (request_stop_job a s)"
  by (auto simp: request_stop_job_def split: prod.splits intro!: same_jobs_set_control)

lemma rs_core_promise:
  assumes "rs_core s" and "rs_phase_inv s" and a: "rs_store s a = Some j"
  shows "rs_core (set_job a (j\<lparr>sj_promise := p\<rparr>) s)" and "rs_phase_inv (set_job a (j\<lparr>sj_promise := p\<rparr>) s)"
proof -
  let ?s = "set_job a (j\<lparr>sj_promise := p\<rparr>) s"
  have jid: "rs_jid (rs_store ?s) = rs_jid (rs_store s)" and jm: "rs_jmode (rs_store ?s) = rs_jmode (rs_store s)"
    using a by (auto simp: set_job_def rs_jid_def rs_jmode_def fun_eq_iff)
  have "rs_index_inv ?s" using assms(1) jid by (simp add: rs_core_def rs_index_inv_def set_job_def)
  moreover have "rs_state_inv ?s"
    by (rule state_inv_sub [of s]) (use assms(1) a in \<open>auto simp: set_job_def job_sim_def rs_core_def split: if_splits\<close>)
  moreover have "rs_history_inv ?s" using assms(1) by (simp add: rs_core_def rs_history_inv_def set_job_def)
  moreover have "rs_record_inv ?s"
    using assms(1) a by (auto simp: rs_core_def rs_record_inv_def record_ok_def set_job_def split: if_splits)
  moreover have "rs_count_inv ?s" using assms(1) jm by (simp add: rs_core_def rs_count_inv_def set_job_def)
  moreover have "rs_account_inv ?s" using assms(1) by (simp add: rs_core_def rs_account_inv_def set_job_def)
  ultimately show "rs_core ?s" by (simp add: rs_core_def)
  show "rs_phase_inv ?s" using assms(2) by (simp add: rs_phase_inv_def set_job_def)
qed

text \<open>The party that satisfies a promise gives up its ownership in the same step.\<close>

lemma rs_inv_promise:
  assumes "rs_core s" "rs_result_inv s" "rs_phase_inv s"
    and ow: "\<And>b. count (add_mset a (rs_owned s)) b = of_bool (b \<in> rs_unresolved (rs_store s))"
    and r: "state_isTerminal (jr_state r)"
  shows "rs_inv (SetPromiseSafely a r s)"
proof -
  have "count (add_mset a (rs_owned s)) a > 0" by simp
  with ow [of a] have "a \<in> rs_unresolved (rs_store s)" by (simp split: if_splits)
  then obtain j where j: "rs_store s a = Some j" "sj_promise j = None"
    by (auto simp: rs_unresolved_def)
  let ?s = "set_job a (j\<lparr>sj_promise := Some r\<rparr>) s"
  have "rs_owner_inv ?s"
    unfolding rs_owner_inv_def
  proof
    fix b
    show "count (rs_owned ?s) b = of_bool (b \<in> rs_unresolved (rs_store ?s))"
      using ow [of b] j by (cases "b = a") (auto simp: set_job_def rs_owned_def rs_unresolved_def)
  qed
  moreover have "rs_result_inv ?s"
    using assms(2) r by (auto simp: rs_result_inv_def set_job_def split: if_splits)
  ultimately show ?thesis
    using rs_core_promise [OF assms(1,3) j(1), of "Some r"] j by (simp add: SetPromiseSafely_def rs_inv_core)
qed


lemma request_stop_inv: "rs_inv s \<Longrightarrow> rs_inv (request_stop_job a s)"
proof (cases "rs_store s a = None")
  case False
  assume "rs_inv s"
  then show ?thesis using request_stop_same_jobs [OF False] by (rule rs_inv_same_jobs)
qed (simp add: request_stop_job_def)

lemma request_stop_frame:
  "request_stop_job a (s\<lparr>rs_pending := acts\<rparr>) = (request_stop_job a s)\<lparr>rs_pending := acts\<rparr>"
  "request_stop_job a (s\<lparr>rs_shutdown := ph\<rparr>) = (request_stop_job a s)\<lparr>rs_shutdown := ph\<rparr>"
  "rs_pending (request_stop_job a s) = rs_pending s" "rs_shutdown (request_stop_job a s) = rs_shutdown s"
  by (simp_all add: request_stop_job_def set_job_def split: option.split prod.split)

lemma promise_acts_simps [simp]:
  "promise_acts [] = []" "promise_acts ((a, None) # acts) = promise_acts acts"
  "promise_acts ((a, Some r) # acts) = a # promise_acts acts"
  "promise_acts (acts @ acts') = promise_acts acts @ promise_acts acts'"
  by (simp_all add: promise_acts_def)

lemma promise_acts_erase:
  assumes "k < length acts"
  shows "mset (promise_acts acts) = mset (promise_acts [acts ! k]) + mset (promise_acts (erase_at k acts))"
proof -
  have pa: "mset (promise_acts xs) = image_mset fst (filter_mset (\<lambda>(a, r). r \<noteq> None) (mset xs))" for xs
    by (simp add: promise_acts_def)
  have "mset acts = mset (acts ! k # erase_at k acts)" using mset_erase_at [OF assms] by simp
  then have "mset (promise_acts acts) = mset (promise_acts (acts ! k # erase_at k acts))"
    unfolding pa by (rule arg_cong)
  then show ?thesis using promise_acts_simps(4) [of "[acts ! k]" "erase_at k acts"] by simp
qed

lemma rs_drop_action:
  assumes iv: "rs_inv s" and ph: "rs_phase_inv (s\<lparr>rs_pending := acts, rs_shutdown := ph\<rparr>)"
    and ow: "mset (promise_acts (rs_pending s)) + mset (promise_acts (rs_delivering (rs_shutdown s))) =
      mset (promise_acts [act]) + mset (promise_acts acts) + mset (promise_acts (rs_delivering ph))"
    and sub: "insert act (set acts \<union> set (rs_delivering ph)) \<subseteq>
      set (rs_pending s) \<union> set (rs_delivering (rs_shutdown s))"
  shows "rs_inv (stop_and_promise act (s\<lparr>rs_pending := acts, rs_shutdown := ph\<rparr>))"
proof -
  obtain a r where act: "act = (a, r)" by fastforce
  define s1 where "s1 = request_stop_job a s"
  have iv1: "rs_inv s1" unfolding s1_def using iv by (rule request_stop_inv)
  have f: "rs_pending s1 = rs_pending s" "rs_shutdown s1 = rs_shutdown s"
    by (simp_all add: s1_def request_stop_frame)
  let ?s = "s1\<lparr>rs_pending := acts, rs_shutdown := ph\<rparr>"
  have st: "request_stop_job a (s\<lparr>rs_pending := acts, rs_shutdown := ph\<rparr>) = ?s"
    by (simp add: s1_def request_stop_frame)
  have "same_jobs s s1 \<or> s1 = s"
    using request_stop_same_jobs [of s a]
    by (cases "rs_store s a = None") (simp_all add: s1_def request_stop_job_def)
  then have ph1: "rs_phase_inv ?s" using ph by (auto simp: rs_phase_inv_def same_jobs_def)
  have core: "rs_core ?s"
    using iv1 by (simp add: rs_inv_core rs_core_def rs_index_inv_def rs_state_inv_def rs_history_inv_def
        rs_record_inv_def rs_count_inv_def rs_account_inv_def)
  have ri: "rs_result_inv s1" using iv1 by (simp add: rs_inv_def)
  then have "\<forall>(a, r) \<in> set acts \<union> set (rs_delivering ph). \<forall>q. r = Some q \<longrightarrow> state_isTerminal (jr_state q)"
    using sub unfolding rs_result_inv_def f by blast
  with ri have res: "rs_result_inv ?s" by (simp add: rs_result_inv_def)
  have "mset (promise_acts [act]) + rs_owned ?s = rs_owned s1"
    using ow by (simp add: rs_owned_def f ac_simps)
  then have owned: "count (mset (promise_acts [act]) + rs_owned ?s) b = of_bool (b \<in> rs_unresolved (rs_store ?s))" for b
    using iv1 by (simp add: rs_inv_def rs_owner_inv_def)
  show ?thesis
  proof (cases r)
    case None
    with owned core res ph1 show ?thesis
      by (simp add: stop_and_promise_def act st rs_inv_core rs_owner_inv_def)
  next
    case (Some q)
    have "state_isTerminal (jr_state q)"
      using iv sub Some act unfolding rs_inv_def rs_result_inv_def by blast
    then show ?thesis
      using rs_inv_promise [OF core res ph1, of a q] owned Some
      by (simp add: stop_and_promise_def act st)
  qed
qed

lemma rs_deliver_inv:
  assumes iv: "rs_inv s" and k: "k < length (rs_pending s)"
  shows "rs_inv (rs_deliver k s)"
proof -
  have "rs_inv (stop_and_promise (rs_pending s ! k)
      (s\<lparr>rs_pending := erase_at k (rs_pending s), rs_shutdown := rs_shutdown s\<rparr>))"
  proof (rule rs_drop_action [OF iv])
    show "insert (rs_pending s ! k) (set (erase_at k (rs_pending s)) \<union> set (rs_delivering (rs_shutdown s)))
      \<subseteq> set (rs_pending s) \<union> set (rs_delivering (rs_shutdown s))"
      using set_erase_at [OF k] by blast
  qed (use iv promise_acts_erase [OF k] in \<open>auto simp: rs_inv_def rs_phase_inv_def\<close>)
  then show ?thesis by (simp add: rs_deliver_def)
qed

lemma rs_shutdown_deliver_inv:
  assumes iv: "rs_inv s" and ph: "rs_shutdown s = RShut_Delivering acts"
  shows "rs_inv (rs_shutdown_deliver s)"
proof (cases acts)
  case Nil
  have "rs_phase_inv (s\<lparr>rs_shutdown := RShut_Joining, rs_stop_requested := True\<rparr>)"
    using iv ph by (auto simp: rs_inv_def rs_phase_inv_def)
  with iv ph Nil show ?thesis
    by (simp add: rs_shutdown_deliver_def rs_inv_def rs_index_inv_def rs_state_inv_def rs_history_inv_def
      rs_record_inv_def rs_count_inv_def rs_account_inv_def rs_owner_inv_def rs_owned_def rs_result_inv_def)
next
  case (Cons act acts')
  have "rs_inv (stop_and_promise act (s\<lparr>rs_pending := rs_pending s, rs_shutdown := RShut_Delivering acts'\<rparr>))"
  proof (rule rs_drop_action [OF iv])
    show "mset (promise_acts (rs_pending s)) + mset (promise_acts (rs_delivering (rs_shutdown s))) =
      mset (promise_acts [act]) + mset (promise_acts (rs_pending s))
        + mset (promise_acts (rs_delivering (RShut_Delivering acts')))"
      using promise_acts_simps(4) [of "[act]" acts'] by (simp add: ph Cons)
  qed (use iv ph Cons in \<open>auto simp: rs_inv_def rs_phase_inv_def\<close>)
  then show ?thesis by (simp add: rs_shutdown_deliver_def ph Cons)
qed

end
