(* ===== verification/Runtime_Scheduler_Workers.thy ===== *)
theory Runtime_Scheduler_Workers
  imports Runtime_Scheduler_Steps
begin

text \<open>
  The remaining steps of the scheduler (stopping a job, starting, finishing and publishing it, the
  shutdown) preserve the invariant, so it holds in every reachable state.
\<close>

section \<open>Stopping a job\<close>

lemma queued_not_active:
  "rs_state_inv s \<Longrightarrow> rs_store s a = Some j \<Longrightarrow> sj_state j = Job_Queued \<Longrightarrow>
   a \<notin> set (rs_active (rs_workers s))"
  by (fastforce simp: rs_state_inv_def)

lemma Stop_queued_inv:
  assumes iv: "rs_inv s" and fo: "FindOutstandingLocked i s = Some (a, j)"
    and j: "sj_state j = Job_Queued"
    and s1: "s1 = s\<lparr>rs_queue := remove1 a (rs_queue s),
       rs_outstanding := AList.delete i (rs_outstanding s),
       rs_statistics := (rs_statistics s)\<lparr>rst_cancelled := rst_cancelled (rs_statistics s) + 1,
         rst_stopped := rst_stopped (rs_statistics s) + 1\<rparr>\<rparr>"
  shows "\<exists>s2. rs_CompleteRecordLocked now i stopped_before_execution s1 = Some s2 \<and>
    rs_inv (s2\<lparr>rs_pending := rs_pending s2 @ [(a, Some stopped_before_execution)]\<rparr>)"
proof -
  note f = FindOutstanding_Some [OF iv fo]
  from iv have core: "rs_core s" and st: "rs_state_inv s" by (auto simp: rs_inv_core rs_core_def)
  have aq: "a \<in> set (rs_queue s)" using f(4) queued_not_active [OF st f(2) j] by simp
  then have ms: "mset (rs_queue s) = add_mset a (mset (remove1 a (rs_queue s)))" by simp
  have "\<exists>order recs. let s' = s1\<lparr>rs_records := recs, rs_completed_order := order\<rparr> in
    rs_CompleteRecordLocked now i stopped_before_execution s1 = Some s' \<and>
    rs_index_inv s' \<and> rs_state_inv s' \<and> rs_history_inv s' \<and> rs_record_inv s'"
  proof (rule rs_complete [OF core f(2) f(3) [symmetric]])
    show "set (rs_queue s1) \<subseteq> set (rs_queue s)" by (simp add: s1 set_remove1_subset)
    show "mset (rs_queue s @ rs_active (rs_workers s)) = add_mset a (mset (rs_queue s1 @ rs_active (rs_workers s1)))"
      using ms by (simp add: s1)
    show "rs_store s1 = (rs_store s)(a \<mapsto> j\<lparr>sj_control := sj_control j\<rparr>)"
      using f(2) by (auto simp: s1)
  qed (simp_all add: s1 stopped_before_execution_def job_result_def)
  then obtain order recs where oc: "let s' = s1\<lparr>rs_records := recs, rs_completed_order := order\<rparr> in
    rs_CompleteRecordLocked now i stopped_before_execution s1 = Some s' \<and>
    rs_index_inv s' \<and> rs_state_inv s' \<and> rs_history_inv s' \<and> rs_record_inv s'" by blast
  let ?s2 = "s1\<lparr>rs_records := recs, rs_completed_order := order\<rparr>"
  from oc have s2: "rs_CompleteRecordLocked now i stopped_before_execution s1 = Some ?s2"
      "rs_index_inv ?s2" "rs_state_inv ?s2" "rs_history_inv ?s2" "rs_record_inv ?s2"
    by (simp_all add: Let_def)
  have cnt: "rs_count_inv ?s2"
    using iv aq by (auto simp: rs_inv_def rs_count_inv_def s1 length_remove1)
  have ac: "rs_account_inv ?s2"
  proof -
    have "keys_ok (rs_outstanding s)" using iv by (simp add: rs_inv_def rs_index_inv_def index_ok_def)
    then have "Suc (length (AList.delete i (rs_outstanding s))) = length (rs_outstanding s)"
      using f(1) by (intro length_delete_key) auto
    then have "(of_nat (length (rs_outstanding s)) :: u64) = 1 + of_nat (length (AList.delete i (rs_outstanding s)))"
      by (metis of_nat_Suc)
    with iv show ?thesis by (simp add: rs_inv_def rs_account_inv_def s1)
  qed
  let ?s3 = "?s2\<lparr>rs_pending := rs_pending ?s2 @ [(a, Some stopped_before_execution)]\<rparr>"
  have "rs_owned ?s3 = rs_owned s" using ms by (simp add: rs_owned_def s1)
  then have "rs_owner_inv ?s3" using iv by (simp add: rs_inv_def rs_owner_inv_def) (simp add: s1)
  moreover have "rs_result_inv ?s3"
    using iv by (auto simp: rs_inv_def rs_result_inv_def s1 stopped_before_execution_def job_result_def)
  moreover have "rs_phase_inv ?s3" using iv by (auto simp: rs_inv_def rs_phase_inv_def s1)
  ultimately have "rs_inv ?s3"
    using s2(2-5) cnt ac by (simp add: rs_inv_def rs_index_inv_def rs_state_inv_def rs_history_inv_def
        rs_record_inv_def rs_count_inv_def rs_account_inv_def)
  with s2(1) show ?thesis by blast
qed

lemma mark_stopped_effect:
  assumes core: "rs_core s" and a: "a \<in> set (rs_active (rs_workers s))"
  shows "\<exists>j st recs. rs_store s a = Some j \<and>
    mark_stopped a msg s = Some (s\<lparr>rs_store := (rs_store s)(a \<mapsto> j\<lparr>sj_stopRequested := True\<rparr>),
      rs_statistics := st, rs_records := recs\<rparr>) \<and>
    rs_core (s\<lparr>rs_store := (rs_store s)(a \<mapsto> j\<lparr>sj_stopRequested := True\<rparr>),
      rs_statistics := st, rs_records := recs\<rparr>)"
proof -
  from core have st: "rs_state_inv s" and ho: "rs_history_inv s" and ro: "rs_record_inv s"
    and ix: "index_ok (rs_queue s @ rs_active (rs_workers s)) (rs_jid (rs_store s)) (rs_outstanding s)"
    by (simp_all add: rs_core_def rs_index_inv_def)
  from st a obtain j where j: "rs_store s a = Some j" "sj_state j = Job_Running"
    by (auto simp: rs_state_inv_def)
  let ?i = "job_id (sj_job j)"
  have o: "map_of (rs_outstanding s) ?i = Some a" using ix a j by (simp add: index_ok_iff rs_jid_def)
  then obtain r where r: "map_of (rs_records s) ?i = Some r"
    using ho unfolding rs_history_inv_def history_ok_def by blast
  define stat where "stat = (if sj_stopRequested j then rs_statistics s
    else (rs_statistics s)\<lparr>rst_stopped := rst_stopped (rs_statistics s) + 1\<rparr>)"
  define r' where "r' = r\<lparr>rec_state := State_Cancelled, rec_result := job_result State_Cancelled msg\<rparr>"
  let ?store = "(rs_store s)(a \<mapsto> j\<lparr>sj_stopRequested := True\<rparr>)"
  let ?s = "s\<lparr>rs_store := ?store, rs_statistics := stat, rs_records := AList.update ?i r' (rs_records s)\<rparr>"
  have eq: "mark_stopped a msg s = Some ?s"
  proof (cases "sj_stopRequested j")
    case True
    then have "rs_store s = ?store" using j by auto
    then have "s = s\<lparr>rs_store := ?store\<rparr>" by simp
    with True show ?thesis
      by (simp add: mark_stopped_def j Let_def update_record_def r r'_def stat_def)
  qed (simp add: mark_stopped_def j Let_def update_record_def r r'_def stat_def set_job_def)
  have jid: "rs_jid ?store = rs_jid (rs_store s)" and jm: "rs_jmode ?store = rs_jmode (rs_store s)"
    using j by (auto simp: rs_jid_def rs_jmode_def fun_eq_iff)
  have aq: "a \<notin> set (rs_queue s)" using ix a by (auto simp: index_ok_def)
  have "rs_index_inv ?s" using ix jid by (simp add: rs_index_inv_def)
  moreover have "rs_state_inv ?s" using st j aq by (auto simp: rs_state_inv_def)
  moreover have "rs_history_inv ?s"
    using ho r o by (auto simp: rs_history_inv_def history_ok_def keys_ok_update map_of_update)
  moreover have "rs_record_inv ?s"
    unfolding rs_record_inv_def record_ok_def
  proof (intro allI impI conjI; (elim conjE)?)
    fix k q assume q: "map_of (rs_records ?s) k = Some q"
    {
      assume "k \<in> set (rs_completed_order ?s)"
      moreover from this have "k \<noteq> ?i" using ho o by (auto simp: rs_history_inv_def history_ok_def)
      ultimately show "state_isTerminal (rec_state q)" "rec_completedAt q \<noteq> None"
        using q ro by (auto simp: rs_record_inv_def record_ok_def map_of_update)
    next
      fix b jb assume b: "map_of (rs_outstanding ?s) k = Some b" "rs_store ?s b = Some jb"
      have "rec_completedAt q = None \<and> state_isTerminal (rec_state q) = sj_stopRequested jb"
      proof (cases "k = ?i")
        case True
        with b o q r ro j show ?thesis
          by (auto simp: rs_record_inv_def record_ok_def map_of_update r'_def)
      next
        case False
        with b(1) o have "b \<noteq> a" using index_ok_iff [OF ix, of k b] index_ok_iff [OF ix, of ?i a] by auto
        with False b q ro show ?thesis by (auto simp: rs_record_inv_def record_ok_def map_of_update)
      qed
      then show "rec_completedAt q = None" "state_isTerminal (rec_state q) = sj_stopRequested jb" by auto
    }
  qed
  moreover have "rs_count_inv ?s" using core jm by (simp add: rs_core_def rs_count_inv_def stat_def)
  moreover have "rs_account_inv ?s" using core by (simp add: rs_core_def rs_account_inv_def stat_def)
  ultimately have "rs_core ?s" by (simp add: rs_core_def)
  with eq j show ?thesis by blast
qed


lemma Stop_inv:
  assumes iv: "rs_inv s"
  shows "Stop now i s \<noteq> None \<and> (\<forall>s' b. Stop now i s = Some (s', b) \<longrightarrow> rs_inv s')"
proof (cases "FindOutstandingLocked i s")
  case (Some p)
  obtain a j where p: "p = (a, j)" by fastforce
  note fo = Some [unfolded p]
  show ?thesis
  proof (cases "IsTerminalLocked i s")
    case nt: False
    show ?thesis
    proof (cases "sj_state j")
      case Job_Queued
      from Stop_queued_inv [OF iv fo this refl, of now] fo nt Job_Queued show ?thesis
        by (auto simp: Stop_def Let_def)
    next
      case Job_Running
      note f = FindOutstanding_Some [OF iv fo]
      from iv have core: "rs_core s" and "rs_state_inv s" by (auto simp: rs_inv_core rs_core_def)
      with f Job_Running have "a \<in> set (rs_active (rs_workers s))" by (fastforce simp: rs_state_inv_def)
      from mark_stopped_effect [OF core this, of "''Runtime job stop requested''"] f(2)
      obtain st recs where m: "mark_stopped a ''Runtime job stop requested'' s =
          Some (s\<lparr>rs_store := (rs_store s)(a \<mapsto> j\<lparr>sj_stopRequested := True\<rparr>),
            rs_statistics := st, rs_records := recs\<rparr>)"
        "rs_core (s\<lparr>rs_store := (rs_store s)(a \<mapsto> j\<lparr>sj_stopRequested := True\<rparr>),
            rs_statistics := st, rs_records := recs\<rparr>)" by auto
      let ?s = "s\<lparr>rs_store := (rs_store s)(a \<mapsto> j\<lparr>sj_stopRequested := True\<rparr>),
            rs_statistics := st, rs_records := recs, rs_pending := rs_pending s @ [(a, None)]\<rparr>"
      have "rs_unresolved (rs_store ?s) = rs_unresolved (rs_store s)"
        using f(2) by (auto simp: rs_unresolved_def)
      then have "rs_owner_inv ?s" using iv by (simp add: rs_inv_def rs_owner_inv_def rs_owned_def)
      moreover have "rs_result_inv ?s"
        using iv f(2) by (auto simp: rs_inv_def rs_result_inv_def split: if_splits)
      moreover have "rs_phase_inv ?s" using iv by (auto simp: rs_inv_def rs_phase_inv_def)
      moreover have "rs_core ?s"
        using m(2) by (simp add: rs_core_def rs_index_inv_def rs_state_inv_def rs_history_inv_def
          rs_record_inv_def rs_count_inv_def rs_account_inv_def)
      ultimately have "rs_inv ?s" by (simp add: rs_inv_core)
      with fo nt Job_Running m(1) show ?thesis by (auto simp: Stop_def)
    qed
  qed (use iv fo in \<open>simp add: Stop_def\<close>)
qed (use iv in \<open>simp add: Stop_def\<close>)

section \<open>Workers\<close>

text \<open>The scan finds the best job that can start, if any.\<close>

definition best_job :: "runtime_scheduler \<Rightarrow> nat list \<Rightarrow> nat option \<Rightarrow> bool" where
  "best_job s L best \<longleftrightarrow> (case best of
     None \<Rightarrow> \<forall>a \<in> set L. \<not> CanStartLocked s a
   | Some k \<Rightarrow> k < length L \<and> CanStartLocked s (L ! k) \<and>
       (\<forall>a \<in> set L. CanStartLocked s a \<longrightarrow> \<not> better_job s a (L ! k)))"

lemma better_job_trans: "better_job s a b \<Longrightarrow> better_job s b c \<Longrightarrow> better_job s a c"
  by (auto simp: better_job_def split: option.splits)

lemma better_job_irrefl: "\<not> better_job s a a"
  by (simp add: better_job_def split: option.split)

lemma find_next_scan_best:
  "rs_queue s = pre @ xs \<Longrightarrow> best_job s pre best \<Longrightarrow>
   best_job s (rs_queue s) (find_next_scan s xs (length pre) best)"
proof (induction xs arbitrary: pre best)
  case Nil
  then show ?case by simp
next
  case (Cons x xs)
  let ?best = "if \<not> CanStartLocked s x then best else case best of None \<Rightarrow> Some (length pre)
    | Some k \<Rightarrow> if better_job s x (rs_queue s ! k) then Some (length pre) else best"
  have "best_job s (pre @ [x]) ?best"
    using Cons.prems
    by (auto simp: best_job_def nth_append better_job_irrefl split: option.splits if_splits
        dest: better_job_trans)
  then have "best_job s (rs_queue s) (find_next_scan s xs (length (pre @ [x])) ?best)"
    using Cons.prems(1) by (intro Cons.IH) auto
  then show ?case by simp
qed

lemma FindNextJobLocked_best: "best_job s (rs_queue s) (FindNextJobLocked s)"
  using find_next_scan_best [of s "[]" "rs_queue s" None]
  by (simp add: FindNextJobLocked_def best_job_def)

lemma length_rs_active: "length (rs_active ws) \<le> length ws"
proof (induction ws)
  case (Cons w ws)
  then show ?case by (cases w) (auto simp: rs_active_def)
qed (simp add: rs_active_def)


lemma job_outstanding:
  assumes "rs_index_inv s" and "a \<in> set (rs_queue s @ rs_active (rs_workers s))" and "rs_store s a = Some j"
  shows "map_of (rs_outstanding s) (job_id (sj_job j)) = Some a"
  using assms index_ok_lookup [of _ _ _ a] by (fastforce simp: rs_index_inv_def rs_jid_def)

lemma worker_not_finished:
  "rs_phase_inv s \<Longrightarrow> w < length (rs_workers s) \<Longrightarrow> rs_workers s ! w \<noteq> RW_Exited \<Longrightarrow>
   rs_shutdown s \<noteq> RShut_Finished"
  unfolding rs_phase_inv_def using nth_mem by blast

lemma result_inv_worker:
  assumes "rs_result_inv s" and "\<forall>r \<in> set (worker_results x). state_isTerminal (jr_state r)"
    and "rs_workers s' = (rs_workers s)[w := x]" "rs_pending s' = rs_pending s" "rs_shutdown s' = rs_shutdown s"
    and "\<And>a j r. rs_store s' a = Some j \<Longrightarrow> sj_promise j = Some r \<Longrightarrow>
      \<exists>k. rs_store s a = Some k \<and> sj_promise k = Some r"
  shows "rs_result_inv s'"
proof -
  have "\<forall>v \<in> set (rs_workers s). \<forall>r \<in> set (worker_results v). state_isTerminal (jr_state r)"
    and pr: "\<And>a j r. rs_store s a = Some j \<Longrightarrow> sj_promise j = Some r \<Longrightarrow> state_isTerminal (jr_state r)"
    using assms(1) by (simp_all add: rs_result_inv_def)
  then have "\<forall>v \<in> insert x (set (rs_workers s)). \<forall>r \<in> set (worker_results v). state_isTerminal (jr_state r)"
    using assms(2) by simp
  then have "\<forall>v \<in> set (rs_workers s'). \<forall>r \<in> set (worker_results v). state_isTerminal (jr_state r)"
    using set_update_subset_insert [of "rs_workers s" w x] unfolding assms(3) by (meson subsetD)
  moreover have "\<forall>a j r. rs_store s' a = Some j \<and> sj_promise j = Some r \<longrightarrow> state_isTerminal (jr_state r)"
    using assms(6) pr by blast
  ultimately show ?thesis using assms(1,4,5) by (simp add: rs_result_inv_def)
qed

lemma start_count_inv:
  assumes cnt: "rs_count_inv s" and can: "CanStartLocked s a" and j: "rs_store s a = Some j"
    and ms: "mset (rs_active ws) = add_mset a (mset (rs_active (rs_workers s)))"
    and ws: "length ws = length (rs_workers s)"
    and store: "rs_jmode store = rs_jmode (rs_store s)"
  shows "rs_count_inv (s\<lparr>rs_queue := erase_at k (rs_queue s), rs_store := store, rs_running_count := rs_running_count s + 1,
    rs_sequential_running := (job_executionMode (sj_job j) = Mode_Sequential),
    rs_statistics := (rs_statistics s)\<lparr>rst_maximumConcurrentRunning :=
        max (rst_maximumConcurrentRunning (rs_statistics s)) (rs_running_count s + 1),
      rst_started := n\<rparr>, rs_workers := ws, rs_records := recs\<rparr>)"
proof -
  from can j have nseq: "\<not> rs_sequential_running s"
    and alone: "job_executionMode (sj_job j) = Mode_Sequential \<Longrightarrow> rs_running_count s = 0"
    by (auto simp: CanStartLocked_def)
  have len: "length (rs_active ws) = Suc (length (rs_active (rs_workers s)))"
    using ms by (metis size_add_mset size_mset)
  have set: "set (rs_active ws) = insert a (set (rs_active (rs_workers s)))"
    using ms by (metis set_mset_add_mset_insert set_mset_mset)
  have "rs_active ws = [b] \<and> job_executionMode (sj_job j) = Mode_Sequential"
    if b: "b \<in> set (rs_active ws)" "rs_jmode (rs_store s) b = Some Mode_Sequential" for b
  proof -
    have "b \<notin> set (rs_active (rs_workers s))" using cnt nseq b(2) by (auto simp: rs_count_inv_def)
    with b set have "b = a" by simp
    with b j have m: "job_executionMode (sj_job j) = Mode_Sequential" by (simp add: rs_jmode_def)
    with alone cnt have "rs_active (rs_workers s) = []" by (simp add: rs_count_inv_def)
    with ms \<open>b = a\<close> m show ?thesis by simp
  qed
  moreover have "length (erase_at k (rs_queue s)) \<le> length (rs_queue s)" by (simp add: erase_at_def)
  moreover have "Suc (length (rs_active (rs_workers s))) \<le> rso_workerCount (rs_options s)"
    using length_rs_active [of ws] len ws cnt by (simp add: rs_count_inv_def)
  ultimately show ?thesis using cnt store len ws by (auto simp: rs_count_inv_def)
qed

lemma start_index_state_inv:
  assumes iv: "rs_inv s" and k: "k < length (rs_queue s)" "rs_queue s ! k = a"
    and j: "rs_store s a = Some j"
    and ms: "mset (rs_active ws) = add_mset a (mset (rs_active (rs_workers s)))"
    and j': "sj_job j' = sj_job j" "sj_sequence j' = sj_sequence j" "sj_state j' = Job_Running"
    and s': "rs_queue s' = erase_at k (rs_queue s)" "rs_workers s' = ws" "rs_store s' = (rs_store s)(a \<mapsto> j')"
      "rs_outstanding s' = rs_outstanding s" "rs_next_sequence s' = rs_next_sequence s"
  shows "rs_index_inv s'" and "rs_state_inv s'"
proof -
  have q: "add_mset a (mset (erase_at k (rs_queue s))) = mset (rs_queue s)" using mset_erase_at [OF k(1)] k(2) by simp
  have jid: "rs_jid ((rs_store s)(a \<mapsto> j')) = rs_jid (rs_store s)"
    using j j' by (auto simp: rs_jid_def fun_eq_iff)
  from iv have ix: "index_ok (rs_queue s @ rs_active (rs_workers s)) (rs_jid (rs_store s)) (rs_outstanding s)"
    and st: "rs_state_inv s" by (auto simp: rs_inv_def rs_index_inv_def)
  show "rs_index_inv s'"
    unfolding rs_index_inv_def s' jid by (rule index_ok_mset [OF ix]) (simp add: ms q [symmetric])
  have "distinct (rs_queue s)" using ix by (simp add: index_ok_def)
  then have "set (erase_at k (rs_queue s)) = set (rs_queue s) - {a}"
    using distinct_erase_at(2) k by metis
  moreover have "set (rs_active ws) = insert a (set (rs_active (rs_workers s)))"
    using ms by (metis set_mset_add_mset_insert set_mset_mset)
  ultimately show "rs_state_inv s'" using st j j' by (auto simp: rs_state_inv_def s')
qed

lemma start_job_inv:
  assumes iv: "rs_inv s" and w: "w < length (rs_workers s)" "rs_workers s ! w = RW_Waiting"
    and k: "k < length (rs_queue s)" and can: "CanStartLocked s (rs_queue s ! k)"
  shows "\<exists>s'. rs_start_job now w k s = Some s' \<and> rs_inv s'"
proof -
  define a where "a = rs_queue s ! k"
  have aq: "a \<in> set (rs_queue s)" using k by (simp add: a_def)
  with iv obtain j where j: "rs_store s a = Some j" "sj_state j = Job_Queued" "\<not> sj_stopRequested j"
    by (auto simp: rs_inv_def rs_state_inv_def)
  let ?i = "job_id (sj_job j)"
  from iv aq j have o: "map_of (rs_outstanding s) ?i = Some a"
    by (intro job_outstanding) (simp_all add: rs_inv_def)
  then obtain r where r: "map_of (rs_records s) ?i = Some r" using outstanding_record [OF iv] by blast
  define ws where "ws = (rs_workers s)[w := RW_Executing a]"
  have ms: "mset (rs_active ws) = add_mset a (mset (rs_active (rs_workers s)))"
    and pu: "rs_publishing ws = rs_publishing (rs_workers s)"
    using rs_active_update [OF w(1), of "RW_Executing a"] worker_lists_same(2) [of "RW_Executing a" "rs_workers s" w]
    by (simp_all add: ws_def w(2))
  define j' where "j' = j\<lparr>sj_state := Job_Running, sj_control := (sj_control j)\<lparr>ctl_execution :=
      SetState State_Running (SetStartTimestamp now (ctl_execution (sj_control j)))\<rparr>\<rparr>"
  define r' where "r' = r\<lparr>rec_state := State_Running, rec_startedAt := Some now,
      rec_result := job_result State_Running ''Runtime job running''\<rparr>"
  define s' where "s' = s\<lparr>rs_queue := erase_at k (rs_queue s), rs_store := (rs_store s)(a \<mapsto> j'),
      rs_running_count := rs_running_count s + 1,
      rs_sequential_running := (job_executionMode (sj_job j) = Mode_Sequential),
      rs_statistics := (rs_statistics s)\<lparr>rst_maximumConcurrentRunning :=
          max (rst_maximumConcurrentRunning (rs_statistics s)) (rs_running_count s + 1),
        rst_started := rst_started (rs_statistics s) + 1\<rparr>, rs_workers := ws,
      rs_records := AList.update ?i r' (rs_records s)\<rparr>"
  have eq: "rs_start_job now w k s = Some s'"
    using j(1) r by (simp add: rs_start_job_def Let_def a_def [symmetric] update_record_def set_job_def
        s'_def ws_def j'_def r'_def)
  have "rs_index_inv s'" "rs_state_inv s'"
    by (rule start_index_state_inv [OF iv k a_def [symmetric] j(1) ms, of j']; simp add: s'_def j'_def)+
  moreover have "rs_history_inv s'"
    using iv r o by (auto simp: rs_inv_def rs_history_inv_def history_ok_def keys_ok_update map_of_update s'_def)
  moreover have "rs_record_inv s'"
    using iv r j o unfolding s'_def rs_inv_def rs_record_inv_def record_ok_def
    by (auto simp: map_of_update r'_def j'_def split: if_splits)
  moreover have "rs_count_inv s'"
    unfolding s'_def using iv can a_def j(1) ms
    by (intro start_count_inv) (auto simp: rs_inv_def ws_def rs_jmode_def j'_def fun_eq_iff)
  moreover have "rs_account_inv s'" using iv by (simp add: rs_inv_def rs_account_inv_def s'_def)
  moreover have "rs_owner_inv s'"
  proof -
    have "rs_owned s' = rs_owned s"
      using ms mset_erase_at [OF k] by (simp add: rs_owned_def s'_def pu a_def)
    moreover have "rs_unresolved (rs_store s') = rs_unresolved (rs_store s)"
      using j(1) by (auto simp: rs_unresolved_def s'_def j'_def)
    ultimately show ?thesis using iv by (simp add: rs_inv_def rs_owner_inv_def)
  qed
  moreover have "rs_result_inv s'"
  proof (rule result_inv_worker [of s "RW_Executing a" _ w])
    show "\<exists>k. rs_store s b = Some k \<and> sj_promise k = Some r"
      if "rs_store s' b = Some l" "sj_promise l = Some r" for b l r
      using that j(1) by (cases "b = a") (auto simp: s'_def j'_def)
  qed (use iv in \<open>simp_all add: rs_inv_def s'_def ws_def\<close>)
  moreover have "rs_phase_inv s'"
  proof -
    have ph: "rs_phase_inv s" and "rs_shutdown s = RShut_None"
      using iv aq by (auto simp: rs_inv_def rs_phase_inv_def)
    then show ?thesis by (simp add: rs_phase_inv_def s'_def)
  qed
  ultimately show ?thesis using eq by (simp add: rs_inv_def)
qed


lemma rs_worker_poll_inv:
  assumes iv: "rs_inv s" and w: "w < length (rs_workers s)" "rs_workers s ! w = RW_Waiting"
  shows "\<exists>s'. rs_worker_poll now w s = Some s' \<and> rs_inv s'"
proof (cases "FindNextJobLocked s")
  case None
  have "rs_inv (s\<lparr>rs_workers := (rs_workers s)[w := RW_Exited]\<rparr>)"
    using iv w by (intro rs_inv_worker) simp_all
  with None iv show ?thesis by (simp add: rs_worker_poll_def)
next
  case (Some k)
  with FindNextJobLocked_best [of s] have "k < length (rs_queue s)" "CanStartLocked s (rs_queue s ! k)"
    by (auto simp: best_job_def)
  from start_job_inv [OF iv w this] Some show ?thesis by (simp add: rs_worker_poll_def)
qed

lemma NormalizeResult_terminal: "state_isTerminal (jr_state (NormalizeResult b r))"
  by (simp add: NormalizeResult_def job_result_def)

lemma rs_worker_return_inv:
  assumes iv: "rs_inv s" and w: "w < length (rs_workers s)" "rs_workers s ! w = RW_Executing a"
  shows "rs_inv (rs_worker_return w oc a s)"
proof (cases "rs_store s a")
  case (Some j)
  show ?thesis unfolding rs_worker_return_def Some option.case
    by (rule rs_inv_worker [OF iv w(1)])
      (auto simp: w(2) NormalizeResult_terminal job_result_def split: outcome.split)
qed (simp add: rs_worker_return_def iv)

lemma rs_job_action_inv:
  assumes iv: "rs_inv s"
  shows "rs_inv (rs_job_action act a s)"
proof (cases "rs_store s a")
  case (Some j)
  show ?thesis
  proof (cases act)
    case JA_RequestCancellation
    have "same_jobs s (rs_job_action act a s)"
      using Some same_jobs_set_control [OF Some]
      by (auto simp: rs_job_action_def JA_RequestCancellation split: prod.split)
    with iv show ?thesis by (rule rs_inv_same_jobs)
  next
    case (JA_Register cb)
    have "same_jobs s (s\<lparr>rs_heap := h, rs_invoked := tr\<rparr>)" for h tr
      using same_jobs_set_control [OF Some, of "sj_control j" tr h] Some
      by (simp add: set_job_def fun_upd_idem)
    then have "same_jobs s (rs_job_action act a s)"
      by (auto simp: rs_job_action_def JA_Register Some split: prod.split)
    with iv show ?thesis by (rule rs_inv_same_jobs)
  qed
qed (simp add: rs_job_action_def iv)

lemma rs_worker_publish_inv:
  assumes iv: "rs_inv s" and w: "w < length (rs_workers s)" "rs_workers s ! w = RW_Publishing a r"
  shows "rs_inv (rs_worker_publish w a r s)"
proof -
  let ?ws = "(rs_workers s)[w := RW_Waiting]"
  let ?s = "s\<lparr>rs_workers := ?ws\<rparr>"
  have act: "rs_active ?ws = rs_active (rs_workers s)"
    using worker_lists_same(1) [of RW_Waiting "rs_workers s" w] w by simp
  have pu: "add_mset a (mset (rs_publishing ?ws)) = mset (rs_publishing (rs_workers s))"
    using publishing_upd [OF w(1), of RW_Waiting] w(2) by simp
  have r: "state_isTerminal (jr_state r)"
    using iv nth_mem [OF w(1)] w(2) by (fastforce simp: rs_inv_def rs_result_inv_def)
  have core: "rs_core ?s"
    using iv act by (simp add: rs_inv_core rs_core_def rs_index_inv_def rs_state_inv_def rs_history_inv_def
        rs_record_inv_def rs_count_inv_def rs_account_inv_def)
  have res: "rs_result_inv ?s"
    by (rule result_inv_worker [of s RW_Waiting _ w]) (use iv in \<open>simp_all add: rs_inv_def\<close>)
  have ph0: "rs_phase_inv s" using iv by (simp add: rs_inv_def)
  have "rs_shutdown s \<noteq> RShut_Finished" by (rule worker_not_finished [OF ph0 w(1)]) (simp add: w(2))
  with ph0 have ph: "rs_phase_inv ?s" by (simp add: rs_phase_inv_def)
  have "add_mset a (rs_owned ?s) = rs_owned s"
    using pu by (simp add: rs_owned_def act)
  then have "count (add_mset a (rs_owned ?s)) b = of_bool (b \<in> rs_unresolved (rs_store ?s))" for b
    using iv by (simp add: rs_inv_def rs_owner_inv_def)
  then show ?thesis unfolding rs_worker_publish_def by (rule rs_inv_promise [OF core res ph _ r])
qed


lemma rs_finish_core:
  assumes core: "rs_core s" and a: "rs_store s a = Some j"
    and ms: "mset (rs_active (rs_workers s)) = add_mset a (mset (rs_active ws))"
    and ws: "length ws = length (rs_workers s)" and r: "state_isTerminal (jr_state r)"
    and s1: "s1 = s\<lparr>rs_running_count := rs_running_count s - 1,
      rs_sequential_running := (if job_executionMode (sj_job j) = Mode_Sequential then False
        else rs_sequential_running s),
      rs_outstanding := AList.delete (job_id (sj_job j)) (rs_outstanding s), rs_workers := ws,
      rs_store := (rs_store s)(a \<mapsto> j\<lparr>sj_control := c\<rparr>)\<rparr>"
  shows "\<exists>order recs. let s2 = s1\<lparr>rs_records := recs, rs_completed_order := order\<rparr> in
    rs_CompleteRecordLocked now (job_id (sj_job j)) r s1 = Some s2 \<and>
    rs_core (s2\<lparr>rs_statistics := RecordTerminalStatisticsLocked (jr_state r) (rs_statistics s2)\<rparr>)"
proof -
  let ?i = "job_id (sj_job j)"
  have sub: "set (rs_active ws) \<subseteq> set (rs_active (rs_workers s))"
    using ms by (metis set_mset_add_mset_insert set_mset_mset subset_insertI)
  have aa: "a \<in> set (rs_active (rs_workers s))" using ms by (metis set_mset_mset union_single_eq_member)
  have "\<exists>order recs. let s' = s1\<lparr>rs_records := recs, rs_completed_order := order\<rparr> in
    rs_CompleteRecordLocked now ?i r s1 = Some s' \<and>
    rs_index_inv s' \<and> rs_state_inv s' \<and> rs_history_inv s' \<and> rs_record_inv s'"
    by (rule rs_complete [OF core a refl _ _ _ _ _ _ _ _ _ r, where c = c])
      (use sub ms in \<open>simp_all add: s1\<close>)
  then obtain order recs where oc: "let s' = s1\<lparr>rs_records := recs, rs_completed_order := order\<rparr> in
    rs_CompleteRecordLocked now ?i r s1 = Some s' \<and>
    rs_index_inv s' \<and> rs_state_inv s' \<and> rs_history_inv s' \<and> rs_record_inv s'" by blast
  let ?s2 = "s1\<lparr>rs_records := recs, rs_completed_order := order\<rparr>"
  let ?s3 = "?s2\<lparr>rs_statistics := RecordTerminalStatisticsLocked (jr_state r) (rs_statistics ?s2)\<rparr>"
  have stat: "rst_highWatermark (RecordTerminalStatisticsLocked q st) = rst_highWatermark st"
    "rst_maximumConcurrentRunning (RecordTerminalStatisticsLocked q st) = rst_maximumConcurrentRunning st"
    "rst_accepted (RecordTerminalStatisticsLocked q st) = rst_accepted st"
    "state_isTerminal q \<Longrightarrow> rst_completed (RecordTerminalStatisticsLocked q st)
       + rst_cancelled (RecordTerminalStatisticsLocked q st) + rst_failed (RecordTerminalStatisticsLocked q st)
     = rst_completed st + rst_cancelled st + rst_failed st + 1" for q st
    by (cases q; simp)+
  have len: "length (rs_active (rs_workers s)) = Suc (length (rs_active ws))"
    using ms by (metis size_add_mset size_mset)
  have "rs_active ws = [] " if "b \<in> set (rs_active ws)" "rs_jmode (rs_store s) b = Some Mode_Sequential" for b
  proof -
    have "rs_active (rs_workers s) = [b]" using core that sub by (auto simp: rs_core_def rs_count_inv_def)
    with len show ?thesis by simp
  qed
  then have "\<forall>b \<in> set (rs_active ws). rs_jmode (rs_store s) b \<noteq> Some Mode_Sequential" by fastforce
  moreover have "rs_jmode ((rs_store s)(a \<mapsto> j\<lparr>sj_control := c\<rparr>)) = rs_jmode (rs_store s)"
    using a by (auto simp: rs_jmode_def fun_eq_iff)
  ultimately have "rs_count_inv ?s3"
    using core len ws by (auto simp: rs_core_def rs_count_inv_def s1 stat)
  moreover have "rs_account_inv ?s3"
  proof -
    have ko: "keys_ok (rs_outstanding s)" using core by (simp add: rs_core_def rs_index_inv_def index_ok_def)
    have "map_of (rs_outstanding s) ?i = Some a"
      using core aa a by (intro job_outstanding) (simp_all add: rs_core_def)
    then have "Suc (length (AList.delete ?i (rs_outstanding s))) = length (rs_outstanding s)"
      using ko by (intro length_delete_key) auto
    then have "(of_nat (length (rs_outstanding s)) :: u64) = 1 + of_nat (length (AList.delete ?i (rs_outstanding s)))"
      by (metis of_nat_Suc)
    with core stat(4) [OF r, of "rs_statistics s"] show ?thesis
      by (simp add: rs_core_def rs_account_inv_def s1 stat)
  qed
  moreover have "rs_index_inv ?s3" "rs_state_inv ?s3" "rs_history_inv ?s3" "rs_record_inv ?s3"
    using oc by (simp_all add: Let_def rs_index_inv_def rs_state_inv_def rs_history_inv_def rs_record_inv_def)
  ultimately show ?thesis
    using oc by (intro exI [of _ order] exI [of _ recs]) (simp add: Let_def rs_core_def)
qed

lemma rs_worker_finish_inv:
  assumes iv: "rs_inv s" and w: "w < length (rs_workers s)" "rs_workers s ! w = RW_Finishing a r"
  shows "\<exists>s'. rs_worker_finish now w a r s = Some s' \<and> rs_inv s'"
proof -
  define ws where "ws = (rs_workers s)[w := RW_Publishing a r]"
  have ms: "mset (rs_active (rs_workers s)) = add_mset a (mset (rs_active ws))"
    and pu: "mset (rs_publishing ws) = add_mset a (mset (rs_publishing (rs_workers s)))"
    using rs_active_update [OF w(1), of "RW_Publishing a r"] publishing_upd [OF w(1), of "RW_Publishing a r"]
    by (simp_all add: ws_def w(2))
  from iv have core: "rs_core s" and ph0: "rs_phase_inv s" and ri: "rs_result_inv s" by (auto simp: rs_inv_core)
  have "a \<in> set (rs_active (rs_workers s))" using ms by (metis set_mset_mset union_single_eq_member)
  with iv obtain j where j: "rs_store s a = Some j" by (auto simp: rs_inv_def rs_state_inv_def)
  have r: "state_isTerminal (jr_state r)"
    using ri nth_mem [OF w(1)] w(2) by (fastforce simp: rs_result_inv_def)
  define c where "c = (sj_control j)\<lparr>ctl_execution := SetState (jr_state r) (ctl_execution (sj_control j))\<rparr>"
  define s1 where "s1 = s\<lparr>rs_running_count := rs_running_count s - 1,
      rs_sequential_running := (if job_executionMode (sj_job j) = Mode_Sequential then False
        else rs_sequential_running s),
      rs_outstanding := AList.delete (job_id (sj_job j)) (rs_outstanding s), rs_workers := ws,
      rs_store := (rs_store s)(a \<mapsto> j\<lparr>sj_control := c\<rparr>)\<rparr>"
  have len: "length ws = length (rs_workers s)" by (simp add: ws_def)
  obtain order recs where s2: "let s2 = s1\<lparr>rs_records := recs, rs_completed_order := order\<rparr> in
      rs_CompleteRecordLocked now (job_id (sj_job j)) r s1 = Some s2 \<and>
      rs_core (s2\<lparr>rs_statistics := RecordTerminalStatisticsLocked (jr_state r) (rs_statistics s2)\<rparr>)"
    using rs_finish_core [OF core j ms len r s1_def, of now] by blast
  let ?s2 = "s1\<lparr>rs_records := recs, rs_completed_order := order\<rparr>"
  let ?s3 = "?s2\<lparr>rs_statistics := RecordTerminalStatisticsLocked (jr_state r) (rs_statistics ?s2)\<rparr>"
  have "(if 0 < rs_running_count s then rs_running_count s - 1 else rs_running_count s) = rs_running_count s - 1"
    by simp
  then have eq: "rs_worker_finish now w a r s = Some ?s3"
    using s2 by (simp add: rs_worker_finish_def j Let_def set_job_def s1_def ws_def c_def)
  have "rs_owned ?s3 = rs_owned s" by (simp add: rs_owned_def s1_def ms pu)
  moreover have "rs_unresolved (rs_store ?s3) = rs_unresolved (rs_store s)"
    using j by (auto simp: rs_unresolved_def s1_def)
  ultimately have "rs_owner_inv ?s3" using iv by (simp add: rs_inv_def rs_owner_inv_def)
  moreover have "rs_result_inv ?s3"
  proof (rule result_inv_worker [OF ri, of "RW_Publishing a r" _ w])
    show "\<exists>k. rs_store s b = Some k \<and> sj_promise k = Some q"
      if "rs_store ?s3 b = Some l" "sj_promise l = Some q" for b l q
      using that j by (cases "b = a") (auto simp: s1_def)
  qed (use r in \<open>simp_all add: s1_def ws_def\<close>)
  moreover have "rs_shutdown s \<noteq> RShut_Finished" by (rule worker_not_finished [OF ph0 w(1)]) (simp add: w(2))
  with ph0 have "rs_phase_inv ?s3" by (simp add: rs_phase_inv_def s1_def)
  ultimately have "rs_inv ?s3" using s2 by (simp add: rs_inv_core Let_def)
  with eq show ?thesis by blast
qed


section \<open>Shutdown\<close>

lemma complete_frame:
  assumes "rs_CompleteRecordLocked now i r (s\<lparr>rs_queue := q\<rparr>) =
     Some (s\<lparr>rs_queue := q, rs_records := recs, rs_completed_order := order\<rparr>)"
  shows "rs_CompleteRecordLocked now i r s = Some (s\<lparr>rs_records := recs, rs_completed_order := order\<rparr>)"
proof -
  from assms obtain rec where rec: "map_of (rs_records s) i = Some rec"
    by (auto simp: rs_CompleteRecordLocked_def update_record_def split: option.splits)
  let ?rec = "rec\<lparr>rec_state := jr_state r, rec_result := r, rec_completedAt := Some now\<rparr>"
  obtain order' recs' where pr: "prune_completed (rso_maximumCompletedHistorySize (rs_options s))
      (\<lambda>k. map_of (rs_outstanding s) k \<noteq> None) (rs_completed_order s @ [i])
      (AList.update i ?rec (rs_records s)) = (order', recs')" by (rule prod.exhaust)
  have "rs_CompleteRecordLocked now i r (s\<lparr>rs_queue := q\<rparr>) =
      Some (s\<lparr>rs_queue := q, rs_records := recs', rs_completed_order := order'\<rparr>)"
    and eq: "rs_CompleteRecordLocked now i r s = Some (s\<lparr>rs_records := recs', rs_completed_order := order'\<rparr>)"
    using pr by (simp_all add: rs_CompleteRecordLocked_def update_record_def rec PruneCompletedHistoryLocked_def)
  with assms have "s\<lparr>rs_queue := q, rs_records := recs, rs_completed_order := order\<rparr> =
      s\<lparr>rs_queue := q, rs_records := recs', rs_completed_order := order'\<rparr>" by simp
  from arg_cong [OF this, of rs_records] arg_cong [OF this, of rs_completed_order] eq show ?thesis by simp
qed

lemma shutdown_cancel_one:
  assumes core: "rs_core (s\<lparr>rs_queue := a # as\<rparr>)"
  shows "\<exists>j order recs. rs_store s a = Some j \<and>
    (let i = job_id (sj_job j);
         s1 = s\<lparr>rs_outstanding := AList.delete i (rs_outstanding s),
            rs_statistics := (rs_statistics s)\<lparr>rst_cancelled := rst_cancelled (rs_statistics s) + 1\<rparr>\<rparr>;
         s2 = s1\<lparr>rs_records := recs, rs_completed_order := order\<rparr> in
     rs_CompleteRecordLocked now i cancelled_during_shutdown s1 = Some s2 \<and> rs_core (s2\<lparr>rs_queue := as\<rparr>))"
proof -
  let ?s = "s\<lparr>rs_queue := a # as\<rparr>"
  from core obtain j where j: "rs_store s a = Some j" by (auto simp: rs_core_def rs_state_inv_def)
  define s1 where "s1 = s\<lparr>rs_outstanding := AList.delete (job_id (sj_job j)) (rs_outstanding s),
    rs_statistics := (rs_statistics s)\<lparr>rst_cancelled := rst_cancelled (rs_statistics s) + 1\<rparr>\<rparr>"
  have "\<exists>order recs. let s' = s1\<lparr>rs_queue := as, rs_records := recs, rs_completed_order := order\<rparr> in
    rs_CompleteRecordLocked now (job_id (sj_job j)) cancelled_during_shutdown (s1\<lparr>rs_queue := as\<rparr>) = Some s' \<and>
    rs_index_inv s' \<and> rs_state_inv s' \<and> rs_history_inv s' \<and> rs_record_inv s'"
    by (rule rs_complete [OF core, of a j _ _ "sj_control j"])
      (use j in \<open>auto simp: s1_def cancelled_during_shutdown_def job_result_def fun_upd_idem\<close>)
  then obtain order recs where oc: "let s' = s1\<lparr>rs_queue := as, rs_records := recs, rs_completed_order := order\<rparr> in
    rs_CompleteRecordLocked now (job_id (sj_job j)) cancelled_during_shutdown (s1\<lparr>rs_queue := as\<rparr>) = Some s' \<and>
    rs_index_inv s' \<and> rs_state_inv s' \<and> rs_history_inv s' \<and> rs_record_inv s'" by blast
  let ?s2 = "s1\<lparr>rs_records := recs, rs_completed_order := order\<rparr>"
  have ko: "keys_ok (rs_outstanding s)" using core by (simp add: rs_core_def rs_index_inv_def index_ok_def)
  have "map_of (rs_outstanding ?s) (job_id (sj_job j)) = Some a"
    using core j by (intro job_outstanding) (simp_all add: rs_core_def)
  then have "Suc (length (AList.delete (job_id (sj_job j)) (rs_outstanding s))) = length (rs_outstanding s)"
    using ko by (intro length_delete_key) auto
  then have "(of_nat (length (rs_outstanding s)) :: u64) =
      1 + of_nat (length (AList.delete (job_id (sj_job j)) (rs_outstanding s)))" by (metis of_nat_Suc)
  then have "rs_account_inv (?s2\<lparr>rs_queue := as\<rparr>)"
    using core by (simp add: rs_core_def rs_account_inv_def s1_def)
  moreover have "rs_count_inv (?s2\<lparr>rs_queue := as\<rparr>)"
    using core by (simp add: rs_core_def rs_count_inv_def s1_def)
  ultimately have "rs_core (?s2\<lparr>rs_queue := as\<rparr>)"
    using oc by (simp add: Let_def rs_core_def rs_index_inv_def rs_state_inv_def rs_history_inv_def rs_record_inv_def)
  moreover have "rs_CompleteRecordLocked now (job_id (sj_job j)) cancelled_during_shutdown s1 = Some ?s2"
    using oc by (intro complete_frame [where s = s1 and q = as]) (simp add: Let_def)
  ultimately show ?thesis
    using j by (intro exI [of _ j] exI [of _ order] exI [of _ recs]) (simp add: Let_def s1_def)
qed

lemma shutdown_cancel_effect:
  assumes "rs_core (s\<lparr>rs_queue := as\<rparr>)"
  shows "\<exists>out recs order st. shutdown_cancel_queued clk as s =
      Some (s\<lparr>rs_outstanding := out, rs_records := recs, rs_completed_order := order, rs_statistics := st\<rparr>) \<and>
    rs_core (s\<lparr>rs_outstanding := out, rs_records := recs, rs_completed_order := order, rs_statistics := st,
      rs_queue := []\<rparr>)"
  using assms
proof (induction as arbitrary: s clk)
  case Nil
  then show ?case
    by (intro exI [of _ "rs_outstanding s"] exI [of _ "rs_records s"] exI [of _ "rs_completed_order s"]
        exI [of _ "rs_statistics s"]) simp
next
  case (Cons a as)
  from shutdown_cancel_one [OF Cons.prems, of "clk 0"] obtain j order recs where j: "rs_store s a = Some j"
    and c: "let i = job_id (sj_job j);
         s1 = s\<lparr>rs_outstanding := AList.delete i (rs_outstanding s),
            rs_statistics := (rs_statistics s)\<lparr>rst_cancelled := rst_cancelled (rs_statistics s) + 1\<rparr>\<rparr>;
         s2 = s1\<lparr>rs_records := recs, rs_completed_order := order\<rparr> in
     rs_CompleteRecordLocked (clk 0) i cancelled_during_shutdown s1 = Some s2 \<and> rs_core (s2\<lparr>rs_queue := as\<rparr>)"
    by blast
  let ?s2 = "s\<lparr>rs_outstanding := AList.delete (job_id (sj_job j)) (rs_outstanding s),
    rs_statistics := (rs_statistics s)\<lparr>rst_cancelled := rst_cancelled (rs_statistics s) + 1\<rparr>,
    rs_records := recs, rs_completed_order := order\<rparr>"
  have step: "shutdown_cancel_queued clk (a # as) s = shutdown_cancel_queued (clk \<circ> Suc) as ?s2"
    using j c by (simp add: Let_def)
  have "rs_core (?s2\<lparr>rs_queue := as\<rparr>)" using c by (simp add: Let_def)
  from Cons.IH [OF this, of "clk \<circ> Suc"] show ?case unfolding step by (simp add: comp_def)
qed

lemma shutdown_mark_effect:
  assumes "rs_core s" and "set as \<subseteq> set (rs_active (rs_workers s))"
  shows "\<exists>store st recs. shutdown_mark_running as s =
      Some (s\<lparr>rs_store := store, rs_statistics := st, rs_records := recs\<rparr>) \<and>
    rs_core (s\<lparr>rs_store := store, rs_statistics := st, rs_records := recs\<rparr>) \<and>
    (\<forall>b. map_option sj_promise (store b) = map_option sj_promise (rs_store s b))"
  using assms
proof (induction as arbitrary: s)
  case Nil
  then show ?case
    by (intro exI [of _ "rs_store s"] exI [of _ "rs_statistics s"] exI [of _ "rs_records s"]) simp
next
  case (Cons a as)
  then have "a \<in> set (rs_active (rs_workers s))" by simp
  from mark_stopped_effect [OF Cons.prems(1) this] obtain j st recs where
    m: "rs_store s a = Some j"
      "mark_stopped a ''Runtime job cancellation requested during scheduler shutdown'' s =
        Some (s\<lparr>rs_store := (rs_store s)(a \<mapsto> j\<lparr>sj_stopRequested := True\<rparr>), rs_statistics := st, rs_records := recs\<rparr>)"
      "rs_core (s\<lparr>rs_store := (rs_store s)(a \<mapsto> j\<lparr>sj_stopRequested := True\<rparr>), rs_statistics := st, rs_records := recs\<rparr>)"
    by blast
  let ?s1 = "s\<lparr>rs_store := (rs_store s)(a \<mapsto> j\<lparr>sj_stopRequested := True\<rparr>), rs_statistics := st, rs_records := recs\<rparr>"
  have "set as \<subseteq> set (rs_active (rs_workers ?s1))" using Cons.prems(2) by simp
  from Cons.IH [OF m(3) this] obtain store st' recs' where
    ih: "shutdown_mark_running as ?s1 = Some (?s1\<lparr>rs_store := store, rs_statistics := st', rs_records := recs'\<rparr>)"
      "rs_core (?s1\<lparr>rs_store := store, rs_statistics := st', rs_records := recs'\<rparr>)"
      "\<forall>b. map_option sj_promise (store b) = map_option sj_promise (rs_store ?s1 b)"
    by blast
  have "\<forall>b. map_option sj_promise (store b) = map_option sj_promise (rs_store s b)"
    using ih(3) m(1) by simp
  with ih(1,2) m(2) show ?case
    by (intro exI [of _ store] exI [of _ st'] exI [of _ recs']) simp
qed


lemma rs_shutdown_start_inv:
  assumes iv: "rs_inv s" and np: "\<not> rs_shutdown_complete s" "\<not> rs_shutdown_in_progress s"
  shows "\<exists>s'. rs_shutdown_start clk s = Some s' \<and> rs_inv s'"
proof -
  let ?s0 = "s\<lparr>rs_shutdown_in_progress := True, rs_accepting := False, rs_queue := []\<rparr>"
  have none: "rs_shutdown s = RShut_None" using iv np by (auto simp: rs_inv_def rs_phase_inv_def)
  have "rs_core (?s0\<lparr>rs_queue := rs_queue s\<rparr>)"
    using iv by (simp add: rs_inv_core rs_core_def rs_index_inv_def rs_state_inv_def rs_history_inv_def
        rs_record_inv_def rs_count_inv_def rs_account_inv_def)
  from shutdown_cancel_effect [OF this, of clk] obtain out recs order st where
    c: "shutdown_cancel_queued clk (rs_queue s) ?s0 = Some (?s0\<lparr>rs_outstanding := out, rs_records := recs,
        rs_completed_order := order, rs_statistics := st\<rparr>)"
      "rs_core (?s0\<lparr>rs_outstanding := out, rs_records := recs,
        rs_completed_order := order, rs_statistics := st, rs_queue := []\<rparr>)"
    by blast
  let ?s1 = "?s0\<lparr>rs_outstanding := out, rs_records := recs, rs_completed_order := order, rs_statistics := st\<rparr>"
  have core1: "rs_core ?s1"
    using c(2) by (simp add: rs_core_def rs_index_inv_def rs_state_inv_def rs_history_inv_def
        rs_record_inv_def rs_count_inv_def rs_account_inv_def)
  then have ix: "index_ok (rs_active (rs_workers s)) (rs_jid (rs_store s)) out"
    by (simp add: rs_core_def rs_index_inv_def)
  have sub: "set (map snd out) \<subseteq> set (rs_active (rs_workers ?s1))"
  proof
    fix a assume "a \<in> set (map snd out)"
    then obtain i where "(i, a) \<in> set out" by auto
    then have "map_of out i = Some a" using ix by (simp add: index_ok_def keys_ok_def)
    then show "a \<in> set (rs_active (rs_workers ?s1))" using index_ok_iff [OF ix, of i a] by simp
  qed
  from shutdown_mark_effect [OF core1 sub] obtain store st' recs' where
    m: "shutdown_mark_running (map snd out) ?s1 = Some (?s1\<lparr>rs_store := store, rs_statistics := st', rs_records := recs'\<rparr>)"
      "rs_core (?s1\<lparr>rs_store := store, rs_statistics := st', rs_records := recs'\<rparr>)"
      "\<forall>b. map_option sj_promise (store b) = map_option sj_promise (rs_store ?s1 b)"
    by blast
  define acts where "acts = map (\<lambda>a. (a, Some cancelled_during_shutdown)) (rs_queue s) @ map (\<lambda>a. (a, None)) (map snd out)"
  let ?s2 = "?s1\<lparr>rs_store := store, rs_statistics := st', rs_records := recs', rs_shutdown := RShut_Delivering acts\<rparr>"
  have eq: "rs_shutdown_start clk s = Some ?s2"
    using c(1) m(1) by (simp add: rs_shutdown_start_def Let_def acts_def)
  have pa: "promise_acts acts = rs_queue s"
    by (simp add: acts_def promise_acts_def filter_map comp_def)
  have "sj_promise j = p \<longleftrightarrow> (\<exists>k. rs_store s b = Some k \<and> sj_promise k = p)" if "store b = Some j" for b j p
    using m(3) [rule_format, of b] that by (cases "rs_store s b") auto
  moreover have "store b = None \<longleftrightarrow> rs_store s b = None" for b
    using m(3) [rule_format, of b] by (cases "rs_store s b"; cases "store b") auto
  ultimately have pr: "(\<exists>j. store b = Some j \<and> sj_promise j = p) \<longleftrightarrow> (\<exists>k. rs_store s b = Some k \<and> sj_promise k = p)" for b p
    by (metis option.exhaust)
  have "rs_unresolved store = rs_unresolved (rs_store s)" by (simp add: rs_unresolved_def pr)
  then have "rs_owner_inv ?s2"
    using iv none by (simp add: rs_inv_def rs_owner_inv_def rs_owned_def pa ac_simps)
  moreover have "rs_result_inv ?s2"
  proof -
    have ri: "rs_result_inv s" using iv by (simp add: rs_inv_def)
    have "\<forall>b j r. store b = Some j \<and> sj_promise j = Some r \<longrightarrow> state_isTerminal (jr_state r)"
    proof (intro allI impI)
      fix b j r assume "store b = Some j \<and> sj_promise j = Some r"
      then have "\<exists>k. rs_store s b = Some k \<and> sj_promise k = Some r" using pr [of b "Some r"] by blast
      then obtain k where "rs_store s b = Some k" "sj_promise k = Some r" by blast
      with ri show "state_isTerminal (jr_state r)" by (simp add: rs_result_inv_def)
    qed
    with ri none show ?thesis
      by (auto simp: rs_result_inv_def acts_def cancelled_during_shutdown_def job_result_def)
  qed
  moreover have "rs_phase_inv ?s2" using iv np none by (simp add: rs_inv_def rs_phase_inv_def)
  moreover have "rs_core ?s2"
    using m(2) by (simp add: rs_core_def rs_index_inv_def rs_state_inv_def rs_history_inv_def
        rs_record_inv_def rs_count_inv_def rs_account_inv_def)
  ultimately show ?thesis using eq by (simp add: rs_inv_core)
qed


lemma rs_Shutdown_inv:
  assumes iv: "rs_inv s"
  shows "case rs_Shutdown caller clk s of
      Entry_Returns s' \<Rightarrow> rs_inv s' | Entry_Performs s' \<Rightarrow> rs_inv s' | Entry_Waits \<Rightarrow> True | Entry_Throws \<Rightarrow> False"
proof -
  have "rs_inv (s\<lparr>rs_accepting := False\<rparr>)"
    using iv by (simp add: rs_inv_def rs_index_inv_def rs_state_inv_def rs_history_inv_def rs_record_inv_def
        rs_count_inv_def rs_account_inv_def rs_owner_inv_def rs_owned_def rs_result_inv_def rs_phase_inv_def)
  then show ?thesis
    using iv rs_shutdown_start_inv [OF iv, of clk] by (auto simp: rs_Shutdown_def)
qed

lemma rs_shutdown_finish_inv:
  assumes iv: "rs_inv s" and ph: "rs_shutdown s = RShut_Joining" and ws: "set (rs_workers s) \<subseteq> {RW_Exited}"
  shows "rs_inv (rs_shutdown_finish s)"
proof -
  have "rs_phase_inv (rs_shutdown_finish s)"
    using iv ph ws by (simp add: rs_inv_def rs_phase_inv_def rs_shutdown_finish_def)
  then show ?thesis
    using iv ph by (simp add: rs_inv_def rs_index_inv_def rs_state_inv_def rs_history_inv_def rs_record_inv_def
        rs_count_inv_def rs_account_inv_def rs_owner_inv_def rs_owned_def rs_result_inv_def rs_shutdown_finish_def)
qed

section \<open>Every reachable state\<close>

lemma rs_create_inv: "rs_create opts = Inr s \<Longrightarrow> rs_inv s"
proof -
  assume "rs_create opts = Inr s"
  moreover have "rs_active (replicate n RW_Starting) = []" "rs_publishing (replicate n RW_Starting) = []" for n
    by (induction n) (simp_all add: rs_active_def rs_publishing_def)
  ultimately show ?thesis
    by (auto simp: rs_create_def rs_inv_def rs_index_inv_def index_ok_def keys_ok_def rs_state_inv_def
        rs_history_inv_def history_ok_def rs_record_inv_def record_ok_def rs_count_inv_def rs_account_inv_def
        rs_owner_inv_def rs_owned_def rs_unresolved_def rs_result_inv_def rs_phase_inv_def
        zero_scheduler_statistics_def split: if_splits)
qed

lemma rs_step_inv:
  assumes "rs_step s e s'" and iv: "rs_inv s"
  shows "rs_inv s'"
  using assms
proof (cases rule: rs_step.cases)
  case (rs_register w)
  then show ?thesis unfolding rs_worker_register_def using rs_inv_worker [OF iv, of w RW_Waiting] by simp
next
  case (rs_poll w now)
  then show ?thesis using rs_worker_poll_inv [OF iv, of w now] by auto
next
  case (rs_finish w a r now)
  then show ?thesis using rs_worker_finish_inv [OF iv, of w a r now] by auto
next
  case (rs_shutdown_worker w clk)
  then show ?thesis using rs_Shutdown_inv [OF iv, of "Some w" clk] by simp
next
  case (rs_shutdown_begin caller clk)
  then show ?thesis using rs_Shutdown_inv [OF iv, of caller clk] by simp
qed (use iv in \<open>auto simp: rs_Submit_inv rs_deliver_inv rs_job_action_inv rs_worker_return_inv
    rs_worker_publish_inv rs_shutdown_deliver_inv rs_shutdown_finish_inv
    dest: Pause_inv Resume_inv Stop_inv\<close>)

lemma rs_run_inv: "rs_run s es s' \<Longrightarrow> rs_inv s \<Longrightarrow> rs_inv s'"
  by (induction rule: rs_run.induct) (auto intro: rs_step_inv)

lemma rs_reachable_inv: "rs_create opts = Inr s0 \<Longrightarrow> rs_run s0 es s \<Longrightarrow> rs_inv s"
  by (blast intro: rs_run_inv rs_create_inv)

end
