(* ===== verification/Runtime_Scheduler_Props.thy ===== *)
theory Runtime_Scheduler_Props
  imports Runtime_Scheduler_Workers
begin

text \<open>What the runtime scheduler guarantees in every state any interleaving can reach.\<close>

section \<open>Exclusive execution\<close>

text \<open>
  C10. A sequential job runs alone: in every reachable state, a worker that executes a sequential job,
  or has yet to record its result, is the only one with a job. At most \<open>workerCount\<close> jobs run and at
  most \<open>maximumQueueSize\<close> wait, and the statistics report these numbers.
\<close>

theorem rs_sequential_exclusive:
  assumes "rs_create opts = Inr s0" and "rs_run s0 es s"
  shows "(\<forall>a \<in> set (rs_active (rs_workers s)). \<forall>j. rs_store s a = Some j \<and>
      job_executionMode (sj_job j) = Mode_Sequential \<longrightarrow> rs_active (rs_workers s) = [a]) \<and>
    rst_running (rs_GetStatistics s) = length (rs_active (rs_workers s)) \<and>
    rst_running (rs_GetStatistics s) \<le> rst_workerCount (rs_GetStatistics s) \<and>
    rst_queued (rs_GetStatistics s) \<le> rst_maximumQueueSize (rs_GetStatistics s)"
proof -
  have "rs_count_inv s" using rs_reachable_inv [OF assms] by (simp add: rs_inv_def)
  then show ?thesis by (auto simp: rs_count_inv_def rs_GetStatistics_def rs_jmode_def)
qed

section \<open>Selection\<close>

definition job_rank :: "runtime_scheduler \<Rightarrow> nat \<Rightarrow> int" where
  "job_rank s a = (case rs_store s a of None \<Rightarrow> -1 | Some j \<Rightarrow> PriorityRank (job_priority (sj_job j)))"

text \<open>With fewer than 2 to the 64 submissions the sequence numbers order the jobs by acceptance.\<close>

lemma not_better_job:
  assumes st: "rs_state_inv s" and n: "rs_next_sequence s \<le> 2 ^ 64"
    and a: "rs_store s a = Some j" and b: "rs_store s b = Some k" and nb: "\<not> better_job s b a"
  shows "job_rank s b < job_rank s a \<or> (job_rank s b = job_rank s a \<and> a \<le> b)"
proof -
  have lt: "a < 2 ^ 64" "b < 2 ^ 64" using st n a b unfolding rs_state_inv_def
    by (metis less_le_trans option.distinct(1))+
  have "sj_sequence j = of_nat a" "sj_sequence k = of_nat b" using st a b by (simp_all add: rs_state_inv_def)
  then have "sj_sequence k < sj_sequence j \<longleftrightarrow> b < a"
    using lt by (simp add: word_less_nat_alt unsigned_of_nat take_bit_nat_eq_self)
  with nb a b show ?thesis by (auto simp: better_job_def job_rank_def not_less)
qed

text \<open>
  A worker that polls starts, of the waiting jobs that may start (not paused, and compatible with
  what is running), one of the highest priority, and among those the one accepted first. If no
  waiting job may start, the queue stays as it is.
\<close>

theorem rs_poll_best:
  assumes "rs_create opts = Inr s0" and "rs_run s0 es s" and "rs_next_sequence s \<le> 2 ^ 64"
    and "w < length (rs_workers s)" and "rs_worker_poll now w s = Some s'"
  shows "if \<exists>a \<in> set (rs_queue s). CanStartLocked s a
    then \<exists>a \<in> set (rs_queue s). CanStartLocked s a \<and> rs_workers s' ! w = RW_Executing a \<and>
      set (rs_queue s') = set (rs_queue s) - {a} \<and>
      (\<forall>b \<in> set (rs_queue s). CanStartLocked s b \<longrightarrow>
         job_rank s b < job_rank s a \<or> (job_rank s b = job_rank s a \<and> a \<le> b))
    else rs_queue s' = rs_queue s \<and> (rs_workers s' = rs_workers s \<or> rs_workers s' ! w = RW_Exited)"
proof -
  have iv: "rs_inv s" using assms(1,2) by (rule rs_reachable_inv)
  then have st: "rs_state_inv s" and d: "distinct (rs_queue s)"
    by (auto simp: rs_inv_def rs_index_inv_def index_ok_def)
  have best: "best_job s (rs_queue s) (FindNextJobLocked s)" by (rule FindNextJobLocked_best)
  show ?thesis
  proof (cases "FindNextJobLocked s")
    case None
    with best assms(4,5) show ?thesis by (auto simp: best_job_def rs_worker_poll_def)
  next
    case (Some k)
    define a where "a = rs_queue s ! k"
    from best Some have k: "k < length (rs_queue s)" and can: "CanStartLocked s a"
      and nb: "\<And>b. b \<in> set (rs_queue s) \<Longrightarrow> CanStartLocked s b \<Longrightarrow> \<not> better_job s b a"
      by (auto simp: best_job_def a_def)
    have start: "rs_start_job now w k s = Some s'" using assms(5) Some by (simp add: rs_worker_poll_def)
    from can obtain j where j: "rs_store s a = Some j" by (auto simp: CanStartLocked_def split: option.splits)
    have "rs_workers s' = (rs_workers s)[w := RW_Executing a]" "rs_queue s' = erase_at k (rs_queue s)"
      using start j by (auto simp: rs_start_job_def a_def [symmetric] Let_def update_record_def set_job_def
          split: option.splits)
    moreover have "set (erase_at k (rs_queue s)) = set (rs_queue s) - {a}"
      using distinct_erase_at(2) [OF d k] by (simp add: a_def)
    moreover have "job_rank s b < job_rank s a \<or> (job_rank s b = job_rank s a \<and> a \<le> b)"
      if "b \<in> set (rs_queue s)" "CanStartLocked s b" for b
    proof -
      from that(2) obtain l where "rs_store s b = Some l" by (auto simp: CanStartLocked_def split: option.splits)
      from not_better_job [OF st assms(3) j this nb [OF that]] show ?thesis .
    qed
    moreover have "a \<in> set (rs_queue s)" using k by (simp add: a_def)
    ultimately show ?thesis using can assms(4) by auto
  qed
qed

section \<open>Futures\<close>

text \<open>
  C11. No future is lost: in every reachable state, a job's promise is satisfied, with a terminal
  result, or exactly one party is responsible for it (the queue, a worker, a thread in \<open>Stop\<close>, the
  shutdown loop), so \<open>SetPromiseSafely\<close> never meets a satisfied promise. Once a shutdown is complete
  and the callers of \<open>Stop\<close> are through, every promise is satisfied.
\<close>

theorem rs_futures_owned:
  assumes "rs_create opts = Inr s0" and "rs_run s0 es s"
  shows "(\<forall>a. 0 < a \<and> a < rs_next_sequence s \<longrightarrow> (\<exists>j. rs_store s a = Some j \<and>
        (case sj_promise j of None \<Rightarrow> count (rs_owned s) a = 1
         | Some r \<Rightarrow> count (rs_owned s) a = 0 \<and> state_isTerminal (jr_state r)))) \<and>
    (rs_shutdown_complete s \<and> rs_pending s = [] \<longrightarrow>
      (\<forall>a j. rs_store s a = Some j \<longrightarrow> sj_promise j \<noteq> None))"
proof
  have iv: "rs_inv s" using assms by (rule rs_reachable_inv)
  show "\<forall>a. 0 < a \<and> a < rs_next_sequence s \<longrightarrow> (\<exists>j. rs_store s a = Some j \<and>
        (case sj_promise j of None \<Rightarrow> count (rs_owned s) a = 1
         | Some r \<Rightarrow> count (rs_owned s) a = 0 \<and> state_isTerminal (jr_state r)))"
  proof (intro allI impI)
    fix a assume "0 < a \<and> a < rs_next_sequence s"
    with iv obtain j where j: "rs_store s a = Some j"
      unfolding rs_inv_def rs_state_inv_def by (metis not_None_eq)
    moreover have "count (rs_owned s) a = of_bool (sj_promise j = None)"
      using iv j by (simp add: rs_inv_def rs_owner_inv_def rs_unresolved_def)
    ultimately show "\<exists>j. rs_store s a = Some j \<and> (case sj_promise j of None \<Rightarrow> count (rs_owned s) a = 1
         | Some r \<Rightarrow> count (rs_owned s) a = 0 \<and> state_isTerminal (jr_state r))"
      using iv by (auto simp: rs_inv_def rs_result_inv_def split: option.split)
  qed
  show "rs_shutdown_complete s \<and> rs_pending s = [] \<longrightarrow> (\<forall>a j. rs_store s a = Some j \<longrightarrow> sj_promise j \<noteq> None)"
  proof (intro allI impI)
    fix a j assume c: "rs_shutdown_complete s \<and> rs_pending s = []" and j: "rs_store s a = Some j"
    have ph: "rs_shutdown s = RShut_Finished" "rs_queue s = []" "set (rs_workers s) \<subseteq> {RW_Exited}"
      using iv c by (auto simp: rs_inv_def rs_phase_inv_def)
    then have "rs_active (rs_workers s) = []" "rs_publishing (rs_workers s) = []"
      by (fastforce simp: rs_active_def rs_publishing_def)+
    with ph c have "rs_owned s = {#}" by (simp add: rs_owned_def)
    then show "sj_promise j \<noteq> None" using iv j by (fastforce simp: rs_inv_def rs_owner_inv_def rs_unresolved_def)
  qed
qed

section \<open>Records\<close>

text \<open>
  \<open>records_.at\<close> never throws: in every reachable state \<open>Pause\<close>, \<open>Resume\<close>, \<open>Stop\<close> and \<open>Shutdown\<close> return,
  and so do the critical sections in which a waiting worker takes a job and a worker records a
  result (an exception there would terminate the program, the functions being \<open>noexcept\<close>).
\<close>

theorem rs_no_throw:
  assumes "rs_create opts = Inr s0" and "rs_run s0 es s"
  shows "Pause i s \<noteq> None \<and> Resume i s \<noteq> None \<and> Stop now i s \<noteq> None \<and>
    rs_Shutdown caller clk s \<noteq> Entry_Throws \<and>
    (\<forall>w < length (rs_workers s). rs_workers s ! w = RW_Waiting \<longrightarrow> rs_worker_poll now w s \<noteq> None) \<and>
    (\<forall>w < length (rs_workers s). \<forall>a r. rs_workers s ! w = RW_Finishing a r \<longrightarrow>
       rs_worker_finish now w a r s \<noteq> None)"
proof -
  have iv: "rs_inv s" using assms by (rule rs_reachable_inv)
  have "rs_Shutdown caller clk s \<noteq> Entry_Throws" using rs_Shutdown_inv [OF iv, of caller clk] by auto
  then show ?thesis
    using Pause_inv [OF iv] Resume_inv [OF iv] Stop_inv [OF iv] rs_worker_poll_inv [OF iv]
      rs_worker_finish_inv [OF iv] by fastforce
qed

text \<open>
  The snapshots are exact and bounded: an identifier has a snapshot exactly while its job is
  outstanding or among the completed jobs retained, never both; a completed job's snapshot is
  terminal and has a completion time; an outstanding job's has none, and is terminal exactly when a
  stop was requested while it ran. With a nonzero limit at most \<open>maximumCompletedHistorySize\<close>
  completed snapshots are retained. The counters account for every accepted job, modulo 2 to the 64.
\<close>

theorem rs_snapshots_exact:
  assumes "rs_create opts = Inr s0" and "rs_run s0 es s"
  shows "(\<forall>i. GetSnapshot i s \<noteq> None \<longleftrightarrow>
      (FindOutstandingLocked i s \<noteq> None) \<noteq> (i \<in> set (rs_completed_order s))) \<and>
    (\<forall>i r. GetSnapshot i s = Some r \<longrightarrow>
      (case FindOutstandingLocked i s of
         None \<Rightarrow> state_isTerminal (rec_state r) \<and> rec_completedAt r \<noteq> None
       | Some (a, j) \<Rightarrow> rec_completedAt r = None \<and> (state_isTerminal (rec_state r) \<longleftrightarrow> sj_stopRequested j))) \<and>
    (0 < rso_maximumCompletedHistorySize (rs_options s) \<longrightarrow>
      length (rs_completed_order s) \<le> rso_maximumCompletedHistorySize (rs_options s)) \<and>
    rst_accepted (rs_GetStatistics s) = rst_completed (rs_GetStatistics s) + rst_cancelled (rs_GetStatistics s)
      + rst_failed (rs_GetStatistics s)
      + of_nat (rst_queued (rs_GetStatistics s) + rst_running (rs_GetStatistics s))"
proof -
  have iv: "rs_inv s" using assms by (rule rs_reachable_inv)
  have ho: "history_ok {} (rs_outstanding s) (rs_records s) (rs_completed_order s)"
    and ix: "index_ok (rs_queue s @ rs_active (rs_workers s)) (rs_jid (rs_store s)) (rs_outstanding s)"
    and ro: "record_ok (rs_outstanding s) (set (rs_completed_order s)) (rs_store s) (map_of (rs_records s))"
    using iv by (simp_all add: rs_inv_def rs_history_inv_def rs_index_inv_def rs_record_inv_def)
  have fo: "FindOutstandingLocked i s = None \<longleftrightarrow> map_of (rs_outstanding s) i = None" for i
  proof (cases "map_of (rs_outstanding s) i")
    case (Some a)
    with index_ok_iff [OF ix, of i a] show ?thesis
      by (auto simp: FindOutstandingLocked_def rs_jid_def)
  qed (simp add: FindOutstandingLocked_def)
  have 1: "GetSnapshot i s \<noteq> None \<longleftrightarrow> (FindOutstandingLocked i s \<noteq> None) \<noteq> (i \<in> set (rs_completed_order s))" for i
  proof -
    have "map_of (rs_records s) i \<noteq> None \<longleftrightarrow> map_of (rs_outstanding s) i \<noteq> None \<or> i \<in> set (rs_completed_order s)"
      "i \<in> set (rs_completed_order s) \<Longrightarrow> map_of (rs_outstanding s) i = None"
      using ho by (simp_all add: history_ok_def)
    then show ?thesis by (auto simp: fo GetSnapshot_def)
  qed
  have 2: "case FindOutstandingLocked i s of
         None \<Rightarrow> state_isTerminal (rec_state r) \<and> rec_completedAt r \<noteq> None
       | Some (a, j) \<Rightarrow> rec_completedAt r = None \<and> (state_isTerminal (rec_state r) \<longleftrightarrow> sj_stopRequested j)"
    if r: "GetSnapshot i s = Some r" for i r
  proof (cases "FindOutstandingLocked i s")
    case None
    with 1 [of i] r have "i \<in> set (rs_completed_order s)" by simp
    with ro r None show ?thesis by (simp add: record_ok_def GetSnapshot_def)
  next
    case (Some p)
    then have "map_of (rs_outstanding s) i = Some (fst p)" "rs_store s (fst p) = Some (snd p)"
      by (auto simp: FindOutstandingLocked_def split: option.splits)
    with ro r Some show ?thesis by (auto simp: record_ok_def GetSnapshot_def split: prod.split)
  qed
  have "length (rs_outstanding s) = length (rs_queue s) + rs_running_count s"
    using index_ok_length [OF ix] iv by (simp add: rs_inv_def rs_count_inv_def)
  with iv 1 2 show ?thesis
    by (auto simp: rs_inv_def rs_history_inv_def rs_account_inv_def rs_GetStatistics_def)
qed


section \<open>A concrete run\<close>

definition demo_rs_options :: runtime_scheduler_options where
  "demo_rs_options = \<lparr>rso_maximumQueueSize = 2, rso_workerCount = 1, rso_maximumCompletedHistorySize = 1\<rparr>"

definition demo_rs_job :: runtime_job where
  "demo_rs_job = \<lparr>job_id = 7, job_priority = RPriority_High, job_executionMode = Mode_Sequential,
     job_scope = Scope_Mission, job_metadata = [], job_has_callback = True\<rparr>"

definition demo_rs :: runtime_scheduler where
  "demo_rs = (case rs_create demo_rs_options of Inr s \<Rightarrow> s)"

definition demo_rs1 :: runtime_scheduler where
  "demo_rs1 = rs_worker_register 0 (fst (rs_Submit 1 demo_rs_job demo_rs))"

definition demo_rs2 :: runtime_scheduler where
  "demo_rs2 = the (rs_worker_poll 2 0 demo_rs1)"

lemma demo_rs_create: "rs_create demo_rs_options = Inr demo_rs"
  by (simp add: demo_rs_def rs_create_def demo_rs_options_def)

lemma demo_rs1_workers: "rs_workers demo_rs1 = [RW_Waiting]" "rs_queue demo_rs1 = [1]" "rs_next_sequence demo_rs1 = 2"
  by code_simp+

lemma demo_rs1_run: "rs_run demo_rs [RE_Submit 1 demo_rs_job, RE_Register 0] demo_rs1"
proof -
  let ?s = "fst (rs_Submit 1 demo_rs_job demo_rs)"
  have r: "rs_run demo_rs ([] @ [RE_Submit 1 demo_rs_job]) ?s"
    by (rule rs_run_snoc [OF rs_run_nil rs_submit])
  have ws: "rs_workers ?s = [RW_Starting]" by code_simp
  have "rs_step ?s (RE_Register 0) (rs_worker_register 0 ?s)" by (rule rs_register) (simp_all add: ws)
  from rs_run_snoc [OF r this] show ?thesis by (simp add: demo_rs1_def)
qed

lemma demo_rs2_poll: "rs_worker_poll 2 0 demo_rs1 = Some demo_rs2"
proof -
  have "rs_inv demo_rs1" using demo_rs_create demo_rs1_run by (rule rs_reachable_inv)
  then have "\<exists>s'. rs_worker_poll 2 0 demo_rs1 = Some s'"
    using rs_worker_poll_inv [of demo_rs1 0 2] by (auto simp: demo_rs1_workers)
  then show ?thesis by (auto simp: demo_rs2_def)
qed

lemma demo_rs2_run: "rs_run demo_rs [RE_Submit 1 demo_rs_job, RE_Register 0, RE_Poll 2 0] demo_rs2"
proof -
  have "rs_worker_wake demo_rs1" by code_simp
  then have "rs_step demo_rs1 (RE_Poll 2 0) demo_rs2"
    by (intro rs_step.intros demo_rs2_poll) (simp_all add: demo_rs1_workers)
  from rs_run_snoc [OF demo_rs1_run this] show ?thesis by simp
qed

lemma demo_rs2_state: "rs_workers demo_rs2 = [RW_Executing 1]" "rs_active (rs_workers demo_rs2) = [1]"
  by code_simp+

lemma rs_sequential_exclusive_witness:
  "rs_active (rs_workers demo_rs2) = [1] \<and> rst_running (rs_GetStatistics demo_rs2) \<le> rst_workerCount (rs_GetStatistics demo_rs2)"
proof -
  have "1 \<in> set (rs_active (rs_workers demo_rs2))"
    and m: "map_option (\<lambda>j. job_executionMode (sj_job j)) (rs_store demo_rs2 1) = Some Mode_Sequential"
    by code_simp+
  with rs_sequential_exclusive [OF demo_rs_create demo_rs2_run] show ?thesis by blast
qed

lemma rs_poll_best_witness:
  "\<exists>a \<in> set (rs_queue demo_rs1). CanStartLocked demo_rs1 a \<and> rs_workers demo_rs2 ! 0 = RW_Executing a"
proof -
  have "\<exists>a \<in> set (rs_queue demo_rs1). CanStartLocked demo_rs1 a" by code_simp
  with rs_poll_best [OF demo_rs_create demo_rs1_run, of 0 2 demo_rs2] show ?thesis
    by (auto simp: demo_rs1_workers demo_rs2_poll)
qed

lemma rs_futures_owned_witness: "\<exists>j. rs_store demo_rs1 1 = Some j \<and> sj_promise j = None \<and> count (rs_owned demo_rs1) 1 = 1"
proof -
  have "map_option sj_promise (rs_store demo_rs1 1) = Some None" by code_simp
  with rs_futures_owned [OF demo_rs_create demo_rs1_run] show ?thesis
    by (auto simp: demo_rs1_workers dest!: spec [of _ "1 :: nat"])
qed

lemma rs_no_throw_witness: "Stop 3 7 demo_rs2 \<noteq> None \<and> rs_Shutdown None (\<lambda>_. 4) demo_rs2 \<noteq> Entry_Throws"
  using rs_no_throw [OF demo_rs_create demo_rs2_run] by blast

lemma rs_snapshots_exact_witness: "GetSnapshot 7 demo_rs2 \<noteq> None \<longleftrightarrow>
    (FindOutstandingLocked 7 demo_rs2 \<noteq> None) \<noteq> (7 \<in> set (rs_completed_order demo_rs2))"
  using rs_snapshots_exact [OF demo_rs_create demo_rs2_run] by blast


section \<open>A stop that comes too late\<close>

definition demo_rs3 :: runtime_scheduler where
  "demo_rs3 = rs_worker_return 0 (Returned (job_result State_Completed ''done'')) 1 demo_rs2"

definition demo_rs4 :: runtime_scheduler where
  "demo_rs4 = fst (the (Stop 3 7 demo_rs3))"

definition demo_rs5 :: runtime_scheduler where
  "demo_rs5 = the (rs_worker_finish 4 0 1 (job_result State_Completed ''done'') demo_rs4)"

lemma demo_rs3_step: "rs_step demo_rs2 (RE_Return 0 (Returned (job_result State_Completed ''done''))) demo_rs3"
  unfolding demo_rs3_def by (rule rs_return) (simp_all add: demo_rs2_state)

lemma demo_rs3_inv: "rs_inv demo_rs3"
  using rs_step_inv [OF demo_rs3_step] rs_reachable_inv [OF demo_rs_create demo_rs2_run] by blast

lemma demo_rs4_step: "rs_step demo_rs3 (RE_Stop 3 7) demo_rs4"
proof (rule rs_stop)
  from Stop_inv [OF demo_rs3_inv, of 3 7] show "Stop 3 7 demo_rs3 = Some (demo_rs4, snd (the (Stop 3 7 demo_rs3)))"
    by (auto simp: demo_rs4_def)
qed

lemma demo_rs4_workers: "rs_workers demo_rs4 = [RW_Finishing 1 (job_result State_Completed ''done'')]"
  by code_simp

lemma demo_rs5_step: "rs_step demo_rs4 (RE_Finish 4 0) demo_rs5"
proof (rule rs_finish)
  have "rs_inv demo_rs4" using demo_rs4_step demo_rs3_inv by (rule rs_step_inv)
  from rs_worker_finish_inv [OF this, of 0 1 "job_result State_Completed ''done''" 4]
  show "rs_worker_finish 4 0 1 (job_result State_Completed ''done'') demo_rs4 = Some demo_rs5"
    by (auto simp: demo_rs4_workers demo_rs5_def)
qed (simp_all add: demo_rs4_workers)

text \<open>
  A terminal snapshot is not final: when \<open>Stop\<close> comes after a job's result was normalised and
  before it is recorded, \<open>Stop\<close> returns true and the snapshot turns \<open>Cancelled\<close>, yet the job is then
  recorded, counted and published as \<open>Completed\<close>.
\<close>

theorem rs_stop_overwritten:
  "\<exists>s s' j. rs_run demo_rs [RE_Submit 1 demo_rs_job, RE_Register 0, RE_Poll 2 0,
       RE_Return 0 (Returned (job_result State_Completed ''done''))] s \<and>
     Stop 3 7 s = Some (s', True) \<and>
     map_option rec_state (GetSnapshot 7 s') = Some State_Cancelled \<and>
     rs_step s' (RE_Finish 4 0) j \<and> map_option rec_state (GetSnapshot 7 j) = Some State_Completed \<and>
     rst_completed (rs_GetStatistics j) = 1 \<and> rst_cancelled (rs_GetStatistics j) = 0 \<and>
     rst_stopped (rs_GetStatistics j) = 1"
proof (intro exI conjI)
  from rs_run_snoc [OF demo_rs2_run demo_rs3_step]
  show "rs_run demo_rs [RE_Submit 1 demo_rs_job, RE_Register 0, RE_Poll 2 0,
       RE_Return 0 (Returned (job_result State_Completed ''done''))] demo_rs3" by simp
  have "map_option snd (Stop 3 7 demo_rs3) = Some True" by code_simp
  then show "Stop 3 7 demo_rs3 = Some (demo_rs4, True)" by (auto simp: demo_rs4_def)
  show "rs_step demo_rs4 (RE_Finish 4 0) demo_rs5" by (rule demo_rs5_step)
qed (code_simp)+

end
