(* ===== verification/Json_Parser.thy ===== *)
theory Json_Parser
  imports Prelude "HOL-Library.Char_ord" "HOL-Library.List_Lexorder"
begin

text \<open>
  The JSON parser of \<open>src/bt/TreeParser.cpp\<close>. The parser's position is the part of the document not yet
  read. A \<open>ParseError\<close> is the left summand, with its message. \<open>src/mission/MissionParser.cpp\<close> has a copy
  of the class with other messages, so the messages are a parameter. \<open>std::from_chars\<close> on a \<open>double\<close>, whose
  rounding and range depend on the library, is a parameter too: it answers a value when it accepts
  the whole text. The recursion of the source is on the input that is left; the functions have
  fuel, and running out of fuel is a result of its own, shown not to occur.
\<close>

section \<open>Parse results\<close>

datatype parse_error = PE_OutOfFuel | PE_Error string

type_synonym 'a parsed = "parse_error + 'a"

fun pbind :: "'a parsed \<Rightarrow> ('a \<Rightarrow> 'b parsed) \<Rightarrow> 'b parsed" where
  "pbind (Inl e) f = Inl e"
| "pbind (Inr x) f = f x"

lemma pbind_cong [fundef_cong]:
  "m = m' \<Longrightarrow> (\<And>x. m' = Inr x \<Longrightarrow> f x = f' x) \<Longrightarrow> pbind m f = pbind m' f'"
  by (cases m') auto

lemma pbind_eq_Inr [simp]: "pbind m f = Inr y \<longleftrightarrow> (\<exists>x. m = Inr x \<and> f x = Inr y)"
  by (cases m) auto

lemma pbind_eq_Fuel:
  "pbind m f = Inl PE_OutOfFuel \<longleftrightarrow>
     m = Inl PE_OutOfFuel \<or> (\<exists>x. m = Inr x \<and> f x = Inl PE_OutOfFuel)"
  by (cases m) auto

abbreviation throw_error :: "string \<Rightarrow> 'a parsed" where
  "throw_error m \<equiv> Inl (PE_Error m)"

section \<open>Values and characters\<close>

datatype json =
    JNull | JBool bool | JNumber fl | JString string
  | JObject "(string \<times> json) list" | JArray "json list"

text \<open>
  The messages of the two copies of the class; \<open>jt_where\<close> is the end of the message of \<open>Expect\<close>, and
  \<open>jt_number\<close> that of a number that \<open>std::from_chars\<close> rejects.
\<close>

record json_texts =
  jt_trailing :: string
  jt_end :: string
  jt_value :: string
  jt_keys :: string
  jt_duplicate :: string
  jt_unicode :: string
  jt_number :: string
  jt_where :: string

definition quote_char :: char where "quote_char = CHR 0x22"
definition backslash_char :: char where "backslash_char = CHR 0x5C"

lemmas char_consts = quote_char_def backslash_char_def

definition IsSpace :: "char \<Rightarrow> bool" where
  "IsSpace c = (c = CHR '' '' \<or> c = CHR 0x0A \<or> c = CHR 0x0D \<or> c = CHR 0x09)"

definition IsDigit :: "char \<Rightarrow> bool" where
  "IsDigit c = (CHR ''0'' \<le> c \<and> c \<le> CHR ''9'')"

definition IsControl :: "char \<Rightarrow> bool" where
  "IsControl c = (c < CHR 0x20)"

section \<open>Tokens\<close>

definition SkipWhitespace :: "string \<Rightarrow> string" where
  "SkipWhitespace s = dropWhile IsSpace s"

definition Expect :: "json_texts \<Rightarrow> char \<Rightarrow> string \<Rightarrow> string parsed" where
  "Expect tx c s =
     (case SkipWhitespace s of
        x # s' \<Rightarrow> if x = c then Inr s' else throw_error (''Expected '' @ [CHR 0x27, c, CHR 0x27] @ jt_where tx)
      | [] \<Rightarrow> throw_error (''Expected '' @ [CHR 0x27, c, CHR 0x27] @ jt_where tx))"

text \<open>\<open>TryConsume\<close> has skipped the white space also when it answers false.\<close>

definition TryConsume :: "char \<Rightarrow> string \<Rightarrow> bool \<times> string" where
  "TryConsume c s =
     (case SkipWhitespace s of
        x # s' \<Rightarrow> if x = c then (True, s') else (False, x # s')
      | [] \<Rightarrow> (False, []))"

definition ConsumeLiteral :: "string \<Rightarrow> string \<Rightarrow> string option" where
  "ConsumeLiteral l s = (if take (length l) s = l then Some (drop (length l) s) else None)"

definition ConsumeDigits :: "string \<Rightarrow> string parsed" where
  "ConsumeDigits s =
     (if takeWhile IsDigit s = [] then throw_error ''JSON number requires digits''
      else Inr (dropWhile IsDigit s))"

text \<open>The character an escape stands for: \<open>None\<close> for \<open>\u\<close> and for those the parser does not know.\<close>

definition unescape :: "char \<Rightarrow> char option" where
  "unescape e =
     (if e = quote_char \<or> e = backslash_char \<or> e = CHR ''/'' then Some e
      else if e = CHR ''b'' then Some (CHR 0x08)
      else if e = CHR ''f'' then Some (CHR 0x0C)
      else if e = CHR ''n'' then Some (CHR 0x0A)
      else if e = CHR ''r'' then Some (CHR 0x0D)
      else if e = CHR ''t'' then Some (CHR 0x09)
      else None)"

fun ParseString_loop :: "json_texts \<Rightarrow> string \<Rightarrow> string \<Rightarrow> (string \<times> string) parsed" where
  "ParseString_loop tx result [] = throw_error ''Unterminated JSON string''"
| "ParseString_loop tx result (c # s) =
     (if c = quote_char then Inr (result, s)
      else if IsControl c then throw_error ''JSON strings must not contain unescaped control characters''
      else if c \<noteq> backslash_char then ParseString_loop tx (result @ [c]) s
      else (case s of
         [] \<Rightarrow> throw_error ''Unterminated JSON string escape''
       | e # s' \<Rightarrow>
           (case unescape e of
              Some x \<Rightarrow> ParseString_loop tx (result @ [x]) s'
            | None \<Rightarrow> throw_error (if e = CHR ''u'' then jt_unicode tx else ''Invalid JSON string escape''))))"

definition ParseString :: "json_texts \<Rightarrow> string \<Rightarrow> (string \<times> string) parsed" where
  "ParseString tx s = pbind (Expect tx quote_char s) (ParseString_loop tx [])"

text \<open>The part of the document after a number.\<close>

definition number_sign :: "string \<Rightarrow> string" where
  "number_sign s = (case s of c # s' \<Rightarrow> if c = CHR ''-'' then s' else s | [] \<Rightarrow> [])"

definition number_fraction :: "string \<Rightarrow> string parsed" where
  "number_fraction s = (case s of c # s' \<Rightarrow> if c = CHR ''.'' then ConsumeDigits s' else Inr s | [] \<Rightarrow> Inr [])"

definition number_exponent :: "string \<Rightarrow> string parsed" where
  "number_exponent s =
     (case s of
        c # s' \<Rightarrow>
          if c = CHR ''e'' \<or> c = CHR ''E'' then
            ConsumeDigits (case s' of d # s'' \<Rightarrow> if d = CHR ''+'' \<or> d = CHR ''-'' then s'' else s' | [] \<Rightarrow> [])
          else Inr s
      | [] \<Rightarrow> Inr [])"

definition ParseNumber :: "json_texts \<Rightarrow> (string \<Rightarrow> fl option) \<Rightarrow> string \<Rightarrow> (fl \<times> string) parsed" where
  "ParseNumber tx from_chars s =
     pbind (ConsumeDigits (number_sign s)) (\<lambda>s1.
     pbind (number_fraction s1) (\<lambda>s2.
     pbind (number_exponent s2) (\<lambda>s3.
       case from_chars (take (length s - length s3) s) of
         Some v \<Rightarrow> Inr (v, s3)
       | None \<Rightarrow> throw_error (jt_number tx))))"

section \<open>Values\<close>

text \<open>\<open>std::map::emplace\<close> of a key that is not in the map; the map is ordered by its keys.\<close>

fun map_emplace :: "'k::linorder \<Rightarrow> 'v \<Rightarrow> ('k \<times> 'v) list \<Rightarrow> ('k \<times> 'v) list" where
  "map_emplace k v [] = [(k, v)]"
| "map_emplace k v ((k', v') # kvs) =
     (if k < k' then (k, v) # (k', v') # kvs else (k', v') # map_emplace k v kvs)"

lemma map_emplace_set: "set (map_emplace k v kvs) = insert (k, v) (set kvs)"
  by (induction k v kvs rule: map_emplace.induct) auto

lemma map_emplace_sorted:
  "sorted_wrt (<) (map fst kvs) \<Longrightarrow> k \<notin> fst ` set kvs \<Longrightarrow> sorted_wrt (<) (map fst (map_emplace k v kvs))"
proof (induction k v kvs rule: map_emplace.induct)
  case (2 k v k' v' kvs)
  then show ?case by (auto simp: map_emplace_set intro: less_trans)
qed simp

lemma map_emplace_fst:
  "map fst kvs = map fst kvs' \<Longrightarrow> map fst (map_emplace k v kvs) = map fst (map_emplace k v' kvs')"
proof (induction k v kvs arbitrary: kvs' rule: map_emplace.induct)
  case (2 k v k' w kvs)
  then show ?case by (cases kvs') auto
qed simp

lemma map_emplace_mset: "mset (map_emplace k v kvs) = add_mset (k, v) (mset kvs)"
  by (induction k v kvs rule: map_emplace.induct) auto

lemma map_emplace_length: "length (map_emplace k v kvs) = Suc (length kvs)"
  by (induction k v kvs rule: map_emplace.induct) auto

lemma map_emplace_lookup: "k \<notin> fst ` set kvs \<Longrightarrow> map_of (map_emplace k v kvs) = (map_of kvs)(k \<mapsto> v)"
  by (induction kvs) (auto simp: fun_eq_iff)

definition ParseLiteral :: "json_texts \<Rightarrow> string \<Rightarrow> (json \<times> string) parsed" where
  "ParseLiteral tx s =
     (case ConsumeLiteral ''true'' s of
        Some s' \<Rightarrow> Inr (JBool True, s')
      | None \<Rightarrow>
          (case ConsumeLiteral ''false'' s of
             Some s' \<Rightarrow> Inr (JBool False, s')
           | None \<Rightarrow>
               (case ConsumeLiteral ''null'' s of
                  Some s' \<Rightarrow> Inr (JNull, s')
                | None \<Rightarrow> throw_error (jt_value tx))))"

text \<open>
  \<open>ParseValue\<close>, and the loops of \<open>ParseObject\<close> and \<open>ParseArray\<close> after the opening bracket and the test
  for an empty container.
\<close>

fun ParseValue :: "json_texts \<Rightarrow> (string \<Rightarrow> fl option) \<Rightarrow> nat \<Rightarrow> string \<Rightarrow> (json \<times> string) parsed"
  and ParseObject_loop :: "json_texts \<Rightarrow> (string \<Rightarrow> fl option) \<Rightarrow> nat \<Rightarrow> (string \<times> json) list
    \<Rightarrow> string \<Rightarrow> ((string \<times> json) list \<times> string) parsed"
  and ParseArray_loop :: "json_texts \<Rightarrow> (string \<Rightarrow> fl option) \<Rightarrow> nat \<Rightarrow> json list
    \<Rightarrow> string \<Rightarrow> (json list \<times> string) parsed"
where
  "ParseValue tx fc 0 s = Inl PE_OutOfFuel"
| "ParseValue tx fc (Suc fuel) s =
     (case SkipWhitespace s of
        [] \<Rightarrow> throw_error (jt_end tx)
      | c # s1 \<Rightarrow>
          if c = CHR ''{'' then
            (case TryConsume (CHR ''}'') s1 of
               (True, s2) \<Rightarrow> Inr (JObject [], s2)
             | (False, s2) \<Rightarrow>
                 pbind (ParseObject_loop tx fc fuel [] s2) (\<lambda>(kvs, s3). Inr (JObject kvs, s3)))
          else if c = CHR ''['' then
            (case TryConsume (CHR '']'') s1 of
               (True, s2) \<Rightarrow> Inr (JArray [], s2)
             | (False, s2) \<Rightarrow>
                 pbind (ParseArray_loop tx fc fuel [] s2) (\<lambda>(js, s3). Inr (JArray js, s3)))
          else if c = quote_char then
            pbind (ParseString tx (c # s1)) (\<lambda>(str, s2). Inr (JString str, s2))
          else if c = CHR ''-'' \<or> IsDigit c then
            pbind (ParseNumber tx fc (c # s1)) (\<lambda>(v, s2). Inr (JNumber v, s2))
          else ParseLiteral tx (c # s1))"
| "ParseObject_loop tx fc 0 kvs s = Inl PE_OutOfFuel"
| "ParseObject_loop tx fc (Suc fuel) kvs s =
     (case SkipWhitespace s of
        [] \<Rightarrow> throw_error (jt_keys tx)
      | c # s0 \<Rightarrow>
          if c \<noteq> quote_char then throw_error (jt_keys tx)
          else
            pbind (ParseString tx (c # s0)) (\<lambda>(key, s1).
            pbind (Expect tx (CHR '':'') s1) (\<lambda>s2.
            pbind (ParseValue tx fc fuel s2) (\<lambda>(v, s3).
              if key \<in> fst ` set kvs then throw_error (jt_duplicate tx)
              else
                (let kvs' = map_emplace key v kvs in
                 case TryConsume (CHR ''}'') s3 of
                   (True, s4) \<Rightarrow> Inr (kvs', s4)
                 | (False, s4) \<Rightarrow>
                     pbind (Expect tx (CHR '','') s4) (\<lambda>s5. ParseObject_loop tx fc fuel kvs' s5))))))"
| "ParseArray_loop tx fc 0 js s = Inl PE_OutOfFuel"
| "ParseArray_loop tx fc (Suc fuel) js s =
     pbind (ParseValue tx fc fuel s) (\<lambda>(v, s1).
       case TryConsume (CHR '']'') s1 of
         (True, s2) \<Rightarrow> Inr (js @ [v], s2)
       | (False, s2) \<Rightarrow>
           pbind (Expect tx (CHR '','') s2) (\<lambda>s3. ParseArray_loop tx fc fuel (js @ [v]) s3))"

text \<open>\<open>JsonParser::Parse\<close>, with fuel for two calls per character.\<close>

definition json_Parse :: "json_texts \<Rightarrow> (string \<Rightarrow> fl option) \<Rightarrow> string \<Rightarrow> json parsed" where
  "json_Parse tx fc doc =
     pbind (ParseValue tx fc (2 * length doc + 2) doc) (\<lambda>(v, s).
       if SkipWhitespace s \<noteq> [] then throw_error (jt_trailing tx) else Inr v)"

section \<open>Field access\<close>

definition AsObject :: "json \<Rightarrow> string \<Rightarrow> (string \<times> json) list parsed" where
  "AsObject v name =
     (case v of JObject kvs \<Rightarrow> Inr kvs | _ \<Rightarrow> throw_error (name @ '' must be an object''))"

definition AsArray :: "json \<Rightarrow> string \<Rightarrow> json list parsed" where
  "AsArray v name =
     (case v of JArray js \<Rightarrow> Inr js | _ \<Rightarrow> throw_error (name @ '' must be an array''))"

definition RequiredField :: "(string \<times> json) list \<Rightarrow> string \<Rightarrow> json parsed" where
  "RequiredField kvs key =
     (case map_of kvs key of
        Some v \<Rightarrow> Inr v | None \<Rightarrow> throw_error (''Missing required field: '' @ key))"

definition OptionalField :: "(string \<times> json) list \<Rightarrow> string \<Rightarrow> json option" where
  "OptionalField kvs key = map_of kvs key"

definition JsonString :: "json \<Rightarrow> string \<Rightarrow> string parsed" where
  "JsonString v key =
     (case v of JString s \<Rightarrow> Inr s | _ \<Rightarrow> throw_error (key @ '' must be a string''))"

section \<open>The parser consumes its input\<close>

lemma SkipWhitespace_length: "length (SkipWhitespace s) \<le> length s"
  by (simp add: SkipWhitespace_def length_dropWhile_le)

lemma SkipWhitespace_Cons: "SkipWhitespace s = c # s' \<Longrightarrow> length s' < length s"
  using SkipWhitespace_length [of s] by simp

lemma Expect_length: "Expect tx c s = Inr s' \<Longrightarrow> length s' < length s"
  by (auto simp: Expect_def dest: SkipWhitespace_Cons split: list.splits if_splits)

lemma TryConsume_length:
  "TryConsume c s = (True, s') \<Longrightarrow> length s' < length s"
  "TryConsume c s = (False, s') \<Longrightarrow> length s' \<le> length s"
  using SkipWhitespace_length [of s] by (cases "SkipWhitespace s"; auto simp: TryConsume_def split: if_splits)+

lemma ConsumeDigits_length: "ConsumeDigits s = Inr s' \<Longrightarrow> length s' < length s"
  by (cases s) (auto simp: ConsumeDigits_def length_dropWhile_le less_Suc_eq_le split: if_splits)

lemma ConsumeLiteral_length: "ConsumeLiteral l s = Some s' \<Longrightarrow> l \<noteq> [] \<Longrightarrow> length s' < length s"
  by (cases s) (auto simp: ConsumeLiteral_def split: if_splits)

lemma ParseString_loop_length: "ParseString_loop tx r s = Inr (str, s') \<Longrightarrow> length s' < length s"
proof (induction tx r s rule: ParseString_loop.induct)
  case (2 tx r c s)
  then show ?case
    by (cases "c = quote_char"; cases "IsControl c"; cases "c = backslash_char"; cases s)
      (force split: option.splits)+
qed simp

lemma ParseString_length: "ParseString tx s = Inr (str, s') \<Longrightarrow> length s' < length s"
  by (auto simp: ParseString_def dest!: Expect_length ParseString_loop_length)

lemma number_length:
  "length (number_sign s) \<le> length s"
  "number_fraction s = Inr s' \<Longrightarrow> length s' \<le> length s"
  "number_exponent s = Inr s' \<Longrightarrow> length s' \<le> length s"
  by (auto simp: number_sign_def number_fraction_def number_exponent_def split: list.splits if_splits
      dest!: ConsumeDigits_length)

lemma ParseNumber_length: "ParseNumber tx fc s = Inr (v, s') \<Longrightarrow> length s' < length s"
  using number_length(1) [of s]
  by (fastforce simp: ParseNumber_def dest!: ConsumeDigits_length number_length(2,3) split: option.splits)

lemma ParseLiteral_length: "ParseLiteral tx s = Inr (v, s') \<Longrightarrow> length s' < length s"
  by (auto simp: ParseLiteral_def dest!: ConsumeLiteral_length split: option.splits)

lemmas token_lengths = SkipWhitespace_Cons Expect_length TryConsume_length ParseString_length
  ParseNumber_length ParseLiteral_length

lemma parser_length_all:
  "(\<forall>s v s'. ParseValue tx fc fuel s = Inr (v, s') \<longrightarrow> length s' < length s) \<and>
   (\<forall>kvs s kvs' s'. ParseObject_loop tx fc fuel kvs s = Inr (kvs', s') \<longrightarrow> length s' < length s) \<and>
   (\<forall>js s js' s'. ParseArray_loop tx fc fuel js s = Inr (js', s') \<longrightarrow> length s' < length s)"
proof (induction fuel)
  case (Suc fuel)
  then have val: "\<And>s v s'. ParseValue tx fc fuel s = Inr (v, s') \<Longrightarrow> length s' < length s"
    and obj: "\<And>kvs s kvs' s'. ParseObject_loop tx fc fuel kvs s = Inr (kvs', s') \<Longrightarrow> length s' < length s"
    and arr: "\<And>js s js' s'. ParseArray_loop tx fc fuel js s = Inr (js', s') \<Longrightarrow> length s' < length s"
    by blast+
  have "length s' < length s" if "ParseValue tx fc (Suc fuel) s = Inr (v, s')" for s v s'
    using that
    by (force split: list.splits if_split_asm prod.splits bool.splits
        dest!: token_lengths obj arr)
  moreover have "length s' < length s" if "ParseObject_loop tx fc (Suc fuel) kvs s = Inr (kvs', s')" for kvs s kvs' s'
    using that
    by (force simp: Let_def split: list.splits if_split_asm prod.splits bool.splits
        dest!: token_lengths obj val)
  moreover have "length s' < length s" if "ParseArray_loop tx fc (Suc fuel) js s = Inr (js', s')" for js s js' s'
  proof -
    from that obtain v s1 b s2 where v: "ParseValue tx fc fuel s = Inr (v, s1)"
      and t: "TryConsume (CHR '']'') s1 = (b, s2)"
      and r: "if b then s' = s2 else
        \<exists>s3. Expect tx (CHR '','') s2 = Inr s3 \<and> ParseArray_loop tx fc fuel (js @ [v]) s3 = Inr (js', s')"
      by (cases "TryConsume (CHR '']'') (snd (projr (ParseValue tx fc fuel s)))")
        (auto split: bool.splits)
    from val [OF v] t r show ?thesis
      by (cases b) (auto dest!: TryConsume_length Expect_length arr)
  qed
  ultimately show ?case by blast
qed simp

lemmas ParseValue_length = parser_length_all [THEN conjunct1, rule_format]

section \<open>Termination\<close>

lemma Expect_fuel [simp]: "Expect tx c s \<noteq> Inl PE_OutOfFuel"
  by (auto simp: Expect_def split: list.splits)

lemma ParseString_loop_fuel [simp]: "ParseString_loop tx r s \<noteq> Inl PE_OutOfFuel"
  by (induction tx r s rule: ParseString_loop.induct) (simp_all split: list.split option.split)

lemma ParseString_fuel [simp]: "ParseString tx s \<noteq> Inl PE_OutOfFuel"
  by (simp add: ParseString_def pbind_eq_Fuel)

lemma ConsumeDigits_fuel [simp]: "ConsumeDigits s \<noteq> Inl PE_OutOfFuel"
  by (simp add: ConsumeDigits_def)

lemma ParseNumber_fuel [simp]: "ParseNumber tx fc s \<noteq> Inl PE_OutOfFuel"
  by (auto simp: ParseNumber_def pbind_eq_Fuel number_fraction_def number_exponent_def
      split: option.splits list.splits if_splits)

lemma ParseLiteral_fuel [simp]: "ParseLiteral tx s \<noteq> Inl PE_OutOfFuel"
  by (simp add: ParseLiteral_def split: option.splits)

lemma ParseObject_loop_fuelD:
  assumes "ParseObject_loop tx fc (Suc fuel) kvs s = Inl PE_OutOfFuel"
  shows "\<exists>s'. length s' < length s \<and>
    (ParseValue tx fc fuel s' = Inl PE_OutOfFuel \<or> (\<exists>kvs'. ParseObject_loop tx fc fuel kvs' s' = Inl PE_OutOfFuel))"
proof (cases "SkipWhitespace s")
  case (Cons c s0)
  with assms obtain key s1 s2 where 1: "ParseString tx (c # s0) = Inr (key, s1)" "Expect tx (CHR '':'') s1 = Inr s2"
    and 2: "pbind (ParseValue tx fc fuel s2) (\<lambda>(v, s3).
              if key \<in> fst ` set kvs then throw_error (jt_duplicate tx)
              else (case TryConsume (CHR ''}'') s3 of
                   (True, s4) \<Rightarrow> Inr (map_emplace key v kvs, s4)
                 | (False, s4) \<Rightarrow> pbind (Expect tx (CHR '','') s4)
                     (\<lambda>s5. ParseObject_loop tx fc fuel (map_emplace key v kvs) s5))) = Inl PE_OutOfFuel"
    by (auto simp: pbind_eq_Fuel Let_def split: if_split_asm)
  from 1 Cons SkipWhitespace_length [of s] have s2: "length s2 < length s"
    by (auto dest!: ParseString_length Expect_length)
  show ?thesis
  proof (cases "ParseValue tx fc fuel s2")
    case (Inl e)
    with 2 s2 show ?thesis by auto
  next
    case (Inr r)
    obtain v s3 where r: "r = (v, s3)" by (cases r)
    obtain b s4 where t: "TryConsume (CHR ''}'') s3 = (b, s4)" by (cases "TryConsume (CHR ''}'') s3")
    from 2 Inr r t obtain s5 where "\<not> b" "Expect tx (CHR '','') s4 = Inr s5"
      "ParseObject_loop tx fc fuel (map_emplace key v kvs) s5 = Inl PE_OutOfFuel"
      by (cases b) (auto simp: pbind_eq_Fuel split: if_split_asm)
    with s2 t Inr r show ?thesis
      by (intro exI [of _ s5]) (auto dest!: TryConsume_length Expect_length ParseValue_length)
  qed
qed (use assms in simp)

lemma ParseArray_loop_fuelD:
  assumes "ParseArray_loop tx fc (Suc fuel) js s = Inl PE_OutOfFuel"
  shows "ParseValue tx fc fuel s = Inl PE_OutOfFuel \<or>
    (\<exists>js' s'. length s' < length s \<and> ParseArray_loop tx fc fuel js' s' = Inl PE_OutOfFuel)"
proof (cases "ParseValue tx fc fuel s")
  case (Inr r)
  obtain v s1 where r: "r = (v, s1)" by (cases r)
  obtain b s2 where t: "TryConsume (CHR '']'') s1 = (b, s2)" by (cases "TryConsume (CHR '']'') s1")
  from assms Inr r t obtain s3 where "\<not> b" "Expect tx (CHR '','') s2 = Inr s3"
    "ParseArray_loop tx fc fuel (js @ [v]) s3 = Inl PE_OutOfFuel"
    by (cases b) (auto simp: pbind_eq_Fuel)
  with t Inr r show ?thesis
    by (intro disjI2 exI [of _ "js @ [v]"] exI [of _ s3])
      (auto dest!: TryConsume_length Expect_length ParseValue_length)
qed (use assms in simp)

lemma parser_fuel_all:
  "(\<forall>s. 2 * length s + 2 \<le> fuel \<longrightarrow> ParseValue tx fc fuel s \<noteq> Inl PE_OutOfFuel) \<and>
   (\<forall>kvs s. 2 * length s + 3 \<le> fuel \<longrightarrow> ParseObject_loop tx fc fuel kvs s \<noteq> Inl PE_OutOfFuel) \<and>
   (\<forall>js s. 2 * length s + 3 \<le> fuel \<longrightarrow> ParseArray_loop tx fc fuel js s \<noteq> Inl PE_OutOfFuel)"
proof (induction fuel)
  case (Suc fuel)
  then have val: "\<And>s. 2 * length s + 2 \<le> fuel \<Longrightarrow> ParseValue tx fc fuel s \<noteq> Inl PE_OutOfFuel"
    and obj: "\<And>kvs s. 2 * length s + 3 \<le> fuel \<Longrightarrow> ParseObject_loop tx fc fuel kvs s \<noteq> Inl PE_OutOfFuel"
    and arr: "\<And>js s. 2 * length s + 3 \<le> fuel \<Longrightarrow> ParseArray_loop tx fc fuel js s \<noteq> Inl PE_OutOfFuel"
    by blast+
  have "ParseValue tx fc (Suc fuel) s \<noteq> Inl PE_OutOfFuel" if "2 * length s + 2 \<le> Suc fuel" for s
  proof (cases "SkipWhitespace s")
    case (Cons c s1)
    then have "length s1 < length s" by (rule SkipWhitespace_Cons)
    with that have "2 * length s2 + 3 \<le> fuel" if "TryConsume d s1 = (False, s2)" for d s2
      using TryConsume_length(2) [OF that] by simp
    then have "TryConsume d s1 = (False, s2) \<Longrightarrow> ParseObject_loop tx fc fuel [] s2 \<noteq> Inl PE_OutOfFuel"
      and "TryConsume d s1 = (False, s2) \<Longrightarrow> ParseArray_loop tx fc fuel [] s2 \<noteq> Inl PE_OutOfFuel" for d s2
      using obj arr by blast+
    with Cons show ?thesis by (simp add: pbind_eq_Fuel split: prod.split bool.split)
  qed simp
  moreover have "ParseObject_loop tx fc (Suc fuel) kvs s \<noteq> Inl PE_OutOfFuel"
    if "2 * length s + 3 \<le> Suc fuel" for kvs s
    using that ParseObject_loop_fuelD [of tx fc fuel kvs s] by (auto simp: val obj)
  moreover have "ParseArray_loop tx fc (Suc fuel) js s \<noteq> Inl PE_OutOfFuel"
    if "2 * length s + 3 \<le> Suc fuel" for js s
    using that ParseArray_loop_fuelD [of tx fc fuel js s] by (auto simp: val arr)
  ultimately show ?case by blast
qed simp

text \<open>The fuel of \<open>json_Parse\<close> always suffices: the parser returns a value or an error of the source.\<close>

lemma json_Parse_fuel: "json_Parse tx fc doc \<noteq> Inl PE_OutOfFuel"
  using parser_fuel_all [of "2 * length doc + 2" tx fc] by (auto simp: json_Parse_def pbind_eq_Fuel)

end
