(* ===== verification/Json_Printer.thy ===== *)
theory Json_Printer
  imports Json_Parser
begin

text \<open>
  A printer for JSON values whose numbers are finite doubles, as the reference for what the parser of
  \<open>src/bt/TreeParser.cpp\<close> and \<open>src/mission/MissionParser.cpp\<close> must read: parsing the text of a value gives the value back.
  What \<open>std::from_chars\<close> answers on the numbers of the value is a condition on the value.
\<close>

section \<open>Printing\<close>

definition escape :: "char \<Rightarrow> string" where
  "escape c =
     (if c = quote_char \<or> c = backslash_char then [backslash_char, c]
      else if c = CHR 0x08 then [backslash_char, CHR ''b'']
      else if c = CHR 0x0C then [backslash_char, CHR ''f'']
      else if c = CHR 0x0A then [backslash_char, CHR ''n'']
      else if c = CHR 0x0D then [backslash_char, CHR ''r'']
      else if c = CHR 0x09 then [backslash_char, CHR ''t'']
      else [c])"

text \<open>Control characters without a short escape cannot be written: the parser has no \<open>\u\<close>.\<close>

definition char_ok :: "char \<Rightarrow> bool" where
  "char_ok c = (\<not> IsControl c \<or> c \<in> {CHR 0x08, CHR 0x0C, CHR 0x0A, CHR 0x0D, CHR 0x09})"

definition print_string :: "string \<Rightarrow> string" where
  "print_string s = quote_char # concat (map escape s) @ [quote_char]"

fun join_comma :: "string list \<Rightarrow> string" where
  "join_comma [] = []"
| "join_comma [x] = x"
| "join_comma (x # xs) = x @ CHR '','' # join_comma xs"

text \<open>
  A double is a rational whose denominator is at most \<open>2 ^ 1074\<close> and a power of two, so it has a finite decimal
  text with at most 1074 places. \<open>pad_digits\<close> writes the last \<open>k\<close> digits of a number.
\<close>

primrec places :: "nat \<Rightarrow> rat \<Rightarrow> nat" where
  "places 0 q = 0"
| "places (Suc n) q = (if of_int \<lfloor>q\<rfloor> = q then 0 else Suc (places n (q * 10)))"

primrec pad_digits :: "nat \<Rightarrow> nat \<Rightarrow> string" where
  "pad_digits 0 n = []"
| "pad_digits (Suc k) n = pad_digits k (n div 10) @ [digit_char (n mod 10)]"

definition decimal_places :: "rat \<Rightarrow> nat" where
  "decimal_places q = places 1074 q"

definition decimal_text :: "rat \<Rightarrow> string" where
  "decimal_text q =
     (let k = decimal_places q; m = nat \<lfloor>\<bar>q\<bar> * 10 ^ k\<rfloor> in
      (if q < 0 then ''-'' else []) @ to_string (m div 10 ^ k)
        @ (if k = 0 then [] else CHR ''.'' # pad_digits k (m mod 10 ^ k)))"

fun number_print :: "fl \<Rightarrow> string" where
  "number_print (Fin q) = decimal_text q"
| "number_print _ = []"

fun json_print :: "json \<Rightarrow> string" where
  "json_print JNull = ''null''"
| "json_print (JBool b) = (if b then ''true'' else ''false'')"
| "json_print (JNumber v) = number_print v"
| "json_print (JString s) = print_string s"
| "json_print (JArray js) = CHR ''['' # join_comma (map json_print js) @ [CHR '']'']"
| "json_print (JObject kvs) =
     CHR ''{'' # join_comma (map (\<lambda>(k, v). print_string k @ CHR '':'' # json_print v) kvs) @ [CHR ''}'']"

definition number_ok :: "(string \<Rightarrow> fl option) \<Rightarrow> fl \<Rightarrow> bool" where
  "number_ok fc v = (fl_isfinite v \<and> fc (number_print v) = Some v)"

fun json_ok :: "(string \<Rightarrow> fl option) \<Rightarrow> json \<Rightarrow> bool" where
  "json_ok fc JNull = True"
| "json_ok fc (JBool b) = True"
| "json_ok fc (JNumber v) = number_ok fc v"
| "json_ok fc (JString s) = list_all char_ok s"
| "json_ok fc (JArray js) = list_all (json_ok fc) js"
| "json_ok fc (JObject kvs) =
     (sorted_wrt (<) (map fst kvs) \<and> list_all (\<lambda>(k, v). list_all char_ok k \<and> json_ok fc v) kvs)"

section \<open>Parsing what was printed\<close>

lemma quote_neq [simp]:
  "quote_char \<noteq> backslash_char" "backslash_char \<noteq> quote_char" "quote_char \<noteq> CHR ''{''" "quote_char \<noteq> CHR ''[''" "quote_char \<noteq> CHR ''}''"
  "quote_char \<noteq> CHR '']''" "\<not> IsControl backslash_char"
  by code_simp+

lemma unescape_values:
  "unescape (CHR ''b'') = Some (CHR 0x08)" "unescape (CHR ''f'') = Some (CHR 0x0C)"
  "unescape (CHR ''n'') = Some (CHR 0x0A)" "unescape (CHR ''r'') = Some (CHR 0x0D)"
  "unescape (CHR ''t'') = Some (CHR 0x09)" "unescape quote_char = Some quote_char"
  "unescape backslash_char = Some backslash_char"
  by code_simp+

lemma escape_cases:
  assumes "char_ok c"
  obtains (plain) "escape c = [c]" "\<not> IsControl c" "c \<noteq> quote_char" "c \<noteq> backslash_char"
    | (escaped) e where "escape c = [backslash_char, e]" "unescape e = Some c"
proof -
  have "(escape c = [c] \<and> \<not> IsControl c \<and> c \<noteq> quote_char \<and> c \<noteq> backslash_char)
    \<or> (\<exists>e. escape c = [backslash_char, e] \<and> unescape e = Some c)"
    using assms by (simp add: escape_def char_ok_def unescape_values) blast
  with that show thesis by blast
qed

lemma ParseString_loop_escape:
  assumes "char_ok c"
  shows "ParseString_loop tx r (escape c @ s) = ParseString_loop tx (r @ [c]) s"
  using assms by (cases rule: escape_cases) simp_all

lemma ParseString_loop_print:
  "list_all char_ok str \<Longrightarrow>
     ParseString_loop tx r (concat (map escape str) @ quote_char # s) = Inr (r @ str, s)"
  by (induction str arbitrary: r) (simp_all add: ParseString_loop_escape del: ParseString_loop.simps(2), simp)

lemma SkipWhitespace_nonspace [simp]: "\<not> IsSpace c \<Longrightarrow> SkipWhitespace (c # s) = c # s"
  by (simp add: SkipWhitespace_def)

lemma nonspace [simp]:
  "\<not> IsSpace quote_char" "\<not> IsSpace (CHR ''{'')" "\<not> IsSpace (CHR ''['')" "\<not> IsSpace (CHR ''}'')"
  "\<not> IsSpace (CHR '']'')" "\<not> IsSpace (CHR '','')" "\<not> IsSpace (CHR '':'')"
  "\<not> IsSpace (CHR ''t'')" "\<not> IsSpace (CHR ''f'')" "\<not> IsSpace (CHR ''n'')"
  by code_simp+

lemma Expect_nonspace [simp]: "\<not> IsSpace c \<Longrightarrow> Expect tx c (c # s) = Inr s"
  by (simp add: Expect_def)

lemma ParseString_print:
  "list_all char_ok str \<Longrightarrow> ParseString tx (print_string str @ s) = Inr (str, s)"
  by (simp add: ParseString_def print_string_def ParseString_loop_print)

lemma digit_char_digit: "d < 10 \<Longrightarrow> IsDigit (digit_char d)"
  by (simp add: IsDigit_def digit_char_def less_eq_char_def of_char_of)

lemma to_string_digits: "to_string n \<noteq> []" "list_all IsDigit (to_string n)"
proof -
  show "list_all IsDigit (to_string n)"
    by (induction n rule: to_string.induct) (subst to_string.simps, simp add: digit_char_digit)
  show "to_string n \<noteq> []" by (subst to_string.simps) simp
qed

lemma pad_digits_digits: "list_all IsDigit (pad_digits k n)" "length (pad_digits k n) = k"
  by (induction k arbitrary: n) (simp_all add: digit_char_digit)

text \<open>The text of a number is an optional sign, digits, and an optional fraction.\<close>

lemma decimal_text_shape:
  obtains sg ds fr where "decimal_text q = sg @ ds @ fr" "sg = [] \<or> sg = ''-''" "ds \<noteq> []" "list_all IsDigit ds"
    "fr = [] \<or> (\<exists>fs. fr = CHR ''.'' # fs \<and> fs \<noteq> [] \<and> list_all IsDigit fs)"
proof -
  let ?k = "decimal_places q" and ?m = "nat \<lfloor>\<bar>q\<bar> * 10 ^ decimal_places q\<rfloor>"
  let ?fr = "if ?k = 0 then [] else CHR ''.'' # pad_digits ?k (?m mod 10 ^ ?k)"
  have "?fr = [] \<or> (\<exists>fs. ?fr = CHR ''.'' # fs \<and> fs \<noteq> [] \<and> list_all IsDigit fs)"
    using pad_digits_digits [of ?k "?m mod 10 ^ ?k"] by (cases "?k = 0") auto
  then show thesis
    by (rule that [of "if q < 0 then ''-'' else []" "to_string (?m div 10 ^ ?k)", rotated -1])
       (simp_all add: decimal_text_def Let_def to_string_digits)
qed

definition number_first :: "char \<Rightarrow> bool" where
  "number_first c = (c = CHR ''-'' \<or> IsDigit c)"

lemma number_start:
  assumes "number_ok fc v"
  obtains c s where "number_print v = c # s" "number_first c"
proof -
  from assms obtain q where v: "v = Fin q" by (cases v) (auto simp: number_ok_def)
  obtain sg ds fr where t: "decimal_text q = sg @ ds @ fr" "sg = [] \<or> sg = ''-''" "ds \<noteq> []" "list_all IsDigit ds"
    by (rule decimal_text_shape)
  from t(3) obtain d ds' where "ds = d # ds'" by (cases ds) auto
  with t v that show thesis by (auto simp: number_first_def)
qed

lemma number_first_neq:
  assumes "number_first c"
  shows "\<not> IsSpace c" "c \<noteq> CHR ''{''" "c \<noteq> CHR ''[''" "c \<noteq> quote_char" "c \<noteq> CHR '']''" "c \<noteq> CHR ''}''"
  using assms by (auto simp: number_first_def IsDigit_def IsSpace_def less_eq_char_def quote_char_def)

text \<open>What follows a value in a document.\<close>

definition ends :: "string \<Rightarrow> bool" where
  "ends s = (s = [] \<or> hd s \<in> {CHR '','', CHR '']'', CHR ''}''})"

lemma ends_simps [simp]: "ends []" "ends (CHR '','' # s)" "ends (CHR '']'' # s)" "ends (CHR ''}'' # s)"
  by (simp_all add: ends_def)

lemma ConsumeDigits_append:
  assumes "ds \<noteq> []" and "list_all IsDigit ds" and "s = [] \<or> \<not> IsDigit (hd s)"
  shows "ConsumeDigits (ds @ s) = Inr s"
proof -
  from assms(3) have "takeWhile IsDigit s = []" "dropWhile IsDigit s = s" by (cases s; simp)+
  with assms(1,2) show ?thesis
    by (simp add: ConsumeDigits_def list_all_iff takeWhile_append2 dropWhile_append2)
qed

lemma ParseNumber_print:
  assumes "number_ok fc v" and "ends s"
  shows "ParseNumber tx fc (number_print v @ s) = Inr (v, s)"
proof -
  from assms(1) obtain q where v: "v = Fin q" and fc: "fc (decimal_text q) = Some v"
    by (cases v) (auto simp: number_ok_def)
  obtain sg ds fr where t: "decimal_text q = sg @ ds @ fr" "sg = [] \<or> sg = ''-''"
    and ds: "ds \<noteq> []" "list_all IsDigit ds"
    and fr: "fr = [] \<or> (\<exists>fs. fr = CHR ''.'' # fs \<and> fs \<noteq> [] \<and> list_all IsDigit fs)"
    by (rule decimal_text_shape)
  have stop: "s = [] \<or> \<not> IsDigit (hd s)" "number_fraction s = Inr s" "number_exponent s = Inr s"
    using assms(2)
    by (cases s; auto simp: ends_def number_fraction_def number_exponent_def IsDigit_def less_eq_char_def)+
  have "number_sign (decimal_text q @ s) = ds @ fr @ s"
    using t ds by (cases ds) (auto simp: number_sign_def IsDigit_def less_eq_char_def)
  moreover have "ConsumeDigits (ds @ fr @ s) = Inr (fr @ s)"
    using ds fr stop(1) by (intro ConsumeDigits_append) (auto simp: IsDigit_def less_eq_char_def)
  moreover have "number_fraction (fr @ s) = Inr s"
    using fr
  proof
    assume "\<exists>fs. fr = CHR ''.'' # fs \<and> fs \<noteq> [] \<and> list_all IsDigit fs"
    then show ?thesis using ConsumeDigits_append [OF _ _ stop(1)] by (auto simp: number_fraction_def)
  qed (simp add: stop(2))
  ultimately show ?thesis using stop(3) fc v by (simp add: ParseNumber_def)
qed

definition json_starts :: "char set" where
  "json_starts = {CHR ''{'', CHR ''['', quote_char, CHR ''t'', CHR ''f'', CHR ''n''} \<union> {c. number_first c}"

lemma json_print_starts: "json_ok fc j \<Longrightarrow> \<exists>c s. json_print j = c # s \<and> c \<in> json_starts"
  by (cases j) (auto simp: json_starts_def print_string_def elim: number_start)

lemma TryConsume_nonspace [simp]:
  "\<not> IsSpace x \<Longrightarrow> TryConsume c (x # s) = (if x = c then (True, s) else (False, x # s))"
  by (simp add: TryConsume_def)

lemma TryConsume_json:
  assumes "json_ok fc j" and "c = CHR '']'' \<or> c = CHR ''}''"
  shows "TryConsume c (json_print j @ s) = (False, json_print j @ s)"
  using json_print_starts [OF assms(1)] assms(2) by (auto simp: json_starts_def number_first_neq)

lemma map_emplace_last:
  "\<forall>k' \<in> fst ` set kvs. k' < k \<Longrightarrow> map_emplace k v kvs = kvs @ [(k, v)]"
  by (induction kvs) (auto dest: less_asym)

lemma join_comma_Cons: "xs \<noteq> [] \<Longrightarrow> join_comma (x # xs) = x @ CHR '','' # join_comma xs"
  by (cases xs) simp_all

text \<open>The loops, over elements that the parser reads back.\<close>

lemma ParseArray_loop_print:
  assumes "js \<noteq> []" and "list_all (json_ok fc) js"
    and "\<And>j f s. j \<in> set js \<Longrightarrow> 2 * length (json_print j) \<le> f \<Longrightarrow> ends s \<Longrightarrow>
           ParseValue tx fc f (json_print j @ s) = Inr (j, s)"
    and "2 * length (join_comma (map json_print js)) + 1 \<le> f"
  shows "ParseArray_loop tx fc f acc (join_comma (map json_print js) @ CHR '']'' # s) = Inr (acc @ js, s)"
  using assms
proof (induction js arbitrary: f acc)
  case (Cons j js)
  then obtain f' where f: "f = Suc f'" by (cases f) auto
  show ?case
  proof (cases "js = []")
    case True
    with Cons.prems f show ?thesis by simp
  next
    case False
    with Cons.prems f have "ParseValue tx fc f' (json_print j @ CHR '','' # join_comma (map json_print js) @ CHR '']'' # s)
        = Inr (j, CHR '','' # join_comma (map json_print js) @ CHR '']'' # s)"
      by (intro Cons.prems(3)) (simp_all add: join_comma_Cons)
    moreover have "ParseArray_loop tx fc f' (acc @ [j]) (join_comma (map json_print js) @ CHR '']'' # s)
        = Inr ((acc @ [j]) @ js, s)"
      using False Cons.prems f by (intro Cons.IH) (simp_all add: join_comma_Cons)
    ultimately show ?thesis using False f by (simp add: join_comma_Cons)
  qed
qed simp

definition print_field :: "string \<times> json \<Rightarrow> string" where
  "print_field kv = print_string (fst kv) @ CHR '':'' # json_print (snd kv)"

lemma ParseObject_loop_print:
  assumes "kvs \<noteq> []" and "sorted_wrt (<) (map fst (acc @ kvs))"
    and "\<And>k v. (k, v) \<in> set kvs \<Longrightarrow> list_all char_ok k \<and> json_ok fc v"
    and "\<And>k v f s. (k, v) \<in> set kvs \<Longrightarrow> 2 * length (json_print v) \<le> f \<Longrightarrow> ends s \<Longrightarrow>
           ParseValue tx fc f (json_print v @ s) = Inr (v, s)"
    and "2 * length (join_comma (map print_field kvs)) + 1 \<le> f"
  shows "ParseObject_loop tx fc f acc (join_comma (map print_field kvs) @ CHR ''}'' # s) = Inr (acc @ kvs, s)"
  using assms
proof (induction kvs arbitrary: f acc)
  case (Cons kv kvs)
  obtain k v where kv: "kv = (k, v)" by (cases kv)
  from Cons.prems obtain f' where f: "f = Suc f'" by (cases f) auto
  define r where "r = (if kvs = [] then CHR ''}'' # s else CHR '','' # join_comma (map print_field kvs) @ CHR ''}'' # s)"
  have whole: "join_comma (map print_field (kv # kvs)) @ CHR ''}'' # s = print_field kv @ r"
    by (simp add: r_def join_comma_Cons)
  have "2 * length (json_print v) \<le> f'"
    using Cons.prems(5) f by (cases "kvs = []") (simp_all add: join_comma_Cons kv print_field_def print_string_def)
  then have v: "ParseValue tx fc f' (json_print v @ r) = Inr (v, r)"
    by (intro Cons.prems(4) [of k]) (simp_all add: kv r_def)
  from Cons.prems(2) have "\<forall>k' \<in> fst ` set acc. k' < k" by (auto simp: kv sorted_wrt_append)
  then have acc: "k \<notin> fst ` set acc" "map_emplace k v acc = acc @ [(k, v)]"
    by (auto simp: map_emplace_last)
  have str: "ParseString tx (print_string k @ CHR '':'' # json_print v @ r) = Inr (k, CHR '':'' # json_print v @ r)"
    using Cons.prems(3) [of k v] by (intro ParseString_print) (simp add: kv)
  obtain t where t: "print_string k @ CHR '':'' # json_print v @ r = quote_char # t"
    by (simp add: print_string_def)
  have step: "ParseObject_loop tx fc f acc (print_field kv @ r) =
     (case TryConsume (CHR ''}'') r of
        (True, s4) \<Rightarrow> Inr (acc @ [(k, v)], s4)
      | (False, s4) \<Rightarrow> pbind (Expect tx (CHR '','') s4) (\<lambda>s5. ParseObject_loop tx fc f' (acc @ [(k, v)]) s5))"
    using str v acc unfolding f kv print_field_def by (simp add: t Let_def split: prod.split bool.split)
  show ?case
  proof (cases "kvs = []")
    case True
    with step whole show ?thesis by (simp add: r_def kv)
  next
    case False
    have "ParseObject_loop tx fc f' (acc @ [(k, v)]) (join_comma (map print_field kvs) @ CHR ''}'' # s)
        = Inr ((acc @ [(k, v)]) @ kvs, s)"
      using False Cons.prems(2,5) f kv
      by (intro Cons.IH Cons.prems(3)) (auto simp: join_comma_Cons intro: Cons.prems(4))
    with step whole False show ?thesis by (simp add: r_def kv)
  qed
qed simp

lemma json_print_object:
  "json_print (JObject kvs) = CHR ''{'' # join_comma (map print_field kvs) @ [CHR ''}'']"
  by (simp add: print_field_def [abs_def] case_prod_unfold)

lemma print_field_start: "kvs \<noteq> [] \<Longrightarrow> \<exists>t. join_comma (map print_field kvs) = quote_char # t"
  by (cases kvs; cases "tl kvs") (simp_all add: print_field_def print_string_def)

lemma json_join_start:
  assumes "js \<noteq> []" and "list_all (json_ok fc) js"
  shows "TryConsume (CHR '']'') (join_comma (map json_print js) @ s) = (False, join_comma (map json_print js) @ s)"
proof -
  from assms obtain j js' where js: "js = j # js'" "json_ok fc j" by (cases js) auto
  then show ?thesis using TryConsume_json [of fc j "CHR '']''"] by (cases js') simp_all
qed

lemma IsDigit_false [simp]: "\<not> IsDigit (CHR ''t'')" "\<not> IsDigit (CHR ''f'')" "\<not> IsDigit (CHR ''n'')"
  by code_simp+

lemma char_literals [simp]:
  "quote_char \<noteq> CHR ''t''" "quote_char \<noteq> CHR ''f''" "quote_char \<noteq> CHR ''n''"
  "CHR ''t'' \<noteq> quote_char" "CHR ''f'' \<noteq> quote_char" "CHR ''n'' \<noteq> quote_char"
  by code_simp+

lemma ParseLiteral_print:
  "ParseLiteral tx (''true'' @ s) = Inr (JBool True, s)"
  "ParseLiteral tx (''false'' @ s) = Inr (JBool False, s)"
  "ParseLiteral tx (''null'' @ s) = Inr (JNull, s)"
  by (simp_all add: ParseLiteral_def ConsumeLiteral_def)

lemma ParseValue_print:
  "json_ok fc j \<Longrightarrow> 2 * length (json_print j) \<le> f \<Longrightarrow> ends s \<Longrightarrow>
     ParseValue tx fc f (json_print j @ s) = Inr (j, s)"
proof (induction j arbitrary: f s)
  case JNull
  then show ?case using ParseLiteral_print(3) [of tx s] by (cases f) simp_all
next
  case (JBool b)
  then show ?case using ParseLiteral_print(1,2) [of tx s] by (cases f; cases b) simp_all
next
  case (JNumber v)
  then obtain c t where t: "number_print v = c # t" "number_first c" by (auto elim: number_start)
  with JNumber ParseNumber_print [of fc v s tx] number_first_neq [OF t(2)] t(2) show ?case
    by (cases f) (simp_all add: number_first_def)
next
  case (JString str)
  then show ?case using ParseString_print [of str tx s] by (cases f) (simp_all add: print_string_def)
next
  case (JArray js)
  then obtain f' where f: "f = Suc f'" by (cases f) auto
  show ?case
  proof (cases "js = []")
    case False
    have "ParseArray_loop tx fc f' [] (join_comma (map json_print js) @ CHR '']'' # s) = Inr ([] @ js, s)"
      using False JArray f by (intro ParseArray_loop_print) (auto simp: list_all_iff)
    with False JArray.prems f show ?thesis by (simp add: json_join_start)
  qed (simp add: f)
next
  case (JObject kvs)
  then obtain f' where f: "f = Suc f'" by (cases f) auto
  show ?case
  proof (cases "kvs = []")
    case False
    have "ParseObject_loop tx fc f' [] (join_comma (map print_field kvs) @ CHR ''}'' # s) = Inr ([] @ kvs, s)"
      using False JObject f
      by (intro ParseObject_loop_print)
        (auto simp: list_all_iff json_print_object simp del: json_print.simps(6) intro: snds.intros)
    with False f print_field_start [OF False] show ?thesis
      by (auto simp: json_print_object simp del: json_print.simps(6))
  qed (simp add: f)
qed

text \<open>Parsing the text of a value gives the value back.\<close>

lemma json_Parse_print: "json_ok fc j \<Longrightarrow> json_Parse tx fc (json_print j) = Inr j"
  using ParseValue_print [of fc j "2 * length (json_print j) + 2" "[]" tx]
  by (simp add: json_Parse_def SkipWhitespace_def)

end
