(* ===== verification/Tree_Parser.thy ===== *)
theory Tree_Parser
  imports Json_Printer
begin

text \<open>
  Behavior tree documents, \<open>src/bt/TreeParser.cpp\<close>: from a JSON value or from the lines of a YAML
  text to a tree of node definitions. The index into the vector of YAML lines is the list of
  the lines from it on.
\<close>

section \<open>Documents\<close>

datatype tree_node = TreeNode (node_type: string) (node_children: "tree_node list")

record tree_parse_result =
  pr_document :: tree_node
  pr_success :: bool
  pr_message :: string

definition ParseSuccess :: "tree_node \<Rightarrow> tree_parse_result" where
  "ParseSuccess doc = \<lparr>pr_document = doc, pr_success = True, pr_message = ''Behavior tree parsed successfully''\<rparr>"

definition ParseFailure :: "string \<Rightarrow> tree_parse_result" where
  "ParseFailure m = \<lparr>pr_document = TreeNode [] [], pr_success = False, pr_message = m\<rparr>"

definition tree_texts :: json_texts where
  "tree_texts = \<lparr>jt_trailing = ''Unexpected trailing content in JSON behavior tree document'',
     jt_end = ''Unexpected end of JSON behavior tree document'',
     jt_value = ''Unexpected JSON behavior tree value'',
     jt_keys = ''JSON behavior tree object keys must be strings'',
     jt_duplicate = ''Duplicate JSON behavior tree object key'',
     jt_unicode = ''JSON unicode escapes are not supported in behavior tree documents'',
     jt_number = ''Invalid JSON number'',
     jt_where = '' in JSON behavior tree document''\<rparr>"

section \<open>JSON documents\<close>

text \<open>A loop that converts the elements of a vector, left by the first exception.\<close>

fun pmap :: "('a \<Rightarrow> 'b parsed) \<Rightarrow> 'a list \<Rightarrow> 'b list parsed" where
  "pmap f [] = Inr []"
| "pmap f (x # xs) = pbind (f x) (\<lambda>y. pbind (pmap f xs) (\<lambda>ys. Inr (y # ys)))"

lemma pmap_cong [fundef_cong]:
  "xs = ys \<Longrightarrow> (\<And>x. x \<in> set ys \<Longrightarrow> f x = g x) \<Longrightarrow> pmap f xs = pmap g ys"
  by (induction ys arbitrary: xs) simp_all

lemma OptionalField_size: "OptionalField kvs key = Some v \<Longrightarrow> size v < size (JObject kvs)"
  by (induction kvs) (auto simp: OptionalField_def split: if_splits)

lemma AsObject_size: "AsObject v name = Inr kvs \<Longrightarrow> v = JObject kvs"
  by (simp add: AsObject_def split: json.splits)

lemma AsArray_size: "AsArray v name = Inr js \<Longrightarrow> j \<in> set js \<Longrightarrow> size j < size v"
  by (auto simp: AsArray_def less_Suc_eq_le intro!: size_list_estimation' split: json.splits)

function NodeFromJson :: "json \<Rightarrow> string \<Rightarrow> tree_node parsed" where
  "NodeFromJson v name =
     pbind (AsObject v name) (\<lambda>kvs.
     pbind (pbind (RequiredField kvs ''type'') (\<lambda>t. JsonString t ''type'')) (\<lambda>ty.
       if ty = [] then throw_error ''Behavior tree node type must not be empty''
       else
         (case (OptionalField kvs ''child'', OptionalField kvs ''children'') of
            (Some _, Some _) \<Rightarrow> throw_error ''Behavior tree node cannot contain both child and children''
          | (Some c, None) \<Rightarrow> pbind (NodeFromJson c ''child'') (\<lambda>n. Inr (TreeNode ty [n]))
          | (None, Some cs) \<Rightarrow>
              pbind (AsArray cs ''children'') (\<lambda>js.
              pbind (pmap (\<lambda>j. NodeFromJson j ''children[]'') js) (\<lambda>ns. Inr (TreeNode ty ns)))
          | (None, None) \<Rightarrow> Inr (TreeNode ty []))))"
  by pat_completeness auto
termination
  by (relation "measure (size \<circ> fst)")
    (auto dest!: AsObject_size OptionalField_size [OF sym] dest: AsArray_size)

declare NodeFromJson.simps [simp del]

definition DocumentFromJson :: "json \<Rightarrow> tree_node parsed" where
  "DocumentFromJson v =
     pbind (AsObject v ''tree document'') (\<lambda>kvs.
     pbind (RequiredField kvs ''root'') (\<lambda>r. NodeFromJson r ''root''))"

section \<open>YAML documents\<close>

record yaml_line =
  yl_indent :: nat
  yl_text :: string

definition Trim :: "string \<Rightarrow> string" where
  "Trim s = rev (dropWhile IsSpace (rev (dropWhile IsSpace s)))"

definition StartsWith :: "string \<Rightarrow> string \<Rightarrow> bool" where
  "StartsWith s p = (take (length p) s = p)"

definition UnquoteScalar :: "string \<Rightarrow> string" where
  "UnquoteScalar v =
     (if length v \<ge> 2 \<and> (hd v = quote_char \<and> last v = quote_char \<or> hd v = CHR 0x27 \<and> last v = CHR 0x27)
      then butlast (tl v) else v)"

definition FieldValue :: "string \<Rightarrow> string \<Rightarrow> string parsed" where
  "FieldValue s field =
     (let v = UnquoteScalar (Trim (drop (length field) s)) in
      if v = [] then throw_error (butlast field @ '' must not be empty'') else Inr v)"

text \<open>The body of the loop of \<open>LinesFromYaml\<close>, on one raw line.\<close>

definition YamlLine_of :: "string \<Rightarrow> yaml_line list parsed" where
  "YamlLine_of raw =
     (let indent = length (takeWhile (\<lambda>c. c = CHR '' '') raw); body = drop indent raw in
      if body \<noteq> [] \<and> hd body = CHR 0x09 then throw_error ''YAML behavior tree indentation must use spaces''
      else
        (let content = Trim body;
             content = (if CHR ''#'' \<in> set content then Trim (takeWhile (\<lambda>c. c \<noteq> CHR ''#'') content) else content)
         in Inr (if content = [] then [] else [\<lparr>yl_indent = indent, yl_text = content\<rparr>])))"

text \<open>The lines of a document, split at line feeds; the last one may be empty.\<close>

fun split_lines :: "string \<Rightarrow> string list" where
  "split_lines [] = [[]]"
| "split_lines (c # s) =
     (if c = CHR 0x0A then [] # split_lines s
      else (case split_lines s of l # ls \<Rightarrow> (c # l) # ls | [] \<Rightarrow> [[c]]))"

definition LinesFromYaml :: "string \<Rightarrow> yaml_line list parsed" where
  "LinesFromYaml doc = pbind (pmap YamlLine_of (split_lines doc)) (\<lambda>lss. Inr (concat lss))"

text \<open>
  \<open>ParseYamlNodeFields\<close> and \<open>ParseYamlNodeList\<close>; the flag is \<open>parsed_any\<close>. Both answer the node or the
  children read so far and the lines left.
\<close>

fun ParseYamlNodeFields :: "nat \<Rightarrow> bool \<Rightarrow> nat \<Rightarrow> tree_node \<Rightarrow> yaml_line list
    \<Rightarrow> (tree_node \<times> yaml_line list) parsed"
  and ParseYamlNodeList :: "nat \<Rightarrow> bool \<Rightarrow> nat \<Rightarrow> tree_node list \<Rightarrow> yaml_line list
    \<Rightarrow> (tree_node list \<times> yaml_line list) parsed"
where
  "ParseYamlNodeFields 0 any indent node lines = Inl PE_OutOfFuel"
| "ParseYamlNodeFields (Suc fuel) any indent node lines =
     (let finish = (if any then Inr (node, lines) else throw_error ''Expected YAML behavior tree node fields'') in
      case lines of
        [] \<Rightarrow> finish
      | line # rest \<Rightarrow>
          if yl_indent line < indent then finish
          else if yl_indent line > indent then throw_error ''Unexpected YAML behavior tree indentation''
          else if StartsWith (yl_text line) ''-'' then throw_error ''Unexpected YAML behavior tree list item''
          else if StartsWith (yl_text line) ''type:'' then
            if node_type node \<noteq> [] then throw_error ''Duplicate YAML behavior tree node type''
            else pbind (FieldValue (yl_text line) ''type:'') (\<lambda>ty.
              ParseYamlNodeFields fuel True indent (TreeNode ty (node_children node)) rest)
          else if yl_text line = ''child:'' then
            pbind (ParseYamlNodeFields fuel False (indent + 2) (TreeNode [] []) rest) (\<lambda>(c, rest').
              ParseYamlNodeFields fuel True indent (TreeNode (node_type node) (node_children node @ [c])) rest')
          else if yl_text line = ''children:'' then
            pbind (ParseYamlNodeList fuel False (indent + 2) (node_children node) rest) (\<lambda>(cs, rest').
              ParseYamlNodeFields fuel True indent (TreeNode (node_type node) cs) rest')
          else throw_error (''Unsupported YAML behavior tree field: '' @ yl_text line))"
| "ParseYamlNodeList 0 any indent cs lines = Inl PE_OutOfFuel"
| "ParseYamlNodeList (Suc fuel) any indent cs lines =
     (let finish = (if any then Inr (cs, lines)
                    else throw_error ''YAML behavior tree children list must contain at least one node'') in
      case lines of
        [] \<Rightarrow> finish
      | line # rest \<Rightarrow>
          if yl_indent line < indent then finish
          else if yl_indent line > indent then throw_error ''Unexpected YAML behavior tree indentation''
          else if \<not> StartsWith (yl_text line) ''-'' then finish
          else
            (let item = Trim (drop 1 (yl_text line)) in
             pbind
               (if item = [] then Inr []
                else if \<not> StartsWith item ''type:'' then throw_error ''YAML behavior tree list items must start with type''
                else FieldValue item ''type:'') (\<lambda>ty.
             pbind
               (if item = [] \<or> (rest \<noteq> [] \<and> yl_indent (hd rest) > indent)
                then ParseYamlNodeFields fuel False (indent + 2) (TreeNode ty []) rest
                else Inr (TreeNode ty [], rest)) (\<lambda>(c, rest').
               ParseYamlNodeList fuel True indent (cs @ [c]) rest'))))"

definition ParseYamlNodeBlock :: "nat \<Rightarrow> yaml_line list \<Rightarrow> (tree_node \<times> yaml_line list) parsed" where
  "ParseYamlNodeBlock indent lines =
     ParseYamlNodeFields (length lines + 1) False indent (TreeNode [] []) lines"

definition DocumentFromYaml :: "string \<Rightarrow> tree_node parsed" where
  "DocumentFromYaml doc =
     pbind (LinesFromYaml doc) (\<lambda>lines.
       case lines of
         [] \<Rightarrow> throw_error ''YAML behavior tree document is empty''
       | line # rest \<Rightarrow>
           if yl_indent line \<noteq> 0 \<or> yl_text line \<noteq> ''root:''
           then throw_error ''YAML behavior tree document requires top-level root field''
           else pbind (ParseYamlNodeBlock 2 rest) (\<lambda>(n, rest').
             if rest' \<noteq> [] then throw_error ''Unexpected trailing YAML behavior tree content'' else Inr n))"

section \<open>The parser\<close>

text \<open>\<open>None\<close> stands for a parse that does not return.\<close>

definition parse_result :: "string \<Rightarrow> tree_node parsed \<Rightarrow> tree_parse_result option" where
  "parse_result format r =
     (case r of
        Inr n \<Rightarrow> Some (ParseSuccess n)
      | Inl (PE_Error m) \<Rightarrow> Some (ParseFailure (format @ '' behavior tree parse failed: '' @ m))
      | Inl PE_OutOfFuel \<Rightarrow> None)"

definition TreeParser_ParseJson :: "(string \<Rightarrow> fl option) \<Rightarrow> string \<Rightarrow> tree_parse_result option" where
  "TreeParser_ParseJson fc doc = parse_result ''JSON'' (pbind (json_Parse tree_texts fc doc) DocumentFromJson)"

definition TreeParser_ParseYaml :: "string \<Rightarrow> tree_parse_result option" where
  "TreeParser_ParseYaml doc = parse_result ''YAML'' (DocumentFromYaml doc)"

end
