(* ===== verification/Tree_Parser_Props.thy ===== *)
theory Tree_Parser_Props
  imports Tree_Parser
begin

text \<open>
  The parsers of tree documents always return, and read the JSON text and the YAML text of a
  definition back as that definition.
\<close>

section \<open>Termination\<close>

lemma pmap_fuel: "(\<And>x. x \<in> set xs \<Longrightarrow> f x \<noteq> Inl PE_OutOfFuel) \<Longrightarrow> pmap f xs \<noteq> Inl PE_OutOfFuel"
  by (induction xs) (simp_all add: pbind_eq_Fuel)

lemma access_fuel [simp]:
  "AsObject v name \<noteq> Inl PE_OutOfFuel" "AsArray v name \<noteq> Inl PE_OutOfFuel"
  "RequiredField kvs key \<noteq> Inl PE_OutOfFuel" "JsonString v name \<noteq> Inl PE_OutOfFuel"
  by (simp_all add: AsObject_def AsArray_def RequiredField_def JsonString_def split: json.splits option.splits)

lemma NodeFromJson_fuel [simp]: "NodeFromJson v name \<noteq> Inl PE_OutOfFuel"
proof (induction v name rule: NodeFromJson.induct)
  case (1 v name)
  show ?case
  proof
    assume "NodeFromJson v name = Inl PE_OutOfFuel"
    then obtain kvs ty where *: "AsObject v name = Inr kvs"
      "pbind (RequiredField kvs ''type'') (\<lambda>t. JsonString t ''type'') = Inr ty" "ty \<noteq> []"
      and "(\<exists>c. OptionalField kvs ''child'' = Some c \<and> OptionalField kvs ''children'' = None
             \<and> NodeFromJson c ''child'' = Inl PE_OutOfFuel)
         \<or> (\<exists>cs js. OptionalField kvs ''child'' = None \<and> OptionalField kvs ''children'' = Some cs
             \<and> AsArray cs ''children'' = Inr js \<and> pmap (\<lambda>j. NodeFromJson j ''children[]'') js = Inl PE_OutOfFuel)"
      by (subst (asm) NodeFromJson.simps)
        (auto simp: pbind_eq_Fuel split: if_split_asm option.splits)
    then show False
      using "1.IH" [OF * _ refl] pmap_fuel by (metis (no_types, lifting))
  qed
qed

lemma FieldValue_fuel [simp]: "FieldValue s f \<noteq> Inl PE_OutOfFuel"
  by (simp add: FieldValue_def Let_def)

lemma LinesFromYaml_fuel [simp]: "LinesFromYaml doc \<noteq> Inl PE_OutOfFuel"
  by (simp add: LinesFromYaml_def pbind_eq_Fuel pmap_fuel YamlLine_of_def Let_def)

lemma yaml_lines_left:
  "(\<forall>any i n ls n' ls'. ParseYamlNodeFields fuel any i n ls = Inr (n', ls') \<longrightarrow> length ls' \<le> length ls) \<and>
   (\<forall>any i cs ls cs' ls'. ParseYamlNodeList fuel any i cs ls = Inr (cs', ls') \<longrightarrow> length ls' \<le> length ls)"
proof (induction fuel)
  case (Suc fuel)
  then have F: "\<And>any i n ls n' ls'. ParseYamlNodeFields fuel any i n ls = Inr (n', ls') \<Longrightarrow> length ls' \<le> length ls"
    and L: "\<And>any i cs ls cs' ls'. ParseYamlNodeList fuel any i cs ls = Inr (cs', ls') \<Longrightarrow> length ls' \<le> length ls"
    by blast+
  have "length ls' \<le> length ls" if "ParseYamlNodeFields (Suc fuel) any i n ls = Inr (n', ls')" for any i n ls n' ls'
    using that by (cases ls) (auto simp: Let_def split: if_split_asm dest!: F L)
  moreover have "length ls' \<le> length ls" if "ParseYamlNodeList (Suc fuel) any i cs ls = Inr (cs', ls')"
    for any i cs ls cs' ls'
    using that by (cases ls) (auto simp: Let_def split: if_split_asm dest!: F L)
  ultimately show ?case by blast
qed simp

lemma yaml_fuel:
  "(\<forall>any i n ls. length ls < fuel \<longrightarrow> ParseYamlNodeFields fuel any i n ls \<noteq> Inl PE_OutOfFuel) \<and>
   (\<forall>any i cs ls. length ls < fuel \<longrightarrow> ParseYamlNodeList fuel any i cs ls \<noteq> Inl PE_OutOfFuel)"
proof (induction fuel)
  case (Suc fuel)
  then have F: "\<And>any i n ls. length ls < fuel \<Longrightarrow> ParseYamlNodeFields fuel any i n ls \<noteq> Inl PE_OutOfFuel"
    and L: "\<And>any i cs ls. length ls < fuel \<Longrightarrow> ParseYamlNodeList fuel any i cs ls \<noteq> Inl PE_OutOfFuel"
    by blast+
  note left = yaml_lines_left [of fuel, THEN conjunct1, rule_format]
    yaml_lines_left [of fuel, THEN conjunct2, rule_format]
  have "ParseYamlNodeFields (Suc fuel) any i n ls \<noteq> Inl PE_OutOfFuel" if "length ls < Suc fuel" for any i n ls
    using that by (cases ls) (auto simp: Let_def pbind_eq_Fuel F L dest!: left)
  moreover have "ParseYamlNodeList (Suc fuel) any i cs ls \<noteq> Inl PE_OutOfFuel" if "length ls < Suc fuel" for any i cs ls
    using that by (cases ls) (auto simp: Let_def pbind_eq_Fuel F L dest!: left split: if_split_asm)
  ultimately show ?case by blast
qed simp

lemma ParseYamlNodeBlock_fuel [simp]: "ParseYamlNodeBlock i ls \<noteq> Inl PE_OutOfFuel"
  unfolding ParseYamlNodeBlock_def by (rule yaml_fuel [THEN conjunct1, rule_format]) simp

lemma DocumentFromYaml_fuel: "DocumentFromYaml doc \<noteq> Inl PE_OutOfFuel"
  by (auto simp: DocumentFromYaml_def pbind_eq_Fuel split: list.splits)

lemma DocumentFromJson_fuel: "DocumentFromJson v \<noteq> Inl PE_OutOfFuel"
  by (simp add: DocumentFromJson_def pbind_eq_Fuel)

lemma parse_result_Some: "r \<noteq> Inl PE_OutOfFuel \<Longrightarrow> \<exists>x. parse_result f r = Some x"
  by (auto simp: parse_result_def split: sum.splits parse_error.splits)

text \<open>
  Termination: both parsers return a result, a document or a message, for every text; the
  recursive descent consumes characters (or lines) on every path.
\<close>

theorem tree_parsers_return:
  "(\<exists>r. TreeParser_ParseJson fc doc = Some r) \<and> (\<exists>r. TreeParser_ParseYaml doc = Some r)"
proof -
  have "pbind (json_Parse tree_texts fc doc) DocumentFromJson \<noteq> Inl PE_OutOfFuel"
    by (simp add: pbind_eq_Fuel json_Parse_fuel DocumentFromJson_fuel)
  then show ?thesis unfolding TreeParser_ParseJson_def TreeParser_ParseYaml_def
    by (intro conjI parse_result_Some DocumentFromYaml_fuel)
qed

section \<open>The JSON text of a definition\<close>

fun node_json :: "tree_node \<Rightarrow> json" where
  "node_json (TreeNode ty cs) =
     JObject (if cs = [] then [(''type'', JString ty)]
              else [(''children'', JArray (map node_json cs)), (''type'', JString ty)])"

definition document_json :: "tree_node \<Rightarrow> string" where
  "document_json n = json_print (JObject [(''root'', node_json n)])"

text \<open>
  Type names that both formats can write without quotes: no white space, no comment sign, no quotes
  and no control characters.
\<close>

definition plain_char :: "char \<Rightarrow> bool" where
  "plain_char c = (\<not> IsSpace c \<and> \<not> IsControl c \<and> c \<noteq> CHR ''#'' \<and> c \<noteq> quote_char \<and> c \<noteq> CHR 0x27)"

fun plain_node :: "tree_node \<Rightarrow> bool" where
  "plain_node (TreeNode ty cs) = (ty \<noteq> [] \<and> list_all plain_char ty \<and> list_all plain_node cs)"

lemma plain_char_ok: "list_all plain_char s \<Longrightarrow> list_all char_ok s"
  by (auto simp: list_all_iff plain_char_def char_ok_def)

lemma node_json_ok: "plain_node n \<Longrightarrow> json_ok fc (node_json n)"
proof (induction n)
  case (TreeNode ty cs)
  have "''children'' < ''type''" "list_all char_ok ''type''" "list_all char_ok ''children''" by code_simp+
  moreover have "list_all char_ok ty" using TreeNode.prems by (simp add: plain_char_ok)
  moreover have "list_all (json_ok fc) (map node_json cs)" using TreeNode by (auto simp: list_all_iff)
  ultimately show ?case by simp
qed

lemma pmap_map: "(\<And>x. x \<in> set xs \<Longrightarrow> f (g x) = Inr x) \<Longrightarrow> pmap f (map g xs) = Inr xs"
  by (induction xs) simp_all

lemma NodeFromJson_node: "plain_node n \<Longrightarrow> NodeFromJson (node_json n) name = Inr n"
proof (induction n arbitrary: name)
  case (TreeNode ty cs)
  have "pmap (\<lambda>j. NodeFromJson j ''children[]'') (map node_json cs) = Inr cs"
    using TreeNode by (intro pmap_map) (auto simp: list_all_iff)
  with TreeNode.prems show ?case
    by (subst NodeFromJson.simps)
      (simp add: AsObject_def RequiredField_def JsonString_def OptionalField_def AsArray_def)
qed

lemma ParseJson_document:
  assumes "plain_node n"
  shows "TreeParser_ParseJson fc (document_json n) = Some (ParseSuccess n)"
proof -
  have "json_ok fc (JObject [(''root'', node_json n)])"
    using node_json_ok [OF assms] by (simp add: char_ok_def IsControl_def)
  then have "json_Parse tree_texts fc (document_json n) = Inr (JObject [(''root'', node_json n)])"
    unfolding document_json_def by (rule json_Parse_print)
  with NodeFromJson_node [OF assms] show ?thesis
    by (simp add: TreeParser_ParseJson_def DocumentFromJson_def AsObject_def RequiredField_def parse_result_def)
qed

section \<open>The YAML text of a definition\<close>

definition yline :: "nat \<Rightarrow> string \<Rightarrow> yaml_line" where
  "yline i s = \<lparr>yl_indent = i, yl_text = s\<rparr>"

text \<open>The lines of a list item, and of a node with its fields at an indentation.\<close>

fun yaml_item :: "nat \<Rightarrow> tree_node \<Rightarrow> yaml_line list" where
  "yaml_item i (TreeNode ty cs) =
     yline i (''- type: '' @ ty)
     # (if cs = [] then [] else yline (i + 2) ''children:'' # concat (map (yaml_item (i + 4)) cs))"

definition yaml_node :: "nat \<Rightarrow> tree_node \<Rightarrow> yaml_line list" where
  "yaml_node i n =
     yline i (''type: '' @ node_type n)
     # (if node_children n = [] then []
        else yline i ''children:'' # concat (map (yaml_item (i + 2)) (node_children n)))"

definition line_text :: "yaml_line \<Rightarrow> string" where
  "line_text l = replicate (yl_indent l) (CHR '' '') @ yl_text l @ [CHR 0x0A]"

definition document_yaml :: "tree_node \<Rightarrow> string" where
  "document_yaml n = concat (map line_text (yline 0 ''root:'' # yaml_node 2 n))"

lemma yline_simps [simp]: "yl_indent (yline i s) = i" "yl_text (yline i s) = s"
  by (simp_all add: yline_def)

lemma Trim_plain: "s \<noteq> [] \<Longrightarrow> \<not> IsSpace (hd s) \<Longrightarrow> \<not> IsSpace (last s) \<Longrightarrow> Trim s = s"
  by (simp add: Trim_def dropWhile_eq_self_iff [THEN iffD2] hd_rev)

lemma Trim_space: "Trim (CHR '' '' # s) = Trim s"
  by (simp add: Trim_def IsSpace_def)

lemma plain_type:
  assumes "ty \<noteq> []" and "list_all plain_char ty"
  shows "Trim ty = ty" and "UnquoteScalar ty = ty"
proof -
  have "plain_char (hd ty)" "plain_char (last ty)" using assms by (auto simp: list_all_iff)
  then show "Trim ty = ty" and "UnquoteScalar ty = ty"
    using assms(1) by (simp_all add: plain_char_def Trim_plain UnquoteScalar_def)
qed

lemma FieldValue_type:
  assumes "ty \<noteq> []" and "list_all plain_char ty"
  shows "FieldValue (''type: '' @ ty) ''type:'' = Inr ty"
  using assms by (simp add: FieldValue_def Trim_space plain_type)

lemma Trim_item:
  assumes "ty \<noteq> []" and "list_all plain_char ty"
  shows "Trim ('' type: '' @ ty) = ''type: '' @ ty"
proof -
  have "\<not> IsSpace (last ty)" "\<not> IsSpace (CHR ''t'')"
    using assms by (auto simp: list_all_iff plain_char_def)
  with assms(1) have "Trim (''type: '' @ ty) = ''type: '' @ ty" by (intro Trim_plain) simp_all
  then show ?thesis by (simp add: Trim_space)
qed

text \<open>An item of a list is read back, whatever follows at its indentation or left of it.\<close>

lemma yaml_items_read:
  assumes "\<And>n f any i acc rest. n \<in> set cs \<Longrightarrow> length (yaml_item i n) + length rest < f \<Longrightarrow>
      (rest = [] \<or> yl_indent (hd rest) \<le> i) \<Longrightarrow>
      ParseYamlNodeList f any i acc (yaml_item i n @ rest) = ParseYamlNodeList (f - 1) True i (acc @ [n]) rest"
    and "length (concat (map (yaml_item i) cs)) + length rest < f" and "cs \<noteq> []"
    and "rest = [] \<or> yl_indent (hd rest) < i"
  shows "ParseYamlNodeList f any i acc (concat (map (yaml_item i) cs) @ rest) = Inr (acc @ cs, rest)"
  using assms
proof (induction cs arbitrary: f any acc)
  case (Cons n cs)
  let ?rest = "concat (map (yaml_item i) cs) @ rest"
  have items: "yl_indent (hd (yaml_item i m)) = i" "yaml_item i m \<noteq> []" for m
    by (cases m; simp)+
  have "?rest = [] \<or> yl_indent (hd ?rest) \<le> i"
    using Cons.prems(4) items by (cases cs) (auto simp: hd_append)
  with Cons.prems have step: "ParseYamlNodeList f any i acc (yaml_item i n @ ?rest)
      = ParseYamlNodeList (f - 1) True i (acc @ [n]) ?rest"
    by (intro Cons.prems(1)) simp_all
  have len: "Suc 0 \<le> length (yaml_item i n)" using items(2) by (simp add: Suc_le_eq)
  show ?case
  proof (cases "cs = []")
    case True
    have "f - 1 \<noteq> 0" using Cons.prems(2) len unfolding list.map concat.simps length_append by linarith
    then obtain f' where "f - 1 = Suc f'" by (cases "f - 1") auto
    with True Cons.prems(4) step show ?thesis by (cases rest) simp_all
  next
    case False
    with Cons.prems len have "ParseYamlNodeList (f - 1) True i (acc @ [n]) ?rest = Inr ((acc @ [n]) @ cs, rest)"
      by (intro Cons.IH Cons.prems(1)) simp_all
    with step show ?thesis by simp
  qed
qed simp

lemma yaml_item_read:
  "plain_node n \<Longrightarrow> length (yaml_item i n) + length rest < f \<Longrightarrow> rest = [] \<or> yl_indent (hd rest) \<le> i \<Longrightarrow>
   ParseYamlNodeList f any i acc (yaml_item i n @ rest) = ParseYamlNodeList (f - 1) True i (acc @ [n]) rest"
proof (induction n arbitrary: f any i acc rest)
  case (TreeNode ty cs)
  then obtain f1 where f: "f = Suc f1" by (cases f) auto
  have head: "FieldValue (''type: '' @ ty) ''type:'' = Inr ty" "Trim ('' type: '' @ ty) = ''type: '' @ ty"
    using TreeNode.prems(1) FieldValue_type [of ty] Trim_item [of ty] by simp_all
  show ?case
  proof (cases "cs = []")
    case True
    with TreeNode.prems head f show ?thesis by (auto simp: StartsWith_def Let_def)
  next
    case False
    let ?items = "concat (map (yaml_item (i + 4)) cs)"
    obtain f2 where f1: "f1 = Suc f2" using TreeNode.prems(2) f False by (cases f1) auto
    then obtain f3 where f2: "f2 = Suc f3" using TreeNode.prems(2) f False by (cases f2) auto
    have "ParseYamlNodeList f2 False (i + 4) [] (?items @ rest) = Inr ([] @ cs, rest)"
      using TreeNode False f f1 by (intro yaml_items_read TreeNode.IH) (auto simp: list_all_iff)
    moreover have "ParseYamlNodeFields f2 True (i + 2) (TreeNode ty cs) rest = Inr (TreeNode ty cs, rest)"
      using TreeNode.prems(3) f2 by (cases rest) auto
    ultimately have "ParseYamlNodeFields f1 False (i + 2) (TreeNode ty []) (yline (i + 2) ''children:'' # ?items @ rest)
        = Inr (TreeNode ty cs, rest)"
      by (simp add: f1 StartsWith_def Let_def numeral_eq_Suc)
    with False head f show ?thesis by (simp add: StartsWith_def Let_def)
  qed
qed

lemma yaml_node_read:
  assumes "plain_node n"
  shows "ParseYamlNodeBlock 2 (yaml_node 2 n) = Inr (n, [])"
proof (cases n)
  case (TreeNode ty cs)
  let ?items = "concat (map (yaml_item 4) cs)"
  have head: "FieldValue (''type: '' @ ty) ''type:'' = Inr ty"
    using assms TreeNode FieldValue_type [of ty] by simp
  show ?thesis
  proof (cases "cs = []")
    case True
    with TreeNode head show ?thesis
      by (simp add: ParseYamlNodeBlock_def yaml_node_def StartsWith_def Let_def numeral_eq_Suc)
  next
    case False
    have "ParseYamlNodeList (Suc (length ?items)) False 4 [] (?items @ []) = Inr ([] @ cs, [])"
      using assms TreeNode False by (intro yaml_items_read yaml_item_read) (auto simp: list_all_iff)
    then have "ParseYamlNodeFields (Suc (Suc (length ?items))) True 2 (TreeNode ty []) (yline 2 ''children:'' # ?items)
        = Inr (TreeNode ty cs, [])"
      by (simp add: StartsWith_def Let_def)
    with TreeNode head False show ?thesis
      by (simp add: ParseYamlNodeBlock_def yaml_node_def StartsWith_def Let_def)
  qed
qed

subsection \<open>From the text to the lines\<close>

definition line_ok :: "yaml_line \<Rightarrow> bool" where
  "line_ok l = (yl_text l \<noteq> [] \<and> \<not> IsSpace (hd (yl_text l)) \<and> \<not> IsSpace (last (yl_text l))
     \<and> CHR ''#'' \<notin> set (yl_text l) \<and> CHR 0x0A \<notin> set (yl_text l))"

lemma split_lines_line:
  "CHR 0x0A \<notin> set s \<Longrightarrow> split_lines (s @ CHR 0x0A # t) = s # split_lines t"
  by (induction s) auto

lemma YamlLine_of_line:
  assumes "line_ok l"
  shows "YamlLine_of (replicate (yl_indent l) (CHR '' '') @ yl_text l) = Inr [l]"
proof -
  obtain c s where l: "yl_text l = c # s" "\<not> IsSpace c"
    using assms by (cases "yl_text l") (auto simp: line_ok_def)
  then have c: "c \<noteq> CHR '' ''" "c \<noteq> CHR 0x09" by (auto simp: IsSpace_def)
  have "takeWhile (\<lambda>c. c = CHR '' '') (replicate (yl_indent l) (CHR '' '') @ yl_text l) = replicate (yl_indent l) (CHR '' '')"
    using l c by (simp add: takeWhile_append)
  moreover have "Trim (yl_text l) = yl_text l" using assms by (simp add: line_ok_def Trim_plain)
  ultimately show ?thesis using assms l c
    by (simp add: YamlLine_of_def Let_def line_ok_def)
qed

lemma split_document: "list_all line_ok ls \<Longrightarrow>
    split_lines (concat (map line_text ls)) = map (\<lambda>l. replicate (yl_indent l) (CHR '' '') @ yl_text l) ls @ [[]]"
proof (induction ls)
  case (Cons l ls)
  then have "CHR 0x0A \<notin> set (replicate (yl_indent l) (CHR '' '') @ yl_text l)" by (simp add: line_ok_def)
  from split_lines_line [OF this, of "concat (map line_text ls)"] Cons show ?case
    by (simp add: line_text_def [of l])
qed simp

lemma pmap_lines: "list_all line_ok ls \<Longrightarrow>
    pmap YamlLine_of (map (\<lambda>l. replicate (yl_indent l) (CHR '' '') @ yl_text l) ls @ [[]]) = Inr (map (\<lambda>l. [l]) ls @ [[]])"
  by (induction ls) (simp_all add: YamlLine_of_line, simp add: YamlLine_of_def Trim_def)

lemma LinesFromYaml_document:
  assumes "list_all line_ok ls"
  shows "LinesFromYaml (concat (map line_text ls)) = Inr ls"
proof -
  have "concat (map (\<lambda>l. [l]) ls) = ls" by (induction ls) simp_all
  with assms show ?thesis by (simp add: LinesFromYaml_def split_document pmap_lines)
qed

lemma type_line_ok:
  assumes "ty \<noteq> []" and "list_all plain_char ty"
  shows "line_ok (yline i (''type: '' @ ty))" and "line_ok (yline i (''- type: '' @ ty))"
proof -
  have "\<not> IsSpace (last ty)" "CHR ''#'' \<notin> set ty" "CHR 0x0A \<notin> set ty"
    using assms by (auto simp: list_all_iff plain_char_def IsSpace_def)
  then show "line_ok (yline i (''type: '' @ ty))" and "line_ok (yline i (''- type: '' @ ty))"
    using assms(1) by (simp_all add: line_ok_def IsSpace_def)
qed

lemma children_line_ok: "line_ok (yline i ''children:'')" "line_ok (yline i ''root:'')"
  by (simp_all add: line_ok_def IsSpace_def)

lemma yaml_item_ok: "plain_node n \<Longrightarrow> list_all line_ok (yaml_item i n)"
proof (induction n arbitrary: i)
  case (TreeNode ty cs)
  then have "list_all line_ok (concat (map (yaml_item (i + 4)) cs))"
    by (fastforce simp: list_all_iff)
  with TreeNode.prems type_line_ok [of ty i] children_line_ok show ?case by simp
qed

lemma yaml_node_ok: "plain_node n \<Longrightarrow> list_all line_ok (yaml_node i n)"
  using yaml_item_ok type_line_ok [of "node_type n" i] children_line_ok
  by (cases n) (fastforce simp: yaml_node_def list_all_iff)

lemma ParseYaml_document:
  assumes "plain_node n"
  shows "TreeParser_ParseYaml (document_yaml n) = Some (ParseSuccess n)"
proof -
  have "LinesFromYaml (document_yaml n) = Inr (yline 0 ''root:'' # yaml_node 2 n)"
    unfolding document_yaml_def
    by (rule LinesFromYaml_document) (simp add: yaml_node_ok [OF assms] children_line_ok)
  then show ?thesis
    by (simp add: TreeParser_ParseYaml_def DocumentFromYaml_def yaml_node_read [OF assms] parse_result_def)
qed

text \<open>
  C13. Round trip and agreement of the formats: for every tree definition whose type names need no
  quoting, at any depth and with any number of children, the JSON text and the indented YAML text of the
  definition are both parsed successfully, to the same document, the definition itself.
\<close>

theorem tree_formats_agree:
  assumes "plain_node n"
  shows "TreeParser_ParseJson fc (document_json n) = Some (ParseSuccess n)
     \<and> TreeParser_ParseYaml (document_yaml n) = Some (ParseSuccess n)"
  using ParseJson_document [OF assms] ParseYaml_document [OF assms] by simp

theorem tree_formats_agree_witness:
  "TreeParser_ParseYaml (document_yaml (TreeNode ''Sequence'' [TreeNode ''Wait'' [], TreeNode ''Retry'' [TreeNode ''Act'' []]])) =
     Some (ParseSuccess (TreeNode ''Sequence'' [TreeNode ''Wait'' [], TreeNode ''Retry'' [TreeNode ''Act'' []]]))"
proof -
  have "plain_node (TreeNode ''Sequence'' [TreeNode ''Wait'' [], TreeNode ''Retry'' [TreeNode ''Act'' []]])" by code_simp
  then show ?thesis by (simp only: tree_formats_agree)
qed

text \<open>
  A comment sign inside a quoted YAML scalar is taken for a comment: the quoted type name \<open>a#b\<close> is
  read as the two characters of an opening quote and \<open>a\<close>, while JSON reads the name as written.
\<close>

theorem yaml_quoted_hash:
  "TreeParser_ParseYaml (''root:'' @ [CHR 0x0A] @ ''  type: '' @ [quote_char] @ ''a#b'' @ [quote_char]) =
     Some (ParseSuccess (TreeNode [quote_char, CHR ''a''] []))"
  by code_simp

end
