(* ===== verification/Mission_Model.thy ===== *)
theory Mission_Model
  imports Safety_Validator
begin

text \<open>
  Missions: the values of \<open>include/humanoid/mission\<close>, the evaluation of the conditions of a step
  (\<open>src/mission/ConditionEvaluator.cpp\<close>) and the schema validation of a mission
  (\<open>src/mission/MissionValidator.cpp\<close>). Durations are milliseconds; attempt and iteration counts are the
  values of 32-bit unsigned integers.
\<close>

section \<open>Values\<close>

datatype mission_status = MS_Pending | MS_Running | MS_Paused | MS_Completed | MS_Failed | MS_Cancelled

fun mission_isTerminal :: "mission_status \<Rightarrow> bool" where
  "mission_isTerminal MS_Completed = True"
| "mission_isTerminal MS_Failed = True"
| "mission_isTerminal MS_Cancelled = True"
| "mission_isTerminal _ = False"

record mission_result =
  mr_status :: mission_status
  mr_message :: string

definition MResult :: "mission_status \<Rightarrow> string \<Rightarrow> mission_result" where
  "MResult st msg = \<lparr>mr_status = st, mr_message = msg\<rparr>"

definition mr_isSuccess :: "mission_result \<Rightarrow> bool" where
  "mr_isSuccess r = (mr_status r = MS_Completed)"

record retry_policy =
  rp_maxAttempts :: nat
  rp_delayBetweenAttempts :: time_ms
  rp_retryOnFailure :: bool
  rp_retryOnTimeout :: bool

definition rp_isValid :: "retry_policy \<Rightarrow> bool" where
  "rp_isValid p = (rp_maxAttempts p > 0 \<and> rp_delayBetweenAttempts p \<ge> 0)"

record timeout_policy =
  tp_timeout :: time_ms
  tp_abortOnTimeout :: bool

definition tp_isEnabled :: "timeout_policy \<Rightarrow> bool" where
  "tp_isEnabled p = (tp_timeout p > 0)"

definition tp_isValid :: "timeout_policy \<Rightarrow> bool" where
  "tp_isValid p = (tp_timeout p \<ge> 0)"

datatype condition_type =
    Cond_BatteryLevel | Cond_Connection | Cond_RobotStanding | Cond_RobotWalking | Cond_RobotSitting
  | Cond_Capability | Cond_FaultCode | Cond_EmergencyStop
  | Cond_Other nat \<comment> \<open>the raw value \<open>8 + n\<close>\<close>

datatype comparison =
    Cmp_Equal | Cmp_NotEqual | Cmp_LessThan | Cmp_LessThanOrEqual | Cmp_GreaterThan | Cmp_GreaterThanOrEqual
  | Cmp_Other nat \<comment> \<open>the raw value \<open>6 + n\<close>\<close>

datatype failure_action = FA_Skip | FA_Abort
  | FA_Other nat \<comment> \<open>the raw value \<open>2 + n\<close>\<close>

fun condition_type_toString :: "condition_type \<Rightarrow> string" where
  "condition_type_toString Cond_BatteryLevel = ''BatteryLevel''"
| "condition_type_toString Cond_Connection = ''Connection''"
| "condition_type_toString Cond_RobotStanding = ''RobotStanding''"
| "condition_type_toString Cond_RobotWalking = ''RobotWalking''"
| "condition_type_toString Cond_RobotSitting = ''RobotSitting''"
| "condition_type_toString Cond_Capability = ''Capability''"
| "condition_type_toString Cond_FaultCode = ''FaultCode''"
| "condition_type_toString Cond_EmergencyStop = ''EmergencyStop''"
| "condition_type_toString (Cond_Other _) = ''Unknown''"

record mission_condition =
  mc_id :: u64
  mc_name :: string
  mc_type :: condition_type
  mc_comparison :: comparison
  mc_numericValue :: fl
  mc_boolValue :: bool
  mc_faultCode :: int
  mc_commandType :: command_type
  mc_failureAction :: failure_action
  mc_metadata :: "(string \<times> string) list"

definition mc_isValid :: "mission_condition \<Rightarrow> bool" where
  "mc_isValid c = (mc_id c \<noteq> 0)"

text \<open>A step; \<open>wait\<close> and \<open>delay\<close> hold the durations of the optional parts.\<close>

record mission_step =
  st_id :: u64
  st_name :: string
  st_command :: command
  st_timeout :: time_ms
  st_retry :: nat
  st_retryPolicy :: retry_policy
  st_loopIterations :: nat
  st_timeoutPolicy :: timeout_policy
  st_wait :: "time_ms option"
  st_delay :: "time_ms option"
  st_skip :: bool
  st_abort :: bool
  st_conditions :: "mission_condition list"
  st_enabled :: bool
  st_metadata :: "(string \<times> string) list"

definition duration_ok :: "time_ms option \<Rightarrow> bool" where
  "duration_ok d = (case d of None \<Rightarrow> True | Some t \<Rightarrow> t \<ge> 0)"

definition step_isValid :: "mission_step \<Rightarrow> bool" where
  "step_isValid s =
     (if st_id s = 0 \<or> st_timeout s < 0 \<or> \<not> rp_isValid (st_retryPolicy s) \<or> st_loopIterations s = 0
         \<or> \<not> tp_isValid (st_timeoutPolicy s) then False
      else if \<not> duration_ok (st_wait s) then False
      else if \<not> duration_ok (st_delay s) then False
      else if \<not> list_all mc_isValid (st_conditions s) then False
      else if st_skip s \<or> st_abort s \<or> st_wait s \<noteq> None \<or> st_delay s \<noteq> None then True
      else command_isValid (st_command s))"

definition step_hasTimeout :: "mission_step \<Rightarrow> bool" where
  "step_hasTimeout s = (st_timeout s > 0)"

record mission =
  m_id :: u64
  m_name :: string
  m_description :: string
  m_version :: string
  m_author :: string
  m_timestamp :: time_ns
  m_steps :: "mission_step list"
  m_metadata :: "(string \<times> string) list"

definition mission_isValid :: "mission \<Rightarrow> bool" where
  "mission_isValid m =
     (list_all (\<lambda>s. st_enabled s \<longrightarrow> step_isValid s) (m_steps m)
      \<and> m_id m \<noteq> 0 \<and> list_ex st_enabled (m_steps m))"

section \<open>Conditions\<close>

fun CompareFloat :: "fl \<Rightarrow> comparison \<Rightarrow> fl \<Rightarrow> bool" where
  "CompareFloat a Cmp_Equal b = fl_eq a b"
| "CompareFloat a Cmp_NotEqual b = (\<not> fl_eq a b)"
| "CompareFloat a Cmp_LessThan b = fl_lt a b"
| "CompareFloat a Cmp_LessThanOrEqual b = fl_le a b"
| "CompareFloat a Cmp_GreaterThan b = fl_lt b a"
| "CompareFloat a Cmp_GreaterThanOrEqual b = fl_le b a"
| "CompareFloat a (Cmp_Other _) b = False"

fun CompareInteger :: "int \<Rightarrow> comparison \<Rightarrow> int \<Rightarrow> bool" where
  "CompareInteger a Cmp_Equal b = (a = b)"
| "CompareInteger a Cmp_NotEqual b = (a \<noteq> b)"
| "CompareInteger a Cmp_LessThan b = (a < b)"
| "CompareInteger a Cmp_LessThanOrEqual b = (a \<le> b)"
| "CompareInteger a Cmp_GreaterThan b = (a > b)"
| "CompareInteger a Cmp_GreaterThanOrEqual b = (a \<ge> b)"
| "CompareInteger a (Cmp_Other _) b = False"

fun CompareBool :: "bool \<Rightarrow> comparison \<Rightarrow> bool \<Rightarrow> bool" where
  "CompareBool a Cmp_Equal b = (a = b)"
| "CompareBool a Cmp_NotEqual b = (a \<noteq> b)"
| "CompareBool a _ b = False"

datatype mission_event_type = ME_Satisfied | ME_Failed | ME_Unavailable

record mission_event =
  ev_id :: u64
  ev_conditionId :: u64
  ev_stepId :: u64
  ev_type :: mission_event_type
  ev_timestamp :: time_ns
  ev_message :: string
  ev_metadata :: "(string \<times> string) list"

record condition_result =
  cr_evaluated :: bool
  cr_satisfied :: bool
  cr_event :: mission_event

definition cr_Succeeded :: "condition_result \<Rightarrow> bool" where
  "cr_Succeeded r = (cr_evaluated r \<and> cr_satisfied r)"

definition MakeEvent :: "time_ns \<Rightarrow> mission_condition \<Rightarrow> mission_event_type \<Rightarrow> string \<Rightarrow> mission_event" where
  "MakeEvent now c ty msg = \<lparr>ev_id = 0, ev_conditionId = mc_id c, ev_stepId = 0, ev_type = ty, ev_timestamp = now,
     ev_message = msg, ev_metadata = []\<rparr>"

definition Unavailable :: "time_ns \<Rightarrow> mission_condition \<Rightarrow> string \<Rightarrow> condition_result" where
  "Unavailable now c msg =
     \<lparr>cr_evaluated = False, cr_satisfied = False, cr_event = MakeEvent now c ME_Unavailable msg\<rparr>"

definition Evaluated :: "time_ns \<Rightarrow> mission_condition \<Rightarrow> bool \<Rightarrow> condition_result" where
  "Evaluated now c b =
     \<lparr>cr_evaluated = True, cr_satisfied = b,
      cr_event = MakeEvent now c (if b then ME_Satisfied else ME_Failed)
        (condition_type_toString (mc_type c) @ (if b then '' condition satisfied'' else '' condition failed''))\<rparr>"

text \<open>
  The evaluator holds a pointer to the state manager, which may be null, and the capabilities it was
  told; \<open>state\<close> is the state the manager returns when asked.
\<close>

record condition_evaluator =
  ce_has_state_manager :: bool
  ce_capabilities :: "command_capability_set option"

definition UpdateCapabilities :: "command_capability_set \<Rightarrow> condition_evaluator \<Rightarrow> condition_evaluator" where
  "UpdateCapabilities caps e = e\<lparr>ce_capabilities := Some caps\<rparr>"

definition ClearCapabilities :: "condition_evaluator \<Rightarrow> condition_evaluator" where
  "ClearCapabilities e = e\<lparr>ce_capabilities := None\<rparr>"

definition Evaluate ::
  "time_ns \<Rightarrow> robot_state \<Rightarrow> condition_evaluator \<Rightarrow> mission_condition \<Rightarrow> condition_result" where
  "Evaluate now state e c =
     (if \<not> mc_isValid c then Unavailable now c ''Mission condition is not valid''
      else if mc_type c = Cond_Capability then
        (case ce_capabilities e of
           None \<Rightarrow> Unavailable now c ''Robot capabilities are unavailable''
         | Some caps \<Rightarrow>
             Evaluated now c (CompareBool (Supports caps (mc_commandType c)) (mc_comparison c) (mc_boolValue c)))
      else if \<not> ce_has_state_manager e then Unavailable now c ''Robot state manager is unavailable''
      else
        (case mc_type c of
           Cond_BatteryLevel \<Rightarrow>
             if \<not> fl_isfinite (batteryLevel (power state)) then Unavailable now c ''Battery level is not finite''
             else Evaluated now c (CompareFloat (batteryLevel (power state)) (mc_comparison c) (mc_numericValue c))
         | Cond_Connection \<Rightarrow>
             Evaluated now c (CompareBool (connected (connection state)) (mc_comparison c) (mc_boolValue c))
         | Cond_RobotStanding \<Rightarrow>
             Evaluated now c (CompareBool (standing (motion state)) (mc_comparison c) (mc_boolValue c))
         | Cond_RobotWalking \<Rightarrow>
             Evaluated now c (CompareBool (walking (motion state)) (mc_comparison c) (mc_boolValue c))
         | Cond_RobotSitting \<Rightarrow>
             Evaluated now c (CompareBool (sitting (motion state)) (mc_comparison c) (mc_boolValue c))
         | Cond_FaultCode \<Rightarrow>
             Evaluated now c (CompareInteger (faultCode (health state)) (mc_comparison c) (mc_faultCode c))
         | Cond_EmergencyStop \<Rightarrow>
             Evaluated now c (CompareBool (emergencyStop (health state)) (mc_comparison c) (mc_boolValue c))
         | _ \<Rightarrow> Unavailable now c ''Unknown mission condition type''))"

text \<open>Each condition is evaluated with a clock reading and a state of its own.\<close>

fun EvaluateAll ::
  "(nat \<Rightarrow> time_ns \<times> robot_state) \<Rightarrow> condition_evaluator \<Rightarrow> mission_condition list \<Rightarrow> nat \<Rightarrow> condition_result list" where
  "EvaluateAll rs e [] j = []"
| "EvaluateAll rs e (c # cs) j = Evaluate (fst (rs j)) (snd (rs j)) e c # EvaluateAll rs e cs (Suc j)"

section \<open>Validation\<close>

fun IsKnownConditionType :: "condition_type \<Rightarrow> bool" where
  "IsKnownConditionType (Cond_Other _) = False"
| "IsKnownConditionType _ = True"

fun IsKnownComparison :: "comparison \<Rightarrow> bool" where
  "IsKnownComparison (Cmp_Other _) = False"
| "IsKnownComparison _ = True"

fun IsKnownFailureAction :: "failure_action \<Rightarrow> bool" where
  "IsKnownFailureAction (FA_Other _) = False"
| "IsKnownFailureAction _ = True"

definition IsBooleanComparison :: "comparison \<Rightarrow> bool" where
  "IsBooleanComparison c = (c = Cmp_Equal \<or> c = Cmp_NotEqual)"

text \<open>\<open>None\<close> is a valid result, \<open>Some\<close> an invalid one with its message.\<close>

definition ValidateCondition :: "mission_condition \<Rightarrow> nat \<Rightarrow> nat \<Rightarrow> string option" where
  "ValidateCondition c i j =
     (let prefix = ''Mission step '' @ to_string i @ '' condition '' @ to_string j @ '': '' in
      if mc_id c = 0 then Some (prefix @ ''id must be nonzero'')
      else if mc_name c = [] then Some (prefix @ ''name is required'')
      else if \<not> IsKnownConditionType (mc_type c) then Some (prefix @ ''type is unknown'')
      else if \<not> IsKnownComparison (mc_comparison c) then Some (prefix @ ''comparison is unknown'')
      else if \<not> IsKnownFailureAction (mc_failureAction c) then Some (prefix @ ''on_failure is unknown'')
      else if mc_type c \<in> {Cond_Connection, Cond_RobotStanding, Cond_RobotWalking, Cond_RobotSitting,
                           Cond_Capability, Cond_EmergencyStop} \<and> \<not> IsBooleanComparison (mc_comparison c)
      then Some (prefix @ ''boolean condition requires Equal or NotEqual comparison'')
      else if mc_type c = Cond_Capability \<and> \<not> IsKnownCommandType (mc_commandType c)
      then Some (prefix @ ''capability command_type is unknown'')
      else None)"

fun ValidateConditions :: "mission_condition list \<Rightarrow> nat \<Rightarrow> nat \<Rightarrow> string option" where
  "ValidateConditions [] i j = None"
| "ValidateConditions (c # cs) i j =
     (case ValidateCondition c i j of Some m \<Rightarrow> Some m | None \<Rightarrow> ValidateConditions cs i (Suc j))"

definition ValidateStep :: "mission_step \<Rightarrow> nat \<Rightarrow> string option" where
  "ValidateStep s i =
     (let prefix = ''Mission step '' @ to_string i @ '': '' in
      if \<not> st_enabled s then None
      else if st_id s = 0 then Some (prefix @ ''id must be nonzero'')
      else if st_name s = [] then Some (prefix @ ''name is required'')
      else if st_timeout s < 0 then Some (prefix @ ''timeout_ms must not be negative'')
      else if \<not> rp_isValid (st_retryPolicy s) then Some (prefix @ ''retry_policy is not valid'')
      else if st_loopIterations s = 0 then Some (prefix @ ''loop_policy.iterations must be greater than zero'')
      else if \<not> tp_isValid (st_timeoutPolicy s) then Some (prefix @ ''timeout_policy.timeout_ms must not be negative'')
      else if \<not> duration_ok (st_wait s) then Some (prefix @ ''wait.duration_ms must not be negative'')
      else if \<not> duration_ok (st_delay s) then Some (prefix @ ''delay.duration_ms must not be negative'')
      else (case ValidateConditions (st_conditions s) i 0 of
         Some m \<Rightarrow> Some m
       | None \<Rightarrow>
           if st_skip s \<or> st_abort s \<or> st_wait s \<noteq> None \<or> st_delay s \<noteq> None then None
           else if cmd_id (st_command s) = 0 then Some (prefix @ ''command.id must be nonzero'')
           else if \<not> IsKnownCommandType (cmd_type (st_command s)) then Some (prefix @ ''command.type is unknown'')
           else if \<not> IsKnownPriority (cmd_priority (st_command s)) then Some (prefix @ ''command.priority is unknown'')
           else if cmd_timeout (st_command s) < 0 then Some (prefix @ ''command.timeout_ms must not be negative'')
           else if \<not> command_isValid (st_command s) then Some (prefix @ ''command is not valid'')
           else None))"

fun ValidateSteps :: "mission_step list \<Rightarrow> nat \<Rightarrow> string option" where
  "ValidateSteps [] i = None"
| "ValidateSteps (s # ss) i = (case ValidateStep s i of Some m \<Rightarrow> Some m | None \<Rightarrow> ValidateSteps ss (Suc i))"

definition MissionValidator_Validate :: "mission \<Rightarrow> bool \<times> string" where
  "MissionValidator_Validate m =
     (if m_id m = 0 then (False, ''Mission id must be nonzero'')
      else if m_name m = [] then (False, ''Mission name is required'')
      else if m_version m = [] then (False, ''Mission version is required'')
      else if m_author m = [] then (False, ''Mission author is required'')
      else if m_steps m = [] then (False, ''Mission requires at least one step'')
      else (case ValidateSteps (m_steps m) 0 of
         Some msg \<Rightarrow> (False, msg)
       | None \<Rightarrow>
           if \<not> list_ex st_enabled (m_steps m) then (False, ''Mission requires at least one enabled step'')
           else (True, ''Mission schema is valid'')))"

section \<open>What a valid mission is\<close>

text \<open>
  A condition the validator accepts and the evaluator can read is decided as its comparison says; the
  boolean kinds never meet an order comparison, which would always be false.
\<close>

lemma ValidateConditions_None:
  "ValidateConditions cs i j = None \<Longrightarrow> c \<in> set cs \<Longrightarrow> \<exists>k. ValidateCondition c i k = None"
  by (induction cs arbitrary: j) (auto split: option.splits)

lemma ValidateCondition_isValid: "ValidateCondition c i j = None \<Longrightarrow> mc_isValid c"
  by (auto simp: ValidateCondition_def mc_isValid_def Let_def split: if_splits)

lemma ValidateStep_isValid:
  assumes "ValidateStep s i = None" and "st_enabled s"
  shows "step_isValid s"
proof -
  from assms have "ValidateConditions (st_conditions s) i 0 = None"
    by (auto simp: ValidateStep_def Let_def split: if_splits option.splits)
  then have "list_all mc_isValid (st_conditions s)"
    by (auto simp: list_all_iff dest!: ValidateConditions_None ValidateCondition_isValid)
  with assms show ?thesis
    by (auto simp: ValidateStep_def step_isValid_def Let_def split: if_splits option.splits)
qed

lemma ValidateSteps_None:
  "ValidateSteps ss i = None \<Longrightarrow> s \<in> set ss \<Longrightarrow> \<exists>k. ValidateStep s k = None"
  by (induction ss arbitrary: i) (auto split: option.splits)

lemma Validate_isValid:
  assumes "fst (MissionValidator_Validate m)"
  shows "mission_isValid m"
proof -
  from assms have "ValidateSteps (m_steps m) 0 = None" "list_ex st_enabled (m_steps m)" "m_id m \<noteq> 0"
    by (auto simp: MissionValidator_Validate_def split: if_splits option.splits)
  then show ?thesis
    by (auto simp: mission_isValid_def list_all_iff dest!: ValidateSteps_None ValidateStep_isValid)
qed

end
