(* ===== verification/Behavior_Tree_Nodes.thy ===== *)
theory Behavior_Tree_Nodes
  imports Execution_Context Blackboard Mission_Model
begin

text \<open>
  Behavior tree nodes, \<open>src/bt/*Node.cpp\<close> and \<open>src/bt/BTContext.cpp\<close>. A node is a datatype in the
  shape of the class hierarchy: composites, decorators and leaves, each with the members that
  change under ticks. Nodes are ticked against a world: the execution context and the blackboard
  their \<open>BTContext\<close> points to, the cancellation states, and whatever else the injected objects act on.
  The injected objects (callbacks, predicates, the clock, the dispatcher and the mission executor a
  leaf calls, and node classes defined outside the library) are an environment of functions on
  that world. Other threads act between the accesses of a tick, by \<open>env_interfere\<close>.
\<close>

section \<open>Statuses\<close>

datatype bt_status = BT_Idle | BT_Running | BT_Success | BT_Failure | BT_Aborted

fun bt_status_toString :: "bt_status \<Rightarrow> string" where
  "bt_status_toString BT_Idle = ''Idle''"
| "bt_status_toString BT_Running = ''Running''"
| "bt_status_toString BT_Success = ''Success''"
| "bt_status_toString BT_Failure = ''Failure''"
| "bt_status_toString BT_Aborted = ''Aborted''"

fun bt_isTerminal :: "bt_status \<Rightarrow> bool" where
  "bt_isTerminal BT_Success = True"
| "bt_isTerminal BT_Failure = True"
| "bt_isTerminal BT_Aborted = True"
| "bt_isTerminal BT_Idle = False"
| "bt_isTerminal BT_Running = False"

section \<open>The context and its environment\<close>

record ('v, 'x) bt_world =
  bw_execution :: execution_context
  bw_heap :: cancel_heap
  bw_blackboard :: "'v blackboard"
  bw_rest :: 'x

text \<open>
  A future is named by a number. Polling it answers nothing until it is ready, then its result or
  the exception it holds. The results of \<open>Cancel\<close> and \<open>Stop\<close> are discarded by the nodes, which also
  contain the exceptions those calls throw.
\<close>

record ('v, 'x) bt_env =
  env_interfere :: "('v, 'x) bt_world \<Rightarrow> ('v, 'x) bt_world"
  env_now :: "('v, 'x) bt_world \<Rightarrow> time_ns \<times> ('v, 'x) bt_world"
  env_action :: "nat \<Rightarrow> ('v, 'x) bt_world \<Rightarrow> bt_status outcome \<times> ('v, 'x) bt_world"
  env_predicate :: "nat \<Rightarrow> ('v, 'x) bt_world \<Rightarrow> bool outcome \<times> ('v, 'x) bt_world"
  env_ExecuteAsync :: "nat \<Rightarrow> command \<Rightarrow> ('v, 'x) bt_world \<Rightarrow> nat outcome \<times> ('v, 'x) bt_world"
  env_poll :: "nat \<Rightarrow> ('v, 'x) bt_world \<Rightarrow> command_result outcome option \<times> ('v, 'x) bt_world"
  env_Cancel :: "nat \<Rightarrow> u64 \<Rightarrow> ('v, 'x) bt_world \<Rightarrow> ('v, 'x) bt_world"
  env_mission_Start :: "nat \<Rightarrow> nat \<Rightarrow> ('v, 'x) bt_world \<Rightarrow> mission_status outcome \<times> ('v, 'x) bt_world"
  env_mission_GetStatus :: "nat \<Rightarrow> ('v, 'x) bt_world \<Rightarrow> mission_status outcome \<times> ('v, 'x) bt_world"
  env_mission_Cancel :: "nat \<Rightarrow> ('v, 'x) bt_world \<Rightarrow> ('v, 'x) bt_world"
  env_mission_Stop :: "nat \<Rightarrow> ('v, 'x) bt_world \<Rightarrow> ('v, 'x) bt_world"
  env_custom_Initialize :: "nat \<Rightarrow> ('v, 'x) bt_world \<Rightarrow> bt_status outcome \<times> ('v, 'x) bt_world"
  env_custom_Tick :: "nat \<Rightarrow> ('v, 'x) bt_world \<Rightarrow> bt_status outcome \<times> ('v, 'x) bt_world"
  env_custom_Reset :: "nat \<Rightarrow> ('v, 'x) bt_world \<Rightarrow> unit outcome \<times> ('v, 'x) bt_world"
  env_custom_Shutdown :: "nat \<Rightarrow> ('v, 'x) bt_world \<Rightarrow> unit outcome \<times> ('v, 'x) bt_world"

text \<open>\<open>BTContext::CancellationRequested\<close>, read after other threads may have acted.\<close>

definition bt_CancellationRequested ::
  "('v, 'x) bt_env \<Rightarrow> ('v, 'x) bt_world \<Rightarrow> bool \<times> ('v, 'x) bt_world" where
  "bt_CancellationRequested env w =
     (let w' = env_interfere env w in (CancellationRequested (bw_execution w') (bw_heap w'), w'))"

definition MakeExecutionContext :: "cancel_heap \<Rightarrow> cancel_heap \<times> execution_context" where
  "MakeExecutionContext h = ec_create 0 Scope_BehaviorTree 0 [] h"

definition BTContext_create ::
  "execution_context option \<Rightarrow> 'v blackboard option \<Rightarrow> cancel_heap \<Rightarrow> 'x \<Rightarrow> ('v, 'x) bt_world" where
  "BTContext_create execution board h x =
     (case execution of
        Some c \<Rightarrow> \<lparr>bw_execution = c, bw_heap = h,
                   bw_blackboard = (case board of Some b \<Rightarrow> b | None \<Rightarrow> []), bw_rest = x\<rparr>
      | None \<Rightarrow> (case MakeExecutionContext h of (h', c) \<Rightarrow>
                  \<lparr>bw_execution = c, bw_heap = h',
                   bw_blackboard = (case board of Some b \<Rightarrow> b | None \<Rightarrow> []), bw_rest = x\<rparr>))"

definition SetExecution ::
  "execution_context option \<Rightarrow> ('v, 'x) bt_world \<Rightarrow> ('v, 'x) bt_world \<times> bool" where
  "SetExecution execution w =
     (case execution of None \<Rightarrow> (w, False) | Some c \<Rightarrow> (w\<lparr>bw_execution := c\<rparr>, True))"

definition SetBlackboard ::
  "'v blackboard option \<Rightarrow> ('v, 'x) bt_world \<Rightarrow> ('v, 'x) bt_world \<times> bool" where
  "SetBlackboard board w =
     (case board of None \<Rightarrow> (w, False) | Some b \<Rightarrow> (w\<lparr>bw_blackboard := b\<rparr>, True))"

section \<open>Nodes\<close>

datatype memory_policy = Stateless | Memory

datatype composite_kind =
    Sequence memory_policy nat \<comment> \<open>\<open>memory_policy_\<close>, \<open>current_index_\<close>\<close>
  | Selector memory_policy nat \<comment> \<open>\<open>memory_policy_\<close>, \<open>current_index_\<close>\<close>
  | Parallel nat nat \<comment> \<open>\<open>success_threshold_\<close>, \<open>failure_threshold_\<close>\<close>

datatype decorator_kind =
    Inverter | Failer | Succeeder
  | Limiter nat nat \<comment> \<open>\<open>max_ticks_\<close>, \<open>tick_count_\<close>\<close>
  | Repeat nat nat \<comment> \<open>\<open>repeat_count_\<close>, \<open>completed_count_\<close>\<close>
  | Retry nat nat \<comment> \<open>\<open>max_attempts_\<close>, \<open>failed_attempts_\<close>\<close>
  | Timeout time_ns "time_ns option" \<comment> \<open>\<open>timeout_\<close>, \<open>start_time_\<close>\<close>

datatype leaf_kind =
    Action "nat option" \<comment> \<open>\<open>callback_\<close>\<close>
  | Condition "nat option" \<comment> \<open>\<open>predicate_\<close>\<close>
  | Wait "nat option" bool \<comment> \<open>\<open>predicate_\<close>, \<open>satisfied_\<close>\<close>
  | Delay time_ns "time_ns option" bool \<comment> \<open>\<open>duration_\<close>, \<open>start_time_\<close>, \<open>completed_\<close>\<close>
  | CommandLeaf "nat option" command "nat option" "bt_status option"
      \<comment> \<open>\<open>dispatcher_\<close>, \<open>command_\<close>, \<open>future_\<close>, \<open>terminal_status_\<close>\<close>
  | MissionLeaf "nat option" nat bool "bt_status option"
      \<comment> \<open>\<open>executor_\<close>, \<open>mission_\<close>, \<open>started_\<close>, \<open>terminal_status_\<close>\<close>
  | Custom nat \<comment> \<open>a node class defined outside the library\<close>

datatype bt_node =
    Composite string composite_kind "bt_node list"
  | Decorator string decorator_kind "bt_node option"
  | Leaf string leaf_kind

fun bt_Name :: "bt_node \<Rightarrow> string" where
  "bt_Name (Composite nm _ _) = nm"
| "bt_Name (Decorator nm _ _) = nm"
| "bt_Name (Leaf nm _) = nm"

subsection \<open>Construction\<close>

definition default_name :: "string \<Rightarrow> string \<Rightarrow> string" where
  "default_name d nm = (if nm = [] then d else nm)"

definition CompositeNode_create :: "string \<Rightarrow> composite_kind \<Rightarrow> bt_node option list \<Rightarrow> bt_node" where
  "CompositeNode_create nm k cs = Composite (default_name ''Composite'' nm) k (List.map_filter id cs)"

definition DecoratorNode_create :: "string \<Rightarrow> decorator_kind \<Rightarrow> bt_node option \<Rightarrow> bt_node" where
  "DecoratorNode_create nm k child = Decorator (default_name ''Decorator'' nm) k child"

definition SequenceNode_create :: "string \<Rightarrow> memory_policy \<Rightarrow> bt_node option list \<Rightarrow> bt_node" where
  "SequenceNode_create nm p cs = CompositeNode_create nm (Sequence p 0) cs"

definition SelectorNode_create :: "string \<Rightarrow> memory_policy \<Rightarrow> bt_node option list \<Rightarrow> bt_node" where
  "SelectorNode_create nm p cs = CompositeNode_create nm (Selector p 0) cs"

definition ParallelNode_create :: "string \<Rightarrow> nat \<Rightarrow> nat \<Rightarrow> bt_node option list \<Rightarrow> bt_node" where
  "ParallelNode_create nm s f cs = CompositeNode_create nm (Parallel s (max 1 f)) cs"

definition InverterNode_create :: "string \<Rightarrow> bt_node option \<Rightarrow> bt_node" where
  "InverterNode_create nm child = DecoratorNode_create nm Inverter child"

definition FailerNode_create :: "string \<Rightarrow> bt_node option \<Rightarrow> bt_node" where
  "FailerNode_create nm child = DecoratorNode_create nm Failer child"

definition SucceederNode_create :: "string \<Rightarrow> bt_node option \<Rightarrow> bt_node" where
  "SucceederNode_create nm child = DecoratorNode_create nm Succeeder child"

definition LimiterNode_create :: "string \<Rightarrow> nat \<Rightarrow> bt_node option \<Rightarrow> bt_node" where
  "LimiterNode_create nm n child = DecoratorNode_create nm (Limiter n 0) child"

definition RepeatNode_create :: "string \<Rightarrow> nat \<Rightarrow> bt_node option \<Rightarrow> bt_node" where
  "RepeatNode_create nm n child = DecoratorNode_create nm (Repeat n 0) child"

definition RetryNode_create :: "string \<Rightarrow> nat \<Rightarrow> bt_node option \<Rightarrow> bt_node" where
  "RetryNode_create nm n child = DecoratorNode_create nm (Retry (max 1 n) 0) child"

definition TimeoutNode_create :: "string \<Rightarrow> time_ns \<Rightarrow> bt_node option \<Rightarrow> bt_node" where
  "TimeoutNode_create nm t child = DecoratorNode_create nm (Timeout t None) child"

definition ActionNode_create :: "string \<Rightarrow> nat option \<Rightarrow> bt_node" where
  "ActionNode_create nm cb = Leaf (default_name ''Action'' nm) (Action cb)"

definition ConditionNode_create :: "string \<Rightarrow> nat option \<Rightarrow> bt_node" where
  "ConditionNode_create nm p = Leaf (default_name ''Condition'' nm) (Condition p)"

definition WaitNode_create :: "string \<Rightarrow> nat option \<Rightarrow> bt_node" where
  "WaitNode_create nm p = Leaf (default_name ''Wait'' nm) (Wait p False)"

definition DelayNode_create :: "string \<Rightarrow> time_ns \<Rightarrow> bt_node" where
  "DelayNode_create nm d = Leaf (default_name ''Delay'' nm) (Delay d None False)"

definition CommandNode_create :: "string \<Rightarrow> nat option \<Rightarrow> command \<Rightarrow> bt_node" where
  "CommandNode_create nm d c = Leaf (default_name ''Command'' nm) (CommandLeaf d c None None)"

definition MissionNode_create :: "string \<Rightarrow> nat option \<Rightarrow> nat \<Rightarrow> bt_node" where
  "MissionNode_create nm e m = Leaf (default_name ''Mission'' nm) (MissionLeaf e m False None)"

section \<open>Leaves\<close>

type_synonym ('v, 'x) leaf_result = "bt_status outcome \<times> leaf_kind \<times> ('v, 'x) bt_world"

text \<open>\<open>ActionNode::Tick\<close>: every exception of the callback is a failure.\<close>

definition ActionNode_Tick ::
  "('v, 'x) bt_env \<Rightarrow> nat option \<Rightarrow> ('v, 'x) bt_world \<Rightarrow> ('v, 'x) leaf_result" where
  "ActionNode_Tick env callback w =
     (case bt_CancellationRequested env w of
        (True, w1) \<Rightarrow> (Returned BT_Aborted, Action callback, w1)
      | (False, w1) \<Rightarrow>
          (case callback of
             None \<Rightarrow> (Returned BT_Failure, Action callback, w1)
           | Some f \<Rightarrow>
               (case env_action env f w1 of
                  (Returned st, w2) \<Rightarrow> (Returned st, Action callback, w2)
                | (_, w2) \<Rightarrow> (Returned BT_Failure, Action callback, w2))))"

definition ConditionNode_Tick ::
  "('v, 'x) bt_env \<Rightarrow> nat option \<Rightarrow> ('v, 'x) bt_world \<Rightarrow> ('v, 'x) leaf_result" where
  "ConditionNode_Tick env predicate w =
     (case bt_CancellationRequested env w of
        (True, w1) \<Rightarrow> (Returned BT_Aborted, Condition predicate, w1)
      | (False, w1) \<Rightarrow>
          (case predicate of
             None \<Rightarrow> (Returned BT_Failure, Condition predicate, w1)
           | Some f \<Rightarrow>
               (case env_predicate env f w1 of
                  (Returned b, w2) \<Rightarrow>
                    (Returned (if b then BT_Success else BT_Failure), Condition predicate, w2)
                | (_, w2) \<Rightarrow> (Returned BT_Failure, Condition predicate, w2))))"

definition WaitNode_Tick ::
  "('v, 'x) bt_env \<Rightarrow> nat option \<Rightarrow> bool \<Rightarrow> ('v, 'x) bt_world \<Rightarrow> ('v, 'x) leaf_result" where
  "WaitNode_Tick env predicate satisfied w =
     (case bt_CancellationRequested env w of
        (True, w1) \<Rightarrow> (Returned BT_Aborted, Wait predicate False, w1)
      | (False, w1) \<Rightarrow>
          (case predicate of
             None \<Rightarrow> (Returned BT_Failure, Wait predicate satisfied, w1)
           | Some f \<Rightarrow>
               if satisfied then (Returned BT_Success, Wait predicate satisfied, w1)
               else (case env_predicate env f w1 of
                  (Returned b, w2) \<Rightarrow>
                    (Returned (if b then BT_Success else BT_Running), Wait predicate b, w2)
                | (_, w2) \<Rightarrow> (Returned BT_Failure, Wait predicate False, w2))))"

text \<open>\<open>DelayNode::Tick\<close>; \<open>ClearTimer\<close> also clears \<open>completed_\<close>.\<close>

definition DelayNode_ClearTimer :: "time_ns \<Rightarrow> leaf_kind" where
  "DelayNode_ClearTimer d = Delay d None False"

definition DelayNode_Tick ::
  "('v, 'x) bt_env \<Rightarrow> time_ns \<Rightarrow> time_ns option \<Rightarrow> bool \<Rightarrow> ('v, 'x) bt_world \<Rightarrow> ('v, 'x) leaf_result" where
  "DelayNode_Tick env d start completed w =
     (case bt_CancellationRequested env w of
        (True, w1) \<Rightarrow> (Returned BT_Aborted, DelayNode_ClearTimer d, w1)
      | (False, w1) \<Rightarrow>
          if completed then (Returned BT_Success, Delay d start completed, w1)
          else if d \<le> 0 then (Returned BT_Success, Delay d start True, w1)
          else (case env_now env w1 of
             (now, w2) \<Rightarrow>
               (case start of
                  None \<Rightarrow> (Returned BT_Running, Delay d (Some now) completed, w2)
                | Some t0 \<Rightarrow>
                    if d \<le> now - t0 then (Returned BT_Success, DelayNode_ClearTimer d, w2)
                    else (Returned BT_Running, Delay d start completed, w2))))"

subsection \<open>Commands\<close>

fun FromCommandStatus :: "command_status \<Rightarrow> bt_status" where
  "FromCommandStatus Status_Completed = BT_Success"
| "FromCommandStatus Status_Cancelled = BT_Aborted"
| "FromCommandStatus Status_Pending = BT_Running"
| "FromCommandStatus Status_Queued = BT_Running"
| "FromCommandStatus Status_Running = BT_Running"
| "FromCommandStatus Status_Failed = BT_Failure"
| "FromCommandStatus Status_Timeout = BT_Failure"
| "FromCommandStatus Status_Rejected = BT_Failure"
| "FromCommandStatus (Status_Other _) = BT_Failure"

text \<open>\<open>CancelActiveLocked\<close>: the world after it; the future is reset by its callers' new state.\<close>

definition CancelActiveLocked ::
  "('v, 'x) bt_env \<Rightarrow> nat option \<Rightarrow> command \<Rightarrow> nat option \<Rightarrow> ('v, 'x) bt_world \<Rightarrow> ('v, 'x) bt_world" where
  "CancelActiveLocked env dispatcher c future w =
     (case (future, dispatcher) of
        (Some _, Some d) \<Rightarrow> env_Cancel env d (cmd_id c) w
      | _ \<Rightarrow> w)"

text \<open>The part of \<open>CommandNode::Tick\<close> after a future is available: poll it, latch its result.\<close>

definition CommandNode_poll ::
  "('v, 'x) bt_env \<Rightarrow> nat \<Rightarrow> command \<Rightarrow> nat \<Rightarrow> ('v, 'x) bt_world \<Rightarrow> ('v, 'x) leaf_result" where
  "CommandNode_poll env d c f w =
     (case env_poll env f w of
        (None, w1) \<Rightarrow> (Returned BT_Running, CommandLeaf (Some d) c (Some f) None, w1)
      | (Some (Returned r), w1) \<Rightarrow>
          (Returned (FromCommandStatus (res_status r)),
           CommandLeaf (Some d) c None (Some (FromCommandStatus (res_status r))), w1)
      | (Some _, w1) \<Rightarrow> (Returned BT_Failure, CommandLeaf (Some d) c None (Some BT_Failure), w1))"

definition CommandNode_Tick ::
  "('v, 'x) bt_env \<Rightarrow> nat option \<Rightarrow> command \<Rightarrow> nat option \<Rightarrow> bt_status option
     \<Rightarrow> ('v, 'x) bt_world \<Rightarrow> ('v, 'x) leaf_result" where
  "CommandNode_Tick env dispatcher c future terminal w =
     (case terminal of
        Some st \<Rightarrow> (Returned st, CommandLeaf dispatcher c future terminal, w)
      | None \<Rightarrow>
          (case bt_CancellationRequested env w of
             (True, w1) \<Rightarrow> (Returned BT_Aborted, CommandLeaf dispatcher c None (Some BT_Aborted),
                           CancelActiveLocked env dispatcher c future w1)
           | (False, w1) \<Rightarrow>
               (case dispatcher of
                  None \<Rightarrow> (Returned BT_Failure, CommandLeaf dispatcher c future (Some BT_Failure), w1)
                | Some d \<Rightarrow>
                    (case future of
                       Some f \<Rightarrow> CommandNode_poll env d c f w1
                     | None \<Rightarrow>
                         (case env_ExecuteAsync env d c w1 of
                            (Returned f, w2) \<Rightarrow> CommandNode_poll env d c f w2
                          | (_, w2) \<Rightarrow>
                              (Returned BT_Failure, CommandLeaf dispatcher c None (Some BT_Failure), w2))))))"

subsection \<open>Missions\<close>

fun FromMissionStatus :: "mission_status \<Rightarrow> bt_status" where
  "FromMissionStatus MS_Completed = BT_Success"
| "FromMissionStatus MS_Cancelled = BT_Aborted"
| "FromMissionStatus MS_Failed = BT_Failure"
| "FromMissionStatus MS_Pending = BT_Running"
| "FromMissionStatus MS_Running = BT_Running"
| "FromMissionStatus MS_Paused = BT_Running"

definition StopActiveLocked ::
  "('v, 'x) bt_env \<Rightarrow> nat option \<Rightarrow> bool \<Rightarrow> ('v, 'x) bt_world \<Rightarrow> ('v, 'x) bt_world" where
  "StopActiveLocked env executor started w =
     (case executor of Some e \<Rightarrow> if started then env_mission_Stop env e w else w | None \<Rightarrow> w)"

definition MissionNode_Tick ::
  "('v, 'x) bt_env \<Rightarrow> nat option \<Rightarrow> nat \<Rightarrow> bool \<Rightarrow> bt_status option
     \<Rightarrow> ('v, 'x) bt_world \<Rightarrow> ('v, 'x) leaf_result" where
  "MissionNode_Tick env executor m started terminal w =
     (case terminal of
        Some st \<Rightarrow> (Returned st, MissionLeaf executor m started terminal, w)
      | None \<Rightarrow>
          (case bt_CancellationRequested env w of
             (True, w1) \<Rightarrow> (Returned BT_Aborted, MissionLeaf executor m False (Some BT_Aborted),
               (case executor of Some e \<Rightarrow> if started then env_mission_Cancel env e w1 else w1 | None \<Rightarrow> w1))
           | (False, w1) \<Rightarrow>
               (case executor of
                  None \<Rightarrow> (Returned BT_Failure, MissionLeaf executor m started (Some BT_Failure), w1)
                | Some e \<Rightarrow>
                    if \<not> started then
                      (case env_mission_Start env e m w1 of
                         (Returned ms, w2) \<Rightarrow>
                           (let st = FromMissionStatus ms in
                            if st \<noteq> BT_Running then (Returned st, MissionLeaf executor m False (Some st), w2)
                            else (Returned BT_Running, MissionLeaf executor m True None, w2))
                       | (_, w2) \<Rightarrow> (Returned BT_Failure, MissionLeaf executor m False (Some BT_Failure), w2))
                    else
                      (case env_mission_GetStatus env e w1 of
                         (Returned ms, w2) \<Rightarrow>
                           (let st = FromMissionStatus ms in
                            if bt_isTerminal st then (Returned st, MissionLeaf executor m False (Some st), w2)
                            else (Returned BT_Running, MissionLeaf executor m started None, w2))
                       | (_, w2) \<Rightarrow> (Returned BT_Failure, MissionLeaf executor m False (Some BT_Failure), w2)))))"

subsection \<open>The operations of a leaf\<close>

fun leaf_Tick :: "('v, 'x) bt_env \<Rightarrow> leaf_kind \<Rightarrow> ('v, 'x) bt_world \<Rightarrow> ('v, 'x) leaf_result" where
  "leaf_Tick env (Action cb) w = ActionNode_Tick env cb w"
| "leaf_Tick env (Condition p) w = ConditionNode_Tick env p w"
| "leaf_Tick env (Wait p s) w = WaitNode_Tick env p s w"
| "leaf_Tick env (Delay d t c) w = DelayNode_Tick env d t c w"
| "leaf_Tick env (CommandLeaf d c f t) w = CommandNode_Tick env d c f t w"
| "leaf_Tick env (MissionLeaf e m s t) w = MissionNode_Tick env e m s t w"
| "leaf_Tick env (Custom i) w = (case env_custom_Tick env i w of (st, w') \<Rightarrow> (st, Custom i, w'))"

definition idle_if :: "'a option \<Rightarrow> bt_status outcome" where
  "idle_if x = Returned (if x = None then BT_Failure else BT_Idle)"

fun leaf_Initialize ::
  "('v, 'x) bt_env \<Rightarrow> leaf_kind \<Rightarrow> ('v, 'x) bt_world \<Rightarrow> ('v, 'x) leaf_result" where
  "leaf_Initialize env (Action cb) w = (idle_if cb, Action cb, w)"
| "leaf_Initialize env (Condition p) w = (idle_if p, Condition p, w)"
| "leaf_Initialize env (Wait p s) w = (idle_if p, Wait p False, w)"
| "leaf_Initialize env (Delay d t c) w = (Returned BT_Idle, DelayNode_ClearTimer d, w)"
| "leaf_Initialize env (CommandLeaf d c f t) w = (idle_if d, CommandLeaf d c f None, w)"
| "leaf_Initialize env (MissionLeaf e m s t) w = (idle_if e, MissionLeaf e m False None, w)"
| "leaf_Initialize env (Custom i) w =
     (case env_custom_Initialize env i w of (st, w') \<Rightarrow> (st, Custom i, w'))"

fun leaf_Reset ::
  "('v, 'x) bt_env \<Rightarrow> leaf_kind \<Rightarrow> ('v, 'x) bt_world \<Rightarrow> unit outcome \<times> leaf_kind \<times> ('v, 'x) bt_world" where
  "leaf_Reset env (Action cb) w = (Returned (), Action cb, w)"
| "leaf_Reset env (Condition p) w = (Returned (), Condition p, w)"
| "leaf_Reset env (Wait p s) w = (Returned (), Wait p False, w)"
| "leaf_Reset env (Delay d t c) w = (Returned (), DelayNode_ClearTimer d, w)"
| "leaf_Reset env (CommandLeaf d c f t) w =
     (Returned (), CommandLeaf d c None None, CancelActiveLocked env d c f w)"
| "leaf_Reset env (MissionLeaf e m s t) w =
     (Returned (), MissionLeaf e m False None, StopActiveLocked env e s w)"
| "leaf_Reset env (Custom i) w = (case env_custom_Reset env i w of (r, w') \<Rightarrow> (r, Custom i, w'))"

fun leaf_Shutdown ::
  "('v, 'x) bt_env \<Rightarrow> leaf_kind \<Rightarrow> ('v, 'x) bt_world \<Rightarrow> unit outcome \<times> leaf_kind \<times> ('v, 'x) bt_world" where
  "leaf_Shutdown env (Action cb) w = (Returned (), Action cb, w)"
| "leaf_Shutdown env (Condition p) w = (Returned (), Condition p, w)"
| "leaf_Shutdown env (Wait p s) w = (Returned (), Wait p False, w)"
| "leaf_Shutdown env (Delay d t c) w = (Returned (), DelayNode_ClearTimer d, w)"
| "leaf_Shutdown env (CommandLeaf d c f t) w =
     (Returned (), CommandLeaf d c None t, CancelActiveLocked env d c f w)"
| "leaf_Shutdown env (MissionLeaf e m s t) w =
     (Returned (), MissionLeaf e m False t, StopActiveLocked env e s w)"
| "leaf_Shutdown env (Custom i) w = (case env_custom_Shutdown env i w of (r, w') \<Rightarrow> (r, Custom i, w'))"

end
