(* ===== verification/Behavior_Tree.thy ===== *)
theory Behavior_Tree
  imports Behavior_Tree_Nodes
begin

text \<open>
  The recursive operations of behavior tree nodes, and \<open>src/bt/BehaviorTree.cpp\<close>, which owns a root
  node and keeps the status of the execution. An operation of a composite or decorator is a
  definition over the operations of its children, given as functions on the world that answer an
  outcome and the new child; \<open>Tick\<close>, \<open>Initialize\<close>, \<open>Reset\<close> and \<open>Shutdown\<close> tie the recursion.
\<close>

type_synonym ('v, 'x) node_tick =
  "('v, 'x) bt_world \<Rightarrow> bt_status outcome \<times> bt_node \<times> ('v, 'x) bt_world"

type_synonym ('v, 'x) node_action =
  "('v, 'x) bt_world \<Rightarrow> unit outcome \<times> bt_node \<times> ('v, 'x) bt_world"

section \<open>Initialization, reset and shutdown\<close>

text \<open>\<open>OnInitializeLocked\<close> and \<open>OnResetLocked\<close> clear the same members in every class.\<close>

fun composite_OnResetLocked :: "composite_kind \<Rightarrow> composite_kind" where
  "composite_OnResetLocked (Sequence p i) = Sequence p 0"
| "composite_OnResetLocked (Selector p i) = Selector p 0"
| "composite_OnResetLocked (Parallel s f) = Parallel s f"

fun decorator_OnResetLocked :: "decorator_kind \<Rightarrow> decorator_kind" where
  "decorator_OnResetLocked Inverter = Inverter"
| "decorator_OnResetLocked Failer = Failer"
| "decorator_OnResetLocked Succeeder = Succeeder"
| "decorator_OnResetLocked (Limiter m n) = Limiter m 0"
| "decorator_OnResetLocked (Repeat m n) = Repeat m 0"
| "decorator_OnResetLocked (Retry m n) = Retry m 0"
| "decorator_OnResetLocked (Timeout d t) = Timeout d None"

text \<open>
  The loop of \<open>CompositeNode::Initialize\<close> stops at the first child that does not initialize, or
  throws. A child is given with its operation.
\<close>

fun Initialize_children ::
  "(bt_node \<times> ('v, 'x) node_tick) list \<Rightarrow> ('v, 'x) bt_world
     \<Rightarrow> bt_status outcome \<times> bt_node list \<times> ('v, 'x) bt_world" where
  "Initialize_children [] w = (Returned BT_Idle, [], w)"
| "Initialize_children ((c, op) # cs) w =
     (case op w of
        (Returned st, c', w1) \<Rightarrow>
          if st = BT_Aborted \<or> st = BT_Failure then (Returned st, c' # map fst cs, w1)
          else (case Initialize_children cs w1 of (r, cs', w2) \<Rightarrow> (r, c' # cs', w2))
      | (r, c', w1) \<Rightarrow> (r, c' # map fst cs, w1))"

text \<open>The loop of \<open>CompositeNode::Reset\<close>: an exception leaves it.\<close>

fun Reset_children ::
  "(bt_node \<times> ('v, 'x) node_action) list \<Rightarrow> ('v, 'x) bt_world
     \<Rightarrow> unit outcome \<times> bt_node list \<times> ('v, 'x) bt_world" where
  "Reset_children [] w = (Returned (), [], w)"
| "Reset_children ((c, op) # cs) w =
     (case op w of
        (Returned _, c', w1) \<Rightarrow> (case Reset_children cs w1 of (r, cs', w2) \<Rightarrow> (r, c' # cs', w2))
      | (r, c', w1) \<Rightarrow> (r, c' # map fst cs, w1))"

text \<open>The loop of \<open>CompositeNode::Shutdown\<close>: exceptions of a child are contained.\<close>

fun Shutdown_children ::
  "(bt_node \<times> ('v, 'x) node_action) list \<Rightarrow> ('v, 'x) bt_world \<Rightarrow> bt_node list \<times> ('v, 'x) bt_world" where
  "Shutdown_children [] w = ([], w)"
| "Shutdown_children ((c, op) # cs) w =
     (case op w of (_, c', w1) \<Rightarrow> (case Shutdown_children cs w1 of (cs', w2) \<Rightarrow> (c' # cs', w2)))"

fun node_Initialize :: "('v, 'x) bt_env \<Rightarrow> bt_node \<Rightarrow> ('v, 'x) node_tick" where
  "node_Initialize env (Composite nm k cs) =
     (\<lambda>w. case Initialize_children (map (\<lambda>c. (c, node_Initialize env c)) cs) w of
        (r, cs', w') \<Rightarrow> (r, Composite nm (composite_OnResetLocked k) cs', w'))"
| "node_Initialize env (Decorator nm k None) =
     (\<lambda>w. (Returned BT_Failure, Decorator nm (decorator_OnResetLocked k) None, w))"
| "node_Initialize env (Decorator nm k (Some c)) =
     (\<lambda>w. case node_Initialize env c w of
        (r, c', w') \<Rightarrow> (r, Decorator nm (decorator_OnResetLocked k) (Some c'), w'))"
| "node_Initialize env (Leaf nm l) =
     (\<lambda>w. case leaf_Initialize env l w of (r, l', w') \<Rightarrow> (r, Leaf nm l', w'))"

fun node_Reset :: "('v, 'x) bt_env \<Rightarrow> bt_node \<Rightarrow> ('v, 'x) node_action" where
  "node_Reset env (Composite nm k cs) =
     (\<lambda>w. case Reset_children (map (\<lambda>c. (c, node_Reset env c)) cs) w of
        (r, cs', w') \<Rightarrow> (r, Composite nm (composite_OnResetLocked k) cs', w'))"
| "node_Reset env (Decorator nm k None) =
     (\<lambda>w. (Returned (), Decorator nm (decorator_OnResetLocked k) None, w))"
| "node_Reset env (Decorator nm k (Some c)) =
     (\<lambda>w. case node_Reset env c w of
        (r, c', w') \<Rightarrow> (r, Decorator nm (decorator_OnResetLocked k) (Some c'), w'))"
| "node_Reset env (Leaf nm l) =
     (\<lambda>w. case leaf_Reset env l w of (r, l', w') \<Rightarrow> (r, Leaf nm l', w'))"

fun node_Shutdown :: "('v, 'x) bt_env \<Rightarrow> bt_node \<Rightarrow> ('v, 'x) node_action" where
  "node_Shutdown env (Composite nm k cs) =
     (\<lambda>w. case Shutdown_children (map (\<lambda>c. (c, node_Shutdown env c)) cs) w of
        (cs', w') \<Rightarrow> (Returned (), Composite nm (composite_OnResetLocked k) cs', w'))"
| "node_Shutdown env (Decorator nm k None) =
     (\<lambda>w. (Returned (), Decorator nm (decorator_OnResetLocked k) None, w))"
| "node_Shutdown env (Decorator nm k (Some c)) =
     (\<lambda>w. case node_Shutdown env c w of
        (_, c', w') \<Rightarrow> (Returned (), Decorator nm (decorator_OnResetLocked k) (Some c'), w'))"
| "node_Shutdown env (Leaf nm l) =
     (\<lambda>w. case leaf_Shutdown env l w of (r, l', w') \<Rightarrow> (r, Leaf nm l', w'))"

subsection \<open>Attaching children\<close>

text \<open>\<open>AddChild\<close> and \<open>SetChild\<close>; \<open>None\<close> when the node is of another class.\<close>

fun AddChild :: "bt_node option \<Rightarrow> bt_node \<Rightarrow> (bt_node \<times> bool) option" where
  "AddChild None (Composite nm k cs) = Some (Composite nm k cs, False)"
| "AddChild (Some c) (Composite nm k cs) = Some (Composite nm k (cs @ [c]), True)"
| "AddChild _ _ = None"

fun SetChild :: "bt_node option \<Rightarrow> bt_node \<Rightarrow> (bt_node \<times> bool) option" where
  "SetChild None (Decorator nm k ch) = Some (Decorator nm k ch, False)"
| "SetChild (Some c) (Decorator nm k ch) = Some (Decorator nm (decorator_OnResetLocked k) (Some c), True)"
| "SetChild _ _ = None"

fun ChildCount :: "bt_node \<Rightarrow> nat" where
  "ChildCount (Composite _ _ cs) = length cs"
| "ChildCount _ = 0"

fun HasChild :: "bt_node \<Rightarrow> bool" where
  "HasChild (Decorator _ _ ch) = (ch \<noteq> None)"
| "HasChild _ = False"

section \<open>Ticks of composites\<close>

text \<open>
  The loop of \<open>SequenceNode::Tick\<close> over the children from \<open>index\<close> on: the outcome, the index where the
  loop stopped and the children. A child that answers \<open>Idle\<close> counts as running.
\<close>

fun SequenceNode_loop ::
  "nat \<Rightarrow> (bt_node \<times> ('v, 'x) node_tick) list \<Rightarrow> ('v, 'x) bt_world
     \<Rightarrow> bt_status outcome \<times> nat \<times> bt_node list \<times> ('v, 'x) bt_world" where
  "SequenceNode_loop index [] w = (Returned BT_Success, index, [], w)"
| "SequenceNode_loop index ((c, op) # cs) w =
     (case op w of
        (Returned BT_Success, c', w1) \<Rightarrow>
          (case SequenceNode_loop (Suc index) cs w1 of (r, i, cs', w2) \<Rightarrow> (r, i, c' # cs', w2))
      | (Returned BT_Idle, c', w1) \<Rightarrow> (Returned BT_Running, index, c' # map fst cs, w1)
      | (r, c', w1) \<Rightarrow> (r, index, c' # map fst cs, w1))"

fun SelectorNode_loop ::
  "nat \<Rightarrow> (bt_node \<times> ('v, 'x) node_tick) list \<Rightarrow> ('v, 'x) bt_world
     \<Rightarrow> bt_status outcome \<times> nat \<times> bt_node list \<times> ('v, 'x) bt_world" where
  "SelectorNode_loop index [] w = (Returned BT_Failure, index, [], w)"
| "SelectorNode_loop index ((c, op) # cs) w =
     (case op w of
        (Returned BT_Failure, c', w1) \<Rightarrow>
          (case SelectorNode_loop (Suc index) cs w1 of (r, i, cs', w2) \<Rightarrow> (r, i, c' # cs', w2))
      | (Returned BT_Idle, c', w1) \<Rightarrow> (Returned BT_Running, index, c' # map fst cs, w1)
      | (r, c', w1) \<Rightarrow> (r, index, c' # map fst cs, w1))"

text \<open>
  \<open>current_index_\<close> after the loop: the running child's index under the memory policy, \<open>0\<close> when the
  loop has a terminal status, and unchanged when a child threw.
\<close>

definition next_index :: "memory_policy \<Rightarrow> nat \<Rightarrow> bt_status outcome \<Rightarrow> nat \<Rightarrow> nat" where
  "next_index p current r i =
     (case r of
        Returned BT_Running \<Rightarrow> if p = Memory then i else 0
      | Returned _ \<Rightarrow> 0
      | _ \<Rightarrow> current)"

definition SequenceNode_Tick ::
  "('v, 'x) bt_env \<Rightarrow> memory_policy \<Rightarrow> nat \<Rightarrow> (bt_node \<times> ('v, 'x) node_tick) list \<Rightarrow> ('v, 'x) bt_world
     \<Rightarrow> bt_status outcome \<times> composite_kind \<times> bt_node list \<times> ('v, 'x) bt_world" where
  "SequenceNode_Tick env p current cs w =
     (case bt_CancellationRequested env w of
        (True, w1) \<Rightarrow> (Returned BT_Aborted, Sequence p 0, map fst cs, w1)
      | (False, w1) \<Rightarrow>
          if cs = [] then (Returned BT_Success, Sequence p 0, map fst cs, w1)
          else (let start = (if p = Memory then current else 0) in
            case SequenceNode_loop start (drop start cs) w1 of
              (r, i, cs', w2) \<Rightarrow>
                (r, Sequence p (next_index p current r i), map fst (take start cs) @ cs', w2)))"

definition SelectorNode_Tick ::
  "('v, 'x) bt_env \<Rightarrow> memory_policy \<Rightarrow> nat \<Rightarrow> (bt_node \<times> ('v, 'x) node_tick) list \<Rightarrow> ('v, 'x) bt_world
     \<Rightarrow> bt_status outcome \<times> composite_kind \<times> bt_node list \<times> ('v, 'x) bt_world" where
  "SelectorNode_Tick env p current cs w =
     (case bt_CancellationRequested env w of
        (True, w1) \<Rightarrow> (Returned BT_Aborted, Selector p 0, map fst cs, w1)
      | (False, w1) \<Rightarrow>
          if cs = [] then (Returned BT_Failure, Selector p 0, map fst cs, w1)
          else (let start = (if p = Memory then current else 0) in
            case SelectorNode_loop start (drop start cs) w1 of
              (r, i, cs', w2) \<Rightarrow>
                (r, Selector p (next_index p current r i), map fst (take start cs) @ cs', w2)))"

text \<open>
  The children of a parallel node tick on their own threads. Their states are disjoint and they
  share only the world, on which they interfere through \<open>env_interfere\<close>; the futures are read in
  the order of the children. An exception of a child is a failure.
\<close>

definition caught :: "bt_status outcome \<Rightarrow> bt_status" where
  "caught r = (case r of Returned st \<Rightarrow> st | _ \<Rightarrow> BT_Failure)"

fun ParallelNode_futures ::
  "(bt_node \<times> ('v, 'x) node_tick) list \<Rightarrow> ('v, 'x) bt_world
     \<Rightarrow> bt_status list \<times> bt_node list \<times> ('v, 'x) bt_world" where
  "ParallelNode_futures [] w = ([], [], w)"
| "ParallelNode_futures ((c, op) # cs) w =
     (case op w of
        (r, c', w1) \<Rightarrow>
          (case ParallelNode_futures cs w1 of (sts, cs', w2) \<Rightarrow> (caught r # sts, c' # cs', w2)))"

fun parallel_count ::
  "bt_status list \<Rightarrow> nat \<times> nat \<times> nat \<times> nat \<Rightarrow> nat \<times> nat \<times> nat \<times> nat" where
  "parallel_count [] (s, f, r, a) = (s, f, r, a)"
| "parallel_count (BT_Success # sts) (s, f, r, a) = parallel_count sts (Suc s, f, r, a)"
| "parallel_count (BT_Failure # sts) (s, f, r, a) = parallel_count sts (s, Suc f, r, a)"
| "parallel_count (BT_Running # sts) (s, f, r, a) = parallel_count sts (s, f, Suc r, a)"
| "parallel_count (BT_Idle # sts) (s, f, r, a) = parallel_count sts (s, f, Suc r, a)"
| "parallel_count (BT_Aborted # sts) (s, f, r, a) = parallel_count sts (s, f, r, Suc a)"

definition ParallelNode_Tick ::
  "('v, 'x) bt_env \<Rightarrow> nat \<Rightarrow> nat \<Rightarrow> (bt_node \<times> ('v, 'x) node_tick) list \<Rightarrow> ('v, 'x) bt_world
     \<Rightarrow> bt_status outcome \<times> composite_kind \<times> bt_node list \<times> ('v, 'x) bt_world" where
  "ParallelNode_Tick env st ft cs w =
     (case bt_CancellationRequested env w of
        (True, w1) \<Rightarrow> (Returned BT_Aborted, Parallel st ft, map fst cs, w1)
      | (False, w1) \<Rightarrow>
          if cs = [] then (Returned BT_Success, Parallel st ft, map fst cs, w1)
          else (case ParallelNode_futures cs w1 of
            (sts, cs', w2) \<Rightarrow>
              (case parallel_count sts (0, 0, 0, 0) of
                 (success_count, failure_count, running_count, aborted_count) \<Rightarrow>
                   (let (cancelled, w3) =
                          (if aborted_count > 0 then (True, w2) else bt_CancellationRequested env w2);
                        required = (if st = 0 then length cs else min st (length cs));
                        result =
                          (if cancelled then BT_Aborted
                           else if failure_count \<ge> ft then BT_Failure
                           else if success_count \<ge> required then BT_Success
                           else if running_count > 0 then BT_Running
                           else BT_Failure)
                    in (Returned result, Parallel st ft, cs', w3)))))"

section \<open>Ticks of decorators\<close>

text \<open>
  A decorator's tick takes the child's tick; \<open>reset\<close> is the child's \<open>Reset\<close>, whose exceptions leave the
  tick. Every class first aborts on a cancelled context and fails without a child.
\<close>

type_synonym ('v, 'x) decorator_result =
  "bt_status outcome \<times> decorator_kind \<times> bt_node \<times> ('v, 'x) bt_world"

fun InverterNode_status :: "bt_status \<Rightarrow> bt_status" where
  "InverterNode_status BT_Success = BT_Failure"
| "InverterNode_status BT_Failure = BT_Success"
| "InverterNode_status BT_Idle = BT_Idle"
| "InverterNode_status BT_Running = BT_Running"
| "InverterNode_status BT_Aborted = BT_Aborted"

fun FailerNode_status :: "bt_status \<Rightarrow> bt_status" where
  "FailerNode_status BT_Running = BT_Running"
| "FailerNode_status BT_Aborted = BT_Aborted"
| "FailerNode_status _ = BT_Failure"

fun SucceederNode_status :: "bt_status \<Rightarrow> bt_status" where
  "SucceederNode_status BT_Running = BT_Running"
| "SucceederNode_status BT_Aborted = BT_Aborted"
| "SucceederNode_status _ = BT_Success"

fun outcome_map :: "('a \<Rightarrow> 'b) \<Rightarrow> 'a outcome \<Rightarrow> 'b outcome" where
  "outcome_map f (Returned x) = Returned (f x)"
| "outcome_map f (ThrewException m) = ThrewException m"
| "outcome_map f ThrewUnknown = ThrewUnknown"

text \<open>\<open>outcome_then r x\<close>: the outcome of a call that answers \<open>x\<close> unless \<open>r\<close> left it.\<close>

fun outcome_then :: "unit outcome \<Rightarrow> 'b \<Rightarrow> 'b outcome" where
  "outcome_then (Returned _) x = Returned x"
| "outcome_then (ThrewException m) x = ThrewException m"
| "outcome_then ThrewUnknown x = ThrewUnknown"

definition LimiterNode_body ::
  "nat \<Rightarrow> nat \<Rightarrow> bt_node \<times> ('v, 'x) node_tick \<Rightarrow> ('v, 'x) bt_world \<Rightarrow> ('v, 'x) decorator_result" where
  "LimiterNode_body m n child w =
     (if n \<ge> m then (Returned BT_Failure, Limiter m n, fst child, w)
      else (case snd child w of (r, c', w1) \<Rightarrow> (r, Limiter m (Suc n), c', w1)))"

text \<open>\<open>completed_count_\<close> wraps at \<open>2 ^ 64\<close> when \<open>repeat_count_\<close> is \<open>0\<close>.\<close>

definition RepeatNode_body ::
  "(bt_node \<Rightarrow> ('v, 'x) node_action) \<Rightarrow> nat \<Rightarrow> nat \<Rightarrow> bt_node \<times> ('v, 'x) node_tick \<Rightarrow> ('v, 'x) bt_world
     \<Rightarrow> ('v, 'x) decorator_result" where
  "RepeatNode_body reset m n child w =
     (case snd child w of
        (Returned BT_Success, c', w1) \<Rightarrow>
          (let n' = (n + 1) mod 2 ^ 64 in
           case reset c' w1 of
             (Returned _, c'', w2) \<Rightarrow>
               if m \<noteq> 0 \<and> n' \<ge> m then (Returned BT_Success, Repeat m 0, c'', w2)
               else (Returned BT_Running, Repeat m n', c'', w2)
           | (r, c'', w2) \<Rightarrow> (outcome_then r BT_Running, Repeat m n', c'', w2))
      | (Returned BT_Failure, c', w1) \<Rightarrow> (Returned BT_Failure, Repeat m 0, c', w1)
      | (Returned BT_Aborted, c', w1) \<Rightarrow> (Returned BT_Aborted, Repeat m 0, c', w1)
      | (Returned _, c', w1) \<Rightarrow> (Returned BT_Running, Repeat m n, c', w1)
      | (r, c', w1) \<Rightarrow> (r, Repeat m n, c', w1))"

definition RetryNode_body ::
  "(bt_node \<Rightarrow> ('v, 'x) node_action) \<Rightarrow> nat \<Rightarrow> nat \<Rightarrow> bt_node \<times> ('v, 'x) node_tick \<Rightarrow> ('v, 'x) bt_world
     \<Rightarrow> ('v, 'x) decorator_result" where
  "RetryNode_body reset m n child w =
     (case snd child w of
        (Returned BT_Success, c', w1) \<Rightarrow> (Returned BT_Success, Retry m 0, c', w1)
      | (Returned BT_Failure, c', w1) \<Rightarrow>
          if n + 1 \<ge> m then (Returned BT_Failure, Retry m 0, c', w1)
          else (case reset c' w1 of
             (r, c'', w2) \<Rightarrow> (outcome_then r BT_Running, Retry m (n + 1), c'', w2))
      | (Returned BT_Aborted, c', w1) \<Rightarrow> (Returned BT_Aborted, Retry m 0, c', w1)
      | (Returned _, c', w1) \<Rightarrow> (Returned BT_Running, Retry m n, c', w1)
      | (r, c', w1) \<Rightarrow> (r, Retry m n, c', w1))"

definition TimedOut :: "time_ns \<Rightarrow> time_ns option \<Rightarrow> time_ns \<Rightarrow> bool" where
  "TimedOut timeout start now =
     (case start of None \<Rightarrow> False | Some t0 \<Rightarrow> timeout \<le> 0 \<or> now - t0 \<ge> timeout)"

text \<open>\<open>start_time_\<close> is cleared after the child's \<open>Reset\<close>, so an exception of it keeps the timer.\<close>

definition TimeoutNode_expire ::
  "(bt_node \<Rightarrow> ('v, 'x) node_action) \<Rightarrow> time_ns \<Rightarrow> time_ns option \<Rightarrow> bt_node \<Rightarrow> ('v, 'x) bt_world
     \<Rightarrow> ('v, 'x) decorator_result" where
  "TimeoutNode_expire reset d start c w =
     (case reset c w of
        (Returned _, c', w1) \<Rightarrow> (Returned BT_Failure, Timeout d None, c', w1)
      | (r, c', w1) \<Rightarrow> (outcome_then r BT_Failure, Timeout d start, c', w1))"

definition TimeoutNode_body ::
  "('v, 'x) bt_env \<Rightarrow> (bt_node \<Rightarrow> ('v, 'x) node_action) \<Rightarrow> time_ns \<Rightarrow> time_ns option
     \<Rightarrow> bt_node \<times> ('v, 'x) node_tick \<Rightarrow> ('v, 'x) bt_world \<Rightarrow> ('v, 'x) decorator_result" where
  "TimeoutNode_body env reset d start child w =
     (case env_now env w of
        (now, w1) \<Rightarrow>
          (let started = (case start of None \<Rightarrow> Some now | Some t \<Rightarrow> Some t) in
           if TimedOut d started now then TimeoutNode_expire reset d started (fst child) w1
           else (case snd child w1 of
              (Returned st, c', w2) \<Rightarrow>
                (case env_now env w2 of
                   (after_tick, w3) \<Rightarrow>
                     if (st = BT_Running \<or> st = BT_Idle) \<and> TimedOut d started after_tick
                     then TimeoutNode_expire reset d started c' w3
                     else if bt_isTerminal st then (Returned st, Timeout d None, c', w3)
                     else (Returned BT_Running, Timeout d started, c', w3))
            | (r, c', w2) \<Rightarrow> (r, Timeout d started, c', w2))))"

text \<open>\<open>completed_count_\<close> and \<open>failed_attempts_\<close> and the timer are also cleared on cancellation.\<close>

fun decorator_cancelled :: "decorator_kind \<Rightarrow> decorator_kind" where
  "decorator_cancelled (Repeat m n) = Repeat m 0"
| "decorator_cancelled (Retry m n) = Retry m 0"
| "decorator_cancelled (Timeout d t) = Timeout d None"
| "decorator_cancelled k = k"

fun decorator_body ::
  "('v, 'x) bt_env \<Rightarrow> decorator_kind \<Rightarrow> bt_node \<times> ('v, 'x) node_tick \<Rightarrow> ('v, 'x) bt_world
     \<Rightarrow> ('v, 'x) decorator_result" where
  "decorator_body env Inverter child w =
     (case snd child w of (r, c', w') \<Rightarrow> (outcome_map InverterNode_status r, Inverter, c', w'))"
| "decorator_body env Failer child w =
     (case snd child w of (r, c', w') \<Rightarrow> (outcome_map FailerNode_status r, Failer, c', w'))"
| "decorator_body env Succeeder child w =
     (case snd child w of (r, c', w') \<Rightarrow> (outcome_map SucceederNode_status r, Succeeder, c', w'))"
| "decorator_body env (Limiter m n) child w = LimiterNode_body m n child w"
| "decorator_body env (Repeat m n) child w = RepeatNode_body (node_Reset env) m n child w"
| "decorator_body env (Retry m n) child w = RetryNode_body (node_Reset env) m n child w"
| "decorator_body env (Timeout d t) child w = TimeoutNode_body env (node_Reset env) d t child w"

section \<open>Ticks\<close>

fun composite_Tick ::
  "('v, 'x) bt_env \<Rightarrow> composite_kind \<Rightarrow> (bt_node \<times> ('v, 'x) node_tick) list \<Rightarrow> ('v, 'x) bt_world
     \<Rightarrow> bt_status outcome \<times> composite_kind \<times> bt_node list \<times> ('v, 'x) bt_world" where
  "composite_Tick env (Sequence p i) cs w = SequenceNode_Tick env p i cs w"
| "composite_Tick env (Selector p i) cs w = SelectorNode_Tick env p i cs w"
| "composite_Tick env (Parallel s f) cs w = ParallelNode_Tick env s f cs w"

fun node_Tick :: "('v, 'x) bt_env \<Rightarrow> bt_node \<Rightarrow> ('v, 'x) node_tick" where
  "node_Tick env (Composite nm k cs) =
     (\<lambda>w. case composite_Tick env k (map (\<lambda>c. (c, node_Tick env c)) cs) w of
        (r, k', cs', w') \<Rightarrow> (r, Composite nm k' cs', w'))"
| "node_Tick env (Decorator nm k None) =
     (\<lambda>w. case bt_CancellationRequested env w of
        (True, w1) \<Rightarrow> (Returned BT_Aborted, Decorator nm (decorator_cancelled k) None, w1)
      | (False, w1) \<Rightarrow> (Returned BT_Failure, Decorator nm k None, w1))"
| "node_Tick env (Decorator nm k (Some c)) =
     (\<lambda>w. case bt_CancellationRequested env w of
        (True, w1) \<Rightarrow> (Returned BT_Aborted, Decorator nm (decorator_cancelled k) (Some c), w1)
      | (False, w1) \<Rightarrow>
          (case decorator_body env k (c, node_Tick env c) w1 of
             (r, k', c', w') \<Rightarrow> (r, Decorator nm k' (Some c'), w')))"
| "node_Tick env (Leaf nm l) =
     (\<lambda>w. case leaf_Tick env l w of (r, l', w') \<Rightarrow> (r, Leaf nm l', w'))"

section \<open>The tree\<close>

fun ToExecutionState :: "bt_status \<Rightarrow> execution_state" where
  "ToExecutionState BT_Idle = State_Created"
| "ToExecutionState BT_Running = State_Running"
| "ToExecutionState BT_Success = State_Completed"
| "ToExecutionState BT_Failure = State_Failed"
| "ToExecutionState BT_Aborted = State_Aborted"

record behavior_tree =
  bt_root :: "bt_node option"
  bt_status_of :: bt_status
  bt_initialized :: bool
  bt_shutdown :: bool

definition BehaviorTree_create :: "bt_node option \<Rightarrow> behavior_tree" where
  "BehaviorTree_create r =
     \<lparr>bt_root = r, bt_status_of = BT_Idle, bt_initialized = False, bt_shutdown = False\<rparr>"

definition set_execution_state :: "execution_state \<Rightarrow> ('v, 'x) bt_world \<Rightarrow> ('v, 'x) bt_world" where
  "set_execution_state st w = w\<lparr>bw_execution := SetState st (bw_execution w)\<rparr>"

text \<open>Setting \<open>status_\<close> and \<open>ApplyRuntimeStateLocked\<close>, which always follows it.\<close>

definition publish ::
  "bt_status \<Rightarrow> behavior_tree \<Rightarrow> ('v, 'x) bt_world \<Rightarrow> behavior_tree \<times> ('v, 'x) bt_world" where
  "publish st t w = (t\<lparr>bt_status_of := st\<rparr>, set_execution_state (ToExecutionState st) w)"

definition AbortLocked ::
  "behavior_tree \<Rightarrow> ('v, 'x) bt_world \<Rightarrow> bt_status \<times> behavior_tree \<times> ('v, 'x) bt_world" where
  "AbortLocked t w = (BT_Aborted, publish BT_Aborted t w)"

definition stamp_start ::
  "('v, 'x) bt_env \<Rightarrow> ('v, 'x) bt_world \<Rightarrow> ('v, 'x) bt_world" where
  "stamp_start env w =
     (if ec_start_timestamp (bw_execution w) \<noteq> None then w
      else (case env_now env w of
         (now, w1) \<Rightarrow> w1\<lparr>bw_execution := SetStartTimestamp now (bw_execution w1)\<rparr>))"

definition InitializeLocked ::
  "('v, 'x) bt_env \<Rightarrow> behavior_tree \<Rightarrow> ('v, 'x) bt_world \<Rightarrow> bt_status \<times> behavior_tree \<times> ('v, 'x) bt_world"
where
  "InitializeLocked env t w =
     (if bt_shutdown t then AbortLocked t w
      else (case bt_root t of
         None \<Rightarrow> AbortLocked t w
       | Some n \<Rightarrow>
           if bt_initialized t then (bt_status_of t, t, w)
           else (case node_Initialize env n (stamp_start env (set_execution_state State_Starting w)) of
              (Returned st, n', w1) \<Rightarrow>
                (st, publish st (t\<lparr>bt_root := Some n', bt_initialized := True\<rparr>) w1)
            | (_, n', w1) \<Rightarrow> (BT_Failure, publish BT_Failure (t\<lparr>bt_root := Some n'\<rparr>) w1))))"

definition BehaviorTree_Initialize ::
  "('v, 'x) bt_env \<Rightarrow> behavior_tree \<Rightarrow> ('v, 'x) bt_world \<Rightarrow> bt_status \<times> behavior_tree \<times> ('v, 'x) bt_world"
where
  "BehaviorTree_Initialize env t w = InitializeLocked env t w"

text \<open>The last part of \<open>BehaviorTree::Tick\<close>: tick the root of an initialized tree.\<close>

definition tick_root ::
  "('v, 'x) bt_env \<Rightarrow> behavior_tree \<Rightarrow> ('v, 'x) bt_world \<Rightarrow> bt_status \<times> behavior_tree \<times> ('v, 'x) bt_world"
where
  "tick_root env t w =
     (case bt_CancellationRequested env w of
        (True, w1) \<Rightarrow> AbortLocked t w1
      | (False, w1) \<Rightarrow>
          (case bt_root t of
             None \<Rightarrow> AbortLocked t w1
           | Some n \<Rightarrow>
               (case node_Tick env n (set_execution_state State_Running w1) of
                  (r, n', w2) \<Rightarrow> (caught r, publish (caught r) (t\<lparr>bt_root := Some n'\<rparr>) w2))))"

definition BehaviorTree_Tick ::
  "('v, 'x) bt_env \<Rightarrow> behavior_tree \<Rightarrow> ('v, 'x) bt_world \<Rightarrow> bt_status \<times> behavior_tree \<times> ('v, 'x) bt_world"
where
  "BehaviorTree_Tick env t w =
     (if bt_shutdown t \<or> bt_root t = None then AbortLocked t w
      else if bt_isTerminal (bt_status_of t) then (bt_status_of t, t, w)
      else if \<not> bt_initialized t then
        (case InitializeLocked env t w of
           (st, t1, w1) \<Rightarrow> if st \<noteq> BT_Idle then (st, t1, w1) else tick_root env t1 w1)
      else tick_root env t w)"

definition BehaviorTree_Reset ::
  "('v, 'x) bt_env \<Rightarrow> behavior_tree \<Rightarrow> ('v, 'x) bt_world \<Rightarrow> bool \<times> behavior_tree \<times> ('v, 'x) bt_world"
where
  "BehaviorTree_Reset env t w =
     (if bt_shutdown t then (False, t, w)
      else (case bt_root t of
         None \<Rightarrow> (False, t, w)
       | Some n \<Rightarrow>
           (case node_Reset env n w of
              (Returned _, n', w1) \<Rightarrow>
                (True, publish BT_Idle (t\<lparr>bt_root := Some n', bt_initialized := False\<rparr>) w1)
            | (_, n', w1) \<Rightarrow> (False, publish BT_Failure (t\<lparr>bt_root := Some n'\<rparr>) w1))))"

definition BehaviorTree_Shutdown ::
  "('v, 'x) bt_env \<Rightarrow> behavior_tree \<Rightarrow> ('v, 'x) bt_world \<Rightarrow> bool \<times> behavior_tree \<times> ('v, 'x) bt_world"
where
  "BehaviorTree_Shutdown env t w =
     (if bt_shutdown t then (False, t, w)
      else
        (let (t1, w1) =
               (case bt_root t of
                  None \<Rightarrow> (t, w)
                | Some n \<Rightarrow>
                    (case node_Shutdown env n w of
                       (Returned _, n', w1) \<Rightarrow> (t\<lparr>bt_root := Some n'\<rparr>, w1)
                     | (_, n', w1) \<Rightarrow> (t\<lparr>bt_root := Some n', bt_status_of := BT_Aborted\<rparr>, w1)));
             st = (if bt_status_of t1 = BT_Running then BT_Aborted else bt_status_of t1)
         in (True, publish st (t1\<lparr>bt_initialized := False, bt_shutdown := True\<rparr>) w1)))"

end
