(* ===== verification/Behavior_Tree_Inv.thy ===== *)
theory Behavior_Tree_Inv
  imports Behavior_Tree
begin

text \<open>
  What the operations keep of a node. \<open>fresh\<close> is a node as its constructor leaves it, so it also is the
  configuration that no operation may change; \<open>bt_wf\<close> is the invariant of the members that ticks
  update. Both are shown for the loops of the composites first, for any relation on nodes.
\<close>

section \<open>Configuration and invariant\<close>

fun leaf_fresh :: "leaf_kind \<Rightarrow> leaf_kind" where
  "leaf_fresh (Wait p s) = Wait p False"
| "leaf_fresh (Delay d t c) = Delay d None False"
| "leaf_fresh (CommandLeaf d c f t) = CommandLeaf d c None None"
| "leaf_fresh (MissionLeaf e m s t) = MissionLeaf e m False None"
| "leaf_fresh l = l"

fun fresh :: "bt_node \<Rightarrow> bt_node" where
  "fresh (Composite nm k cs) = Composite nm (composite_OnResetLocked k) (map fresh cs)"
| "fresh (Decorator nm k ch) =
     Decorator nm (decorator_OnResetLocked k) (case ch of None \<Rightarrow> None | Some c \<Rightarrow> Some (fresh c))"
| "fresh (Leaf nm l) = Leaf nm (leaf_fresh l)"

fun composite_wf :: "composite_kind \<Rightarrow> nat \<Rightarrow> bool" where
  "composite_wf (Sequence p i) len = (i = 0 \<or> p = Memory \<and> i < len)"
| "composite_wf (Selector p i) len = (i = 0 \<or> p = Memory \<and> i < len)"
| "composite_wf (Parallel s f) len = (1 \<le> f)"

text \<open>
  A \<open>RepeatNode\<close> counts a completion before it resets its child and checks the count only after. When
  \<open>strict\<close> is set, the count of a limited repetition has to be below its limit; otherwise
  it only is a \<open>size_t\<close>.
\<close>

fun decorator_wf :: "bool \<Rightarrow> decorator_kind \<Rightarrow> bool" where
  "decorator_wf strict (Limiter m n) = (n \<le> m)"
| "decorator_wf strict (Repeat m n) = (m < 2 ^ 64 \<and> n < 2 ^ 64 \<and> (strict \<longrightarrow> m \<noteq> 0 \<longrightarrow> n < m))"
| "decorator_wf strict (Retry m n) = (n < m)"
| "decorator_wf strict _ = True"

fun leaf_wf :: "leaf_kind \<Rightarrow> bool" where
  "leaf_wf (Wait p s) = (s \<longrightarrow> p \<noteq> None)"
| "leaf_wf (Delay d t c) = (if d \<le> 0 then t = None else \<not> c)"
| "leaf_wf (CommandLeaf d c f t) = (f \<noteq> None \<longrightarrow> d \<noteq> None \<and> t = None)"
| "leaf_wf (MissionLeaf e m s t) = (s \<longrightarrow> e \<noteq> None \<and> t = None)"
| "leaf_wf _ = True"

fun bt_wf :: "bool \<Rightarrow> bt_node \<Rightarrow> bool" where
  "bt_wf strict (Composite nm k cs) = (composite_wf k (length cs) \<and> list_all (bt_wf strict) cs)"
| "bt_wf strict (Decorator nm k ch) =
     (decorator_wf strict k \<and> (case ch of None \<Rightarrow> True | Some c \<Rightarrow> bt_wf strict c))"
| "bt_wf strict (Leaf nm l) = leaf_wf l"

text \<open>
  Node classes outside the library have their own \<open>Reset\<close>, which may throw; a \<open>RepeatNode\<close> whose child
  throws there has counted a completion without checking it. Every operation keeps \<open>bt_wf False\<close>;
  \<open>bt_wf True\<close> is kept where no such \<open>Reset\<close> throws.
\<close>

definition resets_return :: "('v, 'x) bt_env \<Rightarrow> bool" where
  "resets_return env \<longleftrightarrow> (\<forall>i w. fst (env_custom_Reset env i w) = Returned ())"

definition keeps :: "('v, 'x) bt_env \<Rightarrow> bt_node \<Rightarrow> bt_node \<Rightarrow> bool" where
  "keeps env n n' \<longleftrightarrow> fresh n' = fresh n
     \<and> (\<forall>strict. (strict \<longrightarrow> resets_return env) \<longrightarrow> bt_wf strict n \<longrightarrow> bt_wf strict n')"

lemma keeps_refl [simp, intro]: "keeps env n n"
  by (simp add: keeps_def)

lemma keeps_trans: "keeps env n n' \<Longrightarrow> keeps env n' n'' \<Longrightarrow> keeps env n n''"
  by (simp add: keeps_def)

lemma keeps_list:
  assumes "list_all2 (keeps env) cs cs'"
  shows "map fresh cs' = map fresh cs" and "(strict \<Longrightarrow> resets_return env) \<Longrightarrow> list_all (bt_wf strict) cs \<Longrightarrow> list_all (bt_wf strict) cs'"
  using assms by (induction rule: list_all2_induct) (auto simp: keeps_def)

lemma keeps_Composite:
  assumes "composite_OnResetLocked k' = composite_OnResetLocked k"
    and "composite_wf k (length cs) \<Longrightarrow> composite_wf k' (length cs)"
    and "list_all2 (keeps env) cs cs'"
  shows "keeps env (Composite nm k cs) (Composite nm k' cs')"
  using assms keeps_list [OF assms(3)] list_all2_lengthD [OF assms(3)] by (simp add: keeps_def)

lemma keeps_Decorator:
  assumes "decorator_OnResetLocked k' = decorator_OnResetLocked k"
    and "\<And>strict. (strict \<Longrightarrow> resets_return env) \<Longrightarrow> decorator_wf strict k \<Longrightarrow> decorator_wf strict k'"
    and "keeps env c c'"
  shows "keeps env (Decorator nm k (Some c)) (Decorator nm k' (Some c'))"
  using assms by (simp add: keeps_def)

lemma keeps_Decorator_None:
  assumes "decorator_OnResetLocked k' = decorator_OnResetLocked k"
    and "\<And>strict. decorator_wf strict k \<Longrightarrow> decorator_wf strict k'"
  shows "keeps env (Decorator nm k None) (Decorator nm k' None)"
  using assms by (simp add: keeps_def)

lemma keeps_Leaf:
  assumes "leaf_fresh l' = leaf_fresh l" and "leaf_wf l \<Longrightarrow> leaf_wf l'"
  shows "keeps env (Leaf nm l) (Leaf nm l')"
  using assms by (simp add: keeps_def)

lemma composite_OnResetLocked_idem [simp]:
  "composite_OnResetLocked (composite_OnResetLocked k) = composite_OnResetLocked k"
  by (cases k) simp_all

lemma decorator_OnResetLocked_idem [simp]:
  "decorator_OnResetLocked (decorator_OnResetLocked k) = decorator_OnResetLocked k"
  by (cases k) simp_all

lemma composite_OnResetLocked_wf: "composite_wf k len \<Longrightarrow> composite_wf (composite_OnResetLocked k) len"
  by (cases k) simp_all

lemma decorator_OnResetLocked_wf: "decorator_wf strict k \<Longrightarrow> decorator_wf strict (decorator_OnResetLocked k)"
  by (cases k) auto

lemma leaf_fresh_wf [simp]: "leaf_wf (leaf_fresh l)"
  by (cases l) simp_all

lemma leaf_fresh_idem [simp]: "leaf_fresh (leaf_fresh l) = leaf_fresh l"
  by (cases l) simp_all

lemma fresh_idem [simp]: "fresh (fresh n) = fresh n"
proof (induction n)
  case (Decorator nm k ch)
  then show ?case by (cases ch) simp_all
qed simp_all

section \<open>Loops over the children\<close>

text \<open>
  The loops run the operations of the children one after another. Whatever reflexive relation these
  operations establish between a child and its successor, a loop establishes for the whole list.
\<close>

locale child_relation =
  fixes K :: "bt_node \<Rightarrow> bt_node \<Rightarrow> bool"
  assumes K_refl: "K c c"
begin

lemma rest_kept: "list_all2 K xs xs"
  by (simp add: K_refl list_all2_refl)

lemma Initialize_children_kept:
  assumes "\<And>p w r c' w'. p \<in> set cs \<Longrightarrow> snd p w = (r, c', w') \<Longrightarrow> K (fst p) c'"
    and "Initialize_children cs w = (r, cs', w')"
  shows "list_all2 K (map fst cs) cs'"
  using assms
proof (induction cs w arbitrary: r cs' w' rule: Initialize_children.induct)
  case (2 c op cs w)
  obtain r1 c1 w1 where op: "op w = (r1, c1, w1)" by (cases "op w")
  with 2(2) [of "(c, op)"] have "K c c1" by simp
  with 2 op show ?case
    by (auto simp: rest_kept split: outcome.splits if_splits prod.splits)
qed simp

lemma Reset_children_kept:
  assumes "\<And>p w r c' w'. p \<in> set cs \<Longrightarrow> snd p w = (r, c', w') \<Longrightarrow> K (fst p) c'"
    and "Reset_children cs w = (r, cs', w')"
  shows "list_all2 K (map fst cs) cs'"
  using assms
proof (induction cs w arbitrary: r cs' w' rule: Reset_children.induct)
  case (2 c op cs w)
  obtain r1 c1 w1 where op: "op w = (r1, c1, w1)" by (cases "op w")
  with 2(2) [of "(c, op)"] have "K c c1" by simp
  with 2 op show ?case
    by (auto simp: rest_kept split: outcome.splits prod.splits)
qed simp

lemma Shutdown_children_kept:
  assumes "\<And>p w r c' w'. p \<in> set cs \<Longrightarrow> snd p w = (r, c', w') \<Longrightarrow> K (fst p) c'"
    and "Shutdown_children cs w = (cs', w')"
  shows "list_all2 K (map fst cs) cs'"
  using assms
proof (induction cs w arbitrary: cs' w' rule: Shutdown_children.induct)
  case (2 c op cs w)
  obtain r1 c1 w1 where op: "op w = (r1, c1, w1)" by (cases "op w")
  with 2(2) [of "(c, op)"] have "K c c1" by simp
  with 2 op show ?case
    by (auto split: prod.splits)
qed simp

lemma ParallelNode_futures_kept:
  assumes "\<And>p w r c' w'. p \<in> set cs \<Longrightarrow> snd p w = (r, c', w') \<Longrightarrow> K (fst p) c'"
    and "ParallelNode_futures cs w = (sts, cs', w')"
  shows "list_all2 K (map fst cs) cs'"
  using assms
proof (induction cs w arbitrary: sts cs' w' rule: ParallelNode_futures.induct)
  case (2 c op cs w)
  obtain r1 c1 w1 where op: "op w = (r1, c1, w1)" by (cases "op w")
  with 2(2) [of "(c, op)"] have "K c c1" by simp
  with 2 op show ?case
    by (auto split: prod.splits)
qed simp

lemma SequenceNode_loop_kept:
  assumes "\<And>p w r c' w'. p \<in> set cs \<Longrightarrow> snd p w = (r, c', w') \<Longrightarrow> K (fst p) c'"
    and "SequenceNode_loop index cs w = (r, i, cs', w')"
  shows "list_all2 K (map fst cs) cs'"
  using assms
proof (induction index cs w arbitrary: r i cs' w' rule: SequenceNode_loop.induct)
  case (2 index c op cs w)
  obtain r1 c1 w1 where op: "op w = (r1, c1, w1)" by (cases "op w")
  with 2(2) [of "(c, op)"] have "K c c1" by simp
  with 2 op show ?case
    by (auto simp: rest_kept split: outcome.splits bt_status.splits prod.splits)
qed simp

lemma SelectorNode_loop_kept:
  assumes "\<And>p w r c' w'. p \<in> set cs \<Longrightarrow> snd p w = (r, c', w') \<Longrightarrow> K (fst p) c'"
    and "SelectorNode_loop index cs w = (r, i, cs', w')"
  shows "list_all2 K (map fst cs) cs'"
  using assms
proof (induction index cs w arbitrary: r i cs' w' rule: SelectorNode_loop.induct)
  case (2 index c op cs w)
  obtain r1 c1 w1 where op: "op w = (r1, c1, w1)" by (cases "op w")
  with 2(2) [of "(c, op)"] have "K c c1" by simp
  with 2 op show ?case
    by (auto simp: rest_kept split: outcome.splits bt_status.splits prod.splits)
qed simp

end

interpretation kept: child_relation "keeps env" for env
  by unfold_locales simp

text \<open>The loop stops at a child of the list whenever it answers \<open>Running\<close>.\<close>

lemma SequenceNode_loop_index:
  "SequenceNode_loop index cs w = (Returned BT_Running, i, cs', w') \<Longrightarrow> i < index + length cs"
  by (induction index cs w arbitrary: i cs' w' rule: SequenceNode_loop.induct)
    (fastforce split: outcome.splits bt_status.splits prod.splits)+

lemma SelectorNode_loop_index:
  "SelectorNode_loop index cs w = (Returned BT_Running, i, cs', w') \<Longrightarrow> i < index + length cs"
  by (induction index cs w arbitrary: i cs' w' rule: SelectorNode_loop.induct)
    (fastforce split: outcome.splits bt_status.splits prod.splits)+

section \<open>Every operation keeps the configuration and the invariant\<close>

lemmas leaf_Tick_defs = ActionNode_Tick_def ConditionNode_Tick_def WaitNode_Tick_def
  DelayNode_Tick_def DelayNode_ClearTimer_def CommandNode_Tick_def CommandNode_poll_def
  MissionNode_Tick_def Let_def

lemmas outcome_case_splits = outcome.splits option.splits prod.splits bool.splits if_splits

lemma leaf_Tick_kept:
  assumes "leaf_Tick env l w = (r, l', w')"
  shows "leaf_fresh l' = leaf_fresh l" and "leaf_wf l \<Longrightarrow> leaf_wf l'"
  using assms by (cases l; auto simp: leaf_Tick_defs split: outcome_case_splits)+

lemma leaf_Initialize_kept:
  assumes "leaf_Initialize env l w = (r, l', w')"
  shows "leaf_fresh l' = leaf_fresh l" and "leaf_wf l \<Longrightarrow> leaf_wf l'"
  using assms by (cases l; auto simp: DelayNode_ClearTimer_def split: prod.splits)+

lemma leaf_Reset_fresh: "leaf_Reset env l w = (r, l', w') \<Longrightarrow> l' = leaf_fresh l"
  by (cases l) (auto simp: DelayNode_ClearTimer_def split: prod.splits)

lemma leaf_Shutdown_kept:
  assumes "leaf_Shutdown env l w = (r, l', w')"
  shows "leaf_fresh l' = leaf_fresh l" and "leaf_wf l \<Longrightarrow> leaf_wf l'"
  using assms by (cases l; auto simp: DelayNode_ClearTimer_def split: prod.splits)+

lemma node_Reset_kept: "node_Reset env n w = (r, n', w') \<Longrightarrow> keeps env n n'"
proof (induction env n arbitrary: w r n' w' rule: node_Reset.induct)
  case (1 env nm k cs)
  from "1.prems" obtain cs' where n': "n' = Composite nm (composite_OnResetLocked k) cs'"
    and loop: "Reset_children (map (\<lambda>c. (c, node_Reset env c)) cs) w = (r, cs', w')"
    by (auto split: prod.splits)
  from loop have "list_all2 (keeps env) (map fst (map (\<lambda>c. (c, node_Reset env c)) cs)) cs'"
    by (rule kept.Reset_children_kept [rotated]) (auto intro: "1.IH")
  then show ?case unfolding n'
    by (intro keeps_Composite) (simp_all add: composite_OnResetLocked_wf comp_def)
next
  case (4 env nm l)
  then show ?case by (auto intro!: keeps_Leaf dest!: leaf_Reset_fresh split: prod.splits)
qed (auto intro!: keeps_Decorator keeps_Decorator_None simp: decorator_OnResetLocked_wf split: prod.splits)

lemma node_Initialize_kept: "node_Initialize env n w = (r, n', w') \<Longrightarrow> keeps env n n'"
proof (induction env n arbitrary: w r n' w' rule: node_Initialize.induct)
  case (1 env nm k cs)
  from "1.prems" obtain cs' where n': "n' = Composite nm (composite_OnResetLocked k) cs'"
    and loop: "Initialize_children (map (\<lambda>c. (c, node_Initialize env c)) cs) w = (r, cs', w')"
    by (auto split: prod.splits)
  from loop have "list_all2 (keeps env) (map fst (map (\<lambda>c. (c, node_Initialize env c)) cs)) cs'"
    by (rule kept.Initialize_children_kept [rotated]) (auto intro: "1.IH")
  then show ?case unfolding n'
    by (intro keeps_Composite) (simp_all add: composite_OnResetLocked_wf comp_def)
next
  case (4 env nm l)
  then show ?case by (auto intro!: keeps_Leaf dest: leaf_Initialize_kept split: prod.splits)
qed (auto intro!: keeps_Decorator keeps_Decorator_None simp: decorator_OnResetLocked_wf split: prod.splits)

lemma node_Shutdown_kept: "node_Shutdown env n w = (r, n', w') \<Longrightarrow> keeps env n n'"
proof (induction env n arbitrary: w r n' w' rule: node_Shutdown.induct)
  case (1 env nm k cs)
  from "1.prems" obtain cs' where n': "n' = Composite nm (composite_OnResetLocked k) cs'"
    and loop: "Shutdown_children (map (\<lambda>c. (c, node_Shutdown env c)) cs) w = (cs', w')"
    by (auto split: prod.splits)
  from loop have "list_all2 (keeps env) (map fst (map (\<lambda>c. (c, node_Shutdown env c)) cs)) cs'"
    by (rule kept.Shutdown_children_kept [rotated]) (auto intro: "1.IH")
  then show ?case unfolding n'
    by (intro keeps_Composite) (simp_all add: composite_OnResetLocked_wf comp_def)
next
  case (4 env nm l)
  then show ?case by (auto intro!: keeps_Leaf dest: leaf_Shutdown_kept split: prod.splits)
qed (auto intro!: keeps_Decorator keeps_Decorator_None simp: decorator_OnResetLocked_wf split: prod.splits)

subsection \<open>Ticks\<close>

lemma next_index_wf:
  assumes "current = 0 \<or> p = Memory \<and> current < len" and "r = Returned BT_Running \<Longrightarrow> i < len"
  shows "next_index p current r i = 0 \<or> p = Memory \<and> next_index p current r i < len"
  using assms by (auto simp: next_index_def split: outcome.splits bt_status.splits)

text \<open>A composite's tick, over children given with operations that keep them.\<close>

lemma SequenceNode_Tick_kept:
  assumes ops: "\<And>q w r c' w'. q \<in> set cs \<Longrightarrow> snd q w = (r, c', w') \<Longrightarrow> keeps env (fst q) c'"
    and tick: "SequenceNode_Tick env p current cs w = (r, k', cs', w')"
  shows "keeps env (Composite nm (Sequence p current) (map fst cs)) (Composite nm k' cs')"
proof -
  let ?s = "if p = Memory then current else 0"
  from tick consider "k' = Sequence p 0" "cs' = map fst cs"
    | w1 i cs1 where "SequenceNode_loop ?s (drop ?s cs) w1 = (r, i, cs1, w')" "cs \<noteq> []"
        "k' = Sequence p (next_index p current r i)" "cs' = map fst (take ?s cs) @ cs1"
    unfolding SequenceNode_Tick_def Let_def by (auto split: prod.splits bool.splits if_split_asm)
  then show ?thesis
  proof cases
    case 1
    then show ?thesis by (auto intro!: keeps_Composite kept.rest_kept)
  next
    case 2
    from 2(1) have "list_all2 (keeps env) (map fst (drop ?s cs)) cs1"
      by (rule kept.SequenceNode_loop_kept [rotated]) (auto intro: ops dest: in_set_dropD)
    then have l: "list_all2 (keeps env) (map fst (take ?s cs) @ map fst (drop ?s cs)) cs'"
      unfolding 2(4) by (intro list_all2_appendI kept.rest_kept)
    have "r = Returned BT_Running \<Longrightarrow> current = 0 \<or> p = Memory \<and> current < length cs \<Longrightarrow> i < length cs"
      using SequenceNode_loop_index 2(1,2) by (fastforce split: if_splits)
    then show ?thesis using l next_index_wf [of current p "length cs" r i] 2(3)
      by (intro keeps_Composite) (auto simp flip: map_append)
  qed
qed

lemma SelectorNode_Tick_kept:
  assumes ops: "\<And>q w r c' w'. q \<in> set cs \<Longrightarrow> snd q w = (r, c', w') \<Longrightarrow> keeps env (fst q) c'"
    and tick: "SelectorNode_Tick env p current cs w = (r, k', cs', w')"
  shows "keeps env (Composite nm (Selector p current) (map fst cs)) (Composite nm k' cs')"
proof -
  let ?s = "if p = Memory then current else 0"
  from tick consider "k' = Selector p 0" "cs' = map fst cs"
    | w1 i cs1 where "SelectorNode_loop ?s (drop ?s cs) w1 = (r, i, cs1, w')" "cs \<noteq> []"
        "k' = Selector p (next_index p current r i)" "cs' = map fst (take ?s cs) @ cs1"
    unfolding SelectorNode_Tick_def Let_def by (auto split: prod.splits bool.splits if_split_asm)
  then show ?thesis
  proof cases
    case 1
    then show ?thesis by (auto intro!: keeps_Composite kept.rest_kept)
  next
    case 2
    from 2(1) have "list_all2 (keeps env) (map fst (drop ?s cs)) cs1"
      by (rule kept.SelectorNode_loop_kept [rotated]) (auto intro: ops dest: in_set_dropD)
    then have l: "list_all2 (keeps env) (map fst (take ?s cs) @ map fst (drop ?s cs)) cs'"
      unfolding 2(4) by (intro list_all2_appendI kept.rest_kept)
    have "r = Returned BT_Running \<Longrightarrow> current = 0 \<or> p = Memory \<and> current < length cs \<Longrightarrow> i < length cs"
      using SelectorNode_loop_index 2(1,2) by (fastforce split: if_splits)
    then show ?thesis using l next_index_wf [of current p "length cs" r i] 2(3)
      by (intro keeps_Composite) (auto simp flip: map_append)
  qed
qed

lemma ParallelNode_Tick_kept:
  assumes ops: "\<And>q w r c' w'. q \<in> set cs \<Longrightarrow> snd q w = (r, c', w') \<Longrightarrow> keeps env (fst q) c'"
    and tick: "ParallelNode_Tick env s f cs w = (r, k', cs', w')"
  shows "keeps env (Composite nm (Parallel s f) (map fst cs)) (Composite nm k' cs')"
proof -
  from tick have k': "k' = Parallel s f"
    and "cs' = map fst cs \<or> (\<exists>sts w1 w2. ParallelNode_futures cs w1 = (sts, cs', w2))"
    unfolding ParallelNode_Tick_def Let_def by (auto split: prod.splits bool.splits if_split_asm)
  then have "list_all2 (keeps env) (map fst cs) cs'"
    by (auto intro: kept.rest_kept kept.ParallelNode_futures_kept [OF ops])
  then show ?thesis by (auto simp: k' intro!: keeps_Composite)
qed

lemma composite_Tick_kept:
  assumes ops: "\<And>q w r c' w'. q \<in> set cs \<Longrightarrow> snd q w = (r, c', w') \<Longrightarrow> keeps env (fst q) c'"
    and tick: "composite_Tick env k cs w = (r, k', cs', w')"
  shows "keeps env (Composite nm k (map fst cs)) (Composite nm k' cs')"
  using tick SequenceNode_Tick_kept [OF ops] SelectorNode_Tick_kept [OF ops]
    ParallelNode_Tick_kept [OF ops]
  by (cases k) (simp_all only: composite_Tick.simps)

lemma Reset_children_returns:
  assumes "\<And>p w. p \<in> set cs \<Longrightarrow> fst (snd p w) = Returned ()"
  shows "fst (Reset_children cs w) = Returned ()"
  using assms
proof (induction cs w rule: Reset_children.induct)
  case (2 c op cs w)
  from 2(2) [of "(c, op)" w] obtain c1 w1 where "op w = (Returned (), c1, w1)"
    by (cases "op w") auto
  with 2 show ?case by (auto split: prod.splits)
qed simp

lemma node_Reset_returns:
  assumes "resets_return env"
  shows "fst (node_Reset env n w) = Returned ()"
  using assms
proof (induction env n arbitrary: w rule: node_Reset.induct)
  case (1 env nm k cs)
  have "fst (Reset_children (map (\<lambda>c. (c, node_Reset env c)) cs) w) = Returned ()"
    by (rule Reset_children_returns) (use "1.IH" "1.prems" in auto)
  then show ?case by (auto split: prod.splits)
next
  case (3 env nm k c)
  then show ?case by (simp split: prod.splits) (metis fst_conv)
next
  case (4 env nm l)
  then show ?case by (cases l) (auto simp: resets_return_def split: prod.splits, metis fst_conv)
qed simp

text \<open>The bodies of the decorators, over a child whose tick keeps it.\<close>

lemma RepeatNode_body_kept:
  assumes child: "\<And>r c1 w1. op w = (r, c1, w1) \<Longrightarrow> keeps env c c1"
    and body: "RepeatNode_body (node_Reset env) m n (c, op) w = (r, k', c', w')"
  shows "keeps env (Decorator nm (Repeat m n) (Some c)) (Decorator nm k' (Some c'))"
proof -
  obtain r1 c1 w1 where op: "op w = (r1, c1, w1)" by (cases "op w")
  note c1 = child [OF op]
  show ?thesis
  proof (cases "r1 = Returned BT_Success")
    case True
    obtain r2 c2 w2 where reset: "node_Reset env c1 w1 = (r2, c2, w2)" by (cases "node_Reset env c1 w1")
    from node_Reset_kept [OF reset] c1 have "keeps env c c2" by (rule keeps_trans [rotated])
    moreover have "r2 = Returned ()" if "resets_return env"
      using node_Reset_returns [OF that, of c1 w1] reset by simp
    ultimately show ?thesis using body True reset op
      by (cases r2) (auto simp: RepeatNode_body_def Let_def intro!: keeps_Decorator split: if_splits)
  next
    case False
    with body op c1 show ?thesis
      by (auto simp: RepeatNode_body_def intro!: keeps_Decorator split: outcome.splits bt_status.splits)
  qed
qed

lemma RetryNode_body_kept:
  assumes child: "\<And>r c1 w1. op w = (r, c1, w1) \<Longrightarrow> keeps env c c1"
    and body: "RetryNode_body (node_Reset env) m n (c, op) w = (r, k', c', w')"
  shows "keeps env (Decorator nm (Retry m n) (Some c)) (Decorator nm k' (Some c'))"
proof -
  obtain r1 c1 w1 where op: "op w = (r1, c1, w1)" by (cases "op w")
  note c1 = child [OF op]
  then show ?thesis using body op
    by (auto simp: RetryNode_body_def intro!: keeps_Decorator dest: node_Reset_kept
        intro: keeps_trans split: outcome.splits bt_status.splits if_splits prod.splits)
qed

lemma TimeoutNode_expire_kept:
  assumes "TimeoutNode_expire (node_Reset env) d t c w = (r, k', c', w')"
  shows "keeps env c c' \<and> (\<exists>t'. k' = Timeout d t')"
  using assms by (auto simp: TimeoutNode_expire_def dest: node_Reset_kept
      split: outcome.splits prod.splits)

lemma TimeoutNode_body_kept:
  assumes child: "\<And>w r c1 w1. op w = (r, c1, w1) \<Longrightarrow> keeps env c c1"
    and body: "TimeoutNode_body env (node_Reset env) d t (c, op) w = (r, k', c', w')"
  shows "keeps env (Decorator nm (Timeout d t) (Some c)) (Decorator nm k' (Some c'))"
proof -
  have "keeps env c c' \<and> (\<exists>t'. k' = Timeout d t')"
    using body unfolding TimeoutNode_body_def Let_def
    by (auto split: prod.splits if_split_asm outcome.splits
        dest!: TimeoutNode_expire_kept dest: child intro: keeps_trans)
  then show ?thesis by (auto intro!: keeps_Decorator)
qed

lemma decorator_body_kept:
  assumes child: "\<And>w r c1 w1. op w = (r, c1, w1) \<Longrightarrow> keeps env c c1"
    and body: "decorator_body env k (c, op) w = (r, k', c', w')"
  shows "keeps env (Decorator nm k (Some c)) (Decorator nm k' (Some c'))"
proof (cases k)
  case (Limiter m n)
  then show ?thesis using body
    by (auto simp: LimiterNode_body_def intro!: keeps_Decorator dest: child split: if_splits prod.splits)
next
  case (Repeat m n)
  then show ?thesis using body RepeatNode_body_kept [OF child] by simp
next
  case (Retry m n)
  then show ?thesis using body RetryNode_body_kept [OF child] by simp
next
  case (Timeout d t)
  then show ?thesis using body TimeoutNode_body_kept [OF child] by simp
qed (use body in \<open>auto intro!: keeps_Decorator dest: child split: prod.splits\<close>)

lemma decorator_cancelled_kept:
  "keeps env (Decorator nm k ch) (Decorator nm (decorator_cancelled k) ch)"
  by (cases k) (auto simp: keeps_def)

lemma node_Tick_kept: "node_Tick env n w = (r, n', w') \<Longrightarrow> keeps env n n'"
proof (induction env n arbitrary: w r n' w' rule: node_Tick.induct)
  case (1 env nm k cs)
  from "1.prems" obtain k' cs' where n': "n' = Composite nm k' cs'"
    and tick: "composite_Tick env k (map (\<lambda>c. (c, node_Tick env c)) cs) w = (r, k', cs', w')"
    by (auto split: prod.splits)
  from tick have "keeps env (Composite nm k (map fst (map (\<lambda>c. (c, node_Tick env c)) cs))) n'"
    unfolding n' by (rule composite_Tick_kept [rotated]) (auto intro: "1.IH")
  then show ?case by (simp add: comp_def)
next
  case (3 env nm k c)
  show ?case
  proof (cases "bt_CancellationRequested env w")
    case (Pair b w1)
    show ?thesis
    proof (cases b)
      case False
      with Pair have "keeps env c c1" if "node_Tick env c w2 = (r2, c1, w3)" for w2 r2 c1 w3
        using "3.IH" [of b w1 w] that by simp
      with False Pair "3.prems" show ?thesis
        by (auto dest!: decorator_body_kept [rotated] split: prod.splits)
    qed (use Pair "3.prems" in \<open>auto simp: decorator_cancelled_kept\<close>)
  qed
next
  case (4 env nm l)
  then show ?case by (auto intro!: keeps_Leaf dest: leaf_Tick_kept split: prod.splits)
qed (auto simp: decorator_cancelled_kept split: prod.splits bool.splits)

section \<open>Reset\<close>

lemma Reset_children_fresh:
  assumes "\<And>p w c' w'. p \<in> set cs \<Longrightarrow> snd p w = (Returned (), c', w') \<Longrightarrow> c' = fresh (fst p)"
    and "Reset_children cs w = (Returned (), cs', w')"
  shows "cs' = map fresh (map fst cs)"
  using assms
proof (induction cs w arbitrary: cs' w' rule: Reset_children.induct)
  case (2 c op cs w)
  obtain r1 c1 w1 where op: "op w = (r1, c1, w1)" by (cases "op w")
  with 2(2) [of "(c, op)"] have "r1 = Returned () \<Longrightarrow> c1 = fresh c" by auto
  with 2 op show ?case by (auto split: outcome.splits prod.splits)
qed simp

text \<open>A reset that returns leaves every node of the tree as constructed.\<close>

lemma node_Reset_fresh: "node_Reset env n w = (Returned (), n', w') \<Longrightarrow> n' = fresh n"
proof (induction env n arbitrary: w n' w' rule: node_Reset.induct)
  case (1 env nm k cs)
  then obtain cs' where n': "n' = Composite nm (composite_OnResetLocked k) cs'"
    and loop: "Reset_children (map (\<lambda>c. (c, node_Reset env c)) cs) w = (Returned (), cs', w')"
    by (auto split: prod.splits)
  from loop have "cs' = map fresh (map fst (map (\<lambda>c. (c, node_Reset env c)) cs))"
    by (rule Reset_children_fresh [rotated]) (auto intro: "1.IH")
  then show ?case by (simp add: n' comp_def)
next
  case (4 env nm l)
  then show ?case by (auto dest!: leaf_Reset_fresh split: prod.splits)
qed (auto split: prod.splits)

end
