(* ===== verification/Tree_Loader.thy ===== *)
theory Tree_Loader
  imports Tree_Parser_Props Behavior_Tree_Inv
begin

text \<open>
  From documents to trees: the registry of node creators (\<open>src/bt/BehaviorTreeFactory.cpp\<close>), the
  validation of a document against it (\<open>src/bt/TreeValidator.cpp\<close>) and the construction of the tree
  (\<open>src/bt/TreeLoader.cpp\<close>). A creator is a number; what calling it gives is a parameter.
\<close>

section \<open>The factory\<close>

type_synonym factory = "(string \<times> nat) list" \<comment> \<open>\<open>creators_\<close>, ordered by name\<close>
type_synonym creators = "nat \<Rightarrow> bt_node option outcome"

definition RegisterNode :: "string \<Rightarrow> nat option \<Rightarrow> factory \<Rightarrow> factory \<times> bool" where
  "RegisterNode ty creator fac =
     (case creator of
        None \<Rightarrow> (fac, False)
      | Some c \<Rightarrow>
          if ty = [] then (fac, False)
          else if map_of fac ty \<noteq> None then (fac, False)
          else (map_emplace ty c fac, True))"

definition UnregisterNode :: "string \<Rightarrow> factory \<Rightarrow> factory \<times> bool" where
  "UnregisterNode ty fac =
     (if map_of fac ty = None then (fac, False) else (filter (\<lambda>(t, _). t \<noteq> ty) fac, True))"

definition factory_Contains :: "factory \<Rightarrow> string \<Rightarrow> bool" where
  "factory_Contains fac ty = (map_of fac ty \<noteq> None)"

definition CreateNode :: "creators \<Rightarrow> factory \<Rightarrow> string \<Rightarrow> bt_node option" where
  "CreateNode mk fac ty =
     (case map_of fac ty of
        None \<Rightarrow> None
      | Some c \<Rightarrow> (case mk c of Returned n \<Rightarrow> n | _ \<Rightarrow> None))"

definition CreateTree :: "creators \<Rightarrow> factory \<Rightarrow> string \<Rightarrow> behavior_tree option" where
  "CreateTree mk fac ty =
     (case CreateNode mk fac ty of None \<Rightarrow> None | Some n \<Rightarrow> Some (BehaviorTree_create (Some n)))"

definition RegisteredNodeTypes :: "factory \<Rightarrow> string list" where
  "RegisteredNodeTypes fac = map fst fac"

section \<open>The validator\<close>

text \<open>\<open>None\<close> is success; a failure has its message. Children are visited in order, with their index.\<close>

fun first_failure :: "(nat \<Rightarrow> string option) list \<Rightarrow> nat \<Rightarrow> string option" where
  "first_failure [] i = None"
| "first_failure (f # fs) i = (case f i of Some m \<Rightarrow> Some m | None \<Rightarrow> first_failure fs (Suc i))"

fun ValidateNode :: "factory \<Rightarrow> tree_node \<Rightarrow> string \<Rightarrow> string option" where
  "ValidateNode fac (TreeNode ty cs) path =
     (if ty = [] then Some (''Missing behavior tree node type at '' @ path)
      else if \<not> factory_Contains fac ty
      then Some (''Unknown behavior tree node type at '' @ path @ '': '' @ ty)
      else first_failure
        (map (\<lambda>c i. ValidateNode fac c (path @ ''.children['' @ to_string i @ '']'')) cs) 0)"

definition TreeValidator_Validate :: "factory \<Rightarrow> tree_node \<Rightarrow> bool \<times> string" where
  "TreeValidator_Validate fac doc =
     (case ValidateNode fac doc ''root'' of
        None \<Rightarrow> (True, ''Behavior tree node is valid'') | Some m \<Rightarrow> (False, m))"

section \<open>The loader\<close>

text \<open>The loop that adds the built children to a composite.\<close>

fun add_children :: "string \<Rightarrow> (string + bt_node) list \<Rightarrow> bt_node \<Rightarrow> string + bt_node" where
  "add_children ty [] n = Inr n"
| "add_children ty (Inl e # rs) n = Inl e"
| "add_children ty (Inr c # rs) n =
     (case AddChild (Some c) n of
        Some (n', True) \<Rightarrow> add_children ty rs n'
      | _ \<Rightarrow> Inl (''Unable to add child to composite node: '' @ ty))"

fun BuildNode :: "creators \<Rightarrow> factory \<Rightarrow> tree_node \<Rightarrow> string + bt_node" where
  "BuildNode mk fac (TreeNode ty cs) =
     (case CreateNode mk fac ty of
        None \<Rightarrow> Inl (''Unable to create behavior tree node: '' @ ty)
      | Some n \<Rightarrow>
          if cs = [] then Inr n
          else
            (case n of
               Composite _ _ _ \<Rightarrow> add_children ty (map (BuildNode mk fac) cs) n
             | Decorator _ _ _ \<Rightarrow>
                 if length cs \<noteq> 1 then Inl (''Decorator node requires exactly one child: '' @ ty)
                 else
                   (case map (BuildNode mk fac) cs of
                      Inl e # _ \<Rightarrow> Inl e
                    | Inr c # _ \<Rightarrow>
                        (case SetChild (Some c) n of
                           Some (n', True) \<Rightarrow> Inr n'
                         | _ \<Rightarrow> Inl (''Unable to set child on decorator node: '' @ ty))
                    | [] \<Rightarrow> Inl [])
             | Leaf _ _ \<Rightarrow> Inl (''Behavior tree leaf node cannot have children: '' @ ty)))"

record tree_load_result =
  lr_tree :: "behavior_tree option"
  lr_success :: bool
  lr_message :: string

definition LoadFailure :: "string \<Rightarrow> tree_load_result" where
  "LoadFailure m = \<lparr>lr_tree = None, lr_success = False, lr_message = m\<rparr>"

definition LoadSuccess :: "bt_node \<Rightarrow> tree_load_result" where
  "LoadSuccess n = \<lparr>lr_tree = Some (BehaviorTree_create (Some n)), lr_success = True,
     lr_message = ''Behavior tree loaded successfully''\<rparr>"

definition TreeLoader_Build :: "creators \<Rightarrow> factory option \<Rightarrow> tree_parse_result \<Rightarrow> tree_load_result" where
  "TreeLoader_Build mk factory r =
     (if \<not> pr_success r then LoadFailure (pr_message r)
      else
        (case factory of
           None \<Rightarrow> LoadFailure ''Behavior tree factory dependency is unavailable''
         | Some fac \<Rightarrow>
             (case TreeValidator_Validate fac (pr_document r) of
                (False, m) \<Rightarrow> LoadFailure m
              | (True, _) \<Rightarrow>
                  (case BuildNode mk fac (pr_document r) of
                     Inl e \<Rightarrow> LoadFailure (if e = [] then ''Unable to construct behavior tree'' else e)
                   | Inr n \<Rightarrow> LoadSuccess n))))"

definition LoadJson ::
  "creators \<Rightarrow> factory option \<Rightarrow> (string \<Rightarrow> fl option) \<Rightarrow> string \<Rightarrow> tree_load_result option" where
  "LoadJson mk factory fc doc = map_option (TreeLoader_Build mk factory) (TreeParser_ParseJson fc doc)"

definition LoadYaml :: "creators \<Rightarrow> factory option \<Rightarrow> string \<Rightarrow> tree_load_result option" where
  "LoadYaml mk factory doc = map_option (TreeLoader_Build mk factory) (TreeParser_ParseYaml doc)"

text \<open>
  \<open>LoadFile\<close>: what opening and reading the file gave is an argument. \<open>path_extension\<close> is
  \<open>std::filesystem::path::extension\<close> and \<open>lower\<close> is \<open>std::tolower\<close> in the \<open>C\<close> locale.
\<close>

datatype file_read = FileNotOpened | FileBad | FileContent string

definition path_filename :: "string \<Rightarrow> string" where
  "path_filename p = rev (takeWhile (\<lambda>c. c \<noteq> CHR ''/'') (rev p))"

definition path_extension :: "string \<Rightarrow> string" where
  "path_extension p =
     (let f = path_filename p; ext = rev (takeWhile (\<lambda>c. c \<noteq> CHR ''.'') (rev f)) in
      if f = ''.'' \<or> f = ''..'' \<or> CHR ''.'' \<notin> set (tl f) then [] else CHR ''.'' # ext)"

definition lower :: "char \<Rightarrow> char" where
  "lower c = (if CHR ''A'' \<le> c \<and> c \<le> CHR ''Z'' then char_of (of_char c + 32 :: nat) else c)"

definition LoadFile ::
  "creators \<Rightarrow> factory option \<Rightarrow> (string \<Rightarrow> fl option) \<Rightarrow> string \<Rightarrow> file_read \<Rightarrow> tree_load_result option" where
  "LoadFile mk factory fc path file =
     (case file of
        FileNotOpened \<Rightarrow> Some (LoadFailure (''Unable to open behavior tree file: '' @ path))
      | FileBad \<Rightarrow> Some (LoadFailure (''Unable to read behavior tree file: '' @ path))
      | FileContent content \<Rightarrow>
          (let ext = map lower (path_extension path) in
           if ext = ''.json'' then LoadJson mk factory fc content
           else if ext = ''.yaml'' \<or> ext = ''.yml'' then LoadYaml mk factory content
           else if ext = ''.xml'' then Some (LoadFailure ''XML behavior tree loading is not enabled'')
           else Some (LoadFailure (''Unsupported behavior tree file extension: '' @ ext))))"

section \<open>Registry\<close>

text \<open>The creators stay ordered by distinct names.\<close>

definition factory_ok :: "factory \<Rightarrow> bool" where
  "factory_ok fac \<longleftrightarrow> sorted_wrt (<) (map fst fac) \<and> [] \<notin> set (map fst fac)"

lemma RegisterNode_ok: "factory_ok fac \<Longrightarrow> factory_ok (fst (RegisterNode ty c fac))"
  by (auto simp: RegisterNode_def factory_ok_def map_emplace_sorted map_emplace_set map_of_eq_None_iff
      split: option.splits)

lemma UnregisterNode_ok: "factory_ok fac \<Longrightarrow> factory_ok (fst (UnregisterNode ty fac))"
  by (induction fac) (auto simp: UnregisterNode_def factory_ok_def sorted_wrt_map sorted_wrt_filter)

section \<open>Validation\<close>

fun types_known :: "factory \<Rightarrow> tree_node \<Rightarrow> bool" where
  "types_known fac (TreeNode ty cs) =
     (ty \<noteq> [] \<and> factory_Contains fac ty \<and> list_all (types_known fac) cs)"

lemma first_failure_iff:
  assumes "\<And>x i. x \<in> set xs \<Longrightarrow> g x i = None \<longleftrightarrow> P x"
  shows "first_failure (map g xs) i = None \<longleftrightarrow> list_all P xs"
  using assms
proof (induction xs arbitrary: i)
  case (Cons x xs)
  then have "g x i = None \<longleftrightarrow> P x" by simp
  moreover have "first_failure (map g xs) (Suc i) = None \<longleftrightarrow> list_all P xs" by (rule Cons.IH) (simp add: Cons.prems)
  ultimately show ?case by (cases "g x i") auto
qed simp

lemma ValidateNode_iff: "ValidateNode fac n path = None \<longleftrightarrow> types_known fac n"
proof (induction n arbitrary: path)
  case (TreeNode ty cs)
  have "first_failure (map (\<lambda>c i. ValidateNode fac c (path @ ''.children['' @ to_string i @ '']'')) cs) 0 = None
      \<longleftrightarrow> list_all (types_known fac) cs"
    by (rule first_failure_iff) (rule TreeNode.IH)
  then show ?case by simp
qed

section \<open>Construction\<close>

text \<open>
  The definitions that can be built: every type has a creator that makes a node, and the node is of a
  class that takes as many children as the definition has.
\<close>

fun loadable :: "creators \<Rightarrow> factory \<Rightarrow> tree_node \<Rightarrow> bool" where
  "loadable mk fac (TreeNode ty cs) =
     (case CreateNode mk fac ty of
        None \<Rightarrow> False
      | Some n \<Rightarrow>
          (case n of
             Composite _ _ _ \<Rightarrow> True
           | Decorator _ _ _ \<Rightarrow> length cs \<le> 1
           | Leaf _ _ \<Rightarrow> cs = []) \<and> list_all (loadable mk fac) cs)"

lemma add_children_Inr:
  "add_children ty rs (Composite nm k cs) = Inr n \<longleftrightarrow>
     (\<exists>ns. rs = map Inr ns \<and> n = Composite nm k (cs @ ns))"
proof (induction rs arbitrary: cs)
  case (Cons r rs)
  then show ?case by (cases r) (auto simp: Cons_eq_map_conv)
qed auto

lemma map_Inr_iff: "(\<exists>ns. map f cs = map Inr ns) \<longleftrightarrow> (\<forall>c \<in> set cs. \<exists>n. f c = Inr n)"
proof (induction cs)
  case (Cons c cs)
  then show ?case by (auto simp: Cons_eq_map_conv)
qed simp

text \<open>What a successful construction is, by the class of the created node.\<close>

lemma BuildNode_Inr:
  "BuildNode mk fac (TreeNode ty cs) = Inr n \<longleftrightarrow>
     (\<exists>n0. CreateNode mk fac ty = Some n0 \<and>
        (if cs = [] then n = n0
         else (\<exists>ns. map (BuildNode mk fac) cs = map Inr ns \<and>
           (case n0 of
              Composite nm k cs0 \<Rightarrow> n = Composite nm k (cs0 @ ns)
            | Decorator nm k ch \<Rightarrow> length cs = 1 \<and> n = Decorator nm (decorator_OnResetLocked k) (Some (hd ns))
            | Leaf _ _ \<Rightarrow> False))))"
proof (cases "CreateNode mk fac ty")
  case (Some n0)
  show ?thesis
  proof (cases n0)
    case (Decorator nm k ch)
    with Some show ?thesis
      by (cases cs; cases "tl cs"; cases "BuildNode mk fac (hd cs)") (auto simp: Cons_eq_map_conv)
  qed (use Some in \<open>auto simp: add_children_Inr\<close>)
qed simp

lemma BuildNode_iff: "(\<exists>n. BuildNode mk fac d = Inr n) \<longleftrightarrow> loadable mk fac d"
proof (induction d)
  case (TreeNode ty cs)
  then have IH: "(\<exists>ns. map (BuildNode mk fac) cs = map Inr ns) \<longleftrightarrow> list_all (loadable mk fac) cs"
    unfolding map_Inr_iff by (simp add: list_all_iff)
  show ?case
  proof (cases "CreateNode mk fac ty")
    case (Some n0)
    with IH show ?thesis
      by (cases n0; cases "cs = []") (auto simp: BuildNode_Inr le_Suc_eq simp del: BuildNode.simps)
  qed (simp add: BuildNode_Inr del: BuildNode.simps)
qed

lemma loadable_known: "loadable mk fac d \<Longrightarrow> plain_node d \<Longrightarrow> types_known fac d"
proof (induction d)
  case (TreeNode ty cs)
  then show ?case
    by (auto simp: list_all_iff factory_Contains_def CreateNode_def split: option.splits bt_node.splits)
qed

text \<open>The creators make nodes as constructors leave them.\<close>

definition creators_fresh :: "creators \<Rightarrow> bool" where
  "creators_fresh mk \<longleftrightarrow> (\<forall>c n. mk c = Returned (Some n) \<longrightarrow> fresh n = n \<and> bt_wf True n)"

lemma CreateNode_fresh:
  "creators_fresh mk \<Longrightarrow> CreateNode mk fac ty = Some n \<Longrightarrow> fresh n = n \<and> bt_wf True n"
  by (auto simp: creators_fresh_def CreateNode_def split: option.splits outcome.splits)

lemma composite_wf_grow: "composite_wf k len \<Longrightarrow> len \<le> len' \<Longrightarrow> composite_wf k len'"
  by (cases k) auto

lemma BuildNode_fresh:
  assumes "creators_fresh mk"
  shows "BuildNode mk fac d = Inr n \<Longrightarrow> fresh n = n \<and> bt_wf True n"
proof (induction d arbitrary: n)
  case (TreeNode ty cs)
  from TreeNode.prems obtain n0 where n0: "CreateNode mk fac ty = Some n0"
    and n: "if cs = [] then n = n0 else (\<exists>ns. map (BuildNode mk fac) cs = map Inr ns \<and>
           (case n0 of Composite nm k cs0 \<Rightarrow> n = Composite nm k (cs0 @ ns)
            | Decorator nm k ch \<Rightarrow> length cs = 1 \<and> n = Decorator nm (decorator_OnResetLocked k) (Some (hd ns))
            | Leaf _ _ \<Rightarrow> False))"
    unfolding BuildNode_Inr by blast
  note base = CreateNode_fresh [OF assms n0]
  have ns: "fresh m = m \<and> bt_wf True m" if "map (BuildNode mk fac) cs = map Inr ns" "m \<in> set ns" for m ns
  proof -
    from that have "Inr m \<in> set (map (BuildNode mk fac) cs)" by simp
    then show ?thesis using TreeNode.IH by fastforce
  qed
  show ?case
  proof (cases "cs = []")
    case False
    with n obtain ns where 1: "map (BuildNode mk fac) cs = map Inr ns"
      and 2: "case n0 of Composite nm k cs0 \<Rightarrow> n = Composite nm k (cs0 @ ns)
            | Decorator nm k ch \<Rightarrow> length cs = 1 \<and> n = Decorator nm (decorator_OnResetLocked k) (Some (hd ns))
            | Leaf _ _ \<Rightarrow> False" by auto
    from 1 False have "ns \<noteq> []" by auto
    with ns [OF 1] 2 base show ?thesis
      by (cases n0) (auto simp: list_all_iff map_idI composite_wf_grow decorator_OnResetLocked_wf)
  qed (use n base in simp)
qed

text \<open>
  Loading: a tree written in either format loads exactly when every type has a creator that makes a
  node and every node takes as many children as it is given; both formats give the same result;
  and the loaded tree is a new, idle tree whose root is well-formed and as constructed.
\<close>

theorem tree_load_correct:
  assumes "plain_node d" and "creators_fresh mk"
  shows "LoadJson mk (Some fac) fc (document_json d) = LoadYaml mk (Some fac) (document_yaml d)
     \<and> (if loadable mk fac d
        then \<exists>n. LoadYaml mk (Some fac) (document_yaml d) = Some (LoadSuccess n) \<and> fresh n = n \<and> bt_wf True n
        else \<exists>m. LoadYaml mk (Some fac) (document_yaml d) = Some (LoadFailure m))"
proof -
  have json: "LoadJson mk (Some fac) fc (document_json d) = Some (TreeLoader_Build mk (Some fac) (ParseSuccess d))"
    and yaml: "LoadYaml mk (Some fac) (document_yaml d) = Some (TreeLoader_Build mk (Some fac) (ParseSuccess d))"
    by (simp_all add: LoadJson_def LoadYaml_def ParseJson_document [OF assms(1)] ParseYaml_document [OF assms(1)])
  have "if loadable mk fac d
     then \<exists>n. TreeLoader_Build mk (Some fac) (ParseSuccess d) = LoadSuccess n \<and> fresh n = n \<and> bt_wf True n
     else \<exists>m. TreeLoader_Build mk (Some fac) (ParseSuccess d) = LoadFailure m"
    using BuildNode_iff [of mk fac d] loadable_known [OF _ assms(1), of mk fac] ValidateNode_iff [of fac d "''root''"]
      BuildNode_fresh [OF assms(2), of fac d]
    by (cases "BuildNode mk fac d")
      (auto simp: TreeLoader_Build_def ParseSuccess_def TreeValidator_Validate_def split: option.splits)
  with json yaml show ?thesis by auto
qed

theorem tree_load_correct_witness:
  "\<exists>n. LoadYaml (\<lambda>c. Returned (Some (if c = 0 then SequenceNode_create [] Memory [] else ActionNode_create [] (Some 0))))
     (Some [(''Act'', 1), (''Seq'', 0)]) (document_yaml (TreeNode ''Seq'' [TreeNode ''Act'' [], TreeNode ''Act'' []]))
     = Some (LoadSuccess n) \<and> fresh n = n \<and> bt_wf True n"
proof -
  let ?mk = "\<lambda>c. Returned (Some (if c = 0 then SequenceNode_create [] Memory [] else ActionNode_create [] (Some 0)))"
  let ?d = "TreeNode ''Seq'' [TreeNode ''Act'' [], TreeNode ''Act'' []]"
  have "plain_node ?d" and l: "loadable ?mk [(''Act'', 1), (''Seq'', 0)] ?d" by code_simp+
  moreover have "creators_fresh ?mk"
    by (simp add: creators_fresh_def SequenceNode_create_def CompositeNode_create_def ActionNode_create_def
        List.map_filter_def)
  ultimately show ?thesis using tree_load_correct [of ?d ?mk "[(''Act'', 1), (''Seq'', 0)]"] by simp
qed

text \<open>
  Validation: the validator accepts a document exactly when every node of it, at any depth, has a
  non-empty type that the factory knows.
\<close>

theorem validate_iff:
  "fst (TreeValidator_Validate fac doc) \<longleftrightarrow> types_known fac doc"
  using ValidateNode_iff [of fac doc "''root''"] by (auto simp: TreeValidator_Validate_def split: option.splits)

end
