(* ===== verification/Behavior_Tree_Props.thy ===== *)
theory Behavior_Tree_Props
  imports Behavior_Tree_Inv
begin

text \<open>
  Properties of behavior trees: the duality of sequences and selectors, cancellation, the life of a
  tree under any sequence of its operations, and the policies of retry and delay nodes.
\<close>

section \<open>Operations of a tree\<close>

datatype bt_op = Op_Initialize | Op_Tick | Op_Reset | Op_Shutdown

fun apply_op ::
  "('v, 'x) bt_env \<Rightarrow> bt_op \<Rightarrow> behavior_tree \<times> ('v, 'x) bt_world \<Rightarrow> behavior_tree \<times> ('v, 'x) bt_world" where
  "apply_op env Op_Initialize (t, w) = snd (BehaviorTree_Initialize env t w)"
| "apply_op env Op_Tick (t, w) = snd (BehaviorTree_Tick env t w)"
| "apply_op env Op_Reset (t, w) = snd (BehaviorTree_Reset env t w)"
| "apply_op env Op_Shutdown (t, w) = snd (BehaviorTree_Shutdown env t w)"

definition run_ops ::
  "('v, 'x) bt_env \<Rightarrow> bt_op list \<Rightarrow> behavior_tree \<times> ('v, 'x) bt_world \<Rightarrow> behavior_tree \<times> ('v, 'x) bt_world" where
  "run_ops env ops s = fold (apply_op env) ops s"

lemmas tree_defs = BehaviorTree_Initialize_def InitializeLocked_def BehaviorTree_Tick_def tick_root_def
  BehaviorTree_Reset_def BehaviorTree_Shutdown_def AbortLocked_def publish_def Let_def

lemmas tree_splits = outcome_case_splits

text \<open>
  A concrete environment, for the witnesses: a clock that advances by one at each reading, callbacks
  that answer by their number, a dispatcher whose futures are ready at once, and no interference.
\<close>

definition clock_env :: "(nat, int) bt_env" where
  "clock_env = \<lparr>env_interfere = (\<lambda>w. w),
     env_now = (\<lambda>w. (bw_rest w, w\<lparr>bw_rest := bw_rest w + 1\<rparr>)),
     env_action = (\<lambda>i w. (if i = 0 then Returned BT_Success else if i = 1 then Returned BT_Failure
                         else ThrewUnknown, w)),
     env_predicate = (\<lambda>i w. (Returned (i = 0), w)),
     env_ExecuteAsync = (\<lambda>d c w. (Returned 0, w)),
     env_poll = (\<lambda>f w. (Some (Returned (Result Status_Completed [])), w)),
     env_Cancel = (\<lambda>d i w. w),
     env_mission_Start = (\<lambda>e m w. (Returned MS_Running, w)),
     env_mission_GetStatus = (\<lambda>e w. (Returned MS_Completed, w)),
     env_mission_Cancel = (\<lambda>e w. w), env_mission_Stop = (\<lambda>e w. w),
     env_custom_Initialize = (\<lambda>i w. (Returned BT_Idle, w)),
     env_custom_Tick = (\<lambda>i w. (Returned BT_Running, w)),
     env_custom_Reset = (\<lambda>i w. (Returned (), w)),
     env_custom_Shutdown = (\<lambda>i w. (Returned (), w))\<rparr>"

definition clock_world :: "int \<Rightarrow> (nat, int) bt_world" where
  "clock_world now = BTContext_create None None [] now"

definition cancelled_world :: "(nat, int) bt_world" where
  "cancelled_world = (clock_world 0)\<lparr>bw_execution := (bw_execution (clock_world 0))\<lparr>ec_stop_requested := True\<rparr>\<rparr>"

lemma clock_env_resets [simp]: "resets_return clock_env"
  by (simp add: resets_return_def clock_env_def)

definition root_kept :: "('v, 'x) bt_env \<Rightarrow> behavior_tree \<Rightarrow> behavior_tree \<Rightarrow> bool" where
  "root_kept env t t' \<longleftrightarrow> rel_option (keeps env) (bt_root t) (bt_root t')"

lemma root_kept_refl [simp]: "root_kept env t t"
  by (simp add: root_kept_def option.rel_refl)

lemma root_kept_trans: "root_kept env t t' \<Longrightarrow> root_kept env t' t'' \<Longrightarrow> root_kept env t t''"
  by (auto simp: root_kept_def option_rel_Some1 option_rel_Some2 dest: keeps_trans
      elim!: option.rel_cases)

lemma InitializeLocked_kept: "root_kept env t (fst (snd (InitializeLocked env t w)))"
  by (auto simp: tree_defs root_kept_def option.rel_refl dest: node_Initialize_kept split: tree_splits)

lemma tick_root_kept: "root_kept env t (fst (snd (tick_root env t w)))"
  by (auto simp: tree_defs root_kept_def option.rel_refl dest: node_Tick_kept split: tree_splits)

lemma root_kept_status [simp]: "root_kept env t (t\<lparr>bt_status_of := st\<rparr>)"
  by (simp add: root_kept_def option.rel_refl)

lemma BehaviorTree_Tick_kept: "root_kept env t (fst (snd (BehaviorTree_Tick env t w)))"
  using InitializeLocked_kept [of env t w] tick_root_kept
  by (auto simp: BehaviorTree_Tick_def AbortLocked_def publish_def
      intro: root_kept_trans split: prod.splits)

lemma BehaviorTree_Reset_kept: "root_kept env t (fst (snd (BehaviorTree_Reset env t w)))"
  by (auto simp: tree_defs root_kept_def option.rel_refl dest: node_Reset_kept split: tree_splits)

lemma BehaviorTree_Shutdown_kept: "root_kept env t (fst (snd (BehaviorTree_Shutdown env t w)))"
  by (auto simp: tree_defs root_kept_def option.rel_refl dest: node_Shutdown_kept split: tree_splits)

lemma apply_op_kept: "root_kept env t (fst (apply_op env op (t, w)))"
  using InitializeLocked_kept BehaviorTree_Tick_kept BehaviorTree_Reset_kept BehaviorTree_Shutdown_kept
  by (cases op) (simp_all add: BehaviorTree_Initialize_def)

lemma run_ops_kept: "run_ops env ops (t, w) = (t', w') \<Longrightarrow> root_kept env t t'"
proof (induction ops arbitrary: t w)
  case (Cons op ops)
  obtain t1 w1 where "apply_op env op (t, w) = (t1, w1)" by (cases "apply_op env op (t, w)")
  with Cons apply_op_kept [of env t op w] show ?case
    by (auto simp: run_ops_def intro: root_kept_trans)
qed (simp add: run_ops_def)

lemma run_ops_root:
  assumes "run_ops env ops (BehaviorTree_create (Some n), w) = (t, w')"
  obtains n' where "bt_root t = Some n'" and "keeps env n n'"
  using run_ops_kept [OF assms] by (auto simp: root_kept_def BehaviorTree_create_def option_rel_Some1)

text \<open>
  C12. Well-formedness: whatever sequence of \<open>Initialize\<close>, \<open>Tick\<close>, \<open>Reset\<close> and \<open>Shutdown\<close> a tree goes
  through, and whatever its nodes, its callbacks and other threads do or throw meanwhile, its root keeps its
  configuration (names, classes, children, thresholds, durations, commands) and stays well-formed: resumed
  indices are in range, attempt counts stay below their limits, a limiter's count never exceeds its maximum, a
  command is in flight only when it has a dispatcher and no final status. The count of a limited repetition stays
  below its limit too where the \<open>Reset\<close> of the node classes outside the library never throws.
\<close>

theorem bt_well_formed:
  assumes "run_ops env ops (BehaviorTree_create (Some n), w) = (t, w')"
    and "bt_wf False n"
  shows "\<exists>n'. bt_root t = Some n' \<and> fresh n' = fresh n \<and> bt_wf False n'
     \<and> (resets_return env \<and> bt_wf True n \<longrightarrow> bt_wf True n')"
  using assms by (auto elim!: run_ops_root simp: keeps_def)

theorem bt_well_formed_witness:
  "\<exists>n'. bt_root (fst (run_ops clock_env [Op_Tick, Op_Tick]
      (BehaviorTree_create (Some (RetryNode_create [] 3 (Some (ActionNode_create [] (Some 1))))), clock_world 5)))
      = Some n' \<and> bt_wf True n' \<and> fresh n' = Decorator ''Decorator'' (Retry 3 0) (Some (Leaf ''Action'' (Action (Some 1))))"
proof -
  let ?n = "RetryNode_create [] 3 (Some (ActionNode_create [] (Some 1)))"
  have "bt_wf False ?n" "bt_wf True ?n" by code_simp+
  with bt_well_formed [OF prod.collapse [symmetric] this(1), of clock_env "[Op_Tick, Op_Tick]" "clock_world 5"]
  show ?thesis by (auto simp: RetryNode_create_def DecoratorNode_create_def ActionNode_create_def default_name_def)
qed

text \<open>
  The condition is needed: a repetition whose child succeeds and then throws from its \<open>Reset\<close> has already
  counted, so its count reaches the limit without the node ever answering \<open>Success\<close>.
\<close>

lemma repeat_counts_before_reset:
  assumes "bt_CancellationRequested env w = (False, w1)" and "node_Tick env c w1 = (Returned BT_Success, c1, w2)"
    and "node_Reset env c1 w2 = (ThrewException e, c2, w3)"
  shows "node_Tick env (Decorator nm (Repeat m n) (Some c)) w =
     (ThrewException e, Decorator nm (Repeat m ((n + 1) mod 2 ^ 64)) (Some c2), w3)"
  using assms by (simp add: RepeatNode_body_def)

text \<open>
  Reset round trip: after any operations that do not shut the tree down, \<open>Reset\<close> succeeds and gives
  back exactly the tree object its constructor made, so that a reset tree behaves as a new one.
\<close>

theorem bt_reset_roundtrip:
  assumes "run_ops env ops (BehaviorTree_create (Some n), w) = (t, w')"
    and "fresh n = n" and "resets_return env" and "\<not> bt_shutdown t"
  shows "\<exists>w''. BehaviorTree_Reset env t w' = (True, BehaviorTree_create (Some n), w'')
     \<and> ec_state (bw_execution w'') = State_Created"
proof -
  from assms(1) obtain n' where n': "bt_root t = Some n'" "keeps env n n'" by (rule run_ops_root)
  obtain r n'' w1 where reset: "node_Reset env n' w' = (r, n'', w1)" by (cases "node_Reset env n' w'")
  with node_Reset_returns [OF assms(3), of n' w'] have "r = Returned ()" by simp
  with reset n'(2) assms(2) have "n'' = n" by (auto dest!: node_Reset_fresh simp: keeps_def)
  with n' reset \<open>r = Returned ()\<close> assms(4) show ?thesis
    by (cases t) (auto simp: tree_defs BehaviorTree_create_def set_execution_state_def SetState_def)
qed

theorem bt_reset_roundtrip_witness:
  "fst (BehaviorTree_Reset clock_env
      (fst (run_ops clock_env [Op_Tick, Op_Tick] (BehaviorTree_create (Some (DelayNode_create [] 7)), clock_world 5)))
      (snd (run_ops clock_env [Op_Tick, Op_Tick] (BehaviorTree_create (Some (DelayNode_create [] 7)), clock_world 5))))"
proof -
  let ?s = "run_ops clock_env [Op_Tick, Op_Tick] (BehaviorTree_create (Some (DelayNode_create [] 7)), clock_world 5)"
  have "fresh (DelayNode_create [] 7) = DelayNode_create [] 7" and "\<not> bt_shutdown (fst ?s)" by code_simp+
  from bt_reset_roundtrip [OF prod.collapse [symmetric] this(1) clock_env_resets this(2)] show ?thesis by auto
qed

section \<open>Sequences and selectors\<close>

text \<open>The children of a composite, with the answers of their ticks negated.\<close>

definition inverted ::
  "(bt_node \<times> ('v, 'x) node_tick) list \<Rightarrow> (bt_node \<times> ('v, 'x) node_tick) list" where
  "inverted cs = map (\<lambda>(c, op). (c, \<lambda>w. case op w of (r, c', w') \<Rightarrow> (outcome_map InverterNode_status r, c', w'))) cs"

fun to_selector :: "composite_kind \<Rightarrow> composite_kind" where
  "to_selector (Sequence p i) = Selector p i"
| "to_selector k = k"

lemma inverted_fst [simp]: "map fst (inverted cs) = map fst cs"
  by (simp add: inverted_def comp_def case_prod_beta)

lemma inverted_simps [simp]:
  "inverted [] = []"
  "inverted ((c, op) # cs) =
     (c, \<lambda>w. case op w of (r, c', w') \<Rightarrow> (outcome_map InverterNode_status r, c', w')) # inverted cs"
  "drop i (inverted cs) = inverted (drop i cs)" "take i (inverted cs) = inverted (take i cs)"
  "inverted cs = [] \<longleftrightarrow> cs = []"
  by (auto simp: inverted_def drop_map take_map)

lemma Selector_loop_dual:
  "SelectorNode_loop i cs w =
     (case SequenceNode_loop i (inverted cs) w of
        (r, j, cs', w') \<Rightarrow> (outcome_map InverterNode_status r, j, cs', w'))"
  by (induction i cs w rule: SelectorNode_loop.induct)
    (auto split: prod.splits outcome.splits bt_status.splits)

lemma next_index_inverted [simp]:
  "next_index p c (outcome_map InverterNode_status r) i = next_index p c r i"
  by (cases r; cases "case r of Returned st \<Rightarrow> st | _ \<Rightarrow> BT_Idle") (auto simp: next_index_def)

text \<open>
  Duality: a selector's tick is the tick of the sequence of the negated children, negated again,
  with the same children ticked in the same order, the same effects and the same resume index, under both
  memory policies, with cancellation, exceptions and no children included.
\<close>

theorem selector_dual:
  "SelectorNode_Tick env p current cs w =
     (case SequenceNode_Tick env p current (inverted cs) w of
        (r, k, cs', w') \<Rightarrow> (outcome_map InverterNode_status r, to_selector k, cs', w'))"
  by (auto simp: SelectorNode_Tick_def SequenceNode_Tick_def Let_def Selector_loop_dual
      split: prod.splits bool.splits)

section \<open>Cancellation\<close>

text \<open>Leaves that answer without reading the context: a final status is latched, or the class is foreign.\<close>

fun answers_blindly :: "bt_node \<Rightarrow> bool" where
  "answers_blindly (Leaf nm (CommandLeaf d c f t)) = (t \<noteq> None)"
| "answers_blindly (Leaf nm (MissionLeaf e m s t)) = (t \<noteq> None)"
| "answers_blindly (Leaf nm (Custom i)) = True"
| "answers_blindly _ = False"

fun subtrees :: "bt_node \<Rightarrow> bt_node list" where
  "subtrees (Composite nm k cs) = cs"
| "subtrees (Decorator nm k ch) = (case ch of None \<Rightarrow> [] | Some c \<Rightarrow> [c])"
| "subtrees (Leaf nm l) = []"

lemma composite_Tick_cancelled:
  assumes "bt_CancellationRequested env w = (True, w1)"
  shows "\<exists>k'. composite_Tick env k cs w = (Returned BT_Aborted, k', map fst cs, w1)"
  using assms by (cases k) (auto simp: SequenceNode_Tick_def SelectorNode_Tick_def ParallelNode_Tick_def)

lemma leaf_Tick_cancelled:
  assumes "bt_CancellationRequested env w = (True, w1)" and "\<not> answers_blindly (Leaf nm l)"
  shows "fst (leaf_Tick env l w) = Returned BT_Aborted"
  using assms by (cases l) (auto simp: leaf_Tick_defs)

text \<open>
  Cancellation: a tick that finds the context cancelled answers \<open>Aborted\<close> for every node that reads
  the context; a composite or decorator does so without running any child, which all stay as they
  are, and without any other effect.
\<close>

theorem bt_cancel_aborts:
  assumes "bt_CancellationRequested env w = (True, w1)" and "\<not> answers_blindly n"
  shows "fst (node_Tick env n w) = Returned BT_Aborted
     \<and> (subtrees n \<noteq> [] \<longrightarrow> subtrees (fst (snd (node_Tick env n w))) = subtrees n
                          \<and> snd (snd (node_Tick env n w)) = w1)"
proof (cases n)
  case (Composite nm k cs)
  then show ?thesis
    using composite_Tick_cancelled [OF assms(1), of k "map (\<lambda>c. (c, node_Tick env c)) cs"]
    by (auto simp: comp_def)
next
  case (Decorator nm k ch)
  then show ?thesis using assms(1) by (cases ch) auto
next
  case (Leaf nm l)
  then show ?thesis using leaf_Tick_cancelled assms by (auto simp: case_prod_beta)
qed

theorem bt_cancel_aborts_witness:
  "fst (node_Tick clock_env (SequenceNode_create [] Stateless [Some (ActionNode_create [] (Some 0))]) cancelled_world)
     = Returned BT_Aborted"
proof -
  have "fst (bt_CancellationRequested clock_env cancelled_world)" by code_simp
  then obtain w1 where "bt_CancellationRequested clock_env cancelled_world = (True, w1)"
    by (cases "bt_CancellationRequested clock_env cancelled_world") simp
  moreover have "\<not> answers_blindly (SequenceNode_create [] Stateless [Some (ActionNode_create [] (Some 0))])"
    by code_simp
  ultimately show ?thesis by (simp add: bt_cancel_aborts)
qed

section \<open>Status and shutdown\<close>

lemma set_execution_state_ec [simp]: "ec_state (bw_execution (set_execution_state st w)) = st"
  by (simp add: set_execution_state_def SetState_def)

lemma InitializeLocked_published:
  "InitializeLocked env t w = (st, t', w') \<Longrightarrow>
     st = bt_status_of t' \<and> (t' = t \<and> w' = w \<or> ec_state (bw_execution w') = ToExecutionState (bt_status_of t'))"
  by (auto simp: tree_defs split: tree_splits)

lemma tick_root_published:
  "tick_root env t w = (st, t', w') \<Longrightarrow>
     st = bt_status_of t' \<and> ec_state (bw_execution w') = ToExecutionState (bt_status_of t')"
  by (auto simp: tree_defs split: tree_splits)

lemma BehaviorTree_Tick_published:
  "BehaviorTree_Tick env t w = (st, t', w') \<Longrightarrow>
     st = bt_status_of t' \<and> (t' = t \<and> w' = w \<or> ec_state (bw_execution w') = ToExecutionState (bt_status_of t'))"
  by (auto simp: BehaviorTree_Tick_def AbortLocked_def publish_def split: if_splits prod.splits
      dest: InitializeLocked_published tick_root_published)

text \<open>
  Published status: every operation of a tree either changes nothing at all, or ends with the state of
  the execution context equal to the image of the tree's status, whatever the nodes, the
  callbacks and other threads did to the context meanwhile.
\<close>

theorem bt_status_published:
  assumes "apply_op env op (t, w) = (t', w')"
  shows "(t', w') = (t, w) \<or> ec_state (bw_execution w') = ToExecutionState (bt_status_of t')"
proof (cases op)
  case Op_Initialize
  with assms show ?thesis
    by (cases "InitializeLocked env t w")
      (auto simp: BehaviorTree_Initialize_def dest: InitializeLocked_published)
next
  case Op_Tick
  with assms show ?thesis
    by (cases "BehaviorTree_Tick env t w") (auto dest: BehaviorTree_Tick_published)
qed (use assms in \<open>auto simp: tree_defs split: tree_splits\<close>)

theorem bt_status_published_witness:
  "ec_state (bw_execution (snd (apply_op clock_env Op_Tick
      (BehaviorTree_create (Some (ActionNode_create [] (Some 0))), clock_world 5)))) = State_Completed"
proof -
  let ?t = "BehaviorTree_create (Some (ActionNode_create [] (Some 0)))"
  let ?s = "apply_op clock_env Op_Tick (?t, clock_world 5)"
  have "bt_status_of (fst ?s) = BT_Success" by code_simp
  moreover have "bt_status_of ?t = BT_Idle" by code_simp
  ultimately show ?thesis using bt_status_published [of clock_env Op_Tick ?t "clock_world 5" "fst ?s" "snd ?s"] by auto
qed

lemma apply_op_shutdown:
  assumes "bt_shutdown t" and "apply_op env op (t, w) = (t', w')"
  shows "bt_shutdown t' \<and> bt_root t' = bt_root t \<and> (w' = w \<or> (\<exists>st. w' = set_execution_state st w))"
  using assms by (cases op) (auto simp: tree_defs split: if_splits)

lemma set_execution_state_twice [simp]:
  "set_execution_state st (set_execution_state st' w) = set_execution_state st w"
  by (simp add: set_execution_state_def SetState_def)

lemma run_ops_shutdown:
  assumes "bt_shutdown t" and "run_ops env ops (t, w) = (t', w')"
  shows "bt_shutdown t' \<and> bt_root t' = bt_root t \<and> (w' = w \<or> (\<exists>st. w' = set_execution_state st w))"
  using assms
proof (induction ops arbitrary: t w)
  case (Cons op ops)
  obtain t1 w1 where step: "apply_op env op (t, w) = (t1, w1)" by (cases "apply_op env op (t, w)")
  with Cons.prems have "run_ops env ops (t1, w1) = (t', w')" by (simp add: run_ops_def)
  with apply_op_shutdown [OF Cons.prems(1) step] Cons.IH [of t1 w1] show ?case by auto
qed (simp add: run_ops_def)

text \<open>
  Shutdown is final: after a shutdown, no sequence of operations touches a node again or has any effect
  but on the published state; a further \<open>Tick\<close> answers \<open>Aborted\<close>, and \<open>Reset\<close> and a second
  \<open>Shutdown\<close> are refused.
\<close>

theorem bt_shutdown_final:
  assumes "BehaviorTree_Shutdown env t w = (True, t1, w1)" and "run_ops env ops (t1, w1) = (t2, w2)"
  shows "bt_root t2 = bt_root t1 \<and> (w2 = w1 \<or> (\<exists>st. w2 = set_execution_state st w1))
     \<and> fst (BehaviorTree_Tick env t2 w2) = BT_Aborted
     \<and> fst (BehaviorTree_Initialize env t2 w2) = BT_Aborted
     \<and> \<not> fst (BehaviorTree_Reset env t2 w2) \<and> \<not> fst (BehaviorTree_Shutdown env t2 w2)"
proof -
  from assms(1) have "bt_shutdown t1" by (auto simp: tree_defs split: tree_splits)
  with run_ops_shutdown [OF this assms(2)] show ?thesis
    by (auto simp: tree_defs)
qed

theorem bt_shutdown_final_witness:
  "fst (BehaviorTree_Tick clock_env
      (fst (run_ops clock_env [Op_Reset, Op_Initialize]
         (snd (BehaviorTree_Shutdown clock_env (BehaviorTree_create (Some (DelayNode_create [] 7))) (clock_world 5)))))
      (snd (run_ops clock_env [Op_Reset, Op_Initialize]
         (snd (BehaviorTree_Shutdown clock_env (BehaviorTree_create (Some (DelayNode_create [] 7))) (clock_world 5))))))
     = BT_Aborted"
proof -
  let ?sh = "BehaviorTree_Shutdown clock_env (BehaviorTree_create (Some (DelayNode_create [] 7))) (clock_world 5)"
  have "fst ?sh" by code_simp
  then have sh: "?sh = (True, fst (snd ?sh), snd (snd ?sh))" by (cases ?sh) simp
  show ?thesis using bt_shutdown_final [OF sh prod.collapse [symmetric], of "[Op_Reset, Op_Initialize]"] by simp
qed

section \<open>Policies\<close>

text \<open>The answers of successive ticks of a node.\<close>

fun tick_answers :: "('v, 'x) bt_env \<Rightarrow> nat \<Rightarrow> bt_node \<Rightarrow> ('v, 'x) bt_world \<Rightarrow> bt_status outcome list" where
  "tick_answers env 0 n w = []"
| "tick_answers env (Suc k) n w = (case node_Tick env n w of (r, n', w') \<Rightarrow> r # tick_answers env k n' w')"

definition never_cancelled :: "('v, 'x) bt_env \<Rightarrow> bool" where
  "never_cancelled env \<longleftrightarrow> (\<forall>w. \<not> fst (bt_CancellationRequested env w))"

text \<open>An environment in which a new context is installed before each access.\<close>

definition quiet_env :: "(nat, int) bt_env" where
  "quiet_env = clock_env\<lparr>env_interfere := (\<lambda>w. clock_world (bw_rest w))\<rparr>"

lemma quiet_env_never_cancelled [simp]: "never_cancelled quiet_env"
  by (simp add: never_cancelled_def quiet_env_def bt_CancellationRequested_def clock_world_def
      BTContext_create_def MakeExecutionContext_def ec_create_def new_source_def
      CancellationRequested_def IsCancelled_def new_cancellation_state_def)

lemma quiet_env_resets [simp]: "resets_return quiet_env"
  by (simp add: resets_return_def quiet_env_def clock_env_def)

text \<open>Every state of \<open>c\<close> answers \<open>st\<close> to a tick.\<close>

definition always_answers :: "('v, 'x) bt_env \<Rightarrow> bt_status \<Rightarrow> bt_node \<Rightarrow> bool" where
  "always_answers env st c \<longleftrightarrow> (\<forall>c' w. fresh c' = fresh c \<longrightarrow> fst (node_Tick env c' w) = Returned st)"

lemma never_cancelled_read:
  assumes "never_cancelled env"
  obtains w1 where "bt_CancellationRequested env w = (False, w1)"
  using assms by (cases "bt_CancellationRequested env w") (auto simp: never_cancelled_def dest: spec [of _ w])

lemma always_answers_tick:
  assumes "always_answers env st c"
  obtains c' w' where "node_Tick env c w = (Returned st, c', w')" and "fresh c' = fresh c"
proof -
  obtain r c' w' where tick: "node_Tick env c w = (r, c', w')" by (cases "node_Tick env c w")
  from assms have "fst (node_Tick env c w) = Returned st" by (simp add: always_answers_def)
  with tick node_Tick_kept [OF tick] that [of c' w'] show thesis by (simp add: keeps_def)
qed

lemma always_answers_fresh: "always_answers env st c \<Longrightarrow> fresh c' = fresh c \<Longrightarrow> always_answers env st c'"
  by (simp add: always_answers_def)

lemma node_Reset_returned:
  assumes "resets_return env"
  obtains w' where "node_Reset env n w = (Returned (), fresh n, w')"
  using node_Reset_returns [OF assms, of n w] by (cases "node_Reset env n w") (auto dest: node_Reset_fresh)

lemma retry_answers:
  assumes "never_cancelled env" and "resets_return env"
  shows "always_answers env BT_Failure c \<Longrightarrow> j < m \<Longrightarrow>
     tick_answers env (m - j) (Decorator nm (Retry m j) (Some c)) w =
       replicate (m - Suc j) (Returned BT_Running) @ [Returned BT_Failure]"
proof (induction "m - Suc j" arbitrary: j c w)
  case 0
  then have "m - j = Suc 0" by simp
  obtain w1 where w1: "bt_CancellationRequested env w = (False, w1)"
    using assms(1) by (rule never_cancelled_read)
  obtain c' w' where "node_Tick env c w1 = (Returned BT_Failure, c', w')"
    using 0(2) by (rule always_answers_tick)
  with 0 w1 show ?case unfolding \<open>m - j = Suc 0\<close> by (simp add: RetryNode_body_def)
next
  case (Suc k)
  then have m: "m - j = Suc (m - Suc j)" "Suc j < m" by simp_all
  obtain w1 where w1: "bt_CancellationRequested env w = (False, w1)"
    using assms(1) by (rule never_cancelled_read)
  obtain c1 w2 where c1: "node_Tick env c w1 = (Returned BT_Failure, c1, w2)" "fresh c1 = fresh c"
    using Suc(3) by (rule always_answers_tick)
  obtain w3 where w3: "node_Reset env c1 w2 = (Returned (), fresh c1, w3)"
    using assms(2) by (rule node_Reset_returned)
  have "tick_answers env (m - Suc j) (Decorator nm (Retry m (Suc j)) (Some (fresh c1))) w3 =
      replicate (m - Suc (Suc j)) (Returned BT_Running) @ [Returned BT_Failure]"
    using Suc(2) m c1 by (intro Suc(1)) (auto intro: always_answers_fresh [OF Suc(3)])
  moreover have "m - Suc j = Suc (m - Suc (Suc j))" using m by simp
  ultimately show ?case using w1 c1 w3 m unfolding m(1) by (simp add: RetryNode_body_def)
qed

text \<open>
  Retry: over a child that always fails, and without cancellation, a retry node answers \<open>Running\<close> to
  all but the last of \<open>max_attempts_\<close> ticks, resetting the child between them, and fails at the last; it
  neither gives up early nor retries for ever.
\<close>

theorem retry_gives_up:
  assumes "never_cancelled env" and "resets_return env" and "always_answers env BT_Failure c"
  shows "tick_answers env (max 1 m) (RetryNode_create nm m (Some c)) w =
     replicate (max 1 m - 1) (Returned BT_Running) @ [Returned BT_Failure]"
  using retry_answers [OF assms(1,2,3), of 0 "max 1 m"]
  by (simp add: RetryNode_create_def DecoratorNode_create_def)

theorem retry_gives_up_witness:
  "tick_answers quiet_env 3 (RetryNode_create [] 3 (Some (Leaf [] (Action None)))) (clock_world 0) =
     [Returned BT_Running, Returned BT_Running, Returned BT_Failure]"
proof -
  have "always_answers quiet_env BT_Failure (Leaf [] (Action None))"
    unfolding always_answers_def
  proof (intro allI impI)
    fix c' w
    assume "fresh c' = fresh (Leaf [] (Action None))"
    then have c': "c' = Leaf [] (Action None)"
      by (cases c') (auto elim!: leaf_fresh.elims split: option.splits)
    obtain w1 where "bt_CancellationRequested quiet_env w = (False, w1)"
      using quiet_env_never_cancelled by (rule never_cancelled_read)
    then show "fst (node_Tick quiet_env c' w) = Returned BT_Failure"
      by (simp add: c' ActionNode_Tick_def)
  qed
  then show ?thesis
    using retry_gives_up [of quiet_env "Leaf [] (Action None)" 3 "[]" "clock_world 0"]
    by (simp add: numeral_3_eq_3)
qed

text \<open>
  C28. A delay forgets that it elapsed: the tick that finds the duration over answers \<open>Success\<close> and clears
  \<open>completed_\<close> with the timer, so the next tick starts the delay again, while a delay of no duration
  keeps answering \<open>Success\<close>.
\<close>

theorem delay_restarts:
  assumes "0 < d" and "node_Tick env (Leaf nm (Delay d (Some t0) False)) w = (Returned BT_Success, n', w')"
    and "\<not> fst (bt_CancellationRequested env w')"
  shows "\<exists>now w''. node_Tick env n' w' = (Returned BT_Running, Leaf nm (Delay d (Some now) False), w'')"
  using assms by (auto simp: leaf_Tick_defs split: prod.splits bool.splits if_splits)

theorem delay_restarts_witness:
  "\<exists>now w''. node_Tick clock_env (DelayNode_create [] 7)
      (snd (snd (node_Tick clock_env (Leaf ''Delay'' (Delay 7 (Some 1) False)) (clock_world 8)))) =
      (Returned BT_Running, Leaf ''Delay'' (Delay 7 (Some now) False), w'')"
proof -
  let ?r = "node_Tick clock_env (Leaf ''Delay'' (Delay 7 (Some 1) False)) (clock_world 8)"
  have "fst ?r = Returned BT_Success" and "fst (snd ?r) = DelayNode_create [] 7"
    and c: "\<not> fst (bt_CancellationRequested clock_env (snd (snd ?r)))" by code_simp+
  then have r: "?r = (Returned BT_Success, DelayNode_create [] 7, snd (snd ?r))" by (metis prod.collapse)
  show ?thesis by (rule delay_restarts [OF _ r c]) simp
qed

text \<open>
  The verdict of a parallel node depends only on how often each status occurs among its children.
\<close>

definition parallel_spec :: "nat \<Rightarrow> nat \<Rightarrow> bt_status multiset \<Rightarrow> bt_status" where
  "parallel_spec st ft M =
     (if BT_Aborted \<in># M then BT_Aborted
      else if count M BT_Failure \<ge> ft then BT_Failure
      else if count M BT_Success \<ge> (if st = 0 then size M else min st (size M)) then BT_Success
      else if BT_Running \<in># M \<or> BT_Idle \<in># M then BT_Running
      else BT_Failure)"

lemma parallel_count_spec:
  "parallel_count sts (s, f, r, a) =
     (s + count (mset sts) BT_Success, f + count (mset sts) BT_Failure,
      r + count (mset sts) BT_Running + count (mset sts) BT_Idle, a + count (mset sts) BT_Aborted)"
  by (induction sts "(s, f, r, a)" arbitrary: s f r a rule: parallel_count.induct) auto

lemma ParallelNode_futures_length:
  "ParallelNode_futures cs w = (sts, cs', w') \<Longrightarrow> length sts = length cs"
  by (induction cs w arbitrary: sts cs' w' rule: ParallelNode_futures.induct) (auto split: prod.splits)

lemma parallel_verdict:
  assumes "never_cancelled env" and "cs \<noteq> []"
    and "bt_CancellationRequested env w = (b, w1)" and "ParallelNode_futures cs w1 = (sts, cs', w2)"
  shows "fst (ParallelNode_Tick env st ft cs w) = Returned (parallel_spec st ft (mset sts))"
proof -
  from assms(1,3) have "\<not> b" by (auto simp: never_cancelled_def dest: spec [of _ w])
  moreover obtain w3 where "bt_CancellationRequested env w2 = (False, w3)"
    using assms(1) by (rule never_cancelled_read)
  moreover have "0 < count (mset sts) x \<longleftrightarrow> x \<in> set sts" for x
    by (metis count_greater_zero_iff set_mset_mset)
  ultimately show ?thesis
    using assms(2-4) ParallelNode_futures_length [OF assms(4)]
    by (simp add: ParallelNode_Tick_def Let_def parallel_count_spec parallel_spec_def)
qed

end
