(* ===== verification/Tree_Runtime.thy ===== *)
theory Tree_Runtime
  imports Tree_Loader Behavior_Tree_Props Resource_Manager Runtime_Scheduler
begin

text \<open>
  The execution of behavior trees as jobs of the scheduler, \<open>src/bt/BehaviorTreeRuntime.cpp\<close>: a job's
  callback acquires the tree's resource, binds the tree to the job's execution context and to the shared
  blackboard, and ticks it until it ends or the job is cancelled. What other threads do between
  the accesses of the callback (cancelling or pausing the job, using the resource manager) is an
  environment of functions. The loop has fuel; \<open>None\<close> is a callback that does not return.
\<close>

section \<open>Options and results\<close>

record bt_job_options =
  bo_executionId :: u64
  bo_priority :: runtime_job_priority
  bo_executionMode :: runtime_execution_mode
  bo_resourceId :: string
  bo_resourceMode :: resource_lock_mode
  bo_resourceTimeout :: time_ms
  bo_tickInterval :: time_ms
  bo_metadata :: execution_metadata

definition default_bt_job_options :: bt_job_options where
  "default_bt_job_options = \<lparr>bo_executionId = 0, bo_priority = RPriority_Normal, bo_executionMode = Mode_Parallel,
     bo_resourceId = [], bo_resourceMode = Exclusive, bo_resourceTimeout = 0, bo_tickInterval = 10, bo_metadata = []\<rparr>"

fun TerminalResult :: "bt_status \<Rightarrow> runtime_job_result" where
  "TerminalResult BT_Success = job_result State_Completed ''Behavior tree completed''"
| "TerminalResult BT_Failure = job_result State_Failed ''Behavior tree failed''"
| "TerminalResult BT_Aborted = job_result State_Aborted ''Behavior tree aborted''"
| "TerminalResult _ = job_result State_Failed ''Behavior tree returned a nonterminal status''"

text \<open>
  What the callback meets: the job's cancellation flag, the wait while the job is paused, the sleep
  between ticks, the end of a wait for a resource, and what others did to the resource manager
  while the tree ran.
\<close>

record ('v, 'x) job_env =
  je_cancelled :: "('v, 'x) bt_world \<Rightarrow> bool \<times> ('v, 'x) bt_world"
  je_wait_if_paused :: "('v, 'x) bt_world \<Rightarrow> bool \<times> ('v, 'x) bt_world"
  je_wait_for :: "('v, 'x) bt_world \<Rightarrow> ('v, 'x) bt_world"
  je_now :: time_ns
  je_waited :: "resource_manager \<Rightarrow> resource_manager \<times> resource_handle option"
  je_meanwhile :: "resource_manager \<Rightarrow> resource_manager"

section \<open>Execution\<close>

text \<open>\<open>AcquireResource\<close>: without a resource, a lock that owns nothing; \<open>None\<close> when it is unavailable.\<close>

definition AcquireResource ::
  "('v, 'x) job_env \<Rightarrow> bt_job_options \<Rightarrow> resource_manager \<Rightarrow> resource_manager \<times> resource_lock option" where
  "AcquireResource je opts rm =
     (if bo_resourceId opts = [] then (rm, Some (make_lock empty_handle))
      else
        (case (if bo_resourceTimeout opts = 0 then TryAcquire (bo_resourceId opts) (bo_resourceMode opts) rm
               else (case Acquire_timed (je_now je) (bo_resourceId opts) (bo_resourceMode opts)
                            (bo_resourceTimeout opts) rm of
                       Inr r \<Rightarrow> r | Inl waiting \<Rightarrow> je_waited je waiting)) of
           (rm', h) \<Rightarrow> (rm', map_option make_lock h)))"

text \<open>The end of a cancelled job: the context is cancelled too and the tree shut down.\<close>

definition cancel_tree ::
  "('v, 'x) bt_env \<Rightarrow> behavior_tree \<Rightarrow> ('v, 'x) bt_world \<Rightarrow> behavior_tree \<times> ('v, 'x) bt_world" where
  "cancel_tree env t w =
     (case RequestCancellation (bw_execution w) (bw_heap w) of
        ((h, _), c, _) \<Rightarrow> snd (BehaviorTree_Shutdown env t (w\<lparr>bw_execution := c, bw_heap := h\<rparr>)))"

fun tick_loop ::
  "nat \<Rightarrow> ('v, 'x) bt_env \<Rightarrow> ('v, 'x) job_env \<Rightarrow> bt_status \<Rightarrow> behavior_tree \<Rightarrow> ('v, 'x) bt_world
     \<Rightarrow> (runtime_job_result \<times> behavior_tree \<times> ('v, 'x) bt_world) option" where
  "tick_loop 0 env je st t w = None"
| "tick_loop (Suc fuel) env je st t w =
     (if bt_isTerminal st then Some (TerminalResult st, t, w)
      else
        (case je_cancelled je w of
           (True, w1) \<Rightarrow>
             (case cancel_tree env t w1 of
                (t', w') \<Rightarrow> Some (job_result State_Cancelled ''Behavior tree cancelled'', t', w'))
         | (False, w1) \<Rightarrow>
             (case je_wait_if_paused je w1 of
                (False, w2) \<Rightarrow>
                  (case cancel_tree env t w2 of
                     (t', w') \<Rightarrow> Some (job_result State_Cancelled ''Behavior tree cancelled while paused'', t', w'))
              | (True, w2) \<Rightarrow>
                  (case BehaviorTree_Tick env t w2 of
                     (st', t', w3) \<Rightarrow>
                       if bt_isTerminal st' then tick_loop fuel env je st' t' w3
                       else tick_loop fuel env je st' t' (je_wait_for je w3)))))"

text \<open>
  \<open>ExecuteTree\<close>: \<open>execution\<close> and \<open>board\<close> are the job's execution context and the shared blackboard. The lock
  is released when the callback returns. The result has the tree and the resource manager afterwards.
\<close>

definition ExecuteTree ::
  "nat \<Rightarrow> ('v, 'x) bt_env \<Rightarrow> ('v, 'x) job_env \<Rightarrow> bt_job_options \<Rightarrow> execution_context option
     \<Rightarrow> 'v blackboard option \<Rightarrow> resource_manager \<Rightarrow> behavior_tree option \<Rightarrow> ('v, 'x) bt_world
     \<Rightarrow> (runtime_job_result \<times> behavior_tree option \<times> resource_manager \<times> ('v, 'x) bt_world) option" where
  "ExecuteTree fuel env je opts execution board rm tree w =
     (case tree of
        None \<Rightarrow> Some (job_result State_Failed ''Behavior tree is required'', None, rm, w)
      | Some t \<Rightarrow>
          if bo_tickInterval opts \<le> 0 \<or> bo_resourceTimeout opts < 0 then
            Some (job_result State_Failed
              ''Behavior tree tick interval must be positive and resource timeout nonnegative'', tree, rm, w)
          else
            (case AcquireResource je opts rm of
               (rm1, None) \<Rightarrow>
                 Some (job_result State_Failed ''Behavior tree resource is unavailable'', tree, rm1, w)
             | (rm1, Some lock) \<Rightarrow>
                 (let release = (\<lambda>m. fst (snd (lock_Release lock (je_meanwhile je m)))) in
                  case SetExecution execution w of
                    (w1, False) \<Rightarrow>
                      Some (job_result State_Failed ''Behavior tree runtime binding failed'', tree, release rm1, w1)
                  | (w1, True) \<Rightarrow>
                      (case SetBlackboard board w1 of
                         (w2, False) \<Rightarrow>
                           Some (job_result State_Failed ''Behavior tree runtime binding failed'', tree, release rm1, w2)
                       | (w2, True) \<Rightarrow>
                           (case BehaviorTree_Initialize env t w2 of
                              (st, t1, w3) \<Rightarrow>
                                map_option (\<lambda>(r, t', w'). (r, Some t', release rm1, w'))
                                  (tick_loop fuel env je st t1 w3))))))"

definition MakeRuntimeJob :: "bt_job_options \<Rightarrow> runtime_job" where
  "MakeRuntimeJob opts = \<lparr>job_id = bo_executionId opts, job_priority = bo_priority opts,
     job_executionMode = bo_executionMode opts, job_scope = Scope_BehaviorTree,
     job_metadata = bo_metadata opts, job_has_callback = True\<rparr>"

text \<open>The callbacks of the two overloads of \<open>Submit\<close>, and the submission itself.\<close>

definition submit_by_type_callback ::
  "creators \<Rightarrow> factory \<Rightarrow> string \<Rightarrow> nat \<Rightarrow> ('v, 'x) bt_env \<Rightarrow> ('v, 'x) job_env \<Rightarrow> bt_job_options
     \<Rightarrow> execution_context option \<Rightarrow> 'v blackboard option \<Rightarrow> resource_manager \<Rightarrow> ('v, 'x) bt_world
     \<Rightarrow> (runtime_job_result \<times> behavior_tree option \<times> resource_manager \<times> ('v, 'x) bt_world) option" where
  "submit_by_type_callback mk fac ty fuel env je opts execution board rm w =
     (case CreateTree mk fac ty of
        None \<Rightarrow> Some (job_result State_Failed ''Behavior tree root type is not registered'', None, rm, w)
      | Some t \<Rightarrow> ExecuteTree fuel env je opts execution board rm (Some t) w)"

definition BehaviorTreeRuntime_Submit ::
  "time_ns \<Rightarrow> bt_job_options \<Rightarrow> runtime_scheduler \<Rightarrow> runtime_scheduler \<times> u64 \<times> job_future" where
  "BehaviorTreeRuntime_Submit now opts s = rs_Submit now (MakeRuntimeJob opts) s"

section \<open>What a tree's job reports\<close>

lemma cancel_tree_shutdown: "cancel_tree env t w = (t', w') \<Longrightarrow> bt_shutdown t'"
  by (auto simp: cancel_tree_def tree_defs split: prod.splits if_splits tree_splits)

lemma TerminalResult_state:
  "bt_isTerminal st \<Longrightarrow> jr_state (TerminalResult st) = ToExecutionState st"
  by (cases st) (auto simp: job_result_def)

definition reports :: "runtime_job_result \<Rightarrow> behavior_tree \<Rightarrow> bool" where
  "reports r t \<longleftrightarrow> state_isTerminal (jr_state r)
     \<and> (if jr_state r = State_Cancelled then bt_shutdown t
        else bt_isTerminal (bt_status_of t) \<and> jr_state r = ToExecutionState (bt_status_of t))"

lemma tick_loop_reports:
  "tick_loop fuel env je st t w = Some (r, t', w') \<Longrightarrow> st = bt_status_of t \<Longrightarrow> reports r t'"
proof (induction fuel arbitrary: st t w)
  case (Suc fuel)
  show ?case
  proof (cases "bt_isTerminal st")
    case True
    with Suc.prems show ?thesis
      by (cases st) (auto simp: reports_def job_result_def)
  next
    case False
    obtain c w1 where c: "je_cancelled je w = (c, w1)" by (cases "je_cancelled je w")
    obtain p w2 where p: "je_wait_if_paused je w1 = (p, w2)" by (cases "je_wait_if_paused je w1")
    obtain st1 t1 w3 where tick: "BehaviorTree_Tick env t w2 = (st1, t1, w3)" by (cases "BehaviorTree_Tick env t w2")
    have "st1 = bt_status_of t1" using BehaviorTree_Tick_published [OF tick] by simp
    with Suc False c p tick show ?thesis
      by (cases c; cases p)
        (auto simp: reports_def job_result_def dest: cancel_tree_shutdown split: prod.splits if_splits)
  qed
qed simp

lemma Initialize_status: "BehaviorTree_Initialize env t w = (st, t', w') \<Longrightarrow> st = bt_status_of t'"
  by (auto simp: BehaviorTree_Initialize_def dest: InitializeLocked_published)

text \<open>More fuel does not change the outcome of the loop.\<close>

lemma tick_loop_mono: "tick_loop fuel env je st t w = Some r \<Longrightarrow> fuel \<le> fuel' \<Longrightarrow> tick_loop fuel' env je st t w = Some r"
proof (induction fuel arbitrary: fuel' st t w)
  case (Suc fuel)
  then obtain f where f: "fuel' = Suc f" "fuel \<le> f" by (cases fuel') auto
  with Suc show ?case by (auto split: prod.splits bool.splits if_splits)
qed simp

text \<open>
  A job that runs a tree reports how the tree ended: whenever the callback returns after binding the
  tree, its result is terminal; it is \<open>Cancelled\<close> only with the tree shut down, and otherwise it is the
  image of the terminal status that the tree object has, so a tree never completes a job while it
  is still running.
\<close>

theorem tree_job_reports:
  assumes "ExecuteTree fuel env je opts (Some c) (Some b) rm (Some t) w = Some (r, Some t', rm', w')"
    and "0 < bo_tickInterval opts" and "0 \<le> bo_resourceTimeout opts"
    and "snd (AcquireResource je opts rm) \<noteq> None"
  shows "reports r t'"
proof -
  obtain rm1 lock where acq: "AcquireResource je opts rm = (rm1, Some lock)"
    using assms(4) by (cases "AcquireResource je opts rm") auto
  obtain st t1 w3 where init: "BehaviorTree_Initialize env t (w\<lparr>bw_execution := c, bw_blackboard := b\<rparr>) = (st, t1, w3)"
    by (cases "BehaviorTree_Initialize env t (w\<lparr>bw_execution := c, bw_blackboard := b\<rparr>)")
  from assms(1-3) acq init have "tick_loop fuel env je st t1 w3 = Some (r, t', w')"
    by (auto simp: ExecuteTree_def SetExecution_def SetBlackboard_def Let_def)
  then show ?thesis using Initialize_status [OF init] by (rule tick_loop_reports)
qed

definition calm_job :: "(nat, int) job_env" where
  "calm_job = \<lparr>je_cancelled = (\<lambda>w. (False, w)), je_wait_if_paused = (\<lambda>w. (True, w)), je_wait_for = (\<lambda>w. w),
     je_now = 0, je_waited = (\<lambda>m. (m, None)), je_meanwhile = (\<lambda>m. m)\<rparr>"

theorem tree_job_reports_witness:
  "\<exists>r t' rm' w'. ExecuteTree 9 clock_env calm_job default_bt_job_options (Some (bw_execution (clock_world 0))) (Some [])
      rm_new (Some (BehaviorTree_create (Some (DelayNode_create [] 3)))) (clock_world 0) = Some (r, Some t', rm', w')
      \<and> reports r t' \<and> jr_state r = State_Completed"
proof -
  let ?e = "ExecuteTree 9 clock_env calm_job default_bt_job_options (Some (bw_execution (clock_world 0))) (Some [])
      rm_new (Some (BehaviorTree_create (Some (DelayNode_create [] 3)))) (clock_world 0)"
  have "case ?e of Some (r, Some t', _) \<Rightarrow> jr_state r = State_Completed | _ \<Rightarrow> False"
    by code_simp
  then obtain r t' rm' w' where e: "?e = Some (r, Some t', rm', w')" and st: "jr_state r = State_Completed"
    by (auto split: option.splits prod.splits)
  have "reports r t'"
    by (rule tree_job_reports [OF e]) (simp_all add: default_bt_job_options_def AcquireResource_def)
  with e st show ?thesis by blast
qed

end
