(* ===== verification/Mission_Parser.thy ===== *)
theory Mission_Parser
  imports Mission_Model Tree_Parser
begin

text \<open>
  Mission documents, \<open>src/mission/MissionParser.cpp\<close>: from the text of a mission, in JSON or in a subset of
  YAML, to a value of type \<open>mission\<close>. The JSON parser is the class of \<open>Json_Parser\<close> with other messages.
  Parameters of the model are \<open>std::from_chars\<close> on doubles (a value when it accepts the whole text) and the
  conversion of a double to a \<open>float\<close>. The index into the vector of YAML lines is the list of the lines from it on,
  and every loop over lines is an instance of \<open>yaml_loop\<close>.
\<close>

section \<open>Names\<close>

definition CommandTypeFromString :: "string \<Rightarrow> command_type option" where
  "CommandTypeFromString = map_of
     [(''Stand'', Type_Stand), (''Sit'', Type_Sit), (''Walk'', Type_Walk), (''Stop'', Type_Stop), (''Move'', Type_Move),
      (''Rotate'', Type_Rotate), (''Velocity'', Type_Velocity), (''EmergencyStop'', Type_EmergencyStop),
      (''HandOpen'', Type_HandOpen), (''HandClose'', Type_HandClose), (''Gesture'', Type_Gesture),
      (''PlayAudio'', Type_PlayAudio), (''StopAudio'', Type_StopAudio), (''SetVolume'', Type_SetVolume),
      (''MuteAudio'', Type_MuteAudio), (''Custom'', Type_Custom)]"

definition PriorityFromString :: "string \<Rightarrow> command_priority option" where
  "PriorityFromString = map_of
     [(''Low'', Priority_Low), (''Normal'', Priority_Normal), (''High'', Priority_High), (''Critical'', Priority_Critical)]"

definition ConditionTypeFromString :: "string \<Rightarrow> condition_type option" where
  "ConditionTypeFromString = map_of
     [(''BatteryLevel'', Cond_BatteryLevel), (''Connection'', Cond_Connection), (''RobotStanding'', Cond_RobotStanding),
      (''RobotWalking'', Cond_RobotWalking), (''RobotSitting'', Cond_RobotSitting), (''Capability'', Cond_Capability),
      (''FaultCode'', Cond_FaultCode), (''EmergencyStop'', Cond_EmergencyStop)]"

definition ConditionComparisonFromString :: "string \<Rightarrow> comparison option" where
  "ConditionComparisonFromString = map_of
     [(''Equal'', Cmp_Equal), (''NotEqual'', Cmp_NotEqual), (''LessThan'', Cmp_LessThan),
      (''LessThanOrEqual'', Cmp_LessThanOrEqual), (''GreaterThan'', Cmp_GreaterThan),
      (''GreaterThanOrEqual'', Cmp_GreaterThanOrEqual)]"

definition FailureActionFromString :: "string \<Rightarrow> failure_action option" where
  "FailureActionFromString = map_of [(''Skip'', FA_Skip), (''Abort'', FA_Abort)]"

text \<open>A name looked up, with the message of a name that is not known.\<close>

definition named :: "(string \<Rightarrow> 'a option) \<Rightarrow> string \<Rightarrow> string \<Rightarrow> 'a parsed" where
  "named from_string msg name =
     (case from_string name of Some x \<Rightarrow> Inr x | None \<Rightarrow> throw_error (msg @ name))"

section \<open>Numbers\<close>

definition digit_value :: "char \<Rightarrow> int" where
  "digit_value c = of_char c - 48"

definition digits_value :: "string \<Rightarrow> int" where
  "digits_value s = foldl (\<lambda>v c. v * 10 + digit_value c) 0 s"

text \<open>\<open>std::from_chars\<close> on integers, when it accepts the whole text and the value is in range.\<close>

definition from_chars_u64 :: "string \<Rightarrow> int option" where
  "from_chars_u64 s =
     (if s = [] \<or> \<not> list_all IsDigit s \<or> digits_value s \<ge> 2 ^ 64 then None else Some (digits_value s))"

definition from_chars_i64 :: "string \<Rightarrow> int option" where
  "from_chars_i64 s =
     (let neg = (s \<noteq> [] \<and> hd s = CHR ''-''); ds = (if neg then tl s else s);
          v = (if neg then - digits_value ds else digits_value ds) in
      if ds = [] \<or> \<not> list_all IsDigit ds \<or> v < - (2 ^ 63) \<or> v \<ge> 2 ^ 63 then None else Some v)"

definition ParseUint64 :: "string \<Rightarrow> string \<Rightarrow> int parsed" where
  "ParseUint64 s field =
     (case from_chars_u64 (Trim s) of Some v \<Rightarrow> Inr v | None \<Rightarrow> throw_error (field @ '' must be an unsigned integer''))"

definition ParseInt64 :: "string \<Rightarrow> string \<Rightarrow> int parsed" where
  "ParseInt64 s field =
     (case from_chars_i64 (Trim s) of Some v \<Rightarrow> Inr v | None \<Rightarrow> throw_error (field @ '' must be an integer''))"

definition finite_chars :: "(string \<Rightarrow> fl option) \<Rightarrow> string \<Rightarrow> fl option" where
  "finite_chars fc s = (case fc s of Some v \<Rightarrow> if fl_isfinite v then Some v else None | None \<Rightarrow> None)"

definition ParseDouble :: "(string \<Rightarrow> fl option) \<Rightarrow> string \<Rightarrow> string \<Rightarrow> fl parsed" where
  "ParseDouble fc s field =
     (case finite_chars fc (Trim s) of Some v \<Rightarrow> Inr v | None \<Rightarrow> throw_error (field @ '' must be a finite number''))"

text \<open>The largest 64-bit integer, converted to a double, is \<open>2 ^ 63\<close>.\<close>

fun IsInteger :: "fl \<Rightarrow> bool" where
  "IsInteger (Fin r) = (of_int \<lfloor>r\<rfloor> = r \<and> - (2 ^ 63) \<le> r \<and> r \<le> 2 ^ 63)"
| "IsInteger _ = False"

text \<open>
  \<open>static_cast\<close> of a double that satisfies \<open>IsInteger\<close> to a signed 64-bit integer. For \<open>2 ^ 63\<close> the cast
  is undefined in C++; the value here is that of the x86-64 conversion.
\<close>

fun cast_i64 :: "fl \<Rightarrow> int" where
  "cast_i64 (Fin r) = i64_wrap \<lfloor>r\<rfloor>"
| "cast_i64 _ = - (2 ^ 63)"

fun cast_u64 :: "fl \<Rightarrow> int" where
  "cast_u64 (Fin r) = \<lfloor>r\<rfloor>"
| "cast_u64 _ = 0"

definition i32_wrap :: "int \<Rightarrow> int" where
  "i32_wrap x = (x + 2 ^ 31) mod 2 ^ 32 - 2 ^ 31"

definition PayloadValueFromNumber :: "fl \<Rightarrow> payload_value" where
  "PayloadValueFromNumber v = (if IsInteger v then PV_Int (cast_i64 v) else PV_Double v)"

section \<open>JSON fields\<close>

definition mission_texts :: json_texts where
  "mission_texts = \<lparr>jt_trailing = ''Unexpected trailing content in JSON document'',
     jt_end = ''Unexpected end of JSON document'', jt_value = ''Unexpected JSON value'',
     jt_keys = ''JSON object keys must be strings'', jt_duplicate = ''Duplicate JSON object key'',
     jt_unicode = ''JSON unicode escapes are not supported in mission documents'',
     jt_number = ''JSON number must be a finite number'', jt_where = '' in JSON document''\<rparr>"

definition JsonUint64 :: "json \<Rightarrow> string \<Rightarrow> int parsed" where
  "JsonUint64 v key =
     (case v of
        JNumber x \<Rightarrow>
          if \<not> IsInteger x \<or> fl_lt x (Fin 0) \<or> fl_lt (Fin (2 ^ 64)) x
          then throw_error (key @ '' must be an unsigned integer'') else Inr (cast_u64 x)
      | _ \<Rightarrow> throw_error (key @ '' must be an unsigned integer''))"

definition JsonUint32 :: "json \<Rightarrow> string \<Rightarrow> nat parsed" where
  "JsonUint32 v key =
     pbind (JsonUint64 v key) (\<lambda>n. if n > 2 ^ 32 - 1 then throw_error (key @ '' exceeds uint32 range'') else Inr (nat n))"

definition JsonInt64 :: "json \<Rightarrow> string \<Rightarrow> int parsed" where
  "JsonInt64 v key =
     (case v of
        JNumber x \<Rightarrow> if IsInteger x then Inr (cast_i64 x) else throw_error (key @ '' must be an integer'')
      | _ \<Rightarrow> throw_error (key @ '' must be an integer''))"

definition JsonBool :: "json \<Rightarrow> string \<Rightarrow> bool parsed" where
  "JsonBool v key = (case v of JBool b \<Rightarrow> Inr b | _ \<Rightarrow> throw_error (key @ '' must be a boolean''))"

text \<open>\<open>if (const JsonValue* v = Optional(object, key))\<close> with the update of its body.\<close>

definition optionally ::
  "(string \<times> json) list \<Rightarrow> string \<Rightarrow> (json \<Rightarrow> 'b parsed) \<Rightarrow> ('b \<Rightarrow> 'a \<Rightarrow> 'a) \<Rightarrow> 'a \<Rightarrow> 'a parsed" where
  "optionally kvs key conv upd a =
     (case OptionalField kvs key of None \<Rightarrow> Inr a | Some v \<Rightarrow> pbind (conv v) (\<lambda>x. Inr (upd x a)))"

definition MetadataFromJson :: "string \<Rightarrow> json \<Rightarrow> (string \<times> string) list parsed" where
  "MetadataFromJson key v =
     pbind (AsObject v key) (pmap (\<lambda>(k, x). pbind (JsonString x key) (\<lambda>s. Inr (k, s))))"

definition PayloadValueFromJson :: "json \<Rightarrow> payload_value parsed" where
  "PayloadValueFromJson v =
     (case v of
        JBool b \<Rightarrow> Inr (PV_Bool b) | JNumber x \<Rightarrow> Inr (PayloadValueFromNumber x) | JString s \<Rightarrow> Inr (PV_String s)
      | _ \<Rightarrow> throw_error ''Command payload values must be scalar'')"

definition PayloadFromJson :: "string \<Rightarrow> json \<Rightarrow> (string \<times> payload_value) list parsed" where
  "PayloadFromJson key v =
     pbind (AsObject v key) (pmap (\<lambda>(k, x). pbind (PayloadValueFromJson x) (\<lambda>p. Inr (k, p))))"

section \<open>JSON documents\<close>

definition CommandFromJson :: "json \<Rightarrow> command parsed" where
  "CommandFromJson v =
     pbind (AsObject v ''command'') (\<lambda>kvs.
     pbind (pbind (RequiredField kvs ''id'') (\<lambda>x. JsonUint64 x ''command.id'')) (\<lambda>i.
     pbind (pbind (RequiredField kvs ''type'') (\<lambda>x. JsonString x ''command.type'')) (\<lambda>ty.
     pbind (named CommandTypeFromString ''Unknown command type: '' ty) (\<lambda>t.
     pbind (optionally kvs ''priority''
         (\<lambda>x. pbind (JsonString x ''command.priority'') (named PriorityFromString ''Unknown command priority: ''))
         (\<lambda>p c. c\<lparr>cmd_priority := p\<rparr>) (default_command\<lparr>cmd_id := of_int i, cmd_type := t\<rparr>)) (\<lambda>c.
     pbind (optionally kvs ''timeout_ms'' (\<lambda>x. JsonInt64 x ''command.timeout_ms'') (\<lambda>d c. c\<lparr>cmd_timeout := d\<rparr>) c) (\<lambda>c.
     pbind (optionally kvs ''payload'' (PayloadFromJson ''command.payload'') (\<lambda>p c. c\<lparr>cmd_payload := p\<rparr>) c) (\<lambda>c.
       optionally kvs ''metadata'' (MetadataFromJson ''command.metadata'') (\<lambda>m c. c\<lparr>cmd_metadata := m\<rparr>) c)))))))"

definition default_retry_policy :: retry_policy where
  "default_retry_policy = \<lparr>rp_maxAttempts = 1, rp_delayBetweenAttempts = 0, rp_retryOnFailure = True,
     rp_retryOnTimeout = True\<rparr>"

definition default_timeout_policy :: timeout_policy where
  "default_timeout_policy = \<lparr>tp_timeout = 0, tp_abortOnTimeout = True\<rparr>"

definition default_condition :: mission_condition where
  "default_condition = \<lparr>mc_id = 0, mc_name = [], mc_type = Cond_Connection, mc_comparison = Cmp_Equal,
     mc_numericValue = Fin 0, mc_boolValue = True, mc_faultCode = 0, mc_commandType = Type_Custom,
     mc_failureAction = FA_Abort, mc_metadata = []\<rparr>"

definition default_step :: mission_step where
  "default_step = \<lparr>st_id = 0, st_name = [], st_command = default_command, st_timeout = 0, st_retry = 0,
     st_retryPolicy = default_retry_policy, st_loopIterations = 1, st_timeoutPolicy = default_timeout_policy,
     st_wait = None, st_delay = None, st_skip = False, st_abort = False, st_conditions = [], st_enabled = True,
     st_metadata = []\<rparr>"

definition default_mission :: mission where
  "default_mission = \<lparr>m_id = 0, m_name = [], m_description = [], m_version = [], m_author = [],
     m_timestamp = 0, m_steps = [], m_metadata = []\<rparr>"

definition RetryPolicyFromJson :: "json \<Rightarrow> retry_policy parsed" where
  "RetryPolicyFromJson v =
     pbind (AsObject v ''retry_policy'') (\<lambda>kvs.
     pbind (optionally kvs ''max_attempts'' (\<lambda>x. JsonUint32 x ''retry_policy.max_attempts'')
       (\<lambda>n p. p\<lparr>rp_maxAttempts := n\<rparr>) default_retry_policy) (\<lambda>p.
     pbind (optionally kvs ''delay_ms'' (\<lambda>x. JsonInt64 x ''retry_policy.delay_ms'')
       (\<lambda>d p. p\<lparr>rp_delayBetweenAttempts := d\<rparr>) p) (\<lambda>p.
     pbind (optionally kvs ''retry_on_failure'' (\<lambda>x. JsonBool x ''retry_policy.retry_on_failure'')
       (\<lambda>b p. p\<lparr>rp_retryOnFailure := b\<rparr>) p) (\<lambda>p.
       optionally kvs ''retry_on_timeout'' (\<lambda>x. JsonBool x ''retry_policy.retry_on_timeout'')
         (\<lambda>b p. p\<lparr>rp_retryOnTimeout := b\<rparr>) p))))"

definition LoopPolicyFromJson :: "json \<Rightarrow> nat parsed" where
  "LoopPolicyFromJson v =
     pbind (AsObject v ''loop_policy'') (\<lambda>kvs.
       optionally kvs ''iterations'' (\<lambda>x. JsonUint32 x ''loop_policy.iterations'') (\<lambda>n _. n) 1)"

definition TimeoutPolicyFromJson :: "json \<Rightarrow> timeout_policy parsed" where
  "TimeoutPolicyFromJson v =
     pbind (AsObject v ''timeout_policy'') (\<lambda>kvs.
     pbind (optionally kvs ''timeout_ms'' (\<lambda>x. JsonInt64 x ''timeout_policy.timeout_ms'')
       (\<lambda>d p. p\<lparr>tp_timeout := d\<rparr>) default_timeout_policy) (\<lambda>p.
       optionally kvs ''abort_on_timeout'' (\<lambda>x. JsonBool x ''timeout_policy.abort_on_timeout'')
         (\<lambda>b p. p\<lparr>tp_abortOnTimeout := b\<rparr>) p))"

text \<open>The field \<open>value\<close> of a condition, a number or a boolean.\<close>

definition ConditionValueFromJson :: "(fl \<Rightarrow> fl) \<Rightarrow> json \<Rightarrow> (mission_condition \<Rightarrow> mission_condition) parsed" where
  "ConditionValueFromJson to_float v =
     (case v of
        JNumber x \<Rightarrow> Inr (\<lambda>c. c\<lparr>mc_numericValue := to_float x\<rparr>)
      | JBool b \<Rightarrow> Inr (\<lambda>c. c\<lparr>mc_boolValue := b\<rparr>)
      | _ \<Rightarrow> throw_error ''condition.value must be numeric or boolean'')"

definition ConditionFromJson :: "(fl \<Rightarrow> fl) \<Rightarrow> json \<Rightarrow> mission_condition parsed" where
  "ConditionFromJson to_float v =
     pbind (AsObject v ''condition'') (\<lambda>kvs.
     pbind (pbind (RequiredField kvs ''id'') (\<lambda>x. JsonUint64 x ''condition.id'')) (\<lambda>i.
     pbind (pbind (RequiredField kvs ''name'') (\<lambda>x. JsonString x ''condition.name'')) (\<lambda>n.
     pbind (pbind (RequiredField kvs ''type'') (\<lambda>x. JsonString x ''condition.type'')) (\<lambda>ty.
     pbind (named ConditionTypeFromString ''Unknown condition type: '' ty) (\<lambda>t.
     pbind (optionally kvs ''comparison''
         (\<lambda>x. pbind (JsonString x ''condition.comparison'')
            (named ConditionComparisonFromString ''Unknown condition comparison: ''))
         (\<lambda>p c. c\<lparr>mc_comparison := p\<rparr>) (default_condition\<lparr>mc_id := of_int i, mc_name := n, mc_type := t\<rparr>)) (\<lambda>c.
     pbind (optionally kvs ''value'' (ConditionValueFromJson to_float) (\<lambda>f c. f c) c) (\<lambda>c.
     pbind (optionally kvs ''fault_code'' (\<lambda>x. JsonInt64 x ''condition.fault_code'')
         (\<lambda>d c. c\<lparr>mc_faultCode := i32_wrap d\<rparr>) c) (\<lambda>c.
     pbind (optionally kvs ''command_type''
         (\<lambda>x. pbind (JsonString x ''condition.command_type'')
            (named CommandTypeFromString ''Unknown condition command_type: ''))
         (\<lambda>t c. c\<lparr>mc_commandType := t\<rparr>) c) (\<lambda>c.
     pbind (optionally kvs ''on_failure''
         (\<lambda>x. pbind (JsonString x ''condition.on_failure'')
            (named FailureActionFromString ''Unknown condition on_failure action: ''))
         (\<lambda>a c. c\<lparr>mc_failureAction := a\<rparr>) c) (\<lambda>c.
       optionally kvs ''metadata'' (MetadataFromJson ''condition.metadata'') (\<lambda>m c. c\<lparr>mc_metadata := m\<rparr>) c))))))))))"

text \<open>The fields \<open>wait\<close> and \<open>delay\<close> of a step.\<close>

definition DurationFromJson :: "string \<Rightarrow> json \<Rightarrow> time_ms parsed" where
  "DurationFromJson key v =
     pbind (AsObject v key) (\<lambda>kvs.
     pbind (RequiredField kvs ''duration_ms'') (\<lambda>x. JsonInt64 x (key @ ''.duration_ms'')))"

definition StepFromJson :: "(fl \<Rightarrow> fl) \<Rightarrow> json \<Rightarrow> mission_step parsed" where
  "StepFromJson to_float v =
     pbind (AsObject v ''step'') (\<lambda>kvs.
     pbind (pbind (RequiredField kvs ''id'') (\<lambda>x. JsonUint64 x ''step.id'')) (\<lambda>i.
     pbind (pbind (RequiredField kvs ''name'') (\<lambda>x. JsonString x ''step.name'')) (\<lambda>n.
     pbind (optionally kvs ''command'' CommandFromJson (\<lambda>c s. s\<lparr>st_command := c\<rparr>)
         (default_step\<lparr>st_id := of_int i, st_name := n\<rparr>)) (\<lambda>s.
     pbind (optionally kvs ''timeout_ms'' (\<lambda>x. JsonInt64 x ''step.timeout_ms'') (\<lambda>d s. s\<lparr>st_timeout := d\<rparr>) s) (\<lambda>s.
     pbind (optionally kvs ''retry'' (\<lambda>x. JsonUint32 x ''step.retry'') (\<lambda>r s. s\<lparr>st_retry := r\<rparr>) s) (\<lambda>s.
     pbind (optionally kvs ''retry_policy'' RetryPolicyFromJson (\<lambda>p s. s\<lparr>st_retryPolicy := p\<rparr>) s) (\<lambda>s.
     pbind (optionally kvs ''loop_policy'' LoopPolicyFromJson (\<lambda>n s. s\<lparr>st_loopIterations := n\<rparr>) s) (\<lambda>s.
     pbind (optionally kvs ''timeout_policy'' TimeoutPolicyFromJson (\<lambda>p s. s\<lparr>st_timeoutPolicy := p\<rparr>) s) (\<lambda>s.
     pbind (optionally kvs ''wait'' (DurationFromJson ''step.wait'') (\<lambda>d s. s\<lparr>st_wait := Some d\<rparr>) s) (\<lambda>s.
     pbind (optionally kvs ''delay'' (DurationFromJson ''step.delay'') (\<lambda>d s. s\<lparr>st_delay := Some d\<rparr>) s) (\<lambda>s.
     pbind (optionally kvs ''skip'' (\<lambda>x. JsonBool x ''step.skip'') (\<lambda>b s. s\<lparr>st_skip := b\<rparr>) s) (\<lambda>s.
     pbind (optionally kvs ''abort'' (\<lambda>x. JsonBool x ''step.abort'') (\<lambda>b s. s\<lparr>st_abort := b\<rparr>) s) (\<lambda>s.
     pbind (optionally kvs ''conditions''
         (\<lambda>x. pbind (AsArray x ''step.conditions'') (pmap (ConditionFromJson to_float)))
         (\<lambda>cs s. s\<lparr>st_conditions := cs\<rparr>) s) (\<lambda>s.
     pbind (optionally kvs ''enabled'' (\<lambda>x. JsonBool x ''step.enabled'') (\<lambda>b s. s\<lparr>st_enabled := b\<rparr>) s) (\<lambda>s.
       optionally kvs ''metadata'' (MetadataFromJson ''step.metadata'') (\<lambda>m s. s\<lparr>st_metadata := m\<rparr>) s)))))))))))))))"

definition MissionFromJson :: "(fl \<Rightarrow> fl) \<Rightarrow> time_ns \<Rightarrow> json \<Rightarrow> mission parsed" where
  "MissionFromJson to_float now v =
     pbind (AsObject v ''mission'') (\<lambda>top.
     pbind (case OptionalField top ''mission'' of None \<Rightarrow> Inr top | Some r \<Rightarrow> AsObject r ''mission'') (\<lambda>kvs.
     pbind (pbind (RequiredField kvs ''id'') (\<lambda>x. JsonUint64 x ''id'')) (\<lambda>i.
     pbind (pbind (RequiredField kvs ''name'') (\<lambda>x. JsonString x ''name'')) (\<lambda>n.
     pbind (pbind (RequiredField kvs ''description'') (\<lambda>x. JsonString x ''description'')) (\<lambda>d.
     pbind (pbind (RequiredField kvs ''version'') (\<lambda>x. JsonString x ''version'')) (\<lambda>ve.
     pbind (pbind (RequiredField kvs ''author'') (\<lambda>x. JsonString x ''author'')) (\<lambda>au.
     pbind (optionally kvs ''metadata'' (MetadataFromJson ''metadata'') (\<lambda>m s. s\<lparr>m_metadata := m\<rparr>)
         (default_mission\<lparr>m_id := of_int i, m_name := n, m_description := d, m_version := ve, m_author := au\<rparr>)) (\<lambda>m.
     pbind (pbind (RequiredField kvs ''steps'') (\<lambda>x. AsArray x ''steps'')) (\<lambda>js.
     pbind (pmap (StepFromJson to_float) js) (\<lambda>ss. Inr (m\<lparr>m_steps := ss, m_timestamp := now\<rparr>)))))))))))"

section \<open>YAML lines\<close>

record mission_line =
  ml_indent :: nat
  ml_content :: string
  ml_number :: nat

text \<open>The line up to the first comment sign outside quotes; the flags are the open quotes.\<close>

fun StripYamlComment_from :: "bool \<Rightarrow> bool \<Rightarrow> string \<Rightarrow> string" where
  "StripYamlComment_from sq dq [] = []"
| "StripYamlComment_from sq dq (c # s) =
     (if c = CHR 0x27 \<and> \<not> dq then c # StripYamlComment_from (\<not> sq) dq s
      else if c = quote_char \<and> \<not> sq then c # StripYamlComment_from sq (\<not> dq) s
      else if c = CHR ''#'' \<and> \<not> sq \<and> \<not> dq then []
      else c # StripYamlComment_from sq dq s)"

definition StripYamlComment :: "string \<Rightarrow> string" where
  "StripYamlComment s = StripYamlComment_from False False s"

text \<open>One raw line: no line, or one, or an error.\<close>

definition MissionYamlLine :: "nat \<Rightarrow> string \<Rightarrow> mission_line list parsed" where
  "MissionYamlLine n raw0 =
     (let raw = (if raw0 \<noteq> [] \<and> last raw0 = CHR 0x0D then butlast raw0 else raw0) in
      if CHR 0x09 \<in> set raw then throw_error (''YAML tabs are not supported at line '' @ to_string n)
      else
        (let s = StripYamlComment raw; indent = length (takeWhile (\<lambda>c. c = CHR '' '') s);
             content = Trim (drop indent s) in
         if content = [] then Inr []
         else if indent mod 2 \<noteq> 0
         then throw_error (''YAML indentation must use multiples of two spaces at line '' @ to_string n)
         else Inr [\<lparr>ml_indent = indent, ml_content = content, ml_number = n\<rparr>]))"

fun YamlLines_from :: "nat \<Rightarrow> string list \<Rightarrow> mission_line list parsed" where
  "YamlLines_from n [] = Inr []"
| "YamlLines_from n (raw # raws) =
     pbind (MissionYamlLine n raw) (\<lambda>ls. pbind (YamlLines_from (Suc n) raws) (\<lambda>rest. Inr (ls @ rest)))"

definition YamlLines :: "string \<Rightarrow> mission_line list parsed" where
  "YamlLines doc = YamlLines_from 1 (split_lines doc)"

definition SplitYamlKeyValue :: "mission_line \<Rightarrow> (string \<times> string) parsed" where
  "SplitYamlKeyValue l =
     (let key = takeWhile (\<lambda>c. c \<noteq> CHR '':'') (ml_content l) in
      if CHR '':'' \<notin> set (ml_content l)
      then throw_error (''Expected key/value mapping at YAML line '' @ to_string (ml_number l))
      else Inr (Trim key, Trim (drop (length key + 1) (ml_content l))))"

definition YamlScalar :: "string \<Rightarrow> string" where
  "YamlScalar v = UnquoteScalar (Trim v)"

definition YamlBool :: "string \<Rightarrow> string \<Rightarrow> bool parsed" where
  "YamlBool v field =
     (if YamlScalar v = ''true'' then Inr True
      else if YamlScalar v = ''false'' then Inr False
      else throw_error (field @ '' must be true or false''))"

definition ParseUint32 :: "string \<Rightarrow> string \<Rightarrow> nat parsed" where
  "ParseUint32 s field =
     pbind (ParseUint64 s field) (\<lambda>n. if n > 2 ^ 32 - 1 then throw_error (field @ '' exceeds uint32 range'') else Inr (nat n))"

definition YamlPayloadValue :: "(string \<Rightarrow> fl option) \<Rightarrow> string \<Rightarrow> payload_value" where
  "YamlPayloadValue fc v =
     (let s = YamlScalar v in
      if s = ''true'' then PV_Bool True
      else if s = ''false'' then PV_Bool False
      else (case ParseInt64 s ''payload value'' of
         Inr i \<Rightarrow> PV_Int i
       | Inl _ \<Rightarrow> (case ParseDouble fc s ''payload value'' of Inr d \<Rightarrow> PV_Double d | Inl _ \<Rightarrow> PV_String s)))"

definition LogicalIndent :: "mission_line \<Rightarrow> nat \<Rightarrow> nat parsed" where
  "LogicalIndent l base =
     (if ml_indent l < base then throw_error (''YAML content escaped mission root at line '' @ to_string (ml_number l))
      else Inr (ml_indent l - base))"

definition line_error :: "string \<Rightarrow> mission_line \<Rightarrow> 'a parsed" where
  "line_error msg l = throw_error (msg @ to_string (ml_number l))"

section \<open>YAML loops\<close>

text \<open>
  The loop over lines: \<open>decide\<close> looks at the logical indentation and the content of the next line and answers whether
  the loop returns; \<open>body\<close> consumes the line and possibly more.
\<close>

fun yaml_loop :: "nat \<Rightarrow> (nat \<Rightarrow> mission_line \<Rightarrow> bool parsed)
    \<Rightarrow> (mission_line \<Rightarrow> mission_line list \<Rightarrow> 'a \<Rightarrow> ('a \<times> mission_line list) parsed)
    \<Rightarrow> nat \<Rightarrow> mission_line list \<Rightarrow> 'a \<Rightarrow> ('a \<times> mission_line list) parsed" where
  "yaml_loop base decide body fuel [] a = Inr (a, [])"
| "yaml_loop base decide body fuel (l # ls) a =
     pbind (LogicalIndent l base) (\<lambda>ind.
     pbind (decide ind l) (\<lambda>stop.
       if stop then Inr (a, l # ls)
       else (case fuel of
          0 \<Rightarrow> Inl PE_OutOfFuel
        | Suc n \<Rightarrow> pbind (body l ls a) (\<lambda>(a', ls'). yaml_loop base decide body n ls' a'))))"

text \<open>The usual decision: less indentation ends the block, more is an error.\<close>

definition at_indent :: "nat \<Rightarrow> string \<Rightarrow> nat \<Rightarrow> mission_line \<Rightarrow> bool parsed" where
  "at_indent expected msg ind l =
     (if ind < expected then Inr True else if ind \<noteq> expected then line_error msg l else Inr False)"

definition is_item :: "mission_line \<Rightarrow> bool" where
  "is_item l = StartsWith (ml_content l) ''- ''"

text \<open>A body that reads one scalar field; \<open>field\<close> applies it.\<close>

definition scalar_field ::
  "string \<Rightarrow> (string \<Rightarrow> string \<Rightarrow> nat \<Rightarrow> 'a \<Rightarrow> 'a parsed) \<Rightarrow> mission_line \<Rightarrow> mission_line list \<Rightarrow> 'a
     \<Rightarrow> ('a \<times> mission_line list) parsed" where
  "scalar_field empty_msg field l ls a =
     pbind (SplitYamlKeyValue l) (\<lambda>(k, v).
       if v = [] then line_error empty_msg l
       else pbind (field k v (ml_number l) a) (\<lambda>a'. Inr (a', ls)))"

definition block :: "nat \<Rightarrow> (nat \<Rightarrow> mission_line \<Rightarrow> bool parsed)
    \<Rightarrow> (mission_line \<Rightarrow> mission_line list \<Rightarrow> 'a \<Rightarrow> ('a \<times> mission_line list) parsed)
    \<Rightarrow> mission_line list \<Rightarrow> 'a \<Rightarrow> ('a \<times> mission_line list) parsed" where
  "block base decide body ls a = yaml_loop base decide body (length ls) ls a"

text \<open>\<open>std::map::emplace\<close> keeps the value of a key that is there.\<close>

definition emplace :: "string \<Rightarrow> 'v \<Rightarrow> (string \<times> 'v) list \<Rightarrow> (string \<times> 'v) list" where
  "emplace k v kvs = (if k \<in> fst ` set kvs then kvs else map_emplace k v kvs)"

definition ParseYamlStringMap ::
  "nat \<Rightarrow> nat \<Rightarrow> mission_line list \<Rightarrow> (string \<times> string) list \<Rightarrow> ((string \<times> string) list \<times> mission_line list) parsed" where
  "ParseYamlStringMap expected base =
     block base
       (\<lambda>ind l. pbind (at_indent expected ''Unexpected YAML indentation at line '' ind l) (\<lambda>stop. Inr (stop \<or> is_item l)))
       (scalar_field ''Metadata value must be scalar at YAML line '' (\<lambda>k v _ m. Inr (emplace k (YamlScalar v) m)))"

definition ParseYamlPayload :: "(string \<Rightarrow> fl option) \<Rightarrow>
  nat \<Rightarrow> nat \<Rightarrow> mission_line list \<Rightarrow> (string \<times> payload_value) list \<Rightarrow> ((string \<times> payload_value) list \<times> mission_line list) parsed"
where
  "ParseYamlPayload fc expected base =
     block base (at_indent expected ''Unexpected YAML indentation at line '')
       (scalar_field ''Payload value must be scalar at YAML line '' (\<lambda>k v _ m. Inr (emplace k (YamlPayloadValue fc v) m)))"

text \<open>The message of an unknown name or field, with its line.\<close>

definition at_line :: "string \<Rightarrow> nat \<Rightarrow> string" where
  "at_line what n = what @ '' at YAML line '' @ to_string n @ '': ''"

definition ApplyYamlCommandField :: "string \<Rightarrow> string \<Rightarrow> nat \<Rightarrow> command \<Rightarrow> command parsed" where
  "ApplyYamlCommandField k v n c =
     (if k = ''id'' then pbind (ParseUint64 v ''command.id'') (\<lambda>i. Inr (c\<lparr>cmd_id := of_int i\<rparr>))
      else if k = ''type'' then
        pbind (named CommandTypeFromString (at_line ''Unknown command type'' n) (YamlScalar v)) (\<lambda>t. Inr (c\<lparr>cmd_type := t\<rparr>))
      else if k = ''priority'' then
        pbind (named PriorityFromString (at_line ''Unknown command priority'' n) (YamlScalar v))
          (\<lambda>p. Inr (c\<lparr>cmd_priority := p\<rparr>))
      else if k = ''timeout_ms'' then pbind (ParseInt64 v ''command.timeout_ms'') (\<lambda>d. Inr (c\<lparr>cmd_timeout := d\<rparr>))
      else throw_error (at_line ''Unknown command field'' n @ k))"

text \<open>A field whose value is a nested block.\<close>

definition nested :: "string \<Rightarrow> string \<Rightarrow> ('b \<times> mission_line list) parsed \<Rightarrow> ('b \<Rightarrow> 'a) \<Rightarrow> ('a \<times> mission_line list) parsed" where
  "nested msg v r upd = (if v \<noteq> [] then throw_error msg else pbind r (\<lambda>(x, ls'). Inr (upd x, ls')))"

definition ParseYamlCommand :: "(string \<Rightarrow> fl option) \<Rightarrow>
  nat \<Rightarrow> nat \<Rightarrow> mission_line list \<Rightarrow> command \<Rightarrow> (command \<times> mission_line list) parsed" where
  "ParseYamlCommand fc expected base =
     block base (at_indent expected ''Unexpected YAML command indentation at line '')
       (\<lambda>l ls c. pbind (SplitYamlKeyValue l) (\<lambda>(k, v).
          if k = ''payload'' then
            nested ''command.payload must be a nested mapping'' v
              (ParseYamlPayload fc (expected + 2) base ls (cmd_payload c)) (\<lambda>p. c\<lparr>cmd_payload := p\<rparr>)
          else if k = ''metadata'' then
            nested ''command.metadata must be a nested mapping'' v
              (ParseYamlStringMap (expected + 2) base ls (cmd_metadata c)) (\<lambda>m. c\<lparr>cmd_metadata := m\<rparr>)
          else scalar_field ''Command field requires a scalar value at YAML line '' ApplyYamlCommandField l ls c))"

definition ParseYamlRetryPolicy ::
  "nat \<Rightarrow> nat \<Rightarrow> mission_line list \<Rightarrow> retry_policy \<Rightarrow> (retry_policy \<times> mission_line list) parsed" where
  "ParseYamlRetryPolicy expected base =
     block base (at_indent expected ''Unexpected YAML retry_policy indentation at line '')
       (scalar_field ''retry_policy field requires a scalar value at YAML line '' (\<lambda>k v n p.
          if k = ''max_attempts'' then
            pbind (ParseUint32 v ''retry_policy.max_attempts'') (\<lambda>x. Inr (p\<lparr>rp_maxAttempts := x\<rparr>))
          else if k = ''delay_ms'' then
            pbind (ParseInt64 v ''retry_policy.delay_ms'') (\<lambda>x. Inr (p\<lparr>rp_delayBetweenAttempts := x\<rparr>))
          else if k = ''retry_on_failure'' then
            pbind (YamlBool v ''retry_policy.retry_on_failure'') (\<lambda>x. Inr (p\<lparr>rp_retryOnFailure := x\<rparr>))
          else if k = ''retry_on_timeout'' then
            pbind (YamlBool v ''retry_policy.retry_on_timeout'') (\<lambda>x. Inr (p\<lparr>rp_retryOnTimeout := x\<rparr>))
          else throw_error (at_line ''Unknown retry_policy field'' n @ k)))"

text \<open>A block with one field only.\<close>

definition only_field :: "string \<Rightarrow> string \<Rightarrow> (string \<Rightarrow> 'a parsed) \<Rightarrow> mission_line \<Rightarrow> mission_line list \<Rightarrow> 'a
    \<Rightarrow> ('a \<times> mission_line list) parsed" where
  "only_field key msg conv l ls a =
     pbind (SplitYamlKeyValue l) (\<lambda>(k, v).
       if k \<noteq> key \<or> v = [] then line_error msg l else pbind (conv v) (\<lambda>x. Inr (x, ls)))"

definition ParseYamlLoopPolicy :: "nat \<Rightarrow> nat \<Rightarrow> mission_line list \<Rightarrow> nat \<Rightarrow> (nat \<times> mission_line list) parsed" where
  "ParseYamlLoopPolicy expected base =
     block base (at_indent expected ''Unexpected YAML loop_policy indentation at line '')
       (only_field ''iterations'' ''loop_policy.iterations requires a scalar value at YAML line ''
          (\<lambda>v. ParseUint32 v ''loop_policy.iterations''))"

definition ParseYamlTimeoutPolicy ::
  "nat \<Rightarrow> nat \<Rightarrow> mission_line list \<Rightarrow> timeout_policy \<Rightarrow> (timeout_policy \<times> mission_line list) parsed" where
  "ParseYamlTimeoutPolicy expected base =
     block base (at_indent expected ''Unexpected YAML timeout_policy indentation at line '')
       (scalar_field ''timeout_policy field requires a scalar value at YAML line '' (\<lambda>k v n p.
          if k = ''timeout_ms'' then
            pbind (ParseInt64 v ''timeout_policy.timeout_ms'') (\<lambda>x. Inr (p\<lparr>tp_timeout := x\<rparr>))
          else if k = ''abort_on_timeout'' then
            pbind (YamlBool v ''timeout_policy.abort_on_timeout'') (\<lambda>x. Inr (p\<lparr>tp_abortOnTimeout := x\<rparr>))
          else throw_error (at_line ''Unknown timeout_policy field'' n @ k)))"

definition ParseYamlWaitStep :: "nat \<Rightarrow> nat \<Rightarrow> mission_line list \<Rightarrow> time_ms \<Rightarrow> (time_ms \<times> mission_line list) parsed" where
  "ParseYamlWaitStep expected base =
     block base (at_indent expected ''Unexpected YAML wait indentation at line '')
       (only_field ''duration_ms'' ''wait.duration_ms requires a scalar value at YAML line ''
          (\<lambda>v. ParseInt64 v ''wait.duration_ms''))"

definition ParseYamlDelayStep :: "nat \<Rightarrow> nat \<Rightarrow> mission_line list \<Rightarrow> time_ms \<Rightarrow> (time_ms \<times> mission_line list) parsed" where
  "ParseYamlDelayStep expected base =
     block base (at_indent expected ''Unexpected YAML delay indentation at line '')
       (only_field ''duration_ms'' ''delay.duration_ms requires a scalar value at YAML line ''
          (\<lambda>v. ParseInt64 v ''delay.duration_ms''))"

section \<open>YAML documents\<close>

definition ApplyYamlConditionField ::
  "(string \<Rightarrow> fl option) \<Rightarrow> (fl \<Rightarrow> fl) \<Rightarrow> string \<Rightarrow> string \<Rightarrow> nat \<Rightarrow> mission_condition \<Rightarrow> mission_condition parsed" where
  "ApplyYamlConditionField fc to_float k v n c =
     (if k = ''id'' then pbind (ParseUint64 v ''condition.id'') (\<lambda>i. Inr (c\<lparr>mc_id := of_int i\<rparr>))
      else if k = ''name'' then Inr (c\<lparr>mc_name := YamlScalar v\<rparr>)
      else if k = ''type'' then
        pbind (named ConditionTypeFromString (at_line ''Unknown condition type'' n) (YamlScalar v))
          (\<lambda>t. Inr (c\<lparr>mc_type := t\<rparr>))
      else if k = ''comparison'' then
        pbind (named ConditionComparisonFromString (at_line ''Unknown condition comparison'' n) (YamlScalar v))
          (\<lambda>t. Inr (c\<lparr>mc_comparison := t\<rparr>))
      else if k = ''value'' then
        if YamlScalar v = ''true'' \<or> YamlScalar v = ''false'' then
          pbind (YamlBool v ''condition.value'') (\<lambda>b. Inr (c\<lparr>mc_boolValue := b\<rparr>))
        else pbind (ParseDouble fc v ''condition.value'') (\<lambda>x. Inr (c\<lparr>mc_numericValue := to_float x\<rparr>))
      else if k = ''fault_code'' then
        pbind (ParseInt64 v ''condition.fault_code'') (\<lambda>x. Inr (c\<lparr>mc_faultCode := i32_wrap x\<rparr>))
      else if k = ''command_type'' then
        pbind (named CommandTypeFromString (at_line ''Unknown condition command_type'' n) (YamlScalar v))
          (\<lambda>t. Inr (c\<lparr>mc_commandType := t\<rparr>))
      else if k = ''on_failure'' then
        pbind (named FailureActionFromString (at_line ''Unknown condition on_failure action'' n) (YamlScalar v))
          (\<lambda>t. Inr (c\<lparr>mc_failureAction := t\<rparr>))
      else throw_error (at_line ''Unknown condition field'' n @ k))"

text \<open>The rest of the line of a sequence entry, after the dash, is its first field.\<close>

definition item_field :: "string \<Rightarrow> (string \<Rightarrow> string \<Rightarrow> nat \<Rightarrow> 'a \<Rightarrow> 'a parsed) \<Rightarrow> mission_line \<Rightarrow> 'a \<Rightarrow> 'a parsed" where
  "item_field msg field l a =
     (let content = Trim (drop 2 (ml_content l)) in
      if content = [] then Inr a
      else pbind (SplitYamlKeyValue (l\<lparr>ml_content := content\<rparr>)) (\<lambda>(k, v).
        if v = [] then throw_error msg else field k v (ml_number l) a))"

text \<open>The decision of the loops over the fields of a sequence entry.\<close>

definition entry_indent :: "nat \<Rightarrow> string \<Rightarrow> nat \<Rightarrow> mission_line \<Rightarrow> bool parsed" where
  "entry_indent expected msg ind l =
     (if ind < expected \<or> ind = expected \<and> is_item l then Inr True
      else if ind \<noteq> expected + 2 then line_error msg l else Inr False)"

definition ParseYamlCondition :: "(string \<Rightarrow> fl option) \<Rightarrow> (fl \<Rightarrow> fl) \<Rightarrow> nat \<Rightarrow> nat \<Rightarrow> mission_line \<Rightarrow> mission_line list
    \<Rightarrow> (mission_condition \<times> mission_line list) parsed" where
  "ParseYamlCondition fc to_float expected base first ls =
     pbind (item_field ''YAML condition sequence entry requires a scalar first field''
         (ApplyYamlConditionField fc to_float) first default_condition) (\<lambda>c.
       block base (entry_indent expected ''Unexpected YAML condition indentation at line '')
         (\<lambda>l ls c. pbind (SplitYamlKeyValue l) (\<lambda>(k, v).
            if k = ''metadata'' then
              nested ''condition.metadata must be a nested mapping'' v
                (ParseYamlStringMap (expected + 4) base ls (mc_metadata c)) (\<lambda>m. c\<lparr>mc_metadata := m\<rparr>)
            else scalar_field ''Condition field requires a scalar value at YAML line ''
              (ApplyYamlConditionField fc to_float) l ls c)) ls c)"

text \<open>The decision of the loops over the entries of a sequence.\<close>

definition sequence_indent :: "nat \<Rightarrow> string \<Rightarrow> nat \<Rightarrow> mission_line \<Rightarrow> bool parsed" where
  "sequence_indent expected msg ind l =
     (if ind < expected then Inr True
      else if ind \<noteq> expected \<or> \<not> is_item l then line_error msg l else Inr False)"

definition ParseYamlConditions :: "(string \<Rightarrow> fl option) \<Rightarrow> (fl \<Rightarrow> fl) \<Rightarrow> nat \<Rightarrow> nat \<Rightarrow> mission_line list
    \<Rightarrow> mission_condition list \<Rightarrow> (mission_condition list \<times> mission_line list) parsed" where
  "ParseYamlConditions fc to_float expected base =
     block base (sequence_indent expected ''Expected YAML condition sequence entry at line '')
       (\<lambda>l ls cs. pbind (ParseYamlCondition fc to_float expected base l ls) (\<lambda>(c, ls'). Inr (cs @ [c], ls')))"

definition ApplyYamlStepField :: "string \<Rightarrow> string \<Rightarrow> nat \<Rightarrow> mission_step \<Rightarrow> mission_step parsed" where
  "ApplyYamlStepField k v n s =
     (if k = ''id'' then pbind (ParseUint64 v ''step.id'') (\<lambda>i. Inr (s\<lparr>st_id := of_int i\<rparr>))
      else if k = ''name'' then Inr (s\<lparr>st_name := YamlScalar v\<rparr>)
      else if k = ''timeout_ms'' then pbind (ParseInt64 v ''step.timeout_ms'') (\<lambda>d. Inr (s\<lparr>st_timeout := d\<rparr>))
      else if k = ''retry'' then pbind (ParseUint32 v ''step.retry'') (\<lambda>r. Inr (s\<lparr>st_retry := r\<rparr>))
      else if k = ''enabled'' then pbind (YamlBool v ''step.enabled'') (\<lambda>b. Inr (s\<lparr>st_enabled := b\<rparr>))
      else if k = ''skip'' then pbind (YamlBool v ''step.skip'') (\<lambda>b. Inr (s\<lparr>st_skip := b\<rparr>))
      else if k = ''abort'' then pbind (YamlBool v ''step.abort'') (\<lambda>b. Inr (s\<lparr>st_abort := b\<rparr>))
      else throw_error (at_line ''Unknown step field'' n @ k))"

definition yaml_step_field :: "(string \<Rightarrow> fl option) \<Rightarrow> (fl \<Rightarrow> fl) \<Rightarrow> nat \<Rightarrow> mission_line \<Rightarrow> mission_line list \<Rightarrow> mission_step
    \<Rightarrow> (mission_step \<times> mission_line list) parsed" where
  "yaml_step_field fc to_float base l ls s =
     pbind (SplitYamlKeyValue l) (\<lambda>(k, v).
       if k = ''command'' then
         nested ''step.command must be a nested mapping'' v
           (ParseYamlCommand fc 6 base ls (st_command s)) (\<lambda>x. s\<lparr>st_command := x\<rparr>)
       else if k = ''retry_policy'' then
         nested ''step.retry_policy must be a nested mapping'' v
           (ParseYamlRetryPolicy 6 base ls (st_retryPolicy s)) (\<lambda>x. s\<lparr>st_retryPolicy := x\<rparr>)
       else if k = ''loop_policy'' then
         nested ''step.loop_policy must be a nested mapping'' v
           (ParseYamlLoopPolicy 6 base ls (st_loopIterations s)) (\<lambda>x. s\<lparr>st_loopIterations := x\<rparr>)
       else if k = ''timeout_policy'' then
         nested ''step.timeout_policy must be a nested mapping'' v
           (ParseYamlTimeoutPolicy 6 base ls (st_timeoutPolicy s)) (\<lambda>x. s\<lparr>st_timeoutPolicy := x\<rparr>)
       else if k = ''wait'' then
         nested ''step.wait must be a nested mapping'' v (ParseYamlWaitStep 6 base ls 0) (\<lambda>x. s\<lparr>st_wait := Some x\<rparr>)
       else if k = ''delay'' then
         nested ''step.delay must be a nested mapping'' v (ParseYamlDelayStep 6 base ls 0) (\<lambda>x. s\<lparr>st_delay := Some x\<rparr>)
       else if k = ''conditions'' then
         nested ''step.conditions must be a nested sequence'' v
           (ParseYamlConditions fc to_float 6 base ls (st_conditions s)) (\<lambda>x. s\<lparr>st_conditions := x\<rparr>)
       else if k = ''metadata'' then
         nested ''step.metadata must be a nested mapping'' v
           (ParseYamlStringMap 6 base ls (st_metadata s)) (\<lambda>x. s\<lparr>st_metadata := x\<rparr>)
       else scalar_field ''Step field requires a scalar value at YAML line '' ApplyYamlStepField l ls s)"

text \<open>The loop leaves at an indentation below four; the entries stand at two.\<close>

definition ParseYamlStep :: "(string \<Rightarrow> fl option) \<Rightarrow> (fl \<Rightarrow> fl) \<Rightarrow> nat \<Rightarrow> mission_line \<Rightarrow> mission_line list
    \<Rightarrow> (mission_step \<times> mission_line list) parsed" where
  "ParseYamlStep fc to_float base first ls =
     pbind (item_field ''YAML step sequence entry requires a scalar first field'' ApplyYamlStepField first default_step)
       (block base
          (\<lambda>ind l. if ind < 4 \<or> ind = 2 \<and> is_item l then Inr True
             else if ind \<noteq> 4 then line_error ''Unexpected YAML step indentation at line '' l else Inr False)
          (yaml_step_field fc to_float base) ls)"

definition ParseYamlSteps :: "(string \<Rightarrow> fl option) \<Rightarrow> (fl \<Rightarrow> fl) \<Rightarrow> nat \<Rightarrow> mission_line list
    \<Rightarrow> mission_step list \<Rightarrow> (mission_step list \<times> mission_line list) parsed" where
  "ParseYamlSteps fc to_float base =
     block base (sequence_indent 2 ''Expected YAML step sequence entry at line '')
       (\<lambda>l ls ss. pbind (ParseYamlStep fc to_float base l ls) (\<lambda>(s, ls'). Inr (ss @ [s], ls')))"

definition ApplyYamlMissionField :: "string \<Rightarrow> string \<Rightarrow> nat \<Rightarrow> mission \<Rightarrow> mission parsed" where
  "ApplyYamlMissionField k v n m =
     (if k = ''id'' then pbind (ParseUint64 v ''id'') (\<lambda>i. Inr (m\<lparr>m_id := of_int i\<rparr>))
      else if k = ''name'' then Inr (m\<lparr>m_name := YamlScalar v\<rparr>)
      else if k = ''description'' then Inr (m\<lparr>m_description := YamlScalar v\<rparr>)
      else if k = ''version'' then Inr (m\<lparr>m_version := YamlScalar v\<rparr>)
      else if k = ''author'' then Inr (m\<lparr>m_author := YamlScalar v\<rparr>)
      else throw_error (at_line ''Unknown mission field'' n @ k))"

definition yaml_mission_field :: "(string \<Rightarrow> fl option) \<Rightarrow> (fl \<Rightarrow> fl) \<Rightarrow> nat \<Rightarrow> mission_line \<Rightarrow> mission_line list \<Rightarrow> mission
    \<Rightarrow> (mission \<times> mission_line list) parsed" where
  "yaml_mission_field fc to_float base l ls m =
     pbind (SplitYamlKeyValue l) (\<lambda>(k, v).
       if k = ''metadata'' then
         nested ''mission.metadata must be a nested mapping'' v
           (ParseYamlStringMap 2 base ls (m_metadata m)) (\<lambda>x. m\<lparr>m_metadata := x\<rparr>)
       else if k = ''steps'' then
         nested ''mission.steps must be a nested sequence'' v
           (ParseYamlSteps fc to_float base ls (m_steps m)) (\<lambda>x. m\<lparr>m_steps := x\<rparr>)
       else scalar_field ''Mission field requires a scalar value at YAML line '' ApplyYamlMissionField l ls m)"

definition MissionFromYaml :: "(string \<Rightarrow> fl option) \<Rightarrow> (fl \<Rightarrow> fl) \<Rightarrow> time_ns \<Rightarrow> string \<Rightarrow> mission parsed" where
  "MissionFromYaml fc to_float now doc =
     pbind (YamlLines doc) (\<lambda>lines.
       if lines = [] then throw_error ''YAML mission document is empty''
       else
         (let wrapped = (ml_indent (hd lines) = 0 \<and> ml_content (hd lines) = ''mission:'');
              base = (if wrapped then 2 else 0) in
          pbind (block base
              (\<lambda>ind l. if ind \<noteq> 0 then line_error ''Expected top-level mission field at YAML line '' l else Inr False)
              (yaml_mission_field fc to_float base) (if wrapped then tl lines else lines) default_mission)
            (\<lambda>(m, _). Inr (m\<lparr>m_timestamp := now\<rparr>))))"

section \<open>The parser\<close>

record mission_parse_result =
  mpr_mission :: mission
  mpr_success :: bool
  mpr_message :: string

definition mission_parse_result_of :: "string \<Rightarrow> mission parsed \<Rightarrow> mission_parse_result option" where
  "mission_parse_result_of format r =
     (case r of
        Inr m \<Rightarrow> Some \<lparr>mpr_mission = m, mpr_success = True, mpr_message = ''Mission parsed successfully''\<rparr>
      | Inl (PE_Error e) \<Rightarrow>
          Some \<lparr>mpr_mission = default_mission, mpr_success = False,
                mpr_message = format @ '' mission parse failed: '' @ e\<rparr>
      | Inl PE_OutOfFuel \<Rightarrow> None)"

definition MissionParser_ParseJson ::
  "(string \<Rightarrow> fl option) \<Rightarrow> (fl \<Rightarrow> fl) \<Rightarrow> time_ns \<Rightarrow> string \<Rightarrow> mission_parse_result option" where
  "MissionParser_ParseJson fc to_float now doc =
     mission_parse_result_of ''JSON''
       (pbind (json_Parse mission_texts (finite_chars fc) doc) (MissionFromJson to_float now))"

definition MissionParser_ParseYaml ::
  "(string \<Rightarrow> fl option) \<Rightarrow> (fl \<Rightarrow> fl) \<Rightarrow> time_ns \<Rightarrow> string \<Rightarrow> mission_parse_result option" where
  "MissionParser_ParseYaml fc to_float now doc =
     mission_parse_result_of ''YAML'' (MissionFromYaml fc to_float now doc)"

end
