(* ===== verification/Mission_Loader.thy ===== *)
theory Mission_Loader
  imports Mission_Parser Tree_Loader
begin

text \<open>
  Loading of missions, \<open>src/mission/MissionLoader.cpp\<close>: parse, then validate. What opening and reading the
  file gave is an argument.
\<close>

record mission_load_result =
  mlr_mission :: mission
  mlr_success :: bool
  mlr_message :: string

definition MissionLoadResult :: "mission \<Rightarrow> bool \<Rightarrow> string \<Rightarrow> mission_load_result" where
  "MissionLoadResult m b msg = \<lparr>mlr_mission = m, mlr_success = b, mlr_message = msg\<rparr>"

definition MissionLoadFailure :: "string \<Rightarrow> mission_load_result" where
  "MissionLoadFailure msg = MissionLoadResult default_mission False msg"

definition ValidateParsedMission :: "mission_parse_result \<Rightarrow> mission_load_result" where
  "ValidateParsedMission r =
     (if \<not> mpr_success r then MissionLoadFailure (mpr_message r)
      else (case MissionValidator_Validate (mpr_mission r) of
         (ok, msg) \<Rightarrow>
           if \<not> ok then MissionLoadResult (mpr_mission r) False msg
           else MissionLoadResult (mpr_mission r) True ''Mission loaded successfully''))"

definition MissionLoader_LoadJson ::
  "(string \<Rightarrow> fl option) \<Rightarrow> (fl \<Rightarrow> fl) \<Rightarrow> time_ns \<Rightarrow> string \<Rightarrow> mission_load_result option" where
  "MissionLoader_LoadJson fc tf now doc = map_option ValidateParsedMission (MissionParser_ParseJson fc tf now doc)"

definition MissionLoader_LoadYaml ::
  "(string \<Rightarrow> fl option) \<Rightarrow> (fl \<Rightarrow> fl) \<Rightarrow> time_ns \<Rightarrow> string \<Rightarrow> mission_load_result option" where
  "MissionLoader_LoadYaml fc tf now doc = map_option ValidateParsedMission (MissionParser_ParseYaml fc tf now doc)"

definition MissionLoader_LoadFile ::
  "(string \<Rightarrow> fl option) \<Rightarrow> (fl \<Rightarrow> fl) \<Rightarrow> time_ns \<Rightarrow> string \<Rightarrow> file_read \<Rightarrow> mission_load_result option" where
  "MissionLoader_LoadFile fc tf now path file =
     (case file of
        FileNotOpened \<Rightarrow> Some (MissionLoadFailure (''Unable to open mission file: '' @ path))
      | FileBad \<Rightarrow> Some (MissionLoadFailure (''Unable to read mission file: '' @ path))
      | FileContent content \<Rightarrow>
          (let ext = map lower (path_extension path) in
           if ext = ''.json'' then MissionLoader_LoadJson fc tf now content
           else if ext = ''.yaml'' \<or> ext = ''.yml'' then MissionLoader_LoadYaml fc tf now content
           else Some (MissionLoadFailure (''Unsupported mission file extension: '' @ ext))))"

end
