(* ===== verification/Mission_Printer.thy ===== *)
theory Mission_Printer
  imports Mission_Loader Tree_Parser_Props
begin

text \<open>
  A printer of missions as JSON documents, the reference of the round trip of \<open>src/mission/MissionParser.cpp\<close>, and
  the missions it can print. A JSON number is a double: an integer of the mission has to be one.
\<close>

section \<open>Printing\<close>

definition jint :: "int \<Rightarrow> json" where
  "jint i = JNumber (Fin (of_int i))"

definition jnat :: "nat \<Rightarrow> json" where
  "jnat n = jint (int n)"

definition jwords :: "u64 \<Rightarrow> json" where
  "jwords w = jint (uint w)"

definition metadata_json :: "(string \<times> string) list \<Rightarrow> json" where
  "metadata_json m = JObject (map (\<lambda>(k, v). (k, JString v)) m)"

fun payload_value_json :: "payload_value \<Rightarrow> json" where
  "payload_value_json (PV_Bool b) = JBool b"
| "payload_value_json (PV_Int i) = jint i"
| "payload_value_json (PV_Double d) = JNumber d"
| "payload_value_json (PV_String s) = JString s"

definition payload_json :: "(string \<times> payload_value) list \<Rightarrow> json" where
  "payload_json p = JObject (map (\<lambda>(k, v). (k, payload_value_json v)) p)"

fun comparison_name :: "comparison \<Rightarrow> string" where
  "comparison_name Cmp_NotEqual = ''NotEqual''"
| "comparison_name Cmp_LessThan = ''LessThan''"
| "comparison_name Cmp_LessThanOrEqual = ''LessThanOrEqual''"
| "comparison_name Cmp_GreaterThan = ''GreaterThan''"
| "comparison_name Cmp_GreaterThanOrEqual = ''GreaterThanOrEqual''"
| "comparison_name _ = ''Equal''"

fun action_name :: "failure_action \<Rightarrow> string" where
  "action_name FA_Skip = ''Skip''"
| "action_name _ = ''Abort''"

definition command_json :: "command \<Rightarrow> json" where
  "command_json c = JObject
     [(''id'', jwords (cmd_id c)), (''metadata'', metadata_json (cmd_metadata c)), (''payload'', payload_json (cmd_payload c)),
      (''priority'', JString (command_priority_toString (cmd_priority c))), (''timeout_ms'', jint (cmd_timeout c)),
      (''type'', JString (command_type_toString (cmd_type c)))]"

definition retry_json :: "retry_policy \<Rightarrow> json" where
  "retry_json p = JObject
     [(''delay_ms'', jint (rp_delayBetweenAttempts p)), (''max_attempts'', jnat (rp_maxAttempts p)),
      (''retry_on_failure'', JBool (rp_retryOnFailure p)), (''retry_on_timeout'', JBool (rp_retryOnTimeout p))]"

definition timeout_json :: "timeout_policy \<Rightarrow> json" where
  "timeout_json p = JObject
     [(''abort_on_timeout'', JBool (tp_abortOnTimeout p)), (''timeout_ms'', jint (tp_timeout p))]"

definition condition_json :: "mission_condition \<Rightarrow> json" where
  "condition_json c = JObject
     [(''command_type'', JString (command_type_toString (mc_commandType c))),
      (''comparison'', JString (comparison_name (mc_comparison c))), (''fault_code'', jint (mc_faultCode c)),
      (''id'', jwords (mc_id c)), (''metadata'', metadata_json (mc_metadata c)), (''name'', JString (mc_name c)),
      (''on_failure'', JString (action_name (mc_failureAction c))),
      (''type'', JString (condition_type_toString (mc_type c))),
      (''value'', if mc_numericValue c = Fin 0 then JBool (mc_boolValue c) else JNumber (mc_numericValue c))]"

definition duration_json :: "time_ms \<Rightarrow> json" where
  "duration_json d = JObject [(''duration_ms'', jint d)]"

definition optional_field :: "string \<Rightarrow> time_ms option \<Rightarrow> (string \<times> json) list" where
  "optional_field k d = (case d of None \<Rightarrow> [] | Some t \<Rightarrow> [(k, duration_json t)])"

definition step_json :: "mission_step \<Rightarrow> json" where
  "step_json s = JObject
     ([(''abort'', JBool (st_abort s)), (''command'', command_json (st_command s)),
       (''conditions'', JArray (map condition_json (st_conditions s)))] @ optional_field ''delay'' (st_delay s) @
      [(''enabled'', JBool (st_enabled s)), (''id'', jwords (st_id s)),
       (''loop_policy'', JObject [(''iterations'', jnat (st_loopIterations s))]),
       (''metadata'', metadata_json (st_metadata s)), (''name'', JString (st_name s)), (''retry'', jnat (st_retry s)),
       (''retry_policy'', retry_json (st_retryPolicy s)), (''skip'', JBool (st_skip s)),
       (''timeout_ms'', jint (st_timeout s)), (''timeout_policy'', timeout_json (st_timeoutPolicy s))] @
      optional_field ''wait'' (st_wait s))"

definition mission_json :: "mission \<Rightarrow> json" where
  "mission_json m = JObject
     [(''author'', JString (m_author m)), (''description'', JString (m_description m)), (''id'', jwords (m_id m)),
      (''metadata'', metadata_json (m_metadata m)), (''name'', JString (m_name m)),
      (''steps'', JArray (map step_json (m_steps m))), (''version'', JString (m_version m))]"

definition mission_text :: "mission \<Rightarrow> string" where
  "mission_text m = json_print (mission_json m)"

section \<open>Printable missions\<close>

text \<open>The finite values of a binary64 double.\<close>

definition is_double :: "rat \<Rightarrow> bool" where
  "is_double q \<longleftrightarrow> (\<exists>(m :: int) (e :: nat). \<bar>m\<bar> < 2 ^ 53
     \<and> (e \<le> 971 \<and> q = of_int m * 2 ^ e \<or> e \<le> 1074 \<and> q = of_int m / 2 ^ e))"

definition int_ok :: "int \<Rightarrow> bool" where "int_ok i = (- (2 ^ 63) \<le> i \<and> i < 2 ^ 63 \<and> is_double (of_int i))"
definition word_ok :: "u64 \<Rightarrow> bool" where "word_ok w = (uint w \<le> 2 ^ 63 \<and> is_double (of_int (uint w)))"
definition u32_ok :: "nat \<Rightarrow> bool" where "u32_ok n = (n < 2 ^ 32)"
definition text_ok :: "string \<Rightarrow> bool" where "text_ok s = list_all char_ok s"

definition metadata_ok :: "(string \<times> string) list \<Rightarrow> bool" where
  "metadata_ok m = (sorted_wrt (<) (map fst m) \<and> list_all (\<lambda>(k, v). text_ok k \<and> text_ok v) m)"

text \<open>A double with the value of a 64-bit integer is read back as that integer, so it is not printable as a double.\<close>

fun payload_value_ok :: "payload_value \<Rightarrow> bool" where
  "payload_value_ok (PV_Bool b) = True"
| "payload_value_ok (PV_Int i) = int_ok i"
| "payload_value_ok (PV_Double d) = (\<not> IsInteger d \<and> (case d of Fin q \<Rightarrow> is_double q | _ \<Rightarrow> False))"
| "payload_value_ok (PV_String s) = text_ok s"

definition payload_ok :: "(string \<times> payload_value) list \<Rightarrow> bool" where
  "payload_ok p = (sorted_wrt (<) (map fst p) \<and> list_all (\<lambda>(k, v). text_ok k \<and> payload_value_ok v) p)"

text \<open>A document has no time stamps for commands.\<close>

definition command_ok :: "command \<Rightarrow> bool" where
  "command_ok c = (word_ok (cmd_id c) \<and> cmd_timestamp c = 0 \<and> IsKnownCommandType (cmd_type c)
     \<and> IsKnownPriority (cmd_priority c) \<and> int_ok (cmd_timeout c) \<and> payload_ok (cmd_payload c)
     \<and> metadata_ok (cmd_metadata c))"

text \<open>
  A condition has one value in the document, a number or a boolean; the other keeps its default. The number is a
  \<open>float\<close>, which the conversion \<open>tf\<close> from a double leaves alone.
\<close>

definition condition_ok :: "(fl \<Rightarrow> fl) \<Rightarrow> mission_condition \<Rightarrow> bool" where
  "condition_ok tf c = (word_ok (mc_id c) \<and> text_ok (mc_name c) \<and> IsKnownConditionType (mc_type c)
     \<and> IsKnownComparison (mc_comparison c) \<and> IsKnownFailureAction (mc_failureAction c)
     \<and> IsKnownCommandType (mc_commandType c) \<and> - (2 ^ 31) \<le> mc_faultCode c \<and> mc_faultCode c < 2 ^ 31
     \<and> metadata_ok (mc_metadata c)
     \<and> (mc_numericValue c = Fin 0 \<or> mc_boolValue c \<and> tf (mc_numericValue c) = mc_numericValue c
          \<and> (case mc_numericValue c of Fin q \<Rightarrow> is_double q | _ \<Rightarrow> False)))"

definition step_ok :: "(fl \<Rightarrow> fl) \<Rightarrow> mission_step \<Rightarrow> bool" where
  "step_ok tf s = (word_ok (st_id s) \<and> text_ok (st_name s) \<and> command_ok (st_command s) \<and> int_ok (st_timeout s)
     \<and> u32_ok (st_retry s) \<and> u32_ok (rp_maxAttempts (st_retryPolicy s))
     \<and> int_ok (rp_delayBetweenAttempts (st_retryPolicy s)) \<and> u32_ok (st_loopIterations s)
     \<and> int_ok (tp_timeout (st_timeoutPolicy s)) \<and> pred_option int_ok (st_wait s) \<and> pred_option int_ok (st_delay s)
     \<and> list_all (condition_ok tf) (st_conditions s) \<and> metadata_ok (st_metadata s))"

definition mission_ok :: "(fl \<Rightarrow> fl) \<Rightarrow> mission \<Rightarrow> bool" where
  "mission_ok tf m = (word_ok (m_id m) \<and> text_ok (m_name m) \<and> text_ok (m_description m) \<and> text_ok (m_version m)
     \<and> text_ok (m_author m) \<and> metadata_ok (m_metadata m) \<and> list_all (step_ok tf) (m_steps m))"

section \<open>Reading values back\<close>

lemma of_int_le_power: "(of_int i :: rat) \<le> 2 ^ k \<longleftrightarrow> i \<le> 2 ^ k" "- (2 ^ k) \<le> (of_int i :: rat) \<longleftrightarrow> - (2 ^ k) \<le> i"
proof -
  have "(of_int i :: rat) \<le> of_int (2 ^ k) \<longleftrightarrow> i \<le> 2 ^ k" by (rule of_int_le_iff)
  then show "(of_int i :: rat) \<le> 2 ^ k \<longleftrightarrow> i \<le> 2 ^ k" by simp
  have "of_int (- (2 ^ k)) \<le> (of_int i :: rat) \<longleftrightarrow> - (2 ^ k) \<le> i" by (rule of_int_le_iff)
  then show "- (2 ^ k) \<le> (of_int i :: rat) \<longleftrightarrow> - (2 ^ k) \<le> i" by simp
qed

lemma small_double: "\<bar>i\<bar> < 2 ^ 53 \<Longrightarrow> is_double (of_int i)"
  unfolding is_double_def by (rule exI [of _ i], rule exI [of _ 0]) simp

lemma u32_double: "u32_ok n \<Longrightarrow> is_double (of_int (int n))"
  by (rule small_double) (simp add: u32_ok_def)

lemma jint_read:
  assumes "- (2 ^ 63) \<le> i" and "i < 2 ^ 63"
  shows "JsonInt64 (jint i) k = Inr i"
  using assms of_int_le_power(1) [of i 63] of_int_le_power(2) [of 63 i] i64_wrap_id [of i] by (simp add: jint_def JsonInt64_def)

lemma jint_read_unsigned:
  assumes "0 \<le> i" and "i \<le> 2 ^ 63"
  shows "JsonUint64 (jint i) k = Inr i"
proof -
  have "(of_int i :: rat) \<le> of_int (2 ^ 63)" using assms(2) by (rule of_int_le_iff [THEN iffD2])
  then have le: "(of_int i :: rat) \<le> 2 ^ 63" by simp
  have ge: "(0 :: rat) \<le> of_int i" using assms(1) by simp
  from le have "\<not> (2 ^ 64 :: rat) < of_int i" by simp
  moreover from ge have "- (2 ^ 63) \<le> (of_int i :: rat)" by (rule order_trans [rotated]) simp
  ultimately show ?thesis using le ge by (simp add: jint_def JsonUint64_def not_less)
qed

lemma jvalues_read [simp]:
  "u32_ok n \<Longrightarrow> JsonUint32 (jnat n) k = Inr n"
  "word_ok w \<Longrightarrow> JsonUint64 (jwords w) k = Inr (uint w)"
  "int_ok d \<Longrightarrow> JsonInt64 (jint d) k = Inr d"
proof -
  show "JsonUint32 (jnat n) k = Inr n" if "u32_ok n"
    using that jint_read_unsigned [of "int n" k] by (simp add: JsonUint32_def jnat_def u32_ok_def)
  show "JsonUint64 (jwords w) k = Inr (uint w)" if "word_ok w"
    using that jint_read_unsigned [of "uint w" k] by (simp add: jwords_def word_ok_def)
  show "JsonInt64 (jint d) k = Inr d" if "int_ok d"
    using that jint_read [of d k] by (simp add: int_ok_def)
qed

lemma names_read [simp]:
  "IsKnownCommandType t \<Longrightarrow> named CommandTypeFromString m (command_type_toString t) = Inr t"
  "IsKnownPriority p \<Longrightarrow> named PriorityFromString m (command_priority_toString p) = Inr p"
  "IsKnownConditionType ct \<Longrightarrow> named ConditionTypeFromString m (condition_type_toString ct) = Inr ct"
  "IsKnownComparison cp \<Longrightarrow> named ConditionComparisonFromString m (comparison_name cp) = Inr cp"
  "IsKnownFailureAction fa \<Longrightarrow> named FailureActionFromString m (action_name fa) = Inr fa"
proof -
  show "IsKnownCommandType t \<Longrightarrow> named CommandTypeFromString m (command_type_toString t) = Inr t"
    by (cases t) (simp_all add: named_def CommandTypeFromString_def)
  show "IsKnownPriority p \<Longrightarrow> named PriorityFromString m (command_priority_toString p) = Inr p"
    by (cases p) (simp_all add: named_def PriorityFromString_def)
  show "IsKnownConditionType ct \<Longrightarrow> named ConditionTypeFromString m (condition_type_toString ct) = Inr ct"
    by (cases ct) (simp_all add: named_def ConditionTypeFromString_def)
  show "IsKnownComparison cp \<Longrightarrow> named ConditionComparisonFromString m (comparison_name cp) = Inr cp"
    by (cases cp) (simp_all add: named_def ConditionComparisonFromString_def)
  show "IsKnownFailureAction fa \<Longrightarrow> named FailureActionFromString m (action_name fa) = Inr fa"
    by (cases fa) (simp_all add: named_def FailureActionFromString_def)
qed

lemma jaccess [simp]:
  "AsObject (JObject kvs) n = Inr kvs" "AsArray (JArray js) n = Inr js" "JsonString (JString s) n = Inr s"
  "JsonBool (JBool b) n = Inr b"
  by (simp_all add: AsObject_def AsArray_def JsonString_def JsonBool_def)

lemma metadata_read [simp]: "MetadataFromJson k (metadata_json m) = Inr m"
  by (simp add: MetadataFromJson_def metadata_json_def) (induction m; auto)

lemma payload_value_read: "payload_value_ok v \<Longrightarrow> PayloadValueFromJson (payload_value_json v) = Inr v"
proof (cases v)
  case (PV_Int i)
  assume "payload_value_ok v"
  with PV_Int have "- (2 ^ 63) \<le> i" "i < 2 ^ 63" by (simp_all add: int_ok_def)
  with of_int_le_power(1) [of i 63] of_int_le_power(2) [of 63 i] i64_wrap_id [of i] PV_Int show ?thesis
    by (simp add: PayloadValueFromJson_def PayloadValueFromNumber_def jint_def)
qed (simp_all add: PayloadValueFromJson_def PayloadValueFromNumber_def)

lemma payload_read [simp]: "payload_ok p \<Longrightarrow> PayloadFromJson k (payload_json p) = Inr p"
proof -
  have "list_all (\<lambda>(k, v). payload_value_ok v) p \<Longrightarrow>
      pmap (\<lambda>(k, x). pbind (PayloadValueFromJson x) (\<lambda>p. Inr (k, p))) (map (\<lambda>(k, v). (k, payload_value_json v)) p) = Inr p"
    by (induction p) (auto simp: payload_value_read)
  then show "payload_ok p \<Longrightarrow> ?thesis"
    by (auto simp: PayloadFromJson_def payload_json_def payload_ok_def list_all_iff)
qed

lemmas field_defs = RequiredField_def optionally_def OptionalField_def

lemma command_read [simp]: "command_ok c \<Longrightarrow> CommandFromJson (command_json c) = Inr c"
  by (simp add: CommandFromJson_def command_json_def command_ok_def field_defs default_command_def)

lemma policies_read [simp]:
  "u32_ok (rp_maxAttempts rp) \<Longrightarrow> int_ok (rp_delayBetweenAttempts rp) \<Longrightarrow> RetryPolicyFromJson (retry_json rp) = Inr rp"
  "u32_ok n \<Longrightarrow> LoopPolicyFromJson (JObject [(''iterations'', jnat n)]) = Inr n"
  "int_ok (tp_timeout tp) \<Longrightarrow> TimeoutPolicyFromJson (timeout_json tp) = Inr tp"
  "int_ok d \<Longrightarrow> DurationFromJson k (duration_json d) = Inr d"
  by (simp_all add: RetryPolicyFromJson_def LoopPolicyFromJson_def TimeoutPolicyFromJson_def DurationFromJson_def
      retry_json_def timeout_json_def duration_json_def field_defs default_retry_policy_def default_timeout_policy_def)

lemma fault_code_ok: "condition_ok tf c \<Longrightarrow> int_ok (mc_faultCode c)"
  by (auto simp: condition_ok_def int_ok_def intro!: small_double)

lemma condition_read: "condition_ok tf c \<Longrightarrow> ConditionFromJson tf (condition_json c) = Inr c"
proof -
  assume ok: "condition_ok tf c"
  have fault: "JsonInt64 (jint (mc_faultCode c)) k = Inr (mc_faultCode c)" "i32_wrap (mc_faultCode c) = mc_faultCode c" for k
  proof -
    from ok have "int_ok (mc_faultCode c)" by (rule fault_code_ok)
    then show "JsonInt64 (jint (mc_faultCode c)) k = Inr (mc_faultCode c)" by simp
    from ok show "i32_wrap (mc_faultCode c) = mc_faultCode c" by (simp add: condition_ok_def i32_wrap_def)
  qed
  show ?thesis
  proof (cases "mc_numericValue c = Fin 0")
    case True
    with ok fault show ?thesis
      by (simp add: ConditionFromJson_def condition_json_def condition_ok_def field_defs default_condition_def
          ConditionValueFromJson_def)
  next
    case False
    with ok fault show ?thesis
      by (simp add: ConditionFromJson_def condition_json_def condition_ok_def field_defs default_condition_def
          ConditionValueFromJson_def)
  qed
qed

lemma conditions_read [simp]:
  "list_all (condition_ok tf) cs \<Longrightarrow> pmap (ConditionFromJson tf) (map condition_json cs) = Inr cs"
  by (intro pmap_map) (simp add: list_all_iff condition_read)

lemma step_read: "step_ok tf s \<Longrightarrow> StepFromJson tf (step_json s) = Inr s"
  by (cases "st_wait s"; cases "st_delay s")
     (simp_all add: StepFromJson_def step_json_def step_ok_def optional_field_def field_defs default_step_def)

lemma mission_read: "mission_ok tf m \<Longrightarrow> MissionFromJson tf now (mission_json m) = Inr (m\<lparr>m_timestamp := now\<rparr>)"
proof -
  assume ok: "mission_ok tf m"
  then have "pmap (StepFromJson tf) (map step_json (m_steps m)) = Inr (m_steps m)"
    by (intro pmap_map) (simp add: mission_ok_def list_all_iff step_read)
  with ok show ?thesis
    by (simp add: MissionFromJson_def mission_json_def mission_ok_def field_defs default_mission_def)
qed

section \<open>The text is readable\<close>

text \<open>\<open>std::from_chars\<close> reads the decimal text of a double as that double.\<close>

definition exact_chars :: "(string \<Rightarrow> fl option) \<Rightarrow> bool" where
  "exact_chars fc = (\<forall>q. is_double q \<longrightarrow> fc (decimal_text q) = Some (Fin q))"

lemma double_ok: "exact_chars fc \<Longrightarrow> is_double q \<Longrightarrow> json_ok (finite_chars fc) (JNumber (Fin q))"
  by (simp add: number_ok_def exact_chars_def finite_chars_def)

lemma jvalues_ok:
  assumes "exact_chars fc"
  shows "u32_ok n \<Longrightarrow> json_ok (finite_chars fc) (jnat n)"
    and "word_ok w \<Longrightarrow> json_ok (finite_chars fc) (jwords w)"
    and "int_ok d \<Longrightarrow> json_ok (finite_chars fc) (jint d)"
  using double_ok [OF assms] u32_double by (simp_all add: jnat_def jwords_def jint_def word_ok_def int_ok_def)

lemma metadata_json_ok: "metadata_ok m \<Longrightarrow> json_ok fc (metadata_json m)"
  by (auto simp: metadata_ok_def metadata_json_def text_ok_def list_all_iff comp_def case_prod_unfold)

lemma payload_json_ok:
  assumes "exact_chars fc" and "payload_ok p"
  shows "json_ok (finite_chars fc) (payload_json p)"
proof -
  have "json_ok (finite_chars fc) (payload_value_json v)" if "payload_value_ok v" for v
    using that jvalues_ok(3) [OF assms(1)] double_ok [OF assms(1)]
    by (cases v) (auto simp: text_ok_def simp del: json_ok.simps(3) split: fl.splits)
  with assms(2) show ?thesis
    by (auto simp: payload_ok_def payload_json_def text_ok_def list_all_iff comp_def case_prod_unfold)
qed

lemma names_ok [simp]:
  "list_all char_ok (command_type_toString t)" "list_all char_ok (command_priority_toString p)"
  "list_all char_ok (condition_type_toString ct)" "list_all char_ok (comparison_name cp)"
  "list_all char_ok (action_name fa)"
proof -
  show "list_all char_ok (command_type_toString t)" by (cases t) (simp_all add: char_ok_def IsControl_def less_char_def)
  show "list_all char_ok (command_priority_toString p)" by (cases p) (simp_all add: char_ok_def IsControl_def less_char_def)
  show "list_all char_ok (condition_type_toString ct)" by (cases ct) (simp_all add: char_ok_def IsControl_def less_char_def)
  show "list_all char_ok (comparison_name cp)" by (cases cp) (simp_all add: char_ok_def IsControl_def less_char_def)
  show "list_all char_ok (action_name fa)" by (cases fa) (simp_all add: char_ok_def IsControl_def less_char_def)
qed

text \<open>The keys of an object of the document, in order.\<close>

definition keys_printable :: "string list \<Rightarrow> bool" where
  "keys_printable ks = (sorted_wrt (<) ks \<and> list_all (list_all char_ok) ks)"

lemma object_ok:
  "keys_printable (map fst kvs) \<Longrightarrow> (\<And>k v. (k, v) \<in> set kvs \<Longrightarrow> json_ok fc v) \<Longrightarrow> json_ok fc (JObject kvs)"
  by (auto simp: keys_printable_def list_all_iff)

lemma objects_ok:
  assumes "exact_chars fc"
  shows "command_ok c \<Longrightarrow> json_ok (finite_chars fc) (command_json c)"
    and "u32_ok (rp_maxAttempts rp) \<Longrightarrow> int_ok (rp_delayBetweenAttempts rp) \<Longrightarrow> json_ok (finite_chars fc) (retry_json rp)"
    and "int_ok (tp_timeout tp) \<Longrightarrow> json_ok (finite_chars fc) (timeout_json tp)"
    and "int_ok d \<Longrightarrow> json_ok (finite_chars fc) (duration_json d)"
    and "u32_ok n \<Longrightarrow> json_ok (finite_chars fc) (JObject [(''iterations'', jnat n)])"
proof -
  have keys: "keys_printable [''id'', ''metadata'', ''payload'', ''priority'', ''timeout_ms'', ''type'']"
    "keys_printable [''delay_ms'', ''max_attempts'', ''retry_on_failure'', ''retry_on_timeout'']"
    "keys_printable [''abort_on_timeout'', ''timeout_ms'']" "keys_printable [''duration_ms'']" "keys_printable [''iterations'']"
    by code_simp+
  show "json_ok (finite_chars fc) (command_json c)" if "command_ok c"
    unfolding command_json_def
    by (rule object_ok) (use that keys jvalues_ok [OF assms] payload_json_ok [OF assms] metadata_json_ok in
      \<open>auto simp: command_ok_def\<close>)
  show "json_ok (finite_chars fc) (retry_json rp)" if "u32_ok (rp_maxAttempts rp)" "int_ok (rp_delayBetweenAttempts rp)"
    unfolding retry_json_def by (rule object_ok) (use that keys jvalues_ok [OF assms] in auto)
  show "json_ok (finite_chars fc) (timeout_json tp)" if "int_ok (tp_timeout tp)"
    unfolding timeout_json_def by (rule object_ok) (use that keys jvalues_ok [OF assms] in auto)
  show "json_ok (finite_chars fc) (duration_json d)" if "int_ok d"
    unfolding duration_json_def by (rule object_ok) (use that keys jvalues_ok [OF assms] in auto)
  show "json_ok (finite_chars fc) (JObject [(''iterations'', jnat n)])" if "u32_ok n"
    by (rule object_ok) (use that keys jvalues_ok [OF assms] in auto)
qed

lemma condition_json_ok:
  assumes "exact_chars fc" and "condition_ok tf c"
  shows "json_ok (finite_chars fc) (condition_json c)"
proof -
  have keys: "keys_printable [''command_type'', ''comparison'', ''fault_code'', ''id'', ''metadata'', ''name'',
      ''on_failure'', ''type'', ''value'']"
    by code_simp
  from assms(2) have "int_ok (mc_faultCode c)" by (rule fault_code_ok)
  moreover have "json_ok (finite_chars fc) (JNumber (mc_numericValue c))" if "mc_numericValue c \<noteq> Fin 0"
    using that assms double_ok [OF assms(1)] by (auto simp: condition_ok_def simp del: json_ok.simps(3) split: fl.splits)
  ultimately show ?thesis
    unfolding condition_json_def
    by (intro object_ok) (use keys assms jvalues_ok [OF assms(1)] metadata_json_ok in
      \<open>auto simp: condition_ok_def text_ok_def\<close>)
qed

lemma step_json_ok:
  assumes "exact_chars fc" and "step_ok tf s"
  shows "json_ok (finite_chars fc) (step_json s)"
proof -
  let ?a = "[''abort'', ''command'', ''conditions'']"
  let ?b = "[''enabled'', ''id'', ''loop_policy'', ''metadata'', ''name'', ''retry'', ''retry_policy'', ''skip'',
    ''timeout_ms'', ''timeout_policy'']"
  have "keys_printable (?a @ ?b)" "keys_printable (?a @ [''delay''] @ ?b)" "keys_printable (?a @ ?b @ [''wait''])"
    "keys_printable (?a @ [''delay''] @ ?b @ [''wait''])"
    by code_simp+
  then have keys: "keys_printable (?a @ (if d then [''delay''] else []) @ ?b @ (if w then [''wait''] else []))" for d w
    by (cases d; cases w) simp_all
  have "list_all (json_ok (finite_chars fc)) (map condition_json (st_conditions s))"
    using assms condition_json_ok by (auto simp: step_ok_def list_all_iff)
  with assms show ?thesis
    unfolding step_json_def
    by (intro object_ok)
       (use keys [of "st_delay s \<noteq> None" "st_wait s \<noteq> None"] jvalues_ok [OF assms(1)] objects_ok [OF assms(1)]
          metadata_json_ok in
        \<open>auto simp: step_ok_def text_ok_def optional_field_def split: option.splits if_splits\<close>)
qed

lemma mission_json_ok:
  assumes "exact_chars fc" and "mission_ok tf m"
  shows "json_ok (finite_chars fc) (mission_json m)"
proof -
  have keys: "keys_printable [''author'', ''description'', ''id'', ''metadata'', ''name'', ''steps'', ''version'']"
    by code_simp
  have "list_all (json_ok (finite_chars fc)) (map step_json (m_steps m))"
    using assms step_json_ok by (auto simp: mission_ok_def list_all_iff)
  with assms show ?thesis
    unfolding mission_json_def
    by (intro object_ok) (use keys jvalues_ok [OF assms(1)] metadata_json_ok in \<open>auto simp: mission_ok_def text_ok_def\<close>)
qed

lemma mission_text_read:
  assumes "exact_chars fc" and "mission_ok tf m"
  shows "MissionParser_ParseJson fc tf now (mission_text m) =
    Some \<lparr>mpr_mission = m\<lparr>m_timestamp := now\<rparr>, mpr_success = True, mpr_message = ''Mission parsed successfully''\<rparr>"
  using mission_read [OF assms(2)] json_Parse_print [OF mission_json_ok [OF assms]]
  by (simp add: MissionParser_ParseJson_def mission_text_def mission_parse_result_of_def)

end
