(* ===== verification/Mission_Executor.thy ===== *)
theory Mission_Executor
  imports Mission_Model
begin

text \<open>
  The mission executor, \<open>src/mission/MissionExecutor.cpp\<close>. Its state mutex makes every critical section one
  transition. The execution of a step (\<open>ExecuteFlowStep\<close> with its loop, retries and waits) is a machine
  whose program counter stands before the next critical section, or the next call of the evaluator or
  the dispatcher; it is run by the worker thread for each step of the mission and by every
  thread that calls \<open>ExecuteStep\<close>. Clock readings, states of the robot, results of the dispatcher and
  elapsed waits are the inputs of its transitions.
\<close>

section \<open>Steps\<close>

definition IsCommandStep :: "mission_step \<Rightarrow> bool" where
  "IsCommandStep s = (\<not> st_skip s \<and> \<not> st_abort s \<and> st_wait s = None \<and> st_delay s = None)"

definition EffectiveTimeout :: "mission_step \<Rightarrow> time_ms option" where
  "EffectiveTimeout s =
     (let t = (if step_hasTimeout s then Some (st_timeout s) else None) in
      if tp_isEnabled (st_timeoutPolicy s) \<and> (case t of None \<Rightarrow> True | Some x \<Rightarrow> tp_timeout (st_timeoutPolicy s) < x)
      then Some (tp_timeout (st_timeoutPolicy s)) else t)"

definition PrepareCommand :: "time_ns \<Rightarrow> mission_step \<Rightarrow> command" where
  "PrepareCommand now s =
     (let c = (st_command s)\<lparr>cmd_timestamp := now\<rparr> in
      case EffectiveTimeout s of
        Some t \<Rightarrow> if \<not> hasTimeout c \<or> t < cmd_timeout c then c\<lparr>cmd_timeout := t\<rparr> else c
      | None \<Rightarrow> c)"

text \<open>\<open>retry + 1\<close> saturates at the largest 32-bit value.\<close>

definition EffectiveMaxAttempts :: "mission_step \<Rightarrow> nat" where
  "EffectiveMaxAttempts s =
     (let legacy = (if st_retry s = 2 ^ 32 - 1 then st_retry s else st_retry s + 1) in
      if rp_maxAttempts (st_retryPolicy s) > legacy then rp_maxAttempts (st_retryPolicy s) else legacy)"

fun contains_text :: "string \<Rightarrow> string \<Rightarrow> bool" where
  "contains_text p [] = (p = [])"
| "contains_text p (c # s) = (take (length p) (c # s) = p \<or> contains_text p s)"

definition LooksLikeTimeout :: "mission_result \<Rightarrow> bool" where
  "LooksLikeTimeout r = (contains_text ''timeout'' (mr_message r) \<or> contains_text ''timed out'' (mr_message r))"

fun FromCommandResult :: "command_status \<Rightarrow> string \<Rightarrow> mission_result" where
  "FromCommandResult Status_Completed m = MResult MS_Completed m"
| "FromCommandResult Status_Cancelled m = MResult MS_Cancelled m"
| "FromCommandResult (Status_Other _) m = MResult MS_Failed ''Command returned an unknown status''"
| "FromCommandResult _ m = MResult MS_Failed m"

section \<open>Shared state\<close>

record exec_state =
  xs_status :: mission_status
  xs_last_result :: mission_result
  xs_current_step_index :: "nat option"
  xs_current_step_id :: "u64 option"
  xs_current_command_id :: "u64 option"
  xs_pause_requested :: bool
  xs_cancel_requested :: bool
  xs_stop_requested :: bool

definition exec_init :: exec_state where
  "exec_init = \<lparr>xs_status = MS_Pending, xs_last_result = MResult MS_Pending [], xs_current_step_index = None,
     xs_current_step_id = None, xs_current_command_id = None, xs_pause_requested = False,
     xs_cancel_requested = False, xs_stop_requested = False\<rparr>"

definition mx_CancellationRequested :: "exec_state \<Rightarrow> bool" where
  "mx_CancellationRequested x = (xs_cancel_requested x \<or> xs_stop_requested x)"

text \<open>\<open>WaitUntilRunnable\<close>: \<open>None\<close> while it blocks.\<close>

definition WaitUntilRunnable :: "exec_state \<Rightarrow> (bool \<times> exec_state) option" where
  "WaitUntilRunnable x =
     (if xs_pause_requested x \<and> \<not> mx_CancellationRequested x then None
      else if mx_CancellationRequested x then Some (False, x)
      else Some (True, x\<lparr>xs_status := MS_Running,
                         xs_last_result := MResult MS_Running ''Mission execution running''\<rparr>))"

definition mx_Finish :: "mission_status \<Rightarrow> string \<Rightarrow> exec_state \<Rightarrow> exec_state" where
  "mx_Finish st msg x = x\<lparr>xs_status := st, xs_last_result := MResult st msg, xs_current_command_id := None\<rparr>"

section \<open>The execution of a step\<close>

datatype flow =
    FL_Start \<comment> \<open>entry of \<open>ExecuteFlowStep\<close>\<close>
  | FL_Iter nat mission_result \<comment> \<open>head of the loop over iterations, with the result so far\<close>
  | FL_IterWait nat \<comment> \<open>\<open>WaitUntilRunnable\<close> in an iteration\<close>
  | FL_Attempt nat nat \<comment> \<open>head of the loop over attempts\<close>
  | FL_AttemptWait nat nat \<comment> \<open>\<open>WaitUntilRunnable\<close> before an attempt\<close>
  | FL_Once nat nat \<comment> \<open>\<open>ExecuteStepOnce\<close>\<close>
  | FL_Timed nat nat time_ms bool \<comment> \<open>\<open>WaitForDuration\<close> of a timed wait; whether it was short short by the timeout\<close>
  | FL_Result nat nat mission_result \<comment> \<open>after an attempt\<close>
  | FL_RetryWait nat nat \<comment> \<open>\<open>WaitForDuration\<close> before the next attempt\<close>
  | FL_Return mission_result
  | FL_Throw "string option" \<comment> \<open>an exception leaves the call, with its text\<close>

datatype flow_input =
    FI_Go
  | FI_Conditions "nat \<Rightarrow> time_ns \<times> robot_state" \<comment> \<open>clock and state at the evaluation of each condition\<close>
  | FI_Execute time_ns "command_result outcome" \<comment> \<open>clock, and what the dispatcher answers\<close>
  | FI_Elapsed \<comment> \<open>a timed wait is over\<close>

text \<open>\<open>EvaluateStepConditions\<close>, from the \<open>j\<close>-th condition on.\<close>

fun evaluate_conditions ::
  "(nat \<Rightarrow> time_ns \<times> robot_state) \<Rightarrow> condition_evaluator \<Rightarrow> mission_condition list \<Rightarrow> nat \<Rightarrow> mission_result" where
  "evaluate_conditions rs e [] j = MResult MS_Completed ''Mission step conditions satisfied''"
| "evaluate_conditions rs e (c # cs) j =
     (let r = Evaluate (fst (rs j)) (snd (rs j)) e c in
      if cr_Succeeded r then evaluate_conditions rs e cs (Suc j)
      else if mc_failureAction c = FA_Skip then MResult MS_Completed ''Mission step skipped by condition''
      else if cr_evaluated r then MResult MS_Failed ''Mission condition failed''
      else MResult MS_Failed (ev_message (cr_event r)))"

definition EvaluateStepConditions ::
  "(nat \<Rightarrow> time_ns \<times> robot_state) \<Rightarrow> condition_evaluator option \<Rightarrow> mission_step \<Rightarrow> mission_result" where
  "EvaluateStepConditions rs evaluator s =
     (if st_conditions s = [] then MResult MS_Completed ''Mission step conditions satisfied''
      else (case evaluator of
         None \<Rightarrow> MResult MS_Failed ''Mission condition evaluator is unavailable''
       | Some e \<Rightarrow> evaluate_conditions rs e (st_conditions s) 0))"

text \<open>\<open>ExecuteFlowStep\<close> up to the loop.\<close>

definition flow_entry ::
  "bool \<Rightarrow> condition_evaluator option \<Rightarrow> mission_step \<Rightarrow> (nat \<Rightarrow> time_ns \<times> robot_state) \<Rightarrow> flow" where
  "flow_entry has_dispatcher evaluator s rs =
     (if \<not> has_dispatcher then FL_Return (MResult MS_Failed ''Mission executor has no command dispatcher'')
      else if \<not> step_isValid s then FL_Return (MResult MS_Failed ''Mission step is not valid for execution'')
      else if st_skip s then FL_Return (MResult MS_Completed ''Mission step skipped'')
      else if st_abort s then FL_Return (MResult MS_Failed ''Mission step requested abort'')
      else
        (let r = EvaluateStepConditions rs evaluator s in
         if \<not> mr_isSuccess r then FL_Return r
         else if mr_message r = ''Mission step skipped by condition'' then FL_Return r
         else FL_Iter 0 (MResult MS_Completed ''Mission step completed'')))"

text \<open>The result of a command, with the default texts of \<open>ExecuteStepOnce\<close>.\<close>

definition command_outcome :: "command_result \<Rightarrow> mission_result" where
  "command_outcome r =
     (let m = FromCommandResult (res_status r) (res_message r) in
      if mr_message m = [] then
        m\<lparr>mr_message := (if mr_isSuccess m then ''Mission step completed'' else ''Mission step failed'')\<rparr>
      else m)"

text \<open>\<open>ExecuteTimedFlowWait\<close>: how long to wait, and whether the timeout cuts the wait.\<close>

definition timed_wait :: "mission_step \<Rightarrow> time_ms \<Rightarrow> time_ms \<times> bool" where
  "timed_wait s d = (case EffectiveTimeout s of Some t \<Rightarrow> if t < d then (t, True) else (d, False) | None \<Rightarrow> (d, False))"

definition timed_result :: "mission_step \<Rightarrow> bool \<Rightarrow> bool \<Rightarrow> mission_result" where
  "timed_result s short waited =
     (if \<not> waited then MResult MS_Cancelled ''Mission step cancelled during timed wait''
      else if \<not> short then MResult MS_Completed ''Mission timed wait completed''
      else if tp_abortOnTimeout (st_timeoutPolicy s) then MResult MS_Failed ''Mission step timed out''
      else MResult MS_Completed ''Mission step timed out and was skipped'')"

text \<open>
  \<open>WaitForDuration\<close>: a wait of no length only reads the flags; any other ends when its time is over or a
  flag is set. \<open>None\<close> while it blocks.
\<close>

definition WaitForDuration :: "bool \<Rightarrow> time_ms \<Rightarrow> exec_state \<Rightarrow> bool option" where
  "WaitForDuration elapsed d x =
     (if d \<le> 0 then Some (\<not> mx_CancellationRequested x)
      else if mx_CancellationRequested x then Some False
      else if elapsed then Some True else None)"

text \<open>What \<open>ExecuteStepWithRetryPolicy\<close> does with the result of an attempt.\<close>

definition after_attempt :: "mission_step \<Rightarrow> nat \<Rightarrow> nat \<Rightarrow> mission_result \<Rightarrow> flow" where
  "after_attempt s it a r =
     (let leave = (if mr_isSuccess r then FL_Iter (Suc it) r else FL_Return r) in
      if mr_isSuccess r \<or> mr_status r = MS_Cancelled \<or> a + 1 \<ge> EffectiveMaxAttempts s then leave
      else if LooksLikeTimeout r \<and> \<not> rp_retryOnTimeout (st_retryPolicy s) then leave
      else if \<not> LooksLikeTimeout r \<and> \<not> rp_retryOnFailure (st_retryPolicy s) then leave
      else if rp_delayBetweenAttempts (st_retryPolicy s) > 0 then FL_RetryWait it a
      else FL_Attempt it (Suc a))"

text \<open>
  A transition of the machine: the next program counter, the new shared state, and the command handed to
  the dispatcher, if any. \<open>None\<close> when it blocks or the input does not fit.
\<close>

fun flow_step ::
  "bool \<Rightarrow> condition_evaluator option \<Rightarrow> mission_step \<Rightarrow> flow_input \<Rightarrow> flow \<Rightarrow> exec_state
     \<Rightarrow> (flow \<times> exec_state \<times> command option) option" where
  "flow_step dp ce s (FI_Conditions rs) FL_Start x = Some (flow_entry dp ce s rs, x, None)"
| "flow_step dp ce s FI_Go (FL_Iter it r) x =
     (if it \<ge> st_loopIterations s then Some (FL_Return r, x, None)
      else if mx_CancellationRequested x then
        Some (FL_Return (MResult MS_Cancelled ''Mission step cancelled before loop iteration''), x, None)
      else Some (FL_IterWait it, x, None))"
| "flow_step dp ce s FI_Go (FL_IterWait it) x =
     (case WaitUntilRunnable x of
        None \<Rightarrow> None
      | Some (False, x') \<Rightarrow> Some (FL_Return (MResult MS_Cancelled ''Mission step cancelled while paused''), x', None)
      | Some (True, x') \<Rightarrow> Some (FL_Attempt it 0, x', None))"
| "flow_step dp ce s FI_Go (FL_Attempt it a) x =
     (if mx_CancellationRequested x then
        Some (FL_Return (MResult MS_Cancelled ''Mission step cancelled before execution''), x, None)
      else Some (FL_AttemptWait it a, x, None))"
| "flow_step dp ce s FI_Go (FL_AttemptWait it a) x =
     (case WaitUntilRunnable x of
        None \<Rightarrow> None
      | Some (False, x') \<Rightarrow> Some (FL_Return (MResult MS_Cancelled ''Mission step cancelled while paused''), x', None)
      | Some (True, x') \<Rightarrow> Some (FL_Once it a, x', None))"
| "flow_step dp ce s i (FL_Once it a) x =
     (case (st_wait s, st_delay s) of
        (Some d, _) \<Rightarrow> if i = FI_Go then (case timed_wait s d of (t, short) \<Rightarrow> Some (FL_Timed it a t short, x, None)) else None
      | (None, Some d) \<Rightarrow> if i = FI_Go then (case timed_wait s d of (t, short) \<Rightarrow> Some (FL_Timed it a t short, x, None)) else None
      | (None, None) \<Rightarrow>
          (case i of
             FI_Execute now (Returned r) \<Rightarrow> Some (FL_Result it a (command_outcome r), x, Some (PrepareCommand now s))
           | FI_Execute now (ThrewException m) \<Rightarrow> Some (FL_Throw (Some m), x, Some (PrepareCommand now s))
           | FI_Execute now ThrewUnknown \<Rightarrow> Some (FL_Throw None, x, Some (PrepareCommand now s))
           | _ \<Rightarrow> None))"
| "flow_step dp ce s i (FL_Timed it a t short) x =
     (case WaitForDuration (i = FI_Elapsed) t x of
        None \<Rightarrow> None
      | Some waited \<Rightarrow> Some (FL_Result it a (timed_result s short waited), x, None))"
| "flow_step dp ce s FI_Go (FL_Result it a r) x = Some (after_attempt s it a r, x, None)"
| "flow_step dp ce s i (FL_RetryWait it a) x =
     (case WaitForDuration (i = FI_Elapsed) (rp_delayBetweenAttempts (st_retryPolicy s)) x of
        None \<Rightarrow> None
      | Some False \<Rightarrow> Some (FL_Return (MResult MS_Cancelled ''Mission step cancelled before retry''), x, None)
      | Some True \<Rightarrow> Some (FL_Attempt it (Suc a), x, None))"
| "flow_step dp ce s _ _ x = None"

section \<open>The executor\<close>

text \<open>The worker thread's program counter in \<open>RunMission\<close>.\<close>

datatype mx_worker =
    MW_Next nat \<comment> \<open>head of the loop over steps\<close>
  | MW_Begin nat \<comment> \<open>before the current step is recorded\<close>
  | MW_Run nat flow \<comment> \<open>in \<open>ExecuteFlowStep\<close>\<close>
  | MW_Done nat mission_result \<comment> \<open>before the current command is cleared\<close>
  | MW_Check nat mission_result \<comment> \<open>before the cancellation check after a step\<close>
  | MW_Finish mission_status string
  | MW_Exited

text \<open>
  \<open>mx_worker\<close> is \<open>None\<close> when the thread is not joinable. \<open>mx_direct\<close> are the calls of \<open>ExecuteStep\<close> in progress.
  Histories are kept of the commands handed to the dispatcher, by the worker for the mission it runs (with the
  index of the step) and by the calls of \<open>ExecuteStep\<close> (with the position of the call in \<open>mx_direct\<close>), and
  of the results of the steps the worker finished.
\<close>

record mission_executor =
  mx_has_dispatcher :: bool
  mx_evaluator :: "condition_evaluator option"
  mx_state :: exec_state
  mx_mission :: mission
  mx_thread :: "mx_worker option"
  mx_stopping :: bool
  mx_direct :: "(mission_step \<times> flow) list"
  mx_dispatched :: "(nat \<times> command) list"
  mx_direct_dispatched :: "(nat \<times> command) list"
  mx_results :: "(nat \<times> mission_result) list"
  mx_cancelled_commands :: "u64 list"

definition empty_mission :: mission where
  "empty_mission = \<lparr>m_id = 0, m_name = [], m_description = [], m_version = [], m_author = [],
     m_timestamp = 0, m_steps = [], m_metadata = []\<rparr>"

definition mx_create :: "bool \<Rightarrow> condition_evaluator option \<Rightarrow> mission_executor" where
  "mx_create dp ce = \<lparr>mx_has_dispatcher = dp, mx_evaluator = ce, mx_state = exec_init, mx_mission = empty_mission,
     mx_thread = None, mx_stopping = False, mx_direct = [], mx_dispatched = [],
     mx_direct_dispatched = [], mx_results = [], mx_cancelled_commands = []\<rparr>"

text \<open>
  \<open>Start\<close>; it blocks while it joins a worker whose mission is over, and while \<open>Stop\<close> holds the control
  mutex. \<open>spawn\<close> is what the creation of the thread does.
\<close>

definition mx_reset :: "exec_state \<Rightarrow> exec_state" where
  "mx_reset x = x\<lparr>xs_pause_requested := False, xs_cancel_requested := False, xs_stop_requested := False,
     xs_current_step_index := None, xs_current_step_id := None, xs_current_command_id := None,
     xs_status := MS_Running, xs_last_result := MResult MS_Running ''Mission execution started''\<rparr>"

definition mx_spawn_failed :: "string \<Rightarrow> mission_executor \<Rightarrow> mission_executor \<times> mission_result" where
  "mx_spawn_failed msg e =
     (e\<lparr>mx_state := (mx_state e)\<lparr>xs_status := MS_Failed, xs_last_result := MResult MS_Failed msg\<rparr>\<rparr>,
      MResult MS_Failed msg)"

definition mx_Start :: "unit outcome \<Rightarrow> mission \<Rightarrow> mission_executor \<Rightarrow> (mission_executor \<times> mission_result) option" where
  "mx_Start spawn m e =
     (let over = mx_thread e \<noteq> None \<and> mission_isTerminal (xs_status (mx_state e)) in
      if mx_stopping e \<or> over \<and> mx_thread e \<noteq> Some MW_Exited then None
      else
        (let e1 = (if over then e\<lparr>mx_thread := None\<rparr> else e) in
         if \<not> mx_has_dispatcher e then Some (e1, MResult MS_Failed ''Mission executor has no command dispatcher'')
         else if \<not> mission_isValid m then Some (e1, MResult MS_Failed ''Mission is not valid for execution'')
         else if mx_thread e1 \<noteq> None then Some (e1, MResult MS_Failed ''Mission executor is already active'')
         else
           (let e2 = e1\<lparr>mx_state := mx_reset (mx_state e1)\<rparr> in
            case spawn of
              ThrewException w \<Rightarrow> Some (mx_spawn_failed (''Unable to start mission worker: '' @ w) e2)
            | ThrewUnknown \<Rightarrow> Some (mx_spawn_failed ''Unable to start mission worker'' e2)
            | Returned _ \<Rightarrow>
                Some (e2\<lparr>mx_mission := m, mx_thread := Some (MW_Next 0), mx_dispatched := [], mx_results := []\<rparr>,
                      MResult MS_Running ''Mission execution started''))))"

definition mx_Pause :: "mission_executor \<Rightarrow> mission_executor \<times> mission_result" where
  "mx_Pause e =
     (let x = mx_state e in
      if xs_status x = MS_Paused then (e, xs_last_result x)
      else if xs_status x \<noteq> MS_Running then (e, MResult MS_Failed ''Mission is not running'')
      else
        (let r = MResult MS_Paused ''Mission pause requested'' in
         (e\<lparr>mx_state := x\<lparr>xs_pause_requested := True, xs_status := MS_Paused, xs_last_result := r\<rparr>\<rparr>, r)))"

definition mx_Resume :: "mission_executor \<Rightarrow> mission_executor \<times> mission_result" where
  "mx_Resume e =
     (let x = mx_state e in
      if xs_status x \<noteq> MS_Paused then (e, MResult MS_Failed ''Mission is not paused'')
      else
        (let r = MResult MS_Running ''Mission resumed'' in
         (e\<lparr>mx_state := x\<lparr>xs_pause_requested := False, xs_status := MS_Running, xs_last_result := r\<rparr>\<rparr>, r)))"

definition CancelCommandIfPossible :: "u64 option \<Rightarrow> mission_executor \<Rightarrow> mission_executor" where
  "CancelCommandIfPossible c e =
     (case c of
        Some i \<Rightarrow> if mx_has_dispatcher e then e\<lparr>mx_cancelled_commands := mx_cancelled_commands e @ [i]\<rparr> else e
      | None \<Rightarrow> e)"

definition mx_Cancel :: "mission_executor \<Rightarrow> mission_executor \<times> mission_result" where
  "mx_Cancel e =
     (let x = mx_state e in
      if xs_status x = MS_Pending \<or> mission_isTerminal (xs_status x) then
        (e, MResult MS_Failed ''No active mission to cancel'')
      else
        (let r = MResult MS_Cancelled ''Mission cancellation requested'' in
         (CancelCommandIfPossible (xs_current_command_id x)
            (e\<lparr>mx_state := x\<lparr>xs_cancel_requested := True, xs_pause_requested := False,
                xs_status := MS_Cancelled, xs_last_result := r\<rparr>\<rparr>), r)))"

text \<open>\<open>Stop\<close> up to its join (with the result, if it returns at once), and after it.\<close>

definition mx_Stop_begin :: "mission_executor \<Rightarrow> (mission_executor \<times> mission_result option) option" where
  "mx_Stop_begin e =
     (let x = mx_state e in
      if mx_stopping e then None
      else if mx_thread e = None then
        (let x' = (if \<not> mission_isTerminal (xs_status x) then
                     x\<lparr>xs_status := MS_Pending, xs_last_result := MResult MS_Completed ''Mission executor stopped''\<rparr>
                   else x) in
         Some (e\<lparr>mx_state := x'\<rparr>, Some (xs_last_result x')))
      else if mission_isTerminal (xs_status x) then Some (e\<lparr>mx_stopping := True\<rparr>, None)
      else
        Some (CancelCommandIfPossible (xs_current_command_id x)
          (e\<lparr>mx_stopping := True, mx_state := x\<lparr>xs_stop_requested := True, xs_cancel_requested := True,
             xs_pause_requested := False, xs_status := MS_Cancelled,
             xs_last_result := MResult MS_Cancelled ''Mission stop requested''\<rparr>\<rparr>), None))"

definition mx_Stop_end :: "mission_executor \<Rightarrow> (mission_executor \<times> mission_result) option" where
  "mx_Stop_end e =
     (if mx_stopping e \<and> mx_thread e = Some MW_Exited then
        Some (e\<lparr>mx_stopping := False, mx_thread := None\<rparr>, xs_last_result (mx_state e))
      else None)"

text \<open>\<open>RunMission\<close>: one transition of the worker thread.\<close>

definition mx_worker_step :: "flow_input \<Rightarrow> mission_executor \<Rightarrow> mission_executor option" where
  "mx_worker_step i e =
     (let x = mx_state e; steps = m_steps (mx_mission e) in
      case mx_thread e of
        None \<Rightarrow> None
      | Some (MW_Next k) \<Rightarrow>
          if k \<ge> length steps then Some (e\<lparr>mx_thread := Some (MW_Finish MS_Completed ''Mission completed'')\<rparr>)
          else if \<not> st_enabled (steps ! k) then Some (e\<lparr>mx_thread := Some (MW_Next (Suc k))\<rparr>)
          else (case WaitUntilRunnable x of
             None \<Rightarrow> None
           | Some (False, x') \<Rightarrow>
               Some (e\<lparr>mx_state := x', mx_thread := Some (MW_Finish MS_Cancelled ''Mission cancelled before next step'')\<rparr>)
           | Some (True, x') \<Rightarrow> Some (e\<lparr>mx_state := x', mx_thread := Some (MW_Begin k)\<rparr>))
      | Some (MW_Begin k) \<Rightarrow>
          Some (e\<lparr>mx_state := x\<lparr>xs_current_step_index := Some k, xs_current_step_id := Some (st_id (steps ! k)),
                    xs_current_command_id :=
                      (if IsCommandStep (steps ! k) then Some (cmd_id (st_command (steps ! k))) else None)\<rparr>,
                  mx_thread := Some (MW_Run k FL_Start)\<rparr>)
      | Some (MW_Run k (FL_Return r)) \<Rightarrow> Some (e\<lparr>mx_thread := Some (MW_Done k r), mx_results := mx_results e @ [(k, r)]\<rparr>)
      | Some (MW_Run k (FL_Throw (Some m))) \<Rightarrow>
          Some (e\<lparr>mx_thread := Some (MW_Finish MS_Failed (''Mission execution failed: '' @ m))\<rparr>)
      | Some (MW_Run k (FL_Throw None)) \<Rightarrow>
          Some (e\<lparr>mx_thread := Some (MW_Finish MS_Failed ''Mission execution failed with an unknown error'')\<rparr>)
      | Some (MW_Run k f) \<Rightarrow>
          (case flow_step (mx_has_dispatcher e) (mx_evaluator e) (steps ! k) i f x of
             None \<Rightarrow> None
           | Some (f', x', c) \<Rightarrow>
               Some (e\<lparr>mx_state := x', mx_thread := Some (MW_Run k f'),
                       mx_dispatched := mx_dispatched e @ (case c of None \<Rightarrow> [] | Some cmd \<Rightarrow> [(k, cmd)])\<rparr>))
      | Some (MW_Done k r) \<Rightarrow>
          Some (e\<lparr>mx_state := x\<lparr>xs_current_command_id := None\<rparr>, mx_thread := Some (MW_Check k r)\<rparr>)
      | Some (MW_Check k r) \<Rightarrow>
          if mx_CancellationRequested x then
            Some (e\<lparr>mx_thread := Some (MW_Finish MS_Cancelled ''Mission cancelled'')\<rparr>)
          else if \<not> mr_isSuccess r then Some (e\<lparr>mx_thread := Some (MW_Finish MS_Failed (mr_message r))\<rparr>)
          else Some (e\<lparr>mx_thread := Some (MW_Next (Suc k))\<rparr>)
      | Some (MW_Finish st msg) \<Rightarrow> Some (e\<lparr>mx_state := mx_Finish st msg x, mx_thread := Some MW_Exited\<rparr>)
      | Some MW_Exited \<Rightarrow> None)"

text \<open>\<open>ExecuteStep\<close> on a client's thread: the call begins, goes on, and returns.\<close>

definition mx_ExecuteStep :: "mission_step \<Rightarrow> mission_executor \<Rightarrow> mission_executor" where
  "mx_ExecuteStep s e = e\<lparr>mx_direct := mx_direct e @ [(s, FL_Start)]\<rparr>"

definition mx_direct_step :: "nat \<Rightarrow> flow_input \<Rightarrow> mission_executor \<Rightarrow> mission_executor option" where
  "mx_direct_step d i e =
     (if d < length (mx_direct e) then
        (case mx_direct e ! d of
           (s, f) \<Rightarrow>
             (case flow_step (mx_has_dispatcher e) (mx_evaluator e) s i f (mx_state e) of
                None \<Rightarrow> None
              | Some (f', x', c) \<Rightarrow>
                  Some (e\<lparr>mx_state := x', mx_direct := (mx_direct e)[d := (s, f')],
                    mx_direct_dispatched :=
                      mx_direct_dispatched e @ (case c of None \<Rightarrow> [] | Some cmd \<Rightarrow> [(d, cmd)])\<rparr>)))
      else None)"

definition direct_result :: "flow \<Rightarrow> mission_result option" where
  "direct_result f =
     (case f of
        FL_Return r \<Rightarrow> Some r
      | FL_Throw (Some m) \<Rightarrow> Some (MResult MS_Failed (''Mission step execution failed: '' @ m))
      | FL_Throw None \<Rightarrow> Some (MResult MS_Failed ''Mission step execution failed with an unknown error'')
      | _ \<Rightarrow> None)"

section \<open>Interleavings\<close>

datatype mx_event =
    MX_Start "unit outcome" mission | MX_Pause | MX_Resume | MX_Cancel | MX_StopBegin | MX_StopEnd
  | MX_Worker flow_input | MX_ExecuteStep mission_step | MX_Direct nat flow_input

fun mx_apply :: "mx_event \<Rightarrow> mission_executor \<Rightarrow> mission_executor option" where
  "mx_apply (MX_Start b m) e = map_option fst (mx_Start b m e)"
| "mx_apply MX_Pause e = Some (fst (mx_Pause e))"
| "mx_apply MX_Resume e = Some (fst (mx_Resume e))"
| "mx_apply MX_Cancel e = Some (fst (mx_Cancel e))"
| "mx_apply MX_StopBegin e = map_option fst (mx_Stop_begin e)"
| "mx_apply MX_StopEnd e = map_option fst (mx_Stop_end e)"
| "mx_apply (MX_Worker i) e = mx_worker_step i e"
| "mx_apply (MX_ExecuteStep s) e = Some (mx_ExecuteStep s e)"
| "mx_apply (MX_Direct d i) e = mx_direct_step d i e"

inductive mx_reach :: "mx_event list \<Rightarrow> mission_executor \<Rightarrow> mission_executor \<Rightarrow> bool" where
  mx_refl: "mx_reach [] e e"
| mx_step: "mx_reach evs e e1 \<Longrightarrow> mx_apply ev e1 = Some e2 \<Longrightarrow> mx_reach (evs @ [ev]) e e2"

end
