(* ===== verification/Mission_Executor_Inv.thy ===== *)
theory Mission_Executor_Inv
  imports Mission_Executor
begin

text \<open>
  What the transitions of the mission executor keep: the well-formedness of a step in progress, a measure
  that every transition of the worker lowers, a bound on the commands a step hands to the
  dispatcher, and the record of results the worker leaves.
\<close>

section \<open>Measures and well-formedness of a step in progress\<close>

definition iter_left :: "mission_step \<Rightarrow> nat \<Rightarrow> nat" where
  "iter_left s it = (st_loopIterations s - it) * (6 * EffectiveMaxAttempts s + 10)"

text \<open>An upper bound on the transitions left.\<close>

fun flow_left :: "mission_step \<Rightarrow> flow \<Rightarrow> nat" where
  "flow_left s FL_Start = iter_left s 0 + 2"
| "flow_left s (FL_Iter it r) = iter_left s it + 1"
| "flow_left s (FL_IterWait it) = iter_left s (Suc it) + 6 * EffectiveMaxAttempts s + 9"
| "flow_left s (FL_Attempt it a) = iter_left s (Suc it) + 6 * (EffectiveMaxAttempts s - a) + 8"
| "flow_left s (FL_AttemptWait it a) = iter_left s (Suc it) + 6 * (EffectiveMaxAttempts s - a) + 7"
| "flow_left s (FL_Once it a) = iter_left s (Suc it) + 6 * (EffectiveMaxAttempts s - a) + 6"
| "flow_left s (FL_Timed it a t b) = iter_left s (Suc it) + 6 * (EffectiveMaxAttempts s - a) + 5"
| "flow_left s (FL_Result it a r) = iter_left s (Suc it) + 6 * (EffectiveMaxAttempts s - a) + 4"
| "flow_left s (FL_RetryWait it a) = iter_left s (Suc it) + 6 * (EffectiveMaxAttempts s - a) + 3"
| "flow_left s (FL_Return r) = 0"
| "flow_left s (FL_Throw m) = 0"

text \<open>An upper bound on the commands handed to the dispatcher so far.\<close>

fun flow_used :: "mission_step \<Rightarrow> flow \<Rightarrow> nat" where
  "flow_used s FL_Start = 0"
| "flow_used s (FL_Iter it r) = it * EffectiveMaxAttempts s"
| "flow_used s (FL_IterWait it) = it * EffectiveMaxAttempts s"
| "flow_used s (FL_Attempt it a) = it * EffectiveMaxAttempts s + a"
| "flow_used s (FL_AttemptWait it a) = it * EffectiveMaxAttempts s + a"
| "flow_used s (FL_Once it a) = it * EffectiveMaxAttempts s + a"
| "flow_used s (FL_Timed it a t b) = it * EffectiveMaxAttempts s + a + 1"
| "flow_used s (FL_Result it a r) = it * EffectiveMaxAttempts s + a + 1"
| "flow_used s (FL_RetryWait it a) = it * EffectiveMaxAttempts s + a + 1"
| "flow_used s (FL_Return r) = st_loopIterations s * EffectiveMaxAttempts s"
| "flow_used s (FL_Throw m) = st_loopIterations s * EffectiveMaxAttempts s"

definition step_runs :: "mission_step \<Rightarrow> bool" where
  "step_runs s = (step_isValid s \<and> \<not> st_skip s \<and> \<not> st_abort s)"

fun flow_ok :: "mission_step \<Rightarrow> flow \<Rightarrow> bool" where
  "flow_ok s FL_Start = True"
| "flow_ok s (FL_Iter it r) = (step_runs s \<and> it \<le> st_loopIterations s \<and> mr_isSuccess r)"
| "flow_ok s (FL_IterWait it) = (step_runs s \<and> it < st_loopIterations s)"
| "flow_ok s (FL_Attempt it a) = (step_runs s \<and> it < st_loopIterations s \<and> a < EffectiveMaxAttempts s)"
| "flow_ok s (FL_AttemptWait it a) = (step_runs s \<and> it < st_loopIterations s \<and> a < EffectiveMaxAttempts s)"
| "flow_ok s (FL_Once it a) = (step_runs s \<and> it < st_loopIterations s \<and> a < EffectiveMaxAttempts s)"
| "flow_ok s (FL_Timed it a t b) = (step_runs s \<and> it < st_loopIterations s \<and> a < EffectiveMaxAttempts s)"
| "flow_ok s (FL_Result it a r) = (step_runs s \<and> it < st_loopIterations s \<and> a < EffectiveMaxAttempts s)"
| "flow_ok s (FL_RetryWait it a) = (step_runs s \<and> it < st_loopIterations s \<and> Suc a < EffectiveMaxAttempts s)"
| "flow_ok s (FL_Return r) = True"
| "flow_ok s (FL_Throw m) = True"

lemma EffectiveMaxAttempts_pos: "0 < EffectiveMaxAttempts s"
  by (auto simp: EffectiveMaxAttempts_def Let_def)

lemma iter_left_Suc:
  "it < st_loopIterations s \<Longrightarrow> iter_left s it = iter_left s (Suc it) + 6 * EffectiveMaxAttempts s + 10"
  by (simp add: iter_left_def Suc_diff_Suc [symmetric])

lemma used_le:
  assumes "it < (L :: nat)" and "a < A"
  shows "it * A + a + 1 \<le> L * A"
proof -
  have "it * A + a + 1 \<le> Suc it * A" using assms by simp
  also have "\<dots> \<le> L * A" using assms by (intro mult_le_mono1) simp
  finally show ?thesis .
qed

lemmas flow_splits = if_splits option.splits prod.splits bool.splits outcome.splits flow_input.splits

lemma flow_entry_ok:
  shows "flow_ok s (flow_entry d ce s rs)"
    and "flow_left s (flow_entry d ce s rs) < flow_left s FL_Start"
  by (auto simp: flow_entry_def step_runs_def Let_def MResult_def mr_isSuccess_def)

lemma after_attempt_ok:
  assumes "step_runs s" and "it < st_loopIterations s" and "a < EffectiveMaxAttempts s"
  shows "flow_ok s (after_attempt s it a r)"
    and "flow_left s (after_attempt s it a r) < flow_left s (FL_Result it a r)"
    and "flow_used s (FL_Result it a r) \<le> flow_used s (after_attempt s it a r)"
  using assms used_le [of it "st_loopIterations s" a "EffectiveMaxAttempts s"]
  by (auto simp: after_attempt_def Let_def not_le)

lemma flow_step_ok:
  assumes "flow_step d ce s i f x = Some (f', x', c)" and "flow_ok s f"
  shows "flow_ok s f'"
  using assms EffectiveMaxAttempts_pos [of s]
  by (cases f; cases i) (auto simp: flow_entry_ok after_attempt_ok split: flow_splits)

lemma flow_step_left:
  assumes "flow_step d ce s i f x = Some (f', x', c)" and "flow_ok s f"
  shows "flow_left s f' < flow_left s f"
  using assms
  by (cases f; cases i)
     (use flow_entry_ok(2) after_attempt_ok(2) in
       \<open>auto simp: iter_left_Suc not_le split: flow_splits\<close>)

lemma flow_step_used:
  assumes "flow_step d ce s i f x = Some (f', x', c)" and "flow_ok s f"
  shows "flow_used s f + (if c = None then 0 else 1) \<le> flow_used s f'"
  using assms used_le [of _ "st_loopIterations s" _ "EffectiveMaxAttempts s"]
  by (cases f; cases i) (use after_attempt_ok(3) in \<open>auto intro: Suc_leD split: flow_splits\<close>)

lemma flow_step_dispatch:
  assumes "flow_step d ce s i f x = Some (f', x', Some cmd)"
  shows "\<exists>it a now. f = FL_Once it a \<and> cmd = PrepareCommand now s \<and> st_wait s = None \<and> st_delay s = None"
  using assms by (cases f; cases i) (auto split: flow_splits)

text \<open>The shared state changes only where a wait for permission ends with it.\<close>

lemma flow_step_state:
  assumes "flow_step d ce s i f x = Some (f', x', c)"
  shows "x' = x \<or> WaitUntilRunnable x = Some (True, x')"
  using assms by (cases f; cases i) (auto simp: WaitUntilRunnable_def split: flow_splits)

lemma WaitUntilRunnable_True:
  "WaitUntilRunnable x = Some (True, x') \<longleftrightarrow>
     \<not> xs_pause_requested x \<and> \<not> mx_CancellationRequested x
     \<and> x' = x\<lparr>xs_status := MS_Running, xs_last_result := MResult MS_Running ''Mission execution running''\<rparr>"
  by (auto simp: WaitUntilRunnable_def)

lemma WaitUntilRunnable_False:
  "WaitUntilRunnable x = Some (False, x') \<longleftrightarrow> mx_CancellationRequested x \<and> x' = x"
  by (auto simp: WaitUntilRunnable_def)

text \<open>While the executor is halted nothing but an attempt already past its last check goes on to the dispatcher.\<close>

definition mx_halted :: "exec_state \<Rightarrow> bool" where
  "mx_halted x = (xs_pause_requested x \<or> mx_CancellationRequested x)"

fun at_dispatch :: "flow \<Rightarrow> bool" where
  "at_dispatch (FL_Once it a) = True"
| "at_dispatch _ = False"

lemma after_attempt_not_dispatch: "\<not> at_dispatch (after_attempt s it a r)"
  by (auto simp: after_attempt_def Let_def)

lemma flow_entry_not_dispatch: "\<not> at_dispatch (flow_entry d ce s rs)"
  by (auto simp: flow_entry_def Let_def)

lemma flow_step_halted:
  assumes "flow_step d ce s i f x = Some (f', x', c)" and "mx_halted x"
  shows "\<not> at_dispatch f'" and "x' = x"
  using assms
  by (cases f; cases i;
      auto simp: WaitUntilRunnable_def mx_halted_def after_attempt_not_dispatch flow_entry_not_dispatch
        split: flow_splits)+

text \<open>A step in progress can always go on, unless it is paused.\<close>

lemma flow_progress:
  assumes "flow_left s f \<noteq> 0" and "\<not> xs_pause_requested x \<or> mx_CancellationRequested x"
  shows "\<exists>i. flow_step d ce s i f x \<noteq> None"
proof (cases f)
  case FL_Start
  then show ?thesis by (intro exI [of _ "FI_Conditions (\<lambda>_. undefined)"]) simp
next
  case (FL_Once it a)
  show ?thesis
  proof (cases "st_wait s = None \<and> st_delay s = None")
    case True
    with FL_Once show ?thesis by (intro exI [of _ "FI_Execute 0 ThrewUnknown"]) simp
  next
    case False
    with FL_Once show ?thesis by (intro exI [of _ FI_Go]) (auto split: flow_splits)
  qed
next
  case (FL_Timed it a t b)
  then show ?thesis by (intro exI [of _ FI_Elapsed]) (auto simp: WaitForDuration_def)
next
  case (FL_RetryWait it a)
  then show ?thesis by (intro exI [of _ FI_Elapsed]) (auto simp: WaitForDuration_def)
qed (use assms in \<open>auto intro!: exI [of _ FI_Go] simp: WaitUntilRunnable_def split: flow_splits\<close>)

section \<open>The worker\<close>

definition steps_left :: "mission_step list \<Rightarrow> nat" where
  "steps_left ss = sum_list (map (\<lambda>s. flow_left s FL_Start + 7) ss)"

text \<open>An upper bound on the transitions the worker has left.\<close>

fun worker_left :: "mission_step list \<Rightarrow> mx_worker \<Rightarrow> nat" where
  "worker_left ss (MW_Next k) = steps_left (drop k ss) + 2"
| "worker_left ss (MW_Begin k) = steps_left (drop (Suc k) ss) + flow_left (ss ! k) FL_Start + 6"
| "worker_left ss (MW_Run k f) = steps_left (drop (Suc k) ss) + flow_left (ss ! k) f + 5"
| "worker_left ss (MW_Done k r) = steps_left (drop (Suc k) ss) + 4"
| "worker_left ss (MW_Check k r) = steps_left (drop (Suc k) ss) + 3"
| "worker_left ss (MW_Finish st m) = 1"
| "worker_left ss MW_Exited = 0"

definition enabled_upto :: "mission_step list \<Rightarrow> nat \<Rightarrow> nat list" where
  "enabled_upto ss k = filter (\<lambda>j. st_enabled (ss ! j)) [0..<k]"

definition succeeded :: "(nat \<times> mission_result) list \<Rightarrow> bool" where
  "succeeded rs = list_all (\<lambda>p. mr_isSuccess (snd p)) rs"

definition all_done :: "mission_step list \<Rightarrow> (nat \<times> mission_result) list \<Rightarrow> bool" where
  "all_done ss rs = (map fst rs = enabled_upto ss (length ss) \<and> succeeded rs)"

text \<open>The record of results, by the place of the worker.\<close>

fun worker_ok :: "mission_step list \<Rightarrow> (nat \<times> mission_result) list \<Rightarrow> mission_status \<Rightarrow> mx_worker \<Rightarrow> bool" where
  "worker_ok ss rs st (MW_Next k) = (k \<le> length ss \<and> map fst rs = enabled_upto ss k \<and> succeeded rs)"
| "worker_ok ss rs st (MW_Begin k) =
     (k < length ss \<and> st_enabled (ss ! k) \<and> map fst rs = enabled_upto ss k \<and> succeeded rs)"
| "worker_ok ss rs st (MW_Run k f) =
     (k < length ss \<and> st_enabled (ss ! k) \<and> map fst rs = enabled_upto ss k \<and> succeeded rs \<and> flow_ok (ss ! k) f)"
| "worker_ok ss rs st (MW_Done k r) =
     (k < length ss \<and> st_enabled (ss ! k)
      \<and> (\<exists>rs0. rs = rs0 @ [(k, r)] \<and> map fst rs0 = enabled_upto ss k \<and> succeeded rs0))"
| "worker_ok ss rs st (MW_Check k r) =
     (k < length ss \<and> st_enabled (ss ! k)
      \<and> (\<exists>rs0. rs = rs0 @ [(k, r)] \<and> map fst rs0 = enabled_upto ss k \<and> succeeded rs0))"
| "worker_ok ss rs st (MW_Finish st' m) =
     (mission_isTerminal st' \<and> (st' = MS_Completed \<longrightarrow> all_done ss rs))"
| "worker_ok ss rs st MW_Exited = (st = MS_Completed \<longrightarrow> all_done ss rs)"

definition dispatch_count :: "nat \<Rightarrow> (nat \<times> command) list \<Rightarrow> nat" where
  "dispatch_count j ds = length (filter (\<lambda>p. fst p = j) ds)"

definition step_limit :: "mission_step \<Rightarrow> nat" where
  "step_limit s = st_loopIterations s * EffectiveMaxAttempts s"

text \<open>What is handed to the dispatcher, in order, and how often.\<close>

definition dispatch_ok :: "mission_step list \<Rightarrow> (nat \<times> command) list \<Rightarrow> bool" where
  "dispatch_ok ss ds =
     (sorted (map fst ds) \<and> (\<forall>(j, c) \<in> set ds. j < length ss \<and> st_enabled (ss ! j) \<and> step_isValid (ss ! j)
        \<and> IsCommandStep (ss ! j) \<and> (\<exists>now. c = PrepareCommand now (ss ! j)) \<and> dispatch_count j ds \<le> step_limit (ss ! j)))"

fun dispatch_at :: "mission_step list \<Rightarrow> (nat \<times> command) list \<Rightarrow> mx_worker \<Rightarrow> bool" where
  "dispatch_at ss ds (MW_Next k) = (\<forall>j \<in> fst ` set ds. j < k)"
| "dispatch_at ss ds (MW_Begin k) = (\<forall>j \<in> fst ` set ds. j < k)"
| "dispatch_at ss ds (MW_Run k f) = ((\<forall>j \<in> fst ` set ds. j \<le> k) \<and> dispatch_count k ds \<le> flow_used (ss ! k) f)"
| "dispatch_at ss ds (MW_Done k r) = (\<forall>j \<in> fst ` set ds. j \<le> k)"
| "dispatch_at ss ds (MW_Check k r) = (\<forall>j \<in> fst ` set ds. j \<le> k)"
| "dispatch_at ss ds _ = True"

definition mx_inv :: "mission_executor \<Rightarrow> bool" where
  "mx_inv e =
     (dispatch_ok (m_steps (mx_mission e)) (mx_dispatched e)
      \<and> (\<forall>w. mx_thread e = Some w \<longrightarrow>
           worker_ok (m_steps (mx_mission e)) (mx_results e) (xs_status (mx_state e)) w
           \<and> dispatch_at (m_steps (mx_mission e)) (mx_dispatched e) w))"

lemma dispatch_count_simps [simp]:
  "dispatch_count j [] = 0"
  "dispatch_count j (ds @ [(k, c)]) = dispatch_count j ds + (if k = j then 1 else 0)"
  by (simp_all add: dispatch_count_def)

lemma dispatch_count_0: "\<forall>j \<in> fst ` set ds. j < k \<Longrightarrow> dispatch_count k ds = 0"
  by (auto simp: dispatch_count_def filter_empty_conv)

lemma enabled_upto_Suc:
  "enabled_upto ss (Suc k) = enabled_upto ss k @ (if st_enabled (ss ! k) then [k] else [])"
  by (simp add: enabled_upto_def)

lemma succeeded_append [simp]: "succeeded (rs @ [(k, r)]) \<longleftrightarrow> succeeded rs \<and> mr_isSuccess r"
  by (auto simp: succeeded_def)

lemma steps_left_drop:
  "k < length ss \<Longrightarrow> steps_left (drop k ss) = flow_left (ss ! k) FL_Start + 7 + steps_left (drop (Suc k) ss)"
  by (simp add: steps_left_def Cons_nth_drop_Suc [symmetric])

lemma flow_used_le: "flow_ok s f \<Longrightarrow> flow_used s f \<le> step_limit s"
  using used_le [of _ "st_loopIterations s" _ "EffectiveMaxAttempts s"]
  by (cases f) (auto simp: step_limit_def intro: Suc_leD less_imp_le)

text \<open>One more command of the step in progress.\<close>

lemma dispatch_ok_snoc:
  assumes "dispatch_ok ss ds" and "\<forall>j \<in> fst ` set ds. j \<le> k" and "k < length ss" "st_enabled (ss ! k)"
    "step_isValid (ss ! k)" "IsCommandStep (ss ! k)" and "Suc (dispatch_count k ds) \<le> step_limit (ss ! k)"
  shows "dispatch_ok ss (ds @ [(k, PrepareCommand now (ss ! k))])"
  using assms by (auto simp: dispatch_ok_def sorted_append)

text \<open>The transitions of the worker, one by one.\<close>

lemma worker_run:
  assumes "mx_thread e = Some (MW_Run k f)" and "flow_left (m_steps (mx_mission e) ! k) f \<noteq> 0"
  shows "mx_worker_step i e =
     (case flow_step (mx_has_dispatcher e) (mx_evaluator e) (m_steps (mx_mission e) ! k) i f (mx_state e) of
        None \<Rightarrow> None
      | Some (f', x', c) \<Rightarrow>
          Some (e\<lparr>mx_state := x', mx_thread := Some (MW_Run k f'),
                  mx_dispatched := mx_dispatched e @ (case c of None \<Rightarrow> [] | Some cmd \<Rightarrow> [(k, cmd)])\<rparr>))"
  using assms by (cases f) (simp_all add: mx_worker_step_def Let_def del: flow_step.simps)

lemma mx_worker_step_cases [consumes 1, case_names last disabled refused started recorded returned thrown flow cleared
    cancelled failed passed finished]:
  assumes "mx_worker_step i e = Some e'"
  obtains
    k where "mx_thread e = Some (MW_Next k)" "length (m_steps (mx_mission e)) \<le> k"
      "e' = e\<lparr>mx_thread := Some (MW_Finish MS_Completed ''Mission completed'')\<rparr>"
  | k where "mx_thread e = Some (MW_Next k)" "k < length (m_steps (mx_mission e))"
      "\<not> st_enabled (m_steps (mx_mission e) ! k)" "e' = e\<lparr>mx_thread := Some (MW_Next (Suc k))\<rparr>"
  | k where "mx_thread e = Some (MW_Next k)" "k < length (m_steps (mx_mission e))"
      "mx_CancellationRequested (mx_state e)"
      "e' = e\<lparr>mx_thread := Some (MW_Finish MS_Cancelled ''Mission cancelled before next step'')\<rparr>"
  | k x' where "mx_thread e = Some (MW_Next k)" "k < length (m_steps (mx_mission e))"
      "st_enabled (m_steps (mx_mission e) ! k)" "WaitUntilRunnable (mx_state e) = Some (True, x')"
      "e' = e\<lparr>mx_state := x', mx_thread := Some (MW_Begin k)\<rparr>"
  | k x' where "mx_thread e = Some (MW_Begin k)" "xs_status x' = xs_status (mx_state e)"
      "xs_pause_requested x' = xs_pause_requested (mx_state e)"
      "mx_CancellationRequested x' = mx_CancellationRequested (mx_state e)"
      "e' = e\<lparr>mx_state := x', mx_thread := Some (MW_Run k FL_Start)\<rparr>"
  | k r where "mx_thread e = Some (MW_Run k (FL_Return r))"
      "e' = e\<lparr>mx_thread := Some (MW_Done k r), mx_results := mx_results e @ [(k, r)]\<rparr>"
  | k m msg where "mx_thread e = Some (MW_Run k (FL_Throw m))"
      "e' = e\<lparr>mx_thread := Some (MW_Finish MS_Failed msg)\<rparr>"
  | k f f' x' c where "mx_thread e = Some (MW_Run k f)" "flow_left (m_steps (mx_mission e) ! k) f \<noteq> 0"
      "flow_step (mx_has_dispatcher e) (mx_evaluator e) (m_steps (mx_mission e) ! k) i f (mx_state e) = Some (f', x', c)"
      "e' = e\<lparr>mx_state := x', mx_thread := Some (MW_Run k f'),
              mx_dispatched := mx_dispatched e @ (case c of None \<Rightarrow> [] | Some cmd \<Rightarrow> [(k, cmd)])\<rparr>"
  | k r x' where "mx_thread e = Some (MW_Done k r)" "xs_status x' = xs_status (mx_state e)"
      "xs_pause_requested x' = xs_pause_requested (mx_state e)"
      "mx_CancellationRequested x' = mx_CancellationRequested (mx_state e)"
      "e' = e\<lparr>mx_state := x', mx_thread := Some (MW_Check k r)\<rparr>"
  | k r where "mx_thread e = Some (MW_Check k r)" "mx_CancellationRequested (mx_state e)"
      "e' = e\<lparr>mx_thread := Some (MW_Finish MS_Cancelled ''Mission cancelled'')\<rparr>"
  | k r where "mx_thread e = Some (MW_Check k r)" "\<not> mx_CancellationRequested (mx_state e)" "\<not> mr_isSuccess r"
      "e' = e\<lparr>mx_thread := Some (MW_Finish MS_Failed (mr_message r))\<rparr>"
  | k r where "mx_thread e = Some (MW_Check k r)" "\<not> mx_CancellationRequested (mx_state e)" "mr_isSuccess r"
      "e' = e\<lparr>mx_thread := Some (MW_Next (Suc k))\<rparr>"
  | st msg where "mx_thread e = Some (MW_Finish st msg)"
      "e' = e\<lparr>mx_state := mx_Finish st msg (mx_state e), mx_thread := Some MW_Exited\<rparr>"
proof -
  from assms obtain w where w: "mx_thread e = Some w" by (cases "mx_thread e") (auto simp: mx_worker_step_def)
  show thesis
  proof (cases w)
    case (MW_Next k)
    with w assms show thesis
      by (cases "WaitUntilRunnable (mx_state e)")
         (auto simp: mx_worker_step_def Let_def WaitUntilRunnable_False not_le
           split: if_splits prod.splits bool.splits intro: that(1-4))
  next
    case (MW_Begin k)
    with w assms show thesis
      by (intro that(5) [of k "mx_state e'"]) (auto simp: mx_worker_step_def Let_def mx_CancellationRequested_def)
  next
    case (MW_Run k f)
    show thesis
    proof (cases "flow_left (m_steps (mx_mission e) ! k) f = 0")
      case False
      with w MW_Run assms show thesis
        by (auto simp: worker_run split: option.splits prod.splits intro!: that(8))
    next
      case True
      with w MW_Run assms show thesis
        by (cases f) (auto simp: mx_worker_step_def split: option.splits intro: that(6,7))
    qed
  next
    case (MW_Done k r)
    with w assms show thesis
      by (intro that(9) [of k r "mx_state e'"]) (auto simp: mx_worker_step_def Let_def mx_CancellationRequested_def)
  next
    case (MW_Check k r)
    with w assms show thesis
      by (auto simp: mx_worker_step_def Let_def split: if_splits intro: that(10-12))
  next
    case (MW_Finish st msg)
    with w assms show thesis by (auto simp: mx_worker_step_def intro: that(13))
  next
    case MW_Exited
    with w assms show thesis by (simp add: mx_worker_step_def)
  qed
qed

lemma worker_step_frame:
  assumes "mx_worker_step i e = Some e'"
  shows "mx_mission e' = mx_mission e" and "mx_stopping e' = mx_stopping e" and "mx_direct e' = mx_direct e"
  using assms by (cases rule: mx_worker_step_cases; simp)+

lemma worker_step_left:
  assumes "mx_worker_step i e = Some e'" and "mx_inv e"
  shows "\<exists>w w'. mx_thread e = Some w \<and> mx_thread e' = Some w'
    \<and> worker_left (m_steps (mx_mission e)) w' < worker_left (m_steps (mx_mission e)) w"
  using assms(1)
proof (cases rule: mx_worker_step_cases)
  case (flow k f f' x' c)
  with assms(2) show ?thesis by (auto simp: mx_inv_def dest: flow_step_left)
qed (auto simp: steps_left_drop simp del: flow_left.simps)

lemma worker_step_results:
  assumes "mx_worker_step i e = Some e'" and "mx_thread e = Some w"
    and "worker_ok (m_steps (mx_mission e)) (mx_results e) (xs_status (mx_state e)) w"
  shows "\<exists>w'. mx_thread e' = Some w'
    \<and> worker_ok (m_steps (mx_mission e)) (mx_results e') (xs_status (mx_state e')) w'"
  using assms(1)
proof (cases rule: mx_worker_step_cases)
  case (flow k f f' x' c)
  with assms show ?thesis by (auto dest: flow_step_ok)
qed (use assms(2,3) in \<open>auto simp: all_done_def enabled_upto_Suc mx_Finish_def\<close>)

lemma worker_step_dispatched:
  assumes "mx_worker_step i e = Some e'" and "mx_inv e"
  shows "dispatch_ok (m_steps (mx_mission e)) (mx_dispatched e')
    \<and> (\<forall>w'. mx_thread e' = Some w' \<longrightarrow> dispatch_at (m_steps (mx_mission e)) (mx_dispatched e') w')"
  using assms(1)
proof (cases rule: mx_worker_step_cases)
  case (flow k f f' x' c)
  let ?s = "m_steps (mx_mission e) ! k"
  from flow assms(2) have inv: "dispatch_ok (m_steps (mx_mission e)) (mx_dispatched e)" "flow_ok ?s f"
    "\<forall>j \<in> fst ` set (mx_dispatched e). j \<le> k" "dispatch_count k (mx_dispatched e) \<le> flow_used ?s f"
    "k < length (m_steps (mx_mission e))" "st_enabled ?s"
    by (auto simp: mx_inv_def)
  note used = flow_step_used [OF flow(3) inv(2)]
  show ?thesis
  proof (cases c)
    case None
    with flow used inv show ?thesis by auto
  next
    case (Some cmd)
    with flow(3) obtain it a now where once: "f = FL_Once it a" "cmd = PrepareCommand now ?s" "st_wait ?s = None"
        "st_delay ?s = None"
      using flow_step_dispatch by blast
    then have "step_isValid ?s" "IsCommandStep ?s" using inv(2) by (auto simp: step_runs_def IsCommandStep_def)
    moreover have "Suc (dispatch_count k (mx_dispatched e)) \<le> step_limit ?s"
      using used inv(4) flow_used_le [OF flow_step_ok [OF flow(3) inv(2)]] Some by simp
    ultimately have "dispatch_ok (m_steps (mx_mission e)) (mx_dispatched e @ [(k, cmd)])"
      using dispatch_ok_snoc inv once(2) by blast
    with flow used inv Some show ?thesis by auto
  qed
qed (use assms(2) in \<open>auto simp: mx_inv_def dispatch_count_0 less_Suc_eq_le\<close>)

lemma worker_step_inv:
  assumes "mx_worker_step i e = Some e'" and "mx_inv e"
  shows "mx_inv e'"
proof -
  from worker_step_left [OF assms] obtain w where "mx_thread e = Some w" by blast
  with worker_step_results [OF assms(1), of w] worker_step_dispatched [OF assms] assms(2) show ?thesis
    by (auto simp: mx_inv_def worker_step_frame [OF assms(1)])
qed

end
