(* ===== verification/Mission_Executor_Props.thy ===== *)
theory Mission_Executor_Props
  imports Mission_Executor_Inv
begin

text \<open>
  Properties of the mission executor under any interleaving of its worker with the calls of clients.
\<close>

section \<open>Clients' calls\<close>

fun is_start :: "mx_event \<Rightarrow> bool" where
  "is_start (MX_Start s m) = True"
| "is_start _ = False"

fun is_worker :: "mx_event \<Rightarrow> bool" where
  "is_worker (MX_Worker i) = True"
| "is_worker _ = False"

lemma direct_step_cases:
  assumes "mx_direct_step j i e = Some e'"
  obtains s f f' x' c where "j < length (mx_direct e)" "mx_direct e ! j = (s, f)"
    "flow_step (mx_has_dispatcher e) (mx_evaluator e) s i f (mx_state e) = Some (f', x', c)"
    "e' = e\<lparr>mx_state := x', mx_direct := (mx_direct e)[j := (s, f')],
       mx_direct_dispatched := mx_direct_dispatched e @ (case c of None \<Rightarrow> [] | Some cmd \<Rightarrow> [(j, cmd)])\<rparr>"
  using assms by (auto simp: mx_direct_step_def split: if_splits prod.splits option.splits)

lemma direct_step_frame:
  assumes "mx_apply (MX_Direct d i) e = Some e'"
  obtains x' ds cs where "e' = e\<lparr>mx_state := x', mx_direct := ds, mx_direct_dispatched := cs\<rparr>"
    "x' = mx_state e \<or> WaitUntilRunnable (mx_state e) = Some (True, x')"
proof -
  from assms have "mx_direct_step d i e = Some e'" by simp
  then show thesis
  proof (cases rule: direct_step_cases)
    case (1 s f f' x' c)
    show thesis by (rule that [OF 1(4) flow_step_state [OF 1(3)]])
  qed
qed

lemmas client_defs = mx_Pause_def mx_Resume_def mx_Cancel_def mx_Stop_begin_def mx_Stop_end_def mx_ExecuteStep_def
  CancelCommandIfPossible_def Let_def

text \<open>
  A call other than \<open>Start\<close> leaves the worker's records alone and never makes a mission complete.
\<close>

lemma client_frame:
  assumes "mx_apply ev e = Some e'" and "\<not> is_start ev" and "\<not> is_worker ev"
  shows "mx_mission e' = mx_mission e \<and> mx_dispatched e' = mx_dispatched e \<and> mx_results e' = mx_results e
    \<and> (mx_thread e' = mx_thread e \<or> mx_thread e' = None)
    \<and> (xs_status (mx_state e') = MS_Completed \<longrightarrow> xs_status (mx_state e) = MS_Completed)"
proof (cases ev)
  case (MX_Direct d i)
  with assms(1) show ?thesis by (auto simp: WaitUntilRunnable_True simp del: mx_apply.simps elim!: direct_step_frame)
qed (use assms in \<open>auto simp: client_defs MResult_def split: if_splits option.splits\<close>)

lemma client_cancelled:
  assumes "mx_apply ev e = Some e'" and "\<not> is_start ev" and "mx_CancellationRequested (mx_state e)"
  shows "mx_CancellationRequested (mx_state e')"
proof (cases ev)
  case (MX_Direct d i)
  with assms(1,3) show ?thesis
    by (auto simp: WaitUntilRunnable_True simp del: mx_apply.simps elim!: direct_step_frame)
next
  case (MX_Worker i)
  with assms(1) have "mx_worker_step i e = Some e'" by simp
  then show ?thesis
  proof (cases rule: mx_worker_step_cases)
    case (flow k f f' x' c)
    with assms(3) show ?thesis using flow_step_state [OF flow(3)] by (auto simp: WaitUntilRunnable_True)
  qed (use assms(3) in \<open>auto simp: WaitUntilRunnable_True mx_Finish_def mx_CancellationRequested_def\<close>)
qed (use assms in \<open>auto simp: client_defs mx_CancellationRequested_def split: if_splits option.splits\<close>)

lemma start_inv:
  assumes "mx_Start spawn m e = Some (e', r)" and "mx_inv e"
  shows "mx_inv e'"
  using assms
  by (auto simp: mx_Start_def mx_spawn_failed_def mx_inv_def dispatch_ok_def enabled_upto_def succeeded_def Let_def
      split: if_splits outcome.splits)

lemma apply_inv:
  assumes "mx_apply ev e = Some e'" and "mx_inv e"
  shows "mx_inv e'"
proof (cases "is_start ev \<or> is_worker ev")
  case True
  with assms show ?thesis by (cases ev) (auto dest: start_inv worker_step_inv)
next
  case False
  then have "\<not> is_start ev" "\<not> is_worker ev" by auto
  from client_frame [OF assms(1) this] assms(2) show ?thesis
    by (auto simp: mx_inv_def) (case_tac w; auto)+
qed

lemma reach_inv:
  assumes "mx_reach evs e e'" and "mx_inv e"
  shows "mx_inv e'"
  using assms by (induction rule: mx_reach.induct) (auto intro: apply_inv)

lemma create_inv: "mx_inv (mx_create d ce)"
  by (simp add: mx_create_def mx_inv_def dispatch_ok_def)

section \<open>Completion and dispatch\<close>

text \<open>
  C14. Whatever clients do meanwhile, a mission whose worker exited with the status Completed ran every
  enabled step, in the order of the mission, each exactly once, and every one of them succeeded.
\<close>

theorem mx_completed_ran_all:
  assumes "mx_reach evs (mx_create d ce) e" and "mx_thread e = Some MW_Exited"
    and "xs_status (mx_state e) = MS_Completed"
  shows "map fst (mx_results e) =
      filter (\<lambda>j. st_enabled (m_steps (mx_mission e) ! j)) [0..<length (m_steps (mx_mission e))]
    \<and> (\<forall>(j, r) \<in> set (mx_results e). mr_isSuccess r)"
  using reach_inv [OF assms(1) create_inv] assms(2,3)
  by (auto simp: mx_inv_def all_done_def enabled_upto_def succeeded_def list_all_iff)

text \<open>
  The commands handed to the dispatcher follow the order of the steps; each is the prepared command of an
  enabled and valid command step, and no step hands over more than its iterations times its attempts.
\<close>

theorem mx_dispatch_bounded:
  assumes "mx_reach evs (mx_create d ce) e"
  shows "sorted (map fst (mx_dispatched e))
    \<and> (\<forall>(j, c) \<in> set (mx_dispatched e).
      (\<exists>s now. j < length (m_steps (mx_mission e)) \<and> m_steps (mx_mission e) ! j = s \<and> st_enabled s \<and> step_isValid s
         \<and> IsCommandStep s \<and> c = PrepareCommand now s
         \<and> length (filter (\<lambda>p. fst p = j) (mx_dispatched e)) \<le> st_loopIterations s * EffectiveMaxAttempts s))"
  using reach_inv [OF assms(1) create_inv]
  by (auto simp: mx_inv_def dispatch_ok_def dispatch_count_def step_limit_def)

section \<open>Halting\<close>

fun is_resume :: "mx_event \<Rightarrow> bool" where
  "is_resume MX_Resume = True"
| "is_resume _ = False"






definition calls_of :: "nat \<Rightarrow> (nat \<times> command) list \<Rightarrow> nat" where
  "calls_of d ds = length (filter (\<lambda>p. fst p = d) ds)"

lemma calls_of_simps [simp]:
  "calls_of d [] = 0" "calls_of d (p # ds) = (if fst p = d then 1 else 0) + calls_of d ds"
  "calls_of d (ds @ ds') = calls_of d ds + calls_of d ds'"
  by (simp_all add: calls_of_def)





section \<open>Cancellation\<close>

text \<open>The worker has not passed its last check for cancellation.\<close>

fun before_last_check :: "mission_step list \<Rightarrow> mx_worker \<Rightarrow> bool" where
  "before_last_check ss (MW_Next k) = list_ex st_enabled (drop k ss)"
| "before_last_check ss (MW_Finish st msg) = False"
| "before_last_check ss MW_Exited = False"
| "before_last_check ss _ = True"

definition not_completing :: "mission_step list \<Rightarrow> mission_status \<Rightarrow> mx_worker \<Rightarrow> bool" where
  "not_completing ss st w =
     (before_last_check ss w \<or> (\<exists>st' msg. w = MW_Finish st' msg \<and> st' \<in> {MS_Cancelled, MS_Failed})
      \<or> w = MW_Exited \<and> st \<noteq> MS_Completed)"

lemma drop_enabled:
  "k < length ss \<Longrightarrow> list_ex st_enabled (drop k ss) \<longleftrightarrow> st_enabled (ss ! k) \<or> list_ex st_enabled (drop (Suc k) ss)"
  by (simp add: Cons_nth_drop_Suc [symmetric])

lemma not_completing_mono:
  "not_completing ss st w \<Longrightarrow> (st' = MS_Completed \<longrightarrow> st = MS_Completed) \<Longrightarrow> not_completing ss st' w"
  by (auto simp: not_completing_def)

lemma not_completing_step:
  assumes "mx_worker_step i e = Some e'" and "mx_CancellationRequested (mx_state e)" and "mx_thread e = Some w"
    and "not_completing (m_steps (mx_mission e)) (xs_status (mx_state e)) w"
  shows "\<exists>w'. mx_thread e' = Some w' \<and> not_completing (m_steps (mx_mission e)) (xs_status (mx_state e')) w'"
  using assms(1)
  by (cases rule: mx_worker_step_cases)
     (use assms(2-4) in \<open>auto simp: not_completing_def drop_enabled mx_Finish_def WaitUntilRunnable_True\<close>)

text \<open>
  A cancellation (or a stop) requested before the worker's last check wins: whatever happens afterwards, short of
  starting another mission, the worker does not exit with the status Completed.
\<close>

theorem mx_cancel_wins:
  assumes "mx_reach evs e e'" and "mx_CancellationRequested (mx_state e)"
    and "mx_thread e = Some w" and "before_last_check (m_steps (mx_mission e)) w"
    and "\<forall>ev \<in> set evs. \<not> is_start ev" and "mx_thread e' = Some MW_Exited"
  shows "xs_status (mx_state e') \<noteq> MS_Completed"
proof -
  have "mx_CancellationRequested (mx_state e') \<and> mx_mission e' = mx_mission e
      \<and> (\<forall>w'. mx_thread e' = Some w' \<longrightarrow> not_completing (m_steps (mx_mission e)) (xs_status (mx_state e')) w')"
    using assms(1-5)
  proof (induction rule: mx_reach.induct)
    case (mx_refl e)
    then show ?case by (simp add: not_completing_def)
  next
    case (mx_step evs e e1 ev e2)
    then have IH: "mx_CancellationRequested (mx_state e1)" "mx_mission e1 = mx_mission e"
        "\<And>w'. mx_thread e1 = Some w' \<Longrightarrow> not_completing (m_steps (mx_mission e)) (xs_status (mx_state e1)) w'"
      by auto
    have ev: "\<not> is_start ev" using mx_step.prems by simp
    show ?case
    proof (cases "is_worker ev")
      case True
      then obtain i where i: "ev = MX_Worker i" by (cases ev) auto
      with mx_step.hyps(2) have ws: "mx_worker_step i e1 = Some e2" by simp
      then obtain w1 where "mx_thread e1 = Some w1" by (cases rule: mx_worker_step_cases) auto
      with not_completing_step [OF ws IH(1)] IH worker_step_frame(1) [OF ws] client_cancelled [OF mx_step.hyps(2) ev]
      show ?thesis by auto
    next
      case False
      from client_frame [OF mx_step.hyps(2) ev False] IH client_cancelled [OF mx_step.hyps(2) ev IH(1)]
      show ?thesis by (metis not_completing_mono option.distinct(1))
    qed
  qed
  with assms(6) show ?thesis by (auto simp: not_completing_def)
qed

section \<open>Termination\<close>

fun worker_run :: "flow_input list \<Rightarrow> mission_executor \<Rightarrow> mission_executor option" where
  "worker_run [] e = Some e"
| "worker_run (i # is) e = (case mx_worker_step i e of None \<Rightarrow> None | Some e' \<Rightarrow> worker_run is e')"

lemma worker_progress:
  assumes "mx_thread e = Some w" and "w \<noteq> MW_Exited"
    and "\<not> xs_pause_requested (mx_state e) \<or> mx_CancellationRequested (mx_state e)"
  shows "\<exists>i e'. mx_worker_step i e = Some e'"
proof (cases w)
  case (MW_Run k f)
  show ?thesis
  proof (cases "flow_left (m_steps (mx_mission e) ! k) f = 0")
    case True
    then show ?thesis using assms MW_Run by (cases f) (auto simp: mx_worker_step_def split: option.splits)
  next
    case False
    from flow_progress [OF False assms(3)] obtain i r where
      "flow_step (mx_has_dispatcher e) (mx_evaluator e) (m_steps (mx_mission e) ! k) i f (mx_state e) = Some r"
      by blast
    then have "mx_worker_step i e \<noteq> None" using assms(1) MW_Run False by (simp add: worker_run split: prod.splits)
    then show ?thesis by blast
  qed
qed (use assms in \<open>auto simp: mx_worker_step_def WaitUntilRunnable_def Let_def\<close>)

lemma worker_step_flags:
  assumes "mx_worker_step i e = Some e'"
  shows "xs_pause_requested (mx_state e') = xs_pause_requested (mx_state e)
    \<and> mx_CancellationRequested (mx_state e') = mx_CancellationRequested (mx_state e)"
  using assms
proof (cases rule: mx_worker_step_cases)
  case (flow k f f' x' c)
  with flow_step_state [OF flow(3)] show ?thesis by (auto simp: WaitUntilRunnable_True mx_CancellationRequested_def)
qed (auto simp: WaitUntilRunnable_True mx_Finish_def mx_CancellationRequested_def)

lemma worker_run_ends:
  assumes "mx_inv e" and "mx_thread e = Some w"
    and "\<not> xs_pause_requested (mx_state e) \<or> mx_CancellationRequested (mx_state e)"
    and "w = MW_Exited \<longrightarrow> mission_isTerminal (xs_status (mx_state e))"
  shows "\<exists>is e'. worker_run is e = Some e' \<and> mx_thread e' = Some MW_Exited
    \<and> mission_isTerminal (xs_status (mx_state e'))"
  using assms
proof (induction "worker_left (m_steps (mx_mission e)) w" arbitrary: e w rule: less_induct)
  case less
  show ?case
  proof (cases "w = MW_Exited")
    case True
    with less.prems show ?thesis by (intro exI [of _ "[]"]) auto
  next
    case False
    with worker_progress less.prems obtain i e' where step: "mx_worker_step i e = Some e'" by blast
    with worker_step_left less.prems obtain w' where w': "mx_thread e' = Some w'"
        "worker_left (m_steps (mx_mission e)) w' < worker_left (m_steps (mx_mission e)) w"
      by fastforce
    have "w' = MW_Exited \<longrightarrow> mission_isTerminal (xs_status (mx_state e'))"
      using step w'(1) less.prems(1) by (cases rule: mx_worker_step_cases) (auto simp: mx_inv_def mx_Finish_def)
    with less.hyps [OF _ worker_step_inv [OF step less.prems(1)] w'(1)] w'(2) less.prems(3)
      worker_step_flags [OF step] worker_step_frame(1) [OF step]
    obtain "is" e'' where "worker_run is e' = Some e''" "mx_thread e'' = Some MW_Exited"
        "mission_isTerminal (xs_status (mx_state e''))"
      by auto
    with step show ?thesis by (intro exI [of _ "i # is"]) auto
  qed
qed

text \<open>
  C16. The worker of a mission ends. However clients interleave their calls, the number of transitions it makes is
  bounded by a measure of its place in the mission; and it can always go on unless it is paused, so that, left alone,
  it reaches its exit with a terminal status.
\<close>

theorem mx_worker_ends:
  assumes "mx_reach evs0 (mx_create d ce) e" and "mx_thread e = Some w"
  shows "(\<forall>evs e'. mx_reach evs e e' \<and> (\<forall>ev \<in> set evs. \<not> is_start ev) \<longrightarrow>
        length (filter is_worker evs) \<le> worker_left (m_steps (mx_mission e)) w)
    \<and> (w \<noteq> MW_Exited \<and> (\<not> xs_pause_requested (mx_state e) \<or> mx_CancellationRequested (mx_state e)) \<longrightarrow>
        (\<exists>is e'. worker_run is e = Some e' \<and> mx_thread e' = Some MW_Exited
           \<and> mission_isTerminal (xs_status (mx_state e'))))"
proof -
  have inv: "mx_inv e" by (rule reach_inv [OF assms(1) create_inv])
  have "mx_inv e' \<and> mx_mission e' = mx_mission e \<and>
      length (filter is_worker evs) + (case mx_thread e' of None \<Rightarrow> 0 | Some w' \<Rightarrow> worker_left (m_steps (mx_mission e)) w')
        \<le> worker_left (m_steps (mx_mission e)) w"
    if "mx_reach evs e e'" "\<forall>ev \<in> set evs. \<not> is_start ev" for evs e'
    using that inv assms(2)
  proof (induction rule: mx_reach.induct)
    case (mx_refl e)
    then show ?case by simp
  next
    case (mx_step evs e e1 ev e2)
    then have IH: "mx_inv e1" "mx_mission e1 = mx_mission e"
        "length (filter is_worker evs) + (case mx_thread e1 of None \<Rightarrow> 0 | Some w' \<Rightarrow> worker_left (m_steps (mx_mission e)) w')
          \<le> worker_left (m_steps (mx_mission e)) w"
      by auto
    have ev: "\<not> is_start ev" using mx_step.prems by simp
    show ?case
    proof (cases "is_worker ev")
      case True
      then obtain i where i: "ev = MX_Worker i" by (cases ev) auto
      with mx_step.hyps(2) have ws: "mx_worker_step i e1 = Some e2" by simp
      from worker_step_left [OF ws IH(1)] IH i worker_step_frame(1) [OF ws] worker_step_inv [OF ws IH(1)]
      show ?thesis by auto
    next
      case False
      from client_frame [OF mx_step.hyps(2) ev False] IH apply_inv [OF mx_step.hyps(2) IH(1)] False
      show ?thesis by (auto split: option.splits)
    qed
  qed
  with worker_run_ends [OF inv assms(2)] show ?thesis by fastforce
qed

section \<open>Starting\<close>

text \<open>
  A mission the schema validator accepts is accepted by an executor that has a dispatcher and is idle or whose
  worker has exited; the run begins at the first step with no request pending, and every enabled step passes
  the check of \<open>ExecuteFlowStep\<close>.
\<close>

theorem mx_start_accepts:
  assumes "fst (MissionValidator_Validate m)" and "mx_has_dispatcher e" and "\<not> mx_stopping e"
    and "mx_thread e = None \<or> mx_thread e = Some MW_Exited \<and> mission_isTerminal (xs_status (mx_state e))"
  shows "\<exists>e'. mx_Start (Returned ()) m e = Some (e', MResult MS_Running ''Mission execution started'')
    \<and> mx_thread e' = Some (MW_Next 0) \<and> mx_mission e' = m
    \<and> \<not> xs_pause_requested (mx_state e') \<and> \<not> mx_CancellationRequested (mx_state e')
    \<and> (\<forall>s \<in> set (m_steps m). st_enabled s \<longrightarrow> step_isValid s)"
  using Validate_isValid [OF assms(1)] assms(2-4)
  by (auto simp: mx_Start_def mx_reset_def mission_isValid_def mx_CancellationRequested_def list_all_iff Let_def)

section \<open>Runs\<close>

fun mx_events :: "mx_event list \<Rightarrow> mission_executor \<Rightarrow> mission_executor option" where
  "mx_events [] e = Some e"
| "mx_events (ev # evs) e = (case mx_apply ev e of None \<Rightarrow> None | Some e' \<Rightarrow> mx_events evs e')"

lemma mx_reach_from_events:
  assumes "mx_reach evs0 e0 e" and "mx_events evs e = Some e'"
  shows "mx_reach (evs0 @ evs) e0 e'"
  using assms
proof (induction evs arbitrary: evs0 e)
  case (Cons ev evs)
  then obtain e1 where "mx_apply ev e = Some e1" "mx_events evs e1 = Some e'" by (auto split: option.splits)
  with Cons.IH [OF mx_step [OF Cons.prems(1)]] show ?case by fastforce
qed simp

lemmas mx_reach_events = mx_reach_from_events [OF mx_refl, simplified]

definition demo_step :: mission_step where
  "demo_step = \<lparr>st_id = 1, st_name = ''step'', st_command = default_command\<lparr>cmd_id := 1\<rparr>, st_timeout = 0,
     st_retry = 0, st_retryPolicy = \<lparr>rp_maxAttempts = 1, rp_delayBetweenAttempts = 0, rp_retryOnFailure = True,
       rp_retryOnTimeout = True\<rparr>, st_loopIterations = 1,
     st_timeoutPolicy = \<lparr>tp_timeout = 0, tp_abortOnTimeout = True\<rparr>, st_wait = None, st_delay = None,
     st_skip = False, st_abort = False, st_conditions = [], st_enabled = True, st_metadata = []\<rparr>"

definition demo_mission :: mission where
  "demo_mission = \<lparr>m_id = 1, m_name = ''mission'', m_description = [], m_version = ''1'', m_author = ''a'',
     m_timestamp = 0, m_steps = [demo_step], m_metadata = []\<rparr>"

definition demo_states :: "nat \<Rightarrow> time_ns \<times> robot_state" where
  "demo_states j = (0, default_robot_state)"

definition demo_done :: command_result where
  "demo_done = \<lparr>res_status = Status_Completed, res_message = []\<rparr>"

text \<open>The mission up to the point where the worker is about to publish its completion.\<close>

definition demo_events :: "mx_event list" where
  "demo_events = MX_Start (Returned ()) demo_mission #
     map MX_Worker [FI_Go, FI_Go, FI_Conditions demo_states, FI_Go, FI_Go, FI_Go, FI_Go, FI_Execute 0 (Returned demo_done),
       FI_Go, FI_Go, FI_Go, FI_Go, FI_Go, FI_Go]"

definition demo_finishing :: mission_executor where
  "demo_finishing = the (mx_events demo_events (mx_create True None))"

lemmas demo_mx_defs = demo_events_def demo_mission_def demo_step_def demo_done_def mx_create_def mx_Start_def mx_reset_def
  exec_init_def empty_mission_def mission_isValid_def step_isValid_def rp_isValid_def tp_isValid_def duration_ok_def
  command_isValid_def default_command_def mx_worker_step_def WaitUntilRunnable_def mx_CancellationRequested_def
  flow_entry_def EvaluateStepConditions_def command_outcome_def after_attempt_def EffectiveMaxAttempts_def
  MResult_def mr_isSuccess_def IsCommandStep_def Let_def

lemma demo_finishing_reached:
  "mx_events demo_events (mx_create True None) = Some demo_finishing"
  "mx_thread demo_finishing = Some (MW_Finish MS_Completed ''Mission completed'')"
  "mx_results demo_finishing = [(0, MResult MS_Completed ''Mission step completed'')]"
  "xs_status (mx_state demo_finishing) = MS_Running"
  "mx_mission demo_finishing = demo_mission"
  "mx_has_dispatcher demo_finishing" "\<not> mx_stopping demo_finishing"
  unfolding demo_finishing_def by (simp_all add: demo_mx_defs)

definition demo_over :: mission_executor where
  "demo_over = the (mx_worker_step FI_Go demo_finishing)"

lemma demo_over_reached:
  "mx_worker_step FI_Go demo_finishing = Some demo_over"
  "mx_thread demo_over = Some MW_Exited" "xs_status (mx_state demo_over) = MS_Completed"
  "mx_mission demo_over = demo_mission" "mx_results demo_over = [(0, MResult MS_Completed ''Mission step completed'')]"
  "mx_has_dispatcher demo_over" "\<not> mx_stopping demo_over"
  using demo_finishing_reached by (simp_all add: demo_over_def mx_worker_step_def mx_Finish_def)

lemma demo_over_events: "mx_events (demo_events @ [MX_Worker FI_Go]) (mx_create True None) = Some demo_over"
proof -
  have "mx_events (evs @ [MX_Worker FI_Go]) e = Some demo_over" if "mx_events evs e = Some demo_finishing" for evs e
    using that demo_over_reached(1) by (induction evs arbitrary: e) (auto split: option.splits)
  then show ?thesis using demo_finishing_reached(1) by blast
qed

theorem mx_completed_ran_all_witness:
  "map fst (mx_results demo_over) = [0] \<and> list_all (\<lambda>p. mr_isSuccess (snd p)) (mx_results demo_over)"
  using mx_completed_ran_all [OF mx_reach_events [OF demo_over_events] demo_over_reached(2,3)]
  by (auto simp: demo_over_reached(4) demo_mission_def demo_step_def list_all_iff)

theorem mx_dispatch_bounded_witness: "sorted (map fst (mx_dispatched demo_over))"
  using mx_dispatch_bounded [OF mx_reach_events [OF demo_over_events]] by simp

text \<open>The worker before its call of the dispatcher, with a cancellation requested.\<close>

definition demo_cancelled :: mission_executor where
  "demo_cancelled = (mx_create True None)\<lparr>mx_mission := demo_mission, mx_thread := Some (MW_Run 0 (FL_Once 0 0)),
     mx_state := exec_init\<lparr>xs_status := MS_Cancelled, xs_cancel_requested := True\<rparr>\<rparr>"

definition demo_tail :: "mx_event list" where
  "demo_tail = map MX_Worker [FI_Execute 0 (Returned demo_done), FI_Go, FI_Go, FI_Go, FI_Go, FI_Go, FI_Go]"

lemma demo_cancelled_facts:
  "mx_CancellationRequested (mx_state demo_cancelled)" "mx_thread demo_cancelled = Some (MW_Run 0 (FL_Once 0 0))"
  by (simp_all add: demo_cancelled_def mx_CancellationRequested_def)

lemma demo_tail_events:
  "\<forall>ev \<in> set demo_tail. \<not> is_start ev \<and> \<not> is_resume ev" "\<forall>ev \<in> set demo_tail. \<not> is_start ev"
  by (simp_all add: demo_tail_def)

lemma demo_tail_run:
  "\<exists>e'. mx_events demo_tail demo_cancelled = Some e' \<and> mx_thread e' = Some MW_Exited"
  by (simp add: demo_tail_def demo_cancelled_def mx_Finish_def demo_mx_defs)





theorem mx_cancel_wins_witness:
  "\<exists>e'. mx_reach demo_tail demo_cancelled e' \<and> mx_thread e' = Some MW_Exited
    \<and> xs_status (mx_state e') \<noteq> MS_Completed"
proof -
  obtain e' where e': "mx_events demo_tail demo_cancelled = Some e'" "mx_thread e' = Some MW_Exited"
    using demo_tail_run by blast
  have "before_last_check (m_steps (mx_mission demo_cancelled)) (MW_Run 0 (FL_Once 0 0))" by simp
  from mx_cancel_wins [OF mx_reach_events [OF e'(1)] demo_cancelled_facts this demo_tail_events(2) e'(2)]
    mx_reach_events [OF e'(1)] e'(2) show ?thesis by blast
qed

theorem mx_worker_ends_witness:
  "\<exists>is e'. worker_run is demo_finishing = Some e' \<and> mx_thread e' = Some MW_Exited
     \<and> mission_isTerminal (xs_status (mx_state e'))"
proof -
  have "\<not> xs_pause_requested (mx_state demo_finishing) \<or> mx_CancellationRequested (mx_state demo_finishing)"
    unfolding demo_finishing_def by (simp add: demo_mx_defs)
  with mx_worker_ends [OF mx_reach_events [OF demo_finishing_reached(1)] demo_finishing_reached(2)] show ?thesis by simp
qed

theorem mx_start_accepts_witness:
  "\<exists>e'. mx_Start (Returned ()) demo_mission demo_over = Some (e', MResult MS_Running ''Mission execution started'')"
proof -
  have "fst (MissionValidator_Validate demo_mission)" by code_simp
  from mx_start_accepts [OF this demo_over_reached(6,7)] demo_over_reached(2,3) show ?thesis by auto
qed

section \<open>Findings\<close>

text \<open>
  A cancellation that arrives after the worker's last check is accepted, answered with Cancelled, and then
  overwritten: the mission ends with the status Completed.
\<close>

theorem mx_cancel_overwritten:
  "\<exists>evs e e'. mx_reach evs (mx_create True None) e
     \<and> snd (mx_Cancel e) = MResult MS_Cancelled ''Mission cancellation requested''
     \<and> xs_status (mx_state (fst (mx_Cancel e))) = MS_Cancelled
     \<and> mx_worker_step FI_Go (fst (mx_Cancel e)) = Some e'
     \<and> xs_status (mx_state e') = MS_Completed"
proof -
  have "xs_current_command_id (mx_state demo_finishing) = None"
    unfolding demo_finishing_def by (simp add: demo_mx_defs)
  then have "snd (mx_Cancel demo_finishing) = MResult MS_Cancelled ''Mission cancellation requested''
     \<and> xs_status (mx_state (fst (mx_Cancel demo_finishing))) = MS_Cancelled
     \<and> (\<exists>e'. mx_worker_step FI_Go (fst (mx_Cancel demo_finishing)) = Some e' \<and> xs_status (mx_state e') = MS_Completed)"
    using demo_finishing_reached
    by (simp add: mx_Cancel_def CancelCommandIfPossible_def mx_worker_step_def mx_Finish_def Let_def)
  with mx_reach_events [OF demo_finishing_reached(1)] show ?thesis by blast
qed

text \<open>
  A call of \<open>ExecuteStep\<close> after a mission has completed leaves the status Running when it returns, so the worker
  that has exited is never joined and every later \<open>Start\<close> is refused as already active.
\<close>

theorem mx_direct_blocks_start:
  "\<exists>evs e. mx_reach evs (mx_create True None) e \<and> mx_thread e = Some MW_Exited
     \<and> map (\<lambda>c. direct_result (snd c)) (mx_direct e) = [Some (MResult MS_Completed ''Mission step completed'')]
     \<and> xs_status (mx_state e) = MS_Running
     \<and> mx_Start (Returned ()) demo_mission e = Some (e, MResult MS_Failed ''Mission executor is already active'')"
proof -
  let ?evs = "demo_events @ [MX_Worker FI_Go]"
  let ?call = "MX_ExecuteStep demo_step # map (MX_Direct 0) [FI_Conditions demo_states, FI_Go, FI_Go, FI_Go, FI_Go,
     FI_Execute 0 (Returned demo_done), FI_Go, FI_Go]"
  have direct: "mx_direct demo_over = []" "mx_evaluator demo_over = None"
    "\<not> xs_pause_requested (mx_state demo_over)" "\<not> mx_CancellationRequested (mx_state demo_over)"
    unfolding demo_over_def demo_finishing_def by (simp_all add: demo_mx_defs mx_Finish_def)
  have valid: "mission_isValid demo_mission"
    by (simp add: demo_mx_defs)
  obtain e where e: "mx_events ?call demo_over = Some e" "mx_thread e = Some MW_Exited"
     "map (\<lambda>c. direct_result (snd c)) (mx_direct e) = [Some (MResult MS_Completed ''Mission step completed'')]"
     "xs_status (mx_state e) = MS_Running" "mx_has_dispatcher e" "\<not> mx_stopping e"
    using direct demo_over_reached
    by (simp add: mx_ExecuteStep_def mx_direct_step_def direct_result_def demo_mx_defs)
  then have start: "mx_Start (Returned ()) demo_mission e = Some (e, MResult MS_Failed ''Mission executor is already active'')"
    using valid by (simp add: mx_Start_def)
  have "mx_reach (?evs @ ?call) (mx_create True None) e"
    by (rule mx_reach_from_events [OF mx_reach_events [OF demo_over_events] e(1)])
  with e(2-4) start show ?thesis by (intro exI conjI)
qed

end
