(* ===== verification/Mission_Parser_Props.thy ===== *)
theory Mission_Parser_Props
  imports Mission_Printer Mission_Executor_Props
begin

text \<open>
  The mission parsers return on every text; loading a mission file; the two formats.
\<close>

section \<open>Both parsers return\<close>

text \<open>A parse that does not run out of fuel, and one that also leaves no more lines than it was given.\<close>

definition returns :: "'a parsed \<Rightarrow> bool" where
  "returns r = (r \<noteq> Inl PE_OutOfFuel)"

definition consumes :: "mission_line list \<Rightarrow> ('a \<times> mission_line list) parsed \<Rightarrow> bool" where
  "consumes ls r = (returns r \<and> (\<forall>a ls'. r = Inr (a, ls') \<longrightarrow> length ls' \<le> length ls))"

named_theorems returning \<open>parses that return\<close>
named_theorems consuming \<open>parses that consume their lines\<close>

lemma returns_simps [simp, returning]: "returns (Inr x)" "returns (throw_error m)" "returns (line_error m l)"
  by (simp_all add: returns_def line_error_def)

lemma returns_pbind [returning]: "returns m \<Longrightarrow> (\<And>x. m = Inr x \<Longrightarrow> returns (f x)) \<Longrightarrow> returns (pbind m f)"
  by (cases m) (auto simp: returns_def)

lemma returns_pmap [returning]: "(\<And>x. returns (f x)) \<Longrightarrow> returns (pmap f xs)"
  by (induction xs) (auto intro: returning)

lemma returns_optionally [returning]: "(\<And>x. returns (conv x)) \<Longrightarrow> returns (optionally kvs key conv upd a)"
  by (auto simp: optionally_def intro: returning split: option.splits)

lemma returns_access [returning]:
  "returns (AsObject v n)" "returns (AsArray v n)" "returns (RequiredField kvs k)" "returns (JsonString v n)"
  "returns (JsonUint64 v n)" "returns (JsonUint32 v n)" "returns (JsonInt64 v n)" "returns (JsonBool v n)"
  "returns (named f m s)"
  by (auto simp: AsObject_def AsArray_def RequiredField_def JsonString_def JsonUint64_def JsonUint32_def JsonInt64_def
      JsonBool_def named_def intro!: returning split: json.splits option.splits)

lemma returns_objects [returning]:
  "returns (MetadataFromJson n v)" "returns (PayloadFromJson n v)" "returns (RetryPolicyFromJson v)"
  "returns (LoopPolicyFromJson v)" "returns (TimeoutPolicyFromJson v)" "returns (DurationFromJson n v)"
  "returns (ConditionValueFromJson tf v)"
  by (auto simp: MetadataFromJson_def PayloadFromJson_def PayloadValueFromJson_def RetryPolicyFromJson_def
      LoopPolicyFromJson_def TimeoutPolicyFromJson_def DurationFromJson_def ConditionValueFromJson_def
      intro!: returning split: json.splits prod.splits)

lemma CommandFromJson_returns [returning]: "returns (CommandFromJson v)"
  by (auto simp: CommandFromJson_def intro!: returning)

lemma ConditionFromJson_returns [returning]: "returns (ConditionFromJson tf v)"
  by (auto simp: ConditionFromJson_def intro!: returning)

lemma StepFromJson_returns [returning]: "returns (StepFromJson tf v)"
  by (auto simp: StepFromJson_def intro!: returning)

lemma MissionFromJson_returns [returning]: "returns (MissionFromJson tf now v)"
  by (auto simp: MissionFromJson_def intro!: returning split: option.splits)

lemma returns_scalars [returning]:
  "returns (SplitYamlKeyValue l)" "returns (YamlBool v n)" "returns (ParseUint64 v n)" "returns (ParseUint32 v n)"
  "returns (ParseInt64 v n)" "returns (ParseDouble fc v n)" "returns (LogicalIndent l b)" "returns (MissionYamlLine k raw)"
  by (auto simp: SplitYamlKeyValue_def YamlBool_def ParseUint64_def ParseUint32_def ParseInt64_def ParseDouble_def
      LogicalIndent_def MissionYamlLine_def Let_def intro!: returning split: option.splits)

lemma returns_decisions [returning]:
  "returns (at_indent i m ind l)" "returns (entry_indent i m ind l)" "returns (sequence_indent i m ind l)"
  by (simp_all add: at_indent_def entry_indent_def sequence_indent_def)

lemma returns_fields [returning]:
  "returns (ApplyYamlCommandField k v n c)" "returns (ApplyYamlStepField k v n s)" "returns (ApplyYamlMissionField k v n m)"
  "returns (ApplyYamlConditionField fc tf k v n mc)"
  by (auto simp: ApplyYamlCommandField_def ApplyYamlStepField_def ApplyYamlMissionField_def ApplyYamlConditionField_def
      intro!: returning)

text \<open>The loops.\<close>

lemma consumes_loop:
  assumes "\<And>ind l. returns (decide ind l)" and "\<And>l ls a. consumes ls (body l ls a)" and "length ls \<le> fuel"
  shows "consumes ls (yaml_loop base decide body fuel ls a)"
  using assms(3)
proof (induction fuel arbitrary: ls a)
  case 0
  then show ?case by (simp add: consumes_def)
next
  case (Suc n)
  show ?case
  proof (cases ls)
    case Nil
    then show ?thesis by (simp add: consumes_def)
  next
    case (Cons l ls0)
    have "consumes ls0 (body l ls0 a)" by (rule assms(2))
    moreover have "consumes ls' (yaml_loop base decide body n ls' a')" if "length ls' \<le> length ls0" for ls' a'
      using that Suc.prems Cons by (intro Suc.IH) simp
    ultimately have "consumes ls0 (pbind (body l ls0 a) (\<lambda>(a', ls'). yaml_loop base decide body n ls' a'))"
      by (cases "body l ls0 a") (fastforce simp: consumes_def returns_def)+
    with Cons assms(1) show ?thesis
      by (auto simp: consumes_def intro!: returning)
  qed
qed

lemma consumes_block [consuming]:
  "(\<And>ind l. returns (decide ind l)) \<Longrightarrow> (\<And>l ls a. consumes ls (body l ls a)) \<Longrightarrow> consumes ls (block base decide body ls a)"
  unfolding block_def by (rule consumes_loop) simp_all

lemma consumes_pbind [consuming]:
  "returns m \<Longrightarrow> (\<And>x. m = Inr x \<Longrightarrow> consumes ls (f x)) \<Longrightarrow> consumes ls (pbind m f)"
  by (cases m) (auto simp: consumes_def returns_def)

lemma consumes_map [consuming]:
  "consumes ls r \<Longrightarrow> consumes ls (pbind r (\<lambda>(x, ls'). Inr (f x, ls')))"
  by (cases r) (auto simp: consumes_def returns_def)

lemma consumes_nested [consuming]: "consumes ls r \<Longrightarrow> consumes ls (nested m v r upd)"
  by (auto simp: nested_def consumes_def intro!: returning) 

lemma consumes_simps [simp, consuming]:
  "consumes ls (throw_error m)" "consumes ls (line_error m l)" "consumes ls (Inr (a, ls))"
  by (simp_all add: consumes_def line_error_def)

lemma consumes_scalar [consuming]: "(\<And>k v n a. returns (field k v n a)) \<Longrightarrow> consumes ls (scalar_field m field l ls a)"
  by (auto simp: scalar_field_def intro!: consuming returning split: prod.splits)

lemma consumes_only [consuming]: "(\<And>v. returns (conv v)) \<Longrightarrow> consumes ls (only_field k m conv l ls a)"
  by (auto simp: only_field_def intro!: consuming returning split: prod.splits)

lemma consumes_blocks [consuming]:
  "consumes ls (ParseYamlStringMap i b ls sm)" "consumes ls (ParseYamlPayload fc i b ls pl)"
  "consumes ls (ParseYamlRetryPolicy i b ls rp)" "consumes ls (ParseYamlLoopPolicy i b ls n)"
  "consumes ls (ParseYamlTimeoutPolicy i b ls tp)" "consumes ls (ParseYamlWaitStep i b ls d)"
  "consumes ls (ParseYamlDelayStep i b ls d)"
  by (auto simp: ParseYamlStringMap_def ParseYamlPayload_def ParseYamlRetryPolicy_def ParseYamlLoopPolicy_def
      ParseYamlTimeoutPolicy_def ParseYamlWaitStep_def ParseYamlDelayStep_def intro!: consuming returning)

lemma consumes_command [consuming]: "consumes ls (ParseYamlCommand fc i b ls c)"
  by (auto simp: ParseYamlCommand_def intro!: consuming returning split: prod.splits)

lemma returns_item [returning]: "(\<And>k v n a. returns (field k v n a)) \<Longrightarrow> returns (item_field m field l a)"
  by (auto simp: item_field_def Let_def intro!: returning split: prod.splits)

lemma consumes_condition [consuming]: "consumes ls (ParseYamlCondition fc tf i b l ls)"
  by (auto simp: ParseYamlCondition_def intro!: consuming returning split: prod.splits)

lemma consumes_conditions [consuming]: "consumes ls (ParseYamlConditions fc tf i b ls cs)"
  by (auto simp: ParseYamlConditions_def intro!: consuming returning)

lemma consumes_step_field [consuming]: "consumes ls (yaml_step_field fc tf b l ls s)"
  by (auto simp: yaml_step_field_def intro!: consuming returning split: prod.splits)

lemma consumes_step [consuming]: "consumes ls (ParseYamlStep fc tf b l ls)"
  by (auto simp: ParseYamlStep_def intro!: consuming returning)

lemma consumes_steps [consuming]: "consumes ls (ParseYamlSteps fc tf b ls ss)"
  by (auto simp: ParseYamlSteps_def intro!: consuming returning)

lemma consumes_mission_field [consuming]: "consumes ls (yaml_mission_field fc tf b l ls m)"
  by (auto simp: yaml_mission_field_def intro!: consuming returning split: prod.splits)

lemma consumes_returns: "consumes ls r \<Longrightarrow> returns r"
  by (simp add: consumes_def)

lemma YamlLines_returns [returning]: "returns (YamlLines doc)"
proof -
  have "returns (YamlLines_from n raws)" for n raws
    by (induction raws arbitrary: n) (auto intro!: returning)
  then show ?thesis by (simp add: YamlLines_def)
qed

lemma MissionFromYaml_returns [returning]: "returns (MissionFromYaml fc tf now doc)"
  unfolding MissionFromYaml_def Let_def
  by (auto intro!: returns_pbind consumes_returns [OF consumes_block] returning consuming)

lemma parse_returns: "returns r \<Longrightarrow> \<exists>p. mission_parse_result_of f r = Some p"
  by (auto simp: mission_parse_result_of_def returns_def split: sum.splits parse_error.splits)

text \<open>C18. On every text both mission parsers return a result: a mission, or a message.\<close>

theorem mission_parsers_return:
  "(\<exists>r. MissionParser_ParseJson fc tf now doc = Some r) \<and> (\<exists>r. MissionParser_ParseYaml fc tf now doc = Some r)"
proof -
  have "returns (json_Parse mission_texts (finite_chars fc) doc)"
    using json_Parse_fuel [of mission_texts "finite_chars fc" doc] by (simp add: returns_def)
  then have "returns (pbind (json_Parse mission_texts (finite_chars fc) doc) (MissionFromJson tf now))"
    by (intro returning)
  with MissionFromYaml_returns show ?thesis
    by (simp add: MissionParser_ParseJson_def MissionParser_ParseYaml_def parse_returns)
qed

section \<open>Loading\<close>

text \<open>
  A mission that was loaded, from a file of either format, passed the validator, and an idle executor with a dispatcher
  starts it; every other outcome of loading carries a message and no success.
\<close>

theorem mission_loaded_starts:
  assumes "MissionLoader_LoadFile fc tf now path file = Some r" and "mlr_success r"
    and "mx_has_dispatcher e" and "\<not> mx_stopping e" and "mx_thread e = None"
  shows "fst (MissionValidator_Validate (mlr_mission r))
    \<and> (\<exists>e'. mx_Start (Returned ()) (mlr_mission r) e = Some (e', MResult MS_Running ''Mission execution started'')
         \<and> mx_mission e' = mlr_mission r \<and> mx_thread e' = Some (MW_Next 0))"
proof -
  have "fst (MissionValidator_Validate (mlr_mission (ValidateParsedMission p)))"
    if "mlr_success (ValidateParsedMission p)" for p
    using that
    by (auto simp: ValidateParsedMission_def MissionLoadFailure_def MissionLoadResult_def split: if_splits prod.splits)
  with assms(1,2) have valid: "fst (MissionValidator_Validate (mlr_mission r))"
    by (auto simp: MissionLoader_LoadFile_def MissionLoader_LoadJson_def MissionLoader_LoadYaml_def MissionLoadFailure_def
        MissionLoadResult_def Let_def split: file_read.splits if_splits)
  from valid Validate_isValid [OF valid] assms(3-5) show ?thesis
    by (auto simp: mx_Start_def)
qed

definition yaml_text :: "string list \<Rightarrow> string" where
  "yaml_text ls = concat (map (\<lambda>l. l @ [CHR 0x0A]) ls)"

definition demo_mission_yaml :: string where
  "demo_mission_yaml = yaml_text [''id: 1'', ''name: m'', ''version: 1'', ''author: a'', ''steps:'', ''  - id: 1'',
     ''    name: s'', ''    skip: true'']"

lemma demo_mission_yaml_loads:
  "map_option mlr_success (MissionLoader_LoadFile (\<lambda>_. None) id 0 ''m.yaml'' (FileContent demo_mission_yaml)) = Some True"
  by code_simp

theorem mission_loaded_starts_witness:
  "\<exists>r e'. MissionLoader_LoadFile (\<lambda>_. None) id 0 ''m.yaml'' (FileContent demo_mission_yaml) = Some r
     \<and> mx_Start (Returned ()) (mlr_mission r) (mx_create True None) =
         Some (e', MResult MS_Running ''Mission execution started'')"
proof -
  from demo_mission_yaml_loads obtain r where
    r: "MissionLoader_LoadFile (\<lambda>_. None) id 0 ''m.yaml'' (FileContent demo_mission_yaml) = Some r" "mlr_success r"
    by auto
  from mission_loaded_starts [OF r, of "mx_create True None"] r(1) show ?thesis by (auto simp: mx_create_def)
qed

section \<open>Round trip\<close>

text \<open>
  C17. The JSON text of a mission is parsed to that mission, with the time of the parse: every field of the mission, its
  steps, commands, payloads (booleans, integers, doubles and strings), policies and conditions is read back, where
  \<open>std::from_chars\<close> reads the decimal text of a double as that double. \<open>mission_ok\<close> says which missions have a
  text: every integer has the value of a double, and an unsigned one is at most \<open>2 ^ 63\<close>; no double of a payload is
  infinite, not a number, or has the value of a 64-bit integer (it would be read as that integer); a condition has either
  a boolean or a number; enumerators are known, texts have no control characters beyond those with an escape, and commands have
  no time stamp, since the format has no place for it.
\<close>

theorem mission_json_roundtrip:
  assumes "\<forall>q. is_double q \<longrightarrow> fc (decimal_text q) = Some (Fin q)" and "mission_ok tf m"
  shows "MissionParser_ParseJson fc tf now (mission_text m) =
    Some \<lparr>mpr_mission = m\<lparr>m_timestamp := now\<rparr>, mpr_success = True, mpr_message = ''Mission parsed successfully''\<rparr>"
  using mission_text_read [of fc tf m now] assms by (simp add: exact_chars_def)

text \<open>A reader of decimal texts, which is exact on all of them.\<close>

definition decimal_chars :: "string \<Rightarrow> fl option" where
  "decimal_chars s =
     (let neg = (s \<noteq> [] \<and> hd s = CHR ''-''); u = (if neg then tl s else s);
          ds = takeWhile IsDigit u; fs = tl (dropWhile IsDigit u);
          v = of_int (digits_value (ds @ fs)) / 10 ^ length fs in
      if ds = [] \<or> \<not> list_all IsDigit fs then None else Some (Fin (if neg then - v else v)))"

lemma digit_value_char: "k < 10 \<Longrightarrow> digit_value (digit_char k) = int k"
proof -
  assume "k < 10"
  moreover have "(of_char (digit_char k) :: int) = int (of_char (digit_char k))" by (rule of_nat_of_char [symmetric])
  ultimately show ?thesis by (simp add: digit_value_def digit_char_def of_char_of)
qed

lemma digits_value_to_string: "digits_value (to_string n) = int n"
proof (induction n rule: to_string.induct)
  case (1 n)
  show ?case
  proof (cases "n < 10")
    case True
    then show ?thesis by (subst to_string.simps) (simp add: digits_value_def digit_value_char)
  next
    case False
    then have "digits_value (to_string n) = digits_value (to_string (n div 10)) * 10 + int (n mod 10)"
      by (subst to_string.simps) (simp add: digits_value_def digit_value_char)
    also have "\<dots> = int (n div 10) * 10 + int (n mod 10)" using 1 False by simp
    also have "\<dots> = int n" by presburger
    finally show ?thesis .
  qed
qed

lemma digits_value_pad: "digits_value (xs @ pad_digits k n) = digits_value xs * 10 ^ k + int (n mod 10 ^ k)"
proof (induction k arbitrary: n)
  case (Suc k)
  have "digits_value (xs @ pad_digits (Suc k) n) = digits_value (xs @ pad_digits k (n div 10)) * 10 + int (n mod 10)"
    by (simp add: digits_value_def digit_value_char)
  also have "\<dots> = digits_value xs * 10 ^ Suc k + int (10 * (n div 10 mod 10 ^ k) + n mod 10)" by (simp add: Suc)
  also have "10 * (n div 10 mod 10 ^ k) + n mod 10 = n mod 10 ^ Suc k" by (simp add: mod_mult2_eq)
  finally show ?case .
qed simp

lemma digits_value_decimal: "digits_value (to_string (m div 10 ^ k) @ pad_digits k (m mod 10 ^ k)) = int m"
proof -
  have "digits_value (to_string (m div 10 ^ k) @ pad_digits k (m mod 10 ^ k)) = int (m div 10 ^ k * 10 ^ k + m mod 10 ^ k)"
    by (simp add: digits_value_pad digits_value_to_string)
  also have "m div 10 ^ k * 10 ^ k + m mod 10 ^ k = m" by (rule div_mult_mod_eq)
  finally show ?thesis .
qed

lemma places_integral:
  assumes "q * 10 ^ e = of_int i" and "e \<le> n"
  shows "\<exists>j. q * 10 ^ places n q = of_int j"
  using assms
proof (induction n arbitrary: q e)
  case (Suc n)
  show ?case
  proof (cases "of_int \<lfloor>q\<rfloor> = q")
    case True
    then have "places (Suc n) q = 0" by simp
    then have "q * 10 ^ places (Suc n) q = of_int \<lfloor>q\<rfloor>" by (simp only: True) simp
    then show ?thesis ..
  next
    case False
    with Suc.prems obtain e' where e': "e = Suc e'" by (cases e) auto
    with Suc.prems have "(q * 10) * 10 ^ e' = of_int i" "e' \<le> n" by (simp_all add: mult.assoc)
    from Suc.IH [OF this] False show ?thesis by (simp add: mult.assoc)
  qed
qed simp

lemma double_decimal:
  assumes "is_double q"
  shows "\<bar>q\<bar> * 10 ^ decimal_places q = of_nat (nat \<lfloor>\<bar>q\<bar> * 10 ^ decimal_places q\<rfloor>)"
proof -
  from assms consider m e where "q = of_int m * 2 ^ e" | m e where "e \<le> 1074" "q = of_int m / 2 ^ e"
    unfolding is_double_def by blast
  then have "\<exists>e i. e \<le> 1074 \<and> q * 10 ^ e = of_int i"
  proof cases
    case (1 m e)
    then show ?thesis by (intro exI [of _ 0] exI [of _ "m * 2 ^ e"]) simp
  next
    case (2 m e)
    have "(10 :: rat) ^ e = 2 ^ e * 5 ^ e" by (simp flip: power_mult_distrib)
    with 2 show ?thesis by (intro exI [of _ e] exI [of _ "m * 5 ^ e"]) simp
  qed
  then obtain j where "q * 10 ^ decimal_places q = of_int j"
    unfolding decimal_places_def using places_integral by blast
  then have "\<bar>q\<bar> * 10 ^ decimal_places q = of_int \<bar>j\<bar>"
    by (metis abs_mult abs_of_nonneg of_int_abs zero_le_numeral zero_le_power)
  then show ?thesis by simp
qed

lemma decimal_chars_read:
  assumes "ds \<noteq> []" and "list_all IsDigit ds" and "list_all IsDigit fs"
    and "of_int (digits_value (ds @ fs)) / 10 ^ length fs = (v :: rat)"
  shows "decimal_chars ((if neg then ''-'' else []) @ ds @ (if fs = [] then [] else CHR ''.'' # fs)) =
    Some (Fin (if neg then - v else v))"
proof -
  define u where "u = ds @ (if fs = [] then [] else CHR ''.'' # fs)"
  have dot: "\<not> IsDigit (CHR ''.'')" "\<not> IsDigit (CHR ''-'')" by (simp_all add: IsDigit_def less_eq_char_def)
  have "takeWhile IsDigit u = ds" "tl (dropWhile IsDigit u) = fs"
    using assms(2) dot by (auto simp: u_def list_all_iff takeWhile_append2 dropWhile_append2)
  moreover have "u \<noteq> []" "hd u \<noteq> CHR ''-''" using assms(1,2) dot by (cases ds; auto simp: u_def)+
  ultimately show ?thesis using assms(1,3,4) unfolding u_def [symmetric]
    by (cases neg) (simp_all add: decimal_chars_def Let_def)
qed

lemma decimal_chars_exact:
  assumes "is_double q"
  shows "decimal_chars (decimal_text q) = Some (Fin q)"
proof -
  define k m where "k = decimal_places q" and "m = nat \<lfloor>\<bar>q\<bar> * 10 ^ decimal_places q\<rfloor>"
  let ?ds = "to_string (m div 10 ^ k)" and ?fs = "pad_digits k (m mod 10 ^ k)"
  have "of_int (digits_value (?ds @ ?fs)) / 10 ^ length ?fs = (of_nat m / 10 ^ k :: rat)"
    by (simp add: digits_value_decimal pad_digits_digits(2))
  also have "of_nat m = \<bar>q\<bar> * 10 ^ k" using double_decimal [OF assms] by (simp only: k_def m_def)
  finally have "of_int (digits_value (?ds @ ?fs)) / 10 ^ length ?fs = \<bar>q\<bar>" by simp
  note read = decimal_chars_read [OF to_string_digits pad_digits_digits(1) this, of "q < 0"]
  have "?fs = [] \<longleftrightarrow> k = 0" using pad_digits_digits(2) [of k "m mod 10 ^ k"] by auto
  then have "decimal_text q = (if q < 0 then ''-'' else []) @ ?ds @ (if ?fs = [] then [] else CHR ''.'' # ?fs)"
    by (simp add: decimal_text_def Let_def k_def m_def)
  with read show ?thesis by (auto simp: abs_if)
qed

text \<open>A mission whose command has a velocity with a fraction, a negative and a zero component.\<close>

definition demo_drive :: mission where
  "demo_drive = demo_mission\<lparr>m_steps := [demo_step\<lparr>st_command := (st_command demo_step)\<lparr>cmd_type := Type_Velocity,
     cmd_payload := [(''angular_z'', PV_Double (Fin (- 1 / 4))), (''linear_x'', PV_Double (Fin (3 / 2))),
       (''linear_y'', PV_Int (- 1))]\<rparr>\<rparr>]\<rparr>"

theorem mission_json_roundtrip_witness:
  "MissionParser_ParseJson decimal_chars id 5 (mission_text demo_drive) =
    Some \<lparr>mpr_mission = demo_drive\<lparr>m_timestamp := 5\<rparr>, mpr_success = True, mpr_message = ''Mission parsed successfully''\<rparr>"
proof -
  have "is_double (- 1 / 4)" "is_double (3 / 2)"
    unfolding is_double_def
    by (rule exI [of _ "- 1"], rule exI [of _ 2], simp) (rule exI [of _ 3], rule exI [of _ 1], simp)
  moreover have "is_double 0" "is_double 1" "is_double (- 1)"
    using small_double [of 0] small_double [of 1] small_double [of "- 1"] by simp_all
  moreover have "\<not> IsInteger (Fin (- 1 / 4))" "\<not> IsInteger (Fin (3 / 2))" by code_simp+
  ultimately have "mission_ok id demo_drive"
    by (simp add: mission_ok_def demo_drive_def demo_mission_def demo_step_def step_ok_def command_ok_def default_command_def
        word_ok_def text_ok_def metadata_ok_def payload_ok_def int_ok_def u32_ok_def char_ok_def IsControl_def less_char_def
        less_list_code del: IsInteger.simps)
  from mission_json_roundtrip [OF _ this, of decimal_chars 5] decimal_chars_exact show ?thesis by simp
qed

section \<open>Identifiers in JSON\<close>

definition quoted :: "string \<Rightarrow> string" where
  "quoted s = quote_char # s @ [quote_char]"

definition big_id_json :: string where
  "big_id_json = ''{'' @ quoted ''id'' @ '':9007199254740993,'' @ quoted ''name'' @ '':'' @ quoted ''m'' @ '',''
     @ quoted ''description'' @ '':'' @ quoted ''d'' @ '','' @ quoted ''version'' @ '':'' @ quoted ''1'' @ '',''
     @ quoted ''author'' @ '':'' @ quoted ''a'' @ '','' @ quoted ''steps'' @ '':[]}''"

definition big_id_yaml :: string where
  "big_id_yaml = yaml_text [''id: 9007199254740993'', ''name: m'', ''description: d'', ''version: 1'', ''author: a'']"

lemmas json_text_simps = json_Parse_def quoted_def quote_char_def backslash_char_def numeral_eq_Suc SkipWhitespace_def
  IsSpace_def TryConsume_def ParseString_def Expect_def IsControl_def IsDigit_def ParseNumber_def number_sign_def
  number_fraction_def number_exponent_def ConsumeDigits_def finite_chars_def unescape_def ParseLiteral_def Let_def
  less_eq_char_def less_char_def

lemma big_id_parse:
  assumes "fc ''9007199254740993'' = Some (Fin 9007199254740992)"
  shows "json_Parse mission_texts (finite_chars fc) big_id_json =
    Inr (JObject [(''author'', JString ''a''), (''description'', JString ''d''), (''id'', JNumber (Fin 9007199254740992)),
      (''name'', JString ''m''), (''steps'', JArray []), (''version'', JString ''1'')])"
  using assms by (simp add: big_id_json_def json_text_simps)

text \<open>
  The two formats disagree on identifiers: JSON numbers go through a double, so the identifier \<open>2 ^ 53 + 1\<close> is
  silently read as \<open>2 ^ 53\<close> from JSON and exactly from YAML.
\<close>

theorem mission_json_id_rounded:
  assumes "fc ''9007199254740993'' = Some (Fin 9007199254740992)"
  shows "map_option (\<lambda>r. (mpr_success r, m_id (mpr_mission r))) (MissionParser_ParseJson fc tf now big_id_json) =
      Some (True, 9007199254740992)
    \<and> map_option (\<lambda>r. (mpr_success r, m_id (mpr_mission r))) (MissionParser_ParseYaml fc tf now big_id_yaml) =
      Some (True, 9007199254740993)"
proof
  show "map_option (\<lambda>r. (mpr_success r, m_id (mpr_mission r))) (MissionParser_ParseJson fc tf now big_id_json) =
      Some (True, 9007199254740992)"
    by (simp add: MissionParser_ParseJson_def big_id_parse [of fc, OF assms] MissionFromJson_def field_defs JsonUint64_def
        mission_parse_result_of_def)
  show "map_option (\<lambda>r. (mpr_success r, m_id (mpr_mission r))) (MissionParser_ParseYaml fc tf now big_id_yaml) =
      Some (True, 9007199254740993)"
    by code_simp
qed

theorem mission_json_id_rounded_witness:
  "map_option (\<lambda>r. m_id (mpr_mission r)) (MissionParser_ParseJson (\<lambda>_. Some (Fin 9007199254740992)) id 0 big_id_json) \<noteq>
   map_option (\<lambda>r. m_id (mpr_mission r)) (MissionParser_ParseYaml (\<lambda>_. Some (Fin 9007199254740992)) id 0 big_id_yaml)"
  using mission_json_id_rounded [of "\<lambda>_. Some (Fin 9007199254740992)" id 0] by auto

end
