(* ===== verification/Common_Status.thy ===== *)
theory Common_Status
  imports Prelude
begin

text \<open>
  The status values of \<open>common/include/humanoid/common/Status.hpp\<close> and \<open>common/src/Status.cpp\<close>, which the
  planner, plugin and perception interfaces return instead of throwing. A status that is not an error has
  no message, whatever message it was built with.
\<close>

datatype status_code =
    kOk | kCancelled | kInvalidArgument | kUnavailable | kFailedPrecondition | kInternalError

fun status_code_toString :: "status_code \<Rightarrow> string" where
  "status_code_toString kOk = ''ok''"
| "status_code_toString kCancelled = ''cancelled''"
| "status_code_toString kInvalidArgument = ''invalid_argument''"
| "status_code_toString kUnavailable = ''unavailable''"
| "status_code_toString kFailedPrecondition = ''failed_precondition''"
| "status_code_toString kInternalError = ''internal_error''"

record status =
  s_code :: status_code
  s_message :: string

definition Status_create :: "status_code \<Rightarrow> string \<Rightarrow> status" where
  "Status_create c msg = \<lparr>s_code = c, s_message = (if c = kOk then [] else msg)\<rparr>"

definition Status_ok :: status where
  "Status_ok = \<lparr>s_code = kOk, s_message = []\<rparr>"

definition Status_error :: "status_code \<Rightarrow> string \<Rightarrow> status" where
  "Status_error c msg = (if c = kOk then Status_ok else Status_create c msg)"

definition isOk :: "status \<Rightarrow> bool" where
  "isOk s = (s_code s = kOk)"

text \<open>The helpers each source file that returns a status has.\<close>

definition InvalidArgument :: "string \<Rightarrow> status" where
  "InvalidArgument msg = Status_error kInvalidArgument msg"

definition FailedPrecondition :: "string \<Rightarrow> status" where
  "FailedPrecondition msg = Status_error kFailedPrecondition msg"

definition InternalError :: "string \<Rightarrow> status" where
  "InternalError msg = Status_error kInternalError msg"

lemma isOk_simps [simp]:
  "isOk Status_ok" "\<not> isOk (InvalidArgument m)" "\<not> isOk (FailedPrecondition m)" "\<not> isOk (InternalError m)"
  by (simp_all add: isOk_def Status_ok_def InvalidArgument_def FailedPrecondition_def InternalError_def
      Status_error_def Status_create_def)

lemma Status_ok_neq [simp]:
  "InvalidArgument m \<noteq> Status_ok" "FailedPrecondition m \<noteq> Status_ok" "InternalError m \<noteq> Status_ok"
  "Status_ok \<noteq> InvalidArgument m" "Status_ok \<noteq> FailedPrecondition m" "Status_ok \<noteq> InternalError m"
  by (metis isOk_simps)+

text \<open>Statuses the class can build are determined by their code when they are not errors.\<close>

definition status_wf :: "status \<Rightarrow> bool" where
  "status_wf s = (isOk s \<longrightarrow> s_message s = [])"

lemma status_wf_create [simp]:
  "status_wf (Status_create c m)" "status_wf Status_ok" "status_wf (Status_error c m)"
  by (simp_all add: status_wf_def isOk_def Status_create_def Status_ok_def Status_error_def)

end
