(* ===== verification/Planner.thy ===== *)
theory Planner
  imports Common_Status Mission_Parser Behavior_Tree
begin

text \<open>
  The deterministic planner of \<open>src/planner/RuleBasedPlanner.cpp\<close> with the goals, requests and results of
  \<open>include/humanoid/planner\<close>. A plan reads the cancellation flag twice, before and after the rule is selected;
  a \<open>CancelPlan\<close> of another thread that arrives in between is an argument of the operation. The steady-clock
  readings are arguments too: one for the mission and one for each command.
\<close>

section \<open>Goals, requests and results\<close>

datatype goal_type = GT_Mission | GT_BehaviorTree | GT_Command | GT_Inspection | GT_Interaction | GT_Custom
  | GT_Other nat \<comment> \<open>the raw value \<open>6 + n\<close>\<close>

datatype goal_priority = GP_Low | GP_Normal | GP_High | GP_Critical
  | GP_Other nat \<comment> \<open>the raw value \<open>4 + n\<close>\<close>

datatype goal_status =
    GS_Pending | GS_Accepted | GS_Planning | GS_Planned | GS_Rejected | GS_Failed | GS_Cancelled
  | GS_Other nat \<comment> \<open>the raw value \<open>7 + n\<close>\<close>

fun goal_type_toString :: "goal_type \<Rightarrow> string" where
  "goal_type_toString GT_Mission = ''Mission''"
| "goal_type_toString GT_BehaviorTree = ''BehaviorTree''"
| "goal_type_toString GT_Command = ''Command''"
| "goal_type_toString GT_Inspection = ''Inspection''"
| "goal_type_toString GT_Interaction = ''Interaction''"
| "goal_type_toString GT_Custom = ''Custom''"
| "goal_type_toString (GT_Other _) = ''Unknown''"

fun goal_priority_toString :: "goal_priority \<Rightarrow> string" where
  "goal_priority_toString GP_Low = ''Low''"
| "goal_priority_toString GP_Normal = ''Normal''"
| "goal_priority_toString GP_High = ''High''"
| "goal_priority_toString GP_Critical = ''Critical''"
| "goal_priority_toString (GP_Other _) = ''Unknown''"

fun goal_status_toString :: "goal_status \<Rightarrow> string" where
  "goal_status_toString GS_Pending = ''Pending''"
| "goal_status_toString GS_Accepted = ''Accepted''"
| "goal_status_toString GS_Planning = ''Planning''"
| "goal_status_toString GS_Planned = ''Planned''"
| "goal_status_toString GS_Rejected = ''Rejected''"
| "goal_status_toString GS_Failed = ''Failed''"
| "goal_status_toString GS_Cancelled = ''Cancelled''"
| "goal_status_toString (GS_Other _) = ''Unknown''"

definition goal_isTerminal :: "goal_status \<Rightarrow> bool" where
  "goal_isTerminal s = (s = GS_Planned \<or> s = GS_Rejected \<or> s = GS_Failed \<or> s = GS_Cancelled)"

text \<open>The values of constraints and context are the variant the command payload has too.\<close>

record goal =
  g_id :: u64
  g_type :: goal_type
  g_description :: string
  g_priority :: goal_priority
  g_status :: goal_status
  g_constraints :: command_payload
  g_context :: command_payload
  g_metadata :: "(string \<times> string) list"
  g_timestamp :: time_ns

definition goal_isValid :: "goal \<Rightarrow> bool" where
  "goal_isValid g = (g_id g \<noteq> 0 \<and> g_description g \<noteq> [])"

record robot_capabilities =
  supportsLifecycle :: bool
  supportsConnectionManagement :: bool
  supportsStateFeedback :: bool
  supportsRobotInformation :: bool
  supportsPeriodicUpdate :: bool
  supportsPowerState :: bool
  supportsPoseEstimation :: bool
  supportsHealthState :: bool
  supportsCommandExecution :: bool

record planning_request =
  pr_goal :: goal
  pr_runtimeContext :: execution_context_snapshot
  pr_robotCapabilities :: robot_capabilities

definition request_isValid :: "planning_request \<Rightarrow> bool" where
  "request_isValid r = goal_isValid (pr_goal r)"

datatype severity = Sev_Info | Sev_Warning | Sev_Error

type_synonym diagnostic = "severity \<times> string \<times> string"

record planning_result =
  plan_status :: goal_status
  plan_mission :: "mission option"
  plan_behaviorTree :: "behavior_tree option"
  plan_diagnostics :: "diagnostic list"

definition default_planning_result :: planning_result where
  "default_planning_result =
     \<lparr>plan_status = GS_Pending, plan_mission = None, plan_behaviorTree = None, plan_diagnostics = []\<rparr>"

definition hasMission :: "planning_result \<Rightarrow> bool" where
  "hasMission r = (plan_mission r \<noteq> None)"

definition hasBehaviorTree :: "planning_result \<Rightarrow> bool" where
  "hasBehaviorTree r = (plan_behaviorTree r \<noteq> None)"

definition plan_isSuccess :: "planning_result \<Rightarrow> bool" where
  "plan_isSuccess r = (plan_status r = GS_Planned \<and> (hasMission r \<or> hasBehaviorTree r))"

definition AddDiagnostic :: "severity \<Rightarrow> string \<Rightarrow> string \<Rightarrow> planning_result \<Rightarrow> planning_result" where
  "AddDiagnostic sev code msg r = r\<lparr>plan_diagnostics := plan_diagnostics r @ [(sev, code, msg)]\<rparr>"

section \<open>Rules\<close>

record planner_rule =
  ruleId :: string
  goalType :: goal_type
  minimumPriority :: goal_priority
  commandSequence :: "command_type list"
  missionName :: string
  rule_fallback :: bool

definition rule_isValid :: "planner_rule \<Rightarrow> bool" where
  "rule_isValid r = (ruleId r \<noteq> [] \<and> commandSequence r \<noteq> [])"

fun PriorityRank :: "goal_priority \<Rightarrow> int" where
  "PriorityRank GP_Low = 0"
| "PriorityRank GP_Normal = 1"
| "PriorityRank GP_High = 2"
| "PriorityRank GP_Critical = 3"
| "PriorityRank (GP_Other _) = - 1"

fun ToCommandPriority :: "goal_priority \<Rightarrow> command_priority" where
  "ToCommandPriority GP_Low = Priority_Low"
| "ToCommandPriority GP_Normal = Priority_Normal"
| "ToCommandPriority GP_High = Priority_High"
| "ToCommandPriority GP_Critical = Priority_Critical"
| "ToCommandPriority (GP_Other _) = Priority_Normal"

definition DerivedId :: "u64 \<Rightarrow> u64 \<Rightarrow> u64" where
  "DerivedId seed offset =
     (if seed \<noteq> 0 \<and> seed \<le> - 1 - offset then seed + offset else if offset = 0 then 1 else offset)"

definition CommandSeed :: "u64 \<Rightarrow> u64" where
  "CommandSeed goal_id = (if goal_id \<noteq> 0 \<and> goal_id \<le> (- 1) div 1000 then goal_id * 1000 else goal_id)"

definition MakeCommand :: "time_ns \<Rightarrow> goal \<Rightarrow> planner_rule \<Rightarrow> command_type \<Rightarrow> u64 \<Rightarrow> command" where
  "MakeCommand now g rule ty step_index =
     default_command\<lparr>cmd_id := DerivedId (CommandSeed (g_id g)) step_index,
       cmd_timestamp := now,
       cmd_type := ty,
       cmd_priority := ToCommandPriority (g_priority g),
       cmd_payload := emplace ''rule_id'' (PV_String (ruleId rule))
         (emplace ''goal_description'' (PV_String (g_description g))
         (emplace ''goal_type'' (PV_String (goal_type_toString (g_type g))) [])),
       cmd_metadata := emplace ''rule_id'' (ruleId rule)
         (emplace ''goal_id'' (to_string (unat (g_id g)))
         (emplace ''planner'' ''RuleBasedPlanner'' []))\<rparr>"

text \<open>
  One turn of the loop over the command types, and the loop; \<open>nows\<close> has the clock reading of the command with
  each index.
\<close>

definition MakeStep :: "(nat \<Rightarrow> time_ns) \<Rightarrow> goal \<Rightarrow> planner_rule \<Rightarrow> command_type \<Rightarrow> u64 \<Rightarrow> mission_step" where
  "MakeStep nows g rule ty step_index =
     default_step\<lparr>st_id := step_index,
       st_name := ''Rule step '' @ to_string (unat step_index) @ '' '' @ command_type_toString ty,
       st_command := MakeCommand (nows (unat step_index)) g rule ty step_index,
       st_metadata := emplace ''rule_id'' (ruleId rule) (emplace ''planner'' ''RuleBasedPlanner'' [])\<rparr>"

fun MakeSteps :: "(nat \<Rightarrow> time_ns) \<Rightarrow> goal \<Rightarrow> planner_rule \<Rightarrow> command_type list \<Rightarrow> u64 \<Rightarrow> mission_step list" where
  "MakeSteps nows g rule [] step_index = []"
| "MakeSteps nows g rule (ty # tys) step_index =
     MakeStep nows g rule ty step_index # MakeSteps nows g rule tys (step_index + 1)"

definition MakeMission :: "(nat \<Rightarrow> time_ns) \<Rightarrow> planning_request \<Rightarrow> planner_rule \<Rightarrow> mission" where
  "MakeMission nows request rule =
     (let g = pr_goal request in
      default_mission\<lparr>m_id := g_id g,
        m_name := missionName rule @ '': '' @ g_description g,
        m_description := ''Deterministic rule-based plan generated from goal '' @ to_string (unat (g_id g)),
        m_version := ''1'',
        m_author := ''RuleBasedPlanner'',
        m_timestamp := nows 0,
        m_metadata := emplace ''goal_type'' (goal_type_toString (g_type g))
          (emplace ''rule_id'' (ruleId rule) (emplace ''planner'' ''RuleBasedPlanner'' [])),
        m_steps := MakeSteps nows g rule (commandSequence rule) 1\<rparr>)"

text \<open>\<open>cb\<close> names the callback of the action nodes, which returns \<open>Success\<close>.\<close>

definition MakeBehaviorTree :: "nat \<Rightarrow> planner_rule \<Rightarrow> behavior_tree" where
  "MakeBehaviorTree cb rule =
     BehaviorTree_create (Some (SequenceNode_create (''RuleBasedPlanner '' @ ruleId rule) Stateless
       (map (\<lambda>ty. Some (ActionNode_create (''Planned '' @ command_type_toString ty) (Some cb)))
          (commandSequence rule))))"

text \<open>The loop of \<open>SelectRule\<close> over the rules, with its three variables.\<close>

fun SelectRule_loop ::
  "goal \<Rightarrow> planner_rule list \<Rightarrow> planner_rule option \<Rightarrow> planner_rule option \<Rightarrow> int \<Rightarrow> planner_rule option" where
  "SelectRule_loop g [] fallback selected prio = (if selected \<noteq> None then selected else fallback)"
| "SelectRule_loop g (rule # rules) fallback selected prio =
     (if \<not> rule_isValid rule then SelectRule_loop g rules fallback selected prio
      else if rule_fallback rule then
        SelectRule_loop g rules (if fallback = None then Some rule else fallback) selected prio
      else if goalType rule \<noteq> g_type g then SelectRule_loop g rules fallback selected prio
      else if PriorityRank (g_priority g) < PriorityRank (minimumPriority rule) then
        SelectRule_loop g rules fallback selected prio
      else if selected = None \<or> PriorityRank (minimumPriority rule) > prio then
        SelectRule_loop g rules fallback (Some rule) (PriorityRank (minimumPriority rule))
      else SelectRule_loop g rules fallback selected prio)"

definition SelectRule :: "planner_rule list \<Rightarrow> goal \<Rightarrow> planner_rule option" where
  "SelectRule rules g = SelectRule_loop g rules None None (- 1)"

section \<open>The planner\<close>

datatype planner_kind = Kind_Rule | Kind_Llm | Kind_Symbolic | Kind_Custom

record planner_capabilities =
  pc_plannerId :: string
  pc_name :: string
  pc_description :: string
  pc_kind :: planner_kind
  pc_supportedGoalTypes :: "goal_type list"
  pc_supportsMissionOutput :: bool
  pc_supportsBehaviorTreeOutput :: bool
  pc_supportsPlanValidation :: bool
  pc_supportsCancellation :: bool

definition capabilities_isValid :: "planner_capabilities \<Rightarrow> bool" where
  "capabilities_isValid c = (pc_plannerId c \<noteq> [] \<and> pc_name c \<noteq> [] \<and>
     (pc_supportsMissionOutput c \<or> pc_supportsBehaviorTreeOutput c))"

record rule_planner =
  rp_capabilities :: planner_capabilities
  rp_rules :: "planner_rule list"
  rp_cancellationRequested :: bool

definition DefaultCapabilities :: planner_capabilities where
  "DefaultCapabilities = \<lparr>pc_plannerId = ''humanoid.planner.rule_based'', pc_name = ''Rule-Based Planner'',
     pc_description = ''Deterministic static planner for framework-owned goals'', pc_kind = Kind_Rule,
     pc_supportedGoalTypes = [GT_Mission, GT_BehaviorTree, GT_Command, GT_Inspection, GT_Interaction, GT_Custom],
     pc_supportsMissionOutput = True, pc_supportsBehaviorTreeOutput = True, pc_supportsPlanValidation = True,
     pc_supportsCancellation = True\<rparr>"

definition Rule ::
  "string \<Rightarrow> goal_type \<Rightarrow> goal_priority \<Rightarrow> command_type list \<Rightarrow> string \<Rightarrow> bool \<Rightarrow> planner_rule" where
  "Rule i t p cs n f = \<lparr>ruleId = i, goalType = t, minimumPriority = p, commandSequence = cs, missionName = n,
     rule_fallback = f\<rparr>"

definition DefaultFallbackRule :: planner_rule where
  "DefaultFallbackRule = Rule ''rule.fallback.default'' GT_Custom GP_Low [Type_Custom] ''Fallback Plan'' True"

definition DefaultRules :: "planner_rule list" where
  "DefaultRules =
     [Rule ''rule.command.critical-stop'' GT_Command GP_Critical [Type_Stop] ''Critical Command Plan'' False,
      Rule ''rule.mission.default'' GT_Mission GP_Low [Type_Custom] ''Mission Plan'' False,
      Rule ''rule.behavior-tree.default'' GT_BehaviorTree GP_Low [Type_Custom] ''Behavior Tree Plan'' False,
      Rule ''rule.command.default'' GT_Command GP_Low [Type_Custom] ''Command Plan'' False,
      Rule ''rule.inspection.default'' GT_Inspection GP_Low [Type_Custom] ''Inspection Plan'' False,
      Rule ''rule.interaction.default'' GT_Interaction GP_Low [Type_Custom] ''Interaction Plan'' False,
      DefaultFallbackRule]"

definition RuleBasedPlanner_create :: "planner_rule list \<Rightarrow> rule_planner" where
  "RuleBasedPlanner_create rules =
     (let kept = filter rule_isValid rules; has_fallback = list_ex rule_fallback kept in
      \<lparr>rp_capabilities = DefaultCapabilities,
       rp_rules = (if has_fallback then kept else kept @ [DefaultFallbackRule]),
       rp_cancellationRequested = False\<rparr>)"

definition RuleBasedPlanner_default :: rule_planner where
  "RuleBasedPlanner_default = RuleBasedPlanner_create DefaultRules"

definition CancelPlan :: "rule_planner \<Rightarrow> rule_planner \<times> status" where
  "CancelPlan p = (p\<lparr>rp_cancellationRequested := True\<rparr>, Status_ok)"

definition RuleCount :: "rule_planner \<Rightarrow> nat" where
  "RuleCount p = length (rp_rules p)"

text \<open>
  \<open>Plan\<close>; \<open>cancelled\<close> says that another thread calls \<open>CancelPlan\<close> between the two reads of the flag.
  \<open>exchange(false)\<close> reads and clears it.
\<close>

definition Plan ::
  "(nat \<Rightarrow> time_ns) \<Rightarrow> nat \<Rightarrow> bool \<Rightarrow> planning_request \<Rightarrow> rule_planner \<Rightarrow> planning_result \<times> rule_planner" where
  "Plan nows cb cancelled request p =
     (let result = default_planning_result; p1 = p\<lparr>rp_cancellationRequested := False\<rparr>;
          p2 = (if cancelled then fst (CancelPlan p1) else p1) in
      if rp_cancellationRequested p then
        (AddDiagnostic Sev_Warning ''planner.cancelled'' ''planning was cancelled before rule evaluation''
           (result\<lparr>plan_status := GS_Cancelled\<rparr>), p2)
      else if \<not> request_isValid request then
        (AddDiagnostic Sev_Error ''planner.invalid_request'' ''planning request does not contain a valid goal''
           (result\<lparr>plan_status := GS_Rejected\<rparr>), p2)
      else
        (case SelectRule (rp_rules p) (pr_goal request) of
           None \<Rightarrow>
             (AddDiagnostic Sev_Error ''planner.no_rule'' ''no valid rule or fallback rule is available''
                (result\<lparr>plan_status := GS_Failed\<rparr>), p2)
         | Some rule \<Rightarrow>
             if rp_cancellationRequested p2 then
               (AddDiagnostic Sev_Warning ''planner.cancelled'' ''planning was cancelled after rule selection''
                  (result\<lparr>plan_status := GS_Cancelled\<rparr>), p2\<lparr>rp_cancellationRequested := False\<rparr>)
             else
               (AddDiagnostic (if rule_fallback rule then Sev_Warning else Sev_Info)
                  (if rule_fallback rule then ''planner.fallback_rule'' else ''planner.rule_matched'')
                  (''selected rule '' @ ruleId rule)
                  (result\<lparr>plan_mission := Some (MakeMission nows request rule),
                     plan_behaviorTree := Some (MakeBehaviorTree cb rule), plan_status := GS_Planned\<rparr>), p2)))"

definition ValidatePlan :: "planning_result \<Rightarrow> status" where
  "ValidatePlan result =
     (if plan_status result \<noteq> GS_Planned then InvalidArgument ''planning result is not in Planned status''
      else if \<not> hasMission result then InvalidArgument ''planning result does not contain a mission''
      else if \<not> mission_isValid (the (plan_mission result)) then
        InvalidArgument ''planning result mission is invalid''
      else if \<not> hasBehaviorTree result then InvalidArgument ''planning result does not contain a behavior tree''
      else Status_ok)"

end
