(* ===== verification/Planner_Props.thy ===== *)
theory Planner_Props
  imports Planner Mission_Executor_Props Command_Dispatcher_Props
begin

text \<open>
  What the rule-based planner guarantees: which rule a goal gets, that a planner built by its constructor
  plans every valid request, that the planned mission passes the mission validator and is started by an idle
  executor, and what the command dispatcher then does with the planned commands.
\<close>

section \<open>Rule selection\<close>

definition rule_matches :: "goal \<Rightarrow> planner_rule \<Rightarrow> bool" where
  "rule_matches g r = (rule_isValid r \<and> \<not> rule_fallback r \<and> goalType r = g_type g
     \<and> PriorityRank (minimumPriority r) \<le> PriorityRank (g_priority g))"

abbreviation rule_rank :: "planner_rule \<Rightarrow> int" where
  "rule_rank r \<equiv> PriorityRank (minimumPriority r)"

definition usable_fallback :: "planner_rule \<Rightarrow> bool" where
  "usable_fallback r = (rule_isValid r \<and> rule_fallback r)"

text \<open>The scan with a candidate is the scan of \<open>std::max_element\<close> over the matching rules.\<close>

lemma SelectRule_loop_selected:
  assumes "pre \<noteq> []" and "pre ! i = r" and "i < length pre"
  shows "SelectRule_loop g rules fb (Some r) (rule_rank r) =
    Some ((pre @ filter (rule_matches g) rules) ! max_scan rule_rank (filter (rule_matches g) rules) (length pre) i r)"
  using assms
proof (induction rules arbitrary: fb r pre i)
  case (Cons x xs)
  have step: "pre @ x # filter (rule_matches g) xs = (pre @ [x]) @ filter (rule_matches g) xs" by simp
  show ?case
  proof (cases "rule_matches g x")
    case True
    then have "SelectRule_loop g (x # xs) fb (Some r) (rule_rank r) =
      (if rule_rank r < rule_rank x then SelectRule_loop g xs fb (Some x) (rule_rank x)
       else SelectRule_loop g xs fb (Some r) (rule_rank r))"
      by (auto simp: rule_matches_def)
    moreover have "SelectRule_loop g xs fb (Some x) (rule_rank x) = Some (((pre @ [x]) @ filter (rule_matches g) xs)
        ! max_scan rule_rank (filter (rule_matches g) xs) (length (pre @ [x])) (length pre) x)"
      by (rule Cons.IH) simp_all
    moreover from Cons.prems have "SelectRule_loop g xs fb (Some r) (rule_rank r) =
        Some (((pre @ [x]) @ filter (rule_matches g) xs)
        ! max_scan rule_rank (filter (rule_matches g) xs) (length (pre @ [x])) i r)"
      by (intro Cons.IH) (simp_all add: nth_append)
    ultimately show ?thesis using True by simp
  next
    case False
    then have "\<exists>fb'. SelectRule_loop g (x # xs) fb (Some r) (rule_rank r) =
        SelectRule_loop g xs fb' (Some r) (rule_rank r)"
      by (auto simp: rule_matches_def)
    with False Cons.IH [OF Cons.prems] show ?thesis by auto
  qed
qed (simp add: nth_append)

lemma SelectRule_loop_none:
  "SelectRule_loop g rules fb None prio =
    (case filter (rule_matches g) rules of
       [] \<Rightarrow> (if fb = None then find usable_fallback rules else fb)
     | m # ms \<Rightarrow> Some ((m # ms) ! max_element rule_rank (m # ms)))"
proof (induction rules arbitrary: fb)
  case (Cons x xs)
  show ?case
  proof (cases "rule_matches g x")
    case True
    then have "SelectRule_loop g (x # xs) fb None prio = SelectRule_loop g xs fb (Some x) (rule_rank x)"
      by (auto simp: rule_matches_def)
    with True SelectRule_loop_selected [of "[x]" 0 x g xs fb] show ?thesis by (simp add: max_element_def)
  next
    case False
    then show ?thesis
      using Cons.IH by (auto simp: rule_matches_def usable_fallback_def split: list.splits)
  qed
qed simp

text \<open>
  C19. The rule a goal gets: among the valid rules of the goal's type whose minimum priority the goal reaches,
  the first with the highest minimum priority; when no rule matches, the first valid fallback rule.
\<close>

theorem select_rule_best:
  "SelectRule rules g =
    (case filter (rule_matches g) rules of
       [] \<Rightarrow> find usable_fallback rules
     | m # ms \<Rightarrow> Some ((m # ms) ! max_element rule_rank (m # ms)))"
  by (simp add: SelectRule_def SelectRule_loop_none)

lemma SelectRule_Some_cases:
  assumes "SelectRule rules g = Some r"
  shows "r \<in> set rules" "rule_isValid r"
proof -
  have "r \<in> set (filter (rule_matches g) rules) \<or> find usable_fallback rules = Some r"
  proof (cases "filter (rule_matches g) rules")
    case Nil
    with assms show ?thesis by (simp add: SelectRule_def SelectRule_loop_none)
  next
    case (Cons m ms)
    with assms have "r = (m # ms) ! max_element rule_rank (m # ms)"
      by (simp add: SelectRule_def SelectRule_loop_none)
    with max_element_less [of "m # ms" rule_rank] have "r \<in> set (m # ms)" by (metis list.distinct(1) nth_mem)
    with Cons show ?thesis by simp
  qed
  then show "r \<in> set rules" "rule_isValid r"
    by (auto simp: rule_matches_def usable_fallback_def find_Some_iff)
qed

text \<open>A planner holds only valid rules and at least one fallback.\<close>

definition planner_wf :: "rule_planner \<Rightarrow> bool" where
  "planner_wf p = (list_all rule_isValid (rp_rules p) \<and> list_ex rule_fallback (rp_rules p))"

lemma planner_wf_create: "planner_wf (RuleBasedPlanner_create rules)"
  by (auto simp: planner_wf_def RuleBasedPlanner_create_def Let_def list_all_iff list_ex_iff DefaultFallbackRule_def
      Rule_def rule_isValid_def)

lemma planner_wf_Plan: "planner_wf p \<Longrightarrow> planner_wf (snd (Plan nows cb c req p))"
  by (auto simp: planner_wf_def Plan_def CancelPlan_def Let_def split: option.splits)

lemma planner_wf_CancelPlan: "planner_wf p \<Longrightarrow> planner_wf (fst (CancelPlan p))"
  by (simp add: planner_wf_def CancelPlan_def)

lemma planner_wf_SelectRule: "planner_wf p \<Longrightarrow> \<exists>r. SelectRule (rp_rules p) g = Some r"
  by (auto simp: planner_wf_def SelectRule_def SelectRule_loop_none list_all_iff list_ex_iff usable_fallback_def
      find_None_iff split: list.splits intro: ccontr)

section \<open>Identifiers\<close>

lemma unat_max_minus: "unat (- 1 - x :: u64) = 2 ^ 64 - 1 - unat x"
  by (subst unat_sub) (simp_all add: unsigned_minus_1_eq_mask mask_eq_exp_minus_1)

lemma unat_DerivedId:
  "unat (DerivedId seed offset) =
    (if 0 < unat seed \<and> unat seed + unat offset < 2 ^ 64 then unat seed + unat offset
     else if unat offset = 0 then 1 else unat offset)"
proof -
  have "seed \<le> - 1 - offset \<longleftrightarrow> unat seed + unat offset < 2 ^ 64"
    using unsigned_less [of offset, where ?'a = nat] by (auto simp: word_le_nat_alt unat_max_minus)
  moreover have "unat (seed + offset) = unat seed + unat offset" if "unat seed + unat offset < 2 ^ 64"
    using that by (simp add: unat_word_ariths)
  ultimately show ?thesis by (auto simp: DerivedId_def unat_eq_zero unat_gt_0)
qed

lemma DerivedId_nonzero [simp]: "DerivedId seed offset \<noteq> 0"
  by (auto simp: unat_eq_zero [symmetric] unat_DerivedId simp del: unat_eq_zero)

lemma DerivedId_inj:
  assumes "DerivedId seed i = DerivedId seed j" and "0 < unat i" "unat i < 2 ^ 63" and "0 < unat j" "unat j < 2 ^ 63"
  shows "i = j"
proof -
  from assms(1) have "unat (DerivedId seed i) = unat (DerivedId seed j)" by simp
  with assms(2-) have "unat i = unat j" by (auto simp: unat_DerivedId split: if_splits)
  then show ?thesis by (simp add: word_unat_eq_iff)
qed

lemma length_MakeSteps [simp]: "length (MakeSteps nows g rule tys i) = length tys"
  by (induction tys arbitrary: i) simp_all

lemma nth_MakeSteps:
  "k < length tys \<Longrightarrow> MakeSteps nows g rule tys i ! k = MakeStep nows g rule (tys ! k) (i + of_nat k)"
  by (induction tys arbitrary: i k) (auto simp: nth_Cons' ac_simps of_nat_diff)

section \<open>Planned missions\<close>

definition rule_commands_ok :: "planner_rule \<Rightarrow> bool" where
  "rule_commands_ok r = (list_all IsKnownCommandType (commandSequence r) \<and> length (commandSequence r) < 2 ^ 63)"

lemma step_index_unat: "k < n \<Longrightarrow> n < 2 ^ 63 \<Longrightarrow> unat (1 + of_nat k :: u64) = Suc k"
  by (simp add: unat_word_ariths unat_of_nat)

lemma planned_step_enabled [simp]: "st_enabled (MakeStep nows g rule ty i)"
  by (simp add: MakeStep_def default_step_def)

lemma planned_step_command [simp]:
  "st_command (MakeStep nows g rule ty i) = MakeCommand (nows (unat i)) g rule ty i"
  by (simp add: MakeStep_def)

lemma planned_step_valid:
  assumes "IsKnownCommandType ty" and "i \<noteq> 0"
  shows "ValidateStep (MakeStep nows g rule ty i) j = None"
proof -
  have "IsKnownPriority (ToCommandPriority p)" for p by (cases p) simp_all
  with assms show ?thesis
    by (simp add: ValidateStep_def MakeStep_def default_step_def MakeCommand_def default_command_def rp_isValid_def
        tp_isValid_def default_retry_policy_def default_timeout_policy_def duration_ok_def command_isValid_def Let_def)
qed

lemma ValidateSteps_all: "(\<And>s j. s \<in> set ss \<Longrightarrow> ValidateStep s j = None) \<Longrightarrow> ValidateSteps ss i = None"
  by (induction ss arbitrary: i) auto

lemma planned_mission_valid:
  assumes "request_isValid request" and "rule_isValid rule" and "rule_commands_ok rule"
  shows "fst (MissionValidator_Validate (MakeMission nows request rule))"
proof -
  let ?ss = "MakeSteps nows (pr_goal request) rule (commandSequence rule) 1"
  have step: "\<exists>ty i. s = MakeStep nows (pr_goal request) rule ty i \<and> IsKnownCommandType ty \<and> i \<noteq> 0"
    if s: "s \<in> set ?ss" for s
  proof -
    from s obtain k where k: "k < length (commandSequence rule)" "s = ?ss ! k" by (auto simp: in_set_conv_nth)
    moreover from k(1) assms(3) have "unat (1 + of_nat k :: u64) = Suc k"
      by (auto simp: rule_commands_ok_def intro: step_index_unat)
    then have "(1 + of_nat k :: u64) \<noteq> 0" by (metis nat.distinct(1) unat_0)
    moreover from k(1) assms(3) have "IsKnownCommandType (commandSequence rule ! k)"
      by (simp add: rule_commands_ok_def list_all_iff)
    ultimately show ?thesis using nth_MakeSteps [OF k(1)] by metis
  qed
  then have "ValidateSteps ?ss 0 = None" by (intro ValidateSteps_all) (metis planned_step_valid)
  moreover have "?ss \<noteq> []" using assms(2) by (metis length_MakeSteps length_0_conv rule_isValid_def)
  moreover from this step have "list_ex st_enabled ?ss"
    by (metis list.set_sel(1) list_ex_iff planned_step_enabled)
  ultimately show ?thesis using assms(1)
    by (simp add: MissionValidator_Validate_def MakeMission_def request_isValid_def goal_isValid_def
        default_mission_def Let_def)
qed

lemma planned_ids_distinct:
  assumes "length (commandSequence rule) < 2 ^ 63"
  shows "distinct (map (\<lambda>s. cmd_id (st_command s)) (m_steps (MakeMission nows request rule)))"
proof -
  let ?seed = "CommandSeed (g_id (pr_goal request))"
  have "k = l" if "k < length (commandSequence rule)" "l < length (commandSequence rule)"
    "DerivedId ?seed (1 + of_nat k) = DerivedId ?seed (1 + of_nat l)" for k l
  proof -
    have u: "unat (1 + of_nat k :: u64) = Suc k" "unat (1 + of_nat l :: u64) = Suc l"
      using that assms by (auto intro: step_index_unat)
    have "(1 + of_nat k :: u64) = 1 + of_nat l"
      by (rule DerivedId_inj [OF that(3)]) (use u that(1,2) assms in linarith)+
    then have "Suc k = Suc l" unfolding u [symmetric] by (rule arg_cong)
    then show ?thesis by (rule Suc_inject)
  qed
  then have "inj_on (\<lambda>k. DerivedId ?seed (1 + of_nat k)) {..<length (commandSequence rule)}"
    by (auto intro!: inj_onI)
  then show ?thesis
    by (auto simp: distinct_conv_nth MakeMission_def Let_def nth_MakeSteps MakeCommand_def dest: inj_onD)
qed

lemma planned_types:
  "map (\<lambda>s. cmd_type (st_command s)) (m_steps (MakeMission nows request rule)) = commandSequence rule"
  by (rule nth_equalityI) (simp_all add: MakeMission_def Let_def nth_MakeSteps MakeCommand_def)

lemma Plan_planned:
  assumes "planner_wf p" and "list_all rule_commands_ok (rp_rules p)" and "request_isValid request"
    and "\<not> rp_cancellationRequested p"
  obtains rule where "SelectRule (rp_rules p) (pr_goal request) = Some rule" and "rule_commands_ok rule"
    and "plan_status (fst (Plan nows cb False request p)) = GS_Planned"
    and "plan_mission (fst (Plan nows cb False request p)) = Some (MakeMission nows request rule)"
    and "plan_behaviorTree (fst (Plan nows cb False request p)) = Some (MakeBehaviorTree cb rule)"
    and "fst (MissionValidator_Validate (MakeMission nows request rule))"
    and "ValidatePlan (fst (Plan nows cb False request p)) = Status_ok"
proof -
  from planner_wf_SelectRule [OF assms(1)] obtain rule where
    rule: "SelectRule (rp_rules p) (pr_goal request) = Some rule" by blast
  note sel = SelectRule_Some_cases [OF rule]
  with assms(2) have ok: "rule_commands_ok rule" by (auto simp: list_all_iff)
  have valid: "fst (MissionValidator_Validate (MakeMission nows request rule))"
    using assms(3) sel(2) ok by (rule planned_mission_valid)
  from rule assms(3,4) Validate_isValid [OF valid] show thesis
    by (intro that [OF rule ok _ _ _ valid])
       (simp_all add: Plan_def AddDiagnostic_def ValidatePlan_def hasMission_def hasBehaviorTree_def Let_def)
qed

text \<open>
  C20. A planner with rules of known command types plans every valid request that is not cancelled: the result
  has the command sequence of the selected rule as a mission with pairwise distinct command identifiers, it
  passes the planner's own validation and the mission validator, and an idle executor starts it.
\<close>

theorem plan_executable:
  assumes "planner_wf p" and "list_all rule_commands_ok (rp_rules p)"
    and "request_isValid request" and "\<not> rp_cancellationRequested p"
  shows "\<exists>rule m. SelectRule (rp_rules p) (pr_goal request) = Some rule
    \<and> plan_status (fst (Plan nows cb False request p)) = GS_Planned
    \<and> plan_mission (fst (Plan nows cb False request p)) = Some m
    \<and> map (\<lambda>s. cmd_type (st_command s)) (m_steps m) = commandSequence rule
    \<and> distinct (map (\<lambda>s. cmd_id (st_command s)) (m_steps m))
    \<and> ValidatePlan (fst (Plan nows cb False request p)) = Status_ok
    \<and> fst (MissionValidator_Validate m)
    \<and> (\<exists>e'. mx_Start (Returned ()) m (mx_create True evaluator) =
         Some (e', MResult MS_Running ''Mission execution started''))"
  using assms
proof (rule Plan_planned [where nows = nows and cb = cb])
  fix rule
  assume rule: "SelectRule (rp_rules p) (pr_goal request) = Some rule" "rule_commands_ok rule"
    "plan_status (fst (Plan nows cb False request p)) = GS_Planned"
    "plan_mission (fst (Plan nows cb False request p)) = Some (MakeMission nows request rule)"
    "ValidatePlan (fst (Plan nows cb False request p)) = Status_ok"
    and valid: "fst (MissionValidator_Validate (MakeMission nows request rule))"
  have "\<exists>e'. mx_Start (Returned ()) (MakeMission nows request rule) (mx_create True evaluator) =
         Some (e', MResult MS_Running ''Mission execution started'')"
    using Validate_isValid [OF valid] by (auto simp: mx_Start_def mx_create_def mx_reset_def Let_def)
  with rule valid show ?thesis
    using planned_types planned_ids_distinct unfolding rule_commands_ok_def by blast
qed

definition demo_goal :: goal where
  "demo_goal = \<lparr>g_id = 7, g_type = GT_Command, g_description = ''halt'', g_priority = GP_Critical,
     g_status = GS_Pending, g_constraints = [], g_context = [], g_metadata = [], g_timestamp = 0\<rparr>"

definition demo_capabilities :: robot_capabilities where
  "demo_capabilities = \<lparr>supportsLifecycle = True, supportsConnectionManagement = True, supportsStateFeedback = True,
     supportsRobotInformation = True, supportsPeriodicUpdate = True, supportsPowerState = True,
     supportsPoseEstimation = True, supportsHealthState = True, supportsCommandExecution = True\<rparr>"

definition demo_request :: "execution_context_snapshot \<Rightarrow> planning_request" where
  "demo_request ctx = \<lparr>pr_goal = demo_goal, pr_runtimeContext = ctx, pr_robotCapabilities = demo_capabilities\<rparr>"

lemmas demo_planner_defs = RuleBasedPlanner_default_def RuleBasedPlanner_create_def DefaultRules_def
  DefaultFallbackRule_def Rule_def rule_isValid_def

lemma demo_planner:
  "planner_wf RuleBasedPlanner_default" "list_all rule_commands_ok (rp_rules RuleBasedPlanner_default)"
  "request_isValid (demo_request ctx)" "\<not> rp_cancellationRequested RuleBasedPlanner_default"
  by (simp add: RuleBasedPlanner_default_def planner_wf_create)
     (simp_all add: demo_planner_defs rule_commands_ok_def demo_request_def demo_goal_def request_isValid_def
        goal_isValid_def Let_def)

theorem plan_executable_witness:
  "\<forall>ctx. \<exists>m. plan_mission (fst (Plan (\<lambda>_. 5) 0 False (demo_request ctx) RuleBasedPlanner_default)) = Some m
     \<and> fst (MissionValidator_Validate m)"
  using plan_executable [OF demo_planner, where nows = "\<lambda>_. 5" and cb = 0] by blast

text \<open>
  A cancellation is consumed by exactly one plan: the plan that reads it ends Cancelled and carries neither
  a mission nor a tree, and the plan after it is not affected.
\<close>

lemma plan_cancel_once:
  assumes "planner_wf p" and "request_isValid request" and "request_isValid request'"
    and "early \<or> \<not> rp_cancellationRequested p"
  shows "let (r1, p1) = Plan nows cb (\<not> early) request (if early then fst (CancelPlan p) else p);
      (r2, p2) = Plan nows cb False request' p1 in
     plan_status r1 = GS_Cancelled \<and> \<not> hasMission r1 \<and> \<not> hasBehaviorTree r1 \<and> plan_status r2 = GS_Planned"
proof -
  from planner_wf_SelectRule [OF assms(1)] obtain r r' where
    "SelectRule (rp_rules p) (pr_goal request) = Some r" "SelectRule (rp_rules p) (pr_goal request') = Some r'"
    by metis
  with assms(2-4) show ?thesis
    by (cases early) (simp_all add: Plan_def CancelPlan_def AddDiagnostic_def default_planning_result_def
        hasMission_def hasBehaviorTree_def Let_def)
qed

section \<open>Planned commands and the dispatcher\<close>

lemma planned_payload:
  "cmd_payload (MakeCommand now g rule ty i) =
    [(''goal_description'', PV_String (g_description g)), (''goal_type'', PV_String (goal_type_toString (g_type g))),
     (''rule_id'', PV_String (ruleId rule))]"
  by (simp add: MakeCommand_def emplace_def)

lemma planned_type [simp]: "cmd_type (MakeCommand now g rule ty i) = ty"
  by (simp add: MakeCommand_def)

lemma planned_payload_refused:
  "ty \<noteq> Type_Custom \<Longrightarrow> \<exists>m. ValidatePayload (MakeCommand now g rule ty i) = reject m"
  by (cases ty) (auto simp: ValidatePayload_def planned_payload validate_no_payload_def validate_velocity_def
      has_string_def payload_find_def HasValidNumber_def NumericPayloadValue_def)

lemma planned_no_timeout [simp]: "cmd_timeout (MakeCommand now g rule ty i) = 0"
  by (simp add: MakeCommand_def default_command_def)

lemma planned_priority [simp]: "IsKnownPriority (cmd_priority (MakeCommand now g rule ty i))"
  by (cases "g_priority g") (simp_all add: MakeCommand_def)

lemma planned_id_nonzero [simp]: "cmd_id (MakeCommand now g rule ty i) \<noteq> 0"
  by (simp add: MakeCommand_def)

lemma planned_ValidateCommand:
  "IsKnownCommandType ty \<Longrightarrow> ValidateCommand t (MakeCommand now g rule ty i) =
    ValidatePayload (MakeCommand now g rule ty i)"
  by (simp add: ValidateCommand_def hasTimeout_def)

text \<open>What the mission executor hands to the dispatcher is the planned command with a new time stamp.\<close>

lemma planned_PrepareCommand [simp]:
  "PrepareCommand t (MakeStep nows g rule ty i) = MakeCommand t g rule ty i"
  by (simp add: PrepareCommand_def EffectiveTimeout_def step_hasTimeout_def tp_isEnabled_def MakeStep_def
      default_step_def default_timeout_policy_def MakeCommand_def Let_def)

text \<open>
  C29. The default rule for critical command goals plans a Stop command that the dispatcher refuses: every planned
  command carries three descriptive payload entries, and Stop accepts none. The mission is valid and starts, but
  the robot is never told to stop.
\<close>

theorem critical_stop_refused:
  assumes "goal_isValid (pr_goal request)" and "g_type (pr_goal request) = GT_Command"
    and "g_priority (pr_goal request) = GP_Critical"
  shows "\<exists>m s. plan_mission (fst (Plan nows cb False request RuleBasedPlanner_default)) = Some m
    \<and> fst (MissionValidator_Validate m) \<and> m_steps m = [s] \<and> cmd_type (st_command s) = Type_Stop
    \<and> (\<forall>t clk adapter d. Execute clk adapter (PrepareCommand t s) d =
         (d, [], Result Status_Rejected ''Command type does not accept payload parameters''))"
proof -
  let ?rule = "Rule ''rule.command.critical-stop'' GT_Command GP_Critical [Type_Stop] ''Critical Command Plan'' False"
  let ?s = "MakeStep nows (pr_goal request) ?rule Type_Stop 1"
  have sel: "SelectRule (rp_rules RuleBasedPlanner_default) (pr_goal request) = Some ?rule"
    using assms(2,3) by (simp add: demo_planner_defs SelectRule_def Let_def)
  have req: "request_isValid request" using assms(1) by (simp add: request_isValid_def)
  from sel req demo_planner(4) have
    "plan_mission (fst (Plan nows cb False request RuleBasedPlanner_default)) = Some (MakeMission nows request ?rule)"
    by (simp add: Plan_def AddDiagnostic_def Let_def)
  moreover have "fst (MissionValidator_Validate (MakeMission nows request ?rule))"
    using req by (rule planned_mission_valid) (simp_all add: Rule_def rule_isValid_def rule_commands_ok_def)
  moreover have "m_steps (MakeMission nows request ?rule) = [?s]" by (simp add: MakeMission_def Rule_def Let_def)
  moreover have "Execute clk adapter (PrepareCommand t ?s) d =
      (d, [], Result Status_Rejected ''Command type does not accept payload parameters'')" for t clk adapter d
    by (simp add: Execute_def Execute_begin_def planned_ValidateCommand ValidatePayload_def validate_no_payload_def
        planned_payload reject_def)
  ultimately show ?thesis by auto
qed

theorem critical_stop_refused_witness:
  "\<forall>ctx. \<exists>m s. plan_mission (fst (Plan (\<lambda>_. 5) 0 False (demo_request ctx) RuleBasedPlanner_default)) = Some m
    \<and> m_steps m = [s] \<and> cmd_type (st_command s) = Type_Stop"
proof
  fix ctx
  have "goal_isValid (pr_goal (demo_request ctx))" "g_type (pr_goal (demo_request ctx)) = GT_Command"
    "g_priority (pr_goal (demo_request ctx)) = GP_Critical"
    by (simp_all add: demo_request_def demo_goal_def goal_isValid_def)
  from critical_stop_refused [OF this, of "\<lambda>_. 5" 0]
  show "\<exists>m s. plan_mission (fst (Plan (\<lambda>_. 5) 0 False (demo_request ctx) RuleBasedPlanner_default)) = Some m
    \<and> m_steps m = [s] \<and> cmd_type (st_command s) = Type_Stop" by blast
qed

end
