(* ===== verification/Planning_Pipeline.thy ===== *)
theory Planning_Pipeline
  imports Planner_Props Tree_Runtime
begin

text \<open>
  \<open>src/planner/PlanningPipeline.cpp\<close>: plan with the primary planner, validate, fall back, and hand the tree to
  the runtime. The planners and the runtime are injected; what each of them answers in one call of \<open>Execute\<close> is
  an argument, and every call may throw. \<open>execution_mutex_\<close> serialises \<open>Execute\<close>, so a run of the pipeline is a
  sequence of calls. Logging has no effect on the state.
\<close>

section \<open>Options, metrics and results\<close>

record pipeline_options =
  po_validatePlan :: bool
  po_enableFallback :: bool
  po_submitBehaviorTreeToRuntime :: bool
  po_runtimeOptions :: bt_job_options

record pipeline_metrics =
  pm_requests :: u64
  pm_rejected :: u64
  pm_primaryPlannerAttempts :: u64
  pm_fallbackPlannerAttempts :: u64
  pm_planned :: u64
  pm_fallbackSucceeded :: u64
  pm_validationFailures :: u64
  pm_failed :: u64
  pm_runtimeSubmissions :: u64
  pm_runtimeSubmissionFailures :: u64

definition pipeline_metrics_init :: pipeline_metrics where
  "pipeline_metrics_init = \<lparr>pm_requests = 0, pm_rejected = 0, pm_primaryPlannerAttempts = 0,
     pm_fallbackPlannerAttempts = 0, pm_planned = 0, pm_fallbackSucceeded = 0, pm_validationFailures = 0,
     pm_failed = 0, pm_runtimeSubmissions = 0, pm_runtimeSubmissionFailures = 0\<rparr>"

record 'h pipeline_result =
  pp_status :: status
  pp_planningResult :: planning_result
  pp_usedFallback :: bool
  pp_runtimeHandle :: "'h option"

definition default_pipeline_result :: "'h pipeline_result" where
  "default_pipeline_result = \<lparr>pp_status = Status_ok, pp_planningResult = default_planning_result,
     pp_usedFallback = False, pp_runtimeHandle = None\<rparr>"

text \<open>\<open>IPlanner\<close> as the pipeline uses it, and the injected dependencies; \<open>Submit\<close> takes the tree by value.\<close>

record planner_iface =
  pi_Plan :: "planning_request \<Rightarrow> planning_result outcome"
  pi_ValidatePlan :: "planning_result \<Rightarrow> status outcome"

record 'h pipeline_deps =
  pd_planner :: "planner_iface option"
  pd_fallback_planner :: "planner_iface option"
  pd_submit :: "(behavior_tree option \<Rightarrow> bt_job_options \<Rightarrow> 'h outcome) option"

definition PlanningPipeline_create ::
  "planner_iface option \<Rightarrow> planner_iface option \<Rightarrow> (behavior_tree option \<Rightarrow> bt_job_options \<Rightarrow> 'h outcome) option
     \<Rightarrow> string + ('h pipeline_deps \<times> pipeline_metrics)" where
  "PlanningPipeline_create planner fallback submit =
     (if planner = None then Inl ''PlanningPipeline requires a primary planner''
      else Inr (\<lparr>pd_planner = planner, pd_fallback_planner = fallback, pd_submit = submit\<rparr>, pipeline_metrics_init))"

definition diagnose ::
  "severity \<Rightarrow> string \<Rightarrow> string \<Rightarrow> 'h pipeline_result \<Rightarrow> 'h pipeline_result" where
  "diagnose sev code msg r = r\<lparr>pp_planningResult := AddDiagnostic sev code msg (pp_planningResult r)\<rparr>"

definition IsPlanAccepted :: "planning_result \<Rightarrow> bool" where
  "IsPlanAccepted r = (plan_status r = GS_Planned \<and> hasMission r \<and> hasBehaviorTree r)"

definition IncrementRejected :: "pipeline_metrics \<Rightarrow> pipeline_metrics" where
  "IncrementRejected m = m\<lparr>pm_rejected := pm_rejected m + 1\<rparr>"

definition IncrementFailure :: "pipeline_metrics \<Rightarrow> pipeline_metrics" where
  "IncrementFailure m = m\<lparr>pm_failed := pm_failed m + 1\<rparr>"

section \<open>One planner\<close>

definition planner_threw :: "bool \<Rightarrow> string \<Rightarrow> string \<Rightarrow> 'h pipeline_result" where
  "planner_threw fallback msg what_text =
     diagnose Sev_Error (if fallback then ''pipeline.fallback_exception'' else ''pipeline.primary_exception'')
       what_text
       (default_pipeline_result\<lparr>pp_status := InternalError msg,
          pp_planningResult := default_planning_result\<lparr>plan_status := GS_Failed\<rparr>\<rparr>)"

text \<open>The lambda \<open>run_planner\<close>; an exception of \<open>ValidatePlan\<close> leaves it.\<close>

definition run_planner ::
  "planning_request \<Rightarrow> pipeline_options \<Rightarrow> planner_iface option \<Rightarrow> bool \<Rightarrow> pipeline_metrics
     \<Rightarrow> 'h pipeline_result outcome \<times> pipeline_metrics" where
  "run_planner request options planner fallback m =
     (case planner of
        None \<Rightarrow>
          (Returned (diagnose Sev_Error
             (if fallback then ''pipeline.fallback_unavailable'' else ''pipeline.primary_unavailable'')
             ''planner dependency is unavailable''
             (default_pipeline_result\<lparr>pp_status := FailedPrecondition ''planner dependency is unavailable'',
                pp_planningResult := default_planning_result\<lparr>plan_status := GS_Failed\<rparr>\<rparr>)), m)
      | Some pl \<Rightarrow>
          (let m1 = (if fallback then m\<lparr>pm_fallbackPlannerAttempts := pm_fallbackPlannerAttempts m + 1\<rparr>
                     else m\<lparr>pm_primaryPlannerAttempts := pm_primaryPlannerAttempts m + 1\<rparr>) in
           case pi_Plan pl request of
             ThrewException w \<Rightarrow> (Returned (planner_threw fallback (''planner threw exception: '' @ w) w), m1)
           | ThrewUnknown \<Rightarrow>
               (Returned (planner_threw fallback ''planner threw unknown exception'' ''planner threw unknown exception''), m1)
           | Returned plan \<Rightarrow>
               (let result = default_pipeline_result\<lparr>pp_planningResult := plan\<rparr>;
                    accepted = result\<lparr>pp_status := Status_ok, pp_usedFallback := fallback\<rparr> in
                if \<not> IsPlanAccepted plan then
                  (Returned (diagnose Sev_Warning
                     (if fallback then ''pipeline.fallback_not_accepted'' else ''pipeline.primary_not_accepted'')
                     ''planner did not produce mission and behavior tree output''
                     (result\<lparr>pp_status :=
                        FailedPrecondition ''planner did not produce mission and behavior tree output''\<rparr>)), m1)
                else if po_validatePlan options then
                  (case pi_ValidatePlan pl plan of
                     ThrewException w \<Rightarrow> (ThrewException w, m1)
                   | ThrewUnknown \<Rightarrow> (ThrewUnknown, m1)
                   | Returned st \<Rightarrow>
                       if \<not> isOk st then
                         (Returned (diagnose Sev_Error
                            (if fallback then ''pipeline.fallback_validation_failed''
                             else ''pipeline.primary_validation_failed'')
                            (s_message st) (result\<lparr>pp_status := st\<rparr>)),
                          m1\<lparr>pm_validationFailures := pm_validationFailures m1 + 1\<rparr>)
                       else (Returned accepted, m1))
                else (Returned accepted, m1))))"

section \<open>The pipeline\<close>

text \<open>The primary planner and, when it did not succeed, the fallback.\<close>

definition plan_stage ::
  "'h pipeline_deps \<Rightarrow> planning_request \<Rightarrow> pipeline_options \<Rightarrow> pipeline_metrics
     \<Rightarrow> 'h pipeline_result outcome \<times> pipeline_metrics" where
  "plan_stage d request options m =
     (case run_planner request options (pd_planner d) False m of
        (Returned r, m1) \<Rightarrow>
          if \<not> isOk (pp_status r) \<and> po_enableFallback options \<and> pd_fallback_planner d \<noteq> None then
            (case run_planner request options (pd_fallback_planner d) True m1 of
               (Returned fr, m2) \<Rightarrow>
                 if isOk (pp_status fr) then
                   (Returned fr, m2\<lparr>pm_fallbackSucceeded := pm_fallbackSucceeded m2 + 1\<rparr>)
                 else (Returned r, m2)
             | (e, m2) \<Rightarrow> (e, m2))
          else (Returned r, m1)
      | (e, m1) \<Rightarrow> (e, m1))"

definition runtime_failure ::
  "status \<Rightarrow> string \<Rightarrow> string \<Rightarrow> 'h pipeline_result \<Rightarrow> pipeline_metrics \<Rightarrow> 'h pipeline_result \<times> pipeline_metrics" where
  "runtime_failure st code msg r m =
     (diagnose Sev_Error code msg (r\<lparr>pp_status := st\<rparr>),
      IncrementFailure (m\<lparr>pm_runtimeSubmissionFailures := pm_runtimeSubmissionFailures m + 1\<rparr>))"

definition submit_stage ::
  "'h pipeline_deps \<Rightarrow> pipeline_options \<Rightarrow> 'h pipeline_result \<Rightarrow> pipeline_metrics
     \<Rightarrow> 'h pipeline_result \<times> pipeline_metrics" where
  "submit_stage d options r m =
     (let planned = (\<lambda>m. m\<lparr>pm_planned := pm_planned m + 1\<rparr>) in
      if \<not> po_submitBehaviorTreeToRuntime options then (r, planned m)
      else
        (case pd_submit d of
           None \<Rightarrow>
             runtime_failure (FailedPrecondition ''behavior tree runtime is unavailable'')
               ''pipeline.runtime_unavailable'' ''behavior tree runtime is unavailable for execution handoff'' r m
         | Some submit \<Rightarrow>
             if \<not> hasBehaviorTree (pp_planningResult r) then
               runtime_failure (FailedPrecondition ''planning result has no behavior tree'')
                 ''pipeline.runtime_missing_tree'' ''planning result has no behavior tree for execution handoff'' r m
             else
               (let moved = r\<lparr>pp_planningResult := (pp_planningResult r)\<lparr>plan_behaviorTree := None\<rparr>\<rparr> in
                case submit (plan_behaviorTree (pp_planningResult r)) (po_runtimeOptions options) of
                  Returned h \<Rightarrow>
                    (moved\<lparr>pp_runtimeHandle := Some h\<rparr>,
                     planned (m\<lparr>pm_runtimeSubmissions := pm_runtimeSubmissions m + 1\<rparr>))
                | ThrewException w \<Rightarrow>
                    runtime_failure (InternalError (''runtime handoff threw exception: '' @ w))
                      ''pipeline.runtime_exception'' w moved m
                | ThrewUnknown \<Rightarrow>
                    runtime_failure (InternalError ''runtime handoff threw unknown exception'')
                      ''pipeline.runtime_exception'' ''runtime handoff threw unknown exception'' moved m)))"

definition PlanningPipeline_Execute ::
  "'h pipeline_deps \<Rightarrow> planning_request \<Rightarrow> pipeline_options \<Rightarrow> pipeline_metrics
     \<Rightarrow> 'h pipeline_result outcome \<times> pipeline_metrics" where
  "PlanningPipeline_Execute d request options m =
     (let m0 = m\<lparr>pm_requests := pm_requests m + 1\<rparr> in
      if \<not> request_isValid request then
        (Returned (diagnose Sev_Error ''pipeline.invalid_request'' ''planning request is invalid''
           (default_pipeline_result\<lparr>pp_status := InvalidArgument ''planning request is invalid'',
              pp_planningResult := default_planning_result\<lparr>plan_status := GS_Rejected\<rparr>\<rparr>)),
         IncrementRejected m0)
      else
        (case plan_stage d request options m0 of
           (Returned r, m1) \<Rightarrow>
             if \<not> isOk (pp_status r) then (Returned r, IncrementFailure m1)
             else (case submit_stage d options r m1 of (r', m2) \<Rightarrow> (Returned r', m2))
         | (e, m1) \<Rightarrow> (e, m1)))"

section \<open>Accounting\<close>

fun threw :: "'a outcome \<Rightarrow> bool" where
  "threw (Returned _) = False"
| "threw _ = True"

text \<open>The counters of finished requests, and the ones a stage leaves alone.\<close>

definition pm_finished :: "pipeline_metrics \<Rightarrow> u64" where
  "pm_finished m = pm_planned m + pm_rejected m + pm_failed m"

lemma pm_finished_other [simp]:
  "pm_finished (m\<lparr>pm_requests := x\<rparr>) = pm_finished m"
  "pm_finished (m\<lparr>pm_primaryPlannerAttempts := x\<rparr>) = pm_finished m"
  "pm_finished (m\<lparr>pm_fallbackPlannerAttempts := x\<rparr>) = pm_finished m"
  "pm_finished (m\<lparr>pm_fallbackSucceeded := x\<rparr>) = pm_finished m"
  "pm_finished (m\<lparr>pm_validationFailures := x\<rparr>) = pm_finished m"
  "pm_finished (m\<lparr>pm_runtimeSubmissions := x\<rparr>) = pm_finished m"
  "pm_finished (m\<lparr>pm_runtimeSubmissionFailures := x\<rparr>) = pm_finished m"
  by (simp_all add: pm_finished_def)

lemma pm_finished_count [simp]:
  "pm_finished (IncrementRejected m) = pm_finished m + 1"
  "pm_finished (IncrementFailure m) = pm_finished m + 1"
  "pm_finished (m\<lparr>pm_planned := pm_planned m + 1\<rparr>) = pm_finished m + 1"
  "pm_requests (IncrementRejected m) = pm_requests m"
  "pm_requests (IncrementFailure m) = pm_requests m"
  by (simp_all add: pm_finished_def IncrementRejected_def IncrementFailure_def)

lemma pm_finished_planned [simp]:
  "pm_finished (m\<lparr>pm_runtimeSubmissions := x, pm_planned := pm_planned m + 1\<rparr>) = pm_finished m + 1"
  by (simp add: pm_finished_def)

definition same_counts :: "pipeline_metrics \<Rightarrow> pipeline_metrics \<Rightarrow> bool" where
  "same_counts m m' = (pm_finished m' = pm_finished m \<and> pm_requests m' = pm_requests m)"

lemma run_planner_counts: "run_planner request options planner fb m = (r, m') \<Longrightarrow> same_counts m m'"
  by (auto simp: run_planner_def same_counts_def Let_def split: option.splits outcome.splits if_splits)

text \<open>How the planning stage ends: with the primary planner's answer, or after the fallback.\<close>

lemma plan_stage_cases:
  fixes d :: "'h pipeline_deps"
  assumes "plan_stage d request options m = (x, m')"
  obtains (primary) "run_planner request options (pd_planner d) False m = (x, m')"
    | (fallback_ok) r :: "'h pipeline_result" and m1 fpl fr m2 where "run_planner request options (pd_planner d) False m = (Returned r, m1)"
        "\<not> isOk (pp_status r)" "po_enableFallback options"
        "pd_fallback_planner d = Some fpl"
        "run_planner request options (Some fpl) True m1 = (Returned fr, m2)" "isOk (pp_status fr)"
        "x = Returned fr" "m' = m2\<lparr>pm_fallbackSucceeded := pm_fallbackSucceeded m2 + 1\<rparr>"
    | (fallback_not) r :: "'h pipeline_result" and m1 y where "run_planner request options (pd_planner d) False m = (Returned r, m1)"
        "\<not> isOk (pp_status r)" "run_planner request options (pd_fallback_planner d) True m1 = (y, m')"
        "x = Returned r \<or> x = y \<and> threw y"
proof -
  obtain y :: "'h pipeline_result outcome" and m1 where
    y: "run_planner request options (pd_planner d) False m = (y, m1)" by fastforce
  obtain z :: "'h pipeline_result outcome" and m2 where
    z: "run_planner request options (pd_fallback_planner d) True m1 = (z, m2)" by fastforce
  show thesis
    using assms y z by (cases y; cases z) (auto simp: plan_stage_def split: if_splits intro: that)
qed

lemma plan_stage_counts: "plan_stage d request options m = (r, m') \<Longrightarrow> same_counts m m'"
  by (erule plan_stage_cases; drule run_planner_counts; (drule run_planner_counts)?) (auto simp: same_counts_def)

lemma submit_stage_counts:
  "submit_stage d options r m = (r', m') \<Longrightarrow> pm_finished m' = pm_finished m + 1 \<and> pm_requests m' = pm_requests m"
  by (auto simp: submit_stage_def runtime_failure_def Let_def split: option.splits outcome.splits if_splits)

lemma Execute_counts:
  assumes "PlanningPipeline_Execute d request options m = (r, m')"
  shows "pm_requests m' = pm_requests m + 1 \<and> pm_finished m' = pm_finished m + (if threw r then 0 else 1)"
  using assms
  by (auto simp: PlanningPipeline_Execute_def same_counts_def Let_def split: prod.splits outcome.splits if_splits
      dest!: plan_stage_counts submit_stage_counts)

text \<open>A run: the dependencies may answer differently in each call.\<close>

fun pipeline_run ::
  "('h pipeline_deps \<times> planning_request \<times> pipeline_options) list \<Rightarrow> pipeline_metrics
     \<Rightarrow> 'h pipeline_result outcome list \<times> pipeline_metrics" where
  "pipeline_run [] m = ([], m)"
| "pipeline_run ((d, request, options) # calls) m =
     (case PlanningPipeline_Execute d request options m of
        (r, m1) \<Rightarrow> (case pipeline_run calls m1 of (rs, m2) \<Rightarrow> (r # rs, m2)))"

lemma pipeline_run_counts:
  "pipeline_run calls m = (rs, m') \<Longrightarrow>
    pm_requests m' = pm_requests m + of_nat (length calls)
    \<and> pm_finished m' = pm_finished m + of_nat (length (filter (Not \<circ> threw) rs))
    \<and> length rs = length calls"
proof (induction calls arbitrary: m rs)
  case (Cons c calls)
  obtain d request options where c: "c = (d, request, options)" by (cases c)
  obtain r m1 where ex: "PlanningPipeline_Execute d request options m = (r, m1)" by fastforce
  obtain rs' where rs': "pipeline_run calls m1 = (rs', m')" "rs = r # rs'"
    using Cons.prems c ex by (auto split: prod.splits)
  show ?case using Execute_counts [OF ex] Cons.IH [OF rs'(1)] rs'(2) c by simp
qed simp

text \<open>
  The metrics account for every request: after any sequence of calls, the requests are the planned, rejected
  and failed ones together with those that an exception of a planner's validation ended (modulo \<open>2 ^ 64\<close>).
\<close>

theorem pipeline_accounts:
  "case pipeline_run calls pipeline_metrics_init of (rs, m) \<Rightarrow>
     pm_requests m = of_nat (length calls)
     \<and> pm_requests m = pm_planned m + pm_rejected m + pm_failed m + of_nat (length (filter threw rs))"
proof -
  obtain rs m where run: "pipeline_run calls pipeline_metrics_init = (rs, m)" by fastforce
  note counts = pipeline_run_counts [OF run]
  have "length (filter threw rs) + length (filter (Not \<circ> threw) rs) = length rs"
    by (simp add: sum_length_filter_compl comp_def)
  then have "(of_nat (length rs) :: u64) =
      of_nat (length (filter threw rs)) + of_nat (length (filter (Not \<circ> threw) rs))"
    by (metis of_nat_add)
  with counts run show ?thesis by (simp add: pm_finished_def pipeline_metrics_init_def)
qed

section \<open>What an accepted plan is\<close>

text \<open>
  A planner's answer that the pipeline may hand on: produced without an exception, with a mission and a tree,
  and validated when the options ask for it.
\<close>

definition planner_accepts :: "planner_iface \<Rightarrow> planning_request \<Rightarrow> pipeline_options \<Rightarrow> planning_result \<Rightarrow> bool" where
  "planner_accepts pl request options plan =
     (pi_Plan pl request = Returned plan \<and> IsPlanAccepted plan
      \<and> (po_validatePlan options \<longrightarrow> (\<exists>st. pi_ValidatePlan pl plan = Returned st \<and> isOk st)))"

lemma run_planner_ok:
  assumes "run_planner request options planner fb m = (Returned r, m')" and "isOk (pp_status r)"
  shows "\<exists>pl plan. planner = Some pl \<and> planner_accepts pl request options plan
    \<and> r = default_pipeline_result\<lparr>pp_planningResult := plan, pp_status := Status_ok, pp_usedFallback := fb\<rparr>"
  using assms
  by (auto simp: run_planner_def planner_threw_def planner_accepts_def diagnose_def default_pipeline_result_def Let_def
      split: option.splits outcome.splits if_splits)

lemma run_planner_fails:
  assumes "run_planner request options (Some pl) fb m = (Returned r, m')" and "\<not> isOk (pp_status r)"
  shows "\<not> planner_accepts pl request options plan"
  using assms
  by (auto simp: run_planner_def planner_threw_def planner_accepts_def diagnose_def default_pipeline_result_def Let_def
      split: option.splits outcome.splits if_splits)

lemma plan_stage_ok:
  assumes "plan_stage d request options m = (Returned r, m')" and "isOk (pp_status r)" and "pd_planner d = Some pl"
  shows "\<exists>plan. r = default_pipeline_result\<lparr>pp_planningResult := plan, pp_status := Status_ok,
        pp_usedFallback := pp_usedFallback r\<rparr>
    \<and> (if pp_usedFallback r then po_enableFallback options
         \<and> (\<forall>plan'. \<not> planner_accepts pl request options plan')
         \<and> (\<exists>fpl. pd_fallback_planner d = Some fpl \<and> planner_accepts fpl request options plan)
       else planner_accepts pl request options plan)"
  using assms(1)
proof (cases rule: plan_stage_cases)
  case primary
  with assms(3) have "run_planner request options (Some pl) False m = (Returned r, m')" by simp
  from run_planner_ok [OF this assms(2)] show ?thesis by (auto simp: default_pipeline_result_def)
next
  case (fallback_ok r1 m1 fpl fr m2)
  with assms(3) run_planner_fails [of request options pl False m r1 m1] run_planner_ok [OF fallback_ok(5,6)]
  show ?thesis by (auto simp: default_pipeline_result_def)
next
  case (fallback_not r1 m1 y)
  with assms(2) show ?thesis by auto
qed

text \<open>
  C21. When \<open>Execute\<close> returns an ok status, the request was valid and the mission of the result is that of a plan
  which a planner produced with a mission and a tree and, if asked, validated: the primary planner's, or the
  fallback planner's when fallback is enabled and the primary had nothing acceptable. The tree of that plan is
  still in the result, or it is what the runtime received when submission was asked for.
\<close>

theorem pipeline_accepts:
  assumes "PlanningPipeline_Execute d request options m = (Returned r, m')" and "isOk (pp_status r)"
    and "pd_planner d = Some pl"
  shows "\<exists>used plan. request_isValid request \<and> planner_accepts used request options plan
    \<and> (if pp_usedFallback r then po_enableFallback options \<and> pd_fallback_planner d = Some used
         \<and> (\<forall>plan'. \<not> planner_accepts pl request options plan') else used = pl)
    \<and> plan_mission (pp_planningResult r) = plan_mission plan \<and> plan_mission plan \<noteq> None
    \<and> (if po_submitBehaviorTreeToRuntime options
       then (\<exists>submit h. pd_submit d = Some submit \<and> pp_runtimeHandle r = Some h
              \<and> submit (plan_behaviorTree plan) (po_runtimeOptions options) = Returned h
              \<and> plan_behaviorTree (pp_planningResult r) = None)
       else pp_planningResult r = plan \<and> pp_runtimeHandle r = None)"
proof -
  from assms(1,2) obtain r1 m1 where r1: "request_isValid request"
    "plan_stage d request options (m\<lparr>pm_requests := pm_requests m + 1\<rparr>) = (Returned r1, m1)" "isOk (pp_status r1)"
    "submit_stage d options r1 m1 = (r, m')"
    by (auto simp: PlanningPipeline_Execute_def diagnose_def Let_def split: if_splits prod.splits outcome.splits)
  from plan_stage_ok [OF r1(2,3) assms(3)] obtain plan where plan:
    "r1 = default_pipeline_result\<lparr>pp_planningResult := plan, pp_status := Status_ok, pp_usedFallback := pp_usedFallback r1\<rparr>"
    "if pp_usedFallback r1 then po_enableFallback options
         \<and> (\<forall>plan'. \<not> planner_accepts pl request options plan')
         \<and> (\<exists>fpl. pd_fallback_planner d = Some fpl \<and> planner_accepts fpl request options plan)
       else planner_accepts pl request options plan" by blast
  have res: "pp_planningResult r1 = plan" "pp_runtimeHandle r1 = None"
    by (subst plan(1), simp add: default_pipeline_result_def)+
  from plan(2) obtain used where used: "planner_accepts used request options plan"
    "if pp_usedFallback r1 then po_enableFallback options \<and> pd_fallback_planner d = Some used
         \<and> (\<forall>plan'. \<not> planner_accepts pl request options plan') else used = pl"
    by (auto split: if_splits)
  have "plan_mission plan \<noteq> None" using used(1) by (simp add: planner_accepts_def IsPlanAccepted_def hasMission_def)
  with r1(1,4) assms(2) res used show ?thesis
    by (intro exI [of _ used] exI [of _ plan])
       (auto simp: submit_stage_def runtime_failure_def diagnose_def Let_def split: if_splits option.splits outcome.splits)
qed

section \<open>The contract of a planner\<close>

text \<open>
  What \<open>IPlanner\<close> documents: implementations contain their own exceptions, and validation accepts only plans
  with a valid mission. With such a planner and no fallback, \<open>Execute\<close> returns, and a validated result has a
  valid mission.
\<close>

locale planner_service =
  fixes plan_of :: "planning_request \<Rightarrow> planning_result outcome"
    and validate_plan :: "planning_result \<Rightarrow> status outcome"
  assumes plan_returns: "\<exists>plan. plan_of request = Returned plan"
    and validate_returns: "\<exists>st. validate_plan plan = Returned st"
    and validate_sound: "validate_plan plan = Returned st \<Longrightarrow> isOk st \<Longrightarrow>
      \<exists>m. plan_mission plan = Some m \<and> mission_isValid m"
begin

abbreviation planner_of :: planner_iface where
  "planner_of \<equiv> \<lparr>pi_Plan = plan_of, pi_ValidatePlan = validate_plan\<rparr>"

lemma run_planner_returns:
  "\<exists>r m'. run_planner request options (Some planner_of) fb m = (Returned r, m')"
proof -
  obtain plan where "plan_of request = Returned plan" using plan_returns by blast
  moreover obtain st where "validate_plan plan = Returned st" using validate_returns by blast
  ultimately show ?thesis by (simp add: run_planner_def Let_def)
qed

lemma execute_returns:
  fixes d :: "'h pipeline_deps"
  assumes "pd_planner d = Some planner_of" and "pd_fallback_planner d = None"
  shows "\<not> threw (fst (PlanningPipeline_Execute d request options m))"
proof -
  obtain r :: "'h pipeline_result" and m' where
    "run_planner request options (Some planner_of) False (m\<lparr>pm_requests := pm_requests m + 1\<rparr>) = (Returned r, m')"
    using run_planner_returns by blast
  with assms show ?thesis
    by (auto simp: PlanningPipeline_Execute_def plan_stage_def Let_def split: prod.splits)
qed

lemma accepted_mission_valid:
  assumes "planner_accepts planner_of request options plan" and "po_validatePlan options"
  shows "\<exists>m. plan_mission plan = Some m \<and> mission_isValid m"
  using assms validate_sound by (auto simp: planner_accepts_def)

end

text \<open>The rule-based planner keeps the contract in every state.\<close>

definition rule_plan ::
  "(nat \<Rightarrow> time_ns) \<Rightarrow> nat \<Rightarrow> bool \<Rightarrow> rule_planner \<Rightarrow> planning_request \<Rightarrow> planning_result outcome" where
  "rule_plan nows cb cancelled p request = Returned (fst (Plan nows cb cancelled request p))"

definition rule_validate :: "planning_result \<Rightarrow> status outcome" where
  "rule_validate plan = Returned (ValidatePlan plan)"

interpretation rule_based: planner_service "rule_plan nows cb cancelled p" rule_validate for nows cb cancelled p
  by unfold_locales
    (auto simp: rule_plan_def rule_validate_def ValidatePlan_def hasMission_def split: if_splits)

text \<open>
  With the rule-based planner as the primary planner, the pipeline plans every valid request that is not
  cancelled: it returns ok without a fallback, counts one planned request, and the mission of the result is
  accepted by the mission validator.
\<close>

theorem pipeline_rule_based_plans:
  assumes "planner_wf p" and "list_all rule_commands_ok (rp_rules p)" and "\<not> rp_cancellationRequested p"
    and "request_isValid request" and "\<not> po_submitBehaviorTreeToRuntime options"
    and "pd_planner d = Some \<lparr>pi_Plan = rule_plan nows cb False p, pi_ValidatePlan = rule_validate\<rparr>"
  shows "\<exists>r mi m'. PlanningPipeline_Execute d request options m = (Returned r, m') \<and> isOk (pp_status r)
    \<and> \<not> pp_usedFallback r \<and> plan_mission (pp_planningResult r) = Some mi \<and> fst (MissionValidator_Validate mi)
    \<and> pm_planned m' = pm_planned m + 1"
  using assms(1,2,4,3)
proof (rule Plan_planned [where nows = nows and cb = cb])
  fix rule
  assume "plan_status (fst (Plan nows cb False request p)) = GS_Planned"
    "plan_mission (fst (Plan nows cb False request p)) = Some (MakeMission nows request rule)"
    "plan_behaviorTree (fst (Plan nows cb False request p)) = Some (MakeBehaviorTree cb rule)"
    "fst (MissionValidator_Validate (MakeMission nows request rule))"
    "ValidatePlan (fst (Plan nows cb False request p)) = Status_ok"
  with assms(4-6) show ?thesis
    by (simp add: PlanningPipeline_Execute_def plan_stage_def run_planner_def submit_stage_def rule_plan_def
        rule_validate_def IsPlanAccepted_def hasMission_def hasBehaviorTree_def default_pipeline_result_def Let_def)
qed

definition demo_pipeline_options :: pipeline_options where
  "demo_pipeline_options = \<lparr>po_validatePlan = True, po_enableFallback = True, po_submitBehaviorTreeToRuntime = False,
     po_runtimeOptions = default_bt_job_options\<rparr>"

definition demo_deps :: "nat pipeline_deps" where
  "demo_deps = \<lparr>pd_planner = Some \<lparr>pi_Plan = rule_plan (\<lambda>_. 5) 0 False RuleBasedPlanner_default,
     pi_ValidatePlan = rule_validate\<rparr>, pd_fallback_planner = None, pd_submit = None\<rparr>"

theorem pipeline_rule_based_plans_witness:
  "\<forall>ctx. \<exists>r m'. PlanningPipeline_Execute demo_deps (demo_request ctx) demo_pipeline_options pipeline_metrics_init =
     (Returned r, m') \<and> isOk (pp_status r)"
  using pipeline_rule_based_plans [OF demo_planner(1,2,4,3), of demo_pipeline_options demo_deps "\<lambda>_. 5" 0]
  by (fastforce simp: demo_deps_def demo_pipeline_options_def)

theorem pipeline_accepts_witness:
  "\<forall>ctx. \<exists>plan. planner_accepts (the (pd_planner demo_deps)) (demo_request ctx) demo_pipeline_options plan
     \<and> plan_mission plan \<noteq> None"
proof
  fix ctx
  have dep: "pd_planner demo_deps = Some (the (pd_planner demo_deps))" by (simp add: demo_deps_def)
  obtain rule where
    "plan_status (fst (Plan (\<lambda>_. 5) 0 False (demo_request ctx) RuleBasedPlanner_default)) = GS_Planned"
    "plan_mission (fst (Plan (\<lambda>_. 5) 0 False (demo_request ctx) RuleBasedPlanner_default)) =
      Some (MakeMission (\<lambda>_. 5) (demo_request ctx) rule)"
    "plan_behaviorTree (fst (Plan (\<lambda>_. 5) 0 False (demo_request ctx) RuleBasedPlanner_default)) =
      Some (MakeBehaviorTree 0 rule)"
    "ValidatePlan (fst (Plan (\<lambda>_. 5) 0 False (demo_request ctx) RuleBasedPlanner_default)) = Status_ok"
    using demo_planner by (rule Plan_planned)
  then obtain r m' where "PlanningPipeline_Execute demo_deps (demo_request ctx) demo_pipeline_options
      pipeline_metrics_init = (Returned r, m')" "isOk (pp_status r)" "\<not> pp_usedFallback r"
    using demo_planner(3)
    by (simp add: demo_deps_def demo_pipeline_options_def PlanningPipeline_Execute_def plan_stage_def run_planner_def
        submit_stage_def rule_plan_def rule_validate_def IsPlanAccepted_def hasMission_def hasBehaviorTree_def
        default_pipeline_result_def Let_def)
  from pipeline_accepts [OF this(1,2) dep] this(3) show "\<exists>plan. planner_accepts (the (pd_planner demo_deps))
      (demo_request ctx) demo_pipeline_options plan \<and> plan_mission plan \<noteq> None" by auto
qed

end
