(* ===== verification/Instance_Tracking.thy ===== *)
theory Instance_Tracking
  imports Prelude "HOL-Library.AList" "HOL-Library.Multiset"
begin

text \<open>
  The planner factory and the plugin factory keep, for every registered identifier, a creator and the number of
  instances it made that are still in use; the number protects the registration. \<open>tracking_factory\<close> states what
  the critical sections of such a factory do to the numbers, and shows that they count exactly the creations in
  progress and the instances not yet destroyed.
\<close>

section \<open>Unordered maps\<close>

text \<open>\<open>std::unordered_map\<close>: \<open>emplace\<close> of a new key, \<open>erase\<close>, and an update through an iterator.\<close>

definition um_emplace :: "'k \<Rightarrow> 'v \<Rightarrow> ('k \<times> 'v) list \<Rightarrow> ('k \<times> 'v) list \<times> bool" where
  "um_emplace k v kvs = (if map_of kvs k \<noteq> None then (kvs, False) else ((k, v) # kvs, True))"

definition um_erase :: "'k \<Rightarrow> ('k \<times> 'v) list \<Rightarrow> ('k \<times> 'v) list \<times> nat" where
  "um_erase k kvs = (AList.delete k kvs, if map_of kvs k = None then 0 else 1)"

definition um_modify :: "'k \<Rightarrow> ('v \<Rightarrow> 'v) \<Rightarrow> ('k \<times> 'v) list \<Rightarrow> ('k \<times> 'v) list" where
  "um_modify k f kvs = map (\<lambda>(k', v). (k', if k' = k then f v else v)) kvs"

lemma map_of_um_modify [simp]:
  "map_of (um_modify k f kvs) k' = (if k' = k then map_option f (map_of kvs k) else map_of kvs k')"
  by (induction kvs) (auto simp: um_modify_def)

lemma fst_um_modify [simp]: "map fst (um_modify k f kvs) = map fst kvs"
  by (auto simp: um_modify_def)

lemma um_emplace_simps:
  "map_of kvs k = None \<Longrightarrow> um_emplace k v kvs = ((k, v) # kvs, True)"
  "map_of kvs k = Some w \<Longrightarrow> um_emplace k v kvs = (kvs, False)"
  by (simp_all add: um_emplace_def)

lemma map_of_um_erase [simp]: "map_of (fst (um_erase k kvs)) = (map_of kvs)(k := None)"
  by (simp add: um_erase_def delete_conv')

lemma keys_ok_um:
  "keys_ok kvs \<Longrightarrow> keys_ok (fst (um_emplace k v kvs))"
  "keys_ok kvs \<Longrightarrow> keys_ok (fst (um_erase k kvs))"
  "keys_ok kvs \<Longrightarrow> keys_ok (um_modify k f kvs)"
  by (auto simp: keys_ok_def um_emplace_def um_erase_def map_of_eq_None_iff distinct_delete)

section \<open>Tracking\<close>

primrec held :: "nat option \<Rightarrow> nat" where
  "held None = 0"
| "held (Some n) = n"

text \<open>
  \<open>active s k\<close> is the number kept for a registered identifier \<open>k\<close>. The first critical section of a creation is
  \<open>prepare\<close>; a creation that fails calls \<open>release\<close>; \<open>drop\<close> is the critical section of a destruction. An
  operation that refuses returns \<open>None\<close>.
\<close>

locale tracking_factory =
  fixes active :: "'s \<Rightarrow> string \<Rightarrow> nat option"
    and enrol :: "string \<Rightarrow> 's \<Rightarrow> 's option"
    and withdraw :: "string \<Rightarrow> 's \<Rightarrow> 's option"
    and prepare :: "string \<Rightarrow> 's \<Rightarrow> 's option"
    and release :: "string \<Rightarrow> 's \<Rightarrow> 's"
    and drop_instance :: "string \<Rightarrow> 's \<Rightarrow> 's option"
  assumes enrol_active: "enrol k s = Some s' \<Longrightarrow> active s k = None \<and> active s' = (active s)(k \<mapsto> 0)"
    and withdraw_active: "withdraw k s = Some s' \<Longrightarrow> active s k = Some 0 \<and> active s' = (active s)(k := None)"
    and prepare_active: "prepare k s = Some s' \<Longrightarrow> \<exists>n. active s k = Some n \<and> active s' = (active s)(k \<mapsto> Suc n)"
    and release_active: "active s k = Some (Suc n) \<Longrightarrow> active (release k s) = (active s)(k \<mapsto> n)"
    and drop_active: "drop_instance k s = Some s' \<Longrightarrow>
      \<exists>n. active s k = Some (Suc n) \<and> active s' = (active s)(k \<mapsto> n)"
    and drop_total: "active s k = Some (Suc n) \<Longrightarrow> drop_instance k s \<noteq> None"
begin

definition tracked :: "'s \<Rightarrow> string multiset \<Rightarrow> string multiset \<Rightarrow> bool" where
  "tracked s pending live \<longleftrightarrow> (\<forall>k. held (active s k) = count pending k + count live k)"

lemma trackedD: "tracked s P L \<Longrightarrow> held (active s k) = count P k + count L k"
  by (simp add: tracked_def)

lemma trackedI:
  assumes "tracked s P L" and "active s' = (active s)(k := v)" and "held v = count P' k + count L' k"
    and "\<And>k'. k' \<noteq> k \<Longrightarrow> count P' k' + count L' k' = count P k' + count L k'"
  shows "tracked s' P' L'"
  using assms by (simp add: tracked_def)

lemma tracked_enrol: "tracked s P L \<Longrightarrow> enrol k s = Some s' \<Longrightarrow> tracked s' P L"
  using enrol_active [of k s s'] trackedD [of s P L k] by (auto intro: trackedI)

lemma tracked_withdraw:
  assumes "tracked s P L" and "withdraw k s = Some s'"
  shows "tracked s' P L" and "count P k = 0" and "count L k = 0"
  using withdraw_active [OF assms(2)] trackedD [OF assms(1), of k] assms(1) by (auto intro: trackedI)

lemma tracked_prepare: "tracked s P L \<Longrightarrow> prepare k s = Some s' \<Longrightarrow> tracked s' (add_mset k P) L"
  using prepare_active [of k s s'] trackedD [of s P L k] by (auto intro: trackedI)

lemma tracked_registered:
  assumes "tracked s P L" and "0 < count P k + count L k"
  obtains n where "active s k = Some (Suc n)" and "Suc n = count P k + count L k"
proof -
  from gr0_implies_Suc [OF assms(2)] obtain n where n: "count P k + count L k = Suc n" by blast
  with trackedD [OF assms(1), of k] have "held (active s k) = Suc n" by (rule trans)
  then have "active s k = Some (Suc n)" by (cases "active s k") simp_all
  from that [OF this sym [OF n]] show thesis .
qed

lemma tracked_release:
  assumes "tracked s P L" and "k \<in># P"
  shows "tracked (release k s) (P - {#k#}) L"
proof -
  from assms(2) have "0 < count P k + count L k" by simp
  with assms(1) obtain n where n: "active s k = Some (Suc n)" "Suc n = count P k + count L k"
    by (rule tracked_registered)
  have "0 < count P k" using assms(2) by simp
  with assms(1) release_active [OF n(1)] n(2) show ?thesis by (auto intro: trackedI)
qed

lemma tracked_created:
  assumes "tracked s P L" and "k \<in># P"
  shows "tracked s (P - {#k#}) (add_mset k L)"
proof -
  have "0 < count P k" using assms(2) by simp
  with assms(1) show ?thesis by (auto simp: tracked_def)
qed

lemma tracked_drop:
  assumes "tracked s P L" and "k \<in># L"
  shows "\<exists>s'. drop_instance k s = Some s' \<and> tracked s' P (L - {#k#})"
proof -
  from assms(2) have "0 < count P k + count L k" by simp
  with assms(1) obtain n where n: "active s k = Some (Suc n)" "Suc n = count P k + count L k"
    by (rule tracked_registered)
  with drop_total obtain s' where s': "drop_instance k s = Some s'" by blast
  have "0 < count L k" using assms(2) by simp
  with assms(1) drop_active [OF s'] n have "tracked s' P (L - {#k#})" by (auto intro: trackedI)
  with s' show ?thesis by blast
qed

end

end
