(* ===== verification/Planner_Factory.thy ===== *)
theory Planner_Factory
  imports Planner Instance_Tracking
begin

text \<open>
  \<open>src/planner/PlannerRegistry.cpp\<close> and \<open>src/planner/PlannerFactory.cpp\<close>. The registry and the factory each lock
  their own mutex; an operation of the registry is one transition, and so is each critical section of the
  factory, so creations of several threads interleave. What a creator returns, and what the new planner reports
  as its capabilities, are arguments. Enumerations list the map in the order of its representation.
\<close>

section \<open>Registry\<close>

type_synonym planner_registry = "(string \<times> planner_capabilities) list"

definition PlannerRegistry_RegisterPlanner ::
  "planner_capabilities \<Rightarrow> planner_registry \<Rightarrow> planner_registry \<times> status" where
  "PlannerRegistry_RegisterPlanner caps reg =
     (if \<not> capabilities_isValid caps then (reg, InvalidArgument ''planner capabilities are incomplete or invalid'')
      else (case um_emplace (pc_plannerId caps) caps reg of
         (reg', inserted) \<Rightarrow>
           if \<not> inserted then (reg', FailedPrecondition ''planner is already registered'') else (reg', Status_ok)))"

definition PlannerRegistry_UnregisterPlanner :: "string \<Rightarrow> planner_registry \<Rightarrow> planner_registry \<times> status" where
  "PlannerRegistry_UnregisterPlanner i reg =
     (if i = [] then (reg, InvalidArgument ''planner identifier is empty'')
      else (case um_erase i reg of
         (reg', n) \<Rightarrow>
           if n = 0 then (reg', FailedPrecondition ''planner is not registered'') else (reg', Status_ok)))"

definition PlannerRegistry_Contains :: "string \<Rightarrow> planner_registry \<Rightarrow> bool" where
  "PlannerRegistry_Contains i reg = (if i = [] then False else map_of reg i \<noteq> None)"

definition PlannerRegistry_Capabilities :: "string \<Rightarrow> planner_registry \<Rightarrow> planner_capabilities option" where
  "PlannerRegistry_Capabilities i reg = (if i = [] then None else map_of reg i)"

definition PlannerRegistry_EnumeratePlanners :: "planner_registry \<Rightarrow> planner_capabilities list" where
  "PlannerRegistry_EnumeratePlanners reg = map snd reg"

definition PlannerRegistry_PlannerCount :: "planner_registry \<Rightarrow> nat" where
  "PlannerRegistry_PlannerCount reg = length reg"

section \<open>Factory\<close>

text \<open>The creators are named by numbers; \<open>pf_registry\<close> is the shared registry, null when the factory has none.\<close>

record planner_entry =
  pe_capabilities :: planner_capabilities
  pe_creator :: nat
  pe_activeInstances :: nat

record planner_factory =
  pf_registry :: "planner_registry option"
  pf_factories :: "(string \<times> planner_entry) list"

definition PlannerFactory_create :: "planner_registry option \<Rightarrow> planner_factory" where
  "PlannerFactory_create reg = \<lparr>pf_registry = reg, pf_factories = []\<rparr>"

text \<open>\<open>stored\<close> is false when storing the creator throws, and the registration is then undone.\<close>

definition PlannerFactory_RegisterPlanner ::
  "planner_capabilities \<Rightarrow> nat option \<Rightarrow> bool \<Rightarrow> planner_factory \<Rightarrow> planner_factory \<times> status" where
  "PlannerFactory_RegisterPlanner caps creator stored f =
     (case pf_registry f of
        None \<Rightarrow> (f, FailedPrecondition ''planner registry is not available'')
      | Some reg \<Rightarrow>
          (case creator of
             None \<Rightarrow> (f, InvalidArgument ''planner creator is empty'')
           | Some c \<Rightarrow>
               if \<not> capabilities_isValid caps then
                 (f, InvalidArgument ''planner capabilities are incomplete or invalid'')
               else if map_of (pf_factories f) (pc_plannerId caps) \<noteq> None then
                 (f, FailedPrecondition ''planner creator is already registered'')
               else (case PlannerRegistry_RegisterPlanner caps reg of
                  (reg', st) \<Rightarrow>
                    if \<not> isOk st then (f\<lparr>pf_registry := Some reg'\<rparr>, st)
                    else if stored then
                      (f\<lparr>pf_registry := Some reg', pf_factories := fst (um_emplace (pc_plannerId caps)
                           \<lparr>pe_capabilities = caps, pe_creator = c, pe_activeInstances = 0\<rparr> (pf_factories f))\<rparr>,
                       Status_ok)
                    else
                      (f\<lparr>pf_registry := Some (fst (PlannerRegistry_UnregisterPlanner (pc_plannerId caps) reg'))\<rparr>,
                       InternalError ''failed to store planner creator''))))"

definition PlannerFactory_UnregisterPlanner :: "string \<Rightarrow> planner_factory \<Rightarrow> planner_factory \<times> status" where
  "PlannerFactory_UnregisterPlanner i f =
     (case pf_registry f of
        None \<Rightarrow> (f, FailedPrecondition ''planner registry is not available'')
      | Some reg \<Rightarrow>
          if i = [] then (f, InvalidArgument ''planner identifier is empty'')
          else (case map_of (pf_factories f) i of
             None \<Rightarrow> (f, FailedPrecondition ''planner creator is not registered'')
           | Some e \<Rightarrow>
               if pe_activeInstances e > 0 then (f, FailedPrecondition ''planner instances are still active'')
               else (case PlannerRegistry_UnregisterPlanner i reg of
                  (reg', st) \<Rightarrow>
                    if \<not> isOk st then (f\<lparr>pf_registry := Some reg'\<rparr>, st)
                    else (f\<lparr>pf_registry := Some reg', pf_factories := fst (um_erase i (pf_factories f))\<rparr>, Status_ok))))"

definition change_instances :: "(nat \<Rightarrow> nat) \<Rightarrow> string \<Rightarrow> planner_factory \<Rightarrow> planner_factory" where
  "change_instances g i f =
     f\<lparr>pf_factories := um_modify i (\<lambda>e. e\<lparr>pe_activeInstances := g (pe_activeInstances e)\<rparr>) (pf_factories f)\<rparr>"

text \<open>\<open>CreatePlanner\<close> up to the call of the creator.\<close>

definition PlannerFactory_CreatePlanner_begin :: "string \<Rightarrow> planner_factory \<Rightarrow> status + planner_factory" where
  "PlannerFactory_CreatePlanner_begin i f =
     (if pf_registry f = None then Inl (FailedPrecondition ''planner registry is not available'')
      else if i = [] then Inl (InvalidArgument ''planner identifier is empty'')
      else (case map_of (pf_factories f) i of
         None \<Rightarrow> Inl (FailedPrecondition ''planner creator is not registered'')
       | Some e \<Rightarrow> Inr (change_instances Suc i f)))"

definition release_active_instance :: "string \<Rightarrow> planner_factory \<Rightarrow> planner_factory" where
  "release_active_instance i f = change_instances (\<lambda>n. if n > 0 then n - 1 else n) i f"

text \<open>
  The rest of \<open>CreatePlanner\<close>: the creator throws, returns null, or returns a planner whose \<open>GetCapabilities\<close>
  answers or throws. The flag of the result says whether the caller receives the planner.
\<close>

definition PlannerFactory_CreatePlanner_finish ::
  "string \<Rightarrow> planner_capabilities outcome option outcome \<Rightarrow> planner_factory \<Rightarrow> planner_factory \<times> status \<times> bool" where
  "PlannerFactory_CreatePlanner_finish key created f =
     (let refuse = (\<lambda>msg. (release_active_instance key f, InternalError msg, False)) in
      case created of
        Returned None \<Rightarrow> refuse ''planner creator returned null''
      | Returned (Some caps) \<Rightarrow>
          (case caps of
             Returned c \<Rightarrow>
               if \<not> capabilities_isValid c \<or> pc_plannerId c \<noteq> key then
                 refuse ''created planner capabilities do not match requested identifier''
               else (f, Status_ok, True)
           | _ \<Rightarrow> refuse ''planner capability query threw an exception'')
      | _ \<Rightarrow> refuse ''planner creator threw an exception'')"

text \<open>\<open>DestroyPlanner\<close> of a null pointer (\<open>None\<close>) or of a planner, by what it reports of itself.\<close>

definition PlannerFactory_DestroyPlanner ::
  "planner_capabilities outcome option \<Rightarrow> planner_factory \<Rightarrow> planner_factory \<times> status" where
  "PlannerFactory_DestroyPlanner planner f =
     (case planner of
        None \<Rightarrow> (f, InvalidArgument ''planner instance is null'')
      | Some (Returned caps) \<Rightarrow>
          if pc_plannerId caps = [] then (f, InvalidArgument ''planner identifier is empty'')
          else (case map_of (pf_factories f) (pc_plannerId caps) of
             None \<Rightarrow> (f, FailedPrecondition ''planner instance is not tracked by this factory'')
           | Some e \<Rightarrow>
               if pe_activeInstances e = 0 then
                 (f, FailedPrecondition ''planner instance is not tracked by this factory'')
               else (change_instances (\<lambda>n. n - 1) (pc_plannerId caps) f, Status_ok))
      | Some _ \<Rightarrow> (f, InternalError ''planner capability query threw an exception''))"

definition PlannerFactory_EnumeratePlanners :: "planner_factory \<Rightarrow> planner_capabilities list" where
  "PlannerFactory_EnumeratePlanners f =
     (case pf_registry f of None \<Rightarrow> [] | Some reg \<Rightarrow> PlannerRegistry_EnumeratePlanners reg)"

definition RegisteredPlannerCount :: "planner_factory \<Rightarrow> nat" where
  "RegisteredPlannerCount f = length (pf_factories f)"

section \<open>Tracking\<close>

definition planner_active :: "planner_factory \<Rightarrow> string \<Rightarrow> nat option" where
  "planner_active f i = map_option pe_activeInstances (map_of (pf_factories f) i)"

definition planner_enrol :: "planner_capabilities \<Rightarrow> nat option \<Rightarrow> bool \<Rightarrow> string \<Rightarrow> planner_factory \<Rightarrow> planner_factory option" where
  "planner_enrol caps creator stored i f =
     (case PlannerFactory_RegisterPlanner caps creator stored f of
        (f', st) \<Rightarrow> if isOk st \<and> pc_plannerId caps = i then Some f' else None)"

definition planner_withdraw :: "string \<Rightarrow> planner_factory \<Rightarrow> planner_factory option" where
  "planner_withdraw i f =
     (case PlannerFactory_UnregisterPlanner i f of (f', st) \<Rightarrow> if isOk st then Some f' else None)"

definition planner_prepare :: "string \<Rightarrow> planner_factory \<Rightarrow> planner_factory option" where
  "planner_prepare i f = (case PlannerFactory_CreatePlanner_begin i f of Inl _ \<Rightarrow> None | Inr f' \<Rightarrow> Some f')"

definition planner_drop :: "string \<Rightarrow> planner_factory \<Rightarrow> planner_factory option" where
  "planner_drop i f = (case map_of (pf_factories f) i of
     Some e \<Rightarrow> if pe_activeInstances e = 0 then None else Some (change_instances (\<lambda>n. n - 1) i f) | None \<Rightarrow> None)"

lemma planner_active_change [simp]:
  "planner_active (change_instances g i f) =
     (planner_active f)(i := map_option g (planner_active f i))"
  by (auto simp: planner_active_def change_instances_def fun_eq_iff option.map_comp comp_def)

lemma planner_active_registry [simp]: "planner_active (f\<lparr>pf_registry := reg\<rparr>) = planner_active f"
  by (simp add: planner_active_def fun_eq_iff)

lemma Register_active:
  assumes "PlannerFactory_RegisterPlanner caps creator stored f = (f', st)"
  shows "if isOk st then planner_active f (pc_plannerId caps) = None
      \<and> planner_active f' = (planner_active f)(pc_plannerId caps \<mapsto> 0)
    else planner_active f' = planner_active f"
  using assms
  by (auto simp: PlannerFactory_RegisterPlanner_def planner_active_def um_emplace_def fun_eq_iff
      split: option.splits prod.splits if_splits)

lemma Unregister_active:
  assumes "PlannerFactory_UnregisterPlanner i f = (f', st)"
  shows "if isOk st then planner_active f i = Some 0 \<and> planner_active f' = (planner_active f)(i := None)
    else planner_active f' = planner_active f"
  using assms
  by (auto simp: PlannerFactory_UnregisterPlanner_def planner_active_def fun_eq_iff
      split: option.splits prod.splits if_splits)

interpretation planner_tracking: tracking_factory planner_active "planner_enrol caps creator stored" planner_withdraw
  planner_prepare release_active_instance planner_drop for caps creator stored
proof unfold_locales
  fix k f f'
  show "planner_enrol caps creator stored k f = Some f' \<Longrightarrow>
      planner_active f k = None \<and> planner_active f' = (planner_active f)(k \<mapsto> 0)"
    using Register_active [of caps creator stored f] by (auto simp: planner_enrol_def split: prod.splits if_splits)
  show "planner_withdraw k f = Some f' \<Longrightarrow> planner_active f k = Some 0 \<and> planner_active f' = (planner_active f)(k := None)"
    using Unregister_active [of k f] by (auto simp: planner_withdraw_def split: prod.splits if_splits)
  show "planner_prepare k f = Some f' \<Longrightarrow>
      \<exists>n. planner_active f k = Some n \<and> planner_active f' = (planner_active f)(k \<mapsto> Suc n)"
    by (auto simp: planner_prepare_def PlannerFactory_CreatePlanner_begin_def planner_active_def [of f k]
        split: option.splits if_splits)
  fix n
  show "planner_active f k = Some (Suc n) \<Longrightarrow> planner_active (release_active_instance k f) = (planner_active f)(k \<mapsto> n)"
    by (simp add: release_active_instance_def)
  show "planner_drop k f = Some f' \<Longrightarrow>
      \<exists>n. planner_active f k = Some (Suc n) \<and> planner_active f' = (planner_active f)(k \<mapsto> n)"
    by (auto simp: planner_drop_def planner_active_def [of f k] gr0_conv_Suc split: option.splits if_splits)
  show "planner_active f k = Some (Suc n) \<Longrightarrow> planner_drop k f \<noteq> None"
    by (auto simp: planner_drop_def planner_active_def split: option.splits)
qed

section \<open>Interleaved calls\<close>

text \<open>
  A system is a factory, the creations that have begun and not ended, and the instances handed to callers and
  not yet destroyed, each by the identifier it was created for. Callers destroy instances of this factory, which
  keep reporting that identifier; other holders of the shared registry may change it at any time.
\<close>

inductive pf_reach :: "planner_factory \<Rightarrow> string multiset \<Rightarrow> string multiset \<Rightarrow> bool" where
  pf_init: "pf_reach (PlannerFactory_create reg) {#} {#}"
| pf_register: "pf_reach f P L \<Longrightarrow> PlannerFactory_RegisterPlanner caps creator stored f = (f', st) \<Longrightarrow>
    pf_reach f' P L"
| pf_unregister: "pf_reach f P L \<Longrightarrow> PlannerFactory_UnregisterPlanner i f = (f', st) \<Longrightarrow> pf_reach f' P L"
| pf_begin: "pf_reach f P L \<Longrightarrow> PlannerFactory_CreatePlanner_begin i f = Inr f' \<Longrightarrow> pf_reach f' (add_mset i P) L"
| pf_finish: "pf_reach f P L \<Longrightarrow> i \<in># P \<Longrightarrow>
    PlannerFactory_CreatePlanner_finish i created f = (f', st, ok) \<Longrightarrow>
    pf_reach f' (P - {#i#}) (if ok then add_mset i L else L)"
| pf_destroy: "pf_reach f P L \<Longrightarrow> pc_plannerId caps \<in># L \<Longrightarrow>
    PlannerFactory_DestroyPlanner (Some (Returned caps)) f = (f', st) \<Longrightarrow>
    pf_reach f' P (if isOk st then L - {#pc_plannerId caps#} else L)"
| pf_shared: "pf_reach f P L \<Longrightarrow> pf_reach (f\<lparr>pf_registry := map_option g (pf_registry f)\<rparr>) P L"

abbreviation planner_tracked :: "planner_factory \<Rightarrow> string multiset \<Rightarrow> string multiset \<Rightarrow> bool" where
  "planner_tracked \<equiv> planner_tracking.tracked"

lemma planner_tracked_same:
  "planner_active f' = planner_active f \<Longrightarrow> planner_tracked f P L \<Longrightarrow> planner_tracked f' P L"
  by (simp add: planner_tracking.tracked_def)

lemma tracked_Register:
  assumes "planner_tracked f P L" and "PlannerFactory_RegisterPlanner caps creator stored f = (f', st)"
  shows "planner_tracked f' P L"
proof (cases "isOk st")
  case True
  with assms(2) have "planner_enrol caps creator stored (pc_plannerId caps) f = Some f'"
    by (simp add: planner_enrol_def)
  with assms(1) show ?thesis by (rule planner_tracking.tracked_enrol)
next
  case False
  with Register_active [OF assms(2)] assms(1) show ?thesis by (auto intro: planner_tracked_same)
qed

lemma tracked_Unregister:
  assumes "planner_tracked f P L" and "PlannerFactory_UnregisterPlanner i f = (f', st)"
  shows "planner_tracked f' P L" and "isOk st \<Longrightarrow> i \<notin># P \<and> i \<notin># L"
proof -
  have "planner_tracked f' P L \<and> (isOk st \<longrightarrow> i \<notin># P \<and> i \<notin># L)"
  proof (cases "isOk st")
    case True
    with assms(2) have "planner_withdraw i f = Some f'" by (simp add: planner_withdraw_def)
    from planner_tracking.tracked_withdraw [OF assms(1) this] show ?thesis by (simp add: not_in_iff)
  next
    case False
    with Unregister_active [OF assms(2)] assms(1) show ?thesis by (auto intro: planner_tracked_same)
  qed
  then show "planner_tracked f' P L" "isOk st \<Longrightarrow> i \<notin># P \<and> i \<notin># L" by auto
qed

lemma finish_cases:
  assumes "PlannerFactory_CreatePlanner_finish i created f = (f', st, ok)"
  shows "ok \<and> f' = f \<and> isOk st \<or> \<not> ok \<and> f' = release_active_instance i f \<and> \<not> isOk st"
  using assms by (auto simp: PlannerFactory_CreatePlanner_finish_def Let_def
      split: outcome.splits option.splits if_splits)

text \<open>An instance of this factory is destroyed, unless its identifier is empty, which no registered one is.\<close>

definition pf_ids_ok :: "planner_factory \<Rightarrow> bool" where
  "pf_ids_ok f = (planner_active f [] = None)"

lemma Register_id: "PlannerFactory_RegisterPlanner caps creator stored f = (f', st) \<Longrightarrow> isOk st \<Longrightarrow> pc_plannerId caps \<noteq> []"
  by (auto simp: PlannerFactory_RegisterPlanner_def capabilities_isValid_def split: option.splits if_splits)

lemma ids_ok_steps:
  "pf_ids_ok f \<Longrightarrow> PlannerFactory_RegisterPlanner caps creator stored f = (f', st) \<Longrightarrow> pf_ids_ok f'"
  "pf_ids_ok f \<Longrightarrow> PlannerFactory_UnregisterPlanner i f = (f', st) \<Longrightarrow> pf_ids_ok f'"
  "pf_ids_ok f \<Longrightarrow> PlannerFactory_CreatePlanner_begin i f = Inr f' \<Longrightarrow> pf_ids_ok f'"
  "pf_ids_ok f \<Longrightarrow> PlannerFactory_CreatePlanner_finish i created f = (f', st', ok) \<Longrightarrow> pf_ids_ok f'"
  "pf_ids_ok f \<Longrightarrow> PlannerFactory_DestroyPlanner pl f = (f', st) \<Longrightarrow> pf_ids_ok f'"
  using Register_active [of caps creator stored f f' st] Register_id [of caps creator stored f f' st]
    Unregister_active [of i f f' st] finish_cases [of i created f f' st' ok]
  by (auto simp: pf_ids_ok_def PlannerFactory_CreatePlanner_begin_def PlannerFactory_DestroyPlanner_def
      release_active_instance_def split: option.splits if_splits outcome.splits)

lemma Destroy_live:
  assumes "planner_tracked f P L" and "pf_ids_ok f" and "pc_plannerId caps \<in># L"
  shows "\<exists>f'. PlannerFactory_DestroyPlanner (Some (Returned caps)) f = (f', Status_ok)
    \<and> planner_tracked f' P (L - {#pc_plannerId caps#})"
proof -
  from planner_tracking.tracked_drop [OF assms(1,3)] obtain f' where
    f': "planner_drop (pc_plannerId caps) f = Some f'" "planner_tracked f' P (L - {#pc_plannerId caps#})" by blast
  moreover from f'(1) assms(2) have "pc_plannerId caps \<noteq> []"
    by (auto simp: planner_drop_def pf_ids_ok_def planner_active_def split: option.splits)
  ultimately show ?thesis
    by (auto simp: planner_drop_def PlannerFactory_DestroyPlanner_def split: option.splits if_splits)
qed

lemma pf_reach_inv: "pf_reach f P L \<Longrightarrow> planner_tracked f P L \<and> pf_ids_ok f"
proof (induction rule: pf_reach.induct)
  case (pf_init reg)
  then show ?case
    unfolding planner_tracking.tracked_def pf_ids_ok_def by (simp add: planner_active_def PlannerFactory_create_def)
next
  case (pf_register f P L caps creator stored f' st)
  then show ?case using tracked_Register ids_ok_steps(1) by blast
next
  case (pf_unregister f P L i f' st)
  then show ?case using tracked_Unregister(1) ids_ok_steps(2) by blast
next
  case (pf_begin f P L i f')
  then have "planner_prepare i f = Some f'" by (simp add: planner_prepare_def)
  with pf_begin show ?case using planner_tracking.tracked_prepare ids_ok_steps(3) by blast
next
  case (pf_finish f P L i created f' st ok)
  then have "pf_ids_ok f'" using ids_ok_steps(4) by blast
  with finish_cases [OF pf_finish.hyps(3)] pf_finish show ?case
    by (auto simp: planner_tracking.tracked_created planner_tracking.tracked_release)
next
  case (pf_destroy f P L caps f' st)
  then have ids: "pf_ids_ok f'" using ids_ok_steps(5) by blast
  from Destroy_live [of f P L caps] pf_destroy ids show ?case by auto
next
  case (pf_shared f P L g)
  then show ?case by (auto simp: pf_ids_ok_def intro: planner_tracked_same)
qed

text \<open>
  C22. In every interleaving of factory calls, the number kept for an identifier is the number of its creations in
  progress and of its instances in use. So unregistering succeeds only when there is neither, and an instance the
  factory made can always be destroyed.
\<close>

theorem planner_factory_tracks:
  assumes "pf_reach f P L"
  shows "(\<forall>i. held (planner_active f i) = count P i + count L i)
    \<and> (\<forall>i f' st. PlannerFactory_UnregisterPlanner i f = (f', st) \<and> isOk st \<longrightarrow> i \<notin># P \<and> i \<notin># L)
    \<and> (\<forall>caps. pc_plannerId caps \<in># L \<longrightarrow> snd (PlannerFactory_DestroyPlanner (Some (Returned caps)) f) = Status_ok)"
proof -
  from pf_reach_inv [OF assms] have inv: "planner_tracked f P L" "pf_ids_ok f" by auto
  show ?thesis
    using inv tracked_Unregister(2) [OF inv(1)] Destroy_live [OF inv]
    by (auto simp: planner_tracking.tracked_def) (metis snd_conv)
qed

definition demo_factory :: planner_factory where
  "demo_factory = fst (PlannerFactory_RegisterPlanner DefaultCapabilities (Some 0) True (PlannerFactory_create (Some [])))"

lemma demo_factory_reach: "pf_reach demo_factory {#} {#}"
  unfolding demo_factory_def by (rule pf_register [OF pf_init, where st = "snd _"]) (rule prod.collapse [symmetric])

theorem planner_factory_tracks_witness:
  "\<exists>f f'. PlannerFactory_CreatePlanner_begin ''humanoid.planner.rule_based'' demo_factory = Inr f
     \<and> PlannerFactory_CreatePlanner_finish ''humanoid.planner.rule_based''
         (Returned (Some (Returned DefaultCapabilities))) f = (f', Status_ok, True)
     \<and> held (planner_active f' ''humanoid.planner.rule_based'') = 1
     \<and> snd (PlannerFactory_DestroyPlanner (Some (Returned DefaultCapabilities)) f') = Status_ok"
proof -
  let ?i = "''humanoid.planner.rule_based''"
  obtain f where f: "PlannerFactory_CreatePlanner_begin ?i demo_factory = Inr f"
    by (simp add: demo_factory_def PlannerFactory_RegisterPlanner_def PlannerRegistry_RegisterPlanner_def
        PlannerFactory_create_def PlannerFactory_CreatePlanner_begin_def um_emplace_def DefaultCapabilities_def
        capabilities_isValid_def)
  obtain f' where f': "PlannerFactory_CreatePlanner_finish ?i (Returned (Some (Returned DefaultCapabilities))) f =
      (f', Status_ok, True)"
    by (simp add: PlannerFactory_CreatePlanner_finish_def DefaultCapabilities_def capabilities_isValid_def)
  have "pf_reach f' {#} {#?i#}"
    using pf_finish [OF pf_begin [OF demo_factory_reach f] _ f'] by simp
  from planner_factory_tracks [OF this] f f' show ?thesis by (auto simp: DefaultCapabilities_def)
qed

end
