(* ===== verification/Plugin_Factory.thy ===== *)
theory Plugin_Factory
  imports Common_Status Instance_Tracking
begin

text \<open>
  The plugin host of \<open>plugins/src\<close>: versions and the compatibility range of a plugin, its metadata and lifecycle
  states, the registry (\<open>PluginRegistry.cpp\<close>) and the factory (\<open>PluginFactory.cpp\<close>). As in the planner factory,
  each critical section of the factory is a transition, what the creator and the plugin answer is an argument,
  and other holders of the shared registry may change it between any two of them.
\<close>

section \<open>Versions and metadata\<close>

record semantic_version =
  v_major :: int
  v_minor :: int
  v_patch :: int

definition apiVersion :: semantic_version where
  "apiVersion = \<lparr>v_major = 1, v_minor = 0, v_patch = 1\<rparr>"

definition version_stable :: "semantic_version \<Rightarrow> bool" where
  "version_stable v = (v_major v > 0)"

record version_compatibility =
  minimum_framework_version :: semantic_version
  maximum_framework_version :: semantic_version

definition default_compatibility :: version_compatibility where
  "default_compatibility = \<lparr>minimum_framework_version = apiVersion, maximum_framework_version = apiVersion\<rparr>"

definition Compare :: "semantic_version \<Rightarrow> semantic_version \<Rightarrow> int" where
  "Compare l r =
     (if v_major l \<noteq> v_major r then if v_major l < v_major r then - 1 else 1
      else if v_minor l \<noteq> v_minor r then if v_minor l < v_minor r then - 1 else 1
      else if v_patch l \<noteq> v_patch r then if v_patch l < v_patch r then - 1 else 1
      else 0)"

definition compatibility_IsCompatibleWith :: "semantic_version \<Rightarrow> version_compatibility \<Rightarrow> bool" where
  "compatibility_IsCompatibleWith v c =
     (Compare (minimum_framework_version c) v \<le> 0 \<and> Compare v (maximum_framework_version c) \<le> 0)"

definition compatibility_IsValid :: "version_compatibility \<Rightarrow> bool" where
  "compatibility_IsValid c = (Compare (minimum_framework_version c) (maximum_framework_version c) \<le> 0)"

record plugin_metadata =
  plugin_id :: string
  plugin_name :: string
  plugin_vendor :: string
  plugin_description :: string
  plugin_version :: semantic_version
  plugin_compatibility :: version_compatibility
  plugin_manifest_path :: string

definition metadata_IsValid :: "plugin_metadata \<Rightarrow> bool" where
  "metadata_IsValid m = (plugin_id m \<noteq> [] \<and> plugin_name m \<noteq> [] \<and> plugin_vendor m \<noteq> []
     \<and> compatibility_IsValid (plugin_compatibility m))"

definition metadata_IsCompatibleWith :: "semantic_version \<Rightarrow> plugin_metadata \<Rightarrow> bool" where
  "metadata_IsCompatibleWith v m = compatibility_IsCompatibleWith v (plugin_compatibility m)"

datatype plugin_state =
    kDiscovered | kRegistered | kLoaded | kInitialized | kStarted | kStopped | kShutdown | kFailed

fun plugin_state_toString :: "plugin_state \<Rightarrow> string" where
  "plugin_state_toString kDiscovered = ''discovered''"
| "plugin_state_toString kRegistered = ''registered''"
| "plugin_state_toString kLoaded = ''loaded''"
| "plugin_state_toString kInitialized = ''initialized''"
| "plugin_state_toString kStarted = ''started''"
| "plugin_state_toString kStopped = ''stopped''"
| "plugin_state_toString kShutdown = ''shutdown''"
| "plugin_state_toString kFailed = ''failed''"

text \<open>\<open>Compare\<close> is a total order on versions.\<close>

lemma Compare_cases:
  "Compare l r \<le> 0 \<longleftrightarrow> v_major l < v_major r \<or> v_major l = v_major r \<and>
     (v_minor l < v_minor r \<or> v_minor l = v_minor r \<and> v_patch l \<le> v_patch r)"
  by (auto simp: Compare_def)

lemma Compare_zero: "Compare l r = 0 \<longleftrightarrow> l = r"
  by (auto simp: Compare_def semantic_version.equality)

lemma Compare_antisym: "Compare l r \<le> 0 \<Longrightarrow> Compare r l \<le> 0 \<Longrightarrow> l = r"
  by (auto simp: Compare_cases semantic_version.equality)

lemma Compare_trans: "Compare l m \<le> 0 \<Longrightarrow> Compare m r \<le> 0 \<Longrightarrow> Compare l r \<le> 0"
  by (auto simp: Compare_cases)

lemma Compare_total: "Compare l r \<le> 0 \<or> Compare r l \<le> 0"
  by (auto simp: Compare_cases)

section \<open>Registry\<close>

type_synonym plugin_registry = "(string \<times> plugin_metadata \<times> plugin_state) list"

definition PluginRegistry_RegisterPlugin :: "plugin_metadata \<Rightarrow> plugin_registry \<Rightarrow> plugin_registry \<times> status" where
  "PluginRegistry_RegisterPlugin m reg =
     (if \<not> metadata_IsValid m then
        (reg, InvalidArgument ''plugin metadata is incomplete or has invalid compatibility range'')
      else if \<not> metadata_IsCompatibleWith apiVersion m then
        (reg, FailedPrecondition ''plugin is not compatible with this framework API version'')
      else (case um_emplace (plugin_id m) (m, kRegistered) reg of
         (reg', inserted) \<Rightarrow>
           if \<not> inserted then (reg', FailedPrecondition ''plugin is already registered'') else (reg', Status_ok)))"

definition PluginRegistry_UnregisterPlugin :: "string \<Rightarrow> plugin_registry \<Rightarrow> plugin_registry \<times> status" where
  "PluginRegistry_UnregisterPlugin i reg =
     (if i = [] then (reg, InvalidArgument ''plugin identifier is empty'')
      else (case um_erase i reg of
         (reg', n) \<Rightarrow>
           if n = 0 then (reg', FailedPrecondition ''plugin is not registered'') else (reg', Status_ok)))"

definition SetLifecycleState :: "string \<Rightarrow> plugin_state \<Rightarrow> plugin_registry \<Rightarrow> plugin_registry \<times> status" where
  "SetLifecycleState i st reg =
     (if i = [] then (reg, InvalidArgument ''plugin identifier is empty'')
      else if map_of reg i = None then (reg, FailedPrecondition ''plugin is not registered'')
      else (um_modify i (\<lambda>(m, _). (m, st)) reg, Status_ok))"

definition PluginRegistry_Contains :: "string \<Rightarrow> plugin_registry \<Rightarrow> bool" where
  "PluginRegistry_Contains i reg = (if i = [] then False else map_of reg i \<noteq> None)"

definition PluginRegistry_Metadata :: "string \<Rightarrow> plugin_registry \<Rightarrow> plugin_metadata option" where
  "PluginRegistry_Metadata i reg = (if i = [] then None else map_option fst (map_of reg i))"

definition PluginRegistry_LifecycleState :: "string \<Rightarrow> plugin_registry \<Rightarrow> plugin_state option" where
  "PluginRegistry_LifecycleState i reg = (if i = [] then None else map_option snd (map_of reg i))"

definition PluginRegistry_EnumeratePlugins :: "plugin_registry \<Rightarrow> (plugin_metadata \<times> plugin_state) list" where
  "PluginRegistry_EnumeratePlugins reg = map snd reg"

definition PluginRegistry_PluginCount :: "plugin_registry \<Rightarrow> nat" where
  "PluginRegistry_PluginCount reg = length reg"

section \<open>Factory\<close>

record plugin_entry =
  fe_metadata :: plugin_metadata
  fe_creator :: nat
  fe_active_instances :: nat

record plugin_factory =
  gf_registry :: "plugin_registry option"
  gf_factories :: "(string \<times> plugin_entry) list"

definition PluginFactory_create :: "plugin_registry option \<Rightarrow> plugin_factory" where
  "PluginFactory_create reg = \<lparr>gf_registry = reg, gf_factories = []\<rparr>"

definition PluginFactory_RegisterPlugin ::
  "plugin_metadata \<Rightarrow> nat option \<Rightarrow> bool \<Rightarrow> plugin_factory \<Rightarrow> plugin_factory \<times> status" where
  "PluginFactory_RegisterPlugin m creator stored f =
     (case gf_registry f of
        None \<Rightarrow> (f, FailedPrecondition ''plugin registry is not available'')
      | Some reg \<Rightarrow>
          (case creator of
             None \<Rightarrow> (f, InvalidArgument ''plugin creator is empty'')
           | Some c \<Rightarrow>
               if \<not> metadata_IsValid m then (f, InvalidArgument ''plugin metadata is incomplete or invalid'')
               else if map_of (gf_factories f) (plugin_id m) \<noteq> None then
                 (f, FailedPrecondition ''plugin creator is already registered'')
               else (case PluginRegistry_RegisterPlugin m reg of
                  (reg', st) \<Rightarrow>
                    if \<not> isOk st then (f\<lparr>gf_registry := Some reg'\<rparr>, st)
                    else if stored then
                      (f\<lparr>gf_registry := Some reg', gf_factories := fst (um_emplace (plugin_id m)
                           \<lparr>fe_metadata = m, fe_creator = c, fe_active_instances = 0\<rparr> (gf_factories f))\<rparr>, Status_ok)
                    else
                      (f\<lparr>gf_registry := Some (fst (PluginRegistry_UnregisterPlugin (plugin_id m) reg'))\<rparr>,
                       InternalError ''failed to store plugin creator''))))"

definition PluginFactory_UnregisterPlugin :: "string \<Rightarrow> plugin_factory \<Rightarrow> plugin_factory \<times> status" where
  "PluginFactory_UnregisterPlugin i f =
     (case gf_registry f of
        None \<Rightarrow> (f, FailedPrecondition ''plugin registry is not available'')
      | Some reg \<Rightarrow>
          if i = [] then (f, InvalidArgument ''plugin identifier is empty'')
          else (case map_of (gf_factories f) i of
             None \<Rightarrow> (f, FailedPrecondition ''plugin creator is not registered'')
           | Some e \<Rightarrow>
               if fe_active_instances e > 0 then (f, FailedPrecondition ''plugin instances are still active'')
               else (case PluginRegistry_UnregisterPlugin i reg of
                  (reg', st) \<Rightarrow>
                    if \<not> isOk st then (f\<lparr>gf_registry := Some reg'\<rparr>, st)
                    else (f\<lparr>gf_registry := Some reg', gf_factories := fst (um_erase i (gf_factories f))\<rparr>, Status_ok))))"

definition change_active :: "(nat \<Rightarrow> nat) \<Rightarrow> string \<Rightarrow> plugin_factory \<Rightarrow> plugin_factory" where
  "change_active g i f =
     f\<lparr>gf_factories := um_modify i (\<lambda>e. e\<lparr>fe_active_instances := g (fe_active_instances e)\<rparr>) (gf_factories f)\<rparr>"

text \<open>\<open>SetLifecycleState\<close> on the factory's registry; the factory has one when this is called.\<close>

definition set_state :: "string \<Rightarrow> plugin_state \<Rightarrow> plugin_factory \<Rightarrow> plugin_factory \<times> status" where
  "set_state i st f =
     (case gf_registry f of
        None \<Rightarrow> (f, FailedPrecondition ''plugin registry is not available'')
      | Some reg \<Rightarrow> (case SetLifecycleState i st reg of (reg', s) \<Rightarrow> (f\<lparr>gf_registry := Some reg'\<rparr>, s)))"

definition PluginFactory_CreatePlugin_begin :: "string \<Rightarrow> plugin_factory \<Rightarrow> status + plugin_factory" where
  "PluginFactory_CreatePlugin_begin i f =
     (if gf_registry f = None then Inl (FailedPrecondition ''plugin registry is not available'')
      else if i = [] then Inl (InvalidArgument ''plugin identifier is empty'')
      else (case map_of (gf_factories f) i of
         None \<Rightarrow> Inl (FailedPrecondition ''plugin creator is not registered'')
       | Some e \<Rightarrow> Inr (change_active Suc i f)))"

definition plugin_release_active_instance :: "string \<Rightarrow> plugin_factory \<Rightarrow> plugin_factory" where
  "plugin_release_active_instance i f = change_active (\<lambda>n. if n > 0 then n - 1 else n) i f"

text \<open>The creator throws, returns null, or returns a plugin with the identifier its metadata has.\<close>

definition PluginFactory_CreatePlugin_finish ::
  "string \<Rightarrow> string option outcome \<Rightarrow> plugin_factory \<Rightarrow> plugin_factory \<times> status \<times> bool" where
  "PluginFactory_CreatePlugin_finish key created f =
     (let refuse = (\<lambda>msg. (fst (set_state key kFailed (plugin_release_active_instance key f)), InternalError msg, False)) in
      case created of
        Returned None \<Rightarrow> refuse ''plugin creator returned null''
      | Returned (Some i) \<Rightarrow>
          if i \<noteq> key then refuse ''created plugin metadata does not match requested identifier''
          else (case set_state key kLoaded f of
             (f', st) \<Rightarrow>
               if \<not> isOk st then (plugin_release_active_instance key f', st, False) else (f', Status_ok, True))
      | _ \<Rightarrow> refuse ''plugin creator threw an exception'')"

text \<open>
  \<open>DestroyPlugin\<close>: the checks, which refuse with a status, and what follows the call of \<open>Shutdown\<close>, whose
  exceptions leave the function. The flag says whether the caller still owns the plugin.
\<close>

definition PluginFactory_DestroyPlugin_check :: "string option \<Rightarrow> plugin_factory \<Rightarrow> status option" where
  "PluginFactory_DestroyPlugin_check plugin f =
     (if gf_registry f = None then Some (FailedPrecondition ''plugin registry is not available'')
      else (case plugin of
         None \<Rightarrow> Some (InvalidArgument ''plugin instance is null'')
       | Some i \<Rightarrow>
           if i = [] then Some (InvalidArgument ''plugin identifier is empty'')
           else (case map_of (gf_factories f) i of
              None \<Rightarrow> Some (FailedPrecondition ''plugin instance is not tracked by this factory'')
            | Some e \<Rightarrow>
                if fe_active_instances e = 0 then
                  Some (FailedPrecondition ''plugin instance is not tracked by this factory'')
                else None)))"

definition PluginFactory_DestroyPlugin_finish ::
  "string \<Rightarrow> status outcome \<Rightarrow> plugin_factory \<Rightarrow> plugin_factory \<times> status outcome \<times> bool" where
  "PluginFactory_DestroyPlugin_finish i shutdown f =
     (case shutdown of
        ThrewException w \<Rightarrow> (f, ThrewException w, True)
      | ThrewUnknown \<Rightarrow> (f, ThrewUnknown, True)
      | Returned st \<Rightarrow>
          if \<not> isOk st then (fst (set_state i kFailed f), Returned st, True)
          else (case set_state i kShutdown (plugin_release_active_instance i f) of
             (f', st') \<Rightarrow> (f', Returned st', False)))"

definition PluginFactory_EnumeratePlugins :: "plugin_factory \<Rightarrow> (plugin_metadata \<times> plugin_state) list" where
  "PluginFactory_EnumeratePlugins f =
     (case gf_registry f of None \<Rightarrow> [] | Some reg \<Rightarrow> PluginRegistry_EnumeratePlugins reg)"

definition RegisteredPluginCount :: "plugin_factory \<Rightarrow> nat" where
  "RegisteredPluginCount f = length (gf_factories f)"

section \<open>Tracking\<close>

definition plugin_active :: "plugin_factory \<Rightarrow> string \<Rightarrow> nat option" where
  "plugin_active f i = map_option fe_active_instances (map_of (gf_factories f) i)"

definition plugin_enrol :: "plugin_metadata \<Rightarrow> nat option \<Rightarrow> bool \<Rightarrow> string \<Rightarrow> plugin_factory \<Rightarrow> plugin_factory option" where
  "plugin_enrol m creator stored i f =
     (case PluginFactory_RegisterPlugin m creator stored f of
        (f', st) \<Rightarrow> if isOk st \<and> plugin_id m = i then Some f' else None)"

definition plugin_withdraw :: "string \<Rightarrow> plugin_factory \<Rightarrow> plugin_factory option" where
  "plugin_withdraw i f =
     (case PluginFactory_UnregisterPlugin i f of (f', st) \<Rightarrow> if isOk st then Some f' else None)"

definition plugin_prepare :: "string \<Rightarrow> plugin_factory \<Rightarrow> plugin_factory option" where
  "plugin_prepare i f = (case PluginFactory_CreatePlugin_begin i f of Inl _ \<Rightarrow> None | Inr f' \<Rightarrow> Some f')"

definition plugin_drop :: "string \<Rightarrow> plugin_factory \<Rightarrow> plugin_factory option" where
  "plugin_drop i f =
     (if held (plugin_active f i) = 0 then None else Some (plugin_release_active_instance i f))"

lemma plugin_active_change [simp]:
  "plugin_active (change_active g i f) = (plugin_active f)(i := map_option g (plugin_active f i))"
  by (auto simp: plugin_active_def change_active_def fun_eq_iff option.map_comp comp_def)

lemma plugin_active_registry [simp]: "plugin_active (f\<lparr>gf_registry := reg\<rparr>) = plugin_active f"
  by (simp add: plugin_active_def fun_eq_iff)

lemma plugin_active_set_state [simp]: "plugin_active (fst (set_state i st f)) = plugin_active f"
  by (simp add: set_state_def split: option.splits prod.splits)

lemma RegisterPlugin_active:
  assumes "PluginFactory_RegisterPlugin m creator stored f = (f', st)"
  shows "if isOk st then plugin_active f (plugin_id m) = None \<and> plugin_id m \<noteq> []
      \<and> plugin_active f' = (plugin_active f)(plugin_id m \<mapsto> 0)
    else plugin_active f' = plugin_active f"
  using assms
  by (auto simp: PluginFactory_RegisterPlugin_def plugin_active_def um_emplace_def fun_eq_iff metadata_IsValid_def
      split: option.splits prod.splits if_splits)

lemma UnregisterPlugin_active:
  assumes "PluginFactory_UnregisterPlugin i f = (f', st)"
  shows "if isOk st then plugin_active f i = Some 0 \<and> plugin_active f' = (plugin_active f)(i := None)
    else plugin_active f' = plugin_active f"
  using assms
  by (auto simp: PluginFactory_UnregisterPlugin_def plugin_active_def fun_eq_iff
      split: option.splits prod.splits if_splits)

interpretation plugin_tracking: tracking_factory plugin_active "plugin_enrol m creator stored" plugin_withdraw
  plugin_prepare plugin_release_active_instance plugin_drop for m creator stored
proof unfold_locales
  fix k f f'
  show "plugin_enrol m creator stored k f = Some f' \<Longrightarrow>
      plugin_active f k = None \<and> plugin_active f' = (plugin_active f)(k \<mapsto> 0)"
    using RegisterPlugin_active [of m creator stored f] by (auto simp: plugin_enrol_def split: prod.splits if_splits)
  show "plugin_withdraw k f = Some f' \<Longrightarrow> plugin_active f k = Some 0 \<and> plugin_active f' = (plugin_active f)(k := None)"
    using UnregisterPlugin_active [of k f] by (auto simp: plugin_withdraw_def split: prod.splits if_splits)
  show "plugin_prepare k f = Some f' \<Longrightarrow>
      \<exists>n. plugin_active f k = Some n \<and> plugin_active f' = (plugin_active f)(k \<mapsto> Suc n)"
    by (auto simp: plugin_prepare_def PluginFactory_CreatePlugin_begin_def plugin_active_def [of f k]
        split: option.splits if_splits)
  fix n
  show release: "plugin_active f k = Some (Suc n) \<Longrightarrow>
      plugin_active (plugin_release_active_instance k f) = (plugin_active f)(k \<mapsto> n)"
    for n by (simp add: plugin_release_active_instance_def)
  show "plugin_drop k f = Some f' \<Longrightarrow>
      \<exists>n. plugin_active f k = Some (Suc n) \<and> plugin_active f' = (plugin_active f)(k \<mapsto> n)"
    using release by (cases "plugin_active f k") (auto simp: plugin_drop_def gr0_conv_Suc split: if_splits)
  show "plugin_active f k = Some (Suc n) \<Longrightarrow> plugin_drop k f \<noteq> None"
    by (simp add: plugin_drop_def)
qed

section \<open>Interleaved calls\<close>

inductive gf_reach :: "plugin_factory \<Rightarrow> string multiset \<Rightarrow> string multiset \<Rightarrow> bool" where
  gf_init: "gf_reach (PluginFactory_create reg) {#} {#}"
| gf_register: "gf_reach f P L \<Longrightarrow> PluginFactory_RegisterPlugin m creator stored f = (f', st) \<Longrightarrow> gf_reach f' P L"
| gf_unregister: "gf_reach f P L \<Longrightarrow> PluginFactory_UnregisterPlugin i f = (f', st) \<Longrightarrow> gf_reach f' P L"
| gf_begin: "gf_reach f P L \<Longrightarrow> PluginFactory_CreatePlugin_begin i f = Inr f' \<Longrightarrow> gf_reach f' (add_mset i P) L"
| gf_finish: "gf_reach f P L \<Longrightarrow> i \<in># P \<Longrightarrow> PluginFactory_CreatePlugin_finish i created f = (f', st, ok) \<Longrightarrow>
    gf_reach f' (P - {#i#}) (if ok then add_mset i L else L)"
| gf_destroy: "gf_reach f P L \<Longrightarrow> i \<in># L \<Longrightarrow> PluginFactory_DestroyPlugin_finish i shutdown f = (f', r, owned) \<Longrightarrow>
    gf_reach f' P (if owned then L else L - {#i#})"
| gf_shared: "gf_reach f P L \<Longrightarrow> gf_reach (f\<lparr>gf_registry := map_option g (gf_registry f)\<rparr>) P L"

abbreviation plugin_tracked :: "plugin_factory \<Rightarrow> string multiset \<Rightarrow> string multiset \<Rightarrow> bool" where
  "plugin_tracked \<equiv> plugin_tracking.tracked"

lemma plugin_tracked_same:
  "plugin_active f' = plugin_active f \<Longrightarrow> plugin_tracked f P L \<Longrightarrow> plugin_tracked f' P L"
  by (simp add: plugin_tracking.tracked_def)

lemma tracked_RegisterPlugin:
  assumes "plugin_tracked f P L" and "PluginFactory_RegisterPlugin m creator stored f = (f', st)"
  shows "plugin_tracked f' P L"
proof (cases "isOk st")
  case True
  with assms(2) have "plugin_enrol m creator stored (plugin_id m) f = Some f'" by (simp add: plugin_enrol_def)
  with assms(1) show ?thesis by (rule plugin_tracking.tracked_enrol)
next
  case False
  with RegisterPlugin_active [OF assms(2)] assms(1) show ?thesis by (auto intro: plugin_tracked_same)
qed

lemma tracked_UnregisterPlugin:
  assumes "plugin_tracked f P L" and "PluginFactory_UnregisterPlugin i f = (f', st)"
  shows "plugin_tracked f' P L \<and> (isOk st \<longrightarrow> i \<notin># P \<and> i \<notin># L)"
proof (cases "isOk st")
  case True
  with assms(2) have "plugin_withdraw i f = Some f'" by (simp add: plugin_withdraw_def)
  from plugin_tracking.tracked_withdraw [OF assms(1) this] show ?thesis by (simp add: not_in_iff)
next
  case False
  with UnregisterPlugin_active [OF assms(2)] assms(1) show ?thesis by (auto intro: plugin_tracked_same)
qed

lemma CreatePlugin_finish_active:
  assumes "PluginFactory_CreatePlugin_finish i created f = (f', st, ok)"
  shows "plugin_active f' = (if ok then plugin_active f else plugin_active (plugin_release_active_instance i f))"
  using assms
  by (auto simp: PluginFactory_CreatePlugin_finish_def plugin_release_active_instance_def set_state_def Let_def
      split: outcome.splits option.splits if_splits prod.splits)

lemma DestroyPlugin_finish_active:
  assumes "PluginFactory_DestroyPlugin_finish i shutdown f = (f', r, owned)"
  shows "plugin_active f' = (if owned then plugin_active f else plugin_active (plugin_release_active_instance i f))"
  using assms
  by (auto simp: PluginFactory_DestroyPlugin_finish_def set_state_def
      split: outcome.splits option.splits if_splits prod.splits)

lemma release_nil: "plugin_active f [] = None \<Longrightarrow> plugin_active (plugin_release_active_instance i f) [] = None"
  by (simp add: plugin_release_active_instance_def)

lemma gf_reach_inv: "gf_reach f P L \<Longrightarrow> plugin_tracked f P L \<and> plugin_active f [] = None"
proof (induction rule: gf_reach.induct)
  case (gf_init reg)
  show ?case unfolding plugin_tracking.tracked_def by (simp add: plugin_active_def PluginFactory_create_def)
next
  case (gf_register f P L m creator stored f' st)
  then show ?case using tracked_RegisterPlugin RegisterPlugin_active [OF gf_register(2)] by (auto split: if_splits)
next
  case (gf_unregister f P L i f' st)
  then show ?case
    using tracked_UnregisterPlugin UnregisterPlugin_active [OF gf_unregister(2)] by (auto split: if_splits)
next
  case (gf_begin f P L i f')
  then have "plugin_prepare i f = Some f'" by (simp add: plugin_prepare_def)
  with gf_begin show ?case
    using plugin_tracking.tracked_prepare
    by (auto simp: PluginFactory_CreatePlugin_begin_def split: option.splits if_splits)
next
  case (gf_finish f P L i created f' st ok)
  have "plugin_tracked (plugin_release_active_instance i f) (P - {#i#}) L" "plugin_tracked f (P - {#i#}) (add_mset i L)"
    using gf_finish by (simp_all add: plugin_tracking.tracked_release plugin_tracking.tracked_created)
  with CreatePlugin_finish_active [OF gf_finish(3)] gf_finish show ?case
    by (auto simp: release_nil intro: plugin_tracked_same split: if_splits)
next
  case (gf_destroy f P L i shutdown f' r owned)
  from plugin_tracking.tracked_drop [of f P L i] gf_destroy
  have "plugin_tracked (plugin_release_active_instance i f) P (L - {#i#})"
    by (auto simp: plugin_drop_def split: if_splits)
  with DestroyPlugin_finish_active [OF gf_destroy(3)] gf_destroy show ?case
    by (auto simp: release_nil intro: plugin_tracked_same split: if_splits)
next
  case (gf_shared f P L g)
  then show ?case by (auto intro: plugin_tracked_same)
qed

text \<open>
  C23. In every interleaving of factory calls, whatever other holders do to the shared registry, the number kept
  for a plugin is the number of its creations in progress and of its instances in use: unregistering succeeds only
  when there is neither, and the checks of \<open>DestroyPlugin\<close> pass for every instance in use.
\<close>

theorem plugin_factory_tracks:
  assumes "gf_reach f P L"
  shows "(\<forall>i. held (plugin_active f i) = count P i + count L i)
    \<and> (\<forall>i f' st. PluginFactory_UnregisterPlugin i f = (f', st) \<and> isOk st \<longrightarrow> i \<notin># P \<and> i \<notin># L)
    \<and> (\<forall>i. i \<in># L \<longrightarrow> gf_registry f \<noteq> None \<longrightarrow> PluginFactory_DestroyPlugin_check (Some i) f = None)"
proof -
  from gf_reach_inv [OF assms] have inv: "plugin_tracked f P L" "plugin_active f [] = None" by auto
  have "PluginFactory_DestroyPlugin_check (Some i) f = None" if "i \<in># L" "gf_registry f \<noteq> None" for i
  proof -
    from that(1) have "0 < count P i + count L i" by simp
    with inv(1) obtain n where "plugin_active f i = Some (Suc n)" by (rule plugin_tracking.tracked_registered)
    with inv(2) that(2) show ?thesis
      by (auto simp: PluginFactory_DestroyPlugin_check_def plugin_active_def split: option.splits)
  qed
  with inv tracked_UnregisterPlugin [OF inv(1)] show ?thesis
    by (auto simp: plugin_tracking.tracked_def)
qed

definition demo_plugin :: plugin_metadata where
  "demo_plugin = \<lparr>plugin_id = ''sim'', plugin_name = ''Simulator'', plugin_vendor = ''humanoid'', plugin_description = [],
     plugin_version = apiVersion, plugin_compatibility = default_compatibility, plugin_manifest_path = []\<rparr>"

definition demo_plugin_factory :: plugin_factory where
  "demo_plugin_factory = fst (PluginFactory_RegisterPlugin demo_plugin (Some 0) True (PluginFactory_create (Some [])))"

lemmas demo_plugin_defs = demo_plugin_factory_def PluginFactory_RegisterPlugin_def PluginRegistry_RegisterPlugin_def
  PluginFactory_create_def demo_plugin_def default_compatibility_def metadata_IsValid_def metadata_IsCompatibleWith_def
  compatibility_IsValid_def compatibility_IsCompatibleWith_def Compare_def um_emplace_def

lemma demo_plugin_reach: "gf_reach demo_plugin_factory {#} {#}"
  unfolding demo_plugin_factory_def by (rule gf_register [OF gf_init, where st = "snd _"]) (rule prod.collapse [symmetric])

theorem plugin_factory_tracks_witness:
  "\<exists>f f'. PluginFactory_CreatePlugin_begin ''sim'' demo_plugin_factory = Inr f
     \<and> PluginFactory_CreatePlugin_finish ''sim'' (Returned (Some ''sim'')) f = (f', Status_ok, True)
     \<and> held (plugin_active f' ''sim'') = 1
     \<and> PluginFactory_DestroyPlugin_check (Some ''sim'') f' = None"
proof -
  obtain f where f: "PluginFactory_CreatePlugin_begin ''sim'' demo_plugin_factory = Inr f" "gf_registry f \<noteq> None"
    "map_of (the (gf_registry f)) ''sim'' \<noteq> None"
    by (simp add: demo_plugin_defs PluginFactory_CreatePlugin_begin_def change_active_def)
  then obtain f' where f': "PluginFactory_CreatePlugin_finish ''sim'' (Returned (Some ''sim'')) f = (f', Status_ok, True)"
    "gf_registry f' \<noteq> None"
    by (auto simp: PluginFactory_CreatePlugin_finish_def set_state_def SetLifecycleState_def Let_def)
  have "gf_reach f' {#} {#''sim''#}"
    using gf_finish [OF gf_begin [OF demo_plugin_reach f(1)] _ f'(1)] by simp
  from plugin_factory_tracks [OF this] f(1) f' show ?thesis by auto
qed

text \<open>
  A registered plugin is one whose range contains the framework's version; the registry refuses the others, and
  the factory then keeps no creator either.
\<close>

lemma registered_compatible:
  assumes "PluginFactory_RegisterPlugin m creator stored f = (f', Status_ok)"
  shows "metadata_IsValid m" and "Compare (minimum_framework_version (plugin_compatibility m)) apiVersion \<le> 0"
    and "Compare apiVersion (maximum_framework_version (plugin_compatibility m)) \<le> 0"
  using assms
  by (auto simp: PluginFactory_RegisterPlugin_def PluginRegistry_RegisterPlugin_def metadata_IsCompatibleWith_def
      compatibility_IsCompatibleWith_def um_emplace_def split: option.splits if_splits prod.splits)

end
