(* ===== verification/Perception_Model.thy ===== *)
theory Perception_Model
  imports Common_Status Command_Model
begin

text \<open>
  The values of \<open>include/humanoid/perception\<close>: sensor types, frames, capabilities, states and health of sensors,
  inference requests and results, detections. Variants over \<open>bool\<close>, \<open>int64_t\<close>, \<open>double\<close> and \<open>string\<close> are the
  payload values of the command model; bytes are \<open>8 word\<close>s and 32-bit extents \<open>32 word\<close>s.
\<close>

datatype sensor_type = ST_Camera | ST_DepthCamera | ST_Lidar | ST_Microphone | ST_Imu | ST_Radar | ST_Custom
  | ST_Other nat \<comment> \<open>the raw value \<open>7 + n\<close>\<close>

fun sensor_type_toString :: "sensor_type \<Rightarrow> string" where
  "sensor_type_toString ST_Camera = ''Camera''"
| "sensor_type_toString ST_DepthCamera = ''DepthCamera''"
| "sensor_type_toString ST_Lidar = ''Lidar''"
| "sensor_type_toString ST_Microphone = ''Microphone''"
| "sensor_type_toString ST_Imu = ''Imu''"
| "sensor_type_toString ST_Radar = ''Radar''"
| "sensor_type_toString ST_Custom = ''Custom''"
| "sensor_type_toString (ST_Other _) = ''Unknown''"

record sensor_frame =
  sf_id :: u64
  sf_sensorType :: sensor_type
  sf_timestamp :: time_ns
  sf_width :: "32 word"
  sf_height :: "32 word"
  sf_channels :: "32 word"
  sf_bytesPerElement :: "32 word"
  sf_encoding :: string
  sf_data :: "8 word list"
  sf_metadata :: command_payload

definition default_frame :: sensor_frame where
  "default_frame = \<lparr>sf_id = 0, sf_sensorType = ST_Custom, sf_timestamp = 0, sf_width = 0, sf_height = 0,
     sf_channels = 0, sf_bytesPerElement = 0, sf_encoding = [], sf_data = [], sf_metadata = []\<rparr>"

definition frame_hasIdentity :: "sensor_frame \<Rightarrow> bool" where
  "frame_hasIdentity f = (sf_id f \<noteq> 0)"

definition frame_hasDimensions :: "sensor_frame \<Rightarrow> bool" where
  "frame_hasDimensions f = (sf_width f \<noteq> 0 \<and> sf_height f \<noteq> 0)"

record sensor_frame_result =
  fr_status :: status
  fr_frame :: sensor_frame

definition fr_succeeded :: "sensor_frame_result \<Rightarrow> bool" where
  "fr_succeeded r = isOk (fr_status r)"

record sensor_capabilities =
  sc_sensorId :: string
  sc_name :: string
  sc_type :: sensor_type
  sc_supportedEncodings :: "string list"
  sc_maximumWidth :: "32 word"
  sc_maximumHeight :: "32 word"
  sc_maximumFrameRateHz :: fl
  sc_supportsHardwareTimestamp :: bool
  sc_supportsStartStop :: bool
  sc_supportsStreaming :: bool
  sc_supportsConfiguration :: bool
  sc_nominalReadTimeout :: time_ms

definition sensor_capabilities_isValid :: "sensor_capabilities \<Rightarrow> bool" where
  "sensor_capabilities_isValid c = (sc_sensorId c \<noteq> [] \<and> sc_name c \<noteq> [])"

datatype sensor_lifecycle =
    SL_Uninitialized | SL_Initialized | SL_Running | SL_Stopped | SL_Shutdown | SL_Faulted

datatype sensor_health_status = SH_Unknown | SH_Healthy | SH_Degraded | SH_Faulted | SH_Unavailable

record sensor_health =
  hl_status :: sensor_health_status
  hl_diagnosticCode :: string
  hl_message :: string
  hl_timestamp :: time_ns

definition default_health :: sensor_health where
  "default_health = \<lparr>hl_status = SH_Unknown, hl_diagnosticCode = [], hl_message = [], hl_timestamp = 0\<rparr>"

definition health_isUsable :: "sensor_health \<Rightarrow> bool" where
  "health_isUsable h = (hl_status h = SH_Healthy \<or> hl_status h = SH_Degraded)"

record sensor_state =
  ss_lifecycle :: sensor_lifecycle
  ss_health :: sensor_health
  ss_framesProduced :: u64
  ss_frameErrors :: u64
  ss_timestamp :: time_ns

definition default_sensor_state :: sensor_state where
  "default_sensor_state = \<lparr>ss_lifecycle = SL_Uninitialized, ss_health = default_health, ss_framesProduced = 0,
     ss_frameErrors = 0, ss_timestamp = 0\<rparr>"

definition state_isRunning :: "sensor_state \<Rightarrow> bool" where
  "state_isRunning s = (ss_lifecycle s = SL_Running)"

datatype detection_type =
    DT_Object | DT_Pose | DT_Face | DT_QrCode | DT_Marker | DT_SemanticSegmentation | DT_Custom

record bounding_box =
  bb_x :: fl
  bb_y :: fl
  bb_width :: fl
  bb_height :: fl

definition box_isValid :: "bounding_box \<Rightarrow> bool" where
  "box_isValid b = (fl_lt (Fin 0) (bb_width b) \<and> fl_lt (Fin 0) (bb_height b))"

record position3d =
  p3_x :: fl
  p3_y :: fl
  p3_z :: fl
  p3_coordinateFrame :: string

record detection_result =
  dr_id :: string
  dr_type :: detection_type
  dr_confidence :: fl
  dr_label :: string
  dr_boundingBox :: bounding_box
  dr_position :: "position3d option"
  dr_timestamp :: time_ns
  dr_trackingId :: string

datatype inference_output = IO_Value payload_value | IO_Vector "fl list"

record inference_request =
  iq_modelId :: string
  iq_inputFrame :: sensor_frame
  iq_parameters :: command_payload
  iq_timestamp :: time_ns

definition hasModel :: "inference_request \<Rightarrow> bool" where
  "hasModel r = (iq_modelId r \<noteq> [])"

record inference_result =
  ir_status :: status
  ir_modelId :: string
  ir_outputs :: "(string \<times> inference_output) list"
  ir_detections :: "detection_result list"
  ir_timestamp :: time_ns

definition default_inference_result :: inference_result where
  "default_inference_result =
     \<lparr>ir_status = Status_ok, ir_modelId = [], ir_outputs = [], ir_detections = [], ir_timestamp = 0\<rparr>"

record engine_capabilities =
  ec_engineId :: string
  ec_name :: string
  ec_supportedBackends :: "string list"
  ec_supportedModelFormats :: "string list"

definition engine_capabilities_isValid :: "engine_capabilities \<Rightarrow> bool" where
  "engine_capabilities_isValid c = (ec_engineId c \<noteq> [] \<and> ec_name c \<noteq> [])"

end
