(* ===== verification/Sensor_Manager.thy ===== *)
theory Sensor_Manager
  imports Perception_Model Json_Parser "HOL-Library.Multiset"
begin

text \<open>
  \<open>src/perception/SensorManager.cpp\<close>. A registered sensor is an \<open>Entry\<close> behind a shared pointer: the entries are a
  store indexed by number, and the map from identifiers holds the numbers. An operation finds the entry under the
  manager's mutex and then works on it under the entry's own mutex, so between the two another thread may have
  removed it; each of these sections is a definition of its own. What a sensor or a listener answers and the clock
  readings are arguments. \<open>sm_calls\<close> records the calls made on the sensors.
\<close>

section \<open>State\<close>

record sensor_entry =
  se_capabilities :: sensor_capabilities
  se_state :: sensor_state
  se_latest_frame :: "sensor_frame option"
  se_removed :: bool

record sensor_statistics =
  sx_registrations :: u64
  sx_unregistrations :: u64
  sx_routedFrames :: u64
  sx_readFailures :: u64
  sx_listenerCallbacks :: u64
  sx_listenerFailures :: u64

datatype sensor_call = SC_Initialize | SC_Start | SC_Stop | SC_Shutdown | SC_ReadFrame | SC_Health

record sensor_manager =
  sm_store :: "sensor_entry list"
  sm_sensors :: "(string \<times> nat) list"
  sm_listeners :: "(u64 \<times> nat) list"
  sm_next_subscription_id :: u64
  sm_statistics :: sensor_statistics
  sm_calls :: "(nat \<times> sensor_call) list"

definition SensorManager_create :: sensor_manager where
  "SensorManager_create = \<lparr>sm_store = [], sm_sensors = [], sm_listeners = [], sm_next_subscription_id = 1,
     sm_statistics = \<lparr>sx_registrations = 0, sx_unregistrations = 0, sx_routedFrames = 0, sx_readFailures = 0,
       sx_listenerCallbacks = 0, sx_listenerFailures = 0\<rparr>, sm_calls = []\<rparr>"

definition Unavailable_status :: "string \<Rightarrow> status" where
  "Unavailable_status msg = Status_error kUnavailable msg"

lemma Unavailable_not_ok [simp]: "\<not> isOk (Unavailable_status m)"
  by (simp add: Unavailable_status_def isOk_def Status_error_def Status_create_def)

definition statistics_update :: "(sensor_statistics \<Rightarrow> sensor_statistics) \<Rightarrow> sensor_manager \<Rightarrow> sensor_manager" where
  "statistics_update g s = s\<lparr>sm_statistics := g (sm_statistics s)\<rparr>"

definition entry_update :: "nat \<Rightarrow> (sensor_entry \<Rightarrow> sensor_entry) \<Rightarrow> sensor_manager \<Rightarrow> sensor_manager" where
  "entry_update k g s = s\<lparr>sm_store := (sm_store s)[k := g (sm_store s ! k)]\<rparr>"

definition record_calls :: "nat \<Rightarrow> sensor_call list \<Rightarrow> sensor_manager \<Rightarrow> sensor_manager" where
  "record_calls k cs s = s\<lparr>sm_calls := sm_calls s @ map (Pair k) cs\<rparr>"

section \<open>Registration\<close>

text \<open>A null pointer is \<open>None\<close>; otherwise what \<open>Capabilities\<close> of the sensor answers.\<close>

definition RegisterSensor ::
  "sensor_capabilities outcome option \<Rightarrow> sensor_manager \<Rightarrow> sensor_manager \<times> status" where
  "RegisterSensor sensor s =
     (case sensor of
        None \<Rightarrow> (s, InvalidArgument ''sensor is null'')
      | Some (Returned caps) \<Rightarrow>
          if \<not> sensor_capabilities_isValid caps then
            (s, InvalidArgument ''sensor capabilities require non-empty sensor id and name'')
          else if map_of (sm_sensors s) (sc_sensorId caps) \<noteq> None then
            (s, FailedPrecondition ''sensor id is already registered'')
          else
            (statistics_update (\<lambda>x. x\<lparr>sx_registrations := sx_registrations x + 1\<rparr>)
               (s\<lparr>sm_store := sm_store s @ [\<lparr>se_capabilities = caps, se_state = default_sensor_state,
                    se_latest_frame = None, se_removed = False\<rparr>],
                  sm_sensors := map_emplace (sc_sensorId caps) (length (sm_store s)) (sm_sensors s)\<rparr>), Status_ok)
      | Some _ \<Rightarrow> (s, InternalError ''sensor capabilities query threw an exception''))"

text \<open>The critical section of \<open>UnregisterSensor\<close>; the entry it took out is then shut down.\<close>

definition UnregisterSensor_erase :: "string \<Rightarrow> sensor_manager \<Rightarrow> status + nat \<times> sensor_manager" where
  "UnregisterSensor_erase i s =
     (if i = [] then Inl (InvalidArgument ''sensor id is empty'')
      else (case map_of (sm_sensors s) i of
         None \<Rightarrow> Inl (Unavailable_status ''sensor id is not registered'')
       | Some k \<Rightarrow>
           Inr (k, statistics_update (\<lambda>x. x\<lparr>sx_unregistrations := sx_unregistrations x + 1\<rparr>)
             (s\<lparr>sm_sensors := filter (\<lambda>(j, _). j \<noteq> i) (sm_sensors s)\<rparr>))))"

text \<open>\<open>MarkRemovedAndShutdown\<close> under the entry's mutex; what \<open>Stop\<close> and \<open>Shutdown\<close> answer or throw is ignored.\<close>

definition MarkRemovedAndShutdown :: "time_ns \<Rightarrow> nat \<Rightarrow> sensor_manager \<Rightarrow> sensor_manager" where
  "MarkRemovedAndShutdown now k s =
     record_calls k [SC_Stop, SC_Shutdown]
       (entry_update k (\<lambda>e. e\<lparr>se_removed := True,
          se_state := (se_state e)\<lparr>ss_lifecycle := SL_Shutdown, ss_timestamp := now\<rparr>\<rparr>) s)"

definition UnregisterSensor :: "time_ns \<Rightarrow> string \<Rightarrow> sensor_manager \<Rightarrow> sensor_manager \<times> status" where
  "UnregisterSensor now i s =
     (case UnregisterSensor_erase i s of
        Inl st \<Rightarrow> (s, st)
      | Inr (k, s') \<Rightarrow> (MarkRemovedAndShutdown now k s', Status_ok))"

text \<open>\<open>Shutdown\<close> of the manager: the first section, the removals, and the last section.\<close>

definition Shutdown_collect :: "sensor_manager \<Rightarrow> nat list \<times> sensor_manager" where
  "Shutdown_collect s =
     (map snd (sm_sensors s),
      statistics_update (\<lambda>x. x\<lparr>sx_unregistrations := sx_unregistrations x + of_nat (length (sm_sensors s))\<rparr>)
        (s\<lparr>sm_sensors := []\<rparr>))"

definition Shutdown_listeners :: "sensor_manager \<Rightarrow> sensor_manager" where
  "Shutdown_listeners s = s\<lparr>sm_listeners := []\<rparr>"

definition SensorManager_Shutdown :: "(nat \<Rightarrow> time_ns) \<Rightarrow> sensor_manager \<Rightarrow> sensor_manager \<times> status" where
  "SensorManager_Shutdown nows s =
     (case Shutdown_collect s of
        (ks, s') \<Rightarrow> (Shutdown_listeners (fold (\<lambda>k. MarkRemovedAndShutdown (nows k) k) ks s'), Status_ok))"

section \<open>Operations on one sensor\<close>

definition FindEntry :: "string \<Rightarrow> sensor_manager \<Rightarrow> nat option" where
  "FindEntry i s = (if i = [] then None else map_of (sm_sensors s) i)"

text \<open>The part of \<open>InvokeLifecycle\<close> under the entry's mutex; \<open>answer\<close> is what the sensor's operation does.\<close>

definition InvokeLifecycle_entry ::
  "sensor_call \<Rightarrow> sensor_lifecycle \<Rightarrow> time_ns \<Rightarrow> status outcome \<Rightarrow> nat \<Rightarrow> sensor_manager \<Rightarrow> sensor_manager \<times> status" where
  "InvokeLifecycle_entry call successful_state now answer k s =
     (if se_removed (sm_store s ! k) then (s, Unavailable_status ''sensor is unregistered'')
      else
        (let s1 = record_calls k [call] s in
         case answer of
           Returned st \<Rightarrow>
             (entry_update k (\<lambda>e. e\<lparr>se_state := (se_state e)\<lparr>ss_timestamp := now,
                ss_lifecycle := (if isOk st then successful_state else ss_lifecycle (se_state e))\<rparr>\<rparr>) s1, st)
         | _ \<Rightarrow>
             (entry_update k (\<lambda>e. e\<lparr>se_state := (se_state e)\<lparr>ss_lifecycle := SL_Faulted, ss_timestamp := now\<rparr>\<rparr>) s1,
              InternalError ''sensor lifecycle operation threw an exception'')))"

definition InvokeLifecycle ::
  "sensor_call \<Rightarrow> sensor_lifecycle \<Rightarrow> time_ns \<Rightarrow> status outcome \<Rightarrow> string \<Rightarrow> sensor_manager \<Rightarrow> sensor_manager \<times> status" where
  "InvokeLifecycle call st now answer i s =
     (case FindEntry i s of
        None \<Rightarrow> (s, Unavailable_status ''sensor id is not registered'')
      | Some k \<Rightarrow> InvokeLifecycle_entry call st now answer k s)"

definition InitializeSensor :: "time_ns \<Rightarrow> status outcome \<Rightarrow> string \<Rightarrow> sensor_manager \<Rightarrow> sensor_manager \<times> status" where
  "InitializeSensor = InvokeLifecycle SC_Initialize SL_Initialized"

definition StartSensor :: "time_ns \<Rightarrow> status outcome \<Rightarrow> string \<Rightarrow> sensor_manager \<Rightarrow> sensor_manager \<times> status" where
  "StartSensor = InvokeLifecycle SC_Start SL_Running"

definition StopSensor :: "time_ns \<Rightarrow> status outcome \<Rightarrow> string \<Rightarrow> sensor_manager \<Rightarrow> sensor_manager \<times> status" where
  "StopSensor = InvokeLifecycle SC_Stop SL_Stopped"

definition ShutdownSensor :: "time_ns \<Rightarrow> status outcome \<Rightarrow> string \<Rightarrow> sensor_manager \<Rightarrow> sensor_manager \<times> status" where
  "ShutdownSensor = InvokeLifecycle SC_Shutdown SL_Shutdown"

section \<open>Frames\<close>

record frame_result =
  fq_status :: status
  fq_sensorId :: string
  fq_frame :: sensor_frame

definition frame_error :: "status \<Rightarrow> string \<Rightarrow> frame_result" where
  "frame_error st i = \<lparr>fq_status = st, fq_sensorId = i, fq_frame = default_frame\<rparr>"

text \<open>
  The part of \<open>ReadFrame\<close> under the entry's mutex. The flag is true when the function goes on to route the frame
  or to count the failure, and false when it has already returned.
\<close>

definition ReadFrame_entry ::
  "time_ns \<Rightarrow> time_ns \<Rightarrow> sensor_frame_result outcome \<Rightarrow> nat \<Rightarrow> sensor_manager \<Rightarrow> sensor_manager \<times> frame_result \<times> bool" where
  "ReadFrame_entry now now' answer k s =
     (let i = sc_sensorId (se_capabilities (sm_store s ! k));
          failed = (\<lambda>st. (entry_update k (\<lambda>e. e\<lparr>se_state := (se_state e)\<lparr>
              ss_frameErrors := ss_frameErrors (se_state e) + 1, ss_timestamp := now\<rparr>\<rparr>)
              (record_calls k [SC_ReadFrame] s), frame_error st i, True)) in
      if se_removed (sm_store s ! k) then (s, frame_error (Unavailable_status ''sensor is unregistered'') i, False)
      else (case answer of
         Returned r \<Rightarrow>
           if \<not> fr_succeeded r then failed (fr_status r)
           else
             (let f0 = fr_frame r;
                  f = f0\<lparr>sf_timestamp := (if sf_timestamp f0 = 0 then now else sf_timestamp f0),
                         sf_sensorType := sc_type (se_capabilities (sm_store s ! k))\<rparr> in
              (entry_update k (\<lambda>e. e\<lparr>se_state := (se_state e)\<lparr>ss_framesProduced := ss_framesProduced (se_state e) + 1,
                  ss_timestamp := now'\<rparr>, se_latest_frame := Some f\<rparr>) (record_calls k [SC_ReadFrame] s),
               \<lparr>fq_status = fr_status r, fq_sensorId = i, fq_frame = f\<rparr>, True))
       | _ \<Rightarrow> failed (InternalError ''sensor frame read threw an exception'')))"

text \<open>\<open>RouteFrame\<close>: the listeners are copied, called in the order of their identifiers, and the calls counted.\<close>

definition RouteFrame_begin :: "sensor_manager \<Rightarrow> nat list \<times> sensor_manager" where
  "RouteFrame_begin s =
     (map snd (sm_listeners s), statistics_update (\<lambda>x. x\<lparr>sx_routedFrames := sx_routedFrames x + 1\<rparr>) s)"

fun call_listeners :: "(nat \<Rightarrow> unit outcome) \<Rightarrow> nat list \<Rightarrow> u64 \<times> u64 \<Rightarrow> u64 \<times> u64" where
  "call_listeners answer [] (callbacks, failures) = (callbacks, failures)"
| "call_listeners answer (l # ls) (callbacks, failures) =
     (case answer l of
        Returned _ \<Rightarrow> call_listeners answer ls (callbacks + 1, failures)
      | _ \<Rightarrow> call_listeners answer ls (callbacks, failures + 1))"

definition RouteFrame_end :: "u64 \<Rightarrow> u64 \<Rightarrow> sensor_manager \<Rightarrow> sensor_manager" where
  "RouteFrame_end callbacks failures s =
     (if callbacks \<noteq> 0 \<or> failures \<noteq> 0 then
        statistics_update (\<lambda>x. x\<lparr>sx_listenerCallbacks := sx_listenerCallbacks x + callbacks,
          sx_listenerFailures := sx_listenerFailures x + failures\<rparr>) s
      else s)"

definition RecordReadFailure :: "sensor_manager \<Rightarrow> sensor_manager" where
  "RecordReadFailure s = statistics_update (\<lambda>x. x\<lparr>sx_readFailures := sx_readFailures x + 1\<rparr>) s"

definition RouteFrame :: "(nat \<Rightarrow> unit outcome) \<Rightarrow> sensor_manager \<Rightarrow> sensor_manager" where
  "RouteFrame answer s =
     (case RouteFrame_begin s of
        (ls, s1) \<Rightarrow> (case call_listeners answer ls (0, 0) of (c, f) \<Rightarrow> RouteFrame_end c f s1))"

definition SensorManager_ReadFrame ::
  "time_ns \<Rightarrow> time_ns \<Rightarrow> (nat \<Rightarrow> sensor_frame_result outcome) \<Rightarrow> (nat \<Rightarrow> unit outcome) \<Rightarrow> string \<Rightarrow> sensor_manager
     \<Rightarrow> sensor_manager \<times> frame_result" where
  "SensorManager_ReadFrame now now' read listen i s =
     (case FindEntry i s of
        None \<Rightarrow> (s, frame_error (Unavailable_status ''sensor id is not registered'') i)
      | Some k \<Rightarrow>
          (case ReadFrame_entry now now' (read k) k s of
             (s1, r, continues) \<Rightarrow>
               if \<not> continues then (s1, r)
               else if isOk (fq_status r) then (RouteFrame listen s1, r)
               else (RecordReadFailure s1, r)))"

fun ReadFrames ::
  "time_ns \<Rightarrow> time_ns \<Rightarrow> (nat \<Rightarrow> sensor_frame_result outcome) \<Rightarrow> (nat \<Rightarrow> unit outcome) \<Rightarrow> string list
     \<Rightarrow> sensor_manager \<Rightarrow> sensor_manager \<times> frame_result list" where
  "ReadFrames now now' read listen [] s = (s, [])"
| "ReadFrames now now' read listen (i # is) s =
     (case SensorManager_ReadFrame now now' read listen i s of
        (s1, r) \<Rightarrow> (case ReadFrames now now' read listen is s1 of (s2, rs) \<Rightarrow> (s2, r # rs)))"

definition ReadAllFrames ::
  "time_ns \<Rightarrow> time_ns \<Rightarrow> (nat \<Rightarrow> sensor_frame_result outcome) \<Rightarrow> (nat \<Rightarrow> unit outcome) \<Rightarrow> sensor_manager
     \<Rightarrow> sensor_manager \<times> frame_result list" where
  "ReadAllFrames now now' read listen s = ReadFrames now now' read listen (map fst (sm_sensors s)) s"

definition LatestFrame :: "string \<Rightarrow> sensor_manager \<Rightarrow> frame_result" where
  "LatestFrame i s =
     (case FindEntry i s of
        None \<Rightarrow> frame_error (Unavailable_status ''sensor id is not registered'') i
      | Some k \<Rightarrow>
          (let e = sm_store s ! k; sid = sc_sensorId (se_capabilities e) in
           case se_latest_frame e of
             None \<Rightarrow> frame_error (Unavailable_status ''sensor has no routed frame'') sid
           | Some f \<Rightarrow> \<lparr>fq_status = Status_ok, fq_sensorId = sid, fq_frame = f\<rparr>))"

section \<open>Health, state and subscriptions\<close>

definition Health_entry ::
  "time_ns \<Rightarrow> time_ns \<Rightarrow> sensor_health outcome \<Rightarrow> nat \<Rightarrow> sensor_manager \<Rightarrow> sensor_manager \<times> status \<times> string \<times> sensor_health" where
  "Health_entry now now' answer k s =
     (let i = sc_sensorId (se_capabilities (sm_store s ! k)); s1 = record_calls k [SC_Health] s in
      case answer of
        Returned h0 \<Rightarrow>
          (let h = (if hl_timestamp h0 = 0 then h0\<lparr>hl_timestamp := now\<rparr> else h0) in
           (entry_update k (\<lambda>e. e\<lparr>se_state := (se_state e)\<lparr>ss_health := h, ss_timestamp := now'\<rparr>\<rparr>) s1, Status_ok, i, h))
      | _ \<Rightarrow> (s1, InternalError ''sensor health query threw an exception'', i, default_health))"

definition Health ::
  "time_ns \<Rightarrow> time_ns \<Rightarrow> (nat \<Rightarrow> sensor_health outcome) \<Rightarrow> string \<Rightarrow> sensor_manager
     \<Rightarrow> sensor_manager \<times> status \<times> string \<times> sensor_health" where
  "Health now now' answer i s =
     (case FindEntry i s of
        None \<Rightarrow> (s, Unavailable_status ''sensor id is not registered'', i, default_health)
      | Some k \<Rightarrow> Health_entry now now' (answer k) k s)"

fun Health_all ::
  "time_ns \<Rightarrow> time_ns \<Rightarrow> (nat \<Rightarrow> sensor_health outcome) \<Rightarrow> string list \<Rightarrow> sensor_manager
     \<Rightarrow> sensor_manager \<times> (status \<times> string \<times> sensor_health) list" where
  "Health_all now now' answer [] s = (s, [])"
| "Health_all now now' answer (i # is) s =
     (case Health now now' answer i s of
        (s1, r) \<Rightarrow> (case Health_all now now' answer is s1 of (s2, rs) \<Rightarrow> (s2, r # rs)))"

definition HealthReport ::
  "time_ns \<Rightarrow> time_ns \<Rightarrow> (nat \<Rightarrow> sensor_health outcome) \<Rightarrow> sensor_manager
     \<Rightarrow> sensor_manager \<times> (status \<times> string \<times> sensor_health) list" where
  "HealthReport now now' answer s = Health_all now now' answer (map fst (sm_sensors s)) s"

definition SensorManager_State :: "string \<Rightarrow> sensor_manager \<Rightarrow> status \<times> string \<times> sensor_state" where
  "SensorManager_State i s =
     (case FindEntry i s of
        None \<Rightarrow> (Unavailable_status ''sensor id is not registered'', i, default_sensor_state)
      | Some k \<Rightarrow> (Status_ok, sc_sensorId (se_capabilities (sm_store s ! k)), se_state (sm_store s ! k)))"

definition Subscribe :: "nat option \<Rightarrow> sensor_manager \<Rightarrow> sensor_manager \<times> status \<times> u64" where
  "Subscribe listener s =
     (case listener of
        None \<Rightarrow> (s, InvalidArgument ''frame listener is empty'', 0)
      | Some l \<Rightarrow>
          (let i = sm_next_subscription_id s in
           (s\<lparr>sm_next_subscription_id := i + 1,
              sm_listeners := (if map_of (sm_listeners s) i \<noteq> None then sm_listeners s
                               else map_emplace i l (sm_listeners s))\<rparr>, Status_ok, i)))"

definition Unsubscribe :: "u64 \<Rightarrow> sensor_manager \<Rightarrow> sensor_manager \<times> status" where
  "Unsubscribe i s =
     (if i = 0 then (s, InvalidArgument ''subscription id is zero'')
      else if map_of (sm_listeners s) i = None then (s, Unavailable_status ''subscription id is not registered'')
      else (s\<lparr>sm_listeners := filter (\<lambda>(j, _). j \<noteq> i) (sm_listeners s)\<rparr>, Status_ok))"

definition DiscoverSensors :: "sensor_manager \<Rightarrow> sensor_capabilities list" where
  "DiscoverSensors s = map (\<lambda>(_, k). se_capabilities (sm_store s ! k)) (sm_sensors s)"

definition SensorManager_Contains :: "string \<Rightarrow> sensor_manager \<Rightarrow> bool" where
  "SensorManager_Contains i s = (map_of (sm_sensors s) i \<noteq> None)"

definition SensorManager_Size :: "sensor_manager \<Rightarrow> nat" where
  "SensorManager_Size s = length (sm_sensors s)"

definition GetStatistics :: "sensor_manager \<Rightarrow> nat \<times> nat \<times> sensor_statistics" where
  "GetStatistics s = (length (sm_sensors s), length (sm_listeners s), sm_statistics s)"

end
