(* ===== verification/Perception_Pipeline.thy ===== *)
theory Perception_Pipeline
  imports Perception_Model Json_Parser
begin

text \<open>
  The perception graph of \<open>src/perception/PerceptionPipeline.cpp\<close>: stages with dependencies, their execution
  order, and the execution of a frame. The stages are a \<open>std::map\<close>, an association list in the order of its
  keys. What a stage does to the context of a frame is an argument.
\<close>

section \<open>Stages\<close>

datatype stage_type =
    PS_Frame | PS_Filter | PS_Inference | PS_Detection | PS_Tracking | PS_Output | PS_Custom

record stage_descriptor =
  sd_stageId :: string
  sd_name :: string
  sd_type :: stage_type
  sd_enabled :: bool
  sd_dependencies :: "string list"
  sd_configuration :: command_payload

definition stage_isValid :: "stage_descriptor \<Rightarrow> bool" where
  "stage_isValid d = (sd_stageId d \<noteq> [] \<and> sd_name d \<noteq> [])"

text \<open>A registered stage: its descriptor and the number that names the injected object.\<close>

type_synonym stage_entry = "stage_descriptor \<times> nat"
type_synonym stage_map = "(string \<times> stage_entry) list"

record perception_context =
  px_frame :: sensor_frame
  px_inferenceResults :: "inference_result list"
  px_detections :: "detection_result list"
  px_metadata :: command_payload
  px_timestamp :: time_ns

definition new_context :: "sensor_frame \<Rightarrow> time_ns \<Rightarrow> perception_context" where
  "new_context f now = \<lparr>px_frame = f, px_inferenceResults = [], px_detections = [], px_metadata = [], px_timestamp = now\<rparr>"

record perception_result =
  pe_status :: status
  pe_context :: perception_context
  pe_executedStages :: "string list"

definition RegisterStage :: "stage_descriptor \<Rightarrow> nat option \<Rightarrow> stage_map \<Rightarrow> stage_map \<times> status" where
  "RegisterStage d stage stages =
     (if \<not> stage_isValid d then (stages, InvalidArgument ''stage descriptor requires non-empty id and name'')
      else (case stage of
         None \<Rightarrow> (stages, InvalidArgument ''stage is null'')
       | Some s \<Rightarrow>
           if map_of stages (sd_stageId d) \<noteq> None then
             (stages, FailedPrecondition ''stage id is already registered'')
           else if [] \<in> set (sd_dependencies d) then
             (stages, InvalidArgument ''stage dependency id is empty'')
           else (map_emplace (sd_stageId d) (d, s) stages, Status_ok)))"

definition drop_dependency :: "string \<Rightarrow> stage_entry \<Rightarrow> stage_entry" where
  "drop_dependency key e = (case e of (d, s) \<Rightarrow> (d\<lparr>sd_dependencies := removeAll key (sd_dependencies d)\<rparr>, s))"

definition UnregisterStage :: "string \<Rightarrow> stage_map \<Rightarrow> stage_map \<times> status" where
  "UnregisterStage key stages =
     (if key = [] then (stages, InvalidArgument ''stage id is empty'')
      else if map_of stages key = None then
        (stages, Status_error kUnavailable ''stage id is not registered'')
      else (map (\<lambda>(k, e). (k, drop_dependency key e)) (filter (\<lambda>(k, _). k \<noteq> key) stages), Status_ok))"

definition change_stage :: "(stage_descriptor \<Rightarrow> stage_descriptor) \<Rightarrow> string \<Rightarrow> stage_map \<Rightarrow> stage_map \<times> status" where
  "change_stage g key stages =
     (if map_of stages key = None then (stages, Status_error kUnavailable ''stage id is not registered'')
      else (map (\<lambda>(k, d, s). (k, if k = key then g d else d, s)) stages, Status_ok))"

definition ConfigureStage :: "string \<Rightarrow> command_payload \<Rightarrow> stage_map \<Rightarrow> stage_map \<times> status" where
  "ConfigureStage key c stages = change_stage (\<lambda>d. d\<lparr>sd_configuration := c\<rparr>) key stages"

definition SetStageEnabled :: "string \<Rightarrow> bool \<Rightarrow> stage_map \<Rightarrow> stage_map \<times> status" where
  "SetStageEnabled key b stages = change_stage (\<lambda>d. d\<lparr>sd_enabled := b\<rparr>) key stages"

definition Clear :: "stage_map \<Rightarrow> stage_map" where
  "Clear stages = []"

definition DescribeGraph :: "stage_map \<Rightarrow> stage_descriptor list" where
  "DescribeGraph stages = map (fst \<circ> snd) stages"

section \<open>Execution order\<close>

text \<open>
  The two maps of \<open>BuildExecutionOrder\<close> are functions: \<open>incoming_edges\<close> holds exactly the keys of the snapshot and
  is visited in their order, and \<open>dependents\<close> is read through \<open>operator[]\<close>, which gives an empty vector for a key
  that is not there.
\<close>

type_synonym edges = "(string \<Rightarrow> nat) \<times> (string \<Rightarrow> string list)"

fun add_dependencies :: "stage_map \<Rightarrow> string \<Rightarrow> string list \<Rightarrow> edges \<Rightarrow> edges option" where
  "add_dependencies snapshot stage_id [] (inc, dts) = Some (inc, dts)"
| "add_dependencies snapshot stage_id (dependency # ds) (inc, dts) =
     (if map_of snapshot dependency = None then None
      else add_dependencies snapshot stage_id ds
        (inc(stage_id := Suc (inc stage_id)), dts(dependency := dts dependency @ [stage_id])))"

fun collect_edges :: "stage_map \<Rightarrow> stage_map \<Rightarrow> edges \<Rightarrow> edges option" where
  "collect_edges snapshot [] e = Some e"
| "collect_edges snapshot ((stage_id, d, s) # entries) e =
     (case add_dependencies snapshot stage_id (sd_dependencies d) e of
        None \<Rightarrow> None
      | Some e' \<Rightarrow> collect_edges snapshot entries e')"

fun relax :: "string list \<Rightarrow> string list \<Rightarrow> (string \<Rightarrow> nat) \<Rightarrow> string list \<Rightarrow> (string \<Rightarrow> nat) \<times> string list" where
  "relax keys [] inc ready = (inc, ready)"
| "relax keys (stage # ds) inc ready =
     (if stage \<in> set keys \<and> inc stage > 0 then
        (let inc' = inc(stage := inc stage - 1) in
         relax keys ds inc' (if inc' stage = 0 then ready @ [stage] else ready))
      else relax keys ds inc ready)"

definition edge_sum :: "string list \<Rightarrow> (string \<Rightarrow> nat) \<Rightarrow> nat" where
  "edge_sum keys inc = (\<Sum>k \<in> set keys. inc k)"

lemma relax_measure:
  "relax keys ds inc ready = (inc', ready') \<Longrightarrow>
    edge_sum keys inc' + length ready' \<le> edge_sum keys inc + length ready"
proof (induction ds arbitrary: inc ready)
  case (Cons d ds)
  show ?case
  proof (cases "d \<in> set keys \<and> inc d > 0")
    case True
    then have "edge_sum keys inc = Suc (edge_sum keys (inc(d := inc d - 1)))"
      by (simp add: edge_sum_def sum.remove [of "set keys" d])
    with True Cons show ?thesis by (fastforce simp: Let_def split: if_splits)
  next
    case False
    with Cons show ?thesis by simp
  qed
qed simp

text \<open>The \<open>while\<close> loop over the ready stages; it ends because every stage that becomes ready used up an edge.\<close>

function order_loop ::
  "string list \<Rightarrow> (string \<Rightarrow> string list) \<Rightarrow> (string \<Rightarrow> nat) \<Rightarrow> string list \<Rightarrow> string list
     \<Rightarrow> (string \<Rightarrow> nat) \<times> string list" where
  "order_loop keys dts inc [] out = (inc, out)"
| "order_loop keys dts inc (stage_id # ready) out =
     (case relax keys (dts stage_id) inc ready of (inc', ready') \<Rightarrow> order_loop keys dts inc' ready' (out @ [stage_id]))"
  by pat_completeness auto
termination
  by (relation "measure (\<lambda>(keys, dts, inc, ready, out). edge_sum keys inc + length ready)")
     (auto simp: less_Suc_eq_le dest: relax_measure [OF sym])

definition BuildExecutionOrder :: "stage_map \<Rightarrow> status + (string \<times> stage_entry) list" where
  "BuildExecutionOrder snapshot =
     (case collect_edges snapshot snapshot (\<lambda>_. 0, \<lambda>_. []) of
        None \<Rightarrow> Inl (FailedPrecondition ''pipeline stage dependency is not registered'')
      | Some (inc, dts) \<Rightarrow>
          (let keys = map fst snapshot; ready = filter (\<lambda>k. inc k = 0) keys;
               order = snd (order_loop keys dts inc ready []) in
           if length order \<noteq> length snapshot then Inl (FailedPrecondition ''pipeline graph contains a cycle'')
           else Inr (map (\<lambda>k. (k, the (map_of snapshot k))) order)))"

section \<open>Execution\<close>

text \<open>
  \<open>Process\<close> of stage \<open>s\<close> on a context: a status or an exception, and the context it leaves.
\<close>

fun run_stages ::
  "(nat \<Rightarrow> perception_context \<Rightarrow> status outcome \<times> perception_context) \<Rightarrow> (string \<times> stage_entry) list
     \<Rightarrow> perception_context \<Rightarrow> string list \<Rightarrow> perception_result" where
  "run_stages process [] ctx finished = \<lparr>pe_status = Status_ok, pe_context = ctx, pe_executedStages = finished\<rparr>"
| "run_stages process ((key, d, s) # entries) ctx finished =
     (if \<not> sd_enabled d then run_stages process entries ctx finished
      else (case process s ctx of
         (Returned st, ctx') \<Rightarrow>
           if \<not> isOk st then \<lparr>pe_status = st, pe_context = ctx', pe_executedStages = finished\<rparr>
           else run_stages process entries ctx' (finished @ [sd_stageId d])
       | (_, ctx') \<Rightarrow>
           \<lparr>pe_status = InternalError ''perception stage threw an exception'', pe_context = ctx', pe_executedStages = finished\<rparr>))"

definition PerceptionPipeline_Execute ::
  "(nat \<Rightarrow> perception_context \<Rightarrow> status outcome \<times> perception_context) \<Rightarrow> time_ns \<Rightarrow> sensor_frame \<Rightarrow> stage_map
     \<Rightarrow> perception_result" where
  "PerceptionPipeline_Execute process now frame stages =
     (case BuildExecutionOrder stages of
        Inl st \<Rightarrow> \<lparr>pe_status = st, pe_context = new_context frame now, pe_executedStages = []\<rparr>
      | Inr order \<Rightarrow> run_stages process order (new_context frame now) [])"

end
