(* ===== verification/Perception_Order.thy ===== *)
theory Perception_Order
  imports Perception_Pipeline "HOL-Library.Sublist"
begin

text \<open>
  The execution order of the perception graph: \<open>BuildExecutionOrder\<close> finds an order in which every stage comes
  after the stages it depends on exactly when the dependencies are registered and have no cycle, and \<open>Execute\<close>
  runs the enabled stages in that order up to the first failure.
\<close>

section \<open>The collected edges\<close>

definition stage_deps :: "stage_map \<Rightarrow> string \<Rightarrow> string list" where
  "stage_deps stages k = (case map_of stages k of None \<Rightarrow> [] | Some (d, _) \<Rightarrow> sd_dependencies d)"

definition deps_registered :: "stage_map \<Rightarrow> stage_map \<Rightarrow> bool" where
  "deps_registered stages entries =
     list_all (\<lambda>(_, d, _). list_all (\<lambda>x. map_of stages x \<noteq> None) (sd_dependencies d)) entries"

lemma add_dependencies_None:
  "add_dependencies snap k ds e = None \<longleftrightarrow> \<not> list_all (\<lambda>x. map_of snap x \<noteq> None) ds"
  by (induction snap k ds e rule: add_dependencies.induct) auto

lemma add_dependencies_Some:
  "add_dependencies snap k ds (inc, dts) = Some (inc', dts') \<Longrightarrow>
    inc' j = inc j + (if j = k then length ds else 0)
    \<and> count_list (dts' x) j = count_list (dts x) j + (if j = k then count_list ds x else 0)"
proof (induction ds arbitrary: inc dts)
  case (Cons d ds)
  from Cons.prems have "add_dependencies snap k ds (inc(k := Suc (inc k)), dts(d := dts d @ [k])) = Some (inc', dts')"
    by (simp split: if_splits)
  from Cons.IH [OF this] show ?case by auto
qed simp

lemma collect_edges_None: "collect_edges snap entries e = None \<longleftrightarrow> \<not> deps_registered snap entries"
proof (induction entries arbitrary: e)
  case (Cons en entries)
  obtain key d s where en: "en = (key, d, s)" by (cases en)
  show ?case
    using Cons.IH add_dependencies_None [of snap key "sd_dependencies d" e]
    by (cases "add_dependencies snap key (sd_dependencies d) e") (simp_all add: en deps_registered_def)
qed (simp add: deps_registered_def)

lemma stage_deps_Cons:
  "stage_deps ((key, d, s) # entries) k = (if k = key then sd_dependencies d else stage_deps entries k)"
  by (simp add: stage_deps_def)

lemma stage_deps_notin: "k \<notin> fst ` set entries \<Longrightarrow> stage_deps entries k = []"
  by (simp add: stage_deps_def map_of_eq_None_iff [symmetric])

lemma collect_edges_Some:
  "collect_edges snap entries (inc, dts) = Some (inc', dts') \<Longrightarrow> distinct (map fst entries) \<Longrightarrow>
    inc' k = inc k + length (stage_deps entries k)
    \<and> count_list (dts' x) k = count_list (dts x) k + count_list (stage_deps entries k) x"
proof (induction entries arbitrary: inc dts)
  case Nil
  then show ?case by (simp add: stage_deps_def)
next
  case (Cons en entries)
  obtain key d s where en: "en = (key, d, s)" by (cases en)
  from Cons.prems en obtain inc1 dts1 where 1: "add_dependencies snap key (sd_dependencies d) (inc, dts) = Some (inc1, dts1)"
    "collect_edges snap entries (inc1, dts1) = Some (inc', dts')" by (auto split: option.splits)
  from Cons.prems en have new: "key \<notin> fst ` set entries" "distinct (map fst entries)" by auto
  note a = add_dependencies_Some [OF 1(1), of k x] and b = Cons.IH [OF 1(2) new(2)]
  show ?case
  proof (cases "k = key")
    case True
    with a b stage_deps_notin [OF new(1)] show ?thesis by (simp add: en stage_deps_Cons)
  next
    case False
    with a b show ?thesis by (simp add: en stage_deps_Cons)
  qed
qed

section \<open>Relaxing the edges of one stage\<close>

lemma relax_spec:
  assumes "set ds \<subseteq> set keys" and "\<And>k. count_list ds k \<le> inc k" and "\<And>k. k \<in> set ready \<Longrightarrow> inc k = 0"
    and "distinct ready" and "relax keys ds inc ready = (inc', ready')"
  shows "(\<forall>k. inc' k = inc k - count_list ds k) \<and> distinct ready'
    \<and> set ready' = set ready \<union> {k \<in> set ds. inc k = count_list ds k}"
  using assms
proof (induction ds arbitrary: inc ready)
  case (Cons d ds)
  let ?inc = "inc(d := inc d - 1)"
  from Cons.prems(2) [of d] have pos: "0 < inc d" by simp
  with Cons.prems(3) have notin: "d \<notin> set ready" by auto
  let ?ready = "if inc d = 1 then ready @ [d] else ready"
  have step: "relax keys ds ?inc ?ready = (inc', ready')"
    using Cons.prems(1,5) pos by (simp add: Let_def split: if_splits)
  have le: "count_list ds k \<le> ?inc k" for k using Cons.prems(2) [of k] by (auto split: if_splits)
  have zero: "?inc k = 0" if "k \<in> set ?ready" for k
    using that Cons.prems(3) notin by (auto split: if_splits)
  have "distinct ?ready" using Cons.prems(4) notin by simp
  from Cons.IH [OF _ le zero this step] Cons.prems(1)
  have IH: "\<forall>k. inc' k = ?inc k - count_list ds k" "distinct ready'"
    "set ready' = set ?ready \<union> {k \<in> set ds. ?inc k = count_list ds k}" by auto
  have eq: "k \<in> set ?ready \<or> k \<in> set ds \<and> ?inc k = count_list ds k \<longleftrightarrow>
      k \<in> set ready \<or> k \<in> set (d # ds) \<and> inc k = count_list (d # ds) k" for k
  proof (cases "k = d")
    case True
    have "d \<in> set ds \<longleftrightarrow> 0 < count_list ds d" using count_list_0_iff [of ds d] by auto
    with True pos notin le [of d] show ?thesis by (cases "inc d = 1") auto
  next
    case False
    then show ?thesis by auto
  qed
  have "set ready' = set ready \<union> {k \<in> set (d # ds). inc k = count_list (d # ds) k}"
    unfolding IH(3) using eq by blast
  with IH(1,2) show ?case by simp
qed simp

section \<open>The loop\<close>

text \<open>
  Between two turns: every count is the number of dependencies not yet placed; the placed and the ready stages
  are those with a zero count; every placed stage comes after its dependencies.
\<close>

definition kahn_inv ::
  "string list \<Rightarrow> (string \<Rightarrow> string list) \<Rightarrow> (string \<Rightarrow> nat) \<Rightarrow> string list \<Rightarrow> string list \<Rightarrow> bool" where
  "kahn_inv keys deps inc ready out \<longleftrightarrow> distinct (out @ ready)
     \<and> (\<forall>k. k \<in> set (out @ ready) \<longleftrightarrow> k \<in> set keys \<and> inc k = 0)
     \<and> (\<forall>k \<in> set keys. inc k = length (filter (\<lambda>d. d \<notin> set out) (deps k)))
     \<and> (\<forall>i < length out. set (deps (out ! i)) \<subseteq> set (take i out))"

lemma filter_place:
  "s \<notin> A \<Longrightarrow> length (filter (\<lambda>d. d \<notin> A) xs) = length (filter (\<lambda>d. d \<notin> insert s A) xs) + count_list xs s"
  by (induction xs) auto

lemma kahn_step:
  assumes inv: "kahn_inv keys deps inc (s # ready) out"
    and dts: "\<And>k. count_list (dts s) k = (if k \<in> set keys then count_list (deps k) s else 0)"
    and step: "relax keys (dts s) inc ready = (inc', ready')"
  shows "kahn_inv keys deps inc' ready' (out @ [s])"
proof -
  note I = inv [unfolded kahn_inv_def]
  have s: "s \<notin> set out" "s \<in> set keys" "inc s = 0" using I by auto
  have inc: "inc k = length (filter (\<lambda>d. d \<notin> insert s (set out)) (deps k)) + count_list (dts s) k"
    if "k \<in> set keys" for k
    using I that filter_place [OF s(1), of "deps k"] dts by simp
  have sub: "set (dts s) \<subseteq> set keys" using dts by (metis count_list_0_iff subsetI)
  have le: "count_list (dts s) k \<le> inc k" for k
    using inc [of k] dts [of k] by (cases "k \<in> set keys") auto
  have zero: "inc k = 0" if "k \<in> set ready" for k using I that by auto
  have "distinct ready" using I by simp
  from relax_spec [OF sub le zero this step] have
    R: "\<And>k. inc' k = inc k - count_list (dts s) k" "distinct ready'"
    "set ready' = set ready \<union> {k \<in> set (dts s). inc k = count_list (dts s) k}" by auto
  have counts: "inc' k = length (filter (\<lambda>d. d \<notin> set (out @ [s])) (deps k))" if "k \<in> set keys" for k
    using R(1) [of k] inc [OF that] by simp
  have mem: "k \<in> set ((out @ [s]) @ ready') \<longleftrightarrow> k \<in> set keys \<and> inc' k = 0" for k
  proof -
    have "k \<in> set (dts s) \<longleftrightarrow> 0 < count_list (dts s) k" using count_list_0_iff [of "dts s" k] by auto
    moreover have "k \<in> set (out @ s # ready) \<longleftrightarrow> k \<in> set keys \<and> inc k = 0" using I by blast
    ultimately show ?thesis using R(1,3) le [of k] sub by auto
  qed
  have dist: "distinct ((out @ [s]) @ ready')"
  proof -
    have "k \<notin> set (dts s)" if "k \<in> set (out @ [s])" for k
    proof -
      have "inc k = 0" using that I by auto
      with le [of k] have "count_list (dts s) k = 0" by simp
      then show ?thesis by (simp add: count_list_0_iff)
    qed
    with I R(2,3) show ?thesis by auto
  qed
  have "set (deps s) \<subseteq> set out" using I s by (auto simp: filter_empty_conv)
  then have "\<forall>i < length (out @ [s]). set (deps ((out @ [s]) ! i)) \<subseteq> set (take i (out @ [s]))"
    using I by (auto simp: nth_append less_Suc_eq)
  with mem dist counts show ?thesis unfolding kahn_inv_def by blast
qed

lemma kahn_loop:
  assumes "kahn_inv keys deps inc ready out"
    and "\<And>x k. count_list (dts x) k = (if k \<in> set keys then count_list (deps k) x else 0)"
  shows "kahn_inv keys deps (fst (order_loop keys dts inc ready out)) [] (snd (order_loop keys dts inc ready out))"
  using assms
proof (induction keys dts inc ready out rule: order_loop.induct)
  case (2 keys dts inc s ready out)
  obtain inc' ready' where r: "relax keys (dts s) inc ready = (inc', ready')" by fastforce
  have inv: "kahn_inv keys deps inc' ready' (out @ [s])"
    using "2.prems"(1) "2.prems"(2) [of s] r by (rule kahn_step)
  from "2.IH" [OF r [symmetric] inv "2.prems"(2)] r show ?case by simp
qed simp

text \<open>The dependency relation of a graph: from a dependency to the stage that needs it.\<close>

definition stage_rel :: "stage_map \<Rightarrow> (string \<times> string) set" where
  "stage_rel stages = {(d, k). k \<in> fst ` set stages \<and> d \<in> set (stage_deps stages k)}"

lemma stage_rel_finite: "finite (stage_rel stages)"
proof -
  have "stage_rel stages \<subseteq> (\<Union>k \<in> fst ` set stages. set (stage_deps stages k) \<times> {k})" by (auto simp: stage_rel_def)
  then show ?thesis by (rule finite_subset) auto
qed

lemma kahn_complete_acyclic:
  assumes "kahn_inv keys deps inc [] out" and "set keys \<subseteq> set out"
  shows "acyclic {(d, k). k \<in> set keys \<and> d \<in> set (deps k)}"
proof -
  define pos where "pos k = (THE i. i < length out \<and> out ! i = k)" for k
  have dist: "distinct out" using assms(1) by (simp add: kahn_inv_def)
  have pos: "pos (out ! i) = i" if "i < length out" for i
    unfolding pos_def using that dist by (intro the_equality) (auto simp: nth_eq_iff_index_eq)
  have "(d, k) \<in> measure pos" if k: "k \<in> set keys" "d \<in> set (deps k)" for d k
  proof -
    from k(1) assms(2) have "k \<in> set out" by blast
    then obtain i where i: "i < length out" "out ! i = k" by (auto simp: in_set_conv_nth)
    with k(2) assms(1) have "d \<in> set (take i out)" by (auto simp: kahn_inv_def)
    then obtain j where "j < i" "out ! j = d" using i(1) by (auto simp: in_set_conv_nth)
    with i pos show ?thesis by auto
  qed
  then have "{(d, k). k \<in> set keys \<and> d \<in> set (deps k)} \<subseteq> measure pos" by auto
  then show ?thesis by (rule wf_acyclic [OF wf_subset [OF wf_measure]])
qed

lemma kahn_stuck_cyclic:
  assumes "kahn_inv keys deps inc [] out" and "\<not> set keys \<subseteq> set out"
    and "\<And>k. k \<in> set keys \<Longrightarrow> set (deps k) \<subseteq> set keys"
    and "finite {(d, k). k \<in> set keys \<and> d \<in> set (deps k)}"
  shows "\<not> acyclic {(d, k). k \<in> set keys \<and> d \<in> set (deps k)}"
proof
  let ?r = "{(d, k). k \<in> set keys \<and> d \<in> set (deps k)}"
  assume "acyclic ?r"
  then have "wf ?r" by (rule finite_acyclic_wf [OF assms(4)])
  moreover from assms(2) obtain x where "x \<in> set keys - set out" by auto
  ultimately obtain k where k: "k \<in> set keys - set out" "\<And>d. (d, k) \<in> ?r \<Longrightarrow> d \<notin> set keys - set out"
    by (rule wfE_min) blast
  have "k \<in> set out \<longleftrightarrow> k \<in> set keys \<and> inc k = 0" using assms(1) by (simp add: kahn_inv_def)
  with k(1) have "inc k \<noteq> 0" by simp
  moreover have "inc k = length (filter (\<lambda>d. d \<notin> set out) (deps k))" 
    using assms(1) k(1) by (auto simp only: kahn_inv_def)
  ultimately have "filter (\<lambda>d. d \<notin> set out) (deps k) \<noteq> []" by auto
  then obtain d where "d \<in> set (deps k)" "d \<notin> set out" by (auto simp: filter_empty_conv)
  with k assms(3) show False by blast
qed

section \<open>The execution order\<close>

text \<open>The stages a pipeline can hold: keys in ascending order, each the identifier of its descriptor.\<close>

definition stages_ok :: "stage_map \<Rightarrow> bool" where
  "stages_ok stages = (sorted_wrt (<) (map fst stages) \<and> list_all (\<lambda>(k, d, _). sd_stageId d = k) stages)"

lemma stages_ok_distinct: "stages_ok stages \<Longrightarrow> distinct (map fst stages)"
  by (auto simp: stages_ok_def strict_sorted_iff)

lemma stages_ok_steps:
  assumes "stages_ok stages"
  shows "stages_ok (fst (RegisterStage d s stages))" and "stages_ok (fst (UnregisterStage key stages))"
    and "stages_ok (fst (ConfigureStage key c stages))" and "stages_ok (fst (SetStageEnabled key b stages))"
    and "stages_ok (Clear stages)"
proof -
  have same: "stages_ok (map (\<lambda>(k, d, s). (k, if k = key then g d else d, s)) stages)"
    if "\<And>d. sd_stageId (g d) = sd_stageId d" for g
  proof -
    have "map fst (map (\<lambda>(k, d, s). (k, if k = key then g d else d, s)) stages) = map fst stages" by auto
    then have "sorted_wrt (<) (map fst (map (\<lambda>(k, d, s). (k, if k = key then g d else d, s)) stages))"
      using assms unfolding stages_ok_def by (simp only:)
    moreover have "list_all (\<lambda>(k, d, _). sd_stageId d = k) (map (\<lambda>(k, d, s). (k, if k = key then g d else d, s)) stages)"
      using assms that by (auto simp: stages_ok_def list_all_iff)
    ultimately show ?thesis unfolding stages_ok_def by (rule conjI)
  qed
  have kept: "map fst (map (\<lambda>(k, e). (k, drop_dependency key e)) (filter (\<lambda>(k, _). k \<noteq> key) stages)) =
      filter (\<lambda>k. k \<noteq> key) (map fst stages)"
    by (induction stages) auto
  show "stages_ok (fst (RegisterStage d s stages))"
    using assms map_emplace_sorted [of stages "sd_stageId d" "(d, the s)"]
    by (auto simp: RegisterStage_def stages_ok_def map_emplace_set map_of_eq_None_iff list_all_iff split: option.splits)
  show "stages_ok (fst (UnregisterStage key stages))"
    using assms kept
    by (auto simp: UnregisterStage_def stages_ok_def sorted_wrt_filter drop_dependency_def list_all_iff)
  show "stages_ok (fst (ConfigureStage key c stages))" "stages_ok (fst (SetStageEnabled key b stages))"
    using assms by (simp_all add: ConfigureStage_def SetStageEnabled_def change_stage_def same)
  show "stages_ok (Clear stages)" by (simp add: Clear_def stages_ok_def)
qed

lemma deps_registered_iff:
  assumes "distinct (map fst stages)"
  shows "deps_registered stages stages \<longleftrightarrow> (\<forall>k \<in> fst ` set stages. set (stage_deps stages k) \<subseteq> fst ` set stages)"
proof -
  have "map_of stages k = Some (d, s)" if "(k, d, s) \<in> set stages" for k d s
    using that assms by (rule map_of_is_SomeI [rotated])
  then show ?thesis
    by (fastforce simp: deps_registered_def list_all_iff stage_deps_def map_of_eq_None_iff)
qed

lemma kahn_start:
  assumes "distinct keys" and "\<And>k. inc k = length (deps k)"
  shows "kahn_inv keys deps inc (filter (\<lambda>k. inc k = 0) keys) []"
  using assms by (auto simp: kahn_inv_def)

lemma BuildExecutionOrder_cases:
  assumes "stages_ok stages" and "deps_registered stages stages"
  obtains inc out where "kahn_inv (map fst stages) (stage_deps stages) inc [] out"
    and "BuildExecutionOrder stages =
      (if length out \<noteq> length stages then Inl (FailedPrecondition ''pipeline graph contains a cycle'')
       else Inr (map (\<lambda>k. (k, the (map_of stages k))) out))"
proof -
  note dist = stages_ok_distinct [OF assms(1)]
  from assms(2) obtain inc dts where e: "collect_edges stages stages (\<lambda>_. 0, \<lambda>_. []) = Some (inc, dts)"
    by (metis collect_edges_None not_None_eq prod.exhaust)
  note E = collect_edges_Some [OF e dist]
  have "count_list (dts x) k = (if k \<in> set (map fst stages) then count_list (stage_deps stages k) x else 0)" for x k
    using E [of k x] stage_deps_notin [of k stages] by auto
  moreover have "kahn_inv (map fst stages) (stage_deps stages) inc (filter (\<lambda>k. inc k = 0) (map fst stages)) []"
    using dist E by (intro kahn_start) auto
  ultimately have "kahn_inv (map fst stages) (stage_deps stages)
      (fst (order_loop (map fst stages) dts inc (filter (\<lambda>k. inc k = 0) (map fst stages)) [])) []
      (snd (order_loop (map fst stages) dts inc (filter (\<lambda>k. inc k = 0) (map fst stages)) []))"
    by (intro kahn_loop)
  from that [OF this] e show thesis by (simp add: BuildExecutionOrder_def Let_def)
qed

text \<open>The stages of a pipeline after any sequence of its operations.\<close>

inductive graph_reach :: "stage_map \<Rightarrow> bool" where
  gr_empty: "graph_reach []"
| gr_register: "graph_reach stages \<Longrightarrow> graph_reach (fst (RegisterStage d s stages))"
| gr_unregister: "graph_reach stages \<Longrightarrow> graph_reach (fst (UnregisterStage key stages))"
| gr_configure: "graph_reach stages \<Longrightarrow> graph_reach (fst (ConfigureStage key c stages))"
| gr_enable: "graph_reach stages \<Longrightarrow> graph_reach (fst (SetStageEnabled key b stages))"
| gr_clear: "graph_reach stages \<Longrightarrow> graph_reach (Clear stages)"

lemma graph_reach_ok: "graph_reach stages \<Longrightarrow> stages_ok stages"
  by (induction rule: graph_reach.induct) (simp_all add: stages_ok_steps, simp add: stages_ok_def)

definition respects_dependencies :: "stage_map \<Rightarrow> string list \<Rightarrow> bool" where
  "respects_dependencies stages order =
     (\<forall>i < length order. set (stage_deps stages (order ! i)) \<subseteq> set (take i order))"

lemma order_complete:
  assumes "kahn_inv keys deps inc [] out" and "distinct keys"
  shows "length out = length keys \<longleftrightarrow> set keys \<subseteq> set out"
proof -
  have out: "distinct out" "set out \<subseteq> set keys" using assms(1) by (auto simp only: kahn_inv_def append_Nil2)
  then have "card (set out) = length out" "card (set keys) = length keys" using assms(2) by (simp_all add: distinct_card)
  then show ?thesis using out(2) by (metis card_seteq card_mono finite_set order_refl order_antisym)
qed

lemma kahn_result:
  assumes "kahn_inv (map fst stages) (stage_deps stages) inc [] out"
  shows "distinct out" and "set out \<subseteq> fst ` set stages" and "respects_dependencies stages out"
  using assms by (auto simp only: kahn_inv_def append_Nil2 respects_dependencies_def set_map)

lemma BuildExecutionOrder_Inr:
  assumes "graph_reach stages" and "BuildExecutionOrder stages = Inr order"
  shows "deps_registered stages stages" and "acyclic (stage_rel stages)" and "distinct order"
    and "set order = set stages" and "respects_dependencies stages (map fst order)"
proof -
  note ok = graph_reach_ok [OF assms(1)]
  note dist = stages_ok_distinct [OF ok]
  show reg: "deps_registered stages stages"
    using assms(2) collect_edges_None [of stages stages "(\<lambda>_. 0, \<lambda>_. [])"]
    by (auto simp: BuildExecutionOrder_def split: option.splits)
  from ok reg obtain inc out where inv: "kahn_inv (map fst stages) (stage_deps stages) inc [] out"
    and build: "BuildExecutionOrder stages =
      (if length out \<noteq> length stages then Inl (FailedPrecondition ''pipeline graph contains a cycle'')
       else Inr (map (\<lambda>k. (k, the (map_of stages k))) out))"
    by (rule BuildExecutionOrder_cases)
  note res = kahn_result [OF inv]
  from build assms(2) have len: "length out = length stages" and
    order: "order = map (\<lambda>k. (k, the (map_of stages k))) out" by (auto split: if_splits)
  with order_complete [OF inv dist] have all: "set (map fst stages) \<subseteq> set out" by simp
  show "acyclic (stage_rel stages)" using kahn_complete_acyclic [OF inv all] by (simp add: stage_rel_def)
  have "set out = fst ` set stages" using res(2) all by auto
  then have "set order = (\<lambda>x. (fst x, the (map_of stages (fst x)))) ` set stages"
    unfolding order by (simp add: image_image)
  also have "\<dots> = (\<lambda>x. x) ` set stages"
    by (rule image_cong) (use dist in \<open>auto simp: map_of_is_SomeI\<close>)
  finally show "set order = set stages" by simp
  show "distinct order" using res(1) by (simp add: order distinct_map inj_on_def)
  have "map fst order = out" by (simp add: order comp_def)
  with res(3) show "respects_dependencies stages (map fst order)" by simp
qed

lemma BuildExecutionOrder_Inl:
  assumes "graph_reach stages" and "BuildExecutionOrder stages = Inl st"
  shows "if deps_registered stages stages
    then \<not> acyclic (stage_rel stages) \<and> st = FailedPrecondition ''pipeline graph contains a cycle''
    else st = FailedPrecondition ''pipeline stage dependency is not registered''"
proof (cases "deps_registered stages stages")
  case False
  then have "collect_edges stages stages (\<lambda>_. 0, \<lambda>_. []) = None" by (simp add: collect_edges_None)
  with False assms(2) show ?thesis by (simp add: BuildExecutionOrder_def)
next
  case True
  note ok = graph_reach_ok [OF assms(1)]
  note dist = stages_ok_distinct [OF ok]
  from ok True obtain inc out where inv: "kahn_inv (map fst stages) (stage_deps stages) inc [] out"
    and build: "BuildExecutionOrder stages =
      (if length out \<noteq> length stages then Inl (FailedPrecondition ''pipeline graph contains a cycle'')
       else Inr (map (\<lambda>k. (k, the (map_of stages k))) out))"
    by (rule BuildExecutionOrder_cases)
  from build assms(2) have "length out \<noteq> length stages" and
    st: "st = FailedPrecondition ''pipeline graph contains a cycle''" by (auto split: if_splits)
  with order_complete [OF inv dist] have "\<not> set (map fst stages) \<subseteq> set out" by simp
  moreover have "set (stage_deps stages k) \<subseteq> set (map fst stages)" if "k \<in> set (map fst stages)" for k
    using that True deps_registered_iff [OF dist] by (auto simp only: set_map)
  ultimately have "\<not> acyclic (stage_rel stages)"
    using kahn_stuck_cyclic [OF inv] stage_rel_finite [of stages] by (simp add: stage_rel_def)
  with True st show ?thesis by simp
qed

text \<open>
  C24. \<open>BuildExecutionOrder\<close> returns an order exactly when every dependency is registered and the dependencies have
  no cycle. The order then has every registered stage once, each after all the stages it depends on; otherwise the
  status says which of the two failed.
\<close>

theorem execution_order_correct:
  assumes "graph_reach stages"
  shows "case BuildExecutionOrder stages of
     Inl st \<Rightarrow>
       if deps_registered stages stages
       then \<not> acyclic (stage_rel stages) \<and> st = FailedPrecondition ''pipeline graph contains a cycle''
       else st = FailedPrecondition ''pipeline stage dependency is not registered''
   | Inr order \<Rightarrow> deps_registered stages stages \<and> acyclic (stage_rel stages)
       \<and> distinct order \<and> set order = set stages \<and> respects_dependencies stages (map fst order)"
proof (cases "BuildExecutionOrder stages")
  case (Inl st)
  with BuildExecutionOrder_Inl [OF assms] show ?thesis by simp
next
  case (Inr order)
  with BuildExecutionOrder_Inr [OF assms Inr] show ?thesis by simp
qed

section \<open>Execution\<close>

definition enabled_ids :: "(string \<times> stage_entry) list \<Rightarrow> string list" where
  "enabled_ids order = map (\<lambda>(_, d, _). sd_stageId d) (filter (\<lambda>(_, d, _). sd_enabled d) order)"

lemma run_stages_spec:
  "\<exists>ran. pe_executedStages (run_stages process order ctx finished) = finished @ ran \<and> prefix ran (enabled_ids order)
    \<and> (isOk (pe_status (run_stages process order ctx finished)) \<longleftrightarrow> ran = enabled_ids order)"
proof (induction process order ctx finished rule: run_stages.induct)
  case (1 process ctx finished)
  show ?case by (simp add: enabled_ids_def)
next
  case (2 process key d s entries ctx finished)
  show ?case
  proof (cases "sd_enabled d")
    case False
    with 2 show ?thesis by (simp add: enabled_ids_def)
  next
    case True
    obtain r ctx' where r: "process s ctx = (r, ctx')" by fastforce
    have ids: "enabled_ids ((key, d, s) # entries) = sd_stageId d # enabled_ids entries"
      using True by (simp add: enabled_ids_def)
    show ?thesis
    proof (cases "\<exists>st. r = Returned st \<and> isOk st")
      case ok: True
      with r True have run: "run_stages process ((key, d, s) # entries) ctx finished =
          run_stages process entries ctx' (finished @ [sd_stageId d])" by auto
      from ok 2 True r obtain ran where
        "pe_executedStages (run_stages process entries ctx' (finished @ [sd_stageId d])) = (finished @ [sd_stageId d]) @ ran"
        "prefix ran (enabled_ids entries)"
        "isOk (pe_status (run_stages process entries ctx' (finished @ [sd_stageId d]))) \<longleftrightarrow> ran = enabled_ids entries"
        by fastforce
      then show ?thesis unfolding run ids by (intro exI [of _ "sd_stageId d # ran"]) simp
    next
      case bad: False
      with r True have "pe_executedStages (run_stages process ((key, d, s) # entries) ctx finished) = finished"
        "\<not> isOk (pe_status (run_stages process ((key, d, s) # entries) ctx finished))"
        by (auto split: outcome.splits)
      then show ?thesis unfolding ids by (intro exI [of _ "[]"]) simp
    qed
  qed
qed

lemma enabled_ids_keys:
  assumes "stages_ok stages" and "set order \<subseteq> set stages"
  shows "enabled_ids order = map fst (filter (\<lambda>(_, d, _). sd_enabled d) order)"
proof -
  have "sd_stageId d = k" if "(k, d, s) \<in> set order" for k d s
    using assms that by (fastforce simp: stages_ok_def list_all_iff)
  then show ?thesis by (auto simp: enabled_ids_def)
qed

text \<open>
  \<open>Execute\<close> runs enabled stages only, each after the enabled stages it depends on, and stops at the first that
  fails: the executed stages are a prefix of the enabled stages in execution order, and the status is ok exactly
  when all of them were executed.
\<close>

theorem perception_execute_order:
  assumes "graph_reach stages" and "BuildExecutionOrder stages = Inr order"
  shows "let r = PerceptionPipeline_Execute process now frame stages;
      en = map fst (filter (\<lambda>(_, d, _). sd_enabled d) order) in
    prefix (pe_executedStages r) en \<and> (isOk (pe_status r) \<longleftrightarrow> pe_executedStages r = en)
    \<and> set en = {k. \<exists>d s. (k, d, s) \<in> set stages \<and> sd_enabled d}
    \<and> (\<forall>i < length order. set (stage_deps stages (fst (order ! i))) \<subseteq> fst ` set (take i order))"
proof -
  have order: "set order = set stages" "respects_dependencies stages (map fst order)"
    using BuildExecutionOrder_Inr [OF assms] by auto
  note ids = enabled_ids_keys [OF graph_reach_ok [OF assms(1)], of order]
  have "PerceptionPipeline_Execute process now frame stages = run_stages process order (new_context frame now) []"
    using assms(2) by (simp add: PerceptionPipeline_Execute_def)
  moreover have "set (map fst (filter (\<lambda>(_, d, _). sd_enabled d) order)) = {k. \<exists>d s. (k, d, s) \<in> set stages \<and> sd_enabled d}"
    using order(1) by force
  moreover have "\<forall>i < length order. set (stage_deps stages (fst (order ! i))) \<subseteq> fst ` set (take i order)"
    using order(2) by (simp add: respects_dependencies_def take_map)
  ultimately show ?thesis
    using run_stages_spec [of process order "new_context frame now" "[]"] order(1) ids by (auto simp: Let_def)
qed

section \<open>An instance\<close>

definition demo_stage :: "string \<Rightarrow> string list \<Rightarrow> stage_descriptor" where
  "demo_stage i ds = \<lparr>sd_stageId = i, sd_name = i, sd_type = PS_Custom, sd_enabled = True, sd_dependencies = ds,
     sd_configuration = []\<rparr>"

definition demo_graph :: stage_map where
  "demo_graph = fst (RegisterStage (demo_stage ''detect'' [''infer'', ''frame'']) (Some 2)
     (fst (RegisterStage (demo_stage ''infer'' [''frame'']) (Some 1)
     (fst (RegisterStage (demo_stage ''frame'' []) (Some 0) [])))))"

lemma demo_graph_reach: "graph_reach demo_graph"
  unfolding demo_graph_def by (intro gr_register gr_empty)

lemma demo_graph_order:
  "BuildExecutionOrder demo_graph = Inr [(''frame'', demo_stage ''frame'' [], 0),
     (''infer'', demo_stage ''infer'' [''frame''], 1), (''detect'', demo_stage ''detect'' [''infer'', ''frame''], 2)]"
  by code_simp

theorem execution_order_correct_witness:
  "graph_reach demo_graph \<and> acyclic (stage_rel demo_graph)"
  using execution_order_correct [OF demo_graph_reach] demo_graph_reach by (simp add: demo_graph_order)

theorem perception_execute_order_witness:
  "pe_executedStages (PerceptionPipeline_Execute (\<lambda>s c. (Returned Status_ok, c)) 5 default_frame demo_graph) =
     [''frame'', ''infer'', ''detect'']"
proof -
  have "isOk (pe_status (PerceptionPipeline_Execute (\<lambda>s c. (Returned Status_ok, c)) 5 default_frame demo_graph))"
    by (simp add: PerceptionPipeline_Execute_def demo_graph_order demo_stage_def)
  with perception_execute_order [OF demo_graph_reach demo_graph_order, of "\<lambda>s c. (Returned Status_ok, c)" 5 default_frame]
  show ?thesis by (simp add: Let_def demo_stage_def)
qed

end
