(* ===== verification/Sensor_Manager_Props.thy ===== *)
theory Sensor_Manager_Props
  imports Sensor_Manager Perception_Order
begin

text \<open>
  Properties of the sensor manager. A step of \<open>sm_step\<close> is one critical section of one of its threads; \<open>P\<close> is the
  multiset of the entries that a thread has taken out of the map and not yet shut down. A thread that has found an
  entry may work on it at any later time.
\<close>

section \<open>Steps\<close>

inductive sm_step :: "sensor_manager \<times> nat multiset \<Rightarrow> sensor_manager \<times> nat multiset \<Rightarrow> bool" where
  RegisterSensor: "sm_step (s, P) (fst (RegisterSensor x s), P)"
| Erase: "UnregisterSensor_erase i s = Inr (k, s') \<Longrightarrow> sm_step (s, P) (s', add_mset k P)"
| Collect: "Shutdown_collect s = (ks, s') \<Longrightarrow> sm_step (s, P) (s', mset ks + P)"
| Mark: "sm_step (s, add_mset k P) (MarkRemovedAndShutdown now k s, P)"
| Listeners: "sm_step (s, P) (Shutdown_listeners s, P)"
| Lifecycle: "k < length (sm_store s) \<Longrightarrow> call \<in> {SC_Initialize, SC_Start, SC_Stop, SC_Shutdown} \<Longrightarrow>
    sm_step (s, P) (fst (InvokeLifecycle_entry call st now answer k s), P)"
| Read: "k < length (sm_store s) \<Longrightarrow> sm_step (s, P) (fst (ReadFrame_entry now now' frame k s), P)"
| Route_begin: "sm_step (s, P) (snd (RouteFrame_begin s), P)"
| Route_end: "sm_step (s, P) (RouteFrame_end c f s, P)"
| Failure: "sm_step (s, P) (RecordReadFailure s, P)"
| Health: "k < length (sm_store s) \<Longrightarrow> sm_step (s, P) (fst (Health_entry now now' health k s), P)"
| Subscribe: "sm_step (s, P) (fst (Subscribe l s), P)"
| Unsubscribe: "sm_step (s, P) (fst (Unsubscribe n s), P)"

inductive sm_reachable :: "sensor_manager \<Rightarrow> nat multiset \<Rightarrow> bool" where
  create: "sm_reachable SensorManager_create {#}"
| step: "sm_reachable s P \<Longrightarrow> sm_step (s, P) (s', P') \<Longrightarrow> sm_reachable s' P'"

text \<open>The calls made on one sensor, in order.\<close>

definition calls_of :: "nat \<Rightarrow> sensor_manager \<Rightarrow> sensor_call list" where
  "calls_of k s = map snd (filter (\<lambda>(j, _). j = k) (sm_calls s))"

section \<open>What every entry keeps\<close>

text \<open>The sensors that no thread has shut down yet.\<close>

definition live_entries :: "sensor_manager \<Rightarrow> nat list" where
  "live_entries s = filter (\<lambda>k. \<not> se_removed (sm_store s ! k)) [0..<length (sm_store s)]"

text \<open>The last lifecycle calls are \<open>Stop\<close> and \<open>Shutdown\<close>; only health queries come later.\<close>

definition shut_down :: "sensor_call list \<Rightarrow> bool" where
  "shut_down cs = (\<exists>h t. cs = h @ [SC_Stop, SC_Shutdown] @ t \<and> set t \<subseteq> {SC_Health})"

lemma shut_down_end: "shut_down (cs @ [SC_Stop, SC_Shutdown])"
  unfolding shut_down_def by (intro exI [of _ cs] exI [of _ "[]"]) simp

lemma shut_down_health:
  assumes "shut_down cs" shows "shut_down (cs @ [SC_Health])"
proof -
  obtain h t where "cs = h @ [SC_Stop, SC_Shutdown] @ t" "set t \<subseteq> {SC_Health}"
    using assms by (auto simp: shut_down_def)
  then show ?thesis unfolding shut_down_def by (intro exI [of _ h] exI [of _ "t @ [SC_Health]"]) auto
qed

definition entry_ok :: "sensor_entry \<Rightarrow> sensor_call list \<Rightarrow> bool" where
  "entry_ok e cs =
     (ss_framesProduced (se_state e) + ss_frameErrors (se_state e) = of_nat (count_list cs SC_ReadFrame) \<and>
      (se_removed e \<longrightarrow> ss_lifecycle (se_state e) = SL_Shutdown \<and> shut_down cs))"

definition sm_inv :: "sensor_manager \<Rightarrow> nat multiset \<Rightarrow> bool" where
  "sm_inv s P =
     (sorted_wrt (<) (map fst (sm_sensors s)) \<and>
      (\<forall>(i, k) \<in> set (sm_sensors s). i \<noteq> [] \<and> sc_sensorId (se_capabilities (sm_store s ! k)) = i) \<and>
      mset (map snd (sm_sensors s)) + P = mset (live_entries s) \<and>
      sx_registrations (sm_statistics s) = of_nat (length (sm_store s)) \<and>
      sx_unregistrations (sm_statistics s) + of_nat (length (sm_sensors s)) = sx_registrations (sm_statistics s) \<and>
      (\<forall>(j, _) \<in> set (sm_calls s). j < length (sm_store s)) \<and>
      (\<forall>k < length (sm_store s). entry_ok (sm_store s ! k) (calls_of k s)))"

lemma live_entries_less: "k \<in> set (live_entries s) \<longleftrightarrow> k < length (sm_store s) \<and> \<not> se_removed (sm_store s ! k)"
  by (auto simp: live_entries_def)

lemma distinct_live_entries: "distinct (live_entries s)"
  by (simp add: live_entries_def)

lemma sm_inv_live:
  assumes "sm_inv s P"
  shows "(i, k) \<in> set (sm_sensors s) \<Longrightarrow> k \<in> set (live_entries s)"
    and "k \<in># P \<Longrightarrow> k \<in> set (live_entries s)"
proof -
  have eq: "mset (map snd (sm_sensors s)) + P = mset (live_entries s)" using assms by (simp add: sm_inv_def)
  { assume "(i, k) \<in> set (sm_sensors s)"
    then have "k \<in># mset (map snd (sm_sensors s)) + P" by force
    then show "k \<in> set (live_entries s)" unfolding eq by simp }
  { assume "k \<in># P"
    then have "k \<in># mset (map snd (sm_sensors s)) + P" by simp
    then show "k \<in> set (live_entries s)" unfolding eq by simp }
qed

lemma sm_inv_removed_once:
  assumes "sm_inv s (add_mset k P)"
  shows "k \<notin># P"
proof -
  have "mset (map snd (sm_sensors s)) + add_mset k P = mset (live_entries s)" using assms by (simp add: sm_inv_def)
  moreover have "count (mset (live_entries s)) k \<le> 1"
    using distinct_live_entries [of s] by (simp add: distinct_count_atmost_1)
  ultimately have "count (mset (map snd (sm_sensors s)) + add_mset k P) k \<le> 1" by simp
  then show ?thesis by (simp add: not_in_iff)
qed

section \<open>Preservation\<close>

lemma mset_filter_neq:
  assumes "distinct xs"
  shows "mset (filter (\<lambda>j. j \<noteq> k) xs) = mset xs - {#k#}"
proof -
  have "filter (\<lambda>j. j \<noteq> k) xs = remove1 k xs"
    unfolding distinct_remove1_removeAll [OF assms] removeAll_filter_not_eq by (rule filter_cong) auto
  then show ?thesis by simp
qed

lemma mset_erase:
  "distinct (map fst kvs) \<Longrightarrow> map_of kvs i = Some k \<Longrightarrow>
     mset kvs = add_mset (i, k) (mset (filter (\<lambda>(j, _). j \<noteq> i) kvs))"
proof (induction kvs)
  case (Cons kv kvs)
  have "i \<notin> fst ` set kvs \<Longrightarrow> filter (\<lambda>(j, _). j \<noteq> i) kvs = kvs" by (force simp: filter_id_conv)
  with Cons show ?case by (cases kv) (auto simp del: mset_filter split: if_splits)
qed simp

text \<open>A section that works on one entry: it changes that entry and appends calls on it.\<close>

definition entry_section :: "nat \<Rightarrow> (sensor_entry \<Rightarrow> sensor_entry) \<Rightarrow> sensor_call list \<Rightarrow> sensor_manager \<Rightarrow> sensor_manager"
  where "entry_section k g cs s = entry_update k g (record_calls k cs s)"

lemma entry_section_simps [simp]:
  "sm_store (entry_section k g cs s) = (sm_store s)[k := g (sm_store s ! k)]"
  "sm_sensors (entry_section k g cs s) = sm_sensors s"
  "sm_statistics (entry_section k g cs s) = sm_statistics s"
  "sm_listeners (entry_section k g cs s) = sm_listeners s"
  "sm_calls (entry_section k g cs s) = sm_calls s @ map (Pair k) cs"
  by (simp_all add: entry_section_def entry_update_def record_calls_def)

lemma entry_section_calls_of:
  "calls_of j (entry_section k g cs s) = calls_of j s @ (if j = k then cs else [])"
  by (simp add: calls_of_def filter_map comp_def)

text \<open>It keeps the invariant when the entry stays registered or pending and its own invariant is kept.\<close>

lemma entry_section_inv:
  assumes inv: "sm_inv s P" and k: "k < length (sm_store s)"
    and keep: "\<And>e. sc_sensorId (se_capabilities (g e)) = sc_sensorId (se_capabilities e)"
      "se_removed (g (sm_store s ! k)) = se_removed (sm_store s ! k)"
    and ok: "entry_ok (g (sm_store s ! k)) (calls_of k s @ cs)"
  shows "sm_inv (entry_section k g cs s) P"
proof -
  have "live_entries (entry_section k g cs s) = live_entries s"
    using keep k by (auto simp: live_entries_def nth_list_update intro!: filter_cong)
  moreover have "sc_sensorId (se_capabilities (sm_store (entry_section k g cs s) ! j)) =
      sc_sensorId (se_capabilities (sm_store s ! j))" for j
    using keep k by (cases "j = k") auto
  moreover have "\<forall>j < length (sm_store s). entry_ok ((sm_store s)[k := g (sm_store s ! k)] ! j)
      (calls_of j (entry_section k g cs s))"
    using inv ok k by (auto simp: sm_inv_def entry_section_calls_of nth_list_update)
  ultimately show ?thesis using inv k by (auto simp: sm_inv_def)
qed

lemma MarkRemovedAndShutdown_inv:
  assumes inv: "sm_inv s (add_mset k P)"
  shows "sm_inv (MarkRemovedAndShutdown now k s) P"
proof -
  have live: "k < length (sm_store s)" "\<not> se_removed (sm_store s ! k)"
    using sm_inv_live(2) [OF inv, of k] by (simp_all add: live_entries_less)
  define g where "g e = e\<lparr>se_removed := True, se_state := (se_state e)\<lparr>ss_lifecycle := SL_Shutdown, ss_timestamp := now\<rparr>\<rparr>"
    for e :: sensor_entry
  have s': "MarkRemovedAndShutdown now k s = entry_section k g [SC_Stop, SC_Shutdown] s"
    by (simp add: MarkRemovedAndShutdown_def entry_section_def entry_update_def record_calls_def g_def [abs_def])
  have "live_entries (entry_section k g [SC_Stop, SC_Shutdown] s) = filter (\<lambda>j. j \<noteq> k) (live_entries s)"
    using live by (auto simp: live_entries_def g_def nth_list_update intro!: filter_cong)
  then have "mset (live_entries (entry_section k g [SC_Stop, SC_Shutdown] s)) = mset (live_entries s) - {#k#}"
    using mset_filter_neq [OF distinct_live_entries] by metis
  moreover have "sc_sensorId (se_capabilities ((sm_store s)[k := g (sm_store s ! k)] ! j)) =
      sc_sensorId (se_capabilities (sm_store s ! j))" for j
    using live by (cases "j = k") (auto simp: g_def)
  moreover have "entry_ok (g (sm_store s ! k)) (calls_of k s @ [SC_Stop, SC_Shutdown])"
    using inv live by (auto simp: sm_inv_def entry_ok_def g_def shut_down_end)
  moreover have "mset (map snd (sm_sensors s)) + P = mset (live_entries s) - {#k#}"
  proof -
    have "mset (live_entries s) = add_mset k (mset (map snd (sm_sensors s)) + P)" using inv by (simp add: sm_inv_def)
    then show ?thesis by simp
  qed
  ultimately show ?thesis
    using inv live unfolding s' sm_inv_def
    by (intro conjI; elim conjE; clarsimp simp: entry_section_calls_of nth_list_update)
qed


lemma RegisterSensor_inv:
  assumes inv: "sm_inv s P"
  shows "sm_inv (fst (RegisterSensor x s)) P"
proof (cases "\<exists>caps. x = Some (Returned caps) \<and> sensor_capabilities_isValid caps \<and>
    map_of (sm_sensors s) (sc_sensorId caps) = None")
  case True
  then obtain caps where x: "x = Some (Returned caps)" and valid: "sensor_capabilities_isValid caps"
    and new: "sc_sensorId caps \<notin> fst ` set (sm_sensors s)" by (auto simp: map_of_eq_None_iff)
  define n where "n = length (sm_store s)"
  define e where "e = \<lparr>se_capabilities = caps, se_state = default_sensor_state, se_latest_frame = None, se_removed = False\<rparr>"
  define s' where "s' = fst (RegisterSensor x s)"
  have s': "sm_store s' = sm_store s @ [e]" "sm_sensors s' = map_emplace (sc_sensorId caps) n (sm_sensors s)"
    "sm_statistics s' = (sm_statistics s)\<lparr>sx_registrations := sx_registrations (sm_statistics s) + 1\<rparr>"
    "sm_calls s' = sm_calls s"
    using valid new
    by (auto simp: s'_def x RegisterSensor_def statistics_update_def e_def n_def map_of_eq_None_iff)
  have calls: "calls_of k s' = (if k = n then [] else calls_of k s)" for k
    using inv by (auto simp: calls_of_def s' sm_inv_def n_def filter_empty_conv split: prod.splits)
  have live: "live_entries s' = live_entries s @ [n]"
    by (auto simp: live_entries_def s' e_def n_def nth_append intro!: filter_cong)
  have "mset (map snd (sm_sensors s')) = add_mset n (mset (map snd (sm_sensors s)))"
    by (simp add: s' map_emplace_mset)
  moreover have "length (sm_sensors s') = Suc (length (sm_sensors s))"
    by (simp add: s' map_emplace_length)
  moreover have "entry_ok e []" by (simp add: entry_ok_def e_def default_sensor_state_def)
  moreover have "\<forall>(i, k) \<in> set (sm_sensors s). k < n"
    using sm_inv_live(1) [OF inv] by (auto simp: live_entries_less n_def)
  ultimately show ?thesis
    using inv valid new unfolding s'_def [symmetric]
    by (auto simp: sm_inv_def s' calls live map_emplace_set map_emplace_sorted nth_append n_def
        sensor_capabilities_isValid_def e_def less_Suc_eq algebra_simps)
next
  case False
  then have "fst (RegisterSensor x s) = s"
    by (auto simp: RegisterSensor_def split: option.splits outcome.splits)
  with inv show ?thesis by simp
qed


lemma UnregisterSensor_erase_inv:
  assumes inv: "sm_inv s P" and erase: "UnregisterSensor_erase i s = Inr (k, s')"
  shows "sm_inv s' (add_mset k P)"
proof -
  have k: "map_of (sm_sensors s) i = Some k"
    and s': "s' = statistics_update (\<lambda>x. x\<lparr>sx_unregistrations := sx_unregistrations x + 1\<rparr>)
      (s\<lparr>sm_sensors := filter (\<lambda>(j, _). j \<noteq> i) (sm_sensors s)\<rparr>)"
    using erase by (auto simp: UnregisterSensor_erase_def split: if_splits option.splits)
  have d: "distinct (map fst (sm_sensors s))" using inv by (simp add: sm_inv_def strict_sorted_iff)
  let ?rest = "filter (\<lambda>(j, _). j \<noteq> i) (sm_sensors s)"
  have eq: "mset (sm_sensors s) = add_mset (i, k) (mset ?rest)" by (rule mset_erase [OF d k])
  have "length (sm_sensors s) = Suc (length ?rest)" using arg_cong [OF eq, of size] by (simp del: mset_filter)
  moreover have "mset (map snd (sm_sensors s)) = add_mset k (mset (map snd ?rest))"
    using arg_cong [OF eq, of "image_mset snd"] by (simp del: mset_filter)
  moreover have "sorted_wrt (<) (map fst ?rest)"
    using inv by (auto simp: sm_inv_def sorted_wrt_map intro: sorted_wrt_filter)
  moreover have "live_entries s' = live_entries s" "calls_of k s' = calls_of k s" for k
    by (simp_all add: live_entries_def calls_of_def s' statistics_update_def)
  ultimately show ?thesis using inv by (auto simp: sm_inv_def s' statistics_update_def algebra_simps)
qed


lemma Shutdown_collect_inv:
  assumes "sm_inv s P" and "Shutdown_collect s = (ks, s')"
  shows "sm_inv s' (mset ks + P)"
proof -
  have "live_entries s' = live_entries s" "calls_of k s' = calls_of k s" for k
    using assms(2) by (auto simp: live_entries_def calls_of_def Shutdown_collect_def statistics_update_def)
  then show ?thesis using assms by (auto simp: sm_inv_def Shutdown_collect_def statistics_update_def)
qed

lemma Lifecycle_inv:
  assumes inv: "sm_inv s P" and k: "k < length (sm_store s)" and c: "call \<noteq> SC_ReadFrame"
  shows "sm_inv (fst (InvokeLifecycle_entry call st now answer k s)) P"
proof (cases "se_removed (sm_store s ! k)")
  case False
  have "entry_ok (sm_store s ! k) (calls_of k s)" using inv k by (simp add: sm_inv_def)
  with False c show ?thesis
    using inv k
    by (auto simp: InvokeLifecycle_entry_def Let_def entry_section_def [symmetric] entry_ok_def
        split: outcome.splits intro!: entry_section_inv)
qed (use inv in \<open>simp add: InvokeLifecycle_entry_def\<close>)

lemma Read_inv:
  assumes inv: "sm_inv s P" and k: "k < length (sm_store s)"
  shows "sm_inv (fst (ReadFrame_entry now now' frame k s)) P"
proof (cases "se_removed (sm_store s ! k)")
  case False
  have "entry_ok (sm_store s ! k) (calls_of k s)" using inv k by (simp add: sm_inv_def)
  with False show ?thesis
    using inv k
    by (auto simp: ReadFrame_entry_def Let_def entry_section_def [symmetric] entry_ok_def algebra_simps
        split: outcome.splits intro!: entry_section_inv)
qed (use inv in \<open>simp add: ReadFrame_entry_def Let_def\<close>)

lemma Health_inv:
  assumes inv: "sm_inv s P" and k: "k < length (sm_store s)"
  shows "sm_inv (fst (Health_entry now now' health k s)) P"
proof -
  have ok: "entry_ok (sm_store s ! k) (calls_of k s)" using inv k by (simp add: sm_inv_def)
  show ?thesis
  proof (cases "\<exists>h. health = Returned h")
    case True
    then show ?thesis
      using inv k ok
      by (auto simp: Health_entry_def Let_def entry_section_def [symmetric] entry_ok_def shut_down_health
          intro!: entry_section_inv)
  next
    case False
    have "record_calls k [SC_Health] s = entry_section k (\<lambda>e. e) [SC_Health] s"
      by (simp add: entry_section_def entry_update_def record_calls_def)
    moreover have "sm_inv (entry_section k (\<lambda>e. e) [SC_Health] s) P"
      using inv k ok by (auto simp: entry_ok_def shut_down_health intro!: entry_section_inv)
    ultimately show ?thesis using False by (auto simp: Health_entry_def Let_def split: outcome.splits)
  qed
qed

lemma statistics_inv:
  assumes "sm_inv s P" and "sm_store s' = sm_store s" "sm_sensors s' = sm_sensors s" "sm_calls s' = sm_calls s"
    "sx_registrations (sm_statistics s') = sx_registrations (sm_statistics s)"
    "sx_unregistrations (sm_statistics s') = sx_unregistrations (sm_statistics s)"
  shows "sm_inv s' P"
  using assms by (simp add: sm_inv_def live_entries_def calls_of_def)

lemma sm_step_inv: "sm_step sP sP' \<Longrightarrow> sm_inv (fst sP) (snd sP) \<Longrightarrow> sm_inv (fst sP') (snd sP')"
proof (induction rule: sm_step.induct)
  case (Lifecycle k s call P st now answer)
  then show ?case by (auto intro: Lifecycle_inv)
next
  case (Subscribe s P l)
  then show ?case by (auto simp: Subscribe_def Let_def split: option.splits intro: statistics_inv)
next
  case (Unsubscribe s P n)
  then show ?case by (auto simp: Unsubscribe_def intro: statistics_inv)
qed (auto intro: RegisterSensor_inv UnregisterSensor_erase_inv Shutdown_collect_inv MarkRemovedAndShutdown_inv
     Read_inv Health_inv statistics_inv
     simp: Shutdown_listeners_def RouteFrame_begin_def RouteFrame_end_def RecordReadFailure_def statistics_update_def)

lemma sm_reachable_inv: "sm_reachable s P \<Longrightarrow> sm_inv s P"
proof (induction rule: sm_reachable.induct)
  case create
  show ?case by (simp add: sm_inv_def SensorManager_create_def live_entries_def)
next
  case (step s P s' P')
  then show ?case using sm_step_inv [of "(s, P)" "(s', P')"] by simp
qed


section \<open>Operations as sequences of steps\<close>

lemma Marks_reachable:
  "sm_reachable s (mset ks + P) \<Longrightarrow> sm_reachable (fold (\<lambda>k. MarkRemovedAndShutdown (nows k) k) ks s) P"
proof (induction ks arbitrary: s)
  case (Cons k ks)
  then have "sm_reachable (MarkRemovedAndShutdown (nows k) k s) (mset ks + P)"
    by (auto intro: sm_reachable.step sm_step.Mark)
  with Cons.IH show ?case by simp
qed simp

lemma Marks_sensors [simp]:
  "sm_sensors (fold (\<lambda>k. MarkRemovedAndShutdown (nows k) k) ks s) = sm_sensors s"
  by (induction ks arbitrary: s) (simp_all add: MarkRemovedAndShutdown_def record_calls_def entry_update_def)

lemma Marks_store [simp]:
  "length (sm_store (fold (\<lambda>k. MarkRemovedAndShutdown (nows k) k) ks s)) = length (sm_store s)"
  by (induction ks arbitrary: s) (simp_all add: MarkRemovedAndShutdown_def record_calls_def entry_update_def)

lemma Shutdown_reachable:
  assumes "sm_reachable s P"
  shows "sm_reachable (fst (SensorManager_Shutdown nows s)) P"
proof -
  obtain ks s' where c: "Shutdown_collect s = (ks, s')" by (cases "Shutdown_collect s")
  then have "sm_reachable s' (mset ks + P)" using assms by (blast intro: sm_reachable.step sm_step.Collect)
  then have "sm_reachable (fold (\<lambda>k. MarkRemovedAndShutdown (nows k) k) ks s') P" by (rule Marks_reachable)
  then show ?thesis
    by (auto simp: SensorManager_Shutdown_def c intro: sm_reachable.step sm_step.Listeners)
qed

lemma FindEntry_iff:
  assumes "sm_reachable s P"
  shows "FindEntry i s = Some k \<longleftrightarrow> (i, k) \<in> set (sm_sensors s)"
proof -
  have inv: "sm_inv s P" by (rule sm_reachable_inv [OF assms])
  then have "distinct (map fst (sm_sensors s))" by (simp add: sm_inv_def strict_sorted_iff)
  with inv show ?thesis by (auto simp: FindEntry_def sm_inv_def)
qed

lemma quiescent_entry:
  assumes "sm_reachable s {#}" "k < length (sm_store s)"
  shows "if se_removed (sm_store s ! k) then shut_down (calls_of k s) \<and> ss_lifecycle (se_state (sm_store s ! k)) = SL_Shutdown
         else \<exists>i. FindEntry i s = Some k"
proof -
  have inv: "sm_inv s {#}" by (rule sm_reachable_inv [OF assms(1)])
  then have "set (live_entries s) = snd ` set (sm_sensors s)"
    by (metis (no_types, lifting) add.right_neutral set_map set_mset_mset sm_inv_def)
  moreover have "\<not> se_removed (sm_store s ! k) \<Longrightarrow> k \<in> set (live_entries s)"
    using assms(2) by (simp add: live_entries_less)
  ultimately show ?thesis
    using inv assms FindEntry_iff [OF assms(1)] by (force simp: sm_inv_def entry_ok_def)
qed

section \<open>Properties\<close>

text \<open>
  C25. In every interleaving of the critical sections a sensor identifier names at most one entry, an entry that can be
  found belongs to its identifier and is not marked as removed, the registration counters differ by the number of
  registered sensors, and the frame counters of an entry account for every read of its sensor. Whenever no
  unregistration is under way every sensor is either registered or has been stopped and shut down, with nothing but
  health queries after that.
\<close>

theorem sensors_accounted:
  assumes "sm_reachable s P"
  shows "sorted_wrt (<) (map fst (sm_sensors s))
    \<and> (\<forall>i k. FindEntry i s = Some k \<longrightarrow> k < length (sm_store s) \<and> \<not> se_removed (sm_store s ! k) \<and>
          sc_sensorId (se_capabilities (sm_store s ! k)) = i)
    \<and> sx_registrations (sm_statistics s) - sx_unregistrations (sm_statistics s) = of_nat (SensorManager_Size s)
    \<and> (\<forall>k < length (sm_store s). ss_framesProduced (se_state (sm_store s ! k)) + ss_frameErrors (se_state (sm_store s ! k)) =
          of_nat (count_list (calls_of k s) SC_ReadFrame))
    \<and> (P = {#} \<longrightarrow> (\<forall>k < length (sm_store s).
          if se_removed (sm_store s ! k)
          then shut_down (calls_of k s) \<and> ss_lifecycle (se_state (sm_store s ! k)) = SL_Shutdown
          else \<exists>i. FindEntry i s = Some k))"
proof (intro conjI allI impI)
  have inv: "sm_inv s P" by (rule sm_reachable_inv [OF assms])
  show "sorted_wrt (<) (map fst (sm_sensors s))" using inv by (simp add: sm_inv_def)
  show "sx_registrations (sm_statistics s) - sx_unregistrations (sm_statistics s) = of_nat (SensorManager_Size s)"
    using inv by (auto simp: sm_inv_def SensorManager_Size_def algebra_simps)
  show "ss_framesProduced (se_state (sm_store s ! k)) + ss_frameErrors (se_state (sm_store s ! k)) =
      of_nat (count_list (calls_of k s) SC_ReadFrame)" if "k < length (sm_store s)" for k
    using inv that by (simp add: sm_inv_def entry_ok_def)
  show "if se_removed (sm_store s ! k) then shut_down (calls_of k s) \<and> ss_lifecycle (se_state (sm_store s ! k)) = SL_Shutdown
      else \<exists>i. FindEntry i s = Some k" if "P = {#}" "k < length (sm_store s)" for k
    using quiescent_entry assms that by blast
  fix i k
  assume "FindEntry i s = Some k"
  then have "(i, k) \<in> set (sm_sensors s)" using FindEntry_iff [OF assms] by simp
  with sm_inv_live(1) [OF inv this] inv
  show "k < length (sm_store s)" "\<not> se_removed (sm_store s ! k)" "sc_sensorId (se_capabilities (sm_store s ! k)) = i"
    by (auto simp: live_entries_less sm_inv_def)
qed

text \<open>A manager with one camera, used by the witnesses.\<close>

definition camera_caps :: sensor_capabilities where
  "camera_caps = \<lparr>sc_sensorId = ''cam'', sc_name = ''front'', sc_type = ST_Camera, sc_supportedEncodings = [],
     sc_maximumWidth = 0, sc_maximumHeight = 0, sc_maximumFrameRateHz = Fin 30, sc_supportsHardwareTimestamp = False,
     sc_supportsStartStop = True, sc_supportsStreaming = True, sc_supportsConfiguration = False,
     sc_nominalReadTimeout = 0\<rparr>"

definition camera_manager :: sensor_manager where
  "camera_manager = fst (RegisterSensor (Some (Returned camera_caps)) SensorManager_create)"

lemma camera_manager_reachable: "sm_reachable camera_manager {#}"
  unfolding camera_manager_def by (blast intro: sm_reachable.intros sm_step.intros)

lemma camera_manager_sensors: "sm_sensors camera_manager = [(''cam'', 0)]" "length (sm_store camera_manager) = 1"
  "se_removed (sm_store camera_manager ! 0) = False"
  by (simp_all add: camera_manager_def RegisterSensor_def camera_caps_def SensorManager_create_def
      sensor_capabilities_isValid_def statistics_update_def)

lemma camera_manager_find: "FindEntry ''cam'' camera_manager = Some 0"
  by (simp add: FindEntry_def camera_manager_sensors)

theorem sensors_accounted_witness:
  "sx_registrations (sm_statistics camera_manager) - sx_unregistrations (sm_statistics camera_manager) = 1 \<and>
   sc_sensorId (se_capabilities (sm_store camera_manager ! 0)) = ''cam''"
  using sensors_accounted [OF camera_manager_reachable] camera_manager_find
  by (simp add: SensorManager_Size_def camera_manager_sensors)

text \<open>
  \<open>Shutdown\<close>, when no other thread interferes, leaves no sensor registered and no listener, and every sensor ever
  registered has then been stopped and shut down; every later operation on a sensor finds nothing.
\<close>

theorem manager_shutdown_complete:
  assumes "sm_reachable s {#}" and "SensorManager_Shutdown nows s = (s', st)"
  shows "SensorManager_Size s' = 0 \<and> sm_listeners s' = [] \<and> length (sm_store s') = length (sm_store s) \<and>
    (\<forall>i. FindEntry i s' = None) \<and>
    list_all (\<lambda>k. se_removed (sm_store s' ! k) \<and> shut_down (calls_of k s')) [0..<length (sm_store s)]"
proof -
  have s'_def: "s' = fst (SensorManager_Shutdown nows s)" using assms(2) by simp
  have sensors: "sm_sensors s' = []" "sm_listeners s' = []" "length (sm_store s') = length (sm_store s)"
    by (simp_all add: s'_def SensorManager_Shutdown_def Shutdown_collect_def Shutdown_listeners_def statistics_update_def)
  then have "FindEntry i s' = None" for i by (simp add: FindEntry_def)
  moreover have "sm_reachable s' {#}" unfolding s'_def by (rule Shutdown_reachable [OF assms(1)])
  ultimately have "se_removed (sm_store s' ! k) \<and> shut_down (calls_of k s')" if "k < length (sm_store s)" for k
    using quiescent_entry [of s' k] that sensors by (auto split: if_splits)
  with sensors \<open>\<And>i. FindEntry i s' = None\<close> show ?thesis by (simp add: SensorManager_Size_def list_all_iff)
qed

theorem manager_shutdown_complete_witness:
  "SensorManager_Size (fst (SensorManager_Shutdown (\<lambda>_. 5) camera_manager)) = 0 \<and>
   shut_down (calls_of 0 (fst (SensorManager_Shutdown (\<lambda>_. 5) camera_manager)))"
  using manager_shutdown_complete [OF camera_manager_reachable prod.collapse [symmetric], of "\<lambda>_. 5"]
    camera_manager_sensors by simp

text \<open>
  After a successful \<open>ReadFrame\<close> of a registered sensor \<open>LatestFrame\<close> gives back the frame that was routed, stamped
  with a time when the sensor gave none and with the type of the sensor; a listener that throws is counted as a failure
  and changes nothing else, and a failed read counts as one and keeps the previous frame.
\<close>

theorem read_then_latest:
  assumes "sm_reachable s P" and "FindEntry i s = Some k"
    and "SensorManager_ReadFrame now now' read listen i s = (s', r)"
  shows "(isOk (fq_status r) \<longrightarrow> LatestFrame i s' = r\<lparr>fq_status := Status_ok\<rparr> \<and>
      sf_sensorType (fq_frame r) = sc_type (se_capabilities (sm_store s ! k)) \<and>
      (now \<noteq> 0 \<longrightarrow> sf_timestamp (fq_frame r) \<noteq> 0) \<and>
      sx_routedFrames (sm_statistics s') = sx_routedFrames (sm_statistics s) + 1 \<and>
      sx_listenerCallbacks (sm_statistics s') + sx_listenerFailures (sm_statistics s') =
        sx_listenerCallbacks (sm_statistics s) + sx_listenerFailures (sm_statistics s) + of_nat (length (sm_listeners s)))
    \<and> (\<not> isOk (fq_status r) \<longrightarrow> LatestFrame i s' = LatestFrame i s \<and>
      sx_readFailures (sm_statistics s') = sx_readFailures (sm_statistics s) + 1 \<and>
      sx_routedFrames (sm_statistics s') = sx_routedFrames (sm_statistics s))"
proof (intro conjI impI)
  have inv: "sm_inv s P" by (rule sm_reachable_inv [OF assms(1)])
  have live: "k < length (sm_store s)" "\<not> se_removed (sm_store s ! k)"
    using sm_inv_live(1) [OF inv, of i k] assms(2) FindEntry_iff [OF assms(1)] by (auto simp: live_entries_less)
  have listeners: "fst (call_listeners listen ls cf) + snd (call_listeners listen ls cf) = fst cf + snd cf + of_nat (length ls)"
    for ls cf by (induction listen ls cf rule: call_listeners.induct) (auto split: outcome.splits)
  show "LatestFrame i s' = r\<lparr>fq_status := Status_ok\<rparr>"
    "sf_sensorType (fq_frame r) = sc_type (se_capabilities (sm_store s ! k))"
    "sx_routedFrames (sm_statistics s') = sx_routedFrames (sm_statistics s) + 1"
    "sx_listenerCallbacks (sm_statistics s') + sx_listenerFailures (sm_statistics s') =
        sx_listenerCallbacks (sm_statistics s) + sx_listenerFailures (sm_statistics s) + of_nat (length (sm_listeners s))"
    "now \<noteq> 0 \<Longrightarrow> sf_timestamp (fq_frame r) \<noteq> 0"
    if "isOk (fq_status r)"
    using that assms(2,3) live listeners [of "map snd (sm_listeners s)" "(0, 0)"]
    by (auto simp: SensorManager_ReadFrame_def ReadFrame_entry_def Let_def fr_succeeded_def frame_error_def
        RouteFrame_def RouteFrame_begin_def RouteFrame_end_def LatestFrame_def FindEntry_def statistics_update_def
        entry_update_def record_calls_def algebra_simps split: outcome.splits if_splits prod.splits)
  show "LatestFrame i s' = LatestFrame i s"
    "sx_readFailures (sm_statistics s') = sx_readFailures (sm_statistics s) + 1"
    "sx_routedFrames (sm_statistics s') = sx_routedFrames (sm_statistics s)" if "\<not> isOk (fq_status r)"
    using that assms(2,3) live
    by (auto simp: SensorManager_ReadFrame_def ReadFrame_entry_def Let_def fr_succeeded_def frame_error_def
        RecordReadFailure_def LatestFrame_def FindEntry_def statistics_update_def
        entry_update_def record_calls_def split: outcome.splits if_splits prod.splits option.splits)
qed

definition camera_frame :: sensor_frame where
  "camera_frame = default_frame\<lparr>sf_id := 9, sf_width := 2, sf_height := 2\<rparr>"

lemma camera_read:
  "\<exists>s' r. SensorManager_ReadFrame 7 8 (\<lambda>_. Returned \<lparr>fr_status = Status_ok, fr_frame = camera_frame\<rparr>) (\<lambda>_. Returned ())
     ''cam'' camera_manager = (s', r) \<and> isOk (fq_status r)"
  by (simp add: SensorManager_ReadFrame_def camera_manager_find ReadFrame_entry_def Let_def camera_manager_sensors
      fr_succeeded_def)

theorem read_then_latest_witness:
  "\<exists>s' r. SensorManager_ReadFrame 7 8 (\<lambda>_. Returned \<lparr>fr_status = Status_ok, fr_frame = camera_frame\<rparr>) (\<lambda>_. Returned ())
     ''cam'' camera_manager = (s', r) \<and> LatestFrame ''cam'' s' = r\<lparr>fq_status := Status_ok\<rparr> \<and> sf_timestamp (fq_frame r) \<noteq> 0"
proof -
  obtain s' r where r: "SensorManager_ReadFrame 7 8 (\<lambda>_. Returned \<lparr>fr_status = Status_ok, fr_frame = camera_frame\<rparr>)
     (\<lambda>_. Returned ()) ''cam'' camera_manager = (s', r)" and ok: "isOk (fq_status r)"
    using camera_read by blast
  with read_then_latest [OF camera_manager_reachable camera_manager_find r] show ?thesis by simp
qed

text \<open>
  The lifecycle operations and \<open>ReadFrame\<close> check under the entry's mutex that the sensor is still registered;
  \<open>Health\<close> does not. A health query that found its entry before \<open>UnregisterSensor\<close> removed it therefore calls the
  sensor after its \<open>Shutdown\<close> and answers ok, where a lifecycle call at the same point is refused without a call.
\<close>

theorem health_after_shutdown:
  assumes "sm_reachable s P" and "FindEntry i s = Some k"
    and "UnregisterSensor now i s = (s', st)"
  shows "isOk st \<and> calls_of k s' = calls_of k s @ [SC_Stop, SC_Shutdown]
    \<and> calls_of k (fst (Health_entry t t' (Returned h) k s')) = calls_of k s @ [SC_Stop, SC_Shutdown, SC_Health]
    \<and> isOk (fst (snd (Health_entry t t' (Returned h) k s')))
    \<and> fst (InvokeLifecycle_entry c l t answer k s') = s' \<and> \<not> isOk (snd (InvokeLifecycle_entry c l t answer k s'))"
proof -
  have inv: "sm_inv s P" by (rule sm_reachable_inv [OF assms(1)])
  have k: "k < length (sm_store s)"
    using sm_inv_live(1) [OF inv, of i k] assms(2) FindEntry_iff [OF assms(1)] by (auto simp: live_entries_less)
  with assms(2,3) have "isOk st" "se_removed (sm_store s' ! k)" "calls_of k s' = calls_of k s @ [SC_Stop, SC_Shutdown]"
    by (auto simp: UnregisterSensor_def UnregisterSensor_erase_def FindEntry_def MarkRemovedAndShutdown_def
        record_calls_def entry_update_def statistics_update_def calls_of_def split: if_splits)
  then show ?thesis
    by (simp add: Health_entry_def Let_def InvokeLifecycle_entry_def calls_of_def record_calls_def entry_update_def)
qed

theorem health_after_shutdown_witness:
  "calls_of 0 (fst (Health_entry 6 6 (Returned default_health) 0 (fst (UnregisterSensor 5 ''cam'' camera_manager)))) =
     [SC_Stop, SC_Shutdown, SC_Health]"
proof -
  have "calls_of 0 camera_manager = []"
    by (simp add: calls_of_def camera_manager_def RegisterSensor_def SensorManager_create_def statistics_update_def)
  with health_after_shutdown [OF camera_manager_reachable camera_manager_find prod.collapse [symmetric],
      of 5 6 6 default_health]
  show ?thesis by simp
qed

end
