(* ===== verification/Model_Manager.thy ===== *)
theory Model_Manager
  imports Sensor_Manager Perception_Order
begin

text \<open>
  \<open>src/perception/ModelManager.cpp\<close>, the registry of inference engines and models, and
  \<open>src/perception/SensorFusion.cpp\<close>, the synchronizer of frames. An engine is a number; what its \<open>Capabilities\<close> and
  \<open>Run\<close> answer and the clock readings are arguments. \<open>std::map\<close>s are lists sorted by key.
\<close>

section \<open>Models and engines\<close>

record model_descriptor =
  md_modelId :: string
  md_name :: string
  md_format :: string
  md_engineId :: string
  md_version :: string
  md_timestamp :: time_ns

definition model_isValid :: "model_descriptor \<Rightarrow> bool" where
  "model_isValid d = (md_modelId d \<noteq> [] \<and> md_name d \<noteq> [] \<and> md_format d \<noteq> [] \<and> md_engineId d \<noteq> [])"

definition default_model :: model_descriptor where
  "default_model = \<lparr>md_modelId = [], md_name = [], md_format = [], md_engineId = [], md_version = [], md_timestamp = 0\<rparr>"

record model_manager =
  mm_engines :: "(string \<times> nat) list"
  mm_engine_capabilities :: "(string \<times> engine_capabilities) list"
  mm_models :: "(string \<times> model_descriptor) list"

definition ModelManager_create :: model_manager where
  "ModelManager_create = \<lparr>mm_engines = [], mm_engine_capabilities = [], mm_models = []\<rparr>"

text \<open>\<open>std::map::emplace\<close> with its answer, and \<open>erase\<close> by key.\<close>

definition std_map_emplace :: "'k::linorder \<Rightarrow> 'v \<Rightarrow> ('k \<times> 'v) list \<Rightarrow> ('k \<times> 'v) list \<times> bool" where
  "std_map_emplace k v kvs = (if map_of kvs k \<noteq> None then (kvs, False) else (map_emplace k v kvs, True))"

definition std_map_erase :: "'k \<Rightarrow> ('k \<times> 'v) list \<Rightarrow> ('k \<times> 'v) list" where
  "std_map_erase k kvs = filter (\<lambda>(j, _). j \<noteq> k) kvs"

definition RegisterEngine ::
  "(nat \<times> engine_capabilities outcome) option \<Rightarrow> model_manager \<Rightarrow> model_manager \<times> status" where
  "RegisterEngine engine m =
     (case engine of
        None \<Rightarrow> (m, InvalidArgument ''inference engine is null'')
      | Some (e, Returned caps) \<Rightarrow>
          if \<not> engine_capabilities_isValid caps then
            (m, InvalidArgument ''inference engine requires non-empty id and name'')
          else
            (case std_map_emplace (ec_engineId caps) e (mm_engines m) of
               (engines, inserted) \<Rightarrow>
                 if \<not> inserted then (m, FailedPrecondition ''inference engine id is already registered'')
                 else (m\<lparr>mm_engines := engines,
                         mm_engine_capabilities := fst (std_map_emplace (ec_engineId caps) caps (mm_engine_capabilities m))\<rparr>,
                       Status_ok))
      | Some _ \<Rightarrow> (m, InternalError ''inference engine capabilities query threw an exception''))"

definition UnregisterEngine :: "string \<Rightarrow> model_manager \<Rightarrow> model_manager \<times> status" where
  "UnregisterEngine i m =
     (if i = [] then (m, InvalidArgument ''engine id is empty'')
      else if map_of (mm_engines m) i = None then (m, Unavailable_status ''inference engine id is not registered'')
      else (m\<lparr>mm_engines := std_map_erase i (mm_engines m),
              mm_engine_capabilities := std_map_erase i (mm_engine_capabilities m)\<rparr>, Status_ok))"

definition RegisterModel :: "time_ns \<Rightarrow> model_descriptor \<Rightarrow> model_manager \<Rightarrow> model_manager \<times> status" where
  "RegisterModel now d0 m =
     (if \<not> model_isValid d0 then (m, InvalidArgument ''model requires non-empty id, name, format, and engine id'')
      else
        (let d = (if md_timestamp d0 = 0 then d0\<lparr>md_timestamp := now\<rparr> else d0) in
         if map_of (mm_engines m) (md_engineId d) = None then
           (m, FailedPrecondition ''model references an unregistered inference engine'')
         else
           (case std_map_emplace (md_modelId d) d (mm_models m) of
              (models, inserted) \<Rightarrow>
                if \<not> inserted then (m, FailedPrecondition ''model id is already registered'')
                else (m\<lparr>mm_models := models\<rparr>, Status_ok))))"

definition UnregisterModel :: "string \<Rightarrow> model_manager \<Rightarrow> model_manager \<times> status" where
  "UnregisterModel i m =
     (if i = [] then (m, InvalidArgument ''model id is empty'')
      else if map_of (mm_models m) i = None then (m, Unavailable_status ''model id is not registered'')
      else (m\<lparr>mm_models := std_map_erase i (mm_models m)\<rparr>, Status_ok))"

definition FindModel :: "string \<Rightarrow> model_manager \<Rightarrow> status \<times> model_descriptor" where
  "FindModel i m =
     (if i = [] then (InvalidArgument ''model id is empty'', default_model)
      else (case map_of (mm_models m) i of
         None \<Rightarrow> (Unavailable_status ''model id is not registered'', default_model)
       | Some d \<Rightarrow> (Status_ok, d)))"

definition EnumerateModels :: "model_manager \<Rightarrow> model_descriptor list" where
  "EnumerateModels m = map snd (mm_models m)"

definition EnumerateEngines :: "model_manager \<Rightarrow> engine_capabilities list" where
  "EnumerateEngines m = map snd (mm_engine_capabilities m)"

definition RunInference ::
  "time_ns \<Rightarrow> (nat \<Rightarrow> inference_request \<Rightarrow> inference_result outcome) \<Rightarrow> inference_request \<Rightarrow> model_manager \<Rightarrow> inference_result"
  where
  "RunInference now run request m =
     (if \<not> hasModel request then
        default_inference_result\<lparr>ir_status := InvalidArgument ''inference request model id is empty''\<rparr>
      else (case map_of (mm_models m) (iq_modelId request) of
         None \<Rightarrow> default_inference_result\<lparr>ir_status := Unavailable_status ''model id is not registered'',
                   ir_modelId := iq_modelId request\<rparr>
       | Some d \<Rightarrow>
           (case map_of (mm_engines m) (md_engineId d) of
              None \<Rightarrow> default_inference_result\<lparr>ir_status := Unavailable_status ''model inference engine is not registered'',
                        ir_modelId := iq_modelId request\<rparr>
            | Some e \<Rightarrow>
                (case run e request of
                   Returned r \<Rightarrow>
                     r\<lparr>ir_timestamp := (if ir_timestamp r = 0 then now else ir_timestamp r),
                       ir_modelId := (if ir_modelId r = [] then iq_modelId request else ir_modelId r)\<rparr>
                 | _ \<Rightarrow> default_inference_result\<lparr>ir_status := InternalError ''inference engine threw an exception'',
                          ir_modelId := iq_modelId request, ir_timestamp := now\<rparr>))))"

section \<open>Frame synchronization\<close>

record sync_policy =
  sp_maximumSkew :: time_ns
  sp_requiredSensorTypes :: "sensor_type list"

definition sync_policy_isValid :: "sync_policy \<Rightarrow> bool" where
  "sync_policy_isValid p = (sp_maximumSkew p \<ge> 0)"

record synchronized_frames =
  sy_status :: status
  sy_frames :: "sensor_frame list"
  sy_earliestTimestamp :: time_ns
  sy_latestTimestamp :: time_ns

definition SetPolicy :: "sync_policy \<Rightarrow> sync_policy \<Rightarrow> sync_policy \<times> status" where
  "SetPolicy policy current =
     (if \<not> sync_policy_isValid policy then
        (current, InvalidArgument ''frame synchronization maximum skew must be non-negative'')
      else (policy, Status_ok))"

definition ContainsSensorType :: "sensor_frame list \<Rightarrow> sensor_type \<Rightarrow> bool" where
  "ContainsSensorType frames t = list_ex (\<lambda>f. sf_sensorType f = t) frames"

text \<open>The timestamps that \<open>std::minmax_element\<close> points at, of a nonempty list.\<close>

fun minmax_timestamp :: "sensor_frame list \<Rightarrow> time_ns \<times> time_ns \<Rightarrow> time_ns \<times> time_ns" where
  "minmax_timestamp [] (lo, hi) = (lo, hi)"
| "minmax_timestamp (f # fs) (lo, hi) =
     minmax_timestamp fs (if sf_timestamp f < lo then sf_timestamp f else lo,
                          if sf_timestamp f < hi then hi else sf_timestamp f)"

definition sync_refused :: "status \<Rightarrow> synchronized_frames" where
  "sync_refused st = \<lparr>sy_status = st, sy_frames = [], sy_earliestTimestamp = 0, sy_latestTimestamp = 0\<rparr>"

definition Synchronize :: "sync_policy \<Rightarrow> sensor_frame list \<Rightarrow> synchronized_frames" where
  "Synchronize policy frames =
     (if \<not> sync_policy_isValid policy then
        sync_refused (InvalidArgument ''frame synchronization maximum skew must be non-negative'')
      else (case frames of
         [] \<Rightarrow> sync_refused (InvalidArgument ''no frames supplied'')
       | f # fs \<Rightarrow>
           if list_ex (\<lambda>t. \<not> ContainsSensorType frames t) (sp_requiredSensorTypes policy) then
             sync_refused (FailedPrecondition ''required sensor type is missing'')
           else
             (case minmax_timestamp fs (sf_timestamp f, sf_timestamp f) of
                (earliest, latest) \<Rightarrow>
                  if earliest = 0 \<or> latest = 0 then
                    sync_refused (InvalidArgument ''all frames require monotonic timestamps'')
                  else if latest - earliest > sp_maximumSkew policy then
                    \<lparr>sy_status = FailedPrecondition ''frame timestamps exceed synchronization skew'', sy_frames = [],
                     sy_earliestTimestamp = earliest, sy_latestTimestamp = latest\<rparr>
                  else
                    \<lparr>sy_status = Status_ok, sy_frames = frames,
                     sy_earliestTimestamp = earliest, sy_latestTimestamp = latest\<rparr>)))"

section \<open>Properties\<close>

lemma minmax_timestamp_fold:
  "minmax_timestamp fs (lo, hi) = (fold min (map sf_timestamp fs) lo, fold max (map sf_timestamp fs) hi)"
  by (induction fs arbitrary: lo hi) (auto simp: min_def max_def)

lemma minmax_timestamp_frames:
  "minmax_timestamp fs (sf_timestamp f, sf_timestamp f) =
     (Min (sf_timestamp ` set (f # fs)), Max (sf_timestamp ` set (f # fs)))"
  using Min.set_eq_fold [of "sf_timestamp f" "map sf_timestamp fs"] Max.set_eq_fold [of "sf_timestamp f" "map sf_timestamp fs"]
  by (simp add: minmax_timestamp_fold)

lemma ball_timestamps: "\<forall>f \<in> set fs. 0 \<le> sf_timestamp f \<Longrightarrow> \<forall>t \<in> sf_timestamp ` set fs. 0 \<le> t"
  by simp

lemma positive_timestamps:
  assumes "finite (sf_timestamp ` F)" "sf_timestamp ` F \<noteq> {}" "\<forall>t \<in> sf_timestamp ` F. 0 \<le> t"
  shows "Min (sf_timestamp ` F) \<noteq> 0 \<and> Max (sf_timestamp ` F) \<noteq> 0 \<longleftrightarrow> (\<forall>f \<in> F. 0 < sf_timestamp f)"
proof -
  have "Min (sf_timestamp ` F) \<in> sf_timestamp ` F" using assms(1,2) by (rule Min_in)
  then have "0 \<le> Min (sf_timestamp ` F)" "Min (sf_timestamp ` F) \<le> Max (sf_timestamp ` F)"
    using assms by (auto simp: Max_ge)
  then have "Min (sf_timestamp ` F) \<noteq> 0 \<and> Max (sf_timestamp ` F) \<noteq> 0 \<longleftrightarrow> 0 < Min (sf_timestamp ` F)" by auto
  also have "\<dots> \<longleftrightarrow> (\<forall>f \<in> F. 0 < sf_timestamp f)" using assms by (simp add: Min_gr_iff)
  finally show ?thesis .
qed

lemma spread_bound:
  assumes "finite T" "T \<noteq> {}"
  shows "Max T - Min T \<le> (d :: int) \<longleftrightarrow> (\<forall>a \<in> T. \<forall>b \<in> T. b - a \<le> d)"
proof
  assume "Max T - Min T \<le> d"
  show "\<forall>a \<in> T. \<forall>b \<in> T. b - a \<le> d"
  proof (intro ballI)
    fix a b assume "a \<in> T" "b \<in> T"
    with assms have "Min T \<le> a" "b \<le> Max T" by simp_all
    with \<open>Max T - Min T \<le> d\<close> show "b - a \<le> d" by simp
  qed
qed (use assms in \<open>auto intro: Min_in Max_in\<close>)

text \<open>
  C26. Frames are accepted exactly when the policy is valid, there is a frame, every required sensor type is present,
  every frame has a positive timestamp and no two timestamps differ by more than the allowed skew; the accepted set is
  the list of frames itself with the extremes of its timestamps. (Timestamps of the steady clock are not negative.)
\<close>

theorem synchronize_exact:
  assumes "\<forall>f \<in> set frames. 0 \<le> sf_timestamp f"
  shows "(isOk (sy_status (Synchronize policy frames)) \<longleftrightarrow>
      0 \<le> sp_maximumSkew policy \<and> frames \<noteq> [] \<and>
      (\<forall>t \<in> set (sp_requiredSensorTypes policy). \<exists>f \<in> set frames. sf_sensorType f = t) \<and>
      (\<forall>f \<in> set frames. 0 < sf_timestamp f) \<and>
      (\<forall>f \<in> set frames. \<forall>g \<in> set frames. sf_timestamp g - sf_timestamp f \<le> sp_maximumSkew policy))
    \<and> (isOk (sy_status (Synchronize policy frames)) \<longrightarrow> sy_frames (Synchronize policy frames) = frames \<and>
      sy_earliestTimestamp (Synchronize policy frames) = Min (sf_timestamp ` set frames) \<and>
      sy_latestTimestamp (Synchronize policy frames) = Max (sf_timestamp ` set frames))"
proof (cases frames)
  case Nil
  then show ?thesis by (simp add: Synchronize_def sync_refused_def)
next
  case (Cons f fs)
  let ?T = "sf_timestamp ` set frames"
  have mm: "minmax_timestamp fs (sf_timestamp f, sf_timestamp f) = (Min ?T, Max ?T)"
    unfolding Cons by (rule minmax_timestamp_frames)
  have fin: "finite ?T" "?T \<noteq> {}" by (simp_all add: Cons)
  have zero: "Min ?T \<noteq> 0 \<and> Max ?T \<noteq> 0 \<longleftrightarrow> (\<forall>f \<in> set frames. 0 < sf_timestamp f)"
    by (rule positive_timestamps [OF fin assms [THEN ball_timestamps]])
  have skew: "Max ?T - Min ?T \<le> sp_maximumSkew policy \<longleftrightarrow>
      (\<forall>f \<in> set frames. \<forall>g \<in> set frames. sf_timestamp g - sf_timestamp f \<le> sp_maximumSkew policy)"
    using spread_bound [OF fin] by simp
  have types: "list_ex (\<lambda>t. \<not> ContainsSensorType frames t) (sp_requiredSensorTypes policy) \<longleftrightarrow>
      \<not> (\<forall>t \<in> set (sp_requiredSensorTypes policy). \<exists>f \<in> set frames. sf_sensorType f = t)"
    by (auto simp: list_ex_iff ContainsSensorType_def)
  have S: "Synchronize policy frames =
     (if \<not> 0 \<le> sp_maximumSkew policy then
        sync_refused (InvalidArgument ''frame synchronization maximum skew must be non-negative'')
      else if list_ex (\<lambda>t. \<not> ContainsSensorType frames t) (sp_requiredSensorTypes policy) then
        sync_refused (FailedPrecondition ''required sensor type is missing'')
      else if \<not> (Min ?T \<noteq> 0 \<and> Max ?T \<noteq> 0) then
        sync_refused (InvalidArgument ''all frames require monotonic timestamps'')
      else if \<not> (Max ?T - Min ?T \<le> sp_maximumSkew policy) then
        \<lparr>sy_status = FailedPrecondition ''frame timestamps exceed synchronization skew'', sy_frames = [],
         sy_earliestTimestamp = Min ?T, sy_latestTimestamp = Max ?T\<rparr>
      else \<lparr>sy_status = Status_ok, sy_frames = frames, sy_earliestTimestamp = Min ?T, sy_latestTimestamp = Max ?T\<rparr>)"
    unfolding Synchronize_def sync_policy_isValid_def by (simp add: Cons mm [unfolded Cons])
  show ?thesis unfolding S types zero skew by (simp add: Cons sync_refused_def)
qed


theorem synchronize_exact_witness:
  "isOk (sy_status (Synchronize \<lparr>sp_maximumSkew = 5, sp_requiredSensorTypes = [ST_Lidar]\<rparr>
     [default_frame\<lparr>sf_timestamp := 12\<rparr>, default_frame\<lparr>sf_timestamp := 10, sf_sensorType := ST_Lidar\<rparr>]))"
  using synchronize_exact [of "[default_frame\<lparr>sf_timestamp := 12\<rparr>,
      default_frame\<lparr>sf_timestamp := 10, sf_sensorType := ST_Lidar\<rparr>]"
      "\<lparr>sp_maximumSkew = 5, sp_requiredSensorTypes = [ST_Lidar]\<rparr>"]
  by simp

inductive mm_reachable :: "model_manager \<Rightarrow> bool" where
  create: "mm_reachable ModelManager_create"
| RegisterEngine: "mm_reachable m \<Longrightarrow> mm_reachable (fst (RegisterEngine e m))"
| UnregisterEngine: "mm_reachable m \<Longrightarrow> mm_reachable (fst (UnregisterEngine i m))"
| RegisterModel: "mm_reachable m \<Longrightarrow> mm_reachable (fst (RegisterModel now d m))"
| UnregisterModel: "mm_reachable m \<Longrightarrow> mm_reachable (fst (UnregisterModel i m))"

definition mm_inv :: "model_manager \<Rightarrow> bool" where
  "mm_inv m = (sorted_wrt (<) (map fst (mm_engines m)) \<and> map fst (mm_engine_capabilities m) = map fst (mm_engines m) \<and>
     sorted_wrt (<) (map fst (mm_models m)) \<and>
     (\<forall>(i, c) \<in> set (mm_engine_capabilities m). engine_capabilities_isValid c \<and> ec_engineId c = i) \<and>
     (\<forall>(i, d) \<in> set (mm_models m). model_isValid d \<and> md_modelId d = i))"

lemma std_map_erase_fst: "map fst (std_map_erase k kvs) = filter (\<lambda>j. j \<noteq> k) (map fst kvs)"
  by (simp add: std_map_erase_def filter_map comp_def case_prod_unfold)

lemma std_map_erase_subset: "set (std_map_erase k kvs) \<subseteq> set kvs"
  by (auto simp: std_map_erase_def)

lemma mm_inv_reachable: "mm_reachable m \<Longrightarrow> mm_inv m"
proof (induction rule: mm_reachable.induct)
  case create
  show ?case by (simp add: mm_inv_def ModelManager_create_def)
next
  case (RegisterEngine m e)
  show ?case
  proof (cases "fst (RegisterEngine e m) = m")
    case False
    then obtain n caps where e: "e = Some (n, Returned caps)" and ok: "engine_capabilities_isValid caps"
      and new: "map_of (mm_engines m) (ec_engineId caps) = None"
      by (auto simp: RegisterEngine_def std_map_emplace_def split: option.splits outcome.splits if_splits)
    have eq: "map fst (mm_engine_capabilities m) = map fst (mm_engines m)" using RegisterEngine by (simp add: mm_inv_def)
    then have new': "map_of (mm_engine_capabilities m) (ec_engineId caps) = None"
      using new by (metis list.set_map map_of_eq_None_iff)
    have "fst (RegisterEngine e m) = m\<lparr>mm_engines := map_emplace (ec_engineId caps) n (mm_engines m),
        mm_engine_capabilities := map_emplace (ec_engineId caps) caps (mm_engine_capabilities m)\<rparr>"
      using ok new new' by (simp add: RegisterEngine_def e std_map_emplace_def)
    with RegisterEngine ok new show ?thesis
      by (auto simp: mm_inv_def map_emplace_set map_emplace_fst [OF eq] map_of_eq_None_iff intro: map_emplace_sorted)
  qed (use RegisterEngine in simp)
next
  case (UnregisterEngine m i)
  then show ?case
    using std_map_erase_subset [of i "mm_engine_capabilities m"]
    by (auto simp: mm_inv_def UnregisterEngine_def std_map_erase_fst intro: sorted_wrt_filter)
next
  case (RegisterModel m now d)
  then show ?case
    by (auto simp: mm_inv_def RegisterModel_def std_map_emplace_def Let_def map_emplace_set map_of_eq_None_iff model_isValid_def
        intro!: map_emplace_sorted)
next
  case (UnregisterModel m i)
  then show ?case
    using std_map_erase_subset [of i "mm_models m"]
    by (auto simp: mm_inv_def UnregisterModel_def std_map_erase_fst intro: sorted_wrt_filter)
qed

text \<open>
  A registered model is found again as it was registered, and an inference with it runs on the engine registered
  under the model's engine identifier at that time and keeps that engine's answer, completed by a time and the model's
  identifier. Removing the engine leaves the model registered: it is still found, and an inference with it answers that
  it is unavailable, until an engine is registered under that identifier again.
\<close>

theorem inference_routed:
  assumes "mm_reachable m" and "RegisterModel now d m = (m', st)" and "isOk st" and "iq_modelId request = md_modelId d"
  shows "FindModel (md_modelId d) m' = (Status_ok, d\<lparr>md_timestamp := if md_timestamp d = 0 then now else md_timestamp d\<rparr>)
    \<and> (\<exists>e. map_of (mm_engines m') (md_engineId d) = Some e \<and>
         (\<forall>r. run e request = Returned r \<longrightarrow> RunInference now' run request m' =
            r\<lparr>ir_timestamp := if ir_timestamp r = 0 then now' else ir_timestamp r,
              ir_modelId := if ir_modelId r = [] then md_modelId d else ir_modelId r\<rparr>))
    \<and> fst (FindModel (md_modelId d) (fst (UnregisterEngine (md_engineId d) m'))) = Status_ok
    \<and> ir_status (RunInference now' run request (fst (UnregisterEngine (md_engineId d) m'))) =
         Unavailable_status ''model inference engine is not registered''"
proof -
  define d' where "d' = d\<lparr>md_timestamp := if md_timestamp d = 0 then now else md_timestamp d\<rparr>"
  have "(if md_timestamp d = 0 then d\<lparr>md_timestamp := now\<rparr> else d) = d'" "md_engineId d' = md_engineId d" "md_modelId d' = md_modelId d"
    by (simp_all add: d'_def)
  then have R: "RegisterModel now d m =
      (if \<not> model_isValid d then (m, InvalidArgument ''model requires non-empty id, name, format, and engine id'')
       else if map_of (mm_engines m) (md_engineId d) = None then
         (m, FailedPrecondition ''model references an unregistered inference engine'')
       else if map_of (mm_models m) (md_modelId d) \<noteq> None then (m, FailedPrecondition ''model id is already registered'')
       else (m\<lparr>mm_models := map_emplace (md_modelId d) d' (mm_models m)\<rparr>, Status_ok))"
    by (simp add: RegisterModel_def std_map_emplace_def Let_def)
  from assms(2,3) obtain e where valid: "model_isValid d" and e: "map_of (mm_engines m) (md_engineId d) = Some e"
    and new: "map_of (mm_models m) (md_modelId d) = None"
    and m': "m' = m\<lparr>mm_models := map_emplace (md_modelId d) d' (mm_models m)\<rparr>"
    unfolding R by (auto split: if_splits)
  have "md_modelId d \<notin> fst ` set (mm_models m)" using new by (simp add: map_of_eq_None_iff)
  then have models: "map_of (mm_models m') (md_modelId d) = Some d'" by (simp add: m' map_emplace_lookup)
  have gone: "map_of (std_map_erase k kvs) k = None" for k and kvs :: "(string \<times> nat) list"
    by (auto simp: std_map_erase_def map_of_eq_None_iff)
  have "md_engineId d' = md_engineId d" by (simp add: d'_def)
  with valid e models assms(4) show ?thesis
    unfolding d'_def [symmetric]
    by (auto simp: FindModel_def RunInference_def hasModel_def model_isValid_def UnregisterEngine_def m' gone)
qed

definition demo_models :: model_manager where
  "demo_models = fst (RegisterEngine (Some (4, Returned \<lparr>ec_engineId = ''onnx'', ec_name = ''e'', ec_supportedBackends = [],
     ec_supportedModelFormats = []\<rparr>)) ModelManager_create)"

definition demo_model :: model_descriptor where
  "demo_model = \<lparr>md_modelId = ''m'', md_name = ''n'', md_format = ''f'', md_engineId = ''onnx'', md_version = [], md_timestamp = 0\<rparr>"

theorem inference_routed_witness:
  "FindModel ''m'' (fst (RegisterModel 3 demo_model demo_models)) = (Status_ok, demo_model\<lparr>md_timestamp := 3\<rparr>)"
proof -
  have "mm_reachable demo_models" unfolding demo_models_def by (intro mm_reachable.intros)
  moreover have "RegisterModel 3 demo_model demo_models = (fst (RegisterModel 3 demo_model demo_models), Status_ok)"
    by (simp add: RegisterModel_def demo_models_def demo_model_def RegisterEngine_def ModelManager_create_def std_map_emplace_def
        model_isValid_def engine_capabilities_isValid_def)
  ultimately have "FindModel (md_modelId demo_model) (fst (RegisterModel 3 demo_model demo_models)) =
      (Status_ok, demo_model\<lparr>md_timestamp := if md_timestamp demo_model = 0 then 3 else md_timestamp demo_model\<rparr>)"
    by (rule inference_routed [where request = "\<lparr>iq_modelId = ''m'', iq_inputFrame = default_frame, iq_parameters = [], iq_timestamp = 0\<rparr>",
          THEN conjunct1])
      (simp_all add: demo_model_def)
  then show ?thesis by (simp add: demo_model_def)
qed

end
