(* ===== verification/Unitree_Sdk.thy ===== *)
theory Unitree_Sdk
  imports Common_Status Robot_State
begin

text \<open>
  The boundary around the vendor's SDK: \<open>plugins/unitree/sdk/SdkTypes.h\<close>, \<open>SdkConverter.cpp\<close>,
  \<open>SdkClientSupport.h\<close>, \<open>LocoAdapter.cpp\<close> and \<open>SdkWrapper.cpp\<close>. The vendor's locomotion client is a parameter: a
  function that answers a call from the history of calls it has received, with the return code or exception of the
  call and the value it left in an output argument. The history is recorded in the state of the adapter. The clock
  readings, the existence of the network interface and the netlink socket are arguments as well.
\<close>

section \<open>Values\<close>

datatype sdk_error = SE_Success | SE_SdkUnavailable | SE_ConnectionFailed | SE_Timeout | SE_RobotFault | SE_Unknown

record sdk_result =
  sd_code :: sdk_error
  sd_message :: string

definition sd_Succeeded :: "sdk_result \<Rightarrow> bool" where
  "sd_Succeeded r = (sd_code r = SE_Success)"

definition sdk_Success :: "string \<Rightarrow> sdk_result" where
  "sdk_Success m = \<lparr>sd_code = SE_Success, sd_message = m\<rparr>"

definition sdk_Failure :: "sdk_error \<Rightarrow> string \<Rightarrow> sdk_result" where
  "sdk_Failure c m = \<lparr>sd_code = c, sd_message = m\<rparr>"

lemma sdk_result_simps [simp]:
  "sd_Succeeded (sdk_Success m)" "sd_Succeeded (sdk_Failure c m) = (c = SE_Success)"
  "sd_code (sdk_Success m) = SE_Success" "sd_code (sdk_Failure c m) = c"
  by (simp_all add: sd_Succeeded_def sdk_Success_def sdk_Failure_def)

datatype sdk_connection = CS_Uninitialized | CS_Initialized | CS_Connected | CS_Disconnected | CS_Shutdown | CS_Faulted

datatype sdk_motion = MM_Unknown | MM_Idle | MM_Standing | MM_Walking | MM_Sitting | MM_Faulted

fun motion_mode_value :: "sdk_motion \<Rightarrow> int" where
  "motion_mode_value MM_Unknown = 0"
| "motion_mode_value MM_Idle = 1"
| "motion_mode_value MM_Standing = 2"
| "motion_mode_value MM_Walking = 3"
| "motion_mode_value MM_Sitting = 4"
| "motion_mode_value MM_Faulted = 5"

fun sdk_error_toString :: "sdk_error \<Rightarrow> string" where
  "sdk_error_toString SE_Success = ''success''"
| "sdk_error_toString SE_SdkUnavailable = ''sdk_unavailable''"
| "sdk_error_toString SE_ConnectionFailed = ''connection_failed''"
| "sdk_error_toString SE_Timeout = ''timeout''"
| "sdk_error_toString SE_RobotFault = ''robot_fault''"
| "sdk_error_toString SE_Unknown = ''unknown''"

fun sdk_connection_toString :: "sdk_connection \<Rightarrow> string" where
  "sdk_connection_toString CS_Uninitialized = ''uninitialized''"
| "sdk_connection_toString CS_Initialized = ''initialized''"
| "sdk_connection_toString CS_Connected = ''connected''"
| "sdk_connection_toString CS_Disconnected = ''disconnected''"
| "sdk_connection_toString CS_Shutdown = ''shutdown''"
| "sdk_connection_toString CS_Faulted = ''faulted''"

fun sdk_motion_toString :: "sdk_motion \<Rightarrow> string" where
  "sdk_motion_toString MM_Unknown = ''unknown''"
| "sdk_motion_toString MM_Idle = ''idle''"
| "sdk_motion_toString MM_Standing = ''standing''"
| "sdk_motion_toString MM_Walking = ''walking''"
| "sdk_motion_toString MM_Sitting = ''sitting''"
| "sdk_motion_toString MM_Faulted = ''faulted''"

record velocity_command =
  vc_linear_x :: fl
  vc_linear_y :: fl
  vc_angular_z :: fl

record sdk_configuration =
  cf_robot_ip :: string
  cf_network_interface :: string
  cf_domain_id :: "32 word"
  cf_timeout :: time_ms
  cf_serial_number :: string
  cf_firmware_version :: string

record robot_descriptor =
  ds_robot_ip :: string
  ds_network_interface :: string
  ds_domain_id :: "32 word"
  ds_serial_number :: string
  ds_firmware_version :: string
  ds_discovered :: bool

record communication_options =
  co_heartbeat_interval :: time_ms
  co_reconnect_interval :: time_ms
  co_connection_timeout :: time_ms

record sdk_robot_state =
  sr_connection_state :: sdk_connection
  sr_motion_mode :: sdk_motion
  sr_robot_mode :: int
  sr_motion_mode_id :: int
  sr_battery_level :: fl
  sr_charging :: bool
  sr_linear_x :: fl
  sr_linear_y :: fl
  sr_angular_z :: fl
  sr_position_x :: fl
  sr_position_y :: fl
  sr_position_z :: fl
  sr_roll :: fl
  sr_pitch :: fl
  sr_yaw :: fl
  sr_emergency_stop :: bool
  sr_fault_code :: int
  sr_fsm_id :: int
  sr_low_state_available :: bool
  sr_low_state_tick :: u64
  sr_heartbeat_count :: u64
  sr_reconnect_attempt_count :: u64
  sr_latency_ms :: fl
  sr_imu_quaternion :: "fl list"
  sr_imu_angular_velocity :: "fl list"
  sr_imu_linear_acceleration :: "fl list"
  sr_imu_temperature_celsius :: fl
  sr_joint_count :: "32 word"
  sr_joint_position :: "fl list"
  sr_joint_velocity :: "fl list"
  sr_joint_acceleration :: "fl list"
  sr_joint_torque :: "fl list"
  sr_joint_voltage :: "fl list"
  sr_joint_temperature_celsius :: "fl list"
  sr_joint_mode :: "32 word list"
  sr_joint_fault :: "32 word list"
  sr_contact_count :: "32 word"
  sr_contact_force :: "fl list"
  sr_contact_temperature_celsius :: "fl list"
  sr_timestamp :: time_ns

definition kSdkMaxJointStates :: nat where
  "kSdkMaxJointStates = 35"

definition kSdkMaxContactStates :: nat where
  "kSdkMaxContactStates = 4"

definition default_sdk_state :: sdk_robot_state where
  "default_sdk_state = \<lparr>sr_connection_state = CS_Uninitialized, sr_motion_mode = MM_Unknown, sr_robot_mode = 0,
     sr_motion_mode_id = 0, sr_battery_level = Fin 0, sr_charging = False, sr_linear_x = Fin 0, sr_linear_y = Fin 0,
     sr_angular_z = Fin 0, sr_position_x = Fin 0, sr_position_y = Fin 0, sr_position_z = Fin 0, sr_roll = Fin 0,
     sr_pitch = Fin 0, sr_yaw = Fin 0, sr_emergency_stop = False, sr_fault_code = 0, sr_fsm_id = - 1,
     sr_low_state_available = False, sr_low_state_tick = 0, sr_heartbeat_count = 0, sr_reconnect_attempt_count = 0,
     sr_latency_ms = Fin 0, sr_imu_quaternion = [Fin 0, Fin 0, Fin 0, Fin 1],
     sr_imu_angular_velocity = replicate 3 (Fin 0), sr_imu_linear_acceleration = replicate 3 (Fin 0),
     sr_imu_temperature_celsius = Fin 0, sr_joint_count = 0,
     sr_joint_position = replicate kSdkMaxJointStates (Fin 0), sr_joint_velocity = replicate kSdkMaxJointStates (Fin 0),
     sr_joint_acceleration = replicate kSdkMaxJointStates (Fin 0), sr_joint_torque = replicate kSdkMaxJointStates (Fin 0),
     sr_joint_voltage = replicate kSdkMaxJointStates (Fin 0),
     sr_joint_temperature_celsius = replicate kSdkMaxJointStates (Fin 0),
     sr_joint_mode = replicate kSdkMaxJointStates 0, sr_joint_fault = replicate kSdkMaxJointStates 0,
     sr_contact_count = 0, sr_contact_force = replicate kSdkMaxContactStates (Fin 0),
     sr_contact_temperature_celsius = replicate kSdkMaxContactStates (Fin 0), sr_timestamp = 0\<rparr>"

section \<open>Conversion to the robot state of the framework\<close>

definition core_joint :: "sdk_robot_state \<Rightarrow> nat \<Rightarrow> robot_joint_state" where
  "core_joint s i = \<lparr>joint_valid = True, joint_position = sr_joint_position s ! i, joint_velocity = sr_joint_velocity s ! i,
     joint_acceleration = sr_joint_acceleration s ! i, joint_torque = sr_joint_torque s ! i,
     joint_voltage = sr_joint_voltage s ! i, joint_temperatureCelsius = sr_joint_temperature_celsius s ! i,
     joint_mode = sr_joint_mode s ! i, joint_faultCode = sr_joint_fault s ! i\<rparr>"

definition core_contact :: "sdk_robot_state \<Rightarrow> nat \<Rightarrow> robot_contact_state" where
  "core_contact s i = \<lparr>contact_valid = True, contact_contact = fl_lt (Fin 0) (sr_contact_force s ! i),
     contact_force = sr_contact_force s ! i, contact_temperatureCelsius = sr_contact_temperature_celsius s ! i\<rparr>"

definition clamp_count :: "nat \<Rightarrow> 32 word \<Rightarrow> nat" where
  "clamp_count limit c = (if unat c > limit then limit else unat c)"

fun max_temperature :: "fl list \<Rightarrow> fl \<Rightarrow> fl" where
  "max_temperature [] m = m"
| "max_temperature (t # ts) m = max_temperature ts (if fl_lt m t then t else m)"

definition ToCoreRobotState :: "sdk_robot_state \<Rightarrow> robot_state" where
  "ToCoreRobotState s =
     (let nj = clamp_count kMaxRobotJointStates (sr_joint_count s);
          nc = clamp_count kMaxRobotContactStates (sr_contact_count s) in
      \<lparr>connection = \<lparr>connected = (sr_connection_state s = CS_Connected)\<rparr>,
       power = \<lparr>batteryLevel = sr_battery_level s, charging = sr_charging s\<rparr>,
       motion = \<lparr>standing = (sr_motion_mode s = MM_Standing), walking = (sr_motion_mode s = MM_Walking),
         sitting = (sr_motion_mode s = MM_Sitting), robotMode = sr_robot_mode s, motionMode = sr_motion_mode_id s\<rparr>,
       velocity = \<lparr>linearX = sr_linear_x s, linearY = sr_linear_y s, angularZ = sr_angular_z s\<rparr>,
       pose = \<lparr>positionX = sr_position_x s, positionY = sr_position_y s, positionZ = sr_position_z s\<rparr>,
       orientation = \<lparr>roll = sr_roll s, pitch = sr_pitch s, yaw = sr_yaw s\<rparr>,
       imu = \<lparr>imu_valid = sr_low_state_available s,
         quaternionX = sr_imu_quaternion s ! 0, quaternionY = sr_imu_quaternion s ! 1,
         quaternionZ = sr_imu_quaternion s ! 2, quaternionW = sr_imu_quaternion s ! 3,
         angularVelocityX = sr_imu_angular_velocity s ! 0, angularVelocityY = sr_imu_angular_velocity s ! 1,
         angularVelocityZ = sr_imu_angular_velocity s ! 2,
         linearAccelerationX = sr_imu_linear_acceleration s ! 0, linearAccelerationY = sr_imu_linear_acceleration s ! 1,
         linearAccelerationZ = sr_imu_linear_acceleration s ! 2,
         imu_temperatureCelsius = sr_imu_temperature_celsius s\<rparr>,
       joints = map (core_joint s) [0..<nj] @ replicate (kMaxRobotJointStates - nj) default_joint,
       contacts = map (core_contact s) [0..<nc] @ replicate (kMaxRobotContactStates - nc) default_contact,
       diagnostics = \<lparr>stateFeedbackAvailable = sr_low_state_available s, diag_sequence = sr_low_state_tick s,
         heartbeatCount = sr_heartbeat_count s, reconnectAttemptCount = sr_reconnect_attempt_count s,
         latencyMs = sr_latency_ms s,
         maxMotorTemperatureCelsius = max_temperature (map (\<lambda>i. sr_joint_temperature_celsius s ! i) [0..<nj]) (Fin 0),
         jointCount = sr_joint_count s, contactCount = sr_contact_count s\<rparr>,
       health = \<lparr>emergencyStop = sr_emergency_stop s, faultCode = sr_fault_code s\<rparr>,
       state_timestamp = sr_timestamp s\<rparr>)"

section \<open>The locomotion adapter\<close>

datatype sdk_call =
    Call_Init "32 word" string time_ms
  | Call_GetFsmId | Call_StandUp | Call_BalanceStand | Call_Sit
  | Call_Move fl fl fl | Call_SetVelocity fl fl fl | Call_StopMove | Call_Damp

type_synonym sdk_client = "sdk_call list \<Rightarrow> sdk_call \<Rightarrow> int outcome \<times> int"

record sdk_env =
  env_client :: sdk_client
  env_interface_exists :: "string \<Rightarrow> bool"
  env_netlink :: bool

record loco_adapter =
  lo_client :: bool
  lo_initialized :: bool
  lo_connected :: bool
  lo_calls :: "sdk_call list"

definition LocoAdapter_create :: loco_adapter where
  "LocoAdapter_create = \<lparr>lo_client = False, lo_initialized = False, lo_connected = False, lo_calls = []\<rparr>"

text \<open>An \<open>int32_t\<close> in a stream.\<close>

definition int_text :: "int \<Rightarrow> string" where
  "int_text i = (if i < 0 then CHR ''-'' # to_string (nat (- i)) else to_string (nat i))"

definition FromSdkReturn :: "int \<Rightarrow> string \<Rightarrow> sdk_error \<Rightarrow> sdk_result" where
  "FromSdkReturn ret command failure_code =
     (if ret = 0 then sdk_Success (command @ '' succeeded'')
      else sdk_Failure failure_code (command @ '' failed with Unitree SDK2 return code '' @ int_text ret))"

definition InvokeSdkCommand :: "string \<Rightarrow> sdk_error \<Rightarrow> int outcome \<Rightarrow> sdk_result" where
  "InvokeSdkCommand command failure_code answer =
     (case answer of
        Returned ret \<Rightarrow> FromSdkReturn ret command failure_code
      | ThrewException w \<Rightarrow> sdk_Failure failure_code (command @ '' failed with Unitree SDK2 exception: '' @ w)
      | ThrewUnknown \<Rightarrow> sdk_Failure failure_code (command @ '' failed with an unknown Unitree SDK2 exception''))"

text \<open>A call on the client: its answer, the output value, and the adapter with the call recorded.\<close>

definition call_client :: "sdk_env \<Rightarrow> sdk_call \<Rightarrow> loco_adapter \<Rightarrow> int outcome \<times> int \<times> loco_adapter" where
  "call_client E c a =
     (case env_client E (lo_calls a) c of (ans, out) \<Rightarrow> (ans, out, a\<lparr>lo_calls := lo_calls a @ [c]\<rparr>))"

definition ValidateSdkConfiguration :: "sdk_env \<Rightarrow> sdk_configuration \<Rightarrow> sdk_result" where
  "ValidateSdkConfiguration E c =
     (if cf_network_interface c = [] then sdk_Failure SE_ConnectionFailed ''network interface is empty''
      else if cf_timeout c \<le> 0 then sdk_Failure SE_Timeout ''timeout must be greater than zero''
      else if cf_domain_id c > 2147483647 then
        sdk_Failure SE_ConnectionFailed ''DDS domain id exceeds supported range''
      else if \<not> env_interface_exists E (cf_network_interface c) then
        sdk_Failure SE_ConnectionFailed (''network interface does not exist: '' @ cf_network_interface c)
      else if \<not> env_netlink E then
        sdk_Failure SE_ConnectionFailed
          ''route netlink socket is unavailable; Unitree SDK2 transport cannot be initialized in this environment''
      else sdk_Success ''Unitree SDK2 configuration is valid'')"

definition RequireInitialized :: "string \<Rightarrow> loco_adapter \<Rightarrow> sdk_result" where
  "RequireInitialized command a =
     (if \<not> lo_initialized a \<or> \<not> lo_client a then
        sdk_Failure SE_ConnectionFailed (command @ '' requires initialized locomotion client'')
      else sdk_Success (command @ '' precondition satisfied''))"

definition RequireConnected :: "string \<Rightarrow> loco_adapter \<Rightarrow> sdk_result" where
  "RequireConnected command a =
     (if \<not> lo_initialized a \<or> \<not> lo_client a \<or> \<not> lo_connected a then
        sdk_Failure SE_ConnectionFailed (command @ '' requires connected locomotion client'')
      else sdk_Success (command @ '' precondition satisfied''))"

definition Loco_Initialize :: "sdk_env \<Rightarrow> sdk_configuration \<Rightarrow> loco_adapter \<Rightarrow> loco_adapter \<times> sdk_result" where
  "Loco_Initialize E c a =
     (if lo_initialized a then (a, sdk_Success ''Unitree locomotion adapter already initialized'')
      else if \<not> sd_Succeeded (ValidateSdkConfiguration E c) then (a, ValidateSdkConfiguration E c)
      else
        (case call_client E (Call_Init (cf_domain_id c) (cf_network_interface c) (cf_timeout c)) a of
           (Returned _, _, a1) \<Rightarrow>
             (a1\<lparr>lo_client := True, lo_initialized := True, lo_connected := False\<rparr>,
              sdk_Success ''Unitree locomotion adapter initialized'')
         | (ThrewException w, _, a1) \<Rightarrow>
             (a1\<lparr>lo_client := False, lo_initialized := False, lo_connected := False\<rparr>,
              sdk_Failure SE_ConnectionFailed (''Unitree locomotion adapter initialization failed: '' @ w))
         | (ThrewUnknown, _, a1) \<Rightarrow>
             (a1\<lparr>lo_client := False, lo_initialized := False, lo_connected := False\<rparr>,
              sdk_Failure SE_ConnectionFailed
                ''Unitree locomotion adapter initialization failed with an unknown exception'')))"

definition Loco_Shutdown :: "loco_adapter \<Rightarrow> loco_adapter \<times> sdk_result" where
  "Loco_Shutdown a =
     (a\<lparr>lo_client := False, lo_initialized := False, lo_connected := False\<rparr>,
      sdk_Success ''Unitree locomotion adapter shut down'')"

definition Loco_Disconnect :: "loco_adapter \<Rightarrow> loco_adapter \<times> sdk_result" where
  "Loco_Disconnect a = (a\<lparr>lo_connected := False\<rparr>, sdk_Success ''Unitree locomotion adapter disconnected'')"

text \<open>The output argument keeps the caller's value when the precondition fails.\<close>

definition GetFsmId :: "sdk_env \<Rightarrow> int \<Rightarrow> loco_adapter \<Rightarrow> loco_adapter \<times> sdk_result \<times> int" where
  "GetFsmId E fsm_id a =
     (if \<not> sd_Succeeded (RequireInitialized ''GetFsmId'' a) then (a, RequireInitialized ''GetFsmId'' a, fsm_id)
      else
        (case call_client E Call_GetFsmId a of
           (ans, out, a1) \<Rightarrow>
             (let result = InvokeSdkCommand ''GetFsmId'' SE_ConnectionFailed ans in
              (a1\<lparr>lo_connected := sd_Succeeded result\<rparr>, result, out))))"

definition Loco_Connect :: "sdk_env \<Rightarrow> loco_adapter \<Rightarrow> loco_adapter \<times> sdk_result" where
  "Loco_Connect E a = (case GetFsmId E (- 1) a of (a1, r, _) \<Rightarrow> (a1, r))"

definition connected_command :: "sdk_env \<Rightarrow> string \<Rightarrow> sdk_call \<Rightarrow> loco_adapter \<Rightarrow> loco_adapter \<times> sdk_result" where
  "connected_command E name c a =
     (if \<not> sd_Succeeded (RequireConnected name a) then (a, RequireConnected name a)
      else (case call_client E c a of (ans, _, a1) \<Rightarrow> (a1, InvokeSdkCommand name SE_RobotFault ans)))"

definition Loco_Stand :: "sdk_env \<Rightarrow> loco_adapter \<Rightarrow> loco_adapter \<times> sdk_result" where
  "Loco_Stand E = connected_command E ''Stand'' Call_StandUp"

definition Loco_BalanceStand :: "sdk_env \<Rightarrow> loco_adapter \<Rightarrow> loco_adapter \<times> sdk_result" where
  "Loco_BalanceStand E = connected_command E ''BalanceStand'' Call_BalanceStand"

definition Loco_Sit :: "sdk_env \<Rightarrow> loco_adapter \<Rightarrow> loco_adapter \<times> sdk_result" where
  "Loco_Sit E = connected_command E ''Sit'' Call_Sit"

definition velocity_IsFinite :: "velocity_command \<Rightarrow> bool" where
  "velocity_IsFinite v = (fl_isfinite (vc_linear_x v) \<and> fl_isfinite (vc_linear_y v) \<and> fl_isfinite (vc_angular_z v))"

definition Loco_Walk :: "sdk_env \<Rightarrow> velocity_command \<Rightarrow> loco_adapter \<Rightarrow> loco_adapter \<times> sdk_result" where
  "Loco_Walk E v a =
     (if \<not> velocity_IsFinite v then (a, sdk_Failure SE_Unknown ''walk command contains a non-finite velocity value'')
      else connected_command E ''Walk'' (Call_Move (vc_linear_x v) (vc_linear_y v) (vc_angular_z v)) a)"

definition Loco_SetVelocity :: "sdk_env \<Rightarrow> velocity_command \<Rightarrow> loco_adapter \<Rightarrow> loco_adapter \<times> sdk_result" where
  "Loco_SetVelocity E v a =
     (if \<not> velocity_IsFinite v then (a, sdk_Failure SE_Unknown ''velocity command contains a non-finite value'')
      else connected_command E ''SetVelocity'' (Call_SetVelocity (vc_linear_x v) (vc_linear_y v) (vc_angular_z v)) a)"

definition Loco_Stop :: "sdk_env \<Rightarrow> loco_adapter \<Rightarrow> loco_adapter \<times> sdk_result" where
  "Loco_Stop E a =
     (if \<not> sd_Succeeded (RequireInitialized ''Stop'' a) then (a, RequireInitialized ''Stop'' a)
      else (case call_client E Call_StopMove a of (ans, _, a1) \<Rightarrow> (a1, InvokeSdkCommand ''Stop'' SE_RobotFault ans)))"

definition Loco_EmergencyStop :: "sdk_env \<Rightarrow> loco_adapter \<Rightarrow> loco_adapter \<times> sdk_result" where
  "Loco_EmergencyStop E a =
     (if \<not> sd_Succeeded (RequireInitialized ''EmergencyStop'' a) then (a, RequireInitialized ''EmergencyStop'' a)
      else
        (case call_client E Call_StopMove a of (ans, _, a1) \<Rightarrow>
           (case call_client E Call_Damp a1 of (ans', _, a2) \<Rightarrow>
              (let stop_result = InvokeSdkCommand ''EmergencyStop.StopMove'' SE_RobotFault ans;
                   damp_result = InvokeSdkCommand ''EmergencyStop.Damp'' SE_RobotFault ans' in
               (a2\<lparr>lo_connected := False\<rparr>, if \<not> sd_Succeeded stop_result then stop_result else damp_result)))))"

end
