(* ===== verification/Unitree_Wrapper.thy ===== *)
theory Unitree_Wrapper
  imports Unitree_Sdk
begin

text \<open>
  \<open>plugins/unitree/sdk/SdkWrapper.cpp\<close>: the object that owns the locomotion adapter, keeps the latest state of the
  robot and runs a worker thread that synchronizes it. The installed callback is a flag, and \<open>sw_published\<close> records
  the states handed to it. Every definition is one critical section or a whole call made of them; clock readings
  are arguments (\<open>now\<close> for the comparison of times, \<open>t\<close> for the timestamp of the state).
\<close>

section \<open>State\<close>

record sdk_wrapper =
  sw_loco :: loco_adapter
  sw_subscriber :: bool
  sw_thread :: bool \<comment> \<open>\<open>communication_thread_\<close> is joinable\<close>
  sw_configuration :: sdk_configuration
  sw_latest_state :: sdk_robot_state
  sw_communication_options :: communication_options
  sw_callback :: bool
  sw_last_successful_heartbeat :: time_ns
  sw_last_reconnect_attempt :: time_ns
  sw_heartbeat_count :: u64
  sw_reconnect_attempt_count :: u64
  sw_connection_state :: sdk_connection
  sw_motion_mode :: sdk_motion
  sw_initialized :: bool
  sw_connected :: bool
  sw_communication_running :: bool
  sw_stop_communication_requested :: bool
  sw_published :: "robot_state list"

definition default_configuration :: sdk_configuration where
  "default_configuration = \<lparr>cf_robot_ip = ''192.168.123.161'', cf_network_interface = ''eth0'', cf_domain_id = 0,
     cf_timeout = 500, cf_serial_number = [], cf_firmware_version = []\<rparr>"

definition default_options :: communication_options where
  "default_options = \<lparr>co_heartbeat_interval = 500, co_reconnect_interval = 1000, co_connection_timeout = 1500\<rparr>"

definition SdkWrapper_create :: sdk_wrapper where
  "SdkWrapper_create = \<lparr>sw_loco = LocoAdapter_create, sw_subscriber = False, sw_thread = False,
     sw_configuration = default_configuration, sw_latest_state = default_sdk_state,
     sw_communication_options = default_options, sw_callback = False, sw_last_successful_heartbeat = 0,
     sw_last_reconnect_attempt = 0, sw_heartbeat_count = 0, sw_reconnect_attempt_count = 0,
     sw_connection_state = CS_Uninitialized, sw_motion_mode = MM_Unknown, sw_initialized = False, sw_connected = False,
     sw_communication_running = False, sw_stop_communication_requested = False, sw_published = []\<rparr>"

section \<open>Helpers\<close>

definition PositiveOrDefault :: "time_ms \<Rightarrow> time_ms \<Rightarrow> time_ms" where
  "PositiveOrDefault v d = (if v > 0 then v else d)"

definition NormalizeCommunicationOptions :: "communication_options \<Rightarrow> communication_options" where
  "NormalizeCommunicationOptions c0 =
     (let c = \<lparr>co_heartbeat_interval = PositiveOrDefault (co_heartbeat_interval c0) 500,
               co_reconnect_interval = PositiveOrDefault (co_reconnect_interval c0) 1000,
               co_connection_timeout = PositiveOrDefault (co_connection_timeout c0) 1500\<rparr> in
      if co_connection_timeout c < co_heartbeat_interval c then c\<lparr>co_connection_timeout := co_heartbeat_interval c\<rparr>
      else c)"

definition MakeDescriptor :: "sdk_configuration \<Rightarrow> bool \<Rightarrow> robot_descriptor" where
  "MakeDescriptor c d = \<lparr>ds_robot_ip = cf_robot_ip c, ds_network_interface = cf_network_interface c,
     ds_domain_id = cf_domain_id c, ds_serial_number = cf_serial_number c,
     ds_firmware_version = cf_firmware_version c, ds_discovered = d\<rparr>"

definition UpdateStateSample ::
  "time_ns \<Rightarrow> sdk_connection \<Rightarrow> sdk_motion \<Rightarrow> int \<Rightarrow> bool \<Rightarrow> int \<Rightarrow> sdk_robot_state \<Rightarrow> sdk_robot_state" where
  "UpdateStateSample t cs mm fsm_id estop fault s =
     s\<lparr>sr_connection_state := cs, sr_motion_mode := mm, sr_motion_mode_id := motion_mode_value mm,
       sr_emergency_stop := estop, sr_fault_code := fault, sr_fsm_id := fsm_id, sr_timestamp := t\<rparr>"

definition UpdateStateAfterCommand ::
  "time_ns \<Rightarrow> sdk_connection \<Rightarrow> sdk_motion \<Rightarrow> bool \<Rightarrow> sdk_robot_state \<Rightarrow> sdk_robot_state" where
  "UpdateStateAfterCommand t cs mm ok s =
     UpdateStateSample t cs mm (sr_fsm_id s) (cs = CS_Faulted) (if ok then 0 else 1) s"

text \<open>The sample of the wrapper's own connection state and motion mode.\<close>

definition sample :: "time_ns \<Rightarrow> int \<Rightarrow> bool \<Rightarrow> int \<Rightarrow> sdk_wrapper \<Rightarrow> sdk_wrapper" where
  "sample t fsm_id estop fault w =
     w\<lparr>sw_latest_state :=
       UpdateStateSample t (sw_connection_state w) (sw_motion_mode w) fsm_id estop fault (sw_latest_state w)\<rparr>"

text \<open>\<open>PublishStateUpdate\<close> of the snapshot taken in the critical section before it; what the callback throws is ignored.\<close>

definition PublishStateUpdate :: "bool \<Rightarrow> sdk_robot_state \<Rightarrow> sdk_wrapper \<Rightarrow> sdk_wrapper" where
  "PublishStateUpdate callback s w =
     (if \<not> callback then w else w\<lparr>sw_published := sw_published w @ [ToCoreRobotState s]\<rparr>)"

text \<open>Publication directly after the section, when no other thread comes between.\<close>

definition publish_latest :: "sdk_wrapper \<Rightarrow> sdk_wrapper" where
  "publish_latest w = PublishStateUpdate (sw_callback w) (sw_latest_state w) w"

section \<open>Low-level state messages\<close>

text \<open>What the code reads of the vendor's message.\<close>

record motor_message =
  mo_q :: fl
  mo_dq :: fl
  mo_ddq :: fl
  mo_tau_est :: fl
  mo_vol :: fl
  mo_temperature :: int
  mo_mode :: "32 word"
  mo_motorstate :: "32 word"

record low_state_message =
  ls_tick :: u64
  ls_mode_pr :: int
  ls_mode_machine :: int
  ls_quaternion :: "fl list"
  ls_gyroscope :: "fl list"
  ls_accelerometer :: "fl list"
  ls_temperature :: int
  ls_rpy :: "fl list"
  ls_motors :: "motor_message list"

fun first_fault :: "motor_message list \<Rightarrow> 32 word \<Rightarrow> 32 word" where
  "first_fault [] f = f"
| "first_fault (m # ms) f = first_fault ms (if f = 0 \<and> mo_motorstate m \<noteq> 0 then mo_motorstate m else f)"

text \<open>Stores the values of the joints present and keeps the others.\<close>

definition store_joints :: "'a list \<Rightarrow> 'a list \<Rightarrow> 'a list" where
  "store_joints vs old = vs @ drop (length vs) old"

definition WithLowState ::
  "time_ns \<Rightarrow> low_state_message \<Rightarrow> u64 \<Rightarrow> u64 \<Rightarrow> sdk_robot_state \<Rightarrow> sdk_robot_state" where
  "WithLowState t m heartbeats reconnects s =
     (let ms = take kSdkMaxJointStates (ls_motors m);
          agg = first_fault ms 0;
          fault = (if agg > 2147483647 then 2147483647 else uint agg) in
      s\<lparr>sr_low_state_available := True, sr_low_state_tick := ls_tick m, sr_robot_mode := ls_mode_pr m,
        sr_motion_mode_id := ls_mode_machine m, sr_heartbeat_count := heartbeats,
        sr_reconnect_attempt_count := reconnects, sr_timestamp := t,
        sr_imu_quaternion := ls_quaternion m, sr_imu_angular_velocity := ls_gyroscope m,
        sr_imu_linear_acceleration := ls_accelerometer m, sr_imu_temperature_celsius := Fin (of_int (ls_temperature m)),
        sr_roll := ls_rpy m ! 0, sr_pitch := ls_rpy m ! 1, sr_yaw := ls_rpy m ! 2,
        sr_joint_count := of_nat (length ms),
        sr_joint_position := store_joints (map mo_q ms) (sr_joint_position s),
        sr_joint_velocity := store_joints (map mo_dq ms) (sr_joint_velocity s),
        sr_joint_acceleration := store_joints (map mo_ddq ms) (sr_joint_acceleration s),
        sr_joint_torque := store_joints (map mo_tau_est ms) (sr_joint_torque s),
        sr_joint_voltage := store_joints (map mo_vol ms) (sr_joint_voltage s),
        sr_joint_temperature_celsius := store_joints (map (\<lambda>x. Fin (of_int (mo_temperature x))) ms) (sr_joint_temperature_celsius s),
        sr_joint_mode := store_joints (map mo_mode ms) (sr_joint_mode s),
        sr_joint_fault := store_joints (map mo_motorstate ms) (sr_joint_fault s),
        sr_fault_code := fault, sr_emergency_stop := (fault \<noteq> 0)\<rparr>)"

text \<open>The message handler that \<open>Initialize\<close> installs; a null message is \<open>None\<close>.\<close>

definition low_state_handler :: "time_ns \<Rightarrow> low_state_message option \<Rightarrow> sdk_wrapper \<Rightarrow> sdk_wrapper" where
  "low_state_handler t msg w =
     (case msg of
        None \<Rightarrow> w
      | Some m \<Rightarrow>
          publish_latest (w\<lparr>sw_latest_state :=
            WithLowState t m (sw_heartbeat_count w) (sw_reconnect_attempt_count w) (sw_latest_state w)\<rparr>))"

section \<open>Life cycle\<close>

text \<open>\<open>subscribed\<close> says whether the channel subscriber could be constructed and initialized.\<close>

definition Wrapper_Initialize ::
  "sdk_env \<Rightarrow> time_ns \<Rightarrow> bool \<Rightarrow> sdk_configuration \<Rightarrow> sdk_wrapper \<Rightarrow> sdk_wrapper \<times> sdk_result" where
  "Wrapper_Initialize E t subscribed c w =
     (if sw_initialized w then (w, sdk_Success ''Unitree SDK2 wrapper already initialized'')
      else
        (case Loco_Initialize E c (sw_loco w) of
           (lo, r) \<Rightarrow>
             if \<not> sd_Succeeded r then
               (sample t (- 1) False 0 (w\<lparr>sw_loco := lo, sw_connection_state := CS_Faulted\<rparr>), r)
             else
               ((sample t (- 1) False 0
                  (w\<lparr>sw_loco := lo, sw_configuration := c, sw_initialized := True, sw_connected := False,
                     sw_motion_mode := MM_Idle, sw_connection_state := CS_Initialized,
                     sw_latest_state := default_sdk_state\<rparr>))\<lparr>sw_subscriber := subscribed\<rparr>,
                sdk_Success ''Unitree SDK2 wrapper initialized'')))"

definition DiscoverRobot :: "sdk_env \<Rightarrow> sdk_wrapper \<Rightarrow> sdk_wrapper \<times> sdk_result \<times> robot_descriptor" where
  "DiscoverRobot E w =
     (if \<not> sw_initialized w then
        (w, sdk_Failure SE_ConnectionFailed ''Unitree SDK2 wrapper is not initialized'',
         MakeDescriptor (sw_configuration w) False)
      else
        (case GetFsmId E 0 (sw_loco w) of
           (lo, r, _) \<Rightarrow>
             (w\<lparr>sw_loco := lo,
                sw_connection_state := (if sd_Succeeded r then sw_connection_state w else CS_Faulted)\<rparr>,
              r, MakeDescriptor (sw_configuration w) (sd_Succeeded r))))"

definition Connect_section :: "sdk_env \<Rightarrow> time_ns \<Rightarrow> time_ns \<Rightarrow> sdk_wrapper \<Rightarrow> sdk_wrapper \<times> sdk_result" where
  "Connect_section E now t w =
     (case GetFsmId E (- 1) (sw_loco w) of
        (lo, r, fsm_id) \<Rightarrow>
          (let ok = sd_Succeeded r;
               w1 = sample t fsm_id (\<not> ok) (if ok then 0 else 1)
                 (w\<lparr>sw_loco := lo, sw_connected := ok,
                    sw_connection_state := (if ok then CS_Connected else CS_Faulted),
                    sw_last_successful_heartbeat := (if ok then now else sw_last_successful_heartbeat w)\<rparr>) in
           (w1\<lparr>sw_latest_state := (sw_latest_state w1)\<lparr>sr_heartbeat_count := sw_heartbeat_count w1,
               sr_reconnect_attempt_count := sw_reconnect_attempt_count w1\<rparr>\<rparr>, r)))"

definition Wrapper_Connect :: "sdk_env \<Rightarrow> time_ns \<Rightarrow> time_ns \<Rightarrow> sdk_wrapper \<Rightarrow> sdk_wrapper \<times> sdk_result" where
  "Wrapper_Connect E now t w =
     (if \<not> sw_initialized w then
        (w, sdk_Failure SE_ConnectionFailed ''Unitree SDK2 wrapper is not initialized'')
      else (case Connect_section E now t w of (w1, r) \<Rightarrow> (publish_latest w1, r)))"

definition Disconnect_section :: "time_ns \<Rightarrow> sdk_wrapper \<Rightarrow> sdk_wrapper" where
  "Disconnect_section t w =
     sample t (- 1) False 0
       (w\<lparr>sw_loco := fst (Loco_Disconnect (sw_loco w)), sw_connected := False, sw_motion_mode := MM_Idle,
          sw_connection_state := CS_Disconnected\<rparr>)"

definition Shutdown_section :: "time_ns \<Rightarrow> sdk_wrapper \<Rightarrow> sdk_wrapper" where
  "Shutdown_section t w =
     sample t (- 1) False 0
       (w\<lparr>sw_connected := False, sw_initialized := False, sw_subscriber := False,
          sw_loco := fst (Loco_Shutdown (sw_loco w)), sw_motion_mode := MM_Idle, sw_connection_state := CS_Shutdown,
          sw_last_successful_heartbeat := 0, sw_last_reconnect_attempt := 0\<rparr>)"

section \<open>The communication worker\<close>

text \<open>\<open>started\<close> is the outcome of the construction of the thread.\<close>

definition StartCommunication ::
  "unit outcome \<Rightarrow> communication_options \<Rightarrow> sdk_wrapper \<Rightarrow> sdk_wrapper \<times> sdk_result" where
  "StartCommunication started options w =
     (if \<not> sw_initialized w then
        (w, sdk_Failure SE_ConnectionFailed ''Unitree SDK2 wrapper is not initialized'')
      else if sw_communication_running w then
        (w, sdk_Success ''Unitree SDK2 communication worker already running'')
      else
        (let w1 = w\<lparr>sw_communication_options := NormalizeCommunicationOptions options,
                    sw_stop_communication_requested := False, sw_communication_running := True\<rparr> in
         case started of
           Returned _ \<Rightarrow> (w1\<lparr>sw_thread := True\<rparr>, sdk_Success ''Unitree SDK2 communication worker started'')
         | ThrewException msg \<Rightarrow>
             (w1\<lparr>sw_communication_running := False, sw_stop_communication_requested := False\<rparr>,
              sdk_Failure SE_Unknown (''failed to start Unitree SDK2 communication worker: '' @ msg))
         | ThrewUnknown \<Rightarrow>
             (w1\<lparr>sw_communication_running := False, sw_stop_communication_requested := False\<rparr>,
              sdk_Failure SE_Unknown ''failed to start Unitree SDK2 communication worker: unknown exception'')))"

text \<open>
  \<open>StopCommunication\<close>: the first section (the handle it took, if it goes on), then the join of that handle, then the
  last section.
\<close>

definition StopCommunication_begin :: "sdk_wrapper \<Rightarrow> (bool \<times> sdk_wrapper) option" where
  "StopCommunication_begin w =
     (if \<not> sw_communication_running w then None
      else Some (sw_thread w, w\<lparr>sw_stop_communication_requested := True, sw_thread := False\<rparr>))"

definition StopCommunication_end :: "sdk_wrapper \<Rightarrow> sdk_wrapper" where
  "StopCommunication_end w = w\<lparr>sw_communication_running := False, sw_stop_communication_requested := False\<rparr>"

text \<open>The whole call, when the worker ends at the flag and no other thread comes between.\<close>

definition StopCommunication :: "sdk_wrapper \<Rightarrow> sdk_wrapper \<times> sdk_result" where
  "StopCommunication w =
     (case StopCommunication_begin w of
        None \<Rightarrow> (w, sdk_Success ''Unitree SDK2 communication worker already stopped'')
      | Some (_, w1) \<Rightarrow> (StopCommunication_end w1, sdk_Success ''Unitree SDK2 communication worker stopped''))"

definition Wrapper_Disconnect :: "time_ns \<Rightarrow> sdk_wrapper \<Rightarrow> sdk_wrapper \<times> sdk_result" where
  "Wrapper_Disconnect t w =
     (publish_latest (Disconnect_section t (fst (StopCommunication w))), sdk_Success ''Unitree SDK2 wrapper disconnected'')"

definition Wrapper_Shutdown :: "time_ns \<Rightarrow> sdk_wrapper \<Rightarrow> sdk_wrapper \<times> sdk_result" where
  "Wrapper_Shutdown t w =
     (publish_latest (Shutdown_section t (fst (StopCommunication w))), sdk_Success ''Unitree SDK2 wrapper shut down'')"

text \<open>The successful branches of \<open>SynchronizeState\<close>.\<close>

definition link_alive :: "time_ns \<Rightarrow> time_ns \<Rightarrow> int \<Rightarrow> sdk_wrapper \<Rightarrow> sdk_wrapper" where
  "link_alive now t fsm_id w =
     sample t fsm_id False 0
       (w\<lparr>sw_connected := True, sw_connection_state := CS_Connected, sw_last_successful_heartbeat := now\<rparr>)"

definition heartbeat_timed_out :: "time_ns \<Rightarrow> sdk_wrapper \<Rightarrow> bool" where
  "heartbeat_timed_out now w =
     (sw_last_successful_heartbeat w = 0 \<or>
      now - sw_last_successful_heartbeat w \<ge> ms_to_ns (co_connection_timeout (sw_communication_options w)))"

definition reconnect_due :: "time_ns \<Rightarrow> sdk_wrapper \<Rightarrow> bool" where
  "reconnect_due now w =
     (sw_last_reconnect_attempt w = 0 \<or>
      now - sw_last_reconnect_attempt w \<ge> ms_to_ns (co_reconnect_interval (sw_communication_options w)))"

definition reconnect :: "sdk_env \<Rightarrow> time_ns \<Rightarrow> time_ns \<Rightarrow> bool \<Rightarrow> sdk_result \<Rightarrow> sdk_wrapper \<Rightarrow> sdk_wrapper \<times> sdk_result" where
  "reconnect E now t timed_out r w0 =
     (let w = w0\<lparr>sw_reconnect_attempt_count := sw_reconnect_attempt_count w0 + 1, sw_last_reconnect_attempt := now\<rparr> in
      case GetFsmId E (- 1) (sw_loco w) of
        (lo, r', fsm_id) \<Rightarrow>
          if sd_Succeeded r' then (link_alive now t fsm_id (w\<lparr>sw_loco := lo\<rparr>), r')
          else if timed_out then
            (w\<lparr>sw_loco := lo\<rparr>, sdk_Failure SE_Timeout ''Unitree SDK2 communication timed out and reconnect failed'')
          else (w\<lparr>sw_loco := lo\<rparr>, r))"

definition SynchronizeState_section ::
  "sdk_env \<Rightarrow> time_ns \<Rightarrow> time_ns \<Rightarrow> time_ns \<Rightarrow> sdk_wrapper \<Rightarrow> sdk_wrapper \<times> sdk_result" where
  "SynchronizeState_section E now t t' w0 =
     (let w = w0\<lparr>sw_heartbeat_count := sw_heartbeat_count w0 + 1\<rparr>;
          finish = (\<lambda>(w', r). (w'\<lparr>sw_latest_state := (sw_latest_state w')\<lparr>sr_heartbeat_count := sw_heartbeat_count w',
                      sr_reconnect_attempt_count := sw_reconnect_attempt_count w'\<rparr>\<rparr>, r)) in
      case GetFsmId E (- 1) (sw_loco w) of
        (lo, r, fsm_id) \<Rightarrow>
          (let w1 = w\<lparr>sw_loco := lo\<rparr> in
           if sd_Succeeded r then finish (link_alive now t fsm_id w1, r)
           else
             (let timed_out = heartbeat_timed_out now w1;
                  w2 = (if timed_out then sample t fsm_id False 0 (w1\<lparr>sw_connected := False, sw_connection_state := CS_Disconnected\<rparr>)
                        else w1);
                  r2 = (if timed_out then sdk_Failure SE_Timeout ''Unitree SDK2 communication heartbeat timed out'' else r) in
              finish (if reconnect_due now w2 then reconnect E now t' timed_out r2 w2 else (w2, r2)))))"

definition SynchronizeState ::
  "sdk_env \<Rightarrow> time_ns \<Rightarrow> time_ns \<Rightarrow> time_ns \<Rightarrow> sdk_wrapper \<Rightarrow> sdk_wrapper \<times> sdk_result" where
  "SynchronizeState E now t t' w =
     (if \<not> sw_initialized w then
        (w, sdk_Failure SE_ConnectionFailed ''Unitree SDK2 wrapper is not initialized'')
      else (case SynchronizeState_section E now t t' w of (w1, r) \<Rightarrow> (publish_latest w1, r)))"

text \<open>
  One round of the worker's loop: it ends at the flag, also while it waits, or synchronizes after the interval.
  The outer \<open>None\<close> is the end of the loop.
\<close>

definition RunCommunicationLoop_round ::
  "sdk_env \<Rightarrow> time_ns \<Rightarrow> time_ns \<Rightarrow> time_ns \<Rightarrow> sdk_wrapper \<Rightarrow> sdk_wrapper option" where
  "RunCommunicationLoop_round E now t t' w =
     (if sw_stop_communication_requested w then None else Some (fst (SynchronizeState E now t t' w)))"

section \<open>Commands\<close>

text \<open>The common part of the motion commands: the answer decides the motion mode and the connection state.\<close>

definition after_command ::
  "time_ns \<Rightarrow> sdk_motion \<Rightarrow> loco_adapter \<times> sdk_result \<Rightarrow> sdk_wrapper \<Rightarrow> sdk_wrapper \<times> sdk_result" where
  "after_command t mode lr w =
     (case lr of (lo, r) \<Rightarrow>
        (let ok = sd_Succeeded r;
             mm = (if ok then mode else MM_Faulted);
             cs = (if ok then sw_connection_state w else CS_Faulted) in
         (w\<lparr>sw_loco := lo, sw_motion_mode := mm, sw_connection_state := cs,
            sw_latest_state := UpdateStateAfterCommand t cs mm ok (sw_latest_state w)\<rparr>, r)))"

definition not_connected :: sdk_result where
  "not_connected = sdk_Failure SE_ConnectionFailed ''Unitree SDK2 wrapper is not connected''"

definition Wrapper_Move ::
  "sdk_env \<Rightarrow> time_ns \<Rightarrow> fl \<Rightarrow> fl \<Rightarrow> fl \<Rightarrow> sdk_wrapper \<Rightarrow> sdk_wrapper \<times> sdk_result" where
  "Wrapper_Move E t vx vy omega w =
     (if \<not> sw_initialized w \<or> \<not> sw_connected w then (w, not_connected)
      else after_command t MM_Walking
        (Loco_Walk E \<lparr>vc_linear_x = vx, vc_linear_y = vy, vc_angular_z = omega\<rparr> (sw_loco w)) w)"

definition Wrapper_Stop :: "sdk_env \<Rightarrow> time_ns \<Rightarrow> sdk_wrapper \<Rightarrow> sdk_wrapper \<times> sdk_result" where
  "Wrapper_Stop E t w =
     (if \<not> sw_initialized w then
        (w, sdk_Failure SE_ConnectionFailed ''Unitree SDK2 wrapper is not initialized'')
      else after_command t MM_Idle (Loco_Stop E (sw_loco w)) w)"

definition Wrapper_StandUp :: "sdk_env \<Rightarrow> time_ns \<Rightarrow> sdk_wrapper \<Rightarrow> sdk_wrapper \<times> sdk_result" where
  "Wrapper_StandUp E t w =
     (if \<not> sw_initialized w \<or> \<not> sw_connected w then (w, not_connected)
      else after_command t MM_Standing (Loco_Stand E (sw_loco w)) w)"

definition Wrapper_Sit :: "sdk_env \<Rightarrow> time_ns \<Rightarrow> sdk_wrapper \<Rightarrow> sdk_wrapper \<times> sdk_result" where
  "Wrapper_Sit E t w =
     (if \<not> sw_initialized w \<or> \<not> sw_connected w then (w, not_connected)
      else after_command t MM_Sitting (Loco_Sit E (sw_loco w)) w)"

definition Wrapper_BalanceStand :: "sdk_env \<Rightarrow> time_ns \<Rightarrow> sdk_wrapper \<Rightarrow> sdk_wrapper \<times> sdk_result" where
  "Wrapper_BalanceStand E t w =
     (if \<not> sw_initialized w \<or> \<not> sw_connected w then (w, not_connected)
      else after_command t MM_Standing (Loco_BalanceStand E (sw_loco w)) w)"

definition Wrapper_EmergencyStop :: "sdk_env \<Rightarrow> time_ns \<Rightarrow> sdk_wrapper \<Rightarrow> sdk_wrapper \<times> sdk_result" where
  "Wrapper_EmergencyStop E t w =
     (if \<not> sw_initialized w then
        (w, sdk_Failure SE_ConnectionFailed ''Unitree SDK2 wrapper is not initialized'')
      else
        (case Loco_EmergencyStop E (sw_loco w) of
           (lo, r) \<Rightarrow>
             (sample t (sr_fsm_id (sw_latest_state w)) True 1
                (w\<lparr>sw_loco := lo, sw_connected := False, sw_motion_mode := MM_Faulted,
                   sw_connection_state := CS_Faulted\<rparr>), r)))"

definition SetStateUpdateCallback :: "bool \<Rightarrow> sdk_wrapper \<Rightarrow> sdk_wrapper" where
  "SetStateUpdateCallback callback w = w\<lparr>sw_callback := callback\<rparr>"

definition ReadRobotState :: "sdk_wrapper \<Rightarrow> sdk_robot_state" where
  "ReadRobotState w = sw_latest_state w"

record communication_status =
  cx_running :: bool
  cx_initialized :: bool
  cx_connected :: bool
  cx_connection_state :: sdk_connection
  cx_heartbeat_count :: u64
  cx_reconnect_attempt_count :: u64
  cx_last_successful_heartbeat :: time_ns
  cx_last_reconnect_attempt :: time_ns

definition CommunicationStatus :: "sdk_wrapper \<Rightarrow> communication_status" where
  "CommunicationStatus w = \<lparr>cx_running = sw_communication_running w, cx_initialized = sw_initialized w,
     cx_connected = sw_connected w, cx_connection_state = sw_connection_state w,
     cx_heartbeat_count = sw_heartbeat_count w, cx_reconnect_attempt_count = sw_reconnect_attempt_count w,
     cx_last_successful_heartbeat = sw_last_successful_heartbeat w,
     cx_last_reconnect_attempt = sw_last_reconnect_attempt w\<rparr>"

end
