(* ===== verification/Unitree_Adapter.thy ===== *)
theory Unitree_Adapter
  imports Unitree_Wrapper Command_Model
begin

text \<open>
  \<open>src/sdk/LocoClientWrapper.cpp\<close> and \<open>src/adapters/unitree/UnitreeG1Adapter.cpp\<close>. Each operation of the adapter runs
  under its mutex; the log messages are left out. Conversions of numbers to \<open>float\<close> are a parameter, as are the
  answers of the vendor's client (see \<open>Unitree_Sdk\<close>) and the clock.
\<close>

section \<open>Results and configuration\<close>

datatype adapter_error = AE_Success | AE_SDKUnavailable | AE_ConnectionFailed | AE_Timeout | AE_RobotFault | AE_Unknown

record adapter_result =
  ar_code :: adapter_error
  ar_message :: string

definition ar_Succeeded :: "adapter_result \<Rightarrow> bool" where
  "ar_Succeeded r = (ar_code r = AE_Success)"

definition Success :: "string \<Rightarrow> adapter_result" where
  "Success m = \<lparr>ar_code = AE_Success, ar_message = m\<rparr>"

definition Failure :: "adapter_error \<Rightarrow> string \<Rightarrow> adapter_result" where
  "Failure c m = \<lparr>ar_code = c, ar_message = m\<rparr>"

fun ToAdapterErrorCode :: "sdk_error \<Rightarrow> adapter_error" where
  "ToAdapterErrorCode SE_Success = AE_Success"
| "ToAdapterErrorCode SE_SdkUnavailable = AE_SDKUnavailable"
| "ToAdapterErrorCode SE_ConnectionFailed = AE_ConnectionFailed"
| "ToAdapterErrorCode SE_Timeout = AE_Timeout"
| "ToAdapterErrorCode SE_RobotFault = AE_RobotFault"
| "ToAdapterErrorCode SE_Unknown = AE_Unknown"

definition ToAdapterResult :: "sdk_result \<Rightarrow> adapter_result" where
  "ToAdapterResult r = \<lparr>ar_code = ToAdapterErrorCode (sd_code r), ar_message = sd_message r\<rparr>"

definition ToStatus :: "adapter_result \<Rightarrow> status" where
  "ToStatus r =
     (case ar_code r of
        AE_Success \<Rightarrow> Status_ok
      | AE_SDKUnavailable \<Rightarrow> Status_error kUnavailable (ar_message r)
      | AE_ConnectionFailed \<Rightarrow> Status_error kUnavailable (ar_message r)
      | AE_Timeout \<Rightarrow> Status_error kUnavailable (ar_message r)
      | AE_RobotFault \<Rightarrow> Status_error kFailedPrecondition (ar_message r)
      | AE_Unknown \<Rightarrow> Status_error kInternalError (ar_message r))"

definition ToCommandResult :: "adapter_result \<Rightarrow> command_result" where
  "ToCommandResult r =
     Result (if ar_Succeeded r then Status_Completed
             else if ar_code r = AE_Timeout then Status_Timeout else Status_Failed) (ar_message r)"

record robot_config =
  rc_vendor :: string
  rc_model :: string
  rc_ip :: string
  rc_network_interface :: string
  rc_domain_id :: "32 word"
  rc_timeout :: time_ms
  rc_serial_number :: string
  rc_firmware :: string

section \<open>IPv4 addresses\<close>

text \<open>\<open>std::getline\<close> with a delimiter, until the stream is exhausted: no token follows a final delimiter.\<close>

function getline_tokens :: "char \<Rightarrow> string \<Rightarrow> string list" where
  "getline_tokens d [] = []"
| "getline_tokens d (c # cs) =
     (case dropWhile (\<lambda>x. x \<noteq> d) (c # cs) of
        [] \<Rightarrow> [c # cs]
      | _ # rest \<Rightarrow> takeWhile (\<lambda>x. x \<noteq> d) (c # cs) # getline_tokens d rest)"
  by pat_completeness auto
termination
proof (relation "measure (\<lambda>(_, s). length s)")
  fix d c cs y ys
  assume eq: "dropWhile (\<lambda>x. x \<noteq> d) (c # cs) = y # ys"
  have "length (dropWhile (\<lambda>x. x \<noteq> d) (c # cs)) \<le> length (c # cs)" by (rule length_dropWhile_le)
  then show "((d, ys), d, c # cs) \<in> measure (\<lambda>(_, s). length s)" unfolding eq by simp
qed simp

definition is_digit :: "char \<Rightarrow> bool" where
  "is_digit c = (48 \<le> (of_char c :: nat) \<and> (of_char c :: nat) \<le> 57)"

definition IsDigits :: "string \<Rightarrow> bool" where
  "IsDigits s = (s \<noteq> [] \<and> list_all is_digit s)"

text \<open>\<open>std::stoi\<close> on digits; beyond the range of \<open>int\<close> it throws.\<close>

definition digits_value :: "string \<Rightarrow> int" where
  "digits_value s = foldl (\<lambda>n c. 10 * n + (of_char c - 48)) 0 s"

definition ParseIpv4Octet :: "string \<Rightarrow> bool" where
  "ParseIpv4Octet s =
     (if \<not> IsDigits s then False
      else if digits_value s > 2147483647 then False
      else digits_value s \<le> 255)"

fun count_octets :: "string list \<Rightarrow> nat \<Rightarrow> nat option" where
  "count_octets [] n = Some n"
| "count_octets (token # tokens) n = (if \<not> ParseIpv4Octet token then None else count_octets tokens (n + 1))"

definition IsValidIpv4Address :: "string \<Rightarrow> bool" where
  "IsValidIpv4Address ip = (case count_octets (getline_tokens (CHR ''.'') ip) 0 of None \<Rightarrow> False | Some n \<Rightarrow> n = 4)"

definition ValidateConfig :: "robot_config \<Rightarrow> adapter_result" where
  "ValidateConfig c =
     (if rc_vendor c \<noteq> ''Unitree'' then Failure AE_Unknown ''robot vendor is not Unitree''
      else if rc_model c \<noteq> ''G1'' then Failure AE_Unknown ''robot model is not G1''
      else if \<not> IsValidIpv4Address (rc_ip c) then
        Failure AE_ConnectionFailed ''robot IP address is not a valid IPv4 address''
      else if rc_network_interface c = [] then Failure AE_ConnectionFailed ''network interface is empty''
      else if rc_timeout c \<le> 0 then Failure AE_Timeout ''timeout must be greater than zero''
      else Success ''robot configuration is valid'')"

section \<open>The client wrapper\<close>

record loco_client =
  lc_communication_timeout :: time_ms
  lc_wrapper :: sdk_wrapper

definition LocoClientWrapper_create :: loco_client where
  "LocoClientWrapper_create = \<lparr>lc_communication_timeout = 500, lc_wrapper = SdkWrapper_create\<rparr>"

definition ToSdkConfiguration :: "robot_config \<Rightarrow> sdk_configuration" where
  "ToSdkConfiguration c = \<lparr>cf_robot_ip = rc_ip c, cf_network_interface = rc_network_interface c,
     cf_domain_id = rc_domain_id c, cf_timeout = rc_timeout c, cf_serial_number = rc_serial_number c,
     cf_firmware_version = rc_firmware c\<rparr>"

text \<open>A call that is passed to the SDK wrapper and whose result is converted.\<close>

definition forward :: "(sdk_wrapper \<Rightarrow> sdk_wrapper \<times> sdk_result) \<Rightarrow> loco_client \<Rightarrow> loco_client \<times> adapter_result" where
  "forward f l = (case f (lc_wrapper l) of (w, r) \<Rightarrow> (l\<lparr>lc_wrapper := w\<rparr>, ToAdapterResult r))"

definition Client_Initialize ::
  "sdk_env \<Rightarrow> time_ns \<Rightarrow> bool \<Rightarrow> robot_config \<Rightarrow> loco_client \<Rightarrow> loco_client \<times> adapter_result" where
  "Client_Initialize E t subscribed c l =
     forward (Wrapper_Initialize E t subscribed (ToSdkConfiguration c)) (l\<lparr>lc_communication_timeout := rc_timeout c\<rparr>)"

definition Client_StartCommunication :: "unit outcome \<Rightarrow> loco_client \<Rightarrow> loco_client \<times> adapter_result" where
  "Client_StartCommunication started l =
     (let timeout = lc_communication_timeout l in
      forward (StartCommunication started \<lparr>co_heartbeat_interval = timeout, co_reconnect_interval = i64_wrap (timeout * 2),
        co_connection_timeout = i64_wrap (timeout * 3)\<rparr>) l)"

definition Client_SetRobotStateManager :: "bool \<Rightarrow> loco_client \<Rightarrow> loco_client" where
  "Client_SetRobotStateManager present l = l\<lparr>lc_wrapper := SetStateUpdateCallback present (lc_wrapper l)\<rparr>"

section \<open>The adapter\<close>

record g1_adapter =
  ga_config :: robot_config
  ga_client :: "loco_client option"
  ga_state_manager :: bool
  ga_initialized :: bool
  ga_connected :: bool

definition UnitreeG1Adapter_create :: "robot_config \<Rightarrow> loco_client option \<Rightarrow> bool \<Rightarrow> g1_adapter" where
  "UnitreeG1Adapter_create c client manager =
     \<lparr>ga_config = c, ga_client = client, ga_state_manager = manager, ga_initialized = False, ga_connected = False\<rparr>"

definition MarkFailureIfNeeded :: "adapter_result \<Rightarrow> g1_adapter \<Rightarrow> g1_adapter" where
  "MarkFailureIfNeeded r a = (if ar_Succeeded r then a else a\<lparr>ga_connected := False\<rparr>)"

definition unavailable_client :: adapter_result where
  "unavailable_client = Failure AE_SDKUnavailable ''Unitree SDK wrapper is unavailable''"

text \<open>The client, constructed when there is none; \<open>made\<close> is the outcome of the construction.\<close>

definition ensure_client :: "unit outcome \<Rightarrow> g1_adapter \<Rightarrow> adapter_result + loco_client" where
  "ensure_client made a =
     (case ga_client a of
        Some l \<Rightarrow> Inr l
      | None \<Rightarrow>
          (case made of
             Returned _ \<Rightarrow> Inr LocoClientWrapper_create
           | ThrewException w \<Rightarrow> Inl (Failure AE_SDKUnavailable (''Unitree SDK wrapper construction failed: '' @ w))
           | ThrewUnknown \<Rightarrow> Inl (Failure AE_SDKUnavailable
               ''Unitree SDK wrapper construction failed with an unknown exception'')))"

definition G1_Initialize ::
  "sdk_env \<Rightarrow> time_ns \<Rightarrow> bool \<Rightarrow> unit outcome \<Rightarrow> g1_adapter \<Rightarrow> g1_adapter \<times> status" where
  "G1_Initialize E t subscribed made a =
     (if \<not> ar_Succeeded (ValidateConfig (ga_config a)) then (a, ToStatus (ValidateConfig (ga_config a)))
      else (case ensure_client made a of
         Inl r \<Rightarrow> (MarkFailureIfNeeded r a, ToStatus r)
       | Inr l0 \<Rightarrow>
           (let l = (if ga_state_manager a then Client_SetRobotStateManager True l0 else l0) in
            case Client_Initialize E t subscribed (ga_config a) l of
              (l', r) \<Rightarrow>
                (let a' = a\<lparr>ga_client := Some l'\<rparr> in
                 (if ar_Succeeded r then a'\<lparr>ga_initialized := True, ga_connected := False\<rparr> else MarkFailureIfNeeded r a',
                  ToStatus r)))))"

definition G1_Connect ::
  "sdk_env \<Rightarrow> time_ns \<Rightarrow> time_ns \<Rightarrow> unit outcome \<Rightarrow> g1_adapter \<Rightarrow> g1_adapter \<times> status" where
  "G1_Connect E now t started a =
     (case ga_client a of
        None \<Rightarrow> (a, ToStatus unavailable_client)
      | Some l \<Rightarrow>
          (case forward (Wrapper_Connect E now t) l of (l1, r1) \<Rightarrow>
             (case Client_StartCommunication started l1 of (l2, r2) \<Rightarrow>
                (let r = (if ar_Succeeded r1 \<and> \<not> ar_Succeeded r2 then r2 else r1);
                     a' = a\<lparr>ga_client := Some l2\<rparr> in
                 (if ar_Succeeded r then a'\<lparr>ga_initialized := True, ga_connected := True\<rparr> else MarkFailureIfNeeded r a',
                  ToStatus r)))))"

definition G1_Disconnect :: "time_ns \<Rightarrow> g1_adapter \<Rightarrow> g1_adapter \<times> status" where
  "G1_Disconnect t a =
     (case ga_client a of
        None \<Rightarrow> (a, ToStatus unavailable_client)
      | Some l \<Rightarrow>
          (case forward (Wrapper_Disconnect t) l of (l1, r) \<Rightarrow>
             (let a' = a\<lparr>ga_client := Some l1\<rparr> in
              (if ar_Succeeded r then a'\<lparr>ga_connected := False\<rparr> else MarkFailureIfNeeded r a', ToStatus r))))"

definition G1_Shutdown :: "time_ns \<Rightarrow> g1_adapter \<Rightarrow> g1_adapter \<times> status" where
  "G1_Shutdown t a =
     (case ga_client a of
        None \<Rightarrow> (a\<lparr>ga_initialized := False, ga_connected := False\<rparr>, ToStatus (Success ''Unitree adapter already shut down''))
      | Some l \<Rightarrow>
          (case forward (Wrapper_Shutdown t) l of (l1, r) \<Rightarrow>
             (a\<lparr>ga_client := Some l1, ga_initialized := False, ga_connected := False\<rparr>, ToStatus r)))"

text \<open>The common shape of the commands: no client is an error, a failure marks the adapter as disconnected.\<close>

definition client_command ::
  "(sdk_wrapper \<Rightarrow> sdk_wrapper \<times> sdk_result) \<Rightarrow> g1_adapter \<Rightarrow> g1_adapter \<times> adapter_result" where
  "client_command f a =
     (case ga_client a of
        None \<Rightarrow> (a, unavailable_client)
      | Some l \<Rightarrow> (case forward f l of (l1, r) \<Rightarrow> (MarkFailureIfNeeded r (a\<lparr>ga_client := Some l1\<rparr>), r)))"

definition G1_StandUp :: "sdk_env \<Rightarrow> time_ns \<Rightarrow> g1_adapter \<Rightarrow> g1_adapter \<times> adapter_result" where
  "G1_StandUp E t = client_command (Wrapper_StandUp E t)"

definition G1_Sit :: "sdk_env \<Rightarrow> time_ns \<Rightarrow> g1_adapter \<Rightarrow> g1_adapter \<times> adapter_result" where
  "G1_Sit E t = client_command (Wrapper_Sit E t)"

definition G1_BalanceStand :: "sdk_env \<Rightarrow> time_ns \<Rightarrow> g1_adapter \<Rightarrow> g1_adapter \<times> adapter_result" where
  "G1_BalanceStand E t = client_command (Wrapper_BalanceStand E t)"

definition G1_Stop :: "sdk_env \<Rightarrow> time_ns \<Rightarrow> g1_adapter \<Rightarrow> g1_adapter \<times> adapter_result" where
  "G1_Stop E t = client_command (Wrapper_Stop E t)"

fun fl_abs :: "fl \<Rightarrow> fl" where
  "fl_abs (Fin x) = Fin \<bar>x\<bar>"
| "fl_abs NegInf = PosInf"
| "fl_abs x = x"

definition IsValidVelocity :: "fl \<Rightarrow> fl \<Rightarrow> fl \<Rightarrow> bool" where
  "IsValidVelocity vx vy omega =
     (fl_isfinite vx \<and> fl_isfinite vy \<and> fl_isfinite omega \<and>
      fl_le (fl_abs vx) (Fin (3 / 2)) \<and> fl_le (fl_abs vy) (Fin (3 / 2)) \<and> fl_le (fl_abs omega) (Fin 2))"

definition G1_Move :: "sdk_env \<Rightarrow> time_ns \<Rightarrow> fl \<Rightarrow> fl \<Rightarrow> fl \<Rightarrow> g1_adapter \<Rightarrow> g1_adapter \<times> adapter_result" where
  "G1_Move E t vx vy omega a =
     (if \<not> IsValidVelocity vx vy omega then (a, Failure AE_Unknown ''velocity command is invalid or out of range'')
      else client_command (Wrapper_Move E t vx vy omega) a)"

definition G1_EmergencyStop :: "sdk_env \<Rightarrow> time_ns \<Rightarrow> g1_adapter \<Rightarrow> g1_adapter \<times> adapter_result" where
  "G1_EmergencyStop E t a =
     (case ga_client a of
        None \<Rightarrow> (a, unavailable_client)
      | Some l \<Rightarrow>
          (case forward (Wrapper_EmergencyStop E t) l of (l1, r) \<Rightarrow>
             (a\<lparr>ga_client := Some l1, ga_connected := False\<rparr>, r)))"

definition G1_GetRobotState :: "time_ns \<Rightarrow> g1_adapter \<Rightarrow> robot_state" where
  "G1_GetRobotState now a =
     default_robot_state\<lparr>connection := \<lparr>connected = ga_connected a\<rparr>,
       motion := (motion default_robot_state)\<lparr>robotMode := (if ga_initialized a then 1 else 0)\<rparr>,
       state_timestamp := now\<rparr>"

text \<open>The conversions \<open>static_cast<double>(int64_t)\<close> and \<open>static_cast<float>(double)\<close>.\<close>

record conversions =
  cv_double :: "int \<Rightarrow> fl"
  cv_float :: "fl \<Rightarrow> fl"

definition number :: "conversions \<Rightarrow> command \<Rightarrow> string \<Rightarrow> fl" where
  "number cv command key =
     (case map_of (cmd_payload command) key of
        Some (PV_Double d) \<Rightarrow> d
      | Some (PV_Int i) \<Rightarrow> cv_double cv i
      | _ \<Rightarrow> Fin 0)"

definition G1_ExecuteCommand ::
  "sdk_env \<Rightarrow> conversions \<Rightarrow> time_ns \<Rightarrow> command \<Rightarrow> g1_adapter \<Rightarrow> g1_adapter \<times> command_result" where
  "G1_ExecuteCommand E cv t command a =
     (let reply = (\<lambda>(a', r). (a', ToCommandResult r));
          arg = (\<lambda>key. cv_float cv (number cv command key)) in
      case cmd_type command of
        Type_Stand \<Rightarrow> reply (G1_StandUp E t a)
      | Type_Sit \<Rightarrow> reply (G1_Sit E t a)
      | Type_Walk \<Rightarrow> reply (G1_Move E t (arg ''linear_x'') (arg ''linear_y'') (arg ''angular_z'') a)
      | Type_Move \<Rightarrow> reply (G1_Move E t (arg ''linear_x'') (arg ''linear_y'') (arg ''angular_z'') a)
      | Type_Velocity \<Rightarrow> reply (G1_Move E t (arg ''linear_x'') (arg ''linear_y'') (arg ''angular_z'') a)
      | Type_Rotate \<Rightarrow> reply (G1_Move E t (Fin 0) (Fin 0) (arg ''angular_z'') a)
      | Type_Stop \<Rightarrow> reply (G1_Stop E t a)
      | Type_EmergencyStop \<Rightarrow> reply (G1_EmergencyStop E t a)
      | Type_Other _ \<Rightarrow> (a, Result Status_Rejected ''Unknown command type'')
      | _ \<Rightarrow> (a, Result Status_Rejected ''Command type is not supported by this Unitree factory adapter''))"

definition G1_Update :: "sdk_env \<Rightarrow> time_ns \<Rightarrow> time_ns \<Rightarrow> time_ns \<Rightarrow> g1_adapter \<Rightarrow> g1_adapter \<times> status" where
  "G1_Update E now t t' a =
     (case ga_client a of
        None \<Rightarrow> (a, Status_error kUnavailable ''Unitree SDK wrapper is unavailable'')
      | Some l \<Rightarrow> (case forward (SynchronizeState E now t t') l of (l1, r) \<Rightarrow> (a\<lparr>ga_client := Some l1\<rparr>, ToStatus r)))"

end
