(* ===== verification/Unitree_Props.thy ===== *)
theory Unitree_Props
  imports Unitree_Adapter
begin

text \<open>
  Properties of the Unitree adapter together with the SDK wrapper and the locomotion adapter below it. \<open>g1_reachable\<close> has
  a step for every operation of the adapter, for a round of the communication worker and for a message of the robot.
\<close>

section \<open>The history of calls\<close>

fun is_motion :: "sdk_call \<Rightarrow> bool" where
  "is_motion Call_StandUp = True"
| "is_motion Call_BalanceStand = True"
| "is_motion Call_Sit = True"
| "is_motion (Call_Move _ _ _) = True"
| "is_motion (Call_SetVelocity _ _ _) = True"
| "is_motion _ = False"

text \<open>
  Whether the link was up after the calls (latest first): the last query of the robot's state succeeded and neither
  an emergency stop nor a new initialization came after it.
\<close>

fun link_up :: "sdk_env \<Rightarrow> sdk_call list \<Rightarrow> bool" where
  "link_up E [] = False"
| "link_up E (Call_GetFsmId # cs) = (fst (env_client E (rev cs) Call_GetFsmId) = Returned 0)"
| "link_up E (Call_Damp # cs) = False"
| "link_up E (Call_Init _ _ _ # cs) = False"
| "link_up E (_ # cs) = link_up E cs"

fun guarded :: "sdk_env \<Rightarrow> sdk_call list \<Rightarrow> bool" where
  "guarded E [] = True"
| "guarded E (c # cs) = ((is_motion c \<longrightarrow> link_up E cs) \<and> guarded E cs)"

fun velocity_ok :: "sdk_call \<Rightarrow> bool" where
  "velocity_ok (Call_Move x y z) = IsValidVelocity x y z"
| "velocity_ok (Call_SetVelocity _ _ _) = False"
| "velocity_ok _ = True"

lemma guarded_at: "guarded E (rev (p @ c # q)) \<Longrightarrow> is_motion c \<Longrightarrow> link_up E (rev p)"
proof (induction q rule: rev_induct)
  case (snoc x q)
  then show ?case by (metis append_assoc append_Cons guarded.simps(2) rev.simps(2) rev_append rev_rev_ident append_Nil)
qed simp

section \<open>The locomotion adapter\<close>

definition loco_ok :: "sdk_env \<Rightarrow> loco_adapter \<Rightarrow> bool" where
  "loco_ok E a = (guarded E (rev (lo_calls a)) \<and> list_all velocity_ok (lo_calls a) \<and>
     (lo_connected a \<longrightarrow> lo_initialized a \<and> lo_client a \<and> link_up E (rev (lo_calls a))))"

lemma FromSdkReturn_Succeeded [simp]: "c \<noteq> SE_Success \<Longrightarrow> sd_Succeeded (FromSdkReturn r n c) = (r = 0)"
  by (simp add: FromSdkReturn_def)

lemma InvokeSdkCommand_Succeeded [simp]:
  "c \<noteq> SE_Success \<Longrightarrow> sd_Succeeded (InvokeSdkCommand n c ans) = (ans = Returned 0)"
  by (cases ans) (simp_all add: InvokeSdkCommand_def)

lemma Require_Succeeded [simp]:
  "sd_Succeeded (RequireInitialized n a) = (lo_initialized a \<and> lo_client a)"
  "sd_Succeeded (RequireConnected n a) = (lo_initialized a \<and> lo_client a \<and> lo_connected a)"
  by (auto simp: RequireInitialized_def RequireConnected_def)

lemmas loco_defs = loco_ok_def call_client_def Let_def

lemma Loco_Initialize_ok: "loco_ok E a \<Longrightarrow> loco_ok E (fst (Loco_Initialize E c a))"
  by (auto simp: Loco_Initialize_def loco_defs split: outcome.splits prod.splits)

lemma Loco_Shutdown_ok: "loco_ok E a \<Longrightarrow> loco_ok E (fst (Loco_Shutdown a))"
  by (simp add: Loco_Shutdown_def loco_defs)

lemma Loco_Disconnect_ok: "loco_ok E a \<Longrightarrow> loco_ok E (fst (Loco_Disconnect a))"
  by (simp add: Loco_Disconnect_def loco_defs)

lemma GetFsmId_ok: "GetFsmId E i a = (a', r, j) \<Longrightarrow> loco_ok E a \<Longrightarrow> loco_ok E a'"
  by (auto simp: GetFsmId_def loco_defs split: if_splits prod.splits)

lemma connected_command_ok:
  "is_motion c \<Longrightarrow> velocity_ok c \<Longrightarrow> loco_ok E a \<Longrightarrow> loco_ok E (fst (connected_command E n c a))"
  by (cases c) (auto simp: connected_command_def loco_defs split: prod.splits)

lemma Loco_motions_ok:
  assumes "loco_ok E a"
  shows "loco_ok E (fst (Loco_Stand E a))" "loco_ok E (fst (Loco_BalanceStand E a))" "loco_ok E (fst (Loco_Sit E a))"
  using assms by (simp_all add: Loco_Stand_def Loco_BalanceStand_def Loco_Sit_def connected_command_ok)

lemma Loco_Walk_ok:
  "IsValidVelocity (vc_linear_x v) (vc_linear_y v) (vc_angular_z v) \<Longrightarrow> loco_ok E a \<Longrightarrow> loco_ok E (fst (Loco_Walk E v a))"
  by (simp add: Loco_Walk_def connected_command_ok)

lemma Loco_Stop_ok: "loco_ok E a \<Longrightarrow> loco_ok E (fst (Loco_Stop E a))"
  by (auto simp: Loco_Stop_def loco_defs split: prod.splits)

lemma Loco_EmergencyStop_ok: "loco_ok E a \<Longrightarrow> loco_ok E (fst (Loco_EmergencyStop E a))"
  by (auto simp: Loco_EmergencyStop_def loco_defs split: prod.splits)

section \<open>The wrapper\<close>

definition wrapper_ok :: "sdk_env \<Rightarrow> sdk_wrapper \<Rightarrow> bool" where
  "wrapper_ok E w = (loco_ok E (sw_loco w) \<and> (sw_connected w \<longrightarrow> sw_initialized w))"

lemma sample_simps [simp]:
  "sw_loco (sample t i b f w) = sw_loco w" "sw_connected (sample t i b f w) = sw_connected w"
  "sw_initialized (sample t i b f w) = sw_initialized w" "sw_callback (sample t i b f w) = sw_callback w"
  "sw_published (sample t i b f w) = sw_published w" "sw_connection_state (sample t i b f w) = sw_connection_state w"
  by (simp_all add: sample_def)

lemma publish_latest_simps [simp]:
  "sw_loco (publish_latest w) = sw_loco w" "sw_connected (publish_latest w) = sw_connected w"
  "sw_initialized (publish_latest w) = sw_initialized w" "sw_callback (publish_latest w) = sw_callback w"
  "sw_latest_state (publish_latest w) = sw_latest_state w"
  by (simp_all add: publish_latest_def PublishStateUpdate_def)

lemma wrapper_publish [simp]: "wrapper_ok E (publish_latest w) = wrapper_ok E w"
  by (simp add: wrapper_ok_def)

lemma StopCommunication_simps [simp]:
  "sw_loco (fst (StopCommunication w)) = sw_loco w" "sw_connected (fst (StopCommunication w)) = sw_connected w"
  "sw_initialized (fst (StopCommunication w)) = sw_initialized w"
  by (simp_all add: StopCommunication_def StopCommunication_begin_def StopCommunication_end_def)

lemma Wrapper_Initialize_ok: "wrapper_ok E w \<Longrightarrow> wrapper_ok E (fst (Wrapper_Initialize E t b c w))"
  using Loco_Initialize_ok [of E "sw_loco w" c]
  by (auto simp: Wrapper_Initialize_def wrapper_ok_def split: prod.splits)

lemma Wrapper_Connect_ok: "wrapper_ok E w \<Longrightarrow> wrapper_ok E (fst (Wrapper_Connect E now t w))"
  by (auto simp: Wrapper_Connect_def Connect_section_def Let_def wrapper_ok_def dest: GetFsmId_ok split: prod.splits)

lemma Wrapper_Disconnect_ok: "wrapper_ok E w \<Longrightarrow> wrapper_ok E (fst (Wrapper_Disconnect t w))"
  by (simp add: Wrapper_Disconnect_def Disconnect_section_def wrapper_ok_def Loco_Disconnect_ok)

lemma Wrapper_Shutdown_ok: "wrapper_ok E w \<Longrightarrow> wrapper_ok E (fst (Wrapper_Shutdown t w))"
  by (simp add: Wrapper_Shutdown_def Shutdown_section_def wrapper_ok_def Loco_Shutdown_ok)

lemma StartCommunication_ok: "wrapper_ok E w \<Longrightarrow> wrapper_ok E (fst (StartCommunication s opts w))"
  by (auto simp: StartCommunication_def Let_def wrapper_ok_def split: outcome.splits)

lemma link_alive_simps [simp]:
  "sw_loco (link_alive now t i w) = sw_loco w" "sw_initialized (link_alive now t i w) = sw_initialized w"
  by (simp_all add: link_alive_def)

lemma reconnect_ok:
  "reconnect E now t b r w = (w', r') \<Longrightarrow> loco_ok E (sw_loco w) \<Longrightarrow> loco_ok E (sw_loco w') \<and> sw_initialized w' = sw_initialized w"
  by (auto simp: reconnect_def Let_def dest: GetFsmId_ok split: prod.splits if_splits)

lemma SynchronizeState_ok: "wrapper_ok E w \<Longrightarrow> wrapper_ok E (fst (SynchronizeState E now t t' w))"
proof -
  assume ok: "wrapper_ok E w"
  obtain lo r i where g: "GetFsmId E (- 1) (sw_loco w) = (lo, r, i)" by (cases "GetFsmId E (- 1) (sw_loco w)") auto
  have "loco_ok E lo" using GetFsmId_ok [OF g] ok by (simp add: wrapper_ok_def)
  then have "sw_initialized w \<Longrightarrow> loco_ok E (sw_loco (fst (SynchronizeState_section E now t t' w))) \<and>
      sw_initialized (fst (SynchronizeState_section E now t t' w))"
    by (auto simp: SynchronizeState_section_def Let_def g split: prod.splits if_splits dest!: reconnect_ok)
  with ok show ?thesis by (auto simp: SynchronizeState_def wrapper_ok_def split: prod.splits)
qed

lemma after_command_ok:
  "wrapper_ok E w \<Longrightarrow> loco_ok E (fst lr) \<Longrightarrow> wrapper_ok E (fst (after_command t m lr w))"
  by (auto simp: after_command_def Let_def wrapper_ok_def split: prod.splits)

lemma Wrapper_commands_ok:
  assumes "wrapper_ok E w"
  shows "wrapper_ok E (fst (Wrapper_StandUp E t w))" "wrapper_ok E (fst (Wrapper_Sit E t w))"
    "wrapper_ok E (fst (Wrapper_BalanceStand E t w))" "wrapper_ok E (fst (Wrapper_Stop E t w))"
    "IsValidVelocity x y z \<Longrightarrow> wrapper_ok E (fst (Wrapper_Move E t x y z w))"
proof -
  have lo: "loco_ok E (sw_loco w)" using assms by (simp add: wrapper_ok_def)
  show "wrapper_ok E (fst (Wrapper_StandUp E t w))" "wrapper_ok E (fst (Wrapper_Sit E t w))"
    "wrapper_ok E (fst (Wrapper_BalanceStand E t w))" "wrapper_ok E (fst (Wrapper_Stop E t w))"
    using assms lo
    by (simp_all add: Wrapper_StandUp_def Wrapper_Sit_def Wrapper_BalanceStand_def Wrapper_Stop_def after_command_ok
        Loco_motions_ok Loco_Stop_ok)
  show "wrapper_ok E (fst (Wrapper_Move E t x y z w))" if "IsValidVelocity x y z"
    using assms lo that by (simp add: Wrapper_Move_def after_command_ok Loco_Walk_ok)
qed

lemma Wrapper_EmergencyStop_ok: "wrapper_ok E w \<Longrightarrow> wrapper_ok E (fst (Wrapper_EmergencyStop E t w))"
  using Loco_EmergencyStop_ok [of E "sw_loco w"]
  by (auto simp: Wrapper_EmergencyStop_def wrapper_ok_def split: prod.splits)

lemma low_state_handler_ok: "wrapper_ok E w \<Longrightarrow> wrapper_ok E (low_state_handler t m w)"
  by (auto simp: low_state_handler_def wrapper_ok_def split: option.splits)

lemma SdkWrapper_create_ok: "wrapper_ok E SdkWrapper_create"
  by (simp add: wrapper_ok_def SdkWrapper_create_def loco_ok_def LocoAdapter_create_def)


section \<open>The adapter\<close>

inductive g1_reachable :: "sdk_env \<Rightarrow> g1_adapter \<Rightarrow> bool" for E where
  create: "client = None \<or> client = Some LocoClientWrapper_create \<Longrightarrow> g1_reachable E (UnitreeG1Adapter_create c client m)"
| Initialize: "g1_reachable E a \<Longrightarrow> g1_reachable E (fst (G1_Initialize E t b made a))"
| Connect: "g1_reachable E a \<Longrightarrow> g1_reachable E (fst (G1_Connect E now t started a))"
| Disconnect: "g1_reachable E a \<Longrightarrow> g1_reachable E (fst (G1_Disconnect t a))"
| Shutdown: "g1_reachable E a \<Longrightarrow> g1_reachable E (fst (G1_Shutdown t a))"
| BalanceStand: "g1_reachable E a \<Longrightarrow> g1_reachable E (fst (G1_BalanceStand E t a))"
| ExecuteCommand: "g1_reachable E a \<Longrightarrow> g1_reachable E (fst (G1_ExecuteCommand E cv t command a))"
| Update: "g1_reachable E a \<Longrightarrow> g1_reachable E (fst (G1_Update E now t t' a))"
| Worker: "g1_reachable E a \<Longrightarrow> ga_client a = Some l \<Longrightarrow> sw_communication_running (lc_wrapper l) \<Longrightarrow>
    RunCommunicationLoop_round E now t t' (lc_wrapper l) = Some w \<Longrightarrow>
    g1_reachable E (a\<lparr>ga_client := Some (l\<lparr>lc_wrapper := w\<rparr>)\<rparr>)"
| Message: "g1_reachable E a \<Longrightarrow> ga_client a = Some l \<Longrightarrow> sw_subscriber (lc_wrapper l) \<Longrightarrow>
    g1_reachable E (a\<lparr>ga_client := Some (l\<lparr>lc_wrapper := low_state_handler t msg (lc_wrapper l)\<rparr>)\<rparr>)"

definition g1_calls :: "g1_adapter \<Rightarrow> sdk_call list" where
  "g1_calls a = (case ga_client a of None \<Rightarrow> [] | Some l \<Rightarrow> lo_calls (sw_loco (lc_wrapper l)))"

definition client_ok :: "sdk_env \<Rightarrow> loco_client \<Rightarrow> bool" where
  "client_ok E l = wrapper_ok E (lc_wrapper l)"

definition g1_ok :: "sdk_env \<Rightarrow> g1_adapter \<Rightarrow> bool" where
  "g1_ok E a = (pred_option (client_ok E) (ga_client a) \<and> (ga_connected a \<longrightarrow> ga_initialized a \<and> ga_client a \<noteq> None))"

lemma forward_ok:
  assumes "forward f l = (l', r)" "client_ok E l" "\<And>w. wrapper_ok E w \<Longrightarrow> wrapper_ok E (fst (f w))"
  shows "client_ok E l'"
  using assms(1,2) assms(3) [of "lc_wrapper l"] by (auto simp: forward_def client_ok_def split: prod.splits)

lemma MarkFailure_ok: "g1_ok E a \<Longrightarrow> g1_ok E (MarkFailureIfNeeded r a)"
  by (simp add: MarkFailureIfNeeded_def g1_ok_def)

lemma g1_ok_client: "g1_ok E a \<Longrightarrow> client_ok E l \<Longrightarrow> g1_ok E (a\<lparr>ga_client := Some l\<rparr>)"
  by (simp add: g1_ok_def)

lemma client_command_ok:
  assumes "g1_ok E a" "\<And>w. wrapper_ok E w \<Longrightarrow> wrapper_ok E (fst (f w))"
  shows "g1_ok E (fst (client_command f a))"
proof (cases "ga_client a")
  case (Some l)
  obtain l' r where f: "forward f l = (l', r)" by (cases "forward f l")
  have "client_ok E l'" using forward_ok [OF f _ assms(2)] assms(1) Some by (simp add: g1_ok_def)
  with assms(1) show ?thesis by (simp add: client_command_def Some f MarkFailure_ok g1_ok_client)
qed (use assms in \<open>simp add: client_command_def\<close>)

lemma ensure_client_ok: "ensure_client made a = Inr l \<Longrightarrow> g1_ok E a \<Longrightarrow> client_ok E l"
  by (auto simp: ensure_client_def g1_ok_def client_ok_def LocoClientWrapper_create_def SdkWrapper_create_ok
      split: option.splits outcome.splits)

lemma G1_Initialize_ok:
  assumes ok: "g1_ok E a"
  shows "g1_ok E (fst (G1_Initialize E t b made a))"
proof (cases "ensure_client made a")
  case (Inl r)
  with ok show ?thesis by (simp add: G1_Initialize_def MarkFailure_ok)
next
  case (Inr l0)
  let ?l = "if ga_state_manager a then Client_SetRobotStateManager True l0 else l0"
  obtain l' r where f: "Client_Initialize E t b (ga_config a) ?l = (l', r)"
    by (cases "Client_Initialize E t b (ga_config a) ?l")
  have "client_ok E (?l\<lparr>lc_communication_timeout := rc_timeout (ga_config a)\<rparr>)"
    using ensure_client_ok [OF Inr ok]
    by (simp add: client_ok_def Client_SetRobotStateManager_def SetStateUpdateCallback_def wrapper_ok_def)
  then have "client_ok E l'"
    using forward_ok [OF f [unfolded Client_Initialize_def] _ Wrapper_Initialize_ok] by blast
  with ok show ?thesis
    by (simp add: G1_Initialize_def Inr f Let_def g1_ok_def MarkFailureIfNeeded_def)
qed

lemma G1_Connect_ok:
  assumes "g1_ok E a"
  shows "g1_ok E (fst (G1_Connect E now t started a))"
proof (cases "ga_client a")
  case (Some l)
  obtain l1 r1 where f1: "forward (Wrapper_Connect E now t) l = (l1, r1)" by (cases "forward (Wrapper_Connect E now t) l")
  obtain l2 r2 where f2: "Client_StartCommunication started l1 = (l2, r2)" by (cases "Client_StartCommunication started l1")
  have "client_ok E l1" using forward_ok [OF f1 _ Wrapper_Connect_ok] assms Some by (simp add: g1_ok_def)
  then have "client_ok E l2"
    using forward_ok [OF f2 [unfolded Client_StartCommunication_def Let_def] _ StartCommunication_ok] by simp
  with assms show ?thesis
    by (auto simp: G1_Connect_def Some f1 f2 Let_def g1_ok_def MarkFailureIfNeeded_def)
qed (use assms in \<open>simp add: G1_Connect_def\<close>)

lemma G1_ends_ok:
  assumes "g1_ok E a"
  shows "g1_ok E (fst (G1_Disconnect t a))" "g1_ok E (fst (G1_Shutdown t a))" "g1_ok E (fst (G1_Update E now t t' a))"
    "g1_ok E (fst (G1_EmergencyStop E t a))"
  using assms forward_ok [where E = E, OF _ _ Wrapper_Disconnect_ok] forward_ok [where E = E, OF _ _ Wrapper_Shutdown_ok]
    forward_ok [where E = E, OF _ _ SynchronizeState_ok] forward_ok [where E = E, OF _ _ Wrapper_EmergencyStop_ok]
  by (auto simp: G1_Disconnect_def G1_Shutdown_def G1_Update_def G1_EmergencyStop_def g1_ok_def MarkFailureIfNeeded_def Let_def
      split: option.splits prod.splits)

lemma G1_Move_ok: "g1_ok E a \<Longrightarrow> g1_ok E (fst (G1_Move E t x y z a))"
  by (simp add: G1_Move_def client_command_ok Wrapper_commands_ok)

lemma G1_ExecuteCommand_ok: "g1_ok E a \<Longrightarrow> g1_ok E (fst (G1_ExecuteCommand E cv t command a))"
  using G1_Move_ok [of E a] G1_ends_ok(4) [of E a] client_command_ok [of E a]
  by (auto simp: G1_ExecuteCommand_def Let_def G1_StandUp_def G1_Sit_def G1_Stop_def Wrapper_commands_ok
      split: command_type.split prod.splits) (metis fst_conv Wrapper_commands_ok)+

lemma g1_reachable_ok: "g1_reachable E a \<Longrightarrow> g1_ok E a"
proof (induction rule: g1_reachable.induct)
  case (create client c m)
  then show ?case
    by (auto simp: g1_ok_def UnitreeG1Adapter_create_def client_ok_def LocoClientWrapper_create_def SdkWrapper_create_ok)
next
  case (BalanceStand a t)
  then show ?case by (simp add: G1_BalanceStand_def client_command_ok Wrapper_commands_ok)
next
  case (Worker a l now t t' w)
  then have "client_ok E l" by (simp add: g1_ok_def)
  with Worker have "wrapper_ok E w"
    by (auto simp: RunCommunicationLoop_round_def client_ok_def SynchronizeState_ok split: if_splits)
  with Worker.IH show ?case by (simp add: g1_ok_def client_ok_def)
next
  case (Message a l t msg)
  then show ?case by (simp add: g1_ok_def client_ok_def low_state_handler_ok)
qed (simp_all add: G1_Initialize_ok G1_Connect_ok G1_ends_ok G1_ExecuteCommand_ok)

end
