(* ===== verification/Unitree_Safety.thy ===== *)
theory Unitree_Safety
  imports Unitree_Props
begin

text \<open>
  The properties of the Unitree adapter: which calls reach the robot, what a completed command means, which addresses
  are accepted, and two behaviours of the SDK wrapper that its callers do not expect.
\<close>

section \<open>What a command calls\<close>

text \<open>The calls are answered with success, each from the history before it.\<close>

fun answered :: "sdk_env \<Rightarrow> sdk_call list \<Rightarrow> sdk_call list \<Rightarrow> bool" where
  "answered E h [] = True"
| "answered E h (c # cs) = (fst (env_client E h c) = Returned 0 \<and> answered E (h @ [c]) cs)"

definition wrapper_calls :: "sdk_wrapper \<Rightarrow> sdk_call list" where
  "wrapper_calls w = lo_calls (sw_loco w)"

text \<open>The operation makes the calls or none, and succeeds exactly when it made them and all were answered with success.\<close>

definition performs :: "sdk_env \<Rightarrow> (sdk_wrapper \<Rightarrow> sdk_wrapper \<times> sdk_result) \<Rightarrow> sdk_call list \<Rightarrow> bool" where
  "performs E f cs = (\<forall>w. (wrapper_calls (fst (f w)) = wrapper_calls w \<or> wrapper_calls (fst (f w)) = wrapper_calls w @ cs) \<and>
     (sd_Succeeded (snd (f w)) \<longleftrightarrow> wrapper_calls (fst (f w)) = wrapper_calls w @ cs \<and> answered E (wrapper_calls w) cs))"

lemma connected_command_performs:
  "lo_calls (fst (connected_command E n c a)) = lo_calls a \<or> lo_calls (fst (connected_command E n c a)) = lo_calls a @ [c]"
  "sd_Succeeded (snd (connected_command E n c a)) \<longleftrightarrow>
     lo_calls (fst (connected_command E n c a)) = lo_calls a @ [c] \<and> fst (env_client E (lo_calls a) c) = Returned 0"
  by (auto simp: connected_command_def call_client_def RequireConnected_def split: prod.splits)

lemma after_command_simps [simp]:
  "wrapper_calls (fst (after_command t m lr w)) = lo_calls (fst lr)" "snd (after_command t m lr w) = snd lr"
  by (simp_all add: after_command_def Let_def wrapper_calls_def split: prod.splits)

lemma motion_performs:
  assumes "\<And>w. f w = (if \<not> sw_initialized w \<or> \<not> sw_connected w then (w, not_connected)
      else after_command t m (connected_command E n c (sw_loco w)) w)"
  shows "performs E f [c]"
  unfolding performs_def assms
proof (intro allI)
  fix w :: sdk_wrapper
  show "(wrapper_calls (fst (if \<not> sw_initialized w \<or> \<not> sw_connected w then (w, not_connected)
          else after_command t m (connected_command E n c (sw_loco w)) w)) = wrapper_calls w \<or>
        wrapper_calls (fst (if \<not> sw_initialized w \<or> \<not> sw_connected w then (w, not_connected)
          else after_command t m (connected_command E n c (sw_loco w)) w)) = wrapper_calls w @ [c]) \<and>
      (sd_Succeeded (snd (if \<not> sw_initialized w \<or> \<not> sw_connected w then (w, not_connected)
          else after_command t m (connected_command E n c (sw_loco w)) w)) \<longleftrightarrow>
        wrapper_calls (fst (if \<not> sw_initialized w \<or> \<not> sw_connected w then (w, not_connected)
          else after_command t m (connected_command E n c (sw_loco w)) w)) = wrapper_calls w @ [c] \<and>
        answered E (wrapper_calls w) [c])"
    using connected_command_performs [of E n c "sw_loco w"]
    by (auto simp: not_connected_def wrapper_calls_def [of w])
qed

lemma wrapper_motions_perform:
  "performs E (Wrapper_StandUp E t) [Call_StandUp]" "performs E (Wrapper_Sit E t) [Call_Sit]"
  "performs E (Wrapper_BalanceStand E t) [Call_BalanceStand]"
  by (rule motion_performs [where t = t and m = MM_Standing and n = "''Stand''"], simp add: Wrapper_StandUp_def Loco_Stand_def)
    (rule motion_performs [where t = t and m = MM_Sitting and n = "''Sit''"], simp add: Wrapper_Sit_def Loco_Sit_def,
     rule motion_performs [where t = t and m = MM_Standing and n = "''BalanceStand''"],
     simp add: Wrapper_BalanceStand_def Loco_BalanceStand_def)

lemma Wrapper_Move_performs:
  assumes "IsValidVelocity x y z"
  shows "performs E (Wrapper_Move E t x y z) [Call_Move x y z]"
  using assms
  by (intro motion_performs [where t = t and m = MM_Walking and n = "''Walk''"])
    (simp add: Wrapper_Move_def Loco_Walk_def velocity_IsFinite_def IsValidVelocity_def)

lemma Loco_Stop_performs:
  "lo_calls (fst (Loco_Stop E a)) = lo_calls a \<or> lo_calls (fst (Loco_Stop E a)) = lo_calls a @ [Call_StopMove]"
  "sd_Succeeded (snd (Loco_Stop E a)) \<longleftrightarrow>
     lo_calls (fst (Loco_Stop E a)) = lo_calls a @ [Call_StopMove] \<and> fst (env_client E (lo_calls a) Call_StopMove) = Returned 0"
  by (auto simp: Loco_Stop_def call_client_def RequireInitialized_def split: prod.splits)

lemma Wrapper_Stop_performs: "performs E (Wrapper_Stop E t) [Call_StopMove]"
  unfolding performs_def
proof (intro allI)
  fix w :: sdk_wrapper
  show "(wrapper_calls (fst (Wrapper_Stop E t w)) = wrapper_calls w \<or>
        wrapper_calls (fst (Wrapper_Stop E t w)) = wrapper_calls w @ [Call_StopMove]) \<and>
      (sd_Succeeded (snd (Wrapper_Stop E t w)) \<longleftrightarrow>
        wrapper_calls (fst (Wrapper_Stop E t w)) = wrapper_calls w @ [Call_StopMove] \<and>
        answered E (wrapper_calls w) [Call_StopMove])"
    using Loco_Stop_performs [of E "sw_loco w"] by (auto simp: Wrapper_Stop_def wrapper_calls_def [of w])
qed

lemma Loco_EmergencyStop_performs:
  "lo_calls (fst (Loco_EmergencyStop E a)) = lo_calls a \<or>
   lo_calls (fst (Loco_EmergencyStop E a)) = lo_calls a @ [Call_StopMove, Call_Damp]"
  "sd_Succeeded (snd (Loco_EmergencyStop E a)) \<longleftrightarrow>
     lo_calls (fst (Loco_EmergencyStop E a)) = lo_calls a @ [Call_StopMove, Call_Damp] \<and>
     answered E (lo_calls a) [Call_StopMove, Call_Damp]"
  by (auto simp: Loco_EmergencyStop_def call_client_def RequireInitialized_def Let_def split: prod.splits)

lemma Wrapper_EmergencyStop_performs: "performs E (Wrapper_EmergencyStop E t) [Call_StopMove, Call_Damp]"
  unfolding performs_def
proof (intro allI)
  fix w :: sdk_wrapper
  obtain lo r where lo: "Loco_EmergencyStop E (sw_loco w) = (lo, r)" by (cases "Loco_EmergencyStop E (sw_loco w)")
  show "(wrapper_calls (fst (Wrapper_EmergencyStop E t w)) = wrapper_calls w \<or>
        wrapper_calls (fst (Wrapper_EmergencyStop E t w)) = wrapper_calls w @ [Call_StopMove, Call_Damp]) \<and>
      (sd_Succeeded (snd (Wrapper_EmergencyStop E t w)) \<longleftrightarrow>
        wrapper_calls (fst (Wrapper_EmergencyStop E t w)) = wrapper_calls w @ [Call_StopMove, Call_Damp] \<and>
        answered E (wrapper_calls w) [Call_StopMove, Call_Damp])"
    using Loco_EmergencyStop_performs [of E "sw_loco w"]
    by (auto simp: Wrapper_EmergencyStop_def lo wrapper_calls_def)
qed

definition command_calls :: "conversions \<Rightarrow> command \<Rightarrow> sdk_call list" where
  "command_calls cv command =
     (let arg = (\<lambda>key. cv_float cv (number cv command key)) in
      if cmd_type command = Type_Stand then [Call_StandUp]
      else if cmd_type command = Type_Sit then [Call_Sit]
      else if cmd_type command \<in> {Type_Walk, Type_Move, Type_Velocity} then
        [Call_Move (arg ''linear_x'') (arg ''linear_y'') (arg ''angular_z'')]
      else if cmd_type command = Type_Rotate then [Call_Move (Fin 0) (Fin 0) (arg ''angular_z'')]
      else if cmd_type command = Type_Stop then [Call_StopMove]
      else if cmd_type command = Type_EmergencyStop then [Call_StopMove, Call_Damp]
      else [])"

text \<open>The same contract for a command of the adapter.\<close>

definition executes :: "sdk_env \<Rightarrow> g1_adapter \<Rightarrow> g1_adapter \<times> command_result \<Rightarrow> sdk_call list \<Rightarrow> bool" where
  "executes E a ar cs = ((g1_calls (fst ar) = g1_calls a \<or> g1_calls (fst ar) = g1_calls a @ cs) \<and>
     (res_status (snd ar) = Status_Completed \<longleftrightarrow>
        cs \<noteq> [] \<and> g1_calls (fst ar) = g1_calls a @ cs \<and> answered E (g1_calls a) cs))"

lemma ToAdapterResult_Succeeded [simp]: "ar_Succeeded (ToAdapterResult r) = sd_Succeeded r"
  by (cases "sd_code r") (simp_all add: ar_Succeeded_def ToAdapterResult_def sd_Succeeded_def)

lemma ToCommandResult_Completed [simp]: "(res_status (ToCommandResult r) = Status_Completed) = ar_Succeeded r"
  by (simp add: ToCommandResult_def)

lemma g1_calls_client [simp]: "g1_calls (a\<lparr>ga_client := Some l\<rparr>) = wrapper_calls (lc_wrapper l)"
  "g1_calls (a\<lparr>ga_connected := b\<rparr>) = g1_calls a"
  by (simp_all add: g1_calls_def wrapper_calls_def)

lemma g1_calls_mark [simp]: "g1_calls (MarkFailureIfNeeded r a) = g1_calls a"
  by (simp add: MarkFailureIfNeeded_def)

lemma client_command_executes:
  assumes "performs E f cs" "cs \<noteq> []"
  shows "executes E a (case client_command f a of (a', r) \<Rightarrow> (a', ToCommandResult r)) cs"
proof (cases "ga_client a")
  case None
  then show ?thesis using assms
    by (simp add: client_command_def executes_def unavailable_client_def Failure_def ar_Succeeded_def)
next
  case (Some l)
  have h: "g1_calls a = wrapper_calls (lc_wrapper l)" by (simp add: g1_calls_def Some wrapper_calls_def)
  obtain w r where f: "f (lc_wrapper l) = (w, r)" by (cases "f (lc_wrapper l)")
  have "(wrapper_calls w = g1_calls a \<or> wrapper_calls w = g1_calls a @ cs) \<and>
     (sd_Succeeded r \<longleftrightarrow> wrapper_calls w = g1_calls a @ cs \<and> answered E (g1_calls a) cs)"
    using assms(1) [unfolded performs_def, THEN spec, of "lc_wrapper l"] by (simp add: f h)
  then show ?thesis using assms(2) by (simp add: client_command_def executes_def Some forward_def f)
qed

lemma G1_EmergencyStop_executes:
  "executes E a (case G1_EmergencyStop E t a of (a', r) \<Rightarrow> (a', ToCommandResult r)) [Call_StopMove, Call_Damp]"
proof (cases "ga_client a")
  case None
  then show ?thesis
    by (simp add: G1_EmergencyStop_def executes_def unavailable_client_def Failure_def ar_Succeeded_def)
next
  case (Some l)
  have h: "g1_calls a = wrapper_calls (lc_wrapper l)" by (simp add: g1_calls_def Some wrapper_calls_def)
  obtain w r where f: "Wrapper_EmergencyStop E t (lc_wrapper l) = (w, r)" by (cases "Wrapper_EmergencyStop E t (lc_wrapper l)")
  show ?thesis
    using Wrapper_EmergencyStop_performs [of E t, unfolded performs_def, THEN spec, of "lc_wrapper l"]
    by (simp add: G1_EmergencyStop_def executes_def Some forward_def f h)
qed

lemma G1_Move_executes:
  "executes E a (case G1_Move E t x y z a of (a', r) \<Rightarrow> (a', ToCommandResult r)) [Call_Move x y z]"
proof (cases "IsValidVelocity x y z")
  case True
  then show ?thesis using client_command_executes [OF Wrapper_Move_performs [OF True]] by (simp add: G1_Move_def)
next
  case False
  then show ?thesis by (simp add: G1_Move_def executes_def Failure_def ar_Succeeded_def)
qed

text \<open>
  \<open>ExecuteCommand\<close> either makes no call on the robot's client or exactly the calls that the type and the payload of
  the command name, and it answers Completed exactly when it made them and the client answered every one of them with
  success; a type the adapter does not support is never completed.
\<close>

theorem execute_completed_exact:
  "executes E a (G1_ExecuteCommand E cv t command a) (command_calls cv command)"
proof -
  let ?reply = "\<lambda>(a', r). (a', ToCommandResult r)"
  have "executes E a (?reply (G1_StandUp E t a)) [Call_StandUp]" "executes E a (?reply (G1_Sit E t a)) [Call_Sit]"
    "executes E a (?reply (G1_Stop E t a)) [Call_StopMove]"
    using client_command_executes [OF wrapper_motions_perform(1)] client_command_executes [OF wrapper_motions_perform(2)]
      client_command_executes [OF Wrapper_Stop_performs]
    by (simp_all add: G1_StandUp_def G1_Sit_def G1_Stop_def)
  moreover have "executes E a (a, Result Status_Rejected m) []" for m by (simp add: executes_def)
  ultimately show ?thesis
    using G1_Move_executes G1_EmergencyStop_executes
    by (cases "cmd_type command") (simp_all add: G1_ExecuteCommand_def command_calls_def Let_def)
qed

text \<open>
  C30. In every reachable state of the adapter, with its worker and the messages of the robot interleaved, each motion the
  robot was ever told to make came while the last query of the robot had succeeded and no emergency stop had come after
  it, and every velocity it was sent is finite and within the limits of the adapter; an adapter that says it is
  connected has been initialized.
\<close>

theorem motion_guarded:
  assumes "g1_reachable E a" and "g1_calls a = p @ c # q"
  shows "(is_motion c \<longrightarrow> link_up E (rev p)) \<and> velocity_ok c \<and> (ga_connected a \<longrightarrow> ga_initialized a)"
proof -
  have ok: "g1_ok E a" by (rule g1_reachable_ok [OF assms(1)])
  from assms(2) obtain l where l: "ga_client a = Some l" by (cases "ga_client a") (auto simp: g1_calls_def)
  then have "loco_ok E (sw_loco (lc_wrapper l))" using ok by (simp add: g1_ok_def client_ok_def wrapper_ok_def)
  moreover have "lo_calls (sw_loco (lc_wrapper l)) = p @ c # q" using assms(2) l by (simp add: g1_calls_def)
  ultimately show ?thesis
    using guarded_at [of E p c q] ok by (auto simp: loco_ok_def g1_ok_def)
qed

section \<open>An answering robot\<close>

definition healthy_env :: sdk_env where
  "healthy_env = \<lparr>env_client = (\<lambda>_ _. (Returned 0, 1)), env_interface_exists = (\<lambda>_. True), env_netlink = True\<rparr>"

definition g1_config :: robot_config where
  "g1_config = \<lparr>rc_vendor = ''Unitree'', rc_model = ''G1'', rc_ip = ''10.0.0.7'', rc_network_interface = ''eth0'',
     rc_domain_id = 0, rc_timeout = 500, rc_serial_number = [], rc_firmware = []\<rparr>"


text \<open>The adapter after \<open>Initialize\<close> and \<open>Connect\<close>.\<close>

definition g1_connected :: g1_adapter where
  "g1_connected = fst (G1_Connect healthy_env 10 11 (Returned ()) (fst (G1_Initialize healthy_env 1 True (Returned ())
     (UnitreeG1Adapter_create g1_config None True))))"

definition stand_command :: command where
  "stand_command = \<lparr>cmd_id = 1, cmd_timestamp = 0, cmd_type = Type_Stand, cmd_priority = Priority_Normal, cmd_timeout = 0,
     cmd_payload = [], cmd_metadata = []\<rparr>"

definition exact_conversions :: conversions where
  "exact_conversions = \<lparr>cv_double = (\<lambda>i. Fin (of_int i)), cv_float = (\<lambda>x. x)\<rparr>"

lemma g1_connected_reachable: "g1_reachable healthy_env g1_connected"
  unfolding g1_connected_def by (intro g1_reachable.Connect g1_reachable.Initialize g1_reachable.create) simp

lemma healthy_client [simp]: "env_client healthy_env h c = (Returned 0, 1)"
  by (simp add: healthy_env_def)

lemma g1_config_valid: "ar_Succeeded (ValidateConfig g1_config)"
proof -
  have "IsValidIpv4Address ''10.0.0.7''" by code_simp
  then show ?thesis by (simp add: ValidateConfig_def g1_config_def Success_def ar_Succeeded_def)
qed

lemma healthy_Loco_Initialize:
  "Loco_Initialize healthy_env (ToSdkConfiguration g1_config) LocoAdapter_create =
     (\<lparr>lo_client = True, lo_initialized = True, lo_connected = False, lo_calls = [Call_Init 0 ''eth0'' 500]\<rparr>,
      sdk_Success ''Unitree locomotion adapter initialized'')"
  by (simp add: Loco_Initialize_def LocoAdapter_create_def ValidateSdkConfiguration_def ToSdkConfiguration_def
      g1_config_def call_client_def) (simp add: healthy_env_def)

lemma healthy_GetFsmId:
  "lo_initialized a \<Longrightarrow> lo_client a \<Longrightarrow> GetFsmId healthy_env i a =
     (a\<lparr>lo_calls := lo_calls a @ [Call_GetFsmId], lo_connected := True\<rparr>, sdk_Success ''GetFsmId succeeded'', 1)"
  by (simp add: GetFsmId_def call_client_def InvokeSdkCommand_def FromSdkReturn_def)

lemma healthy_connected_command:
  "lo_initialized a \<Longrightarrow> lo_client a \<Longrightarrow> lo_connected a \<Longrightarrow> connected_command healthy_env n c a =
     (a\<lparr>lo_calls := lo_calls a @ [c]\<rparr>, sdk_Success (n @ '' succeeded''))"
  by (simp add: connected_command_def call_client_def InvokeSdkCommand_def FromSdkReturn_def)

lemma g1_connected_client:
  "\<exists>l. ga_client g1_connected = Some l \<and> sw_initialized (lc_wrapper l) \<and> sw_connected (lc_wrapper l) \<and>
     sw_callback (lc_wrapper l) \<and> sw_communication_running (lc_wrapper l) \<and> sw_thread (lc_wrapper l) \<and>
     \<not> sw_stop_communication_requested (lc_wrapper l) \<and>
     sw_loco (lc_wrapper l) = \<lparr>lo_client = True, lo_initialized = True, lo_connected = True,
       lo_calls = [Call_Init 0 ''eth0'' 500, Call_GetFsmId]\<rparr>"
proof -
  define a1 where "a1 = fst (G1_Initialize healthy_env 1 True (Returned ()) (UnitreeG1Adapter_create g1_config None True))"
  obtain l1 where l1: "ga_client a1 = Some l1" "sw_initialized (lc_wrapper l1)" "sw_callback (lc_wrapper l1)"
    "\<not> sw_communication_running (lc_wrapper l1)"
    "sw_loco (lc_wrapper l1) = \<lparr>lo_client = True, lo_initialized = True, lo_connected = False, lo_calls = [Call_Init 0 ''eth0'' 500]\<rparr>"
    by (simp add: a1_def G1_Initialize_def UnitreeG1Adapter_create_def g1_config_valid ensure_client_def
        Client_Initialize_def Client_SetRobotStateManager_def SetStateUpdateCallback_def forward_def Let_def
        LocoClientWrapper_create_def SdkWrapper_create_def Wrapper_Initialize_def healthy_Loco_Initialize sample_def
        MarkFailureIfNeeded_def)
  have g: "g1_connected = fst (G1_Connect healthy_env 10 11 (Returned ()) a1)" by (simp add: g1_connected_def a1_def)
  show ?thesis
    using l1(2-5)
    by (simp add: g G1_Connect_def l1(1) forward_def Wrapper_Connect_def Connect_section_def healthy_GetFsmId
        Client_StartCommunication_def StartCommunication_def Let_def sample_def publish_latest_def PublishStateUpdate_def
        MarkFailureIfNeeded_def)
qed

lemma g1_stand_calls:
  "g1_calls (fst (G1_ExecuteCommand healthy_env exact_conversions 12 stand_command g1_connected)) =
     [Call_Init 0 ''eth0'' 500, Call_GetFsmId] @ Call_StandUp # []"
proof -
  obtain l where l: "ga_client g1_connected = Some l" "sw_initialized (lc_wrapper l)" "sw_connected (lc_wrapper l)"
    "sw_loco (lc_wrapper l) = \<lparr>lo_client = True, lo_initialized = True, lo_connected = True,
       lo_calls = [Call_Init 0 ''eth0'' 500, Call_GetFsmId]\<rparr>"
    using g1_connected_client by blast
  then show ?thesis
    by (simp add: G1_ExecuteCommand_def stand_command_def G1_StandUp_def client_command_def forward_def Wrapper_StandUp_def
        Loco_Stand_def healthy_connected_command after_command_def Let_def wrapper_calls_def)
qed

theorem motion_guarded_witness:
  "link_up healthy_env (rev [Call_Init 0 ''eth0'' 500, Call_GetFsmId]) \<and> velocity_ok Call_StandUp"
  using motion_guarded [OF g1_reachable.ExecuteCommand [OF g1_connected_reachable] g1_stand_calls] by simp

section \<open>Addresses\<close>

fun dotted :: "string list \<Rightarrow> string" where
  "dotted [] = []"
| "dotted [t] = t"
| "dotted (t # ts) = t @ CHR ''.'' # dotted ts"

lemma getline_tokens_step:
  "CHR ''.'' \<notin> set t \<Longrightarrow> getline_tokens (CHR ''.'') (t @ CHR ''.'' # rest) = t # getline_tokens (CHR ''.'') rest"
proof (cases "t @ CHR ''.'' # rest")
  case (Cons c cs)
  assume t: "CHR ''.'' \<notin> set t"
  then have "dropWhile (\<lambda>x. x \<noteq> CHR ''.'') (t @ CHR ''.'' # rest) = CHR ''.'' # rest"
    "takeWhile (\<lambda>x. x \<noteq> CHR ''.'') (t @ CHR ''.'' # rest) = t"
    by (induction t) auto
  then show ?thesis unfolding Cons by simp
qed simp

lemma getline_tokens_last: "CHR ''.'' \<notin> set t \<Longrightarrow> t \<noteq> [] \<Longrightarrow> getline_tokens (CHR ''.'') t = [t]"
proof (cases t)
  case (Cons c cs)
  assume "CHR ''.'' \<notin> set t"
  then have "dropWhile (\<lambda>x. x \<noteq> CHR ''.'') (c # cs) = []" by (auto simp: Cons dropWhile_eq_Nil_conv)
  then show ?thesis by (simp add: Cons)
qed simp

lemma getline_tokens_dotted:
  assumes "\<forall>t \<in> set ts. t \<noteq> [] \<and> CHR ''.'' \<notin> set t"
  shows "getline_tokens (CHR ''.'') (dotted ts) = ts"
    and "ts \<noteq> [] \<Longrightarrow> getline_tokens (CHR ''.'') (dotted ts @ ''.'') = ts"
  using assms
proof (induction ts rule: dotted.induct)
  case (2 t)
  case 1
  with 2 show ?case by (simp add: getline_tokens_last)
next
  case (2 t)
  case 2
  then show ?case using getline_tokens_step [of t "[]"] by simp
next
  case (3 t u ts)
  case 1
  with 3 show ?case by (simp add: getline_tokens_step)
next
  case (3 t u ts)
  case 2
  with 3 show ?case by (simp add: getline_tokens_step)
qed simp_all

lemma dotted_getline_tokens:
  "s \<noteq> [] \<Longrightarrow> getline_tokens (CHR ''.'') s \<noteq> [] \<and>
     (s = dotted (getline_tokens (CHR ''.'') s) \<or> s = dotted (getline_tokens (CHR ''.'') s) @ ''.'')"
proof (induction "CHR ''.''" s rule: getline_tokens.induct)
  case (2 c cs)
  let ?s = "c # cs"
  show ?case
  proof (cases "dropWhile (\<lambda>x. x \<noteq> CHR ''.'') ?s")
    case Nil
    then show ?thesis by simp
  next
    case (Cons y rest)
    have y: "y = CHR ''.''" using hd_dropWhile [of "\<lambda>x. x \<noteq> CHR ''.''" ?s] Cons by simp
    define tw where "tw = takeWhile (\<lambda>x. x \<noteq> CHR ''.'') ?s"
    have s: "?s = tw @ CHR ''.'' # rest"
      using takeWhile_dropWhile_id [of "\<lambda>x. x \<noteq> CHR ''.''" ?s] Cons y by (simp add: tw_def)
    have tok: "getline_tokens (CHR ''.'') ?s = tw # getline_tokens (CHR ''.'') rest"
      using Cons by (simp add: tw_def)
    show ?thesis
    proof (cases "rest = []")
      case True
      then show ?thesis unfolding tok using s by (simp only: getline_tokens.simps dotted.simps) simp
    next
      case False
      then have ih: "getline_tokens (CHR ''.'') rest \<noteq> [] \<and> (rest = dotted (getline_tokens (CHR ''.'') rest) \<or>
          rest = dotted (getline_tokens (CHR ''.'') rest) @ ''.'')"
        using 2 Cons by blast
      then obtain u us where u: "getline_tokens (CHR ''.'') rest = u # us" by (cases "getline_tokens (CHR ''.'') rest") auto
      have "tw @ CHR ''.'' # rest = dotted (tw # u # us) \<or> tw @ CHR ''.'' # rest = dotted (tw # u # us) @ ''.''"
        using ih u by auto
      then show ?thesis unfolding tok u using s by simp
    qed
  qed
qed simp

lemma octet_token: "ParseIpv4Octet t \<Longrightarrow> t \<noteq> [] \<and> CHR ''.'' \<notin> set t"
  by (auto simp: ParseIpv4Octet_def IsDigits_def is_digit_def list_all_iff split: if_splits)

lemma count_octets_iff: "count_octets ts n = Some k \<longleftrightarrow> list_all ParseIpv4Octet ts \<and> k = n + length ts"
  by (induction ts arbitrary: n) auto

text \<open>
  An address is accepted exactly when it is four octets, each a nonempty run of digits with a value of at most 255,
  joined by single dots, or such a text followed by one more dot.
\<close>

theorem ipv4_exact:
  "IsValidIpv4Address s \<longleftrightarrow>
     (\<exists>ts. length ts = 4 \<and> list_all ParseIpv4Octet ts \<and> (s = dotted ts \<or> s = dotted ts @ ''.''))"
proof
  assume "IsValidIpv4Address s"
  then have t: "length (getline_tokens (CHR ''.'') s) = 4" "list_all ParseIpv4Octet (getline_tokens (CHR ''.'') s)"
    by (auto simp: IsValidIpv4Address_def count_octets_iff split: option.splits)
  then have "s \<noteq> []" by auto
  with t dotted_getline_tokens [of s]
  show "\<exists>ts. length ts = 4 \<and> list_all ParseIpv4Octet ts \<and> (s = dotted ts \<or> s = dotted ts @ ''.'')" by blast
next
  assume "\<exists>ts. length ts = 4 \<and> list_all ParseIpv4Octet ts \<and> (s = dotted ts \<or> s = dotted ts @ ''.'')"
  then obtain ts where ts: "length ts = 4" "list_all ParseIpv4Octet ts" "s = dotted ts \<or> s = dotted ts @ ''.''" by blast
  then have "\<forall>t \<in> set ts. t \<noteq> [] \<and> CHR ''.'' \<notin> set t" using octet_token by (auto simp: list_all_iff)
  moreover have "ts \<noteq> []" using ts(1) by auto
  ultimately have "getline_tokens (CHR ''.'') s = ts" using ts(3) getline_tokens_dotted [of ts] by blast
  with ts have "count_octets (getline_tokens (CHR ''.'') s) 0 = Some 4" by (simp add: count_octets_iff)
  then show "IsValidIpv4Address s" by (simp add: IsValidIpv4Address_def)
qed


section \<open>Emergency stop and communication\<close>

lemma estop_then_heartbeat:
  assumes "sw_initialized w" and "sw_callback w" and "lo_initialized (sw_loco w)" and "lo_client (sw_loco w)"
    and "Wrapper_EmergencyStop healthy_env t w = (w1, r1)" and "SynchronizeState healthy_env now t1 t2 w1 = (w2, r2)"
  shows "sd_Succeeded r1 \<and> sr_emergency_stop (sw_latest_state w1) \<and> \<not> sw_connected w1 \<and> sw_published w1 = sw_published w
    \<and> sw_initialized w2 \<and> sw_connected w2 \<and> sw_published w2 = sw_published w @ [ToCoreRobotState (sw_latest_state w2)]
    \<and> \<not> emergencyStop (health (ToCoreRobotState (sw_latest_state w2)))
    \<and> faultCode (health (ToCoreRobotState (sw_latest_state w2))) = 0
    \<and> connected (connection (ToCoreRobotState (sw_latest_state w2)))
    \<and> sd_Succeeded (snd (Wrapper_StandUp healthy_env t3 w2))
    \<and> wrapper_calls (fst (Wrapper_StandUp healthy_env t3 w2)) =
        wrapper_calls w @ [Call_StopMove, Call_Damp, Call_GetFsmId, Call_StandUp]"
proof -
  let ?lo = "(sw_loco w)\<lparr>lo_calls := lo_calls (sw_loco w) @ [Call_StopMove, Call_Damp], lo_connected := False\<rparr>"
  have w1: "w1 = sample t (sr_fsm_id (sw_latest_state w)) True 1 (w\<lparr>sw_loco := ?lo, sw_connected := False,
      sw_motion_mode := MM_Faulted, sw_connection_state := CS_Faulted\<rparr>)" and r1: "sd_Succeeded r1"
    using assms(1,3,4,5)
    by (auto simp: Wrapper_EmergencyStop_def Loco_EmergencyStop_def call_client_def Let_def InvokeSdkCommand_def
        FromSdkReturn_def)
  have loco: "sw_loco w1 = ?lo" "sw_initialized w1" "sw_callback w1" "sw_published w1 = sw_published w"
    "\<not> sw_connected w1" "sr_emergency_stop (sw_latest_state w1)"
    using assms(1,2) by (simp_all add: w1 sample_def UpdateStateSample_def)
  then have w2: "sw_initialized w2" "sw_connected w2"
    "sw_loco w2 = ?lo\<lparr>lo_calls := lo_calls ?lo @ [Call_GetFsmId], lo_connected := True\<rparr>"
    "sw_published w2 = sw_published w @ [ToCoreRobotState (sw_latest_state w2)]"
    "\<not> emergencyStop (health (ToCoreRobotState (sw_latest_state w2)))"
    "faultCode (health (ToCoreRobotState (sw_latest_state w2))) = 0"
    "connected (connection (ToCoreRobotState (sw_latest_state w2)))"
    using assms(3,4,6)
    by (auto simp: SynchronizeState_def SynchronizeState_section_def Let_def healthy_GetFsmId link_alive_def sample_def
        publish_latest_def PublishStateUpdate_def ToCoreRobotState_def UpdateStateSample_def)
  then show ?thesis
    using loco r1 assms(3,4)
    by (simp add: Wrapper_StandUp_def Loco_Stand_def healthy_connected_command) (simp add: wrapper_calls_def)
qed

text \<open>
  An emergency stop is undone by the next heartbeat. \<open>EmergencyStop\<close> marks the wrapper as disconnected and faulted
  but does not publish that state, so the robot state manager never learns of it; the next synchronization of the
  communication worker, with a robot that answers, marks the wrapper as connected again and publishes a state without
  emergency stop and without fault, and a motion command sent after it reaches the robot and succeeds.
\<close>

theorem emergency_stop_undone:
  assumes "sw_initialized w" and "sw_callback w" and "lo_initialized (sw_loco w)" and "lo_client (sw_loco w)"
    and "Wrapper_EmergencyStop healthy_env t w = (w1, r1)" and "SynchronizeState healthy_env now t1 t2 w1 = (w2, r2)"
  shows "sd_Succeeded r1 \<and> sr_emergency_stop (sw_latest_state w1) \<and> \<not> sw_connected w1 \<and> sw_published w1 = sw_published w
    \<and> (\<exists>s. sw_published w2 = sw_published w @ [s] \<and> \<not> emergencyStop (health s) \<and> faultCode (health s) = 0 \<and>
         connected (connection s))
    \<and> sd_Succeeded (snd (Wrapper_StandUp healthy_env t3 w2))
    \<and> wrapper_calls (fst (Wrapper_StandUp healthy_env t3 w2)) =
        wrapper_calls w @ [Call_StopMove, Call_Damp, Call_GetFsmId, Call_StandUp]"
  using estop_then_heartbeat [OF assms, of t3] by blast

theorem emergency_stop_undone_witness:
  "\<exists>l w1 w2 s r1 r2. ga_client g1_connected = Some l \<and> Wrapper_EmergencyStop healthy_env 20 (lc_wrapper l) = (w1, r1) \<and>
     SynchronizeState healthy_env 30 31 32 w1 = (w2, r2) \<and> sw_published w2 = sw_published (lc_wrapper l) @ [s] \<and>
     \<not> emergencyStop (health s)"
proof -
  obtain l where l: "ga_client g1_connected = Some l" "sw_initialized (lc_wrapper l)" "sw_callback (lc_wrapper l)"
    "lo_initialized (sw_loco (lc_wrapper l))" "lo_client (sw_loco (lc_wrapper l))"
    using g1_connected_client by auto
  obtain w1 r1 where w1: "Wrapper_EmergencyStop healthy_env 20 (lc_wrapper l) = (w1, r1)"
    by (cases "Wrapper_EmergencyStop healthy_env 20 (lc_wrapper l)")
  obtain w2 r2 where w2: "SynchronizeState healthy_env 30 31 32 w1 = (w2, r2)"
    by (cases "SynchronizeState healthy_env 30 31 32 w1")
  from emergency_stop_undone [OF l(2-5) w1 w2, of 40] l(1) w1 w2 show ?thesis by blast
qed

text \<open>
  When two threads stop the communication, the second finds the flag still set and no handle to join, and resets
  both flags at once. If that happens before the worker has seen the request, the worker goes on as if nothing had been
  asked, while the wrapper says that no communication is running and the first thread waits for a worker that has no
  reason to end.
\<close>

theorem stop_communication_race:
  assumes "sw_communication_running w" and "sw_thread w"
  shows "\<exists>w1 w2. StopCommunication_begin w = Some (True, w1) \<and> StopCommunication_begin w1 = Some (False, w2)
    \<and> \<not> sw_communication_running (StopCommunication_end w2)
    \<and> RunCommunicationLoop_round E now t t' w2 = None
    \<and> RunCommunicationLoop_round E now t t' (StopCommunication_end w2) \<noteq> None"
  using assms
  by (simp add: StopCommunication_begin_def StopCommunication_end_def RunCommunicationLoop_round_def)

theorem stop_communication_race_witness:
  "\<exists>l w1 w2. ga_client g1_connected = Some l \<and> StopCommunication_begin (lc_wrapper l) = Some (True, w1) \<and>
     StopCommunication_begin w1 = Some (False, w2) \<and>
     RunCommunicationLoop_round healthy_env 1 2 3 (StopCommunication_end w2) \<noteq> None"
proof -
  obtain l where l: "ga_client g1_connected = Some l" "sw_communication_running (lc_wrapper l)" "sw_thread (lc_wrapper l)"
    using g1_connected_client by blast
  from stop_communication_race [OF l(2,3), of healthy_env 1 2 3] l(1) show ?thesis by blast
qed

end
