(* ===== verification/Unitree_Plugin.thy ===== *)
theory Unitree_Plugin
  imports Unitree_Safety Command_Dispatcher
begin

text \<open>
  The plugin's own adapter for the robot, \<open>plugins/unitree/g1/src/UnitreeG1Adapter.cpp\<close>, with the hand and audio
  adapters of \<open>plugins/unitree/sdk\<close> it owns next to the \<open>SdkWrapper\<close>, in the build that has the vendor's SDK. As in
  \<open>Unitree_Sdk\<close>, the answers of the vendor's clients are a parameter: a function of the calls made before and the
  present call.
\<close>

section \<open>Hand and audio adapters\<close>

text \<open>Both adapters have the same life cycle over clients of their own; \<open>'c\<close> are the calls of the client.\<close>

record 'c peripheral =
  pe_client :: bool
  pe_initialized :: bool
  pe_connected :: bool
  pe_calls :: "'c list"

type_synonym 'c client_answers = "'c list \<Rightarrow> 'c \<Rightarrow> int outcome"

definition peripheral_create :: "'c peripheral" where
  "peripheral_create = \<lparr>pe_client = False, pe_initialized = False, pe_connected = False, pe_calls = []\<rparr>"

definition peripheral_call :: "'c client_answers \<Rightarrow> 'c \<Rightarrow> 'c peripheral \<Rightarrow> int outcome \<times> 'c peripheral" where
  "peripheral_call ans c h = (ans (pe_calls h) c, h\<lparr>pe_calls := pe_calls h @ [c]\<rparr>)"

definition peripheral_ready :: "string \<Rightarrow> string \<Rightarrow> 'c peripheral \<Rightarrow> sdk_result" where
  "peripheral_ready name command h =
     (if \<not> pe_initialized h \<or> \<not> pe_client h then
        sdk_Failure SE_ConnectionFailed (command @ '' requires initialized '' @ name @ '' client'')
      else sdk_Success (command @ '' precondition satisfied''))"

definition peripheral_linked :: "string \<Rightarrow> string \<Rightarrow> 'c peripheral \<Rightarrow> sdk_result" where
  "peripheral_linked name command h =
     (if \<not> pe_initialized h \<or> \<not> pe_client h \<or> \<not> pe_connected h then
        sdk_Failure SE_ConnectionFailed (command @ '' requires connected '' @ name @ '' client'')
      else sdk_Success (command @ '' precondition satisfied''))"

definition peripheral_Initialize ::
  "sdk_env \<Rightarrow> string \<Rightarrow> 'c client_answers \<Rightarrow> 'c \<Rightarrow> sdk_configuration \<Rightarrow> 'c peripheral \<Rightarrow> 'c peripheral \<times> sdk_result" where
  "peripheral_Initialize E name ans init c h =
     (if pe_initialized h then (h, sdk_Success (''Unitree '' @ name @ '' adapter already initialized''))
      else if \<not> sd_Succeeded (ValidateSdkConfiguration E c) then (h, ValidateSdkConfiguration E c)
      else
        (let failed = (\<lambda>h1. h1\<lparr>pe_client := False, pe_initialized := False, pe_connected := False\<rparr>) in
         case peripheral_call ans init h of
           (Returned _, h1) \<Rightarrow>
             (h1\<lparr>pe_client := True, pe_initialized := True, pe_connected := False\<rparr>,
              sdk_Success (''Unitree '' @ name @ '' adapter initialized''))
         | (ThrewException w, h1) \<Rightarrow>
             (failed h1, sdk_Failure SE_ConnectionFailed (''Unitree '' @ name @ '' adapter initialization failed: '' @ w))
         | (ThrewUnknown, h1) \<Rightarrow>
             (failed h1, sdk_Failure SE_ConnectionFailed
                (''Unitree '' @ name @ '' adapter initialization failed with an unknown exception''))))"

definition peripheral_Shutdown :: "string \<Rightarrow> 'c peripheral \<Rightarrow> 'c peripheral \<times> sdk_result" where
  "peripheral_Shutdown name h =
     (h\<lparr>pe_client := False, pe_initialized := False, pe_connected := False\<rparr>,
      sdk_Success (''Unitree '' @ name @ '' adapter shut down''))"

definition peripheral_Connect ::
  "string \<Rightarrow> string \<Rightarrow> 'c client_answers \<Rightarrow> 'c \<Rightarrow> 'c peripheral \<Rightarrow> 'c peripheral \<times> sdk_result" where
  "peripheral_Connect name label ans c h =
     (if \<not> sd_Succeeded (peripheral_ready name ''Connect'' h) then (h, peripheral_ready name ''Connect'' h)
      else
        (case peripheral_call ans c h of (a, h1) \<Rightarrow>
           (let r = InvokeSdkCommand label SE_ConnectionFailed a in (h1\<lparr>pe_connected := sd_Succeeded r\<rparr>, r))))"

definition peripheral_command ::
  "string \<Rightarrow> string \<Rightarrow> string \<Rightarrow> 'c client_answers \<Rightarrow> 'c \<Rightarrow> 'c peripheral \<Rightarrow> 'c peripheral \<times> sdk_result" where
  "peripheral_command name command label ans c h =
     (if \<not> sd_Succeeded (peripheral_linked name command h) then (h, peripheral_linked name command h)
      else (case peripheral_call ans c h of (a, h1) \<Rightarrow> (h1, InvokeSdkCommand label SE_RobotFault a)))"

subsection \<open>Hands\<close>

datatype hand_gesture = HG_HandsUp | HG_Clap | HG_HighFive | HG_Hug | HG_Heart | HG_Reject | HG_Wave | HG_ShakeHand

datatype hand_call = Hand_Init "32 word" string time_ms | Hand_GetActionList | Hand_ExecuteAction int

fun ToActionId :: "hand_gesture \<Rightarrow> int" where
  "ToActionId HG_HandsUp = 15"
| "ToActionId HG_Clap = 17"
| "ToActionId HG_HighFive = 18"
| "ToActionId HG_Hug = 19"
| "ToActionId HG_Heart = 20"
| "ToActionId HG_Reject = 22"
| "ToActionId HG_Wave = 26"
| "ToActionId HG_ShakeHand = 27"

definition UnsupportedFingerCommand :: "string \<Rightarrow> sdk_result" where
  "UnsupportedFingerCommand command =
     sdk_Failure SE_Unknown (command @ '' is not exposed by Unitree G1 SDK2 arm action client; command was not sent'')"

definition Hand_Initialize ::
  "sdk_env \<Rightarrow> hand_call client_answers \<Rightarrow> sdk_configuration \<Rightarrow> hand_call peripheral \<Rightarrow> hand_call peripheral \<times> sdk_result" where
  "Hand_Initialize E ans c =
     peripheral_Initialize E ''hand'' ans (Hand_Init (cf_domain_id c) (cf_network_interface c) (cf_timeout c)) c"

definition Hand_Shutdown :: "hand_call peripheral \<Rightarrow> hand_call peripheral \<times> sdk_result" where
  "Hand_Shutdown = peripheral_Shutdown ''hand''"

definition Hand_Connect :: "hand_call client_answers \<Rightarrow> hand_call peripheral \<Rightarrow> hand_call peripheral \<times> sdk_result" where
  "Hand_Connect ans = peripheral_Connect ''hand'' ''Hand.Connect'' ans Hand_GetActionList"

definition Hand_Release :: "hand_call client_answers \<Rightarrow> hand_call peripheral \<Rightarrow> hand_call peripheral \<times> sdk_result" where
  "Hand_Release ans = peripheral_command ''hand'' ''Release'' ''Hand.Release'' ans (Hand_ExecuteAction 99)"

definition Hand_Gesture ::
  "hand_call client_answers \<Rightarrow> hand_gesture \<Rightarrow> hand_call peripheral \<Rightarrow> hand_call peripheral \<times> sdk_result" where
  "Hand_Gesture ans g = peripheral_command ''hand'' ''Gesture'' ''Hand.Gesture'' ans (Hand_ExecuteAction (ToActionId g))"

subsection \<open>Audio\<close>

datatype audio_call =
    Audio_Init "32 word" string time_ms | Audio_GetVolume | Audio_PlayStream string string "8 word list"
  | Audio_PlayStop string | Audio_SetVolume "8 word"

record audio_playback =
  ap_app_name :: string
  ap_stream_id :: string
  ap_pcm_data :: "8 word list"

definition ValidatePlayback :: "audio_playback \<Rightarrow> sdk_result" where
  "ValidatePlayback p =
     (if ap_app_name p = [] then sdk_Failure SE_Unknown ''audio playback app_name is empty''
      else if ap_stream_id p = [] then sdk_Failure SE_Unknown ''audio playback stream_id is empty''
      else if ap_pcm_data p = [] then sdk_Failure SE_Unknown ''audio playback pcm_data is empty''
      else sdk_Success ''audio playback payload is valid'')"

definition ValidateAppName :: "string \<Rightarrow> sdk_result" where
  "ValidateAppName name =
     (if name = [] then sdk_Failure SE_Unknown ''audio app_name is empty'' else sdk_Success ''audio app_name is valid'')"

definition ValidateVolume :: "8 word \<Rightarrow> sdk_result" where
  "ValidateVolume v =
     (if v > 100 then sdk_Failure SE_Unknown ''audio volume must be in range [0, 100]''
      else sdk_Success ''audio volume is valid'')"

definition Audio_Initialize ::
  "sdk_env \<Rightarrow> audio_call client_answers \<Rightarrow> sdk_configuration \<Rightarrow> audio_call peripheral \<Rightarrow> audio_call peripheral \<times> sdk_result" where
  "Audio_Initialize E ans c =
     peripheral_Initialize E ''audio'' ans (Audio_Init (cf_domain_id c) (cf_network_interface c) (cf_timeout c)) c"

definition Audio_Shutdown :: "audio_call peripheral \<Rightarrow> audio_call peripheral \<times> sdk_result" where
  "Audio_Shutdown = peripheral_Shutdown ''audio''"

definition Audio_Connect :: "audio_call client_answers \<Rightarrow> audio_call peripheral \<Rightarrow> audio_call peripheral \<times> sdk_result" where
  "Audio_Connect ans = peripheral_Connect ''audio'' ''Audio.Connect'' ans Audio_GetVolume"

definition Audio_Play ::
  "audio_call client_answers \<Rightarrow> audio_playback \<Rightarrow> audio_call peripheral \<Rightarrow> audio_call peripheral \<times> sdk_result" where
  "Audio_Play ans p h =
     (if \<not> sd_Succeeded (ValidatePlayback p) then (h, ValidatePlayback p)
      else peripheral_command ''audio'' ''Play'' ''Audio.Play'' ans
        (Audio_PlayStream (ap_app_name p) (ap_stream_id p) (ap_pcm_data p)) h)"

definition Audio_Stop ::
  "audio_call client_answers \<Rightarrow> string \<Rightarrow> audio_call peripheral \<Rightarrow> audio_call peripheral \<times> sdk_result" where
  "Audio_Stop ans name h =
     (if \<not> sd_Succeeded (ValidateAppName name) then (h, ValidateAppName name)
      else peripheral_command ''audio'' ''Stop'' ''Audio.Stop'' ans (Audio_PlayStop name) h)"

definition Audio_SetVolumeLevel ::
  "audio_call client_answers \<Rightarrow> 8 word \<Rightarrow> audio_call peripheral \<Rightarrow> audio_call peripheral \<times> sdk_result" where
  "Audio_SetVolumeLevel ans v h =
     (if \<not> sd_Succeeded (ValidateVolume v) then (h, ValidateVolume v)
      else peripheral_command ''audio'' ''SetVolume'' ''Audio.SetVolume'' ans (Audio_SetVolume v) h)"

definition Audio_Mute :: "audio_call client_answers \<Rightarrow> audio_call peripheral \<Rightarrow> audio_call peripheral \<times> sdk_result" where
  "Audio_Mute ans = Audio_SetVolumeLevel ans 0"

section \<open>The adapter\<close>

record plugin_env =
  px_sdk :: sdk_env
  px_hand :: "hand_call client_answers"
  px_audio :: "audio_call client_answers"
  px_float :: "fl \<Rightarrow> fl" \<comment> \<open>\<open>static_cast<float>(double)\<close>\<close>
  px_nan_byte :: "8 word" \<comment> \<open>what \<open>static_cast<std::uint8_t>\<close> makes of a NaN\<close>

record plugin_adapter =
  pg_wrapper :: sdk_wrapper
  pg_hand :: "hand_call peripheral"
  pg_audio :: "audio_call peripheral"
  pg_configuration :: sdk_configuration
  pg_state_manager :: "robot_state_manager option"
  pg_latest_state :: robot_state
  pg_initialized :: bool
  pg_connected :: bool
  pg_hand_available :: bool
  pg_audio_available :: bool

definition Plugin_create :: "sdk_configuration \<Rightarrow> robot_state_manager option \<Rightarrow> plugin_adapter" where
  "Plugin_create c manager = \<lparr>pg_wrapper = SdkWrapper_create, pg_hand = peripheral_create, pg_audio = peripheral_create,
     pg_configuration = c, pg_state_manager = manager, pg_latest_state = default_robot_state, pg_initialized = False,
     pg_connected = False, pg_hand_available = False, pg_audio_available = False\<rparr>"

definition plugin_ToStatus :: "sdk_result \<Rightarrow> status" where
  "plugin_ToStatus r =
     (case sd_code r of
        SE_Success \<Rightarrow> Status_ok
      | SE_SdkUnavailable \<Rightarrow> Status_error kUnavailable (sd_message r)
      | SE_ConnectionFailed \<Rightarrow> Status_error kUnavailable (sd_message r)
      | SE_Timeout \<Rightarrow> Status_error kUnavailable (sd_message r)
      | SE_RobotFault \<Rightarrow> Status_error kFailedPrecondition (sd_message r)
      | SE_Unknown \<Rightarrow> Status_error kInternalError (sd_message r))"

definition plugin_ToCommandResult :: "sdk_result \<Rightarrow> command_result" where
  "plugin_ToCommandResult r =
     Result (if sd_Succeeded r then Status_Completed
             else if sd_code r = SE_Timeout then Status_Timeout
             else if sd_code r = SE_ConnectionFailed \<or> sd_code r = SE_SdkUnavailable then Status_Rejected
             else Status_Failed) (sd_message r)"

definition NumberPayload :: "command \<Rightarrow> string \<Rightarrow> fl option" where
  "NumberPayload c key =
     (case payload_find (cmd_payload c) key of
        Some (PV_Double d) \<Rightarrow> Some d
      | Some (PV_Int i) \<Rightarrow> Some (int64_to_double i)
      | _ \<Rightarrow> None)"

definition StringPayload :: "command \<Rightarrow> string \<Rightarrow> string option" where
  "StringPayload c key = (case payload_find (cmd_payload c) key of Some (PV_String s) \<Rightarrow> Some s | _ \<Rightarrow> None)"

definition ToGesture :: "string \<Rightarrow> hand_gesture option" where
  "ToGesture g =
     (if g = ''hands_up'' \<or> g = ''HandsUp'' then Some HG_HandsUp
      else if g = ''clap'' \<or> g = ''Clap'' then Some HG_Clap
      else if g = ''high_five'' \<or> g = ''HighFive'' then Some HG_HighFive
      else if g = ''hug'' \<or> g = ''Hug'' then Some HG_Hug
      else if g = ''heart'' \<or> g = ''Heart'' then Some HG_Heart
      else if g = ''reject'' \<or> g = ''Reject'' then Some HG_Reject
      else if g = ''wave'' \<or> g = ''Wave'' then Some HG_Wave
      else if g = ''shake_hand'' \<or> g = ''ShakeHand'' then Some HG_ShakeHand
      else None)"

text \<open>The callback that \<open>Initialize\<close> installs.\<close>

definition store_state :: "robot_state \<Rightarrow> plugin_adapter \<Rightarrow> plugin_adapter" where
  "store_state s p = p\<lparr>pg_latest_state := s, pg_state_manager := map_option (UpdateState s) (pg_state_manager p)\<rparr>"

text \<open>A call on the wrapper, with the states it publishes at its end delivered to the callback.\<close>

definition on_wrapper :: "(sdk_wrapper \<Rightarrow> sdk_wrapper \<times> 'r) \<Rightarrow> plugin_adapter \<Rightarrow> plugin_adapter \<times> 'r" where
  "on_wrapper f p =
     (case f (pg_wrapper p) of (w, r) \<Rightarrow>
        (fold store_state (drop (length (sw_published (pg_wrapper p))) (sw_published w)) (p\<lparr>pg_wrapper := w\<rparr>), r))"

definition Plugin_Initialize :: "plugin_env \<Rightarrow> time_ns \<Rightarrow> bool \<Rightarrow> plugin_adapter \<Rightarrow> plugin_adapter \<times> status" where
  "Plugin_Initialize X t subscribed p =
     (if pg_initialized p then (p, Status_ok)
      else
        (let c = pg_configuration p;
             p1 = p\<lparr>pg_wrapper := SetStateUpdateCallback True (pg_wrapper p)\<rparr> in
         case on_wrapper (Wrapper_Initialize (px_sdk X) t subscribed c) p1 of
           (p2, r) \<Rightarrow>
             if \<not> sd_Succeeded r then (p2, plugin_ToStatus r)
             else
               (case Hand_Initialize (px_sdk X) (px_hand X) c (pg_hand p2) of (h, hr) \<Rightarrow>
                  (case Audio_Initialize (px_sdk X) (px_audio X) c (pg_audio p2) of (a, ar) \<Rightarrow>
                     (p2\<lparr>pg_hand := h, pg_hand_available := sd_Succeeded hr, pg_audio := a,
                         pg_audio_available := sd_Succeeded ar, pg_initialized := True\<rparr>, Status_ok)))))"

definition Plugin_Shutdown :: "time_ns \<Rightarrow> plugin_adapter \<Rightarrow> plugin_adapter \<times> status" where
  "Plugin_Shutdown t p =
     (let p1 = fst (on_wrapper (Wrapper_Shutdown t) p) in
      (p1\<lparr>pg_hand := fst (Hand_Shutdown (pg_hand p1)), pg_audio := fst (Audio_Shutdown (pg_audio p1)),
          pg_initialized := False, pg_connected := False, pg_hand_available := False, pg_audio_available := False,
          pg_latest_state := default_robot_state\<rparr>, Status_ok))"

text \<open>The last step of \<open>Connect\<close>, \<open>Disconnect\<close> and \<open>Update\<close>: the latest state with the flag, for the state manager too.\<close>

definition report_state :: "robot_state \<Rightarrow> bool \<Rightarrow> plugin_adapter \<Rightarrow> plugin_adapter" where
  "report_state s c p = store_state (s\<lparr>connection := \<lparr>connected = c\<rparr>\<rparr>) p"

definition plugin_options :: "sdk_configuration \<Rightarrow> communication_options" where
  "plugin_options c = \<lparr>co_heartbeat_interval = cf_timeout c, co_reconnect_interval = i64_wrap (cf_timeout c * 2),
     co_connection_timeout = i64_wrap (cf_timeout c * 3)\<rparr>"

definition Plugin_Connect ::
  "plugin_env \<Rightarrow> time_ns \<Rightarrow> time_ns \<Rightarrow> unit outcome \<Rightarrow> plugin_adapter \<Rightarrow> plugin_adapter \<times> status" where
  "Plugin_Connect X now t started p =
     (if \<not> pg_initialized p then (p, FailedPrecondition ''Unitree G1 adapter is not initialized'')
      else
        (case on_wrapper (Wrapper_Connect (px_sdk X) now t) p of
           (p1, r) \<Rightarrow>
             if \<not> sd_Succeeded r then (p1\<lparr>pg_connected := False\<rparr>, plugin_ToStatus r)
             else
               (case on_wrapper (StartCommunication started (plugin_options (pg_configuration p1))) p1 of
                  (p2, r2) \<Rightarrow>
                    if \<not> sd_Succeeded r2 then (p2\<lparr>pg_connected := False\<rparr>, plugin_ToStatus r2)
                    else
                      (let hr = (if pg_hand_available p2 then Hand_Connect (px_hand X) (pg_hand p2)
                                 else (pg_hand p2, sdk_Failure SE_Unknown []));
                           ar = (if pg_audio_available p2 then Audio_Connect (px_audio X) (pg_audio p2)
                                 else (pg_audio p2, sdk_Failure SE_Unknown []));
                           p3 = p2\<lparr>pg_hand := fst hr, pg_audio := fst ar, pg_hand_available := sd_Succeeded (snd hr),
                                   pg_audio_available := sd_Succeeded (snd ar), pg_connected := True\<rparr> in
                       (report_state (ToCoreRobotState (ReadRobotState (pg_wrapper p3))) True p3, Status_ok)))))"

definition Plugin_Disconnect :: "time_ns \<Rightarrow> plugin_adapter \<Rightarrow> plugin_adapter \<times> status" where
  "Plugin_Disconnect t p =
     (case on_wrapper (Wrapper_Disconnect t) p of
        (p1, r) \<Rightarrow> (report_state (pg_latest_state p1) False (p1\<lparr>pg_connected := False\<rparr>), plugin_ToStatus r))"

definition Plugin_Update ::
  "plugin_env \<Rightarrow> time_ns \<Rightarrow> time_ns \<Rightarrow> time_ns \<Rightarrow> plugin_adapter \<Rightarrow> plugin_adapter \<times> status" where
  "Plugin_Update X now t t' p =
     (if \<not> pg_initialized p then (p, FailedPrecondition ''Unitree G1 adapter is not initialized'')
      else
        (case on_wrapper (SynchronizeState (px_sdk X) now t t') p of
           (p1, r) \<Rightarrow>
             (report_state (ToCoreRobotState (ReadRobotState (pg_wrapper p1))) (sw_connected (pg_wrapper p1)) p1,
              plugin_ToStatus r)))"

definition Plugin_GetCommandCapabilities :: "plugin_adapter \<Rightarrow> command_capability_set" where
  "Plugin_GetCommandCapabilities p =
     \<lparr>cap_stand = True, cap_sit = True, cap_walk = True, cap_stop = True, cap_move = True, cap_rotate = True,
      cap_velocity = True, cap_emergencyStop = True, cap_handOpen = False, cap_handClose = False,
      cap_gesture = pg_hand_available p, cap_playAudio = pg_audio_available p, cap_stopAudio = pg_audio_available p,
      cap_setVolume = pg_audio_available p, cap_muteAudio = pg_audio_available p, cap_custom = False\<rparr>"

section \<open>Commands\<close>

definition motion_command ::
  "(sdk_wrapper \<Rightarrow> sdk_wrapper \<times> sdk_result) \<Rightarrow> plugin_adapter \<Rightarrow> plugin_adapter \<times> command_result" where
  "motion_command f p =
     (case f (pg_wrapper p) of (w, r) \<Rightarrow> (p\<lparr>pg_wrapper := w\<rparr>, plugin_ToCommandResult r))"

definition hand_command ::
  "(hand_call peripheral \<Rightarrow> hand_call peripheral \<times> sdk_result) \<Rightarrow> plugin_adapter \<Rightarrow> plugin_adapter \<times> command_result" where
  "hand_command f p = (case f (pg_hand p) of (h, r) \<Rightarrow> (p\<lparr>pg_hand := h\<rparr>, plugin_ToCommandResult r))"

definition audio_command ::
  "(audio_call peripheral \<Rightarrow> audio_call peripheral \<times> sdk_result) \<Rightarrow> plugin_adapter \<Rightarrow> plugin_adapter \<times> command_result" where
  "audio_command f p = (case f (pg_audio p) of (h, r) \<Rightarrow> (p\<lparr>pg_audio := h\<rparr>, plugin_ToCommandResult r))"

definition rejected :: "string \<Rightarrow> plugin_adapter \<Rightarrow> plugin_adapter \<times> command_result" where
  "rejected msg p = (p, Result Status_Rejected msg)"

definition ExecuteVelocity :: "plugin_env \<Rightarrow> time_ns \<Rightarrow> command \<Rightarrow> plugin_adapter \<Rightarrow> plugin_adapter \<times> command_result" where
  "ExecuteVelocity X t c p =
     (case (NumberPayload c ''linear_x'', NumberPayload c ''linear_y'', NumberPayload c ''angular_z'') of
        (Some x, Some y, Some z) \<Rightarrow>
          motion_command (Wrapper_Move (px_sdk X) t (px_float X x) (px_float X y) (px_float X z)) p
      | _ \<Rightarrow> rejected ''Velocity command payload is incomplete'' p)"

definition ExecuteRotate :: "plugin_env \<Rightarrow> time_ns \<Rightarrow> command \<Rightarrow> plugin_adapter \<Rightarrow> plugin_adapter \<times> command_result" where
  "ExecuteRotate X t c p =
     (case NumberPayload c ''angular_z'' of
        Some z \<Rightarrow> motion_command (Wrapper_Move (px_sdk X) t (Fin 0) (Fin 0) (px_float X z)) p
      | None \<Rightarrow> rejected ''Rotate command payload is incomplete'' p)"

definition ExecuteGesture :: "plugin_env \<Rightarrow> command \<Rightarrow> plugin_adapter \<Rightarrow> plugin_adapter \<times> command_result" where
  "ExecuteGesture X c p =
     (case StringPayload c ''gesture'' of
        None \<Rightarrow> rejected ''Gesture command payload is incomplete'' p
      | Some name \<Rightarrow>
          (case ToGesture name of
             None \<Rightarrow> rejected ''Gesture command is not supported by Unitree G1'' p
           | Some g \<Rightarrow> hand_command (Hand_Gesture (px_hand X) g) p))"

definition ExecutePlayAudio :: "plugin_env \<Rightarrow> command \<Rightarrow> plugin_adapter \<Rightarrow> plugin_adapter \<times> command_result" where
  "ExecutePlayAudio X c p =
     (case (StringPayload c ''app_name'', StringPayload c ''stream_id'', StringPayload c ''pcm_data'') of
        (Some app, Some stream, Some pcm) \<Rightarrow>
          audio_command (Audio_Play (px_audio X)
            \<lparr>ap_app_name = app, ap_stream_id = stream, ap_pcm_data = map of_char pcm\<rparr>) p
      | _ \<Rightarrow> rejected ''PlayAudio command payload is incomplete'' p)"

definition ExecuteStopAudio :: "plugin_env \<Rightarrow> command \<Rightarrow> plugin_adapter \<Rightarrow> plugin_adapter \<times> command_result" where
  "ExecuteStopAudio X c p =
     (case StringPayload c ''app_name'' of
        Some app \<Rightarrow> audio_command (Audio_Stop (px_audio X) app) p
      | None \<Rightarrow> rejected ''StopAudio command payload is incomplete'' p)"

text \<open>\<open>static_cast<std::uint8_t>\<close> of a value that is neither below 0 nor above 100.\<close>

definition volume_byte :: "plugin_env \<Rightarrow> fl \<Rightarrow> 8 word" where
  "volume_byte X v = (case v of Fin x \<Rightarrow> of_int \<lfloor>x\<rfloor> | _ \<Rightarrow> px_nan_byte X)"

definition ExecuteSetVolume :: "plugin_env \<Rightarrow> command \<Rightarrow> plugin_adapter \<Rightarrow> plugin_adapter \<times> command_result" where
  "ExecuteSetVolume X c p =
     (case NumberPayload c ''volume'' of
        Some v \<Rightarrow>
          if fl_lt v (Fin 0) \<or> fl_lt (Fin 100) v then rejected ''SetVolume command payload is invalid'' p
          else audio_command (Audio_SetVolumeLevel (px_audio X) (volume_byte X v)) p
      | None \<Rightarrow> rejected ''SetVolume command payload is invalid'' p)"

definition Plugin_ExecuteCommand ::
  "plugin_env \<Rightarrow> time_ns \<Rightarrow> command \<Rightarrow> plugin_adapter \<Rightarrow> plugin_adapter \<times> command_result" where
  "Plugin_ExecuteCommand X t c p =
     (if \<not> pg_initialized p then rejected ''Unitree G1 adapter is not initialized'' p
      else
        (case cmd_type c of
           Type_Stand \<Rightarrow> motion_command (Wrapper_StandUp (px_sdk X) t) p
         | Type_Sit \<Rightarrow> motion_command (Wrapper_Sit (px_sdk X) t) p
         | Type_Walk \<Rightarrow> ExecuteVelocity X t c p
         | Type_Move \<Rightarrow> ExecuteVelocity X t c p
         | Type_Velocity \<Rightarrow> ExecuteVelocity X t c p
         | Type_Rotate \<Rightarrow> ExecuteRotate X t c p
         | Type_Stop \<Rightarrow> motion_command (Wrapper_Stop (px_sdk X) t) p
         | Type_EmergencyStop \<Rightarrow> motion_command (Wrapper_EmergencyStop (px_sdk X) t) (p\<lparr>pg_connected := False\<rparr>)
         | Type_HandOpen \<Rightarrow> (p, plugin_ToCommandResult (UnsupportedFingerCommand ''Open''))
         | Type_HandClose \<Rightarrow> (p, plugin_ToCommandResult (UnsupportedFingerCommand ''Close''))
         | Type_Gesture \<Rightarrow> ExecuteGesture X c p
         | Type_PlayAudio \<Rightarrow> ExecutePlayAudio X c p
         | Type_StopAudio \<Rightarrow> ExecuteStopAudio X c p
         | Type_SetVolume \<Rightarrow> ExecuteSetVolume X c p
         | Type_MuteAudio \<Rightarrow> audio_command (Audio_Mute (px_audio X)) p
         | Type_Custom \<Rightarrow> rejected ''Custom commands are not enabled for Unitree G1'' p
         | Type_Other _ \<Rightarrow> rejected ''Unknown command type'' p))"

text \<open>The adapter as the dispatcher sees it.\<close>

definition plugin_as_adapter :: "plugin_env \<Rightarrow> time_ns \<Rightarrow> plugin_adapter \<Rightarrow> robot_adapter" where
  "plugin_as_adapter X t p = \<lparr>ad_GetRobotState = Returned (pg_latest_state p), ad_supportsPowerState = Returned True,
     ad_GetCommandCapabilities = Returned (Plugin_GetCommandCapabilities p),
     ad_ExecuteCommand = (\<lambda>c. Returned (snd (Plugin_ExecuteCommand X t c p)))\<rparr>"

end
