(* ===== verification/Unitree_Plugin_Props.thy ===== *)
theory Unitree_Plugin_Props
  imports Unitree_Plugin
begin

text \<open>
  Properties of the plugin's adapter: what its commands do on the three clients of the robot, what becomes of an
  emergency stop, and where it differs from the adapter of the factory.
\<close>

section \<open>Calls\<close>

fun answers_zero :: "'c client_answers \<Rightarrow> 'c list \<Rightarrow> 'c list \<Rightarrow> bool" where
  "answers_zero ans h [] = True"
| "answers_zero ans h (c # cs) = (ans h c = Returned 0 \<and> answers_zero ans (h @ [c]) cs)"

definition peripheral_performs ::
  "'c client_answers \<Rightarrow> ('c peripheral \<Rightarrow> 'c peripheral \<times> sdk_result) \<Rightarrow> 'c list \<Rightarrow> bool" where
  "peripheral_performs ans f cs =
     (\<forall>h. (pe_calls (fst (f h)) = pe_calls h \<or> pe_calls (fst (f h)) = pe_calls h @ cs) \<and>
       (sd_Succeeded (snd (f h)) \<longleftrightarrow> pe_calls (fst (f h)) = pe_calls h @ cs \<and> answers_zero ans (pe_calls h) cs))"

lemma InvokeSdkCommand_ok: "sd_Succeeded (InvokeSdkCommand l SE_RobotFault a) \<longleftrightarrow> a = Returned 0"
  by (auto simp: InvokeSdkCommand_def FromSdkReturn_def sd_Succeeded_def sdk_Success_def sdk_Failure_def split: outcome.splits)

lemma peripheral_command_performs: "peripheral_performs ans (peripheral_command n cmd l ans c) [c]"
  by (auto simp: peripheral_performs_def peripheral_command_def peripheral_call_def peripheral_linked_def InvokeSdkCommand_ok
      split: prod.splits)

lemma refusal_performs: "\<not> sd_Succeeded r \<Longrightarrow> cs \<noteq> [] \<Longrightarrow> peripheral_performs ans (\<lambda>h. (h, r)) cs"
  by (simp add: peripheral_performs_def)

lemma hand_and_audio_perform:
  "peripheral_performs ha (Hand_Gesture ha g) [Hand_ExecuteAction (ToActionId g)]"
  "peripheral_performs aa (Audio_Play aa pb) [Audio_PlayStream (ap_app_name pb) (ap_stream_id pb) (ap_pcm_data pb)]"
  "peripheral_performs aa (Audio_Stop aa name) [Audio_PlayStop name]"
  "peripheral_performs aa (Audio_SetVolumeLevel aa v) [Audio_SetVolume v]"
  "peripheral_performs aa (Audio_Mute aa) [Audio_SetVolume 0]"
proof -
  show level: "peripheral_performs aa (Audio_SetVolumeLevel aa v) [Audio_SetVolume v]" for v
    unfolding Audio_SetVolumeLevel_def
    by (cases "sd_Succeeded (ValidateVolume v)") (simp_all add: refusal_performs peripheral_command_performs)
  then show "peripheral_performs aa (Audio_Mute aa) [Audio_SetVolume 0]" by (simp add: Audio_Mute_def)
  show "peripheral_performs ha (Hand_Gesture ha g) [Hand_ExecuteAction (ToActionId g)]"
    by (simp add: Hand_Gesture_def peripheral_command_performs)
  show "peripheral_performs aa (Audio_Play aa pb) [Audio_PlayStream (ap_app_name pb) (ap_stream_id pb) (ap_pcm_data pb)]"
    unfolding Audio_Play_def
    by (cases "sd_Succeeded (ValidatePlayback pb)") (simp_all add: refusal_performs peripheral_command_performs)
  show "peripheral_performs aa (Audio_Stop aa name) [Audio_PlayStop name]"
    unfolding Audio_Stop_def
    by (cases "sd_Succeeded (ValidateAppName name)") (simp_all add: refusal_performs peripheral_command_performs)
qed

lemma any_move_performs: "performs E (Wrapper_Move E t x y z) [Call_Move x y z]"
proof (cases "velocity_IsFinite \<lparr>vc_linear_x = x, vc_linear_y = y, vc_angular_z = z\<rparr>")
  case True
  then show ?thesis
    by (intro motion_performs [where t = t and m = MM_Walking and n = "''Walk''"]) (simp add: Wrapper_Move_def Loco_Walk_def)
next
  case False
  then show ?thesis
    by (simp add: performs_def Wrapper_Move_def Loco_Walk_def wrapper_calls_def not_connected_def after_command_def Let_def)
qed

section \<open>What a command does\<close>

type_synonym histories = "sdk_call list \<times> hand_call list \<times> audio_call list"

definition plugin_history :: "plugin_adapter \<Rightarrow> histories" where
  "plugin_history p = (wrapper_calls (pg_wrapper p), pe_calls (pg_hand p), pe_calls (pg_audio p))"

fun extend :: "histories \<Rightarrow> histories \<Rightarrow> histories" where
  "extend (l, h, a) (l', h', a') = (l @ l', h @ h', a @ a')"

fun all_answered :: "plugin_env \<Rightarrow> histories \<Rightarrow> histories \<Rightarrow> bool" where
  "all_answered X (l, h, a) (l', h', a') =
     (answered (px_sdk X) l l' \<and> answers_zero (px_hand X) h h' \<and> answers_zero (px_audio X) a a')"

text \<open>The calls that the type and the payload of a command name.\<close>

definition velocity_calls :: "plugin_env \<Rightarrow> command \<Rightarrow> sdk_call list" where
  "velocity_calls X c =
     (case (NumberPayload c ''linear_x'', NumberPayload c ''linear_y'', NumberPayload c ''angular_z'') of
        (Some x, Some y, Some z) \<Rightarrow> [Call_Move (px_float X x) (px_float X y) (px_float X z)]
      | _ \<Rightarrow> [])"

definition named_calls :: "plugin_env \<Rightarrow> command \<Rightarrow> histories" where
  "named_calls X c =
     (case cmd_type c of
        Type_Stand \<Rightarrow> ([Call_StandUp], [], [])
      | Type_Sit \<Rightarrow> ([Call_Sit], [], [])
      | Type_Walk \<Rightarrow> (velocity_calls X c, [], [])
      | Type_Move \<Rightarrow> (velocity_calls X c, [], [])
      | Type_Velocity \<Rightarrow> (velocity_calls X c, [], [])
      | Type_Rotate \<Rightarrow>
          (case NumberPayload c ''angular_z'' of
             Some z \<Rightarrow> ([Call_Move (Fin 0) (Fin 0) (px_float X z)], [], [])
           | None \<Rightarrow> ([], [], []))
      | Type_Stop \<Rightarrow> ([Call_StopMove], [], [])
      | Type_EmergencyStop \<Rightarrow> ([Call_StopMove, Call_Damp], [], [])
      | Type_Gesture \<Rightarrow>
          (case Option.bind (StringPayload c ''gesture'') ToGesture of
             Some g \<Rightarrow> ([], [Hand_ExecuteAction (ToActionId g)], [])
           | None \<Rightarrow> ([], [], []))
      | Type_PlayAudio \<Rightarrow>
          (case (StringPayload c ''app_name'', StringPayload c ''stream_id'', StringPayload c ''pcm_data'') of
             (Some app, Some stream, Some pcm) \<Rightarrow> ([], [], [Audio_PlayStream app stream (map of_char pcm)])
           | _ \<Rightarrow> ([], [], []))
      | Type_StopAudio \<Rightarrow>
          (case StringPayload c ''app_name'' of Some app \<Rightarrow> ([], [], [Audio_PlayStop app]) | None \<Rightarrow> ([], [], []))
      | Type_SetVolume \<Rightarrow>
          (case NumberPayload c ''volume'' of
             Some v \<Rightarrow>
               if fl_lt v (Fin 0) \<or> fl_lt (Fin 100) v then ([], [], []) else ([], [], [Audio_SetVolume (volume_byte X v)])
           | None \<Rightarrow> ([], [], []))
      | Type_MuteAudio \<Rightarrow> ([], [], [Audio_SetVolume 0])
      | _ \<Rightarrow> ([], [], []))"

definition does :: "plugin_env \<Rightarrow> plugin_adapter \<Rightarrow> plugin_adapter \<times> command_result \<Rightarrow> histories \<Rightarrow> bool" where
  "does X p out cs =
     ((plugin_history (fst out) = plugin_history p \<or> plugin_history (fst out) = extend (plugin_history p) cs) \<and>
      (isSuccess (snd out) \<longleftrightarrow> cs \<noteq> ([], [], []) \<and> plugin_history (fst out) = extend (plugin_history p) cs \<and>
         all_answered X (plugin_history p) cs))"

lemma plugin_ToCommandResult_ok [simp]: "isSuccess (plugin_ToCommandResult r) = sd_Succeeded r"
  by (simp add: plugin_ToCommandResult_def)

lemma motion_does:
  assumes "performs (px_sdk X) f cs" and "cs \<noteq> []"
  shows "does X p (motion_command f p) (cs, [], [])" and "does X p (motion_command f (p\<lparr>pg_connected := False\<rparr>)) (cs, [], [])"
  using assms(2) assms(1) [unfolded performs_def, rule_format, of "pg_wrapper p"]
  by (cases "f (pg_wrapper p)", simp add: does_def motion_command_def plugin_history_def)+

lemma hand_does: "peripheral_performs (px_hand X) f [c] \<Longrightarrow> does X p (hand_command f p) ([], [c], [])"
  unfolding peripheral_performs_def
  by (drule spec [of _ "pg_hand p"], cases "f (pg_hand p)") (simp add: does_def hand_command_def plugin_history_def)

lemma audio_does: "peripheral_performs (px_audio X) f [c] \<Longrightarrow> does X p (audio_command f p) ([], [], [c])"
  unfolding peripheral_performs_def
  by (drule spec [of _ "pg_audio p"], cases "f (pg_audio p)") (simp add: does_def audio_command_def plugin_history_def)

lemma play_command_does:
  "does X p (audio_command (Audio_Play (px_audio X) \<lparr>ap_app_name = app, ap_stream_id = stream, ap_pcm_data = pcm\<rparr>) p)
     ([], [], [Audio_PlayStream app stream pcm])"
  using audio_does [OF hand_and_audio_perform(2) [of "px_audio X" "\<lparr>ap_app_name = app, ap_stream_id = stream, ap_pcm_data = pcm\<rparr>"]]
  by simp

lemma nothing_does: "\<not> isSuccess r \<Longrightarrow> does X p (p, r) ([], [], [])"
  by (auto simp: does_def plugin_history_def)

lemma rejected_does [simp]: "does X p (rejected m p) ([], [], [])"
  by (simp add: rejected_def nothing_does)

lemmas command_does = motion_does hand_does audio_does nothing_does any_move_performs wrapper_motions_perform
  Wrapper_Stop_performs Wrapper_EmergencyStop_performs hand_and_audio_perform

lemma velocity_does: "does X p (ExecuteVelocity X t c p) (velocity_calls X c, [], [])"
  by (simp add: ExecuteVelocity_def velocity_calls_def command_does split: option.splits)

lemma gesture_does:
  "does X p (ExecuteGesture X c p)
     (case Option.bind (StringPayload c ''gesture'') ToGesture of
        Some g \<Rightarrow> ([], [Hand_ExecuteAction (ToActionId g)], []) | None \<Rightarrow> ([], [], []))"
  by (simp add: ExecuteGesture_def command_does split: option.splits)

lemma play_does:
  "does X p (ExecutePlayAudio X c p)
     (case (StringPayload c ''app_name'', StringPayload c ''stream_id'', StringPayload c ''pcm_data'') of
        (Some app, Some stream, Some pcm) \<Rightarrow> ([], [], [Audio_PlayStream app stream (map of_char pcm)])
      | _ \<Rightarrow> ([], [], []))"
  by (simp add: ExecutePlayAudio_def play_command_does split: option.splits)

text \<open>
  C31. A command on an initialized plugin adapter either makes no call on the clients of the robot or exactly the calls
  that its type and payload name, on the locomotion, hand or audio client; it is answered with success exactly when it
  named some, they were made and every one of them was answered with success. An adapter that is not initialized makes
  no call and refuses.
\<close>

lemma plugin_command_exact:
  "does X p (Plugin_ExecuteCommand X t c p) (if pg_initialized p then named_calls X c else ([], [], []))"
proof (cases "pg_initialized p")
  case True
  have "\<not> isSuccess (plugin_ToCommandResult (UnsupportedFingerCommand n))" for n
    by (simp add: UnsupportedFingerCommand_def)
  with True show ?thesis
    using velocity_does [of X p t c] gesture_does [of X p c] play_does [of X p c]
    by (cases "cmd_type c")
      (simp_all add: Plugin_ExecuteCommand_def named_calls_def command_does ExecuteRotate_def ExecuteStopAudio_def
        ExecuteSetVolume_def split: option.splits)
qed (simp add: Plugin_ExecuteCommand_def)

section \<open>Emergency stop\<close>

lemma store_state_wrapper [simp]: "pg_wrapper (store_state s p) = pg_wrapper p"
  by (simp add: store_state_def)

definition demo_estop :: command where
  "demo_estop = default_command\<lparr>cmd_id := 5, cmd_type := Type_EmergencyStop\<rparr>"

definition demo_stand :: command where
  "demo_stand = default_command\<lparr>cmd_id := 6, cmd_type := Type_Stand\<rparr>"

definition healthy_plugin :: plugin_env where
  "healthy_plugin = \<lparr>px_sdk = healthy_env, px_hand = (\<lambda>_ _. Returned 0), px_audio = (\<lambda>_ _. Returned 0), px_float = id,
     px_nan_byte = 0\<rparr>"

text \<open>What the emergency stop leaves in the wrapper: the stop is in its latest state, and nothing is published.\<close>

lemma estop_wrapper:
  assumes "sw_initialized w" and "Wrapper_EmergencyStop E t w = (w1, r)"
  shows "sw_published w1 = sw_published w" "sw_initialized w1" "sw_callback w1 = sw_callback w" "\<not> sw_connected w1"
    "sr_emergency_stop (sw_latest_state w1)" "heartbeat_timed_out now w1 = heartbeat_timed_out now w"
    "lo_initialized (sw_loco w1) = lo_initialized (sw_loco w)" "lo_client (sw_loco w1) = lo_client (sw_loco w)"
proof -
  obtain lo r' where lo: "Loco_EmergencyStop E (sw_loco w) = (lo, r')" by (cases "Loco_EmergencyStop E (sw_loco w)")
  then have "lo_initialized lo = lo_initialized (sw_loco w)" "lo_client lo = lo_client (sw_loco w)"
    by (auto simp: Loco_EmergencyStop_def call_client_def Let_def split: prod.splits if_splits)
  with lo assms show "sw_published w1 = sw_published w" "sw_initialized w1" "sw_callback w1 = sw_callback w"
    "\<not> sw_connected w1" "sr_emergency_stop (sw_latest_state w1)" "heartbeat_timed_out now w1 = heartbeat_timed_out now w"
    "lo_initialized (sw_loco w1) = lo_initialized (sw_loco w)" "lo_client (sw_loco w1) = lo_client (sw_loco w)"
    by (auto simp: Wrapper_EmergencyStop_def sample_def UpdateStateSample_def heartbeat_timed_out_def)
qed

text \<open>A synchronization after it, whatever the robot answers.\<close>

lemma GetFsmId_client:
  assumes "GetFsmId E i a = (a1, r, fsm)"
  shows "lo_initialized a1 = lo_initialized a" "lo_client a1 = lo_client a" "sd_Succeeded r \<Longrightarrow> lo_connected a1"
  using assms by (auto simp: GetFsmId_def call_client_def RequireInitialized_def Let_def split: prod.splits if_splits)

lemma sync_after_estop:
  assumes "sw_initialized w" and "sw_callback w" and "\<not> sw_connected w" and "sr_emergency_stop (sw_latest_state w)"
    and "SynchronizeState E now t t' w = (w', r)"
  shows "sw_published w' = sw_published w @ [ToCoreRobotState (sw_latest_state w')]" (is ?published)
    and "sr_emergency_stop (sw_latest_state w') \<longleftrightarrow> \<not> sw_connected w' \<and> \<not> heartbeat_timed_out now w" (is ?stop)
    and "sw_connected w' \<Longrightarrow> sr_fault_code (sw_latest_state w') = 0 \<and> sw_initialized w' \<and> lo_connected (sw_loco w')" (is "_ \<Longrightarrow> ?fault")
    and "lo_initialized (sw_loco w') = lo_initialized (sw_loco w)" (is ?init) and "lo_client (sw_loco w') = lo_client (sw_loco w)" (is ?client)
proof -
  obtain lo r1 fsm where g: "GetFsmId E (- 1) (sw_loco w) = (lo, r1, fsm)" by (cases "GetFsmId E (- 1) (sw_loco w)") auto
  obtain lo2 r2 fsm2 where g2: "GetFsmId E (- 1) lo = (lo2, r2, fsm2)" by (cases "GetFsmId E (- 1) lo") auto
  note kept = GetFsmId_client [OF g] GetFsmId_client [OF g2]
  have timed: "heartbeat_timed_out now (w\<lparr>sw_heartbeat_count := h, sw_loco := l\<rparr>) = heartbeat_timed_out now w" for h l
    by (simp add: heartbeat_timed_out_def)
  note defs = SynchronizeState_def SynchronizeState_section_def reconnect_def link_alive_def sample_def UpdateStateSample_def
    publish_latest_def PublishStateUpdate_def Let_def timed
  have "?published \<and> ?stop \<and> (sw_connected w' \<longrightarrow> ?fault) \<and> ?init \<and> ?client"
    using assms g g2 kept by (auto simp: defs split: if_splits)
  then show ?published ?stop ?init ?client and "sw_connected w' \<Longrightarrow> ?fault" by blast+
qed

lemma stand_reaches_robot:
  assumes "pg_initialized p" and "sw_initialized (pg_wrapper p)" and "sw_connected (pg_wrapper p)"
    and "lo_initialized (sw_loco (pg_wrapper p))" and "lo_client (sw_loco (pg_wrapper p))"
    and "lo_connected (sw_loco (pg_wrapper p))" and "cmd_type c = Type_Stand"
  shows "wrapper_calls (pg_wrapper (fst (Plugin_ExecuteCommand X t c p))) = wrapper_calls (pg_wrapper p) @ [Call_StandUp]"
  using assms by (simp add: Plugin_ExecuteCommand_def motion_command_def Wrapper_StandUp_def Loco_Stand_def connected_command_def
      RequireConnected_def RequireInitialized_def call_client_def after_command_def wrapper_calls_def Let_def split: prod.splits)

text \<open>
  C38. An emergency stop through the plugin is not reported by the call itself, whatever the robot answers: the state
  manager keeps the state it had. The next update then reports it only when the robot does not answer that update and
  the last heartbeat is recent. If the robot answers, the state manager is told of a connected robot without emergency stop
  and without fault, and a stand command is sent to the robot, although the adapter itself still says that it is not
  connected.
\<close>

lemma plugin_estop_lost:
  assumes "pg_initialized p" and "sw_initialized (pg_wrapper p)" and "sw_callback (pg_wrapper p)"
    and "lo_initialized (sw_loco (pg_wrapper p))" and "lo_client (sw_loco (pg_wrapper p))"
    and "pg_state_manager p = Some m" and "cmd_type c = Type_EmergencyStop" and "cmd_type c' = Type_Stand"
    and "Plugin_ExecuteCommand X t c p = (p1, r1)" and "Plugin_Update X now t1 t2 p1 = (p2, r2)"
  shows "pg_state_manager p1 = Some m \<and> sr_emergency_stop (sw_latest_state (pg_wrapper p1)) \<and>
     (\<exists>m2. pg_state_manager p2 = Some m2 \<and>
       (rsm_EmergencyStop m2 \<longleftrightarrow> \<not> sw_connected (pg_wrapper p2) \<and> \<not> heartbeat_timed_out now (pg_wrapper p)) \<and>
       (sw_connected (pg_wrapper p2) \<longrightarrow>
          faultCode (health (GetState m2)) = 0 \<and> connected (connection (GetState m2)) \<and> \<not> pg_connected p2 \<and>
          wrapper_calls (pg_wrapper (fst (Plugin_ExecuteCommand X t3 c' p2))) = wrapper_calls (pg_wrapper p2) @ [Call_StandUp]))"
proof -
  obtain w1 q1 where w1: "Wrapper_EmergencyStop (px_sdk X) t (pg_wrapper p) = (w1, q1)" by fastforce
  note stop = estop_wrapper [OF assms(2) w1]
  have p1: "p1 = p\<lparr>pg_connected := False, pg_wrapper := w1\<rparr>"
    using assms(1,7,9) w1 by (simp add: Plugin_ExecuteCommand_def motion_command_def)
  obtain w2 q2 where w2: "SynchronizeState (px_sdk X) now t1 t2 w1 = (w2, q2)" by fastforce
  note sync = sync_after_estop [OF stop(2) _ stop(4,5) w2, unfolded stop(3), OF assms(3)]
  let ?s = "ToCoreRobotState (sw_latest_state w2)"
  have p2: "p2 = report_state ?s (sw_connected w2) (store_state ?s (p1\<lparr>pg_wrapper := w2\<rparr>))"
    using assms(1,10) w2 sync(1) by (simp add: Plugin_Update_def on_wrapper_def p1 ReadRobotState_def)
  have fields: "pg_initialized p2" "pg_wrapper p2 = w2" "\<not> pg_connected p2"
    "pg_state_manager p2 = Some (UpdateState (?s\<lparr>connection := \<lparr>connected = sw_connected w2\<rparr>\<rparr>) (UpdateState ?s m))"
    using assms(1,6) by (simp_all add: p2 p1 report_state_def store_state_def)
  have "wrapper_calls (pg_wrapper (fst (Plugin_ExecuteCommand X t3 c' p2))) = wrapper_calls (pg_wrapper p2) @ [Call_StandUp]"
    if "sw_connected w2"
    using that sync(3) [OF that] sync(4,5) stop(7,8) assms(4,5,8) fields(1,2) by (intro stand_reaches_robot) simp_all
  moreover have "emergencyStop (health ?s) = sr_emergency_stop (sw_latest_state w2)"
    "faultCode (health ?s) = sr_fault_code (sw_latest_state w2)"
    by (simp_all add: ToCoreRobotState_def Let_def)
  ultimately show ?thesis
    using fields sync(2,3) stop(5) stop(6) [of now] assms(6)
    by (simp add: p1 rsm_EmergencyStop_def GetState_def UpdateState_def)
qed

definition demo_plugin :: plugin_adapter where
  "demo_plugin = fst (Plugin_Connect healthy_plugin 10 11 (Returned ())
     (fst (Plugin_Initialize healthy_plugin 1 True (Plugin_create default_configuration (Some rsm_init)))))"

lemma demo_plugin_fields:
  "pg_initialized demo_plugin" "sw_initialized (pg_wrapper demo_plugin)" "sw_callback (pg_wrapper demo_plugin)"
  "lo_initialized (sw_loco (pg_wrapper demo_plugin))" "lo_client (sw_loco (pg_wrapper demo_plugin))"
  "sw_connected (pg_wrapper demo_plugin)" "lo_connected (sw_loco (pg_wrapper demo_plugin))"
  "pg_state_manager demo_plugin \<noteq> None"
  by code_simp+

theorem plugin_estop_lost_witness:
  "\<exists>p1 p2 m2. p1 = fst (Plugin_ExecuteCommand healthy_plugin 20 demo_estop demo_plugin) \<and>
     p2 = fst (Plugin_Update healthy_plugin 30 31 32 p1) \<and> sw_connected (pg_wrapper p2) \<and>
     pg_state_manager p2 = Some m2 \<and> \<not> rsm_EmergencyStop m2"
proof -
  let ?p1 = "fst (Plugin_ExecuteCommand healthy_plugin 20 demo_estop demo_plugin)"
  obtain m where m: "pg_state_manager demo_plugin = Some m" using demo_plugin_fields(8) by auto
  have "cmd_type demo_estop = Type_EmergencyStop" "cmd_type demo_stand = Type_Stand"
    by (simp_all add: demo_estop_def demo_stand_def default_command_def)
  from plugin_estop_lost [OF demo_plugin_fields(1-5) m this prod.collapse [symmetric] prod.collapse [symmetric]]
  obtain m2 where "pg_state_manager (fst (Plugin_Update healthy_plugin 30 31 32 ?p1)) = Some m2"
    "rsm_EmergencyStop m2 \<longleftrightarrow> \<not> sw_connected (pg_wrapper (fst (Plugin_Update healthy_plugin 30 31 32 ?p1)))
       \<and> \<not> heartbeat_timed_out 30 (pg_wrapper demo_plugin)"
    by blast
  moreover have "sw_connected (pg_wrapper (fst (Plugin_Update healthy_plugin 30 31 32 ?p1)))" by code_simp
  ultimately show ?thesis by blast
qed

section \<open>Speed\<close>

text \<open>
  C39. The two adapters for the same robot differ in the velocities they send. A connected plugin adapter passes every
  finite velocity on to the robot; the adapter of the factory refuses one outside its limits and makes no call.
\<close>

lemma adapters_disagree_on_speed:
  assumes "pg_initialized p" and "sw_initialized (pg_wrapper p)" and "sw_connected (pg_wrapper p)"
    and "lo_initialized (sw_loco (pg_wrapper p))" and "lo_client (sw_loco (pg_wrapper p))" and "lo_connected (sw_loco (pg_wrapper p))"
    and "cmd_type c = Type_Velocity" and "velocity_calls X c = [Call_Move x y z]"
    and "fl_isfinite x" and "fl_isfinite y" and "fl_isfinite z" and "\<not> IsValidVelocity x y z"
  shows "plugin_history (fst (Plugin_ExecuteCommand X t c p)) = extend (plugin_history p) ([Call_Move x y z], [], []) \<and>
    G1_Move E t x y z a = (a, Failure AE_Unknown ''velocity command is invalid or out of range'')"
proof
  have "wrapper_calls (fst (Wrapper_Move (px_sdk X) t x y z (pg_wrapper p))) = wrapper_calls (pg_wrapper p) @ [Call_Move x y z]"
    using assms by (simp add: Wrapper_Move_def Loco_Walk_def velocity_IsFinite_def connected_command_def RequireConnected_def
        call_client_def wrapper_calls_def [of "pg_wrapper p"] split: prod.splits)
  moreover have "Plugin_ExecuteCommand X t c p = motion_command (Wrapper_Move (px_sdk X) t x y z) p"
    using assms(1,7,8) by (simp add: Plugin_ExecuteCommand_def ExecuteVelocity_def velocity_calls_def split: option.splits)
  ultimately show "plugin_history (fst (Plugin_ExecuteCommand X t c p)) = extend (plugin_history p) ([Call_Move x y z], [], [])"
    by (simp add: motion_command_def plugin_history_def split: prod.splits)
  show "G1_Move E t x y z a = (a, Failure AE_Unknown ''velocity command is invalid or out of range'')"
    using assms(12) by (simp add: G1_Move_def)
qed

definition demo_sprint :: command where
  "demo_sprint = default_command\<lparr>cmd_id := 7, cmd_type := Type_Velocity, cmd_payload :=
     [(''angular_z'', PV_Double (Fin 0)), (''linear_x'', PV_Double (Fin 1000)), (''linear_y'', PV_Double (Fin 0))]\<rparr>"

theorem adapters_disagree_on_speed_witness:
  "plugin_history (fst (Plugin_ExecuteCommand healthy_plugin 20 demo_sprint demo_plugin)) =
     extend (plugin_history demo_plugin) ([Call_Move (Fin 1000) (Fin 0) (Fin 0)], [], []) \<and>
   (\<forall>a. fst (G1_Move healthy_env 20 (Fin 1000) (Fin 0) (Fin 0) a) = a)"
proof -
  have "velocity_calls healthy_plugin demo_sprint = [Call_Move (Fin 1000) (Fin 0) (Fin 0)]"
    by (simp add: velocity_calls_def NumberPayload_def payload_find_def demo_sprint_def default_command_def healthy_plugin_def)
  moreover have "cmd_type demo_sprint = Type_Velocity" by (simp add: demo_sprint_def default_command_def)
  moreover have "\<not> IsValidVelocity (Fin 1000) (Fin 0) (Fin 0)" by (simp add: IsValidVelocity_def)
  ultimately show ?thesis
    using adapters_disagree_on_speed [OF demo_plugin_fields(1,2,6,4,5,7), of demo_sprint healthy_plugin "Fin 1000" "Fin 0" "Fin 0" 20 healthy_env]
    by simp
qed

end
