(* ===== verification/Cloud_Platform.thy ===== *)
theory Cloud_Platform
  imports Prelude Instance_Tracking "HOL-Library.List_Lexorder" "HOL-Library.Char_ord"
begin

text \<open>
  The managers of the optional cloud layer: \<open>cloud/fleet/FleetManager.cpp\<close>, \<open>cloud/ota/OtaManager.cpp\<close>,
  \<open>cloud/auth/AuthManager.cpp\<close>, \<open>cloud/monitoring/ObservabilityRegistry.cpp\<close>, \<open>cloud/api/RestApiCatalog.cpp\<close> and
  \<open>cloud/CloudPlatform.cpp\<close>. Every operation runs under one mutex. Unordered maps are association lists, unordered
  sets are sets, and a clock reading is an argument.
\<close>

datatype cloud_error = CE_Success | CE_NotFound | CE_AlreadyExists | CE_InvalidInput | CE_Unauthorized | CE_Unavailable | CE_Failed

record cloud_result =
  cr_code :: cloud_error
  cr_message :: string

definition cloud_ok :: "cloud_result \<Rightarrow> bool" where
  "cloud_ok r = (cr_code r = CE_Success)"

definition cloud_Success :: "string \<Rightarrow> cloud_result" where
  "cloud_Success m = \<lparr>cr_code = CE_Success, cr_message = m\<rparr>"

definition cloud_Failure :: "cloud_error \<Rightarrow> string \<Rightarrow> cloud_result" where
  "cloud_Failure c m = \<lparr>cr_code = c, cr_message = m\<rparr>"

lemma cloud_ok_simps [simp]: "cloud_ok (cloud_Success m)" "cloud_ok (cloud_Failure c m) = (c = CE_Success)"
  by (simp_all add: cloud_ok_def cloud_Success_def cloud_Failure_def)

text \<open>\<open>operator[]\<close> and an assignment.\<close>

definition um_assign :: "'k \<Rightarrow> 'v \<Rightarrow> ('k \<times> 'v) list \<Rightarrow> ('k \<times> 'v) list" where
  "um_assign k v kvs = AList.update k v kvs"

section \<open>Fleet\<close>

record robot_record =
  rr_robotId :: string
  rr_vendor :: string
  rr_model :: string
  rr_online :: bool
  rr_healthy :: bool
  rr_capabilities :: "string list"
  rr_lastHeartbeat :: time_ns
  rr_metadata :: "(string \<times> string) list"

record fleet_status =
  fs_robotCount :: nat
  fs_onlineCount :: nat
  fs_unhealthyCount :: nat
  fs_groupCount :: nat

record mission_distribution =
  mi_missionId :: string
  mi_targetRobotIds :: "string list"
  mi_timestamp :: time_ns

record fleet_manager =
  fm_robots :: "(string \<times> robot_record) list"
  fm_groups :: "(string \<times> string set) list"
  fm_distributions :: "mission_distribution list"

definition FleetManager_create :: fleet_manager where
  "FleetManager_create = \<lparr>fm_robots = [], fm_groups = [], fm_distributions = []\<rparr>"

definition RegisterRobot :: "time_ns \<Rightarrow> robot_record \<Rightarrow> fleet_manager \<Rightarrow> fleet_manager \<times> cloud_result" where
  "RegisterRobot now r f =
     (if rr_robotId r = [] then (f, cloud_Failure CE_InvalidInput ''robot id is required'')
      else if map_of (fm_robots f) (rr_robotId r) \<noteq> None then
        (f, cloud_Failure CE_AlreadyExists ''robot is already registered'')
      else
        (f\<lparr>fm_robots := fst (um_emplace (rr_robotId r) (r\<lparr>rr_lastHeartbeat := now\<rparr>) (fm_robots f))\<rparr>,
         cloud_Success ''robot registered''))"

definition UnregisterRobot :: "string \<Rightarrow> fleet_manager \<Rightarrow> fleet_manager \<times> cloud_result" where
  "UnregisterRobot i f =
     (if snd (um_erase i (fm_robots f)) = 0 then (f, cloud_Failure CE_NotFound ''robot is not registered'')
      else
        (f\<lparr>fm_robots := fst (um_erase i (fm_robots f)),
           fm_groups := map (\<lambda>(g, members). (g, members - {i})) (fm_groups f)\<rparr>,
         cloud_Success ''robot unregistered''))"

definition Heartbeat :: "time_ns \<Rightarrow> string \<Rightarrow> bool \<Rightarrow> fleet_manager \<Rightarrow> fleet_manager \<times> cloud_result" where
  "Heartbeat now i healthy f =
     (if map_of (fm_robots f) i = None then (f, cloud_Failure CE_NotFound ''robot is not registered'')
      else
        (f\<lparr>fm_robots := um_modify i (\<lambda>r. r\<lparr>rr_online := True, rr_healthy := healthy, rr_lastHeartbeat := now\<rparr>) (fm_robots f)\<rparr>,
         cloud_Success ''heartbeat accepted''))"

definition AddRobotToGroup :: "string \<Rightarrow> string \<Rightarrow> fleet_manager \<Rightarrow> fleet_manager \<times> cloud_result" where
  "AddRobotToGroup g i f =
     (if g = [] then (f, cloud_Failure CE_InvalidInput ''group id is required'')
      else if map_of (fm_robots f) i = None then (f, cloud_Failure CE_NotFound ''robot is not registered'')
      else
        (f\<lparr>fm_groups := um_assign g (insert i (case map_of (fm_groups f) g of None \<Rightarrow> {} | Some ms \<Rightarrow> ms)) (fm_groups f)\<rparr>,
         cloud_Success ''robot added to group''))"

definition DistributeMission :: "time_ns \<Rightarrow> string \<Rightarrow> string \<Rightarrow> fleet_manager \<Rightarrow> fleet_manager \<times> cloud_result" where
  "DistributeMission now g mission f =
     (if mission = [] then (f, cloud_Failure CE_InvalidInput ''mission id is required'')
      else (case map_of (fm_groups f) g of
         None \<Rightarrow> (f, cloud_Failure CE_NotFound ''group is not registered'')
       | Some members \<Rightarrow>
           (f\<lparr>fm_distributions := fm_distributions f @
                [\<lparr>mi_missionId = mission, mi_targetRobotIds = sorted_list_of_set members, mi_timestamp = now\<rparr>]\<rparr>,
            cloud_Success ''mission distributed'')))"

definition FindRobot :: "string \<Rightarrow> fleet_manager \<Rightarrow> robot_record option" where
  "FindRobot i f = map_of (fm_robots f) i"

definition Robots :: "fleet_manager \<Rightarrow> robot_record list" where
  "Robots f = sort_key rr_robotId (map snd (fm_robots f))"

definition FleetManager_Status :: "fleet_manager \<Rightarrow> fleet_status" where
  "FleetManager_Status f = \<lparr>fs_robotCount = length (fm_robots f),
     fs_onlineCount = length (filter (\<lambda>(_, r). rr_online r) (fm_robots f)),
     fs_unhealthyCount = length (filter (\<lambda>(_, r). \<not> rr_healthy r) (fm_robots f)),
     fs_groupCount = length (fm_groups f)\<rparr>"

section \<open>Updates\<close>

datatype package_type = PT_Software | PT_Plugin | PT_Mission | PT_Configuration

datatype ota_status = OS_Planned | OS_Verified | OS_Applied | OS_RolledBack | OS_Rejected

record package_descriptor =
  pk_packageId :: string
  pk_version :: string
  pk_type :: package_type
  pk_verificationDigest :: string
  pk_rollbackSupported :: bool

record update_plan =
  up_robotIds :: "string list"
  up_package :: package_descriptor
  up_status :: ota_status
  up_timestamp :: time_ns

record ota_manager =
  ot_packages :: "(string \<times> package_descriptor) list"
  ot_plans :: "update_plan list"

definition OtaManager_create :: ota_manager where
  "OtaManager_create = \<lparr>ot_packages = [], ot_plans = []\<rparr>"

definition RegisterPackage :: "package_descriptor \<Rightarrow> ota_manager \<Rightarrow> ota_manager \<times> cloud_result" where
  "RegisterPackage p m =
     (if pk_packageId p = [] \<or> pk_version p = [] then
        (m, cloud_Failure CE_InvalidInput ''package id and version are required'')
      else (m\<lparr>ot_packages := um_assign (pk_packageId p) p (ot_packages m)\<rparr>, cloud_Success ''package registered''))"

definition PlanUpdate :: "time_ns \<Rightarrow> string \<Rightarrow> string list \<Rightarrow> ota_manager \<Rightarrow> ota_manager \<times> cloud_result" where
  "PlanUpdate now i robots m =
     (if robots = [] then (m, cloud_Failure CE_InvalidInput ''target robots are required'')
      else (case map_of (ot_packages m) i of
         None \<Rightarrow> (m, cloud_Failure CE_NotFound ''package is not registered'')
       | Some p \<Rightarrow>
           (m\<lparr>ot_plans := ot_plans m @ [\<lparr>up_robotIds = robots, up_package = p, up_status = OS_Planned, up_timestamp = now\<rparr>]\<rparr>,
            cloud_Success ''update planned'')))"

definition VerifyPackage :: "string \<Rightarrow> string \<Rightarrow> ota_manager \<Rightarrow> ota_manager \<times> cloud_result" where
  "VerifyPackage i digest m =
     (case map_of (ot_packages m) i of
        None \<Rightarrow> (m, cloud_Failure CE_NotFound ''package is not registered'')
      | Some p \<Rightarrow>
          if pk_verificationDigest p \<noteq> digest then
            (m, cloud_Failure CE_InvalidInput ''package verification digest does not match'')
          else
            (m\<lparr>ot_plans := map (\<lambda>u. if pk_packageId (up_package u) = i then u\<lparr>up_status := OS_Verified\<rparr> else u) (ot_plans m)\<rparr>,
             cloud_Success ''package verified''))"

text \<open>The loop of \<open>Rollback\<close>: the plans as far as it changed them, and what it found; it returns at the first plan without support.\<close>

fun Rollback_loop :: "string \<Rightarrow> update_plan list \<Rightarrow> bool \<Rightarrow> update_plan list \<times> cloud_result" where
  "Rollback_loop i [] found =
     ([], if \<not> found then cloud_Failure CE_NotFound ''update plan is not registered'' else cloud_Success ''rollback planned'')"
| "Rollback_loop i (u # us) found =
     (if pk_packageId (up_package u) = i then
        if \<not> pk_rollbackSupported (up_package u) then
          (u # us, cloud_Failure CE_InvalidInput ''rollback is not supported by package'')
        else (case Rollback_loop i us True of (us', r) \<Rightarrow> (u\<lparr>up_status := OS_RolledBack\<rparr> # us', r))
      else (case Rollback_loop i us found of (us', r) \<Rightarrow> (u # us', r)))"

definition Rollback :: "string \<Rightarrow> ota_manager \<Rightarrow> ota_manager \<times> cloud_result" where
  "Rollback i m = (case Rollback_loop i (ot_plans m) False of (us, r) \<Rightarrow> (m\<lparr>ot_plans := us\<rparr>, r))"

section \<open>Authorization\<close>

datatype auth_scheme = AS_ApiKey | AS_Jwt | AS_OAuth2

record principal =
  pr_principalId :: string
  pr_roles :: "string list"
  pr_scheme :: auth_scheme

record audit_record =
  au_principalId :: string
  au_action :: string
  au_authorized :: bool
  au_timestamp :: time_ns

record auth_manager =
  am_api_keys :: "(string \<times> principal) list"
  am_role_permissions :: "(string \<times> string set) list"
  am_audit_log :: "audit_record list"

definition AuthManager_create :: auth_manager where
  "AuthManager_create = \<lparr>am_api_keys = [], am_role_permissions = [], am_audit_log = []\<rparr>"

definition RegisterApiKey :: "string \<Rightarrow> principal \<Rightarrow> auth_manager \<Rightarrow> auth_manager \<times> cloud_result" where
  "RegisterApiKey key p m =
     (if key = [] \<or> pr_principalId p = [] then (m, cloud_Failure CE_InvalidInput ''api key and principal id are required'')
      else (m\<lparr>am_api_keys := um_assign key p (am_api_keys m)\<rparr>, cloud_Success ''api key registered''))"

definition GrantPermission :: "string \<Rightarrow> string \<Rightarrow> auth_manager \<Rightarrow> auth_manager \<times> cloud_result" where
  "GrantPermission role action m =
     (if role = [] \<or> action = [] then (m, cloud_Failure CE_InvalidInput ''role and action are required'')
      else
        (m\<lparr>am_role_permissions := um_assign role
            (insert action (case map_of (am_role_permissions m) role of None \<Rightarrow> {} | Some as \<Rightarrow> as)) (am_role_permissions m)\<rparr>,
         cloud_Success ''permission granted''))"

definition AuthorizeApiKey :: "time_ns \<Rightarrow> string \<Rightarrow> string \<Rightarrow> auth_manager \<Rightarrow> auth_manager \<times> bool" where
  "AuthorizeApiKey now key action m =
     (let (principal_id, authorized) =
        (case map_of (am_api_keys m) key of
           None \<Rightarrow> (''anonymous'', False)
         | Some p \<Rightarrow> (pr_principalId p,
             list_ex (\<lambda>role. case map_of (am_role_permissions m) role of None \<Rightarrow> False | Some as \<Rightarrow> action \<in> as) (pr_roles p)))
      in (m\<lparr>am_audit_log := am_audit_log m @ [\<lparr>au_principalId = principal_id, au_action = action,
             au_authorized = authorized, au_timestamp = now\<rparr>]\<rparr>, authorized))"

section \<open>Observability\<close>

record metric_sample =
  me_name :: string
  me_value :: fl
  me_tags :: "(string \<times> string) list"
  me_timestamp :: time_ns

record trace_span =
  ts_traceId :: string
  ts_spanId :: string
  ts_operation :: string
  ts_durationMs :: fl

record health_snapshot =
  hs_healthy :: bool
  hs_message :: string

record observability =
  ob_metrics :: "metric_sample list"
  ob_traces :: "trace_span list"
  ob_health :: health_snapshot

definition Observability_create :: observability where
  "Observability_create = \<lparr>ob_metrics = [], ob_traces = [], ob_health = \<lparr>hs_healthy = True, hs_message = ''healthy''\<rparr>\<rparr>"

definition RecordMetric :: "time_ns \<Rightarrow> metric_sample \<Rightarrow> observability \<Rightarrow> observability" where
  "RecordMetric now s ob =
     ob\<lparr>ob_metrics := ob_metrics ob @ [if me_timestamp s = 0 then s\<lparr>me_timestamp := now\<rparr> else s]\<rparr>"

definition RecordTrace :: "trace_span \<Rightarrow> observability \<Rightarrow> observability" where
  "RecordTrace s ob = ob\<lparr>ob_traces := ob_traces ob @ [s]\<rparr>"

definition SetHealth :: "health_snapshot \<Rightarrow> observability \<Rightarrow> observability" where
  "SetHealth h ob = ob\<lparr>ob_health := h\<rparr>"

section \<open>Endpoints and the platform\<close>

datatype http_method = HM_Get | HM_Post | HM_Put | HM_Patch | HM_Delete

record rest_endpoint =
  ep_id :: string
  ep_version :: string
  ep_method :: http_method
  ep_path :: string
  ep_subsystem :: string
  ep_requiresAuthentication :: bool

definition ep :: "string \<Rightarrow> http_method \<Rightarrow> string \<Rightarrow> string \<Rightarrow> bool \<Rightarrow> rest_endpoint" where
  "ep i m p s a = \<lparr>ep_id = i, ep_version = ''v1'', ep_method = m, ep_path = p, ep_subsystem = s, ep_requiresAuthentication = a\<rparr>"

definition RestApiCatalog :: "rest_endpoint list" where
  "RestApiCatalog = [
     ep ''robot.list'' HM_Get ''/api/v1/robots'' ''Robot'' True,
     ep ''robot.connect'' HM_Post ''/api/v1/robots/{id}/connect'' ''Robot'' True,
     ep ''robot.disconnect'' HM_Post ''/api/v1/robots/{id}/disconnect'' ''Robot'' True,
     ep ''mission.list'' HM_Get ''/api/v1/missions'' ''Mission'' True,
     ep ''mission.start'' HM_Post ''/api/v1/missions/{id}/start'' ''Mission'' True,
     ep ''bt.load'' HM_Post ''/api/v1/behavior-trees'' ''BehaviorTree'' True,
     ep ''planner.goal'' HM_Post ''/api/v1/planner/goals'' ''Planner'' True,
     ep ''telemetry.latest'' HM_Get ''/api/v1/telemetry/latest'' ''Telemetry'' True,
     ep ''perception.results'' HM_Get ''/api/v1/perception/results'' ''Perception'' True,
     ep ''fleet.status'' HM_Get ''/api/v1/fleet/status'' ''Fleet'' True,
     ep ''runtime.status'' HM_Get ''/api/v1/runtime/status'' ''Runtime'' True,
     ep ''health.check'' HM_Get ''/api/v1/health'' ''Health'' False,
     ep ''diagnostics.list'' HM_Get ''/api/v1/diagnostics'' ''Diagnostics'' True,
     ep ''configuration.get'' HM_Get ''/api/v1/configuration'' ''Configuration'' True]"

definition FindBySubsystem :: "string \<Rightarrow> rest_endpoint list \<Rightarrow> rest_endpoint list" where
  "FindBySubsystem s es = filter (\<lambda>e. ep_subsystem e = s) es"

text \<open>The platform with its dependencies as values; the defaults replace those that are not injected.\<close>

record cloud_platform =
  cp_endpoints :: "rest_endpoint list"
  cp_fleet :: fleet_manager
  cp_running :: bool

definition CloudPlatform_create :: "rest_endpoint list option \<Rightarrow> fleet_manager option \<Rightarrow> cloud_platform" where
  "CloudPlatform_create api fleet =
     \<lparr>cp_endpoints = (case api of None \<Rightarrow> RestApiCatalog | Some es \<Rightarrow> es),
      cp_fleet = (case fleet of None \<Rightarrow> FleetManager_create | Some f \<Rightarrow> f), cp_running = False\<rparr>"

definition CloudPlatform_Start :: "cloud_platform \<Rightarrow> cloud_platform \<times> bool" where
  "CloudPlatform_Start c = (if cp_running c then (c, False) else (c\<lparr>cp_running := True\<rparr>, True))"

definition CloudPlatform_Stop :: "cloud_platform \<Rightarrow> cloud_platform" where
  "CloudPlatform_Stop c = c\<lparr>cp_running := False\<rparr>"

definition CloudPlatform_Status :: "cloud_platform \<Rightarrow> bool \<times> string \<times> nat \<times> nat" where
  "CloudPlatform_Status c =
     (cp_running c, ''v1'', length (cp_endpoints c), fs_robotCount (FleetManager_Status (cp_fleet c)))"

end
