(* ===== verification/Cloud_Props.thy ===== *)
theory Cloud_Props
  imports Cloud_Platform
begin

text \<open>
  Properties of the cloud managers, over all sequences of their operations: the fleet manager refines a specification
  with relations, authorization is what the history of registrations and grants says, and two defects of the update
  manager.
\<close>

section \<open>Fleet\<close>

datatype fleet_op =
    F_Register time_ns robot_record | F_Unregister string | F_Heartbeat time_ns string bool
  | F_AddToGroup string string | F_Distribute time_ns string string

fun fleet_step :: "fleet_op \<Rightarrow> fleet_manager \<Rightarrow> fleet_manager" where
  "fleet_step (F_Register now r) f = fst (RegisterRobot now r f)"
| "fleet_step (F_Unregister i) f = fst (UnregisterRobot i f)"
| "fleet_step (F_Heartbeat now i h) f = fst (Heartbeat now i h f)"
| "fleet_step (F_AddToGroup g i) f = fst (AddRobotToGroup g i f)"
| "fleet_step (F_Distribute now g mission) f = fst (DistributeMission now g mission f)"

text \<open>The specification: the registered robots, the groups, the membership relation and the missions with their targets.\<close>

record fleet_spec =
  sp_registered :: "string set"
  sp_groups :: "string set"
  sp_member :: "(string \<times> string) set"
  sp_sent :: "(string \<times> string set) list"

fun spec_step :: "fleet_op \<Rightarrow> fleet_spec \<Rightarrow> fleet_spec" where
  "spec_step (F_Register now r) s =
     (if rr_robotId r = [] then s else s\<lparr>sp_registered := insert (rr_robotId r) (sp_registered s)\<rparr>)"
| "spec_step (F_Unregister i) s = s\<lparr>sp_registered := sp_registered s - {i}, sp_member := {(g, j) \<in> sp_member s. j \<noteq> i}\<rparr>"
| "spec_step (F_Heartbeat now i h) s = s"
| "spec_step (F_AddToGroup g i) s =
     (if g = [] \<or> i \<notin> sp_registered s then s
      else s\<lparr>sp_groups := insert g (sp_groups s), sp_member := insert (g, i) (sp_member s)\<rparr>)"
| "spec_step (F_Distribute now g mission) s =
     (if mission = [] \<or> g \<notin> sp_groups s then s else s\<lparr>sp_sent := sp_sent s @ [(mission, sp_member s `` {g})]\<rparr>)"

definition group_members :: "fleet_manager \<Rightarrow> string \<Rightarrow> string set" where
  "group_members f g = (case map_of (fm_groups f) g of None \<Rightarrow> {} | Some ms \<Rightarrow> ms)"

definition fleet_abs :: "fleet_manager \<Rightarrow> fleet_spec" where
  "fleet_abs f = \<lparr>sp_registered = dom (map_of (fm_robots f)), sp_groups = dom (map_of (fm_groups f)),
     sp_member = {(g, i). i \<in> group_members f g},
     sp_sent = map (\<lambda>d. (mi_missionId d, set (mi_targetRobotIds d))) (fm_distributions f)\<rparr>"

text \<open>What the representation keeps.\<close>

definition fleet_ok :: "fleet_manager \<Rightarrow> bool" where
  "fleet_ok f = ((\<forall>g. finite (group_members f g) \<and> group_members f g \<subseteq> dom (map_of (fm_robots f))) \<and>
     distinct (map fst (fm_robots f)) \<and> (\<forall>(i, r) \<in> set (fm_robots f). rr_robotId r = i) \<and>
     list_all (\<lambda>d. sorted_wrt (<) (mi_targetRobotIds d)) (fm_distributions f))"

lemma group_members_Unregister:
  "group_members (f\<lparr>fm_robots := rs, fm_groups := map (\<lambda>(g, ms). (g, ms - {i})) (fm_groups f)\<rparr>) g = group_members f g - {i}"
proof -
  have "map_of (map (\<lambda>(g, ms). (g, ms - {i})) gs) g = map_option (\<lambda>ms. ms - {i}) (map_of gs g)" for gs :: "(string \<times> string set) list"
    by (induction gs) auto
  then show ?thesis by (simp add: group_members_def split: option.split)
qed

lemma group_members_assign:
  "group_members (f\<lparr>fm_groups := um_assign g ms (fm_groups f)\<rparr>) g' = (if g' = g then ms else group_members f g')"
  by (simp add: group_members_def um_assign_def update_conv')

lemma group_members_frame [simp]:
  "group_members (f\<lparr>fm_robots := rs\<rparr>) = group_members f"
  "group_members (f\<lparr>fm_distributions := ds\<rparr>) = group_members f"
  by (simp_all add: group_members_def fun_eq_iff)

lemma AddRobotToGroup_eq:
  "AddRobotToGroup g i f =
     (if g = [] then (f, cloud_Failure CE_InvalidInput ''group id is required'')
      else if map_of (fm_robots f) i = None then (f, cloud_Failure CE_NotFound ''robot is not registered'')
      else (f\<lparr>fm_groups := um_assign g (insert i (group_members f g)) (fm_groups f)\<rparr>, cloud_Success ''robot added to group''))"
  by (simp add: AddRobotToGroup_def group_members_def)

lemma fleet_ok_step: "fleet_ok f \<Longrightarrow> fleet_ok (fleet_step op f)"
proof (induction op f rule: fleet_step.induct)
  case (1 now r f)
  then show ?case
    by (auto simp: RegisterRobot_def fleet_ok_def um_emplace_def map_of_eq_None_iff)
next
  case (2 i f)
  show ?case
  proof (cases "map_of (fm_robots f) i")
    case (Some r)
    have "set (AList.delete i (fm_robots f)) \<subseteq> set (fm_robots f)" by (auto simp: AList.delete_eq)
    with 2 Some show ?thesis
      by (auto simp: UnregisterRobot_def um_erase_def fleet_ok_def group_members_Unregister delete_conv' distinct_delete)
  qed (use 2 in \<open>simp add: UnregisterRobot_def um_erase_def\<close>)
next
  case (3 now i h f)
  then show ?case
    by (auto simp: Heartbeat_def fleet_ok_def) (auto simp: um_modify_def dom_def subset_iff)
next
  case (4 g i f)
  then show ?case
    by (auto simp: AddRobotToGroup_eq fleet_ok_def group_members_assign)
next
  case (5 now g mission f)
  then show ?case
    by (auto simp: DistributeMission_def fleet_ok_def split: option.splits)
qed

lemma fleet_abs_step: "fleet_ok f \<Longrightarrow> fleet_abs (fleet_step op f) = spec_step op (fleet_abs f)"
proof (induction op f rule: fleet_step.induct)
  case (1 now r f)
  then show ?case by (auto simp: RegisterRobot_def fleet_abs_def um_emplace_def)
next
  case (2 i f)
  show ?case
  proof (cases "map_of (fm_robots f) i")
    case None
    with 2 have "\<forall>g. i \<notin> group_members f g" by (auto simp: fleet_ok_def)
    with None show ?thesis by (auto simp: UnregisterRobot_def um_erase_def fleet_abs_def)
  next
    case (Some r)
    have "dom (map_of (map (\<lambda>(g, ms). (g, ms - {i})) gs)) = dom (map_of gs)" for gs :: "(string \<times> string set) list"
      by (force simp: dom_map_of_conv_image_fst)
    with Some show ?thesis
      by (auto simp: UnregisterRobot_def um_erase_def fleet_abs_def group_members_Unregister delete_conv')
  qed
next
  case (3 now i h f)
  then show ?case by (auto simp: Heartbeat_def fleet_abs_def dom_def)
next
  case (4 g i f)
  have "dom (map_of (um_assign g ms gs)) = insert g (dom (map_of gs))" for ms and gs :: "(string \<times> string set) list"
    by (simp add: um_assign_def update_conv')
  then show ?case by (auto simp: AddRobotToGroup_eq fleet_abs_def group_members_assign split: if_splits)
next
  case (5 now g mission f)
  then have "finite (group_members f g)" by (simp add: fleet_ok_def)
  then show ?case
    by (auto simp: DistributeMission_def fleet_abs_def group_members_def split: option.splits)
qed

definition fleet_run :: "fleet_op list \<Rightarrow> fleet_manager" where
  "fleet_run ops = fold fleet_step ops FleetManager_create"

definition spec_init :: fleet_spec where
  "spec_init = \<lparr>sp_registered = {}, sp_groups = {}, sp_member = {}, sp_sent = []\<rparr>"

lemma fleet_run_ok: "fleet_ok (fleet_run ops)"
proof -
  have "fleet_ok f \<Longrightarrow> fleet_ok (fold fleet_step ops f)" for f by (induction ops arbitrary: f) (simp_all add: fleet_ok_step)
  moreover have "fleet_ok FleetManager_create" by (simp add: fleet_ok_def FleetManager_create_def group_members_def)
  ultimately show ?thesis by (simp add: fleet_run_def)
qed

text \<open>
  C36. After any sequence of operations the fleet manager holds what the specification holds: the robots registered and
  not unregistered since, the groups ever filled, for each group exactly the robots added to it and not unregistered
  since, and every mission with the members its group had when it was distributed. The targets of a mission are in
  increasing order without repetition, only registered robots are members of a group, and \<open>Status\<close> counts the robots.
\<close>

theorem fleet_refines:
  "fleet_abs (fleet_run ops) = fold spec_step ops spec_init
   \<and> list_all (\<lambda>d. sorted_wrt (<) (mi_targetRobotIds d)) (fm_distributions (fleet_run ops))
   \<and> sp_member (fleet_abs (fleet_run ops)) \<subseteq> UNIV \<times> sp_registered (fleet_abs (fleet_run ops))
   \<and> fs_robotCount (FleetManager_Status (fleet_run ops)) = card (sp_registered (fleet_abs (fleet_run ops)))"
proof -
  have "fleet_ok f \<Longrightarrow> fleet_abs (fold fleet_step ops f) = fold spec_step ops (fleet_abs f)" for f
    by (induction ops arbitrary: f) (simp_all add: fleet_ok_step fleet_abs_step)
  moreover have "fleet_ok FleetManager_create" by (simp add: fleet_ok_def FleetManager_create_def group_members_def)
  moreover have "fleet_abs FleetManager_create = spec_init"
    by (simp add: fleet_abs_def FleetManager_create_def spec_init_def group_members_def)
  ultimately have refines: "fleet_abs (fleet_run ops) = fold spec_step ops spec_init" by (simp add: fleet_run_def)
  have ok: "fleet_ok (fleet_run ops)" by (rule fleet_run_ok)
  then have "sp_member (fleet_abs (fleet_run ops)) \<subseteq> UNIV \<times> sp_registered (fleet_abs (fleet_run ops))"
    by (auto simp: fleet_ok_def fleet_abs_def)
  moreover have "length (fm_robots (fleet_run ops)) = card (dom (map_of (fm_robots (fleet_run ops))))"
    using ok by (simp add: fleet_ok_def dom_map_of_conv_image_fst) (metis distinct_card length_map set_map)
  then have "fs_robotCount (FleetManager_Status (fleet_run ops)) = card (sp_registered (fleet_abs (fleet_run ops)))"
    by (simp add: FleetManager_Status_def fleet_abs_def)
  ultimately show ?thesis using refines ok by (simp add: fleet_ok_def)
qed

section \<open>Authorization\<close>

datatype auth_op = A_Key string principal | A_Grant string string | A_Authorize time_ns string string

fun auth_step :: "auth_op \<Rightarrow> auth_manager \<Rightarrow> auth_manager" where
  "auth_step (A_Key key p) m = fst (RegisterApiKey key p m)"
| "auth_step (A_Grant role action) m = fst (GrantPermission role action m)"
| "auth_step (A_Authorize now key action) m = fst (AuthorizeApiKey now key action m)"

definition auth_run :: "auth_op list \<Rightarrow> auth_manager" where
  "auth_run ops = fold auth_step ops AuthManager_create"

text \<open>The principal of the last valid registration of a key, and whether an action was granted to a role.\<close>

fun last_principal :: "string \<Rightarrow> auth_op list \<Rightarrow> principal option \<Rightarrow> principal option" where
  "last_principal key [] p = p"
| "last_principal key (A_Key k q # ops) p =
     last_principal key ops (if k = key \<and> k \<noteq> [] \<and> pr_principalId q \<noteq> [] then Some q else p)"
| "last_principal key (_ # ops) p = last_principal key ops p"

definition granted :: "auth_op list \<Rightarrow> string \<Rightarrow> string \<Rightarrow> bool" where
  "granted ops role action = (role \<noteq> [] \<and> action \<noteq> [] \<and> A_Grant role action \<in> set ops)"

definition is_authorize :: "auth_op \<Rightarrow> bool" where
  "is_authorize op = (case op of A_Authorize _ _ _ \<Rightarrow> True | _ \<Rightarrow> False)"

definition permits :: "auth_manager \<Rightarrow> string \<Rightarrow> string \<Rightarrow> bool" where
  "permits m role action = (case map_of (am_role_permissions m) role of None \<Rightarrow> False | Some as \<Rightarrow> action \<in> as)"

lemma auth_fold_keys: "map_of (am_api_keys (fold auth_step ops m)) key = last_principal key ops (map_of (am_api_keys m) key)"
proof (induction ops arbitrary: m)
  case (Cons op ops)
  show ?case
  proof (cases op)
    case (A_Key k q)
    then show ?thesis by (simp add: Cons.IH RegisterApiKey_def um_assign_def update_conv')
  next
    case (A_Grant role action)
    then show ?thesis by (simp add: Cons.IH GrantPermission_def)
  next
    case (A_Authorize now k action)
    then show ?thesis by (simp add: Cons.IH AuthorizeApiKey_def split: option.splits)
  qed
qed simp

lemma auth_step_permits:
  "permits (auth_step op m) role action = (permits m role action \<or> granted [op] role action)"
proof (cases op)
  case (A_Key k q)
  then show ?thesis by (simp add: permits_def RegisterApiKey_def granted_def)
next
  case (A_Grant r a)
  then show ?thesis
    by (auto simp: permits_def GrantPermission_def granted_def um_assign_def update_conv' split: option.splits)
next
  case (A_Authorize now k a)
  then show ?thesis by (simp add: permits_def AuthorizeApiKey_def granted_def split: option.splits)
qed

lemma auth_fold_permits:
  "permits (fold auth_step ops m) role action = (permits m role action \<or> granted ops role action)"
  by (induction ops arbitrary: m) (auto simp: auth_step_permits granted_def)

lemma auth_fold_log:
  "length (am_audit_log (fold auth_step ops m)) = length (am_audit_log m) + length (filter is_authorize ops)"
proof (induction ops arbitrary: m)
  case (Cons op ops)
  then show ?case
    by (cases op) (auto simp: RegisterApiKey_def GrantPermission_def AuthorizeApiKey_def is_authorize_def split: option.splits)
qed simp

text \<open>
  C37. After any sequence of operations an API key is authorized for an action exactly when the principal of the last
  valid registration of the key has a role to which the action was granted at some time before; the request and its
  verdict are appended to the audit log, which has one record for every earlier request and no other.
\<close>

theorem authorize_exact:
  "(snd (AuthorizeApiKey now key action (auth_run ops)) \<longleftrightarrow>
      (\<exists>p. last_principal key ops None = Some p \<and> (\<exists>role \<in> set (pr_roles p). granted ops role action)))
   \<and> length (am_audit_log (auth_run ops)) = length (filter is_authorize ops)
   \<and> (\<exists>entry. am_audit_log (fst (AuthorizeApiKey now key action (auth_run ops))) = am_audit_log (auth_run ops) @ [entry]
        \<and> au_action entry = action \<and> au_timestamp entry = now
        \<and> au_authorized entry = snd (AuthorizeApiKey now key action (auth_run ops)))"
proof -
  have keys: "map_of (am_api_keys (auth_run ops)) key = last_principal key ops None"
    by (simp add: auth_run_def auth_fold_keys AuthManager_create_def)
  have perm: "permits (auth_run ops) role action = granted ops role action" for role
    by (simp add: auth_run_def auth_fold_permits) (simp add: permits_def AuthManager_create_def)
  have log: "length (am_audit_log (auth_run ops)) = length (filter is_authorize ops)"
    by (simp add: auth_run_def auth_fold_log) (simp add: AuthManager_create_def)
  have "snd (AuthorizeApiKey now key action (auth_run ops)) \<longleftrightarrow>
      (\<exists>p. last_principal key ops None = Some p \<and> (\<exists>role \<in> set (pr_roles p). permits (auth_run ops) role action))"
    by (auto simp: AuthorizeApiKey_def keys permits_def list_ex_iff split: option.splits)
  moreover have "\<exists>entry. am_audit_log (fst (AuthorizeApiKey now key action (auth_run ops))) = am_audit_log (auth_run ops) @ [entry]
        \<and> au_action entry = action \<and> au_timestamp entry = now
        \<and> au_authorized entry = snd (AuthorizeApiKey now key action (auth_run ops))"
    by (simp add: AuthorizeApiKey_def split: option.splits)
  ultimately show ?thesis using log by (simp add: perm)
qed

section \<open>Updates\<close>

definition package :: "string \<Rightarrow> string \<Rightarrow> bool \<Rightarrow> package_descriptor" where
  "package version digest rollback = \<lparr>pk_packageId = ''nav'', pk_version = version, pk_type = PT_Software,
     pk_verificationDigest = digest, pk_rollbackSupported = rollback\<rparr>"

text \<open>An update planned with version 1 of a package, then one planned with version 2, which cannot be rolled back.\<close>

definition two_versions :: ota_manager where
  "two_versions = fst (PlanUpdate 2 ''nav'' [''r2''] (fst (RegisterPackage (package ''2'' ''bbb'' False)
     (fst (PlanUpdate 1 ''nav'' [''r1''] (fst (RegisterPackage (package ''1'' ''aaa'' True) OtaManager_create)))))))"

text \<open>
  Verifying the registered version of a package marks every plan with that package identifier as verified, also a
  plan that carries an earlier version whose digest is another one: here a plan for a package with digest \<open>aaa\<close> becomes
  Verified by a check of the digest \<open>bbb\<close>.
\<close>

theorem verify_marks_other_version:
  "\<exists>m. VerifyPackage ''nav'' ''bbb'' two_versions = (m, cloud_Success ''package verified'') \<and>
     map (\<lambda>u. (pk_verificationDigest (up_package u), up_status u)) (ot_plans m) =
       [(''aaa'', OS_Verified), (''bbb'', OS_Verified)]"
  by (simp add: VerifyPackage_def two_versions_def PlanUpdate_def RegisterPackage_def OtaManager_create_def package_def
      um_assign_def)

text \<open>
  \<open>Rollback\<close> changes plans before it finds one that cannot be rolled back: it reports a failure although the earlier
  plans are already marked as rolled back.
\<close>

theorem rollback_fails_halfway:
  "\<exists>m. Rollback ''nav'' two_versions = (m, cloud_Failure CE_InvalidInput ''rollback is not supported by package'') \<and>
     map up_status (ot_plans two_versions) = [OS_Planned, OS_Planned] \<and> map up_status (ot_plans m) = [OS_RolledBack, OS_Planned]"
  by (simp add: Rollback_def two_versions_def PlanUpdate_def RegisterPackage_def OtaManager_create_def package_def
      um_assign_def)

text \<open>When it succeeds, every plan of the package is rolled back and the others are as they were.\<close>

lemma Rollback_loop_ok:
  "Rollback_loop i us found = (us', r) \<Longrightarrow> cloud_ok r \<Longrightarrow>
     us' = map (\<lambda>u. if pk_packageId (up_package u) = i then u\<lparr>up_status := OS_RolledBack\<rparr> else u) us"
proof (induction i us found arbitrary: us' r rule: Rollback_loop.induct)
  case (2 i u us found)
  then show ?case by (auto split: if_splits prod.splits)
qed simp

end
