(* ===== verification/Robot_Services.thy ===== *)
theory Robot_Services
  imports Unitree_Adapter Instance_Tracking
begin

text \<open>
  \<open>src/factory/RobotFactoryRegistry.cpp\<close> with \<open>src/adapters/unitree/UnitreeRobotFactory.cpp\<close>, and
  \<open>src/services/TelemetryService.cpp\<close>. A factory is a value with the answers of its methods; an adapter it creates is a
  number. A thread of the telemetry service is an index into a list of threads with their stop token.
\<close>

section \<open>Robot factories\<close>

record robot_factory =
  rf_Vendor :: string
  rf_SupportedModels :: "string list"
  rf_Supports :: "string \<Rightarrow> string \<Rightarrow> bool"
  rf_CreateAdapter :: "robot_config \<Rightarrow> g1_adapter option"

definition UnitreeRobotFactory :: "bool \<Rightarrow> robot_factory" where
  "UnitreeRobotFactory manager =
     (let supports = (\<lambda>vendor model. vendor = ''Unitree'' \<and> model = ''G1'') in
      \<lparr>rf_Vendor = ''Unitree'', rf_SupportedModels = [''G1''], rf_Supports = supports,
       rf_CreateAdapter = (\<lambda>c. if \<not> supports (rc_vendor c) (rc_model c) then None
         else Some (UnitreeG1Adapter_create c None manager))\<rparr>)"

type_synonym factory_registry = "robot_factory list"

definition RegisterFactory :: "robot_factory option \<Rightarrow> factory_registry \<Rightarrow> factory_registry \<times> adapter_result" where
  "RegisterFactory factory fs =
     (case factory of
        None \<Rightarrow> (fs, Failure AE_Unknown ''robot factory is null'')
      | Some f \<Rightarrow>
          if list_ex (\<lambda>g. list_ex (\<lambda>model. rf_Supports g (rf_Vendor f) model) (rf_SupportedModels f)) fs then
            (fs, Failure AE_Unknown ''robot factory is already registered'')
          else (fs @ [f], Success ''robot factory registered''))"

definition FindFactory :: "string \<Rightarrow> string \<Rightarrow> factory_registry \<Rightarrow> robot_factory option" where
  "FindFactory vendor model fs = find (\<lambda>f. rf_Supports f vendor model) fs"

definition CreateAdapter :: "robot_config \<Rightarrow> factory_registry \<Rightarrow> g1_adapter option" where
  "CreateAdapter c fs =
     (case FindFactory (rc_vendor c) (rc_model c) fs of None \<Rightarrow> None | Some f \<Rightarrow> rf_CreateAdapter f c)"

definition FactoryCount :: "factory_registry \<Rightarrow> nat" where
  "FactoryCount fs = length fs"

definition RegisteredVendors :: "factory_registry \<Rightarrow> string list" where
  "RegisteredVendors fs = map rf_Vendor fs"

section \<open>Telemetry\<close>

record telemetry_thread =
  tt_stop :: bool \<comment> \<open>its stop token\<close>
  tt_alive :: bool

record telemetry_service =
  tl_state_manager :: bool
  tl_polling_interval :: time_ms
  tl_listeners :: "(u64 \<times> nat) list"
  tl_next_subscription_id :: u64
  tl_stop_requested :: bool
  tl_worker :: "nat option"
  tl_threads :: "telemetry_thread list"

definition NormalizePollingInterval :: "time_ms \<Rightarrow> time_ms" where
  "NormalizePollingInterval i = (if i > 0 then i else 100)"

definition TelemetryService_create :: "bool \<Rightarrow> time_ms \<Rightarrow> telemetry_service" where
  "TelemetryService_create manager interval = \<lparr>tl_state_manager = manager,
     tl_polling_interval = NormalizePollingInterval interval, tl_listeners = [], tl_next_subscription_id = 1,
     tl_stop_requested = False, tl_worker = None, tl_threads = []\<rparr>"

text \<open>\<open>created\<close> says whether the construction of the thread succeeds.\<close>

definition Telemetry_Start :: "bool \<Rightarrow> telemetry_service \<Rightarrow> telemetry_service \<times> bool" where
  "Telemetry_Start created s =
     (if \<not> tl_state_manager s \<or> tl_worker s \<noteq> None then (s, False)
      else if created then
        (s\<lparr>tl_stop_requested := False, tl_worker := Some (length (tl_threads s)),
           tl_threads := tl_threads s @ [\<lparr>tt_stop = False, tt_alive = True\<rparr>]\<rparr>, True)
      else (s\<lparr>tl_stop_requested := True\<rparr>, False))"

text \<open>
  The critical section of \<open>Stop\<close> called on thread \<open>self\<close> (\<open>None\<close> for a thread that is not one of the service); the
  handle it moves out is joined after it.
\<close>

definition Telemetry_Stop :: "nat option \<Rightarrow> telemetry_service \<Rightarrow> telemetry_service \<times> nat option" where
  "Telemetry_Stop self s =
     (let s1 = s\<lparr>tl_stop_requested := True\<rparr> in
      case tl_worker s of
        None \<Rightarrow> (s1, None)
      | Some w \<Rightarrow>
          (let s2 = s1\<lparr>tl_threads := (tl_threads s)[w := (tl_threads s ! w)\<lparr>tt_stop := True\<rparr>]\<rparr> in
           if self = Some w then (s2, None) else (s2\<lparr>tl_worker := None\<rparr>, Some w)))"

text \<open>
  \<open>Run\<close> of thread \<open>w\<close>: at the head of its loop it publishes or ends; after the wait it goes on or ends. \<open>true\<close> is the
  end.
\<close>

definition Run_head :: "nat \<Rightarrow> telemetry_service \<Rightarrow> bool" where
  "Run_head w s = tt_stop (tl_threads s ! w)"

definition Run_wake :: "nat \<Rightarrow> telemetry_service \<Rightarrow> bool" where
  "Run_wake w s = (tl_stop_requested s \<or> tt_stop (tl_threads s ! w))"

definition Run_end :: "nat \<Rightarrow> telemetry_service \<Rightarrow> telemetry_service" where
  "Run_end w s = s\<lparr>tl_threads := (tl_threads s)[w := (tl_threads s ! w)\<lparr>tt_alive := False\<rparr>]\<rparr>"

text \<open>The calls \<open>PublishCurrentState\<close> makes: every listener gets the same state; what it throws is ignored.\<close>

definition PublishCurrentState :: "robot_state \<Rightarrow> telemetry_service \<Rightarrow> (nat \<times> robot_state) list" where
  "PublishCurrentState state s = map (\<lambda>(_, l). (l, state)) (tl_listeners s)"

definition next_id :: "u64 \<Rightarrow> u64" where
  "next_id i = (if i + 1 = 0 then 1 else i + 1)"

text \<open>The loop of \<open>AllocateSubscriptionIdLocked\<close> with the attempts that are left: the next identifier and the answer.\<close>

function allocate_loop :: "nat \<Rightarrow> u64 \<Rightarrow> (u64 \<times> nat) list \<Rightarrow> u64 \<times> u64" where
  "allocate_loop attempts i listeners =
     (if attempts = 0 then (i, 0)
      else if i \<noteq> 0 \<and> map_of listeners i = None then (next_id i, i)
      else allocate_loop (attempts - 1) (next_id i) listeners)"
  by pat_completeness auto
termination by (relation "measure (\<lambda>(n, _, _). n)") auto

declare allocate_loop.simps [simp del]

definition AllocateSubscriptionIdLocked :: "telemetry_service \<Rightarrow> telemetry_service \<times> u64" where
  "AllocateSubscriptionIdLocked s =
     (case allocate_loop 18446744073709551615 (tl_next_subscription_id s) (tl_listeners s) of
        (i, answer) \<Rightarrow> (s\<lparr>tl_next_subscription_id := i\<rparr>, answer))"

text \<open>An empty listener is \<open>None\<close>; \<open>stored\<close> is false when the insertion throws.\<close>

definition Telemetry_Subscribe :: "bool \<Rightarrow> nat option \<Rightarrow> telemetry_service \<Rightarrow> telemetry_service \<times> u64" where
  "Telemetry_Subscribe stored listener s =
     (case listener of
        None \<Rightarrow> (s, 0)
      | Some l \<Rightarrow>
          (case AllocateSubscriptionIdLocked s of
             (s1, i) \<Rightarrow>
               if i = 0 \<or> \<not> stored then (s1, 0)
               else (s1\<lparr>tl_listeners := fst (um_emplace i l (tl_listeners s1))\<rparr>, i)))"

definition Telemetry_Unsubscribe :: "u64 \<Rightarrow> telemetry_service \<Rightarrow> telemetry_service \<times> bool" where
  "Telemetry_Unsubscribe i s =
     (if i = 0 then (s, False)
      else (s\<lparr>tl_listeners := fst (um_erase i (tl_listeners s))\<rparr>, snd (um_erase i (tl_listeners s)) > 0))"

text \<open>
  The critical sections of the service and of its threads, interleaved: a thread ends where \<open>Run\<close> leaves its loop, and
  a call of \<open>Stop\<close> comes from outside or, through a listener, from a live thread of the service.
\<close>

inductive telemetry_step :: "telemetry_service \<Rightarrow> telemetry_service \<Rightarrow> bool" where
  step_Start: "telemetry_step s (fst (Telemetry_Start created s))"
| step_Stop: "telemetry_step s (fst (Telemetry_Stop None s))"
| step_Stop_own: "t < length (tl_threads s) \<Longrightarrow> tt_alive (tl_threads s ! t) \<Longrightarrow>
    telemetry_step s (fst (Telemetry_Stop (Some t) s))"
| step_Run_end: "w < length (tl_threads s) \<Longrightarrow> Run_head w s \<or> Run_wake w s \<Longrightarrow> telemetry_step s (Run_end w s)"
| step_Subscribe: "telemetry_step s (fst (Telemetry_Subscribe stored listener s))"
| step_Unsubscribe: "telemetry_step s (fst (Telemetry_Unsubscribe i s))"

inductive telemetry_reachable :: "telemetry_service \<Rightarrow> bool" where
  created: "telemetry_reachable (TelemetryService_create manager interval)"
| stepped: "telemetry_reachable s \<Longrightarrow> telemetry_step s t \<Longrightarrow> telemetry_reachable t"

definition ids_ok :: "telemetry_service \<Rightarrow> bool" where
  "ids_ok s = (tl_next_subscription_id s \<noteq> 0 \<and> keys_ok (tl_listeners s) \<and> map_of (tl_listeners s) 0 = None)"

text \<open>A thread that is not told to stop is alive and is the one of the handle, and none is left once a stop is requested.\<close>

definition threads_ok :: "telemetry_service \<Rightarrow> bool" where
  "threads_ok s =
     ((\<forall>w. tl_worker s = Some w \<longrightarrow> w < length (tl_threads s)) \<and>
      (\<forall>t < length (tl_threads s). tt_stop (tl_threads s ! t) \<or>
         (tt_alive (tl_threads s ! t) \<and> tl_worker s = Some t \<and> \<not> tl_stop_requested s)))"

section \<open>Subscription identifiers\<close>

definition id_count :: nat where
  "id_count = 18446744073709551615"

definition id_index :: "u64 \<Rightarrow> nat" where
  "id_index i = unat i - 1"

lemma next_id_nonzero [simp]: "next_id i \<noteq> 0"
  by (simp add: next_id_def)

lemma u64_bound: "unat (i :: u64) \<le> id_count"
  using unsigned_less [of i, where ?'a = nat] by (simp add: id_count_def)

lemma id_index_next: "i \<noteq> 0 \<Longrightarrow> id_index (next_id i) = (id_index i + 1) mod id_count"
proof -
  assume i: "i \<noteq> 0"
  then have pos: "0 < unat i" by (simp add: unat_gt_0)
  show ?thesis
  proof (cases "i + 1 = 0")
    case True
    then have "i = - 1" by (simp add: eq_neg_iff_add_eq_0)
    moreover have "unat (- 1 :: u64) = id_count" by (simp add: id_count_def unsigned_minus_1_eq_mask mask_eq_exp_minus_1)
    ultimately show ?thesis using True pos by (simp add: next_id_def id_index_def)
  next
    case False
    then have "unat (i + 1) = unat i + 1" using unatSuc [of i] by (simp add: add.commute)
    moreover have "unat (i + 1) \<le> id_count" by (rule u64_bound)
    ultimately show ?thesis using False pos by (simp add: next_id_def id_index_def)
  qed
qed

lemma id_index_funpow: "i \<noteq> 0 \<Longrightarrow> (next_id ^^ k) i \<noteq> 0 \<and> id_index ((next_id ^^ k) i) = (id_index i + k) mod id_count"
proof (induction k)
  case 0
  then have "0 < unat i" by (simp add: unat_gt_0)
  then have "id_index i < id_count" using u64_bound [of i] by (simp add: id_index_def less_eq_Suc_le)
  then show ?case using 0 by simp
next
  case (Suc k)
  then show ?case by (simp add: id_index_next mod_simps)
qed

lemma mod_window_inj: "(a + j) mod n = (a + k) mod n \<Longrightarrow> j < n \<Longrightarrow> k < n \<Longrightarrow> j = (k :: nat)"
proof (induction j k rule: linorder_wlog)
  case (le j k)
  then have "n dvd (a + k) - (a + j)" by (metis add_le_cancel_left mod_eq_dvd_iff_nat)
  then show ?case using le by (auto dest: dvd_imp_le)
qed auto

lemma candidates_distinct: "i \<noteq> 0 \<Longrightarrow> inj_on (\<lambda>k. (next_id ^^ k) i) {..<id_count}"
proof (rule inj_onI)
  fix j k
  assume i: "i \<noteq> 0" and jk: "j \<in> {..<id_count}" "k \<in> {..<id_count}" and eq: "(next_id ^^ j) i = (next_id ^^ k) i"
  have "(id_index i + j) mod id_count = (id_index i + k) mod id_count"
    using id_index_funpow [OF i, of j] id_index_funpow [OF i, of k] eq by simp
  then show "j = k" using jk unfolding lessThan_iff by (rule mod_window_inj)
qed

lemma free_candidate:
  assumes "i \<noteq> 0" and "length listeners < id_count"
  shows "\<exists>k < id_count. map_of listeners ((next_id ^^ k) i) = None"
proof (rule ccontr)
  assume "\<not> ?thesis"
  then have "(\<lambda>k. (next_id ^^ k) i) ` {..<id_count} \<subseteq> set (map fst listeners)"
    by (force simp: map_of_eq_None_iff)
  then have "card ((\<lambda>k. (next_id ^^ k) i) ` {..<id_count}) \<le> card (set (map fst listeners))"
    by (rule card_mono [OF finite_set])
  also have "\<dots> \<le> length listeners" using card_length [of "map fst listeners"] by simp
  finally show False using assms(2) card_image [OF candidates_distinct [OF assms(1)]] by simp
qed

lemma allocate_loop_finds:
  assumes "k < n" and "i \<noteq> 0" and "map_of listeners ((next_id ^^ k) i) = None"
  shows "\<exists>j a. allocate_loop n i listeners = (j, a) \<and> j \<noteq> 0 \<and> a \<noteq> 0 \<and> map_of listeners a = None"
  using assms
proof (induction k arbitrary: n i)
  case 0
  then show ?case by (simp add: allocate_loop.simps)
next
  case (Suc k)
  then show ?case
    using Suc.IH [of "n - 1" "next_id i"] by (subst allocate_loop.simps) (auto simp: funpow_swap1)
qed

lemma allocate_loop_nonzero: "i \<noteq> 0 \<Longrightarrow> fst (allocate_loop n i listeners) \<noteq> 0"
  by (induction n i listeners rule: allocate_loop.induct) (subst allocate_loop.simps, auto)

lemma allocate_loop_answer:
  "snd (allocate_loop n i listeners) \<noteq> 0 \<Longrightarrow> map_of listeners (snd (allocate_loop n i listeners)) = None"
  by (induction n i listeners rule: allocate_loop.induct)
    (subst allocate_loop.simps, subst (asm) (2) allocate_loop.simps, auto split: if_splits)

section \<open>Invariants of the telemetry service\<close>

lemma allocate_keeps: "ids_ok s \<Longrightarrow> ids_ok (fst (AllocateSubscriptionIdLocked s))"
  using allocate_loop_nonzero [of "tl_next_subscription_id s" 18446744073709551615 "tl_listeners s"]
  by (auto simp: AllocateSubscriptionIdLocked_def ids_ok_def split: prod.splits)

lemma allocate_threads:
  "tl_threads (fst (AllocateSubscriptionIdLocked s)) = tl_threads s"
  "tl_worker (fst (AllocateSubscriptionIdLocked s)) = tl_worker s"
  "tl_stop_requested (fst (AllocateSubscriptionIdLocked s)) = tl_stop_requested s"
  "tl_listeners (fst (AllocateSubscriptionIdLocked s)) = tl_listeners s"
  by (auto simp: AllocateSubscriptionIdLocked_def split: prod.splits)

lemma subscribe_ids: "ids_ok s \<Longrightarrow> ids_ok (fst (Telemetry_Subscribe stored listener s))"
  using allocate_keeps [of s]
  by (auto simp: Telemetry_Subscribe_def ids_ok_def um_emplace_def keys_ok_def map_of_eq_None_iff
      split: option.splits prod.splits if_splits)

lemma subscribe_threads: "threads_ok (fst (Telemetry_Subscribe stored listener s)) = threads_ok s"
  using allocate_threads [of s]
  by (auto simp: Telemetry_Subscribe_def threads_ok_def split: option.splits prod.splits)

lemma unsubscribe_ok:
  "ids_ok s \<Longrightarrow> ids_ok (fst (Telemetry_Unsubscribe i s))"
  "threads_ok (fst (Telemetry_Unsubscribe i s)) = threads_ok s"
  by (auto simp: Telemetry_Unsubscribe_def ids_ok_def threads_ok_def um_erase_def keys_ok_def distinct_delete
      delete_conv')

lemma lifecycle_ids:
  "ids_ok (fst (Telemetry_Start b s)) = ids_ok s"
  "ids_ok (fst (Telemetry_Stop self s)) = ids_ok s"
  "ids_ok (Run_end w s) = ids_ok s"
  by (auto simp: ids_ok_def Telemetry_Start_def Telemetry_Stop_def Run_end_def Let_def split: option.splits)

lemma start_threads: "threads_ok s \<Longrightarrow> threads_ok (fst (Telemetry_Start b s))"
  by (auto simp: threads_ok_def Telemetry_Start_def nth_append less_Suc_eq)

lemma stop_threads: "threads_ok s \<Longrightarrow> threads_ok (fst (Telemetry_Stop self s))"
  by (auto simp: threads_ok_def Telemetry_Stop_def Let_def nth_list_update split: option.splits if_splits)

lemma end_threads:
  "threads_ok s \<Longrightarrow> w < length (tl_threads s) \<Longrightarrow> Run_head w s \<or> Run_wake w s \<Longrightarrow> threads_ok (Run_end w s)"
  by (auto simp: threads_ok_def Run_end_def Run_head_def Run_wake_def nth_list_update)

lemma telemetry_invariant: "telemetry_reachable s \<Longrightarrow> ids_ok s \<and> threads_ok s"
proof (induction rule: telemetry_reachable.induct)
  case created
  then show ?case by (simp add: TelemetryService_create_def ids_ok_def threads_ok_def keys_ok_def)
next
  case (stepped s t)
  from \<open>telemetry_step s t\<close> stepped.IH show ?case
    by cases (simp_all add: lifecycle_ids start_threads stop_threads end_threads subscribe_ids subscribe_threads
      unsubscribe_ok)
qed

section \<open>Properties\<close>

text \<open>
  C35. A listener gets an identifier that is not 0 and belongs to no other subscription, for as long as not all
  2^64 - 1 identifiers are taken, also after the counter has wrapped around; it is stored under it, and every other
  subscription is kept.
\<close>

lemma subscription_fresh:
  assumes "telemetry_reachable s" and "length (tl_listeners s) < 18446744073709551615"
  shows "\<exists>t i. Telemetry_Subscribe True (Some l) s = (t, i) \<and> i \<noteq> 0 \<and> map_of (tl_listeners s) i = None \<and>
    map_of (tl_listeners t) = (map_of (tl_listeners s))(i \<mapsto> l)"
proof -
  have nonzero: "tl_next_subscription_id s \<noteq> 0" using telemetry_invariant [OF assms(1)] by (simp add: ids_ok_def)
  then obtain k where "k < id_count" "map_of (tl_listeners s) ((next_id ^^ k) (tl_next_subscription_id s)) = None"
    using free_candidate [of "tl_next_subscription_id s" "tl_listeners s"] assms(2) unfolding id_count_def by auto
  then obtain j a where "allocate_loop id_count (tl_next_subscription_id s) (tl_listeners s) = (j, a)"
    "a \<noteq> 0" "map_of (tl_listeners s) a = None"
    using allocate_loop_finds [OF _ nonzero] by blast
  then show ?thesis
    by (auto simp: Telemetry_Subscribe_def AllocateSubscriptionIdLocked_def id_count_def um_emplace_simps)
qed

theorem subscription_fresh_witness:
  "\<exists>t i. Telemetry_Subscribe True (Some 7) (TelemetryService_create True 50) = (t, i) \<and> i \<noteq> 0 \<and>
    map_of (tl_listeners t) i = Some 7"
  using subscription_fresh [OF telemetry_reachable.created [of True 50], of 7]
  by (auto simp: TelemetryService_create_def)

text \<open>
  C34. At most one thread of the telemetry service is not told to stop: it is the one of the handle, and it has not
  ended. After a \<open>Stop\<close>, on whatever thread, every thread leaves its loop at its next check. When it was not called
  on the thread of the handle, the service can be started again at once, with a thread that is not affected by the
  old ones. When it was, the handle stays: \<open>Start\<close> is refused, also after the thread has ended, until a \<open>Stop\<close> on
  another thread.
\<close>

lemma telemetry_single_worker:
  assumes "telemetry_reachable s" and "tl_state_manager s"
  shows "(\<forall>t < length (tl_threads s). tt_stop (tl_threads s ! t) \<or>
      (tl_worker s = Some t \<and> tt_alive (tl_threads s ! t))) \<and>
    (\<forall>self. \<forall>t < length (tl_threads s). Run_head t (fst (Telemetry_Stop self s)) \<and> Run_wake t (fst (Telemetry_Stop self s))) \<and>
    (\<forall>self. self = None \<or> self \<noteq> tl_worker s \<longrightarrow>
      (\<exists>u. Telemetry_Start True (fst (Telemetry_Stop self s)) = (u, True) \<and> tl_worker u = Some (length (tl_threads s)) \<and>
        \<not> Run_head (length (tl_threads s)) u \<and> \<not> Run_wake (length (tl_threads s)) u \<and>
        (\<forall>t < length (tl_threads s). Run_head t u))) \<and>
    (\<forall>w. tl_worker s = Some w \<longrightarrow>
      (let e = Run_end w (fst (Telemetry_Stop (Some w) s)) in
       (\<forall>b. Telemetry_Start b (fst (Telemetry_Stop (Some w) s)) = (fst (Telemetry_Stop (Some w) s), False)) \<and>
       (\<forall>b. Telemetry_Start b e = (e, False)) \<and> snd (Telemetry_Start True (fst (Telemetry_Stop None e)))))"
proof -
  note inv = telemetry_invariant [OF assms(1), THEN conjunct2, unfolded threads_ok_def]
  note defs = Telemetry_Stop_def Telemetry_Start_def Run_head_def Run_wake_def Run_end_def Let_def
  have "tt_stop (tl_threads s ! t) \<or> tl_worker s = Some t \<and> tt_alive (tl_threads s ! t)" if "t < length (tl_threads s)" for t
    using inv that by auto
  moreover have "Run_head t (fst (Telemetry_Stop self s)) \<and> Run_wake t (fst (Telemetry_Stop self s))"
    if "t < length (tl_threads s)" for self t
    using inv that by (auto simp: defs nth_list_update split: option.splits)
  moreover have "\<exists>u. Telemetry_Start True (fst (Telemetry_Stop self s)) = (u, True) \<and> tl_worker u = Some (length (tl_threads s)) \<and>
      \<not> Run_head (length (tl_threads s)) u \<and> \<not> Run_wake (length (tl_threads s)) u \<and> (\<forall>t < length (tl_threads s). Run_head t u)"
    if "self = None \<or> self \<noteq> tl_worker s" for self
    using inv that assms(2) by (auto simp: defs nth_list_update nth_append split: option.splits)
  moreover have "let e = Run_end w (fst (Telemetry_Stop (Some w) s)) in
       (\<forall>b. Telemetry_Start b (fst (Telemetry_Stop (Some w) s)) = (fst (Telemetry_Stop (Some w) s), False)) \<and>
       (\<forall>b. Telemetry_Start b e = (e, False)) \<and> snd (Telemetry_Start True (fst (Telemetry_Stop None e)))"
    if "tl_worker s = Some w" for w
    using that assms(2) by (simp add: defs)
  ultimately show ?thesis by blast
qed

definition demo_telemetry :: telemetry_service where
  "demo_telemetry = fst (Telemetry_Start True (TelemetryService_create True 50))"

theorem telemetry_single_worker_witness:
  "snd (Telemetry_Start True (fst (Telemetry_Stop None demo_telemetry)))
   \<and> \<not> snd (Telemetry_Start True (fst (Telemetry_Stop (Some 0) demo_telemetry)))"
proof -
  have "telemetry_reachable demo_telemetry"
    unfolding demo_telemetry_def by (rule telemetry_reachable.stepped [OF telemetry_reachable.created step_Start])
  moreover have "tl_state_manager demo_telemetry" and w: "tl_worker demo_telemetry = Some 0" by code_simp+
  ultimately show ?thesis using telemetry_single_worker [of demo_telemetry] w
    by (metis (no_types, lifting) snd_conv)
qed

section \<open>Factories are found under every model they support\<close>

primrec register_all :: "robot_factory list \<Rightarrow> factory_registry \<Rightarrow> factory_registry" where
  "register_all [] fs = fs"
| "register_all (f # rest) fs = register_all rest (fst (RegisterFactory (Some f) fs))"

definition supports_own :: "robot_factory \<Rightarrow> bool" where
  "supports_own f = (\<forall>model \<in> set (rf_SupportedModels f). rf_Supports f (rf_Vendor f) model)"

definition found_ok :: "factory_registry \<Rightarrow> bool" where
  "found_ok fs = (\<forall>f \<in> set fs. \<forall>model \<in> set (rf_SupportedModels f). FindFactory (rf_Vendor f) model fs = Some f)"

lemma find_append: "find P (xs @ ys) = (case find P xs of None \<Rightarrow> find P ys | Some x \<Rightarrow> Some x)"
  by (induction xs) auto

lemma register_found:
  assumes "found_ok fs" and "supports_own f"
  shows "found_ok (fst (RegisterFactory (Some f) fs))"
proof (cases "list_ex (\<lambda>g. list_ex (rf_Supports g (rf_Vendor f)) (rf_SupportedModels f)) fs")
  case False
  then have "find (\<lambda>g. rf_Supports g (rf_Vendor f) model) fs = None" if "model \<in> set (rf_SupportedModels f)" for model
    using that by (auto simp: list_ex_iff find_None_iff)
  then show ?thesis
    using assms False by (auto simp: found_ok_def RegisterFactory_def FindFactory_def find_append supports_own_def)
qed (use assms in \<open>simp add: RegisterFactory_def\<close>)

lemma register_all_found: "list_all supports_own new \<Longrightarrow> found_ok fs \<Longrightarrow> found_ok (register_all new fs)"
  by (induction new arbitrary: fs) (simp_all add: register_found)

lemma unitree_supports_own: "supports_own (UnitreeRobotFactory manager)"
  by (simp add: supports_own_def UnitreeRobotFactory_def)

end
