(* ===== verification/Ros2_Bridge.thy ===== *)
theory Ros2_Bridge
  imports Mission_Parser_Props Command_Dispatcher Robot_Services Perception_Model
begin

text \<open>
  \<open>ros2/bridge/ROS2Bridge.cpp\<close> with the message types of \<open>ros2/include/humanoid/ros2\<close>: the translation of states,
  detections, commands and results between the framework and its ROS 2 messages, and the bridge, which submits commands
  to a \<open>CommandDispatcher\<close> and subscribes to a \<open>TelemetryService\<close>. A \<open>std::map\<close> is a list in the order of its keys;
  \<open>fc\<close> is \<open>std::from_chars\<close> on a \<open>double\<close>, when it accepts the whole text.
\<close>

section \<open>Messages\<close>

record robot_state_message =
  sm_connected :: bool
  sm_batteryLevel :: fl
  sm_charging :: bool
  sm_standing :: bool
  sm_walking :: bool
  sm_sitting :: bool
  sm_linearX :: fl
  sm_linearY :: fl
  sm_angularZ :: fl
  sm_positionX :: fl
  sm_positionY :: fl
  sm_positionZ :: fl
  sm_roll :: fl
  sm_pitch :: fl
  sm_yaw :: fl
  sm_emergencyStop :: bool
  sm_faultCode :: int
  sm_timestamp :: time_ns

record command_message =
  cm_id :: u64
  cm_type :: string
  cm_priority :: string
  cm_timeoutMs :: int
  cm_payload :: "(string \<times> string) list"
  cm_metadata :: "(string \<times> string) list"

definition default_command_message :: command_message where
  "default_command_message = \<lparr>cm_id = 0, cm_type = ''Custom'', cm_priority = ''Normal'', cm_timeoutMs = 0,
     cm_payload = [], cm_metadata = []\<rparr>"

record command_result_message =
  rm_id :: u64
  rm_status :: string
  rm_message :: string
  rm_success :: bool

record detection_result_message =
  dm_id :: string
  dm_type :: string
  dm_confidence :: fl
  dm_label :: string
  dm_x :: fl
  dm_y :: fl
  dm_width :: fl
  dm_height :: fl
  dm_hasPosition :: bool
  dm_positionX :: fl
  dm_positionY :: fl
  dm_positionZ :: fl
  dm_coordinateFrame :: string
  dm_trackingId :: string
  dm_timestamp :: time_ns

section \<open>Translation\<close>

fun detectionTypeName :: "detection_type \<Rightarrow> string" where
  "detectionTypeName DT_Object = ''Object''"
| "detectionTypeName DT_Pose = ''Pose''"
| "detectionTypeName DT_Face = ''Face''"
| "detectionTypeName DT_QrCode = ''QrCode''"
| "detectionTypeName DT_Marker = ''Marker''"
| "detectionTypeName DT_SemanticSegmentation = ''SemanticSegmentation''"
| "detectionTypeName DT_Custom = ''Custom''"

definition commandTypeFromName :: "string \<Rightarrow> command_type" where
  "commandTypeFromName name =
     (if name = ''Stand'' then Type_Stand
      else if name = ''Sit'' then Type_Sit
      else if name = ''Walk'' then Type_Walk
      else if name = ''Stop'' then Type_Stop
      else if name = ''Move'' then Type_Move
      else if name = ''Rotate'' then Type_Rotate
      else if name = ''Velocity'' then Type_Velocity
      else if name = ''EmergencyStop'' then Type_EmergencyStop
      else if name = ''HandOpen'' then Type_HandOpen
      else if name = ''HandClose'' then Type_HandClose
      else if name = ''Gesture'' then Type_Gesture
      else if name = ''PlayAudio'' then Type_PlayAudio
      else if name = ''StopAudio'' then Type_StopAudio
      else if name = ''SetVolume'' then Type_SetVolume
      else if name = ''MuteAudio'' then Type_MuteAudio
      else Type_Custom)"

definition commandPriorityFromName :: "string \<Rightarrow> command_priority" where
  "commandPriorityFromName name =
     (if name = ''Low'' then Priority_Low
      else if name = ''High'' then Priority_High
      else if name = ''Critical'' then Priority_Critical
      else Priority_Normal)"

definition parseBool :: "string \<Rightarrow> bool option" where
  "parseBool v =
     (if v = ''true'' \<or> v = ''1'' then Some True
      else if v = ''false'' \<or> v = ''0'' then Some False
      else None)"

definition parseInteger :: "string \<Rightarrow> int option" where
  "parseInteger v = from_chars_i64 v"

definition parseDouble :: "(string \<Rightarrow> fl option) \<Rightarrow> string \<Rightarrow> fl option" where
  "parseDouble fc v = fc v"

definition parsePayloadValue :: "(string \<Rightarrow> fl option) \<Rightarrow> string \<Rightarrow> payload_value" where
  "parsePayloadValue fc v =
     (case parseBool v of
        Some b \<Rightarrow> PV_Bool b
      | None \<Rightarrow>
          (case parseInteger v of
             Some i \<Rightarrow> PV_Int i
           | None \<Rightarrow> (case parseDouble fc v of Some d \<Rightarrow> PV_Double d | None \<Rightarrow> PV_String v)))"

definition FromRobotState :: "robot_state \<Rightarrow> robot_state_message" where
  "FromRobotState s =
     \<lparr>sm_connected = connected (connection s),
      sm_batteryLevel = batteryLevel (power s), sm_charging = charging (power s),
      sm_standing = standing (motion s), sm_walking = walking (motion s), sm_sitting = sitting (motion s),
      sm_linearX = linearX (velocity s), sm_linearY = linearY (velocity s), sm_angularZ = angularZ (velocity s),
      sm_positionX = positionX (pose s), sm_positionY = positionY (pose s), sm_positionZ = positionZ (pose s),
      sm_roll = roll (orientation s), sm_pitch = pitch (orientation s), sm_yaw = yaw (orientation s),
      sm_emergencyStop = emergencyStop (health s), sm_faultCode = faultCode (health s),
      sm_timestamp = state_timestamp s\<rparr>"

definition default_robot_state_message :: robot_state_message where
  "default_robot_state_message =
     \<lparr>sm_connected = False, sm_batteryLevel = Fin 0, sm_charging = False, sm_standing = False, sm_walking = False,
      sm_sitting = False, sm_linearX = Fin 0, sm_linearY = Fin 0, sm_angularZ = Fin 0, sm_positionX = Fin 0,
      sm_positionY = Fin 0, sm_positionZ = Fin 0, sm_roll = Fin 0, sm_pitch = Fin 0, sm_yaw = Fin 0,
      sm_emergencyStop = False, sm_faultCode = 0, sm_timestamp = 0\<rparr>"

definition FromDetectionResult :: "detection_result \<Rightarrow> detection_result_message" where
  "FromDetectionResult d =
     (let m = \<lparr>dm_id = dr_id d, dm_type = detectionTypeName (dr_type d), dm_confidence = dr_confidence d,
        dm_label = dr_label d, dm_x = bb_x (dr_boundingBox d), dm_y = bb_y (dr_boundingBox d),
        dm_width = bb_width (dr_boundingBox d), dm_height = bb_height (dr_boundingBox d), dm_hasPosition = False,
        dm_positionX = Fin 0, dm_positionY = Fin 0, dm_positionZ = Fin 0, dm_coordinateFrame = [],
        dm_trackingId = dr_trackingId d, dm_timestamp = dr_timestamp d\<rparr> in
      case dr_position d of
        None \<Rightarrow> m
      | Some p \<Rightarrow> m\<lparr>dm_hasPosition := True, dm_positionX := p3_x p, dm_positionY := p3_y p, dm_positionZ := p3_z p,
          dm_coordinateFrame := p3_coordinateFrame p\<rparr>)"

text \<open>The loop emplaces the entries of one ordered map into another, so their order is kept.\<close>

definition ToCommand :: "(string \<Rightarrow> fl option) \<Rightarrow> time_ns \<Rightarrow> command_message \<Rightarrow> command" where
  "ToCommand fc now m = \<lparr>cmd_id = cm_id m, cmd_timestamp = now, cmd_type = commandTypeFromName (cm_type m),
     cmd_priority = commandPriorityFromName (cm_priority m), cmd_timeout = cm_timeoutMs m,
     cmd_payload = map (\<lambda>(key, v). (key, parsePayloadValue fc v)) (cm_payload m), cmd_metadata = cm_metadata m\<rparr>"

definition FromCommandResult :: "command_result \<Rightarrow> command_result_message" where
  "FromCommandResult r = \<lparr>rm_id = 0, rm_status = command_status_toString (res_status r), rm_message = res_message r,
     rm_success = isSuccess r\<rparr>"

definition rejectedCommand :: "u64 \<Rightarrow> string \<Rightarrow> command_result_message" where
  "rejectedCommand i msg =
     \<lparr>rm_id = i, rm_status = command_status_toString Status_Rejected, rm_message = msg, rm_success = False\<rparr>"

section \<open>The bridge\<close>

text \<open>
  The dispatcher, the state sources and the telemetry service are objects the bridge shares with others; the operations
  take their present state as an argument.
\<close>

record ros2_bridge =
  br_nodeName :: string
  br_subscribeTelemetry :: bool
  br_telemetry :: bool \<comment> \<open>a telemetry service is configured\<close>
  br_running :: bool
  br_telemetry_subscription :: "u64 option"
  br_last_telemetry_state :: "robot_state_message option"

definition ROS2Bridge_create :: "string \<Rightarrow> bool \<Rightarrow> bool \<Rightarrow> ros2_bridge" where
  "ROS2Bridge_create name subscribe telemetry = \<lparr>br_nodeName = name, br_subscribeTelemetry = subscribe,
     br_telemetry = telemetry, br_running = False, br_telemetry_subscription = None, br_last_telemetry_state = None\<rparr>"

text \<open>\<open>self\<close> is the callback the bridge subscribes; \<open>stored\<close> is false when its insertion throws.\<close>

definition Bridge_Start ::
  "nat \<Rightarrow> bool \<Rightarrow> ros2_bridge \<Rightarrow> telemetry_service \<Rightarrow> ros2_bridge \<times> telemetry_service \<times> bool" where
  "Bridge_Start self stored b s =
     (if br_running b then (b, s, False)
      else
        (let b1 = b\<lparr>br_running := True\<rparr> in
         if br_subscribeTelemetry b \<and> br_telemetry b then
           (case Telemetry_Subscribe stored (Some self) s of
              (s1, i) \<Rightarrow> (if i \<noteq> 0 then b1\<lparr>br_telemetry_subscription := Some i\<rparr> else b1, s1, True))
         else (b1, s, True)))"

text \<open>The callback.\<close>

definition Bridge_OnState :: "robot_state \<Rightarrow> ros2_bridge \<Rightarrow> ros2_bridge" where
  "Bridge_OnState state b = b\<lparr>br_last_telemetry_state := Some (FromRobotState state)\<rparr>"

text \<open>\<open>Stop\<close>: its critical section, with the subscription it takes out, and the call that follows it.\<close>

definition Bridge_Stop_begin :: "ros2_bridge \<Rightarrow> ros2_bridge \<times> u64 option" where
  "Bridge_Stop_begin b =
     (if \<not> br_running b \<and> br_telemetry_subscription b = None then (b, None)
      else (b\<lparr>br_running := False, br_telemetry_subscription := None\<rparr>, br_telemetry_subscription b))"

definition Bridge_Stop_finish :: "bool \<Rightarrow> u64 option \<Rightarrow> telemetry_service \<Rightarrow> telemetry_service" where
  "Bridge_Stop_finish telemetry taken s =
     (case taken of
        Some i \<Rightarrow> if telemetry then fst (Telemetry_Unsubscribe i s) else s
      | None \<Rightarrow> s)"

record ros2_bridge_status =
  bs_running :: bool
  bs_ros2RuntimeAvailable :: bool
  bs_nodeName :: string
  bs_publisherCount :: nat
  bs_subscriberCount :: nat
  bs_serviceCount :: nat
  bs_actionCount :: nat

text \<open>\<open>runtime\<close> is the build's \<open>HUMANOID_CORE_HAS_ROS2_RUNTIME\<close>.\<close>

definition Bridge_Status :: "bool \<Rightarrow> ros2_bridge \<Rightarrow> ros2_bridge_status" where
  "Bridge_Status runtime b = \<lparr>bs_running = br_running b, bs_ros2RuntimeAvailable = runtime, bs_nodeName = br_nodeName b,
     bs_publisherCount = 13, bs_subscriberCount = 5, bs_serviceCount = 10, bs_actionCount = 7\<rparr>"

definition ReadRobotState :: "robot_state_manager option \<Rightarrow> robot_adapter option \<Rightarrow> robot_state_message outcome" where
  "ReadRobotState manager adapter =
     (case manager of
        Some m \<Rightarrow> Returned (FromRobotState (GetState m))
      | None \<Rightarrow>
          (case adapter of
             Some ad \<Rightarrow>
               (case ad_GetRobotState ad of
                  Returned s \<Rightarrow> Returned (FromRobotState s)
                | ThrewException e \<Rightarrow> ThrewException e
                | ThrewUnknown \<Rightarrow> ThrewUnknown)
           | None \<Rightarrow> Returned default_robot_state_message))"

text \<open>The clock reading of \<open>ToCommand\<close> is \<open>clk 6\<close>; the others are those of \<open>Execute\<close>.\<close>

definition SubmitCommand ::
  "(string \<Rightarrow> fl option) \<Rightarrow> (nat \<Rightarrow> time_ns) \<Rightarrow> robot_adapter option \<Rightarrow> command_message \<Rightarrow> dispatcher option
     \<Rightarrow> dispatcher option \<times> command list \<times> command_result_message" where
  "SubmitCommand fc clk adapter m disp =
     (case disp of
        None \<Rightarrow> (None, [], rejectedCommand (cm_id m) ''CommandDispatcher dependency is not configured'')
      | Some d \<Rightarrow>
          (case Execute clk adapter (ToCommand fc (clk 6) m) d of
             (d', issued, r) \<Rightarrow> (Some d', issued, (FromCommandResult r)\<lparr>rm_id := cm_id m\<rparr>)))"

end
