(* ===== verification/Ros2_Props.thy ===== *)
theory Ros2_Props
  imports Ros2_Bridge
begin

text \<open>
  Properties of the ROS 2 bridge: names and numbers that survive the translation, the commands that reach the robot
  through the bridge, the zero velocity that does not, and the telemetry subscription under interleaved calls.
\<close>

section \<open>Names and numbers\<close>

definition int_to_string :: "int \<Rightarrow> string" where
  "int_to_string i = (if i < 0 then CHR ''-'' # to_string (nat (- i)) else to_string (nat i))"

lemma type_name_roundtrip: "IsKnownCommandType t \<Longrightarrow> commandTypeFromName (command_type_toString t) = t"
  by (cases t) (simp_all add: commandTypeFromName_def)

lemma priority_name_roundtrip: "IsKnownPriority p \<Longrightarrow> commandPriorityFromName (command_priority_toString p) = p"
  by (cases p) (simp_all add: commandPriorityFromName_def)

lemma translated_known: "IsKnownCommandType (cmd_type (ToCommand fc now m)) \<and> IsKnownPriority (cmd_priority (ToCommand fc now m))"
  by (simp add: ToCommand_def commandTypeFromName_def commandPriorityFromName_def)

lemma from_chars_int_to_string:
  assumes "- (2 ^ 63) \<le> i" and "i < 2 ^ 63"
  shows "from_chars_i64 (int_to_string i) = Some i"
proof (cases "i < 0")
  case True
  then show ?thesis
    using to_string_digits [of "nat (- i)"] digits_value_to_string [of "nat (- i)"] assms
    by (simp add: from_chars_i64_def int_to_string_def)
next
  case False
  have "hd (to_string (nat i)) \<noteq> CHR ''-''"
    using to_string_digits [of "nat i"] by (cases "to_string (nat i)") (auto simp: IsDigit_def less_eq_char_def)
  then show ?thesis
    using False to_string_digits [of "nat i"] digits_value_to_string [of "nat i"] assms
    by (simp add: from_chars_i64_def int_to_string_def)
qed

lemma int_to_string_inj:
  "- (2 ^ 63) \<le> i \<Longrightarrow> i < 2 ^ 63 \<Longrightarrow> - (2 ^ 63) \<le> j \<Longrightarrow> j < 2 ^ 63 \<Longrightarrow> int_to_string i = int_to_string j \<longleftrightarrow> i = j"
  by (metis from_chars_int_to_string option.inject)

lemma int_to_string_01: "int_to_string 0 = ''0''" "int_to_string 1 = ''1''"
  by code_simp+

lemma parseBool_int:
  assumes "- (2 ^ 63) \<le> i" and "i < 2 ^ 63"
  shows "parseBool (int_to_string i) = (if i = 1 then Some True else if i = 0 then Some False else None)"
proof -
  have "int_to_string i \<noteq> ''true''" "int_to_string i \<noteq> ''false''"
    using from_chars_int_to_string [OF assms] by (auto simp: from_chars_i64_def IsDigit_def less_eq_char_def)
  moreover have "int_to_string i = ''1'' \<longleftrightarrow> i = 1" "int_to_string i = ''0'' \<longleftrightarrow> i = 0"
    using int_to_string_inj [OF assms, of 1] int_to_string_inj [OF assms, of 0] by (simp_all add: int_to_string_01)
  ultimately show ?thesis by (simp add: parseBool_def)
qed

text \<open>
  A 64-bit integer that is printed in decimal into the payload of a ROS 2 command arrives as this integer, whatever
  its sign, except 0 and 1, which arrive as the booleans false and true.
\<close>

lemma payload_integer_roundtrip:
  assumes "- (2 ^ 63) \<le> i" and "i < 2 ^ 63"
  shows "parsePayloadValue fc (int_to_string i) =
    (if i = 0 then PV_Bool False else if i = 1 then PV_Bool True else PV_Int i)"
  using assms by (simp add: parsePayloadValue_def parseBool_int parseInteger_def from_chars_int_to_string)

theorem payload_integer_roundtrip_witness:
  "parsePayloadValue (\<lambda>_. None) (int_to_string (- 9223372036854775808)) = PV_Int (- 9223372036854775808)"
  using payload_integer_roundtrip [of "- 9223372036854775808" "\<lambda>_. None"] by simp

section \<open>Commands through the bridge\<close>

lemma payload_find_ToCommand:
  "payload_find (cmd_payload (ToCommand fc now m)) k = map_option (parsePayloadValue fc) (map_of (cm_payload m) k)"
  by (simp add: payload_find_def ToCommand_def map_of_map)

lemma zero_one_not_number:
  assumes "map_of (cm_payload m) k = Some ''0'' \<or> map_of (cm_payload m) k = Some ''1''"
  shows "\<not> HasValidNumber (cmd_payload (ToCommand fc now m)) k"
  using assms
  by (auto simp: HasValidNumber_def NumericPayloadValue_def payload_find_ToCommand parsePayloadValue_def parseBool_def)

lemma ValidatePayload_fails: "ValidatePayload c = Some r \<Longrightarrow> \<not> isSuccess r"
  unfolding ValidatePayload_def
  by (cases "cmd_type c")
    (auto simp: validate_no_payload_def validate_velocity_def reject_def split: if_splits option.splits payload_value.splits)

lemma ValidateCommand_fails: "ValidateCommand now c = Some r \<Longrightarrow> \<not> isSuccess r"
  by (auto simp: ValidateCommand_def reject_def timed_check_def ValidatePayload_fails split: if_splits option.splits)

lemma ValidateCommand_payload: "ValidatePayload c \<noteq> None \<Longrightarrow> ValidateCommand now c \<noteq> None"
  by (auto simp: ValidateCommand_def reject_def split: option.splits)

lemma invalid_not_issued:
  assumes "ValidatePayload c \<noteq> None"
  shows "fst (snd (Execute clk adapter c d)) = [] \<and> \<not> isSuccess (snd (snd (Execute clk adapter c d)))"
proof -
  obtain r where "ValidateCommand (clk 5) c = Some r" using ValidateCommand_payload [OF assms] by blast
  then show ?thesis using ValidateCommand_fails by (simp add: Execute_def Execute_begin_def)
qed

text \<open>
  C40. A motion command whose velocity is written as 0 or 1 in the ROS 2 payload is refused by every dispatcher in every
  state, and nothing reaches the robot: a zero velocity cannot be commanded in this way.
\<close>

lemma zero_velocity_refused:
  assumes "cm_type m \<in> {''Walk'', ''Move'', ''Velocity''}"
    and "k \<in> {''linear_x'', ''linear_y'', ''angular_z''}"
    and "map_of (cm_payload m) k = Some ''0'' \<or> map_of (cm_payload m) k = Some ''1''"
  shows "fst (snd (SubmitCommand fc clk adapter m (Some d))) = [] \<and>
    \<not> rm_success (snd (snd (SubmitCommand fc clk adapter m (Some d))))"
proof -
  let ?c = "ToCommand fc (clk 6) m"
  have type: "cmd_type ?c \<in> {Type_Walk, Type_Move, Type_Velocity}"
    using assms(1) by (elim insertE emptyE) (simp_all add: ToCommand_def commandTypeFromName_def)
  have "validate_velocity (cmd_payload ?c) \<noteq> None"
    using assms(2) zero_one_not_number [OF assms(3), of fc "clk 6"]
    by (elim insertE emptyE) (simp_all add: validate_velocity_def reject_def)
  with type have "ValidatePayload ?c \<noteq> None" by (elim insertE emptyE) (simp_all add: ValidatePayload_def)
  from invalid_not_issued [OF this, of clk adapter d] show ?thesis
    by (auto simp: SubmitCommand_def FromCommandResult_def split: prod.splits)
qed

definition zero_velocity :: command_message where
  "zero_velocity = default_command_message\<lparr>cm_id := 7, cm_type := ''Velocity'',
     cm_payload := [(''angular_z'', ''0''), (''linear_x'', ''0''), (''linear_y'', ''0'')]\<rparr>"

theorem zero_velocity_refused_witness:
  "\<forall>d. fst (snd (SubmitCommand (\<lambda>_. None) (\<lambda>_. 5) None zero_velocity (Some d))) = []"
  using zero_velocity_refused [of zero_velocity "''linear_x''"] by (simp add: zero_velocity_def)

lemma Dispatch_success: "isSuccess (execute_result (snd (Dispatch clk d adapter c))) \<Longrightarrow> fst (Dispatch clk d adapter c) = [c]"
  by (auto simp: Dispatch_def execute_result_def Let_def split: option.splits outcome.splits if_splits)

lemma success_issued: "isSuccess (snd (snd (Execute clk adapter c d))) \<Longrightarrow> fst (snd (Execute clk adapter c d)) = [c]"
proof (cases "Execute_begin (clk 5) c d")
  case (Inl r)
  then have "\<not> isSuccess r" by (auto simp: Execute_begin_def ValidateCommand_fails split: option.splits if_splits)
  moreover assume "isSuccess (snd (snd (Execute clk adapter c d)))"
  ultimately show ?thesis using Inl by (simp add: Execute_cases)
qed (simp add: Execute_cases Dispatch_success)

text \<open>
  C32. A command submitted through the bridge reaches the robot, once and as the translated command, exactly when it
  passes the validation, the dispatcher accepts work and has no command of this identifier, an adapter is present and
  the safety specification allows it. The dispatcher is left as it was, the answer carries the identifier of the
  message, and it reports success only for a completed command that reached the robot.
\<close>

lemma submit_exact:
  "\<exists>issued r. SubmitCommand fc clk adapter m (Some d) = (Some d, issued, r) \<and>
     issued = (if ValidateCommand (clk 5) (ToCommand fc (clk 6) m) = None \<and> disp_accepting d \<and>
         cm_id m \<notin> disp_synchronous_ids d \<and> cq_tasks (disp_queue d) (cm_id m) = None \<and>
         (\<exists>ad. adapter = Some ad \<and> issue_allowed clk d ad (ToCommand fc (clk 6) m))
       then [ToCommand fc (clk 6) m] else []) \<and>
     rm_id r = cm_id m \<and> rm_success r = (rm_status r = ''Completed'') \<and>
     rm_success r = (rm_status r = ''Completed'' \<and> issued \<noteq> [])"
proof -
  let ?c = "ToCommand fc (clk 6) m"
  obtain issued r where e: "Execute clk adapter ?c d = (d, issued, r)"
    by (cases "Execute clk adapter ?c d") (auto simp: Execute_cases split: sum.splits)
  have completed: "isSuccess r = (command_status_toString (res_status r) = ''Completed'')"
    by (cases "res_status r") (simp_all add: isSuccess_def)
  have issued: "isSuccess r = (isSuccess r \<and> issued \<noteq> [])"
    using success_issued [of clk adapter ?c d] by (auto simp: e)
  have "cmd_id ?c = cm_id m" by (simp add: ToCommand_def)
  with Execute_issues [of clk adapter ?c d] have exact:
    "issued = (if ValidateCommand (clk 5) ?c = None \<and> disp_accepting d \<and> cm_id m \<notin> disp_synchronous_ids d \<and>
        cq_tasks (disp_queue d) (cm_id m) = None \<and> (\<exists>ad. adapter = Some ad \<and> issue_allowed clk d ad ?c) then [?c] else [])"
    by (simp only: e fst_conv snd_conv)
  define reply where "reply = (FromCommandResult r)\<lparr>rm_id := cm_id m\<rparr>"
  have submitted: "SubmitCommand fc clk adapter m (Some d) = (Some d, issued, reply)"
    by (simp add: SubmitCommand_def e reply_def)
  have reply: "rm_id reply = cm_id m" "rm_success reply = isSuccess r" "rm_status reply = command_status_toString (res_status r)"
    by (simp_all add: reply_def FromCommandResult_def)
  have answer: "rm_success reply = (rm_status reply = ''Completed'')"
    "rm_success reply = (rm_status reply = ''Completed'' \<and> issued \<noteq> [])"
    unfolding reply(2,3) using completed issued by blast+
  show ?thesis by (intro exI conjI) (rule submitted exact reply(1) answer)+
qed

section \<open>The telemetry subscription\<close>

text \<open>
  The bridge whose callback is \<open>self\<close>, the telemetry service it shares with other clients, and the subscriptions that
  calls of \<open>Stop\<close> have taken out of the bridge but not yet removed from the service. Other clients subscribe callbacks
  of their own and remove subscriptions of their own.
\<close>

record bridge_world =
  bw_bridge :: ros2_bridge
  bw_service :: telemetry_service
  bw_pending :: "u64 list"

inductive bridge_step :: "nat \<Rightarrow> bridge_world \<Rightarrow> bridge_world \<Rightarrow> bool" for self where
  bridge_start: "Bridge_Start self stored (bw_bridge w) (bw_service w) = (b, s, answer) \<Longrightarrow>
    bridge_step self w (w\<lparr>bw_bridge := b, bw_service := s\<rparr>)"
| bridge_stop_begin: "Bridge_Stop_begin (bw_bridge w) = (b, taken) \<Longrightarrow>
    bridge_step self w (w\<lparr>bw_bridge := b, bw_pending := (case taken of None \<Rightarrow> [] | Some i \<Rightarrow> [i]) @ bw_pending w\<rparr>)"
| bridge_stop_finish: "i \<in> set (bw_pending w) \<Longrightarrow>
    bridge_step self w (w\<lparr>bw_service := Bridge_Stop_finish (br_telemetry (bw_bridge w)) (Some i) (bw_service w),
      bw_pending := remove1 i (bw_pending w)\<rparr>)"
| bridge_callback: "bridge_step self w (w\<lparr>bw_bridge := Bridge_OnState state (bw_bridge w)\<rparr>)"
| other_subscribe: "l \<noteq> self \<Longrightarrow>
    bridge_step self w (w\<lparr>bw_service := fst (Telemetry_Subscribe stored (Some l) (bw_service w))\<rparr>)"
| other_unsubscribe: "map_of (tl_listeners (bw_service w)) i \<noteq> Some self \<Longrightarrow>
    bridge_step self w (w\<lparr>bw_service := fst (Telemetry_Unsubscribe i (bw_service w))\<rparr>)"
| service_lifecycle: "t \<in> {fst (Telemetry_Start created (bw_service w)), fst (Telemetry_Stop None (bw_service w))} \<Longrightarrow>
    bridge_step self w (w\<lparr>bw_service := t\<rparr>)"

definition callback_ids :: "nat \<Rightarrow> telemetry_service \<Rightarrow> u64 set" where
  "callback_ids self s = {i. map_of (tl_listeners s) i = Some self}"

inductive bridge_reachable :: "nat \<Rightarrow> bridge_world \<Rightarrow> bool" for self where
  bridge_created: "telemetry_reachable s \<Longrightarrow> callback_ids self s = {} \<Longrightarrow>
    bridge_reachable self \<lparr>bw_bridge = ROS2Bridge_create name subscribe telemetry, bw_service = s, bw_pending = []\<rparr>"
| bridge_stepped: "bridge_reachable self w \<Longrightarrow> bridge_step self w v \<Longrightarrow> bridge_reachable self v"

definition bridge_ok :: "nat \<Rightarrow> bridge_world \<Rightarrow> bool" where
  "bridge_ok self w =
     (let b = bw_bridge w in
      telemetry_reachable (bw_service w) \<and>
      callback_ids self (bw_service w) = set_option (br_telemetry_subscription b) \<union> set (bw_pending w) \<and>
      distinct (bw_pending w) \<and> set_option (br_telemetry_subscription b) \<inter> set (bw_pending w) = {} \<and>
      (br_running b \<or> br_telemetry_subscription b = None) \<and>
      (br_telemetry b \<or> br_telemetry_subscription b = None \<and> bw_pending w = []))"

lemma subscribe_listeners:
  "\<exists>i. snd (Telemetry_Subscribe stored (Some l) s) = i \<and>
     (i = 0 \<and> tl_listeners (fst (Telemetry_Subscribe stored (Some l) s)) = tl_listeners s \<or>
      i \<noteq> 0 \<and> map_of (tl_listeners s) i = None \<and>
      map_of (tl_listeners (fst (Telemetry_Subscribe stored (Some l) s))) = (map_of (tl_listeners s))(i \<mapsto> l))"
  using allocate_loop_answer [of 18446744073709551615 "tl_next_subscription_id s" "tl_listeners s"]
  by (auto simp: Telemetry_Subscribe_def AllocateSubscriptionIdLocked_def um_emplace_def split: prod.splits)

lemma callback_ids_subscribe:
  assumes "Telemetry_Subscribe stored (Some l) s = (t, i)"
  shows "callback_ids self t = (if i \<noteq> 0 \<and> l = self then insert i (callback_ids self s) else callback_ids self s)"
    and "i \<noteq> 0 \<Longrightarrow> i \<notin> callback_ids self s"
  using subscribe_listeners [of stored l s] assms by (auto simp: callback_ids_def split: if_splits)

lemma callback_ids_unsubscribe:
  "callback_ids self (fst (Telemetry_Unsubscribe i s)) = (if i = 0 then callback_ids self s else callback_ids self s - {i})"
  by (auto simp: callback_ids_def Telemetry_Unsubscribe_def)

lemma callback_ids_nonzero: "telemetry_reachable s \<Longrightarrow> 0 \<notin> callback_ids self s"
  using telemetry_invariant [of s] by (auto simp: callback_ids_def ids_ok_def)

lemma callback_ids_lifecycle:
  "callback_ids self (fst (Telemetry_Start created s)) = callback_ids self s"
  "callback_ids self (fst (Telemetry_Stop caller s)) = callback_ids self s"
  by (auto simp: callback_ids_def Telemetry_Start_def Telemetry_Stop_def Let_def split: option.splits)

lemmas telemetry_stays = telemetry_reachable.stepped [OF _ step_Start] telemetry_reachable.stepped [OF _ step_Stop]
  telemetry_reachable.stepped [OF _ step_Subscribe] telemetry_reachable.stepped [OF _ step_Unsubscribe]

lemma start_keeps_ok:
  assumes "bridge_ok self w" and "Bridge_Start self stored (bw_bridge w) (bw_service w) = (b, s, answer)"
  shows "bridge_ok self (w\<lparr>bw_bridge := b, bw_service := s\<rparr>)"
proof (cases "\<not> br_running (bw_bridge w) \<and> br_subscribeTelemetry (bw_bridge w) \<and> br_telemetry (bw_bridge w)")
  case True
  obtain t i where sub: "Telemetry_Subscribe stored (Some self) (bw_service w) = (t, i)" by fastforce
  moreover have "telemetry_reachable t"
    using telemetry_stays(3) [of "bw_service w" stored "Some self"] assms(1) sub by (simp add: bridge_ok_def Let_def)
  ultimately show ?thesis
    using True assms callback_ids_subscribe [OF sub, of self]
    by (cases "i = 0") (simp_all add: bridge_ok_def Bridge_Start_def Let_def, auto)
next
  case False
  then have "s = bw_service w" "b = bw_bridge w \<or> b = (bw_bridge w)\<lparr>br_running := True\<rparr>"
    using assms(2) by (auto simp: Bridge_Start_def Let_def split: if_splits)
  then show ?thesis using assms(1) by (elim disjE) (simp_all add: bridge_ok_def Let_def)
qed

lemma stop_begin_keeps_ok:
  assumes "bridge_ok self w" and "Bridge_Stop_begin (bw_bridge w) = (b, taken)"
  shows "bridge_ok self (w\<lparr>bw_bridge := b, bw_pending := (case taken of None \<Rightarrow> [] | Some i \<Rightarrow> [i]) @ bw_pending w\<rparr>)"
  using assms by (auto simp: bridge_ok_def Bridge_Stop_begin_def Let_def split: if_splits option.splits)

lemma stop_finish_keeps_ok:
  assumes "bridge_ok self w" and "i \<in> set (bw_pending w)"
  shows "bridge_ok self (w\<lparr>bw_service := Bridge_Stop_finish (br_telemetry (bw_bridge w)) (Some i) (bw_service w),
      bw_pending := remove1 i (bw_pending w)\<rparr>)"
proof -
  have "i \<noteq> 0" using assms callback_ids_nonzero [of "bw_service w" self] by (auto simp: bridge_ok_def Let_def)
  then show ?thesis
    using assms by (auto simp: bridge_ok_def Bridge_Stop_finish_def Let_def callback_ids_unsubscribe telemetry_stays set_remove1_eq)
qed

lemma bridge_invariant: "bridge_reachable self w \<Longrightarrow> bridge_ok self w"
proof (induction rule: bridge_reachable.induct)
  case (bridge_created s name subscribe telemetry)
  then show ?case by (simp add: bridge_ok_def ROS2Bridge_create_def)
next
  case (bridge_stepped w v)
  from bridge_stepped(2) bridge_stepped.IH show ?case
  proof cases
    case (other_subscribe l stored)
    then show ?thesis
      using bridge_stepped.IH callback_ids_subscribe(1) [of stored l "bw_service w"]
      by (cases "Telemetry_Subscribe stored (Some l) (bw_service w)")
        (use telemetry_stays(3) [of "bw_service w" stored "Some l"] in \<open>simp add: bridge_ok_def Let_def\<close>)
  next
    case (other_unsubscribe i)
    then have "i \<notin> callback_ids self (bw_service w)" by (simp add: callback_ids_def)
    with other_unsubscribe show ?thesis
      using bridge_stepped.IH by (simp add: bridge_ok_def Let_def callback_ids_unsubscribe telemetry_stays)
  next
    case (bridge_callback state)
    then show ?thesis using bridge_stepped.IH by (simp add: bridge_ok_def Bridge_OnState_def Let_def)
  next
    case (service_lifecycle t created)
    then show ?thesis
      using bridge_stepped.IH by (elim insertE emptyE) (simp_all add: bridge_ok_def Let_def callback_ids_lifecycle telemetry_stays)
  qed (simp_all add: start_keeps_ok stop_begin_keeps_ok stop_finish_keeps_ok)
qed

text \<open>
  C33. Whatever calls of \<open>Start\<close> and \<open>Stop\<close> interleave, with each other and with the other clients of the telemetry
  service, the subscriptions of the bridge in the service are the one it holds and the ones that calls of \<open>Stop\<close> are
  about to remove. A stopped bridge with no such call left has none; one that runs has at most one.
\<close>

lemma bridge_no_leak:
  assumes "bridge_reachable self w"
  shows "callback_ids self (bw_service w) =
      set_option (br_telemetry_subscription (bw_bridge w)) \<union> set (bw_pending w) \<and>
    (br_running (bw_bridge w) \<or> bw_pending w \<noteq> [] \<or> callback_ids self (bw_service w) = {}) \<and>
    (bw_pending w \<noteq> [] \<or> card (callback_ids self (bw_service w)) \<le> 1)"
  using bridge_invariant [OF assms]
  by (cases "br_telemetry_subscription (bw_bridge w)") (auto simp: bridge_ok_def Let_def)

theorem bridge_no_leak_witness:
  "callback_ids 3 (TelemetryService_create True 50) = {}"
proof -
  have "callback_ids 3 (TelemetryService_create True 50) = {}"
    by (simp add: callback_ids_def TelemetryService_create_def)
  from bridge_no_leak [OF bridge_created [OF telemetry_reachable.created this, of "''node''" True True]]
  show ?thesis by (simp add: ROS2Bridge_create_def)
qed

text \<open>
  The callback of the bridge runs after \<open>Stop\<close> has returned when a publication had copied the listeners before: nothing
  in the destructor waits for it.
\<close>

lemma callback_after_stop:
  "map_of (tl_listeners s) i = Some self \<Longrightarrow> (self, state) \<in> set (PublishCurrentState state s)"
  by (force simp: PublishCurrentState_def dest: map_of_SomeD)

end
