(* ===== verification/Managers.thy ===== *)
theory Managers
  imports Common_Status Sensor_Manager Plugin_Factory
begin

text \<open>
  The managers of \<open>robot/\<close>, \<open>motion/\<close>, \<open>gesture/\<close>, \<open>safety/\<close>, \<open>diagnostics/\<close>, \<open>configuration/\<close> and \<open>logging/\<close>, the
  sensor factory (\<open>include/humanoid/perception/SensorFactory.h\<close>) and the life cycle of the Unitree plugin
  (\<open>plugins/unitree/g1/src/UnitreeG1Plugin.cpp\<close>). Controllers are interfaces without an implementation in the
  repository: a controller is a value of a type variable, and a record of functions, an argument of the definitions,
  gives the answers of its methods and the controller after them. A null pointer is \<open>None\<close>.
\<close>

section \<open>Values\<close>

datatype lifecycle_state = LC_Unconfigured | LC_Configured | LC_Inactive | LC_Active | LC_Faulted

fun lifecycle_toString :: "lifecycle_state \<Rightarrow> string" where
  "lifecycle_toString LC_Unconfigured = ''unconfigured''"
| "lifecycle_toString LC_Configured = ''configured''"
| "lifecycle_toString LC_Inactive = ''inactive''"
| "lifecycle_toString LC_Active = ''active''"
| "lifecycle_toString LC_Faulted = ''faulted''"

datatype safety_state = SS_Unknown | SS_Nominal | SS_ProtectiveStop | SS_EmergencyStop | SS_Faulted

fun safety_state_toString :: "safety_state \<Rightarrow> string" where
  "safety_state_toString SS_Unknown = ''unknown''"
| "safety_state_toString SS_Nominal = ''nominal''"
| "safety_state_toString SS_ProtectiveStop = ''protective_stop''"
| "safety_state_toString SS_EmergencyStop = ''emergency_stop''"
| "safety_state_toString SS_Faulted = ''faulted''"

datatype motion_mode = MO_Idle | MO_HoldPosition | MO_JointPosition | MO_JointVelocity | MO_CartesianVelocity

fun motion_mode_toString :: "motion_mode \<Rightarrow> string" where
  "motion_mode_toString MO_Idle = ''idle''"
| "motion_mode_toString MO_HoldPosition = ''hold_position''"
| "motion_mode_toString MO_JointPosition = ''joint_position''"
| "motion_mode_toString MO_JointVelocity = ''joint_velocity''"
| "motion_mode_toString MO_CartesianVelocity = ''cartesian_velocity''"

section \<open>Managers of one controller\<close>

text \<open>The shape all of them have: the pointer is replaced by one that is not null, and a call goes to the controller.\<close>

definition attach :: "string \<Rightarrow> 'c option \<Rightarrow> 'c option \<Rightarrow> 'c option \<times> status" where
  "attach null_message new m = (case new of None \<Rightarrow> (m, InvalidArgument null_message) | Some c \<Rightarrow> (Some c, Status_ok))"

definition delegate :: "string \<Rightarrow> ('c \<Rightarrow> 'c \<times> status) \<Rightarrow> 'c option \<Rightarrow> 'c option \<times> status" where
  "delegate missing f m =
     (case m of None \<Rightarrow> (None, FailedPrecondition missing) | Some c \<Rightarrow> (case f c of (c', st) \<Rightarrow> (Some c', st)))"

definition ask :: "'a \<Rightarrow> ('c \<Rightarrow> 'a) \<Rightarrow> 'c option \<Rightarrow> 'a" where
  "ask absent f m = (case m of None \<Rightarrow> absent | Some c \<Rightarrow> f c)"

subsection \<open>Robot\<close>

record ('r, 'a) robot_manager =
  rmg_robot :: "'r option"
  rmg_adapter :: "'a option"

record 'r robot_methods =
  rb_lifecycleState :: "'r \<Rightarrow> lifecycle_state"
  rb_configure :: "'r \<Rightarrow> 'r \<times> status"
  rb_activate :: "'r \<Rightarrow> 'r \<times> status"
  rb_deactivate :: "'r \<Rightarrow> 'r \<times> status"
  rb_shutdown :: "'r \<Rightarrow> 'r \<times> status"

record 'a adapter_methods =
  rad_initialize :: "'a \<Rightarrow> 'a \<times> status"
  rad_start :: "'a \<Rightarrow> 'a \<times> status"
  rad_stop :: "'a \<Rightarrow> 'a \<times> status"
  rad_shutdown :: "'a \<Rightarrow> 'a \<times> status"

definition RobotManager_create :: "'r option \<Rightarrow> ('r, 'a) robot_manager" where
  "RobotManager_create r = \<lparr>rmg_robot = r, rmg_adapter = None\<rparr>"

definition on_robot ::
  "('r option \<Rightarrow> 'r option \<times> status) \<Rightarrow> ('r, 'a) robot_manager \<Rightarrow> ('r, 'a) robot_manager \<times> status" where
  "on_robot f m = (case f (rmg_robot m) of (r, st) \<Rightarrow> (m\<lparr>rmg_robot := r\<rparr>, st))"

definition on_adapter ::
  "('a option \<Rightarrow> 'a option \<times> status) \<Rightarrow> ('r, 'a) robot_manager \<Rightarrow> ('r, 'a) robot_manager \<times> status" where
  "on_adapter f m = (case f (rmg_adapter m) of (a, st) \<Rightarrow> (m\<lparr>rmg_adapter := a\<rparr>, st))"

definition setRobot :: "'r option \<Rightarrow> ('r, 'a) robot_manager \<Rightarrow> ('r, 'a) robot_manager \<times> status" where
  "setRobot r = on_robot (attach ''robot interface is null'' r)"

definition clearRobot :: "('r, 'a) robot_manager \<Rightarrow> ('r, 'a) robot_manager" where
  "clearRobot m = m\<lparr>rmg_robot := None\<rparr>"

definition hasRobot :: "('r, 'a) robot_manager \<Rightarrow> bool" where
  "hasRobot m = (rmg_robot m \<noteq> None)"

definition RobotManager_lifecycleState :: "'r robot_methods \<Rightarrow> ('r, 'a) robot_manager \<Rightarrow> lifecycle_state" where
  "RobotManager_lifecycleState R m = ask LC_Unconfigured (rb_lifecycleState R) (rmg_robot m)"

definition robot_call :: "('r \<Rightarrow> 'r \<times> status) \<Rightarrow> ('r, 'a) robot_manager \<Rightarrow> ('r, 'a) robot_manager \<times> status" where
  "robot_call f = on_robot (delegate ''robot interface is not set'' f)"

definition configure :: "'r robot_methods \<Rightarrow> ('r, 'a) robot_manager \<Rightarrow> ('r, 'a) robot_manager \<times> status" where
  "configure R = robot_call (rb_configure R)"

definition activate :: "'r robot_methods \<Rightarrow> ('r, 'a) robot_manager \<Rightarrow> ('r, 'a) robot_manager \<times> status" where
  "activate R = robot_call (rb_activate R)"

definition deactivate :: "'r robot_methods \<Rightarrow> ('r, 'a) robot_manager \<Rightarrow> ('r, 'a) robot_manager \<times> status" where
  "deactivate R = robot_call (rb_deactivate R)"

definition RobotManager_shutdown :: "'r robot_methods \<Rightarrow> ('r, 'a) robot_manager \<Rightarrow> ('r, 'a) robot_manager \<times> status" where
  "RobotManager_shutdown R = robot_call (rb_shutdown R)"

definition setAdapter :: "'a option \<Rightarrow> ('r, 'a) robot_manager \<Rightarrow> ('r, 'a) robot_manager \<times> status" where
  "setAdapter a = on_adapter (attach ''robot adapter interface is null'' a)"

definition clearAdapter :: "('r, 'a) robot_manager \<Rightarrow> ('r, 'a) robot_manager" where
  "clearAdapter m = m\<lparr>rmg_adapter := None\<rparr>"

definition hasAdapter :: "('r, 'a) robot_manager \<Rightarrow> bool" where
  "hasAdapter m = (rmg_adapter m \<noteq> None)"

definition adapter_call :: "('a \<Rightarrow> 'a \<times> status) \<Rightarrow> ('r, 'a) robot_manager \<Rightarrow> ('r, 'a) robot_manager \<times> status" where
  "adapter_call f = on_adapter (delegate ''robot adapter interface is not set'' f)"

definition initializeAdapter :: "'a adapter_methods \<Rightarrow> ('r, 'a) robot_manager \<Rightarrow> ('r, 'a) robot_manager \<times> status" where
  "initializeAdapter A = adapter_call (rad_initialize A)"

definition startAdapter :: "'a adapter_methods \<Rightarrow> ('r, 'a) robot_manager \<Rightarrow> ('r, 'a) robot_manager \<times> status" where
  "startAdapter A = adapter_call (rad_start A)"

definition stopAdapter :: "'a adapter_methods \<Rightarrow> ('r, 'a) robot_manager \<Rightarrow> ('r, 'a) robot_manager \<times> status" where
  "stopAdapter A = adapter_call (rad_stop A)"

definition shutdownAdapter :: "'a adapter_methods \<Rightarrow> ('r, 'a) robot_manager \<Rightarrow> ('r, 'a) robot_manager \<times> status" where
  "shutdownAdapter A = adapter_call (rad_shutdown A)"

subsection \<open>Motion, gestures, safety, diagnostics and configuration\<close>

record 'c motion_methods =
  mt_lifecycleState :: "'c \<Rightarrow> lifecycle_state"
  mt_motionMode :: "'c \<Rightarrow> motion_mode"
  mt_setMotionMode :: "motion_mode \<Rightarrow> 'c \<Rightarrow> 'c \<times> status"
  mt_holdPosition :: "'c \<Rightarrow> 'c \<times> status"
  mt_stopMotion :: "'c \<Rightarrow> 'c \<times> status"

definition Motion_setController :: "'c option \<Rightarrow> 'c option \<Rightarrow> 'c option \<times> status" where
  "Motion_setController = attach ''motion controller interface is null''"

definition Motion_lifecycleState :: "'c motion_methods \<Rightarrow> 'c option \<Rightarrow> lifecycle_state" where
  "Motion_lifecycleState M = ask LC_Unconfigured (mt_lifecycleState M)"

definition motionMode :: "'c motion_methods \<Rightarrow> 'c option \<Rightarrow> motion_mode option" where
  "motionMode M m = map_option (mt_motionMode M) m"

definition setMotionMode :: "'c motion_methods \<Rightarrow> motion_mode \<Rightarrow> 'c option \<Rightarrow> 'c option \<times> status" where
  "setMotionMode M mode = delegate ''motion controller interface is not set'' (mt_setMotionMode M mode)"

definition holdPosition :: "'c motion_methods \<Rightarrow> 'c option \<Rightarrow> 'c option \<times> status" where
  "holdPosition M = delegate ''motion controller interface is not set'' (mt_holdPosition M)"

definition stopMotion :: "'c motion_methods \<Rightarrow> 'c option \<Rightarrow> 'c option \<times> status" where
  "stopMotion M = delegate ''motion controller interface is not set'' (mt_stopMotion M)"

record 'c gesture_methods =
  ge_lifecycleState :: "'c \<Rightarrow> lifecycle_state"
  ge_supportsGesture :: "string \<Rightarrow> 'c \<Rightarrow> bool"
  ge_startGesture :: "string \<Rightarrow> 'c \<Rightarrow> 'c \<times> status"
  ge_stopGesture :: "'c \<Rightarrow> 'c \<times> status"

definition Gesture_setController :: "'c option \<Rightarrow> 'c option \<Rightarrow> 'c option \<times> status" where
  "Gesture_setController = attach ''gesture controller interface is null''"

definition Gesture_lifecycleState :: "'c gesture_methods \<Rightarrow> 'c option \<Rightarrow> lifecycle_state" where
  "Gesture_lifecycleState G = ask LC_Unconfigured (ge_lifecycleState G)"

definition supportsGesture :: "'c gesture_methods \<Rightarrow> string \<Rightarrow> 'c option \<Rightarrow> bool" where
  "supportsGesture G g = ask False (ge_supportsGesture G g)"

definition startGesture :: "'c gesture_methods \<Rightarrow> string \<Rightarrow> 'c option \<Rightarrow> 'c option \<times> status" where
  "startGesture G g m =
     (if g = [] then (m, InvalidArgument ''gesture id is empty'')
      else delegate ''gesture controller interface is not set'' (ge_startGesture G g) m)"

definition stopGesture :: "'c gesture_methods \<Rightarrow> 'c option \<Rightarrow> 'c option \<times> status" where
  "stopGesture G = delegate ''gesture controller interface is not set'' (ge_stopGesture G)"

record 'c safety_methods =
  sa_lifecycleState :: "'c \<Rightarrow> lifecycle_state"
  sa_safetyState :: "'c \<Rightarrow> safety_state"
  sa_isMotionAllowed :: "'c \<Rightarrow> bool"
  sa_engageStop :: "string \<Rightarrow> 'c \<Rightarrow> 'c \<times> status"
  sa_releaseStop :: "'c \<Rightarrow> 'c \<times> status"

definition Safety_setController :: "'c option \<Rightarrow> 'c option \<Rightarrow> 'c option \<times> status" where
  "Safety_setController = attach ''safety controller interface is null''"

definition Safety_lifecycleState :: "'c safety_methods \<Rightarrow> 'c option \<Rightarrow> lifecycle_state" where
  "Safety_lifecycleState S = ask LC_Unconfigured (sa_lifecycleState S)"

definition safetyState :: "'c safety_methods \<Rightarrow> 'c option \<Rightarrow> safety_state" where
  "safetyState S = ask SS_Unknown (sa_safetyState S)"

definition isMotionAllowed :: "'c safety_methods \<Rightarrow> 'c option \<Rightarrow> bool" where
  "isMotionAllowed S = ask False (sa_isMotionAllowed S)"

definition engageStop :: "'c safety_methods \<Rightarrow> string \<Rightarrow> 'c option \<Rightarrow> 'c option \<times> status" where
  "engageStop S reason m =
     (if reason = [] then (m, InvalidArgument ''safety stop reason is empty'')
      else delegate ''safety controller interface is not set'' (sa_engageStop S reason) m)"

definition releaseStop :: "'c safety_methods \<Rightarrow> 'c option \<Rightarrow> 'c option \<times> status" where
  "releaseStop S = delegate ''safety controller interface is not set'' (sa_releaseStop S)"

record ('c, 'd) diagnostic_methods =
  di_lifecycleState :: "'c \<Rightarrow> lifecycle_state"
  di_collect :: "'c \<Rightarrow> 'd list"
  di_runSelfTest :: "'c \<Rightarrow> 'c \<times> status"

definition Diagnostic_setController :: "'c option \<Rightarrow> 'c option \<Rightarrow> 'c option \<times> status" where
  "Diagnostic_setController = attach ''diagnostic controller interface is null''"

definition Diagnostic_lifecycleState :: "('c, 'd) diagnostic_methods \<Rightarrow> 'c option \<Rightarrow> lifecycle_state" where
  "Diagnostic_lifecycleState D = ask LC_Unconfigured (di_lifecycleState D)"

definition collect :: "('c, 'd) diagnostic_methods \<Rightarrow> 'c option \<Rightarrow> 'd list" where
  "collect D = ask [] (di_collect D)"

definition runSelfTest :: "('c, 'd) diagnostic_methods \<Rightarrow> 'c option \<Rightarrow> 'c option \<times> status" where
  "runSelfTest D = delegate ''diagnostic controller interface is not set'' (di_runSelfTest D)"

record ('c, 'v) configuration_methods =
  cg_contains :: "string \<Rightarrow> 'c \<Rightarrow> bool"
  cg_value :: "string \<Rightarrow> 'c \<Rightarrow> 'v option"
  cg_sourcePath :: "'c \<Rightarrow> string"

definition setConfiguration :: "'c option \<Rightarrow> 'c option \<Rightarrow> 'c option \<times> status" where
  "setConfiguration = attach ''configuration provider is null''"

definition config_contains :: "('c, 'v) configuration_methods \<Rightarrow> string \<Rightarrow> 'c option \<Rightarrow> bool" where
  "config_contains C key = ask False (cg_contains C key)"

definition config_value :: "('c, 'v) configuration_methods \<Rightarrow> string \<Rightarrow> 'c option \<Rightarrow> 'v option" where
  "config_value C key = ask None (cg_value C key)"

definition sourcePath :: "('c, 'v) configuration_methods \<Rightarrow> 'c option \<Rightarrow> string option" where
  "sourcePath C m = map_option (cg_sourcePath C) m"

text \<open>\<open>clearController\<close>, \<open>clear\<close>, and \<open>hasController\<close>, \<open>hasConfiguration\<close>.\<close>

definition clearController :: "'c option \<Rightarrow> 'c option" where
  "clearController m = None"

definition hasController :: "'c option \<Rightarrow> bool" where
  "hasController m = (m \<noteq> None)"

section \<open>Logging\<close>

datatype log_level = LL_Trace | LL_Debug | LL_Info | LL_Warning | LL_Error | LL_Critical

fun log_level_toString :: "log_level \<Rightarrow> string" where
  "log_level_toString LL_Trace = ''trace''"
| "log_level_toString LL_Debug = ''debug''"
| "log_level_toString LL_Info = ''info''"
| "log_level_toString LL_Warning = ''warning''"
| "log_level_toString LL_Error = ''error''"
| "log_level_toString LL_Critical = ''critical''"

fun severityRank :: "log_level \<Rightarrow> int" where
  "severityRank LL_Trace = 0"
| "severityRank LL_Debug = 1"
| "severityRank LL_Info = 2"
| "severityRank LL_Warning = 3"
| "severityRank LL_Error = 4"
| "severityRank LL_Critical = 5"

record log_message =
  lm_level :: log_level
  lm_component :: string
  lm_text :: string
  lm_timestamp :: time_ns

text \<open>The answers of a sink.\<close>

record log_sink =
  lk_accepts :: "log_level \<Rightarrow> bool"
  lk_write :: "log_message \<Rightarrow> status"

record logger_manager =
  lg_sinks :: "log_sink list"
  lg_minimum_level :: log_level

definition LoggerManager_create :: "log_level \<Rightarrow> logger_manager" where
  "LoggerManager_create l = \<lparr>lg_sinks = [], lg_minimum_level = l\<rparr>"

definition addSink :: "log_sink option \<Rightarrow> logger_manager \<Rightarrow> logger_manager \<times> status" where
  "addSink sink m =
     (case sink of
        None \<Rightarrow> (m, InvalidArgument ''log sink is null'')
      | Some k \<Rightarrow> (m\<lparr>lg_sinks := lg_sinks m @ [k]\<rparr>, Status_ok))"

definition clearSinks :: "logger_manager \<Rightarrow> logger_manager" where
  "clearSinks m = m\<lparr>lg_sinks := []\<rparr>"

definition sinkCount :: "logger_manager \<Rightarrow> nat" where
  "sinkCount m = length (lg_sinks m)"

definition setMinimumLevel :: "log_level \<Rightarrow> logger_manager \<Rightarrow> logger_manager" where
  "setMinimumLevel l m = m\<lparr>lg_minimum_level := l\<rparr>"

definition passesMinimumLevelUnlocked :: "log_level \<Rightarrow> logger_manager \<Rightarrow> bool" where
  "passesMinimumLevelUnlocked l m = (severityRank l \<ge> severityRank (lg_minimum_level m))"

text \<open>The loop of \<open>log\<close>: the writes it makes, by the position of the sink, and the first error.\<close>

fun log_loop :: "nat \<Rightarrow> log_message \<Rightarrow> log_sink list \<Rightarrow> status \<Rightarrow> nat list \<times> status" where
  "log_loop i msg [] first_error = ([], first_error)"
| "log_loop i msg (k # ks) first_error =
     (if lk_accepts k (lm_level msg) then
        (case log_loop (Suc i) msg ks
            (if \<not> isOk (lk_write k msg) \<and> isOk first_error then lk_write k msg else first_error) of
           (ws, st) \<Rightarrow> (i # ws, st))
      else log_loop (Suc i) msg ks first_error)"

definition log_to_sinks :: "log_message \<Rightarrow> logger_manager \<Rightarrow> nat list \<times> status" where
  "log_to_sinks msg m =
     (if \<not> passesMinimumLevelUnlocked (lm_level msg) m then ([], Status_ok) else log_loop 0 msg (lg_sinks m) Status_ok)"

definition isEnabled :: "log_level \<Rightarrow> logger_manager \<Rightarrow> bool" where
  "isEnabled l m = (passesMinimumLevelUnlocked l m \<and> list_ex (\<lambda>k. lk_accepts k l) (lg_sinks m))"

section \<open>Sensor factory\<close>

text \<open>A creator is the outcome of its call; \<open>'s\<close> are the sensors, a null pointer \<open>None\<close>.\<close>

type_synonym 's sensor_factory = "(string \<times> sensor_capabilities \<times> 's option outcome) list"

definition SensorFactory_RegisterSensor ::
  "sensor_capabilities \<Rightarrow> 's option outcome option \<Rightarrow> 's sensor_factory \<Rightarrow> 's sensor_factory \<times> status" where
  "SensorFactory_RegisterSensor caps creator f =
     (if \<not> sensor_capabilities_isValid caps then
        (f, InvalidArgument ''sensor capabilities require non-empty sensor id and name'')
      else
        (case creator of
           None \<Rightarrow> (f, InvalidArgument ''sensor creator is empty'')
         | Some c \<Rightarrow>
             if map_of f (sc_sensorId caps) \<noteq> None then (f, FailedPrecondition ''sensor id is already registered'')
             else (map_emplace (sc_sensorId caps) (caps, c) f, Status_ok)))"

definition SensorFactory_UnregisterSensor :: "string \<Rightarrow> 's sensor_factory \<Rightarrow> 's sensor_factory \<times> status" where
  "SensorFactory_UnregisterSensor i f =
     (if i = [] then (f, InvalidArgument ''sensor id is empty'')
      else if map_of f i = None then (f, Status_error kUnavailable ''sensor id is not registered'')
      else (AList.delete i f, Status_ok))"

definition CreateSensor :: "string \<Rightarrow> 's sensor_factory \<Rightarrow> status \<times> 's option" where
  "CreateSensor i f =
     (if i = [] then (InvalidArgument ''sensor id is empty'', None)
      else
        (case map_of f i of
           None \<Rightarrow> (Status_error kUnavailable ''sensor id is not registered'', None)
         | Some (_, creator) \<Rightarrow>
             (case creator of
                Returned None \<Rightarrow> (InternalError ''sensor creator returned null'', None)
              | Returned (Some s) \<Rightarrow> (Status_ok, Some s)
              | _ \<Rightarrow> (InternalError ''sensor creator threw an exception'', None))))"

definition EnumerateSensors :: "'s sensor_factory \<Rightarrow> sensor_capabilities list" where
  "EnumerateSensors f = map (\<lambda>(_, caps, _). caps) f"

section \<open>The Unitree plugin\<close>

record unitree_plugin =
  up_initialized :: bool
  up_started :: bool

definition UnitreeG1Plugin_create :: unitree_plugin where
  "UnitreeG1Plugin_create = \<lparr>up_initialized = False, up_started = False\<rparr>"

definition UnitreeG1Plugin_CreateMetadata :: plugin_metadata where
  "UnitreeG1Plugin_CreateMetadata = \<lparr>plugin_id = ''com.unitree.g1'', plugin_name = ''Unitree G1 Plugin'',
     plugin_vendor = ''Unitree'',
     plugin_description = ''Unitree G1 plugin using the humanoid-core Unitree SDK abstraction'',
     plugin_version = apiVersion,
     plugin_compatibility = \<lparr>minimum_framework_version = apiVersion, maximum_framework_version = apiVersion\<rparr>,
     plugin_manifest_path = ''plugins/unitree/g1/plugin_manifest.json''\<rparr>"

text \<open>\<open>Initialize\<close> with the registry of the host as its registrar.\<close>

definition UnitreeG1Plugin_Initialize ::
  "plugin_registry \<Rightarrow> unitree_plugin \<Rightarrow> plugin_registry \<times> unitree_plugin \<times> status" where
  "UnitreeG1Plugin_Initialize reg p =
     (let md = UnitreeG1Plugin_CreateMetadata;
          finish = (\<lambda>(reg', st). if \<not> isOk st then (reg', p, st)
            else (reg', p\<lparr>up_initialized := True, up_started := False\<rparr>, Status_ok)) in
      if up_initialized p then (reg, p, Status_ok)
      else
        (case SetLifecycleState (plugin_id md) kInitialized reg of
           (reg1, st1) \<Rightarrow>
             if isOk st1 then finish (reg1, st1)
             else
               (case PluginRegistry_RegisterPlugin md reg1 of
                  (reg2, st2) \<Rightarrow>
                    if \<not> isOk st2 then (reg2, p, st2)
                    else finish (SetLifecycleState (plugin_id md) kInitialized reg2))))"

definition UnitreeG1Plugin_Start :: "unitree_plugin \<Rightarrow> unitree_plugin \<times> status" where
  "UnitreeG1Plugin_Start p =
     (if \<not> up_initialized p then (p, FailedPrecondition ''Unitree G1 plugin is not initialized'')
      else (p\<lparr>up_started := True\<rparr>, Status_ok))"

definition UnitreeG1Plugin_Stop :: "unitree_plugin \<Rightarrow> unitree_plugin \<times> status" where
  "UnitreeG1Plugin_Stop p = (p\<lparr>up_started := False\<rparr>, Status_ok)"

definition UnitreeG1Plugin_Shutdown :: "unitree_plugin \<Rightarrow> unitree_plugin \<times> status" where
  "UnitreeG1Plugin_Shutdown p = (p\<lparr>up_started := False, up_initialized := False\<rparr>, Status_ok)"

section \<open>The contract of a manager\<close>

text \<open>
  What the managers share, as an interface: a pointer that \<open>set\<close> replaces unless it is given null, \<open>clear\<close> resets, and
  through which \<open>call\<close> reaches the controller. \<open>held\<close> is the controller of a manager, \<open>rest\<close> what a manager has besides.
\<close>

locale controller_slot =
  fixes set :: "'c option \<Rightarrow> 'm \<Rightarrow> 'm \<times> status"
    and clear :: "'m \<Rightarrow> 'm"
    and call :: "('c \<Rightarrow> 'c \<times> status) \<Rightarrow> 'm \<Rightarrow> 'm \<times> status"
    and held :: "'m \<Rightarrow> 'c option"
    and rest :: "'m \<Rightarrow> 'x"
  assumes set_null: "fst (set None m) = m" "\<not> isOk (snd (set None m))"
    and set_held: "isOk (snd (set (Some c) m))" "held (fst (set (Some c) m)) = Some c" "rest (fst (set (Some c) m)) = rest m"
    and clear_held: "held (clear m) = None" "rest (clear m) = rest m"
    and call_missing: "held m = None \<Longrightarrow> fst (call f m) = m \<and> \<not> isOk (snd (call f m))"
    and call_held: "held m = Some c \<Longrightarrow> held (fst (call f m)) = Some (fst (f c)) \<and> snd (call f m) = snd (f c)"
    and call_rest: "rest (fst (call f m)) = rest m"
begin

text \<open>A sequence of calls through the manager does to the controller what the calls do, and answers what they answer.\<close>

lemma calls_held: "held m = Some c \<Longrightarrow> held (fold (\<lambda>f m. fst (call f m)) fs m) = Some (fold (\<lambda>f c. fst (f c)) fs c)"
  by (induction fs arbitrary: m c) (simp_all add: call_held)

lemma calls_missing: "held m = None \<Longrightarrow> fold (\<lambda>f m. fst (call f m)) fs m = m"
  by (induction fs) (simp_all add: call_missing)

lemma calls_rest: "rest (fold (\<lambda>f m. fst (call f m)) fs m) = rest m"
  by (induction fs arbitrary: m) (simp_all add: call_rest)

lemma call_after_clear: "fst (call f (clear m)) = clear m \<and> \<not> isOk (snd (call f (clear m)))"
  using call_missing [OF clear_held(1)] .

lemma null_keeps: "held (fst (set None m)) = held m"
  by (simp add: set_null)

end

interpretation slot: controller_slot "attach null_message" clearController "delegate missing" "\<lambda>m. m" "\<lambda>_. ()" for null_message missing
  by unfold_locales (auto simp: attach_def delegate_def clearController_def split: prod.splits)

interpretation robot_slot: controller_slot setRobot clearRobot robot_call rmg_robot rmg_adapter
  by unfold_locales
    (auto simp: setRobot_def clearRobot_def robot_call_def on_robot_def attach_def delegate_def split: prod.splits option.splits)

interpretation adapter_slot: controller_slot setAdapter clearAdapter adapter_call rmg_adapter rmg_robot
  by unfold_locales
    (auto simp: setAdapter_def clearAdapter_def adapter_call_def on_adapter_def attach_def delegate_def split: prod.splits option.splits)

section \<open>Fail-safe answers\<close>

text \<open>
  Without a controller nothing is allowed, supported or done, in whatever way the manager came to have none; with one,
  the managers answer what it answers.
\<close>

lemma no_controller_safe:
  "\<not> isMotionAllowed S (clearController m)" "safetyState S (clearController m) = SS_Unknown"
  "\<not> supportsGesture G g (clearController m)" "motionMode M (clearController m) = None"
  "\<not> isOk (snd (engageStop S reason (clearController m)))" "\<not> isOk (snd (stopMotion M (clearController m)))"
  by (simp_all add: isMotionAllowed_def safetyState_def supportsGesture_def motionMode_def ask_def clearController_def
      engageStop_def stopMotion_def delegate_def)

lemma engaged_stop_answers:
  "engageStop S reason (Some c) =
     (if reason = [] then (Some c, InvalidArgument ''safety stop reason is empty'')
      else (Some (fst (sa_engageStop S reason c)), snd (sa_engageStop S reason c)))"
  by (simp add: engageStop_def delegate_def split: prod.splits)

lemma robot_and_adapter_apart:
  "rmg_adapter (fold (\<lambda>f m. fst (robot_call f m)) fs m) = rmg_adapter m"
  "rmg_robot (fold (\<lambda>f m. fst (adapter_call f m)) gs m) = rmg_robot m"
  by (rule robot_slot.calls_rest) (rule adapter_slot.calls_rest)

section \<open>Logging\<close>

lemma log_loop_exact:
  "log_loop i msg ks e =
     (map fst (filter (\<lambda>(_, k). lk_accepts k (lm_level msg)) (zip [i..<i + length ks] ks)),
      if \<not> isOk e then e
      else (case find (\<lambda>st. \<not> isOk st) (map (\<lambda>k. lk_write k msg) (filter (\<lambda>k. lk_accepts k (lm_level msg)) ks)) of
              None \<Rightarrow> e | Some st \<Rightarrow> st))"
proof (induction ks arbitrary: i e)
  case (Cons k ks)
  have "zip [i..<i + length (k # ks)] (k # ks) = (i, k) # zip [Suc i..<Suc i + length ks] ks"
    by (simp add: upt_conv_Cons del: upt_Suc)
  then show ?case by (simp add: Cons.IH split: option.splits)
qed simp

lemma log_writes_iff_enabled: "fst (log_to_sinks msg m) \<noteq> [] \<longleftrightarrow> isEnabled (lm_level msg) m"
proof -
  have "map fst (filter (\<lambda>(_, k). P k) (zip [i..<i + length ks] ks)) \<noteq> [] \<longleftrightarrow> list_ex P ks" for P :: "log_sink \<Rightarrow> bool" and i ks
    by (force simp: filter_empty_conv list_ex_iff in_set_zip in_set_conv_nth)
  from this [of "\<lambda>k. lk_accepts k (lm_level msg)" 0 "lg_sinks m"] show ?thesis
    by (simp add: log_to_sinks_def isEnabled_def log_loop_exact)
qed

section \<open>Registration of sensors and of the plugin\<close>

lemma sensor_factory_roundtrip:
  assumes "SensorFactory_RegisterSensor caps (Some (Returned (Some s))) f = (f', Status_ok)"
  shows "CreateSensor (sc_sensorId caps) f' = (Status_ok, Some s)"
    and "i \<noteq> sc_sensorId caps \<Longrightarrow> CreateSensor i f' = CreateSensor i f"
proof -
  have "map_of f' = (map_of f)(sc_sensorId caps \<mapsto> (caps, Returned (Some s)))" "sc_sensorId caps \<noteq> []"
    using assms map_emplace_lookup [of "sc_sensorId caps" f]
    by (auto simp: SensorFactory_RegisterSensor_def sensor_capabilities_isValid_def map_of_eq_None_iff split: if_splits)
  then show "CreateSensor (sc_sensorId caps) f' = (Status_ok, Some s)"
    and "i \<noteq> sc_sensorId caps \<Longrightarrow> CreateSensor i f' = CreateSensor i f"
    by (simp_all add: CreateSensor_def)
qed

lemma unitree_plugin_initializes:
  "\<exists>reg'. UnitreeG1Plugin_Initialize reg p =
       (reg', p\<lparr>up_initialized := True, up_started := up_initialized p \<and> up_started p\<rparr>, Status_ok) \<and>
     (up_initialized p \<or> PluginRegistry_LifecycleState ''com.unitree.g1'' reg' = Some kInitialized)"
proof (cases "up_initialized p")
  case True
  then show ?thesis by (cases p) (simp add: UnitreeG1Plugin_Initialize_def Let_def)
next
  case False
  let ?md = UnitreeG1Plugin_CreateMetadata
  have valid: "metadata_IsValid ?md" "metadata_IsCompatibleWith apiVersion ?md" "plugin_id ?md = ''com.unitree.g1''"
    by (simp_all add: UnitreeG1Plugin_CreateMetadata_def metadata_IsValid_def compatibility_IsValid_def Compare_def
        metadata_IsCompatibleWith_def compatibility_IsCompatibleWith_def)
  show ?thesis
  proof (cases "map_of reg ''com.unitree.g1''")
    case None
    with False valid show ?thesis
      by (simp add: UnitreeG1Plugin_Initialize_def Let_def SetLifecycleState_def PluginRegistry_RegisterPlugin_def
          um_emplace_simps PluginRegistry_LifecycleState_def)
  next
    case (Some e)
    with False valid show ?thesis
      by (cases e) (simp add: UnitreeG1Plugin_Initialize_def Let_def SetLifecycleState_def PluginRegistry_LifecycleState_def)
  qed
qed

end
