(* ===== verification/Spec2Isabelle.thy ===== *)
theory Spec2Isabelle
  imports Command_Dispatcher_Props Command_Pipeline_Props Resource_Manager Blackboard
    Runtime_Scheduler_Props Tree_Runtime Mission_Parser_Props Planning_Pipeline Planner_Factory
    Plugin_Factory Sensor_Manager_Props Model_Manager Unitree_Plugin_Props Cloud_Props Ros2_Props
    Managers
begin

text \<open>
  A model of \<^emph>\<open>humanoid-core\<close>, a C++ control framework for humanoid robots, with the theorems that make it correct.

  \<^bold>\<open>The program.\<close> Applications build \<open>Command\<close> values. A \<open>CommandDispatcher\<close> validates each command,
  asks the \<open>SafetyValidator\<close> whether it may run in the present state of the robot (kept by the
  \<open>RobotStateManager\<close>) and hands it to the robot adapter, either on the calling thread or through a
  \<open>CommandQueue\<close> served by worker threads. The \<open>CommandExecutionPipeline\<close> is a second, richer queue
  with execution records, metrics, subscriptions and a bounded history. The runtime layer offers
  \<open>ResourceManager\<close> (shared and exclusive leases), \<open>CancellationSource\<close> and \<open>CancellationToken\<close>
  (cooperative cancellation with parents and children), \<open>Blackboard\<close> (a typed store),
  \<open>ExecutionContext\<close> (state, metadata and cancellation of one execution) and \<open>RuntimeScheduler\<close> (jobs with
  priorities, run in parallel or alone, that can be paused and stopped). Behavior trees are built by
  code or loaded from JSON and YAML texts and run as jobs of the scheduler; their leaves act through
  callbacks, the dispatcher and mission executors. A mission is a list of steps (commands, waits and delays with
  conditions, loops, retries and timeouts) that a \<open>MissionExecutor\<close> runs on a worker thread, step by step,
  through the dispatcher. A planner turns goals into missions and trees, and a planning pipeline hands them to the
  runtime. Planners and plugins come from factories that track their instances. Perception has a \<open>SensorManager\<close>, a
  \<open>PerceptionPipeline\<close> (a graph of stages), a registry of inference engines and models, and a frame synchronizer. The
  robot itself is reached through adapters: one made by a factory, one that belongs to a plugin, both over wrappers of
  the vendor's SDK with a thread that watches the link. A telemetry service publishes the robot's state to listeners; a
  ROS 2 bridge listens to it and submits commands to the dispatcher; a cloud platform manages fleets, updates and access.

  \<^bold>\<open>Theories and source files.\<close>
  \<^item> \<open>Prelude\<close>: named collections, type abbreviations (64-bit identifiers and counters as words; clock values and durations
    as integers, with \<open>i64_wrap\<close> where the code multiplies or converts a count of ticks), lemmas on lists, finite maps and multisets that several components use.
  \<^item> \<open>Command_Model\<close>: \<open>include/humanoid/core/Command*.h\<close>; the record \<open>command\<close>, its status, type,
    priority and result, deadline arithmetic (nanoseconds in 64 bits, wrapping as the casts do).
  \<^item> \<open>Robot_State\<close>: \<open>core/include/humanoid/core/RobotState.hpp\<close> and
    \<open>src/core/RobotStateManager.cpp\<close>; the locale \<open>state_register\<close> is what the dispatcher relies on.
  \<^item> \<open>Safety_Validator\<close>: \<open>src/core/SafetyValidator.cpp\<close>; \<open>Validate\<close> check by check and its
    specification \<open>safety_spec\<close>.
  \<^item> \<open>Command_Queue\<close>, \<open>Command_Queue_Inv\<close>, \<open>Command_Queue_Props\<close>: \<open>src/core/CommandQueue.cpp\<close>.
  \<^item> \<open>Command_Dispatcher\<close>, \<open>Command_Dispatcher_Props\<close>: \<open>src/core/CommandDispatcher.cpp\<close>; the locale
    \<open>outstanding_work\<close> states what the dispatcher needs of its queue and is interpreted on the queue.
  \<^item> \<open>Command_Pipeline\<close>, \<open>Command_Pipeline_Inv\<close>, \<open>Command_Pipeline_Props\<close>:
    \<open>src/core/CommandExecutionPipeline.cpp\<close>.
  \<^item> \<open>Resource_Manager\<close>, \<open>Cooperative_Cancellation\<close>, \<open>Blackboard\<close>: the files of these names under
    \<open>src/runtime\<close>; the locale \<open>map_store\<close> is the contract of the blackboard.
  \<^item> \<open>Execution_Context\<close>: \<open>src/runtime/ExecutionContext.cpp\<close>, over the heap of cancellation states.
  \<^item> \<open>Runtime_Scheduler\<close>, \<open>Runtime_Scheduler_Inv\<close>, \<open>Runtime_Scheduler_Steps\<close>,
    \<open>Runtime_Scheduler_Workers\<close>, \<open>Runtime_Scheduler_Props\<close>: \<open>src/runtime/RuntimeScheduler.cpp\<close>; the
    operations, the invariant and its preservation by client and worker steps, the properties.
  \<^item> \<open>Behavior_Tree_Nodes\<close>, \<open>Behavior_Tree\<close>: \<open>src/bt/*Node.cpp\<close>, \<open>src/bt/BTContext.cpp\<close>,
    \<open>src/bt/BehaviorTree.cpp\<close>; leaves, then composites, decorators and the tree object. A node is a
    value of a datatype in the shape of the class hierarchy; its operations answer an outcome (a
    status or an exception), the new node and the new world.
  \<^item> \<open>Behavior_Tree_Inv\<close>, \<open>Behavior_Tree_Props\<close>: what the operations keep (the locale \<open>child_relation\<close>
    carries a relation on children through the loops of the composites) and the properties.
  \<^item> \<open>Json_Parser\<close>, \<open>Json_Printer\<close>, \<open>Tree_Parser\<close>, \<open>Tree_Parser_Props\<close>: \<open>src/bt/TreeParser.cpp\<close>, with a
    printer as the reference of the round trip.
  \<^item> \<open>Tree_Loader\<close>: \<open>src/bt/BehaviorTreeFactory.cpp\<close>, \<open>src/bt/TreeValidator.cpp\<close>, \<open>src/bt/TreeLoader.cpp\<close>.
  \<^item> \<open>Tree_Runtime\<close>: \<open>src/bt/BehaviorTreeRuntime.cpp\<close>, over the resource manager and the scheduler.

  \<^item> \<open>Mission_Model\<close>: \<open>include/humanoid/mission\<close>, \<open>src/mission/ConditionEvaluator.cpp\<close>,
    \<open>src/mission/MissionValidator.cpp\<close>.
  \<^item> \<open>Mission_Executor\<close>, \<open>Mission_Executor_Inv\<close>, \<open>Mission_Executor_Props\<close>: \<open>src/mission/MissionExecutor.cpp\<close>; the
    machine of one step (\<open>flow_step\<close>), the worker (\<open>mx_worker_step\<close>), the calls of clients, the measure and invariant,
    the properties.
  \<^item> \<open>Mission_Parser\<close>, \<open>Mission_Loader\<close>: \<open>src/mission/MissionParser.cpp\<close>, \<open>src/mission/MissionLoader.cpp\<close>; every loop over
    YAML lines is an instance of \<open>yaml_loop\<close>. \<open>Mission_Printer\<close>, \<open>Mission_Parser_Props\<close>: a printer of missions as the
    reference of the round trip, and the properties.
  \<^item> \<open>Common_Status\<close>: \<open>common/src/Status.cpp\<close>. \<open>Planner\<close>, \<open>Planner_Props\<close>: \<open>src/planner/RuleBasedPlanner.cpp\<close>;
    \<open>Planning_Pipeline\<close>: \<open>src/planner/PlanningPipeline.cpp\<close>, over the locale \<open>planner_service\<close>.
  \<^item> \<open>Instance_Tracking\<close>: the locale \<open>tracking_factory\<close>, what a factory that counts its instances promises.
    \<open>Planner_Factory\<close>, \<open>Plugin_Factory\<close>: the factories and registries of \<open>src/planner\<close> and \<open>plugins/src\<close>, which interpret it.
  \<^item> \<open>Perception_Model\<close>, \<open>Perception_Pipeline\<close>, \<open>Perception_Order\<close>: values and the stage graph of \<open>src/perception\<close>;
    \<open>Sensor_Manager\<close>, \<open>Sensor_Manager_Props\<close>: \<open>src/perception/SensorManager.cpp\<close>; \<open>Model_Manager\<close>:
    \<open>ModelManager.cpp\<close> and \<open>SensorFusion.cpp\<close>.
  \<^item> \<open>Unitree_Sdk\<close>: the locomotion adapter and the conversions of \<open>plugins/unitree/sdk\<close>; \<open>Unitree_Wrapper\<close>:
    \<open>SdkWrapper.cpp\<close>; \<open>Unitree_Adapter\<close>, \<open>Unitree_Props\<close>, \<open>Unitree_Safety\<close>: \<open>src/sdk/LocoClientWrapper.cpp\<close> and
    \<open>src/adapters/unitree/UnitreeG1Adapter.cpp\<close>; \<open>Unitree_Plugin\<close>, \<open>Unitree_Plugin_Props\<close>: the hand and audio
    adapters and \<open>plugins/unitree/g1/src/UnitreeG1Adapter.cpp\<close>. The answers of the vendor's clients are functions of
    the calls made before, universally quantified.
  \<^item> \<open>Cloud_Platform\<close>, \<open>Cloud_Props\<close>: \<open>cloud/\<close>, with an abstract fleet as its specification.
  \<^item> \<open>Robot_Services\<close>: \<open>src/services/TelemetryService.cpp\<close>, \<open>src/factory/RobotFactoryRegistry.cpp\<close> and the Unitree
    factory. \<open>Ros2_Bridge\<close>, \<open>Ros2_Props\<close>: \<open>ros2/bridge/ROS2Bridge.cpp\<close>, over the dispatcher and the telemetry service.
  \<^item> \<open>Managers\<close>: the managers of \<open>robot\<close>, \<open>motion\<close>, \<open>gesture\<close>, \<open>safety\<close>, \<open>diagnostics\<close>, \<open>configuration\<close> and
    \<open>logging\<close>, over the locale \<open>controller_slot\<close>, the sensor factory and the life cycle of the Unitree plugin.

  \<^bold>\<open>Concurrency.\<close> Each critical section of the code (the extent of one lock) is one operation on an
  explicit state record; a thread between two critical sections is represented by a program
  counter (\<open>worker\<close>, \<open>shutdown_phase\<close>, \<open>pl_worker\<close>, \<open>flow\<close>, \<open>mx_worker\<close>) or by an entry in a list of pending actions.
  The relations \<open>cq_step\<close>, \<open>disp_step\<close>, \<open>pl_step\<close>, \<open>rm_step\<close>, \<open>rs_step\<close>, \<open>mx_reach\<close>, \<open>telemetry_step\<close>, \<open>bridge_step\<close>
  and those of the factories, the sensors and the adapters let any enabled operation happen next, so a statement about every run is one about every interleaving. Clock readings, executor
  results and thrown exceptions are arguments of the operations, universally quantified in the
  theorems. Objects shared by pointer (queue tasks, executions, cancellation states) live in a
  store indexed by addresses. A tick of a behavior tree runs on one thread; what others do meanwhile is
  the function \<open>env_interfere\<close> of its environment, applied before each read of the shared context, and
  the children of a parallel node share only that world.

  \<^bold>\<open>Recursion and fuel.\<close> Ticks recurse on the tree. The JSON parser has fuel for two calls per
  character and the YAML parser for one call per line, shown to be enough for every text
  (\<open>json_Parse_fuel\<close>, \<open>yaml_fuel\<close>); the loops of the mission parser have fuel for one turn per line
  (\<open>consumes_loop\<close>). The loop that ticks a tree in a job need not end; it has fuel, more
  fuel does not change its result (\<open>tick_loop_mono\<close>), and its theorem is about the calls that return.
  \<open>std::from_chars\<close> on doubles is a parameter of the parsers, and so is the conversion of a double to a float.

  \<^bold>\<open>What is shown.\<close> Safety: nothing reaches the adapter unless all checks hold, and an emergency
  stop blocks all but stop commands. Queue and pipeline: bounds, selection by priority then age,
  no future lost or set twice, statistics that account for every submission, termination of the
  shutdown, exact pruning of the history. Dispatcher: identifiers in flight once, a completed
  shutdown is quiet, and what a shutdown called on the queue's own worker leaves open.
  Resources: mutual exclusion, no overtaking of writers, progress, release once. Cancellation:
  exactly once, reaching all descendants. Blackboard: refinement of a partial map. Scheduler: a
  sequential job runs alone, the best startable job is started, no future is lost, snapshots are exact,
  \<open>records_.at\<close> never throws. Behavior trees: configuration and counters stay well-formed whatever
  the nodes throw (the count of a repetition stays below its limit where no \<open>Reset\<close> throws), a reset
  gives the constructed tree back, selectors are dual to sequences, cancelled contexts abort without
  running children, a shutdown is final, retries are bounded; both text formats are read back and
  agree, parsing always returns, loading succeeds exactly for the documents that fit the factory; a
  job reports how its tree ended. Missions: a completed mission ran every enabled step in order with success, the
  commands it dispatches are bounded and ordered, a pause or cancellation stops the dispatch of the worker and of
  direct calls, a cancellation in time wins, the worker ends, valid missions start; mission texts are read back (numbers that are doubles) and loaded missions start.
  Planning: the best rule is selected, plans are executable, only validated plans are accepted. Factories: an instance in
  use keeps its type registered. Perception: stages are ordered by their dependencies, sensors are accounted for until
  they are shut down, frames are matched exactly. Adapters: a command makes the calls it names or none and succeeds
  exactly when they did; motions are sent only over a live link and within the limits (the factory's adapter). Telemetry
  and bridge: one worker, fresh subscription identifiers also after the counter has wrapped around, no subscription
  leaks, and the bridge adds nothing to what the dispatcher lets through. Cloud: refinement of the abstract fleet,
  authorization by granted roles only. The defects and divergences from the documentation that the model reaches are
  exhibited as theorems or lemmas: among them an emergency stop that the call does not report and an answered heartbeat undoes, an adapter without
  velocity limits, a zero velocity that the ROS 2 bridge cannot submit, and the planner's critical stop, which the
  dispatcher refuses.

  \<^bold>\<open>Not modelled.\<close> Blocking itself (a waiting thread is a list entry whose wake-up is a step; the join in
  \<open>TelemetryService::Stop\<close> follows its critical section and is left to the step that ends the thread),
  memory reclamation, failures of memory allocation and the branches that only they reach (the \<open>catch\<close> in
  \<open>CommandQueue::Enqueue\<close>, \<open>Unable to track command\<close> in \<open>CommandDispatcher::Execute\<close>), a \<open>Shutdown\<close> of the
  dispatcher on the queue's worker that other threads interleave with (\<open>disp_Shutdown_on_worker\<close> is the whole call), the texts of exceptions thrown by the standard library, thread creation
  failures except in the mission executor, the SDK wrapper and the telemetry service, file system access, the wall clock and classes that only store values (listed in the manifest),
  the LLM provider interface, which has no implementation, log messages of the adapters, and the vendor's SDK, ROS 2 and
  the network, which are not part of the repository.
\<close>

end
